(* ===== verification/Eco_Prelude.thy ===== *)
theory Eco_Prelude
  imports Main "HOL-Library.AList" "HOL-Library.Char_ord" "HOL-Library.List_Lexorder"
    "HOL-Library.Product_Lexorder" "HOL-Library.Sublist"
begin

text \<open>
  Shared vocabulary of the development.

  \<^item> JSON-shaped values (\<open>json\<close>), the exceptions the code raises (\<open>py_error\<close>) and the result
    type of fallible code (\<open>'a result\<close>, \<open>Inl\<close> for a raise);
  \<^item> Python dictionaries as association lists in insertion order (\<open>dict_set\<close>, \<open>dict_pop\<close>,
    \<open>dict_of_pairs\<close>, \<open>sorted_items\<close>);
  \<^item> the regular expressions the contracts use, as character predicates;
  \<^item> reachability of a step relation with the interface \<open>inv_system\<close> (an invariant that
    holds at the start and is kept by each step holds in each reachable state);
  \<^item> hash-linked event logs with the interface \<open>hash_log\<close> (two logs with the same head are
    the same log, as long as the digest does not collide on their events);
  \<^item> accumulating meters with the interface \<open>metered\<close> (a component that only admits work
    within its limits never exceeds them).

  Strings are the UTF-8 bytes of the Python strings.
\<close>

section \<open>Values, errors and results\<close>

datatype json =
    JNull
  | JBool bool
  | JInt int
  | is_JStr: JStr (the_str: string)
  | JList "json list"
  | JObj "(string \<times> json) list"

type_synonym obj = "(string \<times> json) list"

datatype py_error =
    RuntimeStateError string
  | RuntimeBudgetError string
  | RuntimePolicyError string
  | LoopContractError string
  | LoopEngineError string
  | RoutingError string
  | TelemetryError string
  | PromotionError string
  | EvalError string
  | TeamRuntimeError string
  | RuntimeStoreError string
  | SqliteIntegrityError
  | ContractValidationError
  | PyValueError
  | PyTypeError
  | PyKeyError
  | PyAttributeError
  | PyAssertionError

type_synonym 'a result = "py_error + 'a"

fun bindE :: "'a result \<Rightarrow> ('a \<Rightarrow> 'b result) \<Rightarrow> 'b result" where
  "bindE (Inl e) f = Inl e"
| "bindE (Inr x) f = f x"

fun guardE :: "bool \<Rightarrow> py_error \<Rightarrow> unit result" where
  "guardE c e = (if c then Inr () else Inl e)"

text \<open>The call returned, and its result satisfies \<open>P\<close> (used to evaluate concrete runs).\<close>

fun returns :: "'a result \<Rightarrow> ('a \<Rightarrow> bool) \<Rightarrow> bool" where
  "returns (Inl _) P = False"
| "returns (Inr x) P = P x"

text \<open>Python's \<open>dict.get\<close>: a missing key reads as \<open>None\<close>.\<close>

definition jget :: "obj \<Rightarrow> string \<Rightarrow> json" where
  "jget d k = (case map_of d k of None \<Rightarrow> JNull | Some v \<Rightarrow> v)"

definition json_opt :: "string option \<Rightarrow> json" where
  "json_opt x = (case x of None \<Rightarrow> JNull | Some s \<Rightarrow> JStr s)"

text \<open>Lists and dictionaries cannot be members of a Python set: testing them raises.\<close>

fun hashable :: "json \<Rightarrow> bool" where
  "hashable (JList _) = False"
| "hashable (JObj _) = False"
| "hashable _ = True"

text \<open>
  Code that changes a world \<open>'w\<close> and may raise: the world is returned in both cases, because a
  raise does not undo what was done before it.
\<close>

type_synonym ('a, 'w) act = "'w \<Rightarrow> 'a result \<times> 'w"

definition returnA :: "'a \<Rightarrow> ('a, 'w) act" where
  "returnA x = (\<lambda>w. (Inr x, w))"

definition raiseA :: "py_error \<Rightarrow> ('a, 'w) act" where
  "raiseA e = (\<lambda>w. (Inl e, w))"

definition bindA :: "('a, 'w) act \<Rightarrow> ('a \<Rightarrow> ('b, 'w) act) \<Rightarrow> ('b, 'w) act" where
  "bindA m f = (\<lambda>w. case m w of (Inl e, w') \<Rightarrow> (Inl e, w') | (Inr x, w') \<Rightarrow> f x w')"

section \<open>Dictionaries in insertion order\<close>

definition dict_set :: "'k \<Rightarrow> 'v \<Rightarrow> ('k \<times> 'v) list \<Rightarrow> ('k \<times> 'v) list" where
  "dict_set k v d = AList.update k v d"

definition dict_pop :: "'k \<Rightarrow> ('k \<times> 'v) list \<Rightarrow> ('k \<times> 'v) list" where
  "dict_pop k d = AList.delete k d"

definition dict_of_pairs :: "('k \<times> 'v) list \<Rightarrow> ('k \<times> 'v) list" where
  "dict_of_pairs xs = fold (\<lambda>(k, v) d. dict_set k v d) xs []"

definition sorted_items :: "('k::linorder \<times> 'v) list \<Rightarrow> ('k \<times> 'v) list" where
  "sorted_items d = sort_key fst d"

definition dict_keys :: "('k \<times> 'v) list \<Rightarrow> 'k set" where
  "dict_keys d = fst ` set d"

section \<open>Patterns of the contracts\<close>

definition is_lower :: "char \<Rightarrow> bool" where
  "is_lower c = (CHR ''a'' \<le> c \<and> c \<le> CHR ''z'')"

definition is_upper :: "char \<Rightarrow> bool" where
  "is_upper c = (CHR ''A'' \<le> c \<and> c \<le> CHR ''Z'')"

definition is_digit :: "char \<Rightarrow> bool" where
  "is_digit c = (CHR ''0'' \<le> c \<and> c \<le> CHR ''9'')"

definition is_hex :: "char \<Rightarrow> bool" where
  "is_hex c = (is_digit c \<or> (CHR ''a'' \<le> c \<and> c \<le> CHR ''f''))"

text \<open>\<open>^ECO_[A-Z0-9_]{1,95}$\<close> and \<open>^[a-z][a-z0-9-]{0,63}$\<close> under \<open>fullmatch\<close>.\<close>

definition eco_code :: "string \<Rightarrow> bool" where
  "eco_code s = (take 4 s = ''ECO_'' \<and> 5 \<le> length s \<and> length s \<le> 99
     \<and> list_all (\<lambda>c. is_upper c \<or> is_digit c \<or> c = CHR ''_'') (drop 4 s))"

definition slug_id :: "string \<Rightarrow> bool" where
  "slug_id s = (s \<noteq> [] \<and> is_lower (hd s) \<and> length s \<le> 64
     \<and> list_all (\<lambda>c. is_lower c \<or> is_digit c \<or> c = CHR ''-'') (tl s))"

text \<open>\<open>^[0-9a-f]{64}$\<close> under \<open>fullmatch\<close>.\<close>

definition sha256_text :: "string \<Rightarrow> bool" where
  "sha256_text s = (length s = 64 \<and> list_all is_hex s)"

text \<open>\<open>^[A-Za-z0-9][A-Za-z0-9._:-]{0,127}$\<close> under \<open>fullmatch\<close>.\<close>

definition is_alnum :: "char \<Rightarrow> bool" where
  "is_alnum c = (is_lower c \<or> is_upper c \<or> is_digit c)"

definition safe_identifier :: "string \<Rightarrow> bool" where
  "safe_identifier s = (s \<noteq> [] \<and> is_alnum (hd s) \<and> length s \<le> 128
     \<and> list_all (\<lambda>c. is_alnum c \<or> c \<in> set ''._:-'') (tl s))"

text \<open>\<open>len\<close> of a Python string counts code points: of the UTF-8 bytes, those that do not continue one.\<close>

definition code_points :: "string \<Rightarrow> nat" where
  "code_points s = length (filter (\<lambda>c. \<not> (128 \<le> (of_char c :: nat) \<and> (of_char c :: nat) < 192)) s)"

section \<open>Steps, reachable states and invariants\<close>

inductive reach :: "('s \<Rightarrow> bool) \<Rightarrow> ('s \<Rightarrow> 's \<Rightarrow> bool) \<Rightarrow> 's \<Rightarrow> bool"
  for start :: "'s \<Rightarrow> bool" and step :: "'s \<Rightarrow> 's \<Rightarrow> bool" where
  reach_start: "start s \<Longrightarrow> reach start step s"
| reach_step: "reach start step s \<Longrightarrow> step s t \<Longrightarrow> reach start step t"

locale inv_system =
  fixes start :: "'s \<Rightarrow> bool" and step :: "'s \<Rightarrow> 's \<Rightarrow> bool" and inv :: "'s \<Rightarrow> bool"
  assumes start_inv: "start s \<Longrightarrow> inv s"
    and step_inv: "inv s \<Longrightarrow> step s t \<Longrightarrow> inv t"
begin

lemma reach_inv: "reach start step s \<Longrightarrow> inv s"
  by (induction rule: reach.induct) (auto intro: start_inv step_inv)

lemma steps_inv: "step\<^sup>*\<^sup>* s t \<Longrightarrow> inv s \<Longrightarrow> inv t"
  by (induction rule: rtranclp_induct) (auto intro: step_inv)

end

section \<open>Actions that keep an invariant\<close>

text \<open>An action is steady when it keeps \<open>ok\<close> and moves the world along \<open>rel\<close>, whether it returns or raises.\<close>

locale act_logic =
  fixes ok :: "'w \<Rightarrow> bool" and rel :: "'w \<Rightarrow> 'w \<Rightarrow> bool"
  assumes rel_refl: "rel w w" and rel_trans: "rel u v \<Longrightarrow> rel v w \<Longrightarrow> rel u w"
begin

definition steady :: "('a, 'w) act \<Rightarrow> bool" where
  "steady m \<longleftrightarrow> (\<forall>w. ok w \<longrightarrow> ok (snd (m w)) \<and> rel w (snd (m w)))"

lemma steadyI: "(\<And>w r w'. ok w \<Longrightarrow> m w = (r, w') \<Longrightarrow> ok w' \<and> rel w w') \<Longrightarrow> steady m"
  by (auto simp: steady_def) (metis prod.collapse)+

lemma steadyD: "steady m \<Longrightarrow> ok w \<Longrightarrow> m w = (r, w') \<Longrightarrow> ok w' \<and> rel w w'"
  by (auto simp: steady_def)

lemma steady_return [intro, simp]: "steady (returnA x)"
  by (simp add: steady_def returnA_def rel_refl)

lemma steady_raise [intro, simp]: "steady (raiseA e)"
  by (simp add: steady_def raiseA_def rel_refl)

lemma steady_bind [intro]:
  assumes m: "steady m" and f: "\<And>x. steady (f x)"
  shows "steady (bindA m f)"
proof (rule steadyI)
  fix w r w'
  assume w: "ok w" and b: "bindA m f w = (r, w')"
  obtain x v where v: "m w = (x, v)" by force
  from steadyD [OF m w v] have "ok v" "rel w v" by simp_all
  show "ok w' \<and> rel w w'"
  proof (cases x)
    case (Inl e)
    with b v have "w' = v" by (simp add: bindA_def)
    with \<open>ok v\<close> \<open>rel w v\<close> show ?thesis by simp
  next
    case (Inr y)
    with b v have "f y v = (r, w')" by (simp add: bindA_def)
    from steadyD [OF f \<open>ok v\<close> this] \<open>rel w v\<close> show ?thesis by (blast intro: rel_trans)
  qed
qed

lemma steady_if [intro]: "steady a \<Longrightarrow> steady b \<Longrightarrow> steady (if c then a else b)"
  by simp

lemma steady_steps:
  assumes "\<And>u v. step u v \<Longrightarrow> ok u \<Longrightarrow> ok v \<and> rel u v"
  shows "step\<^sup>*\<^sup>* u v \<Longrightarrow> ok u \<Longrightarrow> ok v \<and> rel u v"
  by (induction rule: rtranclp_induct) (auto intro: rel_refl rel_trans dest: assms)

end

section \<open>Hash-linked logs\<close>

fun linked :: "('e \<Rightarrow> 'd option) \<Rightarrow> ('e \<Rightarrow> 'd) \<Rightarrow> 'd option \<Rightarrow> 'e list \<Rightarrow> bool" where
  "linked prev dig h [] = True"
| "linked prev dig h (e # es) = (prev e = h \<and> linked prev dig (Some (dig e)) es)"

fun chain_head :: "('e \<Rightarrow> 'd) \<Rightarrow> 'd option \<Rightarrow> 'e list \<Rightarrow> 'd option" where
  "chain_head dig h [] = h"
| "chain_head dig h (e # es) = chain_head dig (Some (dig e)) es"

lemma chain_head_snoc [simp]: "chain_head dig h (es @ [e]) = Some (dig e)"
  by (induction es arbitrary: h) auto

lemma linked_snoc [simp]:
  "linked prev dig h (es @ [e]) \<longleftrightarrow> linked prev dig h es \<and> prev e = chain_head dig h es"
  by (induction es arbitrary: h) auto

lemma linked_unique:
  assumes "linked prev dig root es" and "linked prev dig root fs"
    and "chain_head dig root es = chain_head dig root fs"
    and "inj_on dig (set es \<union> set fs)" and "root \<notin> (\<lambda>e. Some (dig e)) ` (set es \<union> set fs)"
  shows "es = fs"
  using assms
proof (induction es arbitrary: fs rule: rev_induct)
  case Nil
  then show ?case by (cases fs rule: rev_cases) auto
next
  case (snoc e es)
  then obtain f gs where fs: "fs = gs @ [f]"
    by (cases fs rule: rev_cases) auto
  with snoc.prems have "dig e = dig f" by simp
  with snoc.prems(4) fs have ef: "e = f" by (intro inj_onD [OF snoc.prems(4)]) auto
  have "es = gs"
  proof (rule snoc.IH)
    show "inj_on dig (set es \<union> set gs)"
      using snoc.prems(4) fs by (auto intro: inj_on_subset)
  qed (use snoc.prems fs ef in auto)
  with fs ef show ?case by simp
qed

text \<open>\<open>root\<close> is the head of the empty log: \<open>None\<close>, or a fixed genesis digest.\<close>

locale hash_log =
  fixes ok :: "'s \<Rightarrow> bool" and log :: "'s \<Rightarrow> 'e list" and head :: "'s \<Rightarrow> 'd option"
    and prev :: "'e \<Rightarrow> 'd option" and dig :: "'e \<Rightarrow> 'd" and root :: "'d option"
  assumes log_linked: "ok s \<Longrightarrow> linked prev dig root (log s)"
    and log_head: "ok s \<Longrightarrow> head s = chain_head dig root (log s)"
begin

lemma same_head_same_log:
  assumes "ok s" and "ok t" and "head s = head t" and "inj_on dig (set (log s) \<union> set (log t))"
    and "root \<notin> (\<lambda>e. Some (dig e)) ` (set (log s) \<union> set (log t))"
  shows "log s = log t"
  using assms by (intro linked_unique [of prev dig root]) (auto simp: log_linked log_head)

end

section \<open>Meters that never pass their limits\<close>

text \<open>A run of requests, where a refused request leaves the state as it was.\<close>

fun admit_all :: "('s \<Rightarrow> 'w \<Rightarrow> 's result) \<Rightarrow> 's \<Rightarrow> 'w list \<Rightarrow> 's" where
  "admit_all admit s [] = s"
| "admit_all admit s (w # ws) = admit_all admit (case admit s w of Inl _ \<Rightarrow> s | Inr t \<Rightarrow> t) ws"

locale metered =
  fixes ok :: "'s \<Rightarrow> bool" and admit :: "'s \<Rightarrow> 'w \<Rightarrow> 's result" and used :: "'s \<Rightarrow> 'd \<Rightarrow> int"
    and limit :: "'s \<Rightarrow> 'd \<Rightarrow> int"
  assumes ok_bound: "ok s \<Longrightarrow> used s d \<le> limit s d"
    and admit_ok: "ok s \<Longrightarrow> admit s w = Inr t \<Longrightarrow> ok t"
    and admit_limit: "admit s w = Inr t \<Longrightarrow> limit t = limit s"
    and admit_mono: "ok s \<Longrightarrow> admit s w = Inr t \<Longrightarrow> used s d \<le> used t d"
begin

lemma admit_all_ok: "ok s \<Longrightarrow> ok (admit_all admit s ws)"
  by (induction ws arbitrary: s) (auto split: sum.splits intro: admit_ok)

lemma admit_all_limit: "limit (admit_all admit s ws) = limit s"
  by (induction ws arbitrary: s) (auto split: sum.splits dest: admit_limit)

lemma admit_all_bound: "ok s \<Longrightarrow> used (admit_all admit s ws) d \<le> limit s d"
  using ok_bound [OF admit_all_ok, of s ws d] by (simp add: admit_all_limit)

lemma admit_all_mono: "ok s \<Longrightarrow> used s d \<le> used (admit_all admit s ws) d"
proof (induction ws arbitrary: s)
  case (Cons w ws)
  show ?case
  proof (cases "admit s w")
    case (Inr t)
    then have "used s d \<le> used t d" using Cons.prems by (intro admit_mono)
    also have "\<dots> \<le> used (admit_all admit t ws) d"
      using Cons.IH admit_ok [OF Cons.prems Inr] by simp
    finally show ?thesis using Inr by simp
  qed (use Cons in simp)
qed simp

end

section \<open>Lemmas on results, dictionaries and lists\<close>

lemma bindE_Inr_iff [simp]: "bindE m f = Inr y \<longleftrightarrow> (\<exists>x. m = Inr x \<and> f x = Inr y)"
  by (cases m) auto

lemma bindE_InrE: "bindE m f = Inr y \<Longrightarrow> (\<And>x. m = Inr x \<Longrightarrow> f x = Inr y \<Longrightarrow> P) \<Longrightarrow> P"
  by (cases m) auto

lemma bindE_Inl_iff: "bindE m f = Inl e \<longleftrightarrow> m = Inl e \<or> (\<exists>x. m = Inr x \<and> f x = Inl e)"
  by (cases m) auto

lemma returnsE: "returns r P \<Longrightarrow> (\<And>x. r = Inr x \<Longrightarrow> P x \<Longrightarrow> Q) \<Longrightarrow> Q"
  by (cases r) auto

lemma guardE_Inr_iff [simp]: "guardE c e = Inr u \<longleftrightarrow> c"
  by auto

declare map_of_eq_Some_iff [simp del] Some_eq_map_of_iff [simp del]

lemma returnA_apply [simp]: "returnA x w = (Inr x, w)"
  by (simp add: returnA_def)

lemma raiseA_apply [simp]: "raiseA e w = (Inl e, w)"
  by (simp add: raiseA_def)

lemma bindA_Inr [simp]: "m w = (Inr x, w') \<Longrightarrow> bindA m f w = f x w'"
  by (simp add: bindA_def)

lemma bindA_Inl [simp]: "m w = (Inl e, w') \<Longrightarrow> bindA m f w = (Inl e, w')"
  by (simp add: bindA_def)

lemma bindA_InrE:
  assumes "bindA m f w = (Inr y, w')"
  obtains x v where "m w = (Inr x, v)" "f x v = (Inr y, w')"
  using assms by (auto simp: bindA_def split: prod.splits sum.splits)

lemma map_of_dict_set [simp]: "map_of (dict_set k v d) = (map_of d)(k \<mapsto> v)"
  by (simp add: dict_set_def update_conv' )

lemma map_of_dict_pop [simp]: "map_of (dict_pop k d) = (map_of d)(k := None)"
  by (simp add: dict_pop_def delete_conv')

lemma distinct_dict_set [simp]:
  "distinct (map fst d) \<Longrightarrow> distinct (map fst (dict_set k v d))"
  by (simp add: dict_set_def distinct_update)

lemma distinct_dict_pop [simp]:
  "distinct (map fst d) \<Longrightarrow> distinct (map fst (dict_pop k d))"
  by (simp add: dict_pop_def distinct_delete)

lemma dict_keys_dict_set [simp]: "dict_keys (dict_set k v d) = insert k (dict_keys d)"
  by (simp add: dict_keys_def dict_set_def dom_update [unfolded dom_map_of_conv_image_fst])

lemma dict_keys_dom: "dict_keys d = dom (map_of d)"
  by (simp add: dict_keys_def dom_map_of_conv_image_fst)

lemma dict_set_fresh: "k \<notin> fst ` set d \<Longrightarrow> dict_set k v d = d @ [(k, v)]"
  unfolding dict_set_def by (induction d) auto

lemma dict_of_pairs_snoc: "dict_of_pairs (xs @ [(k, v)]) = dict_set k v (dict_of_pairs xs)"
  by (simp add: dict_of_pairs_def)

lemma dict_of_pairs_id [simp]: "distinct (map fst xs) \<Longrightarrow> dict_of_pairs xs = xs"
proof (induction xs rule: rev_induct)
  case Nil
  then show ?case by (simp add: dict_of_pairs_def)
next
  case (snoc x xs)
  then show ?case
    by (cases x) (auto simp: dict_of_pairs_snoc dict_set_fresh)
qed

lemma sort_Nil_iff [simp]: "sort xs = [] \<longleftrightarrow> xs = []"
  by (metis length_0_conv length_sort)

lemma distinct_sorted_items [simp]:
  "distinct (map fst (sorted_items d)) = distinct (map fst d)"
  by (simp add: sorted_items_def distinct_map)

lemma set_sorted_items [simp]: "set (sorted_items d) = set d"
  by (simp add: sorted_items_def)

lemma sorted_sorted_items [simp]: "sorted (map fst (sorted_items d))"
  by (simp add: sorted_items_def)

lemma map_of_sorted_items [simp]:
  "distinct (map fst d) \<Longrightarrow> map_of (sorted_items d) = map_of d"
  by (simp add: map_of_inject_set)

lemma sorted_items_canonical:
  assumes "distinct (map fst d)" and "distinct (map fst e)" and "map_of d = map_of e"
  shows "sorted_items d = sorted_items e"
proof -
  have eq: "set (sorted_items d) = set (sorted_items e)"
    using assms by (simp add: map_of_inject_set [symmetric])
  have "inj_on fst (set (sorted_items d) \<union> set (sorted_items e))"
    using assms(1) eq by (auto simp: distinct_map)
  from map_sorted_distinct_set_unique [OF this] show ?thesis
    using assms eq by simp
qed

lemma sorted_items_id: "sorted (map fst d) \<Longrightarrow> sorted_items d = d"
  by (simp add: sorted_items_def sorted_sort_id sort_key_id_if_sorted)

text \<open>A dictionary whose values have as many images as it has keys tells its keys apart by those images.\<close>

lemma inj_on_dict_values:
  assumes "distinct (map fst d)" and "card ((\<lambda>x. g (snd x)) ` set d) = card (dict_keys d)"
  shows "inj_on (\<lambda>k. g (the (map_of d k))) (dict_keys d)"
proof -
  have "card (dict_keys d) = card (set d)"
    using assms(1) by (simp add: dict_keys_def card_image distinct_map)
  then have inj: "inj_on (\<lambda>x. g (snd x)) (set d)"
    using assms(2) by (intro eq_card_imp_inj_on) simp_all
  show ?thesis
  proof (rule inj_onI)
    fix k l
    assume "k \<in> dict_keys d" and "l \<in> dict_keys d" and eq: "g (the (map_of d k)) = g (the (map_of d l))"
    then obtain v w where "map_of d k = Some v" and "map_of d l = Some w"
      by (auto simp: dict_keys_dom)
    with eq have "(k, v) \<in> set d" and "(l, w) \<in> set d" and "g v = g w"
      by (auto dest: map_of_SomeD)
    then have "(k, v) = (l, w)" by (intro inj_onD [OF inj]) auto
    then show "k = l" by simp
  qed
qed

end
