(* ===== verification/Eco_Run_Reducer.thy ===== *)
theory Eco_Run_Reducer
  imports Eco_Prelude
begin

text \<open>
  The pure run-event reducer of \<open>src/src/eco_runtime/state_reducer.py\<close>: the run states, the
  content-free projection of a run and \<open>reduce_run_event\<close>, which the in-memory event chain and
  the durable replay share. The event types are the names of \<open>EVENT_SEMANTICS\<close>
  (\<open>src/src/eco_runtime/state.py\<close>); any other string is kept as \<open>OtherEvent\<close>, because the
  reducer looks at its prefix. The event's \<open>spec\<close> is an untyped JSON object, as in the code, so
  that each \<open>isinstance\<close> test of the code is a case distinction here.

  Lemmas: the projection is canonical (equal contents give equal projections), each event keeps
  the well-formedness and lifecycle invariants, terminal states absorb, and a run only succeeds
  when its lifecycle was completed.
\<close>

section \<open>States, event types and the projection\<close>

datatype run_state =
    NEW | RECEIVED | VALIDATED | PLANNED | AUTHORIZED | RUNNING
  | SUCCEEDED | FAILED | DENIED | CANCELLED | EXHAUSTED

definition TERMINAL_STATES :: "run_state set" where
  "TERMINAL_STATES = {SUCCEEDED, FAILED, DENIED, CANCELLED, EXHAUSTED}"

datatype tool_phase = Requested | Allowed | Started | Denied | Failed | Completed | Cancelled

datatype event_type =
    RunReceived | RunValidated | PlanCreated | PolicyAllowed | PolicyDenied
  | NoModelPolicyAllowed | NoModelPolicyDenied
  | AdapterStarted | AdapterCompleted | AdapterFailed
  | NoModelWorkflowStarted | NoModelReadRequested | NoModelReadAllowed | NoModelReadStarted
  | NoModelReadDenied | NoModelReadCompleted | NoModelReadFailed | NoModelWorkflowSucceeded
  | ToolRequested | ToolAllowed | ToolDenied | ToolCancelled | ToolCompleted | ToolFailed
  | ArtifactRecorded | BudgetExhausted
  | RunSucceeded | RunFailed | RunCancelled | RunExhausted
  | OtherEvent string

definition event_names :: "(string \<times> event_type) list" where
  "event_names =
     [(''run.received'', RunReceived), (''run.validated'', RunValidated),
      (''plan.created'', PlanCreated), (''policy.allowed'', PolicyAllowed),
      (''policy.denied'', PolicyDenied), (''no-model.policy.allowed'', NoModelPolicyAllowed),
      (''no-model.policy.denied'', NoModelPolicyDenied), (''adapter.started'', AdapterStarted),
      (''adapter.completed'', AdapterCompleted), (''adapter.failed'', AdapterFailed),
      (''no-model.workflow.started'', NoModelWorkflowStarted),
      (''no-model.read.requested'', NoModelReadRequested),
      (''no-model.read.allowed'', NoModelReadAllowed),
      (''no-model.read.started'', NoModelReadStarted),
      (''no-model.read.denied'', NoModelReadDenied),
      (''no-model.read.completed'', NoModelReadCompleted),
      (''no-model.read.failed'', NoModelReadFailed),
      (''no-model.workflow.succeeded'', NoModelWorkflowSucceeded),
      (''tool.requested'', ToolRequested), (''tool.allowed'', ToolAllowed),
      (''tool.denied'', ToolDenied), (''tool.cancelled'', ToolCancelled),
      (''tool.completed'', ToolCompleted), (''tool.failed'', ToolFailed),
      (''artifact.recorded'', ArtifactRecorded), (''budget.exhausted'', BudgetExhausted),
      (''run.succeeded'', RunSucceeded), (''run.failed'', RunFailed),
      (''run.cancelled'', RunCancelled), (''run.exhausted'', RunExhausted)]"

definition event_of_name :: "string \<Rightarrow> event_type" where
  "event_of_name s = (case map_of event_names s of Some e \<Rightarrow> e | None \<Rightarrow> OtherEvent s)"

text \<open>\<open>event_type.startswith(...)\<close> for the three prefixes the reducer tests.\<close>

fun is_adapter_event :: "event_type \<Rightarrow> bool" where
  "is_adapter_event (OtherEvent s) = prefix ''adapter.'' s"
| "is_adapter_event e = (e \<in> {AdapterStarted, AdapterCompleted, AdapterFailed})"

fun is_tool_event :: "event_type \<Rightarrow> bool" where
  "is_tool_event (OtherEvent s) = prefix ''tool.'' s"
| "is_tool_event e =
     (e \<in> {ToolRequested, ToolAllowed, ToolDenied, ToolCancelled, ToolCompleted, ToolFailed})"

fun is_no_model_read_event :: "event_type \<Rightarrow> bool" where
  "is_no_model_read_event (OtherEvent s) = prefix ''no-model.read.'' s"
| "is_no_model_read_event e =
     (e \<in> {NoModelReadRequested, NoModelReadAllowed, NoModelReadStarted, NoModelReadDenied,
           NoModelReadCompleted, NoModelReadFailed})"

record projection =
  state :: run_state
  tool_states :: "(string \<times> tool_phase \<times> string) list"
  adapter_completed :: bool
  adapter_failed :: bool
  budget_exhausted :: bool
  no_model_authorized :: bool
  no_model_started :: bool
  no_model_plan_digest :: "string option"
  no_model_scope_entries :: "(string \<times> string) list"
  no_model_results :: "(string \<times> string \<times> string) list"

definition initial :: projection where
  "initial = \<lparr>state = NEW, tool_states = [], adapter_completed = False, adapter_failed = False,
     budget_exhausted = False, no_model_authorized = False, no_model_started = False,
     no_model_plan_digest = None, no_model_scope_entries = [], no_model_results = []\<rparr>"

text \<open>
  \<open>from_parts\<close>: the local dictionaries, sorted by key, become the tuples of the projection.
\<close>

definition from_parts :: "projection \<Rightarrow> projection" where
  "from_parts p = p\<lparr>tool_states := sorted_items (tool_states p),
     no_model_scope_entries := sorted_items (no_model_scope_entries p),
     no_model_results := sorted_items (no_model_results p)\<rparr>"

definition tool_map :: "projection \<Rightarrow> (string \<times> tool_phase \<times> string) list" where
  "tool_map p = dict_of_pairs (tool_states p)"

definition no_model_result_map :: "projection \<Rightarrow> (string \<times> string \<times> string) list" where
  "no_model_result_map p = dict_of_pairs (no_model_results p)"

text \<open>The local variables of the reducer: the projection with its tuples turned to dictionaries.\<close>

definition locals_of :: "projection \<Rightarrow> projection" where
  "locals_of p = p\<lparr>tool_states := tool_map p,
     no_model_scope_entries := dict_of_pairs (no_model_scope_entries p),
     no_model_results := no_model_result_map p\<rparr>"

definition result_state :: "projection \<Rightarrow> run_state \<Rightarrow> projection" where
  "result_state v s = from_parts (v\<lparr>state := s\<rparr>)"

section \<open>The reducer\<close>

text \<open>
  A branch of the code that does not apply falls through to the code after it; a branch function
  below then returns \<open>None\<close>.
\<close>

abbreviation lifecycle_error :: "'a result" where
  "lifecycle_error \<equiv> Inl (RuntimeStateError ''ECO_NO_MODEL_LIFECYCLE'')"

abbreviation binding_error :: "'a result" where
  "binding_error \<equiv> Inl (RuntimeStateError ''ECO_TOOL_EVENT_BINDING'')"

abbreviation order_error :: "'a result" where
  "order_error \<equiv> Inl (RuntimeStateError ''ECO_TOOL_EVENT_ORDER'')"

definition open_tools :: "projection \<Rightarrow> bool" where
  "open_tools v = list_ex (\<lambda>(_, ph, _). ph = Requested \<or> ph = Allowed) (tool_states v)"

definition scope_slots :: "string list" where
  "scope_slots = [''slot-1'', ''slot-2'', ''slot-3'']"

definition reduce_planned :: "projection \<Rightarrow> event_type \<Rightarrow> obj \<Rightarrow> projection result option" where
  "reduce_planned v e spec =
     (case e of
        PolicyAllowed \<Rightarrow> Some (Inr (result_state v AUTHORIZED))
      | PolicyDenied \<Rightarrow> Some (Inr (result_state v DENIED))
      | NoModelPolicyAllowed \<Rightarrow>
          Some (case jget spec ''subjectDigest'' of
                  JStr d \<Rightarrow> Inr (result_state
                     (v\<lparr>no_model_authorized := True, no_model_plan_digest := Some d\<rparr>) AUTHORIZED)
                | _ \<Rightarrow> lifecycle_error)
      | NoModelPolicyDenied \<Rightarrow> Some (Inr (result_state v DENIED))
      | _ \<Rightarrow> None)"

text \<open>The loop over \<open>scopeEntries\<close>, with the dictionary built so far.\<close>

fun scope_loop :: "json list \<Rightarrow> (string \<times> string) list \<Rightarrow> (string \<times> string) list result" where
  "scope_loop [] acc = Inr acc"
| "scope_loop (JObj entry # es) acc =
     (let slot = jget entry ''slot''; entry_digest = jget entry ''entryDigest'' in
      if \<not> hashable slot then Inl PyTypeError
      else (case (slot, entry_digest) of
              (JStr s, JStr d) \<Rightarrow>
                if s \<notin> set scope_slots \<or> s \<in> dict_keys acc then lifecycle_error
                else scope_loop es (dict_set s d acc)
            | _ \<Rightarrow> lifecycle_error))"
| "scope_loop (_ # es) acc = lifecycle_error"

definition start_no_model :: "projection \<Rightarrow> obj \<Rightarrow> projection result" where
  "start_no_model v spec =
     (if \<not> no_model_authorized v \<or> jget spec ''subjectDigest'' \<noteq> json_opt (no_model_plan_digest v)
      then lifecycle_error
      else (case jget spec ''scopeEntries'' of
              JList entries \<Rightarrow>
                if length entries \<noteq> 3 then lifecycle_error
                else bindE (scope_loop entries []) (\<lambda>scope.
                  if dict_keys scope \<noteq> set scope_slots \<or> card (snd ` set scope) \<noteq> 3
                  then lifecycle_error
                  else Inr (result_state
                    (v\<lparr>no_model_scope_entries := scope, no_model_started := True\<rparr>) RUNNING))
            | _ \<Rightarrow> lifecycle_error))"

definition reduce_authorized ::
    "projection \<Rightarrow> event_type \<Rightarrow> obj \<Rightarrow> projection result option" where
  "reduce_authorized v e spec =
     (case e of
        AdapterStarted \<Rightarrow>
          Some (if no_model_authorized v then lifecycle_error else Inr (result_state v RUNNING))
      | NoModelWorkflowStarted \<Rightarrow> Some (start_no_model v spec)
      | _ \<Rightarrow> None)"

text \<open>The phase change of an already requested no-model read at \<open>scope_slot\<close>.\<close>

definition advance_no_model_read ::
    "projection \<Rightarrow> event_type \<Rightarrow> obj \<Rightarrow> string \<Rightarrow> string \<Rightarrow> tool_phase \<Rightarrow> projection result" where
  "advance_no_model_read v e spec slot digest current =
     (let put = (\<lambda>ph. v\<lparr>tool_states := dict_set slot (ph, digest) (tool_states v)\<rparr>) in
      if e = NoModelReadAllowed \<and> current = Requested then Inr (put Allowed)
      else if e = NoModelReadStarted \<and> current = Allowed then Inr (put Started)
      else if e = NoModelReadDenied \<and> (current = Requested \<or> current = Allowed)
      then Inr (put Denied)
      else if e = NoModelReadFailed \<and> (current = Allowed \<or> current = Started)
      then (if \<not> is_JStr (jget spec ''resultDigest'') then binding_error else Inr (put Failed))
      else if e = NoModelReadCompleted \<and> current = Started
      then (if \<not> is_JStr (jget spec ''resultDigest'') then binding_error
            else (case jget spec ''contentDigest'' of
                    JStr c \<Rightarrow>
                      (case jget spec ''headingCheck'' of
                         JStr h \<Rightarrow>
                           if h = ''pass'' \<or> h = ''fail''
                           then Inr ((put Completed)\<lparr>no_model_results :=
                                  dict_set slot (c, h) (no_model_results v)\<rparr>)
                           else binding_error
                       | h \<Rightarrow> if hashable h then binding_error else Inl PyTypeError)
                  | _ \<Rightarrow> binding_error))
      else order_error)"

definition reduce_no_model_read ::
    "projection \<Rightarrow> event_type \<Rightarrow> obj \<Rightarrow> projection result" where
  "reduce_no_model_read v e spec =
     (case (jget spec ''subjectId'', jget spec ''subjectDigest'') of
        (JStr subject_id, JStr subject_digest) \<Rightarrow>
          (case jget spec ''scopeSlot'' of
             JStr slot \<Rightarrow>
               if json_opt (map_of (no_model_scope_entries v) slot) \<noteq> jget spec ''entryDigest''
               then lifecycle_error
               else bindE
                 (if e = NoModelReadRequested
                  then (case map_of (tool_states v) slot of
                          Some _ \<Rightarrow> order_error
                        | None \<Rightarrow> Inr (v\<lparr>tool_states :=
                            dict_set slot (Requested, subject_digest) (tool_states v)\<rparr>))
                  else (case map_of (tool_states v) slot of
                          None \<Rightarrow> binding_error
                        | Some (current, digest) \<Rightarrow>
                            if digest \<noteq> subject_digest then binding_error
                            else advance_no_model_read v e spec slot subject_digest current))
                 (\<lambda>v'. Inr (result_state v' RUNNING))
           | _ \<Rightarrow> lifecycle_error)
      | _ \<Rightarrow> binding_error)"

definition no_model_success_ready :: "projection \<Rightarrow> bool" where
  "no_model_success_ready v =
     (dict_keys (tool_states v) = dict_keys (no_model_scope_entries v)
      \<and> list_all (\<lambda>(_, ph, _). ph = Completed) (tool_states v)
      \<and> dict_keys (no_model_results v) = dict_keys (no_model_scope_entries v)
      \<and> list_all (\<lambda>(_, _, check). check = ''pass'') (no_model_results v)
      \<and> card ((\<lambda>(_, c, _). c) ` set (no_model_results v)) = 3)"

definition reduce_no_model_running ::
    "projection \<Rightarrow> event_type \<Rightarrow> obj \<Rightarrow> projection result option" where
  "reduce_no_model_running v e spec =
     (if is_adapter_event e \<or> is_tool_event e
         \<or> e \<in> {ArtifactRecorded, BudgetExhausted, RunSucceeded, RunExhausted}
      then Some lifecycle_error
      else if is_no_model_read_event e then Some (reduce_no_model_read v e spec)
      else if e = NoModelWorkflowSucceeded
      then Some (if no_model_success_ready v then Inr (result_state v SUCCEEDED)
                 else Inl (RuntimeStateError ''ECO_RUN_SUCCESS_INVALID''))
      else if e = RunSucceeded then Some lifecycle_error
      else None)"

text \<open>The phase change of an already requested tool call.\<close>

definition advance_tool ::
    "projection \<Rightarrow> event_type \<Rightarrow> obj \<Rightarrow> string \<Rightarrow> string \<Rightarrow> tool_phase \<Rightarrow> projection result" where
  "advance_tool v e spec subject_id digest current =
     (let put = (\<lambda>ph. v\<lparr>tool_states := dict_set subject_id (ph, digest) (tool_states v)\<rparr>) in
      if e = ToolAllowed \<and> current = Requested then Inr (put Allowed)
      else if e = ToolDenied \<and> current = Requested then Inr (put Denied)
      else if e = ToolCancelled \<and> (current = Requested \<or> current = Allowed)
      then Inr (put Cancelled)
      else if (e = ToolCompleted \<or> e = ToolFailed) \<and> current = Allowed
      then (if \<not> is_JStr (jget spec ''resultDigest'') then binding_error
            else Inr (put (if e = ToolCompleted then Completed else Failed)))
      else order_error)"

definition reduce_tool :: "projection \<Rightarrow> event_type \<Rightarrow> obj \<Rightarrow> projection result" where
  "reduce_tool v e spec =
     (case (jget spec ''subjectId'', jget spec ''subjectDigest'') of
        (JStr subject_id, JStr subject_digest) \<Rightarrow>
          bindE
            (if e = ToolRequested
             then (if adapter_completed v \<or> adapter_failed v \<or> budget_exhausted v
                      \<or> map_of (tool_states v) subject_id \<noteq> None
                   then order_error
                   else Inr (v\<lparr>tool_states :=
                          dict_set subject_id (Requested, subject_digest) (tool_states v)\<rparr>))
             else (case map_of (tool_states v) subject_id of
                     None \<Rightarrow> binding_error
                   | Some (current, digest) \<Rightarrow>
                       if digest \<noteq> subject_digest then binding_error
                       else advance_tool v e spec subject_id subject_digest current))
            (\<lambda>v'. Inr (result_state v' RUNNING))
      | _ \<Rightarrow> binding_error)"

definition reduce_adapter_running ::
    "projection \<Rightarrow> event_type \<Rightarrow> obj \<Rightarrow> projection result option" where
  "reduce_adapter_running v e spec =
     (if is_tool_event e then Some (reduce_tool v e spec)
      else case e of
        AdapterCompleted \<Rightarrow>
          Some (if adapter_completed v \<or> adapter_failed v \<or> budget_exhausted v \<or> open_tools v
                then Inl (RuntimeStateError ''ECO_ADAPTER_EVENT_ORDER'')
                else Inr (result_state (v\<lparr>adapter_completed := True\<rparr>) RUNNING))
      | AdapterFailed \<Rightarrow>
          Some (if adapter_completed v \<or> adapter_failed v
                then Inl (RuntimeStateError ''ECO_ADAPTER_EVENT_ORDER'')
                else Inr (result_state (v\<lparr>adapter_failed := True\<rparr>) RUNNING))
      | ArtifactRecorded \<Rightarrow>
          Some (if adapter_failed v \<or> budget_exhausted v
                then Inl (RuntimeStateError ''ECO_STATE_TRANSITION'')
                else Inr (result_state v RUNNING))
      | BudgetExhausted \<Rightarrow>
          Some (if budget_exhausted v \<or> adapter_completed v
                then Inl (RuntimeStateError ''ECO_BUDGET_EVENT_ORDER'')
                else Inr (result_state (v\<lparr>budget_exhausted := True\<rparr>) RUNNING))
      | RunSucceeded \<Rightarrow>
          Some (if \<not> adapter_completed v \<or> adapter_failed v \<or> budget_exhausted v \<or> open_tools v
                then Inl (RuntimeStateError ''ECO_RUN_SUCCESS_INVALID'')
                else Inr (result_state v SUCCEEDED))
      | RunExhausted \<Rightarrow>
          Some (if \<not> budget_exhausted v
                then Inl (RuntimeStateError ''ECO_RUN_EXHAUSTION_INVALID'')
                else if open_tools v then order_error
                else Inr (result_state v EXHAUSTED))
      | RunFailed \<Rightarrow> Some (if open_tools v then order_error else Inr (result_state v FAILED))
      | RunCancelled \<Rightarrow>
          Some (if open_tools v then order_error else Inr (result_state v CANCELLED))
      | _ \<Rightarrow> None)"

definition reduce_running ::
    "projection \<Rightarrow> event_type \<Rightarrow> obj \<Rightarrow> projection result option" where
  "reduce_running v e spec =
     (case (if no_model_started v then reduce_no_model_running v e spec else None) of
        Some r \<Rightarrow> Some r
      | None \<Rightarrow> reduce_adapter_running v e spec)"

definition reduce_abort :: "projection \<Rightarrow> event_type \<Rightarrow> projection result" where
  "reduce_abort v e =
     (if state v \<in> {RECEIVED, VALIDATED, PLANNED, AUTHORIZED} \<and> e = RunFailed
      then Inr (result_state v FAILED)
      else if state v \<in> {RECEIVED, VALIDATED, PLANNED, AUTHORIZED} \<and> e = RunCancelled
      then Inr (result_state v CANCELLED)
      else Inl (RuntimeStateError ''ECO_STATE_TRANSITION''))"

definition reduce_event :: "projection \<Rightarrow> event_type \<Rightarrow> obj \<Rightarrow> projection result" where
  "reduce_event p e spec =
     (let v = locals_of p in
      if state p = NEW \<and> e = RunReceived then Inr (result_state v RECEIVED)
      else if state p = RECEIVED \<and> e = RunValidated then Inr (result_state v VALIDATED)
      else if state p = VALIDATED \<and> e = PlanCreated then Inr (result_state v PLANNED)
      else case (if state p = PLANNED then reduce_planned v e spec
                 else if state p = AUTHORIZED then reduce_authorized v e spec
                 else if state p = RUNNING then reduce_running v e spec
                 else None) of
             Some r \<Rightarrow> r
           | None \<Rightarrow> reduce_abort v e)"

definition reduce_run_event :: "projection \<Rightarrow> string \<Rightarrow> obj \<Rightarrow> projection result" where
  "reduce_run_event p event_type spec = reduce_event p (event_of_name event_type) spec"

text \<open>Replaying a list of events from a projection, as the durable stores do on load.\<close>

fun replay :: "projection \<Rightarrow> (string \<times> obj) list \<Rightarrow> projection result" where
  "replay p [] = Inr p"
| "replay p ((event_type, spec) # es) =
     bindE (reduce_run_event p event_type spec) (\<lambda>q. replay q es)"

section \<open>The shape of projections\<close>

text \<open>A tuple of the projection is a dictionary listed by increasing key.\<close>

definition sorted_dict :: "(string \<times> 'v) list \<Rightarrow> bool" where
  "sorted_dict d \<longleftrightarrow> sorted (map fst d) \<and> distinct (map fst d)"

definition wf_projection :: "projection \<Rightarrow> bool" where
  "wf_projection p \<longleftrightarrow> sorted_dict (tool_states p) \<and> sorted_dict (no_model_scope_entries p)
     \<and> sorted_dict (no_model_results p)"

lemma sorted_dict_Nil [simp]: "sorted_dict []"
  by (simp add: sorted_dict_def)

lemma sorted_dict_sorted_items [simp]:
  "sorted_dict (sorted_items d) \<longleftrightarrow> distinct (map fst d)"
  by (simp add: sorted_dict_def)

lemma sorted_dictD [dest]: "sorted_dict d \<Longrightarrow> distinct (map fst d)"
  by (simp add: sorted_dict_def)

lemma sorted_items_sorted_dict [simp]: "sorted_dict d \<Longrightarrow> sorted_items d = d"
  by (simp add: sorted_dict_def sorted_items_id)

lemma dict_keys_sorted_items [simp]: "dict_keys (sorted_items d) = dict_keys d"
  by (simp add: dict_keys_def)

lemma locals_of_id [simp]: "wf_projection p \<Longrightarrow> locals_of p = p"
  by (simp add: locals_of_def tool_map_def no_model_result_map_def wf_projection_def sorted_dictD)

lemma result_state_fields [simp]:
  "state (result_state v s) = s"
  "tool_states (result_state v s) = sorted_items (tool_states v)"
  "adapter_completed (result_state v s) = adapter_completed v"
  "adapter_failed (result_state v s) = adapter_failed v"
  "budget_exhausted (result_state v s) = budget_exhausted v"
  "no_model_authorized (result_state v s) = no_model_authorized v"
  "no_model_started (result_state v s) = no_model_started v"
  "no_model_plan_digest (result_state v s) = no_model_plan_digest v"
  "no_model_scope_entries (result_state v s) = sorted_items (no_model_scope_entries v)"
  "no_model_results (result_state v s) = sorted_items (no_model_results v)"
  by (simp_all add: result_state_def from_parts_def)

lemma wf_result_state [simp]:
  "wf_projection (result_state v s) \<longleftrightarrow> distinct (map fst (tool_states v))
     \<and> distinct (map fst (no_model_scope_entries v)) \<and> distinct (map fst (no_model_results v))"
  by (simp add: wf_projection_def)

lemma wf_distinct:
  "wf_projection p \<Longrightarrow> distinct (map fst (tool_states p))"
  "wf_projection p \<Longrightarrow> distinct (map fst (no_model_scope_entries p))"
  "wf_projection p \<Longrightarrow> distinct (map fst (no_model_results p))"
  by (auto simp: wf_projection_def)

lemma open_tools_result_state [simp]: "open_tools (result_state v s) = open_tools v"
  by (simp add: open_tools_def list_ex_iff)

lemma open_tools_flags [simp]:
  "open_tools (v\<lparr>adapter_completed := b\<rparr>) = open_tools v"
  "open_tools (v\<lparr>adapter_failed := b\<rparr>) = open_tools v"
  "open_tools (v\<lparr>budget_exhausted := b\<rparr>) = open_tools v"
  by (simp_all add: open_tools_def)

lemma open_tools_iff:
  "distinct (map fst (tool_states v)) \<Longrightarrow>
   open_tools v \<longleftrightarrow> (\<exists>k ph d. map_of (tool_states v) k = Some (ph, d) \<and> ph \<in> {Requested, Allowed})"
  by (force simp: open_tools_def list_ex_iff map_of_eq_Some_iff)

section \<open>Each event keeps the shape and moves along the lifecycle\<close>

text \<open>Which phase a tool call or a read can move to.\<close>

definition phase_edges :: "(tool_phase \<times> tool_phase) set" where
  "phase_edges = {(Requested, Allowed), (Requested, Denied), (Requested, Cancelled),
     (Allowed, Started), (Allowed, Denied), (Allowed, Cancelled), (Allowed, Failed),
     (Allowed, Completed), (Started, Failed), (Started, Completed)}"

definition run_edges :: "(run_state \<times> run_state) set" where
  "run_edges = {(NEW, RECEIVED), (RECEIVED, VALIDATED), (VALIDATED, PLANNED),
     (PLANNED, AUTHORIZED), (PLANNED, DENIED), (AUTHORIZED, RUNNING), (RUNNING, RUNNING),
     (RUNNING, SUCCEEDED), (RUNNING, EXHAUSTED)}
     \<union> {RECEIVED, VALIDATED, PLANNED, AUTHORIZED, RUNNING} \<times> {FAILED, CANCELLED}"

text \<open>
  What a tool or read event does to the dictionaries: it adds a requested entry at a fresh key,
  or moves an existing entry along \<open>phase_edges\<close> and keeps its digest; only a completed read also
  records a result.
\<close>

inductive tool_step :: "projection \<Rightarrow> projection \<Rightarrow> bool" where
  request: "map_of (tool_states v) k = None \<Longrightarrow>
     \<not> adapter_completed v \<or> no_model_started v \<Longrightarrow>
     tool_step v (v\<lparr>tool_states := dict_set k (Requested, d) (tool_states v)\<rparr>)"
| advance: "map_of (tool_states v) k = Some (ph, d) \<Longrightarrow> (ph, ph') \<in> phase_edges \<Longrightarrow>
     ph' = Completed \<longrightarrow> \<not> no_model_started v \<Longrightarrow>
     tool_step v (v\<lparr>tool_states := dict_set k (ph', d) (tool_states v)\<rparr>)"
| complete_read: "no_model_started v \<Longrightarrow> map_of (tool_states v) k = Some (Started, d) \<Longrightarrow>
     tool_step v (v\<lparr>tool_states := dict_set k (Completed, d) (tool_states v),
                    no_model_results := dict_set k (c, h) (no_model_results v)\<rparr>)"

inductive_cases tool_stepE: "tool_step v w"

lemma advance_no_model_read_step:
  assumes "advance_no_model_read v e spec k d ph = Inr w" and "no_model_started v"
    and "map_of (tool_states v) k = Some (ph, d)"
  shows "tool_step v w"
proof -
  have adv: "tool_step v (v\<lparr>tool_states := dict_set k (ph', d) (tool_states v)\<rparr>)"
    if "(ph, ph') \<in> phase_edges" and "ph' \<noteq> Completed" for ph'
    using that assms(3) by (intro tool_step.advance) auto
  have com: "tool_step v (v\<lparr>tool_states := dict_set k (Completed, d) (tool_states v),
                    no_model_results := dict_set k (c, h) (no_model_results v)\<rparr>)"
    if "ph = Started" for c h
    using that assms(2,3) by (intro tool_step.complete_read) auto
  from assms(1) show ?thesis
    by (auto simp: advance_no_model_read_def Let_def phase_edges_def
        split: if_splits json.splits intro!: adv com)
qed

lemma advance_tool_step:
  assumes "advance_tool v e spec k d ph = Inr w" and "\<not> no_model_started v"
    and "map_of (tool_states v) k = Some (ph, d)"
  shows "tool_step v w"
proof -
  have adv: "tool_step v (v\<lparr>tool_states := dict_set k (ph', d) (tool_states v)\<rparr>)"
    if "(ph, ph') \<in> phase_edges" for ph'
    using that assms by (intro tool_step.advance) auto
  from assms(1) show ?thesis
    by (auto simp: advance_tool_def Let_def phase_edges_def split: if_splits intro!: adv)
qed

lemma tool_step_resultI:
  "tool_step v w \<Longrightarrow> \<exists>w'. tool_step v w' \<and> result_state w s = result_state w' s"
  by blast

lemma tool_step_freshI:
  assumes "\<forall>a b. map_of (tool_states v) k \<noteq> Some (a, b)" and "\<not> adapter_completed v"
  shows "tool_step v (v\<lparr>tool_states := dict_set k (Requested, d) (tool_states v)\<rparr>)"
  using assms by (intro tool_step.request) (auto intro: ccontr)

lemma reduce_no_model_read_step:
  assumes "reduce_no_model_read v e spec = Inr q" and "no_model_started v"
  shows "\<exists>w. tool_step v w \<and> q = result_state w RUNNING"
  using assms
  by (auto simp: reduce_no_model_read_def split: json.splits if_splits option.splits
      intro!: tool_step_resultI intro: advance_no_model_read_step tool_step.request)

lemma reduce_tool_step:
  assumes "reduce_tool v e spec = Inr q" and "\<not> no_model_started v"
  shows "\<exists>w. tool_step v w \<and> q = result_state w RUNNING"
  using assms
  by (auto simp: reduce_tool_def split: json.splits if_splits option.splits
      intro!: tool_step_resultI intro: advance_tool_step tool_step_freshI)

text \<open>
  The successful events, by what they do: a lifecycle event that leaves the dictionaries alone,
  the authorization of a no-model plan, the start of a no-model workflow with its scope, or a
  tool or read event.
\<close>

inductive lifecycle_step :: "projection \<Rightarrow> projection \<Rightarrow> bool" where
  start_adapter: "state p = AUTHORIZED \<Longrightarrow> \<not> no_model_authorized p \<Longrightarrow>
     lifecycle_step p (result_state p RUNNING)"
| move: "(state p, s) \<in> run_edges \<Longrightarrow> state p \<noteq> RUNNING \<Longrightarrow> s \<noteq> RUNNING \<Longrightarrow>
     lifecycle_step p (result_state p s)"
| authorize_no_model: "state p = PLANNED \<Longrightarrow>
     lifecycle_step p (result_state
       (p\<lparr>no_model_authorized := True, no_model_plan_digest := Some d\<rparr>) AUTHORIZED)"
| start_workflow: "state p = AUTHORIZED \<Longrightarrow> no_model_authorized p \<Longrightarrow>
     distinct (map fst scope) \<Longrightarrow> dict_keys scope = set scope_slots \<Longrightarrow>
     card (snd ` set scope) = 3 \<Longrightarrow>
     lifecycle_step p (result_state
       (p\<lparr>no_model_scope_entries := scope, no_model_started := True\<rparr>) RUNNING)"
| tool: "state p = RUNNING \<Longrightarrow> tool_step p w \<Longrightarrow> lifecycle_step p (result_state w RUNNING)"
| record_artifact: "state p = RUNNING \<Longrightarrow> \<not> no_model_started p \<Longrightarrow>
     lifecycle_step p (result_state p RUNNING)"
| fail_adapter: "state p = RUNNING \<Longrightarrow> \<not> no_model_started p \<Longrightarrow> \<not> adapter_completed p \<Longrightarrow>
     lifecycle_step p (result_state (p\<lparr>adapter_failed := True\<rparr>) RUNNING)"
| exhaust_budget: "state p = RUNNING \<Longrightarrow> \<not> no_model_started p \<Longrightarrow> \<not> adapter_completed p \<Longrightarrow>
     lifecycle_step p (result_state (p\<lparr>budget_exhausted := True\<rparr>) RUNNING)"
| complete_adapter: "state p = RUNNING \<Longrightarrow> \<not> no_model_started p \<Longrightarrow>
     \<not> adapter_failed p \<Longrightarrow> \<not> budget_exhausted p \<Longrightarrow> \<not> open_tools p \<Longrightarrow>
     lifecycle_step p (result_state (p\<lparr>adapter_completed := True\<rparr>) RUNNING)"
| finish: "state p = RUNNING \<Longrightarrow> s \<in> {FAILED, CANCELLED, EXHAUSTED} \<Longrightarrow> \<not> open_tools p \<Longrightarrow>
     lifecycle_step p (result_state p s)"
| succeed: "state p = RUNNING \<Longrightarrow> \<not> no_model_started p \<Longrightarrow> adapter_completed p \<Longrightarrow>
     \<not> adapter_failed p \<Longrightarrow> \<not> budget_exhausted p \<Longrightarrow> \<not> open_tools p \<Longrightarrow>
     lifecycle_step p (result_state p SUCCEEDED)"
| succeed_no_model: "state p = RUNNING \<Longrightarrow> no_model_started p \<Longrightarrow> no_model_success_ready p \<Longrightarrow>
     lifecycle_step p (result_state p SUCCEEDED)"

lemma scope_loop_distinct:
  "scope_loop es acc = Inr scope \<Longrightarrow> distinct (map fst acc) \<Longrightarrow> distinct (map fst scope)"
  by (induction es acc rule: scope_loop.induct) (auto simp: Let_def split: json.splits if_splits)

lemma reduce_planned_step:
  assumes "reduce_planned p e spec = Some (Inr q)" and "state p = PLANNED"
  shows "lifecycle_step p q"
  using assms
  by (auto simp: reduce_planned_def run_edges_def split: event_type.splits json.splits
      intro: lifecycle_step.intros)

lemma reduce_authorized_step:
  assumes "reduce_authorized p e spec = Some (Inr q)" and "state p = AUTHORIZED"
  shows "lifecycle_step p q"
  using assms
  by (auto simp: reduce_authorized_def start_no_model_def run_edges_def
      split: event_type.splits json.splits if_splits
      dest: scope_loop_distinct intro: lifecycle_step.intros)

lemma reduce_no_model_running_step:
  assumes "reduce_no_model_running p e spec = Some (Inr q)" and "state p = RUNNING"
    and "no_model_started p"
  shows "lifecycle_step p q"
  using assms
  by (auto simp: reduce_no_model_running_def split: if_splits
      dest!: reduce_no_model_read_step intro: lifecycle_step.tool lifecycle_step.succeed_no_model)

lemma reduce_adapter_running_step:
  assumes "reduce_adapter_running p e spec = Some (Inr q)" and "state p = RUNNING"
    and "no_model_started p \<Longrightarrow> e \<in> {RunFailed, RunCancelled}"
  shows "lifecycle_step p q"
proof (cases "is_tool_event e")
  case True
  then have "\<not> no_model_started p" using assms(3) by auto
  with True assms show ?thesis
    by (auto simp: reduce_adapter_running_def dest!: reduce_tool_step intro: lifecycle_step.tool)
next
  case False
  with assms show ?thesis
    by (auto simp: reduce_adapter_running_def split: event_type.splits if_splits
        intro: lifecycle_step.intros)
qed

lemma no_model_fallthrough:
  assumes "reduce_no_model_running p e spec = None" and "reduce_adapter_running p e spec \<noteq> None"
  shows "e \<in> {RunFailed, RunCancelled}"
  using assms
  by (cases e) (auto simp: reduce_no_model_running_def reduce_adapter_running_def split: if_splits)

lemma reduce_running_step:
  assumes "reduce_running p e spec = Some (Inr q)" and "state p = RUNNING"
  shows "lifecycle_step p q"
proof (cases "no_model_started p")
  case True
  show ?thesis
  proof (cases "reduce_no_model_running p e spec")
    case None
    with True assms have "reduce_adapter_running p e spec = Some (Inr q)"
      by (simp add: reduce_running_def)
    with None assms show ?thesis
      by (intro reduce_adapter_running_step) (auto dest: no_model_fallthrough)
  next
    case (Some r)
    with True assms show ?thesis
      by (auto simp: reduce_running_def intro: reduce_no_model_running_step)
  qed
next
  case False
  with assms show ?thesis
    by (auto simp: reduce_running_def intro: reduce_adapter_running_step)
qed

lemma reduce_abort_step:
  "reduce_abort p e = Inr q \<Longrightarrow> lifecycle_step p q"
  by (auto simp: reduce_abort_def run_edges_def split: if_splits intro!: lifecycle_step.move)

lemma reduce_event_step:
  assumes "wf_projection p" and "reduce_event p e spec = Inr q"
  shows "lifecycle_step p q"
  using assms
  by (auto simp: reduce_event_def Let_def run_edges_def split: if_splits option.splits
      intro: reduce_planned_step reduce_authorized_step reduce_running_step reduce_abort_step
        lifecycle_step.move)

section \<open>The lifecycle invariant\<close>

definition lifecycle_inv :: "projection \<Rightarrow> bool" where
  "lifecycle_inv p \<longleftrightarrow> wf_projection p
     \<and> (state p \<in> {NEW, RECEIVED, VALIDATED, PLANNED, AUTHORIZED, DENIED} \<longrightarrow>
          tool_states p = [] \<and> \<not> no_model_started p)
     \<and> (state p \<in> {NEW, RECEIVED, VALIDATED, PLANNED} \<longrightarrow> \<not> no_model_authorized p)
     \<and> (state p = RUNNING \<longrightarrow> no_model_authorized p = no_model_started p)
     \<and> (no_model_started p \<longrightarrow> no_model_authorized p \<and> \<not> adapter_completed p
          \<and> \<not> adapter_failed p \<and> \<not> budget_exhausted p
          \<and> dict_keys (no_model_scope_entries p) = set scope_slots
          \<and> card (snd ` set (no_model_scope_entries p)) = 3
          \<and> dict_keys (no_model_results p)
             = {k. \<exists>d. map_of (tool_states p) k = Some (Completed, d)})
     \<and> (\<not> no_model_started p \<longrightarrow> no_model_results p = [])
     \<and> (state p \<in> {NEW, RECEIVED, VALIDATED, PLANNED, AUTHORIZED, DENIED} \<longrightarrow>
          \<not> adapter_completed p \<and> \<not> adapter_failed p \<and> \<not> budget_exhausted p)
     \<and> (adapter_completed p \<longrightarrow> \<not> adapter_failed p \<and> \<not> budget_exhausted p \<and> \<not> open_tools p)
     \<and> (state p = SUCCEEDED \<longrightarrow>
          (if no_model_authorized p then no_model_started p \<and> no_model_success_ready p
           else adapter_completed p))"

lemma lifecycle_inv_initial: "lifecycle_inv initial"
  by (simp add: lifecycle_inv_def initial_def wf_projection_def)

lemma lifecycle_inv_wf: "lifecycle_inv p \<Longrightarrow> wf_projection p"
  by (simp add: lifecycle_inv_def)

lemma result_state_sorted [simp]:
  "wf_projection p \<Longrightarrow> sorted_items (tool_states p) = tool_states p"
  "wf_projection p \<Longrightarrow> sorted_items (no_model_scope_entries p) = no_model_scope_entries p"
  "wf_projection p \<Longrightarrow> sorted_items (no_model_results p) = no_model_results p"
  by (simp_all add: wf_projection_def)

lemma no_model_success_ready_result_state [simp]:
  "no_model_success_ready (result_state v s) = no_model_success_ready v"
  by (simp add: no_model_success_ready_def list_all_iff)

lemma tool_step_wf:
  assumes "tool_step p w" and "wf_projection p"
  shows "wf_projection (result_state w s)"
  using assms by (auto elim!: tool_stepE dest: wf_distinct)

lemma tool_step_open:
  assumes "tool_step p w" and "wf_projection p" and "adapter_completed p" and "\<not> no_model_started p"
    and "\<not> open_tools p"
  shows "\<not> open_tools w"
proof -
  have closed: "map_of (tool_states p) k = Some (ph, d) \<Longrightarrow> ph \<notin> {Requested, Allowed}" for k ph d
    using assms(2,5) by (metis open_tools_iff wf_distinct(1))
  have "distinct (map fst (tool_states w))"
    using tool_step_wf [OF assms(1,2), of RUNNING] by simp
  with assms(1,3,4) show ?thesis
    by (cases rule: tool_step.cases)
      (auto simp: open_tools_iff phase_edges_def split: if_splits dest: closed)
qed

lemma tool_step_inv:
  assumes step: "tool_step p w" and inv: "lifecycle_inv p" and run: "state p = RUNNING"
  shows "lifecycle_inv (result_state w RUNNING)"
proof -
  have wf: "wf_projection p" using inv by (rule lifecycle_inv_wf)
  note d = wf_distinct [OF wf]
  have wf': "wf_projection (result_state w RUNNING)" using step wf by (rule tool_step_wf)
  have op: "adapter_completed p \<Longrightarrow> \<not> open_tools w"
    using tool_step_open [OF step wf] inv by (auto simp: lifecycle_inv_def)
  show ?thesis
    using step
  proof (cases rule: tool_step.cases)
    case (request k d)
    with inv run wf' op d show ?thesis
      by (simp add: lifecycle_inv_def) (auto split: if_splits)
  next
    case (advance k ph d ph')
    then have "ph \<noteq> Completed" by (auto simp: phase_edges_def)
    with advance inv run wf' op d show ?thesis
      by (simp add: lifecycle_inv_def) (auto split: if_splits)
  next
    case (complete_read k d c h)
    with inv run wf' op d show ?thesis
      by (simp add: lifecycle_inv_def) (auto split: if_splits)
  qed
qed

lemma lifecycle_step_inv:
  assumes "lifecycle_step p q" and "lifecycle_inv p"
  shows "lifecycle_inv q"
  using assms(1)
proof (cases rule: lifecycle_step.cases)
  case (tool w)
  with assms(2) show ?thesis by (auto intro: tool_step_inv)
next
  case (start_workflow scope)
  with assms(2) wf_distinct [OF lifecycle_inv_wf [OF assms(2)]] show ?thesis
    by (auto simp: lifecycle_inv_def dict_keys_def)
next
  case (move s)
  then consider "state p \<in> {RECEIVED, VALIDATED, PLANNED, AUTHORIZED}" "s \<in> {FAILED, CANCELLED}"
    | "state p \<in> {NEW, RECEIVED, VALIDATED}" "s \<in> {RECEIVED, VALIDATED, PLANNED}"
    | "state p = PLANNED" "s \<in> {AUTHORIZED, DENIED}"
    by (auto simp: run_edges_def)
  then show ?thesis
    using move(1) assms(2) wf_distinct [OF lifecycle_inv_wf [OF assms(2)]]
    by cases (elim insertE emptyE; simp add: lifecycle_inv_def)+
next
  case (finish s)
  with assms(2) wf_distinct [OF lifecycle_inv_wf [OF assms(2)]] show ?thesis
    by (cases s; simp add: lifecycle_inv_def)
qed (use assms(2) wf_distinct [OF lifecycle_inv_wf [OF assms(2)]] in
      \<open>simp_all add: lifecycle_inv_def\<close>)

definition run_step :: "projection \<Rightarrow> projection \<Rightarrow> bool" where
  "run_step p q \<longleftrightarrow> (\<exists>event_type spec. reduce_run_event p event_type spec = Inr q)"

text \<open>The runs of the reducer are an invariant system.\<close>

interpretation run: inv_system "(=) initial" run_step lifecycle_inv
  by unfold_locales
    (auto simp: run_step_def reduce_run_event_def lifecycle_inv_initial
      intro: lifecycle_step_inv reduce_event_step lifecycle_inv_wf)

lemma replay_reach:
  "reach ((=) initial) run_step p \<Longrightarrow> replay p es = Inr q \<Longrightarrow> reach ((=) initial) run_step q"
proof (induction p es rule: replay.induct)
  case (2 p event_type spec es)
  then obtain r where r: "reduce_run_event p event_type spec = Inr r" and "replay r es = Inr q"
    by auto
  moreover from r have "run_step p r" by (auto simp: run_step_def)
  ultimately show ?case using 2 by (auto intro: reach.reach_step)
qed simp

lemma replay_inv: "replay initial es = Inr p \<Longrightarrow> lifecycle_inv p"
  by (rule run.reach_inv [OF replay_reach]) (auto intro: reach.reach_start)

lemma replay_snoc:
  "replay p (es @ [(t, spec)]) = bindE (replay p es) (\<lambda>q. reduce_run_event q t spec)"
proof (induction p es rule: replay.induct)
  case (1 p)
  then show ?case by (cases "reduce_run_event p t spec") auto
next
  case (2 p u sp es)
  then show ?case by (cases "reduce_run_event p u sp") auto
qed

text \<open>The prefix tests on event types are the prefix tests on their names.\<close>

lemma event_of_name_cases:
  obtains "event_of_name t = OtherEvent t" "map_of event_names t = None"
  | e where "event_of_name t = e" "(t, e) \<in> set event_names"
  by (cases "map_of event_names t") (auto simp: event_of_name_def dest: map_of_SomeD)

lemma is_adapter_event_name: "is_adapter_event (event_of_name t) \<longleftrightarrow> prefix ''adapter.'' t"
  by (rule event_of_name_cases [of t]) (auto simp: event_names_def)

lemma is_tool_event_name: "is_tool_event (event_of_name t) \<longleftrightarrow> prefix ''tool.'' t"
  by (rule event_of_name_cases [of t]) (auto simp: event_names_def)

lemma is_no_model_read_event_name:
  "is_no_model_read_event (event_of_name t) \<longleftrightarrow> prefix ''no-model.read.'' t"
  by (rule event_of_name_cases [of t]) (auto simp: event_names_def)

section \<open>Properties\<close>

text \<open>C1: a replayed run that reached \<open>SUCCEEDED\<close> completed its lifecycle. A no-model run has
  exactly its three scoped reads and no other tool call, all completed with a passing check and three
  different content digests, and never touched an adapter or exhausted its budget; any other run has a completed adapter, no adapter
  failure, no exhausted budget and no tool call left open.\<close>

theorem run_success_sound:
  assumes "replay initial es = Inr p" and "state p = SUCCEEDED"
  shows "if no_model_authorized p
         then dict_keys (no_model_scope_entries p) = set scope_slots \<and> dict_keys (tool_states p) = set scope_slots
           \<and> dict_keys (no_model_results p) = set scope_slots
           \<and> (\<forall>slot \<in> set scope_slots. \<exists>d. map_of (tool_states p) slot = Some (Completed, d))
           \<and> (\<forall>slot \<in> set scope_slots. \<exists>c. map_of (no_model_results p) slot = Some (c, ''pass''))
           \<and> inj_on (\<lambda>slot. fst (the (map_of (no_model_results p) slot))) (set scope_slots)
           \<and> \<not> adapter_completed p \<and> \<not> adapter_failed p \<and> \<not> budget_exhausted p
         else adapter_completed p \<and> \<not> adapter_failed p \<and> \<not> budget_exhausted p
           \<and> \<not> open_tools p"
proof -
  have inv: "lifecycle_inv p" using assms(1) by (rule replay_inv)
  show ?thesis
  proof (cases "no_model_authorized p")
    case True
    with inv assms(2) have st: "no_model_started p" and rdy: "no_model_success_ready p"
      by (auto simp: lifecycle_inv_def)
    with inv have sc: "dict_keys (no_model_scope_entries p) = set scope_slots"
      by (auto simp: lifecycle_inv_def)
    have tl: "\<exists>d. map_of (tool_states p) k = Some (Completed, d)" if "k \<in> set scope_slots" for k
      using that sc rdy inv st
      by (force simp: lifecycle_inv_def no_model_success_ready_def)
    have rs: "\<exists>c. map_of (no_model_results p) k = Some (c, ''pass'')" if "k \<in> set scope_slots" for k
    proof -
      from that sc rdy have "k \<in> dom (map_of (no_model_results p))"
        by (simp add: no_model_success_ready_def dict_keys_dom)
      then obtain c h where ch: "map_of (no_model_results p) k = Some (c, h)" by auto
      with rdy have "h = ''pass''"
        by (auto simp: no_model_success_ready_def list_all_iff dest!: map_of_SomeD)
      with ch show ?thesis by auto
    qed
    have keys: "dict_keys (no_model_results p) = set scope_slots" "dict_keys (tool_states p) = set scope_slots"
      using rdy sc by (simp_all add: no_model_success_ready_def)
    have "inj_on (\<lambda>k. fst (the (map_of (no_model_results p) k))) (dict_keys (no_model_results p))"
    proof (rule inj_on_dict_values [where g = fst])
      show "distinct (map fst (no_model_results p))"
        using inv by (intro wf_distinct lifecycle_inv_wf)
      show "card ((\<lambda>x. fst (snd x)) ` set (no_model_results p)) = card (dict_keys (no_model_results p))"
        unfolding keys using rdy
        by (simp add: no_model_success_ready_def case_prod_beta) (simp add: scope_slots_def)
    qed
    moreover have "\<not> adapter_completed p \<and> \<not> adapter_failed p \<and> \<not> budget_exhausted p"
      using inv st by (simp add: lifecycle_inv_def)
    ultimately show ?thesis using keys True sc tl rs by simp
  next
    case False
    with inv assms(2) show ?thesis by (auto simp: lifecycle_inv_def)
  qed
qed


text \<open>Concrete runs used below: a tool run and a no-model run up to success.\<close>

definition tool_requested :: "(string \<times> obj) list" where
  "tool_requested =
     [(''run.received'', []), (''run.validated'', []), (''plan.created'', []),
      (''policy.allowed'', []), (''adapter.started'', []),
      (''tool.requested'', [(''subjectId'', JStr ''t1''), (''subjectDigest'', JStr ''d1'')])]"

definition tool_run :: "(string \<times> obj) list" where
  "tool_run = tool_requested @
     [(''tool.allowed'', [(''subjectId'', JStr ''t1''), (''subjectDigest'', JStr ''d1'')]),
      (''tool.completed'', [(''subjectId'', JStr ''t1''), (''subjectDigest'', JStr ''d1''),
         (''resultDigest'', JStr ''r1'')]),
      (''adapter.completed'', []), (''run.succeeded'', [])]"

definition no_model_start :: "(string \<times> obj) list" where
  "no_model_start =
     [(''run.received'', []), (''run.validated'', []), (''plan.created'', []),
      (''no-model.policy.allowed'', [(''subjectDigest'', JStr ''plan'')]),
      (''no-model.workflow.started'', [(''subjectDigest'', JStr ''plan''),
         (''scopeEntries'', JList
            [JObj [(''slot'', JStr ''slot-1''), (''entryDigest'', JStr ''e1'')],
             JObj [(''slot'', JStr ''slot-2''), (''entryDigest'', JStr ''e2'')],
             JObj [(''slot'', JStr ''slot-3''), (''entryDigest'', JStr ''e3'')]])])]"

definition no_model_read :: "string \<Rightarrow> string \<Rightarrow> string \<Rightarrow> (string \<times> obj) list" where
  "no_model_read slot entry content =
     (let b = [(''subjectId'', JStr slot), (''subjectDigest'', JStr entry), (''scopeSlot'', JStr slot), (''entryDigest'', JStr entry)] in
      [(''no-model.read.requested'', b), (''no-model.read.allowed'', b), (''no-model.read.started'', b),
       (''no-model.read.completed'', b @ [(''resultDigest'', JStr content), (''contentDigest'', JStr content), (''headingCheck'', JStr ''pass'')])])"

definition no_model_run :: "(string \<times> obj) list" where
  "no_model_run = no_model_start @ no_model_read ''slot-1'' ''e1'' ''c1'' @ no_model_read ''slot-2'' ''e2'' ''c2''
     @ no_model_read ''slot-3'' ''e3'' ''c3'' @ [(''no-model.workflow.succeeded'', [])]"

theorem run_success_sound_witness:
  "(\<exists>p. replay initial tool_run = Inr p \<and> state p = SUCCEEDED \<and> adapter_completed p \<and> \<not> adapter_failed p \<and> \<not> open_tools p)
   \<and> (\<exists>p. replay initial no_model_run = Inr p \<and> state p = SUCCEEDED \<and> no_model_authorized p
        \<and> dict_keys (tool_states p) = {''slot-1'', ''slot-2'', ''slot-3''} \<and> \<not> adapter_completed p)"
proof
  have "returns (replay initial tool_run)
      (\<lambda>p. state p = SUCCEEDED \<and> \<not> no_model_authorized p)"
    by code_simp
  then obtain p where "replay initial tool_run = Inr p" "state p = SUCCEEDED"
    "\<not> no_model_authorized p" by (auto elim: returnsE)
  with run_success_sound [of tool_run p]
  show "\<exists>p. replay initial tool_run = Inr p \<and> state p = SUCCEEDED \<and> adapter_completed p \<and> \<not> adapter_failed p \<and> \<not> open_tools p" by auto
next
  have "returns (replay initial no_model_run) (\<lambda>p. state p = SUCCEEDED \<and> no_model_authorized p)"
    by code_simp
  then obtain p where "replay initial no_model_run = Inr p" "state p = SUCCEEDED" "no_model_authorized p" by (auto elim: returnsE)
  with run_success_sound [of no_model_run p]
  show "\<exists>p. replay initial no_model_run = Inr p \<and> state p = SUCCEEDED \<and> no_model_authorized p
        \<and> dict_keys (tool_states p) = {''slot-1'', ''slot-2'', ''slot-3''} \<and> \<not> adapter_completed p"
    by (auto simp: scope_slots_def)
qed

text \<open>C7: every accepted event is a step of the abstract lifecycle \<open>lifecycle_step\<close>, and it moves
  the run along an edge of the state graph; nothing else can happen to a projection.\<close>

theorem reduce_refines_lifecycle:
  assumes "wf_projection p" and "reduce_run_event p t spec = Inr q"
  shows "lifecycle_step p q \<and> (state p, state q) \<in> run_edges \<and> wf_projection q"
proof -
  have step: "lifecycle_step p q"
    using assms by (auto simp: reduce_run_event_def intro: reduce_event_step)
  moreover from step have "(state p, state q) \<in> run_edges"
    by (cases rule: lifecycle_step.cases) (auto simp: run_edges_def)
  moreover from step assms(1) have "wf_projection q"
  proof (cases rule: lifecycle_step.cases)
    case (tool w)
    with assms(1) show ?thesis by (simp only: tool_step_wf)
  qed (use wf_distinct [OF assms(1)] in auto)
  ultimately show ?thesis by blast
qed

theorem reduce_refines_lifecycle_witness:
  "\<exists>q. reduce_run_event initial ''run.received'' [] = Inr q \<and> lifecycle_step initial q"
proof -
  have "returns (reduce_run_event initial ''run.received'' []) (\<lambda>q. state q = RECEIVED)"
    by code_simp
  then obtain q where q: "reduce_run_event initial ''run.received'' [] = Inr q"
    by (auto elim: returnsE)
  have "wf_projection initial" by (simp add: initial_def wf_projection_def)
  from reduce_refines_lifecycle [OF this q] q show ?thesis by blast
qed

text \<open>A terminal run is final: every further event is refused as an illegal transition.\<close>

lemma terminal_absorbs:
  assumes "state p \<in> TERMINAL_STATES"
  shows "reduce_run_event p t spec = Inl (RuntimeStateError ''ECO_STATE_TRANSITION'')"
  using assms
  by (auto simp: TERMINAL_STATES_def reduce_run_event_def reduce_event_def reduce_abort_def
      Let_def locals_of_def)

text \<open>Tool evidence is append-only. An accepted event never removes a tool call or a read,
  never changes the digest it was requested with, and changes its phase at most along
  \<open>phase_edges\<close>, so a denied, cancelled, failed or completed operation stays so.\<close>

lemma tool_evidence_monotone:
  assumes "wf_projection p" and "reduce_run_event p t spec = Inr q"
    and "map_of (tool_states p) k = Some (ph, d)"
  shows "\<exists>ph'. map_of (tool_states q) k = Some (ph', d) \<and> (ph' = ph \<or> (ph, ph') \<in> phase_edges)"
proof -
  note dist = wf_distinct [OF assms(1)]
  have "lifecycle_step p q"
    using assms(1,2) unfolding reduce_run_event_def by (rule reduce_event_step)
  then show ?thesis
  proof (cases rule: lifecycle_step.cases)
    case (tool w)
    then have w: "map_of (tool_states q) = map_of (tool_states w)"
      using tool_step_wf [OF tool(3) assms(1), of RUNNING] by simp
    from tool(3) show ?thesis
    proof (cases rule: tool_step.cases)
      case (complete_read k' d' c h)
      have "(Started, Completed) \<in> phase_edges" by (simp add: phase_edges_def)
      with complete_read w assms(3) show ?thesis by (cases "k = k'") simp_all
    qed (use w assms(3) in auto)
  qed (use assms(1,3) dist in simp_all)
qed

text \<open>A no-model authorization excludes the model path. Once a run is authorized without a
  model, no adapter, tool, artifact or budget event and no \<open>run.succeeded\<close> is accepted.\<close>

lemma no_model_excludes_adapters:
  assumes "replay initial es = Inr p" and "no_model_authorized p"
    and "prefix ''adapter.'' t \<or> prefix ''tool.'' t
       \<or> t \<in> {''artifact.recorded'', ''budget.exhausted'', ''run.succeeded'', ''run.exhausted''}"
  shows "\<exists>code. reduce_run_event p t spec = Inl (RuntimeStateError code)"
proof -
  let ?e = "event_of_name t"
  have inv: "lifecycle_inv p" using assms(1) by (rule replay_inv)
  then have wf: "wf_projection p" by (rule lifecycle_inv_wf)
  have e: "is_adapter_event ?e \<or> is_tool_event ?e
      \<or> ?e \<in> {ArtifactRecorded, BudgetExhausted, RunSucceeded, RunExhausted}"
    using assms(3) by (auto simp: is_adapter_event_name is_tool_event_name)
      (auto simp: event_of_name_def event_names_def)
  show ?thesis
  proof (cases "state p = RUNNING")
    case True
    with inv assms(2) have "no_model_started p" by (auto simp: lifecycle_inv_def)
    with True e wf show ?thesis
      by (auto simp: reduce_run_event_def reduce_event_def reduce_running_def
          reduce_no_model_running_def)
  next
    case False
    with inv assms(2) have "state p \<notin> {NEW, RECEIVED, VALIDATED, PLANNED}"
      by (auto simp: lifecycle_inv_def)
    with False e wf assms(2) show ?thesis
      by (cases ?e) (auto simp: reduce_run_event_def reduce_event_def reduce_authorized_def
          reduce_abort_def Let_def)
  qed
qed

text \<open>A started run can always be stopped. Outside \<open>NEW\<close> and the terminal states,
  \<open>run.failed\<close> and \<open>run.cancelled\<close> are accepted exactly when no tool operation is open.\<close>

lemma run_can_be_stopped:
  assumes "replay initial es = Inr p" and "state p \<notin> TERMINAL_STATES" and "state p \<noteq> NEW"
    and "(t, s) \<in> {(''run.failed'', FAILED), (''run.cancelled'', CANCELLED)}"
  shows "if open_tools p then reduce_run_event p t spec = Inl (RuntimeStateError ''ECO_TOOL_EVENT_ORDER'')
         else \<exists>q. reduce_run_event p t spec = Inr q \<and> state q = s"
proof -
  have inv: "lifecycle_inv p" using assms(1) by (rule replay_inv)
  then have wf: "wf_projection p" by (rule lifecycle_inv_wf)
  have names: "event_of_name ''run.failed'' = RunFailed" "event_of_name ''run.cancelled'' = RunCancelled"
    by (simp_all add: event_of_name_def event_names_def)
  show ?thesis
  proof (cases "state p = RUNNING")
    case True
    from assms(4) show ?thesis
      by (elim insertE emptyE)
        (simp_all add: True wf names reduce_run_event_def reduce_event_def reduce_running_def
          reduce_no_model_running_def reduce_adapter_running_def)
  next
    case False
    then have st: "state p \<in> {RECEIVED, VALIDATED, PLANNED, AUTHORIZED}"
      using assms(2,3) by (cases "state p") (auto simp: TERMINAL_STATES_def)
    with inv have "tool_states p = []" unfolding lifecycle_inv_def by blast
    then have op: "\<not> open_tools p" by (simp add: open_tools_def)
    from st assms(4) show ?thesis
      by (elim insertE emptyE)
        (simp_all add: op wf names reduce_run_event_def reduce_event_def reduce_planned_def
          reduce_authorized_def reduce_abort_def Let_def)
  qed
qed

text \<open>The projection is canonical: dictionaries with the same contents, in whatever order they
  were filled, give the same projection, and reading the projection back gives those contents.\<close>

lemma projection_canonical:
  assumes "distinct (map fst (tool_states v))" and "distinct (map fst (tool_states w))"
    and "map_of (tool_states v) = map_of (tool_states w)"
    and "v\<lparr>tool_states := []\<rparr> = w\<lparr>tool_states := []\<rparr>"
  shows "from_parts v = from_parts w \<and> map_of (tool_map (from_parts v)) = map_of (tool_states v)"
proof -
  have "sorted_items (tool_states v) = sorted_items (tool_states w)"
    using assms(1-3) by (rule sorted_items_canonical)
  moreover have "from_parts v = (from_parts (v\<lparr>tool_states := []\<rparr>))\<lparr>tool_states := sorted_items (tool_states v)\<rparr>"
    for v by (simp add: from_parts_def)
  ultimately have "from_parts v = from_parts w" using assms(4) by metis
  moreover have "map_of (tool_map (from_parts v)) = map_of (tool_states v)"
    using assms(1) by (simp add: tool_map_def from_parts_def)
  ultimately show ?thesis by blast
qed

end
