(* ===== verification/Eco_Run_Chain.thy ===== *)
theory Eco_Run_Chain
  imports Eco_Run_Reducer
begin

text \<open>
  The tamper-evident event chain of one run, \<open>src/src/eco_runtime/state.py\<close>: the table of event
  semantics, the constructor and \<open>append\<close> of \<open>RunEventChain\<close>.

  An event is a record of its metadata fields and of the spec fields \<open>type\<close> and \<open>outcome\<close>; the
  other spec keys stay a JSON object. Times are instants (microseconds) after parsing. The schema
  validation \<open>validate_record\<close> is third-party code and a parameter (\<open>valid\<close>), the digest of a
  record is the parameter \<open>dig\<close>, and an opaque capability token is its object identity.

  Lemmas: a chain built by the operations is linked, contiguous, time-ordered, free of repeated
  ids, and its stored state is the replay of its events; the chain head determines the events.
\<close>

section \<open>Events and their semantics\<close>

record run_event =
  ev_id :: string
  ev_runId :: string
  ev_sequence :: int
  ev_previousEventDigest :: "string option"
  ev_occurredAt :: int
  ev_producer :: string
  ev_producerIssuer :: string
  ev_type :: string
  ev_outcome :: string
  ev_spec :: obj

definition EVENT_SEMANTICS :: "(string \<times> string \<times> string list) list" where
  "EVENT_SEMANTICS =
     [(''run.received'', ''pending'', [''runtime'']),
      (''run.validated'', ''success'', [''runtime'']),
      (''plan.created'', ''success'', [''runtime'']),
      (''policy.allowed'', ''success'', [''policy'']),
      (''policy.denied'', ''denied'', [''policy'']),
      (''no-model.policy.allowed'', ''success'', [''policy'']),
      (''no-model.policy.denied'', ''denied'', [''policy'']),
      (''adapter.started'', ''pending'', [''adapter'']),
      (''adapter.completed'', ''success'', [''adapter'']),
      (''adapter.failed'', ''failed'', [''adapter'']),
      (''no-model.workflow.started'', ''pending'', [''runtime'']),
      (''no-model.read.requested'', ''pending'', [''runtime'']),
      (''no-model.read.allowed'', ''success'', [''policy'']),
      (''no-model.read.started'', ''pending'', [''runtime'']),
      (''no-model.read.denied'', ''denied'', [''policy'']),
      (''no-model.read.completed'', ''success'', [''broker'']),
      (''no-model.read.failed'', ''failed'', [''runtime'', ''broker'']),
      (''no-model.workflow.succeeded'', ''success'', [''runtime'']),
      (''tool.requested'', ''pending'', [''runtime'']),
      (''tool.allowed'', ''success'', [''policy'']),
      (''tool.denied'', ''denied'', [''policy'']),
      (''tool.cancelled'', ''cancelled'', [''runtime'']),
      (''tool.completed'', ''success'', [''broker'']),
      (''tool.failed'', ''failed'', [''broker'']),
      (''artifact.recorded'', ''success'', [''runtime'', ''broker'', ''adapter'']),
      (''budget.exhausted'', ''exhausted'', [''runtime'']),
      (''run.succeeded'', ''success'', [''runtime'']),
      (''run.failed'', ''failed'', [''runtime'']),
      (''run.cancelled'', ''cancelled'', [''runtime'']),
      (''run.exhausted'', ''exhausted'', [''runtime''])]"

section \<open>The chain\<close>

text \<open>
  \<open>parts\<close> holds the state, tool, adapter, budget and no-model fields of the chain object; its
  dictionaries are unordered, unlike those of a projection.
\<close>

record chain =
  run_id :: string
  producer_capabilities :: "(string \<times> string \<times> nat option) list"
  events :: "run_event list"
  event_ids :: "string set"
  head_digest :: "string option"
  occurred_at :: "int option"
  parts :: projection

definition new_chain :: "string \<Rightarrow> (string \<times> string \<times> nat option) list \<Rightarrow> chain result" where
  "new_chain rid caps =
     (if rid = [] then Inl PyValueError
      else if dict_keys caps \<noteq> {''runtime'', ''policy'', ''broker'', ''adapter''}
      then Inl PyValueError
      else if list_ex (\<lambda>(_, issuer, token). issuer = [] \<or> token = None) caps
      then Inl PyValueError
      else if \<not> distinct (map (\<lambda>(_, _, token). token) caps) then Inl PyValueError
      else Inr \<lparr>run_id = rid, producer_capabilities = caps, events = [], event_ids = {},
                head_digest = None, occurred_at = None, parts = initial\<rparr>)"

definition state_of_chain :: "chain \<Rightarrow> run_state" where
  "state_of_chain c = state (parts c)"

text \<open>The checks of \<open>append\<close> on the metadata, in the order of the code.\<close>

definition check_event :: "(run_event \<Rightarrow> bool) \<Rightarrow> chain \<Rightarrow> run_event \<Rightarrow> nat option \<Rightarrow> unit result" where
  "check_event valid c ev capability =
     (if \<not> valid ev then Inl (RuntimeStateError ''ECO_EVENT_INVALID'')
      else if state_of_chain c \<in> TERMINAL_STATES then Inl (RuntimeStateError ''ECO_RUN_TERMINAL'')
      else if ev_runId ev \<noteq> run_id c then Inl (RuntimeStateError ''ECO_EVENT_RUN_MISMATCH'')
      else if ev_id ev \<in> event_ids c then Inl (RuntimeStateError ''ECO_EVENT_ID_REUSED'')
      else if ev_sequence ev \<noteq> int (length (events c)) + 1
      then Inl (RuntimeStateError ''ECO_EVENT_SEQUENCE'')
      else if ev_previousEventDigest ev \<noteq> head_digest c
      then Inl (RuntimeStateError ''ECO_EVENT_CHAIN_MISMATCH'')
      else if (case occurred_at c of None \<Rightarrow> False | Some t \<Rightarrow> ev_occurredAt ev < t)
      then Inl (RuntimeStateError ''ECO_EVENT_TIME_REVERSED'')
      else (case map_of EVENT_SEMANTICS (ev_type ev) of
              None \<Rightarrow> Inl PyKeyError
            | Some (expected_outcome, producers) \<Rightarrow>
                if ev_outcome ev \<noteq> expected_outcome
                then Inl (RuntimeStateError ''ECO_EVENT_OUTCOME'')
                else if ev_producer ev \<notin> set producers
                then Inl (RuntimeStateError ''ECO_EVENT_PRODUCER'')
                else (case map_of (producer_capabilities c) (ev_producer ev) of
                        None \<Rightarrow> Inl PyKeyError
                      | Some (trusted_issuer, trusted_capability) \<Rightarrow>
                          guardE (capability = trusted_capability
                                  \<and> ev_producerIssuer ev = trusted_issuer)
                            (RuntimeStateError ''ECO_EVENT_PRODUCER_UNTRUSTED''))))"

definition append_event ::
    "(run_event \<Rightarrow> bool) \<Rightarrow> (run_event \<Rightarrow> string) \<Rightarrow> chain \<Rightarrow> run_event \<Rightarrow> nat option
      \<Rightarrow> (run_state \<times> chain) result" where
  "append_event valid dig c ev capability =
     bindE (check_event valid c ev capability) (\<lambda>_.
     bindE (reduce_run_event (from_parts (parts c)) (ev_type ev) (ev_spec ev)) (\<lambda>next_projection.
       Inr (state next_projection,
            c\<lparr>events := events c @ [ev],
              event_ids := insert (ev_id ev) (event_ids c),
              head_digest := Some (dig ev),
              occurred_at := Some (ev_occurredAt ev),
              parts := locals_of next_projection\<rparr>)))"

section \<open>The chain invariant\<close>

definition event_input :: "run_event \<Rightarrow> string \<times> obj" where
  "event_input ev = (ev_type ev, ev_spec ev)"

text \<open>An event is authentic for a chain: its type allows its outcome and producer, and the issuer
  is the one configured for the producer.\<close>

definition authentic :: "chain \<Rightarrow> run_event \<Rightarrow> bool" where
  "authentic c ev \<longleftrightarrow>
     (\<exists>producers token. map_of EVENT_SEMANTICS (ev_type ev) = Some (ev_outcome ev, producers)
        \<and> ev_producer ev \<in> set producers
        \<and> map_of (producer_capabilities c) (ev_producer ev) = Some (ev_producerIssuer ev, token))"

definition chain_inv :: "(run_event \<Rightarrow> string) \<Rightarrow> chain \<Rightarrow> bool" where
  "chain_inv dig c \<longleftrightarrow>
     linked ev_previousEventDigest dig None (events c)
     \<and> head_digest c = chain_head dig None (events c)
     \<and> map ev_sequence (events c) = map (\<lambda>i. int i + 1) [0..<length (events c)]
     \<and> distinct (map ev_id (events c)) \<and> event_ids c = ev_id ` set (events c)
     \<and> sorted (map ev_occurredAt (events c))
     \<and> occurred_at c = (if events c = [] then None else Some (ev_occurredAt (last (events c))))
     \<and> list_all (\<lambda>ev. ev_runId ev = run_id c \<and> authentic c ev) (events c)
     \<and> replay initial (map event_input (events c)) = Inr (from_parts (parts c))
     \<and> wf_projection (parts c)"

text \<open>What a successful \<open>append\<close> has checked and does.\<close>

lemma check_eventD:
  assumes "check_event valid c ev capability = Inr u"
  shows "valid ev" and "state_of_chain c \<notin> TERMINAL_STATES" and "ev_runId ev = run_id c"
    and "ev_id ev \<notin> event_ids c" and "ev_sequence ev = int (length (events c)) + 1"
    and "ev_previousEventDigest ev = head_digest c"
    and "\<And>t. occurred_at c = Some t \<Longrightarrow> t \<le> ev_occurredAt ev"
    and "authentic c ev"
    and "map_of (producer_capabilities c) (ev_producer ev) = Some (ev_producerIssuer ev, capability)"
  using assms
  by (auto simp: check_event_def authentic_def split: if_splits option.splits)

lemma append_eventE:
  assumes "append_event valid dig c ev capability = Inr (s, d)"
  obtains q where "check_event valid c ev capability = Inr ()"
    and "reduce_run_event (from_parts (parts c)) (ev_type ev) (ev_spec ev) = Inr q"
    and "s = state q"
    and "d = c\<lparr>events := events c @ [ev], event_ids := insert (ev_id ev) (event_ids c),
              head_digest := Some (dig ev), occurred_at := Some (ev_occurredAt ev),
              parts := locals_of q\<rparr>"
  using assms by (auto simp: append_event_def)

lemma from_parts_wf [simp]: "wf_projection p \<Longrightarrow> from_parts p = p"
  by (simp add: from_parts_def)

lemma new_chainD:
  assumes "new_chain rid caps = Inr c"
  shows "c = \<lparr>run_id = rid, producer_capabilities = caps, events = [], event_ids = {},
              head_digest = None, occurred_at = None, parts = initial\<rparr>"
  using assms unfolding new_chain_def by (simp split: if_split_asm)

lemma new_chain_inv: "new_chain rid caps = Inr c \<Longrightarrow> chain_inv dig c"
  by (drule new_chainD) (simp add: chain_inv_def initial_def wf_projection_def)

lemma authentic_frame [simp]:
  "authentic (c\<lparr>events := es, event_ids := is, head_digest := h, occurred_at := t, parts := ps\<rparr>) ev
     = authentic c ev"
  by (simp add: authentic_def)

lemma sorted_append_last:
  "sorted (xs @ [y]) \<longleftrightarrow> sorted xs \<and> (xs \<noteq> [] \<longrightarrow> last xs \<le> (y::int))"
proof (induction xs)
  case (Cons x xs)
  have "x \<le> y" if "xs \<noteq> []" "\<forall>z\<in>set xs. x \<le> z" "last xs \<le> y"
    using that last_in_set [of xs] order.trans [of x "last xs" y] by blast
  with Cons show ?case by auto
qed simp

lemma append_event_inv:
  assumes "chain_inv dig c" and "append_event valid dig c ev capability = Inr (s, d)"
  shows "chain_inv dig d"
proof -
  from assms(2) obtain q where chk: "check_event valid c ev capability = Inr ()"
    and red: "reduce_run_event (from_parts (parts c)) (ev_type ev) (ev_spec ev) = Inr q"
    and d: "d = c\<lparr>events := events c @ [ev], event_ids := insert (ev_id ev) (event_ids c),
              head_digest := Some (dig ev), occurred_at := Some (ev_occurredAt ev),
              parts := locals_of q\<rparr>"
    by (rule append_eventE)
  note ck = check_eventD [OF chk]
  have "replay initial (map event_input (events c)) = Inr (from_parts (parts c))"
    using assms(1) by (simp add: chain_inv_def)
  with red have rep: "replay initial (map event_input (events c @ [ev])) = Inr q"
    by (simp add: event_input_def replay_snoc)
  then have wf: "wf_projection q" by (intro lifecycle_inv_wf replay_inv)
  have "sorted (map ev_occurredAt (events c @ [ev]))"
    using assms(1) ck(7) unfolding map_append list.map sorted_append_last
    by (simp add: chain_inv_def last_map)
  with assms(1) ck rep wf show ?thesis
    unfolding d chain_inv_def by simp
qed

definition chain_step :: "(run_event \<Rightarrow> bool) \<Rightarrow> (run_event \<Rightarrow> string) \<Rightarrow> chain \<Rightarrow> chain \<Rightarrow> bool" where
  "chain_step valid dig c d \<longleftrightarrow> (\<exists>ev capability s. append_event valid dig c ev capability = Inr (s, d))"

definition chain_start :: "chain \<Rightarrow> bool" where
  "chain_start c \<longleftrightarrow> (\<exists>rid caps. new_chain rid caps = Inr c)"

interpretation chain: inv_system chain_start "chain_step valid dig" "chain_inv dig"
  for valid :: "run_event \<Rightarrow> bool" and dig :: "run_event \<Rightarrow> string"
  by unfold_locales (auto simp: chain_start_def chain_step_def intro: new_chain_inv append_event_inv)

interpretation chain_log: hash_log "chain_inv dig" events head_digest ev_previousEventDigest dig None
  for dig :: "run_event \<Rightarrow> string"
  by unfold_locales (auto simp: chain_inv_def)

section \<open>Properties\<close>

text \<open>C21: in every reachable chain the stored state is the replay of the recorded events from the
  initial projection, the sequence numbers are 1, 2, \<dots>, identifiers are never reused, times never
  go backwards, and each event belongs to the run and has the outcome, producer and issuer that its
  type and the configured capabilities prescribe.\<close>

theorem chain_is_replay:
  assumes "reach chain_start (chain_step valid dig) c"
  shows "replay initial (map event_input (events c)) = Inr (parts c)
     \<and> map ev_sequence (events c) = map (\<lambda>i. int i + 1) [0..<length (events c)]
     \<and> distinct (map ev_id (events c)) \<and> sorted (map ev_occurredAt (events c))
     \<and> (\<forall>ev \<in> set (events c). ev_runId ev = run_id c \<and> authentic c ev)"
  using chain.reach_inv [OF assms] by (auto simp: chain_inv_def list_all_iff)

text \<open>C22: tamper evidence. Two reachable chains with the same head digest hold the same events, as
  long as the digest does not collide on the events of the two chains.\<close>

theorem chain_head_determines_events:
  assumes "reach chain_start (chain_step valid dig) c" and "reach chain_start (chain_step valid dig) d"
    and "head_digest c = head_digest d"
    and "inj_on dig (set (events c) \<union> set (events d))"
  shows "events c = events d"
  using assms by (intro chain_log.same_head_same_log) (auto intro: chain.reach_inv)

text \<open>The chain only grows by authorized events: a successful append was made with the
  capability token configured for the event's producer, on a run that was not terminal, and adds
  exactly this event.\<close>

lemma append_authorized:
  assumes "append_event valid dig c ev capability = Inr (s, d)"
  shows "map_of (producer_capabilities c) (ev_producer ev) = Some (ev_producerIssuer ev, capability)
     \<and> state_of_chain c \<notin> TERMINAL_STATES \<and> events d = events c @ [ev]
     \<and> head_digest d = Some (dig ev) \<and> s = state_of_chain d"
proof -
  from assms obtain q where chk: "check_event valid c ev capability = Inr ()" and s: "s = state q"
    and d: "d = c\<lparr>events := events c @ [ev], event_ids := insert (ev_id ev) (event_ids c),
              head_digest := Some (dig ev), occurred_at := Some (ev_occurredAt ev),
              parts := locals_of q\<rparr>"
    by (rule append_eventE)
  from check_eventD [OF chk] show ?thesis
    by (simp add: d s state_of_chain_def locals_of_def)
qed


text \<open>A chain with one recorded event, over a digest that reads the event's identifier.\<close>

definition demo_caps :: "(string \<times> string \<times> nat option) list" where
  "demo_caps = [(''runtime'', ''rt'', Some 1), (''policy'', ''pol'', Some 2),
     (''broker'', ''br'', Some 3), (''adapter'', ''ad'', Some 4)]"

definition demo_event :: run_event where
  "demo_event = \<lparr>ev_id = ''e1'', ev_runId = ''run'', ev_sequence = 1, ev_previousEventDigest = None,
     ev_occurredAt = 5, ev_producer = ''runtime'', ev_producerIssuer = ''rt'',
     ev_type = ''run.received'', ev_outcome = ''pending'', ev_spec = []\<rparr>"

lemma demo_append:
  "returns (new_chain ''run'' demo_caps) (\<lambda>c.
     returns (append_event (\<lambda>_. True) ev_id c demo_event (Some 1)) (\<lambda>(s, d). events d = [demo_event]))"
  by code_simp

lemma demo_chain:
  obtains c d s where "new_chain ''run'' demo_caps = Inr c"
    and "append_event (\<lambda>_. True) ev_id c demo_event (Some 1) = Inr (s, d)"
    and "events d = [demo_event]"
    and "reach chain_start (chain_step (\<lambda>_. True) ev_id) d"
proof -
  from demo_append obtain c s d where c: "new_chain ''run'' demo_caps = Inr c"
    and a: "append_event (\<lambda>_. True) ev_id c demo_event (Some 1) = Inr (s, d)"
    and e: "events d = [demo_event]"
    by (auto elim!: returnsE)
  have "reach chain_start (chain_step (\<lambda>_. True) ev_id) c"
    by (rule reach.reach_start) (use c in \<open>auto simp: chain_start_def\<close>)
  moreover have "chain_step (\<lambda>_. True) ev_id c d" using a by (auto simp: chain_step_def)
  ultimately have "reach chain_start (chain_step (\<lambda>_. True) ev_id) d" by (rule reach.reach_step)
  with c a e that show thesis by blast
qed

theorem chain_is_replay_witness:
  "\<exists>c. reach chain_start (chain_step (\<lambda>_. True) ev_id) c \<and> events c = [demo_event]
     \<and> replay initial [(''run.received'', [])] = Inr (parts c)"
proof -
  obtain d where d: "events d = [demo_event]" "reach chain_start (chain_step (\<lambda>_. True) ev_id) d"
    by (rule demo_chain)
  from chain_is_replay [OF d(2)] d show ?thesis
    by (intro exI [of _ d]) (simp add: event_input_def demo_event_def)
qed

theorem chain_head_determines_events_witness:
  "\<exists>c d. reach chain_start (chain_step (\<lambda>_. True) ev_id) c
     \<and> reach chain_start (chain_step (\<lambda>_. True) ev_id) d
     \<and> head_digest c = head_digest d \<and> events c = events d \<and> events c = [demo_event]"
proof -
  obtain d where d: "events d = [demo_event]" "reach chain_start (chain_step (\<lambda>_. True) ev_id) d"
    by (rule demo_chain)
  from chain_head_determines_events [OF d(2) d(2)] d show ?thesis by (intro exI [of _ d]) simp
qed

end
