(* ===== verification/Eco_Budget.thy ===== *)
theory Eco_Budget
  imports Eco_Prelude
begin

text \<open>
  The in-process budget ledger of a run, \<open>src/src/eco_runtime/budget.py\<close>: the ledger bound to the
  limits of one plan, tool-request and byte reservations, their commit and release, and the
  all-or-nothing accounting of model usage. A clock reading is an argument (nanoseconds) of each
  operation that reads the clock. A failed operation leaves the ledger as it was.

  Lemmas: every operation keeps the ledger invariant (usage plus reservations within the limits,
  the reserved total is the sum of the open reservations), and the behaviour of each operation.
\<close>

record budget_limits =
  maxDurationSeconds :: int
  maxToolRequests :: int
  maxInputBytes :: int
  maxOutputBytes :: int
  maxModelRequests :: int
  maxTotalTokens :: int
  maxCostMicrousd :: int

record ledger =
  ledger_run_id :: string
  ledger_plan_digest :: string
  limits :: budget_limits
  started_at :: int
  tool_requests :: int
  input_bytes :: int
  reserved_input_bytes :: int
  next_reservation_id :: int
  input_reservations :: "(int \<times> int) list"
  output_bytes :: int
  model_requests :: int
  total_tokens :: int
  cost_microusd :: int

record input_reservation =
  reservation_id :: int
  byte_count :: int
  finished :: bool

section \<open>Operations\<close>

definition new_ledger ::
    "string \<Rightarrow> string \<Rightarrow> budget_limits \<Rightarrow> int list \<Rightarrow> int \<Rightarrow> ledger result" where
  "new_ledger rid digest lim inputs now =
     (let l = \<lparr>ledger_run_id = rid, ledger_plan_digest = digest, limits = lim, started_at = now,
               tool_requests = 0, input_bytes = sum_list inputs, reserved_input_bytes = 0,
               next_reservation_id = 1, input_reservations = [], output_bytes = 0,
               model_requests = 0, total_tokens = 0, cost_microusd = 0\<rparr>
      in if input_bytes l > maxInputBytes lim then Inl (RuntimeBudgetError ''ECO_BUDGET_EXHAUSTED'')
         else Inr l)"

definition check_duration :: "ledger \<Rightarrow> int \<Rightarrow> unit result" where
  "check_duration l now =
     (if now - started_at l > maxDurationSeconds (limits l) * 1000000000
      then Inl (RuntimeBudgetError ''ECO_DURATION_EXHAUSTED'') else Inr ())"

definition reserve_tool_request :: "int \<Rightarrow> ledger \<Rightarrow> (int \<times> ledger) result" where
  "reserve_tool_request now l =
     bindE (check_duration l now) (\<lambda>_.
       if tool_requests l \<ge> maxToolRequests (limits l)
       then Inl (RuntimeBudgetError ''ECO_TOOL_BUDGET_EXHAUSTED'')
       else Inr (maxInputBytes (limits l) - input_bytes l - reserved_input_bytes l,
                 l\<lparr>tool_requests := tool_requests l + 1\<rparr>))"

definition reserve_input_bytes :: "int \<Rightarrow> int \<Rightarrow> ledger \<Rightarrow> (input_reservation \<times> ledger) result" where
  "reserve_input_bytes now n l =
     (if n < 0 then Inl PyValueError
      else bindE (check_duration l now) (\<lambda>_.
        if input_bytes l + reserved_input_bytes l + n > maxInputBytes (limits l)
        then Inl (RuntimeBudgetError ''ECO_INPUT_BUDGET_EXHAUSTED'')
        else Inr (\<lparr>reservation_id = next_reservation_id l, byte_count = n, finished = False\<rparr>,
                  l\<lparr>next_reservation_id := next_reservation_id l + 1,
                    input_reservations :=
                      dict_set (next_reservation_id l) n (input_reservations l),
                    reserved_input_bytes := reserved_input_bytes l + n\<rparr>)))"

definition release_input_reservation :: "int \<Rightarrow> ledger \<Rightarrow> ledger result" where
  "release_input_reservation rid l =
     (case map_of (input_reservations l) rid of
        None \<Rightarrow> Inl (RuntimeBudgetError ''ECO_BUDGET_RESERVATION_INVALID'')
      | Some n \<Rightarrow> Inr (l\<lparr>input_reservations := dict_pop rid (input_reservations l),
                         reserved_input_bytes := reserved_input_bytes l - n\<rparr>))"

definition commit_input_reservation :: "int \<Rightarrow> int \<Rightarrow> ledger \<Rightarrow> ledger result" where
  "commit_input_reservation rid actual l =
     (if actual < 0 then Inl PyValueError
      else case map_of (input_reservations l) rid of
        None \<Rightarrow> Inl (RuntimeBudgetError ''ECO_BUDGET_RESERVATION_INVALID'')
      | Some reserved \<Rightarrow>
          if actual > reserved then Inl (RuntimeBudgetError ''ECO_INPUT_BUDGET_EXHAUSTED'')
          else Inr (l\<lparr>input_reservations := dict_pop rid (input_reservations l),
                      reserved_input_bytes := reserved_input_bytes l - reserved,
                      input_bytes := input_bytes l + actual\<rparr>))"

text \<open>The reservation object: it is closed at most once.\<close>

definition reservation_commit ::
    "int \<Rightarrow> input_reservation \<Rightarrow> ledger \<Rightarrow> (input_reservation \<times> ledger) result" where
  "reservation_commit actual r l =
     (if finished r then Inl (RuntimeBudgetError ''ECO_BUDGET_RESERVATION_USED'')
      else bindE (commit_input_reservation (reservation_id r) actual l) (\<lambda>l'.
        Inr (r\<lparr>finished := True\<rparr>, l')))"

definition reservation_release ::
    "input_reservation \<Rightarrow> ledger \<Rightarrow> (input_reservation \<times> ledger) result" where
  "reservation_release r l =
     (if finished r then Inr (r, l)
      else bindE (release_input_reservation (reservation_id r) l) (\<lambda>l'.
        Inr (r\<lparr>finished := True\<rparr>, l')))"

definition consume_input_bytes :: "int \<Rightarrow> int \<Rightarrow> ledger \<Rightarrow> ledger result" where
  "consume_input_bytes now n l =
     (if n < 0 then Inl PyValueError
      else bindE (check_duration l now) (\<lambda>_.
        if input_bytes l + reserved_input_bytes l + n > maxInputBytes (limits l)
        then Inl (RuntimeBudgetError ''ECO_INPUT_BUDGET_EXHAUSTED'')
        else Inr (l\<lparr>input_bytes := input_bytes l + n\<rparr>)))"

definition consume_model_usage :: "int \<Rightarrow> int \<Rightarrow> int \<Rightarrow> int \<Rightarrow> ledger \<Rightarrow> ledger result" where
  "consume_model_usage now output tokens cost l =
     (if output < 0 \<or> tokens < 0 \<or> cost < 0 then Inl PyValueError
      else bindE (check_duration l now) (\<lambda>_.
        if model_requests l + 1 > maxModelRequests (limits l)
        then Inl (RuntimeBudgetError ''ECO_MODEL_BUDGET_EXHAUSTED'')
        else if output_bytes l + output > maxOutputBytes (limits l)
        then Inl (RuntimeBudgetError ''ECO_OUTPUT_BUDGET_EXHAUSTED'')
        else if total_tokens l + tokens > maxTotalTokens (limits l)
        then Inl (RuntimeBudgetError ''ECO_TOKEN_BUDGET_EXHAUSTED'')
        else if cost_microusd l + cost > maxCostMicrousd (limits l)
        then Inl (RuntimeBudgetError ''ECO_COST_BUDGET_EXHAUSTED'')
        else Inr (l\<lparr>model_requests := model_requests l + 1,
                    output_bytes := output_bytes l + output,
                    total_tokens := total_tokens l + tokens,
                    cost_microusd := cost_microusd l + cost\<rparr>)))"

text \<open>One request to the ledger, made at a clock reading; the ledger operations as one machine.\<close>

datatype budget_request =
    ReserveTool int
  | ReserveInput int int
  | ReleaseInput int
  | CommitInput int int
  | ConsumeInput int int
  | ConsumeModel int int int int

fun ledger_request :: "ledger \<Rightarrow> budget_request \<Rightarrow> ledger result" where
  "ledger_request l (ReserveTool now) = map_sum id snd (reserve_tool_request now l)"
| "ledger_request l (ReserveInput now n) = map_sum id snd (reserve_input_bytes now n l)"
| "ledger_request l (ReleaseInput rid) = release_input_reservation rid l"
| "ledger_request l (CommitInput rid n) = commit_input_reservation rid n l"
| "ledger_request l (ConsumeInput now n) = consume_input_bytes now n l"
| "ledger_request l (ConsumeModel now out tok cost) = consume_model_usage now out tok cost l"

section \<open>The ledger invariant\<close>

definition ledger_inv :: "ledger \<Rightarrow> bool" where
  "ledger_inv l \<longleftrightarrow>
     distinct (map fst (input_reservations l))
     \<and> (\<forall>(rid, n) \<in> set (input_reservations l). rid < next_reservation_id l \<and> 0 \<le> n)
     \<and> reserved_input_bytes l = sum_list (map snd (input_reservations l))
     \<and> input_bytes l + reserved_input_bytes l \<le> maxInputBytes (limits l)
     \<and> tool_requests l \<le> max 0 (maxToolRequests (limits l))
     \<and> output_bytes l \<le> max 0 (maxOutputBytes (limits l))
     \<and> model_requests l \<le> max 0 (maxModelRequests (limits l))
     \<and> total_tokens l \<le> max 0 (maxTotalTokens (limits l))
     \<and> cost_microusd l \<le> max 0 (maxCostMicrousd (limits l))"

datatype meter = ToolRequests | InputBytes | OutputBytes | ModelRequests | TotalTokens | Cost

fun meter_used :: "ledger \<Rightarrow> meter \<Rightarrow> int" where
  "meter_used l ToolRequests = tool_requests l"
| "meter_used l InputBytes = input_bytes l"
| "meter_used l OutputBytes = output_bytes l"
| "meter_used l ModelRequests = model_requests l"
| "meter_used l TotalTokens = total_tokens l"
| "meter_used l Cost = cost_microusd l"

text \<open>A limit below zero admits nothing, as a limit of zero does.\<close>

fun meter_limit :: "ledger \<Rightarrow> meter \<Rightarrow> int" where
  "meter_limit l ToolRequests = max 0 (maxToolRequests (limits l))"
| "meter_limit l InputBytes = maxInputBytes (limits l)"
| "meter_limit l OutputBytes = max 0 (maxOutputBytes (limits l))"
| "meter_limit l ModelRequests = max 0 (maxModelRequests (limits l))"
| "meter_limit l TotalTokens = max 0 (maxTotalTokens (limits l))"
| "meter_limit l Cost = max 0 (maxCostMicrousd (limits l))"

lemma sum_list_dict_pop:
  assumes "distinct (map fst d)" and "map_of d k = Some (n::int)"
  shows "sum_list (map snd (dict_pop k d)) = sum_list (map snd d) - n"
  using assms
proof (induction d)
  case (Cons x d)
  show ?case
  proof (cases "fst x = k")
    case True
    with Cons.prems have "dict_pop k (x # d) = d"
      by (force simp: dict_pop_def AList.delete_eq filter_id_conv)
    with True Cons.prems show ?thesis by (cases x) simp
  next
    case False
    then have "dict_pop k (x # d) = x # dict_pop k d" by (cases x) (auto simp: dict_pop_def AList.delete_eq)
    with False Cons show ?thesis by (cases x) simp
  qed
qed simp

lemma set_dict_pop: "set (dict_pop k d) = {x \<in> set d. fst x \<noteq> k}"
  by (auto simp: dict_pop_def AList.delete_eq)

lemma nonneg_reserved: "ledger_inv l \<Longrightarrow> 0 \<le> reserved_input_bytes l"
  by (fastforce simp: ledger_inv_def intro!: sum_list_nonneg)

lemma new_ledger_inv: "new_ledger rid digest lim inputs now = Inr l \<Longrightarrow> ledger_inv l"
  by (auto simp: new_ledger_def ledger_inv_def Let_def split: if_splits)

lemma reserve_input_inv:
  assumes "ledger_inv l" and "reserve_input_bytes now n l = Inr (r, l')"
  shows "ledger_inv l'"
proof -
  have fresh: "next_reservation_id l \<notin> fst ` set (input_reservations l)"
    using assms(1) by (auto simp: ledger_inv_def)
  from assms(2) have n: "0 \<le> n" "input_bytes l + reserved_input_bytes l + n \<le> maxInputBytes (limits l)"
    and l': "l' = l\<lparr>next_reservation_id := next_reservation_id l + 1,
        input_reservations := dict_set (next_reservation_id l) n (input_reservations l),
        reserved_input_bytes := reserved_input_bytes l + n\<rparr>"
    by (auto simp: reserve_input_bytes_def split: if_splits)
  from assms(1) n fresh show ?thesis
    unfolding l' by (auto simp: ledger_inv_def dict_set_fresh)
qed

lemma release_input_inv:
  assumes "ledger_inv l" and "release_input_reservation rid l = Inr l'"
  shows "ledger_inv l'"
proof -
  from assms(2) obtain n where n: "map_of (input_reservations l) rid = Some n"
    and l': "l' = l\<lparr>input_reservations := dict_pop rid (input_reservations l),
                    reserved_input_bytes := reserved_input_bytes l - n\<rparr>"
    by (auto simp: release_input_reservation_def split: option.splits)
  have "0 \<le> n" using assms(1) map_of_SomeD [OF n] by (auto simp: ledger_inv_def)
  with assms(1) show ?thesis
    using n unfolding l' by (auto simp: ledger_inv_def sum_list_dict_pop set_dict_pop)
qed

lemma commit_input_inv:
  assumes "ledger_inv l" and "commit_input_reservation rid actual l = Inr l'"
  shows "ledger_inv l'"
proof -
  from assms(2) obtain n where n: "map_of (input_reservations l) rid = Some n"
    and a: "0 \<le> actual" "actual \<le> n"
    and l': "l' = l\<lparr>input_reservations := dict_pop rid (input_reservations l),
                    reserved_input_bytes := reserved_input_bytes l - n,
                    input_bytes := input_bytes l + actual\<rparr>"
    by (auto simp: commit_input_reservation_def split: option.splits if_splits)
  from assms(1) a show ?thesis
    using n unfolding l' by (auto simp: ledger_inv_def sum_list_dict_pop set_dict_pop)
qed

lemma reserve_tool_inv:
  "ledger_inv l \<Longrightarrow> reserve_tool_request now l = Inr (a, l') \<Longrightarrow> ledger_inv l'"
  by (auto simp: reserve_tool_request_def ledger_inv_def split: if_splits)

lemma consume_input_inv: "ledger_inv l \<Longrightarrow> consume_input_bytes now n l = Inr l' \<Longrightarrow> ledger_inv l'"
  by (auto simp: consume_input_bytes_def ledger_inv_def split: if_splits)

lemma consume_model_inv:
  "ledger_inv l \<Longrightarrow> consume_model_usage now out tok cost l = Inr l' \<Longrightarrow> ledger_inv l'"
  by (auto simp: consume_model_usage_def ledger_inv_def split: if_splits)

lemmas ledger_ops_inv = reserve_input_inv release_input_inv commit_input_inv reserve_tool_inv
  consume_input_inv consume_model_inv

lemmas ledger_ops_defs = reserve_tool_request_def reserve_input_bytes_def
  release_input_reservation_def commit_input_reservation_def consume_input_bytes_def
  consume_model_usage_def

lemma map_sum_Inr_iff [simp]: "map_sum f g m = Inr y \<longleftrightarrow> (\<exists>x. m = Inr x \<and> g x = y)"
  by (cases m) auto

lemma ledger_request_inv: "ledger_inv l \<Longrightarrow> ledger_request l w = Inr l' \<Longrightarrow> ledger_inv l'"
  by (cases w) (auto intro: ledger_ops_inv)

lemma ledger_request_limits: "ledger_request l w = Inr l' \<Longrightarrow> limits l' = limits l"
  by (cases w) (auto simp: ledger_ops_defs split: if_splits option.splits)

lemma ledger_request_mono: "ledger_request l w = Inr l' \<Longrightarrow> meter_used l d \<le> meter_used l' d"
  by (cases w; cases d) (auto simp: ledger_ops_defs split: if_splits option.splits)

lemma meter_limit_cong: "limits l = limits l' \<Longrightarrow> meter_limit l = meter_limit l'"
  by (rule ext) (case_tac x; simp)

interpretation ledger: metered ledger_inv ledger_request meter_used meter_limit
proof (standard, goal_cases)
  case (1 l d)
  then show ?case using nonneg_reserved [of l] by (cases d) (auto simp: ledger_inv_def)
next
  case (2 l w l')
  then show ?case by (rule ledger_request_inv)
next
  case (3 l w l')
  then show ?case by (intro meter_limit_cong ledger_request_limits)
next
  case (4 l w l' d)
  then show ?case by (intro ledger_request_mono)
qed

section \<open>Properties\<close>

text \<open>C23: no sequence of requests, at any clock readings and with refused requests in between,
  takes any meter of a ledger past the limit of its plan, and no meter ever decreases.\<close>

theorem budget_never_exceeded:
  assumes "new_ledger rid digest lim inputs now = Inr l"
  shows "meter_used (admit_all ledger_request l ws) d \<le> meter_limit l d
     \<and> meter_used l d \<le> meter_used (admit_all ledger_request l ws) d"
  using ledger.admit_all_bound [OF new_ledger_inv [OF assms]]
    ledger.admit_all_mono [OF new_ledger_inv [OF assms]] by blast

definition demo_limits :: budget_limits where
  "demo_limits = \<lparr>maxDurationSeconds = 30, maxToolRequests = 1, maxInputBytes = 100,
     maxOutputBytes = 10, maxModelRequests = 1, maxTotalTokens = 5, maxCostMicrousd = 0\<rparr>"

theorem budget_never_exceeded_witness:
  "\<exists>l. new_ledger ''run'' ''d'' demo_limits [40] 0 = Inr l
     \<and> meter_used (admit_all ledger_request l [ReserveTool 1, ReserveTool 2, ConsumeInput 1 60]) InputBytes
        \<le> meter_limit l InputBytes"
proof -
  have "returns (new_ledger ''run'' ''d'' demo_limits [40] 0) (\<lambda>l. True)" by code_simp
  then obtain l where l: "new_ledger ''run'' ''d'' demo_limits [40] 0 = Inr l"
    by (auto elim: returnsE)
  from budget_never_exceeded [OF l] l show ?thesis by blast
qed

text \<open>The allowance returned by \<open>reserve_tool_request\<close> is exact: in time, a byte reservation
  right after it is granted if and only if it asks for no more than the allowance.\<close>

lemma tool_allowance_exact:
  assumes "reserve_tool_request now l = Inr (allowance, l')" and "0 \<le> n"
    and "check_duration l' now' = Inr ()"
  shows "(\<exists>r l''. reserve_input_bytes now' n l' = Inr (r, l'')) \<longleftrightarrow> n \<le> allowance"
  using assms by (auto simp: reserve_tool_request_def reserve_input_bytes_def split: if_splits)

text \<open>A reservation can be settled exactly once. Committing what was actually read moves that
  many bytes from reserved to used and returns the rest; releasing restores the ledger up to the
  identifier counter; afterwards the reservation is unknown to the ledger.\<close>

lemma reservation_settles_once:
  assumes "ledger_inv l" and "reserve_input_bytes now n l = Inr (r, l')"
    and "0 \<le> actual" and "actual \<le> n"
  shows "\<exists>lc lr. commit_input_reservation (reservation_id r) actual l' = Inr lc
     \<and> release_input_reservation (reservation_id r) l' = Inr lr
     \<and> input_bytes lc = input_bytes l + actual
     \<and> reserved_input_bytes lc = reserved_input_bytes l
     \<and> lr = l\<lparr>next_reservation_id := next_reservation_id l + 1\<rparr>
     \<and> release_input_reservation (reservation_id r) lc
        = Inl (RuntimeBudgetError ''ECO_BUDGET_RESERVATION_INVALID'')"
proof -
  have fresh: "next_reservation_id l \<notin> fst ` set (input_reservations l)"
    using assms(1) by (auto simp: ledger_inv_def)
  then have pop: "dict_pop (next_reservation_id l) (dict_set (next_reservation_id l) n (input_reservations l))
      = input_reservations l"
    by (auto simp: dict_set_fresh dict_pop_def AList.delete_eq filter_id_conv image_iff)
  from assms(2) have r: "reservation_id r = next_reservation_id l"
    and l': "l' = l\<lparr>next_reservation_id := next_reservation_id l + 1,
        input_reservations := dict_set (next_reservation_id l) n (input_reservations l),
        reserved_input_bytes := reserved_input_bytes l + n\<rparr>"
    by (auto simp: reserve_input_bytes_def split: if_splits)
  have "map_of (input_reservations l) (next_reservation_id l) = None"
    using fresh by (simp add: map_of_eq_None_iff)
  with assms(3,4) show ?thesis
    by (simp add: commit_input_reservation_def release_input_reservation_def r l' pop)
qed

text \<open>Model usage is accounted all or nothing: in time, a call is admitted exactly when the
  request count, output bytes, tokens and cost all stay within their limits, and it then adds to
  all four meters at once and touches nothing else.\<close>

lemma model_usage_all_or_nothing:
  assumes "0 \<le> out" and "0 \<le> tok" and "0 \<le> cost" and "check_duration l now = Inr ()"
  shows "consume_model_usage now out tok cost l = Inr l' \<longleftrightarrow>
     model_requests l + 1 \<le> maxModelRequests (limits l) \<and> output_bytes l + out \<le> maxOutputBytes (limits l)
     \<and> total_tokens l + tok \<le> maxTotalTokens (limits l) \<and> cost_microusd l + cost \<le> maxCostMicrousd (limits l)
     \<and> l' = l\<lparr>model_requests := model_requests l + 1, output_bytes := output_bytes l + out,
              total_tokens := total_tokens l + tok, cost_microusd := cost_microusd l + cost\<rparr>"
  using assms by (auto simp: consume_model_usage_def)

end
