(* ===== verification/Eco_Loop_Contracts.thy ===== *)
theory Eco_Loop_Contracts
  imports Eco_Prelude
begin

text \<open>
  The contracts of the bounded loop engine, \<open>src/src/eco_loops/contracts.py\<close>: the loop states and
  their transition table, budgets, retry policies, definitions, attempt results, gate outcomes,
  usage and checkpoints, each with the validation of its \<open>__post_init__\<close>. Field types are fixed
  here, so what is left of a validation is its value checks. Times are UTC instants.
\<close>

section \<open>States\<close>

datatype loop_state =
    LoopNew | LoopReady | LoopRunning | LoopGating | LoopRetryWait
  | LoopSucceeded | LoopFailed | LoopExhausted | LoopCancelled

definition ACTIVE_STATES :: "loop_state set" where
  "ACTIVE_STATES = {LoopReady, LoopRunning, LoopGating, LoopRetryWait}"

definition LOOP_TERMINAL_STATES :: "loop_state set" where
  "LOOP_TERMINAL_STATES = {LoopSucceeded, LoopFailed, LoopExhausted, LoopCancelled}"

fun TRANSITIONS :: "loop_state \<Rightarrow> loop_state set" where
  "TRANSITIONS LoopNew = {LoopReady, LoopCancelled}"
| "TRANSITIONS LoopReady = {LoopRunning, LoopCancelled, LoopExhausted}"
| "TRANSITIONS LoopRunning = {LoopGating, LoopRetryWait, LoopFailed, LoopCancelled, LoopExhausted}"
| "TRANSITIONS LoopGating =
     {LoopSucceeded, LoopRetryWait, LoopFailed, LoopCancelled, LoopExhausted}"
| "TRANSITIONS LoopRetryWait = {LoopRunning, LoopCancelled, LoopExhausted}"
| "TRANSITIONS _ = {}"

definition transition_allowed :: "loop_state \<Rightarrow> loop_state \<Rightarrow> bool" where
  "transition_allowed current target = (target \<in> TRANSITIONS current)"

section \<open>Records and their validation\<close>

abbreviation definition_error :: "'a result" where
  "definition_error \<equiv> Inl (LoopContractError ''ECO_LOOP_DEFINITION_INVALID'')"

definition positive :: "int \<Rightarrow> unit result" where
  "positive v = (if v < 1 then definition_error else Inr ())"

definition non_negative :: "int \<Rightarrow> unit result" where
  "non_negative v = (if v < 0 then definition_error else Inr ())"

fun all_non_negative :: "int list \<Rightarrow> unit result" where
  "all_non_negative [] = Inr ()"
| "all_non_negative (v # vs) = bindE (non_negative v) (\<lambda>_. all_non_negative vs)"

record loop_budget =
  max_attempts :: int
  max_iterations :: int
  deadline :: int
  max_tokens :: int
  max_cost_microusd :: int
  max_storage_bytes :: int
  reserve_tokens_per_attempt :: int
  reserve_cost_microusd_per_attempt :: int
  reserve_storage_bytes_per_attempt :: int

definition check_budget :: "loop_budget \<Rightarrow> unit result" where
  "check_budget b =
     bindE (positive (max_attempts b)) (\<lambda>_.
     bindE (positive (max_iterations b)) (\<lambda>_.
     bindE (all_non_negative [max_tokens b, max_cost_microusd b, max_storage_bytes b,
              reserve_tokens_per_attempt b, reserve_cost_microusd_per_attempt b,
              reserve_storage_bytes_per_attempt b]) (\<lambda>_.
       if reserve_tokens_per_attempt b > max_tokens b then definition_error
       else if reserve_cost_microusd_per_attempt b > max_cost_microusd b then definition_error
       else if reserve_storage_bytes_per_attempt b > max_storage_bytes b then definition_error
       else Inr ())))"

record retry_policy =
  allowed_reason_codes :: "string list"
  max_stagnant_iterations :: int

definition check_retry :: "retry_policy \<Rightarrow> unit result" where
  "check_retry r =
     bindE (positive (max_stagnant_iterations r)) (\<lambda>_.
       if list_ex (\<lambda>code. \<not> eco_code code) (allowed_reason_codes r) then definition_error
       else Inr ())"

record loop_definition =
  loop_id :: string
  loop_version :: string
  objective_digest :: string
  gate_digest :: string
  loop_profile :: string
  side_effect_mode :: string
  deterministic :: bool
  executable :: bool
  budget :: loop_budget
  retry :: retry_policy
  state_outline :: "loop_state list"

definition check_definition :: "loop_definition \<Rightarrow> unit result" where
  "check_definition d =
     (if \<not> slug_id (loop_id d) then definition_error
      else if loop_version d = [] \<or> code_points (loop_version d) > 32 then definition_error
      else if \<not> sha256_text (objective_digest d) \<or> \<not> sha256_text (gate_digest d)
      then definition_error
      else if side_effect_mode d \<notin> {''no-effect'', ''report-only''} then definition_error
      else if loop_profile d = [] \<or> code_points (loop_profile d) > 128 then definition_error
      else if \<not> distinct (state_outline d) then definition_error
      else Inr ())"

datatype attempt_outcome = Candidate | RetryableError | FatalError

record attempt_result =
  attempt_outcome :: attempt_outcome
  attempt_reason :: string
  candidate_digest :: string
  attempt_evidence :: string

definition check_attempt :: "attempt_result \<Rightarrow> unit result" where
  "check_attempt a =
     guardE (eco_code (attempt_reason a) \<and> sha256_text (candidate_digest a)
             \<and> sha256_text (attempt_evidence a)) (LoopContractError ''ECO_LOOP_OUTCOME_INVALID'')"

record gate_outcome =
  gate_pass :: bool
  gate_reason :: string
  progress_digest :: string
  gate_evidence :: string

definition check_gate :: "gate_outcome \<Rightarrow> unit result" where
  "check_gate g =
     guardE (eco_code (gate_reason g) \<and> sha256_text (progress_digest g)
             \<and> sha256_text (gate_evidence g)) (LoopContractError ''ECO_LOOP_GATE_INVALID'')"

record loop_usage =
  attempts :: int
  iterations :: int
  tokens :: int
  cost_microusd :: int
  storage_bytes :: int

definition zero_usage :: loop_usage where
  "zero_usage = \<lparr>attempts = 0, iterations = 0, tokens = 0, cost_microusd = 0, storage_bytes = 0\<rparr>"

definition check_usage :: "loop_usage \<Rightarrow> unit result" where
  "check_usage u = all_non_negative [attempts u, iterations u, tokens u, cost_microusd u,
     storage_bytes u]"

text \<open>\<open>any(after[key] < before[key] for key in before)\<close>, negated.\<close>

definition usage_le :: "loop_usage \<Rightarrow> loop_usage \<Rightarrow> bool" where
  "usage_le u v = (attempts u \<le> attempts v \<and> iterations u \<le> iterations v \<and> tokens u \<le> tokens v
     \<and> cost_microusd u \<le> cost_microusd v \<and> storage_bytes u \<le> storage_bytes v)"

record checkpoint =
  run_id :: string
  definition_digest :: string
  loop_state :: loop_state
  sequence :: int
  usage :: loop_usage
  last_progress_digest :: "string option"
  stagnant_iterations :: int
  terminal_reason :: "string option"
  head_digest :: "string option"

definition opt_ok :: "('a \<Rightarrow> bool) \<Rightarrow> 'a option \<Rightarrow> bool" where
  "opt_ok P x = (case x of None \<Rightarrow> True | Some v \<Rightarrow> P v)"

abbreviation checkpoint_error :: "'a result" where
  "checkpoint_error \<equiv> Inl (LoopContractError ''ECO_LOOP_CHECKPOINT_INVALID'')"

definition check_checkpoint :: "checkpoint \<Rightarrow> unit result" where
  "check_checkpoint c =
     (if \<not> slug_id (run_id c) then checkpoint_error
      else if \<not> sha256_text (definition_digest c) then checkpoint_error
      else bindE (non_negative (sequence c)) (\<lambda>_.
           bindE (non_negative (stagnant_iterations c)) (\<lambda>_.
             if \<not> opt_ok sha256_text (last_progress_digest c) then checkpoint_error
             else if \<not> opt_ok eco_code (terminal_reason c) then checkpoint_error
             else if \<not> opt_ok sha256_text (head_digest c) then checkpoint_error
             else Inr ())))"

section \<open>Facts\<close>

lemma bindE_unit_Inr [simp]: "bindE m (\<lambda>_. k) = Inr y \<longleftrightarrow> (\<exists>u. m = Inr u) \<and> k = Inr y"
  by (cases m) auto

lemma non_negative_Inr [simp]: "non_negative v = Inr u \<longleftrightarrow> 0 \<le> v"
  by (auto simp: non_negative_def)

lemma positive_Inr [simp]: "positive v = Inr u \<longleftrightarrow> 1 \<le> v"
  by (auto simp: positive_def)

lemma check_checkpoint_Inr:
  "check_checkpoint c = Inr u \<longleftrightarrow> slug_id (run_id c) \<and> sha256_text (definition_digest c)
     \<and> 0 \<le> sequence c \<and> 0 \<le> stagnant_iterations c \<and> opt_ok sha256_text (last_progress_digest c)
     \<and> opt_ok eco_code (terminal_reason c) \<and> opt_ok sha256_text (head_digest c)"
  by (auto simp: check_checkpoint_def)

lemma check_budget_Inr:
  "check_budget b = Inr u \<longleftrightarrow> 1 \<le> max_attempts b \<and> 1 \<le> max_iterations b
     \<and> 0 \<le> reserve_tokens_per_attempt b \<and> reserve_tokens_per_attempt b \<le> max_tokens b
     \<and> 0 \<le> reserve_cost_microusd_per_attempt b
     \<and> reserve_cost_microusd_per_attempt b \<le> max_cost_microusd b
     \<and> 0 \<le> reserve_storage_bytes_per_attempt b
     \<and> reserve_storage_bytes_per_attempt b \<le> max_storage_bytes b"
  by (auto simp: check_budget_def)

lemma check_gate_Inr:
  "check_gate g = Inr u \<longleftrightarrow> eco_code (gate_reason g) \<and> sha256_text (progress_digest g)
     \<and> sha256_text (gate_evidence g)"
  by (simp add: check_gate_def)

lemma check_attempt_Inr:
  "check_attempt a = Inr u \<longleftrightarrow> eco_code (attempt_reason a) \<and> sha256_text (candidate_digest a)
     \<and> sha256_text (attempt_evidence a)"
  by (simp add: check_attempt_def)

lemma terminal_no_transition: "s \<in> LOOP_TERMINAL_STATES \<longleftrightarrow> TRANSITIONS s = {}"
  by (cases s) (auto simp: LOOP_TERMINAL_STATES_def)

lemma usage_le_refl [simp]: "usage_le u u"
  by (simp add: usage_le_def)

lemma usage_le_trans: "usage_le u v \<Longrightarrow> usage_le v w \<Longrightarrow> usage_le u w"
  by (auto simp: usage_le_def)

lemma opt_ok_simps [simp]: "opt_ok P None" "opt_ok P (Some v) = P v"
  by (simp_all add: opt_ok_def)

lemma eco_code_prefix: "eco_code s \<Longrightarrow> take 4 s = ''ECO_''"
  by (simp add: eco_code_def)

end
