(* ===== verification/Eco_Loop_Journal.thy ===== *)
theory Eco_Loop_Journal
  imports Eco_Loop_Contracts
begin

text \<open>
  The two checkpoint journals of \<open>src/src/eco_loops/engine.py\<close>: \<open>InMemoryLoopJournal\<close> and
  \<open>SQLiteLoopJournal\<close>. The SQLite tables are maps: a run's row holds its checkpoint columns and the
  cancel flag, its event rows hold sequence, event and stored digest in sequence order; a
  transaction is one step. \<open>dig\<close> is the digest of an event, \<open>ddig\<close> of a loop definition.

  Lemmas: both journals keep an invariant under which every stored checkpoint agrees with its
  event log, the interface \<open>loop_journal\<close> that the engine relies on holds for both, and the SQLite
  journal simulates the in-memory one, transition by transition.
\<close>

section \<open>Events and transitions\<close>

record loop_event =
  le_runId :: string
  le_sequence :: int
  le_from :: loop_state
  le_to :: loop_state
  le_definitionDigest :: string
  le_reasonCode :: string
  le_evidenceDigest :: "string option"
  le_previousEventDigest :: "string option"
  le_usage :: loop_usage
  le_progressDigest :: "string option"
  le_stagnantIterations :: int

text \<open>The keyword arguments of \<open>transition\<close>.\<close>

record transition_args =
  arg_usage :: "loop_usage option"
  arg_progress :: "string option"
  arg_stagnant :: "int option"
  arg_reason :: string
  arg_evidence :: "string option"

definition reason_only :: "string \<Rightarrow> transition_args" where
  "reason_only r = \<lparr>arg_usage = None, arg_progress = None, arg_stagnant = None, arg_reason = r,
     arg_evidence = None\<rparr>"

definition or_else :: "'a option \<Rightarrow> 'a \<Rightarrow> 'a" where
  "or_else x d = (case x of None \<Rightarrow> d | Some v \<Rightarrow> v)"

definition initial_checkpoint :: "string \<Rightarrow> string \<Rightarrow> checkpoint" where
  "initial_checkpoint rid digest = \<lparr>run_id = rid, definition_digest = digest, loop_state = LoopNew,
     sequence = 0, usage = zero_usage, last_progress_digest = None, stagnant_iterations = 0,
     terminal_reason = None, head_digest = None\<rparr>"

definition next_event :: "checkpoint \<Rightarrow> loop_state \<Rightarrow> transition_args \<Rightarrow> loop_event" where
  "next_event c target a = \<lparr>le_runId = run_id c, le_sequence = sequence c + 1,
     le_from = loop_state c, le_to = target, le_definitionDigest = definition_digest c,
     le_reasonCode = arg_reason a, le_evidenceDigest = arg_evidence a,
     le_previousEventDigest = head_digest c, le_usage = or_else (arg_usage a) (usage c),
     le_progressDigest = (case arg_progress a of None \<Rightarrow> last_progress_digest c | Some d \<Rightarrow> Some d),
     le_stagnantIterations = or_else (arg_stagnant a) (stagnant_iterations c)\<rparr>"

definition next_checkpoint ::
    "(loop_event \<Rightarrow> string) \<Rightarrow> checkpoint \<Rightarrow> loop_state \<Rightarrow> transition_args \<Rightarrow> checkpoint" where
  "next_checkpoint dig c target a =
     (let ev = next_event c target a in
      c\<lparr>loop_state := target, sequence := le_sequence ev, usage := le_usage ev,
        last_progress_digest := le_progressDigest ev,
        stagnant_iterations := le_stagnantIterations ev,
        terminal_reason := (if target \<in> LOOP_TERMINAL_STATES then Some (arg_reason a) else None),
        head_digest := Some (dig ev)\<rparr>)"

text \<open>The guards of \<open>transition\<close> after the compare-and-set, which both journals share.\<close>

definition transition_guards :: "checkpoint \<Rightarrow> loop_state \<Rightarrow> transition_args \<Rightarrow> unit result" where
  "transition_guards c target a =
     (if \<not> transition_allowed (loop_state c) target
      then Inl (LoopEngineError ''ECO_LOOP_TRANSITION_DENIED'')
      else if \<not> prefix ''ECO_'' (arg_reason a) then Inl (LoopEngineError ''ECO_LOOP_EVENT_INVALID'')
      else if \<not> opt_ok sha256_text (arg_evidence a)
      then Inl (LoopEngineError ''ECO_LOOP_EVENT_INVALID'')
      else if \<not> usage_le (usage c) (or_else (arg_usage a) (usage c))
      then Inl (LoopEngineError ''ECO_LOOP_USAGE_REVERSED'')
      else Inr ())"

section \<open>The in-memory journal\<close>

record memory_journal =
  checkpoints :: "string \<rightharpoonup> checkpoint"
  mem_events :: "string \<rightharpoonup> loop_event list"
  cancelled :: "string set"
  kill_switch :: bool

definition new_memory_journal :: memory_journal where
  "new_memory_journal = \<lparr>checkpoints = Map.empty, mem_events = Map.empty, cancelled = {},
     kill_switch = False\<rparr>"

definition memory_create ::
    "(loop_definition \<Rightarrow> string) \<Rightarrow> string \<Rightarrow> loop_definition \<Rightarrow> (checkpoint, memory_journal) act" where
  "memory_create ddig rid d j =
     (let new = initial_checkpoint rid (ddig d) in
      case check_checkpoint new of
        Inl e \<Rightarrow> (Inl e, j)
      | Inr _ \<Rightarrow>
          (case checkpoints j rid of
             Some existing \<Rightarrow>
               if definition_digest existing \<noteq> ddig d
               then (Inl (LoopEngineError ''ECO_LOOP_DEFINITION_DRIFT''), j)
               else (Inr existing, j)
           | None \<Rightarrow> (Inr new, j\<lparr>checkpoints := (checkpoints j)(rid \<mapsto> new),
                                 mem_events := (mem_events j)(rid \<mapsto> [])\<rparr>)))"

definition memory_load :: "string \<Rightarrow> (checkpoint, memory_journal) act" where
  "memory_load rid j =
     (case checkpoints j rid of
        Some c \<Rightarrow> (Inr c, j)
      | None \<Rightarrow> (Inl (LoopEngineError ''ECO_LOOP_RUN_UNKNOWN''), j))"

definition memory_events :: "string \<Rightarrow> (loop_event list, memory_journal) act" where
  "memory_events rid j =
     (case mem_events j rid of
        Some es \<Rightarrow> (Inr es, j)
      | None \<Rightarrow> (Inl (LoopEngineError ''ECO_LOOP_RUN_UNKNOWN''), j))"

definition memory_request_cancel :: "string \<Rightarrow> (unit, memory_journal) act" where
  "memory_request_cancel rid j =
     (if checkpoints j rid = None then (Inl (LoopEngineError ''ECO_LOOP_RUN_UNKNOWN''), j)
      else (Inr (), j\<lparr>cancelled := insert rid (cancelled j)\<rparr>))"

definition memory_set_kill_switch :: "bool \<Rightarrow> (unit, memory_journal) act" where
  "memory_set_kill_switch b j = (Inr (), j\<lparr>kill_switch := b\<rparr>)"

definition memory_stop_reason :: "string \<Rightarrow> (string option, memory_journal) act" where
  "memory_stop_reason rid j =
     (Inr (if kill_switch j then Some ''ECO_LOOP_KILL_SWITCH''
           else if rid \<in> cancelled j then Some ''ECO_LOOP_CANCELLED'' else None), j)"

definition memory_transition ::
    "(loop_event \<Rightarrow> string) \<Rightarrow> checkpoint \<Rightarrow> loop_state \<Rightarrow> transition_args
      \<Rightarrow> (checkpoint, memory_journal) act" where
  "memory_transition dig expected target a j =
     (case checkpoints j (run_id expected) of
        None \<Rightarrow> (Inl (LoopEngineError ''ECO_LOOP_RUN_UNKNOWN''), j)
      | Some current \<Rightarrow>
          if current \<noteq> expected
          then (if loop_state current \<in> LOOP_TERMINAL_STATES then (Inr current, j)
                else (Inl (LoopEngineError ''ECO_LOOP_CHECKPOINT_CONFLICT''), j))
          else (case transition_guards current target a of
                  Inl e \<Rightarrow> (Inl e, j)
                | Inr _ \<Rightarrow>
                    let ev = next_event current target a;
                        nxt = next_checkpoint dig current target a
                    in case check_checkpoint nxt of
                         Inl e \<Rightarrow> (Inl e, j)
                       | Inr _ \<Rightarrow>
                           (Inr nxt,
                            j\<lparr>mem_events := (mem_events j)(run_id current \<mapsto>
                                or_else (mem_events j (run_id current)) [] @ [ev]),
                              checkpoints := (checkpoints j)(run_id current \<mapsto> nxt)\<rparr>)))"

section \<open>The SQLite journal\<close>

record run_row =
  row_checkpoint :: checkpoint
  row_cancelled :: bool

record event_row =
  er_sequence :: int
  er_event :: loop_event
  er_digest :: string

record sqlite_journal =
  loop_runs :: "string \<rightharpoonup> run_row"
  loop_events :: "string \<Rightarrow> event_row list"
  killed :: bool

definition new_sqlite_journal :: sqlite_journal where
  "new_sqlite_journal = \<lparr>loop_runs = Map.empty, loop_events = (\<lambda>_. []), killed = False\<rparr>"

text \<open>\<open>_checkpoint\<close>: the row is read through the validating constructors.\<close>

definition read_checkpoint :: "run_row \<Rightarrow> checkpoint result" where
  "read_checkpoint row =
     bindE (check_usage (usage (row_checkpoint row))) (\<lambda>_.
     bindE (check_checkpoint (row_checkpoint row)) (\<lambda>_. Inr (row_checkpoint row)))"

definition journal_corrupt :: "'a result" where
  "journal_corrupt = Inl (LoopEngineError ''ECO_LOOP_JOURNAL_CORRUPT'')"

text \<open>The loop of \<open>_verify\<close>: what is left of it after the first rows is the digest and state
  reached and the last event.\<close>

fun verify_rows ::
    "(loop_event \<Rightarrow> string) \<Rightarrow> checkpoint \<Rightarrow> int \<Rightarrow> string option \<Rightarrow> loop_state \<Rightarrow> loop_event option
      \<Rightarrow> event_row list \<Rightarrow> (string option \<times> loop_state \<times> loop_event option) result" where
  "verify_rows dig c n prev st last_ev [] = Inr (prev, st, last_ev)"
| "verify_rows dig c n prev st last_ev (row # rows) =
     (let ev = er_event row in
      if er_sequence row \<noteq> n \<or> le_sequence ev \<noteq> n \<or> le_runId ev \<noteq> run_id c
         \<or> le_definitionDigest ev \<noteq> definition_digest c \<or> le_previousEventDigest ev \<noteq> prev
         \<or> le_from ev \<noteq> st \<or> dig ev \<noteq> er_digest row
      then journal_corrupt
      else verify_rows dig c (n + 1) (Some (er_digest row)) (le_to ev) (Some ev) rows)"

definition verify_journal ::
    "(loop_event \<Rightarrow> string) \<Rightarrow> event_row list \<Rightarrow> checkpoint \<Rightarrow> unit result" where
  "verify_journal dig rows c =
     (if int (length rows) \<noteq> sequence c then journal_corrupt
      else bindE (verify_rows dig c 1 None LoopNew None rows) (\<lambda>(prev, st, last_ev).
        if sequence c = 0
        then (if head_digest c \<noteq> None \<or> loop_state c \<noteq> LoopNew then journal_corrupt else Inr ())
        else (case last_ev of
                None \<Rightarrow> Inl PyAssertionError
              | Some ev \<Rightarrow>
                  if head_digest c \<noteq> prev \<or> loop_state c \<noteq> le_to ev \<or> le_usage ev \<noteq> usage c
                     \<or> le_progressDigest ev \<noteq> last_progress_digest c
                     \<or> le_stagnantIterations ev \<noteq> stagnant_iterations c
                     \<or> (loop_state c \<in> LOOP_TERMINAL_STATES
                          \<and> terminal_reason c \<noteq> Some (le_reasonCode ev))
                  then journal_corrupt else Inr ())))"

text \<open>Reading a run: its row, the checkpoint of the row, and the verification of its events.\<close>

definition verified_checkpoint ::
    "(loop_event \<Rightarrow> string) \<Rightarrow> sqlite_journal \<Rightarrow> string \<Rightarrow> checkpoint result" where
  "verified_checkpoint dig j rid =
     (case loop_runs j rid of
        None \<Rightarrow> Inl (LoopEngineError ''ECO_LOOP_RUN_UNKNOWN'')
      | Some row \<Rightarrow> bindE (read_checkpoint row) (\<lambda>c.
          bindE (verify_journal dig (loop_events j rid) c) (\<lambda>_. Inr c)))"

definition sqlite_load :: "(loop_event \<Rightarrow> string) \<Rightarrow> string \<Rightarrow> (checkpoint, sqlite_journal) act" where
  "sqlite_load dig rid j = (verified_checkpoint dig j rid, j)"

definition sqlite_events ::
    "(loop_event \<Rightarrow> string) \<Rightarrow> string \<Rightarrow> (loop_event list, sqlite_journal) act" where
  "sqlite_events dig rid j =
     (bindE (verified_checkpoint dig j rid) (\<lambda>_. Inr (map er_event (loop_events j rid))), j)"

definition sqlite_create ::
    "(loop_definition \<Rightarrow> string) \<Rightarrow> (loop_event \<Rightarrow> string) \<Rightarrow> string \<Rightarrow> loop_definition
      \<Rightarrow> (checkpoint, sqlite_journal) act" where
  "sqlite_create ddig dig rid d j =
     (let new = initial_checkpoint rid (ddig d) in
      case check_checkpoint new of
        Inl e \<Rightarrow> (Inl e, j)
      | Inr _ \<Rightarrow>
          (case loop_runs j rid of
             None \<Rightarrow> (Inr new, j\<lparr>loop_runs := (loop_runs j)(rid \<mapsto>
                        \<lparr>row_checkpoint = new, row_cancelled = False\<rparr>)\<rparr>)
           | Some row \<Rightarrow>
               (bindE (verified_checkpoint dig j rid) (\<lambda>existing.
                  if definition_digest existing \<noteq> ddig d
                  then Inl (LoopEngineError ''ECO_LOOP_DEFINITION_DRIFT'') else Inr existing), j)))"

definition sqlite_request_cancel :: "string \<Rightarrow> (unit, sqlite_journal) act" where
  "sqlite_request_cancel rid j =
     (case loop_runs j rid of
        None \<Rightarrow> (Inl (LoopEngineError ''ECO_LOOP_RUN_UNKNOWN''), j)
      | Some row \<Rightarrow>
          (Inr (), j\<lparr>loop_runs := (loop_runs j)(rid \<mapsto> row\<lparr>row_cancelled := True\<rparr>)\<rparr>))"

definition sqlite_set_kill_switch :: "bool \<Rightarrow> (unit, sqlite_journal) act" where
  "sqlite_set_kill_switch b j = (Inr (), j\<lparr>killed := b\<rparr>)"

definition sqlite_stop_reason :: "string \<Rightarrow> (string option, sqlite_journal) act" where
  "sqlite_stop_reason rid j =
     (case loop_runs j rid of
        None \<Rightarrow> (Inl (LoopEngineError ''ECO_LOOP_RUN_UNKNOWN''), j)
      | Some row \<Rightarrow>
          (Inr (if killed j then Some ''ECO_LOOP_KILL_SWITCH''
                else if row_cancelled row then Some ''ECO_LOOP_CANCELLED'' else None), j))"

definition sqlite_transition ::
    "(loop_event \<Rightarrow> string) \<Rightarrow> checkpoint \<Rightarrow> loop_state \<Rightarrow> transition_args
      \<Rightarrow> (checkpoint, sqlite_journal) act" where
  "sqlite_transition dig expected target a j =
     (case verified_checkpoint dig j (run_id expected) of
        Inl e \<Rightarrow> (Inl e, j)
      | Inr current \<Rightarrow>
          if current \<noteq> expected
          then (if loop_state current \<in> LOOP_TERMINAL_STATES then (Inr current, j)
                else (Inl (LoopEngineError ''ECO_LOOP_CHECKPOINT_CONFLICT''), j))
          else (case transition_guards current target a of
                  Inl e \<Rightarrow> (Inl e, j)
                | Inr _ \<Rightarrow>
                    let ev = next_event current target a;
                        nxt = next_checkpoint dig current target a;
                        rid = run_id current;
                        j' = j\<lparr>loop_events := (loop_events j)(rid := loop_events j rid @
                               [\<lparr>er_sequence = le_sequence ev, er_event = ev, er_digest = dig ev\<rparr>]),
                              loop_runs := (loop_runs j)(rid \<mapsto>
                               (the (loop_runs j rid))\<lparr>row_checkpoint := nxt\<rparr>)\<rparr>
                    in sqlite_load dig rid j'))"

section \<open>Checkpoints that agree with their event log\<close>

fun path :: "loop_state \<Rightarrow> loop_event list \<Rightarrow> loop_state \<Rightarrow> bool" where
  "path s [] t = (s = t)"
| "path s (e # es) t = (le_from e = s \<and> transition_allowed s (le_to e) \<and> path (le_to e) es t)"

definition log_ok :: "(loop_event \<Rightarrow> string) \<Rightarrow> checkpoint \<Rightarrow> loop_event list \<Rightarrow> bool" where
  "log_ok dig c es \<longleftrightarrow>
     linked le_previousEventDigest dig None es \<and> head_digest c = chain_head dig None es
     \<and> sequence c = int (length es)
     \<and> map le_sequence es = map (\<lambda>i. int i + 1) [0..<length es]
     \<and> path LoopNew es (loop_state c)
     \<and> (\<forall>e \<in> set es. le_runId e = run_id c \<and> le_definitionDigest e = definition_digest c)
     \<and> (es \<noteq> [] \<longrightarrow> le_usage (last es) = usage c \<and> le_to (last es) = loop_state c
          \<and> le_progressDigest (last es) = last_progress_digest c
          \<and> le_stagnantIterations (last es) = stagnant_iterations c
          \<and> (loop_state c \<in> LOOP_TERMINAL_STATES
               \<longrightarrow> terminal_reason c = Some (le_reasonCode (last es))))"

definition checkpoint_valid :: "checkpoint \<Rightarrow> bool" where
  "checkpoint_valid c \<longleftrightarrow> check_checkpoint c = Inr () \<and> check_usage (usage c) = Inr ()"

lemma path_snoc [simp]:
  "path s (es @ [e]) t \<longleftrightarrow> path s es (le_from e) \<and> transition_allowed (le_from e) (le_to e) \<and> le_to e = t"
  by (induction es arbitrary: s) auto

lemma log_ok_initial: "log_ok dig (initial_checkpoint rid digest) []"
  by (simp add: log_ok_def initial_checkpoint_def)

lemma next_checkpoint_fields [simp]:
  "run_id (next_checkpoint dig c t a) = run_id c"
  "definition_digest (next_checkpoint dig c t a) = definition_digest c"
  "loop_state (next_checkpoint dig c t a) = t"
  "sequence (next_checkpoint dig c t a) = sequence c + 1"
  "usage (next_checkpoint dig c t a) = or_else (arg_usage a) (usage c)"
  "stagnant_iterations (next_checkpoint dig c t a) = or_else (arg_stagnant a) (stagnant_iterations c)"
  "last_progress_digest (next_checkpoint dig c t a) =
     (case arg_progress a of None \<Rightarrow> last_progress_digest c | Some d \<Rightarrow> Some d)"
  "terminal_reason (next_checkpoint dig c t a) =
     (if t \<in> LOOP_TERMINAL_STATES then Some (arg_reason a) else None)"
  "head_digest (next_checkpoint dig c t a) = Some (dig (next_event c t a))"
  by (simp_all add: next_checkpoint_def Let_def next_event_def)

lemma log_ok_next:
  assumes "log_ok dig c es" and "transition_allowed (loop_state c) t"
  shows "log_ok dig (next_checkpoint dig c t a) (es @ [next_event c t a])"
  using assms by (simp add: log_ok_def) (simp add: next_event_def)

section \<open>The in-memory journal keeps its invariant\<close>

definition memory_inv :: "(loop_event \<Rightarrow> string) \<Rightarrow> memory_journal \<Rightarrow> bool" where
  "memory_inv dig j \<longleftrightarrow>
     (\<forall>rid c. checkpoints j rid = Some c \<longrightarrow> run_id c = rid \<and> checkpoint_valid c
        \<and> (\<exists>es. mem_events j rid = Some es \<and> log_ok dig c es))"

lemma memory_invD:
  assumes "memory_inv dig j" and "checkpoints j rid = Some c"
  shows "run_id c = rid \<and> checkpoint_valid c \<and> (\<exists>es. mem_events j rid = Some es \<and> log_ok dig c es)"
  using assms unfolding memory_inv_def by blast

lemma memory_inv_upd:
  assumes "memory_inv dig j" and "run_id c = rid" and "checkpoint_valid c" and "log_ok dig c es"
    and "checkpoints j' = (checkpoints j)(rid \<mapsto> c)" and "mem_events j' = (mem_events j)(rid \<mapsto> es)"
  shows "memory_inv dig j'"
  unfolding memory_inv_def
proof (intro allI impI)
  fix rid' c'
  assume "checkpoints j' rid' = Some c'"
  then show "run_id c' = rid' \<and> checkpoint_valid c' \<and> (\<exists>es. mem_events j' rid' = Some es \<and> log_ok dig c' es)"
    using assms memory_invD [OF assms(1), of rid' c'] by (cases "rid' = rid") simp_all
qed

definition args_valid :: "transition_args \<Rightarrow> bool" where
  "args_valid a \<longleftrightarrow> opt_ok (\<lambda>u. check_usage u = Inr ()) (arg_usage a)"

lemma check_initial:
  "checkpoint_valid (initial_checkpoint rid digest) \<longleftrightarrow> slug_id rid \<and> sha256_text digest"
  by (auto simp: checkpoint_valid_def check_checkpoint_Inr initial_checkpoint_def check_usage_def
      zero_usage_def)

lemma memory_create_inv:
  assumes "memory_inv dig j" and "memory_create ddig rid d j = (r, j')"
  shows "memory_inv dig j'"
proof (cases "check_checkpoint (initial_checkpoint rid (ddig d)) = Inr () \<and> checkpoints j rid = None")
  case True
  then have j': "j' = j\<lparr>checkpoints := (checkpoints j)(rid \<mapsto> initial_checkpoint rid (ddig d)),
                 mem_events := (mem_events j)(rid \<mapsto> [])\<rparr>"
    using assms(2) by (simp add: memory_create_def Let_def)
  from True have "slug_id rid" and "sha256_text (ddig d)"
    by (auto simp: check_checkpoint_Inr initial_checkpoint_def)
  then have "checkpoint_valid (initial_checkpoint rid (ddig d))" by (simp add: check_initial)
  moreover have "run_id (initial_checkpoint rid (ddig d)) = rid"
    by (simp add: initial_checkpoint_def)
  ultimately show ?thesis
    by (intro memory_inv_upd [OF assms(1)]) (simp_all add: j' log_ok_initial)
next
  case False
  then have "j' = j"
    using assms(2) by (auto simp: memory_create_def Let_def split: sum.splits option.splits if_splits)
  with assms(1) show ?thesis by simp
qed

lemma memory_transition_inv:
  assumes inv: "memory_inv dig j" and tr: "memory_transition dig c t a j = (r, j')"
    and args: "args_valid a"
  shows "memory_inv dig j'"
proof (cases "j' = j")
  case False
  from tr False have cp: "checkpoints j (run_id c) = Some c"
    and g: "transition_guards c t a = Inr ()" and chk: "check_checkpoint (next_checkpoint dig c t a) = Inr ()"
    and j': "j' = j\<lparr>mem_events := (mem_events j)(run_id c \<mapsto>
                or_else (mem_events j (run_id c)) [] @ [next_event c t a]),
              checkpoints := (checkpoints j)(run_id c \<mapsto> next_checkpoint dig c t a)\<rparr>"
    by (auto simp: memory_transition_def Let_def split: option.splits sum.splits if_splits)
  from inv cp obtain es where es: "mem_events j (run_id c) = Some es" "log_ok dig c es"
    and v: "checkpoint_valid c"
    by (blast dest: memory_invD)
  have "transition_allowed (loop_state c) t"
    using g by (auto simp: transition_guards_def split: if_splits)
  with es have "log_ok dig (next_checkpoint dig c t a) (es @ [next_event c t a])"
    by (intro log_ok_next)
  moreover have "checkpoint_valid (next_checkpoint dig c t a)"
    using chk v args by (auto simp: checkpoint_valid_def args_valid_def or_else_def split: option.splits)
  ultimately show ?thesis
    using es by (intro memory_inv_upd [OF inv, of _ "run_id c"]) (simp_all add: j' or_else_def)
qed (use inv in simp)

section \<open>The SQLite journal keeps its invariant and verifies what it wrote\<close>

definition row_of :: "(loop_event \<Rightarrow> string) \<Rightarrow> loop_event \<Rightarrow> event_row" where
  "row_of dig ev = \<lparr>er_sequence = le_sequence ev, er_event = ev, er_digest = dig ev\<rparr>"

definition sqlite_inv :: "(loop_event \<Rightarrow> string) \<Rightarrow> sqlite_journal \<Rightarrow> bool" where
  "sqlite_inv dig j \<longleftrightarrow>
     (\<forall>rid row. loop_runs j rid = Some row \<longrightarrow>
        run_id (row_checkpoint row) = rid \<and> checkpoint_valid (row_checkpoint row)
        \<and> (\<exists>es. loop_events j rid = map (row_of dig) es \<and> log_ok dig (row_checkpoint row) es))
     \<and> (\<forall>rid. loop_runs j rid = None \<longrightarrow> loop_events j rid = [])"

lemma sqlite_invD:
  assumes "sqlite_inv dig j" and "loop_runs j rid = Some row"
  shows "run_id (row_checkpoint row) = rid \<and> checkpoint_valid (row_checkpoint row)
     \<and> (\<exists>es. loop_events j rid = map (row_of dig) es \<and> log_ok dig (row_checkpoint row) es)"
  using assms unfolding sqlite_inv_def by blast

lemma sqlite_inv_upd:
  assumes "sqlite_inv dig j" and "run_id (row_checkpoint row) = rid" and "checkpoint_valid (row_checkpoint row)"
    and "log_ok dig (row_checkpoint row) es"
    and "loop_runs j' = (loop_runs j)(rid \<mapsto> row)"
    and "loop_events j' = (loop_events j)(rid := map (row_of dig) es)"
  shows "sqlite_inv dig j'"
  unfolding sqlite_inv_def
proof (intro conjI allI impI)
  fix rid' row'
  assume *: "loop_runs j' rid' = Some row'"
  have "run_id (row_checkpoint row') = rid' \<and> checkpoint_valid (row_checkpoint row')
     \<and> (\<exists>es. loop_events j' rid' = map (row_of dig) es \<and> log_ok dig (row_checkpoint row') es)"
    using * assms sqlite_invD [OF assms(1), of rid' row'] by (cases "rid' = rid") auto
  then show "run_id (row_checkpoint row') = rid'" "checkpoint_valid (row_checkpoint row')"
    "\<exists>es. loop_events j' rid' = map (row_of dig) es \<and> log_ok dig (row_checkpoint row') es"
    by blast+
next
  fix rid'
  assume "loop_runs j' rid' = None"
  with assms show "loop_events j' rid' = []"
    by (cases "rid' = rid") (auto simp: sqlite_inv_def)
qed

lemma verify_rows_ok:
  assumes "linked le_previousEventDigest dig prev es" and "path st es t"
    and "map le_sequence es = map (\<lambda>i. int i + n) [0..<length es]"
    and "\<forall>e \<in> set es. le_runId e = run_id c \<and> le_definitionDigest e = definition_digest c"
  shows "verify_rows dig c n prev st l (map (row_of dig) es)
     = Inr (chain_head dig prev es, t, if es = [] then l else Some (last es))"
  using assms
proof (induction es arbitrary: prev st n l)
  case (Cons e es)
  have "map (\<lambda>i. int i + n) [0..<length (e # es)] = n # map (\<lambda>i. int i + (n + 1)) [0..<length es]"
    by (simp add: upt_conv_Cons map_Suc_upt [symmetric] del: upt_Suc)
  with Cons show ?case by (simp add: row_of_def)
qed simp

lemma verify_journal_ok:
  assumes "log_ok dig c es"
  shows "verify_journal dig (map (row_of dig) es) c = Inr ()"
proof -
  have "verify_rows dig c 1 None LoopNew None (map (row_of dig) es)
      = Inr (chain_head dig None es, loop_state c, if es = [] then None else Some (last es))"
    using assms by (intro verify_rows_ok) (auto simp: log_ok_def)
  with assms show ?thesis by (cases "es = []") (auto simp: verify_journal_def log_ok_def)
qed

lemma verified_checkpoint_ok:
  assumes "sqlite_inv dig j" and "loop_runs j rid = Some row"
  shows "verified_checkpoint dig j rid = Inr (row_checkpoint row)"
proof -
  from sqlite_invD [OF assms] obtain es where v: "checkpoint_valid (row_checkpoint row)"
    and es: "loop_events j rid = map (row_of dig) es" "log_ok dig (row_checkpoint row) es"
    by blast
  then show ?thesis
    using assms(2) by (simp add: verified_checkpoint_def read_checkpoint_def checkpoint_valid_def
        verify_journal_ok)
qed

text \<open>The journal after a transition: the event row is appended and the run row updated.\<close>

definition sqlite_put ::
    "(loop_event \<Rightarrow> string) \<Rightarrow> sqlite_journal \<Rightarrow> checkpoint \<Rightarrow> loop_state \<Rightarrow> transition_args \<Rightarrow> sqlite_journal" where
  "sqlite_put dig j c t a =
     j\<lparr>loop_events := (loop_events j)(run_id c := loop_events j (run_id c) @ [row_of dig (next_event c t a)]),
       loop_runs := (loop_runs j)(run_id c \<mapsto>
         (the (loop_runs j (run_id c)))\<lparr>row_checkpoint := next_checkpoint dig c t a\<rparr>)\<rparr>"

lemma sqlite_transition_eq:
  assumes inv: "sqlite_inv dig j" and row: "loop_runs j (run_id c) = Some row"
  shows "sqlite_transition dig c t a j =
     (if row_checkpoint row \<noteq> c
      then (if loop_state (row_checkpoint row) \<in> LOOP_TERMINAL_STATES then (Inr (row_checkpoint row), j)
            else (Inl (LoopEngineError ''ECO_LOOP_CHECKPOINT_CONFLICT''), j))
      else case transition_guards c t a of
             Inl e \<Rightarrow> (Inl e, j)
           | Inr _ \<Rightarrow> sqlite_load dig (run_id c) (sqlite_put dig j c t a))"
  unfolding sqlite_transition_def verified_checkpoint_ok [OF inv row]
  by (auto simp: Let_def sqlite_put_def row_of_def split: sum.splits)

lemma sqlite_put_inv:
  assumes inv: "sqlite_inv dig j" and row: "loop_runs j (run_id c) = Some row"
    and c: "row_checkpoint row = c" and g: "transition_guards c t a = Inr ()"
    and v: "checkpoint_valid (next_checkpoint dig c t a)"
  shows "sqlite_inv dig (sqlite_put dig j c t a)"
proof -
  from sqlite_invD [OF inv row] c obtain es where es: "loop_events j (run_id c) = map (row_of dig) es"
    "log_ok dig c es" by blast
  have "transition_allowed (loop_state c) t"
    using g by (auto simp: transition_guards_def split: if_splits)
  with es have "log_ok dig (next_checkpoint dig c t a) (es @ [next_event c t a])"
    by (intro log_ok_next)
  with es v row show ?thesis
    by (intro sqlite_inv_upd [OF inv, of "row\<lparr>row_checkpoint := next_checkpoint dig c t a\<rparr>" "run_id c"
          "es @ [next_event c t a]"]) (simp_all add: sqlite_put_def)
qed

lemma next_checkpoint_valid:
  assumes "checkpoint_valid c" and "args_valid a"
  shows "checkpoint_valid (next_checkpoint dig c t a) \<longleftrightarrow>
     check_checkpoint (next_checkpoint dig c t a) = Inr ()"
  using assms by (auto simp: checkpoint_valid_def args_valid_def or_else_def split: option.splits)

lemma transition_guards_unit: "transition_guards c t a = Inr u \<longleftrightarrow> transition_guards c t a = Inr ()"
  by simp

lemma sqlite_transition_inv:
  assumes inv: "sqlite_inv dig j" and tr: "sqlite_transition dig c t a j = (Inr r, j')"
  shows "sqlite_inv dig j'"
proof (cases "loop_runs j (run_id c)")
  case None
  with tr show ?thesis by (simp add: sqlite_transition_def verified_checkpoint_def)
next
  case (Some row)
  show ?thesis
  proof (cases "row_checkpoint row = c \<and> transition_guards c t a = Inr ()")
    case True
    with tr Some have ld: "sqlite_load dig (run_id c) (sqlite_put dig j c t a) = (Inr r, j')"
      by (simp add: sqlite_transition_eq [OF inv Some])
    then have "read_checkpoint (\<lparr>row_checkpoint = next_checkpoint dig c t a, row_cancelled = b\<rparr>)
        = Inr (next_checkpoint dig c t a)" for b
      by (auto simp: sqlite_load_def verified_checkpoint_def sqlite_put_def read_checkpoint_def
          split: option.splits)
    then have "checkpoint_valid (next_checkpoint dig c t a)"
      by (auto simp: read_checkpoint_def checkpoint_valid_def)
    moreover have "j' = sqlite_put dig j c t a" using ld by (simp add: sqlite_load_def)
    ultimately show ?thesis using sqlite_put_inv [OF inv Some] True by simp
  next
    case False
    then have "j' = j"
      using tr by (auto simp: sqlite_transition_eq [OF inv Some] split: if_splits sum.splits)
    with inv show ?thesis by simp
  qed
qed

section \<open>The SQLite journal simulates the in-memory journal\<close>

definition abs_journal :: "sqlite_journal \<Rightarrow> memory_journal" where
  "abs_journal j =
     \<lparr>checkpoints = (\<lambda>rid. map_option row_checkpoint (loop_runs j rid)),
      mem_events = (\<lambda>rid. map_option (\<lambda>_. map er_event (loop_events j rid)) (loop_runs j rid)),
      cancelled = {rid. \<exists>row. loop_runs j rid = Some row \<and> row_cancelled row},
      kill_switch = killed j\<rparr>"

lemma abs_sqlite_put:
  assumes "loop_runs j (run_id c) = Some row" and "row_checkpoint row = c"
  shows "abs_journal (sqlite_put dig j c t a) =
     (abs_journal j)\<lparr>mem_events := (mem_events (abs_journal j))(run_id c \<mapsto>
           or_else (mem_events (abs_journal j) (run_id c)) [] @ [next_event c t a]),
        checkpoints := (checkpoints (abs_journal j))(run_id c \<mapsto> next_checkpoint dig c t a)\<rparr>"
  using assms by (auto simp: abs_journal_def sqlite_put_def row_of_def or_else_def fun_eq_iff)

lemma sqlite_simulates_transition:
  assumes inv: "sqlite_inv dig j" and args: "args_valid a"
    and ok: "\<And>row. loop_runs j (run_id c) = Some row \<Longrightarrow> row_checkpoint row = c \<Longrightarrow> transition_guards c t a = Inr ()
      \<Longrightarrow> check_checkpoint (next_checkpoint dig c t a) = Inr ()"
  shows "memory_transition dig c t a (abs_journal j)
     = map_prod id abs_journal (sqlite_transition dig c t a j)"
proof (cases "loop_runs j (run_id c)")
  case None
  then show ?thesis
    by (simp add: memory_transition_def sqlite_transition_def verified_checkpoint_def abs_journal_def)
next
  case (Some row)
  have cp: "checkpoints (abs_journal j) (run_id c) = Some (row_checkpoint row)"
    using Some by (simp add: abs_journal_def)
  show ?thesis
  proof (cases "row_checkpoint row = c \<and> transition_guards c t a = Inr ()")
    case True
    have v: "checkpoint_valid c" using sqlite_invD [OF inv Some] True by blast
    have chk: "check_checkpoint (next_checkpoint dig c t a) = Inr ()" using ok [OF Some] True by simp
    with v args have "checkpoint_valid (next_checkpoint dig c t a)" by (simp add: next_checkpoint_valid)
    then have inv': "sqlite_inv dig (sqlite_put dig j c t a)"
      using sqlite_put_inv [OF inv Some] True by simp
    have "loop_runs (sqlite_put dig j c t a) (run_id c)
        = Some (row\<lparr>row_checkpoint := next_checkpoint dig c t a\<rparr>)"
      using Some by (simp add: sqlite_put_def)
    from verified_checkpoint_ok [OF inv' this]
    have "sqlite_transition dig c t a j = (Inr (next_checkpoint dig c t a), sqlite_put dig j c t a)"
      using True by (simp add: sqlite_transition_eq [OF inv Some] sqlite_load_def)
    then show ?thesis
      using True chk by (simp add: memory_transition_def cp Let_def abs_sqlite_put [OF Some])
  next
    case False
    then show ?thesis
      by (auto simp: memory_transition_def cp sqlite_transition_eq [OF inv Some] split: sum.splits)
  qed
qed

section \<open>The journal interface of the engine\<close>

datatype journal_signal = CancelRun string | KillSwitch bool

record 'j journal_ops =
  op_create :: "string \<Rightarrow> loop_definition \<Rightarrow> (checkpoint, 'j) act"
  op_load :: "string \<Rightarrow> (checkpoint, 'j) act"
  op_stop_reason :: "string \<Rightarrow> (string option, 'j) act"
  op_transition :: "checkpoint \<Rightarrow> loop_state \<Rightarrow> transition_args \<Rightarrow> (checkpoint, 'j) act"
  op_signal :: "journal_signal \<Rightarrow> (unit, 'j) act"

fun memory_signal :: "journal_signal \<Rightarrow> (unit, memory_journal) act" where
  "memory_signal (CancelRun rid) = memory_request_cancel rid"
| "memory_signal (KillSwitch b) = memory_set_kill_switch b"

fun sqlite_signal :: "journal_signal \<Rightarrow> (unit, sqlite_journal) act" where
  "sqlite_signal (CancelRun rid) = sqlite_request_cancel rid"
| "sqlite_signal (KillSwitch b) = sqlite_set_kill_switch b"

definition memory_ops ::
    "(loop_definition \<Rightarrow> string) \<Rightarrow> (loop_event \<Rightarrow> string) \<Rightarrow> memory_journal journal_ops" where
  "memory_ops ddig dig = \<lparr>op_create = memory_create ddig, op_load = memory_load,
     op_stop_reason = memory_stop_reason, op_transition = memory_transition dig,
     op_signal = memory_signal\<rparr>"

definition sqlite_ops ::
    "(loop_definition \<Rightarrow> string) \<Rightarrow> (loop_event \<Rightarrow> string) \<Rightarrow> sqlite_journal journal_ops" where
  "sqlite_ops ddig dig = \<lparr>op_create = sqlite_create ddig dig, op_load = sqlite_load dig,
     op_stop_reason = sqlite_stop_reason, op_transition = sqlite_transition dig,
     op_signal = sqlite_signal\<rparr>"

definition good_args ::
    "(loop_event \<Rightarrow> string) \<Rightarrow> checkpoint \<Rightarrow> loop_state \<Rightarrow> transition_args \<Rightarrow> bool" where
  "good_args dig c t a \<longleftrightarrow> transition_guards c t a = Inr () \<and> args_valid a
     \<and> check_checkpoint (next_checkpoint dig c t a) = Inr ()"

locale loop_journal =
  fixes ops :: "'j journal_ops" and inv :: "'j \<Rightarrow> bool" and stored :: "'j \<Rightarrow> string \<rightharpoonup> checkpoint"
    and ddig :: "loop_definition \<Rightarrow> string" and dig :: "loop_event \<Rightarrow> string"
  assumes create_new: "inv j \<Longrightarrow> stored j rid = None \<Longrightarrow> slug_id rid \<Longrightarrow> sha256_text (ddig d) \<Longrightarrow>
      \<exists>j'. op_create ops rid d j = (Inr (initial_checkpoint rid (ddig d)), j') \<and> inv j'
        \<and> stored j' = (stored j)(rid \<mapsto> initial_checkpoint rid (ddig d))"
    and create_existing: "inv j \<Longrightarrow> stored j rid = Some c \<Longrightarrow> definition_digest c = ddig d \<Longrightarrow>
      op_create ops rid d j = (Inr c, j)"
    and load_stored: "inv j \<Longrightarrow> stored j rid = Some c \<Longrightarrow> op_load ops rid j = (Inr c, j)"
    and stop_stored: "inv j \<Longrightarrow> stored j rid = Some c \<Longrightarrow>
      \<exists>r \<in> {None, Some ''ECO_LOOP_KILL_SWITCH'', Some ''ECO_LOOP_CANCELLED''}.
        op_stop_reason ops rid j = (Inr r, j)"
    and transition_good: "inv j \<Longrightarrow> stored j (run_id c) = Some c \<Longrightarrow> good_args dig c t a \<Longrightarrow>
      \<exists>j'. op_transition ops c t a j = (Inr (next_checkpoint dig c t a), j') \<and> inv j'
        \<and> stored j' = (stored j)(run_id c \<mapsto> next_checkpoint dig c t a)"
    and signal_frame: "inv j \<Longrightarrow> op_signal ops s j = (r, j') \<Longrightarrow> inv j' \<and> stored j' = stored j"
    and stored_valid: "inv j \<Longrightarrow> stored j rid = Some c \<Longrightarrow> checkpoint_valid c \<and> run_id c = rid"

lemma check_initial_of_valid:
  assumes "checkpoint_valid c" and "definition_digest c = digest"
  shows "check_checkpoint (initial_checkpoint (run_id c) digest) = Inr ()"
  using assms by (auto simp: checkpoint_valid_def check_checkpoint_Inr initial_checkpoint_def)

lemma check_initial_fresh:
  "slug_id rid \<Longrightarrow> sha256_text digest \<Longrightarrow> check_checkpoint (initial_checkpoint rid digest) = Inr ()"
  by (auto simp: check_checkpoint_Inr initial_checkpoint_def)

interpretation memory_journal: loop_journal "memory_ops ddig dig" "memory_inv dig" checkpoints ddig dig
  for ddig :: "loop_definition \<Rightarrow> string" and dig :: "loop_event \<Rightarrow> string"
proof (standard, goal_cases)
  case (1 j rid d)
  then have eq: "memory_create ddig rid d j = (Inr (initial_checkpoint rid (ddig d)),
      j\<lparr>checkpoints := (checkpoints j)(rid \<mapsto> initial_checkpoint rid (ddig d)),
        mem_events := (mem_events j)(rid \<mapsto> [])\<rparr>)"
    by (simp add: memory_create_def Let_def check_initial_fresh)
  from memory_create_inv [OF 1(1) eq] eq show ?case by (simp add: memory_ops_def)
next
  case (2 j rid c d)
  then show ?case
    using memory_invD [OF 2(1,2)] check_initial_of_valid [of c "ddig d"]
    by (auto simp: memory_ops_def memory_create_def Let_def)
next
  case (3 j rid c)
  then show ?case by (simp add: memory_ops_def memory_load_def)
next
  case (4 j rid c)
  then show ?case by (simp add: memory_ops_def memory_stop_reason_def)
next
  case (5 j c t a)
  let ?n = "next_checkpoint dig c t a"
  let ?j = "j\<lparr>mem_events := (mem_events j)(run_id c \<mapsto>
                or_else (mem_events j (run_id c)) [] @ [next_event c t a]),
              checkpoints := (checkpoints j)(run_id c \<mapsto> ?n)\<rparr>"
  have eq: "memory_transition dig c t a j = (Inr ?n, ?j)"
    using 5 by (simp add: memory_transition_def good_args_def Let_def)
  moreover have "memory_inv dig ?j"
    using memory_transition_inv [OF 5(1) eq] 5(3) by (simp add: good_args_def)
  ultimately show ?case by (simp add: memory_ops_def)
next
  case (6 j s r j')
  then show ?case
    by (cases s) (auto simp: memory_ops_def memory_request_cancel_def memory_set_kill_switch_def
        memory_inv_def split: if_splits)
next
  case (7 j rid c)
  then show ?case using memory_invD [OF 7] by blast
qed

interpretation sqlite_journal: loop_journal "sqlite_ops ddig dig" "sqlite_inv dig"
    "\<lambda>j rid. map_option row_checkpoint (loop_runs j rid)" ddig dig
  for ddig :: "loop_definition \<Rightarrow> string" and dig :: "loop_event \<Rightarrow> string"
proof (standard, goal_cases)
  case (1 j rid d)
  let ?c = "initial_checkpoint rid (ddig d)"
  let ?j = "j\<lparr>loop_runs := (loop_runs j)(rid \<mapsto> \<lparr>row_checkpoint = ?c, row_cancelled = False\<rparr>)\<rparr>"
  have eq: "sqlite_create ddig dig rid d j = (Inr ?c, ?j)"
    using 1 by (simp add: sqlite_create_def Let_def check_initial_fresh)
  have "loop_events j rid = []" using 1(1,2) by (simp add: sqlite_inv_def)
  then have "sqlite_inv dig ?j"
    using 1 by (intro sqlite_inv_upd [OF 1(1), of "\<lparr>row_checkpoint = ?c, row_cancelled = False\<rparr>" rid "[]"])
      (auto simp: check_initial log_ok_initial fun_eq_iff, simp add: initial_checkpoint_def)
  with eq show ?case by (auto simp: sqlite_ops_def fun_eq_iff)
next
  case (2 j rid c d)
  then obtain row where row: "loop_runs j rid = Some row" "row_checkpoint row = c" by auto
  show ?case
    using 2 row sqlite_invD [OF 2(1) row(1)] check_initial_of_valid [of c "ddig d"]
      verified_checkpoint_ok [OF 2(1) row(1)]
    by (auto simp: sqlite_ops_def sqlite_create_def Let_def)
next
  case (3 j rid c)
  then obtain row where row: "loop_runs j rid = Some row" "row_checkpoint row = c" by auto
  with verified_checkpoint_ok [OF 3(1) row(1)] show ?case by (simp add: sqlite_ops_def sqlite_load_def)
next
  case (4 j rid c)
  then show ?case by (auto simp: sqlite_ops_def sqlite_stop_reason_def split: if_splits)
next
  case (5 j c t a)
  then obtain row where row: "loop_runs j (run_id c) = Some row" "row_checkpoint row = c" by auto
  have g: "transition_guards c t a = Inr ()" using 5(3) by (simp add: good_args_def)
  have "checkpoint_valid c" using sqlite_invD [OF 5(1) row(1)] row(2) by blast
  then have v: "checkpoint_valid (next_checkpoint dig c t a)"
    using 5(3) by (simp add: next_checkpoint_valid good_args_def)
  have inv': "sqlite_inv dig (sqlite_put dig j c t a)"
    by (rule sqlite_put_inv [OF 5(1) row g v])
  have "loop_runs (sqlite_put dig j c t a) (run_id c)
      = Some (row\<lparr>row_checkpoint := next_checkpoint dig c t a\<rparr>)"
    using row by (simp add: sqlite_put_def)
  from verified_checkpoint_ok [OF inv' this]
  have "sqlite_transition dig c t a j = (Inr (next_checkpoint dig c t a), sqlite_put dig j c t a)"
    using row g by (simp add: sqlite_transition_eq [OF 5(1) row(1)] sqlite_load_def)
  with inv' show ?case by (auto simp: sqlite_ops_def sqlite_put_def fun_eq_iff row)
next
  case (6 j s r j')
  show ?case
  proof (cases s)
    case (CancelRun rid)
    show ?thesis
    proof (cases "loop_runs j rid")
      case (Some row)
      from sqlite_invD [OF 6(1) Some] obtain es where "run_id (row_checkpoint row) = rid"
        "checkpoint_valid (row_checkpoint row)" "loop_events j rid = map (row_of dig) es"
        "log_ok dig (row_checkpoint row) es" by blast
      with 6 CancelRun Some show ?thesis
        by (auto simp: sqlite_ops_def sqlite_request_cancel_def fun_eq_iff
            intro!: sqlite_inv_upd [OF 6(1), of "row\<lparr>row_cancelled := True\<rparr>" rid es])
    qed (use 6 CancelRun in \<open>simp add: sqlite_ops_def sqlite_request_cancel_def\<close>)
  qed (use 6 in \<open>auto simp: sqlite_ops_def sqlite_set_kill_switch_def sqlite_inv_def\<close>)
next
  case (7 j rid c)
  then show ?case using sqlite_invD [OF 7(1)] by auto
qed

section \<open>Properties\<close>

text \<open>A concrete journal: one created run, over digests with the shape of SHA-256 output.\<close>

definition zero_digest :: "'a \<Rightarrow> string" where
  "zero_digest _ = replicate 64 (CHR ''0'')"

lemma zero_digest_ok [simp]: "sha256_text (zero_digest x)"
  by (simp add: zero_digest_def sha256_text_def list_all_iff is_hex_def is_digit_def)

definition demo_sqlite :: sqlite_journal where
  "demo_sqlite = new_sqlite_journal\<lparr>loop_runs := [''run'' \<mapsto>
     \<lparr>row_checkpoint = initial_checkpoint ''run'' (zero_digest ()), row_cancelled = False\<rparr>]\<rparr>"

lemma slug_id_run: "slug_id ''run''"
  by code_simp

lemma demo_sqlite_inv: "sqlite_inv zero_digest demo_sqlite"
  unfolding sqlite_inv_def
  by (auto simp: demo_sqlite_def new_sqlite_journal_def check_initial slug_id_run log_ok_initial split: if_splits)
    (simp add: initial_checkpoint_def)

text \<open>The calls that change the journal, and the steps of those that returned.\<close>

datatype journal_call =
    Create string loop_definition
  | Transition checkpoint loop_state transition_args
  | Signal journal_signal

fun sqlite_call ::
    "(loop_definition \<Rightarrow> string) \<Rightarrow> (loop_event \<Rightarrow> string) \<Rightarrow> journal_call \<Rightarrow> sqlite_journal \<Rightarrow> sqlite_journal result" where
  "sqlite_call ddig dig (Create rid d) j =
     (case sqlite_create ddig dig rid d j of (Inl e, _) \<Rightarrow> Inl e | (Inr _, j') \<Rightarrow> Inr j')"
| "sqlite_call ddig dig (Transition c t a) j =
     (case sqlite_transition dig c t a j of (Inl e, _) \<Rightarrow> Inl e | (Inr _, j') \<Rightarrow> Inr j')"
| "sqlite_call ddig dig (Signal s) j =
     (case sqlite_signal s j of (Inl e, _) \<Rightarrow> Inl e | (Inr _, j') \<Rightarrow> Inr j')"

definition sqlite_step ::
    "(loop_definition \<Rightarrow> string) \<Rightarrow> (loop_event \<Rightarrow> string) \<Rightarrow> sqlite_journal \<Rightarrow> sqlite_journal \<Rightarrow> bool" where
  "sqlite_step ddig dig j j' \<longleftrightarrow> (\<exists>call. sqlite_call ddig dig call j = Inr j')"

lemma sqlite_create_inv:
  assumes "sqlite_inv dig j" and "sqlite_create ddig dig rid d j = (Inr c, j')"
  shows "sqlite_inv dig j'"
proof (cases "loop_runs j rid")
  case None
  have "check_checkpoint (initial_checkpoint rid (ddig d)) = Inr ()"
    using assms(2) by (auto simp: sqlite_create_def Let_def split: sum.splits)
  then have "slug_id rid" "sha256_text (ddig d)"
    by (auto simp: check_checkpoint_Inr initial_checkpoint_def)
  from sqlite_journal.create_new [of dig j rid ddig d, OF assms(1) _ this] None assms(2)
  show ?thesis by (auto simp: sqlite_ops_def)
next
  case (Some row)
  with assms show ?thesis by (auto simp: sqlite_create_def Let_def split: sum.splits)
qed

interpretation sqlite: inv_system "(=) new_sqlite_journal" "sqlite_step ddig dig" "sqlite_inv dig"
  for ddig :: "loop_definition \<Rightarrow> string" and dig :: "loop_event \<Rightarrow> string"
proof (standard, goal_cases)
  case (1 j)
  then show ?case by (auto simp: sqlite_inv_def new_sqlite_journal_def)
next
  case (2 j j')
  then obtain call where "sqlite_call ddig dig call j = Inr j'" by (auto simp: sqlite_step_def)
  with 2(1) show ?case
    using sqlite_journal.signal_frame [of dig j ddig]
    by (cases call) (auto simp: sqlite_ops_def split: prod.splits sum.splits
        intro: sqlite_create_inv sqlite_transition_inv)
qed

text \<open>The transition of a stored run builds a checkpoint that its own validation refuses.\<close>

definition checkpoint_refused :: "(loop_event \<Rightarrow> string) \<Rightarrow> sqlite_journal \<Rightarrow> checkpoint \<Rightarrow> loop_state \<Rightarrow> transition_args \<Rightarrow> bool" where
  "checkpoint_refused dig j c t a \<longleftrightarrow> map_option row_checkpoint (loop_runs j (run_id c)) = Some c
     \<and> transition_guards c t a = Inr () \<and> check_checkpoint (next_checkpoint dig c t a) \<noteq> Inr ()"

lemma refused_transition:
  assumes inv: "sqlite_inv dig j" and args: "args_valid a" and bad: "checkpoint_refused dig j c t a"
  obtains err where "memory_transition dig c t a (abs_journal j) = (Inl err, abs_journal j)"
    "sqlite_transition dig c t a j = (Inl err, sqlite_put dig j c t a)"
    "sqlite_load dig (run_id c) (sqlite_put dig j c t a) = (Inl err, sqlite_put dig j c t a)"
proof -
  from bad obtain row err where row: "loop_runs j (run_id c) = Some row" and c: "row_checkpoint row = c"
    and g: "transition_guards c t a = Inr ()" and err: "check_checkpoint (next_checkpoint dig c t a) = Inl err"
    by (auto simp: checkpoint_refused_def) (metis obj_sumE old.unit.exhaust)
  have "check_usage (usage (next_checkpoint dig c t a)) = Inr ()"
    using sqlite_invD [OF inv row] c args by (auto simp: checkpoint_valid_def args_valid_def or_else_def split: option.splits)
  then have ld: "sqlite_load dig (run_id c) (sqlite_put dig j c t a) = (Inl err, sqlite_put dig j c t a)"
    using row err by (simp add: sqlite_load_def verified_checkpoint_def sqlite_put_def read_checkpoint_def)
  moreover have "sqlite_transition dig c t a j = (Inl err, sqlite_put dig j c t a)"
    using c g ld by (simp add: sqlite_transition_eq [OF inv row])
  moreover have "memory_transition dig c t a (abs_journal j) = (Inl err, abs_journal j)"
    using row c g err by (simp add: memory_transition_def abs_journal_def Let_def)
  ultimately show thesis by (intro that)
qed

lemma checkpoint_stored:
  "loop_runs j (run_id c) = Some row \<Longrightarrow> row_checkpoint row = c \<Longrightarrow> checkpoints (abs_journal (sqlite_put dig j c t a)) (run_id c) = Some (next_checkpoint dig c t a)"
  by (subst abs_sqlite_put [where row = row]) simp_all

text \<open>C38: the SQLite journal implements the in-memory journal, with one exception. For every expected checkpoint, target and
  arguments the two transitions return the same checkpoint or raise the same error. The resulting journals correspond, unless the
  transition builds a checkpoint that its own validation refuses: then the in-memory journal is unchanged, while the SQLite journal
  has already committed the refused checkpoint and every later load of the run raises.\<close>

theorem sqlite_refines_memory:
  assumes "sqlite_inv dig j" and "args_valid a"
  shows "fst (memory_transition dig c t a (abs_journal j)) = fst (sqlite_transition dig c t a j)
    \<and> (if checkpoint_refused dig j c t a
       then snd (memory_transition dig c t a (abs_journal j)) = abs_journal j
         \<and> checkpoints (abs_journal (snd (sqlite_transition dig c t a j))) (run_id c) = Some (next_checkpoint dig c t a)
         \<and> isl (fst (sqlite_load dig (run_id c) (snd (sqlite_transition dig c t a j))))
       else snd (memory_transition dig c t a (abs_journal j)) = abs_journal (snd (sqlite_transition dig c t a j)))"
proof (cases "checkpoint_refused dig j c t a")
  case True
  then obtain row where "loop_runs j (run_id c) = Some row" "row_checkpoint row = c" by (auto simp: checkpoint_refused_def)
  from checkpoint_stored [OF this] refused_transition [OF assms True] show ?thesis by (metis True fst_conv snd_conv sum.disc(1))
next
  case False
  have "memory_transition dig c t a (abs_journal j) = map_prod id abs_journal (sqlite_transition dig c t a j)"
    using False by (intro sqlite_simulates_transition [OF assms]) (simp add: checkpoint_refused_def)
  with False show ?thesis by simp
qed

theorem sqlite_refines_memory_witness:
  "memory_transition zero_digest (initial_checkpoint ''run'' (zero_digest ())) LoopReady
      (reason_only ''ECO_LOOP_READY'') (abs_journal demo_sqlite)
     = map_prod id abs_journal (sqlite_transition zero_digest
         (initial_checkpoint ''run'' (zero_digest ())) LoopReady (reason_only ''ECO_LOOP_READY'') demo_sqlite)"
proof -
  have a: "args_valid (reason_only ''ECO_LOOP_READY'')" by (simp add: args_valid_def reason_only_def)
  have "check_checkpoint (next_checkpoint zero_digest (initial_checkpoint ''run'' (zero_digest ())) LoopReady
      (reason_only ''ECO_LOOP_READY'')) = Inr ()"
    by (simp add: check_checkpoint_Inr slug_id_run initial_checkpoint_def reason_only_def or_else_def
        LOOP_TERMINAL_STATES_def)
  then have "\<not> checkpoint_refused zero_digest demo_sqlite (initial_checkpoint ''run'' (zero_digest ())) LoopReady (reason_only ''ECO_LOOP_READY'')"
    by (simp add: checkpoint_refused_def)
  with sqlite_refines_memory [OF demo_sqlite_inv a, of "initial_checkpoint ''run'' (zero_digest ())" LoopReady]
  show ?thesis by (simp add: prod_eq_iff)
qed

text \<open>The SQLite journal verifies what it wrote. After any sequence of creations, transitions
  that returned, cancellations and kill-switch changes, loading a stored run never reports a corrupt
  journal: it returns exactly the stored checkpoint.\<close>

lemma sqlite_always_verifies:
  assumes "reach ((=) new_sqlite_journal) (sqlite_step ddig dig) j" and "loop_runs j rid = Some row"
  shows "sqlite_load dig rid j = (Inr (row_checkpoint row), j)"
  using verified_checkpoint_ok [OF sqlite.reach_inv [OF assms(1)] assms(2)]
  by (simp add: sqlite_load_def)

definition demo_definition :: loop_definition where
  "demo_definition = \<lparr>loop_id = ''demo'', loop_version = ''1'', objective_digest = zero_digest (),
     gate_digest = zero_digest (), loop_profile = ''demo/v1'', side_effect_mode = ''no-effect'',
     deterministic = True, executable = True,
     budget = \<lparr>max_attempts = 3, max_iterations = 2, deadline = 1000, max_tokens = 30,
       max_cost_microusd = 0, max_storage_bytes = 0, reserve_tokens_per_attempt = 10,
       reserve_cost_microusd_per_attempt = 0, reserve_storage_bytes_per_attempt = 0\<rparr>,
     retry = \<lparr>allowed_reason_codes = [''ECO_RETRY''], max_stagnant_iterations = 2\<rparr>,
     state_outline = [LoopReady, LoopRunning]\<rparr>"

text \<open>The SQLite journal commits before it validates. A terminal transition whose reason starts
  with \<open>ECO_\<close> but is not a safe code is refused by the in-memory journal without a change, while the
  SQLite journal stores it, raises, and can never load the run again.\<close>

lemma sqlite_commits_before_validation:
  assumes inv: "sqlite_inv dig j" and row: "loop_runs j (run_id c) = Some row" and c: "row_checkpoint row = c"
    and g: "transition_guards c t a = Inr ()" and t: "t \<in> LOOP_TERMINAL_STATES"
    and bad: "\<not> eco_code (arg_reason a)" and args: "args_valid a"
    and sane: "opt_ok sha256_text (arg_progress a)" "opt_ok (\<lambda>n. 0 \<le> n) (arg_stagnant a)"
  shows "memory_transition dig c t a (abs_journal j)
       = (Inl (LoopContractError ''ECO_LOOP_CHECKPOINT_INVALID''), abs_journal j)
     \<and> (\<exists>j'. sqlite_transition dig c t a j
            = (Inl (LoopContractError ''ECO_LOOP_CHECKPOINT_INVALID''), j')
          \<and> loop_runs j' (run_id c) \<noteq> loop_runs j (run_id c)
          \<and> sqlite_load dig (run_id c) j'
            = (Inl (LoopContractError ''ECO_LOOP_CHECKPOINT_INVALID''), j'))"
proof -
  let ?n = "next_checkpoint dig c t a"
  have v: "checkpoint_valid c" using sqlite_invD [OF inv row] c by blast
  have chk: "check_checkpoint ?n = checkpoint_error"
    using v bad t sane
    by (auto simp: check_checkpoint_def checkpoint_valid_def check_checkpoint_Inr or_else_def
        non_negative_def split: option.splits)
  have us: "check_usage (usage ?n) = Inr ()"
    using v args by (auto simp: checkpoint_valid_def args_valid_def or_else_def split: option.splits)
  let ?j = "sqlite_put dig j c t a"
  have ld: "sqlite_load dig (run_id c) ?j = (checkpoint_error, ?j)"
    using row us chk
    by (simp add: sqlite_load_def verified_checkpoint_def sqlite_put_def read_checkpoint_def)
  have "sqlite_transition dig c t a j = (checkpoint_error, ?j)"
    using c g ld by (simp add: sqlite_transition_eq [OF inv row])
  moreover have "loop_runs ?j (run_id c) \<noteq> loop_runs j (run_id c)"
  proof
    assume "loop_runs ?j (run_id c) = loop_runs j (run_id c)"
    then have "row_checkpoint (row\<lparr>row_checkpoint := ?n\<rparr>) = row_checkpoint row"
      using row by (simp add: sqlite_put_def)
    then have "sequence ?n = sequence c" using c by simp
    then show False by simp
  qed
  moreover have "memory_transition dig c t a (abs_journal j) = (checkpoint_error, abs_journal j)"
    using row c g chk by (simp add: memory_transition_def abs_journal_def Let_def)
  ultimately show ?thesis using ld by blast
qed

end
