(* ===== verification/Eco_Loop_Engine.thy ===== *)
theory Eco_Loop_Engine
  imports Eco_Loop_Journal
begin

text \<open>
  The bounded loop engine, \<open>BoundedLoopEngine\<close> of \<open>src/src/eco_loops/engine.py\<close>, over any
  journal. The actor and the gate are arguments: a call returns a result, returns something else,
  or raises, and may come with cancel and kill-switch signals that other threads sent meanwhile.
  The clock is a function of how often it was read. The \<open>while\<close> loop is run with fuel; the fuel
  \<open>max_attempts + 1\<close> is proved to be enough.

  Lemmas, in the locale of the journal interface: every run ends in a terminal state and stays
  within the budget of its definition; they hold for both journals by interpretation.
\<close>

section \<open>The engine\<close>

datatype 'r call = Returned 'r | ReturnedOther | RaisedContract | RaisedOther

type_synonym executor = "checkpoint \<Rightarrow> attempt_result call \<times> journal_signal list"
type_synonym gate = "checkpoint \<Rightarrow> attempt_result \<Rightarrow> gate_outcome call \<times> journal_signal list"

record 'j world =
  journal :: 'j
  ticks :: nat

definition on_journal :: "('a, 'j) act \<Rightarrow> ('a, 'j world) act" where
  "on_journal m w = (case m (journal w) of (r, j) \<Rightarrow> (r, w\<lparr>journal := j\<rparr>))"

definition now_act :: "(nat \<Rightarrow> int) \<Rightarrow> (int, 'j world) act" where
  "now_act clock w = (Inr (clock (ticks w)), w\<lparr>ticks := Suc (ticks w)\<rparr>)"

text \<open>The signals that arrived during a call; a signal that raised does not concern the engine.\<close>

definition receive :: "'j journal_ops \<Rightarrow> journal_signal list \<Rightarrow> 'j world \<Rightarrow> 'j world" where
  "receive ops sigs w = w\<lparr>journal := fold (\<lambda>s j. snd (op_signal ops s j)) sigs (journal w)\<rparr>"

definition terminal_act ::
    "'j journal_ops \<Rightarrow> checkpoint \<Rightarrow> loop_state \<Rightarrow> string \<Rightarrow> (checkpoint, 'j world) act" where
  "terminal_act ops c s reason = on_journal (op_transition ops c s (reason_only reason))"

definition budget_stop :: "loop_budget \<Rightarrow> loop_usage \<Rightarrow> int \<Rightarrow> string option" where
  "budget_stop b u now =
     (if now \<ge> deadline b then Some ''ECO_LOOP_DEADLINE_EXHAUSTED''
      else if attempts u \<ge> max_attempts b then Some ''ECO_LOOP_ATTEMPTS_EXHAUSTED''
      else if iterations u \<ge> max_iterations b then Some ''ECO_LOOP_ITERATIONS_EXHAUSTED''
      else if tokens u + reserve_tokens_per_attempt b > max_tokens b
      then Some ''ECO_LOOP_TOKENS_EXHAUSTED''
      else if cost_microusd u + reserve_cost_microusd_per_attempt b > max_cost_microusd b
      then Some ''ECO_LOOP_COST_EXHAUSTED''
      else if storage_bytes u + reserve_storage_bytes_per_attempt b > max_storage_bytes b
      then Some ''ECO_LOOP_STORAGE_EXHAUSTED''
      else None)"

definition stop_or_budget ::
    "'j journal_ops \<Rightarrow> (nat \<Rightarrow> int) \<Rightarrow> loop_definition \<Rightarrow> checkpoint
      \<Rightarrow> (checkpoint option, 'j world) act" where
  "stop_or_budget ops clock d c =
     bindA (on_journal (op_stop_reason ops (run_id c))) (\<lambda>stop.
       case stop of
         Some reason \<Rightarrow> bindA (terminal_act ops c LoopCancelled reason) (\<lambda>t. returnA (Some t))
       | None \<Rightarrow> bindA (now_act clock) (\<lambda>now.
           case budget_stop (budget d) (usage c) now of
             Some reason \<Rightarrow> bindA (terminal_act ops c LoopExhausted reason) (\<lambda>t. returnA (Some t))
           | None \<Rightarrow> returnA None))"

text \<open>The check after a call: a stop request, or the deadline.\<close>

definition stop_or_deadline ::
    "'j journal_ops \<Rightarrow> (nat \<Rightarrow> int) \<Rightarrow> loop_definition \<Rightarrow> checkpoint
      \<Rightarrow> (checkpoint option, 'j world) act" where
  "stop_or_deadline ops clock d c =
     bindA (on_journal (op_stop_reason ops (run_id c))) (\<lambda>stop.
       case stop of
         Some reason \<Rightarrow> bindA (terminal_act ops c LoopCancelled reason) (\<lambda>t. returnA (Some t))
       | None \<Rightarrow> bindA (now_act clock) (\<lambda>now.
           if now \<ge> deadline (budget d)
           then bindA (terminal_act ops c LoopExhausted ''ECO_LOOP_DEADLINE_EXHAUSTED'')
                  (\<lambda>t. returnA (Some t))
           else returnA None))"

definition engine_start ::
    "'j journal_ops \<Rightarrow> loop_definition \<Rightarrow> string \<Rightarrow> (checkpoint, 'j world) act" where
  "engine_start ops d rid =
     bindA (on_journal (op_create ops rid d)) (\<lambda>c.
       if loop_state c = LoopNew
       then bindA (on_journal (op_stop_reason ops rid)) (\<lambda>stop.
              case stop of
                Some reason \<Rightarrow> terminal_act ops c LoopCancelled reason
              | None \<Rightarrow> on_journal (op_transition ops c LoopReady (reason_only ''ECO_LOOP_READY'')))
       else returnA c)"

definition engine_recover ::
    "'j journal_ops \<Rightarrow> (loop_definition \<Rightarrow> string) \<Rightarrow> loop_definition \<Rightarrow> string
      \<Rightarrow> (checkpoint, 'j world) act" where
  "engine_recover ops ddig d rid =
     bindA (on_journal (op_load ops rid)) (\<lambda>c.
       if definition_digest c \<noteq> ddig d then raiseA (LoopEngineError ''ECO_LOOP_DEFINITION_DRIFT'')
       else if loop_state c = LoopNew then engine_start ops d rid
       else if loop_state c \<in> {LoopReady, LoopRetryWait} \<union> LOOP_TERMINAL_STATES then returnA c
       else terminal_act ops c LoopFailed ''ECO_LOOP_RECOVERY_AMBIGUOUS'')"

datatype loop_next = Finished checkpoint | Continue checkpoint

definition finish :: "(checkpoint, 'j world) act \<Rightarrow> (loop_next, 'j world) act" where
  "finish m = bindA m (\<lambda>c. returnA (Finished c))"

definition reserve_usage :: "loop_budget \<Rightarrow> loop_usage \<Rightarrow> loop_usage" where
  "reserve_usage b u = \<lparr>attempts = attempts u + 1, iterations = iterations u,
     tokens = tokens u + reserve_tokens_per_attempt b,
     cost_microusd = cost_microusd u + reserve_cost_microusd_per_attempt b,
     storage_bytes = storage_bytes u + reserve_storage_bytes_per_attempt b\<rparr>"

text \<open>What happens once the gate has answered: \<open>g\<close> is a valid gate outcome.\<close>

definition settle_gate ::
    "'j journal_ops \<Rightarrow> loop_definition \<Rightarrow> checkpoint \<Rightarrow> gate_outcome \<Rightarrow> (loop_next, 'j world) act" where
  "settle_gate ops d c g =
     (let stagnant = (if last_progress_digest c = Some (progress_digest g)
                      then stagnant_iterations c + 1 else 0);
          args = (\<lambda>reason. \<lparr>arg_usage = None, arg_progress = Some (progress_digest g),
                    arg_stagnant = Some stagnant, arg_reason = reason,
                    arg_evidence = Some (gate_evidence g)\<rparr>)
      in if gate_pass g
         then finish (on_journal (op_transition ops c LoopSucceeded (args (gate_reason g))))
         else if gate_reason g \<notin> set (allowed_reason_codes (retry d))
         then finish (on_journal (op_transition ops c LoopFailed (args ''ECO_LOOP_RETRY_DENIED'')))
         else if stagnant \<ge> max_stagnant_iterations (retry d)
         then finish (on_journal (op_transition ops c LoopExhausted (args ''ECO_LOOP_NO_PROGRESS'')))
         else bindA (on_journal (op_transition ops c LoopRetryWait (args (gate_reason g))))
                (\<lambda>c'. returnA (Continue c')))"

definition run_gate ::
    "'j journal_ops \<Rightarrow> (nat \<Rightarrow> int) \<Rightarrow> loop_definition \<Rightarrow> gate \<Rightarrow> checkpoint \<Rightarrow> attempt_result
      \<Rightarrow> (loop_next, 'j world) act" where
  "run_gate ops clock d gate c attempt =
     bindA (on_journal (op_transition ops c LoopGating
       \<lparr>arg_usage = Some ((usage c)\<lparr>iterations := iterations (usage c) + 1\<rparr>), arg_progress = None,
        arg_stagnant = None, arg_reason = ''ECO_LOOP_GATE_STARTED'',
        arg_evidence = Some (attempt_evidence attempt)\<rparr>)) (\<lambda>c' w.
       let (response, sigs) = gate c' attempt; w' = receive ops sigs w in
       case response of
         RaisedContract \<Rightarrow> finish (terminal_act ops c' LoopFailed ''ECO_LOOP_GATE_INVALID'') w'
       | RaisedOther \<Rightarrow> finish (terminal_act ops c' LoopFailed ''ECO_LOOP_GATE_FAILED'') w'
       | ReturnedOther \<Rightarrow> finish (terminal_act ops c' LoopFailed ''ECO_LOOP_GATE_INVALID'') w'
       | Returned g \<Rightarrow>
           (case check_gate g of
              Inl _ \<Rightarrow> finish (terminal_act ops c' LoopFailed ''ECO_LOOP_GATE_INVALID'') w'
            | Inr _ \<Rightarrow>
                bindA (stop_or_deadline ops clock d c') (\<lambda>stop.
                  case stop of
                    Some t \<Rightarrow> returnA (Finished t)
                  | None \<Rightarrow> settle_gate ops d c' g) w'))"

text \<open>What happens once the actor has answered: \<open>attempt\<close> is a valid attempt result.\<close>

definition settle_attempt ::
    "'j journal_ops \<Rightarrow> (nat \<Rightarrow> int) \<Rightarrow> loop_definition \<Rightarrow> gate \<Rightarrow> checkpoint \<Rightarrow> attempt_result
      \<Rightarrow> (loop_next, 'j world) act" where
  "settle_attempt ops clock d gate c attempt =
     bindA (stop_or_deadline ops clock d c) (\<lambda>stop.
       case stop of
         Some t \<Rightarrow> returnA (Finished t)
       | None \<Rightarrow>
           (case attempt_outcome attempt of
              RetryableError \<Rightarrow>
                if attempt_reason attempt \<notin> set (allowed_reason_codes (retry d))
                then finish (terminal_act ops c LoopFailed ''ECO_LOOP_RETRY_DENIED'')
                else bindA (on_journal (op_transition ops c LoopRetryWait
                       \<lparr>arg_usage = None, arg_progress = None, arg_stagnant = None,
                        arg_reason = attempt_reason attempt,
                        arg_evidence = Some (attempt_evidence attempt)\<rparr>))
                     (\<lambda>c'. returnA (Continue c'))
            | FatalError \<Rightarrow> finish (terminal_act ops c LoopFailed (attempt_reason attempt))
            | Candidate \<Rightarrow> run_gate ops clock d gate c attempt))"

definition loop_body ::
    "'j journal_ops \<Rightarrow> (nat \<Rightarrow> int) \<Rightarrow> loop_definition \<Rightarrow> executor \<Rightarrow> gate \<Rightarrow> checkpoint
      \<Rightarrow> (loop_next, 'j world) act" where
  "loop_body ops clock d executor gate c =
     bindA (stop_or_budget ops clock d c) (\<lambda>stop.
       case stop of
         Some t \<Rightarrow> returnA (Finished t)
       | None \<Rightarrow>
           bindA (on_journal (op_transition ops c LoopRunning
             \<lparr>arg_usage = Some (reserve_usage (budget d) (usage c)), arg_progress = None,
              arg_stagnant = None, arg_reason = ''ECO_LOOP_ATTEMPT_RESERVED'',
              arg_evidence = None\<rparr>)) (\<lambda>c' w.
             let (response, sigs) = executor c'; w' = receive ops sigs w in
             case response of
               RaisedContract \<Rightarrow> finish (terminal_act ops c' LoopFailed ''ECO_LOOP_OUTCOME_INVALID'') w'
             | RaisedOther \<Rightarrow> finish (terminal_act ops c' LoopFailed ''ECO_LOOP_EXECUTOR_FAILED'') w'
             | ReturnedOther \<Rightarrow> finish (terminal_act ops c' LoopFailed ''ECO_LOOP_OUTCOME_INVALID'') w'
             | Returned attempt \<Rightarrow>
                 (case check_attempt attempt of
                    Inl _ \<Rightarrow> finish (terminal_act ops c' LoopFailed ''ECO_LOOP_OUTCOME_INVALID'') w'
                  | Inr _ \<Rightarrow> settle_attempt ops clock d gate c' attempt w')))"

text \<open>\<open>None\<close>: out of fuel.\<close>

fun run_loop ::
    "nat \<Rightarrow> 'j journal_ops \<Rightarrow> (nat \<Rightarrow> int) \<Rightarrow> loop_definition \<Rightarrow> executor \<Rightarrow> gate \<Rightarrow> checkpoint
      \<Rightarrow> (checkpoint option, 'j world) act" where
  "run_loop 0 ops clock d executor gate c = returnA None"
| "run_loop (Suc fuel) ops clock d executor gate c =
     (if loop_state c \<in> LOOP_TERMINAL_STATES then returnA (Some c)
      else if loop_state c \<notin> {LoopReady, LoopRetryWait}
      then raiseA (LoopEngineError ''ECO_LOOP_RECOVERY_AMBIGUOUS'')
      else bindA (loop_body ops clock d executor gate c) (\<lambda>nxt.
        case nxt of
          Finished t \<Rightarrow> returnA (Some t)
        | Continue c' \<Rightarrow> run_loop fuel ops clock d executor gate c'))"

definition engine_run ::
    "nat \<Rightarrow> 'j journal_ops \<Rightarrow> (nat \<Rightarrow> int) \<Rightarrow> loop_definition \<Rightarrow> executor \<Rightarrow> gate \<Rightarrow> bool \<Rightarrow> string
      \<Rightarrow> (checkpoint option, 'j world) act" where
  "engine_run fuel ops clock d executor gate same_callable rid =
     (if \<not> executable d then raiseA (LoopEngineError ''ECO_LOOP_PROFILE_NOT_EXECUTABLE'')
      else if \<not> deterministic d \<or> side_effect_mode d \<notin> {''no-effect'', ''report-only''}
      then raiseA (LoopEngineError ''ECO_LOOP_PROFILE_DENIED'')
      else if same_callable then raiseA (LoopEngineError ''ECO_LOOP_GATE_NOT_INDEPENDENT'')
      else bindA (engine_start ops d rid) (\<lambda>c. run_loop fuel ops clock d executor gate c))"

section \<open>Runs end and stay within their budget\<close>

definition within_budget :: "loop_budget \<Rightarrow> loop_usage \<Rightarrow> bool" where
  "within_budget b u \<longleftrightarrow> attempts u \<le> max_attempts b \<and> iterations u \<le> max_iterations b
     \<and> tokens u \<le> max_tokens b \<and> cost_microusd u \<le> max_cost_microusd b
     \<and> storage_bytes u \<le> max_storage_bytes b"

text \<open>The gate accepted: some call of the gate returned a valid passing outcome, and the run's
  terminal reason is the reason of that outcome.\<close>

definition gate_accepted :: "gate \<Rightarrow> checkpoint \<Rightarrow> bool" where
  "gate_accepted gate t \<longleftrightarrow> (\<exists>c a g sigs. gate c a = (Returned g, sigs) \<and> check_gate g = Inr ()
     \<and> gate_pass g \<and> terminal_reason t = Some (gate_reason g))"

lemma engine_reasons [simp]:
  "eco_code ''ECO_LOOP_READY''" "eco_code ''ECO_LOOP_KILL_SWITCH''" "eco_code ''ECO_LOOP_CANCELLED''"
  "eco_code ''ECO_LOOP_DEADLINE_EXHAUSTED''" "eco_code ''ECO_LOOP_ATTEMPTS_EXHAUSTED''"
  "eco_code ''ECO_LOOP_ITERATIONS_EXHAUSTED''" "eco_code ''ECO_LOOP_TOKENS_EXHAUSTED''"
  "eco_code ''ECO_LOOP_COST_EXHAUSTED''" "eco_code ''ECO_LOOP_STORAGE_EXHAUSTED''"
  "eco_code ''ECO_LOOP_RETRY_DENIED''" "eco_code ''ECO_LOOP_NO_PROGRESS''"
  "eco_code ''ECO_LOOP_GATE_STARTED''" "eco_code ''ECO_LOOP_GATE_INVALID''"
  "eco_code ''ECO_LOOP_GATE_FAILED''" "eco_code ''ECO_LOOP_OUTCOME_INVALID''"
  "eco_code ''ECO_LOOP_EXECUTOR_FAILED''" "eco_code ''ECO_LOOP_ATTEMPT_RESERVED''"
  "eco_code ''ECO_LOOP_RECOVERY_AMBIGUOUS''"
  by code_simp+

lemma budget_stop_code: "budget_stop b u now = Some r \<Longrightarrow> eco_code r"
  by (auto simp: budget_stop_def split: if_splits)

lemma eco_code_is_prefix: "eco_code s \<Longrightarrow> prefix ''ECO_'' s"
  by (metis eco_code_prefix take_is_prefix)

lemma good_argsI:
  assumes v: "checkpoint_valid c" and dg: "\<And>ev. sha256_text (dig ev)"
    and "transition_allowed (loop_state c) t" and "eco_code (arg_reason a)"
    and "opt_ok sha256_text (arg_evidence a)" and "opt_ok sha256_text (arg_progress a)"
    and "opt_ok (\<lambda>n. 0 \<le> n) (arg_stagnant a)" and "opt_ok (usage_le (usage c)) (arg_usage a)"
  shows "good_args dig c t a"
proof -
  have "args_valid a"
    using v assms(8)
    by (auto simp: args_valid_def checkpoint_valid_def check_usage_def usage_le_def opt_ok_def split: option.splits)
  moreover have "transition_guards c t a = Inr ()"
    using assms by (auto simp: transition_guards_def eco_code_is_prefix or_else_def opt_ok_def
        split: option.splits)
  moreover have "check_checkpoint (next_checkpoint dig c t a) = Inr ()"
    using assms by (auto simp: check_checkpoint_Inr checkpoint_valid_def or_else_def opt_ok_def
        split: option.splits)
  ultimately show ?thesis by (simp add: good_args_def)
qed

context loop_journal
begin

text \<open>The world holds checkpoint \<open>c\<close> of run \<open>rid\<close>, within the budget.\<close>

definition holds :: "loop_definition \<Rightarrow> string \<Rightarrow> 'j world \<Rightarrow> checkpoint \<Rightarrow> bool" where
  "holds d rid w c \<longleftrightarrow> inv (journal w) \<and> stored (journal w) rid = Some c \<and> run_id c = rid
     \<and> within_budget (budget d) (usage c)"

definition ended :: "loop_definition \<Rightarrow> gate \<Rightarrow> string \<Rightarrow> 'j world \<Rightarrow> checkpoint \<Rightarrow> bool" where
  "ended d gate rid w t \<longleftrightarrow> holds d rid w t \<and> loop_state t \<in> LOOP_TERMINAL_STATES
     \<and> (loop_state t = LoopSucceeded \<longrightarrow> gate_accepted gate t)"

lemma transition_holds:
  assumes h: "holds d rid w c" and dg: "\<And>ev. sha256_text (dig ev)"
    and "transition_allowed (loop_state c) t" and "eco_code (arg_reason a)"
    and "opt_ok sha256_text (arg_evidence a)" and "opt_ok sha256_text (arg_progress a)"
    and "opt_ok (\<lambda>n. 0 \<le> n) (arg_stagnant a)" and "opt_ok (usage_le (usage c)) (arg_usage a)"
    and "opt_ok (within_budget (budget d)) (arg_usage a)"
  shows "\<exists>w'. on_journal (op_transition ops c t a) w = (Inr (next_checkpoint dig c t a), w')
     \<and> holds d rid w' (next_checkpoint dig c t a)"
proof -
  have v: "checkpoint_valid c" using h stored_valid by (auto simp: holds_def)
  have "good_args dig c t a" by (rule good_argsI [OF v dg]) (use assms in auto)
  with h transition_good [of "journal w" c t a]
  obtain j' where "op_transition ops c t a (journal w) = (Inr (next_checkpoint dig c t a), j')"
    "inv j'" "stored j' = (stored (journal w))(run_id c \<mapsto> next_checkpoint dig c t a)"
    by (auto simp: holds_def)
  with h assms(9) show ?thesis
    by (intro exI [of _ "w\<lparr>journal := j'\<rparr>"])
      (auto simp: on_journal_def holds_def or_else_def opt_ok_def split: option.splits)
qed

lemma terminal_ends:
  assumes "holds d rid w c" and "\<And>ev. sha256_text (dig ev)" and "transition_allowed (loop_state c) s"
    and "s \<in> LOOP_TERMINAL_STATES" and "s \<noteq> LoopSucceeded" and "eco_code reason"
  shows "\<exists>t w'. terminal_act ops c s reason w = (Inr t, w') \<and> ended d gate rid w' t"
  using transition_holds [OF assms(1-3), of "reason_only reason"] assms(4-6)
  by (auto simp: terminal_act_def reason_only_def ended_def)

lemma finish_ends:
  assumes "holds d rid w c" and "\<And>ev. sha256_text (dig ev)" and "transition_allowed (loop_state c) s"
    and "s \<in> LOOP_TERMINAL_STATES" and "s \<noteq> LoopSucceeded" and "eco_code reason"
  shows "\<exists>t w'. finish (terminal_act ops c s reason) w = (Inr (Finished t), w') \<and> ended d gate rid w' t"
  using terminal_ends [OF assms, of gate] by (auto simp: finish_def)

lemma stop_holds:
  assumes "holds d rid w c"
  shows "\<exists>r. on_journal (op_stop_reason ops (run_id c)) w = (Inr r, w) \<and> opt_ok eco_code r"
proof -
  have inv: "inv (journal w)" "stored (journal w) (run_id c) = Some c"
    using assms by (auto simp: holds_def)
  from stop_stored [OF inv] show ?thesis by (auto simp: on_journal_def)
qed

lemma receive_holds:
  assumes "holds d rid w c"
  shows "holds d rid (receive ops sigs w) c"
proof -
  have "inv (fold (\<lambda>s j. snd (op_signal ops s j)) sigs j)
      \<and> stored (fold (\<lambda>s j. snd (op_signal ops s j)) sigs j) = stored j" if "inv j" for j
    using that
  proof (induction sigs arbitrary: j)
    case (Cons s sigs)
    obtain r j' where "op_signal ops s j = (r, j')" by (cases "op_signal ops s j")
    with Cons signal_frame [of j s r j'] show ?case by simp
  qed simp
  with assms show ?thesis by (simp add: holds_def receive_def)
qed

lemma holds_ticks [simp]: "holds d rid (w\<lparr>ticks := n\<rparr>) c = holds d rid w c"
  by (simp add: holds_def)

lemma stop_or_deadline_result:
  assumes h: "holds d rid w c" and dg: "\<And>ev. sha256_text (dig ev)"
    and st: "loop_state c \<in> {LoopRunning, LoopGating}"
  shows "\<exists>r w'. stop_or_deadline ops clock d c w = (Inr r, w')
     \<and> (case r of Some t \<Rightarrow> ended d gate rid w' t | None \<Rightarrow> holds d rid w' c)"
proof -
  obtain r where r: "on_journal (op_stop_reason ops (run_id c)) w = (Inr r, w)" "opt_ok eco_code r"
    using stop_holds [OF h] by blast
  have al: "transition_allowed (loop_state c) LoopCancelled" "transition_allowed (loop_state c) LoopExhausted"
    using st by (auto simp: transition_allowed_def)
  let ?w = "w\<lparr>ticks := Suc (ticks w)\<rparr>"
  have now: "now_act clock w = (Inr (clock (ticks w)), ?w)" by (simp add: now_act_def)
  show ?thesis
  proof (cases r)
    case (Some reason)
    with terminal_ends [OF h dg al(1), of reason gate] r show ?thesis
      by (auto simp: stop_or_deadline_def LOOP_TERMINAL_STATES_def)
  next
    case None
    have h': "holds d rid ?w c" using h by simp
    from terminal_ends [OF h' dg al(2), of "''ECO_LOOP_DEADLINE_EXHAUSTED''" gate] None r now h'
    show ?thesis
      by (cases "clock (ticks w) \<ge> deadline (budget d)")
        (auto simp: stop_or_deadline_def LOOP_TERMINAL_STATES_def)
  qed
qed

lemma stop_or_budget_result:
  assumes h: "holds d rid w c" and dg: "\<And>ev. sha256_text (dig ev)"
    and st: "loop_state c \<in> {LoopReady, LoopRetryWait}"
  shows "\<exists>r w'. stop_or_budget ops clock d c w = (Inr r, w')
     \<and> (case r of Some t \<Rightarrow> ended d gate rid w' t
        | None \<Rightarrow> holds d rid w' c \<and> (\<exists>now. budget_stop (budget d) (usage c) now = None))"
proof -
  obtain r where r: "on_journal (op_stop_reason ops (run_id c)) w = (Inr r, w)" "opt_ok eco_code r"
    using stop_holds [OF h] by blast
  have al: "transition_allowed (loop_state c) LoopCancelled" "transition_allowed (loop_state c) LoopExhausted"
    using st by (auto simp: transition_allowed_def)
  let ?w = "w\<lparr>ticks := Suc (ticks w)\<rparr>"
  have now: "now_act clock w = (Inr (clock (ticks w)), ?w)" by (simp add: now_act_def)
  show ?thesis
  proof (cases r)
    case (Some reason)
    with terminal_ends [OF h dg al(1), of reason gate] r show ?thesis
      by (auto simp: stop_or_budget_def LOOP_TERMINAL_STATES_def)
  next
    case None
    have h': "holds d rid ?w c" using h by simp
    show ?thesis
    proof (cases "budget_stop (budget d) (usage c) (clock (ticks w))")
      case (Some reason)
      then obtain t w' where "terminal_act ops c LoopExhausted reason ?w = (Inr t, w')"
        "ended d gate rid w' t"
        using terminal_ends [OF h' dg al(2) _ _ budget_stop_code [OF Some], of gate]
        by (auto simp: LOOP_TERMINAL_STATES_def)
      with Some None r now show ?thesis by (simp add: stop_or_budget_def)
    qed (use None r now h' in \<open>auto simp: stop_or_budget_def\<close>)
  qed
qed

text \<open>What one pass through the loop leaves behind: the run ended, or it waits for its next attempt
  with \<open>n\<close> attempts used.\<close>

definition next_ok :: "loop_definition \<Rightarrow> gate \<Rightarrow> string \<Rightarrow> int \<Rightarrow> 'j world \<Rightarrow> loop_next \<Rightarrow> bool" where
  "next_ok d gate rid n w nxt = (case nxt of
     Finished t \<Rightarrow> ended d gate rid w t
   | Continue c \<Rightarrow> holds d rid w c \<and> loop_state c = LoopRetryWait \<and> attempts (usage c) = n)"

lemma finish_next:
  assumes "holds d rid w c" and "\<And>ev. sha256_text (dig ev)" and "transition_allowed (loop_state c) s"
    and "s \<in> LOOP_TERMINAL_STATES" and "s \<noteq> LoopSucceeded" and "eco_code reason"
  shows "\<exists>x w'. finish (terminal_act ops c s reason) w = (Inr x, w') \<and> next_ok d gate rid n w' x"
  using finish_ends [OF assms, of gate] by (auto simp: next_ok_def)

lemma settle_gate_result:
  assumes h: "holds d rid w c" and dg: "\<And>ev. sha256_text (dig ev)" and st: "loop_state c = LoopGating"
    and g: "check_gate g = Inr ()" and call: "gate c a = (Returned g, sigs)"
  shows "\<exists>x w'. settle_gate ops d c g w = (Inr x, w')
     \<and> next_ok d gate rid (attempts (usage c)) w' x"
proof -
  define stagnant where "stagnant = (if last_progress_digest c = Some (progress_digest g)
    then stagnant_iterations c + 1 else 0)"
  define args where "args reason = \<lparr>arg_usage = None, arg_progress = Some (progress_digest g),
    arg_stagnant = Some stagnant, arg_reason = reason, arg_evidence = Some (gate_evidence g)\<rparr>"
    for reason
  have "checkpoint_valid c" using h stored_valid by (auto simp: holds_def)
  then have "0 \<le> stagnant" by (auto simp: stagnant_def checkpoint_valid_def check_checkpoint_Inr)
  then have tr: "\<exists>w'. on_journal (op_transition ops c t (args reason)) w
      = (Inr (next_checkpoint dig c t (args reason)), w')
      \<and> holds d rid w' (next_checkpoint dig c t (args reason))"
    if "t \<in> TRANSITIONS LoopGating" "eco_code reason" for t reason
    using that g by (intro transition_holds [OF h dg])
      (auto simp: args_def transition_allowed_def st check_gate_Inr)
  have codes: "eco_code (gate_reason g)" using g by (simp add: check_gate_Inr)
  have acc: "gate_pass g \<Longrightarrow> gate_accepted gate (next_checkpoint dig c LoopSucceeded (args (gate_reason g)))"
    using g call unfolding gate_accepted_def
    by (intro exI [of _ c] exI [of _ a] exI [of _ g] exI [of _ sigs])
      (simp add: args_def LOOP_TERMINAL_STATES_def)
  have eq: "settle_gate ops d c g =
     (if gate_pass g then finish (on_journal (op_transition ops c LoopSucceeded (args (gate_reason g))))
      else if gate_reason g \<notin> set (allowed_reason_codes (retry d))
      then finish (on_journal (op_transition ops c LoopFailed (args ''ECO_LOOP_RETRY_DENIED'')))
      else if stagnant \<ge> max_stagnant_iterations (retry d)
      then finish (on_journal (op_transition ops c LoopExhausted (args ''ECO_LOOP_NO_PROGRESS'')))
      else bindA (on_journal (op_transition ops c LoopRetryWait (args (gate_reason g))))
             (\<lambda>c'. returnA (Continue c')))"
    by (simp add: settle_gate_def Let_def args_def [abs_def] stagnant_def [symmetric])
  show ?thesis
    using tr [OF _ codes, of LoopSucceeded] tr [of LoopFailed "''ECO_LOOP_RETRY_DENIED''"]
      tr [of LoopExhausted "''ECO_LOOP_NO_PROGRESS''"] tr [OF _ codes, of LoopRetryWait] acc
    unfolding eq
    by (auto simp: finish_def next_ok_def ended_def LOOP_TERMINAL_STATES_def args_def or_else_def)
qed

lemma run_gate_result:
  assumes h: "holds d rid w c" and dg: "\<And>ev. sha256_text (dig ev)" and st: "loop_state c = LoopRunning"
    and a: "check_attempt a = Inr ()" and it: "iterations (usage c) < max_iterations (budget d)"
  shows "\<exists>x w'. run_gate ops clock d gate c a w = (Inr x, w')
     \<and> next_ok d gate rid (attempts (usage c)) w' x"
proof -
  define args where "args = \<lparr>arg_usage = Some ((usage c)\<lparr>iterations := iterations (usage c) + 1\<rparr>),
    arg_progress = None, arg_stagnant = None, arg_reason = ''ECO_LOOP_GATE_STARTED'',
    arg_evidence = Some (attempt_evidence a)\<rparr>"
  define c' where "c' = next_checkpoint dig c LoopGating args"
  have "\<exists>w'. on_journal (op_transition ops c LoopGating args) w = (Inr c', w') \<and> holds d rid w' c'"
    unfolding c'_def using a it h
    by (intro transition_holds [OF h dg])
      (auto simp: args_def transition_allowed_def st check_attempt_Inr usage_le_def within_budget_def
        holds_def)
  then obtain w1 where w1: "on_journal (op_transition ops c LoopGating args) w = (Inr c', w1)"
    "holds d rid w1 c'" by blast
  obtain response sigs where call: "gate c' a = (response, sigs)" by (cases "gate c' a")
  define w2 where "w2 = receive ops sigs w1"
  have h2: "holds d rid w2 c'" unfolding w2_def by (rule receive_holds [OF w1(2)])
  have c': "loop_state c' = LoopGating" "attempts (usage c') = attempts (usage c)"
    by (simp_all add: c'_def args_def or_else_def)
  have fin: "\<exists>x w'. finish (terminal_act ops c' LoopFailed reason) w2 = (Inr x, w')
      \<and> next_ok d gate rid (attempts (usage c)) w' x" if "eco_code reason" for reason
    using that by (intro finish_next [OF h2 dg])
      (auto simp: c' transition_allowed_def LOOP_TERMINAL_STATES_def)
  have eq: "run_gate ops clock d gate c a w = (case response of
         RaisedContract \<Rightarrow> finish (terminal_act ops c' LoopFailed ''ECO_LOOP_GATE_INVALID'') w2
       | RaisedOther \<Rightarrow> finish (terminal_act ops c' LoopFailed ''ECO_LOOP_GATE_FAILED'') w2
       | ReturnedOther \<Rightarrow> finish (terminal_act ops c' LoopFailed ''ECO_LOOP_GATE_INVALID'') w2
       | Returned g \<Rightarrow>
           (case check_gate g of
              Inl _ \<Rightarrow> finish (terminal_act ops c' LoopFailed ''ECO_LOOP_GATE_INVALID'') w2
            | Inr _ \<Rightarrow>
                bindA (stop_or_deadline ops clock d c') (\<lambda>stop.
                  case stop of
                    Some t \<Rightarrow> returnA (Finished t)
                  | None \<Rightarrow> settle_gate ops d c' g) w2))"
    using w1(1) by (simp add: run_gate_def args_def [symmetric] call Let_def w2_def
        split: call.split sum.split)
  show ?thesis
  proof (cases response)
    case (Returned g)
    show ?thesis
    proof (cases "check_gate g")
      case (Inr u)
      obtain r w3 where r: "stop_or_deadline ops clock d c' w2 = (Inr r, w3)"
        "case r of Some t \<Rightarrow> ended d gate rid w3 t | None \<Rightarrow> holds d rid w3 c'"
        using stop_or_deadline_result [OF h2 dg, of clock gate] c'(1) by auto
      show ?thesis
      proof (cases r)
        case None
        with r have h3: "holds d rid w3 c'" by simp
        from settle_gate_result [OF h3 dg c'(1), of g gate a sigs] call Returned Inr r None c'(2)
        show ?thesis unfolding eq by simp
      qed (use r Returned Inr in \<open>simp add: eq next_ok_def\<close>)
    qed (use fin Returned in \<open>simp add: eq\<close>)
  qed (use fin in \<open>simp_all add: eq\<close>)
qed

lemma settle_attempt_result:
  assumes h: "holds d rid w c" and dg: "\<And>ev. sha256_text (dig ev)" and st: "loop_state c = LoopRunning"
    and a: "check_attempt a = Inr ()" and it: "iterations (usage c) < max_iterations (budget d)"
  shows "\<exists>x w'. settle_attempt ops clock d gate c a w = (Inr x, w')
     \<and> next_ok d gate rid (attempts (usage c)) w' x"
proof -
  obtain r w1 where r: "stop_or_deadline ops clock d c w = (Inr r, w1)"
    "case r of Some t \<Rightarrow> ended d gate rid w1 t | None \<Rightarrow> holds d rid w1 c"
    using stop_or_deadline_result [OF h dg, of clock gate] st by auto
  show ?thesis
  proof (cases r)
    case None
    with r have h1: "holds d rid w1 c" by simp
    have fin: "\<exists>x w'. finish (terminal_act ops c LoopFailed reason) w1 = (Inr x, w')
        \<and> next_ok d gate rid (attempts (usage c)) w' x" if "eco_code reason" for reason
      using that by (intro finish_next [OF h1 dg])
        (auto simp: st transition_allowed_def LOOP_TERMINAL_STATES_def)
    let ?args = "\<lparr>arg_usage = None, arg_progress = None, arg_stagnant = None,
      arg_reason = attempt_reason a, arg_evidence = Some (attempt_evidence a)\<rparr>"
    have tr: "\<exists>w'. on_journal (op_transition ops c LoopRetryWait ?args) w1
        = (Inr (next_checkpoint dig c LoopRetryWait ?args), w')
        \<and> holds d rid w' (next_checkpoint dig c LoopRetryWait ?args)"
      using a by (intro transition_holds [OF h1 dg])
        (auto simp: transition_allowed_def st check_attempt_Inr)
    have code: "eco_code (attempt_reason a)" using a by (simp add: check_attempt_Inr)
    show ?thesis
      using r(1) None run_gate_result [OF h1 dg st a it, of clock gate]
        fin [OF code] fin [of "''ECO_LOOP_RETRY_DENIED''"] tr
      by (cases "attempt_outcome a") (auto simp: settle_attempt_def next_ok_def or_else_def)
  qed (use r in \<open>simp add: settle_attempt_def next_ok_def\<close>)
qed

lemma loop_body_result:
  assumes h: "holds d rid w c" and dg: "\<And>ev. sha256_text (dig ev)" and b: "check_budget (budget d) = Inr ()"
    and st: "loop_state c \<in> {LoopReady, LoopRetryWait}"
  shows "\<exists>x w'. loop_body ops clock d executor gate c w = (Inr x, w')
     \<and> next_ok d gate rid (attempts (usage c) + 1) w' x"
proof -
  obtain r w1 where r: "stop_or_budget ops clock d c w = (Inr r, w1)"
    "case r of Some t \<Rightarrow> ended d gate rid w1 t
     | None \<Rightarrow> holds d rid w1 c \<and> (\<exists>now. budget_stop (budget d) (usage c) now = None)"
    using stop_or_budget_result [OF h dg st, of clock gate] by blast
  show ?thesis
  proof (cases r)
    case None
    with r have h1: "holds d rid w1 c"
      and bs: "attempts (usage c) < max_attempts (budget d)"
        "iterations (usage c) < max_iterations (budget d)"
        "within_budget (budget d) (reserve_usage (budget d) (usage c))"
      by (auto simp: budget_stop_def reserve_usage_def within_budget_def split: if_splits)
    define args where "args = \<lparr>arg_usage = Some (reserve_usage (budget d) (usage c)),
      arg_progress = None, arg_stagnant = None, arg_reason = ''ECO_LOOP_ATTEMPT_RESERVED'',
      arg_evidence = None\<rparr>"
    define c' where "c' = next_checkpoint dig c LoopRunning args"
    have "\<exists>w'. on_journal (op_transition ops c LoopRunning args) w1 = (Inr c', w') \<and> holds d rid w' c'"
      unfolding c'_def using b bs(3) st
      by (intro transition_holds [OF h1 dg])
        (auto simp: args_def transition_allowed_def usage_le_def reserve_usage_def check_budget_Inr)
    then obtain w2 where w2: "on_journal (op_transition ops c LoopRunning args) w1 = (Inr c', w2)"
      "holds d rid w2 c'" by blast
    obtain response sigs where call: "executor c' = (response, sigs)" by (cases "executor c'")
    define w3 where "w3 = receive ops sigs w2"
    have h3: "holds d rid w3 c'" unfolding w3_def by (rule receive_holds [OF w2(2)])
    have c': "loop_state c' = LoopRunning" "attempts (usage c') = attempts (usage c) + 1"
      "iterations (usage c') < max_iterations (budget d)"
      using bs(2) by (simp_all add: c'_def args_def or_else_def reserve_usage_def)
    have fin: "\<exists>x w'. finish (terminal_act ops c' LoopFailed reason) w3 = (Inr x, w')
        \<and> next_ok d gate rid (attempts (usage c) + 1) w' x" if "eco_code reason" for reason
      using that by (intro finish_next [OF h3 dg])
        (auto simp: c' transition_allowed_def LOOP_TERMINAL_STATES_def)
    show ?thesis
    proof (cases response)
      case (Returned a)
      with r(1) None w2(1) call fin [of "''ECO_LOOP_OUTCOME_INVALID''"]
        settle_attempt_result [OF h3 dg c'(1) _ c'(3), of a clock gate] c'(2)
      show ?thesis
        by (cases "check_attempt a")
          (simp_all add: loop_body_def args_def [symmetric] w3_def [symmetric])
    qed (use r(1) None w2(1) call fin in
        \<open>simp_all add: loop_body_def args_def [symmetric] w3_def [symmetric]\<close>)
  qed (use r in \<open>simp add: loop_body_def next_ok_def\<close>)
qed

lemma run_loop_result:
  assumes "holds d rid w c" and dg: "\<And>ev. sha256_text (dig ev)" and b: "check_budget (budget d) = Inr ()"
    and "loop_state c \<in> {LoopReady, LoopRetryWait}"
    and "nat (max_attempts (budget d) - attempts (usage c)) < fuel"
  shows "\<exists>t w'. run_loop fuel ops clock d executor gate c w = (Inr (Some t), w') \<and> ended d gate rid w' t"
  using assms
proof (induction fuel arbitrary: c w)
  case (Suc fuel)
  have st: "loop_state c \<notin> LOOP_TERMINAL_STATES" using Suc.prems(4) by (auto simp: LOOP_TERMINAL_STATES_def)
  obtain x w1 where x: "loop_body ops clock d executor gate c w = (Inr x, w1)"
    "next_ok d gate rid (attempts (usage c) + 1) w1 x"
    using loop_body_result [OF Suc.prems(1) dg b Suc.prems(4), of clock executor gate] by blast
  show ?case
  proof (cases x)
    case (Finished t)
    with x st Suc.prems(4) show ?thesis by (auto simp: next_ok_def)
  next
    case (Continue c')
    with x(2) have c': "holds d rid w1 c'" "loop_state c' = LoopRetryWait"
      "attempts (usage c') = attempts (usage c) + 1" by (auto simp: next_ok_def)
    then have "attempts (usage c) + 1 \<le> max_attempts (budget d)"
      by (auto simp: holds_def within_budget_def)
    with Suc.prems(5) c'(3) have "nat (max_attempts (budget d) - attempts (usage c')) < fuel" by simp
    from Suc.IH [OF c'(1) dg b _ this] c'(2) x(1) Continue st Suc.prems(4) show ?thesis by auto
  qed
qed simp

lemma start_result:
  assumes inv: "inv (journal w)" and new: "stored (journal w) rid = None" and "slug_id rid"
    and dd: "sha256_text (ddig d)" and dg: "\<And>ev. sha256_text (dig ev)" and b: "check_budget (budget d) = Inr ()"
  shows "\<exists>c w'. engine_start ops d rid w = (Inr c, w') \<and> holds d rid w' c
     \<and> (loop_state c = LoopReady \<and> usage c = zero_usage \<or> ended d gate rid w' c)"
proof -
  let ?c = "initial_checkpoint rid (ddig d)"
  obtain j where j: "op_create ops rid d (journal w) = (Inr ?c, j)" "inv j"
    "stored j = (stored (journal w))(rid \<mapsto> ?c)"
    using create_new [OF inv new assms(3) dd] by blast
  let ?w = "w\<lparr>journal := j\<rparr>"
  have h: "holds d rid ?w ?c" using j(2,3) b
    by (simp add: holds_def initial_checkpoint_def within_budget_def zero_usage_def check_budget_Inr)
  have cr: "on_journal (op_create ops rid d) w = (Inr ?c, ?w)" using j(1) by (simp add: on_journal_def)
  have c: "loop_state ?c = LoopNew" "run_id ?c = rid" "usage ?c = zero_usage"
    by (simp_all add: initial_checkpoint_def)
  obtain r where r: "on_journal (op_stop_reason ops rid) ?w = (Inr r, ?w)" "opt_ok eco_code r"
    using stop_holds [OF h] c(2) by auto
  show ?thesis
  proof (cases r)
    case (Some reason)
    obtain t w' where "terminal_act ops ?c LoopCancelled reason ?w = (Inr t, w')" "ended d gate rid w' t"
      using terminal_ends [OF h dg, of LoopCancelled reason gate] Some r(2) c(1)
      by (auto simp: transition_allowed_def LOOP_TERMINAL_STATES_def)
    with cr r(1) Some c(1) show ?thesis by (auto simp: engine_start_def ended_def)
  next
    case None
    let ?n = "next_checkpoint dig ?c LoopReady (reason_only ''ECO_LOOP_READY'')"
    have "\<exists>w'. on_journal (op_transition ops ?c LoopReady (reason_only ''ECO_LOOP_READY'')) ?w
        = (Inr ?n, w') \<and> holds d rid w' ?n"
      by (intro transition_holds [OF h dg]) (simp_all add: transition_allowed_def c(1) reason_only_def)
    with cr r(1) None c show ?thesis by (auto simp: engine_start_def reason_only_def or_else_def)
  qed
qed

text \<open>A run of a fresh id ends, whatever the actor, the gate, the clock and the signals do.\<close>

lemma engine_run_result:
  assumes "inv (journal w)" and "stored (journal w) rid = None" and "slug_id rid"
    and "sha256_text (ddig d)" and "\<And>ev. sha256_text (dig ev)" and "check_budget (budget d) = Inr ()"
    and "executable d" and "deterministic d" and "side_effect_mode d \<in> {''no-effect'', ''report-only''}"
    and "max_attempts (budget d) < int fuel"
  shows "\<exists>t w'. engine_run fuel ops clock d executor gate False rid w = (Inr (Some t), w')
     \<and> ended d gate rid w' t"
proof -
  obtain c w1 where c: "engine_start ops d rid w = (Inr c, w1)" "holds d rid w1 c"
    "loop_state c = LoopReady \<and> usage c = zero_usage \<or> ended d gate rid w1 c"
    using start_result [OF assms(1-6), of gate] by blast
  have eq: "engine_run fuel ops clock d executor gate False rid w
      = run_loop fuel ops clock d executor gate c w1"
    using assms(7-9) c(1) by (auto simp: engine_run_def)
  have f: "fuel = Suc (fuel - 1)" using assms(6,10) by (simp add: check_budget_Inr)
  from c(3) show ?thesis
  proof
    assume "loop_state c = LoopReady \<and> usage c = zero_usage"
    then show ?thesis unfolding eq using assms(10)
      by (intro run_loop_result [OF c(2) assms(5,6)])
        (use assms(6) in \<open>auto simp: zero_usage_def check_budget_Inr nat_less_iff\<close>)
  next
    assume e: "ended d gate rid w1 c"
    then have "run_loop (Suc (fuel - 1)) ops clock d executor gate c w1 = (Inr (Some c), w1)"
      by (simp add: ended_def)
    with e f eq show ?thesis by auto
  qed
qed

text \<open>An interrupted attempt is failed by recovery, and then no run calls the actor again.\<close>

lemma recover_ambiguous:
  assumes inv: "inv (journal w)" and c: "stored (journal w) rid = Some c"
    and dd: "definition_digest c = ddig d" and dg: "\<And>ev. sha256_text (dig ev)"
    and st: "loop_state c \<in> {LoopRunning, LoopGating}"
    and ex: "executable d" "deterministic d" "side_effect_mode d \<in> {''no-effect'', ''report-only''}"
  shows "\<exists>t w'. engine_recover ops ddig d rid w = (Inr t, w')
     \<and> loop_state t = LoopFailed \<and> terminal_reason t = Some ''ECO_LOOP_RECOVERY_AMBIGUOUS''
     \<and> usage t = usage c
     \<and> (\<forall>fuel clock executor gate.
          engine_run (Suc fuel) ops clock d executor gate False rid w' = (Inr (Some t), w'))"
proof -
  let ?t = "next_checkpoint dig c LoopFailed (reason_only ''ECO_LOOP_RECOVERY_AMBIGUOUS'')"
  have v: "checkpoint_valid c" "run_id c = rid" using stored_valid [OF inv c] by auto
  have "good_args dig c LoopFailed (reason_only ''ECO_LOOP_RECOVERY_AMBIGUOUS'')"
    by (rule good_argsI [OF v(1) dg]) (use st in \<open>auto simp: transition_allowed_def reason_only_def\<close>)
  with transition_good [OF inv, of c] c v(2) obtain j where
    j: "op_transition ops c LoopFailed (reason_only ''ECO_LOOP_RECOVERY_AMBIGUOUS'') (journal w)
        = (Inr ?t, j)" "inv j" "stored j = (stored (journal w))(rid \<mapsto> ?t)" by blast
  let ?w = "w\<lparr>journal := j\<rparr>"
  have "engine_recover ops ddig d rid w = (Inr ?t, ?w)"
    using load_stored [OF inv c] dd st j(1)
    by (auto simp: engine_recover_def on_journal_def terminal_act_def bindA_def LOOP_TERMINAL_STATES_def)
  moreover have "engine_run (Suc fuel) ops clock d executor gate False rid ?w = (Inr (Some ?t), ?w)"
    for fuel clock executor gate
  proof -
    have "op_create ops rid d j = (Inr ?t, j)"
      by (rule create_existing [OF j(2)]) (use j(3) dd in auto)
    then show ?thesis using ex
      by (auto simp: engine_run_def engine_start_def on_journal_def bindA_def LOOP_TERMINAL_STATES_def)
  qed
  ultimately show ?thesis
    by (intro exI [of _ ?t] exI [of _ ?w])
      (simp add: LOOP_TERMINAL_STATES_def reason_only_def or_else_def)
qed

end

section \<open>The engine on both journals\<close>

text \<open>C16: whatever the actor, the gate, the clock and concurrent cancel and kill signals do, a run of an
  executable deterministic definition under a fresh run id returns: with fuel above the attempt limit
  it reaches a terminal state within every limit of its budget, it succeeded only if the gate returned
  a valid passing outcome, and the journal then loads exactly the returned checkpoint.\<close>

theorem loop_run_ends:
  assumes "sqlite_inv dig (journal w)" and "loop_runs (journal w) rid = None" and "slug_id rid"
    and "sha256_text (ddig d)" and "\<And>ev. sha256_text (dig ev)" and "check_budget (budget d) = Inr ()"
    and "executable d" and "deterministic d" and "side_effect_mode d \<in> {''no-effect'', ''report-only''}"
    and "max_attempts (budget d) < int fuel"
  shows "\<exists>t w'. engine_run fuel (sqlite_ops ddig dig) clock d executor gate False rid w = (Inr (Some t), w')
     \<and> loop_state t \<in> LOOP_TERMINAL_STATES \<and> within_budget (budget d) (usage t)
     \<and> (loop_state t = LoopSucceeded \<longrightarrow> gate_accepted gate t)
     \<and> sqlite_load dig rid (journal w') = (Inr t, journal w')"
proof -
  have "map_option row_checkpoint (loop_runs (journal w) rid) = None" using assms(2) by simp
  from sqlite_journal.engine_run_result [of dig w rid ddig d fuel clock executor gate, OF assms(1) this assms(3-10)]
  obtain t w' where r: "engine_run fuel (sqlite_ops ddig dig) clock d executor gate False rid w
      = (Inr (Some t), w')" and e: "sqlite_journal.ended dig d gate rid w' t"
    by blast
  have h: "sqlite_journal.holds dig d rid w' t"
    using e by (simp add: sqlite_journal.ended_def)
  then have "op_load (sqlite_ops ddig dig) rid (journal w') = (Inr t, journal w')"
    by (intro sqlite_journal.load_stored) (auto simp: sqlite_journal.holds_def)
  with r e h show ?thesis
    by (auto simp: sqlite_journal.ended_def sqlite_journal.holds_def sqlite_ops_def)
qed

text \<open>An actor that always proposes a candidate, and a gate that rejects once and then accepts.\<close>

definition demo_executor :: executor where
  "demo_executor c = (Returned \<lparr>attempt_outcome = Candidate, attempt_reason = ''ECO_DONE'',
     candidate_digest = zero_digest (), attempt_evidence = zero_digest ()\<rparr>, [])"

definition demo_gate :: gate where
  "demo_gate c a = (Returned \<lparr>gate_pass = (1 < attempts (usage c)), gate_reason = ''ECO_RETRY'',
     progress_digest = zero_digest (), gate_evidence = zero_digest ()\<rparr>, [])"

definition demo_world :: "sqlite_journal world" where
  "demo_world = \<lparr>journal = new_sqlite_journal, ticks = 0\<rparr>"

lemma new_sqlite_inv: "sqlite_inv dig new_sqlite_journal"
  by (rule sqlite.start_inv) simp

theorem loop_run_ends_witness:
  "\<exists>t w'. engine_run 4 (sqlite_ops zero_digest zero_digest) int demo_definition demo_executor demo_gate
       False ''run'' demo_world = (Inr (Some t), w')
     \<and> loop_state t \<in> LOOP_TERMINAL_STATES \<and> within_budget (budget demo_definition) (usage t)
     \<and> sqlite_load zero_digest ''run'' (journal w') = (Inr t, journal w')"
proof -
  have "sqlite_inv zero_digest (journal demo_world)" "loop_runs (journal demo_world) ''run'' = None"
    by (simp_all add: demo_world_def new_sqlite_inv, simp add: new_sqlite_journal_def)
  moreover have "check_budget (budget demo_definition) = Inr ()" "executable demo_definition"
    "deterministic demo_definition" "side_effect_mode demo_definition \<in> {''no-effect'', ''report-only''}"
    "max_attempts (budget demo_definition) < int 4"
    by (simp_all add: demo_definition_def check_budget_Inr)
  ultimately have "\<exists>t w'. engine_run 4 (sqlite_ops zero_digest zero_digest) int demo_definition demo_executor
       demo_gate False ''run'' demo_world = (Inr (Some t), w')
     \<and> loop_state t \<in> LOOP_TERMINAL_STATES \<and> within_budget (budget demo_definition) (usage t)
     \<and> (loop_state t = LoopSucceeded \<longrightarrow> gate_accepted demo_gate t)
     \<and> sqlite_load zero_digest ''run'' (journal w') = (Inr t, journal w')"
    by (intro loop_run_ends) (simp_all add: slug_id_run)
  then show ?thesis by blast
qed

text \<open>C39: recovery of a run that was interrupted while an attempt or its gate was in flight fails the run
  without charging it again, and no later run of that id calls an actor or a gate: it returns the
  failed checkpoint, whatever they are.\<close>

theorem recovery_never_repeats:
  assumes "memory_inv dig (journal w)" and "checkpoints (journal w) rid = Some c"
    and "definition_digest c = ddig d" and "\<And>ev. sha256_text (dig ev)"
    and "loop_state c \<in> {LoopRunning, LoopGating}"
    and "executable d" "deterministic d" "side_effect_mode d \<in> {''no-effect'', ''report-only''}"
  shows "\<exists>t w'. engine_recover (memory_ops ddig dig) ddig d rid w = (Inr t, w')
     \<and> loop_state t = LoopFailed \<and> terminal_reason t = Some ''ECO_LOOP_RECOVERY_AMBIGUOUS''
     \<and> usage t = usage c
     \<and> (\<forall>fuel clock executor gate.
          engine_run (Suc fuel) (memory_ops ddig dig) clock d executor gate False rid w'
            = (Inr (Some t), w'))"
  by (rule memory_journal.recover_ambiguous [of dig w rid c ddig d, OF assms])

definition demo_interrupted :: checkpoint where
  "demo_interrupted = next_checkpoint zero_digest
     (next_checkpoint zero_digest (initial_checkpoint ''run'' (zero_digest ())) LoopReady
        (reason_only ''ECO_LOOP_READY''))
     LoopRunning (reason_only ''ECO_LOOP_ATTEMPT_RESERVED'')"

theorem recovery_never_repeats_witness:
  "\<exists>w t w'. checkpoints (journal w) ''run'' = Some demo_interrupted
     \<and> engine_recover (memory_ops zero_digest zero_digest) zero_digest demo_definition ''run'' w = (Inr t, w')
     \<and> loop_state t = LoopFailed
     \<and> engine_run 1 (memory_ops zero_digest zero_digest) int demo_definition demo_executor demo_gate
         False ''run'' w' = (Inr (Some t), w')"
proof -
  let ?c = "initial_checkpoint ''run'' (zero_digest ())"
  let ?a = "reason_only ''ECO_LOOP_READY''" and ?b = "reason_only ''ECO_LOOP_ATTEMPT_RESERVED''"
  let ?c1 = "next_checkpoint zero_digest ?c LoopReady ?a"
  let ?es = "[] @ [next_event ?c LoopReady ?a] @ [next_event ?c1 LoopRunning ?b]"
  have "log_ok zero_digest ?c1 ([] @ [next_event ?c LoopReady ?a])"
    by (intro log_ok_next log_ok_initial) (simp add: transition_allowed_def initial_checkpoint_def)
  then have "log_ok zero_digest demo_interrupted (([] @ [next_event ?c LoopReady ?a]) @ [next_event ?c1 LoopRunning ?b])"
    unfolding demo_interrupted_def by (rule log_ok_next) (simp add: transition_allowed_def)
  then have "log_ok zero_digest demo_interrupted ?es" by simp
  moreover have "checkpoint_valid demo_interrupted" "run_id demo_interrupted = ''run''"
    and run: "loop_state demo_interrupted = LoopRunning"
    by (simp_all add: demo_interrupted_def checkpoint_valid_def check_checkpoint_Inr initial_checkpoint_def
        slug_id_run reason_only_def or_else_def check_usage_def zero_usage_def LOOP_TERMINAL_STATES_def)
  moreover have "memory_inv zero_digest new_memory_journal"
    by (simp add: memory_inv_def new_memory_journal_def)
  moreover define j where "j = new_memory_journal\<lparr>checkpoints := [''run'' \<mapsto> demo_interrupted],
      mem_events := [''run'' \<mapsto> ?es]\<rparr>"
  moreover have j: "checkpoints j = (checkpoints new_memory_journal)(''run'' \<mapsto> demo_interrupted)"
    "mem_events j = (mem_events new_memory_journal)(''run'' \<mapsto> ?es)"
    by (simp_all add: j_def new_memory_journal_def)
  ultimately have "memory_inv zero_digest j"
    by (blast intro: memory_inv_upd)
  moreover have "executable demo_definition" "deterministic demo_definition"
    "side_effect_mode demo_definition \<in> {''no-effect'', ''report-only''}"
    "definition_digest demo_interrupted = zero_digest demo_definition"
    by (simp_all add: demo_definition_def demo_interrupted_def initial_checkpoint_def zero_digest_def)
  ultimately obtain t w' where
    "engine_recover (memory_ops zero_digest zero_digest) zero_digest demo_definition ''run''
       \<lparr>journal = j, ticks = 0\<rparr> = (Inr t, w')" "loop_state t = LoopFailed"
    "\<And>fuel clock executor gate. engine_run (Suc fuel) (memory_ops zero_digest zero_digest) clock
       demo_definition executor gate False ''run'' w' = (Inr (Some t), w')"
    using recovery_never_repeats [of zero_digest "\<lparr>journal = j, ticks = 0\<rparr>" "''run''" demo_interrupted
        zero_digest demo_definition] run j(1) by auto
  then show ?thesis
    by (intro exI [of _ "\<lparr>journal = j, ticks = 0\<rparr>"] exI [of _ t] exI [of _ w'])
      (simp add: j(1))
qed

end
