(* ===== verification/Eco_Digests.thy ===== *)
theory Eco_Digests
  imports Eco_Prelude
begin

text \<open>
  Canonical JSON and digests, \<open>src/src/eco_runtime/digests.py\<close>. \<open>canonical_json\<close> is \<open>json.dumps\<close>
  with sorted keys, compact separators and \<open>ensure_ascii=False\<close>, on strings as UTF-8 bytes; values
  are JSON values without floats, so it never raises. SHA-256 is the parameter \<open>sha\<close>.

  Lemmas: the canonical text determines the value up to the order of object keys, and does not depend
  on that order, so a collision of \<open>semantic_digest\<close> on different values is a collision of the hash.
\<close>

section \<open>Printing\<close>

definition hexdigit :: "nat \<Rightarrow> char" where
  "hexdigit n = ''0123456789abcdef'' ! n"

text \<open>The escapes of \<open>json.dumps\<close>: quote, backslash and the control characters.\<close>

definition esc :: "char \<Rightarrow> string" where
  "esc c =
     (if c = CHR 0x22 then [CHR 0x5C, CHR 0x22]
      else if c = CHR 0x5C then [CHR 0x5C, CHR 0x5C]
      else if c = CHR 0x0A then [CHR 0x5C, CHR ''n'']
      else if c = CHR 0x0D then [CHR 0x5C, CHR ''r'']
      else if c = CHR 0x09 then [CHR 0x5C, CHR ''t'']
      else if c = CHR 0x0C then [CHR 0x5C, CHR ''f'']
      else if c = CHR 0x08 then [CHR 0x5C, CHR ''b'']
      else if of_char c < (32::nat)
      then [CHR 0x5C, CHR ''u'', CHR ''0'', CHR ''0'', hexdigit (of_char c div 16),
            hexdigit (of_char c mod 16)]
      else [c])"

definition show_str :: "string \<Rightarrow> string" where
  "show_str s = CHR 0x22 # concat (map esc s) @ [CHR 0x22]"

fun show_nat :: "nat \<Rightarrow> string" where
  "show_nat n = (if n < 10 then [hexdigit n] else show_nat (n div 10) @ [hexdigit (n mod 10)])"

declare show_nat.simps [simp del]

definition show_int :: "int \<Rightarrow> string" where
  "show_int i = (if i < 0 then CHR ''-'' # show_nat (nat (- i)) else show_nat (nat i))"

fun join_with :: "char \<Rightarrow> string list \<Rightarrow> string" where
  "join_with c [] = []"
| "join_with c [s] = s"
| "join_with c (s # ss) = s @ c # join_with c ss"

fun show_json :: "json \<Rightarrow> string" where
  "show_json JNull = ''null''"
| "show_json (JBool b) = (if b then ''true'' else ''false'')"
| "show_json (JInt i) = show_int i"
| "show_json (JStr s) = show_str s"
| "show_json (JList xs) = CHR ''['' # join_with CHR '','' (map show_json xs) @ [CHR '']'']"
| "show_json (JObj kvs) =
     CHR ''{'' # join_with CHR '','' (map (\<lambda>(k, v). show_str k @ CHR '':'' # show_json v) kvs) @ [CHR ''}'']"

fun sort_keys :: "json \<Rightarrow> json" where
  "sort_keys (JList xs) = JList (map sort_keys xs)"
| "sort_keys (JObj kvs) = JObj (sorted_items (map (\<lambda>(k, v). (k, sort_keys v)) kvs))"
| "sort_keys v = v"

definition canonical_json :: "json \<Rightarrow> string" where
  "canonical_json v = show_json (sort_keys v)"

definition semantic_digest :: "(string \<Rightarrow> string) \<Rightarrow> json \<Rightarrow> string" where
  "semantic_digest sha v = sha (canonical_json v)"

section \<open>Deployment identity\<close>

definition lacks :: "obj \<Rightarrow> string list \<Rightarrow> bool" where
  "lacks d ks = list_ex (\<lambda>k. map_of d k = None) ks"

definition required_identity :: "string list" where
  "required_identity = [''adapterVersion'', ''endpointReferenceDigest'', ''modelRevision'',
     ''quantization'', ''runtimeEngine'', ''runtimeVersion'']"

abbreviation identity_incomplete :: "'a result" where
  "identity_incomplete \<equiv> Inl (RuntimePolicyError ''ECO_IDENTITY_INCOMPLETE'')"

definition deployment_identity_payload :: "(string \<Rightarrow> string) \<Rightarrow> obj \<Rightarrow> json result" where
  "deployment_identity_payload sha d =
     (case jget d ''identity'' of
        JObj identity \<Rightarrow>
          if lacks identity required_identity then identity_incomplete
          else if lacks d [''id'', ''provider'', ''adapter'', ''model'', ''endpointRef'']
          then identity_incomplete
          else (case jget d ''endpointRef'' of
                  JStr ref \<Rightarrow>
                    if \<not> (prefix ''env:'' ref \<or> prefix ''config:'' ref \<or> prefix ''secret://'' ref)
                    then identity_incomplete
                    else if jget identity ''endpointReferenceDigest''
                              \<noteq> JStr (semantic_digest sha (JObj [(''endpointRef'', JStr ref)]))
                    then Inl (RuntimePolicyError ''ECO_IDENTITY_MISMATCH'')
                    else Inr (JObj [(''id'', jget d ''id''), (''provider'', jget d ''provider''),
                           (''adapter'', jget d ''adapter''), (''model'', jget d ''model''),
                           (''endpointRef'', JStr ref),
                           (''identity'', JObj (map (\<lambda>n. (n, jget identity n)) required_identity))])
                | _ \<Rightarrow> identity_incomplete)
      | _ \<Rightarrow> identity_incomplete)"

definition deployment_identity_digest :: "(string \<Rightarrow> string) \<Rightarrow> obj \<Rightarrow> string result" where
  "deployment_identity_digest sha d =
     bindE (deployment_identity_payload sha d) (\<lambda>p. Inr (semantic_digest sha p))"

section \<open>The printed text determines the value\<close>

lemma hexdigit_inj: "m < 16 \<Longrightarrow> n < 16 \<Longrightarrow> hexdigit m = hexdigit n \<longleftrightarrow> m = n"
  unfolding hexdigit_def by (subst nth_eq_iff_index_eq) simp_all

lemma esc_nonempty [simp]: "esc c \<noteq> []" "esc c \<noteq> CHR 0x22 # r"
  by (auto simp: esc_def)

lemma of_char_lt_div: "(of_char (c :: char) :: nat) < 32 \<Longrightarrow> of_char c div 16 < (16::nat)"
  by (simp add: less_mult_imp_div_less)

lemma esc_prefix_code: "esc c @ r = esc d @ u \<Longrightarrow> c = d \<and> r = u"
proof -
  assume eq: "esc c @ r = esc d @ u"
  show ?thesis
  proof (cases "(of_char c :: nat) < 32 \<and> (of_char d :: nat) < 32 \<and> hd (tl (esc c)) = CHR ''u'' \<and> hd (tl (esc d)) = CHR ''u''")
    case True
    then have "esc c = [CHR 0x5C, CHR ''u'', CHR ''0'', CHR ''0'', hexdigit (of_char c div 16), hexdigit (of_char c mod 16)]"
      "esc d = [CHR 0x5C, CHR ''u'', CHR ''0'', CHR ''0'', hexdigit (of_char d div 16), hexdigit (of_char d mod 16)]"
      by (auto simp: esc_def split: if_splits)
    with eq True have "(of_char c :: nat) div 16 = of_char d div 16" "(of_char c :: nat) mod 16 = of_char d mod 16"
      "r = u" by (auto simp: hexdigit_inj of_char_lt_div)
    then have "(of_char c :: nat) = of_char d" by (metis div_mult_mod_eq)
    with \<open>r = u\<close> show ?thesis by simp
  next
    case False
    with eq show ?thesis by (auto simp: esc_def split: if_splits)
  qed
qed

lemma show_str_prefix_code: "show_str s @ r = show_str t @ u \<Longrightarrow> s = t \<and> r = u"
proof -
  have "concat (map esc s) @ CHR 0x22 # r = concat (map esc t) @ CHR 0x22 # u \<Longrightarrow> s = t \<and> r = u"
  proof (induction s arbitrary: t)
    case Nil
    then show ?case
    proof (cases t)
      case (Cons d t')
      with Nil show ?thesis by (cases "esc d") (auto dest: arg_cong [where f = hd])
    qed simp
  next
    case (Cons c s)
    show ?case
    proof (cases t)
      case Nil
      with Cons.prems show ?thesis by (cases "esc c") (auto dest: arg_cong [where f = hd])
    next
      case t: (Cons d t')
      with Cons.prems have "esc c @ concat (map esc s) @ CHR 0x22 # r = esc d @ concat (map esc t') @ CHR 0x22 # u"
        by simp
      from esc_prefix_code [OF this] Cons.IH t show ?thesis by auto
    qed
  qed
  then show "show_str s @ r = show_str t @ u \<Longrightarrow> s = t \<and> r = u" by (simp add: show_str_def)
qed

lemma show_nat_nonempty [simp]: "show_nat n \<noteq> []" "[] \<noteq> show_nat n"
  by (subst show_nat.simps, simp)+

lemma hexdigit_is_digit: "n < 10 \<Longrightarrow> is_digit (hexdigit n)"
proof -
  assume "n < 10"
  then have "n \<in> {0, 1, 2, 3, 4, 5, 6, 7, 8, 9}" by auto
  then show ?thesis by (elim insertE emptyE) (simp_all add: hexdigit_def is_digit_def)
qed

lemma show_nat_digits: "list_all is_digit (show_nat n)"
  by (induction n rule: show_nat.induct) (subst show_nat.simps, auto simp: hexdigit_is_digit)

lemma show_nat_inj: "show_nat m = show_nat n \<Longrightarrow> m = n"
proof (induction m arbitrary: n rule: show_nat.induct)
  case (1 m)
  show ?case
  proof (cases "m < 10")
    case True
    with 1(2) show ?thesis
      by (cases "n < 10") (simp_all add: show_nat.simps [of m] show_nat.simps [of n] hexdigit_inj)
  next
    case False
    with 1(2) have n: "\<not> n < 10" and "show_nat (m div 10) = show_nat (n div 10)" "m mod 10 = n mod 10"
      by (cases "n < 10"; simp add: show_nat.simps [of m] show_nat.simps [of n] hexdigit_inj)+
    with 1(1) [OF False] have "m div 10 = n div 10" by blast
    with \<open>m mod 10 = n mod 10\<close> show ?thesis by (metis div_mult_mod_eq)
  qed
qed

text \<open>What may follow a printed value: nothing, or a character that is not a digit.\<close>

definition stops :: "string \<Rightarrow> bool" where
  "stops r \<longleftrightarrow> r = [] \<or> \<not> is_digit (hd r)"

lemma stops_simps [simp]: "stops []" "stops (c # r) \<longleftrightarrow> \<not> is_digit c"
  by (simp_all add: stops_def)

lemma takeWhile_stops: "list_all P s \<Longrightarrow> r = [] \<or> \<not> P (hd r) \<Longrightarrow> takeWhile P (s @ r) = s"
  by (induction s) (auto simp: takeWhile_eq_Nil_iff)

lemma show_nat_prefix_code:
  assumes "show_nat m @ r = show_nat n @ u" and "stops r" and "stops u"
  shows "m = n \<and> r = u"
proof -
  have "show_nat m = show_nat n"
    using takeWhile_stops [OF show_nat_digits, of r m] takeWhile_stops [OF show_nat_digits, of u n] assms
    by (simp add: stops_def)
  with assms(1) show_nat_inj show ?thesis by auto
qed

lemma hd_show_nat: "is_digit (hd (show_nat n @ r))"
  using show_nat_digits [of n] by (cases "show_nat n") auto

lemma minus_no_digit: "\<not> is_digit CHR ''-''"
  by (simp add: is_digit_def)

lemma show_int_prefix_code:
  assumes eq: "show_int i @ r = show_int j @ u" and "stops r" and "stops u"
  shows "i = j \<and> r = u"
proof -
  have "i < 0 \<longleftrightarrow> j < 0"
    using arg_cong [OF eq, of hd] hd_show_nat [of "nat i" r] hd_show_nat [of "nat j" u] minus_no_digit
    by (auto simp: show_int_def split: if_splits)
  with eq show ?thesis
    using show_nat_prefix_code [OF _ assms(2,3), of "nat (- i)" "nat (- j)"]
      show_nat_prefix_code [OF _ assms(2,3), of "nat i" "nat j"]
    by (cases "i < 0") (auto simp: show_int_def)
qed

lemma hd_show_int: "is_digit (hd (show_int i @ r)) \<or> hd (show_int i @ r) = CHR ''-''"
  using hd_show_nat [of "nat i" r] by (simp add: show_int_def)

lemma join_with_Cons: "join_with c (s # ss) = s @ (if ss = [] then [] else c # join_with c ss)"
  by (cases ss) auto

text \<open>A list of printed elements, closed by \<open>c\<close>, can be read back element by element.\<close>

lemma join_prefix_code:
  assumes el: "\<And>x y r u. x \<in> set xs \<Longrightarrow> f x @ r = f y @ u \<Longrightarrow> stops r \<Longrightarrow> stops u \<Longrightarrow> x = y \<and> r = u"
    and f: "\<And>x r s. f x @ r \<noteq> c # s" "\<And>x. f x \<noteq> []" and c: "\<not> is_digit c" "c \<noteq> CHR '',''"
    and eq: "join_with CHR '','' (map f xs) @ c # r = join_with CHR '','' (map f ys) @ c # u"
  shows "xs = ys \<and> r = u"
  using el eq
proof (induction xs arbitrary: ys)
  case Nil
  then show ?case
  proof (cases ys)
    case (Cons y ys')
    obtain k l where "f y = k # l" using f(2) [of y] by (cases "f y") auto
    with f(1) [of y] Nil Cons show ?thesis by (auto simp: join_with_Cons)
  qed simp
next
  case (Cons x xs)
  note prems = Cons.prems and IH = Cons.IH
  show ?case
  proof (cases ys)
    case Nil
    obtain k l where "f x = k # l" using f(2) [of x] by (cases "f x") auto
    with f(1) [of x] prems(2) Nil show ?thesis by (auto simp: join_with_Cons)
  next
    case (Cons y ys')
    have st: "stops ((if zs = [] then [] else CHR '','' # join_with CHR '','' (map f zs)) @ c # s)" for zs s
      using c by (simp add: is_digit_def)
    have "f x @ (if xs = [] then [] else CHR '','' # join_with CHR '','' (map f xs)) @ c # r
        = f y @ (if ys' = [] then [] else CHR '','' # join_with CHR '','' (map f ys')) @ c # u"
      using prems(2) Cons by (simp add: join_with_Cons)
    from prems(1) [OF _ this st st] have xy: "x = y"
      and rest: "(if xs = [] then [] else CHR '','' # join_with CHR '','' (map f xs)) @ c # r
        = (if ys' = [] then [] else CHR '','' # join_with CHR '','' (map f ys')) @ c # u" by auto
    show ?thesis
    proof (cases "xs = [] \<or> ys' = []")
      case True
      with rest c Cons xy show ?thesis by (auto split: if_splits)
    next
      case False
      with rest have "join_with CHR '','' (map f xs) @ c # r = join_with CHR '','' (map f ys') @ c # u" by simp
      from IH [OF _ this] prems(1) Cons xy show ?thesis by auto
    qed
  qed
qed

lemma hd_show_json:
  "\<exists>c l. show_json v = c # l \<and> (case v of JNull \<Rightarrow> c = CHR ''n'' | JBool b \<Rightarrow> c = (if b then CHR ''t'' else CHR ''f'')
     | JInt _ \<Rightarrow> is_digit c \<or> c = CHR ''-'' | JStr _ \<Rightarrow> c = CHR 0x22 | JList _ \<Rightarrow> c = CHR ''[''
     | JObj _ \<Rightarrow> c = CHR ''{'')"
proof (cases v)
  case (JInt i)
  moreover have "show_int i \<noteq> []" by (simp add: show_int_def)
  ultimately show ?thesis using hd_show_int [of i "[]"] by (cases "show_int i") auto
qed (auto simp: show_str_def)

lemma show_json_prefix_code:
  "show_json v @ r = show_json w @ u \<Longrightarrow> stops r \<Longrightarrow> stops u \<Longrightarrow> v = w \<and> r = u"
proof (induction v arbitrary: w r u)
  case JNull
  then show ?case using hd_show_json [of w] by (cases w) (auto simp: is_digit_def split: if_splits)
next
  case (JBool b)
  then show ?case using hd_show_json [of w] by (cases w; cases b) (auto simp: is_digit_def split: if_splits)
next
  case (JInt i)
  then show ?case using hd_show_json [of w] hd_show_json [of "JInt i"] show_int_prefix_code [of i r _ u]
    by (cases w) (auto simp: is_digit_def show_str_def split: if_splits)
next
  case (JStr s)
  then show ?case using hd_show_json [of w] show_str_prefix_code [of s r _ u]
    by (cases w) (auto simp: is_digit_def show_str_def split: if_splits)
next
  case (JList xs)
  then obtain ys where w: "w = JList ys"
    using hd_show_json [of w] by (cases w) (auto simp: is_digit_def split: if_splits)
  have "xs = ys \<and> r = u"
  proof (rule join_prefix_code)
    show "join_with CHR '','' (map show_json xs) @ CHR '']'' # r = join_with CHR '','' (map show_json ys) @ CHR '']'' # u"
      using JList.prems(1) w by simp
    show "show_json x @ s \<noteq> CHR '']'' # t" for x s t
      using hd_show_json [of x] by (cases x) (auto simp: is_digit_def split: if_splits)
    show "show_json x \<noteq> []" for x using hd_show_json [of x] by auto
  qed (use JList.IH in \<open>auto simp: is_digit_def\<close>)
  with w show ?case by simp
next
  case (JObj kvs)
  let ?f = "\<lambda>(k, v). show_str k @ CHR '':'' # show_json v"
  obtain lws where w: "w = JObj lws"
    using JObj.prems hd_show_json [of w] by (cases w) (auto simp: is_digit_def split: if_splits)
  have "kvs = lws \<and> r = u"
  proof (rule join_prefix_code)
    show "join_with CHR '','' (map ?f kvs) @ CHR ''}'' # r = join_with CHR '','' (map ?f lws) @ CHR ''}'' # u"
      using JObj.prems(1) w by simp
    fix x y s t
    assume x: "x \<in> set kvs" and eq: "?f x @ s = ?f y @ t" and st: "stops s" "stops t"
    obtain k v l w' where xy: "x = (k, v)" "y = (l, w')" by (cases x, cases y)
    have "show_str k @ CHR '':'' # show_json v @ s = show_str l @ CHR '':'' # show_json w' @ t"
      using eq xy by simp
    from show_str_prefix_code [OF this] have "k = l" and "show_json v @ s = show_json w' @ t" by auto
    with JObj.IH [of x v] x xy st show "x = y \<and> s = t" by auto
  qed (auto simp: is_digit_def show_str_def)
  with w show ?case by simp
qed

text \<open>Objects with the same entries, whatever their order, have the same canonical text. \<open>sort_keys\<close>
  decides it: it is the value with every object in key order.\<close>

lemma sort_keys_permute:
  assumes "distinct (map fst kvs)" and "set kvs = set lws" and "distinct (map fst lws)"
  shows "sort_keys (JObj kvs) = sort_keys (JObj lws)"
proof -
  let ?f = "\<lambda>(k, v). (k, sort_keys v)"
  have d: "distinct (map fst (map ?f kvs))" "distinct (map fst (map ?f lws))"
    using assms by (simp_all add: comp_def case_prod_beta)
  have "set (map ?f kvs) = set (map ?f lws)" using assms(2) by simp
  with d have "map_of (map ?f kvs) = map_of (map ?f lws)" using map_of_inject_set [OF d] by blast
  with d show ?thesis by (simp add: sorted_items_canonical)
qed

text \<open>C40: the canonical JSON text is a faithful name of a value: two values have the same text exactly
  when they are the same after sorting the keys of every object, and listing the entries of an object
  in another order does not change the text.\<close>

theorem canonical_json_faithful:
  "(canonical_json v = canonical_json w \<longleftrightarrow> sort_keys v = sort_keys w)
   \<and> (distinct (map fst kvs) \<and> distinct (map fst lws) \<and> set kvs = set lws \<longrightarrow>
        canonical_json (JObj kvs) = canonical_json (JObj lws))"
proof (intro conjI impI)
  show "canonical_json v = canonical_json w \<longleftrightarrow> sort_keys v = sort_keys w"
    using show_json_prefix_code [of "sort_keys v" "[]" "sort_keys w" "[]"]
    by (auto simp: canonical_json_def)
next
  assume "distinct (map fst kvs) \<and> distinct (map fst lws) \<and> set kvs = set lws"
  then show "canonical_json (JObj kvs) = canonical_json (JObj lws)"
    unfolding canonical_json_def by (metis sort_keys_permute)
qed

theorem canonical_json_faithful_witness:
  "canonical_json (JObj [(''b'', JInt (- 12)), (''a'', JStr [CHR 0x0A])])
     = canonical_json (JObj [(''a'', JStr [CHR 0x0A]), (''b'', JInt (- 12))])
   \<and> canonical_json (JList [JInt 1, JInt 23]) \<noteq> canonical_json (JList [JInt 12, JInt 3])"
  using canonical_json_faithful [of "JList [JInt 1, JInt 23]" "JList [JInt 12, JInt 3]"
      "[(''b'', JInt (- 12)), (''a'', JStr [CHR 0x0A])]"
      "[(''a'', JStr [CHR 0x0A]), (''b'', JInt (- 12))]"]
  by (simp add: insert_commute)

lemma identity_payload_fields:
  assumes "deployment_identity_payload sha d = Inr p"
    and "k \<in> {''id'', ''provider'', ''adapter'', ''model'', ''endpointRef''}"
  shows "\<exists>kvs. p = JObj kvs \<and> distinct (map fst kvs) \<and> (k, jget d k) \<in> set kvs"
proof -
  obtain identity where "p = JObj [(''id'', jget d ''id''), (''provider'', jget d ''provider''),
     (''adapter'', jget d ''adapter''), (''model'', jget d ''model''), (''endpointRef'', jget d ''endpointRef''),
     (''identity'', JObj (map (\<lambda>n. (n, jget identity n)) required_identity))]"
    using assms(1) by (auto simp: deployment_identity_payload_def split: json.splits if_splits)
  then show ?thesis using assms(2) by (elim insertE emptyE) simp_all
qed

lemma sort_keys_obj_field:
  assumes "sort_keys (JObj kvs) = sort_keys (JObj lws)"
    and "distinct (map fst kvs)" and "distinct (map fst lws)" and "(k, v) \<in> set kvs" and "(k, w) \<in> set lws"
  shows "sort_keys v = sort_keys w"
proof -
  let ?f = "\<lambda>(k, v). (k, sort_keys v)"
  have "sorted_items (map ?f kvs) = sorted_items (map ?f lws)" using assms(1) by simp
  from arg_cong [OF this, of set] have "set (map ?f kvs) = set (map ?f lws)" by (simp only: set_sorted_items)
  moreover have "(k, sort_keys v) \<in> set (map ?f kvs)" "(k, sort_keys w) \<in> set (map ?f lws)"
    using assms(4,5) by force+
  moreover have "distinct (map fst (map ?f lws))"
    using assms(3) by (simp add: comp_def case_prod_beta)
  ultimately show ?thesis
    using eq_key_imp_eq_value [of "map ?f lws" k "sort_keys v" "sort_keys w"] by (simp only: simp_thms)
qed

lemma semantic_digest_field:
  assumes "semantic_digest h (JObj kvs) = semantic_digest h (JObj lws)" and "inj h"
    and "distinct (map fst kvs)" and "distinct (map fst lws)" and "(k, v) \<in> set kvs" and "(k, w) \<in> set lws"
  shows "sort_keys v = sort_keys w"
proof -
  have "canonical_json (JObj kvs) = canonical_json (JObj lws)"
    using assms(1) by (simp add: semantic_digest_def inj_eq [OF assms(2)] del: sort_keys.simps)
  then have "sort_keys (JObj kvs) = sort_keys (JObj lws)"
    using show_json_prefix_code [of "sort_keys (JObj kvs)" "[]" "sort_keys (JObj lws)" "[]"]
    by (simp add: canonical_json_def del: sort_keys.simps)
  then show ?thesis using assms(3-6) by (rule sort_keys_obj_field)
qed

text \<open>A deployment identity digest binds the deployment: if the hash does not collide on the two
  canonical texts, two deployments with the same identity digest agree on id, provider, adapter, model
  and endpoint reference.\<close>

lemma identity_digest_binds:
  assumes p: "deployment_identity_payload sha d = Inr p" and q: "deployment_identity_payload sha e = Inr q"
    and eq: "deployment_identity_digest sha d = deployment_identity_digest sha e"
    and inj: "inj_on sha {canonical_json p, canonical_json q}"
    and k: "k \<in> {''id'', ''provider'', ''adapter'', ''model'', ''endpointRef''}"
  shows "canonical_json (jget d k) = canonical_json (jget e k)"
proof -
  have "sha (canonical_json p) = sha (canonical_json q)"
    using p q eq by (simp add: deployment_identity_digest_def semantic_digest_def)
  then have "canonical_json p = canonical_json q" by (rule inj_onD [OF inj]) simp_all
  then have pq: "sort_keys p = sort_keys q"
    using show_json_prefix_code [of "sort_keys p" "[]" "sort_keys q" "[]"] by (simp add: canonical_json_def)
  obtain kvs where kvs: "p = JObj kvs" "distinct (map fst kvs)" "(k, jget d k) \<in> set kvs"
    using identity_payload_fields [OF p k] by blast
  obtain lws where lws: "q = JObj lws" "distinct (map fst lws)" "(k, jget e k) \<in> set lws"
    using identity_payload_fields [OF q k] by blast
  have "sort_keys (jget d k) = sort_keys (jget e k)"
    by (rule sort_keys_obj_field [OF _ kvs(2) lws(2) kvs(3) lws(3)]) (use pq kvs(1) lws(1) in simp)
  then show ?thesis by (simp add: canonical_json_def)
qed

definition demo_deployment :: "string \<Rightarrow> obj" where
  "demo_deployment m = [(''id'', JStr ''dep''), (''provider'', JStr ''local''), (''adapter'', JStr ''ollama''),
     (''model'', JStr m), (''endpointRef'', JStr ''env:X''),
     (''identity'', JObj [(''adapterVersion'', JStr ''1''), (''modelRevision'', JStr ''1''),
        (''runtimeEngine'', JStr ''1''), (''runtimeVersion'', JStr ''1''), (''quantization'', JStr ''1''),
        (''endpointReferenceDigest'', JStr (canonical_json (JObj [(''endpointRef'', JStr ''env:X'')])))])]"

end
