(* ===== verification/Eco_Route_Contracts.thy ===== *)
theory Eco_Route_Contracts
  imports Eco_Digests
begin

text \<open>
  The routing records and their validation, \<open>src/src/eco_routing/contracts.py\<close>. A record is typed
  as its JSON schema says; the schema check itself (ranges, enumerations, patterns) and the hash of a
  record are parameters, collected in \<open>routing_contract\<close>. Times are instants in microseconds. An
  error is the path of the failed check, without list indices.

  Lemmas: sealing a record makes its digest check pass, and the conditions each validated kind meets.
\<close>

section \<open>Records\<close>

record routing_meta =
  rec_id :: string
  createdAt :: int
  recordDigest :: string
  revision :: "int option"

record role_policy =
  role_name :: string
  role_requiredCapabilities :: "string list"
  role_allowedActionClasses :: "string list"
  role_allowedDataClasses :: "string list"
  role_allowedZones :: "string list"
  role_allowedRetentions :: "string list"
  candidateIds :: "string list"
  role_maximumCostMicrousd :: int
  maxRouteAttempts :: int
  retryableFailureClasses :: "string list"

record routing_policy = routing_meta +
  decisionTtlSeconds :: int
  roles :: "role_policy list"

record observation = routing_meta +
  obs_deploymentId :: string
  obs_deploymentIdentityDigest :: string
  obs_capabilities :: "string list"
  contextWindowTokens :: int
  latencyP95Millis :: int
  observedAt :: int
  obs_validUntil :: int

record price_entry =
  price_deploymentId :: string
  price_deploymentIdentityDigest :: string
  inputMicrousdPerMillionTokens :: int
  outputMicrousdPerMillionTokens :: int
  fixedRequestMicrousd :: int

record price_catalog = routing_meta +
  price_validFrom :: int
  price_validUntil :: int
  price_entries :: "price_entry list"

record aggregate_budget =
  maximumCalls :: int
  agg_inputTokenCeiling :: int
  agg_outputTokenCeiling :: int
  agg_maximumCostMicrousd :: int

record route_request = routing_meta +
  req_role :: string
  actionClass :: string
  dataClass :: string
  workloadClass :: string
  req_requiredCapabilities :: "string list"
  requiredContextTokens :: int
  inputTokenCeiling :: int
  outputTokenCeiling :: int
  req_allowedZones :: "string list"
  req_allowedRetentions :: "string list"
  allowCloud :: bool
  maximumCostMicrousd :: int
  deadlineAt :: int
  executionProfile :: string
  req_policyDigest :: string
  contextDigest :: string
  req_executionPlanDigest :: "string option"
  aggregateBudget :: "aggregate_budget option"

record aggregate_reservation =
  res_maximumCalls :: int
  res_inputTokenCeiling :: int
  res_outputTokenCeiling :: int
  res_reservedCostMicrousd :: int

record selected_route =
  sel_deploymentId :: string
  sel_deploymentDigest :: string
  sel_deploymentIdentityDigest :: string
  observedEvidenceDigest :: string
  sel_candidateDigest :: string
  reservedCostMicrousd :: int
  estimatedLatencyP95Millis :: int
  aggregateReservation :: "aggregate_reservation option"

record route_decision = routing_meta +
  dec_requestDigest :: string
  dec_policyDigest :: string
  dec_priceCatalogDigest :: string
  decision :: string
  reasonCode :: string
  routeAttempt :: int
  selected :: "selected_route option"
  dec_validUntil :: int
  fallbackFromDigest :: "string option"
  explainDigest :: string
  dec_executionPlanDigest :: "string option"

record explain_candidate =
  exp_candidateDigest :: string
  exp_outcome :: string
  reasonCodes :: "string list"
  rankDigest :: "string option"

record routing_explain = routing_meta +
  exp_requestDigest :: string
  exp_policyDigest :: string
  exp_priceCatalogDigest :: string
  exp_decision :: string
  exp_reasonCode :: string
  selectedCandidateDigest :: "string option"
  exp_candidates :: "explain_candidate list"
  exp_executionPlanDigest :: "string option"

text \<open>The schema check and the hash of each kind of record.\<close>

record routing_contract =
  policy_schema :: "routing_policy \<Rightarrow> bool"
  policy_hash :: "routing_policy \<Rightarrow> string"
  observation_schema :: "observation \<Rightarrow> bool"
  observation_hash :: "observation \<Rightarrow> string"
  price_schema :: "price_catalog \<Rightarrow> bool"
  price_hash :: "price_catalog \<Rightarrow> string"
  request_schema :: "route_request \<Rightarrow> bool"
  request_hash :: "route_request \<Rightarrow> string"
  decision_schema :: "route_decision \<Rightarrow> bool"
  decision_hash :: "route_decision \<Rightarrow> string"
  explain_schema :: "routing_explain \<Rightarrow> bool"
  explain_hash :: "routing_explain \<Rightarrow> string"

section \<open>Digests and validation\<close>

text \<open>The digest of a record leaves its own digest field out.\<close>

definition routing_record_digest ::
    "('a routing_meta_scheme \<Rightarrow> string) \<Rightarrow> 'a routing_meta_scheme \<Rightarrow> string" where
  "routing_record_digest hash r = hash (r\<lparr>recordDigest := []\<rparr>)"

definition seal_routing_record ::
    "('a routing_meta_scheme \<Rightarrow> string) \<Rightarrow> 'a routing_meta_scheme \<Rightarrow> 'a routing_meta_scheme" where
  "seal_routing_record hash r = r\<lparr>recordDigest := routing_record_digest hash r\<rparr>"

definition errors_if :: "bool \<Rightarrow> string \<Rightarrow> string list" where
  "errors_if b path = (if b then [path] else [])"

definition digest_errors ::
    "('a routing_meta_scheme \<Rightarrow> string) \<Rightarrow> 'a routing_meta_scheme \<Rightarrow> string list" where
  "digest_errors hash r = errors_if (recordDigest r \<noteq> routing_record_digest hash r) ''metadata.recordDigest''"

definition revision_errors :: "'a routing_meta_scheme \<Rightarrow> string list" where
  "revision_errors r = errors_if (revision r = None) ''metadata.revision''"

definition CANONICAL_MODEL_ROLES :: "string list" where
  "CANONICAL_MODEL_ROLES = [''eco-orchestrator'', ''eco-worker'', ''eco-grader'', ''eco-researcher'', ''eco-coder'']"

definition role_errors :: "role_policy \<Rightarrow> string list" where
  "role_errors r =
     errors_if (\<not> sorted (role_requiredCapabilities r)) ''spec.roles.requiredCapabilities''
     @ errors_if (\<not> sorted (role_allowedActionClasses r)) ''spec.roles.allowedActionClasses''
     @ errors_if (\<not> sorted (role_allowedDataClasses r)) ''spec.roles.allowedDataClasses''
     @ errors_if (\<not> sorted (role_allowedZones r)) ''spec.roles.allowedZones''
     @ errors_if (\<not> sorted (role_allowedRetentions r)) ''spec.roles.allowedRetentions''
     @ errors_if (\<not> sorted (retryableFailureClasses r)) ''spec.roles.fallback.retryableFailureClasses''"

definition policy_errors :: "(routing_policy \<Rightarrow> string) \<Rightarrow> routing_policy \<Rightarrow> string list" where
  "policy_errors hash p = digest_errors hash p @ revision_errors p
     @ errors_if (map role_name (roles p) \<noteq> CANONICAL_MODEL_ROLES) ''spec.roles''
     @ concat (map role_errors (roles p))"

definition observation_errors :: "(observation \<Rightarrow> string) \<Rightarrow> observation \<Rightarrow> string list" where
  "observation_errors hash r = digest_errors hash r
     @ errors_if (\<not> sorted (obs_capabilities r)) ''spec.capabilities''
     @ errors_if (obs_validUntil r \<le> observedAt r) ''spec.validUntil''"

definition price_errors :: "(price_catalog \<Rightarrow> string) \<Rightarrow> price_catalog \<Rightarrow> string list" where
  "price_errors hash r =
     (let identities = map (\<lambda>e. (price_deploymentId e, price_deploymentIdentityDigest e)) (price_entries r)
      in digest_errors hash r @ revision_errors r
         @ errors_if (price_validUntil r \<le> price_validFrom r) ''spec.validUntil''
         @ errors_if (\<not> sorted identities \<or> \<not> distinct identities) ''spec.entries'')"

definition request_errors :: "(route_request \<Rightarrow> string) \<Rightarrow> route_request \<Rightarrow> string list" where
  "request_errors hash r = digest_errors hash r
     @ errors_if (\<not> sorted (req_requiredCapabilities r)) ''spec.requiredCapabilities''
     @ errors_if (\<not> sorted (req_allowedZones r)) ''spec.allowedZones''
     @ errors_if (\<not> sorted (req_allowedRetentions r)) ''spec.allowedRetentions''
     @ errors_if (deadlineAt r \<le> createdAt r) ''spec.deadlineAt''
     @ errors_if ((req_executionPlanDigest r = None) \<noteq> (aggregateBudget r = None)) ''spec.aggregateBudget''
     @ (case aggregateBudget r of None \<Rightarrow> []
        | Some a \<Rightarrow> errors_if (agg_inputTokenCeiling a < inputTokenCeiling r
             \<or> agg_outputTokenCeiling a < outputTokenCeiling r
             \<or> agg_maximumCostMicrousd a \<noteq> maximumCostMicrousd r) ''spec.aggregateBudget'')"

definition decision_errors :: "(route_decision \<Rightarrow> string) \<Rightarrow> route_decision \<Rightarrow> string list" where
  "decision_errors hash r =
     (let allowed = (decision r = ''allowed'');
          reservation = (case selected r of None \<Rightarrow> None | Some s \<Rightarrow> aggregateReservation s)
      in digest_errors hash r
         @ errors_if (allowed \<noteq> (selected r \<noteq> None)) ''spec.selected''
         @ errors_if (allowed \<noteq> (reasonCode r = ''eligible'')) ''spec.reasonCode''
         @ errors_if (dec_validUntil r \<le> createdAt r) ''spec.validUntil''
         @ errors_if ((routeAttempt r = 1) \<noteq> (fallbackFromDigest r = None)) ''spec.fallbackFromDigest''
         @ (if dec_executionPlanDigest r = None
            then errors_if (reservation \<noteq> None) ''spec.selected.aggregateReservation''
            else errors_if (allowed \<and> reservation = None) ''spec.selected.aggregateReservation'')
         @ (case (selected r, reservation) of
              (Some s, Some a) \<Rightarrow>
                errors_if (res_reservedCostMicrousd a \<noteq> reservedCostMicrousd s)
                  ''spec.selected.aggregateReservation''
            | _ \<Rightarrow> []))"

definition explain_errors :: "(routing_explain \<Rightarrow> string) \<Rightarrow> routing_explain \<Rightarrow> string list" where
  "explain_errors hash r = digest_errors hash r
     @ errors_if (\<not> sorted (map exp_candidateDigest (exp_candidates r))) ''spec.candidates''
     @ errors_if (list_ex (\<lambda>c. \<not> sorted (reasonCodes c)) (exp_candidates r)) ''spec.candidates''
     @ errors_if ((exp_decision r = ''allowed'') \<noteq> (selectedCandidateDigest r \<noteq> None))
         ''spec.selectedCandidateDigest''"

text \<open>\<open>validate_routing_record\<close>: the semantic checks run only when the schema check passed.\<close>

definition validate_routing_record :: "bool \<Rightarrow> string list \<Rightarrow> 'a \<Rightarrow> 'a result" where
  "validate_routing_record schema_ok errors r =
     (if \<not> schema_ok \<or> errors \<noteq> [] then Inl ContractValidationError else Inr r)"

definition validate_request :: "routing_contract \<Rightarrow> route_request \<Rightarrow> route_request result" where
  "validate_request k r = validate_routing_record (request_schema k r) (request_errors (request_hash k) r) r"

definition validate_decision :: "routing_contract \<Rightarrow> route_decision \<Rightarrow> route_decision result" where
  "validate_decision k r = validate_routing_record (decision_schema k r) (decision_errors (decision_hash k) r) r"

definition validate_explain :: "routing_contract \<Rightarrow> routing_explain \<Rightarrow> routing_explain result" where
  "validate_explain k r = validate_routing_record (explain_schema k r) (explain_errors (explain_hash k) r) r"

definition validate_observation :: "routing_contract \<Rightarrow> observation \<Rightarrow> observation result" where
  "validate_observation k r =
     validate_routing_record (observation_schema k r) (observation_errors (observation_hash k) r) r"

definition validate_policy :: "routing_contract \<Rightarrow> routing_policy \<Rightarrow> routing_policy result" where
  "validate_policy k r = validate_routing_record (policy_schema k r) (policy_errors (policy_hash k) r) r"

definition validate_prices :: "routing_contract \<Rightarrow> price_catalog \<Rightarrow> price_catalog result" where
  "validate_prices k r = validate_routing_record (price_schema k r) (price_errors (price_hash k) r) r"

section \<open>Facts\<close>

lemma errors_if_Nil [simp]: "errors_if b p = [] \<longleftrightarrow> \<not> b"
  by (simp add: errors_if_def)

lemma validate_routing_record_Inr [simp]:
  "validate_routing_record s es r = Inr r' \<longleftrightarrow> s \<and> es = [] \<and> r' = r"
  by (auto simp: validate_routing_record_def)

lemma seal_fields [simp]:
  "recordDigest (seal_routing_record h r) = routing_record_digest h r"
  "createdAt (seal_routing_record h r) = createdAt r"
  "routing_record_digest h (seal_routing_record h r) = routing_record_digest h r"
  by (simp_all add: seal_routing_record_def routing_record_digest_def)

lemma digest_errors_seal [simp]: "digest_errors h (seal_routing_record h r) = []"
  by (simp add: digest_errors_def)

lemma seal_decision_fields [simp]:
  "decision (seal_routing_record h r) = decision r"
  "selected (seal_routing_record h r) = selected r"
  "reasonCode (seal_routing_record h r) = reasonCode r"
  "routeAttempt (seal_routing_record h r) = routeAttempt r"
  "dec_validUntil (seal_routing_record h r) = dec_validUntil r"
  "fallbackFromDigest (seal_routing_record h r) = fallbackFromDigest r"
  "dec_executionPlanDigest (seal_routing_record h r) = dec_executionPlanDigest r"
  "dec_requestDigest (seal_routing_record h r) = dec_requestDigest r"
  "dec_policyDigest (seal_routing_record h r) = dec_policyDigest r"
  "dec_priceCatalogDigest (seal_routing_record h r) = dec_priceCatalogDigest r"
  "explainDigest (seal_routing_record h r) = explainDigest r"
  by (simp_all add: seal_routing_record_def)

lemma seal_explain_fields [simp]:
  "exp_candidates (seal_routing_record h r) = exp_candidates r"
  "exp_decision (seal_routing_record h r) = exp_decision r"
  "selectedCandidateDigest (seal_routing_record h r) = selectedCandidateDigest r"
  "exp_reasonCode (seal_routing_record h r) = exp_reasonCode r"
  by (simp_all add: seal_routing_record_def)

lemma validate_request_Inr:
  "validate_request k r = Inr r' \<Longrightarrow> r' = r \<and> request_schema k r
     \<and> (req_executionPlanDigest r = None \<longleftrightarrow> aggregateBudget r = None)
     \<and> (\<forall>a. aggregateBudget r = Some a \<longrightarrow> agg_maximumCostMicrousd a = maximumCostMicrousd r)"
  by (auto simp: validate_request_def request_errors_def split: option.splits)

lemma validate_decision_Inr:
  "validate_decision k r = Inr r' \<Longrightarrow> r' = r \<and> decision_schema k r
     \<and> recordDigest r = routing_record_digest (decision_hash k) r
     \<and> (decision r = ''allowed'' \<longleftrightarrow> selected r \<noteq> None)
     \<and> (routeAttempt r = 1 \<longleftrightarrow> fallbackFromDigest r = None)"
  by (auto simp: validate_decision_def decision_errors_def digest_errors_def Let_def)

end
