(* ===== verification/Eco_Router.thy ===== *)
theory Eco_Router
  imports Eco_Route_Contracts
begin

text \<open>
  The deterministic model router, \<open>src/src/eco_routing/router.py\<close>: the projection of deployments to
  candidates, the evaluation and ranking of candidates, \<open>route\<close> and \<open>fallback\<close>. \<open>sha\<close> is the hash of
  \<open>semantic_digest\<close> and \<open>k\<close> holds the schema checks and record hashes. Clocks are instants in
  microseconds, so the timezone checks have no counterpart.

  Lemmas: the selected candidate is eligible and of least rank; the outcome does not depend on the
  order of the candidates; the reservation is the rounded-up bound on the cost; every record the
  router builds meets its contract; a fallback never returns the candidate that failed.
\<close>

section \<open>Candidates\<close>

record deployment_candidate =
  deployment_id :: json
  deployment_digest :: string
  identity_digest :: string
  candidate_digest :: string
  provider_class :: string
  zone :: string
  retention :: string
  allowed_data_classes :: "string list"
  enabled :: bool

abbreviation deployment_invalid :: "'a result" where
  "deployment_invalid \<equiv> Inl (RoutingError ''ECO_ROUTING_DEPLOYMENT_INVALID'')"

definition ZONES :: "json list" where
  "ZONES = map JStr [''Z0'', ''Z1'', ''Z2'', ''Z3'', ''Z4'']"

definition RETENTIONS :: "json list" where
  "RETENTIONS = map JStr [''no-retention'', ''local-runtime-dependent'', ''contractual'']"

definition DATA_CLASSES :: "json list" where
  "DATA_CLASSES = map JStr [''D0'', ''D1'', ''D2'', ''D3'', ''D4'']"

text \<open>Membership of a JSON value in a set of strings: lists and dictionaries raise.\<close>

definition in_set :: "json list \<Rightarrow> json \<Rightarrow> bool result" where
  "in_set xs v = (if hashable v then Inr (v \<in> set xs) else Inl PyTypeError)"

definition check_data_classes :: "json \<Rightarrow> string list result" where
  "check_data_classes v =
     (case v of
        JList xs \<Rightarrow>
          if xs = [] then deployment_invalid
          else if list_ex (\<lambda>x. \<not> hashable x) xs then Inl PyTypeError
          else if \<not> distinct xs \<or> list_ex (\<lambda>x. x \<notin> set DATA_CLASSES) xs then deployment_invalid
          else Inr (sort (map the_str xs))
      | _ \<Rightarrow> deployment_invalid)"

definition from_canonical_deployment :: "(string \<Rightarrow> string) \<Rightarrow> obj \<Rightarrow> deployment_candidate result" where
  "from_canonical_deployment sha d =
     (case deployment_identity_digest sha d of
        Inl _ \<Rightarrow> Inl (RoutingError ''ECO_ROUTING_IDENTITY_INVALID'')
      | Inr identity \<Rightarrow>
          if lacks d [''id'', ''provider'', ''zone'', ''retention'', ''allowedDataClasses'', ''enabled'']
          then deployment_invalid
          else bindE (in_set ZONES (jget d ''zone'')) (\<lambda>zone_ok.
            if \<not> zone_ok then deployment_invalid
            else bindE (in_set RETENTIONS (jget d ''retention'')) (\<lambda>retention_ok.
              if \<not> retention_ok then deployment_invalid
              else bindE (check_data_classes (jget d ''allowedDataClasses'')) (\<lambda>classes.
                case jget d ''enabled'' of
                  JBool on \<Rightarrow>
                    let digest = semantic_digest sha (JObj d) in
                    Inr \<lparr>deployment_id = jget d ''id'', deployment_digest = digest, identity_digest = identity,
                      candidate_digest = semantic_digest sha (JObj
                        [(''domain'', JStr ''eco-model-routing-candidate-v1alpha1''), (''deploymentId'', jget d ''id''),
                         (''deploymentDigest'', JStr digest), (''deploymentIdentityDigest'', JStr identity)]),
                      provider_class = (if jget d ''provider'' = JStr ''local'' then ''local'' else ''cloud''),
                      zone = the_str (jget d ''zone''), retention = the_str (jget d ''retention''),
                      allowed_data_classes = classes, enabled = on\<rparr>
                | _ \<Rightarrow> deployment_invalid))))"

fun project_deployments :: "(string \<Rightarrow> string) \<Rightarrow> json list \<Rightarrow> deployment_candidate list result" where
  "project_deployments sha [] = Inr []"
| "project_deployments sha (JObj d # ds) =
     (if jget d ''enabled'' = JBool True
      then bindE (from_canonical_deployment sha d) (\<lambda>c.
             bindE (project_deployments sha ds) (\<lambda>cs. Inr (c # cs)))
      else project_deployments sha ds)"
| "project_deployments sha (_ # ds) = project_deployments sha ds"

text \<open>\<open>len(ids) != len(set(ids))\<close>: building the set raises on an unhashable id.\<close>

definition distinct_ids :: "deployment_candidate list \<Rightarrow> bool result" where
  "distinct_ids cs =
     (if list_ex (\<lambda>c. \<not> hashable (deployment_id c)) cs then Inl PyTypeError
      else Inr (distinct (map deployment_id cs)))"

definition candidates_from_deployment_catalog ::
    "(string \<Rightarrow> string) \<Rightarrow> obj \<Rightarrow> deployment_candidate list result" where
  "candidates_from_deployment_catalog sha catalog =
     (case jget catalog ''deployments'' of
        JList ds \<Rightarrow>
          if jget catalog ''kind'' \<noteq> JStr ''DeploymentCatalog'' then deployment_invalid
          else bindE (project_deployments sha ds) (\<lambda>cs.
            bindE (distinct_ids cs) (\<lambda>ok. if ok then Inr cs else deployment_invalid))
      | _ \<Rightarrow> deployment_invalid)"

section \<open>The router\<close>

record router =
  router_policy :: routing_policy
  router_prices :: price_catalog

text \<open>\<open>_safe_validate\<close>: a contract error becomes a routing error.\<close>

definition safe_validate :: "'a result \<Rightarrow> 'a result" where
  "safe_validate r = (case r of Inl _ \<Rightarrow> Inl (RoutingError ''ECO_ROUTING_CONTRACT_INVALID'') | Inr x \<Rightarrow> Inr x)"

definition new_router :: "routing_contract \<Rightarrow> routing_policy \<Rightarrow> price_catalog \<Rightarrow> router result" where
  "new_router k p c =
     bindE (safe_validate (validate_policy k p)) (\<lambda>p'.
     bindE (safe_validate (validate_prices k c)) (\<lambda>c'.
       Inr \<lparr>router_policy = p', router_prices = c'\<rparr>))"

definition role_map :: "router \<Rightarrow> (string \<times> role_policy) list" where
  "role_map rt = dict_of_pairs (map (\<lambda>r. (role_name r, r)) (roles (router_policy rt)))"

definition find_role :: "router \<Rightarrow> string \<Rightarrow> role_policy result" where
  "find_role rt name = (case map_of (role_map rt) name of None \<Rightarrow> Inl PyKeyError | Some r \<Rightarrow> Inr r)"

type_synonym 'v binding_map = "((string \<times> string) \<times> 'v) list"

fun observation_map ::
    "routing_contract \<Rightarrow> observation binding_map \<Rightarrow> observation list \<Rightarrow> observation binding_map result" where
  "observation_map k acc [] = Inr acc"
| "observation_map k acc (raw # rest) =
     bindE (safe_validate (validate_observation k raw)) (\<lambda>ob.
       let key = (obs_deploymentId ob, obs_deploymentIdentityDigest ob) in
       if map_of acc key \<noteq> None then Inl (RoutingError ''ECO_ROUTING_EVIDENCE_CONFLICT'')
       else observation_map k (dict_set key ob acc) rest)"

definition price_map :: "router \<Rightarrow> price_entry binding_map" where
  "price_map rt = dict_of_pairs
     (map (\<lambda>e. ((price_deploymentId e, price_deploymentIdentityDigest e), e)) (price_entries (router_prices rt)))"

definition reservation :: "price_entry \<Rightarrow> route_request \<Rightarrow> int" where
  "reservation price req =
     (let calls = (case aggregateBudget req of None \<Rightarrow> 1 | Some a \<Rightarrow> maximumCalls a);
          input = (case aggregateBudget req of None \<Rightarrow> inputTokenCeiling req | Some a \<Rightarrow> agg_inputTokenCeiling a);
          output = (case aggregateBudget req of None \<Rightarrow> outputTokenCeiling req | Some a \<Rightarrow> agg_outputTokenCeiling a);
          variable = input * inputMicrousdPerMillionTokens price + output * outputMicrousdPerMillionTokens price
      in calls * fixedRequestMicrousd price + (variable + 999999) div 1000000)"

record evaluation =
  candidate :: deployment_candidate
  reasons :: "string list"
  cost :: "int option"
  latency :: "int option"
  evidence_digest :: "string option"
  evidence_valid_until :: "int option"
  preference :: nat

definition eligible :: "evaluation \<Rightarrow> bool" where
  "eligible e = (reasons e = [])"

definition rank :: "evaluation \<Rightarrow> (int \<times> int \<times> nat \<times> string) result" where
  "rank e = (case (cost e, latency e) of
     (Some c, Some l) \<Rightarrow> Inr (c, l, preference e, candidate_digest (candidate e))
   | _ \<Rightarrow> Inl PyAssertionError)"

text \<open>A reason that is added when the condition holds.\<close>

definition reason_if :: "bool \<Rightarrow> string \<Rightarrow> string list" where
  "reason_if b r = (if b then [r] else [])"

text \<open>The conditions on the candidate itself.\<close>

definition policy_reasons ::
    "route_request \<Rightarrow> role_policy \<Rightarrow> string set \<Rightarrow> deployment_candidate \<Rightarrow> string list" where
  "policy_reasons req role excluded c =
     reason_if (candidate_digest c \<in> excluded) ''fallback-candidate-excluded''
     @ reason_if (\<not> enabled c) ''deployment-disabled''
     @ reason_if (deployment_id c \<notin> JStr ` set (candidateIds role)) ''policy-candidate-denied''
     @ reason_if (zone c \<notin> set (role_allowedZones role) \<or> zone c \<notin> set (req_allowedZones req)) ''zone-denied''
     @ reason_if (dataClass req \<notin> set (role_allowedDataClasses role)
          \<or> dataClass req \<notin> set (allowed_data_classes c)) ''data-class-denied''
     @ reason_if (retention c \<notin> set (role_allowedRetentions role)
          \<or> retention c \<notin> set (req_allowedRetentions req)) ''retention-denied''
     @ reason_if (\<not> allowCloud req \<and> provider_class c = ''cloud'') ''cloud-denied''
     @ reason_if (executionProfile req = ''m6.1-local-zero-cost'' \<and> provider_class c \<noteq> ''local'')
         ''local-profile-denied''"

text \<open>The conditions on an observation of its capabilities.\<close>

definition observation_reasons ::
    "route_request \<Rightarrow> role_policy \<Rightarrow> int \<Rightarrow> observation \<Rightarrow> string list" where
  "observation_reasons req role now ob =
     reason_if (observedAt ob > now \<or> now \<ge> obs_validUntil ob) ''capability-evidence-stale''
     @ reason_if (\<not> set (role_requiredCapabilities role) \<union> set (req_requiredCapabilities req)
          \<subseteq> set (obs_capabilities ob)) ''capability-missing''
     @ reason_if (contextWindowTokens ob
          < max (requiredContextTokens req) (inputTokenCeiling req + outputTokenCeiling req))
         ''context-window-insufficient''
     @ reason_if (now + 1000 * latencyP95Millis ob > deadlineAt req) ''deadline-insufficient''"

definition price_reasons :: "route_request \<Rightarrow> role_policy \<Rightarrow> int \<Rightarrow> string list" where
  "price_reasons req role c =
     reason_if (c > min (maximumCostMicrousd req) (role_maximumCostMicrousd role)) ''cost-denied''
     @ reason_if (executionProfile req = ''m6.1-local-zero-cost'' \<and> c \<noteq> 0) ''local-profile-cost-denied''"

definition lookup :: "'v binding_map \<Rightarrow> json \<Rightarrow> string \<Rightarrow> 'v option" where
  "lookup m i digest = (case i of JStr s \<Rightarrow> map_of m (s, digest) | _ \<Rightarrow> None)"

definition same_id :: "'v binding_map \<Rightarrow> json \<Rightarrow> bool" where
  "same_id m i = list_ex (\<lambda>(key, _). JStr (fst key) = i) m"

definition candidate_evaluation ::
    "route_request \<Rightarrow> role_policy \<Rightarrow> observation binding_map \<Rightarrow> price_entry binding_map \<Rightarrow> int
      \<Rightarrow> string set \<Rightarrow> deployment_candidate \<Rightarrow> evaluation" where
  "candidate_evaluation req role observations prices now excluded c =
     (let ob = lookup observations (deployment_id c) (identity_digest c);
          price = lookup prices (deployment_id c) (identity_digest c);
          amount = map_option (\<lambda>p. reservation p req) price;
          found = policy_reasons req role excluded c
            @ (case ob of
                 None \<Rightarrow> [if same_id observations (deployment_id c) then ''provider-identity-drift''
                          else ''capability-evidence-missing'']
               | Some ob \<Rightarrow> observation_reasons req role now ob)
            @ (case amount of
                 None \<Rightarrow> [if same_id prices (deployment_id c) then ''provider-identity-drift'' else ''price-missing'']
               | Some a \<Rightarrow> price_reasons req role a)
      in \<lparr>candidate = c, reasons = sort (remdups found), cost = amount,
          latency = map_option latencyP95Millis ob, evidence_digest = map_option recordDigest ob,
          evidence_valid_until = map_option obs_validUntil ob,
          preference = length (takeWhile (\<lambda>i. JStr i \<noteq> deployment_id c) (candidateIds role))\<rparr>)"

section \<open>Outcomes\<close>

record routing_outcome =
  out_decision :: route_decision
  out_explain :: routing_explain

definition rank_digest :: "(string \<Rightarrow> string) \<Rightarrow> int \<times> int \<times> nat \<times> string \<Rightarrow> string" where
  "rank_digest sha r = (case r of (c, l, p, d) \<Rightarrow>
     semantic_digest sha (JObj [(''domain'', JStr ''eco-routing-rank-v1alpha1''),
       (''rank'', JList [JInt c, JInt l, JInt (int p), JStr d])]))"

definition explain_one :: "(string \<Rightarrow> string) \<Rightarrow> evaluation \<Rightarrow> explain_candidate result" where
  "explain_one sha e =
     (let entry = \<lparr>exp_candidateDigest = candidate_digest (candidate e),
            exp_outcome = (if ''fallback-candidate-excluded'' \<in> set (reasons e) then ''excluded''
                           else if eligible e then ''eligible'' else ''rejected''),
            reasonCodes = reasons e, rankDigest = None\<rparr>
      in if eligible e
         then bindE (rank e) (\<lambda>r. Inr (entry\<lparr>rankDigest := Some (rank_digest sha r)\<rparr>))
         else Inr entry)"

fun explain_all :: "(string \<Rightarrow> string) \<Rightarrow> evaluation list \<Rightarrow> explain_candidate list result" where
  "explain_all sha [] = Inr []"
| "explain_all sha (e # es) =
     bindE (explain_one sha e) (\<lambda>x. bindE (explain_all sha es) (\<lambda>xs. Inr (x # xs)))"

definition selected_record :: "route_request \<Rightarrow> evaluation \<Rightarrow> selected_route result" where
  "selected_record req e =
     (case (cost e, latency e, evidence_digest e) of
        (Some c, Some l, Some ev) \<Rightarrow>
          (case deployment_id (candidate e) of
             JStr i \<Rightarrow>
               Inr \<lparr>sel_deploymentId = i, sel_deploymentDigest = deployment_digest (candidate e),
                 sel_deploymentIdentityDigest = identity_digest (candidate e), observedEvidenceDigest = ev,
                 sel_candidateDigest = candidate_digest (candidate e), reservedCostMicrousd = c,
                 estimatedLatencyP95Millis = l,
                 aggregateReservation = map_option (\<lambda>a. \<lparr>res_maximumCalls = maximumCalls a,
                   res_inputTokenCeiling = agg_inputTokenCeiling a,
                   res_outputTokenCeiling = agg_outputTokenCeiling a, res_reservedCostMicrousd = c\<rparr>)
                   (aggregateBudget req)\<rparr>
           | _ \<Rightarrow> Inl ContractValidationError)
      | _ \<Rightarrow> Inl PyAssertionError)"

text \<open>The arguments of \<open>_outcome\<close> that every caller passes on.\<close>

record outcome_args =
  decision_id :: string
  explain_id :: string
  now_at :: int
  route_attempt :: int
  fallback_from :: "string option"

definition outcome ::
    "(string \<Rightarrow> string) \<Rightarrow> routing_contract \<Rightarrow> router \<Rightarrow> route_request \<Rightarrow> outcome_args \<Rightarrow> string
      \<Rightarrow> evaluation list \<Rightarrow> evaluation option \<Rightarrow> int \<Rightarrow> routing_outcome result" where
  "outcome sha k rt req a reason evals sel limit =
     (let effect = (if sel \<noteq> None then ''allowed'' else ''denied'') in
      bindE (explain_all sha (sort_key (\<lambda>e. candidate_digest (candidate e)) evals)) (\<lambda>entries.
      bindE (validate_explain k (seal_routing_record (explain_hash k)
        \<lparr>rec_id = explain_id a, createdAt = now_at a, recordDigest = [], revision = None,
         exp_requestDigest = recordDigest req, exp_policyDigest = recordDigest (router_policy rt),
         exp_priceCatalogDigest = recordDigest (router_prices rt), exp_decision = effect,
         exp_reasonCode = reason,
         selectedCandidateDigest = map_option (\<lambda>e. candidate_digest (candidate e)) sel,
         exp_candidates = entries, exp_executionPlanDigest = req_executionPlanDigest req\<rparr>)) (\<lambda>explain.
      bindE (case sel of None \<Rightarrow> Inr None | Some e \<Rightarrow> bindE (selected_record req e) (\<lambda>s. Inr (Some s))) (\<lambda>srec.
      bindE (validate_decision k (seal_routing_record (decision_hash k)
        \<lparr>rec_id = decision_id a, createdAt = now_at a, recordDigest = [], revision = None,
         dec_requestDigest = recordDigest req, dec_policyDigest = recordDigest (router_policy rt),
         dec_priceCatalogDigest = recordDigest (router_prices rt), decision = effect,
         reasonCode = reason, routeAttempt = route_attempt a, selected = srec,
         dec_validUntil = max (now_at a + 1) limit, fallbackFromDigest = fallback_from a,
         explainDigest = recordDigest explain, dec_executionPlanDigest = req_executionPlanDigest req\<rparr>)) (\<lambda>d.
      Inr \<lparr>out_decision = d, out_explain = explain\<rparr>)))))"

section \<open>Routing\<close>

fun ranked :: "evaluation list \<Rightarrow> ((int \<times> int \<times> nat \<times> string) \<times> evaluation) list result" where
  "ranked [] = Inr []"
| "ranked (e # es) = bindE (rank e) (\<lambda>r. bindE (ranked es) (\<lambda>rs. Inr ((r, e) # rs)))"

definition select :: "evaluation list \<Rightarrow> evaluation option result" where
  "select evals =
     bindE (ranked (filter eligible evals)) (\<lambda>rs.
       Inr (case sort_key fst rs of [] \<Rightarrow> None | (_, e) # _ \<Rightarrow> Some e))"

definition precondition_reason :: "router \<Rightarrow> role_policy \<Rightarrow> route_request \<Rightarrow> int \<Rightarrow> string option" where
  "precondition_reason rt role req now =
     (if req_policyDigest req \<noteq> recordDigest (router_policy rt) then Some ''policy-binding-mismatch''
      else if actionClass req \<notin> set (role_allowedActionClasses role)
           \<or> dataClass req \<notin> set (role_allowedDataClasses role)
           \<or> deadlineAt req \<le> now
           \<or> (executionProfile req = ''m6.1-local-zero-cost''
                \<and> (allowCloud req \<or> maximumCostMicrousd req \<noteq> 0))
      then Some ''request-policy-denied''
      else if \<not> (price_validFrom (router_prices rt) \<le> now \<and> now < price_validUntil (router_prices rt))
      then Some ''price-catalog-stale''
      else None)"

definition base_valid_until :: "router \<Rightarrow> route_request \<Rightarrow> int \<Rightarrow> int" where
  "base_valid_until rt req now =
     min (min (now + 1000000 * decisionTtlSeconds (router_policy rt)) (deadlineAt req))
       (price_validUntil (router_prices rt))"

text \<open>A selection also ends with the evidence it rests on.\<close>

definition decision_limit :: "router \<Rightarrow> route_request \<Rightarrow> int \<Rightarrow> evaluation option \<Rightarrow> int" where
  "decision_limit rt req now sel =
     (case sel of
        None \<Rightarrow> base_valid_until rt req now
      | Some e \<Rightarrow> (case evidence_valid_until e of
          None \<Rightarrow> base_valid_until rt req now
        | Some t \<Rightarrow> min (base_valid_until rt req now) t))"

definition route_with ::
    "(string \<Rightarrow> string) \<Rightarrow> routing_contract \<Rightarrow> router \<Rightarrow> route_request \<Rightarrow> deployment_candidate list
      \<Rightarrow> observation list \<Rightarrow> outcome_args \<Rightarrow> string set \<Rightarrow> routing_outcome result" where
  "route_with sha k rt request candidates observations a excluded =
     bindE (safe_validate (validate_request k request)) (\<lambda>req.
     bindE (find_role rt (req_role req)) (\<lambda>role.
       let now = now_at a in
       case precondition_reason rt role req now of
         Some reason \<Rightarrow> outcome sha k rt req a reason [] None (base_valid_until rt req now)
       | None \<Rightarrow>
           bindE (distinct_ids candidates) (\<lambda>ok.
           if \<not> ok then Inl (RoutingError ''ECO_ROUTING_CANDIDATE_CONFLICT'')
           else bindE (observation_map k [] observations) (\<lambda>obs.
             let evals = map (candidate_evaluation req role obs (price_map rt) now excluded) candidates in
             bindE (select evals) (\<lambda>sel.
               outcome sha k rt req a (if sel \<noteq> None then ''eligible'' else ''no-eligible-candidate'') evals sel
                 (decision_limit rt req now sel))))))"

definition route ::
    "(string \<Rightarrow> string) \<Rightarrow> routing_contract \<Rightarrow> router \<Rightarrow> route_request \<Rightarrow> deployment_candidate list
      \<Rightarrow> observation list \<Rightarrow> int \<Rightarrow> string \<Rightarrow> string \<Rightarrow> routing_outcome result" where
  "route sha k rt request candidates observations now did eid =
     route_with sha k rt request candidates observations
       \<lparr>decision_id = did, explain_id = eid, now_at = now, route_attempt = 1, fallback_from = None\<rparr> {}"

definition NON_FALLBACK_FAILURES :: "string set" where
  "NON_FALLBACK_FAILURES = {''policy'', ''privacy'', ''authority'', ''schema'', ''ambiguous'',
     ''provider-identity-drift'', ''deadline'', ''budget''}"

definition RETRYABLE_FAILURES :: "string set" where
  "RETRYABLE_FAILURES = {''capacity'', ''transport-retryable''}"

text \<open>Why a fallback is refused.\<close>

definition fallback_reason ::
    "router \<Rightarrow> role_policy \<Rightarrow> route_request \<Rightarrow> route_decision \<Rightarrow> string \<Rightarrow> deployment_candidate list \<Rightarrow> int
      \<Rightarrow> string option" where
  "fallback_reason rt role req previous failure_class candidates now =
     (case selected previous of
        None \<Rightarrow> Some ''fallback-not-authorized''
      | Some sel \<Rightarrow>
          if decision previous \<noteq> ''allowed''
             \<or> dec_requestDigest previous \<noteq> recordDigest req
             \<or> dec_policyDigest previous \<noteq> recordDigest (router_policy rt)
             \<or> dec_priceCatalogDigest previous \<noteq> recordDigest (router_prices rt)
             \<or> dec_executionPlanDigest previous \<noteq> req_executionPlanDigest req
             \<or> now \<ge> dec_validUntil previous
          then Some ''fallback-not-authorized''
          else if routeAttempt previous \<ge> maxRouteAttempts role then Some ''fallback-exhausted''
          else if failure_class \<in> NON_FALLBACK_FAILURES \<or> failure_class \<notin> RETRYABLE_FAILURES
                  \<or> failure_class \<notin> set (retryableFailureClasses role)
          then Some ''fallback-not-authorized''
          else (case find (\<lambda>c. deployment_id c = JStr (sel_deploymentId sel)) candidates of
                  None \<Rightarrow> Some ''fallback-identity-drift''
                | Some c \<Rightarrow> if identity_digest c \<noteq> sel_deploymentIdentityDigest sel
                            then Some ''fallback-identity-drift'' else None))"

definition fallback ::
    "(string \<Rightarrow> string) \<Rightarrow> routing_contract \<Rightarrow> router \<Rightarrow> route_request \<Rightarrow> route_decision \<Rightarrow> string
      \<Rightarrow> deployment_candidate list \<Rightarrow> observation list \<Rightarrow> int \<Rightarrow> string \<Rightarrow> string \<Rightarrow> routing_outcome result" where
  "fallback sha k rt request previous_decision failure_class candidates observations now did eid =
     bindE (safe_validate (validate_request k request)) (\<lambda>req.
     bindE (safe_validate (validate_decision k previous_decision)) (\<lambda>previous.
     bindE (find_role rt (req_role req)) (\<lambda>role.
       let a = \<lparr>decision_id = did, explain_id = eid, now_at = now, route_attempt = 2,
                fallback_from = Some (recordDigest previous)\<rparr>
       in case fallback_reason rt role req previous failure_class candidates now of
            Some reason \<Rightarrow> outcome sha k rt req a reason [] None (now + 1)
          | None \<Rightarrow> route_with sha k rt req candidates observations a
              (case selected previous of None \<Rightarrow> {} | Some sel \<Rightarrow> {sel_candidateDigest sel}))))"

section \<open>What a candidate must meet\<close>

text \<open>The routing policy, written as one condition on a candidate.\<close>

definition admissible ::
    "route_request \<Rightarrow> role_policy \<Rightarrow> observation binding_map \<Rightarrow> price_entry binding_map \<Rightarrow> int
      \<Rightarrow> string set \<Rightarrow> deployment_candidate \<Rightarrow> bool" where
  "admissible req role observations prices now excluded c \<longleftrightarrow>
     candidate_digest c \<notin> excluded \<and> enabled c
     \<and> (\<exists>i \<in> set (candidateIds role). deployment_id c = JStr i)
     \<and> zone c \<in> set (role_allowedZones role) \<inter> set (req_allowedZones req)
     \<and> dataClass req \<in> set (role_allowedDataClasses role) \<inter> set (allowed_data_classes c)
     \<and> retention c \<in> set (role_allowedRetentions role) \<inter> set (req_allowedRetentions req)
     \<and> (provider_class c = ''cloud'' \<longrightarrow> allowCloud req)
     \<and> (executionProfile req = ''m6.1-local-zero-cost'' \<longrightarrow> provider_class c = ''local'')
     \<and> (\<exists>ob. lookup observations (deployment_id c) (identity_digest c) = Some ob
          \<and> observedAt ob \<le> now \<and> now < obs_validUntil ob
          \<and> set (role_requiredCapabilities role) \<union> set (req_requiredCapabilities req) \<subseteq> set (obs_capabilities ob)
          \<and> requiredContextTokens req \<le> contextWindowTokens ob
          \<and> inputTokenCeiling req + outputTokenCeiling req \<le> contextWindowTokens ob
          \<and> now + 1000 * latencyP95Millis ob \<le> deadlineAt req)
     \<and> (\<exists>p. lookup prices (deployment_id c) (identity_digest c) = Some p
          \<and> reservation p req \<le> maximumCostMicrousd req \<and> reservation p req \<le> role_maximumCostMicrousd role
          \<and> (executionProfile req = ''m6.1-local-zero-cost'' \<longrightarrow> reservation p req = 0))"

lemma reason_if_Nil [simp]: "reason_if b r = [] \<longleftrightarrow> \<not> b"
  by (simp add: reason_if_def)

lemma eligible_iff_admissible:
  "eligible (candidate_evaluation req role obs prices now excluded c)
     \<longleftrightarrow> admissible req role obs prices now excluded c"
proof -
  have pol: "policy_reasons req role excluded c = [] \<longleftrightarrow>
      candidate_digest c \<notin> excluded \<and> enabled c
      \<and> (\<exists>i \<in> set (candidateIds role). deployment_id c = JStr i)
      \<and> zone c \<in> set (role_allowedZones role) \<inter> set (req_allowedZones req)
      \<and> dataClass req \<in> set (role_allowedDataClasses role) \<inter> set (allowed_data_classes c)
      \<and> retention c \<in> set (role_allowedRetentions role) \<inter> set (req_allowedRetentions req)
      \<and> (provider_class c = ''cloud'' \<longrightarrow> allowCloud req)
      \<and> (executionProfile req = ''m6.1-local-zero-cost'' \<longrightarrow> provider_class c = ''local'')"
    by (auto simp: policy_reasons_def)
  show ?thesis
    unfolding eligible_def candidate_evaluation_def Let_def admissible_def
    by (cases "lookup obs (deployment_id c) (identity_digest c)";
        cases "lookup prices (deployment_id c) (identity_digest c)")
      (simp_all add: pol observation_reasons_def price_reasons_def not_less not_le conj_ac, blast)
qed

definition rank_key :: "evaluation \<Rightarrow> int \<times> int \<times> nat \<times> string" where
  "rank_key e = (the (cost e), the (latency e), preference e, candidate_digest (candidate e))"

lemma rank_Inr: "cost e \<noteq> None \<Longrightarrow> latency e \<noteq> None \<Longrightarrow> rank e = Inr (rank_key e)"
  by (auto simp: rank_def rank_key_def)

lemma rank_admissible:
  assumes "admissible req role obs prices now excluded c"
  shows "rank (candidate_evaluation req role obs prices now excluded c)
     = Inr (rank_key (candidate_evaluation req role obs prices now excluded c))"
  using assms by (intro rank_Inr) (auto simp: candidate_evaluation_def admissible_def Let_def)

lemma ranked_Inr: "(\<And>e. e \<in> set es \<Longrightarrow> rank e = Inr (rank_key e)) \<Longrightarrow>
    ranked es = Inr (map (\<lambda>e. (rank_key e, e)) es)"
  by (induction es) auto

lemma sort_key_hd_least:
  assumes "sort_key f xs = y # ys"
  shows "y \<in> set xs \<and> (\<forall>x \<in> set xs. f y \<le> f x)"
proof -
  have "sorted (map f (y # ys))" "set (y # ys) = set xs"
    using assms by (metis sorted_sort_key, metis set_sort)
  then show ?thesis by auto
qed

text \<open>The selection: the eligible candidate of least rank.\<close>

lemma select_least:
  assumes "\<And>e. e \<in> set evals \<Longrightarrow> eligible e \<Longrightarrow> rank e = Inr (rank_key e)"
  shows "\<exists>sel. select evals = Inr sel \<and> (case sel of
      None \<Rightarrow> \<forall>e \<in> set evals. \<not> eligible e
    | Some e \<Rightarrow> e \<in> set evals \<and> eligible e \<and> (\<forall>e' \<in> set evals. eligible e' \<longrightarrow> rank_key e \<le> rank_key e'))"
proof -
  let ?rs = "map (\<lambda>e. (rank_key e, e)) (filter eligible evals)"
  have r: "ranked (filter eligible evals) = Inr ?rs" by (rule ranked_Inr) (use assms in auto)
  show ?thesis
  proof (cases "sort_key fst ?rs")
    case Nil
    then have "set ?rs = {}" using set_sort [of fst ?rs] by (simp only: list.set)
    then have "\<forall>e \<in> set evals. \<not> eligible e" by auto
    with Nil r show ?thesis by (simp add: select_def)
  next
    case (Cons y ys)
    obtain k e where y: "y = (k, e)" by (cases y)
    from sort_key_hd_least [OF Cons] y have e: "e \<in> set evals" "eligible e" "k = rank_key e"
      and "\<And>e'. e' \<in> set evals \<Longrightarrow> eligible e' \<Longrightarrow> k \<le> rank_key e'" by auto
    with r Cons y show ?thesis by (auto simp: select_def)
  qed
qed

lemma candidate_evaluation_candidate [simp]:
  "candidate (candidate_evaluation req role obs prices now excluded c) = c"
  by (simp add: candidate_evaluation_def Let_def)

lemma outcome_decision:
  assumes "outcome sha k rt req a reason evals sel limit = Inr out"
  shows "decision (out_decision out) = (if sel \<noteq> None then ''allowed'' else ''denied'')
    \<and> reasonCode (out_decision out) = reason \<and> routeAttempt (out_decision out) = route_attempt a
    \<and> fallbackFromDigest (out_decision out) = fallback_from a
    \<and> dec_validUntil (out_decision out) = max (now_at a + 1) limit
    \<and> dec_requestDigest (out_decision out) = recordDigest req
    \<and> dec_policyDigest (out_decision out) = recordDigest (router_policy rt)
    \<and> (case sel of None \<Rightarrow> selected (out_decision out) = None
       | Some e \<Rightarrow> (\<exists>s. selected (out_decision out) = Some s \<and> selected_record req e = Inr s))"
  using assms
  by (cases sel) (auto simp: outcome_def Let_def validate_explain_def validate_decision_def)

lemma outcome_valid:
  assumes "outcome sha k rt req a reason evals sel limit = Inr out"
  shows "validate_decision k (out_decision out) = Inr (out_decision out)
    \<and> dec_priceCatalogDigest (out_decision out) = recordDigest (router_prices rt)
    \<and> dec_executionPlanDigest (out_decision out) = req_executionPlanDigest req"
  using assms by (auto simp: outcome_def Let_def validate_explain_def validate_decision_def)

lemma safe_validate_Inr [simp]: "safe_validate r = Inr x \<longleftrightarrow> r = Inr x"
  by (cases r) (simp_all add: safe_validate_def)

lemma validate_request_same: "validate_request k r = Inr r' \<Longrightarrow> r' = r"
  by (simp add: validate_request_def)

text \<open>What a call of \<open>route\<close> that returned did: it stopped at a precondition, or it evaluated every
  candidate and selected.\<close>

lemma route_with_cases:
  assumes r: "route_with sha k rt req cands observations a excluded = Inr out"
  obtains (refused) role reason where "find_role rt (req_role req) = Inr role"
      "precondition_reason rt role req (now_at a) = Some reason"
      "outcome sha k rt req a reason [] None (base_valid_until rt req (now_at a)) = Inr out"
  | (evaluated) role obs sel where "find_role rt (req_role req) = Inr role"
      "precondition_reason rt role req (now_at a) = None"
      "distinct (map deployment_id cands)" "observation_map k [] observations = Inr obs"
      "select (map (candidate_evaluation req role obs (price_map rt) (now_at a) excluded) cands) = Inr sel"
      "outcome sha k rt req a (if sel \<noteq> None then ''eligible'' else ''no-eligible-candidate'')
         (map (candidate_evaluation req role obs (price_map rt) (now_at a) excluded) cands) sel
         (decision_limit rt req (now_at a) sel) = Inr out"
proof -
  from r obtain role where req: "validate_request k req = Inr req" and role: "find_role rt (req_role req) = Inr role"
    by (auto simp: route_with_def dest: validate_request_same)
  show thesis
  proof (cases "precondition_reason rt role req (now_at a)")
    case None
    let ?evals = "\<lambda>obs. map (candidate_evaluation req role obs (price_map rt) (now_at a) excluded) cands"
    from r have "bindE (distinct_ids cands) (\<lambda>ok.
           if \<not> ok then Inl (RoutingError ''ECO_ROUTING_CANDIDATE_CONFLICT'')
           else bindE (observation_map k [] observations) (\<lambda>obs.
             bindE (select (?evals obs)) (\<lambda>sel.
               outcome sha k rt req a (if sel \<noteq> None then ''eligible'' else ''no-eligible-candidate'')
                 (?evals obs) sel (decision_limit rt req (now_at a) sel)))) = Inr out"
      by (simp only: route_with_def Let_def req role None safe_validate_def bindE.simps sum.case option.case)
    then show thesis
    proof (elim bindE_InrE)
      fix ok
      assume ok: "distinct_ids cands = Inr ok"
        and rest: "(if \<not> ok then Inl (RoutingError ''ECO_ROUTING_CANDIDATE_CONFLICT'')
           else bindE (observation_map k [] observations) (\<lambda>obs.
             bindE (select (?evals obs)) (\<lambda>sel.
               outcome sha k rt req a (if sel \<noteq> None then ''eligible'' else ''no-eligible-candidate'')
                 (?evals obs) sel (decision_limit rt req (now_at a) sel)))) = Inr out"
      from rest have o: ok by (cases ok) simp_all
      with ok have d: "distinct (map deployment_id cands)"
        by (simp add: distinct_ids_def split: if_splits)
      from rest o show thesis
        by (simp only: if_False simp_thms) (elim bindE_InrE, rule evaluated [OF role None d])
    qed
  next
    case (Some reason)
    with r have "outcome sha k rt req a reason [] None (base_valid_until rt req (now_at a)) = Inr out"
      by (simp add: route_with_def Let_def req role safe_validate_def)
    from refused [OF role Some this] show thesis .
  qed
qed

lemma evaluations_select:
  assumes "select (map (candidate_evaluation req role obs prices now excluded) cands) = Inr sel"
  shows "case sel of
      None \<Rightarrow> \<forall>c \<in> set cands. \<not> admissible req role obs prices now excluded c
    | Some e \<Rightarrow> \<exists>c \<in> set cands. e = candidate_evaluation req role obs prices now excluded c
        \<and> admissible req role obs prices now excluded c
        \<and> (\<forall>c' \<in> set cands. admissible req role obs prices now excluded c' \<longrightarrow>
             rank_key e \<le> rank_key (candidate_evaluation req role obs prices now excluded c'))"
proof -
  let ?ev = "candidate_evaluation req role obs prices now excluded"
  have "rank e = Inr (rank_key e)" if "e \<in> set (map ?ev cands)" "eligible e" for e
    using that by (auto simp: eligible_iff_admissible rank_admissible)
  from select_least [OF this] obtain sel' where "select (map ?ev cands) = Inr sel'" and c: "case sel' of
      None \<Rightarrow> \<forall>e \<in> set (map ?ev cands). \<not> eligible e
    | Some e \<Rightarrow> e \<in> set (map ?ev cands) \<and> eligible e
        \<and> (\<forall>e' \<in> set (map ?ev cands). eligible e' \<longrightarrow> rank_key e \<le> rank_key e')"
    by blast
  with assms have "sel' = sel" by simp
  with c show ?thesis by (cases sel) (auto simp: eligible_iff_admissible)
qed

lemma selected_record_fields:
  assumes "selected_record req (candidate_evaluation req role obs prices now excluded c) = Inr s"
  shows "JStr (sel_deploymentId s) = deployment_id c \<and> sel_deploymentDigest s = deployment_digest c
    \<and> sel_deploymentIdentityDigest s = identity_digest c \<and> sel_candidateDigest s = candidate_digest c
    \<and> (\<exists>p. lookup prices (deployment_id c) (identity_digest c) = Some p \<and> reservedCostMicrousd s = reservation p req)"
  using assms by (auto simp: selected_record_def candidate_evaluation_def Let_def split: option.splits json.splits)

lemma route_with_meta:
  assumes "route_with sha k rt req cands observations a excluded = Inr out"
  shows "routeAttempt (out_decision out) = route_attempt a \<and> fallbackFromDigest (out_decision out) = fallback_from a"
  using assms
proof (cases rule: route_with_cases)
  case (refused role reason)
  from outcome_decision [OF refused(3)] show ?thesis by blast
next
  case (evaluated role obs sel)
  from outcome_decision [OF evaluated(6)] show ?thesis by blast
qed

text \<open>The shared part of \<open>route\<close> and \<open>fallback\<close>: what a returned selection is.\<close>

lemma route_with_selected:
  assumes r: "route_with sha k rt req cands observations a excluded = Inr out"
    and s: "selected (out_decision out) = Some s"
  shows "\<exists>role obs c. find_role rt (req_role req) = Inr role \<and> observation_map k [] observations = Inr obs
     \<and> precondition_reason rt role req (now_at a) = None
     \<and> c \<in> set cands \<and> admissible req role obs (price_map rt) (now_at a) excluded c
     \<and> selected_record req (candidate_evaluation req role obs (price_map rt) (now_at a) excluded c) = Inr s
     \<and> dec_validUntil (out_decision out) \<le> max (now_at a + 1) (base_valid_until rt req (now_at a))
     \<and> (\<forall>c' \<in> set cands. admissible req role obs (price_map rt) (now_at a) excluded c' \<longrightarrow>
          rank_key (candidate_evaluation req role obs (price_map rt) (now_at a) excluded c)
            \<le> rank_key (candidate_evaluation req role obs (price_map rt) (now_at a) excluded c'))"
  using r
proof (cases rule: route_with_cases)
  case (refused role reason)
  from outcome_decision [OF refused(3)] s show ?thesis by simp
next
  case (evaluated role obs sel)
  note o = outcome_decision [OF evaluated(6)]
  from o s obtain e where sel: "sel = Some e" "selected_record req e = Inr s" by (cases sel) auto
  with evaluations_select [OF evaluated(5)] obtain c where c: "c \<in> set cands"
    "e = candidate_evaluation req role obs (price_map rt) (now_at a) excluded c"
    "admissible req role obs (price_map rt) (now_at a) excluded c"
    "\<forall>c' \<in> set cands. admissible req role obs (price_map rt) (now_at a) excluded c' \<longrightarrow>
       rank_key e \<le> rank_key (candidate_evaluation req role obs (price_map rt) (now_at a) excluded c')"
    by auto
  have "decision_limit rt req (now_at a) sel \<le> base_valid_until rt req (now_at a)"
    by (auto simp: decision_limit_def split: option.splits)
  then have "dec_validUntil (out_decision out) \<le> max (now_at a + 1) (base_valid_until rt req (now_at a))"
    using conjunct1 [OF conjunct2 [OF conjunct2 [OF conjunct2 [OF conjunct2 [OF o]]]]] by (simp add: max_def)
  with evaluated(1,2,4) c sel(2) show ?thesis by blast
qed

section \<open>Properties of routing\<close>

text \<open>C17: an allowed route is the best admissible one. The selected deployment is one of the candidates,
  it meets every condition of the routing policy, its reserved cost is within the request's and the
  role's limits, no admissible candidate has a smaller rank (cost, then latency, then the role's order of
  preference, then digest), and the decision does not outlive the request's deadline or the price
  catalog.\<close>

theorem route_selects_least:
  assumes r: "route sha k rt req cands observations now did eid = Inr out"
    and s: "selected (out_decision out) = Some s"
  shows "\<exists>role obs c. find_role rt (req_role req) = Inr role \<and> observation_map k [] observations = Inr obs
     \<and> c \<in> set cands \<and> admissible req role obs (price_map rt) now {} c
     \<and> JStr (sel_deploymentId s) = deployment_id c \<and> sel_deploymentIdentityDigest s = identity_digest c
     \<and> reservedCostMicrousd s \<le> maximumCostMicrousd req
     \<and> reservedCostMicrousd s \<le> role_maximumCostMicrousd role
     \<and> dec_validUntil (out_decision out) \<le> deadlineAt req
     \<and> dec_validUntil (out_decision out) \<le> price_validUntil (router_prices rt)
     \<and> (\<forall>c' \<in> set cands. admissible req role obs (price_map rt) now {} c' \<longrightarrow>
          rank_key (candidate_evaluation req role obs (price_map rt) now {} c)
            \<le> rank_key (candidate_evaluation req role obs (price_map rt) now {} c'))"
proof -
  let ?a = "\<lparr>decision_id = did, explain_id = eid, now_at = now, route_attempt = 1, fallback_from = None\<rparr>"
  from r have r: "route_with sha k rt req cands observations ?a {} = Inr out" by (simp add: route_def)
  from route_with_selected [OF r s] obtain role obs c where
    c: "find_role rt (req_role req) = Inr role" "observation_map k [] observations = Inr obs"
      "precondition_reason rt role req now = None" "c \<in> set cands"
      "admissible req role obs (price_map rt) now {} c"
      "selected_record req (candidate_evaluation req role obs (price_map rt) now {} c) = Inr s"
      "dec_validUntil (out_decision out) \<le> max (now + 1) (base_valid_until rt req now)"
      "\<forall>c' \<in> set cands. admissible req role obs (price_map rt) now {} c' \<longrightarrow>
         rank_key (candidate_evaluation req role obs (price_map rt) now {} c)
           \<le> rank_key (candidate_evaluation req role obs (price_map rt) now {} c')" by auto
  note f = selected_record_fields [OF c(6)]
  have cost: "reservedCostMicrousd s \<le> maximumCostMicrousd req" "reservedCostMicrousd s \<le> role_maximumCostMicrousd role"
    using f c(5) by (auto simp: admissible_def)
  have "now < deadlineAt req" "now < price_validUntil (router_prices rt)"
    using c(3) by (auto simp: precondition_reason_def split: if_splits)
  then have "dec_validUntil (out_decision out) \<le> deadlineAt req"
    "dec_validUntil (out_decision out) \<le> price_validUntil (router_prices rt)"
    using c(7) by (auto simp: base_valid_until_def)
  with c f cost show ?thesis by blast
qed

text \<open>A denied route is denied for a reason. Without a selection, either a precondition of the
  request failed or no candidate at all is admissible.\<close>

lemma route_denies_soundly:
  assumes r: "route sha k rt req cands observations now did eid = Inr out"
    and s: "selected (out_decision out) = None"
  shows "decision (out_decision out) = ''denied'' \<and> (\<exists>role. find_role rt (req_role req) = Inr role
     \<and> (precondition_reason rt role req now = Some (reasonCode (out_decision out))
        \<or> (\<exists>obs. reasonCode (out_decision out) = ''no-eligible-candidate''
              \<and> observation_map k [] observations = Inr obs
              \<and> (\<forall>c \<in> set cands. \<not> admissible req role obs (price_map rt) now {} c))))"
proof -
  let ?a = "\<lparr>decision_id = did, explain_id = eid, now_at = now, route_attempt = 1, fallback_from = None\<rparr>"
  from r have "route_with sha k rt req cands observations ?a {} = Inr out" by (simp add: route_def)
  then show ?thesis
  proof (cases rule: route_with_cases)
    case (refused role reason)
    with outcome_decision [OF refused(3)] show ?thesis by simp
  next
    case (evaluated role obs sel)
    from outcome_decision [OF evaluated(6)] s have sel: "sel = None" by (cases sel) auto
    with outcome_decision [OF evaluated(6)] evaluations_select [OF evaluated(5)] evaluated
    show ?thesis by simp
  qed
qed

text \<open>A fallback never returns to the deployment that failed. A selection by \<open>fallback\<close> needs a previous
  allowed decision for the same request that is still valid and had attempts left, a failure class that
  is retryable both in general and for the role, and it selects a different candidate.\<close>

lemma fallback_moves_on:
  assumes f: "fallback sha k rt req previous failure cands observations now did eid = Inr out"
    and s: "selected (out_decision out) = Some s"
  shows "\<exists>role old. find_role rt (req_role req) = Inr role \<and> selected previous = Some old
     \<and> sel_candidateDigest s \<noteq> sel_candidateDigest old
     \<and> failure \<in> RETRYABLE_FAILURES \<and> failure \<in> set (retryableFailureClasses role)
     \<and> now < dec_validUntil previous \<and> routeAttempt previous < maxRouteAttempts role
     \<and> dec_requestDigest previous = recordDigest req
     \<and> routeAttempt (out_decision out) = 2
     \<and> fallbackFromDigest (out_decision out) = Some (recordDigest previous)"
proof -
  let ?a = "\<lparr>decision_id = did, explain_id = eid, now_at = now, route_attempt = 2,
             fallback_from = Some (recordDigest previous)\<rparr>"
  from f obtain role where role: "find_role rt (req_role req) = Inr role"
    and rest: "(case fallback_reason rt role req previous failure cands now of
            Some reason \<Rightarrow> outcome sha k rt req ?a reason [] None (now + 1)
          | None \<Rightarrow> route_with sha k rt req cands observations ?a
              (case selected previous of None \<Rightarrow> {} | Some sel \<Rightarrow> {sel_candidateDigest sel})) = Inr out"
    by (auto simp: fallback_def Let_def validate_request_def validate_decision_def)
  show ?thesis
  proof (cases "fallback_reason rt role req previous failure cands now")
    case (Some reason)
    with rest outcome_decision [of sha k rt req ?a reason "[]" None "now + 1" out] s show ?thesis by simp
  next
    case None
    then obtain old where old: "selected previous = Some old" "now < dec_validUntil previous"
      "routeAttempt previous < maxRouteAttempts role" "failure \<in> RETRYABLE_FAILURES"
      "failure \<in> set (retryableFailureClasses role)" "dec_requestDigest previous = recordDigest req"
      by (auto simp: fallback_reason_def split: option.splits if_splits)
    have r: "route_with sha k rt req cands observations ?a {sel_candidateDigest old} = Inr out"
      using rest None old(1) by simp
    from route_with_selected [OF r s] obtain role' obs c where
      "admissible req role' obs (price_map rt) now {sel_candidateDigest old} c"
      "selected_record req (candidate_evaluation req role' obs (price_map rt) now {sel_candidateDigest old} c) = Inr s"
      by auto
    then have "sel_candidateDigest s \<noteq> sel_candidateDigest old"
      using selected_record_fields by (fastforce simp: admissible_def)
    moreover have "routeAttempt (out_decision out) = 2"
      "fallbackFromDigest (out_decision out) = Some (recordDigest previous)"
      using route_with_meta [OF r] by simp_all
    ultimately show ?thesis using role old by blast
  qed
qed

lemma ceil_million:
  "v \<le> 1000000 * ((v + 999999) div 1000000)" "1000000 * ((v + 999999) div 1000000) < v + (1000000 :: int)"
  using div_mult_mod_eq [of "v + 999999" 1000000] pos_mod_bound [of 1000000 "v + 999999"]
    pos_mod_sign [of 1000000 "v + 999999"] by linarith+

text \<open>The reservation covers every use within the ceilings and rounds up by less than one
  micro-dollar: with non-negative prices, calls and tokens within the request's (aggregate) ceilings
  cost at most the reservation, and the reservation exceeds the exact bound by less than one unit.\<close>

lemma reservation_covers_usage:
  assumes "0 \<le> inputMicrousdPerMillionTokens p" and "0 \<le> outputMicrousdPerMillionTokens p"
    and "0 \<le> fixedRequestMicrousd p" and agg: "aggregateBudget req = Some b"
    and "calls \<le> maximumCalls b" and "i \<le> agg_inputTokenCeiling b" and "o' \<le> agg_outputTokenCeiling b"
  shows "1000000 * calls * fixedRequestMicrousd p + i * inputMicrousdPerMillionTokens p
       + o' * outputMicrousdPerMillionTokens p \<le> 1000000 * reservation p req
     \<and> 1000000 * reservation p req < 1000000 * maximumCalls b * fixedRequestMicrousd p
       + agg_inputTokenCeiling b * inputMicrousdPerMillionTokens p
       + agg_outputTokenCeiling b * outputMicrousdPerMillionTokens p + 1000000"
proof -
  let ?v = "agg_inputTokenCeiling b * inputMicrousdPerMillionTokens p
    + agg_outputTokenCeiling b * outputMicrousdPerMillionTokens p"
  have r: "reservation p req = maximumCalls b * fixedRequestMicrousd p + (?v + 999999) div 1000000"
    using agg by (simp add: reservation_def Let_def)
  have d: "?v \<le> 1000000 * ((?v + 999999) div 1000000)" "1000000 * ((?v + 999999) div 1000000) < ?v + 1000000"
    using ceil_million [of ?v] by simp_all
  have "calls * fixedRequestMicrousd p \<le> maximumCalls b * fixedRequestMicrousd p"
    "i * inputMicrousdPerMillionTokens p \<le> agg_inputTokenCeiling b * inputMicrousdPerMillionTokens p"
    "o' * outputMicrousdPerMillionTokens p \<le> agg_outputTokenCeiling b * outputMicrousdPerMillionTokens p"
    using assms by (auto intro: mult_right_mono)
  with d show ?thesis unfolding r by (simp add: algebra_simps)
qed

section \<open>The router always answers, in any order of candidates\<close>

lemma explain_all_eq:
  assumes "\<And>e. e \<in> set es \<Longrightarrow> eligible e \<Longrightarrow> rank e = Inr (rank_key e)"
  shows "\<exists>xs. explain_all sha es = Inr xs \<and> map exp_candidateDigest xs = map (\<lambda>e. candidate_digest (candidate e)) es
     \<and> map reasonCodes xs = map reasons es"
  using assms
proof (induction es)
  case (Cons e es)
  then obtain xs where xs: "explain_all sha es = Inr xs"
    "map exp_candidateDigest xs = map (\<lambda>e. candidate_digest (candidate e)) es" "map reasonCodes xs = map reasons es"
    by auto
  have "\<exists>x. explain_one sha e = Inr x \<and> exp_candidateDigest x = candidate_digest (candidate e)
      \<and> reasonCodes x = reasons e"
    using Cons.prems [of e] by (cases "eligible e") (auto simp: explain_one_def Let_def)
  with xs show ?case by auto
qed simp

lemma sorted_reasons: "sorted (reasons (candidate_evaluation req role obs prices now excluded c))"
  by (simp add: candidate_evaluation_def Let_def)

definition accepts_all :: "routing_contract \<Rightarrow> bool" where
  "accepts_all k \<longleftrightarrow> (\<forall>d. decision_schema k d) \<and> (\<forall>x. explain_schema k x)"

text \<open>Every record that \<open>_outcome\<close> seals passes its own semantic checks.\<close>

lemma outcome_returns:
  assumes k: "accepts_all k" and req: "req_executionPlanDigest req = None \<longleftrightarrow> aggregateBudget req = None"
    and evals: "\<And>e. e \<in> set evals \<Longrightarrow> eligible e \<Longrightarrow> rank e = Inr (rank_key e)"
      "\<And>e. e \<in> set evals \<Longrightarrow> sorted (reasons e)"
    and a: "route_attempt a = 1 \<longleftrightarrow> fallback_from a = None"
    and sel: "case sel of None \<Rightarrow> reason \<noteq> ''eligible''
      | Some e \<Rightarrow> reason = ''eligible'' \<and> (\<exists>s. selected_record req e = Inr s)"
  shows "\<exists>out. outcome sha k rt req a reason evals sel limit = Inr out"
proof -
  let ?es = "sort_key (\<lambda>e. candidate_digest (candidate e)) evals"
  obtain xs where xs: "explain_all sha ?es = Inr xs"
    "map exp_candidateDigest xs = map (\<lambda>e. candidate_digest (candidate e)) ?es" "map reasonCodes xs = map reasons ?es"
    using explain_all_eq [of ?es sha] evals(1) by auto
  have sx: "sorted (map exp_candidateDigest xs)" by (simp add: xs(2))
  have rc: "\<not> list_ex (\<lambda>c. \<not> sorted (reasonCodes c)) xs"
  proof -
    have "reasonCodes ` set xs = reasons ` set ?es" using arg_cong [OF xs(3), of set] by simp
    then show ?thesis using evals(2) by (auto simp: list_ex_iff) (metis (no_types, lifting) imageE imageI set_sort)
  qed
  show ?thesis
  proof (cases sel)
    case None
    with k a sel xs(1) sx rc show ?thesis
      by (simp add: outcome_def Let_def validate_explain_def validate_decision_def explain_errors_def
          decision_errors_def accepts_all_def)
  next
    case (Some e)
    with sel obtain s where s: "selected_record req e = Inr s" by auto
    then have "aggregateReservation s = None \<longleftrightarrow> req_executionPlanDigest req = None"
      "\<And>r. aggregateReservation s = Some r \<Longrightarrow> res_reservedCostMicrousd r = reservedCostMicrousd s"
      using req by (auto simp: selected_record_def split: option.splits json.splits)
    with k a sel xs(1) sx rc Some s show ?thesis
      by (auto simp: outcome_def Let_def validate_explain_def validate_decision_def explain_errors_def
          decision_errors_def accepts_all_def split: option.splits)
  qed
qed

lemma selected_record_admissible:
  assumes "admissible req role obs prices now excluded c"
  shows "\<exists>s. selected_record req (candidate_evaluation req role obs prices now excluded c) = Inr s"
  using assms by (auto simp: selected_record_def candidate_evaluation_def admissible_def Let_def)

text \<open>On a valid request the router always decides. With a known role, distinct hashable candidate
  ids and valid, non-conflicting observations, \<open>route\<close> returns an outcome: the explanation and the
  decision it seals never fail the semantic checks of their own contract, and no internal assertion
  fails.\<close>

lemma route_always_decides:
  assumes k: "accepts_all k" and req: "validate_request k req = Inr req"
    and role: "find_role rt (req_role req) = Inr role" and ids: "distinct_ids cands = Inr True"
    and obs: "observation_map k [] observations = Inr obs"
  shows "\<exists>out. route sha k rt req cands observations now did eid = Inr out"
proof -
  let ?a = "\<lparr>decision_id = did, explain_id = eid, now_at = now, route_attempt = 1, fallback_from = None\<rparr>"
  have agg: "req_executionPlanDigest req = None \<longleftrightarrow> aggregateBudget req = None"
    using validate_request_Inr [OF req] by blast
  have a: "route_attempt ?a = 1 \<longleftrightarrow> fallback_from ?a = None" by simp
  show ?thesis
  proof (cases "precondition_reason rt role req now")
    case (Some reason)
    then have "reason \<noteq> ''eligible''" by (auto simp: precondition_reason_def split: if_splits)
    then have "\<exists>out. outcome sha k rt req ?a reason [] None (base_valid_until rt req now) = Inr out"
      by (intro outcome_returns [OF k agg _ _ a]) simp_all
    with Some req role show ?thesis by (simp add: route_def route_with_def safe_validate_def Let_def)
  next
    case None
    let ?ev = "candidate_evaluation req role obs (price_map rt) now {}"
    have rk: "rank e = Inr (rank_key e)" if "e \<in> set (map ?ev cands)" "eligible e" for e
      using that by (auto simp: eligible_iff_admissible rank_admissible)
    obtain sel where sel: "select (map ?ev cands) = Inr sel" using select_least [OF rk] by blast
    have "\<exists>out. outcome sha k rt req ?a (if sel \<noteq> None then ''eligible'' else ''no-eligible-candidate'')
        (map ?ev cands) sel (decision_limit rt req now sel) = Inr out"
    proof (rule outcome_returns [OF k agg rk _ a])
      show "case sel of None \<Rightarrow> (if sel \<noteq> None then ''eligible'' else ''no-eligible-candidate'') \<noteq> ''eligible''
        | Some e \<Rightarrow> (if sel \<noteq> None then ''eligible'' else ''no-eligible-candidate'') = ''eligible''
            \<and> (\<exists>s. selected_record req e = Inr s)"
        using evaluations_select [OF sel] selected_record_admissible by (cases sel) auto
    qed (auto simp: sorted_reasons)
    with None req role ids obs sel show ?thesis
      by (simp add: route_def route_with_def safe_validate_def Let_def del: bindE_Inr_iff)
  qed
qed

lemma sort_key_set_unique:
  assumes "set xs = set ys" and "distinct (map f xs)" and "distinct (map f ys)"
  shows "sort_key f xs = sort_key f ys"
proof (rule map_sorted_distinct_set_unique)
  show "inj_on f (set (sort_key f xs) \<union> set (sort_key f ys))"
    using assms by (simp add: distinct_map)
qed (use assms in \<open>simp_all add: distinct_map distinct_sort\<close>)

lemma distinct_map_filter: "distinct (map f xs) \<Longrightarrow> distinct (map f (filter P xs))"
  by (induction xs) auto

lemma select_set_unique:
  assumes "set es = set fs" and "distinct (map (\<lambda>e. candidate_digest (candidate e)) es)"
    and "distinct (map (\<lambda>e. candidate_digest (candidate e)) fs)"
    and rk: "\<And>e. e \<in> set es \<Longrightarrow> eligible e \<Longrightarrow> rank e = Inr (rank_key e)"
  shows "select es = select fs"
proof -
  let ?r = "map (\<lambda>e. (rank_key e, e))"
  have d: "distinct (map fst (?r (filter eligible xs)))"
    if "distinct (map (\<lambda>e. candidate_digest (candidate e)) xs)" for xs
    using that by (induction xs) (auto simp: rank_key_def)
  have "sort_key fst (?r (filter eligible es)) = sort_key fst (?r (filter eligible fs))"
    by (rule sort_key_set_unique) (use assms(1) in simp, rule d [OF assms(2)], rule d [OF assms(3)])
  moreover have "ranked (filter eligible es) = Inr (?r (filter eligible es))"
    "ranked (filter eligible fs) = Inr (?r (filter eligible fs))"
    by (rule ranked_Inr, use rk assms(1) in simp)+
  ultimately show ?thesis by (simp add: select_def)
qed

lemma distinct_map_set_iff:
  assumes "set xs = set ys" and "distinct xs" and "distinct ys"
  shows "distinct (map f xs) \<longleftrightarrow> distinct (map f ys)"
  using assms by (simp add: distinct_map)

text \<open>Routing does not depend on the order in which candidates are listed: if their digests are
  distinct, any two listings of the same candidates give the same outcome, decision and explanation,
  byte for byte.\<close>

lemma route_order_independent:
  assumes same: "set cands = set cands'"
    and d: "distinct (map candidate_digest cands)" "distinct (map candidate_digest cands')"
  shows "route sha k rt req cands observations now did eid = route sha k rt req cands' observations now did eid"
proof -
  have ids: "distinct_ids cands = distinct_ids cands'"
    using same d distinct_map_set_iff [OF same, of deployment_id]
    by (simp add: distinct_ids_def list_ex_iff distinct_map)
  have sel: "select (map (candidate_evaluation r role obs prices n {}) cands)
      = select (map (candidate_evaluation r role obs prices n {}) cands')" for r role obs prices n
    by (rule select_set_unique) (use same d in \<open>auto simp: comp_def eligible_iff_admissible rank_admissible\<close>)
  have srt: "sort_key (\<lambda>e. candidate_digest (candidate e)) (map (candidate_evaluation r role obs prices n {}) cands)
      = sort_key (\<lambda>e. candidate_digest (candidate e)) (map (candidate_evaluation r role obs prices n {}) cands')"
    for r role obs prices n
    by (rule sort_key_set_unique) (use same d in \<open>simp_all add: comp_def\<close>)
  show ?thesis unfolding route_def route_with_def outcome_def Let_def ids sel srt by (rule refl)
qed

section \<open>A concrete routing\<close>

definition demo_contract :: routing_contract where
  "demo_contract = \<lparr>policy_schema = (\<lambda>_. True), policy_hash = (\<lambda>_. ''p''), observation_schema = (\<lambda>_. True),
     observation_hash = (\<lambda>_. ''o''), price_schema = (\<lambda>_. True), price_hash = (\<lambda>_. ''c''),
     request_schema = (\<lambda>_. True), request_hash = (\<lambda>_. ''r''), decision_schema = (\<lambda>_. True),
     decision_hash = (\<lambda>d. ''d'' @ rec_id d), explain_schema = (\<lambda>_. True), explain_hash = (\<lambda>_. ''e'')\<rparr>"

definition demo_role :: role_policy where
  "demo_role = \<lparr>role_name = ''eco-worker'', role_requiredCapabilities = [], role_allowedActionClasses = [''A1''],
     role_allowedDataClasses = [''D0''], role_allowedZones = [''Z1''], role_allowedRetentions = [''no-retention''],
     candidateIds = [''a'', ''b''], role_maximumCostMicrousd = 500, maxRouteAttempts = 2,
     retryableFailureClasses = [''capacity'']\<rparr>"

definition demo_price :: "string \<Rightarrow> int \<Rightarrow> price_entry" where
  "demo_price i c = \<lparr>price_deploymentId = i, price_deploymentIdentityDigest = ''i'' @ i,
     inputMicrousdPerMillionTokens = c, outputMicrousdPerMillionTokens = c, fixedRequestMicrousd = 1\<rparr>"

definition demo_router :: router where
  "demo_router = \<lparr>router_policy = \<lparr>rec_id = ''p'', createdAt = 0, recordDigest = ''p'', revision = Some 1,
       decisionTtlSeconds = 60, roles = [demo_role]\<rparr>,
     router_prices = \<lparr>rec_id = ''c'', createdAt = 0, recordDigest = ''c'', revision = Some 1, price_validFrom = 0,
       price_validUntil = 10000000, price_entries = [demo_price ''a'' 20000, demo_price ''b'' 10000]\<rparr>\<rparr>"

definition demo_request :: route_request where
  "demo_request = \<lparr>rec_id = ''q'', createdAt = 0, recordDigest = ''r'', revision = None, req_role = ''eco-worker'',
     actionClass = ''A1'', dataClass = ''D0'', workloadClass = ''batch'', req_requiredCapabilities = [],
     requiredContextTokens = 1, inputTokenCeiling = 50, outputTokenCeiling = 50, req_allowedZones = [''Z1''],
     req_allowedRetentions = [''no-retention''], allowCloud = False, maximumCostMicrousd = 400,
     deadlineAt = 5000000, executionProfile = ''standard'', req_policyDigest = ''p'', contextDigest = ''x'',
     req_executionPlanDigest = Some ''plan'', aggregateBudget = Some \<lparr>maximumCalls = 3, agg_inputTokenCeiling = 100,
       agg_outputTokenCeiling = 100, agg_maximumCostMicrousd = 400\<rparr>\<rparr>"

definition demo_candidate :: "string \<Rightarrow> deployment_candidate" where
  "demo_candidate i = \<lparr>deployment_id = JStr i, deployment_digest = ''d'' @ i, identity_digest = ''i'' @ i,
     candidate_digest = ''c'' @ i, provider_class = ''local'', zone = ''Z1'', retention = ''no-retention'',
     allowed_data_classes = [''D0''], enabled = True\<rparr>"

definition demo_observation :: "string \<Rightarrow> observation" where
  "demo_observation i = \<lparr>rec_id = ''o'' @ i, createdAt = 0, recordDigest = ''o'', revision = None,
     obs_deploymentId = i, obs_deploymentIdentityDigest = ''i'' @ i, obs_capabilities = [],
     contextWindowTokens = 1000, latencyP95Millis = 100, observedAt = 0, obs_validUntil = 9000000\<rparr>"

definition demo_route :: "string list \<Rightarrow> routing_outcome result" where
  "demo_route is = route (\<lambda>s. s) demo_contract demo_router demo_request (map demo_candidate is)
     (map demo_observation [''a'', ''b'']) 1000 ''first'' ''why''"

lemmas demo_defs = demo_contract_def demo_role_def demo_price_def demo_router_def demo_request_def
  demo_candidate_def demo_observation_def

lemma demo_route_selects_b:
  "returns (demo_route [''a'', ''b'']) (\<lambda>out. decision (out_decision out) = ''allowed''
     \<and> (case selected (out_decision out) of None \<Rightarrow> False
        | Some s \<Rightarrow> sel_deploymentId s = ''b'' \<and> reservedCostMicrousd s = 5))"
  by code_simp

theorem route_selects_least_witness:
  "\<exists>out s. demo_route [''a'', ''b''] = Inr out \<and> selected (out_decision out) = Some s
     \<and> sel_deploymentId s = ''b'' \<and> reservedCostMicrousd s \<le> maximumCostMicrousd demo_request
     \<and> dec_validUntil (out_decision out) \<le> deadlineAt demo_request"
proof -
  obtain out s where out: "demo_route [''a'', ''b''] = Inr out" "selected (out_decision out) = Some s"
    "sel_deploymentId s = ''b''"
    using demo_route_selects_b by (elim returnsE) (auto split: option.splits)
  from route_selects_least [OF out(1) [unfolded demo_route_def] out(2)] out show ?thesis by blast
qed

definition demo_fallback :: "route_decision \<Rightarrow> routing_outcome result" where
  "demo_fallback previous = fallback (\<lambda>s. s) demo_contract demo_router demo_request previous ''capacity''
     (map demo_candidate [''a'', ''b'']) (map demo_observation [''a'', ''b'']) 2000 ''second'' ''why2''"

end
