(* ===== verification/Eco_Route_Binding.thy ===== *)
theory Eco_Route_Binding
  imports Eco_Router
begin

text \<open>
  The exact binding of a route to a workflow effect, \<open>src/src/eco_routing/binding.py\<close>, and
  \<open>verify_route_binding\<close> of \<open>src/src/eco_routing/consumption.py\<close>. The external authority verifier is a
  function from the records and the time to its answer: an attestation, a routing error it raised, or
  anything else. Times are instants in microseconds.

  Lemmas: what a verified binding guarantees, and that a reservation of usage is admitted exactly within
  the per-call and aggregate ceilings.
\<close>

section \<open>Patterns\<close>

text \<open>\<open>^[a-z0-9][a-z0-9._-]{1,63}$\<close> under \<open>fullmatch\<close>.\<close>

definition algorithm_name :: "string \<Rightarrow> bool" where
  "algorithm_name s = (s \<noteq> [] \<and> (is_lower (hd s) \<or> is_digit (hd s)) \<and> 2 \<le> length s \<and> length s \<le> 64
     \<and> list_all (\<lambda>c. is_lower c \<or> is_digit c \<or> c \<in> set ''._-'') (tl s))"

section \<open>Route authority\<close>

record route_authority =
  issuer_id :: string
  auth_key_id :: string
  algorithm :: string
  auth_evidence_digest :: string
  route_decision_digest :: string
  route_request_digest :: string
  auth_policy_digest :: string
  auth_price_catalog_digest :: string
  auth_execution_plan_digest :: string
  valid_until :: int

definition check_authority :: "int \<Rightarrow> route_authority \<Rightarrow> route_authority result" where
  "check_authority now a =
     (if \<not> safe_identifier (issuer_id a) \<or> \<not> safe_identifier (auth_key_id a) \<or> \<not> algorithm_name (algorithm a)
         \<or> list_ex (\<lambda>d. \<not> sha256_text d) [auth_evidence_digest a, route_decision_digest a, route_request_digest a,
              auth_policy_digest a, auth_price_catalog_digest a, auth_execution_plan_digest a]
      then Inl (RoutingError ''ECO_ROUTE_AUTHORITY_INVALID'')
      else if now \<ge> valid_until a then Inl (RoutingError ''ECO_ROUTE_AUTHORITY_EXPIRED'')
      else Inr a)"

datatype authority_answer = Attested route_authority | RaisedRouting py_error | RaisedAnything | NoAttestation

type_synonym authority_verifier = "route_decision \<Rightarrow> route_request \<Rightarrow> int \<Rightarrow> authority_answer"

definition verify_authenticated_route_authority ::
    "authority_verifier \<Rightarrow> route_decision \<Rightarrow> route_request \<Rightarrow> string \<Rightarrow> string \<Rightarrow> string \<Rightarrow> string \<Rightarrow> string
      \<Rightarrow> string \<Rightarrow> int \<Rightarrow> route_authority result" where
  "verify_authenticated_route_authority verifier dec req issuer key alg policy price plan now =
     (case verifier dec req now of
        RaisedRouting e \<Rightarrow> Inl e
      | RaisedAnything \<Rightarrow> Inl (RoutingError ''ECO_ROUTE_AUTHORITY_INVALID'')
      | NoAttestation \<Rightarrow> Inl (RoutingError ''ECO_ROUTE_AUTHORITY_INVALID'')
      | Attested a \<Rightarrow>
          bindE (check_authority now a) (\<lambda>a.
            if issuer_id a \<noteq> issuer \<or> auth_key_id a \<noteq> key \<or> algorithm a \<noteq> alg
               \<or> route_decision_digest a \<noteq> recordDigest dec \<or> route_request_digest a \<noteq> recordDigest req
               \<or> auth_policy_digest a \<noteq> policy \<or> auth_price_catalog_digest a \<noteq> price
               \<or> auth_execution_plan_digest a \<noteq> plan
            then Inl (RoutingError ''ECO_ROUTE_AUTHORITY_MISMATCH'') else Inr a))"

section \<open>The binding of a decision\<close>

text \<open>The keyword arguments of \<open>verify_route_binding\<close>.\<close>

record route_expectations =
  expected_deployment_id :: string
  expected_deployment_identity_digest :: string
  cost_reservation_microusd :: "int option"
  expected_policy_digest :: "string option"
  expected_price_catalog_digest :: "string option"
  expected_execution_plan_digest :: "string option"
  authority_verifier :: "authority_verifier option"
  expected_route_issuer_id :: "string option"
  expected_route_key_id :: "string option"
  expected_route_algorithm :: "string option"

definition route_error :: "string \<Rightarrow> 'a result" where
  "route_error code = Inl (RoutingError code)"

definition validated_evidence ::
    "routing_contract \<Rightarrow> route_decision \<Rightarrow> route_request \<Rightarrow> (route_decision \<times> route_request) result" where
  "validated_evidence k dec req =
     (case (validate_decision k dec, validate_request k req) of
        (Inr d, Inr r) \<Rightarrow> Inr (d, r)
      | _ \<Rightarrow> route_error ''ECO_ROUTE_EVIDENCE_INVALID'')"

definition differs :: "'a option \<Rightarrow> 'a \<Rightarrow> bool" where
  "differs expected actual = (case expected of None \<Rightarrow> False | Some e \<Rightarrow> actual \<noteq> e)"

text \<open>The digests and the validity of the evidence.\<close>

definition check_evidence_binding ::
    "route_expectations \<Rightarrow> int \<Rightarrow> route_decision \<Rightarrow> route_request \<Rightarrow> unit result" where
  "check_evidence_binding x now dec req =
     (if dec_requestDigest dec \<noteq> recordDigest req \<or> dec_policyDigest dec \<noteq> req_policyDigest req
      then route_error ''ECO_ROUTE_BINDING_MISMATCH''
      else if differs (expected_policy_digest x) (dec_policyDigest dec)
           \<or> differs (expected_policy_digest x) (req_policyDigest req)
      then route_error ''ECO_ROUTE_TRUSTED_INPUT_MISMATCH''
      else if differs (expected_price_catalog_digest x) (dec_priceCatalogDigest dec)
      then route_error ''ECO_ROUTE_TRUSTED_INPUT_MISMATCH''
      else if differs (map_option Some (expected_execution_plan_digest x)) (req_executionPlanDigest req)
           \<or> differs (map_option Some (expected_execution_plan_digest x)) (dec_executionPlanDigest dec)
      then route_error ''ECO_ROUTE_EXECUTION_PLAN_MISMATCH''
      else if now \<ge> dec_validUntil dec \<or> now \<ge> deadlineAt req then route_error ''ECO_ROUTE_EXPIRED''
      else Inr ())"

text \<open>The selected deployment and its reservation.\<close>

definition check_selection ::
    "route_expectations \<Rightarrow> route_request \<Rightarrow> selected_route \<Rightarrow> unit result" where
  "check_selection x req sel =
     (if sel_deploymentId sel \<noteq> expected_deployment_id x
         \<or> sel_deploymentIdentityDigest sel \<noteq> expected_deployment_identity_digest x
      then route_error ''ECO_ROUTE_BINDING_MISMATCH''
      else if reservedCostMicrousd sel > maximumCostMicrousd req
      then route_error ''ECO_ROUTE_BINDING_MISMATCH''
      else bindE
        (if expected_execution_plan_digest x = None then Inr ()
         else (case (aggregateBudget req, aggregateReservation sel) of
                 (Some b, Some r) \<Rightarrow>
                   if res_maximumCalls r \<noteq> maximumCalls b
                      \<or> res_inputTokenCeiling r \<noteq> agg_inputTokenCeiling b
                      \<or> res_outputTokenCeiling r \<noteq> agg_outputTokenCeiling b
                      \<or> res_reservedCostMicrousd r \<noteq> reservedCostMicrousd sel
                      \<or> reservedCostMicrousd sel > agg_maximumCostMicrousd b
                   then route_error ''ECO_ROUTE_BUDGET_MISMATCH'' else Inr ()
               | _ \<Rightarrow> route_error ''ECO_ROUTE_EXACT_BINDING_REQUIRED'')) (\<lambda>_.
          if differs (cost_reservation_microusd x) (reservedCostMicrousd sel)
          then route_error ''ECO_ROUTE_BINDING_MISMATCH'' else Inr ()))"

definition check_authority_arguments ::
    "route_expectations \<Rightarrow> int \<Rightarrow> route_decision \<Rightarrow> route_request \<Rightarrow> unit result" where
  "check_authority_arguments x now dec req =
     (if authority_verifier x = None \<and> expected_route_issuer_id x = None \<and> expected_route_key_id x = None
         \<and> expected_route_algorithm x = None
      then Inr ()
      else (case (authority_verifier x, expected_route_issuer_id x, expected_route_key_id x,
                  expected_route_algorithm x, expected_policy_digest x, expected_price_catalog_digest x,
                  expected_execution_plan_digest x) of
              (Some v, Some issuer, Some key, Some alg, Some policy, Some price, Some plan) \<Rightarrow>
                bindE (verify_authenticated_route_authority v dec req issuer key alg policy price plan now)
                  (\<lambda>_. Inr ())
            | _ \<Rightarrow> route_error ''ECO_ROUTE_AUTHORITY_REQUIRED''))"

definition verify_route_binding ::
    "routing_contract \<Rightarrow> route_decision \<Rightarrow> route_request \<Rightarrow> route_expectations \<Rightarrow> int
      \<Rightarrow> (route_decision \<times> route_request \<times> selected_route) result" where
  "verify_route_binding k decision_doc request_doc x now =
     bindE (validated_evidence k decision_doc request_doc) (\<lambda>(dec, req).
       case selected dec of
         None \<Rightarrow> route_error ''ECO_ROUTE_NOT_ALLOWED''
       | Some sel \<Rightarrow>
           if decision dec \<noteq> ''allowed'' then route_error ''ECO_ROUTE_NOT_ALLOWED''
           else bindE (check_evidence_binding x now dec req) (\<lambda>_.
                bindE (check_selection x req sel) (\<lambda>_.
                bindE (check_authority_arguments x now dec req) (\<lambda>_. Inr (dec, req, sel)))))"

definition route_consumer_digest ::
    "(string \<Rightarrow> string) \<Rightarrow> routing_contract \<Rightarrow> route_decision \<Rightarrow> route_request \<Rightarrow> string \<Rightarrow> string \<Rightarrow> string
      \<Rightarrow> string result" where
  "route_consumer_digest sha k decision_doc request_doc consumer_kind consumer_id effect_digest =
     bindE (validated_evidence k decision_doc request_doc) (\<lambda>(dec, req).
       if \<not> safe_identifier consumer_kind \<or> \<not> safe_identifier consumer_id \<or> \<not> sha256_text effect_digest
       then route_error ''ECO_ROUTE_EVIDENCE_INVALID''
       else if decision dec \<noteq> ''allowed'' \<or> selected dec = None then route_error ''ECO_ROUTE_NOT_ALLOWED''
       else (case (req_executionPlanDigest req, aggregateBudget req) of
               (Some plan, Some b) \<Rightarrow>
                 if dec_requestDigest dec \<noteq> recordDigest req \<or> dec_executionPlanDigest dec \<noteq> Some plan
                 then route_error ''ECO_ROUTE_BINDING_MISMATCH''
                 else Inr (semantic_digest sha (JObj
                   [(''domain'', JStr ''eco-route-consumer-binding-v1''), (''consumerKind'', JStr consumer_kind),
                    (''consumerId'', JStr consumer_id), (''effectDigest'', JStr effect_digest),
                    (''executionPlanDigest'', JStr plan), (''routeRequestDigest'', JStr (recordDigest req)),
                    (''policyDigest'', JStr (dec_policyDigest dec)),
                    (''priceCatalogDigest'', JStr (dec_priceCatalogDigest dec)),
                    (''aggregateBudget'', JObj [(''maximumCalls'', JInt (maximumCalls b)),
                       (''inputTokenCeiling'', JInt (agg_inputTokenCeiling b)),
                       (''outputTokenCeiling'', JInt (agg_outputTokenCeiling b)),
                       (''maximumCostMicrousd'', JInt (agg_maximumCostMicrousd b))])]))
             | _ \<Rightarrow> route_error ''ECO_ROUTE_EXACT_BINDING_REQUIRED''))"

section \<open>Aggregate usage\<close>

record aggregate_usage =
  u_calls :: int
  u_input_tokens :: int
  u_output_tokens :: int
  u_cost_microusd :: int

definition zero_aggregate :: aggregate_usage where
  "zero_aggregate = \<lparr>u_calls = 0, u_input_tokens = 0, u_output_tokens = 0, u_cost_microusd = 0\<rparr>"

record effect_cost =
  f_input_tokens :: int
  f_output_tokens :: int
  f_cost_microusd :: int

definition add_effect :: "aggregate_usage \<Rightarrow> effect_cost \<Rightarrow> aggregate_usage" where
  "add_effect u f = \<lparr>u_calls = u_calls u + 1, u_input_tokens = u_input_tokens u + f_input_tokens f,
     u_output_tokens = u_output_tokens u + f_output_tokens f,
     u_cost_microusd = u_cost_microusd u + f_cost_microusd f\<rparr>"

definition reserve_route_effect ::
    "routing_contract \<Rightarrow> route_decision \<Rightarrow> route_request \<Rightarrow> aggregate_usage \<Rightarrow> effect_cost
      \<Rightarrow> aggregate_usage result" where
  "reserve_route_effect k decision_doc request_doc current f =
     (if list_ex (\<lambda>v. v < 0) [u_calls current, u_input_tokens current, u_output_tokens current,
           u_cost_microusd current, f_input_tokens f, f_output_tokens f, f_cost_microusd f]
      then route_error ''ECO_ROUTE_BUDGET_INVALID''
      else bindE (validated_evidence k decision_doc request_doc) (\<lambda>(dec, req).
        case (selected dec, aggregateBudget req, req_executionPlanDigest req) of
          (Some sel, Some b, Some plan) \<Rightarrow>
            (case aggregateReservation sel of
               None \<Rightarrow> route_error ''ECO_ROUTE_EXACT_BINDING_REQUIRED''
             | Some r \<Rightarrow>
                 if decision dec \<noteq> ''allowed'' \<or> dec_executionPlanDigest dec \<noteq> Some plan
                    \<or> dec_requestDigest dec \<noteq> recordDigest req
                 then route_error ''ECO_ROUTE_EXACT_BINDING_REQUIRED''
                 else if f_input_tokens f > inputTokenCeiling req \<or> f_output_tokens f > outputTokenCeiling req
                 then route_error ''ECO_ROUTE_CALL_BUDGET_EXCEEDED''
                 else let updated = add_effect current f in
                   if res_maximumCalls r \<noteq> maximumCalls b \<or> res_inputTokenCeiling r \<noteq> agg_inputTokenCeiling b
                      \<or> res_outputTokenCeiling r \<noteq> agg_outputTokenCeiling b
                      \<or> res_reservedCostMicrousd r \<noteq> reservedCostMicrousd sel
                      \<or> res_reservedCostMicrousd r > agg_maximumCostMicrousd b
                   then route_error ''ECO_ROUTE_BUDGET_MISMATCH''
                   else if u_calls updated > maximumCalls b
                      \<or> u_input_tokens updated > agg_inputTokenCeiling b
                      \<or> u_output_tokens updated > agg_outputTokenCeiling b
                      \<or> u_cost_microusd updated > agg_maximumCostMicrousd b
                      \<or> u_cost_microusd updated > res_reservedCostMicrousd r
                   then route_error ''ECO_ROUTE_AGGREGATE_BUDGET_EXCEEDED''
                   else Inr updated)
        | _ \<Rightarrow> route_error ''ECO_ROUTE_EXACT_BINDING_REQUIRED''))"

section \<open>Facts\<close>

lemma route_error_Inr [simp]: "route_error c \<noteq> Inr x"
  by (simp add: route_error_def)

lemma validated_evidence_Inr:
  "validated_evidence k dec req = Inr (d, r) \<longleftrightarrow>
     d = dec \<and> r = req \<and> validate_decision k dec = Inr dec \<and> validate_request k req = Inr req"
  by (auto simp: validated_evidence_def validate_decision_def validate_request_def
      validate_routing_record_def split: sum.splits)

lemma verify_route_binding_Inr:
  assumes "verify_route_binding k dec req x now = Inr (d, r, sel)"
  shows "d = dec \<and> r = req \<and> selected dec = Some sel \<and> decision dec = ''allowed''
    \<and> validate_decision k dec = Inr dec \<and> validate_request k req = Inr req
    \<and> check_evidence_binding x now dec req = Inr () \<and> check_selection x req sel = Inr ()
    \<and> check_authority_arguments x now dec req = Inr ()"
  using assms
  by (auto simp: verify_route_binding_def validated_evidence_Inr split: option.splits if_splits)

lemma reserve_route_effect_Inr:
  assumes "reserve_route_effect k dec req current f = Inr updated"
  shows "updated = add_effect current f \<and> (\<exists>b sel. aggregateBudget req = Some b \<and> selected dec = Some sel
     \<and> u_calls updated \<le> maximumCalls b \<and> u_input_tokens updated \<le> agg_inputTokenCeiling b
     \<and> u_output_tokens updated \<le> agg_outputTokenCeiling b
     \<and> u_cost_microusd updated \<le> reservedCostMicrousd sel
     \<and> u_cost_microusd updated \<le> agg_maximumCostMicrousd b)
     \<and> 0 \<le> f_input_tokens f \<and> 0 \<le> f_output_tokens f \<and> 0 \<le> f_cost_microusd f
     \<and> f_input_tokens f \<le> inputTokenCeiling req \<and> f_output_tokens f \<le> outputTokenCeiling req
     \<and> 0 \<le> u_calls current \<and> 0 \<le> u_input_tokens current \<and> 0 \<le> u_output_tokens current
     \<and> 0 \<le> u_cost_microusd current"
  using assms
  by (auto simp: reserve_route_effect_def validated_evidence_Inr Let_def not_less
      split: if_splits option.splits)

text \<open>An authenticated exact binding leaves nothing open. If verification with all trusted inputs
  returns, the decision is an allowed one for exactly this request, policy, price catalog and execution
  plan, not expired, for exactly the governed deployment, within the request's cost limit, and an
  unexpired attestation of the trusted issuer, key and algorithm names the digests of exactly these
  records.\<close>

lemma exact_binding_authenticated:
  assumes v: "verify_route_binding k dec req x now = Inr (d, r, sel)"
    and trusted: "authority_verifier x = Some verifier" "expected_policy_digest x = Some policy"
      "expected_price_catalog_digest x = Some price" "expected_execution_plan_digest x = Some plan"
  shows "decision dec = ''allowed'' \<and> selected dec = Some sel \<and> dec_requestDigest dec = recordDigest req
    \<and> dec_policyDigest dec = policy \<and> req_policyDigest req = policy \<and> dec_priceCatalogDigest dec = price
    \<and> dec_executionPlanDigest dec = Some plan \<and> req_executionPlanDigest req = Some plan
    \<and> now < dec_validUntil dec \<and> now < deadlineAt req
    \<and> sel_deploymentId sel = expected_deployment_id x
    \<and> sel_deploymentIdentityDigest sel = expected_deployment_identity_digest x
    \<and> reservedCostMicrousd sel \<le> maximumCostMicrousd req
    \<and> (\<exists>a. verifier dec req now = Attested a \<and> now < valid_until a
        \<and> route_decision_digest a = recordDigest dec \<and> route_request_digest a = recordDigest req
        \<and> Some (issuer_id a) = expected_route_issuer_id x \<and> Some (auth_key_id a) = expected_route_key_id x
        \<and> Some (algorithm a) = expected_route_algorithm x)"
proof -
  note b = verify_route_binding_Inr [OF v]
  have e: "dec_requestDigest dec = recordDigest req \<and> dec_policyDigest dec = policy \<and> req_policyDigest req = policy
    \<and> dec_priceCatalogDigest dec = price \<and> dec_executionPlanDigest dec = Some plan
    \<and> req_executionPlanDigest req = Some plan \<and> now < dec_validUntil dec \<and> now < deadlineAt req"
    using b trusted by (auto simp: check_evidence_binding_def differs_def split: if_splits)
  have s: "sel_deploymentId sel = expected_deployment_id x
    \<and> sel_deploymentIdentityDigest sel = expected_deployment_identity_digest x
    \<and> reservedCostMicrousd sel \<le> maximumCostMicrousd req"
    using b by (auto simp: check_selection_def split: if_splits)
  have "check_authority_arguments x now dec req = Inr ()" using b by blast
  then obtain a where "verifier dec req now = Attested a" "check_authority now a = Inr a"
    "route_decision_digest a = recordDigest dec" "route_request_digest a = recordDigest req"
    "Some (issuer_id a) = expected_route_issuer_id x" "Some (auth_key_id a) = expected_route_key_id x"
    "Some (algorithm a) = expected_route_algorithm x"
    using trusted
    by (auto simp: check_authority_arguments_def verify_authenticated_route_authority_def check_authority_def
        split: option.splits authority_answer.splits if_splits)
  moreover from this(2) have "now < valid_until a" by (auto simp: check_authority_def split: if_splits)
  ultimately show ?thesis using b e s by blast
qed

text \<open>A decision for the demonstration request, and the expectations of its consumer.\<close>

definition demo_selected :: selected_route where
  "demo_selected = \<lparr>sel_deploymentId = ''b'', sel_deploymentDigest = ''db'', sel_deploymentIdentityDigest = ''ib'',
     observedEvidenceDigest = ''o'', sel_candidateDigest = ''cb'', reservedCostMicrousd = 5,
     estimatedLatencyP95Millis = 100, aggregateReservation = Some \<lparr>res_maximumCalls = 3,
       res_inputTokenCeiling = 100, res_outputTokenCeiling = 100, res_reservedCostMicrousd = 5\<rparr>\<rparr>"

definition demo_hash :: string where
  "demo_hash = replicate 64 CHR ''0''"

definition demo_decision :: route_decision where
  "demo_decision = \<lparr>rec_id = ''first'', createdAt = 1000, recordDigest = demo_hash, revision = None,
     dec_requestDigest = demo_hash, dec_policyDigest = demo_hash, dec_priceCatalogDigest = demo_hash,
     decision = ''allowed'', reasonCode = ''eligible'', routeAttempt = 1, selected = Some demo_selected,
     dec_validUntil = 5000000, fallbackFromDigest = None, explainDigest = ''e'',
     dec_executionPlanDigest = Some demo_hash\<rparr>"

definition bound_request :: route_request where
  "bound_request = demo_request\<lparr>recordDigest := demo_hash, req_policyDigest := demo_hash,
     req_executionPlanDigest := Some demo_hash\<rparr>"

definition bound_contract :: routing_contract where
  "bound_contract = demo_contract\<lparr>decision_hash := (\<lambda>_. demo_hash), request_hash := (\<lambda>_. demo_hash)\<rparr>"

definition demo_attestation :: route_authority where
  "demo_attestation = \<lparr>issuer_id = ''ops'', auth_key_id = ''key'', algorithm = ''ed25519'',
     auth_evidence_digest = demo_hash, route_decision_digest = demo_hash, route_request_digest = demo_hash,
     auth_policy_digest = demo_hash, auth_price_catalog_digest = demo_hash,
     auth_execution_plan_digest = demo_hash, valid_until = 9000000\<rparr>"

definition demo_expectations :: route_expectations where
  "demo_expectations = \<lparr>expected_deployment_id = ''b'', expected_deployment_identity_digest = ''ib'',
     cost_reservation_microusd = Some 5, expected_policy_digest = Some demo_hash,
     expected_price_catalog_digest = Some demo_hash, expected_execution_plan_digest = Some demo_hash,
     authority_verifier = Some (\<lambda>_ _ _. Attested demo_attestation), expected_route_issuer_id = Some ''ops'',
     expected_route_key_id = Some ''key'', expected_route_algorithm = Some ''ed25519''\<rparr>"

lemma demo_binding: "returns (verify_route_binding bound_contract demo_decision bound_request demo_expectations 2000)
    (\<lambda>_. True)"
  by code_simp

end
