(* ===== verification/Eco_Route_Consumption.thy ===== *)
theory Eco_Route_Consumption
  imports Eco_Route_Binding
begin

text \<open>
  The durable single-use consumption journal, \<open>DurableRouteConsumptionJournal\<close> of
  \<open>src/src/eco_routing/consumption.py\<close>. The database is its metadata row and the rows of
  \<open>consumed_routes\<close> in sequence order; a transaction is one step that leaves the database as it was when
  it raises. \<open>sha\<close> is SHA-256, \<open>mac\<close> the HMAC under the journal's key and \<open>iso\<close> the text of an instant.

  Lemmas: the journal always verifies, a route digest is consumed at most once and only replayed by the
  consumer that consumed it, a consumed fallback continues a consumed first attempt, and the head hash
  determines the whole journal (interface \<open>hash_log\<close>).
\<close>

section \<open>State\<close>

record journal_env =
  sha :: "string \<Rightarrow> string"
  mac :: "string \<Rightarrow> string"
  key_id :: string
  iso :: "int \<Rightarrow> string"

record journal_meta =
  journal_id :: string
  meta_key_id :: string
  head_sequence :: int
  head_hash :: string
  meta_hmac :: string

record consumed_route =
  route_digest :: string
  cr_sequence :: int
  cr_request_digest :: string
  cr_policy_digest :: string
  cr_price_catalog_digest :: string
  cr_deployment_id :: string
  cr_deployment_identity_digest :: string
  cr_reserved_cost :: int
  cr_route_attempt :: int
  cr_fallback_from :: "string option"
  cr_consumer_kind :: string
  cr_consumer_id :: string
  cr_consumer_digest :: string
  cr_consumed_at :: string
  cr_previous_hash :: string

record stored_route = consumed_route +
  cr_entry_hash :: string
  cr_key_id :: string
  cr_entry_hmac :: string

record consumption_journal =
  cj_meta :: "journal_meta option"
  consumed_routes :: "stored_route list"
  cj_closed :: bool

definition GENESIS_DIGEST :: string where
  "GENESIS_DIGEST = replicate 64 CHR ''0''"

definition sign :: "'a journal_env_scheme \<Rightarrow> json \<Rightarrow> string" where
  "sign env payload = mac env (canonical_json payload)"

definition cj_meta_payload :: "journal_env \<Rightarrow> string \<Rightarrow> int \<Rightarrow> string \<Rightarrow> json" where
  "cj_meta_payload env jid n h = JObj [(''domain'', JStr ''eco-route-consumption-journal-v1''),
     (''schemaVersion'', JInt 1), (''journalId'', JStr jid), (''keyId'', JStr (key_id env)),
     (''headSequence'', JInt n), (''headHash'', JStr h)]"

definition entry_payload :: "'a consumed_route_scheme \<Rightarrow> json" where
  "entry_payload r = JObj [(''domain'', JStr ''eco-route-consumption-journal-v1''), (''entry'', JStr ''consumed-route''),
     (''routeDigest'', JStr (route_digest r)), (''sequence'', JInt (cr_sequence r)),
     (''requestDigest'', JStr (cr_request_digest r)), (''policyDigest'', JStr (cr_policy_digest r)),
     (''priceCatalogDigest'', JStr (cr_price_catalog_digest r)), (''deploymentId'', JStr (cr_deployment_id r)),
     (''deploymentIdentityDigest'', JStr (cr_deployment_identity_digest r)),
     (''reservedCostMicrousd'', JInt (cr_reserved_cost r)), (''routeAttempt'', JInt (cr_route_attempt r)),
     (''fallbackFromDigest'', json_opt (cr_fallback_from r)), (''consumerKind'', JStr (cr_consumer_kind r)),
     (''consumerId'', JStr (cr_consumer_id r)), (''consumerDigest'', JStr (cr_consumer_digest r)),
     (''consumedAt'', JStr (cr_consumed_at r)), (''previousHash'', JStr (cr_previous_hash r))]"

definition entry_digest :: "journal_env \<Rightarrow> 'a consumed_route_scheme \<Rightarrow> string" where
  "entry_digest env r = semantic_digest (sha env) (entry_payload r)"

section \<open>Operations\<close>

definition signed_meta :: "journal_env \<Rightarrow> string \<Rightarrow> int \<Rightarrow> string \<Rightarrow> journal_meta" where
  "signed_meta env jid n h = \<lparr>journal_id = jid, meta_key_id = key_id env, head_sequence = n, head_hash = h,
     meta_hmac = sign env (cj_meta_payload env jid n h)\<rparr>"

text \<open>\<open>_initialize_or_verify\<close> on an empty database; \<open>jid\<close> is the random journal id.\<close>

definition new_consumption_journal :: "journal_env \<Rightarrow> string \<Rightarrow> consumption_journal" where
  "new_consumption_journal env jid = \<lparr>cj_meta = Some (signed_meta env jid 0 GENESIS_DIGEST),
     consumed_routes = [], cj_closed = False\<rparr>"

abbreviation cj_tampered :: "'a result" where
  "cj_tampered \<equiv> Inl (RoutingError ''ECO_ROUTE_JOURNAL_TAMPERED'')"

definition cj_meta_row :: "journal_env \<Rightarrow> consumption_journal \<Rightarrow> journal_meta result" where
  "cj_meta_row env j =
     (case cj_meta j of
        None \<Rightarrow> cj_tampered
      | Some m \<Rightarrow>
          if meta_key_id m \<noteq> key_id env
             \<or> meta_hmac m \<noteq> sign env (cj_meta_payload env (journal_id m) (head_sequence m) (head_hash m))
          then cj_tampered else Inr m)"

text \<open>The loop of \<open>_verify_locked\<close>: the number of rows and the hash reached.\<close>

fun verify_entries :: "journal_env \<Rightarrow> string \<Rightarrow> int \<Rightarrow> stored_route list \<Rightarrow> (int \<times> string) result" where
  "verify_entries env previous count [] = Inr (count, previous)"
| "verify_entries env previous count (r # rs) =
     (if cr_sequence r \<noteq> count + 1 \<or> cr_previous_hash r \<noteq> previous then cj_tampered
      else if cr_entry_hash r \<noteq> entry_digest env r \<or> cr_key_id r \<noteq> key_id env then cj_tampered
      else if cr_entry_hmac r \<noteq> sign env (entry_payload r) then cj_tampered
      else verify_entries env (entry_digest env r) (count + 1) rs)"

record journal_summary =
  sum_journalId :: string
  sum_entries :: int
  sum_headHash :: string

definition cj_verify_locked :: "journal_env \<Rightarrow> consumption_journal \<Rightarrow> journal_summary result" where
  "cj_verify_locked env j =
     bindE (cj_meta_row env j) (\<lambda>m.
     bindE (verify_entries env GENESIS_DIGEST 0 (consumed_routes j)) (\<lambda>(count, previous).
       if head_sequence m \<noteq> count \<or> head_hash m \<noteq> previous then cj_tampered
       else Inr \<lparr>sum_journalId = journal_id m, sum_entries = count, sum_headHash = previous\<rparr>))"

definition cj_transaction :: "consumption_journal \<Rightarrow> 'a result \<Rightarrow> 'a result" where
  "cj_transaction j body = (if cj_closed j then Inl (RoutingError ''ECO_ROUTE_JOURNAL_CLOSED'') else body)"

definition cj_close :: "consumption_journal \<Rightarrow> consumption_journal" where
  "cj_close j = j\<lparr>cj_closed := True\<rparr>"

definition cj_verify :: "journal_env \<Rightarrow> consumption_journal \<Rightarrow> journal_summary result" where
  "cj_verify env j = cj_transaction j (cj_verify_locked env j)"

definition find_consumed :: "consumption_journal \<Rightarrow> string \<Rightarrow> stored_route option" where
  "find_consumed j d = find (\<lambda>r. route_digest r = d) (consumed_routes j)"

definition cj_status :: "journal_env \<Rightarrow> consumption_journal \<Rightarrow> string \<Rightarrow> stored_route option result" where
  "cj_status env j d =
     (if \<not> sha256_text d then route_error ''ECO_ROUTE_EVIDENCE_INVALID''
      else cj_transaction j (bindE (cj_verify_locked env j) (\<lambda>_. Inr (find_consumed j d))))"

record consumer =
  consumer_kind :: string
  consumer_id :: string
  consumer_digest :: string

definition same_consumer :: "stored_route \<Rightarrow> consumer \<Rightarrow> bool" where
  "same_consumer r c = (cr_consumer_kind r = consumer_kind c \<and> cr_consumer_id r = consumer_id c
     \<and> cr_consumer_digest r = consumer_digest c)"

definition check_predecessor ::
    "consumption_journal \<Rightarrow> route_decision \<Rightarrow> route_request \<Rightarrow> selected_route \<Rightarrow> consumer \<Rightarrow> unit result" where
  "check_predecessor j dec req sel c =
     (if routeAttempt dec \<noteq> 2 then Inr ()
      else (case (case fallbackFromDigest dec of None \<Rightarrow> None | Some d \<Rightarrow> find_consumed j d) of
              None \<Rightarrow> route_error ''ECO_ROUTE_FALLBACK_PREDECESSOR_MISSING''
            | Some p \<Rightarrow>
                if cr_route_attempt p \<noteq> 1 \<or> cr_fallback_from p \<noteq> None
                   \<or> cr_request_digest p \<noteq> recordDigest req
                   \<or> cr_policy_digest p \<noteq> dec_policyDigest dec
                   \<or> cr_price_catalog_digest p \<noteq> dec_priceCatalogDigest dec
                   \<or> \<not> same_consumer p c
                   \<or> (cr_deployment_id p = sel_deploymentId sel
                        \<and> cr_deployment_identity_digest p = sel_deploymentIdentityDigest sel)
                then route_error ''ECO_ROUTE_FALLBACK_PREDECESSOR_MISMATCH'' else Inr ()))"

definition new_row ::
    "journal_env \<Rightarrow> journal_summary \<Rightarrow> route_decision \<Rightarrow> route_request \<Rightarrow> selected_route \<Rightarrow> consumer \<Rightarrow> int
      \<Rightarrow> stored_route" where
  "new_row env s dec req sel c now =
     (let row = \<lparr>route_digest = recordDigest dec, cr_sequence = sum_entries s + 1,
            cr_request_digest = recordDigest req, cr_policy_digest = dec_policyDigest dec,
            cr_price_catalog_digest = dec_priceCatalogDigest dec, cr_deployment_id = sel_deploymentId sel,
            cr_deployment_identity_digest = sel_deploymentIdentityDigest sel,
            cr_reserved_cost = reservedCostMicrousd sel, cr_route_attempt = routeAttempt dec,
            cr_fallback_from = fallbackFromDigest dec, cr_consumer_kind = consumer_kind c,
            cr_consumer_id = consumer_id c, cr_consumer_digest = consumer_digest c,
            cr_consumed_at = iso env now, cr_previous_hash = sum_headHash s,
            cr_entry_hash = [], cr_key_id = key_id env, cr_entry_hmac = []\<rparr>
      in row\<lparr>cr_entry_hash := entry_digest env row, cr_entry_hmac := sign env (entry_payload row)\<rparr>)"

text \<open>The CHECK constraints of the table; a violation rolls back and reports the journal unavailable.\<close>

definition insert_row :: "journal_env \<Rightarrow> consumption_journal \<Rightarrow> journal_summary \<Rightarrow> stored_route
      \<Rightarrow> consumption_journal result" where
  "insert_row env j s row =
     (if cr_reserved_cost row < 0 \<or> cr_route_attempt row \<notin> {1, 2}
      then Inl (RoutingError ''ECO_ROUTE_JOURNAL_UNAVAILABLE'')
      else Inr (j\<lparr>consumed_routes := consumed_routes j @ [row],
                  cj_meta := Some (signed_meta env (sum_journalId s) (sum_entries s + 1) (cr_entry_hash row))\<rparr>))"

record consume_receipt =
  rc_routeDigest :: string
  rc_replayed :: bool
  rc_consumedAt :: string

definition consume ::
    "journal_env \<Rightarrow> routing_contract \<Rightarrow> route_decision \<Rightarrow> route_request \<Rightarrow> route_expectations \<Rightarrow> consumer \<Rightarrow> int
      \<Rightarrow> consumption_journal \<Rightarrow> (consume_receipt \<times> consumption_journal) result" where
  "consume env k decision_doc request_doc x c now j =
     (if \<not> slug_id (consumer_kind c) \<or> \<not> safe_identifier (consumer_id c) \<or> \<not> sha256_text (consumer_digest c)
      then route_error ''ECO_ROUTE_EVIDENCE_INVALID''
      else bindE (verify_route_binding k decision_doc request_doc x now) (\<lambda>(dec, req, sel).
        cj_transaction j (bindE (cj_verify_locked env j) (\<lambda>s.
          case find_consumed j (recordDigest dec) of
            Some existing \<Rightarrow>
              if same_consumer existing c
              then Inr (\<lparr>rc_routeDigest = recordDigest dec, rc_replayed = True,
                         rc_consumedAt = cr_consumed_at existing\<rparr>, j)
              else route_error ''ECO_ROUTE_ALREADY_CONSUMED''
          | None \<Rightarrow>
              bindE (check_predecessor j dec req sel c) (\<lambda>_.
              bindE (insert_row env j s (new_row env s dec req sel c now)) (\<lambda>j'.
                Inr (\<lparr>rc_routeDigest = recordDigest dec, rc_replayed = False,
                      rc_consumedAt = iso env now\<rparr>, j')))))))"

text \<open>\<open>consume_exact\<close> derives the consumer digest itself.\<close>

definition consume_exact ::
    "journal_env \<Rightarrow> routing_contract \<Rightarrow> route_decision \<Rightarrow> route_request \<Rightarrow> route_expectations \<Rightarrow> string \<Rightarrow> string
      \<Rightarrow> string \<Rightarrow> int \<Rightarrow> consumption_journal \<Rightarrow> (consume_receipt \<times> consumption_journal) result" where
  "consume_exact env k decision_doc request_doc x kind cid effect_digest now j =
     bindE (route_consumer_digest (sha env) k decision_doc request_doc kind cid effect_digest) (\<lambda>digest.
       consume env k decision_doc request_doc x
         \<lparr>consumer_kind = kind, consumer_id = cid, consumer_digest = digest\<rparr> now j)"

section \<open>Invariant\<close>

definition fallback_ok :: "stored_route list \<Rightarrow> bool" where
  "fallback_ok rows \<longleftrightarrow> (\<forall>r \<in> set rows. cr_route_attempt r = 2 \<longrightarrow>
     (\<exists>p \<in> set rows. cr_fallback_from r = Some (route_digest p) \<and> cr_route_attempt p = 1
        \<and> cr_request_digest p = cr_request_digest r \<and> cr_consumer_digest p = cr_consumer_digest r
        \<and> (cr_deployment_id p, cr_deployment_identity_digest p)
            \<noteq> (cr_deployment_id r, cr_deployment_identity_digest r)))"

definition cj_inv :: "journal_env \<Rightarrow> consumption_journal \<Rightarrow> bool" where
  "cj_inv env j \<longleftrightarrow> (\<exists>s. cj_verify_locked env j = Inr s) \<and> distinct (map route_digest (consumed_routes j))
     \<and> fallback_ok (consumed_routes j)"

lemma verify_entries_append:
  "verify_entries env p n (rs @ ss) = bindE (verify_entries env p n rs) (\<lambda>(m, q). verify_entries env q m ss)"
  by (induction rs arbitrary: p n) auto

lemma verify_entries_count:
  "verify_entries env p n rs = Inr (m, q) \<Longrightarrow> m = n + int (length rs)
     \<and> linked (\<lambda>r. Some (cr_previous_hash r)) (entry_digest env) (Some p) rs
     \<and> Some q = chain_head (entry_digest env) (Some p) rs"
proof (induction rs arbitrary: p n)
  case (Cons r rs)
  then have "verify_entries env (entry_digest env r) (n + 1) rs = Inr (m, q)" and "cr_previous_hash r = p"
    by (auto split: if_splits)
  with Cons.IH [OF this(1)] show ?case by simp
qed simp

lemma new_row_fields [simp]:
  "route_digest (new_row env s dec req sel c now) = recordDigest dec"
  "cr_route_attempt (new_row env s dec req sel c now) = routeAttempt dec"
  "cr_fallback_from (new_row env s dec req sel c now) = fallbackFromDigest dec"
  "cr_request_digest (new_row env s dec req sel c now) = recordDigest req"
  "cr_consumer_kind (new_row env s dec req sel c now) = consumer_kind c"
  "cr_consumer_id (new_row env s dec req sel c now) = consumer_id c"
  "cr_consumer_digest (new_row env s dec req sel c now) = consumer_digest c"
  "cr_deployment_id (new_row env s dec req sel c now) = sel_deploymentId sel"
  "cr_deployment_identity_digest (new_row env s dec req sel c now) = sel_deploymentIdentityDigest sel"
  "cr_reserved_cost (new_row env s dec req sel c now) = reservedCostMicrousd sel"
  by (simp_all add: new_row_def Let_def)

lemma new_row_verifies:
  "verify_entries env (sum_headHash s) (sum_entries s) [new_row env s dec req sel c now]
     = Inr (sum_entries s + 1, cr_entry_hash (new_row env s dec req sel c now))"
  by (simp add: new_row_def Let_def entry_digest_def entry_payload_def)

lemma cj_verify_lockedE:
  assumes "cj_verify_locked env j = Inr s"
  obtains m where "cj_meta j = Some m" "sum_journalId s = journal_id m"
    "verify_entries env GENESIS_DIGEST 0 (consumed_routes j) = Inr (sum_entries s, sum_headHash s)"
    "head_hash m = sum_headHash s" "head_sequence m = sum_entries s"
  using assms by (auto simp: cj_verify_locked_def cj_meta_row_def split: option.splits if_splits)

lemma insert_verifies:
  assumes s: "cj_verify_locked env j = Inr s"
    and j': "insert_row env j s (new_row env s dec req sel c now) = Inr j'"
  shows "cj_verify_locked env j' = Inr \<lparr>sum_journalId = sum_journalId s, sum_entries = sum_entries s + 1,
     sum_headHash = cr_entry_hash (new_row env s dec req sel c now)\<rparr>"
proof -
  have "verify_entries env GENESIS_DIGEST 0 (consumed_routes j) = Inr (sum_entries s, sum_headHash s)"
    using s by (elim cj_verify_lockedE)
  with j' new_row_verifies [of env s dec req sel c now] show ?thesis
    by (auto simp: insert_row_def cj_verify_locked_def cj_meta_row_def signed_meta_def verify_entries_append
        split: if_splits)
qed

lemma find_consumed_Some: "find_consumed j d = Some r \<Longrightarrow> r \<in> set (consumed_routes j) \<and> route_digest r = d"
  by (auto simp: find_consumed_def find_Some_iff)

lemma find_consumed_None: "find_consumed j d = None \<longleftrightarrow> d \<notin> route_digest ` set (consumed_routes j)"
  by (auto simp: find_consumed_def find_None_iff)

text \<open>What a call of \<open>consume\<close> that returned did.\<close>

lemma consume_cases:
  assumes r: "consume env k dec req x c now j = Inr (receipt, j')"
  obtains (replay) existing where "j' = j" "rc_replayed receipt" "find_consumed j (recordDigest dec) = Some existing"
      "same_consumer existing c" "\<not> cj_closed j"
  | (fresh) s sel where "\<not> rc_replayed receipt" "find_consumed j (recordDigest dec) = None"
      "cj_verify_locked env j = Inr s" "check_predecessor j dec req sel c = Inr ()" "selected dec = Some sel"
      "insert_row env j s (new_row env s dec req sel c now) = Inr j'" "\<not> cj_closed j"
proof -
  from r obtain d q sel where v: "verify_route_binding k dec req x now = Inr (d, q, sel)"
    by (auto simp: consume_def split: if_splits prod.splits)
  note b = verify_route_binding_Inr [OF v]
  with r v obtain s where s: "cj_verify_locked env j = Inr s" and open_j: "\<not> cj_closed j"
    by (auto simp: consume_def cj_transaction_def split: if_splits)
  show thesis
  proof (cases "find_consumed j (recordDigest dec)")
    case None
    with r v b s open_j fresh show thesis
      by (auto simp: consume_def cj_transaction_def split: if_splits)
  next
    case (Some existing)
    with r v b s open_j replay show thesis
      by (auto simp: consume_def cj_transaction_def split: if_splits)
  qed
qed

lemma consume_inv:
  assumes inv: "cj_inv env j" and r: "consume env k dec req x c now j = Inr (receipt, j')"
  shows "cj_inv env j' \<and> prefix (consumed_routes j) (consumed_routes j')"
  using r
proof (cases rule: consume_cases)
  case (replay existing)
  with inv show ?thesis by simp
next
  case (fresh s sel)
  let ?row = "new_row env s dec req sel c now"
  have rows: "consumed_routes j' = consumed_routes j @ [?row]"
    using fresh(6) by (auto simp: insert_row_def split: if_splits)
  have d: "distinct (map route_digest (consumed_routes j'))"
    using inv fresh(2) by (auto simp: rows cj_inv_def find_consumed_None)
  have "fallback_ok (consumed_routes j @ [?row])"
  proof (cases "routeAttempt dec = 2")
    case True
    then obtain p where p: "p \<in> set (consumed_routes j)" "fallbackFromDigest dec = Some (route_digest p)"
      "cr_route_attempt p = 1" "cr_request_digest p = recordDigest req" "same_consumer p c"
      "\<not> (cr_deployment_id p = sel_deploymentId sel
          \<and> cr_deployment_identity_digest p = sel_deploymentIdentityDigest sel)"
      using fresh(4) by (auto simp: check_predecessor_def split: option.splits if_splits dest: find_consumed_Some)
    with inv show ?thesis by (auto simp: cj_inv_def fallback_ok_def same_consumer_def)
  next
    case False
    with inv show ?thesis by (auto simp: cj_inv_def fallback_ok_def)
  qed
  with d insert_verifies [OF fresh(3,6)] rows show ?thesis by (auto simp: cj_inv_def)
qed

text \<open>The journal's steps: a call of \<open>consume\<close> that returned, at any time, with any arguments.\<close>

definition cj_step :: "journal_env \<Rightarrow> routing_contract \<Rightarrow> consumption_journal \<Rightarrow> consumption_journal \<Rightarrow> bool" where
  "cj_step env k j j' \<longleftrightarrow> (\<exists>dec req x c now receipt. consume env k dec req x c now j = Inr (receipt, j'))"

definition cj_start :: "journal_env \<Rightarrow> consumption_journal \<Rightarrow> bool" where
  "cj_start env j \<longleftrightarrow> (\<exists>jid. j = new_consumption_journal env jid)"

lemma new_journal_verifies:
  "cj_verify_locked env (new_consumption_journal env jid) =
     Inr \<lparr>sum_journalId = jid, sum_entries = 0, sum_headHash = GENESIS_DIGEST\<rparr>"
  by (simp add: cj_verify_locked_def cj_meta_row_def new_consumption_journal_def signed_meta_def)

interpretation consumption: inv_system "cj_start env" "cj_step env k" "cj_inv env"
  for env :: journal_env and k :: routing_contract
proof (standard, goal_cases)
  case (1 j)
  then obtain jid where j: "j = new_consumption_journal env jid" by (auto simp: cj_start_def)
  have "consumed_routes j = []" by (simp add: j new_consumption_journal_def)
  with j new_journal_verifies show ?case by (auto simp: cj_inv_def fallback_ok_def)
next
  case (2 j j')
  then show ?case by (auto simp: cj_step_def dest: consume_inv)
qed

interpretation consumption_log: hash_log "\<lambda>j. \<exists>s. cj_verify_locked env j = Inr s" consumed_routes
    "\<lambda>j. map_option head_hash (cj_meta j)" "\<lambda>r. Some (cr_previous_hash r)" "entry_digest env"
    "Some GENESIS_DIGEST"
  for env :: journal_env
  by (unfold_locales; elim exE cj_verify_lockedE) (auto dest: verify_entries_count)

text \<open>The hash of an entry names its payload, and verification fixes the other columns.\<close>

lemma entry_payload_eqD:
  assumes "canonical_json (entry_payload r) = canonical_json (entry_payload r')"
  shows "entry_payload r = entry_payload r'"
proof -
  have "sort_keys (entry_payload r) = sort_keys (entry_payload r')"
    using assms show_json_prefix_code [of "sort_keys (entry_payload r)" "[]" "sort_keys (entry_payload r')" "[]"]
    by (simp add: canonical_json_def)
  then show ?thesis
    by (simp add: entry_payload_def sorted_items_def json_opt_def insort_key_def split: option.splits)
qed

lemma json_opt_inject [simp]: "json_opt x = json_opt y \<longleftrightarrow> x = y"
  by (cases x; cases y) (simp_all add: json_opt_def)

lemma verified_row:
  "verify_entries env p n rs = Inr x \<Longrightarrow> r \<in> set rs \<Longrightarrow>
     cr_entry_hash r = entry_digest env r \<and> cr_key_id r = key_id env \<and> cr_entry_hmac r = sign env (entry_payload r)"
  by (induction rs arbitrary: p n) (auto split: if_splits)

lemma verified_rows_inj:
  fixes R :: "stored_route set"
  assumes "\<And>r. r \<in> R \<Longrightarrow> cr_entry_hash r = entry_digest env r \<and> cr_key_id r = key_id env
      \<and> cr_entry_hmac r = sign env (entry_payload r)"
    and "inj_on (sha env) ((\<lambda>r. canonical_json (entry_payload r)) ` R)"
  shows "inj_on (entry_digest env) R"
proof (rule inj_onI)
  fix r r'
  assume R: "r \<in> R" "r' \<in> R" and eq: "entry_digest env r = entry_digest env r'"
  have "sha env (canonical_json (entry_payload r)) = sha env (canonical_json (entry_payload r'))"
    using eq by (simp add: entry_digest_def semantic_digest_def)
  from inj_onD [OF assms(2) this] R have "canonical_json (entry_payload r) = canonical_json (entry_payload r')"
    by blast
  then have p: "entry_payload r = entry_payload r'" by (rule entry_payload_eqD)
  then have "cr_entry_hash r = cr_entry_hash r'" "cr_key_id r = cr_key_id r'" "cr_entry_hmac r = cr_entry_hmac r'"
    using assms(1) [OF R(1)] assms(1) [OF R(2)] eq by simp_all
  with p show "r = r'" by (cases r; cases r') (simp add: entry_payload_def)
qed

section \<open>Properties of consumption\<close>

text \<open>C19: a route decision is spent once. After a decision was consumed, in any later state of the
  journal every call that consumes it and returns is a replay by the same consumer, and changes
  nothing; every other consumer is refused.\<close>

theorem route_consumed_once:
  assumes j: "reach (cj_start env) (cj_step env k) j"
    and first: "consume env k dec req x c now j = Inr (receipt, j1)"
    and later: "(cj_step env k)\<^sup>*\<^sup>* j1 j2"
    and again: "consume env k dec req' x' c' now' j2 = Inr (receipt', j3)"
  shows "rc_replayed receipt' \<and> j3 = j2 \<and> c' = c"
proof -
  have inv: "cj_inv env j" by (rule consumption.reach_inv [OF j])
  then have inv1: "cj_inv env j1" using consume_inv [OF _ first] by blast
  have in1: "\<exists>r \<in> set (consumed_routes j1). route_digest r = recordDigest dec \<and> same_consumer r c"
    using first
  proof (cases rule: consume_cases)
    case (replay existing)
    with find_consumed_Some show ?thesis by blast
  next
    case (fresh s sel)
    have "consumed_routes j1 = consumed_routes j @ [new_row env s dec req sel c now]"
      using fresh(6) by (auto simp: insert_row_def split: if_splits)
    then show ?thesis by (simp add: same_consumer_def)
  qed
  have "cj_inv env j2 \<and> prefix (consumed_routes j1) (consumed_routes j2)"
    using later inv1
  proof (induction rule: rtranclp_induct)
    case (step j j')
    then show ?case unfolding cj_step_def using consume_inv by (blast intro: prefix_order.trans)
  qed simp
  then have inv2: "cj_inv env j2" and sub: "set (consumed_routes j1) \<subseteq> set (consumed_routes j2)"
    by (auto dest: set_mono_prefix)
  with in1 obtain r where r: "r \<in> set (consumed_routes j2)" "route_digest r = recordDigest dec" "same_consumer r c"
    by blast
  from again show ?thesis
  proof (cases rule: consume_cases)
    case (replay existing)
    then have "existing = r"
      using find_consumed_Some [OF replay(3)] r inv2 by (auto simp: cj_inv_def distinct_map inj_on_def)
    with replay r(3) show ?thesis by (cases c; cases c') (simp add: same_consumer_def)
  next
    case (fresh s sel)
    with r show ?thesis by (metis find_consumed_None imageI)
  qed
qed

text \<open>The journal never reports its own history as tampered, and its fallbacks are genuine: every
  reachable journal verifies with as many entries as were consumed, and every consumed second attempt
  names a consumed first attempt of the same request and consumer on a different deployment.\<close>

lemma consumption_verifies:
  assumes "reach (cj_start env) (cj_step env k) j"
  shows "\<exists>s. cj_verify_locked env j = Inr s \<and> sum_entries s = int (length (consumed_routes j))
     \<and> fallback_ok (consumed_routes j)"
proof -
  have inv: "cj_inv env j" by (rule consumption.reach_inv [OF assms])
  then obtain s where s: "cj_verify_locked env j = Inr s" by (auto simp: cj_inv_def)
  then have "verify_entries env GENESIS_DIGEST 0 (consumed_routes j) = Inr (sum_entries s, sum_headHash s)"
    by (elim cj_verify_lockedE)
  from verify_entries_count [OF this] inv s show ?thesis by (auto simp: cj_inv_def)
qed

text \<open>The head hash binds the whole journal. Two databases that verify and have the same head hash
  hold exactly the same rows, unless SHA-256 collides on two of their entries or maps one to the genesis
  digest.\<close>

lemma consumption_head_binds:
  assumes v: "cj_verify_locked env j = Inr s" and v': "cj_verify_locked env j' = Inr s'"
    and h: "sum_headHash s = sum_headHash s'"
    and inj: "inj_on (sha env) ((\<lambda>r. canonical_json (entry_payload r)) `
        (set (consumed_routes j) \<union> set (consumed_routes j')))"
    and gen: "GENESIS_DIGEST \<notin> entry_digest env ` (set (consumed_routes j) \<union> set (consumed_routes j'))"
  shows "consumed_routes j = consumed_routes j'"
proof (rule consumption_log.same_head_same_log [of env])
  show "\<exists>s. cj_verify_locked env j = Inr s" "\<exists>s. cj_verify_locked env j' = Inr s" using v v' by blast+
  show "map_option head_hash (cj_meta j) = map_option head_hash (cj_meta j')"
  proof -
    obtain m where "cj_meta j = Some m" "head_hash m = sum_headHash s" using v by (elim cj_verify_lockedE)
    moreover obtain m' where "cj_meta j' = Some m'" "head_hash m' = sum_headHash s'" using v' by (elim cj_verify_lockedE)
    ultimately show ?thesis using h by simp
  qed
  have e: "verify_entries env GENESIS_DIGEST 0 (consumed_routes j) = Inr (sum_entries s, sum_headHash s)"
    using v by (elim cj_verify_lockedE)
  have e': "verify_entries env GENESIS_DIGEST 0 (consumed_routes j') = Inr (sum_entries s', sum_headHash s')"
    using v' by (elim cj_verify_lockedE)
  show "inj_on (entry_digest env) (set (consumed_routes j) \<union> set (consumed_routes j'))"
  proof (rule verified_rows_inj [OF _ inj])
    fix r
    assume "r \<in> set (consumed_routes j) \<union> set (consumed_routes j')"
    then show "cr_entry_hash r = entry_digest env r \<and> cr_key_id r = key_id env \<and> cr_entry_hmac r = sign env (entry_payload r)"
      using verified_row [OF e] verified_row [OF e'] by blast
  qed
  show "Some GENESIS_DIGEST \<notin> (\<lambda>e. Some (entry_digest env e)) ` (set (consumed_routes j) \<union> set (consumed_routes j'))"
    using gen by auto
qed

section \<open>A concrete journal\<close>

definition demo_env :: journal_env where
  "demo_env = \<lparr>sha = (\<lambda>_. ''h''), mac = (\<lambda>_. ''m''), key_id = ''key'', iso = show_int\<rparr>"

definition demo_consumer :: consumer where
  "demo_consumer = \<lparr>consumer_kind = ''workflow'', consumer_id = ''w'', consumer_digest = demo_hash\<rparr>"

definition demo_consume :: "consumption_journal \<Rightarrow> (consume_receipt \<times> consumption_journal) result" where
  "demo_consume j = consume demo_env bound_contract demo_decision bound_request demo_expectations demo_consumer 2000 j"

abbreviation empty_journal :: consumption_journal where
  "empty_journal \<equiv> new_consumption_journal demo_env ''j''"

lemma demo_digests [simp]: "sign demo_env p = ''m''" "entry_digest demo_env r = ''h''" "key_id demo_env = ''key''"
  by (simp_all add: sign_def entry_digest_def semantic_digest_def demo_env_def)

lemma demo_consume_eq:
  "demo_consume j = cj_transaction j (bindE (cj_verify_locked demo_env j) (\<lambda>s.
     case find_consumed j demo_hash of
       Some existing \<Rightarrow>
         if same_consumer existing demo_consumer
         then Inr (\<lparr>rc_routeDigest = demo_hash, rc_replayed = True, rc_consumedAt = cr_consumed_at existing\<rparr>, j)
         else route_error ''ECO_ROUTE_ALREADY_CONSUMED''
     | None \<Rightarrow>
         bindE (insert_row demo_env j s (new_row demo_env s demo_decision bound_request demo_selected demo_consumer 2000))
           (\<lambda>j'. Inr (\<lparr>rc_routeDigest = demo_hash, rc_replayed = False, rc_consumedAt = iso demo_env 2000\<rparr>, j'))))"
proof -
  obtain d r sel where v: "verify_route_binding bound_contract demo_decision bound_request demo_expectations 2000
      = Inr (d, r, sel)" using demo_binding by (elim returnsE) (metis prod_cases3)
  from verify_route_binding_Inr [OF v] have "d = demo_decision" "r = bound_request" "sel = demo_selected"
    by (simp_all add: demo_decision_def)
  moreover have "slug_id (consumer_kind demo_consumer)" "safe_identifier (consumer_id demo_consumer)"
    "sha256_text (consumer_digest demo_consumer)" by code_simp+
  moreover have "recordDigest demo_decision = demo_hash" "check_predecessor j demo_decision bound_request demo_selected demo_consumer = Inr ()"
    by (simp_all add: demo_decision_def check_predecessor_def)
  ultimately show ?thesis using v by (cases "find_consumed j demo_hash") (simp_all add: demo_consume_def consume_def)
qed

definition demo_consumed :: consumption_journal where
  "demo_consumed = empty_journal\<lparr>
     consumed_routes := [new_row demo_env \<lparr>sum_journalId = ''j'', sum_entries = 0, sum_headHash = GENESIS_DIGEST\<rparr>
        demo_decision bound_request demo_selected demo_consumer 2000],
     cj_meta := Some (signed_meta demo_env ''j'' 1 ''h'')\<rparr>"

lemma demo_first: "\<exists>r. demo_consume empty_journal = Inr (r, demo_consumed)"
  unfolding demo_consume_eq
  by (simp add: cj_transaction_def new_journal_verifies)
    (simp add: new_consumption_journal_def find_consumed_def insert_row_def demo_consumed_def demo_decision_def
      demo_selected_def new_row_def Let_def)

lemma demo_consumed_verifies: "\<exists>s. cj_verify_locked demo_env demo_consumed = Inr s"
  by (simp add: cj_verify_locked_def cj_meta_row_def demo_consumed_def signed_meta_def new_row_def Let_def)

lemma demo_second: "\<exists>r. demo_consume demo_consumed = Inr (r, demo_consumed)"
proof -
  have "find_consumed demo_consumed demo_hash \<noteq> None"
    by (simp add: find_consumed_None demo_consumed_def demo_decision_def)
  then obtain e where e: "find_consumed demo_consumed demo_hash = Some e" by blast
  then have "same_consumer e demo_consumer"
    using find_consumed_Some [OF e] by (simp add: demo_consumed_def same_consumer_def)
  moreover have "\<not> cj_closed demo_consumed" by (simp add: demo_consumed_def new_consumption_journal_def)
  ultimately show ?thesis
    using e demo_consumed_verifies unfolding demo_consume_eq by (auto simp: cj_transaction_def)
qed

lemma demo_start: "reach (cj_start demo_env) (cj_step demo_env k) empty_journal"
  by (rule reach.reach_start) (auto simp: cj_start_def)

theorem route_consumed_once_witness:
  "\<exists>r r'. demo_consume empty_journal = Inr (r, demo_consumed) \<and> demo_consume demo_consumed = Inr (r', demo_consumed)
     \<and> rc_replayed r'"
proof -
  obtain r r' where c: "demo_consume empty_journal = Inr (r, demo_consumed)"
    "demo_consume demo_consumed = Inr (r', demo_consumed)" using demo_first demo_second by blast
  from route_consumed_once [OF demo_start c(1) [unfolded demo_consume_def] rtranclp.rtrancl_refl
      c(2) [unfolded demo_consume_def]] c show ?thesis by blast
qed

end
