(* ===== verification/Eco_Route_Usage.thy ===== *)
theory Eco_Route_Usage
  imports Eco_Route_Consumption
begin

text \<open>
  The durable aggregate usage journal, \<open>DurableRouteUsageJournal\<close> of \<open>src/src/eco_routing/usage.py\<close>. The
  database is its metadata row, the names of its triggers, the rows of \<open>aggregate_usage\<close> by consumer
  digest and the rows of \<open>reserved_effects\<close> in sequence order; a transaction is one step that leaves it
  as it was when it raises.

  Lemmas: every reachable journal verifies, its stored counters are the sums of its effects, an effect is
  reserved at most once, and what a consumer reserved never exceeds the aggregate budget of its request
  nor the cost its route reserved.
\<close>

section \<open>State\<close>

record effect_row =
  e_consumer_digest :: string
  effect_id :: string
  e_sequence :: int
  e_request_digest :: string
  e_execution_plan_digest :: string
  e_policy_digest :: string
  e_price_catalog_digest :: string
  e_route_digest :: string
  e_deployment_id :: string
  e_deployment_identity_digest :: string
  e_consumer_kind :: string
  e_consumer_id :: string
  e_effect_digest :: string
  e_cost :: effect_cost
  e_before :: aggregate_usage
  e_after :: aggregate_usage
  e_reserved_at :: string
  e_previous_hash :: string

record stored_effect = effect_row +
  e_entry_hash :: string
  e_key_id :: string
  e_entry_hmac :: string

record usage_state =
  st_request_digest :: string
  st_execution_plan_digest :: string
  st_policy_digest :: string
  st_price_catalog_digest :: string
  st_consumer_kind :: string
  st_consumer_id :: string
  st_usage :: aggregate_usage
  st_updated_sequence :: int

record stored_state = usage_state +
  st_key_id :: string
  st_hmac :: string

record usage_meta = journal_meta +
  schema_version :: int

record usage_journal =
  uj_meta :: "usage_meta option"
  uj_triggers :: "string set"
  aggregate_rows :: "(string \<times> stored_state) list"
  reserved_effects :: "stored_effect list"
  uj_closed :: bool

definition uj_meta_payload :: "journal_env \<Rightarrow> string \<Rightarrow> int \<Rightarrow> string \<Rightarrow> json" where
  "uj_meta_payload env jid n h = JObj [(''domain'', JStr ''eco-route-aggregate-usage-journal-v1''),
     (''schemaVersion'', JInt 1), (''journalId'', JStr jid), (''keyId'', JStr (key_id env)),
     (''headSequence'', JInt n), (''headHash'', JStr h)]"

definition state_payload :: "string \<Rightarrow> 'a usage_state_scheme \<Rightarrow> json" where
  "state_payload cd s = JObj [(''domain'', JStr ''eco-route-aggregate-usage-journal-v1''),
     (''record'', JStr ''aggregate-state''), (''consumerDigest'', JStr cd),
     (''requestDigest'', JStr (st_request_digest s)), (''executionPlanDigest'', JStr (st_execution_plan_digest s)),
     (''policyDigest'', JStr (st_policy_digest s)), (''priceCatalogDigest'', JStr (st_price_catalog_digest s)),
     (''consumerKind'', JStr (st_consumer_kind s)), (''consumerId'', JStr (st_consumer_id s)),
     (''calls'', JInt (u_calls (st_usage s))), (''inputTokens'', JInt (u_input_tokens (st_usage s))),
     (''outputTokens'', JInt (u_output_tokens (st_usage s))), (''costMicrousd'', JInt (u_cost_microusd (st_usage s))),
     (''updatedSequence'', JInt (st_updated_sequence s))]"

definition effect_payload :: "'a effect_row_scheme \<Rightarrow> json" where
  "effect_payload r = JObj [(''domain'', JStr ''eco-route-aggregate-usage-journal-v1''),
     (''record'', JStr ''reserved-effect''), (''sequence'', JInt (e_sequence r)),
     (''consumerDigest'', JStr (e_consumer_digest r)), (''requestDigest'', JStr (e_request_digest r)),
     (''executionPlanDigest'', JStr (e_execution_plan_digest r)), (''policyDigest'', JStr (e_policy_digest r)),
     (''priceCatalogDigest'', JStr (e_price_catalog_digest r)), (''routeDigest'', JStr (e_route_digest r)),
     (''deploymentId'', JStr (e_deployment_id r)),
     (''deploymentIdentityDigest'', JStr (e_deployment_identity_digest r)),
     (''consumerKind'', JStr (e_consumer_kind r)), (''consumerId'', JStr (e_consumer_id r)),
     (''effectId'', JStr (effect_id r)), (''effectDigest'', JStr (e_effect_digest r)),
     (''inputTokens'', JInt (f_input_tokens (e_cost r))), (''outputTokens'', JInt (f_output_tokens (e_cost r))),
     (''costMicrousd'', JInt (f_cost_microusd (e_cost r))), (''beforeCalls'', JInt (u_calls (e_before r))),
     (''beforeInputTokens'', JInt (u_input_tokens (e_before r))),
     (''beforeOutputTokens'', JInt (u_output_tokens (e_before r))),
     (''beforeCostMicrousd'', JInt (u_cost_microusd (e_before r))), (''afterCalls'', JInt (u_calls (e_after r))),
     (''afterInputTokens'', JInt (u_input_tokens (e_after r))),
     (''afterOutputTokens'', JInt (u_output_tokens (e_after r))),
     (''afterCostMicrousd'', JInt (u_cost_microusd (e_after r))), (''reservedAt'', JStr (e_reserved_at r)),
     (''previousHash'', JStr (e_previous_hash r))]"

definition effect_hash :: "journal_env \<Rightarrow> 'a effect_row_scheme \<Rightarrow> string" where
  "effect_hash env r = semantic_digest (sha env) (effect_payload r)"

section \<open>Verification\<close>

definition REQUIRED_TRIGGERS :: "string set" where
  "REQUIRED_TRIGGERS = {''reserved_effects_immutable_update'', ''reserved_effects_immutable_delete'',
     ''aggregate_usage_immutable_delete''}"

definition usage_signed_meta :: "journal_env \<Rightarrow> string \<Rightarrow> int \<Rightarrow> string \<Rightarrow> usage_meta" where
  "usage_signed_meta env jid n h = \<lparr>journal_id = jid, meta_key_id = key_id env, head_sequence = n, head_hash = h,
     meta_hmac = sign env (uj_meta_payload env jid n h), schema_version = 1\<rparr>"

text \<open>\<open>_initialize_or_verify\<close> on an empty database; \<open>jid\<close> is the random journal id.\<close>

definition new_usage_journal :: "journal_env \<Rightarrow> string \<Rightarrow> usage_journal" where
  "new_usage_journal env jid = \<lparr>uj_meta = Some (usage_signed_meta env jid 0 GENESIS_DIGEST),
     uj_triggers = REQUIRED_TRIGGERS, aggregate_rows = [], reserved_effects = [], uj_closed = False\<rparr>"

abbreviation uj_tampered :: "'a result" where
  "uj_tampered \<equiv> Inl (RoutingError ''ECO_ROUTE_USAGE_TAMPERED'')"

definition uj_meta_row :: "journal_env \<Rightarrow> usage_journal \<Rightarrow> usage_meta result" where
  "uj_meta_row env j =
     (case uj_meta j of
        None \<Rightarrow> uj_tampered
      | Some m \<Rightarrow>
          if schema_version m \<noteq> 1 \<or> meta_key_id m \<noteq> key_id env
             \<or> meta_hmac m \<noteq> sign env (uj_meta_payload env (journal_id m) (head_sequence m) (head_hash m))
          then uj_tampered else Inr m)"

text \<open>The state a consumer has before its first effect.\<close>

definition first_state :: "'a effect_row_scheme \<Rightarrow> usage_state" where
  "first_state r = \<lparr>st_request_digest = e_request_digest r, st_execution_plan_digest = e_execution_plan_digest r,
     st_policy_digest = e_policy_digest r, st_price_catalog_digest = e_price_catalog_digest r,
     st_consumer_kind = e_consumer_kind r, st_consumer_id = e_consumer_id r, st_usage = zero_aggregate,
     st_updated_sequence = 0\<rparr>"

definition same_binding :: "'a usage_state_scheme \<Rightarrow> 'b effect_row_scheme \<Rightarrow> bool" where
  "same_binding s r = (st_request_digest s = e_request_digest r
     \<and> st_execution_plan_digest s = e_execution_plan_digest r \<and> st_policy_digest s = e_policy_digest r
     \<and> st_price_catalog_digest s = e_price_catalog_digest r \<and> st_consumer_kind s = e_consumer_kind r
     \<and> st_consumer_id s = e_consumer_id r)"

text \<open>The loop of \<open>_verify_locked\<close> over the effects: count, hash and per-consumer states reached.\<close>

fun verify_effects ::
    "journal_env \<Rightarrow> string \<Rightarrow> int \<Rightarrow> (string \<times> usage_state) list \<Rightarrow> stored_effect list
      \<Rightarrow> (int \<times> string \<times> (string \<times> usage_state) list) result" where
  "verify_effects env previous count states [] = Inr (count, previous, states)"
| "verify_effects env previous count states (r # rs) =
     (if e_sequence r \<noteq> count + 1 \<or> e_previous_hash r \<noteq> previous then uj_tampered
      else if e_entry_hash r \<noteq> effect_hash env r \<or> e_key_id r \<noteq> key_id env
           \<or> e_entry_hmac r \<noteq> sign env (effect_payload r) then uj_tampered
      else let current = (case map_of states (e_consumer_digest r) of None \<Rightarrow> first_state r | Some s \<Rightarrow> s) in
        if \<not> same_binding current r then uj_tampered
        else if st_usage current \<noteq> e_before r then uj_tampered
        else if e_after r \<noteq> add_effect (st_usage current) (e_cost r) then uj_tampered
        else verify_effects env (effect_hash env r) (count + 1)
          (dict_set (e_consumer_digest r) (current\<lparr>st_usage := e_after r, st_updated_sequence := e_sequence r\<rparr>) states)
          rs)"

text \<open>A stored aggregate row against the state recomputed from the effects.\<close>

definition state_verified :: "journal_env \<Rightarrow> (string \<times> usage_state) list \<Rightarrow> string \<times> stored_state \<Rightarrow> bool" where
  "state_verified env states row = (case row of (cd, s) \<Rightarrow>
     (case map_of states cd of
        None \<Rightarrow> False
      | Some e \<Rightarrow> st_key_id s = key_id env \<and> st_hmac s = sign env (state_payload cd s) \<and> usage_state.truncate s = e))"

record usage_summary =
  us_journalId :: string
  us_entries :: int
  us_headHash :: string
  us_states :: "(string \<times> usage_state) list"

definition uj_verify_locked :: "journal_env \<Rightarrow> usage_journal \<Rightarrow> usage_summary result" where
  "uj_verify_locked env j =
     bindE (uj_meta_row env j) (\<lambda>m.
       if \<not> REQUIRED_TRIGGERS \<subseteq> uj_triggers j then uj_tampered
       else bindE (verify_effects env GENESIS_DIGEST 0 [] (reserved_effects j)) (\<lambda>(count, previous, states).
         if head_sequence m \<noteq> count \<or> head_hash m \<noteq> previous then uj_tampered
         else if dict_keys (aggregate_rows j) \<noteq> dict_keys states then uj_tampered
         else if \<not> list_all (state_verified env states) (aggregate_rows j) then uj_tampered
         else Inr \<lparr>us_journalId = journal_id m, us_entries = count, us_headHash = previous, us_states = states\<rparr>))"

definition uj_transaction :: "usage_journal \<Rightarrow> 'a result \<Rightarrow> 'a result" where
  "uj_transaction j body = (if uj_closed j then Inl (RoutingError ''ECO_ROUTE_USAGE_CLOSED'') else body)"

definition uj_close :: "usage_journal \<Rightarrow> usage_journal" where
  "uj_close j = j\<lparr>uj_closed := True\<rparr>"

definition uj_verify :: "journal_env \<Rightarrow> usage_journal \<Rightarrow> usage_summary result" where
  "uj_verify env j = uj_transaction j (uj_verify_locked env j)"

definition uj_status :: "journal_env \<Rightarrow> usage_journal \<Rightarrow> string \<Rightarrow> aggregate_usage option result" where
  "uj_status env j cd =
     (if \<not> sha256_text cd then route_error ''ECO_ROUTE_EVIDENCE_INVALID''
      else uj_transaction j (bindE (uj_verify_locked env j) (\<lambda>_.
        Inr (map_option st_usage (map_of (aggregate_rows j) cd)))))"

section \<open>Reservation\<close>

text \<open>The keyword arguments of \<open>reserve\<close>.\<close>

record reserve_args =
  ra_consumer_kind :: string
  ra_consumer_id :: string
  ra_workflow_effect_digest :: string
  ra_effect_id :: string
  ra_effect_digest :: string
  ra_cost :: effect_cost
  ra_now :: int

definition route_only :: "route_decision \<Rightarrow> route_request \<Rightarrow> selected_route \<Rightarrow> route_expectations" where
  "route_only dec req sel = \<lparr>expected_deployment_id = sel_deploymentId sel,
     expected_deployment_identity_digest = sel_deploymentIdentityDigest sel, cost_reservation_microusd = None,
     expected_policy_digest = Some (dec_policyDigest dec),
     expected_price_catalog_digest = Some (dec_priceCatalogDigest dec),
     expected_execution_plan_digest = req_executionPlanDigest req, authority_verifier = None,
     expected_route_issuer_id = None, expected_route_key_id = None, expected_route_algorithm = None\<rparr>"

definition find_effect :: "usage_journal \<Rightarrow> string \<Rightarrow> string \<Rightarrow> stored_effect option" where
  "find_effect j cd eid = find (\<lambda>r. e_consumer_digest r = cd \<and> effect_id r = eid) (reserved_effects j)"

text \<open>The row of a new effect before it is stored: \<open>current\<close> and \<open>updated\<close> are the counters around it.\<close>

definition effect_of ::
    "journal_env \<Rightarrow> usage_summary \<Rightarrow> route_decision \<Rightarrow> route_request \<Rightarrow> selected_route \<Rightarrow> reserve_args \<Rightarrow> string
      \<Rightarrow> aggregate_usage \<Rightarrow> aggregate_usage \<Rightarrow> effect_row" where
  "effect_of env s dec req sel a cd current updated = \<lparr>e_consumer_digest = cd, effect_id = ra_effect_id a,
     e_sequence = us_entries s + 1, e_request_digest = recordDigest req,
     e_execution_plan_digest = the (req_executionPlanDigest req), e_policy_digest = dec_policyDigest dec,
     e_price_catalog_digest = dec_priceCatalogDigest dec, e_route_digest = recordDigest dec,
     e_deployment_id = sel_deploymentId sel, e_deployment_identity_digest = sel_deploymentIdentityDigest sel,
     e_consumer_kind = ra_consumer_kind a, e_consumer_id = ra_consumer_id a, e_effect_digest = ra_effect_digest a,
     e_cost = ra_cost a, e_before = current, e_after = updated, e_reserved_at = iso env (ra_now a),
     e_previous_hash = us_headHash s\<rparr>"

text \<open>The columns of \<open>bindings\<close>, which a replay must repeat.\<close>

definition same_effect :: "'a effect_row_scheme \<Rightarrow> 'b effect_row_scheme \<Rightarrow> bool" where
  "same_effect r q = (e_request_digest r = e_request_digest q
     \<and> e_execution_plan_digest r = e_execution_plan_digest q \<and> e_policy_digest r = e_policy_digest q
     \<and> e_price_catalog_digest r = e_price_catalog_digest q \<and> e_route_digest r = e_route_digest q
     \<and> e_deployment_id r = e_deployment_id q
     \<and> e_deployment_identity_digest r = e_deployment_identity_digest q
     \<and> e_consumer_kind r = e_consumer_kind q \<and> e_consumer_id r = e_consumer_id q
     \<and> e_effect_digest r = e_effect_digest q \<and> e_cost r = e_cost q)"

definition store_effect :: "journal_env \<Rightarrow> effect_row \<Rightarrow> stored_effect" where
  "store_effect env r = effect_row.extend r
     (stored_effect.fields (effect_hash env r) (key_id env) (sign env (effect_payload r)))"

definition store_state :: "journal_env \<Rightarrow> string \<Rightarrow> usage_state \<Rightarrow> stored_state" where
  "store_state env cd s = usage_state.extend s (stored_state.fields (key_id env) (sign env (state_payload cd s)))"

text \<open>The insert of the aggregate row, the effect and the new head. An existing aggregate row keeps its
  binding columns and takes the new counters, key and authentication code.\<close>

definition insert_effect ::
    "journal_env \<Rightarrow> usage_journal \<Rightarrow> usage_summary \<Rightarrow> effect_row \<Rightarrow> usage_journal" where
  "insert_effect env j s r =
     (let cd = e_consumer_digest r;
          new = store_state env cd ((first_state r)\<lparr>st_usage := e_after r, st_updated_sequence := e_sequence r\<rparr>);
          row = (case map_of (aggregate_rows j) cd of
                   None \<Rightarrow> new
                 | Some old \<Rightarrow> old\<lparr>st_usage := st_usage new, st_updated_sequence := st_updated_sequence new,
                     st_key_id := st_key_id new, st_hmac := st_hmac new\<rparr>)
      in j\<lparr>aggregate_rows := dict_set cd row (aggregate_rows j),
           reserved_effects := reserved_effects j @ [store_effect env r],
           uj_meta := Some (usage_signed_meta env (us_journalId s) (e_sequence r) (effect_hash env r))\<rparr>)"

record reserve_receipt =
  rr_consumerDigest :: string
  rr_sequence :: int
  rr_replayed :: bool
  rr_usage :: aggregate_usage

text \<open>The transaction of \<open>reserve\<close>, after the journal verified with summary \<open>s\<close>.\<close>

definition reserve_locked ::
    "journal_env \<Rightarrow> routing_contract \<Rightarrow> route_decision \<Rightarrow> route_request \<Rightarrow> selected_route \<Rightarrow> reserve_args \<Rightarrow> string
      \<Rightarrow> usage_journal \<Rightarrow> usage_summary \<Rightarrow> (reserve_receipt \<times> usage_journal) result" where
  "reserve_locked env k dec req sel a cd j s =
     (case find_effect j cd (ra_effect_id a) of
        Some existing \<Rightarrow>
          if \<not> same_effect existing (effect_of env s dec req sel a cd zero_aggregate zero_aggregate)
          then route_error ''ECO_ROUTE_EFFECT_REPLAY_MISMATCH''
          else Inr (\<lparr>rr_consumerDigest = cd, rr_sequence = e_sequence existing, rr_replayed = True,
                     rr_usage = e_after existing\<rparr>, j)
      | None \<Rightarrow>
          (let current = (case map_of (us_states s) cd of None \<Rightarrow> zero_aggregate | Some st \<Rightarrow> st_usage st) in
           if (case map_of (us_states s) cd of None \<Rightarrow> False
               | Some st \<Rightarrow> \<not> same_binding st (effect_of env s dec req sel a cd current current))
           then route_error ''ECO_ROUTE_USAGE_BINDING_MISMATCH''
           else bindE (reserve_route_effect k dec req current (ra_cost a)) (\<lambda>updated.
             let r = effect_of env s dec req sel a cd current updated in
             Inr (\<lparr>rr_consumerDigest = cd, rr_sequence = e_sequence r, rr_replayed = False,
                   rr_usage = updated\<rparr>, insert_effect env j s r))))"

definition reserve ::
    "journal_env \<Rightarrow> routing_contract \<Rightarrow> route_decision \<Rightarrow> route_request \<Rightarrow> reserve_args \<Rightarrow> usage_journal
      \<Rightarrow> (reserve_receipt \<times> usage_journal) result" where
  "reserve env k decision_doc request_doc a j =
     (if \<not> slug_id (ra_consumer_kind a) \<or> \<not> safe_identifier (ra_consumer_id a)
         \<or> \<not> safe_identifier (ra_effect_id a) \<or> \<not> sha256_text (ra_effect_digest a)
         \<or> f_input_tokens (ra_cost a) < 0 \<or> f_output_tokens (ra_cost a) < 0 \<or> f_cost_microusd (ra_cost a) < 0
      then route_error ''ECO_ROUTE_EVIDENCE_INVALID''
      else bindE (route_consumer_digest (sha env) k decision_doc request_doc (ra_consumer_kind a)
                    (ra_consumer_id a) (ra_workflow_effect_digest a)) (\<lambda>cd.
        bindE (validated_evidence k decision_doc request_doc) (\<lambda>(dec, req).
        case selected dec of
          None \<Rightarrow> route_error ''ECO_ROUTE_NOT_ALLOWED''
        | Some sel \<Rightarrow>
            bindE (verify_route_binding k dec req (route_only dec req sel) (ra_now a)) (\<lambda>_.
            uj_transaction j (bindE (uj_verify_locked env j) (reserve_locked env k dec req sel a cd j))))))"

section \<open>Invariant\<close>

definition uj_inv :: "journal_env \<Rightarrow> usage_journal \<Rightarrow> bool" where
  "uj_inv env j \<longleftrightarrow> (\<exists>s. uj_verify_locked env j = Inr s) \<and> distinct (map fst (aggregate_rows j))
     \<and> distinct (map (\<lambda>r. (e_consumer_digest r, effect_id r)) (reserved_effects j))"

text \<open>What a consumer used: the counters after its effects, in order.\<close>

definition usage_totals :: "stored_effect list \<Rightarrow> string \<Rightarrow> aggregate_usage" where
  "usage_totals rows cd = fold (\<lambda>r u. add_effect u (e_cost r)) (filter (\<lambda>r. e_consumer_digest r = cd) rows) zero_aggregate"

lemma usage_totals_snoc:
  "usage_totals (rows @ [r]) cd =
     (if e_consumer_digest r = cd then add_effect (usage_totals rows cd) (e_cost r) else usage_totals rows cd)"
  by (simp add: usage_totals_def)

lemma store_effect_fields [simp]:
  "e_consumer_digest (store_effect env r) = e_consumer_digest r" "effect_id (store_effect env r) = effect_id r"
  "e_sequence (store_effect env r) = e_sequence r" "e_previous_hash (store_effect env r) = e_previous_hash r"
  "e_before (store_effect env r) = e_before r" "e_after (store_effect env r) = e_after r"
  "e_cost (store_effect env r) = e_cost r" "e_entry_hash (store_effect env r) = effect_hash env r"
  "e_key_id (store_effect env r) = key_id env" "e_entry_hmac (store_effect env r) = sign env (effect_payload r)"
  "effect_payload (store_effect env r) = effect_payload r" "effect_hash env (store_effect env r) = effect_hash env r"
  "first_state (store_effect env r) = first_state r" "same_binding st (store_effect env r) = same_binding st r"
  by (simp_all add: store_effect_def effect_row.defs stored_effect.defs effect_payload_def effect_hash_def
      first_state_def same_binding_def)

lemma store_state_fields [simp]:
  "usage_state.truncate (store_state env cd st) = st" "st_key_id (store_state env cd st) = key_id env"
  "st_hmac (store_state env cd st) = sign env (state_payload cd st)"
  "st_usage (store_state env cd st) = st_usage st"
  "st_updated_sequence (store_state env cd st) = st_updated_sequence st"
  "state_payload cd' (store_state env cd st) = state_payload cd' st"
  by (simp_all add: store_state_def usage_state.defs stored_state.defs state_payload_def)

lemma verify_effects_append:
  "verify_effects env p n sts (rs @ qs) =
     bindE (verify_effects env p n sts rs) (\<lambda>(m, q, sts'). verify_effects env q m sts' qs)"
  by (induction rs arbitrary: p n sts) (auto simp: Let_def)

text \<open>The states recomputed by verification hold the totals of the effects.\<close>

lemma verify_effects_totals:
  assumes "verify_effects env p 0 [] rows = Inr (m, q, sts)"
  shows "m = int (length rows) \<and> distinct (map fst sts)
     \<and> (\<forall>cd. (case map_of sts cd of None \<Rightarrow> zero_aggregate | Some st \<Rightarrow> st_usage st) = usage_totals rows cd)"
  using assms
proof (induction rows arbitrary: m q sts rule: rev_induct)
  case Nil
  then show ?case by (simp add: usage_totals_def)
next
  case (snoc r rows)
  then obtain m' q' sts' where v: "verify_effects env p 0 [] rows = Inr (m', q', sts')"
    "verify_effects env q' m' sts' [r] = Inr (m, q, sts)"
    by (auto simp: verify_effects_append)
  note IH = snoc.IH [OF v(1)]
  let ?cur = "case map_of sts' (e_consumer_digest r) of None \<Rightarrow> first_state r | Some s \<Rightarrow> s"
  from v(2) have sts: "sts = dict_set (e_consumer_digest r) (?cur\<lparr>st_usage := e_after r, st_updated_sequence := e_sequence r\<rparr>) sts'"
    and m: "m = m' + 1" and after: "e_after r = add_effect (st_usage ?cur) (e_cost r)"
    by (auto simp: Let_def split: if_splits)
  have "st_usage ?cur = usage_totals rows (e_consumer_digest r)"
    using conjunct2 [OF conjunct2 [OF IH], THEN spec, of "e_consumer_digest r"]
    by (cases "map_of sts' (e_consumer_digest r)") (simp_all add: first_state_def)
  with IH m after show ?case by (auto simp: sts usage_totals_snoc split: option.splits)
qed

lemma uj_verify_lockedE:
  assumes "uj_verify_locked env j = Inr s"
  obtains m where "uj_meta j = Some m" "us_journalId s = journal_id m" "REQUIRED_TRIGGERS \<subseteq> uj_triggers j"
    "verify_effects env GENESIS_DIGEST 0 [] (reserved_effects j) = Inr (us_entries s, us_headHash s, us_states s)"
    "dict_keys (aggregate_rows j) = dict_keys (us_states s)"
    "list_all (state_verified env (us_states s)) (aggregate_rows j)"
  using assms by (auto simp: uj_verify_locked_def uj_meta_row_def split: option.splits if_splits)

lemma list_all_dict:
  "distinct (map fst d) \<Longrightarrow> list_all P d \<longleftrightarrow> (\<forall>k v. map_of d k = Some v \<longrightarrow> P (k, v))"
  by (auto simp: list_all_iff map_of_eq_Some_iff)

lemma effect_of_fields [simp]:
  "e_consumer_digest (effect_of env s dec req sel a cd u v) = cd"
  "effect_id (effect_of env s dec req sel a cd u v) = ra_effect_id a"
  "e_sequence (effect_of env s dec req sel a cd u v) = us_entries s + 1"
  "e_previous_hash (effect_of env s dec req sel a cd u v) = us_headHash s"
  "e_before (effect_of env s dec req sel a cd u v) = u" "e_after (effect_of env s dec req sel a cd u v) = v"
  "e_cost (effect_of env s dec req sel a cd u v) = ra_cost a"
  "same_binding st (effect_of env s dec req sel a cd u v) = same_binding st (effect_of env s dec req sel a cd u' v')"
  by (simp_all add: effect_of_def same_binding_def)

text \<open>Storing an effect that continues the counters of its consumer keeps the journal verifiable.\<close>

lemma insert_effect_verifies:
  assumes s: "uj_verify_locked env j = Inr s" and d: "distinct (map fst (aggregate_rows j))"
    and r: "e_sequence r = us_entries s + 1" "e_previous_hash r = us_headHash s"
      "e_before r = (case map_of (us_states s) (e_consumer_digest r) of None \<Rightarrow> zero_aggregate | Some st \<Rightarrow> st_usage st)"
      "e_after r = add_effect (e_before r) (e_cost r)"
    and b: "\<And>st. map_of (us_states s) (e_consumer_digest r) = Some st \<Longrightarrow> same_binding st r"
  shows "\<exists>s'. uj_verify_locked env (insert_effect env j s r) = Inr s'"
proof -
  let ?cd = "e_consumer_digest r" and ?j = "insert_effect env j s r"
  obtain m where m: "uj_meta j = Some m" "us_journalId s = journal_id m" "REQUIRED_TRIGGERS \<subseteq> uj_triggers j"
    and v: "verify_effects env GENESIS_DIGEST 0 [] (reserved_effects j) = Inr (us_entries s, us_headHash s, us_states s)"
    and keys: "dict_keys (aggregate_rows j) = dict_keys (us_states s)"
    and all: "list_all (state_verified env (us_states s)) (aggregate_rows j)"
    using s by (elim uj_verify_lockedE)
  define cur where "cur = (case map_of (us_states s) ?cd of None \<Rightarrow> first_state r | Some st \<Rightarrow> st)"
  define st' where "st' = cur\<lparr>st_usage := e_after r, st_updated_sequence := e_sequence r\<rparr>"
  have cur: "same_binding cur r" "st_usage cur = e_before r"
    using b r(3) by (auto simp: cur_def same_binding_def first_state_def split: option.splits)
  have v': "verify_effects env GENESIS_DIGEST 0 [] (reserved_effects j @ [store_effect env r])
      = Inr (us_entries s + 1, effect_hash env r, dict_set ?cd st' (us_states s))"
  proof -
    have "(case map_of (us_states s) ?cd of None \<Rightarrow> first_state (store_effect env r) | Some st \<Rightarrow> st) = cur"
      by (simp add: cur_def cong: option.case_cong)
    with v r(1,2,4) cur show ?thesis by (simp add: verify_effects_append st'_def)
  qed
  have dk: "map_of (aggregate_rows j) c = None \<longleftrightarrow> map_of (us_states s) c = None" for c
    using keys unfolding dict_keys_dom by (metis domIff)
  define row where "row = (case map_of (aggregate_rows j) ?cd of
      None \<Rightarrow> store_state env ?cd ((first_state r)\<lparr>st_usage := e_after r, st_updated_sequence := e_sequence r\<rparr>)
    | Some old \<Rightarrow> old\<lparr>st_usage := e_after r, st_updated_sequence := e_sequence r, st_key_id := key_id env,
        st_hmac := sign env (state_payload ?cd ((first_state r)\<lparr>st_usage := e_after r, st_updated_sequence := e_sequence r\<rparr>))\<rparr>)"
  have rows: "aggregate_rows ?j = dict_set ?cd row (aggregate_rows j)"
    by (simp add: insert_effect_def Let_def row_def cong: option.case_cong)
  have row_ok: "st_key_id row = key_id env \<and> st_hmac row = sign env (state_payload ?cd row)
      \<and> usage_state.truncate row = st'"
  proof (cases "map_of (aggregate_rows j) ?cd")
    case None
    then show ?thesis using dk [of ?cd] by (simp add: row_def st'_def cur_def)
  next
    case (Some old)
    then have "state_verified env (us_states s) (?cd, old)" using all d by (simp add: list_all_dict)
    then have "usage_state.truncate old = cur" using Some dk [of ?cd]
      by (auto simp: state_verified_def cur_def split: option.splits)
    then show ?thesis using cur(1) Some
      by (auto simp: row_def st'_def same_binding_def state_payload_def first_state_def usage_state.defs)
  qed
  have "list_all (state_verified env (dict_set ?cd st' (us_states s))) (dict_set ?cd row (aggregate_rows j))"
    using all d row_ok by (auto simp: list_all_dict state_verified_def split: if_splits)
  moreover have "uj_triggers ?j = uj_triggers j" "reserved_effects ?j = reserved_effects j @ [store_effect env r]"
    "uj_meta ?j = Some (usage_signed_meta env (us_journalId s) (us_entries s + 1) (effect_hash env r))"
    using r(1) by (simp_all add: insert_effect_def Let_def)
  ultimately show ?thesis using v' m(3) keys rows
    by (simp add: uj_verify_locked_def uj_meta_row_def usage_signed_meta_def)
qed

text \<open>What a call of \<open>reserve\<close> that returned did.\<close>

lemma reserve_lockedD:
  assumes "reserve env k dec req a j = Inr (receipt, j')"
  shows "\<exists>sel cd s. selected dec = Some sel \<and> uj_verify_locked env j = Inr s
     \<and> reserve_locked env k dec req sel a cd j s = Inr (receipt, j')"
  using assms
  by (cases "selected dec"; cases "uj_closed j")
    (auto simp: reserve_def validated_evidence_Inr uj_transaction_def split: if_splits)

lemma reserve_cases:
  assumes r: "reserve env k dec req a j = Inr (receipt, j')"
  obtains (replay) existing where "j' = j" "rr_replayed receipt" "e_cost existing = ra_cost a"
      "find_effect j (rr_consumerDigest receipt) (ra_effect_id a) = Some existing"
      "rr_usage receipt = e_after existing"
  | (fresh) s sel current updated where "\<not> rr_replayed receipt" "selected dec = Some sel"
      "find_effect j (rr_consumerDigest receipt) (ra_effect_id a) = None" "uj_verify_locked env j = Inr s"
      "current = (case map_of (us_states s) (rr_consumerDigest receipt) of None \<Rightarrow> zero_aggregate | Some st \<Rightarrow> st_usage st)"
      "\<And>st. map_of (us_states s) (rr_consumerDigest receipt) = Some st \<Longrightarrow>
         same_binding st (effect_of env s dec req sel a (rr_consumerDigest receipt) current updated)"
      "reserve_route_effect k dec req current (ra_cost a) = Inr updated" "rr_usage receipt = updated"
      "j' = insert_effect env j s (effect_of env s dec req sel a (rr_consumerDigest receipt) current updated)"
proof -
  obtain sel cd s where b: "selected dec = Some sel" "uj_verify_locked env j = Inr s"
    "reserve_locked env k dec req sel a cd j s = Inr (receipt, j')" using reserve_lockedD [OF r] by blast
  show thesis
  proof (cases "find_effect j cd (ra_effect_id a)")
    case (Some existing)
    with b(3) replay show thesis
      by (auto simp: reserve_locked_def same_effect_def split: if_splits)
  next
    case None
    define current where "current = (case map_of (us_states s) cd of None \<Rightarrow> zero_aggregate | Some st \<Rightarrow> st_usage st)"
    from b(3) None obtain updated where u: "reserve_route_effect k dec req current (ra_cost a) = Inr updated"
      and bind: "\<not> (case map_of (us_states s) cd of None \<Rightarrow> False
          | Some st \<Rightarrow> \<not> same_binding st (effect_of env s dec req sel a cd current current))"
      and out: "receipt = \<lparr>rr_consumerDigest = cd, rr_sequence = us_entries s + 1, rr_replayed = False, rr_usage = updated\<rparr>"
        "j' = insert_effect env j s (effect_of env s dec req sel a cd current updated)"
      by (auto simp: reserve_locked_def current_def [symmetric] Let_def split: if_splits)
    show thesis
      by (rule fresh [of sel s current updated])
        (use b None u bind out in \<open>auto simp: current_def same_binding_def effect_of_def split: option.splits\<close>)
  qed
qed

lemma find_effect_None: "find_effect j cd eid = None \<longleftrightarrow>
    (cd, eid) \<notin> (\<lambda>r. (e_consumer_digest r, effect_id r)) ` set (reserved_effects j)"
  by (auto simp: find_effect_def find_None_iff)

lemma insert_effect_rows [simp]:
  "reserved_effects (insert_effect env j s r) = reserved_effects j @ [store_effect env r]"
  by (simp add: insert_effect_def Let_def)

lemma reserve_inv:
  assumes inv: "uj_inv env j" and r: "reserve env k dec req a j = Inr (receipt, j')"
  shows "uj_inv env j'"
  using r
proof (cases rule: reserve_cases)
  case (replay existing)
  with inv show ?thesis by simp
next
  case (fresh s sel current updated)
  let ?r = "effect_of env s dec req sel a (rr_consumerDigest receipt) current updated"
  have "updated = add_effect current (ra_cost a)" using reserve_route_effect_Inr [OF fresh(7)] by blast
  then have "\<exists>s'. uj_verify_locked env (insert_effect env j s ?r) = Inr s'"
    using inv fresh(5,6) by (intro insert_effect_verifies [OF fresh(4)]) (auto simp: uj_inv_def)
  moreover have "distinct (map fst (aggregate_rows (insert_effect env j s ?r)))"
    using inv by (simp add: insert_effect_def Let_def uj_inv_def)
  moreover have "(rr_consumerDigest receipt, ra_effect_id a)
      \<notin> (\<lambda>r. (e_consumer_digest r, effect_id r)) ` set (reserved_effects j)"
    using fresh(3) by (simp add: find_effect_None)
  ultimately show ?thesis using inv by (simp add: uj_inv_def fresh(9))
qed

definition uj_step :: "journal_env \<Rightarrow> routing_contract \<Rightarrow> usage_journal \<Rightarrow> usage_journal \<Rightarrow> bool" where
  "uj_step env k j j' \<longleftrightarrow> (\<exists>dec req a receipt. reserve env k dec req a j = Inr (receipt, j'))"

definition uj_start :: "journal_env \<Rightarrow> usage_journal \<Rightarrow> bool" where
  "uj_start env j \<longleftrightarrow> (\<exists>jid. j = new_usage_journal env jid)"

lemma new_usage_verifies:
  "uj_verify_locked env (new_usage_journal env jid) =
     Inr \<lparr>us_journalId = jid, us_entries = 0, us_headHash = GENESIS_DIGEST, us_states = []\<rparr>"
  by (simp add: uj_verify_locked_def uj_meta_row_def new_usage_journal_def usage_signed_meta_def dict_keys_def)

interpretation usage: inv_system "uj_start env" "uj_step env k" "uj_inv env"
  for env :: journal_env and k :: routing_contract
proof (standard, goal_cases)
  case (1 j)
  then obtain jid where j: "j = new_usage_journal env jid" by (auto simp: uj_start_def)
  have "aggregate_rows j = []" "reserved_effects j = []" by (simp_all add: j new_usage_journal_def)
  with j new_usage_verifies show ?case by (auto simp: uj_inv_def)
next
  case (2 j j')
  then show ?case by (auto simp: uj_step_def dest: reserve_inv)
qed

section \<open>Properties of aggregate usage\<close>

text \<open>C18: a workflow never reserves more than its budget. After any history, a new reservation that
  returns leaves the totals of its consumer, summed over all effects in the journal, within the call,
  token and cost ceilings of the request's aggregate budget and within the cost its route reserved; the
  receipt reports exactly these totals.\<close>

theorem usage_never_exceeds_budget:
  assumes j: "reach (uj_start env) (uj_step env k) j"
    and r: "reserve env k dec req a j = Inr (receipt, j')" and new: "\<not> rr_replayed receipt"
  shows "\<exists>b sel. aggregateBudget req = Some b \<and> selected dec = Some sel
     \<and> rr_usage receipt = usage_totals (reserved_effects j') (rr_consumerDigest receipt)
     \<and> u_calls (rr_usage receipt) \<le> maximumCalls b
     \<and> u_input_tokens (rr_usage receipt) \<le> agg_inputTokenCeiling b
     \<and> u_output_tokens (rr_usage receipt) \<le> agg_outputTokenCeiling b
     \<and> u_cost_microusd (rr_usage receipt) \<le> agg_maximumCostMicrousd b
     \<and> u_cost_microusd (rr_usage receipt) \<le> reservedCostMicrousd sel"
  using r
proof (cases rule: reserve_cases)
  case (replay existing)
  with new show ?thesis by simp
next
  case (fresh s sel current updated)
  note u = reserve_route_effect_Inr [OF fresh(7)]
  from fresh(4) have "verify_effects env GENESIS_DIGEST 0 [] (reserved_effects j)
      = Inr (us_entries s, us_headHash s, us_states s)" by (elim uj_verify_lockedE)
  from verify_effects_totals [OF this] fresh(5)
  have "current = usage_totals (reserved_effects j) (rr_consumerDigest receipt)" by simp
  then have "updated = usage_totals (reserved_effects j') (rr_consumerDigest receipt)"
    using u by (simp add: fresh(9) usage_totals_snoc)
  with u fresh(2,8) show ?thesis by auto
qed

text \<open>An effect is charged once. In every reachable journal the effects of a consumer have distinct
  ids, the journal verifies with its counters equal to the sums of its effects, and reserving an effect
  id again changes nothing: it returns the stored counters, and only for the same cost.\<close>

lemma effect_charged_once:
  assumes j: "reach (uj_start env) (uj_step env k) j"
  shows "distinct (map (\<lambda>r. (e_consumer_digest r, effect_id r)) (reserved_effects j))
     \<and> (\<exists>s. uj_verify_locked env j = Inr s
          \<and> (\<forall>cd st. map_of (us_states s) cd = Some st \<longrightarrow> st_usage st = usage_totals (reserved_effects j) cd))
     \<and> (\<forall>dec req a receipt j'. reserve env k dec req a j = Inr (receipt, j') \<longrightarrow>
          (rr_consumerDigest receipt, ra_effect_id a) \<in> (\<lambda>r. (e_consumer_digest r, effect_id r)) ` set (reserved_effects j)
          \<longrightarrow> rr_replayed receipt \<and> j' = j)"
proof (intro conjI allI impI)
  have inv: "uj_inv env j" by (rule usage.reach_inv [OF j])
  then show "distinct (map (\<lambda>r. (e_consumer_digest r, effect_id r)) (reserved_effects j))" by (simp add: uj_inv_def)
  from inv obtain s where s: "uj_verify_locked env j = Inr s" by (auto simp: uj_inv_def)
  then have "verify_effects env GENESIS_DIGEST 0 [] (reserved_effects j) = Inr (us_entries s, us_headHash s, us_states s)"
    by (elim uj_verify_lockedE)
  from verify_effects_totals [OF this] s
  show "\<exists>s. uj_verify_locked env j = Inr s
      \<and> (\<forall>cd st. map_of (us_states s) cd = Some st \<longrightarrow> st_usage st = usage_totals (reserved_effects j) cd)"
    by (intro exI [of _ s] conjI allI impI) (simp, metis option.simps(5))
next
  fix dec req a receipt j'
  assume r: "reserve env k dec req a j = Inr (receipt, j')"
    and old: "(rr_consumerDigest receipt, ra_effect_id a) \<in> (\<lambda>r. (e_consumer_digest r, effect_id r)) ` set (reserved_effects j)"
  from r have "rr_replayed receipt \<and> j' = j"
    by (cases rule: reserve_cases) (use old in \<open>simp_all add: find_effect_None\<close>)
  then show "rr_replayed receipt" "j' = j" by simp_all
qed

section \<open>A concrete reservation\<close>

definition demo_reserve :: "usage_journal \<Rightarrow> (reserve_receipt \<times> usage_journal) result" where
  "demo_reserve j = reserve demo_env bound_contract demo_decision bound_request
     \<lparr>ra_consumer_kind = ''workflow'', ra_consumer_id = ''w'', ra_workflow_effect_digest = demo_hash,
      ra_effect_id = ''e1'', ra_effect_digest = demo_hash,
      ra_cost = \<lparr>f_input_tokens = 10, f_output_tokens = 20, f_cost_microusd = 2\<rparr>, ra_now = 2000\<rparr> j"

lemma demo_reserved:
  "returns (demo_reserve (new_usage_journal demo_env ''j'')) (\<lambda>(r, _). \<not> rr_replayed r)"
  by code_simp

lemma demo_usage_start: "reach (uj_start demo_env) (uj_step demo_env k) (new_usage_journal demo_env ''j'')"
  by (rule reach.reach_start) (auto simp: uj_start_def)

theorem usage_never_exceeds_budget_witness:
  "\<exists>r j b. demo_reserve (new_usage_journal demo_env ''j'') = Inr (r, j) \<and> aggregateBudget bound_request = Some b
     \<and> u_cost_microusd (usage_totals (reserved_effects j) (rr_consumerDigest r)) \<le> agg_maximumCostMicrousd b"
proof -
  obtain r j where o: "demo_reserve (new_usage_journal demo_env ''j'') = Inr (r, j)" "\<not> rr_replayed r"
    using demo_reserved by (elim returnsE) auto
  from usage_never_exceeds_budget [OF demo_usage_start o(1) [unfolded demo_reserve_def] o(2)] o(1)
  show ?thesis by metis
qed

end
