(* ===== verification/Eco_Team_Contracts.thy ===== *)
theory Eco_Team_Contracts
  imports Eco_Route_Contracts
begin

text \<open>
  The records of team orchestration and their validation, \<open>src/src/eco_teams/contracts.py\<close>: manifests,
  tasks, handoffs and run results. A record is typed as its JSON schema says; the schema check, the hash
  and the stored text of a record are parameters, collected in \<open>team_contract\<close>. Timestamps are instants
  in microseconds, and an error is the path of the failed check.

  Lemmas: sealing makes the digest check pass; in a validated manifest delegation only narrows authority,
  along every chain of delegations.
\<close>

section \<open>Records\<close>

record binding =
  b_kind :: string
  b_id :: string
  b_digest :: string

record team_budget =
  tb_maxTokens :: int
  tb_maxCostMicrousd :: int
  tb_maxDurationSeconds :: int

record team_head =
  th_id :: string
  th_projectId :: string
  th_createdAt :: int
  th_recordDigest :: string

record team_role =
  role_id :: string
  role_principal :: binding
  role_membership :: binding
  role_actions :: "string list"
  role_dataClasses :: "string list"
  role_toolIds :: "string list"
  role_zones :: "string list"
  role_notAfter :: int
  role_budget :: team_budget
  delegatesTo :: "string list"

record authority_binding =
  ab_teamId :: string
  ab_storeId :: string
  ab_authoritySnapshotDigest :: string
  ab_activeBundleDigest :: string
  ab_accessPolicyDigest :: string

record team_manifest = team_head +
  mf_authority :: authority_binding
  mf_roles :: "team_role list"
  mf_maxTasks :: int
  mf_maxTotalTokens :: int
  mf_maxCostMicrousd :: int
  mf_deadline :: int

record run_head = team_head +
  rh_teamId :: string
  rh_runId :: string

record team_task = run_head +
  tk_roleId :: string
  parentTaskId :: "string option"
  tk_action :: string
  tk_dataClass :: string
  tk_toolId :: "string option"
  tk_zone :: string
  tk_environmentId :: string
  tk_resource :: binding
  tk_notAfter :: int
  tk_budget :: team_budget
  tk_input :: binding
  dependencies :: "string list"
  tk_routeDecision :: "binding option"

record team_handoff = run_head +
  fromTaskId :: string
  fromRoleId :: string
  toTaskId :: string
  toRoleId :: string
  ho_artifact :: binding

datatype task_status = TPending | TLeased | TStarted | TSucceeded | TFailed | TCancelled | TAmbiguous

datatype run_status = RActive | RCancelling | RSucceeded | RFailed | RPartialFailure | RCancelled | RAmbiguous

record task_summary =
  ts_id :: string
  ts_status :: task_status
  ts_outcomeDigest :: "string option"
  ts_chargedTokens :: int
  ts_chargedCostMicrousd :: int

record team_result = run_head +
  rs_status :: run_status
  rs_cancellationRequested :: bool
  rs_tasks :: "task_summary list"
  rs_tokens :: int
  rs_costMicrousd :: int

datatype team_record =
    AgentTeamManifest team_manifest
  | TeamTask team_task
  | TeamHandoff team_handoff
  | TeamRunResult team_result

text \<open>The schema check, the hash without the digest field and the canonical text of each kind.\<close>

record team_contract =
  team_schema :: "team_record \<Rightarrow> bool"
  team_hash :: "team_record \<Rightarrow> string"
  team_text :: "team_record \<Rightarrow> string"

section \<open>Digests\<close>

fun without_digest :: "team_record \<Rightarrow> team_record" where
  "without_digest (AgentTeamManifest m) = AgentTeamManifest (m\<lparr>th_recordDigest := []\<rparr>)"
| "without_digest (TeamTask t) = TeamTask (t\<lparr>th_recordDigest := []\<rparr>)"
| "without_digest (TeamHandoff h) = TeamHandoff (h\<lparr>th_recordDigest := []\<rparr>)"
| "without_digest (TeamRunResult r) = TeamRunResult (r\<lparr>th_recordDigest := []\<rparr>)"

fun stored_digest :: "team_record \<Rightarrow> string" where
  "stored_digest (AgentTeamManifest m) = th_recordDigest m"
| "stored_digest (TeamTask t) = th_recordDigest t"
| "stored_digest (TeamHandoff h) = th_recordDigest h"
| "stored_digest (TeamRunResult r) = th_recordDigest r"

definition record_digest :: "team_contract \<Rightarrow> team_record \<Rightarrow> string" where
  "record_digest k r = team_hash k (without_digest r)"

definition seal_result :: "team_contract \<Rightarrow> team_result \<Rightarrow> team_result" where
  "seal_result k r = r\<lparr>th_recordDigest := record_digest k (TeamRunResult r)\<rparr>"

section \<open>Semantic checks\<close>

definition sorted_unique :: "string list \<Rightarrow> bool" where
  "sorted_unique xs = (xs = sort xs \<and> length xs = card (set xs))"

definition budget_within :: "team_budget \<Rightarrow> team_budget \<Rightarrow> bool" where
  "budget_within b c = (tb_maxTokens b \<le> tb_maxTokens c \<and> tb_maxCostMicrousd b \<le> tb_maxCostMicrousd c
     \<and> tb_maxDurationSeconds b \<le> tb_maxDurationSeconds c)"

text \<open>The target of a delegation has no authority that its source lacks.\<close>

definition role_narrows :: "team_role \<Rightarrow> team_role \<Rightarrow> bool" where
  "role_narrows target source = (set (role_actions target) \<subseteq> set (role_actions source)
     \<and> set (role_dataClasses target) \<subseteq> set (role_dataClasses source)
     \<and> set (role_toolIds target) \<subseteq> set (role_toolIds source)
     \<and> set (role_zones target) \<subseteq> set (role_zones source)
     \<and> role_notAfter target \<le> role_notAfter source
     \<and> budget_within (role_budget target) (role_budget source))"

definition roles_by_id :: "team_manifest \<Rightarrow> (string \<times> team_role) list" where
  "roles_by_id m = dict_of_pairs (map (\<lambda>r. (role_id r, r)) (mf_roles m))"

definition team_role_errors :: "team_manifest \<Rightarrow> team_role \<Rightarrow> string list" where
  "team_role_errors m r =
     errors_if (b_kind (role_principal r) \<noteq> ''PrincipalIdentity'' \<or> b_kind (role_membership r) \<noteq> ''MembershipBinding'')
       ''spec.roles''
     @ errors_if (\<not> sorted_unique (role_actions r)) ''spec.roles.actions''
     @ errors_if (\<not> sorted_unique (role_dataClasses r)) ''spec.roles.dataClasses''
     @ errors_if (\<not> sorted_unique (role_toolIds r)) ''spec.roles.toolIds''
     @ errors_if (\<not> sorted_unique (role_zones r)) ''spec.roles.zones''
     @ errors_if (\<not> sorted_unique (delegatesTo r)) ''spec.roles.delegatesTo''
     @ errors_if (role_notAfter r > mf_deadline m) ''spec.roles.notAfter''
     @ errors_if (role_id r \<in> set (delegatesTo r) \<or> \<not> set (delegatesTo r) \<subseteq> dict_keys (roles_by_id m))
         ''spec.roles.delegatesTo''
     @ errors_if (tb_maxTokens (role_budget r) > mf_maxTotalTokens m
         \<or> tb_maxCostMicrousd (role_budget r) > mf_maxCostMicrousd m) ''spec.roles.budget''"

text \<open>The loop over the delegations; an unknown target is a \<open>KeyError\<close> that ends it.\<close>

fun delegation_errors :: "(string \<times> team_role) list \<Rightarrow> (team_role \<times> string) list \<Rightarrow> string list" where
  "delegation_errors by_id [] = []"
| "delegation_errors by_id ((source, target_id) # ds) =
     (case map_of by_id target_id of
        None \<Rightarrow> [''semantic validation failed'']
      | Some target \<Rightarrow> errors_if (\<not> role_narrows target source) ''spec.roles.delegatesTo''
          @ delegation_errors by_id ds)"

definition manifest_errors :: "team_manifest \<Rightarrow> string list" where
  "manifest_errors m =
     errors_if (\<not> sorted_unique (map role_id (mf_roles m))) ''spec.roles''
     @ errors_if (th_createdAt m \<ge> mf_deadline m) ''spec.deadline''
     @ concat (map (team_role_errors m) (mf_roles m))
     @ delegation_errors (roles_by_id m)
         (concat (map (\<lambda>source. map (Pair source) (delegatesTo source)) (mf_roles m)))"

definition ACTION_PROFILE :: "(string \<times> string \<times> string) list" where
  "ACTION_PROFILE = [(''identity.inspect'', ''A0'', ''identity-record''), (''policy.inspect'', ''A0'', ''policy-record''),
     (''model.invoke'', ''A0'', ''deployment''), (''run.plan'', ''A0'', ''workflow''),
     (''repository.read'', ''A1'', ''repository-entry''), (''run.activate'', ''A1'', ''workflow''),
     (''evaluation.run'', ''A1'', ''workflow''), (''repository.write'', ''A2'', ''repository-entry''),
     (''code.execute'', ''A2'', ''project''), (''external.write'', ''A3'', ''external-service''),
     (''production.change'', ''A4'', ''production-target'')]"

definition task_errors :: "team_task \<Rightarrow> string list" where
  "task_errors t =
     errors_if (\<not> sorted_unique (dependencies t) \<or> th_id t \<in> set (dependencies t)) ''spec.dependencies''
     @ errors_if (parentTaskId t = Some (th_id t)) ''spec.parentTaskId''
     @ errors_if (case map_of ACTION_PROFILE (tk_action t) of None \<Rightarrow> True
         | Some expected \<Rightarrow> b_kind (tk_resource t) \<noteq> snd expected) ''spec.resource''
     @ errors_if (tk_action t = ''model.invoke'' \<and> (case tk_routeDecision t of None \<Rightarrow> True
         | Some b \<Rightarrow> b_kind b \<noteq> ''ModelRouteDecision'')) ''spec.routeDecision''
     @ errors_if (tk_action t \<noteq> ''model.invoke'' \<and> tk_routeDecision t \<noteq> None) ''spec.routeDecision''
     @ errors_if (prefix ''repository.'' (tk_action t) \<and> tk_toolId t \<noteq> Some (tk_action t)) ''spec.toolId''
     @ errors_if (th_createdAt t \<ge> tk_notAfter t) ''spec.notAfter''"

definition handoff_errors :: "team_handoff \<Rightarrow> string list" where
  "handoff_errors h = errors_if (fromTaskId h = toTaskId h) ''spec''"

text \<open>What the outcomes of the tasks say about the run; \<open>finalize_run\<close> computes it in the same way.\<close>

definition summarize :: "task_status list \<Rightarrow> run_status" where
  "summarize statuses =
     (if TAmbiguous \<in> set statuses then RAmbiguous
      else if list_all (\<lambda>s. s = TSucceeded) statuses then RSucceeded
      else if list_all (\<lambda>s. s = TCancelled) statuses then RCancelled
      else if list_all (\<lambda>s. s = TFailed) statuses then RFailed
      else RPartialFailure)"

definition result_errors :: "team_result \<Rightarrow> string list" where
  "result_errors r =
     errors_if (\<not> sorted_unique (map ts_id (rs_tasks r))) ''spec.tasks''
     @ errors_if (rs_status r \<noteq> summarize (map ts_status (rs_tasks r))) ''spec.status''
     @ errors_if (rs_tokens r \<noteq> sum_list (map ts_chargedTokens (rs_tasks r))
         \<or> rs_costMicrousd r \<noteq> sum_list (map ts_chargedCostMicrousd (rs_tasks r))) ''spec.usage''
     @ concat (map (\<lambda>t. errors_if (ts_status t \<in> {TSucceeded, TFailed} \<and> ts_outcomeDigest t = None) ''spec.tasks'')
         (rs_tasks r))"

fun semantic_errors :: "team_record \<Rightarrow> string list" where
  "semantic_errors (AgentTeamManifest m) = manifest_errors m"
| "semantic_errors (TeamTask t) = task_errors t"
| "semantic_errors (TeamHandoff h) = handoff_errors h"
| "semantic_errors (TeamRunResult r) = result_errors r"

definition validate_record :: "team_contract \<Rightarrow> team_record \<Rightarrow> team_record result" where
  "validate_record k r =
     (if \<not> team_schema k r then Inl ContractValidationError
      else if stored_digest r \<noteq> record_digest k r then Inl ContractValidationError
      else if semantic_errors r \<noteq> [] then Inl ContractValidationError
      else Inr r)"

section \<open>Facts\<close>

lemma sorted_unique_iff: "sorted_unique xs \<longleftrightarrow> sorted xs \<and> distinct xs"
proof -
  have "xs = sort xs \<longleftrightarrow> sorted xs" by (metis sorted_sort sorted_sort_id)
  moreover have "length xs = card (set xs) \<longleftrightarrow> distinct xs" by (metis card_distinct distinct_card)
  ultimately show ?thesis by (simp add: sorted_unique_def)
qed

lemma validate_record_Inr [simp]:
  "validate_record k r = Inr r' \<longleftrightarrow> r' = r \<and> team_schema k r \<and> stored_digest r = record_digest k r
     \<and> semantic_errors r = []"
  by (auto simp: validate_record_def)

lemma validate_record_valid: "validate_record k r = Inr r' \<Longrightarrow> validate_record k r = Inr r"
  by auto

lemma seal_result_digest [simp]:
  "stored_digest (TeamRunResult (seal_result k r)) = record_digest k (TeamRunResult (seal_result k r))"
  by (simp add: seal_result_def record_digest_def)

lemma role_narrows_refl [simp]: "role_narrows r r"
  by (simp add: role_narrows_def budget_within_def)

lemma role_narrows_trans: "role_narrows a b \<Longrightarrow> role_narrows b c \<Longrightarrow> role_narrows a c"
  by (auto simp: role_narrows_def budget_within_def)

lemma delegation_errors_narrow:
  assumes "delegation_errors by_id ds = []" and "(source, t) \<in> set ds"
  shows "\<exists>target. map_of by_id t = Some target \<and> role_narrows target source"
  using assms by (induction ds) (auto split: option.splits)

lemma roles_by_id_lookup:
  assumes "manifest_errors m = []"
  shows "map_of (roles_by_id m) i = Some r \<longleftrightarrow> r \<in> set (mf_roles m) \<and> role_id r = i"
proof -
  have "distinct (map role_id (mf_roles m))"
    using assms by (simp add: manifest_errors_def sorted_unique_iff)
  then show ?thesis
    by (auto simp: roles_by_id_def o_def intro: map_of_is_SomeI dest: map_of_SomeD)
qed

text \<open>One delegation of the manifest: from a role to one that it lists.\<close>

definition delegates :: "team_manifest \<Rightarrow> team_role \<Rightarrow> team_role \<Rightarrow> bool" where
  "delegates m source target \<longleftrightarrow> source \<in> set (mf_roles m) \<and> target \<in> set (mf_roles m)
     \<and> role_id target \<in> set (delegatesTo source)"

lemma delegates_narrows:
  assumes "manifest_errors m = []" and "delegates m source target"
  shows "role_narrows target source"
proof -
  let ?ds = "concat (map (\<lambda>source. map (Pair source) (delegatesTo source)) (mf_roles m))"
  have "delegation_errors (roles_by_id m) ?ds = []"
    using assms(1) by (simp add: manifest_errors_def)
  moreover have "(source, role_id target) \<in> set ?ds"
    using assms(2) by (auto simp: delegates_def)
  ultimately obtain t where "map_of (roles_by_id m) (role_id target) = Some t" "role_narrows t source"
    by (blast dest: delegation_errors_narrow)
  moreover from assms have "map_of (roles_by_id m) (role_id target) = Some target"
    by (simp add: roles_by_id_lookup delegates_def)
  ultimately show ?thesis by simp
qed

lemma delegates_chain_narrows:
  "(delegates m)\<^sup>*\<^sup>* source target \<Longrightarrow> manifest_errors m = [] \<Longrightarrow> role_narrows target source"
  by (induction rule: rtranclp_induct) (auto dest: delegates_narrows role_narrows_trans)

end
