(* ===== verification/Eco_Team_Plan.thy ===== *)
theory Eco_Team_Plan
  imports Eco_Team_Contracts
begin

text \<open>
  What \<open>create_run\<close> of \<open>src/src/eco_teams/runtime.py\<close> checks before it stores a run: a task within its
  role, a child task within its parent, and a task graph whose references resolve without a cycle. The
  checked tasks are a dictionary by task id in insertion order.

  Lemmas: the depth-first search accepts exactly the graphs without dangling references and cycles, and a
  child is within every ancestor.
\<close>

section \<open>Roles and children\<close>

abbreviation team_error :: "string \<Rightarrow> 'a result" where
  "team_error code \<equiv> Inl (TeamRuntimeError code)"

definition assert_task_role :: "team_task \<Rightarrow> team_role \<Rightarrow> unit result" where
  "assert_task_role t role =
     (if tk_action t \<notin> set (role_actions role) \<or> tk_dataClass t \<notin> set (role_dataClasses role)
         \<or> (case tk_toolId t of None \<Rightarrow> False | Some tool \<Rightarrow> tool \<notin> set (role_toolIds role))
         \<or> tk_zone t \<notin> set (role_zones role) \<or> tk_notAfter t > role_notAfter role
         \<or> tb_maxTokens (tk_budget t) > tb_maxTokens (role_budget role)
         \<or> tb_maxCostMicrousd (tk_budget t) > tb_maxCostMicrousd (role_budget role)
         \<or> tb_maxDurationSeconds (tk_budget t) > tb_maxDurationSeconds (role_budget role)
      then team_error ''ECO_TEAM_TASK_AUTHORITY_EXPANSION'' else Inr ())"

definition DATA_ORDER :: "(string \<times> nat) list" where
  "DATA_ORDER = [(''D0'', 0), (''D1'', 1), (''D2'', 2), (''D3'', 3)]"

text \<open>A lookup \<open>d[k]\<close> that raises \<open>KeyError\<close> when the key is missing.\<close>

definition dict_index :: "('k \<times> 'v) list \<Rightarrow> 'k \<Rightarrow> 'v result" where
  "dict_index d k = (case map_of d k of None \<Rightarrow> Inl PyKeyError | Some v \<Rightarrow> Inr v)"

definition assert_child_narrow :: "team_task \<Rightarrow> team_task \<Rightarrow> (string \<times> team_role) list \<Rightarrow> unit result" where
  "assert_child_narrow parent child by_id =
     bindE (dict_index by_id (tk_roleId parent)) (\<lambda>parent_role.
     if tk_roleId child \<notin> set (delegatesTo parent_role) then team_error ''ECO_TEAM_DELEGATION_DENIED''
     else if tk_action child \<noteq> tk_action parent then team_error ''ECO_TEAM_CHILD_AUTHORITY_EXPANSION''
     else bindE (dict_index DATA_ORDER (tk_dataClass child)) (\<lambda>c.
       bindE (dict_index DATA_ORDER (tk_dataClass parent)) (\<lambda>p.
       if c > p
          \<or> (tk_toolId parent = None \<and> tk_toolId child \<noteq> None)
          \<or> (tk_toolId parent \<noteq> None \<and> tk_toolId child \<notin> {None, tk_toolId parent})
          \<or> tk_zone child \<noteq> tk_zone parent \<or> tk_environmentId child \<noteq> tk_environmentId parent
          \<or> tk_resource child \<noteq> tk_resource parent \<or> tk_notAfter child > tk_notAfter parent
          \<or> tb_maxTokens (tk_budget child) > tb_maxTokens (tk_budget parent)
          \<or> tb_maxCostMicrousd (tk_budget child) > tb_maxCostMicrousd (tk_budget parent)
          \<or> tb_maxDurationSeconds (tk_budget child) > tb_maxDurationSeconds (tk_budget parent)
       then team_error ''ECO_TEAM_CHILD_AUTHORITY_EXPANSION'' else Inr ())))"

section \<open>The task graph\<close>

definition task_edges :: "team_task \<Rightarrow> string list" where
  "task_edges t = dependencies t @ (case parentTaskId t of None \<Rightarrow> [] | Some p \<Rightarrow> [p])"

text \<open>
  \<open>visit\<close> and its loop over the edges. \<open>visiting\<close> is the call stack, which a call leaves as it found it,
  so it is an argument; \<open>visited\<close> only grows and is returned.
\<close>

function (sequential) visit ::
    "(string \<times> team_task) list \<Rightarrow> string \<Rightarrow> string set \<Rightarrow> string set \<Rightarrow> string set result"
  and visit_edges ::
    "(string \<times> team_task) list \<Rightarrow> string list \<Rightarrow> string set \<Rightarrow> string set \<Rightarrow> string set result" where
  "visit tasks i visiting visited =
     (if i \<in> visiting then team_error ''ECO_TEAM_TASK_CYCLE''
      else if i \<in> visited then Inr visited
      else case map_of tasks i of
             None \<Rightarrow> Inl PyKeyError
           | Some t \<Rightarrow> bindE (visit_edges tasks (task_edges t) (insert i visiting) visited)
                         (\<lambda>visited'. Inr (insert i visited')))"
| "visit_edges tasks [] visiting visited = Inr visited"
| "visit_edges tasks (e # es) visiting visited =
     (if map_of tasks e = None then team_error ''ECO_TEAM_TASK_REFERENCE_INVALID''
      else bindE (visit tasks e visiting visited) (\<lambda>visited'. visit_edges tasks es visiting visited'))"
  by pat_completeness auto
termination
proof (relation "measures [\<lambda>p. case p of Inl (tasks, i, visiting, visited) \<Rightarrow> card (dict_keys tasks - visiting)
      | Inr (tasks, es, visiting, visited) \<Rightarrow> card (dict_keys tasks - visiting),
    \<lambda>p. case p of Inl _ \<Rightarrow> 0 | Inr (tasks, es, visiting, visited) \<Rightarrow> Suc (length es)]", goal_cases)
  case (2 tasks i visiting visited t)
  then have "i \<in> dict_keys tasks - visiting" by (auto simp: dict_keys_dom)
  moreover have "finite (dict_keys tasks)" by (simp add: dict_keys_def)
  ultimately have "card (dict_keys tasks - insert i visiting) < card (dict_keys tasks - visiting)"
    by (intro psubset_card_mono) auto
  then show ?case by simp
qed simp_all

fun visit_roots :: "(string \<times> team_task) list \<Rightarrow> string list \<Rightarrow> string set \<Rightarrow> string set result" where
  "visit_roots tasks [] visited = Inr visited"
| "visit_roots tasks (i # is) visited =
     bindE (visit tasks i {} visited) (\<lambda>visited'. visit_roots tasks is visited')"

definition assert_acyclic :: "(string \<times> team_task) list \<Rightarrow> unit result" where
  "assert_acyclic tasks = bindE (visit_roots tasks (sort (map fst tasks)) {}) (\<lambda>_. Inr ())"

section \<open>The search is exact\<close>

text \<open>\<open>a\<close> needs \<open>b\<close>: an edge of the task graph.\<close>

definition needs :: "(string \<times> team_task) list \<Rightarrow> (string \<times> string) set" where
  "needs tasks = {(a, b). \<exists>t. map_of tasks a = Some t \<and> b \<in> set (task_edges t)}"

definition references_resolve :: "(string \<times> team_task) list \<Rightarrow> bool" where
  "references_resolve tasks \<longleftrightarrow> (\<forall>(a, b) \<in> needs tasks. b \<in> dict_keys tasks)"

text \<open>Visited tasks: their edges resolve to visited tasks, and no cycle passes through them.\<close>

definition settled :: "(string \<times> team_task) list \<Rightarrow> string set \<Rightarrow> bool" where
  "settled tasks V \<longleftrightarrow> V \<subseteq> dict_keys tasks \<and> needs tasks `` V \<subseteq> V \<and> acyclic (needs tasks \<inter> V \<times> V)"

lemma settled_insert:
  assumes "settled tasks V" and "map_of tasks i = Some t" and "set (task_edges t) \<subseteq> V" and "i \<notin> V"
  shows "settled tasks (insert i V)"
proof -
  let ?R = "needs tasks \<inter> V \<times> V"
  have closed: "b \<in> V" if "(a, b) \<in> needs tasks" "a \<in> insert i V" for a b
  proof (cases "a = i")
    case True
    with that(1) assms(2,3) show ?thesis by (auto simp: needs_def)
  next
    case False
    with that assms(1) show ?thesis by (auto simp: settled_def)
  qed
  then have "needs tasks \<inter> insert i V \<times> insert i V \<subseteq> ?R \<union> {i} \<times> V" by blast
  moreover have "acyclic (?R \<union> {i} \<times> V)"
  proof -
    have "(a, b) \<in> (?R \<union> {i} \<times> V)\<^sup>+ \<Longrightarrow> b \<in> V \<and> (a = i \<or> (a, b) \<in> ?R\<^sup>+)" for a b
    proof (induction rule: trancl.induct)
      case (r_into_trancl a b)
      then show ?case by auto
    next
      case (trancl_into_trancl a b c)
      with assms(4) have "(b, c) \<in> ?R" by auto
      with trancl_into_trancl show ?case by (auto intro: trancl.trancl_into_trancl)
    qed
    with assms(1,4) show ?thesis unfolding acyclic_def settled_def by metis
  qed
  ultimately have "acyclic (needs tasks \<inter> insert i V \<times> insert i V)" by (rule acyclic_subset [rotated])
  moreover have "needs tasks `` insert i V \<subseteq> insert i V" using closed by blast
  moreover have "insert i V \<subseteq> dict_keys tasks"
    using assms by (auto simp: settled_def dict_keys_dom)
  ultimately show ?thesis by (simp add: settled_def)
qed

text \<open>What a call that returned has done: nothing on the stack was settled by it.\<close>

lemma visit_sound:
  "visit tasks i S V = Inr W \<Longrightarrow> settled tasks V \<Longrightarrow>
     settled tasks W \<and> V \<subseteq> W \<and> i \<in> W \<and> W \<inter> S \<subseteq> V"
  "visit_edges tasks es S V = Inr W \<Longrightarrow> settled tasks V \<Longrightarrow>
     settled tasks W \<and> V \<subseteq> W \<and> set es \<subseteq> W \<and> W \<inter> S \<subseteq> V"
proof (induction tasks i S V and tasks es S V arbitrary: W and W rule: visit_visit_edges.induct)
  case (1 tasks i S V)
  show ?case
  proof (cases "i \<in> V")
    case True
    with 1(2,3) show ?thesis by (auto split: if_splits)
  next
    case False
    with 1(2) obtain t U where t: "map_of tasks i = Some t" "i \<notin> S"
      and U: "visit_edges tasks (task_edges t) (insert i S) V = Inr U" and W: "W = insert i U"
      by (auto split: if_splits option.splits)
    from 1(1) [OF t(2) False t(1) U 1(3)] False t W show ?thesis
      by (auto intro!: settled_insert)
  qed
next
  case (3 tasks e es S V)
  from 3(3) obtain U where e: "map_of tasks e \<noteq> None" and U: "visit tasks e S V = Inr U"
    and W: "visit_edges tasks es S U = Inr W"
    by (auto split: if_splits)
  from 3(1) [OF e U 3(4)] 3(2) [OF e W] show ?case by auto
qed auto

lemma visit_complete:
  "acyclic (needs tasks) \<Longrightarrow> references_resolve tasks \<Longrightarrow> i \<in> dict_keys tasks \<Longrightarrow>
     (\<And>s. s \<in> S \<Longrightarrow> (s, i) \<in> (needs tasks)\<^sup>+) \<Longrightarrow> \<exists>W. visit tasks i S V = Inr W"
  "acyclic (needs tasks) \<Longrightarrow> references_resolve tasks \<Longrightarrow> set es \<subseteq> dict_keys tasks \<Longrightarrow>
     (\<And>s e. s \<in> S \<Longrightarrow> e \<in> set es \<Longrightarrow> (s, e) \<in> (needs tasks)\<^sup>+) \<Longrightarrow> \<exists>W. visit_edges tasks es S V = Inr W"
proof (induction tasks i S V and tasks es S V rule: visit_visit_edges.induct)
  case (1 tasks i S V)
  have iS: "i \<notin> S" using 1(2,5) by (auto simp: acyclic_def)
  from 1(4) obtain t where t: "map_of tasks i = Some t" by (auto simp: dict_keys_dom)
  then have edge: "e \<in> set (task_edges t) \<Longrightarrow> (i, e) \<in> needs tasks" for e by (auto simp: needs_def)
  show ?case
  proof (cases "i \<in> V")
    case False
    have "\<exists>W. visit_edges tasks (task_edges t) (insert i S) V = Inr W"
    proof (rule 1(1) [OF iS False t 1(2,3)])
      show "set (task_edges t) \<subseteq> dict_keys tasks" using edge 1(3) by (auto simp: references_resolve_def)
      show "(s, e) \<in> (needs tasks)\<^sup>+" if "s \<in> insert i S" "e \<in> set (task_edges t)" for s e
        using that 1(5) [of s] edge [of e] by (auto intro: trancl_into_trancl)
    qed
    then show ?thesis using iS False t by auto
  qed (use iS in simp)
next
  case (3 tasks e es S V)
  from 3(5) have e: "map_of tasks e \<noteq> None" by (auto simp: dict_keys_dom)
  from 3(1) [OF e 3(3,4)] 3(5,6) obtain U where U: "visit tasks e S V = Inr U" by auto
  have "\<exists>W. visit_edges tasks es S U = Inr W" using 3(5,6) by (intro 3(2) [OF e 3(3,4)]) auto
  then obtain W where "visit_edges tasks es S U = Inr W" by blast
  with e U show ?case by auto
qed simp

lemma visit_roots_sound:
  "visit_roots tasks is V = Inr W \<Longrightarrow> settled tasks V \<Longrightarrow> settled tasks W \<and> V \<subseteq> W \<and> set is \<subseteq> W"
proof (induction "is" arbitrary: V)
  case (Cons i "is")
  from Cons.prems(1) obtain U where U: "visit tasks i {} V = Inr U" "visit_roots tasks is U = Inr W" by auto
  from visit_sound(1) [OF U(1) Cons.prems(2)] Cons.IH [OF U(2)] show ?case by auto
qed simp

lemma visit_roots_complete:
  "acyclic (needs tasks) \<Longrightarrow> references_resolve tasks \<Longrightarrow> set is \<subseteq> dict_keys tasks \<Longrightarrow>
     \<exists>W. visit_roots tasks is V = Inr W"
proof (induction "is" arbitrary: V)
  case (Cons i "is")
  from visit_complete(1) [of tasks i "{}" V] Cons.prems obtain U where "visit tasks i {} V = Inr U" by auto
  with Cons show ?case by auto
qed simp

lemma visit_roots_settles:
  assumes "visit_roots tasks (sort (map fst tasks)) {} = Inr W"
  shows "references_resolve tasks \<and> acyclic (needs tasks)"
proof -
  from visit_roots_sound [OF assms] have W: "settled tasks W" "dict_keys tasks \<subseteq> W"
    by (auto simp: settled_def acyclic_def dict_keys_def)
  have "a \<in> dict_keys tasks" if "(a, b) \<in> needs tasks" for a b
    using that by (auto simp: needs_def dict_keys_dom)
  then have sub: "needs tasks \<subseteq> needs tasks \<inter> W \<times> W" using W by (auto simp: settled_def)
  then have "acyclic (needs tasks)" using W(1) unfolding settled_def by (blast intro: acyclic_subset)
  moreover have "references_resolve tasks" using W sub by (auto simp: references_resolve_def settled_def)
  ultimately show ?thesis by simp
qed

text \<open>C28: the cycle check is exact. \<open>_assert_acyclic\<close> accepts a task set precisely when every dependency
  and parent it names is a task of the set and the graph of dependencies and parents has no cycle.\<close>

theorem assert_acyclic_exact:
  "assert_acyclic tasks = Inr () \<longleftrightarrow> references_resolve tasks \<and> acyclic (needs tasks)"
proof
  assume "assert_acyclic tasks = Inr ()"
  then obtain W where "visit_roots tasks (sort (map fst tasks)) {} = Inr W" by (auto simp: assert_acyclic_def)
  then show "references_resolve tasks \<and> acyclic (needs tasks)" by (rule visit_roots_settles)
next
  assume "references_resolve tasks \<and> acyclic (needs tasks)"
  with visit_roots_complete [of tasks "sort (map fst tasks)" "{}"] show "assert_acyclic tasks = Inr ()"
    by (auto simp: assert_acyclic_def dict_keys_def)
qed

section \<open>The plan of a run\<close>

text \<open>One turn of the loop over the submitted tasks.\<close>

definition check_task ::
    "team_contract \<Rightarrow> team_manifest \<Rightarrow> string \<Rightarrow> int \<Rightarrow> team_record \<Rightarrow> (string \<times> team_task) list
      \<Rightarrow> (string \<times> team_task) list result" where
  "check_task k m run_id observed raw checked =
     bindE (validate_record k raw) (\<lambda>r.
       case r of
         TeamTask t \<Rightarrow>
           if rh_runId t \<noteq> run_id \<or> rh_teamId t \<noteq> ab_teamId (mf_authority m) \<or> th_projectId t \<noteq> th_projectId m
              \<or> map_of checked (th_id t) \<noteq> None \<or> th_createdAt t > observed \<or> tk_notAfter t > mf_deadline m
           then team_error ''ECO_TEAM_TASK_BINDING_MISMATCH''
           else (case map_of (roles_by_id m) (tk_roleId t) of
                   None \<Rightarrow> team_error ''ECO_TEAM_ROLE_UNKNOWN''
                 | Some role \<Rightarrow> bindE (assert_task_role t role) (\<lambda>_. Inr (dict_set (th_id t) t checked)))
       | _ \<Rightarrow> team_error ''ECO_TEAM_TASK_BINDING_MISMATCH'')"

fun check_tasks ::
    "team_contract \<Rightarrow> team_manifest \<Rightarrow> string \<Rightarrow> int \<Rightarrow> team_record list \<Rightarrow> (string \<times> team_task) list
      \<Rightarrow> (string \<times> team_task) list result" where
  "check_tasks k m run_id observed [] checked = Inr checked"
| "check_tasks k m run_id observed (raw # raws) checked =
     bindE (check_task k m run_id observed raw checked) (check_tasks k m run_id observed raws)"

fun check_children ::
    "(string \<times> team_task) list \<Rightarrow> (string \<times> team_role) list \<Rightarrow> team_task list \<Rightarrow> unit result" where
  "check_children checked by_id [] = Inr ()"
| "check_children checked by_id (t # ts) =
     bindE (case parentTaskId t of None \<Rightarrow> Inr ()
            | Some p \<Rightarrow> bindE (dict_index checked p) (\<lambda>parent. assert_child_narrow parent t by_id))
       (\<lambda>_. check_children checked by_id ts)"

text \<open>\<open>create_run\<close> up to its transaction; \<open>current\<close> is the authority guard's \<open>assert_manifest_current\<close>.\<close>

definition plan_run ::
    "team_contract \<Rightarrow> (team_manifest \<Rightarrow> int \<Rightarrow> unit result) \<Rightarrow> team_record \<Rightarrow> string \<Rightarrow> team_record list \<Rightarrow> int
      \<Rightarrow> (team_manifest \<times> (string \<times> team_task) list) result" where
  "plan_run k current manifest run_id raws observed =
     bindE (validate_record k manifest) (\<lambda>candidate.
       case candidate of
         AgentTeamManifest m \<Rightarrow>
           bindE (current m observed) (\<lambda>_.
           if run_id = [] \<or> raws = [] then team_error ''ECO_TEAM_RUN_INVALID''
           else if int (length raws) > mf_maxTasks m then team_error ''ECO_TEAM_TASK_LIMIT''
           else if th_createdAt m > observed \<or> observed \<ge> mf_deadline m then team_error ''ECO_TEAM_RUN_EXPIRED''
           else bindE (check_tasks k m run_id observed raws []) (\<lambda>checked.
             bindE (assert_acyclic checked) (\<lambda>_.
             bindE (check_children checked (roles_by_id m) (map snd checked)) (\<lambda>_.
             Inr (m, checked)))))
       | _ \<Rightarrow> team_error ''ECO_TEAM_MANIFEST_INVALID'')"

section \<open>A plan only narrows authority\<close>

definition data_rank :: "string \<Rightarrow> nat" where
  "data_rank c = (case map_of DATA_ORDER c of None \<Rightarrow> 0 | Some n \<Rightarrow> n)"

definition task_within :: "team_task \<Rightarrow> team_task \<Rightarrow> bool" where
  "task_within child parent \<longleftrightarrow> tk_action child = tk_action parent
     \<and> data_rank (tk_dataClass child) \<le> data_rank (tk_dataClass parent)
     \<and> (tk_toolId child = None \<or> tk_toolId child = tk_toolId parent) \<and> tk_zone child = tk_zone parent
     \<and> tk_environmentId child = tk_environmentId parent \<and> tk_resource child = tk_resource parent
     \<and> tk_notAfter child \<le> tk_notAfter parent \<and> budget_within (tk_budget child) (tk_budget parent)"

definition task_in_role :: "team_task \<Rightarrow> team_role \<Rightarrow> bool" where
  "task_in_role t role \<longleftrightarrow> tk_action t \<in> set (role_actions role) \<and> tk_dataClass t \<in> set (role_dataClasses role)
     \<and> (\<forall>tool. tk_toolId t = Some tool \<longrightarrow> tool \<in> set (role_toolIds role)) \<and> tk_zone t \<in> set (role_zones role)
     \<and> tk_notAfter t \<le> role_notAfter role \<and> budget_within (tk_budget t) (role_budget role)"

lemma task_within_trans: "task_within a b \<Longrightarrow> task_within b c \<Longrightarrow> task_within a c"
  by (auto simp: task_within_def budget_within_def)

lemma task_in_role_mono: "task_in_role t role \<Longrightarrow> role_narrows role source \<Longrightarrow> task_in_role t source"
  by (auto simp: task_in_role_def role_narrows_def budget_within_def)

lemma assert_task_role_Inr: "assert_task_role t role = Inr u \<longleftrightarrow> task_in_role t role"
  by (auto simp: assert_task_role_def task_in_role_def budget_within_def split: option.splits)

lemma assert_child_narrow_Inr:
  "assert_child_narrow parent child by_id = Inr u \<Longrightarrow> task_within child parent
     \<and> (\<exists>role. map_of by_id (tk_roleId parent) = Some role \<and> tk_roleId child \<in> set (delegatesTo role))"
  by (auto simp: assert_child_narrow_def task_within_def data_rank_def dict_index_def budget_within_def
      split: if_splits option.splits)

definition child_of :: "(string \<times> team_task) list \<Rightarrow> team_task \<Rightarrow> team_task \<Rightarrow> bool" where
  "child_of tasks child parent \<longleftrightarrow> child \<in> snd ` set tasks
     \<and> (\<exists>p. parentTaskId child = Some p \<and> map_of tasks p = Some parent)"

lemma check_children_Inr:
  "check_children checked by_id ts = Inr u \<Longrightarrow> t \<in> set ts \<Longrightarrow> parentTaskId t = Some p \<Longrightarrow>
     \<exists>parent. map_of checked p = Some parent \<and> assert_child_narrow parent t by_id = Inr ()"
  by (induction ts) (auto simp: dict_index_def split: option.splits)

text \<open>What a submitted task satisfies once it is in the dictionary.\<close>

definition planned_task :: "team_contract \<Rightarrow> team_manifest \<Rightarrow> string \<Rightarrow> int \<Rightarrow> string \<times> team_task \<Rightarrow> bool" where
  "planned_task k m run_id observed = (\<lambda>(i, t). i = th_id t \<and> rh_runId t = run_id
     \<and> rh_teamId t = ab_teamId (mf_authority m) \<and> th_projectId t = th_projectId m \<and> th_createdAt t \<le> observed
     \<and> tk_notAfter t \<le> mf_deadline m \<and> validate_record k (TeamTask t) = Inr (TeamTask t)
     \<and> (\<exists>role. map_of (roles_by_id m) (tk_roleId t) = Some role \<and> task_in_role t role))"

lemma check_task_Inr:
  assumes "check_task k m run_id observed raw checked = Inr checked'"
  obtains t where "raw = TeamTask t" "checked' = checked @ [(th_id t, t)]" "map_of checked (th_id t) = None"
    "planned_task k m run_id observed (th_id t, t)"
  using assms
  by (auto simp: check_task_def planned_task_def assert_task_role_Inr dict_set_fresh map_of_eq_None_iff
      split: team_record.splits if_splits option.splits)

lemma check_tasks_Inr:
  assumes "check_tasks k m run_id observed raws checked = Inr checked'"
    and "list_all (planned_task k m run_id observed) checked" and "distinct (map fst checked)"
  shows "list_all (planned_task k m run_id observed) checked' \<and> distinct (map fst checked')
    \<and> map snd checked' = map snd checked @ map (\<lambda>r. case r of TeamTask t \<Rightarrow> t) raws"
  using assms
proof (induction raws arbitrary: checked)
  case (Cons raw raws)
  from Cons.prems(1) obtain mid where mid: "check_task k m run_id observed raw checked = Inr mid"
    and rest: "check_tasks k m run_id observed raws mid = Inr checked'" by auto
  from mid obtain t where "raw = TeamTask t" "mid = checked @ [(th_id t, t)]" "map_of checked (th_id t) = None"
    "planned_task k m run_id observed (th_id t, t)" by (rule check_task_Inr)
  with Cons.IH [OF rest] Cons.prems(2,3) show ?case by (auto simp: map_of_eq_None_iff)
qed simp

lemma plan_run_Inr:
  assumes "plan_run k current manifest run_id raws observed = Inr (m, checked)"
  shows "manifest = AgentTeamManifest m \<and> manifest_errors m = []
    \<and> validate_record k (AgentTeamManifest m) = Inr (AgentTeamManifest m) \<and> current m observed = Inr ()
    \<and> run_id \<noteq> [] \<and> raws \<noteq> [] \<and> int (length raws) \<le> mf_maxTasks m \<and> observed < mf_deadline m
    \<and> check_tasks k m run_id observed raws [] = Inr checked \<and> assert_acyclic checked = Inr ()
    \<and> check_children checked (roles_by_id m) (map snd checked) = Inr ()"
  using assms by (auto simp: plan_run_def split: team_record.splits if_splits)

lemmas plan_run_tasks = check_tasks_Inr [where checked = "[]", simplified]

lemma child_of_within:
  assumes "child_of tasks t a" and "check_children tasks by_id (map snd tasks) = Inr ()"
  shows "task_within t a"
proof -
  from assms(1) obtain p where t: "t \<in> set (map snd tasks)" "parentTaskId t = Some p" "map_of tasks p = Some a"
    by (auto simp: child_of_def)
  from check_children_Inr [OF assms(2) t(1,2)] t(3) have "assert_child_narrow a t by_id = Inr ()" by simp
  then show ?thesis by (blast dest: assert_child_narrow_Inr)
qed

lemma child_of_chain_within:
  "(child_of tasks)\<^sup>+\<^sup>+ t a \<Longrightarrow> check_children tasks by_id (map snd tasks) = Inr () \<Longrightarrow> task_within t a"
  by (induction rule: tranclp_induct) (blast intro: child_of_within task_within_trans)+

text \<open>C27: a run is only created with authority that its manifest has. In an accepted plan every task is
  inside its role and inside every role from which its role descends by delegation, expires before the
  deadline, and has at most the authority (action, data class, tool, zone, environment, resource, lifetime
  and budget) of each of its ancestors; the task graph is complete and has no cycle.\<close>

theorem planned_authority_narrows:
  assumes "plan_run k current manifest run_id raws observed = Inr (m, checked)"
    and "(i, t) \<in> set checked"
  shows "tk_notAfter t \<le> mf_deadline m
     \<and> (\<forall>source role. role_id role = tk_roleId t \<longrightarrow> (delegates m)\<^sup>*\<^sup>* source role \<longrightarrow> role \<in> set (mf_roles m) \<longrightarrow>
          task_in_role t source)
     \<and> (\<exists>role \<in> set (mf_roles m). role_id role = tk_roleId t \<and> task_in_role t role)
     \<and> (\<forall>a. (child_of checked)\<^sup>+\<^sup>+ t a \<longrightarrow> task_within t a)
     \<and> references_resolve checked \<and> acyclic (needs checked)"
proof -
  note p = plan_run_Inr [OF assms(1)]
  then have err: "manifest_errors m = []" by blast
  from p have "list_all (planned_task k m run_id observed) checked" by (blast dest: plan_run_tasks)
  with assms(2) have "planned_task k m run_id observed (i, t)" by (auto simp: list_all_iff)
  then obtain role where role: "map_of (roles_by_id m) (tk_roleId t) = Some role" "task_in_role t role"
    and dl: "tk_notAfter t \<le> mf_deadline m" by (auto simp: planned_task_def)
  have same: "r = role" if "role_id r = tk_roleId t" "r \<in> set (mf_roles m)" for r
    using role(1) roles_by_id_lookup [OF err, of "tk_roleId t" r] that by simp
  have "task_in_role t source"
    if "role_id r = tk_roleId t" "(delegates m)\<^sup>*\<^sup>* source r" "r \<in> set (mf_roles m)" for source r
    using task_in_role_mono [OF role(2)] delegates_chain_narrows [OF that(2) err] same [OF that(1,3)] by simp
  moreover have "\<exists>r \<in> set (mf_roles m). role_id r = tk_roleId t \<and> task_in_role t r"
    using role roles_by_id_lookup [OF err, of "tk_roleId t" role] by blast
  moreover have "task_within t a" if "(child_of checked)\<^sup>+\<^sup>+ t a" for a
    using child_of_chain_within [OF that] p by blast
  moreover have "references_resolve checked \<and> acyclic (needs checked)"
  proof -
    obtain W where "visit_roots checked (sort (map fst checked)) {} = Inr W"
      using p by (auto simp: assert_acyclic_def)
    from visit_roots_settles [OF this] show ?thesis .
  qed
  ultimately show ?thesis using dl by blast
qed

end
