(* ===== verification/Eco_Team_Store.thy ===== *)
theory Eco_Team_Store
  imports Eco_Team_Plan Eco_Route_Consumption
begin

text \<open>
  The database of \<open>TeamCoordinator\<close> in \<open>src/src/eco_teams/runtime.py\<close>: its tables, the authenticated digest of
  their contents, the chain of state events, the trusted clock and the transaction around each operation.
  A table is a dictionary by primary key. A stored document is the record itself; only its text is hashed
  (\<open>team_text\<close>). The clock answers its readings in order; \<open>epoch_us\<close> is the conversion of an instant to the
  stored integer, \<open>from_us\<close> the one back.

  Lemmas: after a write the store verifies, whatever the tables contain, and the event chain binds every
  earlier state (interface \<open>hash_log\<close>).
\<close>

section \<open>Tables\<close>

record team_env = journal_env +
  contract :: team_contract
  epoch_us :: "int \<Rightarrow> int"
  from_us :: "int \<Rightarrow> int"

record manifest_row =
  mr_project_id :: string
  mr_team_id :: string
  mr_digest :: string
  mr_document :: team_manifest

record team_run =
  run_manifest_id :: string
  run_team_id :: string
  run_project_id :: string
  run_state :: run_status
  run_cancel :: bool
  max_tokens :: int
  max_cost :: int
  result_document :: "team_result option"

record task_row =
  task_digest :: string
  document :: team_task
  status :: task_status
  attempt :: int
  worker_digest :: "string option"
  lease_hash :: "string option"
  lease_expires_us :: "int option"
  reserved_tokens :: int
  reserved_cost :: int
  charged_tokens :: int
  charged_cost :: int
  outcome_digest :: "string option"
  task_cancel :: bool

record handoff_row =
  from_task_id :: string
  to_task_id :: string
  artifact_digest :: string
  handoff_digest :: string
  handoff_document :: team_handoff

record store_meta =
  store_id :: string
  store_schema_version :: int
  store_key_id :: string
  store_created_at :: string
  last_observed_us :: int

record state_auth =
  auth_revision :: int
  auth_state_digest :: string
  auth_mac :: string

record state_event =
  ev_revision :: int
  ev_state_digest :: string
  previous_event_digest :: string
  event_digest :: string
  ev_mac :: string

record team_db =
  manifests :: "(string \<times> manifest_row) list"
  runs :: "(string \<times> team_run) list"
  tasks :: "((string \<times> string) \<times> task_row) list"
  handoffs :: "((string \<times> string) \<times> handoff_row) list"
  team_routes :: "(string \<times> string \<times> int) list"
  meta_row :: "store_meta option"
  auth_row :: "state_auth option"
  state_events :: "state_event list"

section \<open>The authenticated state\<close>

fun status_text :: "task_status \<Rightarrow> string" where
  "status_text TPending = ''pending''" | "status_text TLeased = ''leased''"
| "status_text TStarted = ''started''" | "status_text TSucceeded = ''succeeded''"
| "status_text TFailed = ''failed''" | "status_text TCancelled = ''cancelled''"
| "status_text TAmbiguous = ''ambiguous''"

fun run_status_text :: "run_status \<Rightarrow> string" where
  "run_status_text RActive = ''active''" | "run_status_text RCancelling = ''cancelling''"
| "run_status_text RSucceeded = ''succeeded''" | "run_status_text RFailed = ''failed''"
| "run_status_text RPartialFailure = ''partial-failure''" | "run_status_text RCancelled = ''cancelled''"
| "run_status_text RAmbiguous = ''ambiguous''"

definition blob_digest :: "team_env \<Rightarrow> team_record \<Rightarrow> json" where
  "blob_digest env r = JStr (sha env (team_text (contract env) r))"

definition flag :: "bool \<Rightarrow> json" where
  "flag b = JInt (if b then 1 else 0)"

definition json_int_opt :: "int option \<Rightarrow> json" where
  "json_int_opt x = (case x of None \<Rightarrow> JNull | Some i \<Rightarrow> JInt i)"

definition manifest_json :: "team_env \<Rightarrow> string \<times> manifest_row \<Rightarrow> json" where
  "manifest_json env = (\<lambda>(i, r). JObj [(''manifestId'', JStr i), (''projectId'', JStr (mr_project_id r)),
     (''teamId'', JStr (mr_team_id r)), (''digest'', JStr (mr_digest r)),
     (''documentSha256'', blob_digest env (AgentTeamManifest (mr_document r)))])"

definition run_json :: "team_env \<Rightarrow> string \<times> team_run \<Rightarrow> json" where
  "run_json env = (\<lambda>(i, r). JObj [(''runId'', JStr i), (''manifestId'', JStr (run_manifest_id r)),
     (''teamId'', JStr (run_team_id r)), (''projectId'', JStr (run_project_id r)),
     (''status'', JStr (run_status_text (run_state r))), (''cancellationRequested'', flag (run_cancel r)),
     (''maxTokens'', JInt (max_tokens r)), (''maxCost'', JInt (max_cost r)),
     (''resultDocumentSha256'', case result_document r of None \<Rightarrow> JNull
        | Some d \<Rightarrow> blob_digest env (TeamRunResult d))])"

definition task_json :: "team_env \<Rightarrow> (string \<times> string) \<times> task_row \<Rightarrow> json" where
  "task_json env = (\<lambda>((i, t), r). JObj [(''runId'', JStr i), (''taskId'', JStr t), (''digest'', JStr (task_digest r)),
     (''documentSha256'', blob_digest env (TeamTask (document r))), (''status'', JStr (status_text (status r))),
     (''attempt'', JInt (attempt r)), (''workerDigest'', json_opt (worker_digest r)),
     (''leaseHash'', json_opt (lease_hash r)), (''leaseExpiresUs'', json_int_opt (lease_expires_us r)),
     (''reservedTokens'', JInt (reserved_tokens r)), (''reservedCost'', JInt (reserved_cost r)),
     (''chargedTokens'', JInt (charged_tokens r)), (''chargedCost'', JInt (charged_cost r)),
     (''outcomeDigest'', json_opt (outcome_digest r)), (''cancellationRequested'', flag (task_cancel r))])"

definition handoff_json :: "team_env \<Rightarrow> (string \<times> string) \<times> handoff_row \<Rightarrow> json" where
  "handoff_json env = (\<lambda>((i, h), r). JObj [(''runId'', JStr i), (''handoffId'', JStr h),
     (''fromTaskId'', JStr (from_task_id r)), (''toTaskId'', JStr (to_task_id r)),
     (''artifactDigest'', JStr (artifact_digest r)), (''digest'', JStr (handoff_digest r)),
     (''documentSha256'', blob_digest env (TeamHandoff (handoff_document r)))])"

definition route_json :: "string \<times> string \<times> int \<Rightarrow> json" where
  "route_json = (\<lambda>(d, t, at). JObj [(''routeDigest'', JStr d), (''taskDigest'', JStr t), (''consumedAtUs'', JInt at)])"

text \<open>\<open>_state_payload_locked\<close>: every table in key order.\<close>

definition state_payload :: "team_env \<Rightarrow> store_meta \<Rightarrow> team_db \<Rightarrow> json" where
  "state_payload env m d = JObj [(''domain'', JStr ''eco-team-coordinator-state-v1''),
     (''meta'', JObj [(''storeId'', JStr (store_id m)), (''schemaVersion'', JInt (store_schema_version m)),
        (''keyId'', JStr (store_key_id m)), (''createdAt'', JStr (store_created_at m)),
        (''lastObservedUs'', JInt (last_observed_us m))]),
     (''manifests'', JList (map (manifest_json env) (sorted_items (manifests d)))),
     (''runs'', JList (map (run_json env) (sorted_items (runs d)))),
     (''tasks'', JList (map (task_json env) (sorted_items (tasks d)))),
     (''handoffs'', JList (map (handoff_json env) (sorted_items (handoffs d)))),
     (''consumedRoutes'', JList (map route_json (sorted_items (team_routes d))))]"

definition state_digest :: "team_env \<Rightarrow> store_meta \<Rightarrow> team_db \<Rightarrow> string" where
  "state_digest env m d = semantic_digest (sha env) (state_payload env m d)"

definition state_mac :: "team_env \<Rightarrow> int \<Rightarrow> string \<Rightarrow> string" where
  "state_mac env n digest = sign env (JObj [(''domain'', JStr ''eco-team-coordinator-auth-v1''),
     (''keyId'', JStr (key_id env)), (''revision'', JInt n), (''stateDigest'', JStr digest)])"

definition event_mac :: "team_env \<Rightarrow> string \<Rightarrow> string" where
  "event_mac env digest = sign env (JObj [(''domain'', JStr ''eco-team-coordinator-event-auth-v1''),
     (''keyId'', JStr (key_id env)), (''eventDigest'', JStr digest)])"

definition state_event_digest :: "team_env \<Rightarrow> int \<Rightarrow> string \<Rightarrow> string \<Rightarrow> string" where
  "state_event_digest env n digest previous = semantic_digest (sha env)
     (JObj [(''domain'', JStr ''eco-team-coordinator-state-event-v1''), (''revision'', JInt n),
        (''stateDigest'', JStr digest), (''previousEventDigest'', JStr previous)])"

section \<open>Verification and commit\<close>

abbreviation auth_failed :: "'a result" where
  "auth_failed \<equiv> team_error ''ECO_TEAM_STORE_AUTH_FAILED''"

text \<open>The loop of \<open>_verify_event_chain_locked\<close>.\<close>

fun verify_events :: "team_env \<Rightarrow> string \<Rightarrow> int \<Rightarrow> state_event list \<Rightarrow> unit result" where
  "verify_events env previous expected [] = Inr ()"
| "verify_events env previous expected (e # es) =
     (let digest = state_event_digest env expected (ev_state_digest e) previous in
      if ev_revision e \<noteq> expected \<or> previous_event_digest e \<noteq> previous \<or> event_digest e \<noteq> digest
         \<or> ev_mac e \<noteq> event_mac env digest
      then auth_failed else verify_events env digest (expected + 1) es)"

definition verify_event_chain :: "team_env \<Rightarrow> int \<Rightarrow> string \<Rightarrow> state_event list \<Rightarrow> unit result" where
  "verify_event_chain env head_revision head_state_digest es =
     (if int (length es) \<noteq> head_revision + 1 then auth_failed
      else bindE (verify_events env GENESIS_DIGEST 0 es) (\<lambda>_.
        if es = [] \<or> ev_state_digest (last es) \<noteq> head_state_digest then auth_failed else Inr ()))"

definition verify_state :: "team_env \<Rightarrow> int \<Rightarrow> team_db \<Rightarrow> unit result" where
  "verify_state env last_observed d =
     (case (auth_row d, meta_row d) of
        (Some a, Some m) \<Rightarrow>
          if store_key_id m \<noteq> key_id env \<or> store_schema_version m \<noteq> 1 then auth_failed
          else if epoch_us env last_observed < last_observed_us m then team_error ''ECO_TEAM_CLOCK_ROLLBACK''
          else (let digest = state_digest env m d in
            if digest \<noteq> auth_state_digest a \<or> state_mac env (auth_revision a) digest \<noteq> auth_mac a then auth_failed
            else verify_event_chain env (auth_revision a) digest (state_events d))
      | _ \<Rightarrow> auth_failed)"

definition event_head :: "string \<Rightarrow> state_event list \<Rightarrow> string" where
  "event_head previous es = (if es = [] then previous else event_digest (last es))"

text \<open>The rows that \<open>_write_state_auth_locked\<close> writes for revision \<open>n\<close>. A second event with the same revision or
  digest violates a constraint of the table.\<close>

definition write_revision :: "team_env \<Rightarrow> int \<Rightarrow> int \<Rightarrow> store_meta \<Rightarrow> team_db \<Rightarrow> team_db result" where
  "write_revision env last_observed n m0 d =
     (let now = epoch_us env last_observed;
          m = (if last_observed_us m0 \<le> now then m0\<lparr>last_observed_us := now\<rparr> else m0);
          digest = state_digest env m d;
          previous = event_head GENESIS_DIGEST (state_events d);
          event = state_event_digest env n digest previous
      in if n \<in> ev_revision ` set (state_events d) \<or> event \<in> event_digest ` set (state_events d)
         then Inl SqliteIntegrityError
         else Inr (d\<lparr>meta_row := Some m,
             state_events := state_events d @ [\<lparr>ev_revision = n, ev_state_digest = digest,
               previous_event_digest = previous, event_digest = event, ev_mac = event_mac env event\<rparr>],
             auth_row := Some \<lparr>auth_revision = n, auth_state_digest = digest, auth_mac = state_mac env n digest\<rparr>\<rparr>))"

definition write_state_auth :: "team_env \<Rightarrow> bool \<Rightarrow> int \<Rightarrow> team_db \<Rightarrow> team_db result" where
  "write_state_auth env initial last_observed d =
     (if initial \<noteq> (auth_row d = None) then auth_failed
      else (case meta_row d of
              None \<Rightarrow> team_error ''ECO_TEAM_STORE_CORRUPT''
            | Some m \<Rightarrow> write_revision env last_observed
                (case auth_row d of None \<Rightarrow> 0 | Some a \<Rightarrow> auth_revision a + 1) m d))"

section \<open>The coordinator\<close>

record coordinator =
  db :: team_db
  last_observed :: int
  clock :: "nat \<Rightarrow> int"
  ticks :: nat
  seal :: nat

definition observed_time :: "int \<Rightarrow> (int, coordinator) act" where
  "observed_time asserted c =
     (let trusted = clock c (ticks c); c' = c\<lparr>ticks := ticks c + 1\<rparr> in
      if trusted < last_observed c then (team_error ''ECO_TEAM_CLOCK_ROLLBACK'', c')
      else if trusted < asserted then (team_error ''ECO_TEAM_CLOCK_ASSERTION_AHEAD'', c')
      else (Inr trusted, c'\<lparr>last_observed := trusted\<rparr>))"

text \<open>A transaction: the store is verified first, a raise rolls the database back.\<close>

definition transact :: "team_env \<Rightarrow> (int \<Rightarrow> team_db \<Rightarrow> ('a \<times> team_db) result) \<Rightarrow> ('a, coordinator) act" where
  "transact env body c =
     (case bindE (verify_state env (last_observed c) (db c)) (\<lambda>_. body (last_observed c) (db c)) of
        Inl e \<Rightarrow> (Inl e, c)
      | Inr (x, d) \<Rightarrow> (Inr x, c\<lparr>db := d\<rparr>))"

definition commit :: "team_env \<Rightarrow> int \<Rightarrow> 'a \<Rightarrow> team_db \<Rightarrow> ('a \<times> team_db) result" where
  "commit env seen x d = bindE (write_state_auth env False seen d) (\<lambda>d'. Inr (x, d'))"

text \<open>The constructor on a new file and on an existing one; \<open>sid\<close> is the random store id.\<close>

definition empty_db :: team_db where
  "empty_db = \<lparr>manifests = [], runs = [], tasks = [], handoffs = [], team_routes = [], meta_row = None,
     auth_row = None, state_events = []\<rparr>"

definition new_store :: "team_env \<Rightarrow> string \<Rightarrow> int \<Rightarrow> team_db result" where
  "new_store env sid now = write_state_auth env True now
     (empty_db\<lparr>meta_row := Some \<lparr>store_id = sid, store_schema_version = 1, store_key_id = key_id env,
        store_created_at = iso env now, last_observed_us = epoch_us env now\<rparr>\<rparr>)"

definition open_store :: "team_env \<Rightarrow> (nat \<Rightarrow> int) \<Rightarrow> nat \<Rightarrow> team_db \<Rightarrow> coordinator result" where
  "open_store env clk sl d =
     (let now = clk 0 in
      if auth_row d = None then team_error ''ECO_TEAM_STORE_UNAUTHENTICATED''
      else bindE (verify_state env now d) (\<lambda>_.
        case meta_row d of
          None \<Rightarrow> auth_failed
        | Some m \<Rightarrow>
            if now < from_us env (last_observed_us m) then team_error ''ECO_TEAM_CLOCK_ROLLBACK''
            else Inr \<lparr>db = d, last_observed = max now (from_us env (last_observed_us m)), clock = clk, ticks = 1,
                      seal = sl\<rparr>))"

section \<open>Facts\<close>

lemma event_head_simps [simp]:
  "event_head p [] = p" "event_head p (e # es) = event_head (event_digest e) es"
  by (simp_all add: event_head_def)

text \<open>The digest of an event, recomputed from its columns.\<close>

definition event_dig :: "team_env \<Rightarrow> state_event \<Rightarrow> string" where
  "event_dig env e = state_event_digest env (ev_revision e) (ev_state_digest e) (previous_event_digest e)"

lemma verify_events_snoc:
  "verify_events env p n (es @ [e]) = bindE (verify_events env p n es) (\<lambda>_.
     verify_events env (event_head p es) (n + int (length es)) [e])"
proof (induction es arbitrary: p n)
  case (Cons a es)
  show ?case
  proof (cases "verify_events env p n [a]")
    case (Inr u)
    then have "event_digest a = state_event_digest env n (ev_state_digest a) p"
      by (auto simp: Let_def split: if_splits)
    with Inr Cons [of "event_digest a" "n + 1"] show ?thesis
      by (auto simp: Let_def add_ac split: if_splits)
  qed (auto simp: Let_def split: if_splits)
qed simp

lemma verify_events_revisions:
  "verify_events env p n es = Inr u \<Longrightarrow> e \<in> set es \<Longrightarrow> n \<le> ev_revision e \<and> ev_revision e < n + int (length es)"
proof (induction es arbitrary: p n)
  case (Cons a es)
  from Cons.prems(1) have a: "ev_revision a = n"
    and rest: "verify_events env (state_event_digest env n (ev_state_digest a) p) (n + 1) es = Inr u"
    by (auto simp: Let_def split: if_splits)
  show ?case
  proof (cases "e = a")
    case False
    with Cons.IH [OF rest] Cons.prems(2) show ?thesis by auto
  qed (use a in simp)
qed simp

lemma verify_events_linked:
  "verify_events env p n es = Inr u \<Longrightarrow>
     linked (\<lambda>e. Some (previous_event_digest e)) (event_dig env) (Some p) es
     \<and> Some (event_head p es) = chain_head (event_dig env) (Some p) es"
proof (induction es arbitrary: p n)
  case (Cons a es)
  from Cons.prems have a: "ev_revision a = n" "previous_event_digest a = p" "event_digest a = event_dig env a"
    and rest: "verify_events env (event_dig env a) (n + 1) es = Inr u"
    by (auto simp: Let_def event_dig_def split: if_splits)
  from Cons.IH [OF rest] a show ?case by auto
qed simp

lemma verify_stateE:
  assumes "verify_state env seen d = Inr u"
  obtains a m where "auth_row d = Some a" "meta_row d = Some m" "store_key_id m = key_id env"
    "store_schema_version m = 1" "last_observed_us m \<le> epoch_us env seen"
    "auth_state_digest a = state_digest env m d" "auth_mac a = state_mac env (auth_revision a) (state_digest env m d)"
    "int (length (state_events d)) = auth_revision a + 1"
    "verify_events env GENESIS_DIGEST 0 (state_events d) = Inr ()"
    "state_events d \<noteq> []" "ev_state_digest (last (state_events d)) = state_digest env m d"
  using assms
  by (auto simp: verify_state_def verify_event_chain_def Let_def split: option.splits if_splits)

lemma verify_stateI:
  assumes "auth_row d = Some a" "meta_row d = Some m" "store_key_id m = key_id env"
    "store_schema_version m = 1" "last_observed_us m \<le> epoch_us env seen"
    "auth_state_digest a = state_digest env m d" "auth_mac a = state_mac env (auth_revision a) (state_digest env m d)"
    "int (length (state_events d)) = auth_revision a + 1"
    "verify_events env GENESIS_DIGEST 0 (state_events d) = Inr ()"
    "state_events d \<noteq> []" "ev_state_digest (last (state_events d)) = state_digest env m d"
  shows "verify_state env seen d = Inr ()"
  using assms by (simp add: verify_state_def verify_event_chain_def)

lemma verify_state_later:
  assumes "verify_state env seen d = Inr u" and "mono (epoch_us env)" and "seen \<le> seen'"
  shows "verify_state env seen' d = Inr ()"
proof -
  have "epoch_us env seen \<le> epoch_us env seen'" using assms(2,3) by (rule monoD)
  with assms(1) show ?thesis by (elim verify_stateE, intro verify_stateI) (assumption | simp)+
qed

text \<open>The operations change the other tables only; what they write verifies.\<close>

definition same_log :: "team_db \<Rightarrow> team_db \<Rightarrow> bool" where
  "same_log d e \<longleftrightarrow> meta_row d = meta_row e \<and> auth_row d = auth_row e \<and> state_events d = state_events e"

definition same_tables :: "team_db \<Rightarrow> team_db \<Rightarrow> bool" where
  "same_tables d e \<longleftrightarrow> manifests d = manifests e \<and> runs d = runs e \<and> tasks d = tasks e \<and> handoffs d = handoffs e
     \<and> team_routes d = team_routes e"

lemma state_digest_log [simp]:
  "state_digest env m (meta_row_update f d) = state_digest env m d"
  "state_digest env m (auth_row_update g d) = state_digest env m d"
  "state_digest env m (state_events_update h d) = state_digest env m d"
  by (simp_all add: state_digest_def state_payload_def)

lemma write_revision_Inr:
  assumes "write_revision env seen n m0 d = Inr d'"
  obtains m digest event where
    "m = (if last_observed_us m0 \<le> epoch_us env seen then m0\<lparr>last_observed_us := epoch_us env seen\<rparr> else m0)"
    "digest = state_digest env m d" "event = state_event_digest env n digest (event_head GENESIS_DIGEST (state_events d))"
    "d' = d\<lparr>meta_row := Some m, state_events := state_events d @ [\<lparr>ev_revision = n, ev_state_digest = digest,
        previous_event_digest = event_head GENESIS_DIGEST (state_events d), event_digest = event,
        ev_mac = event_mac env event\<rparr>],
      auth_row := Some \<lparr>auth_revision = n, auth_state_digest = digest, auth_mac = state_mac env n digest\<rparr>\<rparr>"
  using assms unfolding write_revision_def Let_def by (auto split: if_splits)

lemma write_revision_verifies:
  assumes w: "write_revision env seen n m0 d = Inr d'"
    and m0: "store_key_id m0 = key_id env" "store_schema_version m0 = 1" "last_observed_us m0 \<le> epoch_us env seen"
    and n: "int (length (state_events d)) = n" "verify_events env GENESIS_DIGEST 0 (state_events d) = Inr ()"
  shows "verify_state env seen d' = Inr () \<and> same_tables d' d"
  using w
proof (rule write_revision_Inr)
  fix m digest event
  assume m: "m = (if last_observed_us m0 \<le> epoch_us env seen then m0\<lparr>last_observed_us := epoch_us env seen\<rparr> else m0)"
    and digest: "digest = state_digest env m d"
    and event: "event = state_event_digest env n digest (event_head GENESIS_DIGEST (state_events d))"
    and d': "d' = d\<lparr>meta_row := Some m, state_events := state_events d @ [\<lparr>ev_revision = n, ev_state_digest = digest,
        previous_event_digest = event_head GENESIS_DIGEST (state_events d), event_digest = event,
        ev_mac = event_mac env event\<rparr>],
      auth_row := Some \<lparr>auth_revision = n, auth_state_digest = digest, auth_mac = state_mac env n digest\<rparr>\<rparr>"
  have st: "same_tables d' d" by (simp add: same_tables_def d')
  have "verify_state env seen d' = Inr ()"
    by (rule verify_stateI [where a = "\<lparr>auth_revision = n, auth_state_digest = digest, auth_mac = state_mac env n digest\<rparr>"
          and m = m])
      (use m0 n m event in \<open>simp_all add: d' digest verify_events_snoc\<close>)
  with st show ?thesis by simp
qed

lemma commit_verifies:
  assumes c: "commit env seen x d = Inr (y, d')" and v: "verify_state env seen d0 = Inr u" and s: "same_log d d0"
  shows "y = x \<and> verify_state env seen d' = Inr () \<and> same_tables d' d"
  using v
proof (rule verify_stateE)
  fix a m
  assume a: "auth_row d0 = Some a" and m: "meta_row d0 = Some m" "store_key_id m = key_id env"
    "store_schema_version m = 1" "last_observed_us m \<le> epoch_us env seen"
    and n: "int (length (state_events d0)) = auth_revision a + 1"
    "verify_events env GENESIS_DIGEST 0 (state_events d0) = Inr ()"
  from c a m(1) s have "y = x" "write_revision env seen (auth_revision a + 1) m d = Inr d'"
    by (auto simp: commit_def write_state_auth_def same_log_def split: if_splits)
  with write_revision_verifies [OF this(2) m(2,3,4)] n s show ?thesis by (simp add: same_log_def)
qed

text \<open>With a hash that does not collide a commit always goes through.\<close>

lemma state_event_digest_revision:
  assumes "inj (sha env)" and "state_event_digest env n a p = state_event_digest env m b q"
  shows "n = m"
  using semantic_digest_field [OF assms(2) [unfolded state_event_digest_def] assms(1), of "''revision''" "JInt n" "JInt m"]
  by simp

lemma verify_events_digests:
  "verify_events env p n es = Inr u \<Longrightarrow> e \<in> set es \<Longrightarrow>
     \<exists>q. event_digest e = state_event_digest env (ev_revision e) (ev_state_digest e) q"
  by (induction es arbitrary: p n) (auto simp: Let_def split: if_splits)

lemma commit_total:
  assumes inj: "inj (sha env)" and v: "verify_state env seen d0 = Inr u" and s: "same_log d d0"
  shows "\<exists>d'. commit env seen x d = Inr (x, d') \<and> verify_state env seen d' = Inr () \<and> same_tables d' d"
  using v
proof (rule verify_stateE)
  fix a m
  assume a: "auth_row d0 = Some a" "meta_row d0 = Some m"
    and n: "int (length (state_events d0)) = auth_revision a + 1"
      "verify_events env GENESIS_DIGEST 0 (state_events d0) = Inr ()"
  have below: "ev_revision e \<noteq> auth_revision a + 1" if "e \<in> set (state_events d0)" for e
    using verify_events_revisions [OF n(2) that] n(1) by simp
  have "state_event_digest env (auth_revision a + 1) digest q \<notin> event_digest ` set (state_events d0)" for digest q
  proof
    assume "state_event_digest env (auth_revision a + 1) digest q \<in> event_digest ` set (state_events d0)"
    then obtain e where e: "e \<in> set (state_events d0)"
      "event_digest e = state_event_digest env (auth_revision a + 1) digest q" by auto
    with verify_events_digests [OF n(2) e(1)] state_event_digest_revision [OF inj] below [OF e(1)] show False by metis
  qed
  moreover have "auth_revision a + 1 \<notin> ev_revision ` set (state_events d0)" using below by (metis imageE)
  ultimately obtain d' where "write_revision env seen (auth_revision a + 1) m d = Inr d'"
    using s by (auto simp: write_revision_def same_log_def Let_def)
  with s a have "commit env seen x d = Inr (x, d')" by (simp add: commit_def write_state_auth_def same_log_def)
  with commit_verifies [OF this v s] show ?thesis by blast
qed

lemma new_store_verifies:
  assumes "new_store env sid now = Inr d"
  shows "verify_state env now d = Inr () \<and> same_tables d empty_db"
proof -
  let ?m = "\<lparr>store_id = sid, store_schema_version = 1, store_key_id = key_id env,
        store_created_at = iso env now, last_observed_us = epoch_us env now\<rparr>"
  have "write_revision env now 0 ?m (empty_db\<lparr>meta_row := Some ?m\<rparr>) = Inr d"
    using assms by (simp add: new_store_def write_state_auth_def empty_db_def)
  from write_revision_verifies [OF this] show ?thesis by (simp add: same_tables_def empty_db_def)
qed

interpretation team_log: hash_log "\<lambda>d. \<exists>seen. verify_state env seen d = Inr ()" state_events
    "\<lambda>d. Some (event_head GENESIS_DIGEST (state_events d))" "\<lambda>e. Some (previous_event_digest e)" "event_dig env"
    "Some GENESIS_DIGEST"
  for env :: team_env
  by unfold_locales (auto elim!: verify_stateE dest: verify_events_linked)

end
