(* ===== verification/Eco_Team_Runtime.thy ===== *)
theory Eco_Team_Runtime
  imports Eco_Team_Store
begin

text \<open>
  The operations of \<open>TeamCoordinator\<close> in \<open>src/src/eco_teams/runtime.py\<close>: creating a run, leasing a task,
  authorizing, starting and completing its effect, expiry, cancellation, handoffs and the final result.
  Each takes the coordinator to its result and the coordinator after it; an operation that raises may
  still have advanced the observed time. The authority guard, the execution authorizer and the trusted
  digests are the arguments collected in \<open>team_gates\<close>; a lease token is the argument \<open>token\<close>.
\<close>

section \<open>Arguments and results\<close>

record model_subject =
  ms_runId :: string
  ms_deploymentId :: string
  ms_deploymentIdentityDigest :: string
  ms_dataClass :: string
  ms_artifactRecordDigest :: string
  ms_maxOutputTokens :: int

text \<open>The evidence mapping; an absent entry, or one of another kind, is \<open>None\<close> (both raise the same error).\<close>

record team_evidence =
  ev_routeDecision :: "route_decision option"
  ev_routeRequest :: "route_request option"
  ev_runtimeSubject :: "model_subject option"
  ev_rest :: json

record team_gates =
  routing_k :: routing_contract
  subject_valid :: "model_subject \<Rightarrow> bool"
  trusted_route_decision_digests :: "string set"
  trusted_route_policy_digests :: "string set"
  trusted_price_catalog_digests :: "string set"
  assert_manifest_current :: "team_manifest \<Rightarrow> int \<Rightarrow> unit result"
  assert_claim_current :: "team_manifest \<Rightarrow> team_task \<Rightarrow> obj \<Rightarrow> int \<Rightarrow> json result"
  authorize :: "team_manifest \<Rightarrow> team_task \<Rightarrow> obj \<Rightarrow> team_evidence \<Rightarrow> int \<Rightarrow> obj result"
  assert_current :: "team_manifest \<Rightarrow> team_task \<Rightarrow> obj \<Rightarrow> team_evidence \<Rightarrow> obj \<Rightarrow> int \<Rightarrow> unit result"

record lease_claim =
  cl_run_id :: string
  cl_task_id :: string
  cl_task_digest :: string
  cl_worker_digest :: string
  lease_token :: string
  lease_expires_at :: int
  cl_attempt :: int

record execution_authorization =
  au_run_id :: string
  au_task_id :: string
  au_task_digest :: string
  au_claim_digest :: string
  authorization :: obj
  au_evidence :: team_evidence
  au_expires_at :: int
  au_seal :: nat

record task_effect_result =
  res_status :: task_status
  res_outcome_digest :: string
  used_tokens :: int
  used_cost_microusd :: int

definition effect_result_ok :: "task_effect_result \<Rightarrow> bool" where
  "effect_result_ok r = (res_status r \<in> {TSucceeded, TFailed} \<and> sha256_text (res_outcome_digest r)
     \<and> 0 \<le> used_tokens r \<and> 0 \<le> used_cost_microusd r)"

text \<open>The constructor of \<open>TaskEffectResult\<close>.\<close>

definition new_effect_result :: "task_status \<Rightarrow> string \<Rightarrow> int \<Rightarrow> int \<Rightarrow> task_effect_result result" where
  "new_effect_result s digest tokens microusd =
     (let r = \<lparr>res_status = s, res_outcome_digest = digest, used_tokens = tokens, used_cost_microusd = microusd\<rparr> in
      if effect_result_ok r then Inr r else Inl PyValueError)"

definition binding_digest :: "team_env \<Rightarrow> obj \<Rightarrow> string" where
  "binding_digest env worker = semantic_digest (sha env)
     (JObj [(''profile'', JStr ''eco-team-worker-binding-v1''), (''binding'', JObj worker)])"

definition claim_hash :: "team_env \<Rightarrow> string \<Rightarrow> string" where
  "claim_hash env token = sha env (''eco-team-lease-v1'' @ CHR 0x00 # token)"

definition claim_digest :: "team_env \<Rightarrow> lease_claim \<Rightarrow> string" where
  "claim_digest env c = semantic_digest (sha env)
     (JObj [(''domain'', JStr ''eco-team-lease-claim-v1''), (''runId'', JStr (cl_run_id c)),
        (''taskId'', JStr (cl_task_id c)), (''taskDigest'', JStr (cl_task_digest c)),
        (''workerDigest'', JStr (cl_worker_digest c)), (''leaseTokenHash'', JStr (claim_hash env (lease_token c))),
        (''leaseExpiresAt'', JStr (iso env (lease_expires_at c))), (''attempt'', JInt (cl_attempt c))])"

definition action_class :: "string \<Rightarrow> string result" where
  "action_class a = (case map_of ACTION_PROFILE a of None \<Rightarrow> team_error ''ECO_TEAM_ACTION_UNSUPPORTED''
     | Some p \<Rightarrow> Inr (fst p))"

section \<open>Rows\<close>

text \<open>\<open>UPDATE ... WHERE key AND condition\<close>: \<open>None\<close> when no row changed.\<close>

definition update_where :: "'k \<Rightarrow> ('v \<Rightarrow> bool) \<Rightarrow> ('v \<Rightarrow> 'v) \<Rightarrow> ('k \<times> 'v) list \<Rightarrow> ('k \<times> 'v) list option" where
  "update_where k P f d = (case map_of d k of None \<Rightarrow> None
     | Some r \<Rightarrow> if P r then Some (dict_set k (f r) d) else None)"

definition update_all :: "('k \<Rightarrow> bool) \<Rightarrow> ('v \<Rightarrow> 'v) \<Rightarrow> ('k \<times> 'v) list \<Rightarrow> ('k \<times> 'v) list" where
  "update_all P f d = map (\<lambda>(k, r). (k, if P k then f r else r)) d"

definition run_context :: "team_env \<Rightarrow> team_db \<Rightarrow> string \<Rightarrow> (team_run \<times> team_manifest) result" where
  "run_context env d i =
     (case map_of (runs d) i of
        None \<Rightarrow> team_error ''ECO_TEAM_RUN_UNKNOWN''
      | Some r \<Rightarrow>
          (case map_of (manifests d) (run_manifest_id r) of
             None \<Rightarrow> team_error ''ECO_TEAM_RUN_UNKNOWN''
           | Some m \<Rightarrow>
               (case validate_record (contract env) (AgentTeamManifest (mr_document m)) of
                  Inl _ \<Rightarrow> team_error ''ECO_TEAM_STORE_CORRUPT''
                | Inr _ \<Rightarrow> Inr (r, mr_document m))))"

definition task_document :: "team_env \<Rightarrow> task_row \<Rightarrow> team_task result" where
  "task_document env row = bindE (validate_record (contract env) (TeamTask (document row))) (\<lambda>_. Inr (document row))"

definition assert_claim :: "team_env \<Rightarrow> task_status set \<Rightarrow> lease_claim \<Rightarrow> team_db \<Rightarrow> task_row result" where
  "assert_claim env allowed c d =
     (case map_of (tasks d) (cl_run_id c, cl_task_id c) of
        None \<Rightarrow> team_error ''ECO_TEAM_CLAIM_INVALID''
      | Some row \<Rightarrow>
          if task_digest row \<noteq> cl_task_digest c \<or> worker_digest row \<noteq> Some (cl_worker_digest c)
             \<or> lease_hash row \<noteq> Some (claim_hash env (lease_token c))
             \<or> lease_expires_us row \<noteq> Some (epoch_us env (lease_expires_at c)) \<or> attempt row \<noteq> cl_attempt c
             \<or> status row \<notin> allowed
          then team_error ''ECO_TEAM_CLAIM_INVALID'' else Inr row)"

definition find_handoff :: "team_db \<Rightarrow> string \<Rightarrow> string \<Rightarrow> string \<Rightarrow> handoff_row option" where
  "find_handoff d i source target = map_option snd
     (find (\<lambda>(k, h). fst k = i \<and> from_task_id h = source \<and> to_task_id h = target) (handoffs d))"

definition dependency_ready :: "team_db \<Rightarrow> team_task \<Rightarrow> string \<Rightarrow> bool" where
  "dependency_ready d t dep =
     ((case map_of (tasks d) (rh_runId t, dep) of None \<Rightarrow> False | Some row \<Rightarrow> status row = TSucceeded)
      \<and> (case find_handoff d (rh_runId t) dep (th_id t) of None \<Rightarrow> False
         | Some h \<Rightarrow> artifact_digest h = b_digest (tk_input t)))"

definition dependencies_ready :: "team_db \<Rightarrow> team_task \<Rightarrow> bool" where
  "dependencies_ready d t = list_all (dependency_ready d t) (dependencies t)"

definition run_tasks :: "team_db \<Rightarrow> string \<Rightarrow> ((string \<times> string) \<times> task_row) list" where
  "run_tasks d i = filter (\<lambda>(k, r). fst k = i) (tasks d)"

definition usage_tokens :: "team_db \<Rightarrow> string \<Rightarrow> int" where
  "usage_tokens d i = sum_list (map (\<lambda>(k, r). reserved_tokens r + charged_tokens r) (run_tasks d i))"

definition usage_cost :: "team_db \<Rightarrow> string \<Rightarrow> int" where
  "usage_cost d i = sum_list (map (\<lambda>(k, r). reserved_cost r + charged_cost r) (run_tasks d i))"

text \<open>A started task that ends without a trusted usage is charged its whole reservation.\<close>

definition charge_reservation :: "task_status \<Rightarrow> task_row \<Rightarrow> task_row" where
  "charge_reservation s r = r\<lparr>status := s, charged_tokens := reserved_tokens r, charged_cost := reserved_cost r,
     reserved_tokens := 0, reserved_cost := 0\<rparr>"

definition release_lease :: "task_row \<Rightarrow> task_row" where
  "release_lease r = r\<lparr>status := TPending, worker_digest := None, lease_hash := None, lease_expires_us := None,
     reserved_tokens := 0, reserved_cost := 0\<rparr>"

definition lease_expired :: "int \<Rightarrow> task_row \<Rightarrow> bool" where
  "lease_expired now_us r = (case lease_expires_us r of None \<Rightarrow> False | Some e \<Rightarrow> e \<le> now_us)"

definition expire_row :: "int \<Rightarrow> task_row \<Rightarrow> task_row" where
  "expire_row now_us r =
     (if status r = TStarted \<and> lease_expired now_us r then charge_reservation TAmbiguous r
      else if status r = TLeased \<and> lease_expired now_us r then release_lease r
      else r)"

definition expire_locked :: "team_env \<Rightarrow> string \<Rightarrow> int \<Rightarrow> team_db \<Rightarrow> team_db" where
  "expire_locked env i now d = d\<lparr>tasks := update_all (\<lambda>k. fst k = i) (expire_row (epoch_us env now)) (tasks d)\<rparr>"

definition expired_count :: "team_env \<Rightarrow> string \<Rightarrow> int \<Rightarrow> team_db \<Rightarrow> nat" where
  "expired_count env i now d =
     length (filter (\<lambda>(k, r). status r = TStarted \<and> lease_expired (epoch_us env now) r) (run_tasks d i))"

section \<open>Runs\<close>

definition new_task_row :: "team_task \<Rightarrow> task_row" where
  "new_task_row t = \<lparr>task_digest = th_recordDigest t, document = t, status = TPending, attempt = 0, worker_digest = None,
     lease_hash = None, lease_expires_us = None, reserved_tokens = 0, reserved_cost = 0, charged_tokens = 0,
     charged_cost = 0, outcome_digest = None, task_cancel = False\<rparr>"

text \<open>\<open>INSERT OR IGNORE\<close> of the manifest: ignored when its id or its digest is stored already.\<close>

definition insert_manifest :: "team_manifest \<Rightarrow> team_db \<Rightarrow> team_db" where
  "insert_manifest m d =
     (if map_of (manifests d) (th_id m) \<noteq> None \<or> th_recordDigest m \<in> (mr_digest \<circ> snd) ` set (manifests d) then d
      else d\<lparr>manifests := manifests d @ [(th_id m, \<lparr>mr_project_id = th_projectId m,
             mr_team_id = ab_teamId (mf_authority m), mr_digest = th_recordDigest m, mr_document = m\<rparr>)]\<rparr>)"

text \<open>The inserts of the tasks in id order; a duplicate key or digest is an integrity error.\<close>

fun insert_tasks :: "string \<Rightarrow> (string \<times> team_task) list \<Rightarrow> team_db \<Rightarrow> team_db result" where
  "insert_tasks i [] d = Inr d"
| "insert_tasks i ((tid, t) # ts) d =
     (if map_of (tasks d) (i, tid) \<noteq> None \<or> th_recordDigest t \<in> (task_digest \<circ> snd) ` set (tasks d)
      then Inl SqliteIntegrityError
      else insert_tasks i ts (d\<lparr>tasks := tasks d @ [((i, tid), new_task_row t)]\<rparr>))"

definition new_run_row :: "team_manifest \<Rightarrow> team_run" where
  "new_run_row m = \<lparr>run_manifest_id = th_id m, run_team_id = ab_teamId (mf_authority m),
     run_project_id = th_projectId m, run_state = RActive, run_cancel = False, max_tokens = mf_maxTotalTokens m,
     max_cost = mf_maxCostMicrousd m, result_document = None\<rparr>"

definition insert_run :: "team_manifest \<Rightarrow> string \<Rightarrow> (string \<times> team_task) list \<Rightarrow> team_db \<Rightarrow> team_db result" where
  "insert_run m i checked d =
     (let d1 = insert_manifest m d in
      if (case map_of (manifests d1) (th_id m) of None \<Rightarrow> True | Some r \<Rightarrow> mr_digest r \<noteq> th_recordDigest m)
      then team_error ''ECO_TEAM_MANIFEST_CONFLICT''
      else if map_of (runs d1) i \<noteq> None then Inl SqliteIntegrityError
      else insert_tasks i (sorted_items checked)
        (d1\<lparr>runs := runs d1 @ [(i, new_run_row m)]\<rparr>))"

definition on_integrity :: "string \<Rightarrow> 'a result \<Rightarrow> 'a result" where
  "on_integrity code r = (case r of Inl SqliteIntegrityError \<Rightarrow> team_error code | _ \<Rightarrow> r)"

definition run_digest :: "team_env \<Rightarrow> team_manifest \<Rightarrow> string \<Rightarrow> (string \<times> team_task) list \<Rightarrow> string" where
  "run_digest env m i checked = semantic_digest (sha env)
     (JObj [(''domain'', JStr ''eco-team-run-v1''), (''manifest'', JStr (th_recordDigest m)), (''runId'', JStr i),
        (''tasks'', JList (map JStr (sort (map (th_recordDigest \<circ> snd) checked))))])"

definition create_run ::
    "team_env \<Rightarrow> team_gates \<Rightarrow> team_record \<Rightarrow> string \<Rightarrow> team_record list \<Rightarrow> int \<Rightarrow> (string, coordinator) act" where
  "create_run env g manifest i raws now =
     bindA (observed_time now) (\<lambda>observed.
     case plan_run (contract env) (assert_manifest_current g) manifest i raws observed of
       Inl e \<Rightarrow> raiseA e
     | Inr (m, checked) \<Rightarrow>
         transact env (\<lambda>seen d. on_integrity ''ECO_TEAM_RUN_CONFLICT''
           (bindE (insert_run m i checked d) (commit env seen (run_digest env m i checked)))))"

section \<open>Leases\<close>

definition grant_lease :: "team_env \<Rightarrow> team_task \<Rightarrow> obj \<Rightarrow> string \<Rightarrow> int \<Rightarrow> task_row \<Rightarrow> task_row" where
  "grant_lease env t worker token expires r = r\<lparr>status := TLeased, attempt := attempt r + 1,
     worker_digest := Some (binding_digest env worker), lease_hash := Some (claim_hash env token),
     lease_expires_us := Some (epoch_us env expires), reserved_tokens := tb_maxTokens (tk_budget t),
     reserved_cost := tb_maxCostMicrousd (tk_budget t)\<rparr>"

definition claim_locked ::
    "team_env \<Rightarrow> team_gates \<Rightarrow> string \<Rightarrow> string \<Rightarrow> obj \<Rightarrow> int \<Rightarrow> int \<Rightarrow> string \<Rightarrow> team_db
      \<Rightarrow> (lease_claim \<times> team_db) result" where
  "claim_locked env g i tid worker observed lease_seconds token d0 =
     bindE (run_context env d0 i) (\<lambda>(run, m).
     let d = expire_locked env i observed d0 in
     if run_state run \<noteq> RActive \<or> run_cancel run then team_error ''ECO_TEAM_RUN_NOT_ACTIVE''
     else case map_of (tasks d) (i, tid) of
       None \<Rightarrow> team_error ''ECO_TEAM_TASK_UNKNOWN''
     | Some row \<Rightarrow>
         if status row \<noteq> TPending then team_error ''ECO_TEAM_TASK_NOT_CLAIMABLE''
         else bindE (task_document env row) (\<lambda>t.
           if observed \<ge> tk_notAfter t then team_error ''ECO_TEAM_TASK_EXPIRED''
           else if \<not> dependencies_ready d t then team_error ''ECO_TEAM_DEPENDENCIES_INCOMPLETE''
           else bindE (assert_claim_current g m t worker observed) (\<lambda>_.
             if usage_tokens d i + tb_maxTokens (tk_budget t) > max_tokens run
                \<or> usage_cost d i + tb_maxCostMicrousd (tk_budget t) > max_cost run
             then team_error ''ECO_TEAM_AGGREGATE_BUDGET_EXCEEDED''
             else (let expires = min (observed + lease_seconds * 1000000) (min (tk_notAfter t) (mf_deadline m)) in
               case update_where (i, tid) (\<lambda>r. status r = TPending) (grant_lease env t worker token expires) (tasks d) of
                 None \<Rightarrow> team_error ''ECO_TEAM_CLAIM_RACE''
               | Some ts \<Rightarrow> Inr (\<lparr>cl_run_id = i, cl_task_id = tid, cl_task_digest = th_recordDigest t,
                     cl_worker_digest = binding_digest env worker, lease_token = token, lease_expires_at = expires,
                     cl_attempt = attempt row + 1\<rparr>, d\<lparr>tasks := ts\<rparr>)))))"

definition claim_task ::
    "team_env \<Rightarrow> team_gates \<Rightarrow> string \<Rightarrow> string \<Rightarrow> obj \<Rightarrow> int \<Rightarrow> int \<Rightarrow> string \<Rightarrow> (lease_claim, coordinator) act" where
  "claim_task env g i tid worker now lease_seconds token =
     bindA (observed_time now) (\<lambda>observed.
     if \<not> (1 \<le> lease_seconds \<and> lease_seconds \<le> 3600) then raiseA (TeamRuntimeError ''ECO_TEAM_LEASE_INVALID'')
     else transact env (\<lambda>seen d.
       bindE (claim_locked env g i tid worker observed lease_seconds token d) (\<lambda>(claim, d').
       commit env seen claim d')))"

definition SKIPPED_CODES :: "string set" where
  "SKIPPED_CODES = {''ECO_TEAM_WORKER_UNBOUND'', ''ECO_TEAM_DEPENDENCIES_INCOMPLETE'', ''ECO_TEAM_TASK_NOT_CLAIMABLE''}"

fun claim_each ::
    "team_env \<Rightarrow> team_gates \<Rightarrow> string \<Rightarrow> obj \<Rightarrow> int \<Rightarrow> int \<Rightarrow> string \<Rightarrow> py_error \<Rightarrow> string list
      \<Rightarrow> (lease_claim, coordinator) act" where
  "claim_each env g i worker now lease_seconds token final [] c = (Inl final, c)"
| "claim_each env g i worker now lease_seconds token final (tid # tids) c =
     (case claim_task env g i tid worker now lease_seconds token c of
        (Inl (TeamRuntimeError code), c') \<Rightarrow>
          if code \<in> SKIPPED_CODES
          then claim_each env g i worker now lease_seconds token (TeamRuntimeError code) tids c'
          else (team_error code, c')
      | (Inl e, c') \<Rightarrow> (Inl e, c')
      | (Inr claim, c') \<Rightarrow> (Inr claim, c'))"

definition claim_next ::
    "team_env \<Rightarrow> team_gates \<Rightarrow> string \<Rightarrow> obj \<Rightarrow> int \<Rightarrow> int \<Rightarrow> string \<Rightarrow> (lease_claim, coordinator) act" where
  "claim_next env g i worker now lease_seconds token c =
     (case verify_state env (last_observed c) (db c) of
        Inl e \<Rightarrow> (Inl e, c)
      | Inr _ \<Rightarrow>
          claim_each env g i worker now lease_seconds token (TeamRuntimeError ''ECO_TEAM_NO_CLAIMABLE_TASK'')
            (map (snd \<circ> fst) (filter (\<lambda>(k, r). status r = TPending) (sorted_items (run_tasks (db c) i)))) c)"

section \<open>Effects\<close>

definition route_mismatch ::
    "team_gates \<Rightarrow> team_task \<Rightarrow> binding \<Rightarrow> route_decision \<Rightarrow> selected_route \<Rightarrow> route_request \<Rightarrow> model_subject \<Rightarrow> int
      \<Rightarrow> bool" where
  "route_mismatch g t b dec sel req subject now =
     (b \<noteq> \<lparr>b_kind = ''ModelRouteDecision'', b_id = rec_id dec, b_digest = recordDigest dec\<rparr>
      \<or> decision dec \<noteq> ''allowed''
      \<or> recordDigest dec \<notin> trusted_route_decision_digests g
      \<or> dec_requestDigest dec \<noteq> recordDigest req
      \<or> dec_policyDigest dec \<noteq> req_policyDigest req
      \<or> dec_policyDigest dec \<notin> trusted_route_policy_digests g
      \<or> dec_priceCatalogDigest dec \<notin> trusted_price_catalog_digests g
      \<or> now \<ge> dec_validUntil dec
      \<or> now \<ge> deadlineAt req
      \<or> deadlineAt req \<noteq> tk_notAfter t
      \<or> action_class (tk_action t) \<noteq> Inr (actionClass req)
      \<or> dataClass req \<noteq> tk_dataClass t
      \<or> tk_zone t \<notin> set (req_allowedZones req)
      \<or> maximumCostMicrousd req \<noteq> tb_maxCostMicrousd (tk_budget t)
      \<or> reservedCostMicrousd sel > maximumCostMicrousd req
      \<or> sel_deploymentId sel \<noteq> b_id (tk_resource t)
      \<or> sel_deploymentIdentityDigest sel \<noteq> b_digest (tk_resource t)
      \<or> ms_runId subject \<noteq> rh_runId t
      \<or> ms_deploymentId subject \<noteq> sel_deploymentId sel
      \<or> ms_deploymentIdentityDigest subject \<noteq> sel_deploymentIdentityDigest sel
      \<or> ms_dataClass subject \<noteq> tk_dataClass t
      \<or> ms_artifactRecordDigest subject \<noteq> b_digest (tk_input t)
      \<or> ms_maxOutputTokens subject > outputTokenCeiling req)"

definition validate_route ::
    "team_gates \<Rightarrow> team_db \<Rightarrow> team_task \<Rightarrow> team_evidence \<Rightarrow> int \<Rightarrow> route_decision option result" where
  "validate_route g d t evidence now =
     (case tk_routeDecision t of
        None \<Rightarrow> if tk_action t = ''model.invoke'' then team_error ''ECO_TEAM_ROUTE_REQUIRED'' else Inr None
      | Some b \<Rightarrow>
          if tk_action t \<noteq> ''model.invoke'' then team_error ''ECO_TEAM_ROUTE_INVALID''
          else (case (ev_routeDecision evidence, ev_routeRequest evidence, ev_runtimeSubject evidence) of
                  (Some dec, Some req, Some subject) \<Rightarrow>
                    if validate_decision (routing_k g) dec \<noteq> Inr dec \<or> validate_request (routing_k g) req \<noteq> Inr req
                       \<or> \<not> subject_valid g subject
                    then team_error ''ECO_TEAM_ROUTE_INVALID''
                    else (case selected dec of
                            None \<Rightarrow> team_error ''ECO_TEAM_ROUTE_BINDING_MISMATCH''
                          | Some sel \<Rightarrow>
                              if route_mismatch g t b dec sel req subject now
                              then team_error ''ECO_TEAM_ROUTE_BINDING_MISMATCH''
                              else if routeAttempt dec = 2 \<and> (case fallbackFromDigest dec of None \<Rightarrow> True
                                     | Some p \<Rightarrow> map_of (team_routes d) p = None)
                              then team_error ''ECO_TEAM_FALLBACK_PREDECESSOR_MISSING''
                              else Inr (Some dec))
                | _ \<Rightarrow> team_error ''ECO_TEAM_ROUTE_INVALID''))"

definition authorize_locked ::
    "team_env \<Rightarrow> team_gates \<Rightarrow> lease_claim \<Rightarrow> obj \<Rightarrow> team_evidence \<Rightarrow> int \<Rightarrow> team_db \<Rightarrow> obj result" where
  "authorize_locked env g claim worker evidence observed d =
     bindE (assert_claim env {TLeased} claim d) (\<lambda>row.
     bindE (run_context env d (cl_run_id claim)) (\<lambda>(run, m).
     bindE (task_document env row) (\<lambda>t.
     bindE (validate_route g d t evidence observed) (\<lambda>_.
     bindE (assert_claim_current g m t worker observed) (\<lambda>narrowing.
     bindE (authorize g m t worker evidence observed) (\<lambda>a.
       if jget a ''effect'' \<noteq> JStr ''allow'' \<or> jget a ''taskDigest'' \<noteq> JStr (cl_task_digest claim)
          \<or> \<not> is_JStr narrowing
       then team_error ''ECO_TEAM_EXECUTION_AUTHORITY_INVALID'' else Inr a))))))"

definition authorize_effect ::
    "team_env \<Rightarrow> team_gates \<Rightarrow> lease_claim \<Rightarrow> obj \<Rightarrow> team_evidence \<Rightarrow> int
      \<Rightarrow> (execution_authorization, coordinator) act" where
  "authorize_effect env g claim worker evidence now =
     bindA (observed_time now) (\<lambda>observed.
     if binding_digest env worker \<noteq> cl_worker_digest claim \<or> observed \<ge> lease_expires_at claim
     then raiseA (TeamRuntimeError ''ECO_TEAM_CLAIM_INVALID'')
     else bindA (transact env (\<lambda>seen d.
            bindE (authorize_locked env g claim worker evidence observed d) (\<lambda>a. commit env seen a d)))
       (\<lambda>a c. (Inr \<lparr>au_run_id = cl_run_id claim, au_task_id = cl_task_id claim,
          au_task_digest = cl_task_digest claim, au_claim_digest = claim_digest env claim, authorization = a,
          au_evidence = evidence, au_expires_at = lease_expires_at claim, au_seal = seal c\<rparr>, c)))"

definition consume_task_route :: "team_env \<Rightarrow> team_task \<Rightarrow> route_decision option \<Rightarrow> int \<Rightarrow> team_db \<Rightarrow> team_db result" where
  "consume_task_route env t dec observed d =
     (case tk_routeDecision t of
        None \<Rightarrow> Inr d
      | Some b \<Rightarrow>
          if dec = None then team_error ''ECO_TEAM_ROUTE_INVALID''
          else if map_of (team_routes d) (b_digest b) \<noteq> None
               \<or> th_recordDigest t \<in> (fst \<circ> snd) ` set (team_routes d)
          then team_error ''ECO_TEAM_ROUTE_ALREADY_CONSUMED''
          else Inr (d\<lparr>team_routes := team_routes d @ [(b_digest b, th_recordDigest t, epoch_us env observed)]\<rparr>))"

definition start_locked ::
    "team_env \<Rightarrow> team_gates \<Rightarrow> lease_claim \<Rightarrow> execution_authorization \<Rightarrow> obj \<Rightarrow> int \<Rightarrow> team_db \<Rightarrow> team_db result" where
  "start_locked env g claim auth worker observed d =
     bindE (assert_claim env {TLeased} claim d) (\<lambda>row.
     bindE (run_context env d (cl_run_id claim)) (\<lambda>(run, m).
     bindE (task_document env row) (\<lambda>t.
     if run_cancel run \<or> task_cancel row then team_error ''ECO_TEAM_CANCELLED''
     else bindE (assert_claim_current g m t worker observed) (\<lambda>_.
     bindE (assert_current g m t worker (au_evidence auth) (authorization auth) observed) (\<lambda>_.
     bindE (validate_route g d t (au_evidence auth) observed) (\<lambda>dec.
     bindE (consume_task_route env t dec observed d) (\<lambda>d'.
     case update_where (cl_run_id claim, cl_task_id claim) (\<lambda>r. status r = TLeased) (\<lambda>r. r\<lparr>status := TStarted\<rparr>)
            (tasks d') of
       None \<Rightarrow> team_error ''ECO_TEAM_EFFECT_ALREADY_STARTED''
     | Some ts \<Rightarrow> Inr (d'\<lparr>tasks := ts\<rparr>))))))))"

definition start_effect ::
    "team_env \<Rightarrow> team_gates \<Rightarrow> lease_claim \<Rightarrow> execution_authorization \<Rightarrow> obj \<Rightarrow> int \<Rightarrow> (unit, coordinator) act" where
  "start_effect env g claim auth worker now =
     bindA (observed_time now) (\<lambda>observed c.
     if au_seal auth \<noteq> seal c \<or> au_run_id auth \<noteq> cl_run_id claim \<or> au_task_id auth \<noteq> cl_task_id claim
        \<or> au_task_digest auth \<noteq> cl_task_digest claim \<or> au_claim_digest auth \<noteq> claim_digest env claim
        \<or> au_expires_at auth \<noteq> lease_expires_at claim \<or> binding_digest env worker \<noteq> cl_worker_digest claim
        \<or> observed \<ge> lease_expires_at claim
     then (team_error ''ECO_TEAM_EXECUTION_AUTHORITY_INVALID'', c)
     else transact env (\<lambda>seen d.
       bindE (start_locked env g claim auth worker observed d) (\<lambda>d'. commit env seen () d')) c)"

text \<open>\<open>task_state\<close> returns the row.\<close>

definition task_state :: "team_env \<Rightarrow> string \<Rightarrow> string \<Rightarrow> (task_row, coordinator) act" where
  "task_state env i tid c =
     (case verify_state env (last_observed c) (db c) of
        Inl e \<Rightarrow> (Inl e, c)
      | Inr _ \<Rightarrow> (case map_of (tasks (db c)) (i, tid) of None \<Rightarrow> (team_error ''ECO_TEAM_TASK_UNKNOWN'', c)
          | Some row \<Rightarrow> (Inr row, c)))"

definition expire_leases :: "team_env \<Rightarrow> string \<Rightarrow> int \<Rightarrow> (nat, coordinator) act" where
  "expire_leases env i now =
     bindA (observed_time now) (\<lambda>observed.
     transact env (\<lambda>seen d. bindE (run_context env d i) (\<lambda>_.
       commit env seen (expired_count env i observed d) (expire_locked env i observed d))))"

definition complete_row :: "task_effect_result \<Rightarrow> task_row \<Rightarrow> task_row" where
  "complete_row res r = r\<lparr>status := res_status res, outcome_digest := Some (res_outcome_digest res),
     charged_tokens := used_tokens res, charged_cost := used_cost_microusd res, reserved_tokens := 0,
     reserved_cost := 0\<rparr>"

definition set_task :: "lease_claim \<Rightarrow> task_row \<Rightarrow> team_db \<Rightarrow> team_db" where
  "set_task claim r d = d\<lparr>tasks := dict_set (cl_run_id claim, cl_task_id claim) r (tasks d)\<rparr>"

text \<open>The transaction of \<open>complete_effect\<close>: \<open>None\<close> when the same outcome was recorded before.\<close>

definition complete_locked ::
    "team_env \<Rightarrow> lease_claim \<Rightarrow> task_effect_result \<Rightarrow> team_db \<Rightarrow> team_db option result" where
  "complete_locked env claim res d =
     (case map_of (tasks d) (cl_run_id claim, cl_task_id claim) of
        None \<Rightarrow> team_error ''ECO_TEAM_CLAIM_INVALID''
      | Some row \<Rightarrow>
          if task_digest row \<noteq> cl_task_digest claim then team_error ''ECO_TEAM_CLAIM_INVALID''
          else if status row \<in> {TSucceeded, TFailed}
          then if status row = res_status res \<and> outcome_digest row = Some (res_outcome_digest res)
                  \<and> charged_tokens row = used_tokens res \<and> charged_cost row = used_cost_microusd res
               then Inr None else team_error ''ECO_TEAM_TERMINAL_CONFLICT''
          else bindE (assert_claim env {TLeased, TStarted} claim d) (\<lambda>row.
            if status row \<noteq> TStarted then team_error ''ECO_TEAM_EFFECT_NOT_STARTED''
            else if used_tokens res > reserved_tokens row \<or> used_cost_microusd res > reserved_cost row
            then team_error ''ECO_TEAM_TASK_BUDGET_EXCEEDED''
            else Inr (Some (set_task claim (complete_row res row) d))))"

definition complete_effect ::
    "team_env \<Rightarrow> lease_claim \<Rightarrow> task_effect_result \<Rightarrow> int \<Rightarrow> (task_row, coordinator) act" where
  "complete_effect env claim res now =
     bindA (observed_time now) (\<lambda>observed.
     bindA (if observed \<ge> lease_expires_at claim
            then bindA (expire_leases env (cl_run_id claim) observed) (\<lambda>_. returnA ()) else returnA ()) (\<lambda>_.
     bindA (transact env (\<lambda>seen d. bindE (complete_locked env claim res d) (\<lambda>r.
              case r of None \<Rightarrow> Inr ((), d) | Some d' \<Rightarrow> commit env seen () d'))) (\<lambda>_.
     task_state env (cl_run_id claim) (cl_task_id claim))))"

definition ambiguous_locked :: "team_env \<Rightarrow> lease_claim \<Rightarrow> team_db \<Rightarrow> team_db result" where
  "ambiguous_locked env claim d =
     bindE (assert_claim env {TLeased, TStarted} claim d) (\<lambda>row.
       if status row \<noteq> TStarted then team_error ''ECO_TEAM_EFFECT_NOT_STARTED''
       else Inr (set_task claim (charge_reservation TAmbiguous row) d))"

definition mark_ambiguous :: "team_env \<Rightarrow> lease_claim \<Rightarrow> int \<Rightarrow> (task_row, coordinator) act" where
  "mark_ambiguous env claim now =
     bindA (observed_time now) (\<lambda>_.
     bindA (transact env (\<lambda>seen d. bindE (ambiguous_locked env claim d) (\<lambda>d'. commit env seen () d'))) (\<lambda>_.
     task_state env (cl_run_id claim) (cl_task_id claim)))"

text \<open>\<open>operation\<close> is the guarded call of the worker's code, which may itself use the coordinator; it answers
  \<open>None\<close> when what it returned is not a \<open>TaskEffectResult\<close>.\<close>

definition execute_claimed ::
    "team_env \<Rightarrow> team_gates \<Rightarrow> lease_claim \<Rightarrow> execution_authorization \<Rightarrow> obj
      \<Rightarrow> (int \<Rightarrow> (task_effect_result option, coordinator) act) \<Rightarrow> int \<Rightarrow> (task_row, coordinator) act" where
  "execute_claimed env g claim auth worker operation now =
     bindA (start_effect env g claim auth worker now) (\<lambda>_ c.
     case bindA (observed_time now) operation c of
       (Inr (Some res), c') \<Rightarrow> complete_effect env claim res now c'
     | (Inr None, c') \<Rightarrow>
         bindA (mark_ambiguous env claim now)
           (\<lambda>_. raiseA (TeamRuntimeError ''ECO_TEAM_EFFECT_RESULT_INVALID'')) c'
     | (Inl e, c') \<Rightarrow> bindA (mark_ambiguous env claim now) (\<lambda>_. raiseA e) c')"

section \<open>Cancellation\<close>

definition cancel_row :: "task_row \<Rightarrow> task_row" where
  "cancel_row r =
     (if status r \<in> {TPending, TLeased}
      then r\<lparr>status := TCancelled, reserved_tokens := 0, reserved_cost := 0, task_cancel := True\<rparr>
      else if status r = TStarted then r\<lparr>task_cancel := True\<rparr> else r)"

definition cancel_locked :: "team_env \<Rightarrow> string \<Rightarrow> team_db \<Rightarrow> team_db result" where
  "cancel_locked env i d =
     bindE (run_context env d i) (\<lambda>(run, m).
       if run_state run \<noteq> RActive then team_error ''ECO_TEAM_RUN_NOT_ACTIVE''
       else Inr (d\<lparr>runs := dict_set i (run\<lparr>run_cancel := True, run_state := RCancelling\<rparr>) (runs d),
                   tasks := update_all (\<lambda>k. fst k = i) cancel_row (tasks d)\<rparr>))"

definition cancel_run :: "team_env \<Rightarrow> string \<Rightarrow> int \<Rightarrow> (unit, coordinator) act" where
  "cancel_run env i now =
     bindA (observed_time now) (\<lambda>_.
     transact env (\<lambda>seen d. bindE (cancel_locked env i d) (\<lambda>d'. commit env seen () d')))"

definition cancellation_requested :: "team_env \<Rightarrow> lease_claim \<Rightarrow> (bool, coordinator) act" where
  "cancellation_requested env claim c =
     (case verify_state env (last_observed c) (db c) of
        Inl e \<Rightarrow> (Inl e, c)
      | Inr _ \<Rightarrow> (case map_of (tasks (db c)) (cl_run_id claim, cl_task_id claim) of
          None \<Rightarrow> (team_error ''ECO_TEAM_TASK_UNKNOWN'', c) | Some row \<Rightarrow> (Inr (task_cancel row), c)))"

definition acknowledge_locked :: "team_env \<Rightarrow> lease_claim \<Rightarrow> team_db \<Rightarrow> team_db result" where
  "acknowledge_locked env claim d =
     bindE (assert_claim env {TLeased, TStarted} claim d) (\<lambda>row.
       if status row \<noteq> TStarted \<or> \<not> task_cancel row then team_error ''ECO_TEAM_CANCELLATION_NOT_PENDING''
       else Inr (set_task claim (charge_reservation TCancelled row) d))"

definition acknowledge_cancellation :: "team_env \<Rightarrow> lease_claim \<Rightarrow> int \<Rightarrow> (unit, coordinator) act" where
  "acknowledge_cancellation env claim now =
     bindA (observed_time now) (\<lambda>_.
     transact env (\<lambda>seen d. bindE (acknowledge_locked env claim d) (\<lambda>d'. commit env seen () d')))"

section \<open>Handoffs and results\<close>

definition handoff_locked :: "team_env \<Rightarrow> team_handoff \<Rightarrow> team_db \<Rightarrow> team_db option result" where
  "handoff_locked env h d =
     bindE (run_context env d (rh_runId h)) (\<lambda>(run, m).
     if rh_teamId h \<noteq> run_team_id run \<or> th_projectId h \<noteq> run_project_id run
     then team_error ''ECO_TEAM_HANDOFF_BINDING_MISMATCH''
     else case (map_of (tasks d) (rh_runId h, fromTaskId h), map_of (tasks d) (rh_runId h, toTaskId h)) of
       (Some source_row, Some target_row) \<Rightarrow>
         bindE (task_document env source_row) (\<lambda>source.
         bindE (task_document env target_row) (\<lambda>target.
         if status source_row \<noteq> TSucceeded \<or> status target_row \<noteq> TPending \<or> fromRoleId h \<noteq> tk_roleId source
            \<or> toRoleId h \<noteq> tk_roleId target \<or> fromTaskId h \<notin> set (dependencies target)
            \<or> ho_artifact h \<noteq> tk_input target
         then team_error ''ECO_TEAM_HANDOFF_SUBSTITUTION''
         else (case find_handoff d (rh_runId h) (fromTaskId h) (toTaskId h) of
                 Some r \<Rightarrow> if handoff_digest r = th_recordDigest h then Inr None
                           else team_error ''ECO_TEAM_HANDOFF_CONFLICT''
               | None \<Rightarrow>
                   if map_of (handoffs d) (rh_runId h, th_id h) \<noteq> None
                      \<or> th_recordDigest h \<in> (handoff_digest \<circ> snd) ` set (handoffs d)
                   then Inl SqliteIntegrityError
                   else Inr (Some (d\<lparr>handoffs := handoffs d @ [((rh_runId h, th_id h),
                     \<lparr>from_task_id = fromTaskId h, to_task_id = toTaskId h, artifact_digest = b_digest (ho_artifact h),
                      handoff_digest = th_recordDigest h, handoff_document = h\<rparr>)]\<rparr>)))))
     | _ \<Rightarrow> team_error ''ECO_TEAM_HANDOFF_TASK_UNKNOWN'')"

definition record_handoff :: "team_env \<Rightarrow> team_record \<Rightarrow> (string, coordinator) act" where
  "record_handoff env r =
     (case validate_record (contract env) r of
        Inl e \<Rightarrow> raiseA e
      | Inr (TeamHandoff h) \<Rightarrow>
          transact env (\<lambda>seen d. on_integrity ''ECO_TEAM_HANDOFF_CONFLICT''
            (bindE (handoff_locked env h d) (\<lambda>x.
               case x of None \<Rightarrow> Inr (th_recordDigest h, d) | Some d' \<Rightarrow> commit env seen (th_recordDigest h) d')))
      | Inr _ \<Rightarrow> raiseA (TeamRuntimeError ''ECO_TEAM_HANDOFF_INVALID''))"

definition TERMINAL :: "task_status set" where
  "TERMINAL = {TSucceeded, TFailed, TCancelled, TAmbiguous}"

definition summary_of :: "(string \<times> string) \<times> task_row \<Rightarrow> task_summary" where
  "summary_of = (\<lambda>(k, r). \<lparr>ts_id = snd k, ts_status = status r, ts_outcomeDigest = outcome_digest r,
     ts_chargedTokens = charged_tokens r, ts_chargedCostMicrousd = charged_cost r\<rparr>)"

text \<open>The result of a finished run; its timestamp has whole seconds.\<close>

definition run_result ::
    "team_env \<Rightarrow> string \<Rightarrow> string \<Rightarrow> int \<Rightarrow> team_run \<Rightarrow> ((string \<times> string) \<times> task_row) list \<Rightarrow> team_result" where
  "run_result env i result_id observed run rows = seal_result (contract env)
     \<lparr>th_id = result_id, th_projectId = run_project_id run, th_createdAt = observed div 1000000 * 1000000,
      th_recordDigest = GENESIS_DIGEST, rh_teamId = run_team_id run, rh_runId = i,
      rs_status = summarize (map (status \<circ> snd) rows), rs_cancellationRequested = run_cancel run,
      rs_tasks = map summary_of rows, rs_tokens = sum_list (map (charged_tokens \<circ> snd) rows),
      rs_costMicrousd = sum_list (map (charged_cost \<circ> snd) rows)\<rparr>"

definition finalize_locked ::
    "team_env \<Rightarrow> string \<Rightarrow> string \<Rightarrow> int \<Rightarrow> team_db \<Rightarrow> (team_result \<times> team_db option) result" where
  "finalize_locked env i result_id observed d =
     bindE (run_context env d i) (\<lambda>(run, m).
     case result_document run of
       Some result \<Rightarrow>
         bindE (validate_record (contract env) (TeamRunResult result)) (\<lambda>_.
           if th_id result \<noteq> result_id then team_error ''ECO_TEAM_RESULT_CONFLICT'' else Inr (result, None))
     | None \<Rightarrow>
         (let rows = sorted_items (run_tasks d i) in
          if rows = [] \<or> list_ex (\<lambda>(k, r). status r \<notin> TERMINAL) rows then team_error ''ECO_TEAM_RUN_INCOMPLETE''
          else (let result = run_result env i result_id observed run rows in
            bindE (validate_record (contract env) (TeamRunResult result)) (\<lambda>_.
            case update_where i (\<lambda>r. result_document r = None)
                   (\<lambda>r. r\<lparr>run_state := rs_status result, result_document := Some result\<rparr>) (runs d) of
              None \<Rightarrow> team_error ''ECO_TEAM_RESULT_RACE''
            | Some rs \<Rightarrow> Inr (result, Some (d\<lparr>runs := rs\<rparr>))))))"

definition finalize_run :: "team_env \<Rightarrow> string \<Rightarrow> string \<Rightarrow> int \<Rightarrow> (team_result, coordinator) act" where
  "finalize_run env i result_id now =
     bindA (observed_time now) (\<lambda>observed.
     transact env (\<lambda>seen d. bindE (finalize_locked env i result_id observed d) (\<lambda>(result, x).
       case x of None \<Rightarrow> Inr (result, d) | Some d' \<Rightarrow> commit env seen result d')))"

end
