(* ===== verification/Eco_Team_Safety.thy ===== *)
theory Eco_Team_Safety
  imports Eco_Team_Runtime
begin

text \<open>
  What the team coordinator guarantees. Every operation keeps the invariant of the tables and moves each
  task along its lifecycle (interface \<open>act_logic\<close>); the operations in any order, with any guards, clocks and
  evidence, are the steps of \<open>team_step\<close>.

  The theorems: the store always verifies, a run never spends more than its budget, a started effect is
  never leased or started again, a route is used by one task, a lease needs finished dependencies, and
  the final result says what happened.
\<close>

section \<open>The lifecycle of a task\<close>

definition LIFECYCLE :: "(task_status \<times> task_status) set" where
  "LIFECYCLE = {(TPending, TLeased), (TPending, TCancelled), (TLeased, TPending), (TLeased, TStarted),
     (TLeased, TCancelled), (TStarted, TStarted), (TStarted, TSucceeded), (TStarted, TFailed),
     (TStarted, TCancelled), (TStarted, TAmbiguous)}"

definition row_next :: "task_row \<Rightarrow> task_row \<Rightarrow> bool" where
  "row_next r r' \<longleftrightarrow> document r' = document r \<and> task_digest r' = task_digest r
     \<and> (r' = r \<or> ((status r, status r') \<in> LIFECYCLE \<and> (status r = TStarted \<longrightarrow> attempt r' = attempt r)))"

definition rows_advance :: "team_db \<Rightarrow> team_db \<Rightarrow> bool" where
  "rows_advance d d' \<longleftrightarrow> (\<forall>k r. map_of (tasks d) k = Some r \<longrightarrow> (\<exists>r'. map_of (tasks d') k = Some r' \<and> row_next\<^sup>*\<^sup>* r r'))"

lemma row_next_refl [simp]: "row_next r r"
  by (simp add: row_next_def)

lemma row_next_terminal: "row_next r r' \<Longrightarrow> status r \<in> TERMINAL \<Longrightarrow> r' = r"
  by (auto simp: row_next_def LIFECYCLE_def TERMINAL_def)

lemma row_path_terminal: "row_next\<^sup>*\<^sup>* r r' \<Longrightarrow> status r \<in> TERMINAL \<Longrightarrow> r' = r"
  by (induction rule: rtranclp_induct) (auto dest: row_next_terminal)

lemma row_path_started:
  "row_next\<^sup>*\<^sup>* r r' \<Longrightarrow> status r = TStarted \<Longrightarrow> status r' \<in> insert TStarted TERMINAL \<and> attempt r' = attempt r"
proof (induction rule: rtranclp_induct)
  case (step y z)
  show ?case
  proof (cases "status y \<in> TERMINAL")
    case True
    with step row_next_terminal [OF step(2)] show ?thesis by auto
  next
    case False
    with step have "status y = TStarted" by auto
    with step show ?thesis by (auto simp: row_next_def LIFECYCLE_def TERMINAL_def)
  qed
qed simp

lemma row_path_document: "row_next\<^sup>*\<^sup>* r r' \<Longrightarrow> document r' = document r \<and> task_digest r' = task_digest r"
  by (induction rule: rtranclp_induct) (auto simp: row_next_def)

lemma rows_advance_refl [simp]: "rows_advance d d"
  by (auto simp: rows_advance_def)

lemma rows_advance_trans:
  assumes "rows_advance d e" and "rows_advance e f"
  shows "rows_advance d f"
  unfolding rows_advance_def
proof (intro allI impI)
  fix k r
  assume "map_of (tasks d) k = Some r"
  with assms(1) obtain s where s: "map_of (tasks e) k = Some s" "row_next\<^sup>*\<^sup>* r s"
    unfolding rows_advance_def by blast
  with assms(2) obtain t where "map_of (tasks f) k = Some t" "row_next\<^sup>*\<^sup>* s t"
    unfolding rows_advance_def by blast
  with s(2) show "\<exists>t. map_of (tasks f) k = Some t \<and> row_next\<^sup>*\<^sup>* r t" by (blast intro: rtranclp_trans)
qed

section \<open>The invariant\<close>

definition money_ok :: "task_row \<Rightarrow> bool" where
  "money_ok r \<longleftrightarrow>
     (case status r of
        TPending \<Rightarrow> reserved_tokens r = 0 \<and> reserved_cost r = 0 \<and> charged_tokens r = 0 \<and> charged_cost r = 0
      | TLeased \<Rightarrow> reserved_tokens r = tb_maxTokens (tk_budget (document r))
          \<and> reserved_cost r = tb_maxCostMicrousd (tk_budget (document r)) \<and> charged_tokens r = 0 \<and> charged_cost r = 0
      | TStarted \<Rightarrow> reserved_tokens r = tb_maxTokens (tk_budget (document r))
          \<and> reserved_cost r = tb_maxCostMicrousd (tk_budget (document r)) \<and> charged_tokens r = 0 \<and> charged_cost r = 0
      | _ \<Rightarrow> reserved_tokens r = 0 \<and> reserved_cost r = 0 \<and> 0 \<le> charged_tokens r \<and> 0 \<le> charged_cost r
          \<and> charged_tokens r \<le> tb_maxTokens (tk_budget (document r))
          \<and> charged_cost r \<le> tb_maxCostMicrousd (tk_budget (document r)))
     \<and> (status r \<in> {TSucceeded, TFailed} \<longrightarrow> outcome_digest r \<noteq> None)
     \<and> 0 \<le> tb_maxTokens (tk_budget (document r)) \<and> 0 \<le> tb_maxCostMicrousd (tk_budget (document r))"

definition doc_ok :: "team_env \<Rightarrow> string \<times> string \<Rightarrow> task_row \<Rightarrow> bool" where
  "doc_ok env k r \<longleftrightarrow> task_digest r = th_recordDigest (document r) \<and> k = (rh_runId (document r), th_id (document r))
     \<and> validate_record (contract env) (TeamTask (document r)) = Inr (TeamTask (document r))"

text \<open>The effect of the task was started, and may have happened.\<close>

definition crossed :: "task_row \<Rightarrow> bool" where
  "crossed r \<longleftrightarrow> status r \<in> {TStarted, TSucceeded, TFailed, TAmbiguous}"

definition route_ok :: "(string \<times> string \<times> int) list \<Rightarrow> task_row \<Rightarrow> bool" where
  "route_ok routes r \<longleftrightarrow> (crossed r \<longrightarrow> (\<forall>b. tk_routeDecision (document r) = Some b \<longrightarrow>
     (\<exists>at. (b_digest b, task_digest r, at) \<in> set routes)))"

definition row_ok :: "team_env \<Rightarrow> (string \<times> string \<times> int) list \<Rightarrow> string \<times> string \<Rightarrow> task_row \<Rightarrow> bool" where
  "row_ok env routes k r \<longleftrightarrow> doc_ok env k r \<and> money_ok r \<and> route_ok routes r"

text \<open>A stored result still describes the rows of its run.\<close>

definition result_ok :: "team_env \<Rightarrow> team_db \<Rightarrow> string \<Rightarrow> team_run \<Rightarrow> bool" where
  "result_ok env d i run \<longleftrightarrow> (\<forall>res. result_document run = Some res \<longrightarrow>
     (\<forall>(k, r) \<in> set (run_tasks d i). status r \<in> TERMINAL) \<and> result_errors res = []
     \<and> th_recordDigest res = record_digest (contract env) (TeamRunResult res) \<and> team_schema (contract env) (TeamRunResult res)
     \<and> rs_tasks res = map summary_of (sorted_items (run_tasks d i)))"

definition run_ok :: "team_env \<Rightarrow> team_db \<Rightarrow> string \<Rightarrow> team_run \<Rightarrow> bool" where
  "run_ok env d i run \<longleftrightarrow> usage_tokens d i \<le> max_tokens run \<and> usage_cost d i \<le> max_cost run \<and> result_ok env d i run
     \<and> (\<exists>m. run_context env d i = Inr (run, m))"

definition tables_ok :: "team_env \<Rightarrow> team_db \<Rightarrow> bool" where
  "tables_ok env d \<longleftrightarrow> distinct (map fst (tasks d)) \<and> distinct (map (task_digest \<circ> snd) (tasks d))
     \<and> distinct (map fst (team_routes d))
     \<and> (\<forall>(i, row) \<in> set (manifests d).
          validate_record (contract env) (AgentTeamManifest (mr_document row)) = Inr (AgentTeamManifest (mr_document row)))
     \<and> (\<forall>(k, r) \<in> set (tasks d). row_ok env (team_routes d) k r \<and> map_of (runs d) (fst k) \<noteq> None)
     \<and> (\<forall>i run. map_of (runs d) i = Some run \<longrightarrow> run_ok env d i run)"

definition co_inv :: "team_env \<Rightarrow> coordinator \<Rightarrow> bool" where
  "co_inv env c \<longleftrightarrow> verify_state env (last_observed c) (db c) = Inr () \<and> tables_ok env (db c)"

interpretation team: act_logic "co_inv env" "\<lambda>c c'. rows_advance (db c) (db c')" for env
  by unfold_locales (auto intro: rows_advance_trans)

section \<open>Updates of rows\<close>

lemma keys_update_all [simp]: "map fst (update_all P f d) = map fst d"
  by (induction d) (auto simp: update_all_def)

lemma map_of_update_all: "map_of (update_all P f d) k = map_option (\<lambda>r. if P k then f r else r) (map_of d k)"
  by (induction d) (auto simp: update_all_def)

lemma update_all_single:
  assumes "distinct (map fst d)" and "map_of d k = Some r"
  shows "dict_set k (f r) d = update_all (\<lambda>x. x = k) f d"
  using assms
proof (induction d)
  case (Cons a d)
  show ?case
  proof (cases "fst a = k")
    case True
    then have "update_all (\<lambda>x. x = k) f d = d" using Cons.prems(1)
      by (auto simp: update_all_def image_iff intro!: map_idI)
    with True Cons.prems show ?thesis by (cases a) (auto simp: dict_set_def update_all_def)
  next
    case False
    with Cons show ?thesis by (cases a) (auto simp: dict_set_def update_all_def)
  qed
qed simp

lemma update_where_single:
  assumes "update_where k P f d = Some d'" and "distinct (map fst d)"
  shows "\<exists>r. map_of d k = Some r \<and> P r \<and> d' = update_all (\<lambda>x. x = k) f d"
  using assms update_all_single [OF assms(2)] by (auto simp: update_where_def split: option.splits if_splits)

lemma digests_update_all:
  "(\<And>k r. (k, r) \<in> set d \<Longrightarrow> task_digest (f r) = task_digest r) \<Longrightarrow>
     map (task_digest \<circ> snd) (update_all P f d) = map (task_digest \<circ> snd) d"
  by (auto simp: update_all_def)

lemma run_tasks_update_all:
  "run_tasks (d\<lparr>tasks := update_all P f (tasks d)\<rparr>) i = update_all P f (run_tasks d i)"
  by (auto simp: run_tasks_def update_all_def filter_map o_def case_prod_unfold)

lemma sum_update_all_le:
  "(\<And>k r. (k, r) \<in> set d \<Longrightarrow> P k \<Longrightarrow> (h :: task_row \<Rightarrow> int) (f r) \<le> h r) \<Longrightarrow>
     sum_list (map (\<lambda>(k, r). h r) (update_all P f d)) \<le> sum_list (map (\<lambda>(k, r). h r) d)"
  by (auto simp: update_all_def o_def case_prod_unfold intro!: sum_list_mono)

lemma sum_update_single:
  assumes "distinct (map fst d)"
  shows "sum_list (map (\<lambda>(k, r). (h :: task_row \<Rightarrow> int) r) (update_all (\<lambda>x. x = k) f d))
     = sum_list (map (\<lambda>(k, r). h r) d) + (case map_of d k of None \<Rightarrow> 0 | Some r \<Rightarrow> h (f r) - h r)"
  using assms
proof (induction d)
  case (Cons a d)
  have "map_of d (fst a) = None" using Cons.prems by (simp add: map_of_eq_None_iff)
  with Cons show ?case by (cases a) (auto simp: update_all_def split: option.splits)
qed (simp add: update_all_def)

lemma map_of_run_tasks: "map_of (run_tasks d i) k = (if fst k = i then map_of (tasks d) k else None)"
proof -
  have "map_of (filter (\<lambda>(k, r). fst k = i) ts) k = (if fst k = i then map_of ts k else None)"
    for ts :: "((string \<times> string) \<times> task_row) list"
    by (induction ts) auto
  then show ?thesis by (simp add: run_tasks_def)
qed

lemma distinct_run_tasks: "distinct (map fst (tasks d)) \<Longrightarrow> distinct (map fst (run_tasks d i))"
  by (simp add: run_tasks_def distinct_map_filter)

lemma update_all_id: "(\<And>k r. (k, r) \<in> set d \<Longrightarrow> P k \<Longrightarrow> f r = r) \<Longrightarrow> update_all P f d = d"
  by (auto simp: update_all_def intro!: map_idI)

lemma run_context_simps [simp]:
  "run_context env (tasks_update f d) i = run_context env d i"
  "run_context env (handoffs_update g d) i = run_context env d i"
  "run_context env (team_routes_update h d) i = run_context env d i"
  by (simp_all add: run_context_def cong: option.case_cong)

lemma run_tasks_simps [simp]:
  "run_tasks (runs_update f d) i = run_tasks d i" "run_tasks (handoffs_update g d) i = run_tasks d i"
  "run_tasks (team_routes_update h d) i = run_tasks d i"
  by (simp_all add: run_tasks_def)

lemma usage_simps [simp]:
  "usage_tokens (runs_update f d) i = usage_tokens d i" "usage_cost (runs_update f d) i = usage_cost d i"
  "usage_tokens (handoffs_update g d) i = usage_tokens d i" "usage_cost (handoffs_update g d) i = usage_cost d i"
  "usage_tokens (team_routes_update h d) i = usage_tokens d i" "usage_cost (team_routes_update h d) i = usage_cost d i"
  by (simp_all add: usage_tokens_def usage_cost_def)

lemma result_ok_cong: "run_tasks d' i = run_tasks d i \<Longrightarrow> result_ok env d i run \<Longrightarrow> result_ok env d' i run"
  by (simp add: result_ok_def)

lemma tables_okD:
  assumes "tables_ok env d"
  shows "distinct (map fst (tasks d))" and "distinct (map (task_digest \<circ> snd) (tasks d))"
    and "distinct (map fst (team_routes d))"
    and "(k, r) \<in> set (tasks d) \<Longrightarrow> row_ok env (team_routes d) k r"
    and "map_of (tasks d) k = Some r \<Longrightarrow> row_ok env (team_routes d) k r"
    and "(k, r) \<in> set (tasks d) \<Longrightarrow> map_of (runs d) (fst k) \<noteq> None"
    and "map_of (runs d) i = Some run \<Longrightarrow> run_ok env d i run"
  using assms by (auto simp: tables_ok_def dest: map_of_SomeD)

text \<open>The one rule for a change of rows: it follows the lifecycle, keeps the row invariant and stays within the
  budget. A run with a result is not touched by it.\<close>

lemma update_rows_ok:
  fixes d :: team_db and P f
  defines "d' \<equiv> d\<lparr>tasks := update_all P f (tasks d)\<rparr>"
  assumes ok: "tables_ok env d"
    and step: "\<And>k r. (k, r) \<in> set (tasks d) \<Longrightarrow> P k \<Longrightarrow> row_ok env (team_routes d) k r \<Longrightarrow>
      row_next r (f r) \<and> row_ok env (team_routes d) k (f r)"
    and use: "\<And>i run. map_of (runs d) i = Some run \<Longrightarrow> run_ok env d i run \<Longrightarrow>
      usage_tokens d' i \<le> max_tokens run \<and> usage_cost d' i \<le> max_cost run"
  shows "tables_ok env d' \<and> rows_advance d d'"
proof
  have next_row: "row_next r (if P k then f r else r)" if "(k, r) \<in> set (tasks d)" for k r
    using step [OF that] tables_okD(4) [OF ok that] by simp
  have digests: "map (task_digest \<circ> snd) (tasks d') = map (task_digest \<circ> snd) (tasks d)"
    using next_row by (auto simp: d'_def update_all_def row_next_def)
  have rows: "row_ok env (team_routes d) k r \<and> map_of (runs d) (fst k) \<noteq> None" if "(k, r) \<in> set (tasks d')" for k r
    using that step tables_okD(4,6) [OF ok] by (auto simp: d'_def update_all_def split: if_splits)
  have "run_ok env d' i run" if "map_of (runs d) i = Some run" for i run
  proof -
    have old: "run_ok env d i run" using tables_okD(7) [OF ok that] .
    have "result_ok env d' i run"
    proof (cases "result_document run")
      case (Some res)
      have "f r = r" if "(k, r) \<in> set (run_tasks d i)" "P k" for k r
      proof -
        from that(1) have "(k, r) \<in> set (tasks d)" by (simp add: run_tasks_def)
        moreover have "status r \<in> TERMINAL" using old Some that(1) by (auto simp: run_ok_def result_ok_def)
        ultimately show ?thesis using next_row [of k r] that(2) row_next_terminal by simp
      qed
      then have "run_tasks d' i = run_tasks d i"
        unfolding d'_def run_tasks_update_all by (rule update_all_id)
      with old show ?thesis by (auto simp: run_ok_def intro: result_ok_cong)
    qed (simp add: result_ok_def)
    with old use [OF that old] show ?thesis by (simp add: run_ok_def d'_def)
  qed
  with rows digests ok show "tables_ok env d'"
    unfolding tables_ok_def by (auto simp: d'_def)
  show "rows_advance d d'"
    unfolding rows_advance_def
  proof (intro allI impI)
    fix k r
    assume "map_of (tasks d) k = Some r"
    with next_row [OF map_of_SomeD [OF this]]
    show "\<exists>r'. map_of (tasks d') k = Some r' \<and> row_next\<^sup>*\<^sup>* r r'"
      by (auto simp: d'_def map_of_update_all)
  qed
qed

lemma usage_update_le:
  assumes "\<And>k r. (k, r) \<in> set (tasks d) \<Longrightarrow> P k \<Longrightarrow>
      reserved_tokens (f r) + charged_tokens (f r) \<le> reserved_tokens r + charged_tokens r
      \<and> reserved_cost (f r) + charged_cost (f r) \<le> reserved_cost r + charged_cost r"
  shows "usage_tokens (d\<lparr>tasks := update_all P f (tasks d)\<rparr>) i \<le> usage_tokens d i
    \<and> usage_cost (d\<lparr>tasks := update_all P f (tasks d)\<rparr>) i \<le> usage_cost d i"
  unfolding usage_tokens_def usage_cost_def run_tasks_update_all
  using assms by (auto simp: run_tasks_def intro!: sum_update_all_le)

text \<open>A change of rows that releases or settles what was reserved.\<close>

lemma settle_rows_ok:
  assumes ok: "tables_ok env d"
    and step: "\<And>k r. (k, r) \<in> set (tasks d) \<Longrightarrow> P k \<Longrightarrow> row_ok env (team_routes d) k r \<Longrightarrow>
      row_next r (f r) \<and> row_ok env (team_routes d) k (f r)
      \<and> reserved_tokens (f r) + charged_tokens (f r) \<le> reserved_tokens r + charged_tokens r
      \<and> reserved_cost (f r) + charged_cost (f r) \<le> reserved_cost r + charged_cost r"
  shows "tables_ok env (d\<lparr>tasks := update_all P f (tasks d)\<rparr>)
    \<and> rows_advance d (d\<lparr>tasks := update_all P f (tasks d)\<rparr>)"
proof (rule update_rows_ok [OF ok])
  fix i run
  assume run: "run_ok env d i run"
  have "usage_tokens (d\<lparr>tasks := update_all P f (tasks d)\<rparr>) i \<le> usage_tokens d i
      \<and> usage_cost (d\<lparr>tasks := update_all P f (tasks d)\<rparr>) i \<le> usage_cost d i"
    by (rule usage_update_le) (use step tables_okD(4) [OF ok] in blast)
  with run
  show "usage_tokens (d\<lparr>tasks := update_all P f (tasks d)\<rparr>) i \<le> max_tokens run
      \<and> usage_cost (d\<lparr>tasks := update_all P f (tasks d)\<rparr>) i \<le> max_cost run"
    by (auto simp: run_ok_def)
qed (use step in blast)

section \<open>Rows of the operations\<close>

lemmas row_defs = row_ok_def doc_ok_def money_ok_def route_ok_def crossed_def row_next_def LIFECYCLE_def

abbreviation not_more :: "task_row \<Rightarrow> task_row \<Rightarrow> bool" where
  "not_more r' r \<equiv> reserved_tokens r' + charged_tokens r' \<le> reserved_tokens r + charged_tokens r
     \<and> reserved_cost r' + charged_cost r' \<le> reserved_cost r + charged_cost r"

lemma charge_reservation_row:
  assumes "row_ok env rts k r" "status r = TStarted" "s \<in> {TCancelled, TAmbiguous}"
  shows "row_next r (charge_reservation s r) \<and> row_ok env rts k (charge_reservation s r)
    \<and> not_more (charge_reservation s r) r"
  using assms by (auto simp: row_defs charge_reservation_def)

lemma release_lease_row:
  assumes "row_ok env rts k r" "status r = TLeased"
  shows "row_next r (release_lease r) \<and> row_ok env rts k (release_lease r) \<and> not_more (release_lease r) r"
  using assms by (auto simp: row_defs release_lease_def)

lemma expire_row_row:
  assumes "row_ok env rts k r"
  shows "row_next r (expire_row u r) \<and> row_ok env rts k (expire_row u r) \<and> not_more (expire_row u r) r"
  using assms charge_reservation_row [OF assms] release_lease_row [OF assms] by (simp add: expire_row_def)

lemma cancel_row_row:
  assumes "row_ok env rts k r"
  shows "row_next r (cancel_row r) \<and> row_ok env rts k (cancel_row r) \<and> not_more (cancel_row r) r"
  using assms by (cases "status r") (auto simp: row_defs cancel_row_def)

lemma complete_row_row:
  assumes "row_ok env rts k r" "status r = TStarted" "effect_result_ok res"
    "used_tokens res \<le> reserved_tokens r" "used_cost_microusd res \<le> reserved_cost r"
  shows "row_next r (complete_row res r) \<and> row_ok env rts k (complete_row res r) \<and> not_more (complete_row res r) r"
  using assms by (auto simp: row_defs complete_row_def effect_result_ok_def)

lemma grant_lease_row:
  assumes "row_ok env rts k r" "status r = TPending" "t = document r"
  shows "row_next r (grant_lease env t w token e r) \<and> row_ok env rts k (grant_lease env t w token e r)"
  using assms by (simp add: row_defs grant_lease_def)

lemma start_row:
  assumes "row_ok env rts k r" "status r = TLeased"
    "\<And>b. tk_routeDecision (document r) = Some b \<Longrightarrow> \<exists>at. (b_digest b, task_digest r, at) \<in> set rts"
  shows "row_next r (r\<lparr>status := TStarted\<rparr>) \<and> row_ok env rts k (r\<lparr>status := TStarted\<rparr>)
    \<and> not_more (r\<lparr>status := TStarted\<rparr>) r"
  using assms by (simp add: row_defs)

section \<open>Operations keep the invariant\<close>

text \<open>What the body of a transaction did to the tables.\<close>

definition follows :: "team_env \<Rightarrow> team_db \<Rightarrow> team_db \<Rightarrow> bool" where
  "follows env d d' \<longleftrightarrow> tables_ok env d' \<and> rows_advance d d' \<and> same_log d' d"

lemma follows_refl: "tables_ok env d \<Longrightarrow> follows env d d"
  by (simp add: follows_def same_log_def)

lemma same_log_tasks [simp]: "same_log (d\<lparr>tasks := x\<rparr>) d"
  by (simp add: same_log_def)

lemma same_log_trans: "same_log c d \<Longrightarrow> same_log d e \<Longrightarrow> same_log c e"
  by (simp add: same_log_def)

lemma expire_locked_follows: "tables_ok env d \<Longrightarrow> follows env d (expire_locked env i now d)"
  unfolding follows_def expire_locked_def
  using settle_rows_ok [where f = "expire_row (epoch_us env now)" and P = "\<lambda>k. fst k = i"] expire_row_row by simp

lemma assert_claim_Inr:
  "assert_claim env S claim d = Inr row \<Longrightarrow>
     map_of (tasks d) (cl_run_id claim, cl_task_id claim) = Some row \<and> status row \<in> S
     \<and> attempt row = cl_attempt claim \<and> task_digest row = cl_task_digest claim"
  by (auto simp: assert_claim_def split: option.splits if_splits)

text \<open>Settling the row of a claim.\<close>

lemma set_task_follows:
  assumes ok: "tables_ok env d"
    and row: "map_of (tasks d) (cl_run_id claim, cl_task_id claim) = Some row"
    and g: "row_ok env (team_routes d) (cl_run_id claim, cl_task_id claim) row \<Longrightarrow> row_next row (g row)
      \<and> row_ok env (team_routes d) (cl_run_id claim, cl_task_id claim) (g row) \<and> not_more (g row) row"
  shows "follows env d (set_task claim (g row) d)"
proof -
  let ?k = "(cl_run_id claim, cl_task_id claim)"
  have eq: "set_task claim (g row) d = d\<lparr>tasks := update_all (\<lambda>x. x = ?k) g (tasks d)\<rparr>"
    using update_all_single [OF tables_okD(1) [OF ok] row, of g] by (simp add: set_task_def)
  have "r = row" if "(?k, r) \<in> set (tasks d)" for r
    using that row tables_okD(1) [OF ok] by (metis map_of_eq_Some_iff option.inject)
  then have "tables_ok env (d\<lparr>tasks := update_all (\<lambda>x. x = ?k) g (tasks d)\<rparr>)
      \<and> rows_advance d (d\<lparr>tasks := update_all (\<lambda>x. x = ?k) g (tasks d)\<rparr>)"
    using g by (intro settle_rows_ok [OF ok]) blast
  then show ?thesis unfolding eq by (simp add: follows_def)
qed

lemma ambiguous_follows:
  assumes "tables_ok env d" and "ambiguous_locked env claim d = Inr d'"
  shows "follows env d d'"
proof -
  from assms(2) obtain row where row: "assert_claim env {TLeased, TStarted} claim d = Inr row"
    and st: "status row = TStarted" and d': "d' = set_task claim (charge_reservation TAmbiguous row) d"
    unfolding ambiguous_locked_def by (auto split: if_splits)
  show ?thesis unfolding d'
    by (rule set_task_follows [OF assms(1)])
      (use assert_claim_Inr [OF row] charge_reservation_row [OF _ st] in auto)
qed

lemma acknowledge_follows:
  assumes "tables_ok env d" and "acknowledge_locked env claim d = Inr d'"
  shows "follows env d d'"
proof -
  from assms(2) obtain row where row: "assert_claim env {TLeased, TStarted} claim d = Inr row"
    and st: "status row = TStarted" and d': "d' = set_task claim (charge_reservation TCancelled row) d"
    unfolding acknowledge_locked_def by (auto split: if_splits)
  show ?thesis unfolding d'
    by (rule set_task_follows [OF assms(1)])
      (use assert_claim_Inr [OF row] charge_reservation_row [OF _ st] in auto)
qed

lemma complete_locked_Inr:
  assumes "complete_locked env claim res d = Inr (Some d')"
  obtains row where "assert_claim env {TLeased, TStarted} claim d = Inr row" "status row = TStarted"
    "used_tokens res \<le> reserved_tokens row" "used_cost_microusd res \<le> reserved_cost row"
    "d' = set_task claim (complete_row res row) d"
  using assms unfolding complete_locked_def by (auto split: option.splits if_splits)

lemma complete_follows:
  assumes "tables_ok env d" and "complete_locked env claim res d = Inr (Some d')" and "effect_result_ok res"
  shows "follows env d d'"
  using assms(2)
proof (rule complete_locked_Inr)
  fix row
  assume row: "assert_claim env {TLeased, TStarted} claim d = Inr row" and st: "status row = TStarted"
    and used: "used_tokens res \<le> reserved_tokens row" "used_cost_microusd res \<le> reserved_cost row"
    and d': "d' = set_task claim (complete_row res row) d"
  show ?thesis unfolding d'
    by (rule set_task_follows [OF assms(1)])
      (use assert_claim_Inr [OF row] complete_row_row [OF _ st assms(3) used] in auto)
qed

lemma task_document_Inr [simp]:
  "task_document env row = Inr t \<longleftrightarrow> t = document row
     \<and> validate_record (contract env) (TeamTask (document row)) = Inr (TeamTask (document row))"
  by (auto simp: task_document_def)

lemma run_context_Inr:
  "run_context env d i = Inr (run, m) \<Longrightarrow> map_of (runs d) i = Some run
     \<and> (\<exists>row. map_of (manifests d) (run_manifest_id run) = Some row \<and> m = mr_document row
          \<and> validate_record (contract env) (AgentTeamManifest m) = Inr (AgentTeamManifest m))"
  by (auto simp: run_context_def split: option.splits sum.splits dest: validate_record_valid)

text \<open>A change of a run that keeps its manifest and its limits.\<close>

lemma set_run_ok:
  assumes ok: "tables_ok env d" and run: "map_of (runs d) i = Some run"
    and same: "run_manifest_id run' = run_manifest_id run" "max_tokens run' = max_tokens run" "max_cost run' = max_cost run"
    and res: "result_ok env d i run'"
  shows "tables_ok env (d\<lparr>runs := dict_set i run' (runs d)\<rparr>)"
proof -
  let ?d = "d\<lparr>runs := dict_set i run' (runs d)\<rparr>"
  have "run_ok env ?d j r" if "map_of (runs ?d) j = Some r" for j r
  proof (cases "j = i")
    case True
    with that have "r = run'" by simp
    moreover from tables_okD(7) [OF ok run] obtain m where "run_context env d i = Inr (run, m)"
      by (auto simp: run_ok_def)
    then have "run_context env ?d i = Inr (run', m)"
      using run_context_Inr [of env d i run m] same(1)
      by (auto simp: run_context_def simp del: validate_record_Inr)
    ultimately show ?thesis
      using tables_okD(7) [OF ok run] same res True by (auto simp: run_ok_def result_ok_def)
  next
    case False
    with that have "map_of (runs d) j = Some r" by simp
    from tables_okD(7) [OF ok this] False show ?thesis
      by (auto simp: run_ok_def result_ok_def run_context_def cong: option.case_cong)
  qed
  with ok show ?thesis unfolding tables_ok_def by (auto split: if_splits)
qed

lemma cancel_follows:
  assumes ok: "tables_ok env d" and c: "cancel_locked env i d = Inr d'"
  shows "follows env d d'"
proof -
  from c obtain run m where ctx: "run_context env d i = Inr (run, m)"
    and d': "d' = d\<lparr>runs := dict_set i (run\<lparr>run_cancel := True, run_state := RCancelling\<rparr>) (runs d),
                 tasks := update_all (\<lambda>k. fst k = i) cancel_row (tasks d)\<rparr>"
    unfolding cancel_locked_def by (auto split: if_splits)
  let ?e = "d\<lparr>tasks := update_all (\<lambda>k. fst k = i) cancel_row (tasks d)\<rparr>"
  have e: "tables_ok env ?e \<and> rows_advance d ?e"
    using cancel_row_row by (intro settle_rows_ok [OF ok]) blast
  have run: "map_of (runs ?e) i = Some run" using run_context_Inr [OF ctx] by simp
  have "tables_ok env (?e\<lparr>runs := dict_set i (run\<lparr>run_cancel := True, run_state := RCancelling\<rparr>) (runs ?e)\<rparr>)"
    using tables_okD(7) [OF conjunct1 [OF e] run] by (intro set_run_ok [OF conjunct1 [OF e] run])
      (auto simp: run_ok_def result_ok_def)
  moreover have "d' = ?e\<lparr>runs := dict_set i (run\<lparr>run_cancel := True, run_state := RCancelling\<rparr>) (runs ?e)\<rparr>"
    by (simp add: d')
  ultimately show ?thesis using e by (simp add: follows_def rows_advance_def same_log_def)
qed

text \<open>The facts behind a granted lease.\<close>

lemma claim_locked_Inr:
  assumes "claim_locked env g i tid worker observed secs token d0 = Inr (claim, d')"
  obtains run m row where "run_context env d0 i = Inr (run, m)" "run_state run = RActive" "\<not> run_cancel run"
    "map_of (tasks (expire_locked env i observed d0)) (i, tid) = Some row" "status row = TPending"
    "observed < tk_notAfter (document row)" "dependencies_ready (expire_locked env i observed d0) (document row)"
    "\<exists>x. assert_claim_current g m (document row) worker observed = Inr x"
    "usage_tokens (expire_locked env i observed d0) i + tb_maxTokens (tk_budget (document row)) \<le> max_tokens run"
    "usage_cost (expire_locked env i observed d0) i + tb_maxCostMicrousd (tk_budget (document row)) \<le> max_cost run"
    "claim = \<lparr>cl_run_id = i, cl_task_id = tid, cl_task_digest = th_recordDigest (document row),
       cl_worker_digest = binding_digest env worker, lease_token = token, lease_expires_at =
         min (observed + secs * 1000000) (min (tk_notAfter (document row)) (mf_deadline m)),
       cl_attempt = attempt row + 1\<rparr>"
    "update_where (i, tid) (\<lambda>r. status r = TPending) (grant_lease env (document row) worker token
       (lease_expires_at claim)) (tasks (expire_locked env i observed d0)) = Some (tasks d')"
    "d' = (expire_locked env i observed d0)\<lparr>tasks := tasks d'\<rparr>"
proof -
  from assms obtain run m where c: "run_context env d0 i = Inr (run, m)" "run_state run = RActive" "\<not> run_cancel run"
    unfolding claim_locked_def Let_def by (auto split: if_splits)
  with assms obtain row where r: "map_of (tasks (expire_locked env i observed d0)) (i, tid) = Some row"
    "status row = TPending"
    unfolding claim_locked_def Let_def by (auto split: if_splits option.splits)
  show thesis
    by (rule that [OF c r]) (use assms c r in \<open>auto simp: claim_locked_def Let_def split: if_splits option.splits\<close>)
qed

lemma claim_follows:
  assumes ok: "tables_ok env d0" and c: "claim_locked env g i tid worker observed secs token d0 = Inr (claim, d')"
  shows "follows env d0 d'"
  using c
proof (rule claim_locked_Inr)
  fix run m and row :: task_row
  let ?d = "expire_locked env i observed d0"
  let ?f = "grant_lease env (document row) worker token (lease_expires_at claim)"
  assume ctx: "run_context env d0 i = Inr (run, m)" and row: "map_of (tasks ?d) (i, tid) = Some row"
    and st: "status row = TPending"
    and tok: "usage_tokens ?d i + tb_maxTokens (tk_budget (document row)) \<le> max_tokens run"
    and microusd: "usage_cost ?d i + tb_maxCostMicrousd (tk_budget (document row)) \<le> max_cost run"
    and upd: "update_where (i, tid) (\<lambda>r. status r = TPending) ?f (tasks ?d) = Some (tasks d')"
    and d': "d' = ?d\<lparr>tasks := tasks d'\<rparr>"
  have e: "follows env d0 ?d" using expire_locked_follows [OF ok] .
  then have ok': "tables_ok env ?d" by (simp add: follows_def)
  have dist: "distinct (map fst (tasks ?d))" using tables_okD(1) [OF ok'] .
  have ts: "tasks d' = update_all (\<lambda>x. x = (i, tid)) ?f (tasks ?d)" using update_where_single [OF upd dist] by blast
  have only: "r = row" if "((i, tid), r) \<in> set (tasks ?d)" for r
    using that row dist by (metis map_of_eq_Some_iff option.inject)
  have run: "map_of (runs ?d) i = Some run" using run_context_Inr [OF ctx] by (simp add: expire_locked_def)
  have zero: "reserved_tokens row = 0" "reserved_cost row = 0" "charged_tokens row = 0" "charged_cost row = 0"
    using tables_okD(5) [OF ok' row] st by (simp_all add: row_ok_def money_ok_def)
  let ?e = "?d\<lparr>tasks := update_all (\<lambda>x. x = (i, tid)) ?f (tasks ?d)\<rparr>"
  have tokens: "usage_tokens ?e j = usage_tokens ?d j + (if j = i then tb_maxTokens (tk_budget (document row)) else 0)"
    and microusds: "usage_cost ?e j = usage_cost ?d j + (if j = i then tb_maxCostMicrousd (tk_budget (document row)) else 0)"
    for j
    unfolding usage_tokens_def usage_cost_def run_tasks_update_all
    using sum_update_single [OF distinct_run_tasks [OF dist], where k = "(i, tid)" and f = ?f and i1 = j] row zero
    by (simp_all add: map_of_run_tasks grant_lease_def)
  have "tables_ok env ?e \<and> rows_advance ?d ?e"
  proof (rule update_rows_ok [OF ok'])
    fix k r
    assume "(k, r) \<in> set (tasks ?d)" "k = (i, tid)" "row_ok env (team_routes ?d) k r"
    with only st show "row_next r (?f r) \<and> row_ok env (team_routes ?d) k (?f r)"
      by (intro grant_lease_row) auto
  next
    fix j run'
    assume "map_of (runs ?d) j = Some run'" "run_ok env ?d j run'"
    with run tok microusd show "usage_tokens ?e j \<le> max_tokens run' \<and> usage_cost ?e j \<le> max_cost run'"
      unfolding tokens microusds by (auto simp: run_ok_def)
  qed
  moreover have "d' = ?e" by (subst d') (simp add: ts)
  ultimately show ?thesis using e by (auto simp: follows_def same_log_def intro: rows_advance_trans)
qed

text \<open>More consumed routes keep the invariant.\<close>

lemma add_route_ok:
  assumes ok: "tables_ok env d" and fresh: "map_of (team_routes d) b = None"
  shows "tables_ok env (d\<lparr>team_routes := team_routes d @ [(b, t, at)]\<rparr>)"
proof -
  have "row_ok env (team_routes d @ [(b, t, at)]) k r" if "row_ok env (team_routes d) k r" for k r
    using that by (auto simp: row_ok_def route_ok_def)
  with ok fresh show ?thesis
    unfolding tables_ok_def run_ok_def result_ok_def by (auto simp: map_of_eq_None_iff)
qed

lemma consume_task_route_Inr:
  assumes "consume_task_route env t dec observed d = Inr d'"
  shows "d' = d \<and> tk_routeDecision t = None \<or> (\<exists>b at. tk_routeDecision t = Some b \<and> map_of (team_routes d) (b_digest b) = None
     \<and> d' = d\<lparr>team_routes := team_routes d @ [(b_digest b, th_recordDigest t, at)]\<rparr>)"
  using assms by (auto simp: consume_task_route_def split: option.splits if_splits)

lemma start_locked_Inr:
  assumes "start_locked env g claim auth worker observed d = Inr d'"
  obtains row run m dec d1 where "assert_claim env {TLeased} claim d = Inr row"
    "run_context env d (cl_run_id claim) = Inr (run, m)" "\<not> run_cancel run" "\<not> task_cancel row"
    "\<exists>x. assert_claim_current g m (document row) worker observed = Inr x"
    "assert_current g m (document row) worker (au_evidence auth) (authorization auth) observed = Inr ()"
    "validate_route g d (document row) (au_evidence auth) observed = Inr dec"
    "consume_task_route env (document row) dec observed d = Inr d1"
    "update_where (cl_run_id claim, cl_task_id claim) (\<lambda>r. status r = TLeased) (\<lambda>r. r\<lparr>status := TStarted\<rparr>)
       (tasks d1) = Some (tasks d')"
    "d' = d1\<lparr>tasks := tasks d'\<rparr>"
proof -
  from assms obtain row run m where c: "assert_claim env {TLeased} claim d = Inr row"
    "run_context env d (cl_run_id claim) = Inr (run, m)" "\<not> run_cancel run" "\<not> task_cancel row"
    unfolding start_locked_def by (auto split: if_splits)
  with assms obtain x dec d1 where r: "assert_claim_current g m (document row) worker observed = Inr x"
    "assert_current g m (document row) worker (au_evidence auth) (authorization auth) observed = Inr ()"
    "validate_route g d (document row) (au_evidence auth) observed = Inr dec"
    "consume_task_route env (document row) dec observed d = Inr d1"
    unfolding start_locked_def by (auto split: if_splits)
  show thesis
    by (rule that [OF c _ r(2,3,4)]) (use assms c r in \<open>auto simp: start_locked_def split: option.splits\<close>)
qed

lemma start_follows:
  assumes ok: "tables_ok env d" and s: "start_locked env g claim auth worker observed d = Inr d'"
  shows "follows env d d'"
  using s
proof (rule start_locked_Inr)
  fix row :: task_row and run m dec and d1 :: team_db
  let ?k = "(cl_run_id claim, cl_task_id claim)" and ?f = "\<lambda>r. r\<lparr>status := TStarted\<rparr>"
  assume claim: "assert_claim env {TLeased} claim d = Inr row"
    and cons: "consume_task_route env (document row) dec observed d = Inr d1"
    and upd: "update_where ?k (\<lambda>r. status r = TLeased) ?f (tasks d1) = Some (tasks d')"
    and d': "d' = d1\<lparr>tasks := tasks d'\<rparr>"
  have row: "map_of (tasks d) ?k = Some row" "status row = TLeased" using assert_claim_Inr [OF claim] by auto
  have ok1: "tables_ok env d1" and d1: "tasks d1 = tasks d" "rows_advance d d1" "same_log d1 d"
    using consume_task_route_Inr [OF cons] ok add_route_ok [OF ok]
    by (auto simp: rows_advance_def same_log_def)
  have dist: "distinct (map fst (tasks d1))" using tables_okD(1) [OF ok1] .
  have ts: "tasks d' = update_all (\<lambda>x. x = ?k) ?f (tasks d1)" using update_where_single [OF upd dist] by blast
  have only: "r = row" if "(?k, r) \<in> set (tasks d1)" for r
    using that row(1) dist d1(1) by (metis map_of_eq_Some_iff option.inject)
  have dig: "task_digest row = th_recordDigest (document row)"
    using tables_okD(5) [OF ok row(1)] by (simp add: row_ok_def doc_ok_def)
  have routed: "\<exists>at. (b_digest b, task_digest row, at) \<in> set (team_routes d1)"
    if "tk_routeDecision (document row) = Some b" for b
    using consume_task_route_Inr [OF cons] that dig by auto
  have "tables_ok env (d1\<lparr>tasks := update_all (\<lambda>x. x = ?k) ?f (tasks d1)\<rparr>)
      \<and> rows_advance d1 (d1\<lparr>tasks := update_all (\<lambda>x. x = ?k) ?f (tasks d1)\<rparr>)"
  proof (rule settle_rows_ok [OF ok1])
    fix k r
    assume "(k, r) \<in> set (tasks d1)" "k = ?k" "row_ok env (team_routes d1) k r"
    with only row(2) routed
    show "row_next r (?f r) \<and> row_ok env (team_routes d1) k (?f r) \<and> not_more (?f r) r"
      by (intro start_row) auto
  qed
  moreover have "d' = d1\<lparr>tasks := update_all (\<lambda>x. x = ?k) ?f (tasks d1)\<rparr>" by (subst d') (simp add: ts)
  ultimately show ?thesis using d1(2,3)
    by (auto simp: follows_def same_log_def intro: rows_advance_trans)
qed

lemma handoff_locked_Inr:
  "handoff_locked env h d = Inr (Some d') \<Longrightarrow> \<exists>row. d' = d\<lparr>handoffs := handoffs d @ [row]\<rparr>"
  unfolding handoff_locked_def by (auto split: if_splits option.splits)

lemma handoff_follows:
  assumes ok: "tables_ok env d" and h: "handoff_locked env h d = Inr (Some d')"
  shows "follows env d d'"
proof -
  from handoff_locked_Inr [OF h] obtain row where d': "d' = d\<lparr>handoffs := handoffs d @ [row]\<rparr>" ..
  have "tables_ok env d'" using ok unfolding d' tables_ok_def run_ok_def result_ok_def by simp
  then show ?thesis by (simp add: follows_def d' rows_advance_def same_log_def)
qed

lemma finalize_locked_Inr:
  assumes "finalize_locked env i result_id observed d = Inr (res, Some d')"
  obtains run m where "run_context env d i = Inr (run, m)" "result_document run = None"
    "run_tasks d i \<noteq> []" "\<forall>(k, r) \<in> set (run_tasks d i). status r \<in> TERMINAL"
    "res = run_result env i result_id observed run (sorted_items (run_tasks d i))" "result_errors res = []"
    "th_recordDigest res = record_digest (contract env) (TeamRunResult res)" "team_schema (contract env) (TeamRunResult res)"
    "d' = d\<lparr>runs := dict_set i (run\<lparr>run_state := rs_status res, result_document := Some res\<rparr>) (runs d)\<rparr>"
proof -
  from assms obtain run m where c: "run_context env d i = Inr (run, m)" "result_document run = None"
    unfolding finalize_locked_def by (auto split: if_splits option.splits)
  let ?rows = "sorted_items (run_tasks d i)"
  have rows: "set ?rows = set (run_tasks d i)" by simp
  have run: "map_of (runs d) i = Some run" using run_context_Inr [OF c(1)] by simp
  from assms c have nz: "?rows \<noteq> []" and fin: "\<not> list_ex (\<lambda>(k, r). status r \<notin> TERMINAL) ?rows"
    unfolding finalize_locked_def Let_def by (auto split: if_splits)
  from nz rows have "run_tasks d i \<noteq> []" by (metis set_empty)
  moreover from fin rows have "\<forall>(k, r) \<in> set (run_tasks d i). status r \<in> TERMINAL"
    by (auto simp: list_ex_iff)
  ultimately show thesis
    using assms c run nz fin
    by (intro that [OF c]) (auto simp: finalize_locked_def Let_def update_where_def split: if_splits)
qed

lemma run_result_tasks [simp]: "rs_tasks (run_result env i result_id observed run rows) = map summary_of rows"
  by (simp add: run_result_def seal_result_def)

lemma finalize_follows:
  assumes ok: "tables_ok env d" and f: "finalize_locked env i result_id observed d = Inr (res, Some d')"
  shows "follows env d d'"
  using f
proof (rule finalize_locked_Inr)
  fix run m
  assume ctx: "run_context env d i = Inr (run, m)"
    and fin: "\<forall>(k, r) \<in> set (run_tasks d i). status r \<in> TERMINAL"
    and res: "res = run_result env i result_id observed run (sorted_items (run_tasks d i))" "result_errors res = []"
      "th_recordDigest res = record_digest (contract env) (TeamRunResult res)" "team_schema (contract env) (TeamRunResult res)"
    and d': "d' = d\<lparr>runs := dict_set i (run\<lparr>run_state := rs_status res, result_document := Some res\<rparr>) (runs d)\<rparr>"
  have run: "map_of (runs d) i = Some run" using run_context_Inr [OF ctx] by simp
  have "rs_tasks res = map summary_of (sorted_items (run_tasks d i))" unfolding res(1) by simp
  then have "tables_ok env d'"
    unfolding d' using fin res(2-4) by (intro set_run_ok [OF ok run]) (simp_all add: result_ok_def)
  then show ?thesis by (simp add: follows_def d' rows_advance_def same_log_def)
qed

text \<open>The ranges that the schemas give to budgets.\<close>

definition schema_bounds :: "team_contract \<Rightarrow> bool" where
  "schema_bounds k \<longleftrightarrow>
     (\<forall>t. team_schema k (TeamTask t) \<longrightarrow> 0 \<le> tb_maxTokens (tk_budget t) \<and> 0 \<le> tb_maxCostMicrousd (tk_budget t))
     \<and> (\<forall>m. team_schema k (AgentTeamManifest m) \<longrightarrow> 0 \<le> mf_maxTotalTokens m \<and> 0 \<le> mf_maxCostMicrousd m)"

lemma new_task_row_digest [simp]: "task_digest (new_task_row t) = th_recordDigest t"
  by (simp add: new_task_row_def)

lemma insert_tasks_Inr:
  assumes "insert_tasks i ts d = Inr d'"
  shows "d' = d\<lparr>tasks := tasks d @ map (\<lambda>(tid, t). ((i, tid), new_task_row t)) ts\<rparr>
    \<and> (distinct (map fst (tasks d)) \<longrightarrow> distinct (map fst (tasks d')))
    \<and> (distinct (map (task_digest \<circ> snd) (tasks d)) \<longrightarrow> distinct (map (task_digest \<circ> snd) (tasks d')))"
  using assms
proof (induction ts arbitrary: d)
  case (Cons x ts)
  obtain tid t where x: "x = (tid, t)" by force
  let ?e = "d\<lparr>tasks := tasks d @ [((i, tid), new_task_row t)]\<rparr>"
  from Cons.prems x have fresh: "map_of (tasks d) (i, tid) = None"
      "th_recordDigest t \<notin> (task_digest \<circ> snd) ` set (tasks d)"
    and rest: "insert_tasks i ts ?e = Inr d'"
    by (auto split: if_splits)
  have "(i, tid) \<notin> fst ` set (tasks d)" using fresh(1) by (simp add: map_of_eq_None_iff)
  then have "distinct (map fst (tasks d)) \<longrightarrow> distinct (map fst (tasks ?e))"
    "distinct (map (task_digest \<circ> snd) (tasks d)) \<longrightarrow> distinct (map (task_digest \<circ> snd) (tasks ?e))"
    using fresh(2) by auto
  moreover have "d' = d\<lparr>tasks := tasks d @ map (\<lambda>(tid, t). ((i, tid), new_task_row t)) (x # ts)\<rparr>"
    by (subst conjunct1 [OF Cons.IH [OF rest]]) (simp add: x)
  ultimately show ?case using Cons.IH [OF rest] by blast
qed simp

lemma insert_manifest_facts:
  shows "tasks (insert_manifest m d) = tasks d" "runs (insert_manifest m d) = runs d"
    "team_routes (insert_manifest m d) = team_routes d" "same_log (insert_manifest m d) d"
    "map_of (manifests d) j = Some row \<Longrightarrow> map_of (manifests (insert_manifest m d)) j = Some row"
    "set (manifests (insert_manifest m d)) \<subseteq> set (manifests d) \<union> {(th_id m, \<lparr>mr_project_id = th_projectId m,
       mr_team_id = ab_teamId (mf_authority m), mr_digest = th_recordDigest m, mr_document = m\<rparr>)}"
  by (auto simp: insert_manifest_def same_log_def map_add_def split: option.splits)

lemma insert_manifest_context:
  "run_context env d j = Inr (run, doc) \<Longrightarrow> run_context env (insert_manifest m d) j = Inr (run, doc)"
  using insert_manifest_facts(5) [of d "run_manifest_id run"] run_context_Inr [of env d j run doc]
  by (auto simp: run_context_def insert_manifest_facts(2) simp del: validate_record_Inr)

text \<open>Storing a checked plan.\<close>

lemma insert_run_Inr:
  assumes "insert_run m i checked d = Inr d'"
  obtains row where "map_of (manifests (insert_manifest m d)) (th_id m) = Some row" "map_of (runs d) i = None"
    "insert_tasks i (sorted_items checked) ((insert_manifest m d)\<lparr>runs := runs d @ [(i, new_run_row m)]\<rparr>) = Inr d'"
  using assms unfolding insert_run_def Let_def
  by (auto simp: insert_manifest_facts(2) split: if_splits option.splits)

lemma new_run_row_simps [simp]:
  "run_manifest_id (new_run_row m) = th_id m" "max_tokens (new_run_row m) = mf_maxTotalTokens m"
  "max_cost (new_run_row m) = mf_maxCostMicrousd m" "result_document (new_run_row m) = None"
  by (simp_all add: new_run_row_def)

lemma sum_list_zero: "(\<And>x. x \<in> set xs \<Longrightarrow> f x = (0::int)) \<Longrightarrow> sum_list (map f xs) = 0"
  by (induction xs) auto

lemma insert_run_follows:
  assumes ok: "tables_ok env d" and ins: "insert_run m i checked d = Inr d'"
    and bounds: "schema_bounds (contract env)"
    and valid: "validate_record (contract env) (AgentTeamManifest m) = Inr (AgentTeamManifest m)"
    and planned: "list_all (planned_task (contract env) m i observed) checked"
  shows "follows env d d'"
  using ins
proof (rule insert_run_Inr)
  fix row :: manifest_row
  let ?d1 = "insert_manifest m d"
  let ?d2 = "?d1\<lparr>runs := runs d @ [(i, new_run_row m)]\<rparr>"
  let ?new = "map (\<lambda>(tid, t). ((i, tid), new_task_row t)) (sorted_items checked)"
  assume row: "map_of (manifests ?d1) (th_id m) = Some row" and fresh: "map_of (runs d) i = None"
    and tasks: "insert_tasks i (sorted_items checked) ?d2 = Inr d'"
  have t2: "tasks ?d2 = tasks d" by (simp add: insert_manifest_facts(1))
  have d': "d' = ?d2\<lparr>tasks := tasks d @ ?new\<rparr>" and dist: "distinct (map fst (tasks d'))"
    "distinct (map (task_digest \<circ> snd) (tasks d'))"
    using insert_tasks_Inr [OF tasks] tables_okD(1,2) [OF ok] unfolding t2 by blast+
  have man: "validate_record (contract env) (AgentTeamManifest (mr_document r)) = Inr (AgentTeamManifest (mr_document r))"
    if "(j, r) \<in> set (manifests ?d1)" for j r
    using that insert_manifest_facts(6) [of m d] ok valid unfolding tables_ok_def by fastforce
  have absent: "run_tasks d i = []"
    using tables_okD(6) [OF ok] fresh by (fastforce simp: run_tasks_def filter_empty_conv)
  have new_rows: "row_ok env (team_routes d) k r \<and> fst k = i" if "(k, r) \<in> set ?new" for k r
  proof -
    from that obtain tid t where k: "k = (i, tid)" "r = new_task_row t" "(tid, t) \<in> set checked" by auto
    with planned have p: "planned_task (contract env) m i observed (tid, t)" by (auto simp: list_all_iff)
    then have "team_schema (contract env) (TeamTask t)" by (simp add: planned_task_def)
    with bounds p k show ?thesis
      by (auto simp: schema_bounds_def planned_task_def row_ok_def doc_ok_def money_ok_def route_ok_def crossed_def
          new_task_row_def)
  qed
  have same_run: "run_tasks d' j = run_tasks d j" if "j \<noteq> i" for j
    using that new_rows by (auto simp: d' run_tasks_def filter_empty_conv)
  have only_new: "run_tasks d' i = ?new"
    using absent new_rows by (auto simp: d' run_tasks_def filter_id_conv)
  have runs': "runs d' = runs d @ [(i, new_run_row m)]" by (simp add: d')
  have ctx_old: "run_context env d' j = Inr (r, doc)" if "run_context env d j = Inr (r, doc)" for j r doc
    using run_context_Inr [OF insert_manifest_context [OF that, of m]]
    by (auto simp: run_context_def d' insert_manifest_facts(2) map_add_def simp del: validate_record_Inr)
  have "run_ok env d' j r" if "map_of (runs d') j = Some r" for j r
  proof (cases "j = i")
    case True
    with that fresh have "r = new_run_row m" by (simp add: runs' map_add_def)
    moreover have "usage_tokens d' i = 0" "usage_cost d' i = 0"
      unfolding usage_tokens_def usage_cost_def only_new by (auto simp: new_task_row_def intro!: sum_list_zero)
    moreover have "0 \<le> max_tokens (new_run_row m)" "0 \<le> max_cost (new_run_row m)"
      using bounds valid by (simp_all add: schema_bounds_def)
    moreover have "run_context env d' i = Inr (new_run_row m, mr_document row)"
      using row man [OF map_of_SomeD [OF row]] fresh
      by (auto simp: run_context_def d' map_add_def simp del: validate_record_Inr)
    ultimately show ?thesis using True by (auto simp: run_ok_def result_ok_def)
  next
    case False
    with that have "map_of (runs d) j = Some r" by (auto simp: runs' map_add_def split: option.splits)
    from tables_okD(7) [OF ok this] show ?thesis
      using same_run [OF False] ctx_old by (auto simp: run_ok_def result_ok_def usage_tokens_def usage_cost_def)
  qed
  moreover have "row_ok env (team_routes d') k r \<and> map_of (runs d') (fst k) \<noteq> None" if "(k, r) \<in> set (tasks d')" for k r
  proof -
    from that have "(k, r) \<in> set (tasks d) \<union> set ?new" by (simp add: d')
    then consider "(k, r) \<in> set (tasks d)" | "(k, r) \<in> set ?new" by blast
    then have "row_ok env (team_routes d) k r \<and> (fst k = i \<or> map_of (runs d) (fst k) \<noteq> None)"
      using tables_okD(4,6) [OF ok, of k r] new_rows [of k r] by cases blast+
    then show ?thesis by (auto simp: d' insert_manifest_facts(3) map_add_def split: option.splits)
  qed
  moreover have "team_routes d' = team_routes d" "manifests d' = manifests ?d1"
    by (simp_all add: d' insert_manifest_facts(3))
  ultimately have "tables_ok env d'"
    using dist tables_okD(3) [OF ok] man unfolding tables_ok_def by auto
  moreover have "rows_advance d d'"
    by (auto simp: rows_advance_def d' map_add_def map_of_append split: option.splits)
  moreover have "same_log d' d" using insert_manifest_facts(4) [of m d] by (simp add: d' same_log_def)
  ultimately show ?thesis by (simp add: follows_def)
qed

section \<open>Steady operations\<close>

lemma tables_ok_cong:
  assumes "same_tables d e"
  shows "tables_ok env d = tables_ok env e"
proof -
  have "run_tasks d i = run_tasks e i" "run_context env d i = run_context env e i" for i
    using assms by (simp_all add: same_tables_def run_tasks_def run_context_def cong: option.case_cong)
  then show ?thesis
    using assms by (simp add: same_tables_def tables_ok_def run_ok_def result_ok_def usage_tokens_def usage_cost_def)
qed

lemma rows_advance_cong: "same_tables e f \<Longrightarrow> rows_advance d e \<Longrightarrow> rows_advance d f"
  by (simp add: same_tables_def rows_advance_def)

lemma observed_time_steady:
  assumes "mono (epoch_us env)"
  shows "team.steady env (observed_time now)"
proof (rule team.steadyI)
  fix c r c'
  assume c: "co_inv env c" and o: "observed_time now c = (r, c')"
  have "db c' = db c" "last_observed c \<le> last_observed c'"
    using o by (auto simp: observed_time_def Let_def split: if_splits)
  with c verify_state_later [OF _ assms] show "co_inv env c' \<and> rows_advance (db c) (db c')"
    by (auto simp: co_inv_def)
qed

lemma transact_steady:
  assumes body: "\<And>seen d x d'. tables_ok env d \<Longrightarrow> body seen d = Inr (x, d') \<Longrightarrow>
      d' = d \<or> (\<exists>y e. follows env d e \<and> commit env seen y e = Inr (x, d'))"
  shows "team.steady env (transact env body)"
proof (rule team.steadyI)
  fix c r c'
  assume c: "co_inv env c" and t: "transact env body c = (r, c')"
  then have v: "verify_state env (last_observed c) (db c) = Inr ()" and ok: "tables_ok env (db c)"
    by (simp_all add: co_inv_def)
  show "co_inv env c' \<and> rows_advance (db c) (db c')"
  proof (cases "body (last_observed c) (db c)")
    case (Inl e)
    with t v have "c' = c" by (simp add: transact_def)
    with c show ?thesis by simp
  next
    case (Inr y)
    obtain x d' where y: "y = (x, d')" by force
    with t v Inr have c': "c' = c\<lparr>db := d'\<rparr>" by (simp add: transact_def)
    from body [OF ok, of "last_observed c" x d'] Inr y consider "d' = db c"
      | y e where "follows env (db c) e" "commit env (last_observed c) y e = Inr (x, d')" by blast
    then show ?thesis
    proof cases
      case 1
      with c show ?thesis by (simp add: c')
    next
      case (2 y e)
      from commit_verifies [OF 2(2) v] 2(1) have d': "verify_state env (last_observed c) d' = Inr ()"
        "same_tables d' e" by (auto simp: follows_def)
      moreover have "same_tables e d'" using d'(2) by (simp add: same_tables_def)
      ultimately show ?thesis
        using 2(1) tables_ok_cong [OF d'(2), of env] rows_advance_cong
        by (auto simp: co_inv_def c' follows_def)
    qed
  qed
qed

lemma on_integrity_Inr [simp]: "on_integrity code r = Inr x \<longleftrightarrow> r = Inr x"
  by (auto simp: on_integrity_def split: sum.splits py_error.splits)

text \<open>The shapes of the transactions.\<close>

lemma transact_unit_steady:
  "(\<And>d e. tables_ok env d \<Longrightarrow> body d = Inr e \<Longrightarrow> follows env d e) \<Longrightarrow>
     team.steady env (transact env (\<lambda>seen d. bindE (body d) (\<lambda>e. commit env seen y e)))"
  by (rule transact_steady) (elim bindE_InrE, blast)

lemma transact_pair_steady:
  "(\<And>d x e. tables_ok env d \<Longrightarrow> body d = Inr (x, e) \<Longrightarrow> follows env d e) \<Longrightarrow>
     team.steady env (transact env (\<lambda>seen d. bindE (body d) (\<lambda>(x, e). commit env seen x e)))"
  by (rule transact_steady) (elim bindE_InrE, auto)

lemma transact_option_steady:
  "(\<And>d e. tables_ok env d \<Longrightarrow> body d = Inr (Some e) \<Longrightarrow> follows env d e) \<Longrightarrow>
     team.steady env (transact env (\<lambda>seen d. bindE (body d)
       (\<lambda>r. case r of None \<Rightarrow> Inr (y, d) | Some e \<Rightarrow> commit env seen y e)))"
  by (rule transact_steady) (elim bindE_InrE, auto split: option.splits)

lemma check_state_steady:
  "team.steady env (task_state env i tid)" "team.steady env (cancellation_requested env claim)"
  by (rule team.steadyI, auto simp: task_state_def cancellation_requested_def split: sum.splits option.splits)+

text \<open>What is assumed of the parameters: the conversion of instants is monotone, and the schemas bound budgets.\<close>

definition env_ok :: "team_env \<Rightarrow> bool" where
  "env_ok env \<longleftrightarrow> mono (epoch_us env) \<and> schema_bounds (contract env)"

lemma observed_steady: "env_ok env \<Longrightarrow> team.steady env (observed_time now)"
  by (simp add: env_ok_def observed_time_steady)

lemmas steady_intros = team.steady_bind team.steady_if team.steady_return team.steady_raise observed_steady
  check_state_steady

lemma create_run_steady:
  assumes "env_ok env"
  shows "team.steady env (create_run env g manifest i raws now)"
  unfolding create_run_def
proof (intro team.steady_bind observed_steady [OF assms])
  fix observed
  show "team.steady env (case plan_run (contract env) (assert_manifest_current g) manifest i raws observed of
       Inl e \<Rightarrow> raiseA e
     | Inr (m, checked) \<Rightarrow> transact env (\<lambda>seen d. on_integrity ''ECO_TEAM_RUN_CONFLICT''
           (bindE (insert_run m i checked d) (commit env seen (run_digest env m i checked)))))"
  proof (cases "plan_run (contract env) (assert_manifest_current g) manifest i raws observed")
    case (Inr p)
    obtain m checked where p: "p = (m, checked)" by force
    from plan_run_Inr [OF Inr [unfolded p]] have v:
      "validate_record (contract env) (AgentTeamManifest m) = Inr (AgentTeamManifest m)"
      "list_all (planned_task (contract env) m i observed) checked" by (blast dest: plan_run_tasks)+
    have "follows env d e" if "tables_ok env d" "insert_run m i checked d = Inr e" for d e
      using insert_run_follows [OF that _ v] assms by (simp add: env_ok_def)
    then show ?thesis unfolding Inr p by (auto intro!: transact_steady)
  qed simp
qed

lemma claim_task_steady: "env_ok env \<Longrightarrow> team.steady env (claim_task env g i tid worker now secs token)"
  unfolding claim_task_def by (intro steady_intros transact_pair_steady claim_follows)

lemma claim_each_steady: "env_ok env \<Longrightarrow> team.steady env (claim_each env g i worker now secs token final tids)"
proof (induction tids arbitrary: final)
  case Nil
  then show ?case by (intro team.steadyI) auto
next
  case (Cons tid tids)
  show ?case
  proof (rule team.steadyI)
    fix c r c'
    assume c: "co_inv env c" and e: "claim_each env g i worker now secs token final (tid # tids) c = (r, c')"
    obtain x c1 where x: "claim_task env g i tid worker now secs token c = (x, c1)" by force
    note one = team.steadyD [OF claim_task_steady [OF Cons.prems] c x]
    have "c' = c1 \<or> (\<exists>final'. claim_each env g i worker now secs token final' tids c1 = (r, c'))"
      using e x by (auto split: sum.splits py_error.splits if_splits)
    with one team.steadyD [OF Cons.IH [OF Cons.prems]] show "co_inv env c' \<and> rows_advance (db c) (db c')"
      by (blast intro: rows_advance_trans)
  qed
qed

lemma claim_next_steady: "env_ok env \<Longrightarrow> team.steady env (claim_next env g i worker now secs token)"
  by (rule team.steadyI)
    (auto simp: claim_next_def split: sum.splits dest: team.steadyD [OF claim_each_steady])

lemma authorize_effect_steady: "env_ok env \<Longrightarrow> team.steady env (authorize_effect env g claim worker evidence now)"
  unfolding authorize_effect_def
  by (intro steady_intros transact_steady; (elim bindE_InrE)?)
    (auto intro: follows_refl team.steadyI)

lemma start_effect_steady: "env_ok env \<Longrightarrow> team.steady env (start_effect env g claim auth worker now)"
  unfolding start_effect_def
proof (intro team.steady_bind observed_steady)
  fix observed
  have t: "team.steady env (transact env (\<lambda>seen d.
      bindE (start_locked env g claim auth worker observed d) (\<lambda>d'. commit env seen () d')))"
    by (intro transact_unit_steady start_follows)
  show "team.steady env (\<lambda>c. if au_seal auth \<noteq> seal c \<or> au_run_id auth \<noteq> cl_run_id claim
        \<or> au_task_id auth \<noteq> cl_task_id claim
        \<or> au_task_digest auth \<noteq> cl_task_digest claim \<or> au_claim_digest auth \<noteq> claim_digest env claim
        \<or> au_expires_at auth \<noteq> lease_expires_at claim \<or> binding_digest env worker \<noteq> cl_worker_digest claim
        \<or> observed \<ge> lease_expires_at claim
     then (team_error ''ECO_TEAM_EXECUTION_AUTHORITY_INVALID'', c)
     else transact env (\<lambda>seen d.
       bindE (start_locked env g claim auth worker observed d) (\<lambda>d'. commit env seen () d')) c)"
    by (rule team.steadyI) (use team.steadyD [OF t] in \<open>auto split: if_splits\<close>)
qed

lemma expire_leases_steady: "env_ok env \<Longrightarrow> team.steady env (expire_leases env i now)"
  unfolding expire_leases_def
  by (intro steady_intros transact_steady, assumption) (elim bindE_InrE, blast intro: expire_locked_follows)

lemma complete_effect_steady:
  "env_ok env \<Longrightarrow> effect_result_ok res \<Longrightarrow> team.steady env (complete_effect env claim res now)"
  unfolding complete_effect_def
  by (intro steady_intros expire_leases_steady transact_option_steady complete_follows)

lemma mark_ambiguous_steady: "env_ok env \<Longrightarrow> team.steady env (mark_ambiguous env claim now)"
  unfolding mark_ambiguous_def by (intro steady_intros transact_unit_steady ambiguous_follows)

lemma cancel_run_steady: "env_ok env \<Longrightarrow> team.steady env (cancel_run env i now)"
  unfolding cancel_run_def by (intro steady_intros transact_unit_steady cancel_follows)

lemma acknowledge_cancellation_steady: "env_ok env \<Longrightarrow> team.steady env (acknowledge_cancellation env claim now)"
  unfolding acknowledge_cancellation_def by (intro steady_intros transact_unit_steady acknowledge_follows)

lemma finalize_run_steady: "env_ok env \<Longrightarrow> team.steady env (finalize_run env i result_id now)"
  unfolding finalize_run_def
proof (intro steady_intros transact_steady, assumption)
  fix observed seen d x d'
  assume ok: "tables_ok env d" and b: "bindE (finalize_locked env i result_id observed d) (\<lambda>(result, y).
      case y of None \<Rightarrow> Inr (result, d) | Some d' \<Rightarrow> commit env seen result d') = Inr (x, d')"
  from b obtain res y where f: "finalize_locked env i result_id observed d = Inr (res, y)"
    and c: "(case y of None \<Rightarrow> Inr (res, d) | Some d' \<Rightarrow> commit env seen res d') = Inr (x, d')" by auto
  show "d' = d \<or> (\<exists>y e. follows env d e \<and> commit env seen y e = Inr (x, d'))"
  proof (cases y)
    case None
    with c show ?thesis by simp
  next
    case (Some e)
    with c finalize_follows [OF ok f [unfolded Some]] show ?thesis by auto
  qed
qed

lemma record_handoff_steady: "team.steady env (record_handoff env r)"
proof -
  have "team.steady env (transact env (\<lambda>seen d. on_integrity ''ECO_TEAM_HANDOFF_CONFLICT''
      (bindE (handoff_locked env h d) (\<lambda>x.
         case x of None \<Rightarrow> Inr (th_recordDigest h, d) | Some d' \<Rightarrow> commit env seen (th_recordDigest h) d'))))" for h
    by (rule transact_steady) (unfold on_integrity_Inr, elim bindE_InrE, auto split: option.splits intro: handoff_follows)
  then show ?thesis unfolding record_handoff_def
    by (auto simp del: validate_record_Inr split: sum.split team_record.split)
qed

section \<open>Steps\<close>

text \<open>Every operation, with any arguments, guards, evidence and clock; what is returned does not matter here. A
  coordinator may also be reopened on the same file with another clock.\<close>

inductive team_step :: "team_env \<Rightarrow> coordinator \<Rightarrow> coordinator \<Rightarrow> bool" for env :: team_env where
  Create: "create_run env g manifest i raws now c = (r, c') \<Longrightarrow> team_step env c c'"
| Claim: "claim_task env g i tid worker now secs token c = (r, c') \<Longrightarrow> team_step env c c'"
| ClaimNext: "claim_next env g i worker now secs token c = (r, c') \<Longrightarrow> team_step env c c'"
| Authorize: "authorize_effect env g claim worker evidence now c = (r, c') \<Longrightarrow> team_step env c c'"
| Start: "start_effect env g claim auth worker now c = (r, c') \<Longrightarrow> team_step env c c'"
| Complete: "effect_result_ok res \<Longrightarrow> complete_effect env claim res now c = (r, c') \<Longrightarrow> team_step env c c'"
| Ambiguous: "mark_ambiguous env claim now c = (r, c') \<Longrightarrow> team_step env c c'"
| Expire: "expire_leases env i now c = (r, c') \<Longrightarrow> team_step env c c'"
| Cancel: "cancel_run env i now c = (r, c') \<Longrightarrow> team_step env c c'"
| Acknowledge: "acknowledge_cancellation env claim now c = (r, c') \<Longrightarrow> team_step env c c'"
| Handoff: "record_handoff env h c = (r, c') \<Longrightarrow> team_step env c c'"
| Finalize: "finalize_run env i result_id now c = (r, c') \<Longrightarrow> team_step env c c'"
| Reopen: "open_store env clk sl (db c) = Inr c' \<Longrightarrow> team_step env c c'"

inductive team_start :: "team_env \<Rightarrow> coordinator \<Rightarrow> bool" for env :: team_env where
  New: "new_store env sid (clk 0) = Inr d \<Longrightarrow>
    team_start env \<lparr>db = d, last_observed = clk 0, clock = clk, ticks = 1, seal = sl\<rparr>"

lemma new_store_inv: "team_start env c \<Longrightarrow> co_inv env c"
proof (induction rule: team_start.induct)
  case (New sid clk d sl)
  from new_store_verifies [OF New] have "verify_state env (clk 0) d = Inr ()" "same_tables d empty_db" by auto
  moreover have "tables_ok env empty_db" by (simp add: tables_ok_def empty_db_def)
  ultimately show ?case using tables_ok_cong by (simp add: co_inv_def)
qed

lemma reopen_steady:
  assumes "env_ok env" and "co_inv env c" and "open_store env clk sl (db c) = Inr c'"
  shows "co_inv env c' \<and> rows_advance (db c) (db c')"
proof -
  from assms(3) have "db c' = db c" "verify_state env (clk 0) (db c) = Inr ()" "clk 0 \<le> last_observed c'"
    by (auto simp: open_store_def Let_def split: if_splits option.splits)
  moreover from this verify_state_later assms(1) have "verify_state env (last_observed c') (db c) = Inr ()"
    by (auto simp: env_ok_def)
  ultimately show ?thesis using assms(2) by (simp add: co_inv_def)
qed

lemma team_step_steady:
  assumes "team_step env c c'" and "env_ok env" and "co_inv env c"
  shows "co_inv env c' \<and> rows_advance (db c) (db c')"
  using assms(1)
proof cases
  case Create then show ?thesis using team.steadyD [OF create_run_steady [OF assms(2)] assms(3)] by blast
next
  case Claim then show ?thesis using team.steadyD [OF claim_task_steady [OF assms(2)] assms(3)] by blast
next
  case ClaimNext then show ?thesis using team.steadyD [OF claim_next_steady [OF assms(2)] assms(3)] by blast
next
  case Authorize then show ?thesis using team.steadyD [OF authorize_effect_steady [OF assms(2)] assms(3)] by blast
next
  case Start then show ?thesis using team.steadyD [OF start_effect_steady [OF assms(2)] assms(3)] by blast
next
  case Complete then show ?thesis using team.steadyD [OF complete_effect_steady [OF assms(2)] assms(3)] by blast
next
  case Ambiguous then show ?thesis using team.steadyD [OF mark_ambiguous_steady [OF assms(2)] assms(3)] by blast
next
  case Expire then show ?thesis using team.steadyD [OF expire_leases_steady [OF assms(2)] assms(3)] by blast
next
  case Cancel then show ?thesis using team.steadyD [OF cancel_run_steady [OF assms(2)] assms(3)] by blast
next
  case Acknowledge
  then show ?thesis using team.steadyD [OF acknowledge_cancellation_steady [OF assms(2)] assms(3)] by blast
next
  case Handoff then show ?thesis using team.steadyD [OF record_handoff_steady assms(3)] by blast
next
  case Finalize then show ?thesis using team.steadyD [OF finalize_run_steady [OF assms(2)] assms(3)] by blast
next
  case Reopen then show ?thesis using reopen_steady [OF assms(2,3)] by blast
qed

lemma team_steps_steady:
  assumes "env_ok env" and "co_inv env c" and "(team_step env)\<^sup>*\<^sup>* c c'"
  shows "co_inv env c' \<and> rows_advance (db c) (db c')"
  using team.steady_steps [of "team_step env" env c c'] team_step_steady [OF _ assms(1)] assms by blast

interpretation team_reach: inv_system "team_start env" "team_step env" "\<lambda>c. env_ok env \<longrightarrow> co_inv env c" for env
  by unfold_locales (auto dest: new_store_inv team_step_steady)

lemmas team_reachable_inv = team_reach.reach_inv [rule_format]

end
