(* ===== verification/Eco_Team_Guarantees.thy ===== *)
theory Eco_Team_Guarantees
  imports Eco_Team_Safety
begin

text \<open>
  The theorems about the team coordinator in every state its operations can reach, and a worked run (one
  task: created, leased, authorized, started) on which they are applied.
\<close>

section \<open>A worked run\<close>

definition demo_team_contract :: team_contract where
  "demo_team_contract = \<lparr>team_schema = (\<lambda>r. case r of
       AgentTeamManifest m \<Rightarrow> 0 \<le> mf_maxTotalTokens m \<and> 0 \<le> mf_maxCostMicrousd m
     | TeamTask t \<Rightarrow> 0 \<le> tb_maxTokens (tk_budget t) \<and> 0 \<le> tb_maxCostMicrousd (tk_budget t)
     | _ \<Rightarrow> True),
     team_hash = (\<lambda>_. ''d''), team_text = (\<lambda>_. ''text'')\<rparr>"

definition demo_team_env :: team_env where
  "demo_team_env = \<lparr>sha = (\<lambda>s. s), mac = (\<lambda>s. s), key_id = ''key'', iso = (\<lambda>_. ''time''),
     contract = demo_team_contract, epoch_us = (\<lambda>t. t), from_us = (\<lambda>t. t)\<rparr>"

definition demo_budget :: team_budget where
  "demo_budget = \<lparr>tb_maxTokens = 10, tb_maxCostMicrousd = 20, tb_maxDurationSeconds = 30\<rparr>"

definition demo_team_role :: team_role where
  "demo_team_role = \<lparr>role_id = ''reader'', role_principal = \<lparr>b_kind = ''PrincipalIdentity'', b_id = ''p'', b_digest = ''p''\<rparr>,
     role_membership = \<lparr>b_kind = ''MembershipBinding'', b_id = ''m'', b_digest = ''m''\<rparr>,
     role_actions = [''model.invoke''], role_dataClasses = [''D1''], role_toolIds = [],
     role_zones = [''local''], role_notAfter = 9000000000, role_budget = demo_budget, delegatesTo = []\<rparr>"

definition demo_manifest :: team_manifest where
  "demo_manifest = \<lparr>th_id = ''manifest'', th_projectId = ''project'', th_createdAt = 0, th_recordDigest = ''d'',
     mf_authority = \<lparr>ab_teamId = ''team'', ab_storeId = ''store'', ab_authoritySnapshotDigest = ''s'',
       ab_activeBundleDigest = ''b'', ab_accessPolicyDigest = ''a''\<rparr>,
     mf_roles = [demo_team_role], mf_maxTasks = 5, mf_maxTotalTokens = 15, mf_maxCostMicrousd = 100,
     mf_deadline = 9000000000\<rparr>"

definition demo_route_binding :: binding where
  "demo_route_binding = \<lparr>b_kind = ''ModelRouteDecision'', b_id = ''route'', b_digest = ''droute''\<rparr>"

text \<open>The routing evidence of the task's model call.\<close>

definition demo_evidence :: team_evidence where
  "demo_evidence = \<lparr>ev_routeDecision = Some \<lparr>rec_id = ''route'', createdAt = 0, recordDigest = ''droute'', revision = None,
       dec_requestDigest = ''r'', dec_policyDigest = ''p'', dec_priceCatalogDigest = ''c'', decision = ''allowed'',
       reasonCode = ''eligible'', routeAttempt = 1, selected = Some \<lparr>sel_deploymentId = ''a'', sel_deploymentDigest = ''da'',
         sel_deploymentIdentityDigest = ''ia'', observedEvidenceDigest = ''o'', sel_candidateDigest = ''ca'',
         reservedCostMicrousd = 20, estimatedLatencyP95Millis = 1, aggregateReservation = None\<rparr>,
       dec_validUntil = 8000000000, fallbackFromDigest = None, explainDigest = ''e'', dec_executionPlanDigest = None\<rparr>,
     ev_routeRequest = Some (demo_request\<lparr>actionClass := ''A0'', dataClass := ''D1'', req_allowedZones := [''local''],
       maximumCostMicrousd := 20, deadlineAt := 8000000000, req_executionPlanDigest := None, aggregateBudget := None\<rparr>),
     ev_runtimeSubject = Some \<lparr>ms_runId = ''run'', ms_deploymentId = ''a'', ms_deploymentIdentityDigest = ''ia'',
       ms_dataClass = ''D1'', ms_artifactRecordDigest = ''i'', ms_maxOutputTokens = 5\<rparr>, ev_rest = JNull\<rparr>"

definition demo_task :: team_task where
  "demo_task = \<lparr>th_id = ''task'', th_projectId = ''project'', th_createdAt = 0, th_recordDigest = ''d'',
     rh_teamId = ''team'', rh_runId = ''run'', tk_roleId = ''reader'', parentTaskId = None,
     tk_action = ''model.invoke'', tk_dataClass = ''D1'', tk_toolId = None, tk_zone = ''local'',
     tk_environmentId = ''env'', tk_resource = \<lparr>b_kind = ''deployment'', b_id = ''a'', b_digest = ''ia''\<rparr>,
     tk_notAfter = 8000000000, tk_budget = demo_budget, tk_input = \<lparr>b_kind = ''Artifact'', b_id = ''in'', b_digest = ''i''\<rparr>,
     dependencies = [], tk_routeDecision = Some demo_route_binding\<rparr>"

definition demo_gates :: team_gates where
  "demo_gates = \<lparr>routing_k = demo_contract, subject_valid = (\<lambda>_. True), trusted_route_decision_digests = {''droute''},
     trusted_route_policy_digests = {''p''}, trusted_price_catalog_digests = {''c''},
     assert_manifest_current = (\<lambda>_ _. Inr ()), assert_claim_current = (\<lambda>_ _ _ _. Inr (JStr ''narrowed'')),
     authorize = (\<lambda>_ _ _ _ _. Inr [(''effect'', JStr ''allow''), (''taskDigest'', JStr ''d'')]),
     assert_current = (\<lambda>_ _ _ _ _ _. Inr ())\<rparr>"

lemma demo_task_simps [simp]:
  "th_recordDigest demo_task = ''d''" "th_id demo_task = ''task''" "rh_runId demo_task = ''run''"
  "tk_notAfter demo_task = 8000000000" "tk_budget demo_task = demo_budget" "dependencies demo_task = []"
  "tk_routeDecision demo_task = Some demo_route_binding" "b_digest demo_route_binding = ''droute''"
  by (simp_all add: demo_task_def demo_route_binding_def)

lemma demo_manifest_simps [simp]:
  "th_id demo_manifest = ''manifest''" "mf_deadline demo_manifest = 9000000000" "th_recordDigest demo_manifest = ''d''"
  "mf_maxTotalTokens demo_manifest = 15" "mf_maxCostMicrousd demo_manifest = 100"
  by (simp_all add: demo_manifest_def)

lemma demo_budget_simps [simp]: "tb_maxTokens demo_budget = 10" "tb_maxCostMicrousd demo_budget = 20"
  by (simp_all add: demo_budget_def)

lemma new_task_row_simps [simp]:
  "status (new_task_row t) = TPending" "document (new_task_row t) = t" "attempt (new_task_row t) = 0"
  "reserved_tokens (new_task_row t) = 0" "charged_tokens (new_task_row t) = 0" "reserved_cost (new_task_row t) = 0"
  "charged_cost (new_task_row t) = 0" "task_cancel (new_task_row t) = False"
  by (simp_all add: new_task_row_def)

lemma demo_gates_simps [simp]:
  "assert_claim_current demo_gates m t w now = Inr (JStr ''narrowed'')"
  "authorize demo_gates m t w evi now = Inr [(''effect'', JStr ''allow''), (''taskDigest'', JStr ''d'')]"
  "assert_current demo_gates m t w evi a now = Inr ()"
  by (simp_all add: demo_gates_def)

lemma demo_env_ok: "env_ok demo_team_env"
  by (simp add: env_ok_def demo_team_env_def demo_team_contract_def schema_bounds_def mono_def)

lemma demo_contract_eq: "contract demo_team_env = demo_team_contract"
  by (simp add: demo_team_env_def)

lemma demo_plan:
  "plan_run demo_team_contract (assert_manifest_current demo_gates) (AgentTeamManifest demo_manifest) ''run''
     [TeamTask demo_task] 1000000 = Inr (demo_manifest, [(''task'', demo_task)])"
  by code_simp

definition demo_clock :: "nat \<Rightarrow> int" where
  "demo_clock n = 1000000 * int n"

text \<open>A transaction whose body ends in a commit returns.\<close>

lemma transact_verified:
  assumes "co_inv env c" and "inj (sha env)"
    and body: "\<And>d. commit env (last_observed c) x e = Inr (x, d) \<Longrightarrow> body (last_observed c) (db c) = Inr (x, d)"
    and log: "same_log e (db c)"
  shows "\<exists>d. transact env body c = (Inr x, c\<lparr>db := d\<rparr>) \<and> same_tables d e \<and> verify_state env (last_observed c) d = Inr ()"
proof -
  have v: "verify_state env (last_observed c) (db c) = Inr ()" using assms(1) by (simp add: co_inv_def)
  from commit_total [OF assms(2) v log, of x] obtain d where d:
    "commit env (last_observed c) x e = Inr (x, d)" "same_tables d e" by blast
  have "bindE (verify_state env (last_observed c) (db c)) (\<lambda>_. body (last_observed c) (db c)) = Inr (x, d)"
    unfolding body [OF d(1)] v by simp
  then have "transact env body c = (Inr x, c\<lparr>db := d\<rparr>)" unfolding transact_def by (simp only: sum.case prod.case)
  with d(2) commit_verifies [OF d(1) v log] show ?thesis by blast
qed

lemma transact_total:
  assumes "co_inv env c" and "inj (sha env)"
    and "\<And>d. commit env (last_observed c) x e = Inr (x, d) \<Longrightarrow> body (last_observed c) (db c) = Inr (x, d)"
    and "same_log e (db c)"
  shows "\<exists>d. transact env body c = (Inr x, c\<lparr>db := d\<rparr>) \<and> same_tables d e"
  using transact_verified [of env c x e body] assms by blast

lemma demo_inj: "inj (sha demo_team_env)"
  by (simp add: demo_team_env_def inj_def)

text \<open>The tables after the run was created, and after its task was leased, started and cancelled.\<close>

definition demo_tables :: "task_row \<Rightarrow> team_db" where
  "demo_tables r = empty_db\<lparr>manifests := [(''manifest'', \<lparr>mr_project_id = ''project'', mr_team_id = ''team'',
       mr_digest = ''d'', mr_document = demo_manifest\<rparr>)],
     runs := [(''run'', new_run_row demo_manifest)], tasks := [((''run'', ''task''), r)]\<rparr>"

lemma reachable_observed:
  assumes "env_ok env" and "reach (team_start env) (team_step env) c" and "observed_time now c = (r, c')"
  shows "co_inv env c'"
  using team.steadyD [OF observed_steady [OF assms(1)] team_reachable_inv [OF assms(2,1)] assms(3)] by simp

lemma demo_created:
  "\<exists>c. reach (team_start demo_team_env) (team_step demo_team_env) c \<and> same_tables (db c) (demo_tables (new_task_row demo_task))
     \<and> last_observed c = 1000000 \<and> ticks c = 2 \<and> clock c = demo_clock \<and> seal c = 0"
proof -
  have "\<exists>d. new_store demo_team_env ''store'' (demo_clock 0) = Inr d"
    by (simp add: new_store_def write_state_auth_def write_revision_def empty_db_def Let_def)
  then obtain d where d: "new_store demo_team_env ''store'' (demo_clock 0) = Inr d" by blast
  let ?c = "\<lparr>db = d, last_observed = demo_clock 0, clock = demo_clock, ticks = 1, seal = 0\<rparr>"
  have s: "team_start demo_team_env ?c" using d by (rule team_start.New)
  let ?o = "?c\<lparr>ticks := 2, last_observed := 1000000\<rparr>"
  have o: "observed_time 0 ?c = (Inr 1000000, ?o)"
    by (simp add: observed_time_def demo_clock_def Let_def)
  have inv: "co_inv demo_team_env ?o" 
    using reachable_observed [OF demo_env_ok _ o] reach.intros(1) [of "team_start demo_team_env" ?c, OF s] by blast
  have st: "same_tables d empty_db" using new_store_verifies [OF d] by simp
  then have ins: "insert_run demo_manifest ''run'' [(''task'', demo_task)] d
      = Inr (d\<lparr>manifests := manifests (demo_tables (new_task_row demo_task)),
               runs := runs (demo_tables (new_task_row demo_task)),
               tasks := tasks (demo_tables (new_task_row demo_task))\<rparr>)" (is "_ = Inr ?e")
    by (simp add: insert_run_def insert_manifest_def demo_tables_def same_tables_def empty_db_def Let_def sorted_items_def
        demo_manifest_def)
  have "\<exists>e. transact demo_team_env (\<lambda>seen d. on_integrity ''ECO_TEAM_RUN_CONFLICT''
      (bindE (insert_run demo_manifest ''run'' [(''task'', demo_task)] d)
         (commit demo_team_env seen (run_digest demo_team_env demo_manifest ''run'' [(''task'', demo_task)])))) ?o
      = (Inr (run_digest demo_team_env demo_manifest ''run'' [(''task'', demo_task)]), ?o\<lparr>db := e\<rparr>)
      \<and> same_tables e ?e"
    using st by (intro transact_total [OF inv demo_inj]) (simp_all add: ins same_log_def on_integrity_def)
  then obtain e where e: "same_tables e ?e" and t: "create_run demo_team_env demo_gates (AgentTeamManifest demo_manifest) ''run''
      [TeamTask demo_task] 0 ?c = (Inr (run_digest demo_team_env demo_manifest ''run'' [(''task'', demo_task)]), ?o\<lparr>db := e\<rparr>)"
    unfolding create_run_def bindA_Inr [of "observed_time 0", OF o] demo_contract_eq demo_plan by auto
  have "reach (team_start demo_team_env) (team_step demo_team_env) (?o\<lparr>db := e\<rparr>)"
    using s team_step.Create [OF t] by (blast intro: reach.intros)
  moreover have "same_tables e (demo_tables (new_task_row demo_task))"
    using e st by (simp add: same_tables_def demo_tables_def empty_db_def)
  ultimately show ?thesis by (intro exI [of _ "?o\<lparr>db := e\<rparr>"]) simp
qed

definition demo_claim :: lease_claim where
  "demo_claim = \<lparr>cl_run_id = ''run'', cl_task_id = ''task'', cl_task_digest = ''d'',
     cl_worker_digest = binding_digest demo_team_env [], lease_token = ''token'', lease_expires_at = 62000000,
     cl_attempt = 1\<rparr>"

definition demo_leased :: task_row where
  "demo_leased = grant_lease demo_team_env demo_task [] ''token'' 62000000 (new_task_row demo_task)"

lemma demo_task_valid: "validate_record demo_team_contract (TeamTask demo_task) = Inr (TeamTask demo_task)"
  by code_simp

lemma demo_manifest_valid:
  "validate_record demo_team_contract (AgentTeamManifest demo_manifest) = Inr (AgentTeamManifest demo_manifest)"
  by code_simp

lemma demo_context:
  "same_tables d (demo_tables r) \<Longrightarrow> run_context demo_team_env d ''run'' = Inr (new_run_row demo_manifest, demo_manifest)"
  using demo_manifest_valid
  by (simp add: run_context_def same_tables_def demo_tables_def demo_contract_eq demo_manifest_def new_run_row_def
      del: validate_record_Inr)

lemma demo_claim_locked:
  assumes "same_tables d (demo_tables (new_task_row demo_task))"
  shows "claim_locked demo_team_env demo_gates ''run'' ''task'' [] 2000000 60 ''token'' d
    = Inr (demo_claim, d\<lparr>tasks := tasks (demo_tables demo_leased)\<rparr>)"
proof -
  have t: "tasks d = [((''run'', ''task''), new_task_row demo_task)]" "handoffs d = []"
    using assms by (simp_all add: same_tables_def demo_tables_def empty_db_def)
  have e: "expire_locked demo_team_env ''run'' 2000000 d = d"
    using t by (simp add: expire_locked_def update_all_def expire_row_def new_task_row_def)
  have doc: "task_document demo_team_env (new_task_row demo_task) = Inr demo_task"
    using demo_task_valid by (simp add: new_task_row_def demo_contract_eq del: validate_record_Inr)
  have u: "usage_tokens d ''run'' = 0" "usage_cost d ''run'' = 0"
    using t by (simp_all add: usage_tokens_def usage_cost_def run_tasks_def)
  have r: "dependencies_ready d demo_task" by (simp add: dependencies_ready_def)
  have w: "update_where (''run'', ''task'') (\<lambda>r. status r = TPending)
      (grant_lease demo_team_env demo_task [] ''token'' 62000000) (tasks d) = Some (tasks (demo_tables demo_leased))"
    using t by (simp add: update_where_def demo_tables_def demo_leased_def dict_set_def)
  have m: "map_of (tasks d) (''run'', ''task'') = Some (new_task_row demo_task)" using t by simp
  show ?thesis
    unfolding claim_locked_def demo_context [OF assms] bindE.simps Let_def prod.case e m option.case
    using u r w by (simp add: doc demo_claim_def new_run_row_def del: task_document_Inr)
qed

lemma demo_claimed:
  "\<exists>c c'. reach (team_start demo_team_env) (team_step demo_team_env) c
     \<and> claim_task demo_team_env demo_gates ''run'' ''task'' [] 0 60 ''token'' c = (Inr demo_claim, c')
     \<and> same_tables (db c') (demo_tables demo_leased)
     \<and> last_observed c' = 2000000 \<and> ticks c' = 3 \<and> clock c' = demo_clock \<and> seal c' = 0"
proof -
  obtain c where c: "reach (team_start demo_team_env) (team_step demo_team_env) c"
    "same_tables (db c) (demo_tables (new_task_row demo_task))" "last_observed c = 1000000" "ticks c = 2"
    "clock c = demo_clock" "seal c = 0" using demo_created by blast
  let ?o = "c\<lparr>ticks := 3, last_observed := 2000000\<rparr>"
  have o: "observed_time 0 c = (Inr 2000000, ?o)"
    using c by (simp add: observed_time_def demo_clock_def Let_def)
  have inv: "co_inv demo_team_env ?o" using reachable_observed [OF demo_env_ok c(1) o] .
  let ?e = "(db c)\<lparr>tasks := tasks (demo_tables demo_leased)\<rparr>"
  have "\<exists>d. transact demo_team_env (\<lambda>seen d.
       bindE (claim_locked demo_team_env demo_gates ''run'' ''task'' [] 2000000 60 ''token'' d) (\<lambda>(claim, d').
       commit demo_team_env seen claim d')) ?o = (Inr demo_claim, ?o\<lparr>db := d\<rparr>) \<and> same_tables d ?e"
    by (rule transact_total [OF inv demo_inj]) (simp_all add: demo_claim_locked [OF c(2)])
  then obtain d where d: "same_tables d ?e" and t: "claim_task demo_team_env demo_gates ''run'' ''task'' [] 0 60 ''token'' c
      = (Inr demo_claim, ?o\<lparr>db := d\<rparr>)"
    unfolding claim_task_def bindA_Inr [of "observed_time 0", OF o] by auto
  have "same_tables d (demo_tables demo_leased)"
    using d c(2) by (simp add: same_tables_def demo_tables_def)
  with c t show ?thesis by (intro exI [of _ c] exI [of _ "?o\<lparr>db := d\<rparr>"]) simp
qed

lemma demo_leased_reachable:
  "\<exists>c. reach (team_start demo_team_env) (team_step demo_team_env) c \<and> same_tables (db c) (demo_tables demo_leased)
     \<and> last_observed c = 2000000 \<and> ticks c = 3 \<and> clock c = demo_clock \<and> seal c = 0"
  using demo_claimed by (blast intro: reach.intros(2) team_step.Claim)

lemma demo_route_valid:
  "returns (validate_route demo_gates (demo_tables r) demo_task demo_evidence 3000000)
     (\<lambda>dec. map_option recordDigest dec = Some ''droute'')"
  by code_simp

definition demo_auth :: execution_authorization where
  "demo_auth = \<lparr>au_run_id = ''run'', au_task_id = ''task'', au_task_digest = ''d'',
     au_claim_digest = claim_digest demo_team_env demo_claim,
     authorization = [(''effect'', JStr ''allow''), (''taskDigest'', JStr ''d'')], au_evidence = demo_evidence,
     au_expires_at = 62000000, au_seal = 0\<rparr>"

definition demo_started :: task_row where
  "demo_started = demo_leased\<lparr>status := TStarted\<rparr>"

lemma demo_leased_simps [simp]:
  "status demo_leased = TLeased" "document demo_leased = demo_task" "task_digest demo_leased = ''d''"
  "attempt demo_leased = 1" "task_cancel demo_leased = False" "lease_expires_us demo_leased = Some 62000000"
  "worker_digest demo_leased = Some (binding_digest demo_team_env [])"
  "lease_hash demo_leased = Some (claim_hash demo_team_env ''token'')"
  by (simp_all add: demo_leased_def grant_lease_def new_task_row_def demo_team_env_def)

lemma validate_route_cong:
  assumes "team_routes d = team_routes e"
  shows "validate_route g d t evi now = validate_route g e t evi now"
  unfolding validate_route_def assms by (rule refl)

lemma demo_start_locked:
  assumes "same_tables d (demo_tables demo_leased)"
  shows "start_locked demo_team_env demo_gates demo_claim demo_auth [] 3000000 d
    = Inr (d\<lparr>team_routes := [(''droute'', ''d'', 3000000)], tasks := tasks (demo_tables demo_started)\<rparr>)"
proof -
  have t: "tasks d = [((''run'', ''task''), demo_leased)]" "team_routes d = []"
    using assms by (simp_all add: same_tables_def demo_tables_def empty_db_def)
  have claim: "assert_claim demo_team_env {TLeased} demo_claim d = Inr demo_leased"
    using t by (simp add: assert_claim_def demo_claim_def demo_team_env_def)
  have doc: "task_document demo_team_env demo_leased = Inr demo_task"
    using demo_task_valid by (simp add: demo_contract_eq del: validate_record_Inr)
  have "team_routes d = team_routes (demo_tables demo_leased)" using t by (simp add: demo_tables_def empty_db_def)
  from demo_route_valid [of demo_leased, folded validate_route_cong [OF this]] obtain dec where
    route: "validate_route demo_gates d demo_task demo_evidence 3000000 = Inr (Some dec)"
    by (rule returnsE) auto
  have cons: "consume_task_route demo_team_env demo_task (Some dec) 3000000 d
      = Inr (d\<lparr>team_routes := [(''droute'', ''d'', 3000000)]\<rparr>)"
    using t by (simp add: consume_task_route_def demo_team_env_def)
  have w: "update_where (''run'', ''task'') (\<lambda>r. status r = TLeased) (\<lambda>r. r\<lparr>status := TStarted\<rparr>) (tasks d)
      = Some (tasks (demo_tables demo_started))"
    using t by (simp add: update_where_def demo_tables_def demo_started_def dict_set_def)
  have ctx: "run_context demo_team_env d (cl_run_id demo_claim) = Inr (new_run_row demo_manifest, demo_manifest)"
    using demo_context [OF assms] by (simp add: demo_claim_def)
  show ?thesis
    unfolding start_locked_def claim bindE.simps ctx prod.case doc
    using route cons w by (simp add: new_run_row_def demo_auth_def demo_claim_def)
qed

lemma demo_task_start:
  "\<exists>c c'. reach (team_start demo_team_env) (team_step demo_team_env) c \<and> clock c = demo_clock
     \<and> start_effect demo_team_env demo_gates demo_claim demo_auth [] 0 c = (Inr (), c')
     \<and> map_of (tasks (db c')) (''run'', ''task'') = Some demo_started
     \<and> map_of (runs (db c')) ''run'' = Some (new_run_row demo_manifest)"
proof -
  obtain c where c: "reach (team_start demo_team_env) (team_step demo_team_env) c"
    "same_tables (db c) (demo_tables demo_leased)" "last_observed c = 2000000" "ticks c = 3"
    "clock c = demo_clock" "seal c = 0" using demo_leased_reachable by blast
  let ?o = "c\<lparr>ticks := 4, last_observed := 3000000\<rparr>"
  have o: "observed_time 0 c = (Inr 3000000, ?o)"
    using c by (simp add: observed_time_def demo_clock_def Let_def)
  have inv: "co_inv demo_team_env ?o" using reachable_observed [OF demo_env_ok c(1) o] .
  let ?e = "(db c)\<lparr>team_routes := [(''droute'', ''d'', 3000000)], tasks := tasks (demo_tables demo_started)\<rparr>"
  have "\<exists>d. transact demo_team_env (\<lambda>seen d. bindE (start_locked demo_team_env demo_gates demo_claim demo_auth [] 3000000 d)
      (\<lambda>d'. commit demo_team_env seen () d')) ?o = (Inr (), ?o\<lparr>db := d\<rparr>) \<and> same_tables d ?e"
    by (rule transact_total [OF inv demo_inj]) (simp_all add: demo_start_locked [OF c(2)] same_log_def)
  then obtain d where d: "same_tables d ?e" and t: "start_effect demo_team_env demo_gates demo_claim demo_auth [] 0 c
      = (Inr (), ?o\<lparr>db := d\<rparr>)"
    using c(6) unfolding start_effect_def bindA_Inr [of "observed_time 0", OF o]
    by (auto simp: demo_auth_def demo_claim_def)
  have "map_of (tasks d) (''run'', ''task'') = Some demo_started" "map_of (runs d) ''run'' = Some (new_run_row demo_manifest)"
    using d c(2) by (simp_all add: same_tables_def demo_tables_def)
  with t c(1,5) show ?thesis by (intro exI [of _ c] exI [of _ "?o\<lparr>db := d\<rparr>"]) simp
qed

lemma demo_started_reachable:
  "\<exists>c. reach (team_start demo_team_env) (team_step demo_team_env) c
     \<and> map_of (tasks (db c)) (''run'', ''task'') = Some demo_started
     \<and> map_of (runs (db c)) ''run'' = Some (new_run_row demo_manifest)"
  using demo_task_start by (blast intro: reach.intros(2) team_step.Start)

section \<open>Budgets\<close>

text \<open>C10: a team run never spends more than its manifest allows. In every state that any sequence of
  operations reaches, what the tasks of a run reserved and were charged together stays within the run's
  token and cost limits, and so do the charges alone.\<close>

theorem team_budget_never_exceeded:
  assumes "env_ok env" and "reach (team_start env) (team_step env) c" and "map_of (runs (db c)) i = Some run"
  shows "usage_tokens (db c) i \<le> max_tokens run \<and> usage_cost (db c) i \<le> max_cost run
    \<and> sum_list (map (\<lambda>(k, r). charged_tokens r) (run_tasks (db c) i)) \<le> max_tokens run
    \<and> sum_list (map (\<lambda>(k, r). charged_cost r) (run_tasks (db c) i)) \<le> max_cost run"
proof -
  have ok: "tables_ok env (db c)" using team_reachable_inv [OF assms(2,1)] by (simp add: co_inv_def)
  have u: "usage_tokens (db c) i \<le> max_tokens run" "usage_cost (db c) i \<le> max_cost run"
    using tables_okD(7) [OF ok assms(3)] by (simp_all add: run_ok_def)
  have "0 \<le> reserved_tokens r \<and> 0 \<le> reserved_cost r" if "(k, r) \<in> set (run_tasks (db c) i)" for k r
  proof -
    have "row_ok env (team_routes (db c)) k r" using that tables_okD(4) [OF ok] by (simp add: run_tasks_def)
    then show ?thesis by (cases "status r") (simp_all add: row_ok_def money_ok_def)
  qed
  then have "sum_list (map (\<lambda>(k, r). charged_tokens r) (run_tasks (db c) i)) \<le> usage_tokens (db c) i"
    "sum_list (map (\<lambda>(k, r). charged_cost r) (run_tasks (db c) i)) \<le> usage_cost (db c) i"
    unfolding usage_tokens_def usage_cost_def by (auto intro!: sum_list_mono)
  with u show ?thesis by linarith
qed

theorem team_budget_never_exceeded_witness:
  "\<exists>c. reach (team_start demo_team_env) (team_step demo_team_env) c
     \<and> map_of (runs (db c)) ''run'' = Some (new_run_row demo_manifest) \<and> usage_tokens (db c) ''run'' \<le> 15"
proof -
  obtain c where c: "reach (team_start demo_team_env) (team_step demo_team_env) c"
    "map_of (runs (db c)) ''run'' = Some (new_run_row demo_manifest)" using demo_started_reachable by blast
  from team_budget_never_exceeded [OF demo_env_ok c] c show ?thesis by auto
qed

section \<open>Effects\<close>

lemma started_not_leasable:
  assumes "map_of (tasks d) k = Some r" and "status r \<in> insert TStarted TERMINAL"
  shows "start_locked env g claim auth worker observed d = Inr d' \<Longrightarrow> k \<noteq> (cl_run_id claim, cl_task_id claim)"
    and "claim_locked env g i tid worker observed secs token d = Inr x \<Longrightarrow> k \<noteq> (i, tid)"
proof -
  assume "start_locked env g claim auth worker observed d = Inr d'"
  then obtain row where "assert_claim env {TLeased} claim d = Inr row" by (rule start_locked_Inr)
  with assert_claim_Inr [OF this] assms show "k \<noteq> (cl_run_id claim, cl_task_id claim)" by (auto simp: TERMINAL_def)
next
  assume c: "claim_locked env g i tid worker observed secs token d = Inr x"
  obtain claim d' where x: "x = (claim, d')" by force
  from c [unfolded x] obtain row where row: "map_of (tasks (expire_locked env i observed d)) (i, tid) = Some row"
    "status row = TPending" by (rule claim_locked_Inr)
  show "k \<noteq> (i, tid)"
  proof
    assume "k = (i, tid)"
    with assms(1) row(1) have "row = expire_row (epoch_us env observed) r"
      by (simp add: expire_locked_def map_of_update_all)
    with row(2) assms(2) show False
      by (auto simp: expire_row_def charge_reservation_def TERMINAL_def split: if_splits)
  qed
qed

lemma bindA_fst_Inr: "fst (bindA m f w) = Inr y \<Longrightarrow> \<exists>x w'. m w = (Inr x, w') \<and> fst (f x w') = Inr y"
  by (auto simp: bindA_def split: prod.splits sum.splits)

lemma transact_fst_Inr: "fst (transact env body c) = Inr x \<Longrightarrow> \<exists>d. body (last_observed c) (db c) = Inr (x, d)"
  by (auto simp: transact_def split: sum.splits)

lemma observed_time_db: "observed_time now c = (r, c') \<Longrightarrow> db c' = db c"
  by (auto simp: observed_time_def Let_def split: if_splits)

lemma start_effect_body:
  assumes "fst (start_effect env g claim auth worker now c) = Inr u"
  shows "\<exists>observed d. start_locked env g claim auth worker observed (db c) = Inr d"
proof -
  from bindA_fst_Inr [OF assms [unfolded start_effect_def]] obtain observed c1 where
    o: "observed_time now c = (Inr observed, c1)"
    and t: "fst (transact env (\<lambda>seen d. bindE (start_locked env g claim auth worker observed d)
      (\<lambda>d'. commit env seen () d')) c1) = Inr u"
    by (auto split: if_splits)
  from transact_fst_Inr [OF t] observed_time_db [OF o] show ?thesis by auto
qed

lemma claim_task_body:
  assumes "fst (claim_task env g i tid worker now secs token c) = Inr claim"
  shows "\<exists>observed d. claim_locked env g i tid worker observed secs token (db c) = Inr (claim, d)
     \<and> 1 \<le> secs \<and> secs \<le> 3600"
proof -
  from bindA_fst_Inr [OF assms [unfolded claim_task_def]] obtain observed c1 where
    o: "observed_time now c = (Inr observed, c1)" and s: "1 \<le> secs" "secs \<le> 3600"
    and t: "fst (transact env (\<lambda>seen d. bindE (claim_locked env g i tid worker observed secs token d)
      (\<lambda>(claim, d'). commit env seen claim d')) c1) = Inr claim"
    by (auto split: if_splits)
  from transact_fst_Inr [OF t] observed_time_db [OF o] s show ?thesis by (auto simp: commit_def)
qed

text \<open>C9: an effect that was started is never started again. From a reachable state on, whatever operations
  follow, a started task stays started or reaches a terminal status without a new attempt, a terminal row
  never changes, and no lease and no start of that task is ever granted again.\<close>

theorem team_effect_once:
  assumes "env_ok env" and "reach (team_start env) (team_step env) c" and "(team_step env)\<^sup>*\<^sup>* c c'"
    and "map_of (tasks (db c)) (i, tid) = Some r" and "status r \<in> insert TStarted TERMINAL"
  shows "\<exists>r'. map_of (tasks (db c')) (i, tid) = Some r' \<and> document r' = document r
    \<and> (status r \<in> TERMINAL \<longrightarrow> r' = r)
    \<and> (status r = TStarted \<longrightarrow> status r' \<in> insert TStarted TERMINAL \<and> attempt r' = attempt r)
    \<and> (\<forall>g claim auth worker now. cl_run_id claim = i \<longrightarrow> cl_task_id claim = tid \<longrightarrow>
         (\<exists>e. fst (start_effect env g claim auth worker now c') = Inl e))
    \<and> (\<forall>g worker now secs token. \<exists>e. fst (claim_task env g i tid worker now secs token c') = Inl e)"
proof -
  have "rows_advance (db c) (db c')"
    using team_steps_steady [OF assms(1) team_reachable_inv [OF assms(2,1)] assms(3)] by simp
  with assms(4) obtain r' where r': "map_of (tasks (db c')) (i, tid) = Some r'" "row_next\<^sup>*\<^sup>* r r'"
    unfolding rows_advance_def by blast
  have st: "status r' \<in> insert TStarted TERMINAL"
    using row_path_terminal [OF r'(2)] row_path_started [OF r'(2)] assms(5) by auto
  have "\<exists>e. fst (start_effect env g claim auth worker now c') = Inl e"
    if "cl_run_id claim = i" "cl_task_id claim = tid" for g claim auth worker now
    using start_effect_body [of env g claim auth worker now c'] started_not_leasable(1) [OF r'(1) st] that
    by (cases "fst (start_effect env g claim auth worker now c')") blast+
  moreover have "\<exists>e. fst (claim_task env g i tid worker now secs token c') = Inl e" for g worker now secs token
    using claim_task_body [of env g i tid worker now secs token c'] started_not_leasable(2) [OF r'(1) st]
    by (cases "fst (claim_task env g i tid worker now secs token c')") blast+
  ultimately show ?thesis
    using r' row_path_terminal [OF r'(2)] row_path_started [OF r'(2)] row_path_document [OF r'(2)] by blast
qed

theorem team_effect_once_witness:
  "\<exists>c. reach (team_start demo_team_env) (team_step demo_team_env) c
     \<and> map_of (tasks (db c)) (''run'', ''task'') = Some demo_started
     \<and> (\<exists>e. fst (claim_task demo_team_env demo_gates ''run'' ''task'' [] 0 60 ''again'' c) = Inl e)"
proof -
  obtain c where c: "reach (team_start demo_team_env) (team_step demo_team_env) c"
    "map_of (tasks (db c)) (''run'', ''task'') = Some demo_started" using demo_started_reachable by blast
  have "status demo_started \<in> insert TStarted TERMINAL" by (simp add: demo_started_def)
  from team_effect_once [OF demo_env_ok c(1) rtranclp.rtrancl_refl c(2) this] c show ?thesis by blast
qed

text \<open>A route decision is used by one task. In every reachable state two tasks whose effects were started
  with the same route decision are the same task.\<close>

lemma team_route_single_use:
  assumes "env_ok env" and "reach (team_start env) (team_step env) c"
    and "map_of (tasks (db c)) k = Some r" and "crossed r" and "tk_routeDecision (document r) = Some b"
    and "map_of (tasks (db c)) k' = Some r'" and "crossed r'" and "tk_routeDecision (document r') = Some b'"
    and "b_digest b = b_digest b'"
  shows "k = k' \<and> (\<exists>at. (b_digest b, task_digest r, at) \<in> set (team_routes (db c)))"
proof -
  have ok: "tables_ok env (db c)" using team_reachable_inv [OF assms(2,1)] by (simp add: co_inv_def)
  from tables_okD(5) [OF ok assms(3)] assms(4,5) obtain at where at: "(b_digest b, task_digest r, at) \<in> set (team_routes (db c))"
    by (auto simp: row_ok_def route_ok_def)
  from tables_okD(5) [OF ok assms(6)] assms(7-9) obtain at' where
    "(b_digest b, task_digest r', at') \<in> set (team_routes (db c))" by (auto simp: row_ok_def route_ok_def)
  with at eq_key_imp_eq_value [OF tables_okD(3) [OF ok]] have "task_digest r = task_digest r'" by blast
  have "inj_on (task_digest \<circ> snd) (set (tasks (db c)))"
    using tables_okD(2) [OF ok] by (simp add: distinct_map)
  then have "(k, r) = (k', r')"
    by (rule inj_onD) (use \<open>task_digest r = task_digest r'\<close> assms(3,6) in \<open>auto dest: map_of_SomeD\<close>)
  with at show ?thesis by blast
qed

section \<open>Leases\<close>

lemma transact_Inr:
  assumes "transact env body c = (Inr x, c')"
  obtains d where "verify_state env (last_observed c) (db c) = Inr ()" "body (last_observed c) (db c) = Inr (x, d)"
    "c' = c\<lparr>db := d\<rparr>"
  using assms by (auto simp: transact_def split: sum.splits)

lemma claim_locked_log:
  assumes "claim_locked env g i tid worker observed secs token d0 = Inr (claim, d')"
  shows "same_log d' d0"
proof -
  from assms have "d' = (expire_locked env i observed d0)\<lparr>tasks := tasks d'\<rparr>" by (rule claim_locked_Inr)
  moreover have "same_log ((expire_locked env i observed d0)\<lparr>tasks := tasks d'\<rparr>) d0"
    by (simp add: expire_locked_def same_log_def)
  ultimately show ?thesis by metis
qed

lemma claim_task_Inr:
  assumes "claim_task env g i tid worker now secs token c = (Inr claim, c')"
  obtains observed d where "claim_locked env g i tid worker observed secs token (db c) = Inr (claim, d)"
    "same_tables (db c') d" "1 \<le> secs" "secs \<le> 3600" "now \<le> observed" "last_observed c' = observed"
proof -
  from assms obtain observed c1 where o: "observed_time now c = (Inr observed, c1)"
    and s: "1 \<le> secs" "secs \<le> 3600"
    and t: "transact env (\<lambda>seen d. bindE (claim_locked env g i tid worker observed secs token d)
      (\<lambda>(claim, d'). commit env seen claim d')) c1 = (Inr claim, c')"
    unfolding claim_task_def by (auto simp: bindA_def split: prod.splits sum.splits if_splits)
  have o': "db c1 = db c" "now \<le> observed" "last_observed c1 = observed"
    using o by (auto simp: observed_time_def Let_def split: if_splits)
  from t obtain e where v: "verify_state env (last_observed c1) (db c1) = Inr ()" and c': "c' = c1\<lparr>db := e\<rparr>"
    and b: "bindE (claim_locked env g i tid worker observed secs token (db c1))
      (\<lambda>(claim, d'). commit env (last_observed c1) claim d') = Inr (claim, e)" by (rule transact_Inr) simp
  from b obtain x d where x: "claim_locked env g i tid worker observed secs token (db c1) = Inr (x, d)"
    and k: "commit env (last_observed c1) x d = Inr (claim, e)" by auto
  from commit_verifies [OF k v claim_locked_log [OF x]] have "claim = x" "same_tables e d" by auto
  with x o' s c' show thesis by (intro that [of observed d]) auto
qed

text \<open>What a granted lease means. The run was active; every dependency had succeeded and handed over the
  artifact that is the task's input; the authority guard allowed the worker; the lease ends within its
  seconds, before the task's and the manifest's deadline; the row is leased under a new attempt with its
  whole budget reserved; and a claim of any other attempt on the task is refused from then on.\<close>

lemma team_claim_sound:
  assumes "env_ok env" and "reach (team_start env) (team_step env) c"
    and "claim_task env g i tid worker now secs token c = (Inr claim, c')"
  shows "\<exists>run m row row'. run_context env (db c) i = Inr (run, m) \<and> run_state run = RActive \<and> \<not> run_cancel run
    \<and> map_of (tasks (db c)) (i, tid) = Some row \<and> map_of (tasks (db c')) (i, tid) = Some row'
    \<and> (\<forall>dep \<in> set (dependencies (document row)). \<exists>drow h. map_of (tasks (db c)) (i, dep) = Some drow
         \<and> status drow = TSucceeded \<and> find_handoff (db c) i dep tid = Some h
         \<and> artifact_digest h = b_digest (tk_input (document row)))
    \<and> (\<exists>x. assert_claim_current g m (document row) worker (last_observed c') = Inr x)
    \<and> lease_expires_at claim \<le> last_observed c' + secs * 1000000 \<and> lease_expires_at claim \<le> tk_notAfter (document row)
    \<and> lease_expires_at claim \<le> mf_deadline m
    \<and> status row' = TLeased \<and> attempt row' = attempt row + 1 \<and> cl_attempt claim = attempt row'
    \<and> reserved_tokens row' = tb_maxTokens (tk_budget (document row))
    \<and> reserved_cost row' = tb_maxCostMicrousd (tk_budget (document row))
    \<and> assert_claim env {TLeased} claim (db c') = Inr row'
    \<and> (\<forall>old S x. cl_run_id old = i \<longrightarrow> cl_task_id old = tid \<longrightarrow> cl_attempt old \<noteq> cl_attempt claim \<longrightarrow>
         assert_claim env S old (db c') \<noteq> Inr x)"
proof -
  have ok: "tables_ok env (db c)" using team_reachable_inv [OF assms(2,1)] by (simp add: co_inv_def)
  from assms(3) obtain observed d where cl: "claim_locked env g i tid worker observed secs token (db c) = Inr (claim, d)"
    and st: "same_tables (db c') d" and lo: "last_observed c' = observed" by (rule claim_task_Inr)
  let ?d = "expire_locked env i observed (db c)"
  have ok': "tables_ok env ?d" using expire_locked_follows [OF ok] by (simp add: follows_def)
  from cl obtain run m row where f: "run_context env (db c) i = Inr (run, m)" "run_state run = RActive" "\<not> run_cancel run"
    and row: "map_of (tasks ?d) (i, tid) = Some row" "status row = TPending"
    and dep: "dependencies_ready ?d (document row)"
    and g: "\<exists>x. assert_claim_current g m (document row) worker observed = Inr x"
    and claim: "claim = \<lparr>cl_run_id = i, cl_task_id = tid, cl_task_digest = th_recordDigest (document row),
       cl_worker_digest = binding_digest env worker, lease_token = token, lease_expires_at =
         min (observed + secs * 1000000) (min (tk_notAfter (document row)) (mf_deadline m)),
       cl_attempt = attempt row + 1\<rparr>"
    and upd: "update_where (i, tid) (\<lambda>r. status r = TPending) (grant_lease env (document row) worker token
       (lease_expires_at claim)) (tasks ?d) = Some (tasks d)"
    by (rule claim_locked_Inr)
  from row(1) obtain old where old: "map_of (tasks (db c)) (i, tid) = Some old"
    and rowold: "row = expire_row (epoch_us env observed) old"
    by (auto simp: expire_locked_def map_of_update_all)
  have same: "document row = document old" "attempt row = attempt old"
    unfolding rowold by (simp_all add: expire_row_def charge_reservation_def release_lease_def)
  have doc: "rh_runId (document row) = i" "th_id (document row) = tid" "task_digest row = th_recordDigest (document row)"
    using tables_okD(5) [OF ok' row(1)] by (simp_all add: row_ok_def doc_ok_def)
  let ?r = "grant_lease env (document row) worker token (lease_expires_at claim) row"
  have "dict_set (i, tid) ?r (tasks ?d) = tasks d" using upd row by (simp add: update_where_def)
  with st have new: "map_of (tasks (db c')) (i, tid) = Some ?r"
    by (metis fun_upd_same map_of_dict_set same_tables_def)
  have dep': "\<exists>drow h. map_of (tasks (db c)) (i, x) = Some drow \<and> status drow = TSucceeded
      \<and> find_handoff (db c) i x tid = Some h \<and> artifact_digest h = b_digest (tk_input (document old))"
    if "x \<in> set (dependencies (document old))" for x
  proof -
    from dep that have "dependency_ready ?d (document row) x" by (simp add: dependencies_ready_def list_all_iff same)
    then obtain drow h where "map_of (tasks ?d) (i, x) = Some drow" "status drow = TSucceeded"
      "find_handoff ?d i x tid = Some h" "artifact_digest h = b_digest (tk_input (document row))"
      by (auto simp: dependency_ready_def doc split: option.splits)
    then show ?thesis
      by (auto simp: expire_locked_def map_of_update_all expire_row_def charge_reservation_def release_lease_def
          find_handoff_def same split: if_splits)
  qed
  have ac: "assert_claim env {TLeased} claim (db c') = Inr ?r"
    unfolding assert_claim_def using new doc(3) by (simp add: claim grant_lease_def)
  have other: "assert_claim env S p (db c') \<noteq> Inr x"
    if "cl_run_id p = i" "cl_task_id p = tid" "cl_attempt p \<noteq> cl_attempt claim" for p S x
    using assert_claim_Inr [of env S p "db c'" x] new that by (auto simp: claim grant_lease_def)
  show ?thesis
    by (intro exI [of _ run] exI [of _ m] exI [of _ old] exI [of _ ?r])
      (use f old new dep' g ac other in \<open>auto simp: lo same [symmetric] grant_lease_def claim\<close>)
qed

section \<open>Failures\<close>

lemma mark_ambiguous_returns:
  assumes inv: "co_inv env c1" and inj: "inj (sha env)" and time: "observed_time now c = (Inr observed, c1)"
    and claim: "assert_claim env {TLeased, TStarted} claim (db c) = Inr row" and "status row = TStarted"
  shows "\<exists>d. mark_ambiguous env claim now c = (Inr (charge_reservation TAmbiguous row), c1\<lparr>db := d\<rparr>)
    \<and> same_tables d (set_task claim (charge_reservation TAmbiguous row) (db c))"
proof -
  let ?e = "set_task claim (charge_reservation TAmbiguous row) (db c)"
  have db: "db c1 = db c" using observed_time_db [OF time] .
  have f: "ambiguous_locked env claim (db c) = Inr ?e"
    unfolding ambiguous_locked_def claim using assms(5) by simp
  have "\<exists>d. transact env (\<lambda>seen d. bindE (ambiguous_locked env claim d) (\<lambda>d'. commit env seen () d')) c1
      = (Inr (), c1\<lparr>db := d\<rparr>) \<and> same_tables d ?e \<and> verify_state env (last_observed c1) d = Inr ()"
    by (rule transact_verified [OF inv inj]) (simp_all add: db f same_log_def set_task_def)
  then obtain d where t: "transact env (\<lambda>seen d. bindE (ambiguous_locked env claim d) (\<lambda>d'. commit env seen () d')) c1
      = (Inr (), c1\<lparr>db := d\<rparr>)" and d: "same_tables d ?e" "verify_state env (last_observed c1) d = Inr ()" by blast
  have "map_of (tasks d) (cl_run_id claim, cl_task_id claim) = Some (charge_reservation TAmbiguous row)"
    using d(1) by (simp add: same_tables_def set_task_def)
  with d(2) have "task_state env (cl_run_id claim) (cl_task_id claim) (c1\<lparr>db := d\<rparr>)
      = (Inr (charge_reservation TAmbiguous row), c1\<lparr>db := d\<rparr>)"
    by (simp add: task_state_def)
  then have "mark_ambiguous env claim now c = (Inr (charge_reservation TAmbiguous row), c1\<lparr>db := d\<rparr>)"
    unfolding mark_ambiguous_def bindA_Inr [of "observed_time now", OF time] using t by simp
  with d(1) show ?thesis by blast
qed

lemma start_effect_Inr:
  assumes "co_inv env c" and "start_effect env g claim auth worker now c = (Inr u, c1)"
  obtains row where "assert_claim env {TLeased, TStarted} claim (db c1) = Inr row" "status row = TStarted"
proof -
  from assms(2) [unfolded start_effect_def] obtain observed c0 where
    o: "observed_time now c = (Inr observed, c0)"
    and t: "transact env (\<lambda>seen d. bindE (start_locked env g claim auth worker observed d)
      (\<lambda>d'. commit env seen () d')) c0 = (Inr u, c1)"
    by (rule bindA_InrE) (auto split: if_splits)
  from t obtain d0 where v: "verify_state env (last_observed c0) (db c0) = Inr ()" and c1: "c1 = c0\<lparr>db := d0\<rparr>"
    and b: "bindE (start_locked env g claim auth worker observed (db c0)) (\<lambda>d'. commit env (last_observed c0) () d') = Inr (u, d0)"
    by (rule transact_Inr)
  then obtain d where s: "start_locked env g claim auth worker observed (db c0) = Inr d"
    and k: "commit env (last_observed c0) () d = Inr (u, d0)" by (blast elim: bindE_InrE)
  from s obtain row dec d1 where row: "assert_claim env {TLeased} claim (db c0) = Inr row"
    and cons: "consume_task_route env (document row) dec observed (db c0) = Inr d1"
    and upd: "update_where (cl_run_id claim, cl_task_id claim) (\<lambda>r. status r = TLeased) (\<lambda>r. r\<lparr>status := TStarted\<rparr>)
       (tasks d1) = Some (tasks d)" and d: "d = d1\<lparr>tasks := tasks d\<rparr>" by (rule start_locked_Inr)
  have same: "same_log d1 (db c0)" "tasks d1 = tasks (db c0)"
    using cons by (auto simp: consume_task_route_def same_log_def split: option.splits if_splits)
  have "same_log d d1" by (subst d) (simp add: same_log_def)
  with same(1) have "same_log d (db c0)" by (simp add: same_log_def)
  from commit_verifies [OF k v this] have "same_tables d0 d" by simp
  moreover have "map_of (tasks d) (cl_run_id claim, cl_task_id claim) = Some (row\<lparr>status := TStarted\<rparr>)"
    using upd assert_claim_Inr [OF row] same(2)
    by (simp add: update_where_def) (metis fun_upd_same map_of_dict_set)
  ultimately have "assert_claim env {TLeased, TStarted} claim (db c1) = Inr (row\<lparr>status := TStarted\<rparr>)"
    using row c1 by (auto simp: assert_claim_def same_tables_def split: option.splits if_splits)
  then show thesis by (rule that) simp
qed

lemma start_effect_time:
  assumes "start_effect env g claim auth worker now c = (Inr u, c1)"
  shows "clock c1 = clock c \<and> last_observed c1 = clock c (ticks c) \<and> ticks c1 = ticks c + 1 \<and> now \<le> last_observed c1"
proof -
  from assms [unfolded start_effect_def] obtain observed c0 where
    o: "observed_time now c = (Inr observed, c0)"
    and t: "transact env (\<lambda>seen d. bindE (start_locked env g claim auth worker observed d)
      (\<lambda>d'. commit env seen () d')) c0 = (Inr u, c1)"
    by (rule bindA_InrE) (auto split: if_splits)
  from t obtain d where "c1 = c0\<lparr>db := d\<rparr>" by (rule transact_Inr)
  with o show ?thesis by (auto simp: observed_time_def Let_def split: if_splits)
qed

lemma mark_ambiguous_rollback:
  assumes "clock c (ticks c) < last_observed c"
  shows "mark_ambiguous env claim now c = (team_error ''ECO_TEAM_CLOCK_ROLLBACK'', c\<lparr>ticks := ticks c + 1\<rparr>)"
  using assms by (simp add: mark_ambiguous_def bindA_def observed_time_def Let_def)

text \<open>What follows a failure after the start: \<open>mark_ambiguous\<close> charges the task, or the clock has run back and nothing changes.\<close>

lemma failed_after_start:
  assumes env: "env_ok env" and inj: "inj (sha env)" and inv: "co_inv env c"
    and claim: "assert_claim env {TLeased, TStarted} claim (db c) = Inr row" and st: "status row = TStarted" and now: "now \<le> last_observed c"
  shows "\<exists>c' row'. bindA (mark_ambiguous env claim now) (\<lambda>_. raiseA e) c
      = (Inl (if clock c (ticks c) < last_observed c then TeamRuntimeError ''ECO_TEAM_CLOCK_ROLLBACK'' else e), c')
    \<and> map_of (tasks (db c')) (cl_run_id claim, cl_task_id claim) = Some row'
    \<and> row' = (if clock c (ticks c) < last_observed c then row else charge_reservation TAmbiguous row)"
proof (cases "clock c (ticks c) < last_observed c")
  case True
  with assert_claim_Inr [OF claim] show ?thesis by (simp add: bindA_def mark_ambiguous_rollback)
next
  case False
  let ?c1 = "c\<lparr>ticks := ticks c + 1, last_observed := clock c (ticks c)\<rparr>"
  have o: "observed_time now c = (Inr (clock c (ticks c)), ?c1)" using False now by (simp add: observed_time_def Let_def)
  from team.steadyD [OF observed_steady [OF env] inv o] have inv1: "co_inv env ?c1" by blast
  from mark_ambiguous_returns [OF inv1 inj o claim st] obtain d where
    a: "mark_ambiguous env claim now c = (Inr (charge_reservation TAmbiguous row), ?c1\<lparr>db := d\<rparr>)"
    and d: "same_tables d (set_task claim (charge_reservation TAmbiguous row) (db c))" by blast
  with False show ?thesis by (auto simp: bindA_def raiseA_def same_tables_def set_task_def)
qed

text \<open>C24: an effect that fails is charged, unless the clock runs backwards. \<open>execute_claimed\<close> reads the clock when it starts the
  effect, before it calls the worker's code and when it marks the task ambiguous. When the code raises and the last reading is
  not behind the earlier ones, the task is ambiguous: terminal under the same attempt, with its whole reserved budget charged,
  and the error is raised again (or, if the second reading was behind the first and the code was never called, the clock error).
  When the last reading is behind, \<open>ECO_TEAM_CLOCK_ROLLBACK\<close> replaces the error of the code, and the task is left started with
  its budget still reserved. This is for a hash that does not collide and worker code that does not itself call the
  coordinator.\<close>

theorem failed_effect_charged:
  assumes env: "env_ok env" and inj: "inj (sha env)" and reach: "reach (team_start env) (team_step env) c"
    and start: "start_effect env g claim auth worker now c = (Inr (), c1)"
    and op: "\<And>t c. operation t c = (Inl e, c)"
  shows "\<exists>c' row. execute_claimed env g claim auth worker operation now c
        = (Inl (if clock c (ticks c + 1) < clock c (ticks c) \<or> clock c (ticks c + 2) < clock c (ticks c + 1)
                then TeamRuntimeError ''ECO_TEAM_CLOCK_ROLLBACK'' else e), c')
    \<and> map_of (tasks (db c')) (cl_run_id claim, cl_task_id claim) = Some row \<and> attempt row = cl_attempt claim
    \<and> (if clock c (ticks c + 2) < max (clock c (ticks c)) (clock c (ticks c + 1))
       then status row = TStarted \<and> reserved_tokens row = tb_maxTokens (tk_budget (document row))
         \<and> reserved_cost row = tb_maxCostMicrousd (tk_budget (document row)) \<and> charged_tokens row = 0 \<and> charged_cost row = 0
       else status row = TAmbiguous \<and> reserved_tokens row = 0 \<and> reserved_cost row = 0
         \<and> charged_tokens row = tb_maxTokens (tk_budget (document row))
         \<and> charged_cost row = tb_maxCostMicrousd (tk_budget (document row)))"
proof -
  have inv: "co_inv env c" using team_reachable_inv [OF reach env] .
  have inv1: "co_inv env c1" using reach_step [OF reach team_step.Start [OF start]] team_reachable_inv env by blast
  from inv start obtain row where row: "assert_claim env {TLeased, TStarted} claim (db c1) = Inr row" "status row = TStarted"
    by (rule start_effect_Inr)
  have t: "clock c1 = clock c" "last_observed c1 = clock c (ticks c)" "ticks c1 = ticks c + 1" "now \<le> last_observed c1"
    using start_effect_time [OF start] by simp_all
  have "tables_ok env (db c1)" using inv1 by (simp add: co_inv_def)
  from tables_okD(5) [OF this] assert_claim_Inr [OF row(1)] have money: "money_ok row" "attempt row = cl_attempt claim"
    by (auto simp: row_ok_def)
  define r where "r \<longleftrightarrow> clock c (ticks c + 1) < clock c (ticks c)"
  let ?c2 = "c1\<lparr>ticks := ticks c + 2, last_observed := max (clock c (ticks c)) (clock c (ticks c + 1))\<rparr>"
  let ?e = "if r then TeamRuntimeError ''ECO_TEAM_CLOCK_ROLLBACK'' else e"
  have called: "bindA (observed_time now) operation c1 = (Inl ?e, ?c2)" and at: "snd (observed_time now c1) = ?c2"
    using t by (auto simp: bindA_def observed_time_def Let_def op r_def max_def)
  have inv2: "co_inv env ?c2"
    using team.steadyD [OF observed_steady [OF env] inv1, of now] at by (metis prod.collapse)
  have x: "execute_claimed env g claim auth worker operation now c = bindA (mark_ambiguous env claim now) (\<lambda>_. raiseA ?e) ?c2"
    unfolding execute_claimed_def by (simp add: bindA_Inr [of "start_effect env g claim auth worker now", OF start] called)
  have now2: "now \<le> last_observed ?c2" using t by simp
  from failed_after_start [OF env inj inv2 _ row(2) now2, of claim ?e] row(1) t(1) obtain c' row' where
    y: "(bindA (mark_ambiguous env claim now) (\<lambda>_. raiseA ?e) :: (task_row, coordinator) act) ?c2
        = (Inl (if clock c (ticks c + 2) < last_observed ?c2 then TeamRuntimeError ''ECO_TEAM_CLOCK_ROLLBACK'' else ?e), c')"
    "map_of (tasks (db c')) (cl_run_id claim, cl_task_id claim) = Some row'"
    "row' = (if clock c (ticks c + 2) < last_observed ?c2 then row else charge_reservation TAmbiguous row)"
    by auto
  have code: "(if clock c (ticks c + 2) < last_observed ?c2 then TeamRuntimeError ''ECO_TEAM_CLOCK_ROLLBACK'' else ?e)
    = (if r \<or> clock c (ticks c + 2) < clock c (ticks c + 1) then TeamRuntimeError ''ECO_TEAM_CLOCK_ROLLBACK'' else e)"
    by (auto simp: r_def)
  have z: "execute_claimed env g claim auth worker operation now c
      = (Inl (if r \<or> clock c (ticks c + 2) < clock c (ticks c + 1) then TeamRuntimeError ''ECO_TEAM_CLOCK_ROLLBACK'' else e), c')"
    using x y(1) unfolding code by (rule trans)
  show ?thesis
    unfolding r_def [symmetric] z using y(2,3) money row(2)
    by (intro exI [of _ c'] exI [of _ row']) (auto simp: charge_reservation_def money_ok_def)
qed

text \<open>A worker that raises while the clock goes on.\<close>

theorem failed_effect_charged_witness:
  "\<exists>c c' row. reach (team_start demo_team_env) (team_step demo_team_env) c
     \<and> execute_claimed demo_team_env demo_gates demo_claim demo_auth [] (\<lambda>_. raiseA PyValueError) 0 c
       = (Inl PyValueError, c')
     \<and> map_of (tasks (db c')) (''run'', ''task'') = Some row \<and> status row = TAmbiguous"
proof -
  obtain c c' where c: "reach (team_start demo_team_env) (team_step demo_team_env) c" "clock c = demo_clock"
    "start_effect demo_team_env demo_gates demo_claim demo_auth [] 0 c = (Inr (), c')" using demo_task_start by blast
  have k: "cl_run_id demo_claim = ''run''" "cl_task_id demo_claim = ''task''" by (simp_all add: demo_claim_def)
  from failed_effect_charged [OF demo_env_ok demo_inj c(1,3), of "\<lambda>_. raiseA PyValueError" PyValueError]
    c(1) k show ?thesis by (auto simp: raiseA_def c(2) demo_clock_def)
qed

section \<open>Results\<close>

lemma sum_list_insort_key: "sum_list (map f (insort_key g x xs)) = f x + sum_list (map f xs :: int list)"
  by (induction xs) auto

lemma sum_list_sort_key: "sum_list (map f (sort_key g xs)) = sum_list (map f xs :: int list)"
  by (induction xs) (simp_all add: sum_list_insort_key)

text \<open>C25: a result says what happened, and stays true. In every reachable state a run with a result has only
  finished tasks; the result lists each task with the status, outcome and charge its row has, its status
  summarizes them, and its usage is their sum and within the limits of the run.\<close>

theorem team_result_truthful:
  assumes "env_ok env" and "reach (team_start env) (team_step env) c"
    and "map_of (runs (db c)) i = Some run" and "result_document run = Some res"
  shows "rs_tasks res = map summary_of (sorted_items (run_tasks (db c) i))
    \<and> (\<forall>(k, r) \<in> set (run_tasks (db c) i). status r \<in> TERMINAL)
    \<and> rs_status res = summarize (map (status \<circ> snd) (sorted_items (run_tasks (db c) i)))
    \<and> rs_tokens res = sum_list (map (charged_tokens \<circ> snd) (sorted_items (run_tasks (db c) i)))
    \<and> rs_costMicrousd res = sum_list (map (charged_cost \<circ> snd) (sorted_items (run_tasks (db c) i)))
    \<and> rs_tokens res \<le> max_tokens run \<and> rs_costMicrousd res \<le> max_cost run"
proof -
  have ok: "tables_ok env (db c)" using team_reachable_inv [OF assms(2,1)] by (simp add: co_inv_def)
  have run: "run_ok env (db c) i run" using tables_okD(7) [OF ok assms(3)] .
  let ?rows = "run_tasks (db c) i"
  from run assms(4) have t: "rs_tasks res = map summary_of (sorted_items ?rows)"
    and term_rows: "\<forall>(k, r) \<in> set ?rows. status r \<in> TERMINAL" and err: "result_errors res = []"
    by (auto simp: run_ok_def result_ok_def)
  have sums: "rs_status res = summarize (map (status \<circ> snd) (sorted_items ?rows))"
    "rs_tokens res = sum_list (map (charged_tokens \<circ> snd) (sorted_items ?rows))"
    "rs_costMicrousd res = sum_list (map (charged_cost \<circ> snd) (sorted_items ?rows))"
    using err by (simp_all add: result_errors_def t summary_of_def case_prod_unfold comp_def)
  have zero: "reserved_tokens r = 0 \<and> reserved_cost r = 0" if "(k, r) \<in> set ?rows" for k r
  proof -
    have "row_ok env (team_routes (db c)) k r" using that tables_okD(4) [OF ok] by (simp add: run_tasks_def)
    moreover have "status r \<in> TERMINAL" using term_rows that by auto
    ultimately show ?thesis by (auto simp: row_ok_def money_ok_def TERMINAL_def)
  qed
  have perm: "sum_list (map (h \<circ> snd) (sorted_items ?rows)) = sum_list (map (h \<circ> snd) ?rows)" for h :: "task_row \<Rightarrow> int"
    by (simp add: sorted_items_def sum_list_sort_key)
  have eq: "map (\<lambda>(k, r). reserved_tokens r + charged_tokens r) ?rows = map (charged_tokens \<circ> snd) ?rows"
    "map (\<lambda>(k, r). reserved_cost r + charged_cost r) ?rows = map (charged_cost \<circ> snd) ?rows"
    using zero by auto
  have "usage_tokens (db c) i = rs_tokens res" "usage_cost (db c) i = rs_costMicrousd res"
    unfolding usage_tokens_def usage_cost_def eq sums perm by (rule refl)+
  with run t term_rows sums show ?thesis by (simp add: run_ok_def)
qed

lemma sorted_task_ids:
  assumes "sorted (map fst rows)" and "\<And>x. x \<in> set rows \<Longrightarrow> fst (fst x) = i"
  shows "sorted (map (snd \<circ> fst) rows)"
  using assms
proof (induction rows)
  case (Cons x rows)
  then have "\<forall>y \<in> set rows. fst x \<le> fst y \<and> fst (fst y) = fst (fst x)" by auto
  then have "\<forall>y \<in> set rows. snd (fst x) \<le> snd (fst y)" by (auto simp: less_eq_prod_def)
  with Cons show ?case by auto
qed simp

text \<open>The result that \<open>finalize_run\<close> builds passes its own checks.\<close>

lemma run_result_valid:
  assumes ok: "tables_ok env d" and "\<forall>(k, r) \<in> set (run_tasks d i). status r \<in> TERMINAL"
  shows "result_errors (run_result env i result_id observed run (sorted_items (run_tasks d i))) = []"
proof -
  let ?rows = "sorted_items (run_tasks d i)"
  have key: "fst (fst x) = i" if "x \<in> set ?rows" for x using that by (auto simp: run_tasks_def)
  have dist: "distinct (map fst ?rows)" using distinct_run_tasks [OF tables_okD(1) [OF ok]] by simp
  have "inj_on (snd \<circ> fst) (set ?rows)"
  proof (rule inj_onI)
    fix x y
    assume x: "x \<in> set ?rows" and y: "y \<in> set ?rows" and "(snd \<circ> fst) x = (snd \<circ> fst) y"
    then have "fst x = fst y" using key [OF x] key [OF y] by (simp add: prod_eq_iff)
    with dist x y show "x = y" by (meson distinct_map inj_onD)
  qed
  with dist have "distinct (map (snd \<circ> fst) ?rows)" by (simp add: distinct_map)
  moreover have "sorted (map (snd \<circ> fst) ?rows)"
    by (rule sorted_task_ids [OF _ key]) simp_all
  moreover have "\<forall>(k, r) \<in> set ?rows. status r = TSucceeded \<or> status r = TFailed \<longrightarrow> outcome_digest r \<noteq> None"
    using tables_okD(4) [OF ok] by (fastforce simp: run_tasks_def row_ok_def money_ok_def)
  ultimately show ?thesis
    by (fastforce simp: result_errors_def run_result_def seal_result_def sorted_unique_iff summary_of_def
        case_prod_unfold comp_def)
qed

lemma run_result_digest: "th_recordDigest (run_result env i result_id observed run rows)
    = record_digest (contract env) (TeamRunResult (run_result env i result_id observed run rows))"
  unfolding run_result_def using seal_result_digest by simp

lemma finalize_returns:
  assumes env: "env_ok env" and inj: "inj (sha env)" and reach: "reach (team_start env) (team_step env) c"
    and run: "map_of (runs (db c)) i = Some run" "result_document run = None"
    and rows: "run_tasks (db c) i \<noteq> []" "\<forall>(k, r) \<in> set (run_tasks (db c) i). status r \<in> TERMINAL"
    and time: "observed_time now c = (Inr observed, c1)"
    and schema: "team_schema (contract env)
      (TeamRunResult (run_result env i result_id observed run (sorted_items (run_tasks (db c) i))))"
  shows "\<exists>res d. finalize_run env i result_id now c = (Inr res, c1\<lparr>db := d\<rparr>)
    \<and> res = run_result env i result_id observed run (sorted_items (run_tasks (db c) i))
    \<and> map_of (runs d) i = Some (run\<lparr>run_state := rs_status res, result_document := Some res\<rparr>) \<and> tasks d = tasks (db c)"
proof -
  let ?rows = "sorted_items (run_tasks (db c) i)"
  let ?res = "run_result env i result_id observed run ?rows"
  have inv: "co_inv env c1" using reachable_observed [OF env reach time] .
  have db: "db c1 = db c" using observed_time_db [OF time] .
  have ok: "tables_ok env (db c)" using inv by (simp add: co_inv_def db)
  from tables_okD(7) [OF ok run(1)] obtain m where ctx: "run_context env (db c) i = Inr (run, m)"
    by (auto simp: run_ok_def)
  have ne: "?rows \<noteq> []" using rows(1) by (metis set_empty set_sorted_items)
  have fin: "\<not> list_ex (\<lambda>(k, r). status r \<notin> TERMINAL) ?rows" using rows(2) by (auto simp: list_ex_iff)
  have valid: "validate_record (contract env) (TeamRunResult ?res) = Inr (TeamRunResult ?res)"
    using schema run_result_valid [OF ok rows(2)] run_result_digest by simp
  let ?run = "run\<lparr>run_state := rs_status ?res, result_document := Some ?res\<rparr>"
  let ?e = "(db c)\<lparr>runs := dict_set i ?run (runs (db c))\<rparr>"
  have f: "finalize_locked env i result_id observed (db c) = Inr (?res, Some ?e)"
    unfolding finalize_locked_def ctx bindE.simps prod.case Let_def
    using run ne fin valid by (simp add: update_where_def del: validate_record_Inr)
  have "\<exists>d. transact env (\<lambda>seen d. bindE (finalize_locked env i result_id observed d) (\<lambda>(result, x).
       case x of None \<Rightarrow> Inr (result, d) | Some d' \<Rightarrow> commit env seen result d')) c1 = (Inr ?res, c1\<lparr>db := d\<rparr>)
     \<and> same_tables d ?e"
    by (rule transact_total [OF inv inj]) (simp_all add: db f same_log_def)
  then obtain d where "finalize_run env i result_id now c = (Inr ?res, c1\<lparr>db := d\<rparr>)" "same_tables d ?e"
    unfolding finalize_run_def bindA_Inr [of "observed_time now", OF time] by blast
  then show ?thesis
    by (intro exI [of _ ?res] exI [of _ d]) (simp add: same_tables_def)
qed

lemma stored_result_valid:
  assumes "co_inv env c" and "map_of (runs (db c)) i = Some run" and "result_document run = Some res"
  shows "validate_record (contract env) (TeamRunResult res) = Inr (TeamRunResult res)"
proof -
  have "run_ok env (db c) i run" using assms(1,2) tables_okD(7) by (auto simp: co_inv_def)
  with assms(3) show ?thesis by (auto simp: run_ok_def result_ok_def)
qed

lemma finalize_unstored:
  assumes env: "env_ok env" and inj: "inj (sha env)" and inv: "co_inv env c1" and time: "observed_time now c = (Inr observed, c1)"
    and f: "finalize_locked env i result_id observed (db c1) = r" and r: "r = Inl err \<or> r = Inr (res, None)"
  shows "finalize_run env i result_id now c = (map_sum id fst r, c1)"
proof -
  have "verify_state env (last_observed c1) (db c1) = Inr ()" using inv by (simp add: co_inv_def)
  with r f show ?thesis unfolding finalize_run_def bindA_Inr [of "observed_time now", OF time] transact_def by auto
qed

text \<open>C26: how a finished run is finalized, exactly. When every task of a reachable run is terminal, \<open>finalize_run\<close> fails only
  if the clock cannot be read (then with that error), if the run already has a result under another name, or if the JSON schema
  refuses the result record; nothing is changed in these cases. The digest and semantic checks of the record always pass: a
  record the schema accepts is stored with the run, and a stored one is returned again. (For a hash that does not collide.)\<close>

theorem team_finalize_exact:
  assumes env: "env_ok env" and inj: "inj (sha env)" and reach: "reach (team_start env) (team_step env) c"
    and run: "map_of (runs (db c)) i = Some run"
    and rows: "run_tasks (db c) i \<noteq> []" "\<forall>(k, r) \<in> set (run_tasks (db c) i). status r \<in> TERMINAL"
  shows "case observed_time now c of
      (Inl err, c1) \<Rightarrow> finalize_run env i result_id now c = (Inl err, c1)
    | (Inr observed, c1) \<Rightarrow>
        (case result_document run of
           Some res \<Rightarrow> finalize_run env i result_id now c
             = (if th_id res = result_id then Inr res else team_error ''ECO_TEAM_RESULT_CONFLICT'', c1)
         | None \<Rightarrow>
             (let res = run_result env i result_id observed run (sorted_items (run_tasks (db c) i)) in
              if team_schema (contract env) (TeamRunResult res)
              then \<exists>d. finalize_run env i result_id now c = (Inr res, c1\<lparr>db := d\<rparr>) \<and> tasks d = tasks (db c)
                \<and> map_of (runs d) i = Some (run\<lparr>run_state := rs_status res, result_document := Some res\<rparr>)
              else finalize_run env i result_id now c = (Inl ContractValidationError, c1)))"
proof -
  obtain o' c1 where time: "observed_time now c = (o', c1)" by force
  show ?thesis
  proof (cases o')
    case (Inl err)
    with time show ?thesis by (simp add: finalize_run_def bindA_def)
  next
    case (Inr observed)
    with time have time: "observed_time now c = (Inr observed, c1)" by simp
    have inv: "co_inv env c1" using reachable_observed [OF env reach time] .
    have db: "db c1 = db c" using observed_time_db [OF time] .
    have ok: "tables_ok env (db c1)" using inv by (simp add: co_inv_def)
    from tables_okD(7) [OF ok] run db obtain m where ctx: "run_context env (db c1) i = Inr (run, m)" by (auto simp: run_ok_def)
    note stop = finalize_unstored [OF env inj inv time]
    show ?thesis
    proof (cases "result_document run")
      case (Some res)
      have "validate_record (contract env) (TeamRunResult res) = Inr (TeamRunResult res)"
        using stored_result_valid [OF inv _ Some] run db by simp
      then have "finalize_locked env i result_id observed (db c1)
          = (if th_id res = result_id then Inr (res, None) else team_error ''ECO_TEAM_RESULT_CONFLICT'')"
        by (simp add: finalize_locked_def ctx Some del: validate_record_Inr)
      from stop [OF this] Some time show ?thesis by auto
    next
      case None
      let ?res = "run_result env i result_id observed run (sorted_items (run_tasks (db c) i))"
      show ?thesis
      proof (cases "team_schema (contract env) (TeamRunResult ?res)")
        case True
        from finalize_returns [OF env inj reach run None rows time True] obtain d where
          "finalize_run env i result_id now c = (Inr ?res, c1\<lparr>db := d\<rparr>)" "tasks d = tasks (db c)"
          "map_of (runs d) i = Some (run\<lparr>run_state := rs_status ?res, result_document := Some ?res\<rparr>)" by auto
        with True None time show ?thesis by (auto simp: Let_def intro!: exI [of _ d])
      next
        case False
        have "\<not> (sorted_items (run_tasks (db c) i) = [] \<or> list_ex (\<lambda>(k, r). status r \<notin> TERMINAL) (sorted_items (run_tasks (db c) i)))"
          using rows by (auto simp: list_ex_iff) (metis set_empty set_sorted_items)
        then have "finalize_locked env i result_id observed (db c1) = Inl ContractValidationError"
          using False None by (simp add: finalize_locked_def ctx [unfolded db] Let_def db validate_record_def)
        from stop [OF this] False None time show ?thesis by auto
      qed
    qed
  qed
qed

text \<open>The run of the worked example is cancelled while its task is leased, and then finalized.\<close>

definition demo_cancelled :: task_row where
  "demo_cancelled = cancel_row demo_leased"

definition demo_cancelling :: team_run where
  "demo_cancelling = (new_run_row demo_manifest)\<lparr>run_cancel := True, run_state := RCancelling\<rparr>"

lemma demo_cancelled_status [simp]: "status demo_cancelled = TCancelled"
  by (simp add: demo_cancelled_def cancel_row_def)

lemma demo_cancelling_result [simp]: "result_document demo_cancelling = None"
  by (simp add: demo_cancelling_def new_run_row_def)

lemma demo_cancelled_reachable:
  "\<exists>c. reach (team_start demo_team_env) (team_step demo_team_env) c \<and> tasks (db c) = tasks (demo_tables demo_cancelled)
     \<and> map_of (runs (db c)) ''run'' = Some demo_cancelling
     \<and> observed_time 0 c = (Inr 4000000, c\<lparr>ticks := 5, last_observed := 4000000\<rparr>)"
proof -
  obtain c where c: "reach (team_start demo_team_env) (team_step demo_team_env) c"
    "same_tables (db c) (demo_tables demo_leased)" "last_observed c = 2000000" "ticks c = 3"
    "clock c = demo_clock" "seal c = 0" using demo_leased_reachable by blast
  let ?o = "c\<lparr>ticks := 4, last_observed := 3000000\<rparr>"
  have o: "observed_time 0 c = (Inr 3000000, ?o)"
    using c by (simp add: observed_time_def demo_clock_def Let_def)
  have inv: "co_inv demo_team_env ?o" using reachable_observed [OF demo_env_ok c(1) o] .
  let ?e = "(db c)\<lparr>runs := dict_set ''run'' demo_cancelling (runs (db c)), tasks := tasks (demo_tables demo_cancelled)\<rparr>"
  have t: "tasks (db c) = [((''run'', ''task''), demo_leased)]"
    using c(2) by (simp add: same_tables_def demo_tables_def)
  have f: "cancel_locked demo_team_env ''run'' (db c) = Inr ?e"
    unfolding cancel_locked_def demo_context [OF c(2)] bindE.simps prod.case
    using t by (simp add: new_run_row_def demo_cancelling_def demo_cancelled_def update_all_def demo_tables_def)
  have "\<exists>d. transact demo_team_env (\<lambda>seen d. bindE (cancel_locked demo_team_env ''run'' d)
      (\<lambda>d'. commit demo_team_env seen () d')) ?o = (Inr (), ?o\<lparr>db := d\<rparr>) \<and> same_tables d ?e"
    by (rule transact_total [OF inv demo_inj]) (simp_all add: f same_log_def)
  then obtain d where d: "same_tables d ?e"
    and x: "cancel_run demo_team_env ''run'' 0 c = (Inr (), ?o\<lparr>db := d\<rparr>)"
    unfolding cancel_run_def bindA_Inr [of "observed_time 0", OF o] by blast
  have "reach (team_start demo_team_env) (team_step demo_team_env) (?o\<lparr>db := d\<rparr>)"
    using c(1) team_step.Cancel [OF x] by (rule reach.intros(2))
  moreover have "observed_time 0 (?o\<lparr>db := d\<rparr>) = (Inr 4000000, ?o\<lparr>db := d\<rparr>\<lparr>ticks := 5, last_observed := 4000000\<rparr>)"
    using c by (simp add: observed_time_def demo_clock_def Let_def)
  ultimately show ?thesis
    using d by (intro exI [of _ "?o\<lparr>db := d\<rparr>"]) (simp add: same_tables_def)
qed

lemma demo_schema_result: "team_schema (contract demo_team_env) (TeamRunResult res)"
  by (simp add: demo_team_env_def demo_team_contract_def)

lemma demo_run_tasks: "tasks d = tasks (demo_tables r) \<Longrightarrow> run_tasks d ''run'' = [((''run'', ''task''), r)]"
  by (simp add: run_tasks_def demo_tables_def)

theorem team_finalize_exact_witness:
  "\<exists>c c' res. reach (team_start demo_team_env) (team_step demo_team_env) c
     \<and> finalize_run demo_team_env ''run'' ''result'' 0 c = (Inr res, c') \<and> rs_status res = RCancelled"
proof -
  obtain c where c: "reach (team_start demo_team_env) (team_step demo_team_env) c"
    "tasks (db c) = tasks (demo_tables demo_cancelled)" "map_of (runs (db c)) ''run'' = Some demo_cancelling"
    "observed_time 0 c = (Inr 4000000, c\<lparr>ticks := 5, last_observed := 4000000\<rparr>)" using demo_cancelled_reachable by blast
  have rows: "run_tasks (db c) ''run'' \<noteq> []" "\<forall>(k, r) \<in> set (run_tasks (db c) ''run''). status r \<in> TERMINAL"
    by (simp_all add: demo_run_tasks [OF c(2)] TERMINAL_def)
  have s: "rs_status (run_result demo_team_env ''run'' ''result'' 4000000 demo_cancelling (sorted_items (run_tasks (db c) ''run''))) = RCancelled"
    by (simp add: run_result_def seal_result_def demo_run_tasks [OF c(2)] sorted_items_def summarize_def)
  from team_finalize_exact [OF demo_env_ok demo_inj c(1,3) rows, where now = 0 and result_id = "''result''"] c(1) s show ?thesis
    by (auto simp: c(4) demo_schema_result Let_def)
qed

theorem team_result_truthful_witness:
  "\<exists>c run res. reach (team_start demo_team_env) (team_step demo_team_env) c
     \<and> map_of (runs (db c)) ''run'' = Some run \<and> result_document run = Some res
     \<and> rs_status res = RCancelled \<and> rs_tokens res = 0"
proof -
  obtain c where c: "reach (team_start demo_team_env) (team_step demo_team_env) c"
    "tasks (db c) = tasks (demo_tables demo_cancelled)" "map_of (runs (db c)) ''run'' = Some demo_cancelling"
    "observed_time 0 c = (Inr 4000000, c\<lparr>ticks := 5, last_observed := 4000000\<rparr>)" using demo_cancelled_reachable by blast
  have "run_tasks (db c) ''run'' \<noteq> []" "\<forall>(k, r) \<in> set (run_tasks (db c) ''run''). status r \<in> TERMINAL"
    by (simp_all add: demo_run_tasks [OF c(2)] TERMINAL_def)
  from finalize_returns [OF demo_env_ok demo_inj c(1,3) demo_cancelling_result this c(4) demo_schema_result, of "''result''"]
  obtain res c' where f: "finalize_run demo_team_env ''run'' ''result'' 0 c = (Inr res, c')"
    and r: "map_of (runs (db c')) ''run'' = Some (demo_cancelling\<lparr>run_state := rs_status res, result_document := Some res\<rparr>)"
    and t: "tasks (db c') = tasks (db c)" by fastforce
  have reach: "reach (team_start demo_team_env) (team_step demo_team_env) c'"
    using c(1) team_step.Finalize [OF f] by (rule reach.intros(2))
  have rows: "sorted_items (run_tasks (db c') ''run'') = [((''run'', ''task''), demo_cancelled)]"
    using demo_run_tasks [of "db c'"] t c(2) by (simp add: sorted_items_def)
  have "summarize [TCancelled] = RCancelled" "charged_tokens demo_cancelled = 0"
    by (simp_all add: summarize_def demo_cancelled_def cancel_row_def demo_leased_def grant_lease_def)
  with team_result_truthful [OF demo_env_ok reach r, of res] reach r rows show ?thesis by auto
qed

text \<open>The plan of the worked run narrows its authority.\<close>

theorem planned_authority_narrows_witness:
  "tk_notAfter demo_task \<le> mf_deadline demo_manifest \<and> task_in_role demo_task demo_team_role"
proof -
  have "(''task'', demo_task) \<in> set [(''task'', demo_task)]" by simp
  from planned_authority_narrows [OF demo_plan this] show ?thesis
    by (auto simp: demo_manifest_def)
qed

end
