(* ===== verification/Eco_Team_Access.thy ===== *)
theory Eco_Team_Access
  imports Eco_Team_Contracts Eco_Digests
begin

text \<open>
  The access policy of a team, \<open>src/src/eco_runtime/team_access.py\<close>: validation of a policy and
  \<open>evaluate_team_access\<close>, which decides one request of one actor. A policy is typed as its JSON schema says
  (the constant members of the schema are written out where a digest needs them); a request is the raw
  dictionary, because its checks are code. Instants are microseconds, \<open>None\<close> stands for a clock value
  without a timezone.

  Lemmas: the exact meaning of an allow. Deny statements override, the default is deny, high-impact
  actions and the most sensitive data are never allowed, and an allowed write names the one approval
  profile it needs.
\<close>

section \<open>Policies\<close>

record access_statement =
  st_id :: string
  st_effect :: string
  st_action :: string
  st_actionClass :: string
  st_resource :: binding
  st_projectId :: string
  st_environmentId :: string
  st_dataClasses :: "string list"
  st_notBefore :: int
  st_notAfter :: int
  st_approvalProfile :: "binding option"

record access_role =
  ar_id :: string
  ar_statements :: "access_statement list"

record actor_binding =
  acb_id :: string
  acb_principal :: binding
  acb_membership :: binding
  acb_roleId :: string

record access_policy =
  ap_id :: string
  ap_revision :: int
  ap_createdAt :: int
  ap_recordDigest :: string
  ap_roles :: "access_role list"
  ap_bindings :: "actor_binding list"

text \<open>The hash, the text of an instant and the schema check.\<close>

record access_env =
  acc_sha :: "string \<Rightarrow> string"
  acc_iso :: "int \<Rightarrow> string"
  acc_schema :: "access_policy \<Rightarrow> bool"

definition binding_json :: "binding \<Rightarrow> json" where
  "binding_json b = JObj [(''kind'', JStr (b_kind b)), (''id'', JStr (b_id b)), (''digest'', JStr (b_digest b))]"

definition statement_json :: "access_env \<Rightarrow> access_statement \<Rightarrow> json" where
  "statement_json e s = JObj [(''id'', JStr (st_id s)), (''effect'', JStr (st_effect s)),
     (''action'', JStr (st_action s)), (''actionClass'', JStr (st_actionClass s)),
     (''resource'', binding_json (st_resource s)),
     (''constraints'', JObj [(''projectId'', JStr (st_projectId s)), (''environmentId'', JStr (st_environmentId s)),
        (''dataClasses'', JList (map JStr (st_dataClasses s))), (''notBefore'', JStr (acc_iso e (st_notBefore s))),
        (''notAfter'', JStr (acc_iso e (st_notAfter s)))]),
     (''approvalProfile'', case st_approvalProfile s of None \<Rightarrow> JNull | Some b \<Rightarrow> binding_json b)]"

definition access_role_json :: "access_env \<Rightarrow> access_role \<Rightarrow> json" where
  "access_role_json e r = JObj [(''id'', JStr (ar_id r)), (''statements'', JList (map (statement_json e) (ar_statements r)))]"

definition actor_binding_json :: "actor_binding \<Rightarrow> json" where
  "actor_binding_json b = JObj [(''id'', JStr (acb_id b)), (''principal'', binding_json (acb_principal b)),
     (''membership'', binding_json (acb_membership b)), (''roleId'', JStr (acb_roleId b))]"

text \<open>The record without its digest.\<close>

definition access_policy_json :: "access_env \<Rightarrow> access_policy \<Rightarrow> json" where
  "access_policy_json e p = JObj [(''apiVersion'', JStr ''authority.ai.ecosystem/v1alpha1''),
     (''kind'', JStr ''TeamAccessPolicy''),
     (''metadata'', JObj [(''id'', JStr (ap_id p)), (''revision'', JInt (ap_revision p)),
        (''createdAt'', JStr (acc_iso e (ap_createdAt p)))]),
     (''spec'', JObj [(''profile'', JStr ''bounded-team-access-v1''), (''defaultEffect'', JStr ''deny''),
        (''roles'', JList (map (access_role_json e) (ap_roles p))),
        (''bindings'', JList (map actor_binding_json (ap_bindings p))),
        (''safety'', JObj [(''maximumAllowActionClass'', JStr ''A2''), (''d4AllowDenied'', JBool True),
           (''highImpactAllowDenied'', JBool True), (''wildcardsAllowed'', JBool False),
           (''roleInheritanceAllowed'', JBool False), (''standaloneAuthorityCreated'', JBool False)])])]"

definition team_access_policy_digest :: "access_env \<Rightarrow> access_policy \<Rightarrow> string" where
  "team_access_policy_digest e p = semantic_digest (acc_sha e)
     (JObj [(''profile'', JStr ''team-access-policy-record-v1''), (''record'', access_policy_json e p)])"

definition team_access_binding_id :: "access_env \<Rightarrow> binding \<Rightarrow> binding \<Rightarrow> string \<Rightarrow> string" where
  "team_access_binding_id e who membership role = ''binding:'' @ semantic_digest (acc_sha e)
     (JObj [(''profile'', JStr ''team-access-binding-id-v1''), (''principal'', binding_json who),
            (''membership'', binding_json membership), (''roleId'', JStr role)])"

section \<open>Validation\<close>

fun actor_binding_errors ::
    "access_env \<Rightarrow> string set \<Rightarrow> (string \<times> string \<times> string) set \<Rightarrow> actor_binding list \<Rightarrow> string list" where
  "actor_binding_errors e role_ids seen [] = []"
| "actor_binding_errors e role_ids seen (b # bs) =
     (let actor_role = (b_digest (acb_principal b), b_digest (acb_membership b), acb_roleId b) in
      errors_if (acb_id b \<noteq> team_access_binding_id e (acb_principal b) (acb_membership b) (acb_roleId b)
          \<or> acb_roleId b \<notin> role_ids \<or> actor_role \<in> seen) ''spec.bindings''
      @ actor_binding_errors e role_ids (insert actor_role seen) bs)"

definition statement_invalid :: "access_policy \<Rightarrow> access_statement \<Rightarrow> bool result" where
  "statement_invalid p s =
     (case map_of ACTION_PROFILE (st_action s) of
        None \<Rightarrow> Inl PyKeyError
      | Some (expected_class, expected_kind) \<Rightarrow> Inr (
            st_actionClass s \<noteq> expected_class
          \<or> b_kind (st_resource s) \<noteq> expected_kind
          \<or> \<not> st_notBefore s < st_notAfter s
          \<or> ap_createdAt p \<ge> st_notAfter s
          \<or> st_dataClasses s \<noteq> sort (st_dataClasses s)
          \<or> (st_effect s = ''allow'' \<and> st_actionClass s = ''A2'' \<and> st_approvalProfile s = None)
          \<or> ((st_effect s \<noteq> ''allow'' \<or> st_actionClass s \<noteq> ''A2'') \<and> st_approvalProfile s \<noteq> None)
          \<or> (st_effect s = ''allow'' \<and> (st_actionClass s \<in> {''A3'', ''A4''} \<or> ''D4'' \<in> set (st_dataClasses s)))))"

fun statement_errors :: "access_policy \<Rightarrow> access_statement list \<Rightarrow> string list result" where
  "statement_errors p [] = Inr []"
| "statement_errors p (s # ss) =
     bindE (statement_invalid p s) (\<lambda>bad. bindE (statement_errors p ss) (\<lambda>errs.
       Inr (errors_if bad ''spec.roles.statements'' @ errs)))"

fun access_role_errors :: "access_policy \<Rightarrow> access_role list \<Rightarrow> string list result" where
  "access_role_errors p [] = Inr []"
| "access_role_errors p (r # rs) =
     bindE (statement_errors p (ar_statements r)) (\<lambda>errs. bindE (access_role_errors p rs) (\<lambda>rest.
       Inr (errors_if (\<not> sorted_unique (map st_id (ar_statements r))) ''spec.roles.statements'' @ errs @ rest)))"

definition team_access_contract_errors :: "access_env \<Rightarrow> access_policy \<Rightarrow> string list result" where
  "team_access_contract_errors e p =
     (if \<not> acc_schema e p then Inr [''schema'']
      else bindE (access_role_errors p (ap_roles p)) (\<lambda>rest. Inr (
        errors_if (ap_recordDigest p \<noteq> team_access_policy_digest e p) ''metadata.recordDigest''
        @ errors_if (\<not> sorted_unique (map ar_id (ap_roles p))) ''spec.roles''
        @ errors_if (\<not> sorted_unique (map acb_id (ap_bindings p))) ''spec.bindings''
        @ actor_binding_errors e (set (map ar_id (ap_roles p))) {} (ap_bindings p)
        @ rest)))"

definition validate_team_access_policy :: "access_env \<Rightarrow> access_policy \<Rightarrow> access_policy result" where
  "validate_team_access_policy e p =
     bindE (team_access_contract_errors e p) (\<lambda>errs. if errs \<noteq> [] then Inl ContractValidationError else Inr p)"

section \<open>Requests\<close>

text \<open>\<open>^[a-z0-9][a-z0-9._:@-]{0,127}$\<close> under \<open>fullmatch\<close>.\<close>

definition authority_id :: "string \<Rightarrow> bool" where
  "authority_id s = (s \<noteq> [] \<and> (is_lower (hd s) \<or> is_digit (hd s)) \<and> length s \<le> 128
     \<and> list_all (\<lambda>c. is_lower c \<or> is_digit c \<or> c \<in> set ''._:@-'') (tl s))"

record access_request =
  rq_principal :: binding
  rq_membership :: binding
  rq_action :: string
  rq_actionClass :: string
  rq_resource :: binding
  rq_projectId :: string
  rq_environmentId :: string
  rq_dataClass :: string

definition parse_binding :: "json \<Rightarrow> binding option" where
  "parse_binding v =
     (case v of
        JObj d \<Rightarrow>
          (case (jget d ''kind'', jget d ''id'', jget d ''digest'') of
             (JStr k, JStr i, JStr g) \<Rightarrow>
               if dict_keys d = {''kind'', ''id'', ''digest''} \<and> authority_id i \<and> sha256_text g
               then Some \<lparr>b_kind = k, b_id = i, b_digest = g\<rparr> else None
           | _ \<Rightarrow> None)
      | _ \<Rightarrow> None)"

definition exact_binding :: "json \<Rightarrow> string \<Rightarrow> binding option" where
  "exact_binding v kind = (case parse_binding v of Some b \<Rightarrow> if b_kind b = kind then Some b else None | None \<Rightarrow> None)"

definition REQUEST_FIELDS :: "string set" where
  "REQUEST_FIELDS = {''principal'', ''membership'', ''action'', ''actionClass'', ''resource'', ''projectId'',
     ''environmentId'', ''dataClass''}"

text \<open>\<open>value in {...}\<close> of strings; it raises for a list or a dictionary.\<close>

definition member_of :: "json \<Rightarrow> string set \<Rightarrow> bool result" where
  "member_of v S = (if \<not> hashable v then Inl PyTypeError else Inr (case v of JStr s \<Rightarrow> s \<in> S | _ \<Rightarrow> False))"

text \<open>The members from the action to the data class, in the order of the checks.\<close>

definition parse_subject :: "obj \<Rightarrow> binding \<Rightarrow> binding \<Rightarrow> string \<Rightarrow> access_request option result" where
  "parse_subject c who membership action =
     bindE (member_of (jget c ''actionClass'') {''A0'', ''A1'', ''A2'', ''A3'', ''A4''}) (\<lambda>class_ok.
       if \<not> class_ok then Inr None
       else case (parse_binding (jget c ''resource''), jget c ''projectId'', jget c ''environmentId'') of
         (Some resource, JStr project, JStr environment) \<Rightarrow>
           if \<not> authority_id project \<or> \<not> authority_id environment then Inr None
           else bindE (member_of (jget c ''dataClass'') {''D0'', ''D1'', ''D2'', ''D3'', ''D4''}) (\<lambda>data_ok.
             Inr (if data_ok then Some \<lparr>rq_principal = who, rq_membership = membership, rq_action = action,
                    rq_actionClass = the_str (jget c ''actionClass''), rq_resource = resource, rq_projectId = project,
                    rq_environmentId = environment, rq_dataClass = the_str (jget c ''dataClass'')\<rparr>
                  else None))
       | _ \<Rightarrow> Inr None)"

definition parse_request :: "obj \<Rightarrow> access_request option result" where
  "parse_request c =
     (if dict_keys c \<noteq> REQUEST_FIELDS then Inr None
      else case (exact_binding (jget c ''principal'') ''PrincipalIdentity'',
                 exact_binding (jget c ''membership'') ''MembershipBinding'', jget c ''action'') of
        (Some who, Some membership, JStr action) \<Rightarrow>
          if map_of ACTION_PROFILE action = None then Inr None else parse_subject c who membership action
      | _ \<Rightarrow> Inr None)"

section \<open>Evaluation\<close>

record team_access_decision =
  td_effect :: string
  td_code :: string
  td_policy_digest :: string
  td_request_digest :: string
  td_actor_digest :: string
  td_matches :: "string list"
  td_profile_id :: "string option"
  td_profile_digest :: "string option"

definition access_decision ::
    "string \<Rightarrow> string \<Rightarrow> string \<Rightarrow> string \<Rightarrow> string \<Rightarrow> string list \<Rightarrow> binding option \<Rightarrow> team_access_decision" where
  "access_decision effect code policy request actor matches profile =
     \<lparr>td_effect = effect, td_code = code, td_policy_digest = policy, td_request_digest = request, td_actor_digest = actor,
      td_matches = matches, td_profile_id = map_option b_id profile, td_profile_digest = map_option b_digest profile\<rparr>"

definition invalid_request_digest :: "access_env \<Rightarrow> string" where
  "invalid_request_digest e = semantic_digest (acc_sha e) (JObj [(''profile'', JStr ''team-access-invalid-request-v1'')])"

definition request_digest :: "access_env \<Rightarrow> obj \<Rightarrow> string" where
  "request_digest e c = semantic_digest (acc_sha e)
     (JObj [(''profile'', JStr ''team-access-request-v1''), (''request'', JObj c)])"

definition actor_digest :: "access_env \<Rightarrow> obj \<Rightarrow> string" where
  "actor_digest e c = semantic_digest (acc_sha e)
     (JObj [(''profile'', JStr ''team-access-actor-binding-v1''), (''principal'', jget c ''principal''),
            (''membership'', jget c ''membership'')])"

definition assigned_roles :: "access_policy \<Rightarrow> access_request \<Rightarrow> string list" where
  "assigned_roles p r = sorted_list_of_set (set (map acb_roleId
     (filter (\<lambda>b. acb_principal b = rq_principal r \<and> acb_membership b = rq_membership r) (ap_bindings p))))"

definition statement_applies :: "access_request \<Rightarrow> int \<Rightarrow> access_statement \<Rightarrow> bool" where
  "statement_applies r observed s \<longleftrightarrow>
     st_action s = rq_action r \<and> st_actionClass s = rq_actionClass r \<and> st_resource s = rq_resource r
     \<and> st_projectId s = rq_projectId r \<and> st_environmentId s = rq_environmentId r
     \<and> rq_dataClass r \<in> set (st_dataClasses s) \<and> st_notBefore s \<le> observed \<and> observed < st_notAfter s"

definition statement_digest :: "access_env \<Rightarrow> string \<Rightarrow> access_statement \<Rightarrow> string" where
  "statement_digest e role s = semantic_digest (acc_sha e)
     (JObj [(''profile'', JStr ''team-access-statement-v1''), (''roleId'', JStr role), (''statement'', statement_json e s)])"

type_synonym access_match = "string \<times> string \<times> binding option"

definition role_matches :: "access_env \<Rightarrow> access_request \<Rightarrow> int \<Rightarrow> access_role \<Rightarrow> string \<Rightarrow> access_match list" where
  "role_matches e r observed role i = map (\<lambda>s. (st_effect s, statement_digest e i s, st_approvalProfile s))
     (filter (statement_applies r observed) (ar_statements role))"

fun collect_matches ::
    "access_env \<Rightarrow> (string \<times> access_role) list \<Rightarrow> access_request \<Rightarrow> int \<Rightarrow> string list \<Rightarrow> access_match list result" where
  "collect_matches e by_id r observed [] = Inr []"
| "collect_matches e by_id r observed (i # rest_ids) =
     (case map_of by_id i of
        None \<Rightarrow> Inl PyKeyError
      | Some role \<Rightarrow> bindE (collect_matches e by_id r observed rest_ids) (\<lambda>rest. Inr (role_matches e r observed role i @ rest)))"

definition decide_matches ::
    "access_request \<Rightarrow> access_match list \<Rightarrow> (string \<Rightarrow> string \<Rightarrow> string list \<Rightarrow> binding option \<Rightarrow> team_access_decision)
      \<Rightarrow> team_access_decision" where
  "decide_matches r matches mk =
     (let denies = sort (map (fst \<circ> snd) (filter (\<lambda>m. fst m = ''deny'') matches));
          allowed = filter (\<lambda>m. fst m = ''allow'') matches;
          allows = sort (map (fst \<circ> snd) allowed);
          profiles = List.map_filter (snd \<circ> snd) allowed in
      if denies \<noteq> [] then mk ''deny'' ''ECO_TEAM_ACCESS_EXPLICIT_DENY'' denies None
      else if allows \<noteq> []
      then if rq_actionClass r = ''A2'' \<and> card ((\<lambda>b. (b_id b, b_digest b)) ` set profiles) \<noteq> 1
           then mk ''deny'' ''ECO_TEAM_ACCESS_APPROVAL_AMBIGUOUS'' allows None
           else mk ''allow'' ''ECO_TEAM_ACCESS_ALLOW_CANDIDATE'' allows
                  (case profiles of [] \<Rightarrow> None | b # _ \<Rightarrow> Some b)
      else mk ''deny'' ''ECO_TEAM_ACCESS_DEFAULT_DENY'' [] None)"

text \<open>The decision on a well-formed request.\<close>

definition evaluate_request ::
    "access_env \<Rightarrow> access_policy \<Rightarrow> obj \<Rightarrow> access_request \<Rightarrow> int \<Rightarrow> team_access_decision result" where
  "evaluate_request e p c r observed =
     (let mk = (\<lambda>effect code. access_decision effect code (ap_recordDigest p) (request_digest e c) (actor_digest e c)) in
      case map_of ACTION_PROFILE (rq_action r) of
        None \<Rightarrow> Inl PyKeyError
      | Some (expected_class, expected_kind) \<Rightarrow>
          if rq_actionClass r \<noteq> expected_class \<or> b_kind (rq_resource r) \<noteq> expected_kind
          then Inr (mk ''deny'' ''ECO_TEAM_ACCESS_REQUEST_MISMATCH'' [] None)
          else if rq_actionClass r \<in> {''A3'', ''A4''} then Inr (mk ''deny'' ''ECO_TEAM_ACCESS_HIGH_IMPACT_DENIED'' [] None)
          else if rq_dataClass r = ''D4'' then Inr (mk ''deny'' ''ECO_TEAM_ACCESS_D4_DENIED'' [] None)
          else if assigned_roles p r = [] then Inr (mk ''deny'' ''ECO_TEAM_ACCESS_ACTOR_UNBOUND'' [] None)
          else bindE (collect_matches e (dict_of_pairs (map (\<lambda>x. (ar_id x, x)) (ap_roles p))) r observed (assigned_roles p r))
                 (\<lambda>matches. Inr (decide_matches r matches mk)))"

definition evaluate_team_access ::
    "access_env \<Rightarrow> access_policy \<Rightarrow> json \<Rightarrow> int option \<Rightarrow> team_access_decision result" where
  "evaluate_team_access e policy request now =
     bindE (validate_team_access_policy e policy) (\<lambda>p.
       let invalid = invalid_request_digest e;
           refuse = (\<lambda>code. access_decision ''deny'' code (ap_recordDigest p) invalid invalid [] None) in
       case (now, request) of
         (None, _) \<Rightarrow> Inr (refuse ''ECO_TEAM_ACCESS_TIME_INVALID'')
       | (Some observed, JObj c) \<Rightarrow>
           bindE (parse_request c) (\<lambda>parsed.
             case parsed of None \<Rightarrow> Inr (refuse ''ECO_TEAM_ACCESS_REQUEST_INVALID'')
             | Some r \<Rightarrow> evaluate_request e p c r observed)
       | (Some observed, _) \<Rightarrow> Inr (refuse ''ECO_TEAM_ACCESS_REQUEST_INVALID''))"

section \<open>What an allow means\<close>

text \<open>A statement that speaks about the request: of a role the actor is bound to, for exactly this action,
  resource, project, environment and data class, and in force now.\<close>

definition applicable :: "access_policy \<Rightarrow> access_request \<Rightarrow> int \<Rightarrow> access_statement \<Rightarrow> bool" where
  "applicable p r observed s \<longleftrightarrow> (\<exists>b \<in> set (ap_bindings p). \<exists>role \<in> set (ap_roles p).
     acb_principal b = rq_principal r \<and> acb_membership b = rq_membership r \<and> ar_id role = acb_roleId b
     \<and> s \<in> set (ar_statements role) \<and> statement_applies r observed s)"

definition profile_of :: "access_statement \<Rightarrow> (string \<times> string) option" where
  "profile_of s = map_option (\<lambda>b. (b_id b, b_digest b)) (st_approvalProfile s)"

definition well_profiled :: "access_request \<Rightarrow> bool" where
  "well_profiled r \<longleftrightarrow> map_of ACTION_PROFILE (rq_action r) = Some (rq_actionClass r, b_kind (rq_resource r))"

text \<open>Some of the statements allow, none denies, and those that allow a write ask for the same approval.\<close>

definition unopposed :: "(access_statement \<Rightarrow> bool) \<Rightarrow> access_request \<Rightarrow> bool" where
  "unopposed P r \<longleftrightarrow> (\<exists>s. P s \<and> st_effect s = ''allow'') \<and> (\<forall>s. P s \<longrightarrow> st_effect s \<noteq> ''deny'')
     \<and> (rq_actionClass r = ''A2'' \<longrightarrow> (\<forall>s s'. P s \<longrightarrow> st_effect s = ''allow'' \<longrightarrow> P s' \<longrightarrow> st_effect s' = ''allow'' \<longrightarrow>
           profile_of s = profile_of s'))"

definition names_profile :: "(access_statement \<Rightarrow> bool) \<Rightarrow> team_access_decision \<Rightarrow> bool" where
  "names_profile P d \<longleftrightarrow> (\<exists>s b. P s \<and> st_effect s = ''allow'' \<and> st_approvalProfile s = Some b
     \<and> td_profile_id d = Some (b_id b) \<and> td_profile_digest d = Some (b_digest b))"

lemma statement_errors_Nil:
  "statement_errors p ss = Inr [] \<Longrightarrow> s \<in> set ss \<Longrightarrow> statement_invalid p s = Inr False"
  by (induction ss) auto

lemma access_role_errors_Nil:
  "access_role_errors p rs = Inr [] \<Longrightarrow> r \<in> set rs \<Longrightarrow> statement_errors p (ar_statements r) = Inr []"
  by (induction rs) auto

lemma actor_binding_errors_Nil:
  "actor_binding_errors e role_ids seen bs = [] \<Longrightarrow> b \<in> set bs \<Longrightarrow> acb_roleId b \<in> role_ids"
  by (induction bs arbitrary: seen) (auto simp: Let_def)

lemma validate_team_access_policyD:
  assumes "validate_team_access_policy e p = Inr q"
  shows "q = p" and "distinct (map ar_id (ap_roles p))"
    and "\<And>b. b \<in> set (ap_bindings p) \<Longrightarrow> acb_roleId b \<in> ar_id ` set (ap_roles p)"
    and "\<And>role s. role \<in> set (ap_roles p) \<Longrightarrow> s \<in> set (ar_statements role) \<Longrightarrow> statement_invalid p s = Inr False"
proof -
  from assms have c: "team_access_contract_errors e p = Inr []" and q: "q = p"
    unfolding validate_team_access_policy_def by (auto elim!: bindE_InrE split: if_splits)
  from c obtain rest where r: "access_role_errors p (ap_roles p) = Inr rest"
    and e: "sorted_unique (map ar_id (ap_roles p))"
      "actor_binding_errors e (set (map ar_id (ap_roles p))) {} (ap_bindings p) = []" "rest = []"
    unfolding team_access_contract_errors_def by (auto elim!: bindE_InrE split: if_splits)
  show "q = p" "distinct (map ar_id (ap_roles p))" using q e by (simp_all add: sorted_unique_iff)
  show "acb_roleId b \<in> ar_id ` set (ap_roles p)" if "b \<in> set (ap_bindings p)" for b
    using actor_binding_errors_Nil [OF e(2) that] by auto
  show "statement_invalid p s = Inr False" if "role \<in> set (ap_roles p)" "s \<in> set (ar_statements role)" for role s
    using statement_errors_Nil [OF access_role_errors_Nil] r e(3) that by blast
qed

lemma collect_matches_Inr:
  assumes "\<forall>i \<in> set ids. map_of by_id i \<noteq> None"
  shows "\<exists>ms. collect_matches e by_id r observed ids = Inr ms
    \<and> set ms = {(st_effect s, statement_digest e i s, st_approvalProfile s) | i role s.
         i \<in> set ids \<and> map_of by_id i = Some role \<and> s \<in> set (ar_statements role) \<and> statement_applies r observed s}"
  using assms
proof (induction ids)
  case (Cons i ids)
  then obtain ms role where "collect_matches e by_id r observed ids = Inr ms" "map_of by_id i = Some role"
    "set ms = {(st_effect s, statement_digest e i s, st_approvalProfile s) | i role s.
         i \<in> set ids \<and> map_of by_id i = Some role \<and> s \<in> set (ar_statements role) \<and> statement_applies r observed s}"
    by auto
  then show ?case by (auto simp: role_matches_def)
qed simp

lemma policy_matches:
  assumes "validate_team_access_policy e p = Inr p"
  shows "\<exists>ms. collect_matches e (dict_of_pairs (map (\<lambda>x. (ar_id x, x)) (ap_roles p))) r observed (assigned_roles p r) = Inr ms
    \<and> (\<forall>x y. (\<exists>g. (x, g, y) \<in> set ms) \<longleftrightarrow> (\<exists>s. applicable p r observed s \<and> x = st_effect s \<and> y = st_approvalProfile s))"
proof -
  let ?d = "map (\<lambda>x. (ar_id x, x)) (ap_roles p)"
  have dist: "distinct (map fst ?d)" using validate_team_access_policyD(2) [OF assms] by (simp add: comp_def)
  then have id: "dict_of_pairs ?d = ?d" by (rule dict_of_pairs_id)
  have look: "map_of ?d i = Some role \<longleftrightarrow> role \<in> set (ap_roles p) \<and> ar_id role = i" for i role
    using dist by (auto simp: map_of_eq_Some_iff)
  have ids: "i \<in> set (assigned_roles p r) \<longleftrightarrow> (\<exists>b \<in> set (ap_bindings p). acb_principal b = rq_principal r
      \<and> acb_membership b = rq_membership r \<and> acb_roleId b = i)" for i
    by (auto simp: assigned_roles_def)
  have "\<forall>i \<in> set (assigned_roles p r). map_of ?d i \<noteq> None"
  proof
    fix i
    assume "i \<in> set (assigned_roles p r)"
    then obtain b where "b \<in> set (ap_bindings p)" "acb_roleId b = i" using ids by blast
    with validate_team_access_policyD(3) [OF assms this(1)] have "i \<in> ar_id ` set (ap_roles p)" by simp
    then show "map_of ?d i \<noteq> None" by (simp add: map_of_eq_None_iff image_image)
  qed
  from collect_matches_Inr [OF this, of e r observed] obtain ms where ms: "collect_matches e ?d r observed (assigned_roles p r) = Inr ms"
    "set ms = {(st_effect s, statement_digest e i s, st_approvalProfile s) | i role s.
       i \<in> set (assigned_roles p r) \<and> map_of ?d i = Some role \<and> s \<in> set (ar_statements role) \<and> statement_applies r observed s}"
    by blast
  have "(\<exists>g. (x, g, y) \<in> set ms) \<longleftrightarrow> (\<exists>s. applicable p r observed s \<and> x = st_effect s \<and> y = st_approvalProfile s)" for x y
    unfolding ms(2) applicable_def by (simp only: mem_Collect_eq prod.inject look ids) blast
  with ms(1) show ?thesis unfolding id by blast
qed

lemma one_profile:
  assumes "s \<in> S" and "\<And>s. s \<in> S \<Longrightarrow> f s \<noteq> None" and "finite T" and "T = {x. \<exists>s \<in> S. f s = Some x}"
  shows "card T = 1 \<longleftrightarrow> (\<forall>s \<in> S. \<forall>s' \<in> S. f s = f s')"
proof
  assume "card T = 1"
  then obtain x where "T = {x}" by (auto simp: card_1_singleton_iff)
  then have "f s = Some x" if "s \<in> S" for s using that assms(2) [OF that] assms(4) by auto
  then show "\<forall>s \<in> S. \<forall>s' \<in> S. f s = f s'" by simp
next
  assume eq: "\<forall>s \<in> S. \<forall>s' \<in> S. f s = f s'"
  from assms(1,2) obtain x where "f s = Some x" by blast
  with eq assms(1) have "f s' = Some x" if "s' \<in> S" for s' using that by metis
  with assms(1,4) have "T = {x}" by auto
  then show "card T = 1" by simp
qed

text \<open>What the collected matches say, in terms of the statements that apply.\<close>

lemma decide_matches_allow:
  assumes ms: "\<And>x y. (\<exists>g. (x, g, y) \<in> set ms) \<longleftrightarrow> (\<exists>s. P s \<and> x = st_effect s \<and> y = st_approvalProfile s)"
    and mk: "\<And>x c m b. td_effect (mk x c m b) = x \<and> td_profile_id (mk x c m b) = map_option b_id b
      \<and> td_profile_digest (mk x c m b) = map_option b_digest b"
    and a2: "\<And>s. P s \<Longrightarrow> st_effect s = ''allow'' \<Longrightarrow> rq_actionClass r = ''A2'' \<Longrightarrow> st_approvalProfile s \<noteq> None"
  shows "td_effect (decide_matches r ms mk) = ''allow'' \<longleftrightarrow> unopposed P r" (is ?exact)
    and "td_effect (decide_matches r ms mk) = ''allow'' \<Longrightarrow> rq_actionClass r = ''A2'' \<Longrightarrow>
      names_profile P (decide_matches r ms mk)"
    and "td_effect (decide_matches r ms mk) \<in> {''allow'', ''deny''}"
proof -
  let ?allowed = "filter (\<lambda>m. fst m = ''allow'') ms"
  let ?profiles = "List.map_filter (snd \<circ> snd) ?allowed"
  let ?S = "{s. P s \<and> st_effect s = ''allow''}"
  have none: "sort (map (fst \<circ> snd) (filter (\<lambda>m. fst m = x) ms)) = [] \<longleftrightarrow> (\<forall>s. P s \<longrightarrow> st_effect s \<noteq> x)" for x
  proof -
    have "sort (map (fst \<circ> snd) (filter (\<lambda>m. fst m = x) ms)) = [] \<longleftrightarrow> filter (\<lambda>m. fst m = x) ms = []"
      by simp
    also have "\<dots> \<longleftrightarrow> (\<nexists>y g. (x, g, y) \<in> set ms)" by (auto simp: filter_empty_conv)
    also have "\<dots> \<longleftrightarrow> (\<forall>s. P s \<longrightarrow> st_effect s \<noteq> x)" using ms [of x] by blast
    finally show ?thesis .
  qed
  have prof: "b \<in> set ?profiles \<longleftrightarrow> (\<exists>s \<in> ?S. st_approvalProfile s = Some b)" for b
  proof -
    have "b \<in> set ?profiles \<longleftrightarrow> (\<exists>g. (''allow'', g, Some b) \<in> set ms)" by (force simp: List.map_filter_def)
    with ms [of "''allow''" "Some b"] show ?thesis by auto
  qed
  have T: "(\<lambda>b. (b_id b, b_digest b)) ` set ?profiles = {x. \<exists>s \<in> ?S. profile_of s = Some x}"
    unfolding profile_of_def using prof by (auto simp: image_iff) blast
  have one: "card ((\<lambda>b. (b_id b, b_digest b)) ` set ?profiles) = 1 \<longleftrightarrow> (\<forall>s \<in> ?S. \<forall>s' \<in> ?S. profile_of s = profile_of s')"
    if "rq_actionClass r = ''A2''" "?S \<noteq> {}"
  proof -
    from that(2) obtain s where "s \<in> ?S" by blast
    then show ?thesis by (rule one_profile [OF _ _ _ T]) (use a2 that(1) in \<open>auto simp: profile_of_def\<close>)
  qed
  show ?exact
    using none [of "''deny''"] none [of "''allow''"] one mk unfolding decide_matches_def Let_def unopposed_def
    by (simp del: sort_key_simps) blast
  show "td_effect (decide_matches r ms mk) \<in> {''allow'', ''deny''}"
    using mk by (simp add: decide_matches_def Let_def)
  assume e: "td_effect (decide_matches r ms mk) = ''allow''" and c: "rq_actionClass r = ''A2''"
  with \<open>?exact\<close> obtain s where s: "s \<in> ?S" unfolding unopposed_def by blast
  with a2 c obtain b where "st_approvalProfile s = Some b" by blast
  with s prof have "b \<in> set ?profiles" by blast
  then obtain b' bs where "?profiles = b' # bs" by (cases ?profiles) auto
  moreover from this prof [of b'] obtain s' where "s' \<in> ?S" "st_approvalProfile s' = Some b'" by auto
  moreover from e mk have "decide_matches r ms mk = mk ''allow'' ''ECO_TEAM_ACCESS_ALLOW_CANDIDATE''
      (sort (map (fst \<circ> snd) ?allowed)) (case ?profiles of [] \<Rightarrow> None | b # _ \<Rightarrow> Some b)"
    by (auto simp: decide_matches_def Let_def split: if_splits)
  ultimately show "names_profile P (decide_matches r ms mk)"
    unfolding names_profile_def using mk by auto
qed

lemma parse_request_action:
  assumes "parse_request c = Inr (Some r)"
  shows "map_of ACTION_PROFILE (rq_action r) \<noteq> None"
  using assms unfolding parse_request_def parse_subject_def
  by (auto split: if_splits option.splits json.splits elim!: bindE_InrE)

lemma applicable_profile:
  assumes "validate_team_access_policy e p = Inr p" and "applicable p r now s" and "st_effect s = ''allow''"
    and "rq_actionClass r = ''A2''"
  shows "st_approvalProfile s \<noteq> None"
proof -
  from assms(2) obtain role where "role \<in> set (ap_roles p)" "s \<in> set (ar_statements role)" and a: "statement_applies r now s"
    unfolding applicable_def by blast
  from validate_team_access_policyD(4) [OF assms(1) this(1,2)] a assms(3,4) show ?thesis
    by (auto simp: statement_invalid_def statement_applies_def split: option.splits)
qed

text \<open>C32: an allow of the team policy means exactly what the policy says. On a valid policy the evaluation of a
  request always returns, and it allows exactly a well-formed request whose class and resource kind are
  those of its action, that is neither high-impact nor about the most sensitive data, for which some
  allow statement of the actor's roles applies and no deny statement does, and for which, when it is a
  write, all those allow statements name the same approval profile; the decision then names that
  profile. Everything else is a deny.\<close>

theorem access_decision_exact:
  assumes valid: "validate_team_access_policy e p = Inr p" and parse: "parse_request c = Inr parsed"
  shows "\<exists>d. evaluate_team_access e p (JObj c) (Some now) = Inr d
    \<and> (td_effect d = ''allow'' \<longleftrightarrow> (\<exists>r. parsed = Some r \<and> well_profiled r \<and> rq_actionClass r \<notin> {''A3'', ''A4''}
          \<and> rq_dataClass r \<noteq> ''D4'' \<and> unopposed (applicable p r now) r))
    \<and> (\<forall>r. td_effect d = ''allow'' \<longrightarrow> parsed = Some r \<longrightarrow> rq_actionClass r = ''A2'' \<longrightarrow>
         names_profile (applicable p r now) d)
    \<and> td_effect d \<in> {''allow'', ''deny''}"
proof (cases parsed)
  case None
  with valid parse show ?thesis by (simp add: evaluate_team_access_def Let_def access_decision_def)
next
  case (Some r)
  have eval: "evaluate_team_access e p (JObj c) (Some now) = evaluate_request e p c r now"
    using valid parse Some by (simp add: evaluate_team_access_def Let_def)
  obtain x k where prof: "map_of ACTION_PROFILE (rq_action r) = Some (x, k)"
    using parse_request_action [OF parse [unfolded Some]] by auto
  define mk where "mk = (\<lambda>effect code. access_decision effect code (ap_recordDigest p) (request_digest e c) (actor_digest e c))"
  have mk: "td_effect (mk x c m b) = x \<and> td_profile_id (mk x c m b) = map_option b_id b
      \<and> td_profile_digest (mk x c m b) = map_option b_digest b" for x c m b
    by (simp add: mk_def access_decision_def)
  obtain ms where ms: "collect_matches e (dict_of_pairs (map (\<lambda>x. (ar_id x, x)) (ap_roles p))) r now (assigned_roles p r) = Inr ms"
    "\<And>x y. (\<exists>g. (x, g, y) \<in> set ms) \<longleftrightarrow> (\<exists>s. applicable p r now s \<and> x = st_effect s \<and> y = st_approvalProfile s)"
    using policy_matches [OF valid] by blast
  have a2: "st_approvalProfile s \<noteq> None" if "applicable p r now s" "st_effect s = ''allow''" "rq_actionClass r = ''A2''" for s
    using applicable_profile [OF valid that(1)] that by blast
  have exact: "td_effect (decide_matches r ms mk) = ''allow'' \<longleftrightarrow> unopposed (applicable p r now) r"
    "td_effect (decide_matches r ms mk) = ''allow'' \<longrightarrow> rq_actionClass r = ''A2'' \<longrightarrow>
       names_profile (applicable p r now) (decide_matches r ms mk)"
    "td_effect (decide_matches r ms mk) \<in> {''allow'', ''deny''}"
    using decide_matches_allow [of ms "applicable p r now" mk r, OF ms(2) mk a2] by blast+
  show ?thesis
  proof (cases "well_profiled r \<and> rq_actionClass r \<notin> {''A3'', ''A4''} \<and> rq_dataClass r \<noteq> ''D4'' \<and> assigned_roles p r \<noteq> []")
    case True
    then have "evaluate_request e p c r now = Inr (decide_matches r ms mk)"
      by (simp add: evaluate_request_def well_profiled_def ms(1) mk_def Let_def)
    then have ev: "evaluate_team_access e p (JObj c) (Some now) = Inr (decide_matches r ms mk)" using eval by simp
    show ?thesis
    proof (intro exI [of _ "decide_matches r ms mk"] conjI)
      show "td_effect (decide_matches r ms mk) = ''allow'' \<longleftrightarrow> (\<exists>r'. parsed = Some r' \<and> well_profiled r'
          \<and> rq_actionClass r' \<notin> {''A3'', ''A4''} \<and> rq_dataClass r' \<noteq> ''D4'' \<and> unopposed (applicable p r' now) r')"
        using exact(1) True by (simp only: Some option.inject) blast
      show "\<forall>r'. td_effect (decide_matches r ms mk) = ''allow'' \<longrightarrow> parsed = Some r' \<longrightarrow> rq_actionClass r' = ''A2'' \<longrightarrow>
          names_profile (applicable p r' now) (decide_matches r ms mk)"
        using exact(2) by (simp only: Some option.inject) blast
    qed (rule ev exact(3))+
  next
    case False
    have "\<exists>d. evaluate_request e p c r now = Inr d \<and> td_effect d = ''deny''"
      using False prof by (auto simp: evaluate_request_def well_profiled_def Let_def access_decision_def)
    then obtain d where "evaluate_team_access e p (JObj c) (Some now) = Inr d" "td_effect d = ''deny''" using eval by auto
    moreover have "\<not> unopposed (applicable p r now) r" if "assigned_roles p r = []"
      using that by (auto simp: unopposed_def applicable_def assigned_roles_def filter_empty_conv)
    ultimately show ?thesis using False Some by auto
  qed
qed

text \<open>A policy with one role that may write one repository entry, and a request for it.\<close>

definition demo_digest :: string where
  "demo_digest = replicate 64 (CHR ''a'')"

definition demo_access_env :: access_env where
  "demo_access_env = \<lparr>acc_sha = (\<lambda>_. demo_digest), acc_iso = (\<lambda>_. ''time''), acc_schema = (\<lambda>_. True)\<rparr>"

definition demo_binding_of :: "string \<Rightarrow> string \<Rightarrow> binding" where
  "demo_binding_of kind i = \<lparr>b_kind = kind, b_id = i, b_digest = demo_digest\<rparr>"

definition demo_access_policy :: access_policy where
  "demo_access_policy = \<lparr>ap_id = ''policy'', ap_revision = 1, ap_createdAt = 0, ap_recordDigest = demo_digest,
     ap_roles = [\<lparr>ar_id = ''writer'', ar_statements = [\<lparr>st_id = ''write'', st_effect = ''allow'', st_action = ''repository.write'',
        st_actionClass = ''A2'', st_resource = demo_binding_of ''repository-entry'' ''entry'', st_projectId = ''project'',
        st_environmentId = ''dev'', st_dataClasses = [''D1''], st_notBefore = 0, st_notAfter = 100,
        st_approvalProfile = Some (demo_binding_of ''ApprovalProfile'' ''two-people'')\<rparr>]\<rparr>],
     ap_bindings = [\<lparr>acb_id = ''binding:'' @ demo_digest, acb_principal = demo_binding_of ''PrincipalIdentity'' ''alice'',
        acb_membership = demo_binding_of ''MembershipBinding'' ''alice-team'', acb_roleId = ''writer''\<rparr>]\<rparr>"

definition demo_access_request :: obj where
  "demo_access_request = [(''principal'', binding_json (demo_binding_of ''PrincipalIdentity'' ''alice'')),
     (''membership'', binding_json (demo_binding_of ''MembershipBinding'' ''alice-team'')),
     (''action'', JStr ''repository.write''), (''actionClass'', JStr ''A2''),
     (''resource'', binding_json (demo_binding_of ''repository-entry'' ''entry'')), (''projectId'', JStr ''project''),
     (''environmentId'', JStr ''dev''), (''dataClass'', JStr ''D1'')]"

lemma demo_access:
  "returns (validate_team_access_policy demo_access_env demo_access_policy) (\<lambda>p. True)"
  "returns (parse_request demo_access_request) (\<lambda>x. x \<noteq> None)"
  "returns (evaluate_team_access demo_access_env demo_access_policy (JObj demo_access_request) (Some 50))
     (\<lambda>d. td_effect d = ''allow'')"
  by code_simp+

theorem access_decision_exact_witness:
  "\<exists>d r. evaluate_team_access demo_access_env demo_access_policy (JObj demo_access_request) (Some 50) = Inr d
     \<and> parse_request demo_access_request = Inr (Some r) \<and> td_effect d = ''allow''
     \<and> unopposed (applicable demo_access_policy r 50) r"
proof -
  obtain q where q: "validate_team_access_policy demo_access_env demo_access_policy = Inr q"
    using demo_access(1) by (rule returnsE)
  with validate_team_access_policyD(1) [OF q] have v: "validate_team_access_policy demo_access_env demo_access_policy
      = Inr demo_access_policy" by simp
  obtain r where r: "parse_request demo_access_request = Inr (Some r)" using demo_access(2) by (auto elim!: returnsE)
  obtain d where "evaluate_team_access demo_access_env demo_access_policy (JObj demo_access_request) (Some 50) = Inr d"
    "td_effect d = ''allow''" using demo_access(3) by (rule returnsE)
  with access_decision_exact [OF v r, of 50] r show ?thesis by auto
qed

end
