(* ===== verification/Eco_Approval.thy ===== *)
theory Eco_Approval
  imports Eco_Digests
begin

text \<open>
  Human approvals, \<open>src/src/eco_runtime/approval.py\<close>: the subject an approval is bound to, the reference
  signer, and the trust store that authenticates an envelope. An envelope is the raw dictionary. SHA-256,
  HMAC under a key, the text of an instant and the reader of such a text are parameters; a reader that
  answers \<open>None\<close> is a text that \<open>datetime.fromisoformat\<close> refuses or that has no timezone.

  Lemmas: what a verified envelope establishes, that a signed envelope verifies while it is valid, and
  that it verifies for no other subject.
\<close>

section \<open>Subjects\<close>

record clock_env =
  ce_sha :: "string \<Rightarrow> string"
  ce_hmac :: "string \<Rightarrow> string \<Rightarrow> string"
  ce_iso :: "int \<Rightarrow> string"
  ce_read :: "string \<Rightarrow> int option"

abbreviation approval_error :: "string \<Rightarrow> 'a result" where
  "approval_error code \<equiv> Inl (RuntimeStoreError code)"

text \<open>\<open>value.endswith\<close> is called on whatever the value is: on a number it raises an error that the code does
  not catch.\<close>

definition parse_utc :: "'a clock_env_scheme \<Rightarrow> json \<Rightarrow> int result" where
  "parse_utc e v =
     (case v of
        JStr s \<Rightarrow> (case ce_read e s of None \<Rightarrow> approval_error ''ECO_APPROVAL_INVALID'' | Some t \<Rightarrow> Inr t)
      | _ \<Rightarrow> Inl PyAttributeError)"

definition approval_identifier :: "json \<Rightarrow> string result" where
  "approval_identifier v =
     (case v of JStr s \<Rightarrow> if safe_identifier s then Inr s else approval_error ''ECO_APPROVAL_INVALID''
      | _ \<Rightarrow> approval_error ''ECO_APPROVAL_INVALID'')"

definition approval_digest :: "json \<Rightarrow> string result" where
  "approval_digest v =
     (case v of JStr s \<Rightarrow> if sha256_text s then Inr s else approval_error ''ECO_APPROVAL_INVALID''
      | _ \<Rightarrow> approval_error ''ECO_APPROVAL_INVALID'')"

record approval_subject =
  as_store_id :: string
  as_project_id :: string
  as_run_id :: string
  as_plan_digest :: string
  as_policy_decision_digest :: string
  as_proposal_digest :: string
  as_action_class :: string
  as_operation_kind :: string
  as_root_identity_digest :: string
  as_base_digest :: string
  as_target_ref_digest :: string
  as_desired_digest :: string
  as_rollback_digest :: string
  as_display_digest :: string
  as_limits_digest :: string

fun check_all :: "('a \<Rightarrow> 'b result) \<Rightarrow> 'a list \<Rightarrow> unit result" where
  "check_all f [] = Inr ()"
| "check_all f (x # xs) = bindE (f x) (\<lambda>_. check_all f xs)"

definition approval_subject_payload :: "approval_subject \<Rightarrow> obj result" where
  "approval_subject_payload s =
     (if as_action_class s \<noteq> ''A2'' then approval_error ''ECO_APPROVAL_SCOPE''
      else if as_operation_kind s \<notin> {''create'', ''replace''} then approval_error ''ECO_APPROVAL_SCOPE''
      else bindE (check_all (approval_identifier \<circ> JStr) [as_store_id s, as_project_id s, as_run_id s]) (\<lambda>_.
        bindE (check_all (approval_digest \<circ> JStr) [as_plan_digest s, as_policy_decision_digest s, as_proposal_digest s,
          as_root_identity_digest s, as_base_digest s, as_target_ref_digest s, as_desired_digest s,
          as_rollback_digest s, as_display_digest s, as_limits_digest s]) (\<lambda>_.
        Inr [(''domain'', JStr ''eco-change-approval-subject-v1''), (''storeId'', JStr (as_store_id s)),
          (''projectId'', JStr (as_project_id s)), (''runId'', JStr (as_run_id s)),
          (''planDigest'', JStr (as_plan_digest s)), (''policyDecisionDigest'', JStr (as_policy_decision_digest s)),
          (''proposalDigest'', JStr (as_proposal_digest s)), (''actionClass'', JStr (as_action_class s)),
          (''operationKind'', JStr (as_operation_kind s)), (''rootIdentityDigest'', JStr (as_root_identity_digest s)),
          (''baseDigest'', JStr (as_base_digest s)), (''targetRefDigest'', JStr (as_target_ref_digest s)),
          (''desiredDigest'', JStr (as_desired_digest s)), (''rollbackDigest'', JStr (as_rollback_digest s)),
          (''displayDigest'', JStr (as_display_digest s)), (''limitsDigest'', JStr (as_limits_digest s))])))"

definition approval_subject_digest :: "'a clock_env_scheme \<Rightarrow> approval_subject \<Rightarrow> string result" where
  "approval_subject_digest e s = bindE (approval_subject_payload s) (\<lambda>p. Inr (semantic_digest (ce_sha e) (JObj p)))"

section \<open>Keys and envelopes\<close>

record key_policy =
  kp_key_id :: string
  kp_human_id :: string
  kp_assurance :: string
  kp_key :: string

definition ASSURANCE :: "string set" where
  "ASSURANCE = {''local-os-session'', ''webauthn'', ''hardware-backed'', ''federated-mfa''}"

definition new_key_policy :: "string \<Rightarrow> string \<Rightarrow> string \<Rightarrow> string \<Rightarrow> key_policy result" where
  "new_key_policy key human assurance secret =
     bindE (approval_identifier (JStr key)) (\<lambda>_. bindE (approval_identifier (JStr human)) (\<lambda>_.
       if assurance \<notin> ASSURANCE then Inl PyValueError
       else if length secret < 32 then Inl PyValueError
       else Inr \<lparr>kp_key_id = key, kp_human_id = human, kp_assurance = assurance, kp_key = secret\<rparr>))"

type_synonym trust_store = "(string \<times> key_policy) list"

definition new_trust_store :: "trust_store \<Rightarrow> trust_store result" where
  "new_trust_store ps = (if ps = [] \<or> list_ex (\<lambda>(k, p). k \<noteq> kp_key_id p) ps then Inl PyValueError else Inr ps)"

definition SIGNED_FIELDS :: "string list" where
  "SIGNED_FIELDS = [''approvalId'', ''assurance'', ''challengeNonce'', ''expiresAt'', ''humanId'', ''issuedAt'', ''keyId'',
     ''protocol'', ''subjectDigest'']"

definition ENVELOPE_FIELDS :: "string set" where
  "ENVELOPE_FIELDS = insert ''signature'' (set SIGNED_FIELDS)"

definition signed_payload :: "obj \<Rightarrow> json" where
  "signed_payload envelope = JObj (map (\<lambda>n. (n, jget envelope n)) SIGNED_FIELDS)"

definition envelope_signature :: "'a clock_env_scheme \<Rightarrow> key_policy \<Rightarrow> obj \<Rightarrow> string" where
  "envelope_signature e p envelope = ce_hmac e (kp_key p) (canonical_json (signed_payload envelope))"

definition sign_approval ::
    "'a clock_env_scheme \<Rightarrow> key_policy \<Rightarrow> string \<Rightarrow> string \<Rightarrow> string \<Rightarrow> int \<Rightarrow> int \<Rightarrow> obj result" where
  "sign_approval e p approval_id subject nonce issued expires =
     (if expires \<le> issued then Inl PyValueError
      else bindE (approval_identifier (JStr approval_id)) (\<lambda>_. bindE (approval_digest (JStr subject)) (\<lambda>_.
        bindE (approval_identifier (JStr nonce)) (\<lambda>_.
          let body = [(''protocol'', JStr ''eco-approval-envelope-v1''), (''approvalId'', JStr approval_id),
             (''subjectDigest'', JStr subject), (''humanId'', JStr (kp_human_id p)), (''assurance'', JStr (kp_assurance p)),
             (''keyId'', JStr (kp_key_id p)), (''challengeNonce'', JStr nonce), (''issuedAt'', JStr (ce_iso e issued)),
             (''expiresAt'', JStr (ce_iso e expires))] in
          Inr (body @ [(''signature'', JStr (envelope_signature e p body))])))))"

section \<open>Verification\<close>

definition check_signature ::
    "'a clock_env_scheme \<Rightarrow> trust_store \<Rightarrow> obj \<Rightarrow> string \<Rightarrow> (int \<times> int \<times> key_policy) result" where
  "check_signature e ts c expected_subject =
     (if dict_keys c \<noteq> ENVELOPE_FIELDS then approval_error ''ECO_APPROVAL_INVALID''
      else if jget c ''protocol'' \<noteq> JStr ''eco-approval-envelope-v1'' then approval_error ''ECO_APPROVAL_INVALID''
      else bindE (check_all (approval_identifier \<circ> jget c) [''approvalId'', ''humanId'', ''keyId'', ''challengeNonce'']) (\<lambda>_.
        bindE (approval_digest (jget c ''subjectDigest'')) (\<lambda>subject.
        bindE (approval_digest (jget c ''signature'')) (\<lambda>signature.
        if subject \<noteq> expected_subject then approval_error ''ECO_APPROVAL_MISMATCH''
        else case map_of ts (the_str (jget c ''keyId'')) of
          None \<Rightarrow> approval_error ''ECO_APPROVAL_UNTRUSTED''
        | Some p \<Rightarrow>
            if jget c ''humanId'' \<noteq> JStr (kp_human_id p) \<or> jget c ''assurance'' \<noteq> JStr (kp_assurance p)
            then approval_error ''ECO_APPROVAL_UNTRUSTED''
            else bindE (parse_utc e (jget c ''issuedAt'')) (\<lambda>issued. bindE (parse_utc e (jget c ''expiresAt'')) (\<lambda>expires.
              if expires \<le> issued then approval_error ''ECO_APPROVAL_INVALID''
              else if signature \<noteq> envelope_signature e p c then approval_error ''ECO_APPROVAL_UNTRUSTED''
              else Inr (issued, expires, p)))))))"

text \<open>The envelope and its digest.\<close>

definition verify_approval ::
    "'a clock_env_scheme \<Rightarrow> trust_store \<Rightarrow> obj \<Rightarrow> string \<Rightarrow> int \<Rightarrow> (obj \<times> string) result" where
  "verify_approval e ts c subject now =
     bindE (check_signature e ts c subject) (\<lambda>(issued, expires, p).
       if issued > now then approval_error ''ECO_CLOCK_ROLLBACK''
       else if expires \<le> now then approval_error ''ECO_APPROVAL_EXPIRED''
       else Inr (c, semantic_digest (ce_sha e) (JObj c)))"

definition verify_historical ::
    "'a clock_env_scheme \<Rightarrow> trust_store \<Rightarrow> obj \<Rightarrow> string \<Rightarrow> (obj \<times> string) result" where
  "verify_historical e ts c subject =
     bindE (check_signature e ts c subject) (\<lambda>_. Inr (c, semantic_digest (ce_sha e) (JObj c)))"

text \<open>The runtime record of a grant.\<close>

definition build_approval_grant ::
    "'a clock_env_scheme \<Rightarrow> obj \<Rightarrow> string \<Rightarrow> string \<Rightarrow> string \<Rightarrow> string \<Rightarrow> string \<Rightarrow> string \<Rightarrow> json result" where
  "build_approval_grant e envelope run_id request_id request_digest proposal_id proposal_digest display_digest =
     bindE (check_all (approval_identifier \<circ> JStr) [run_id, request_id, proposal_id]) (\<lambda>_.
     bindE (check_all (approval_digest \<circ> JStr) [request_digest, proposal_digest, display_digest]) (\<lambda>_.
     Inr (JObj [(''apiVersion'', JStr ''runtime.ai.ecosystem/v1alpha1''), (''kind'', JStr ''ApprovalGrant''),
       (''metadata'', JObj [(''id'', jget envelope ''approvalId''), (''runId'', JStr run_id),
          (''createdAt'', jget envelope ''issuedAt'')]),
       (''spec'', JObj [
          (''approvalRequest'', JObj [(''id'', JStr request_id), (''digest'', JStr request_digest)]),
          (''proposal'', JObj [(''id'', JStr proposal_id), (''digest'', JStr proposal_digest)]),
          (''subject'', JObj [(''kind'', JStr ''WorkspaceChangeProposal''), (''id'', JStr proposal_id),
             (''digest'', JStr proposal_digest)]),
          (''authoritySubjectDigest'', jget envelope ''subjectDigest''), (''displayDigest'', JStr display_digest),
          (''decision'', JStr ''approve''),
          (''approver'', JObj [(''type'', JStr ''human''), (''issuerId'', jget envelope ''humanId''),
             (''subjectId'', jget envelope ''humanId''), (''assurance'', jget envelope ''assurance''),
             (''challengeDigest'', JStr (semantic_digest (ce_sha e)
                (JObj [(''domain'', JStr ''eco-approval-challenge-v1''), (''nonce'', jget envelope ''challengeNonce'')])))]),
          (''constraints'', JObj [(''singleUse'', JBool True), (''expiresAt'', jget envelope ''expiresAt'')]),
          (''signedEnvelope'', JObj [(''protocol'', JStr ''eco-approval-envelope-v1''),
             (''envelopeId'', jget envelope ''approvalId''),
             (''issuer'', JObj [(''id'', jget envelope ''humanId''), (''keyId'', jget envelope ''keyId'')]),
             (''subjectDigest'', jget envelope ''subjectDigest''), (''issuedAt'', jget envelope ''issuedAt''),
             (''expiresAt'', jget envelope ''expiresAt''),
             (''signature'', JObj [(''algorithm'', JStr ''HMAC-SHA256''), (''tag'', jget envelope ''signature'')])])])])))"

section \<open>Facts\<close>

lemma approval_identifier_Inr [simp]: "approval_identifier v = Inr s \<longleftrightarrow> v = JStr s \<and> safe_identifier s"
  by (auto simp: approval_identifier_def split: json.splits)

lemma approval_digest_Inr [simp]: "approval_digest v = Inr s \<longleftrightarrow> v = JStr s \<and> sha256_text s"
  by (auto simp: approval_digest_def split: json.splits)

lemma parse_utc_Inr [simp]: "parse_utc e v = Inr t \<longleftrightarrow> (\<exists>s. v = JStr s \<and> ce_read e s = Some t)"
  by (auto simp: parse_utc_def split: json.splits option.splits)

lemma check_all_Inr [simp]: "check_all f xs = Inr u \<longleftrightarrow> (\<forall>x \<in> set xs. \<exists>y. f x = Inr y)"
  by (induction xs) (auto simp: bindE_Inr_iff)

text \<open>What an authenticated envelope establishes.\<close>

definition trusted_envelope ::
    "'a clock_env_scheme \<Rightarrow> trust_store \<Rightarrow> obj \<Rightarrow> string \<Rightarrow> int \<Rightarrow> int \<Rightarrow> key_policy \<Rightarrow> bool" where
  "trusted_envelope e ts c subject issued expires p \<longleftrightarrow>
     dict_keys c = ENVELOPE_FIELDS \<and> jget c ''protocol'' = JStr ''eco-approval-envelope-v1''
     \<and> (\<forall>n \<in> {''approvalId'', ''humanId'', ''keyId'', ''challengeNonce''}. \<exists>s. jget c n = JStr s \<and> safe_identifier s)
     \<and> jget c ''subjectDigest'' = JStr subject \<and> sha256_text subject
     \<and> jget c ''signature'' = JStr (envelope_signature e p c) \<and> sha256_text (envelope_signature e p c)
     \<and> (\<exists>k. jget c ''keyId'' = JStr k \<and> map_of ts k = Some p)
     \<and> jget c ''humanId'' = JStr (kp_human_id p) \<and> jget c ''assurance'' = JStr (kp_assurance p)
     \<and> (\<exists>s. jget c ''issuedAt'' = JStr s \<and> ce_read e s = Some issued)
     \<and> (\<exists>s. jget c ''expiresAt'' = JStr s \<and> ce_read e s = Some expires) \<and> issued < expires"

lemma check_signature_Inr:
  "check_signature e ts c subject = Inr (issued, expires, p) \<longleftrightarrow> trusted_envelope e ts c subject issued expires p"
proof
  assume "check_signature e ts c subject = Inr (issued, expires, p)"
  then show "trusted_envelope e ts c subject issued expires p"
    unfolding check_signature_def trusted_envelope_def by (auto elim!: bindE_InrE split: option.splits if_splits)
next
  assume t: "trusted_envelope e ts c subject issued expires p"
  have "check_all (approval_identifier \<circ> jget c) [''approvalId'', ''humanId'', ''keyId'', ''challengeNonce''] = Inr ()"
    "approval_digest (jget c ''subjectDigest'') = Inr subject"
    "approval_digest (jget c ''signature'') = Inr (envelope_signature e p c)"
    "parse_utc e (jget c ''issuedAt'') = Inr issued" "parse_utc e (jget c ''expiresAt'') = Inr expires"
    using t unfolding trusted_envelope_def by (auto simp: check_all_Inr simp del: check_all.simps)
  with t show "check_signature e ts c subject = Inr (issued, expires, p)"
    unfolding check_signature_def trusted_envelope_def
    by (auto simp del: check_all.simps check_all_Inr approval_digest_Inr parse_utc_Inr)
qed

lemma verify_approval_Inr:
  "verify_approval e ts c subject now = Inr r \<longleftrightarrow> (\<exists>issued expires p. check_signature e ts c subject = Inr (issued, expires, p)
     \<and> issued \<le> now \<and> now < expires \<and> r = (c, semantic_digest (ce_sha e) (JObj c)))"
  unfolding verify_approval_def by (cases "check_signature e ts c subject") (auto split: if_splits)

lemma verify_historical_of_verify:
  "verify_approval e ts c subject now = Inr r \<Longrightarrow> verify_historical e ts c subject = Inr r"
  by (auto simp: verify_approval_Inr verify_historical_def)

text \<open>The signature is over the payload, and the payload has every member but the signature.\<close>

lemma sign_approval_Inr:
  assumes "sign_approval e p i subject nonce issued expires = Inr c"
  shows "dict_keys c = ENVELOPE_FIELDS" and "jget c ''signature'' = JStr (envelope_signature e p c)"
    and "jget c ''protocol'' = JStr ''eco-approval-envelope-v1''" and "jget c ''approvalId'' = JStr i"
    and "jget c ''subjectDigest'' = JStr subject" and "jget c ''humanId'' = JStr (kp_human_id p)"
    and "jget c ''assurance'' = JStr (kp_assurance p)" and "jget c ''keyId'' = JStr (kp_key_id p)"
    and "jget c ''challengeNonce'' = JStr nonce" and "jget c ''issuedAt'' = JStr (ce_iso e issued)"
    and "jget c ''expiresAt'' = JStr (ce_iso e expires)" and "issued < expires"
    and "safe_identifier i" and "safe_identifier nonce" and "sha256_text subject"
proof -
  define body where "body = [(''protocol'', JStr ''eco-approval-envelope-v1''), (''approvalId'', JStr i),
     (''subjectDigest'', JStr subject), (''humanId'', JStr (kp_human_id p)), (''assurance'', JStr (kp_assurance p)),
     (''keyId'', JStr (kp_key_id p)), (''challengeNonce'', JStr nonce), (''issuedAt'', JStr (ce_iso e issued)),
     (''expiresAt'', JStr (ce_iso e expires))]"
  from assms have c: "c = body @ [(''signature'', JStr (envelope_signature e p body))]"
    and g: "issued < expires" "safe_identifier i" "safe_identifier nonce" "sha256_text subject"
    unfolding sign_approval_def body_def [symmetric] Let_def by (auto elim!: bindE_InrE split: if_splits)
  have "signed_payload c = signed_payload body"
    unfolding c signed_payload_def by (simp add: SIGNED_FIELDS_def body_def jget_def)
  then have sig: "envelope_signature e p body = envelope_signature e p c" by (simp add: envelope_signature_def)
  show "dict_keys c = ENVELOPE_FIELDS"
    unfolding c by (auto simp: dict_keys_def ENVELOPE_FIELDS_def SIGNED_FIELDS_def body_def)
  show "jget c ''signature'' = JStr (envelope_signature e p c)"
    unfolding sig [symmetric] unfolding c by (simp add: body_def jget_def)
  show "jget c ''protocol'' = JStr ''eco-approval-envelope-v1''" "jget c ''approvalId'' = JStr i"
    "jget c ''subjectDigest'' = JStr subject" "jget c ''humanId'' = JStr (kp_human_id p)"
    "jget c ''assurance'' = JStr (kp_assurance p)" "jget c ''keyId'' = JStr (kp_key_id p)"
    "jget c ''challengeNonce'' = JStr nonce" "jget c ''issuedAt'' = JStr (ce_iso e issued)"
    "jget c ''expiresAt'' = JStr (ce_iso e expires)"
    unfolding c by (simp_all add: body_def jget_def)
qed (use assms in \<open>auto simp: sign_approval_def Let_def elim!: bindE_InrE split: if_splits\<close>)

text \<open>C33: an approval is worth exactly what was signed. An envelope that a configured key signed verifies for its
  subject from its issue until it expires and never after, and it verifies for no other subject.\<close>

theorem approval_sign_verifies:
  assumes s: "sign_approval e p i subject nonce issued expires = Inr c"
    and p: "new_key_policy (kp_key_id p) (kp_human_id p) (kp_assurance p) (kp_key p) = Inr p" "map_of ts (kp_key_id p) = Some p"
    and io: "ce_read e (ce_iso e issued) = Some issued" "ce_read e (ce_iso e expires) = Some expires"
    and mac: "sha256_text (envelope_signature e p c)"
  shows "(\<forall>now. issued \<le> now \<longrightarrow> now < expires \<longrightarrow>
       verify_approval e ts c subject now = Inr (c, semantic_digest (ce_sha e) (JObj c)))
    \<and> (\<forall>now \<ge> expires. verify_approval e ts c subject now = approval_error ''ECO_APPROVAL_EXPIRED'')
    \<and> (\<forall>now other. other \<noteq> subject \<longrightarrow> verify_approval e ts c other now = approval_error ''ECO_APPROVAL_MISMATCH'')"
proof -
  note f = sign_approval_Inr [OF s]
  have ids: "safe_identifier (kp_key_id p)" "safe_identifier (kp_human_id p)"
    using p(1) by (auto simp: new_key_policy_def elim!: bindE_InrE split: if_splits)
  have t: "trusted_envelope e ts c subject issued expires p"
    unfolding trusted_envelope_def using f mac p(2) io ids by simp
  then have c: "check_signature e ts c subject = Inr (issued, expires, p)" by (simp add: check_signature_Inr)
  have "check_all (approval_identifier \<circ> jget c) [''approvalId'', ''humanId'', ''keyId'', ''challengeNonce''] = Inr ()"
    using f ids by simp
  then have "check_signature e ts c other = approval_error ''ECO_APPROVAL_MISMATCH''" if "other \<noteq> subject" for other
    using that f mac by (simp add: check_signature_def approval_digest_def del: check_all.simps check_all_Inr)
  with c f(12) show ?thesis by (auto simp: verify_approval_def)
qed

definition demo_clock_env :: clock_env where
  "demo_clock_env = \<lparr>ce_sha = (\<lambda>_. replicate 64 CHR ''a''), ce_hmac = (\<lambda>k m. replicate 64 CHR ''b''),
     ce_iso = (\<lambda>t. if t = 10 then ''ten'' else ''other''), ce_read = (\<lambda>s. if s = ''ten'' then Some 10 else Some 20)\<rparr>"

definition demo_key :: key_policy where
  "demo_key = \<lparr>kp_key_id = ''key'', kp_human_id = ''ann'', kp_assurance = ''webauthn'', kp_key = replicate 32 CHR ''k''\<rparr>"

theorem approval_sign_verifies_witness:
  "\<exists>c. sign_approval demo_clock_env demo_key ''grant'' (replicate 64 CHR ''c'') ''nonce'' 10 20 = Inr c
     \<and> verify_approval demo_clock_env [(''key'', demo_key)] c (replicate 64 CHR ''c'') 15
       = Inr (c, semantic_digest (ce_sha demo_clock_env) (JObj c))"
proof -
  have "returns (sign_approval demo_clock_env demo_key ''grant'' (replicate 64 CHR ''c'') ''nonce'' 10 20)
      (\<lambda>c. sha256_text (envelope_signature demo_clock_env demo_key c))" by code_simp
  then obtain c where c: "sign_approval demo_clock_env demo_key ''grant'' (replicate 64 CHR ''c'') ''nonce'' 10 20 = Inr c"
    and m: "sha256_text (envelope_signature demo_clock_env demo_key c)" by (rule returnsE)
  have p: "new_key_policy (kp_key_id demo_key) (kp_human_id demo_key) (kp_assurance demo_key) (kp_key demo_key) = Inr demo_key"
    "map_of [(''key'', demo_key)] (kp_key_id demo_key) = Some demo_key"
    "ce_read demo_clock_env (ce_iso demo_clock_env 10) = Some 10" "ce_read demo_clock_env (ce_iso demo_clock_env 20) = Some 20"
    by code_simp+
  from approval_sign_verifies [OF c p m] c show ?thesis by auto
qed

end
