(* ===== verification/Eco_Change_Store.thy ===== *)
theory Eco_Change_Store
  imports Eco_Approval
begin

text \<open>
  The authority for controlled writes, \<open>SQLiteChangeAuthority\<close> of \<open>src/src/eco_runtime/change_store.py\<close>:
  proposals, human approvals, write operations with fenced leases, target locks and the audit chain. The
  database is a record of its tables, each a list of rows by primary key in the order of insertion; every
  method is one transaction, so it returns the new database or raises and leaves the old one. Random tokens
  and transaction ids are arguments. A stored JSON text is the value it is the text of. The audit HMAC is
  applied to the text of the hash (the code decodes the hexadecimal text first).
\<close>

section \<open>Tables\<close>

record change_env = clock_env +
  cx_mac :: "string \<Rightarrow> string"
  cx_key_id :: string
  cx_trust :: trust_store
  cx_epoch :: "int \<Rightarrow> int"

record change_meta =
  cm_store_id :: string
  cm_application_id :: int
  cm_schema_version :: int
  cm_digest_profile :: string
  cm_key_id :: string
  cm_created_at :: string
  cm_hmac :: string

record proposal_row =
  pr_project_id :: string
  pr_run_id :: string
  pr_plan_digest :: string
  pr_proposal_digest :: string
  pr_subject_digest :: string
  pr_target :: string
  pr_record :: obj
  pr_created_at :: string

record approval_row =
  ar_proposal_id :: string
  ar_subject_digest :: string
  ar_envelope_digest :: string
  ar_human_id :: json
  ar_assurance :: json
  ar_key_id :: json
  ar_nonce :: json
  ar_issued_at :: json
  ar_expires_at :: json
  ar_expires_us :: int
  ar_consumed :: bool
  ar_consumed_at :: "string option"
  ar_operation :: "string option"
  ar_envelope :: obj

datatype change_state = Prepared | Applying | CommitReady | Applied | Committed | RollbackReady | RollingBack
  | RolledBack | ChangeFailed | RecoveryRequired

record recovery_artifact =
  ra_ref :: string
  ra_sha :: string
  ra_length :: int
  ra_metadata :: string

record change_operation =
  op_run_id :: string
  op_proposal_id :: string
  op_approval_id :: string
  op_idempotency :: string
  op_policy_digest :: string
  op_intent :: string
  op_recovery :: recovery_artifact
  op_before_proof :: "string option"
  op_execution_intent :: "string option"
  op_target :: string
  op_state :: change_state
  op_phase :: "string option"
  op_owner :: "string option"
  op_epoch :: int
  op_token :: "string option"
  op_until :: "int option"
  op_apply_receipt :: "string option"
  op_rollback_receipt :: "string option"
  op_failure :: "string option"
  op_reason :: "string option"
  op_created_at :: string
  op_updated_at :: string

record target_lock =
  lk_operation :: string
  lk_active :: bool
  lk_updated_at :: string

record audit_entry =
  au_sequence :: int
  au_transaction :: string
  au_type :: string
  au_entity :: string
  au_action :: string
  au_state_digest :: string
  au_previous :: string
  au_hash :: string
  au_tag :: string
  au_key_id :: string
  au_occurred :: string

record change_store =
  cs_meta :: change_meta
  cs_proposals :: "(string \<times> proposal_row) list"
  cs_approvals :: "(string \<times> approval_row) list"
  cs_operations :: "(string \<times> change_operation) list"
  cs_locks :: "(string \<times> target_lock) list"
  cs_audit :: "audit_entry list"

abbreviation change_error :: "string \<Rightarrow> 'a result" where
  "change_error code \<equiv> Inl (RuntimeStoreError code)"

abbreviation change_corrupt :: "'a result" where
  "change_corrupt \<equiv> Inl (RuntimeStoreError ''ECO_CHANGE_STORE_CORRUPT'')"

definition CHANGE_GENESIS :: string where
  "CHANGE_GENESIS = replicate 64 CHR ''0''"

fun change_state_text :: "change_state \<Rightarrow> string" where
  "change_state_text Prepared = ''prepared''" | "change_state_text Applying = ''applying''"
| "change_state_text CommitReady = ''commit_ready''" | "change_state_text Applied = ''applied''"
| "change_state_text Committed = ''committed''" | "change_state_text RollbackReady = ''rollback_ready''"
| "change_state_text RollingBack = ''rolling_back''" | "change_state_text RolledBack = ''rolled_back''"
| "change_state_text ChangeFailed = ''failed''" | "change_state_text RecoveryRequired = ''recovery_required''"

definition NONTERMINAL :: "change_state set" where
  "NONTERMINAL = {Prepared, Applying, CommitReady, RollbackReady, RollingBack, RecoveryRequired}"

section \<open>Patterns and checks\<close>

text \<open>\<open>[A-Za-z0-9][A-Za-z0-9._:@/-]{0,127}\<close>.\<close>

definition change_id_text :: "string \<Rightarrow> bool" where
  "change_id_text s = (s \<noteq> [] \<and> is_alnum (hd s) \<and> length s \<le> 128
     \<and> list_all (\<lambda>c. is_alnum c \<or> c \<in> set ''._:@/-'') (tl s))"

text \<open>The opaque artifact reference: after the scheme letters, digits and \<open>._:/-\<close>, with no empty segment inside and
  no segment \<open>.\<close> or \<open>..\<close>. The look-aheads for backslashes and percent signs are implied by the characters.\<close>

definition recovery_reference_text :: "string \<Rightarrow> bool" where
  "recovery_reference_text s = (take 11 s = ''artifact://'' \<and>
     (let r = drop 11 s in r \<noteq> [] \<and> is_alnum (hd r) \<and> length r \<le> 4096
        \<and> list_all (\<lambda>c. is_alnum c \<or> c \<in> set ''._:/-'') (tl r)
        \<and> \<not> sublist ''//'' r \<and> \<not> sublist ''/./'' r \<and> \<not> sublist ''/../'' r \<and> \<not> suffix ''/.'' r \<and> \<not> suffix ''/..'' r))"

definition change_id :: "json \<Rightarrow> string result" where
  "change_id v = (case v of JStr s \<Rightarrow> if change_id_text s then Inr s else change_error ''ECO_CHANGE_INVALID''
     | _ \<Rightarrow> change_error ''ECO_CHANGE_INVALID'')"

definition change_digest :: "json \<Rightarrow> string result" where
  "change_digest v = (case v of JStr s \<Rightarrow> if sha256_text s then Inr s else change_error ''ECO_CHANGE_INVALID''
     | _ \<Rightarrow> change_error ''ECO_CHANGE_INVALID'')"

definition check_recovery :: "recovery_artifact \<Rightarrow> unit result" where
  "check_recovery r =
     (if \<not> recovery_reference_text (ra_ref r) \<or> \<not> sha256_text (ra_sha r) \<or> ra_length r < 0 \<or> \<not> sha256_text (ra_metadata r)
      then change_error ''ECO_CHANGE_INVALID'' else Inr ())"

definition PROPOSAL_FIELDS :: "string list" where
  "PROPOSAL_FIELDS = [''proposalId'', ''projectId'', ''runId'', ''planDigest'', ''policyDecisionDigest'', ''actionClass'',
     ''operationKind'', ''rootIdentityDigest'', ''baseDigest'', ''targetRefDigest'', ''desiredDigest'', ''rollbackDigest'',
     ''displayDigest'', ''limits'']"

definition PROPOSAL_DIGESTS :: "string list" where
  "PROPOSAL_DIGESTS = [''planDigest'', ''policyDecisionDigest'', ''rootIdentityDigest'', ''baseDigest'', ''targetRefDigest'',
     ''desiredDigest'', ''rollbackDigest'', ''displayDigest'']"

definition LIMIT_FIELDS :: "string set" where
  "LIMIT_FIELDS = {''maxBytes'', ''maxFiles'', ''maxOperations'', ''approvalExpiresAt''}"

definition int_between :: "int \<Rightarrow> int \<Rightarrow> json \<Rightarrow> bool" where
  "int_between a b v = (case v of JInt n \<Rightarrow> a \<le> n \<and> n \<le> b | _ \<Rightarrow> False)"

text \<open>The members of a proposal, in a fixed order: its copy, and what \<open>verify\<close> reads back from the record.\<close>

definition proposal_fields :: "obj \<Rightarrow> obj" where
  "proposal_fields p = map (\<lambda>n. (n, jget p n)) PROPOSAL_FIELDS"

text \<open>\<open>value in {...}\<close> raises for an unhashable value; \<open>True == 1\<close> in Python.\<close>

definition validated_proposal :: "change_env \<Rightarrow> obj \<Rightarrow> obj result" where
  "validated_proposal e p =
     (if dict_keys p \<noteq> set PROPOSAL_FIELDS then change_error ''ECO_CHANGE_INVALID''
      else bindE (check_all (change_id \<circ> jget p) [''proposalId'', ''projectId'', ''runId'']) (\<lambda>_.
        bindE (check_all (change_digest \<circ> jget p) PROPOSAL_DIGESTS) (\<lambda>_.
        if jget p ''actionClass'' \<noteq> JStr ''A2'' then change_error ''ECO_CHANGE_SCOPE''
        else if \<not> hashable (jget p ''operationKind'') then Inl PyTypeError
        else if jget p ''operationKind'' \<notin> {JStr ''create'', JStr ''replace''} then change_error ''ECO_CHANGE_SCOPE''
        else case jget p ''limits'' of
          JObj l \<Rightarrow>
            if dict_keys l \<noteq> LIMIT_FIELDS then change_error ''ECO_CHANGE_INVALID''
            else if \<not> int_between 0 100000000 (jget l ''maxBytes'') \<or> jget l ''maxFiles'' \<notin> {JInt 1, JBool True}
                    \<or> \<not> int_between 1 10000 (jget l ''maxOperations'') then change_error ''ECO_CHANGE_SCOPE''
            else bindE (parse_utc e (jget l ''approvalExpiresAt'')) (\<lambda>_. Inr (proposal_fields p))
        | _ \<Rightarrow> change_error ''ECO_CHANGE_INVALID'')))"

section \<open>Digests of rows and the audit chain\<close>

definition json_text_opt :: "string option \<Rightarrow> json" where
  "json_text_opt x = (case x of None \<Rightarrow> JNull | Some s \<Rightarrow> JStr s)"

definition proposal_json :: "string \<Rightarrow> proposal_row \<Rightarrow> json" where
  "proposal_json i r = JObj [(''proposal_id'', JStr i), (''project_id'', JStr (pr_project_id r)),
     (''run_id'', JStr (pr_run_id r)), (''plan_digest'', JStr (pr_plan_digest r)),
     (''proposal_digest'', JStr (pr_proposal_digest r)), (''subject_digest'', JStr (pr_subject_digest r)),
     (''target_ref_digest'', JStr (pr_target r)), (''canonical_json'', JStr (canonical_json (JObj (pr_record r)))),
     (''created_at'', JStr (pr_created_at r))]"

definition approval_json :: "string \<Rightarrow> approval_row \<Rightarrow> json" where
  "approval_json i r = JObj [(''approval_id'', JStr i), (''proposal_id'', JStr (ar_proposal_id r)),
     (''subject_digest'', JStr (ar_subject_digest r)), (''envelope_digest'', JStr (ar_envelope_digest r)),
     (''human_id'', ar_human_id r), (''assurance'', ar_assurance r), (''key_id'', ar_key_id r),
     (''challenge_nonce'', ar_nonce r), (''issued_at'', ar_issued_at r), (''expires_at'', ar_expires_at r),
     (''expires_at_epoch_us'', JInt (ar_expires_us r)),
     (''state'', JStr (if ar_consumed r then ''consumed'' else ''issued'')), (''consumed_at'', json_text_opt (ar_consumed_at r)),
     (''consumed_operation_id'', json_text_opt (ar_operation r)),
     (''canonical_json'', JStr (canonical_json (JObj (ar_envelope r))))]"

definition operation_json :: "string \<Rightarrow> change_operation \<Rightarrow> json" where
  "operation_json i r = JObj [(''operation_id'', JStr i), (''run_id'', JStr (op_run_id r)),
     (''proposal_id'', JStr (op_proposal_id r)), (''approval_id'', JStr (op_approval_id r)),
     (''idempotency_key_digest'', JStr (op_idempotency r)), (''policy_decision_digest'', JStr (op_policy_digest r)),
     (''intent_digest'', JStr (op_intent r)), (''recovery_storage_ref'', JStr (ra_ref (op_recovery r))),
     (''recovery_sha256'', JStr (ra_sha (op_recovery r))), (''recovery_byte_length'', JInt (ra_length (op_recovery r))),
     (''recovery_metadata_digest'', JStr (ra_metadata (op_recovery r))),
     (''before_proof_digest'', json_text_opt (op_before_proof r)),
     (''execution_intent_digest'', json_text_opt (op_execution_intent r)), (''target_ref_digest'', JStr (op_target r)),
     (''state'', JStr (change_state_text (op_state r))), (''recovery_phase'', json_text_opt (op_phase r)),
     (''lease_owner_id'', json_text_opt (op_owner r)), (''lease_epoch'', JInt (op_epoch r)),
     (''lease_token_digest'', json_text_opt (op_token r)),
     (''lease_until_epoch_us'', case op_until r of None \<Rightarrow> JNull | Some t \<Rightarrow> JInt t),
     (''apply_receipt_digest'', json_text_opt (op_apply_receipt r)),
     (''rollback_receipt_digest'', json_text_opt (op_rollback_receipt r)),
     (''failure_digest'', json_text_opt (op_failure r)), (''recovery_reason_digest'', json_text_opt (op_reason r)),
     (''created_at'', JStr (op_created_at r)), (''updated_at'', JStr (op_updated_at r))]"

definition lock_json :: "string \<Rightarrow> target_lock \<Rightarrow> json" where
  "lock_json t r = JObj [(''target_ref_digest'', JStr t), (''operation_id'', JStr (lk_operation r)),
     (''state'', JStr (if lk_active r then ''active'' else ''released'')), (''updated_at'', JStr (lk_updated_at r))]"

definition audit_payload :: "string \<Rightarrow> audit_entry \<Rightarrow> json" where
  "audit_payload sid a = JObj [(''domain'', JStr ''eco-change-audit-v1''), (''storeId'', JStr sid),
     (''sequence'', JInt (au_sequence a)), (''transactionId'', JStr (au_transaction a)), (''entityType'', JStr (au_type a)),
     (''entityId'', JStr (au_entity a)), (''action'', JStr (au_action a)), (''stateDigest'', JStr (au_state_digest a)),
     (''previousEntryHash'', JStr (au_previous a)), (''occurredAt'', JStr (au_occurred a))]"

definition seal_audit :: "change_env \<Rightarrow> string \<Rightarrow> audit_entry \<Rightarrow> audit_entry" where
  "seal_audit e sid a = a\<lparr>au_hash := semantic_digest (ce_sha e) (audit_payload sid a),
     au_tag := cx_mac e (semantic_digest (ce_sha e) (audit_payload sid a)), au_key_id := cx_key_id e\<rparr>"

definition audit_head :: "audit_entry list \<Rightarrow> string" where
  "audit_head as = (if as = [] then CHANGE_GENESIS else au_hash (last as))"

text \<open>\<open>_audit_row\<close> of the row with the given digest.\<close>

definition add_audit ::
    "change_env \<Rightarrow> string \<Rightarrow> string \<Rightarrow> string \<Rightarrow> string \<Rightarrow> string \<Rightarrow> json \<Rightarrow> change_store \<Rightarrow> change_store" where
  "add_audit e tx occurred kind entity action row s = s\<lparr>cs_audit := cs_audit s @ [seal_audit e (cm_store_id (cs_meta s))
     \<lparr>au_sequence = int (length (cs_audit s)) + 1, au_transaction = tx, au_type = kind, au_entity = entity, au_action = action,
      au_state_digest = semantic_digest (ce_sha e) row, au_previous = audit_head (cs_audit s), au_hash = [], au_tag = [],
      au_key_id = [], au_occurred = occurred\<rparr>]\<rparr>"

section \<open>Opening\<close>

definition meta_payload :: "change_env \<Rightarrow> string \<Rightarrow> string \<Rightarrow> json" where
  "meta_payload e sid created = JObj [(''domain'', JStr ''eco-change-store-meta-v1''), (''storeId'', JStr sid),
     (''applicationId'', JInt 1162039090), (''schemaVersion'', JInt 1),
     (''digestProfile'', JStr ''eco-python-json-v1''), (''auditKeyId'', JStr (cx_key_id e)), (''createdAt'', JStr created)]"

definition new_change_store :: "change_env \<Rightarrow> string \<Rightarrow> int \<Rightarrow> change_store" where
  "new_change_store e sid now = \<lparr>cs_meta = \<lparr>cm_store_id = sid, cm_application_id = 1162039090, cm_schema_version = 1,
       cm_digest_profile = ''eco-python-json-v1'', cm_key_id = cx_key_id e, cm_created_at = ce_iso e now,
       cm_hmac = cx_mac e (canonical_json (meta_payload e sid (ce_iso e now)))\<rparr>,
     cs_proposals = [], cs_approvals = [], cs_operations = [], cs_locks = [], cs_audit = []\<rparr>"

section \<open>Proposals and approvals\<close>

definition proposal_body :: "obj \<Rightarrow> obj" where
  "proposal_body p = (''domain'', JStr ''eco-change-proposal-v1'') # p"

definition proposal_digest :: "change_env \<Rightarrow> obj \<Rightarrow> string" where
  "proposal_digest e p = semantic_digest (ce_sha e) (JObj (proposal_body p))"

definition proposal_subject :: "change_env \<Rightarrow> string \<Rightarrow> obj \<Rightarrow> approval_subject" where
  "proposal_subject e sid p = \<lparr>as_store_id = sid, as_project_id = the_str (jget p ''projectId''),
     as_run_id = the_str (jget p ''runId''), as_plan_digest = the_str (jget p ''planDigest''),
     as_policy_decision_digest = the_str (jget p ''policyDecisionDigest''), as_proposal_digest = proposal_digest e p,
     as_action_class = the_str (jget p ''actionClass''), as_operation_kind = the_str (jget p ''operationKind''),
     as_root_identity_digest = the_str (jget p ''rootIdentityDigest''), as_base_digest = the_str (jget p ''baseDigest''),
     as_target_ref_digest = the_str (jget p ''targetRefDigest''), as_desired_digest = the_str (jget p ''desiredDigest''),
     as_rollback_digest = the_str (jget p ''rollbackDigest''), as_display_digest = the_str (jget p ''displayDigest''),
     as_limits_digest = semantic_digest (ce_sha e) (jget p ''limits'')\<rparr>"

definition new_proposal_row :: "change_env \<Rightarrow> obj \<Rightarrow> string \<Rightarrow> int \<Rightarrow> proposal_row" where
  "new_proposal_row e p subject now = \<lparr>pr_project_id = the_str (jget p ''projectId''), pr_run_id = the_str (jget p ''runId''),
     pr_plan_digest = the_str (jget p ''planDigest''), pr_proposal_digest = proposal_digest e p, pr_subject_digest = subject,
     pr_target = the_str (jget p ''targetRefDigest''),
     pr_record = proposal_body p @ [(''proposalDigest'', JStr (proposal_digest e p)), (''subjectDigest'', JStr subject),
       (''limitsDigest'', JStr (semantic_digest (ce_sha e) (jget p ''limits'')))],
     pr_created_at = ce_iso e now\<rparr>"

definition register_proposal ::
    "change_env \<Rightarrow> string \<Rightarrow> obj \<Rightarrow> int \<Rightarrow> change_store \<Rightarrow> ((string \<times> string) \<times> change_store) result" where
  "register_proposal e tx raw now s =
     bindE (validated_proposal e raw) (\<lambda>p.
     bindE (approval_subject_digest e (proposal_subject e (cm_store_id (cs_meta s)) p)) (\<lambda>subject.
       let i = the_str (jget p ''proposalId''); row = new_proposal_row e p subject now;
           out = (proposal_digest e p, subject) in
       case map_of (cs_proposals s) i of
         Some old \<Rightarrow> if pr_proposal_digest old \<noteq> proposal_digest e p then change_error ''ECO_CHANGE_ID_CONFLICT''
                     else Inr (out, s)
       | None \<Rightarrow>
           if list_ex (\<lambda>(k, r). pr_proposal_digest r = proposal_digest e p \<or> pr_subject_digest r = subject) (cs_proposals s)
           then Inl SqliteIntegrityError
           else Inr (out, add_audit e tx (ce_iso e now) ''proposal'' i ''registered'' (proposal_json i row)
                  (s\<lparr>cs_proposals := cs_proposals s @ [(i, row)]\<rparr>))))"

definition new_approval_row :: "change_env \<Rightarrow> string \<Rightarrow> string \<Rightarrow> string \<Rightarrow> int \<Rightarrow> obj \<Rightarrow> approval_row" where
  "new_approval_row e proposal subject digest expires c = \<lparr>ar_proposal_id = proposal, ar_subject_digest = subject,
     ar_envelope_digest = digest, ar_human_id = jget c ''humanId'', ar_assurance = jget c ''assurance'',
     ar_key_id = jget c ''keyId'', ar_nonce = jget c ''challengeNonce'', ar_issued_at = jget c ''issuedAt'',
     ar_expires_at = jget c ''expiresAt'', ar_expires_us = cx_epoch e expires, ar_consumed = False, ar_consumed_at = None,
     ar_operation = None, ar_envelope = c\<rparr>"

definition record_verified_grant ::
    "change_env \<Rightarrow> string \<Rightarrow> json \<Rightarrow> int \<Rightarrow> change_store \<Rightarrow> (approval_row \<times> change_store) result" where
  "record_verified_grant e tx envelope now s =
     (case envelope of
        JObj c \<Rightarrow>
          (case jget c ''subjectDigest'' of
             JStr subject \<Rightarrow>
               (case find (\<lambda>(i, r). pr_subject_digest r = subject) (cs_proposals s) of
                  None \<Rightarrow> change_error ''ECO_APPROVAL_MISMATCH''
                | Some (proposal, _) \<Rightarrow>
                    bindE (verify_approval e (cx_trust e) c subject now) (\<lambda>(body, digest).
                    let i = the_str (jget body ''approvalId'') in
                    case map_of (cs_approvals s) i of
                      Some old \<Rightarrow> if ar_envelope_digest old \<noteq> digest then change_error ''ECO_APPROVAL_ID_CONFLICT''
                                  else Inr (old, s)
                    | None \<Rightarrow>
                        bindE (parse_utc e (jget body ''expiresAt'')) (\<lambda>expires.
                        let row = new_approval_row e proposal subject digest expires body in
                        if list_ex (\<lambda>(k, r). ar_envelope_digest r = digest \<or> ar_nonce r = ar_nonce row) (cs_approvals s)
                        then change_error ''ECO_APPROVAL_REPLAY''
                        else Inr (row, add_audit e tx (ce_iso e now) ''approval'' i ''issued'' (approval_json i row)
                               (s\<lparr>cs_approvals := cs_approvals s @ [(i, row)]\<rparr>)))))
           | _ \<Rightarrow> change_error ''ECO_APPROVAL_INVALID'')
      | _ \<Rightarrow> change_error ''ECO_APPROVAL_INVALID'')"

section \<open>Preparing an operation\<close>

definition lease_digest :: "change_env \<Rightarrow> string \<Rightarrow> string" where
  "lease_digest e token = semantic_digest (ce_sha e) (JObj [(''domain'', JStr ''eco-change-lease-v1''), (''token'', JStr token)])"

definition intent_digest ::
    "change_env \<Rightarrow> string \<Rightarrow> string \<Rightarrow> string \<Rightarrow> string \<Rightarrow> string \<Rightarrow> recovery_artifact \<Rightarrow> string" where
  "intent_digest e operation proposal approval policy idem r = semantic_digest (ce_sha e)
     (JObj [(''domain'', JStr ''eco-change-intent-v1''), (''operationId'', JStr operation), (''proposalId'', JStr proposal),
       (''approvalId'', JStr approval), (''policyDecisionDigest'', JStr policy), (''idempotencyKeyDigest'', JStr idem),
       (''recoveryStorageRef'', JStr (ra_ref r)), (''recoverySha256'', JStr (ra_sha r)),
       (''recoveryByteLength'', JInt (ra_length r)), (''recoveryMetadataDigest'', JStr (ra_metadata r))])"

definition idempotency_digest :: "change_env \<Rightarrow> string \<Rightarrow> string" where
  "idempotency_digest e key = semantic_digest (ce_sha e)
     (JObj [(''domain'', JStr ''eco-change-idempotency-v1''), (''key'', JStr key)])"

text \<open>What the stored proposal says about operations: its policy decision and how many a run may have.\<close>

definition proposal_authority :: "proposal_row \<Rightarrow> (string \<times> int) result" where
  "proposal_authority p =
     (case (map_of (pr_record p) ''policyDecisionDigest'', map_of (pr_record p) ''limits'') of
        (Some d, Some limits) \<Rightarrow> bindE (change_digest d) (\<lambda>policy.
          case limits of
            JObj l \<Rightarrow> (case map_of l ''maxOperations'' of
                Some (JInt n) \<Rightarrow> Inr (policy, n) | Some _ \<Rightarrow> Inl PyTypeError | None \<Rightarrow> change_corrupt)
          | _ \<Rightarrow> Inl PyTypeError)
      | _ \<Rightarrow> change_corrupt)"

record prepare_request =
  pq_operation :: string
  pq_proposal :: string
  pq_approval :: string
  pq_key :: string
  pq_recovery :: recovery_artifact
  pq_owner :: string

definition new_operation ::
    "change_env \<Rightarrow> prepare_request \<Rightarrow> proposal_row \<Rightarrow> string \<Rightarrow> string \<Rightarrow> int \<Rightarrow> int \<Rightarrow> change_operation" where
  "new_operation e q p policy token now until = \<lparr>op_run_id = pr_run_id p, op_proposal_id = pq_proposal q,
     op_approval_id = pq_approval q, op_idempotency = idempotency_digest e (pq_key q), op_policy_digest = policy,
     op_intent = intent_digest e (pq_operation q) (pq_proposal q) (pq_approval q) policy (idempotency_digest e (pq_key q))
       (pq_recovery q),
     op_recovery = pq_recovery q, op_before_proof = None, op_execution_intent = None, op_target = pr_target p,
     op_state = Prepared, op_phase = Some ''apply'', op_owner = Some (pq_owner q), op_epoch = 1,
     op_token = Some (lease_digest e token), op_until = Some (cx_epoch e until), op_apply_receipt = None,
     op_rollback_receipt = None, op_failure = None, op_reason = None, op_created_at = ce_iso e now,
     op_updated_at = ce_iso e now\<rparr>"

definition consume_approval :: "change_env \<Rightarrow> string \<Rightarrow> int \<Rightarrow> approval_row \<Rightarrow> approval_row" where
  "consume_approval e operation now a = a\<lparr>ar_consumed := True, ar_consumed_at := Some (ce_iso e now), ar_operation := Some operation\<rparr>"

text \<open>The inserts and updates of \<open>prepare_operation\<close>, with the audit entries in their order.\<close>

definition store_operation ::
    "change_env \<Rightarrow> string \<Rightarrow> string \<Rightarrow> change_operation \<Rightarrow> approval_row \<Rightarrow> int \<Rightarrow> change_store \<Rightarrow> change_store" where
  "store_operation e tx i row approval now s =
     (let a = consume_approval e i now approval; l = \<lparr>lk_operation = i, lk_active = True, lk_updated_at = ce_iso e now\<rparr>;
          t = ce_iso e now in
      add_audit e tx t ''target-lock'' (op_target row) ''acquired'' (lock_json (op_target row) l)
        (add_audit e tx t ''operation'' i ''prepared'' (operation_json i row)
          (add_audit e tx t ''approval'' (op_approval_id row) ''consumed'' (approval_json (op_approval_id row) a)
            (s\<lparr>cs_operations := cs_operations s @ [(i, row)],
               cs_approvals := dict_set (op_approval_id row) a (cs_approvals s),
               cs_locks := dict_set (op_target row) l (cs_locks s)\<rparr>))))"

text \<open>The result is the operation and whether the call was a replay.\<close>

definition prepare_operation ::
    "change_env \<Rightarrow> string \<Rightarrow> string \<Rightarrow> prepare_request \<Rightarrow> int \<Rightarrow> int \<Rightarrow> change_store
      \<Rightarrow> ((change_operation \<times> bool) \<times> change_store) result" where
  "prepare_operation e tx token q now lease_seconds s =
     bindE (check_all (change_id \<circ> JStr) [pq_operation q, pq_proposal q, pq_approval q, pq_owner q, pq_key q]) (\<lambda>_.
     bindE (check_recovery (pq_recovery q)) (\<lambda>_.
     if \<not> (1 \<le> lease_seconds \<and> lease_seconds \<le> 3600) then Inl PyValueError
     else case (map_of (cs_proposals s) (pq_proposal q), map_of (cs_approvals s) (pq_approval q)) of
       (Some p, Some a) \<Rightarrow>
         if ar_proposal_id a \<noteq> pq_proposal q then change_error ''ECO_CHANGE_AUTHORITY_MISMATCH''
         else bindE (proposal_authority p) (\<lambda>(policy, maximum).
           let row = new_operation e q p policy token now (now + lease_seconds * 1000000) in
           case find (\<lambda>(k, r). op_run_id r = op_run_id row \<and> op_idempotency r = op_idempotency row) (cs_operations s) of
             Some (k, old) \<Rightarrow>
               if op_intent old \<noteq> op_intent row then change_error ''ECO_CHANGE_IDEMPOTENCY_CONFLICT''
               else Inr ((old, True), s)
           | None \<Rightarrow>
               if int (length (filter (\<lambda>(k, r). op_run_id r = op_run_id row) (cs_operations s))) \<ge> maximum
               then change_error ''ECO_CHANGE_BUDGET_EXHAUSTED''
               else if ar_consumed a then change_error ''ECO_APPROVAL_CONSUMED''
               else if ar_expires_us a \<le> cx_epoch e now then change_error ''ECO_APPROVAL_EXPIRED''
               else if list_ex (\<lambda>(k, r). op_policy_digest r = policy) (cs_operations s)
               then change_error ''ECO_POLICY_DECISION_CONSUMED''
               else if (case map_of (cs_locks s) (op_target row) of None \<Rightarrow> False | Some l \<Rightarrow> lk_active l)
               then change_error ''ECO_CHANGE_TARGET_LOCKED''
               else if list_ex (\<lambda>(k, r). k = pq_operation q \<or> op_approval_id r = op_approval_id row \<or> op_intent r = op_intent row)
                      (cs_operations s)
               then change_error ''ECO_CHANGE_OPERATION_CONFLICT''
               else if list_ex (\<lambda>(k, r). ar_operation r = Some (pq_operation q)) (cs_approvals s) then Inl SqliteIntegrityError
               else Inr ((row, False), store_operation e tx (pq_operation q) row a now s))
     | _ \<Rightarrow> change_error ''ECO_CHANGE_AUTHORITY_MISMATCH''))"

section \<open>Transitions\<close>

record lease =
  le_owner :: string
  le_token :: string
  le_epoch :: int
  le_now :: int

definition require_lease :: "change_env \<Rightarrow> lease \<Rightarrow> change_operation \<Rightarrow> unit result" where
  "require_lease e l r =
     (if op_owner r \<noteq> Some (le_owner l) \<or> op_epoch r \<noteq> le_epoch l \<or> op_token r \<noteq> Some (lease_digest e (le_token l))
      then change_error ''ECO_CHANGE_FENCED''
      else case op_until r of
        None \<Rightarrow> change_error ''ECO_CHANGE_LEASE_EXPIRED''
      | Some t \<Rightarrow> if t \<le> cx_epoch e (le_now l) then change_error ''ECO_CHANGE_LEASE_EXPIRED'' else Inr ())"

definition assert_operation_lease ::
    "change_env \<Rightarrow> string \<Rightarrow> lease \<Rightarrow> change_state \<Rightarrow> change_store \<Rightarrow> unit result" where
  "assert_operation_lease e i l required s =
     bindE (check_all (change_id \<circ> JStr) [i, le_owner l]) (\<lambda>_.
     if required \<notin> {RollbackReady, Applying, RollingBack} then Inl PyValueError
     else case map_of (cs_operations s) i of
       None \<Rightarrow> change_error ''ECO_CHANGE_OPERATION_UNKNOWN''
     | Some r \<Rightarrow> if op_state r \<noteq> required then change_error ''ECO_CHANGE_STATE'' else require_lease e l r)"

datatype op_column = BeforeProof | ExecutionIntent | ApplyReceipt | RollbackReceipt | FailureDigest | RecoveryReason

fun get_column :: "op_column \<Rightarrow> change_operation \<Rightarrow> string option" where
  "get_column BeforeProof r = op_before_proof r" | "get_column ExecutionIntent r = op_execution_intent r"
| "get_column ApplyReceipt r = op_apply_receipt r" | "get_column RollbackReceipt r = op_rollback_receipt r"
| "get_column FailureDigest r = op_failure r" | "get_column RecoveryReason r = op_reason r"

fun set_column :: "op_column \<Rightarrow> string \<Rightarrow> change_operation \<Rightarrow> change_operation" where
  "set_column BeforeProof v r = r\<lparr>op_before_proof := Some v\<rparr>"
| "set_column ExecutionIntent v r = r\<lparr>op_execution_intent := Some v\<rparr>"
| "set_column ApplyReceipt v r = r\<lparr>op_apply_receipt := Some v\<rparr>"
| "set_column RollbackReceipt v r = r\<lparr>op_rollback_receipt := Some v\<rparr>"
| "set_column FailureDigest v r = r\<lparr>op_failure := Some v\<rparr>"
| "set_column RecoveryReason v r = r\<lparr>op_reason := Some v\<rparr>"

text \<open>The keyword arguments of \<open>_transition\<close>; the receipt and reason columns are written the same way.\<close>

record transition_spec =
  tr_allowed :: "change_state set"
  tr_target :: change_state
  tr_columns :: "(op_column \<times> string) list"
  tr_phase :: "string option"
  tr_lock :: bool
  tr_source_phase :: "string option"
  tr_recovery :: "recovery_artifact option"

definition replay_mismatch :: "transition_spec \<Rightarrow> change_operation \<Rightarrow> bool" where
  "replay_mismatch t r \<longleftrightarrow> list_ex (\<lambda>(c, v). get_column c r \<noteq> Some v) (tr_columns t)
     \<or> (case tr_recovery t of None \<Rightarrow> False | Some a \<Rightarrow> op_recovery r \<noteq> a)"

definition transition_phase :: "transition_spec \<Rightarrow> change_operation \<Rightarrow> string option" where
  "transition_phase t r =
     (if tr_target t = RecoveryRequired
      then Some (if op_state r \<in> {Applied, RollingBack} then ''rollback'' else ''apply'') else tr_phase t)"

definition moved_operation ::
    "change_env \<Rightarrow> transition_spec \<Rightarrow> string \<Rightarrow> int \<Rightarrow> change_operation \<Rightarrow> change_operation" where
  "moved_operation e t i now r =
     (let r1 = r\<lparr>op_state := tr_target t, op_updated_at := ce_iso e now\<rparr>;
          r2 = (case transition_phase t r of None \<Rightarrow> r1 | Some p \<Rightarrow> r1\<lparr>op_phase := Some p\<rparr>);
          r3 = fold (\<lambda>(c, v). set_column c v) (tr_columns t) r2;
          r4 = (case tr_recovery t of None \<Rightarrow> r3 | Some a \<Rightarrow> r3\<lparr>op_recovery := a,
                 op_intent := intent_digest e i (op_proposal_id r) (op_approval_id r) (op_policy_digest r) (op_idempotency r) a\<rparr>)
      in if tr_target t \<in> {Committed, RolledBack, ChangeFailed}
         then r4\<lparr>op_owner := None, op_token := None, op_until := None\<rparr> else r4)"

definition set_lock ::
    "change_env \<Rightarrow> string \<Rightarrow> string \<Rightarrow> change_operation \<Rightarrow> bool \<Rightarrow> int \<Rightarrow> change_store \<Rightarrow> change_store result" where
  "set_lock e tx i r active now s =
     (let t = ce_iso e now; target = op_target r;
          write = (\<lambda>l. Inr (add_audit e tx t ''target-lock'' target (if active then ''acquired'' else ''released'')
             (lock_json target l) (s\<lparr>cs_locks := dict_set target l (cs_locks s)\<rparr>))) in
      case map_of (cs_locks s) target of
        None \<Rightarrow> if active then write \<lparr>lk_operation = i, lk_active = True, lk_updated_at = t\<rparr> else change_corrupt
      | Some l \<Rightarrow>
          if active
          then if lk_active l \<and> lk_operation l \<noteq> i then change_error ''ECO_CHANGE_TARGET_LOCKED''
               else write \<lparr>lk_operation = i, lk_active = True, lk_updated_at = t\<rparr>
          else if lk_operation l = i then write (l\<lparr>lk_active := False, lk_updated_at := t\<rparr>)
          else write l)"

definition transition ::
    "change_env \<Rightarrow> transition_spec \<Rightarrow> string \<Rightarrow> string \<Rightarrow> lease \<Rightarrow> change_store \<Rightarrow> (change_operation \<times> change_store) result" where
  "transition e t tx i l s =
     bindE (check_all (change_id \<circ> JStr) [i, le_owner l]) (\<lambda>_.
     bindE (check_all (change_digest \<circ> JStr) (map snd (tr_columns t))) (\<lambda>_.
     case map_of (cs_operations s) i of
       None \<Rightarrow> change_error ''ECO_CHANGE_OPERATION_UNKNOWN''
     | Some r \<Rightarrow>
         if op_state r = tr_target t
         then if replay_mismatch t r then change_error ''ECO_CHANGE_IDEMPOTENCY_CONFLICT'' else Inr (r, s)
         else if op_state r \<notin> tr_allowed t then change_error ''ECO_CHANGE_STATE''
         else if op_state r = RecoveryRequired \<and> tr_source_phase t \<noteq> None \<and> op_phase r \<noteq> tr_source_phase t
         then change_error ''ECO_CHANGE_RECOVERY_PHASE''
         else if tr_target t = Applying \<and> (op_before_proof r = None \<or> op_execution_intent r = None)
         then change_error ''ECO_CHANGE_ROLLBACK_UNREADY''
         else bindE (require_lease e l r) (\<lambda>_.
           let r' = moved_operation e t i (le_now l) r in
           if tr_recovery t \<noteq> None \<and> list_ex (\<lambda>(k, x). k \<noteq> i \<and> op_intent x = op_intent r') (cs_operations s)
           then Inl SqliteIntegrityError
           else bindE (set_lock e tx i r' (tr_lock t) (le_now l) (s\<lparr>cs_operations := dict_set i r' (cs_operations s)\<rparr>)) (\<lambda>s'.
             Inr (r', add_audit e tx (ce_iso e (le_now l)) ''operation'' i (change_state_text (tr_target t))
                    (operation_json i r') s')))))"

definition simple_spec :: "change_state set \<Rightarrow> change_state \<Rightarrow> (op_column \<times> string) list \<Rightarrow> string option \<Rightarrow> bool \<Rightarrow> transition_spec" where
  "simple_spec allowed target columns phase active = \<lparr>tr_allowed = allowed, tr_target = target, tr_columns = columns,
     tr_phase = phase, tr_lock = active, tr_source_phase = None, tr_recovery = None\<rparr>"

type_synonym change_move = "string \<Rightarrow> string \<Rightarrow> lease \<Rightarrow> change_store \<Rightarrow> (change_operation \<times> change_store) result"

definition mark_rollback_ready :: "change_env \<Rightarrow> string \<Rightarrow> string \<Rightarrow> recovery_artifact \<Rightarrow> change_move" where
  "mark_rollback_ready e before execution recovery tx i l s =
     bindE (check_recovery recovery) (\<lambda>_.
       transition e \<lparr>tr_allowed = {Prepared, RecoveryRequired}, tr_target = RollbackReady,
         tr_columns = [(ExecutionIntent, execution), (BeforeProof, before)], tr_phase = Some ''apply'', tr_lock = True,
         tr_source_phase = Some ''apply'', tr_recovery = Some recovery\<rparr> tx i l s)"

definition mark_applying :: "change_env \<Rightarrow> change_move" where
  "mark_applying e = transition e (simple_spec {RollbackReady} Applying [] (Some ''apply'') True)"

definition mark_commit_ready :: "change_env \<Rightarrow> change_move" where
  "mark_commit_ready e = transition e (simple_spec {Applying} CommitReady [] (Some ''apply'') True)"

definition mark_applied :: "change_env \<Rightarrow> string \<Rightarrow> change_move" where
  "mark_applied e receipt = transition e (simple_spec {CommitReady} Applied [(ApplyReceipt, receipt)] None True)"

definition mark_committed :: "change_env \<Rightarrow> change_move" where
  "mark_committed e = transition e (simple_spec {Applied} Committed [] None False)"

definition mark_rolling_back :: "change_env \<Rightarrow> change_move" where
  "mark_rolling_back e = transition e (simple_spec {Applied, RecoveryRequired} RollingBack [] (Some ''rollback'') True)"

definition mark_rolled_back :: "change_env \<Rightarrow> string \<Rightarrow> change_move" where
  "mark_rolled_back e receipt = transition e (simple_spec {RollingBack} RolledBack [(RollbackReceipt, receipt)] None False)"

definition mark_failed :: "change_env \<Rightarrow> string \<Rightarrow> change_move" where
  "mark_failed e failure = transition e (simple_spec NONTERMINAL ChangeFailed [(FailureDigest, failure)] None False)"

definition mark_recovery_required :: "change_env \<Rightarrow> string \<Rightarrow> change_move" where
  "mark_recovery_required e reason = transition e
     (simple_spec {Prepared, RollbackReady, Applying, CommitReady, Applied, RollingBack} RecoveryRequired
        [(RecoveryReason, reason)] None True)"

definition record_recovery_conflict :: "change_env \<Rightarrow> string \<Rightarrow> change_move" where
  "record_recovery_conflict e reason tx i l s =
     bindE (change_digest (JStr reason)) (\<lambda>_.
     case map_of (cs_operations s) i of
       None \<Rightarrow> change_error ''ECO_CHANGE_OPERATION_UNKNOWN''
     | Some r \<Rightarrow>
         if op_state r \<noteq> RecoveryRequired then change_error ''ECO_CHANGE_STATE''
         else bindE (require_lease e l r) (\<lambda>_.
           let r' = r\<lparr>op_reason := Some reason, op_updated_at := ce_iso e (le_now l)\<rparr> in
           Inr (r', add_audit e tx (ce_iso e (le_now l)) ''operation'' i ''recovery_conflict'' (operation_json i r')
                  (s\<lparr>cs_operations := dict_set i r' (cs_operations s)\<rparr>))))"

text \<open>Claiming an operation whose lease ended; a settled operation is returned as it is.\<close>

definition claimed_operation :: "change_env \<Rightarrow> string \<Rightarrow> string \<Rightarrow> int \<Rightarrow> int \<Rightarrow> change_operation \<Rightarrow> change_operation" where
  "claimed_operation e token owner now until r = r\<lparr>op_state := RecoveryRequired,
     op_phase := Some (if op_state r \<in> {Applied, RollingBack} then ''rollback''
       else case op_phase r of None \<Rightarrow> ''apply'' | Some p \<Rightarrow> if p = [] then ''apply'' else p),
     op_owner := Some owner, op_epoch := op_epoch r + 1, op_token := Some (lease_digest e token),
     op_until := Some (cx_epoch e until), op_updated_at := ce_iso e now\<rparr>"

definition claim_operation ::
    "change_env \<Rightarrow> string \<Rightarrow> string \<Rightarrow> string \<Rightarrow> string \<Rightarrow> int \<Rightarrow> int \<Rightarrow> change_store \<Rightarrow> (change_operation \<times> change_store) result" where
  "claim_operation e tx token i owner now lease_seconds s =
     bindE (change_id (JStr owner)) (\<lambda>_.
     if \<not> (1 \<le> lease_seconds \<and> lease_seconds \<le> 3600) then Inl PyValueError
     else case map_of (cs_operations s) i of
       None \<Rightarrow> change_error ''ECO_CHANGE_OPERATION_UNKNOWN''
     | Some r \<Rightarrow>
         if op_state r \<notin> NONTERMINAL \<and> op_state r \<noteq> Applied then Inr (r, s)
         else if (case op_until r of None \<Rightarrow> False | Some t \<Rightarrow> t > cx_epoch e now) then change_error ''ECO_CHANGE_IN_PROGRESS''
         else let r' = claimed_operation e token owner now (now + lease_seconds * 1000000) r in
           Inr (r', add_audit e tx (ce_iso e now) ''operation'' i ''recovery_required'' (operation_json i r')
                  (s\<lparr>cs_operations := dict_set i r' (cs_operations s)\<rparr>)))"

definition scan_recoverable :: "change_env \<Rightarrow> int \<Rightarrow> change_store \<Rightarrow> (string \<times> change_operation) list" where
  "scan_recoverable e now s = sorted_items (filter (\<lambda>(i, r). op_state r \<in> insert Applied NONTERMINAL
     \<and> (case op_until r of None \<Rightarrow> True | Some t \<Rightarrow> t \<le> cx_epoch e now)) (cs_operations s))"

section \<open>Verification\<close>

definition verify_meta :: "change_env \<Rightarrow> change_meta \<Rightarrow> unit result" where
  "verify_meta e m =
     (if cm_application_id m \<noteq> 1162039090 \<or> cm_schema_version m \<noteq> 1 \<or> cm_digest_profile m \<noteq> ''eco-python-json-v1''
         \<or> cm_key_id m \<noteq> cx_key_id e
         \<or> cm_hmac m \<noteq> cx_mac e (canonical_json (meta_payload e (cm_store_id m) (cm_created_at m)))
      then change_corrupt else Inr ())"

text \<open>The audit chain; the result maps every audited entity to the digest of its latest entry.\<close>

fun verify_audit ::
    "change_env \<Rightarrow> string \<Rightarrow> string \<Rightarrow> int \<Rightarrow> ((string \<times> string) \<times> string) list \<Rightarrow> audit_entry list
      \<Rightarrow> ((string \<times> string) \<times> string) list result" where
  "verify_audit e sid previous n latest [] = Inr latest"
| "verify_audit e sid previous n latest (a # as) =
     (let h = semantic_digest (ce_sha e) (audit_payload sid a) in
      if au_sequence a \<noteq> n \<or> au_previous a \<noteq> previous \<or> au_hash a \<noteq> h \<or> au_key_id a \<noteq> cx_key_id e \<or> au_tag a \<noteq> cx_mac e h
      then change_corrupt
      else verify_audit e sid h (n + 1) (dict_set (au_type a, au_entity a) (au_state_digest a) latest) as)"

definition live_rows :: "change_env \<Rightarrow> change_store \<Rightarrow> ((string \<times> string) \<times> string) list" where
  "live_rows e s =
     map (\<lambda>(i, r). ((''proposal'', i), semantic_digest (ce_sha e) (proposal_json i r))) (cs_proposals s)
     @ map (\<lambda>(i, r). ((''approval'', i), semantic_digest (ce_sha e) (approval_json i r))) (cs_approvals s)
     @ map (\<lambda>(i, r). ((''operation'', i), semantic_digest (ce_sha e) (operation_json i r))) (cs_operations s)
     @ map (\<lambda>(i, r). ((''target-lock'', i), semantic_digest (ce_sha e) (lock_json i r))) (cs_locks s)"

definition same_dict :: "('k \<times> 'v) list \<Rightarrow> ('k \<times> 'v) list \<Rightarrow> bool" where
  "same_dict d d' \<longleftrightarrow> dict_keys d = dict_keys d' \<and> list_all (\<lambda>(k, v). map_of d k = map_of d' k) d"

definition verify_proposal :: "change_env \<Rightarrow> string \<Rightarrow> proposal_row \<Rightarrow> unit result" where
  "verify_proposal e sid r =
     (if \<not> set PROPOSAL_FIELDS \<subseteq> dict_keys (pr_record r) then Inl PyKeyError
      else bindE (validated_proposal e (proposal_fields (pr_record r))) (\<lambda>p.
        bindE (approval_subject_digest e (proposal_subject e sid p)) (\<lambda>subject.
        if pr_proposal_digest r \<noteq> proposal_digest e p \<or> pr_subject_digest r \<noteq> subject then change_corrupt
        else case map_of (pr_record r) ''proposalDigest'' of
          None \<Rightarrow> Inl PyKeyError
        | Some d \<Rightarrow>
            if d \<noteq> JStr (proposal_digest e p) then change_corrupt
            else case map_of (pr_record r) ''subjectDigest'' of
              None \<Rightarrow> Inl PyKeyError
            | Some d' \<Rightarrow> if d' \<noteq> JStr (pr_subject_digest r) then change_corrupt else Inr ())))"

definition verify_stored_approval :: "change_env \<Rightarrow> change_store \<Rightarrow> string \<times> approval_row \<Rightarrow> unit result" where
  "verify_stored_approval e s x =
     (case x of (i, a) \<Rightarrow>
       (case verify_historical e (cx_trust e) (ar_envelope a) (ar_subject_digest a) of
          Inl (RuntimeStoreError c) \<Rightarrow> change_corrupt
        | Inl err \<Rightarrow> Inl err
        | Inr (c, digest) \<Rightarrow>
            bindE (parse_utc e (jget (ar_envelope a) ''expiresAt'')) (\<lambda>expires.
            let operation = (case ar_operation a of None \<Rightarrow> None | Some k \<Rightarrow> map_of (cs_operations s) k) in
            if (case map_of (cs_proposals s) (ar_proposal_id a) of None \<Rightarrow> True
                 | Some p \<Rightarrow> ar_subject_digest a \<noteq> pr_subject_digest p)
               \<or> digest \<noteq> ar_envelope_digest a \<or> jget (ar_envelope a) ''approvalId'' \<noteq> JStr i
               \<or> jget (ar_envelope a) ''subjectDigest'' \<noteq> JStr (ar_subject_digest a)
               \<or> jget (ar_envelope a) ''humanId'' \<noteq> ar_human_id a \<or> jget (ar_envelope a) ''assurance'' \<noteq> ar_assurance a
               \<or> jget (ar_envelope a) ''keyId'' \<noteq> ar_key_id a \<or> jget (ar_envelope a) ''challengeNonce'' \<noteq> ar_nonce a
               \<or> jget (ar_envelope a) ''issuedAt'' \<noteq> ar_issued_at a \<or> jget (ar_envelope a) ''expiresAt'' \<noteq> ar_expires_at a
               \<or> ar_expires_us a \<noteq> cx_epoch e expires
               \<or> (\<not> ar_consumed a \<and> (ar_consumed_at a \<noteq> None \<or> operation \<noteq> None))
               \<or> (ar_consumed a \<and> (ar_consumed_at a = None \<or> operation = None))
            then change_corrupt else Inr ())))"

text \<open>States whose rows must name the proof of the state before the write and the execution intent.\<close>

definition PROVEN :: "change_state set" where
  "PROVEN = {RollbackReady, Applying, CommitReady, Applied, Committed, RollingBack, RolledBack}"

definition unproven :: "change_operation \<Rightarrow> bool" where
  "unproven r \<longleftrightarrow> op_state r \<in> PROVEN \<and> (op_before_proof r = None \<or> op_execution_intent r = None)"

definition verify_operation :: "change_env \<Rightarrow> change_store \<Rightarrow> string \<times> change_operation \<Rightarrow> unit result" where
  "verify_operation e s x =
     (case x of (i, r) \<Rightarrow>
       if (case map_of (cs_proposals s) (op_proposal_id r) of None \<Rightarrow> True
            | Some p \<Rightarrow> op_run_id r \<noteq> pr_run_id p \<or> op_target r \<noteq> pr_target p
                \<or> JStr (op_policy_digest r) \<noteq> jget (pr_record p) ''policyDecisionDigest'')
          \<or> (case map_of (cs_approvals s) (op_approval_id r) of None \<Rightarrow> True | Some a \<Rightarrow> ar_operation a \<noteq> Some i)
          \<or> \<not> recovery_reference_text (ra_ref (op_recovery r)) \<or> \<not> sha256_text (ra_sha (op_recovery r))
          \<or> ra_length (op_recovery r) < 0 \<or> \<not> sha256_text (ra_metadata (op_recovery r))
          \<or> op_intent r \<noteq> intent_digest e i (op_proposal_id r) (op_approval_id r) (op_policy_digest r) (op_idempotency r) (op_recovery r)
          \<or> unproven r
          \<or> (op_state r \<in> {Applied, Committed} \<and> op_apply_receipt r = None)
          \<or> (op_state r = RolledBack \<and> op_rollback_receipt r = None)
          \<or> (op_state r = ChangeFailed \<and> op_failure r = None)
          \<or> (op_state r = RecoveryRequired \<and> op_reason r = None \<and> op_epoch r = 1)
       then change_corrupt else Inr ())"

definition LOCK_REQUIRED :: "change_state set" where
  "LOCK_REQUIRED = {Prepared, RollbackReady, Applying, CommitReady, Applied, RollingBack, RecoveryRequired}"

definition verify_locks :: "change_store \<Rightarrow> unit result" where
  "verify_locks s =
     (if list_ex (\<lambda>(i, r). op_state r \<in> LOCK_REQUIRED \<and> (case map_of (cs_locks s) (op_target r) of None \<Rightarrow> True
            | Some l \<Rightarrow> \<not> lk_active l \<or> lk_operation l \<noteq> i)) (cs_operations s)
         \<or> list_ex (\<lambda>(t, l). lk_active l \<and> (case map_of (cs_operations s) (lk_operation l) of None \<Rightarrow> True
            | Some r \<Rightarrow> op_target r \<noteq> t \<or> op_state r \<notin> LOCK_REQUIRED)) (cs_locks s)
      then change_corrupt else Inr ())"

definition verify_change_store :: "change_env \<Rightarrow> change_store \<Rightarrow> unit result" where
  "verify_change_store e s =
     bindE (verify_meta e (cs_meta s)) (\<lambda>_.
     bindE (verify_audit e (cm_store_id (cs_meta s)) CHANGE_GENESIS 1 [] (cs_audit s)) (\<lambda>latest.
     if \<not> same_dict (live_rows e s) latest then change_corrupt
     else bindE (check_all (verify_proposal e (cm_store_id (cs_meta s)) \<circ> snd) (cs_proposals s)) (\<lambda>_.
       bindE (check_all (verify_stored_approval e s) (cs_approvals s)) (\<lambda>_.
       bindE (check_all (verify_operation e s) (cs_operations s)) (\<lambda>_. verify_locks s)))))"

text \<open>Opening an existing database: its metadata and the whole store are verified.\<close>

definition open_change_store :: "change_env \<Rightarrow> string option \<Rightarrow> change_store \<Rightarrow> change_store result" where
  "open_change_store e requested s =
     bindE (verify_meta e (cs_meta s)) (\<lambda>_.
     if requested \<noteq> None \<and> requested \<noteq> Some (cm_store_id (cs_meta s)) then change_corrupt
     else bindE (verify_change_store e s) (\<lambda>_. Inr s))"

end
