(* ===== verification/Eco_Change_Safety.thy ===== *)
theory Eco_Change_Safety
  imports Eco_Change_Store
begin

text \<open>
  The invariant of the change authority and what its operations keep of it. The audit chain always
  describes the tables; every stored approval is authentic and bound to its proposal; every operation is
  bound to the one approval it consumed and holds the lock of its target until it is settled.
\<close>

section \<open>What the audit chain says\<close>

definition audit_says :: "change_env \<Rightarrow> change_store \<Rightarrow> (string \<times> string \<Rightarrow> string option) \<Rightarrow> bool" where
  "audit_says e s M \<longleftrightarrow> (\<exists>L. verify_audit e (cm_store_id (cs_meta s)) CHANGE_GENESIS 1 [] (cs_audit s) = Inr L \<and> map_of L = M)"

lemma verify_audit_snoc:
  "verify_audit e sid previous n latest (as @ [a]) =
     bindE (verify_audit e sid previous n latest as) (\<lambda>L.
       let h = semantic_digest (ce_sha e) (audit_payload sid a) in
       if au_sequence a \<noteq> n + int (length as) \<or> au_previous a \<noteq> (if as = [] then previous else au_hash (last as))
          \<or> au_hash a \<noteq> h \<or> au_key_id a \<noteq> cx_key_id e \<or> au_tag a \<noteq> cx_mac e h
       then change_corrupt else Inr (dict_set (au_type a, au_entity a) (au_state_digest a) L))"
  by (induction as arbitrary: previous n latest) (auto simp: Let_def algebra_simps)

lemma add_audit_simps [simp]:
  "cs_meta (add_audit e tx t k i a row s) = cs_meta s" "cs_proposals (add_audit e tx t k i a row s) = cs_proposals s"
  "cs_approvals (add_audit e tx t k i a row s) = cs_approvals s" "cs_operations (add_audit e tx t k i a row s) = cs_operations s"
  "cs_locks (add_audit e tx t k i a row s) = cs_locks s"
  by (simp_all add: add_audit_def)

lemma seal_audit_payload [simp]: "audit_payload sid (seal_audit e sid a) = audit_payload sid a"
  by (simp add: audit_payload_def seal_audit_def)

lemma seal_audit_simps [simp]:
  "au_hash (seal_audit e sid a) = semantic_digest (ce_sha e) (audit_payload sid a)"
  "au_tag (seal_audit e sid a) = cx_mac e (semantic_digest (ce_sha e) (audit_payload sid a))"
  "au_key_id (seal_audit e sid a) = cx_key_id e" "au_sequence (seal_audit e sid a) = au_sequence a"
  "au_previous (seal_audit e sid a) = au_previous a" "au_type (seal_audit e sid a) = au_type a"
  "au_entity (seal_audit e sid a) = au_entity a" "au_state_digest (seal_audit e sid a) = au_state_digest a"
  by (simp_all add: seal_audit_def)

lemma add_audit_says:
  assumes "audit_says e s M"
  shows "audit_says e (add_audit e tx t k i a row s) (M((k, i) \<mapsto> semantic_digest (ce_sha e) row))"
proof -
  from assms obtain L where L: "verify_audit e (cm_store_id (cs_meta s)) CHANGE_GENESIS 1 [] (cs_audit s) = Inr L" "map_of L = M"
    by (auto simp: audit_says_def)
  have "verify_audit e (cm_store_id (cs_meta s)) CHANGE_GENESIS 1 [] (cs_audit (add_audit e tx t k i a row s))
      = Inr (dict_set (k, i) (semantic_digest (ce_sha e) row) L)"
    by (simp add: add_audit_def verify_audit_snoc L(1) audit_head_def)
  then show ?thesis using L(2) by (simp add: audit_says_def)
qed

lemma audit_says_cong: "cs_audit s' = cs_audit s \<Longrightarrow> cs_meta s' = cs_meta s \<Longrightarrow> audit_says e s' M = audit_says e s M"
  by (simp add: audit_says_def)

text \<open>The digests of the rows, as a map.\<close>

definition live :: "change_env \<Rightarrow> change_store \<Rightarrow> string \<times> string \<Rightarrow> string option" where
  "live e s x =
     (if fst x = ''proposal'' then map_option (\<lambda>r. semantic_digest (ce_sha e) (proposal_json (snd x) r)) (map_of (cs_proposals s) (snd x))
      else if fst x = ''approval'' then map_option (\<lambda>r. semantic_digest (ce_sha e) (approval_json (snd x) r)) (map_of (cs_approvals s) (snd x))
      else if fst x = ''operation'' then map_option (\<lambda>r. semantic_digest (ce_sha e) (operation_json (snd x) r)) (map_of (cs_operations s) (snd x))
      else if fst x = ''target-lock'' then map_option (\<lambda>r. semantic_digest (ce_sha e) (lock_json (snd x) r)) (map_of (cs_locks s) (snd x))
      else None)"

lemma map_of_tagged:
  "map_of (map (\<lambda>(i, r). ((k, i), f i r)) d) (k', i) = (if k' = k then map_option (f i) (map_of d i) else None)"
  by (induction d) auto

lemma map_of_live: "map_of (live_rows e s) = live e s"
proof
  fix x :: "string \<times> string"
  obtain k i where "x = (k, i)" by force
  then show "map_of (live_rows e s) x = live e s x"
    unfolding live_rows_def live_def by (simp add: map_add_def map_of_tagged split: option.splits)
qed

lemma same_dict_iff: "same_dict d d' \<longleftrightarrow> map_of d = map_of d'"
proof
  assume s: "same_dict d d'"
  show "map_of d = map_of d'"
  proof
    fix k
    show "map_of d k = map_of d' k"
    proof (cases "k \<in> dict_keys d")
      case True
      then obtain v where "(k, v) \<in> set d" by (auto simp: dict_keys_def)
      with s show ?thesis unfolding same_dict_def list_all_iff by blast
    next
      case False
      with s have "k \<notin> dom (map_of d)" "k \<notin> dom (map_of d')" by (simp_all add: same_dict_def dict_keys_dom)
      then show ?thesis by (simp add: domIff)
    qed
  qed
next
  assume "map_of d = map_of d'"
  then show "same_dict d d'" by (simp add: same_dict_def dict_keys_dom list_all_iff)
qed


lemma live_simps [simp]:
  "live e (s\<lparr>cs_proposals := dict_set i p (cs_proposals s)\<rparr>) = (live e s)((''proposal'', i) \<mapsto> semantic_digest (ce_sha e) (proposal_json i p))"
  "live e (s\<lparr>cs_approvals := dict_set i a (cs_approvals s)\<rparr>) = (live e s)((''approval'', i) \<mapsto> semantic_digest (ce_sha e) (approval_json i a))"
  "live e (s\<lparr>cs_operations := dict_set i r (cs_operations s)\<rparr>) = (live e s)((''operation'', i) \<mapsto> semantic_digest (ce_sha e) (operation_json i r))"
  "live e (s\<lparr>cs_locks := dict_set i l (cs_locks s)\<rparr>) = (live e s)((''target-lock'', i) \<mapsto> semantic_digest (ce_sha e) (lock_json i l))"
  "live e (add_audit e tx t k i' a' row s) = live e s"
  by (auto simp: live_def)

lemma append_fresh: "map_of d i = None \<Longrightarrow> d @ [(i, v)] = dict_set i v d"
  by (subst dict_set_fresh) (auto simp: map_of_eq_None_iff)

section \<open>Rows\<close>

text \<open>What an approval row says by itself, and its links to other rows.\<close>

definition approval_local :: "change_env \<Rightarrow> string \<Rightarrow> approval_row \<Rightarrow> bool" where
  "approval_local e i a \<longleftrightarrow> (\<exists>issued expires k.
     trusted_envelope e (cx_trust e) (ar_envelope a) (ar_subject_digest a) issued expires k
     \<and> ar_envelope_digest a = semantic_digest (ce_sha e) (JObj (ar_envelope a)) \<and> jget (ar_envelope a) ''approvalId'' = JStr i
     \<and> jget (ar_envelope a) ''humanId'' = ar_human_id a \<and> jget (ar_envelope a) ''assurance'' = ar_assurance a
     \<and> jget (ar_envelope a) ''keyId'' = ar_key_id a \<and> jget (ar_envelope a) ''challengeNonce'' = ar_nonce a
     \<and> jget (ar_envelope a) ''issuedAt'' = ar_issued_at a \<and> jget (ar_envelope a) ''expiresAt'' = ar_expires_at a
     \<and> ar_expires_us a = cx_epoch e expires)"

definition approval_links :: "change_store \<Rightarrow> approval_row \<Rightarrow> bool" where
  "approval_links s a \<longleftrightarrow>
     (\<exists>p. map_of (cs_proposals s) (ar_proposal_id a) = Some p \<and> ar_subject_digest a = pr_subject_digest p)
     \<and> (if ar_consumed a then ar_consumed_at a \<noteq> None \<and> (\<exists>k r. ar_operation a = Some k \<and> map_of (cs_operations s) k = Some r)
        else ar_consumed_at a = None \<and> ar_operation a = None)"

lemma stored_approval_verifies:
  assumes "approval_local e i a" and "approval_links s a"
  shows "verify_stored_approval e s (i, a) = Inr ()"
proof -
  from assms(1) obtain issued expires k
    where t: "trusted_envelope e (cx_trust e) (ar_envelope a) (ar_subject_digest a) issued expires k"
      and l: "ar_envelope_digest a = semantic_digest (ce_sha e) (JObj (ar_envelope a))" "jget (ar_envelope a) ''approvalId'' = JStr i"
        "jget (ar_envelope a) ''humanId'' = ar_human_id a" "jget (ar_envelope a) ''assurance'' = ar_assurance a"
        "jget (ar_envelope a) ''keyId'' = ar_key_id a" "jget (ar_envelope a) ''challengeNonce'' = ar_nonce a"
        "jget (ar_envelope a) ''issuedAt'' = ar_issued_at a" "jget (ar_envelope a) ''expiresAt'' = ar_expires_at a"
        "ar_expires_us a = cx_epoch e expires"
    unfolding approval_local_def by blast
  from t have h: "verify_historical e (cx_trust e) (ar_envelope a) (ar_subject_digest a)
      = Inr (ar_envelope a, semantic_digest (ce_sha e) (JObj (ar_envelope a)))"
    unfolding check_signature_Inr [symmetric] verify_historical_def by simp
  from t have x: "parse_utc e (jget (ar_envelope a) ''expiresAt'') = Inr expires"
    and sd: "jget (ar_envelope a) ''subjectDigest'' = JStr (ar_subject_digest a)"
    unfolding trusted_envelope_def by auto
  show ?thesis
    using assms(2) l unfolding verify_stored_approval_def approval_links_def
    by (auto simp: h x [unfolded l(8)] sd simp del: parse_utc_Inr split: if_splits)
qed

text \<open>The same for an operation. The states that carry the proof of the state before the write are those from
  \<open>rollback_ready\<close> to \<open>committed\<close>; the rollback states are not among them.\<close>

definition op_local :: "change_env \<Rightarrow> string \<Rightarrow> change_operation \<Rightarrow> bool" where
  "op_local e i r \<longleftrightarrow>
     check_recovery (op_recovery r) = Inr ()
     \<and> op_intent r = intent_digest e i (op_proposal_id r) (op_approval_id r) (op_policy_digest r) (op_idempotency r) (op_recovery r)
     \<and> (op_state r \<in> {Applied, Committed} \<longrightarrow> op_apply_receipt r \<noteq> None)
     \<and> (op_state r = RolledBack \<longrightarrow> op_rollback_receipt r \<noteq> None)
     \<and> (op_state r = ChangeFailed \<longrightarrow> op_failure r \<noteq> None)
     \<and> (op_state r = RecoveryRequired \<and> op_reason r = None \<longrightarrow> op_epoch r \<noteq> 1) \<and> 1 \<le> op_epoch r
     \<and> (unproven r \<longrightarrow> op_state r \<in> {RollingBack, RolledBack})"

definition op_links :: "change_store \<Rightarrow> string \<Rightarrow> change_operation \<Rightarrow> bool" where
  "op_links s i r \<longleftrightarrow>
     (\<exists>p. map_of (cs_proposals s) (op_proposal_id r) = Some p \<and> op_run_id r = pr_run_id p \<and> op_target r = pr_target p
        \<and> jget (pr_record p) ''policyDecisionDigest'' = JStr (op_policy_digest r))
     \<and> (\<exists>a. map_of (cs_approvals s) (op_approval_id r) = Some a \<and> ar_operation a = Some i \<and> ar_consumed a
        \<and> ar_proposal_id a = op_proposal_id r)"

lemma check_recovery_Inr:
  "check_recovery r = Inr u \<longleftrightarrow> recovery_reference_text (ra_ref r) \<and> sha256_text (ra_sha r) \<and> 0 \<le> ra_length r
     \<and> sha256_text (ra_metadata r)"
  by (auto simp: check_recovery_def)

lemma verify_operation_exact:
  assumes "op_local e i r" and "op_links s i r"
  shows "verify_operation e s (i, r) = (if unproven r then change_corrupt else Inr ())"
proof -
  have c: "recovery_reference_text (ra_ref (op_recovery r))" "sha256_text (ra_sha (op_recovery r))"
    "\<not> ra_length (op_recovery r) < 0" "sha256_text (ra_metadata (op_recovery r))"
    using assms(1) by (auto simp: op_local_def check_recovery_Inr)
  have l: "op_intent r = intent_digest e i (op_proposal_id r) (op_approval_id r) (op_policy_digest r) (op_idempotency r) (op_recovery r)"
    "\<not> (op_state r \<in> {Applied, Committed} \<and> op_apply_receipt r = None)" "\<not> (op_state r = RolledBack \<and> op_rollback_receipt r = None)"
    "\<not> (op_state r = ChangeFailed \<and> op_failure r = None)"
    "\<not> (op_state r = RecoveryRequired \<and> op_reason r = None \<and> op_epoch r = 1)"
    using assms(1) unfolding op_local_def by blast+
  from assms(2) obtain p a where pa: "map_of (cs_proposals s) (op_proposal_id r) = Some p" "op_run_id r = pr_run_id p"
    "op_target r = pr_target p" "jget (pr_record p) ''policyDecisionDigest'' = JStr (op_policy_digest r)"
    "map_of (cs_approvals s) (op_approval_id r) = Some a" "ar_operation a = Some i"
    unfolding op_links_def by blast
  show ?thesis unfolding verify_operation_def using c l pa by auto
qed

section \<open>The invariant\<close>

definition locks_ok :: "(string \<times> change_operation) list \<Rightarrow> (string \<times> target_lock) list \<Rightarrow> bool" where
  "locks_ok ops locks \<longleftrightarrow>
     (\<forall>i r. map_of ops i = Some r \<and> op_state r \<in> LOCK_REQUIRED
        \<longrightarrow> (\<exists>l. map_of locks (op_target r) = Some l \<and> lk_active l \<and> lk_operation l = i))
     \<and> (\<forall>t l. map_of locks t = Some l \<and> lk_active l
        \<longrightarrow> (\<exists>r. map_of ops (lk_operation l) = Some r \<and> op_target r = t \<and> op_state r \<in> LOCK_REQUIRED))"

definition keys_ok :: "change_store \<Rightarrow> bool" where
  "keys_ok s \<longleftrightarrow> distinct (map fst (cs_proposals s)) \<and> distinct (map fst (cs_approvals s))
     \<and> distinct (map fst (cs_operations s)) \<and> distinct (map fst (cs_locks s))"

definition rows_ok :: "change_env \<Rightarrow> change_store \<Rightarrow> bool" where
  "rows_ok e s \<longleftrightarrow>
     (\<forall>i p. map_of (cs_proposals s) i = Some p \<longrightarrow> verify_proposal e (cm_store_id (cs_meta s)) p = Inr ())
     \<and> (\<forall>i a. map_of (cs_approvals s) i = Some a \<longrightarrow> approval_local e i a \<and> approval_links s a)
     \<and> (\<forall>i r. map_of (cs_operations s) i = Some r \<longrightarrow> op_local e i r \<and> op_links s i r)"

definition policies_once :: "change_store \<Rightarrow> bool" where
  "policies_once s \<longleftrightarrow> (\<forall>i j r r'. map_of (cs_operations s) i = Some r \<and> map_of (cs_operations s) j = Some r'
     \<and> op_policy_digest r = op_policy_digest r' \<longrightarrow> i = j)"

definition change_inv :: "change_env \<Rightarrow> change_store \<Rightarrow> bool" where
  "change_inv e s \<longleftrightarrow> verify_meta e (cs_meta s) = Inr () \<and> audit_says e s (live e s) \<and> keys_ok s \<and> rows_ok e s
     \<and> locks_ok (cs_operations s) (cs_locks s) \<and> policies_once s"

lemma change_invD:
  assumes "change_inv e s"
  shows "verify_meta e (cs_meta s) = Inr ()" and "audit_says e s (live e s)" and "keys_ok s" and "rows_ok e s"
    and "locks_ok (cs_operations s) (cs_locks s)" and "policies_once s"
  using assms by (simp_all add: change_inv_def)

lemma rows_okD:
  assumes "rows_ok e s"
  shows "map_of (cs_proposals s) i = Some p \<Longrightarrow> verify_proposal e (cm_store_id (cs_meta s)) p = Inr ()"
    and "map_of (cs_approvals s) i = Some a \<Longrightarrow> approval_local e i a" and "map_of (cs_approvals s) i = Some a \<Longrightarrow> approval_links s a"
    and "map_of (cs_operations s) i = Some r \<Longrightarrow> op_local e i r" and "map_of (cs_operations s) i = Some r \<Longrightarrow> op_links s i r"
  using assms by (auto simp: rows_ok_def)

lemma change_inv_start: "change_inv e (new_change_store e sid now)"
  unfolding change_inv_def
  by (auto simp: new_change_store_def verify_meta_def audit_says_def live_def keys_ok_def rows_ok_def locks_ok_def policies_once_def)

text \<open>Under the invariant, verification raises exactly for an operation that lacks its proofs.\<close>

lemma check_all_unit:
  assumes "\<And>x. x \<in> set xs \<Longrightarrow> f x = Inr ()"
  shows "check_all f xs = Inr ()"
  using assms by (induction xs) auto

lemma check_all_exact:
  assumes "\<And>x. x \<in> set xs \<Longrightarrow> f x = (if P x then Inl err else Inr ())"
  shows "check_all f xs = (if list_ex P xs then Inl err else Inr ())"
  using assms by (induction xs) auto

lemma locks_ok_verify:
  assumes l: "locks_ok (cs_operations s) (cs_locks s)" and k: "keys_ok s"
  shows "verify_locks s = Inr ()"
proof -
  have "\<not> list_ex (\<lambda>(i, r). op_state r \<in> LOCK_REQUIRED \<and> (case map_of (cs_locks s) (op_target r) of None \<Rightarrow> True
            | Some l \<Rightarrow> \<not> lk_active l \<or> lk_operation l \<noteq> i)) (cs_operations s)"
  proof
    assume "list_ex (\<lambda>(i, r). op_state r \<in> LOCK_REQUIRED \<and> (case map_of (cs_locks s) (op_target r) of None \<Rightarrow> True
            | Some l \<Rightarrow> \<not> lk_active l \<or> lk_operation l \<noteq> i)) (cs_operations s)"
    then obtain i r where ir: "(i, r) \<in> set (cs_operations s)" "op_state r \<in> LOCK_REQUIRED"
      and n: "case map_of (cs_locks s) (op_target r) of None \<Rightarrow> True | Some l \<Rightarrow> \<not> lk_active l \<or> lk_operation l \<noteq> i"
      by (auto simp: list_ex_iff)
    from ir(1) k have "map_of (cs_operations s) i = Some r" by (simp add: keys_ok_def)
    with l ir(2) obtain x where "map_of (cs_locks s) (op_target r) = Some x" "lk_active x" "lk_operation x = i"
      unfolding locks_ok_def by blast
    with n show False by simp
  qed
  moreover have "\<not> list_ex (\<lambda>(t, l). lk_active l \<and> (case map_of (cs_operations s) (lk_operation l) of None \<Rightarrow> True
            | Some r \<Rightarrow> op_target r \<noteq> t \<or> op_state r \<notin> LOCK_REQUIRED)) (cs_locks s)"
  proof
    assume "list_ex (\<lambda>(t, l). lk_active l \<and> (case map_of (cs_operations s) (lk_operation l) of None \<Rightarrow> True
            | Some r \<Rightarrow> op_target r \<noteq> t \<or> op_state r \<notin> LOCK_REQUIRED)) (cs_locks s)"
    then obtain t x where tx: "(t, x) \<in> set (cs_locks s)" "lk_active x"
      and n: "case map_of (cs_operations s) (lk_operation x) of None \<Rightarrow> True | Some r \<Rightarrow> op_target r \<noteq> t \<or> op_state r \<notin> LOCK_REQUIRED"
      by (auto simp: list_ex_iff)
    from tx(1) k have "map_of (cs_locks s) t = Some x" by (simp add: keys_ok_def)
    with l tx(2) obtain r where "map_of (cs_operations s) (lk_operation x) = Some r" "op_target r = t" "op_state r \<in> LOCK_REQUIRED"
      unfolding locks_ok_def by blast
    with n show False by simp
  qed
  ultimately show ?thesis by (simp only: verify_locks_def) simp
qed

lemma change_inv_verify:
  assumes "change_inv e s"
  shows "verify_change_store e s = (if list_ex (unproven \<circ> snd) (cs_operations s) then change_corrupt else Inr ())"
proof -
  note i = change_invD [OF assms]
  from i(3) have row: "(k, p) \<in> set (cs_proposals s) \<Longrightarrow> map_of (cs_proposals s) k = Some p"
      "(k, a) \<in> set (cs_approvals s) \<Longrightarrow> map_of (cs_approvals s) k = Some a"
      "(k, r) \<in> set (cs_operations s) \<Longrightarrow> map_of (cs_operations s) k = Some r" for k p a r
    by (simp_all add: keys_ok_def)
  have p: "check_all (verify_proposal e (cm_store_id (cs_meta s)) \<circ> snd) (cs_proposals s) = Inr ()"
    by (rule check_all_unit) (auto intro: rows_okD(1) [OF i(4) row(1)])
  have a: "check_all (verify_stored_approval e s) (cs_approvals s) = Inr ()"
    by (rule check_all_unit) (auto dest!: row(2) intro: stored_approval_verifies rows_okD [OF i(4)])
  have op: "check_all (verify_operation e s) (cs_operations s) = (if list_ex (unproven \<circ> snd) (cs_operations s) then change_corrupt else Inr ())"
  proof (rule check_all_exact)
    fix x
    assume x: "x \<in> set (cs_operations s)"
    obtain k r where kr: "x = (k, r)" by force
    with x row(3) have "map_of (cs_operations s) k = Some r" by simp
    from verify_operation_exact [OF rows_okD(4) [OF i(4) this] rows_okD(5) [OF i(4) this]]
    show "verify_operation e s x = (if (unproven \<circ> snd) x then change_corrupt else Inr ())" using kr by simp
  qed
  from i(2) obtain L where L: "verify_audit e (cm_store_id (cs_meta s)) CHANGE_GENESIS 1 [] (cs_audit s) = Inr L"
    and "map_of L = live e s" unfolding audit_says_def by blast
  then have "same_dict (live_rows e s) L" by (simp add: same_dict_iff map_of_live)
  then show ?thesis
    unfolding verify_change_store_def i(1) L p a op locks_ok_verify [OF i(5,3)] by simp
qed

section \<open>Registering proposals and grants\<close>

lemma jget_proposal_fields [simp]: "n \<in> set PROPOSAL_FIELDS \<Longrightarrow> jget (proposal_fields p) n = jget p n"
  unfolding proposal_fields_def jget_def [of "map _ _"] by (simp add: map_of_map_restrict restrict_map_def)

lemma dict_keys_proposal_fields [simp]: "dict_keys (proposal_fields p) = set PROPOSAL_FIELDS"
  by (simp add: proposal_fields_def dict_keys_def image_image)

lemma proposal_fields_cong: "(\<And>n. n \<in> set PROPOSAL_FIELDS \<Longrightarrow> jget p n = jget q n) \<Longrightarrow> proposal_fields p = proposal_fields q"
  by (simp add: proposal_fields_def)

lemma proposal_fields_idem [simp]: "proposal_fields (proposal_fields p) = proposal_fields p"
  by (rule proposal_fields_cong) simp

lemma check_all_cong: "(\<And>x. x \<in> set xs \<Longrightarrow> f x = g x) \<Longrightarrow> check_all f xs = check_all g xs"
  by (induction xs) auto

lemma validated_proposal_again:
  assumes "validated_proposal e raw = Inr p"
  shows "p = proposal_fields raw" and "validated_proposal e (proposal_fields raw) = Inr p"
proof -
  have m: "n \<in> {''proposalId'', ''projectId'', ''runId'', ''actionClass'', ''operationKind'', ''limits''} \<or> n \<in> set PROPOSAL_DIGESTS
      \<Longrightarrow> jget (proposal_fields raw) n = jget raw n" for n
    by (rule jget_proposal_fields) (auto simp: PROPOSAL_FIELDS_def PROPOSAL_DIGESTS_def)
  show "p = proposal_fields raw"
    using assms unfolding validated_proposal_def by (auto elim!: bindE_InrE split: if_splits json.splits)
  have i: "check_all (change_id \<circ> jget (proposal_fields raw)) [''proposalId'', ''projectId'', ''runId'']
      = check_all (change_id \<circ> jget raw) [''proposalId'', ''projectId'', ''runId'']"
    and d: "check_all (change_digest \<circ> jget (proposal_fields raw)) PROPOSAL_DIGESTS = check_all (change_digest \<circ> jget raw) PROPOSAL_DIGESTS"
    by (rule check_all_cong; auto simp: m)+
  have k: "dict_keys raw = set PROPOSAL_FIELDS" using assms unfolding validated_proposal_def by (simp split: if_splits)
  have "validated_proposal e (proposal_fields raw) = validated_proposal e raw"
    unfolding validated_proposal_def i d proposal_fields_idem by (simp add: m k del: check_all.simps bindE_Inr_iff)
  with assms show "validated_proposal e (proposal_fields raw) = Inr p" by simp
qed

lemma new_proposal_record:
  assumes "validated_proposal e raw = Inr p"
  shows "proposal_fields (pr_record (new_proposal_row e p subject now)) = p"
    and "set PROPOSAL_FIELDS \<subseteq> dict_keys (pr_record (new_proposal_row e p subject now))"
    and "map_of (pr_record (new_proposal_row e p subject now)) ''proposalDigest'' = Some (JStr (proposal_digest e p))"
    and "map_of (pr_record (new_proposal_row e p subject now)) ''subjectDigest'' = Some (JStr subject)"
proof -
  note v = validated_proposal_again [OF assms]
  have k: "dom (map_of p) = set PROPOSAL_FIELDS" using v(1) by (simp add: dict_keys_dom [symmetric])
  have "jget (pr_record (new_proposal_row e p subject now)) n = jget p n" if "n \<in> set PROPOSAL_FIELDS" for n
  proof -
    have "n \<noteq> ''domain''" using that by (auto simp: PROPOSAL_FIELDS_def)
    moreover from that have "n \<in> dom (map_of p)" by (simp only: k)
    then obtain x where "map_of p n = Some x" by (simp only: dom_def mem_Collect_eq not_None_eq) blast
    ultimately show ?thesis by (simp add: new_proposal_row_def proposal_body_def jget_def map_add_def)
  qed
  then have "proposal_fields (pr_record (new_proposal_row e p subject now)) = proposal_fields p" by (rule proposal_fields_cong)
  also have "\<dots> = p" unfolding v(1) by simp
  finally show "proposal_fields (pr_record (new_proposal_row e p subject now)) = p" .
  have "dict_keys p = set PROPOSAL_FIELDS" using v(1) by simp
  then show "set PROPOSAL_FIELDS \<subseteq> dict_keys (pr_record (new_proposal_row e p subject now))"
    by (auto simp: new_proposal_row_def proposal_body_def dict_keys_def)
  have "''proposalDigest'' \<notin> dom (map_of p)" "''subjectDigest'' \<notin> dom (map_of p)"
    unfolding k by (simp_all add: PROPOSAL_FIELDS_def)
  then have "map_of p ''proposalDigest'' = None" "map_of p ''subjectDigest'' = None" by (simp_all add: domIff)
  then show "map_of (pr_record (new_proposal_row e p subject now)) ''proposalDigest'' = Some (JStr (proposal_digest e p))"
    "map_of (pr_record (new_proposal_row e p subject now)) ''subjectDigest'' = Some (JStr subject)"
    by (simp_all add: new_proposal_row_def proposal_body_def map_add_def)
qed

lemma new_proposal_verifies:
  assumes v: "validated_proposal e raw = Inr p" and d: "approval_subject_digest e (proposal_subject e sid p) = Inr subject"
  shows "verify_proposal e sid (new_proposal_row e p subject now) = Inr ()"
proof -
  from validated_proposal_again [OF v] have "validated_proposal e p = Inr p" by simp
  then show ?thesis
    unfolding verify_proposal_def new_proposal_record(1) [OF v]
    by (simp add: d new_proposal_record(2-) [OF v] del: check_all_Inr) (simp add: new_proposal_row_def)
qed

text \<open>Links survive when tables only gain rows and rows keep what links read.\<close>

lemma rows_ok_add_proposal:
  assumes "rows_ok e s" and "map_of (cs_proposals s) i = None" and "verify_proposal e (cm_store_id (cs_meta s)) p = Inr ()"
  shows "rows_ok e (s\<lparr>cs_proposals := dict_set i p (cs_proposals s)\<rparr>)"
proof -
  have "approval_links (s\<lparr>cs_proposals := dict_set i p (cs_proposals s)\<rparr>) a" if "approval_links s a" for a
    using that assms(2) by (auto simp: approval_links_def split: if_splits)
  moreover have "op_links (s\<lparr>cs_proposals := dict_set i p (cs_proposals s)\<rparr>) k r" if "op_links s k r" for k r
    using that assms(2) by (auto simp: op_links_def)
  ultimately show ?thesis using assms(1,3) by (simp add: rows_ok_def)
qed

lemma rows_ok_add_approval:
  assumes "rows_ok e s" and "map_of (cs_approvals s) i = None" and "approval_local e i a" and "approval_links s a"
  shows "rows_ok e (s\<lparr>cs_approvals := dict_set i a (cs_approvals s)\<rparr>)"
proof -
  have "approval_links (s\<lparr>cs_approvals := dict_set i a (cs_approvals s)\<rparr>) b = approval_links s b" for b
    by (simp add: approval_links_def)
  moreover have "op_links (s\<lparr>cs_approvals := dict_set i a (cs_approvals s)\<rparr>) k r" if "op_links s k r" for k r
    using that assms(2) by (auto simp: op_links_def)
  ultimately show ?thesis using assms(1,3,4) by (simp add: rows_ok_def)
qed

lemma rows_ok_add_audit [simp]: "rows_ok e (add_audit e tx t k i a row s) = rows_ok e s"
  by (simp add: rows_ok_def approval_links_def op_links_def)

lemma keys_ok_add_audit [simp]: "keys_ok (add_audit e tx t k i a row s) = keys_ok s"
  by (simp add: keys_ok_def)

lemma policies_once_add_audit [simp]: "policies_once (add_audit e tx t k i a row s) = policies_once s"
  by (simp add: policies_once_def)

lemma register_proposal_inv:
  assumes i: "change_inv e s" and r: "register_proposal e tx raw now s = Inr (out, s')"
  shows "change_inv e s'"
proof -
  from r obtain p subject where v: "validated_proposal e raw = Inr p"
    and d: "approval_subject_digest e (proposal_subject e (cm_store_id (cs_meta s)) p) = Inr subject"
    unfolding register_proposal_def by (elim bindE_InrE)
  from r have c: "s' = s \<or> (map_of (cs_proposals s) (the_str (jget p ''proposalId'')) = None
      \<and> s' = add_audit e tx (ce_iso e now) ''proposal'' (the_str (jget p ''proposalId'')) ''registered''
           (proposal_json (the_str (jget p ''proposalId'')) (new_proposal_row e p subject now))
           (s\<lparr>cs_proposals := cs_proposals s @ [(the_str (jget p ''proposalId''), new_proposal_row e p subject now)]\<rparr>))"
    unfolding register_proposal_def Let_def v d bindE.simps by (simp split: option.splits if_splits)
  define k where "k = the_str (jget p ''proposalId'')"
  define row where "row = new_proposal_row e p subject now"
  note iv = change_invD [OF i]
  show ?thesis
  proof (cases "s' = s")
    case False
    with c have n: "map_of (cs_proposals s) k = None"
      and s': "s' = add_audit e tx (ce_iso e now) ''proposal'' k ''registered'' (proposal_json k row)
        (s\<lparr>cs_proposals := dict_set k row (cs_proposals s)\<rparr>)"
      unfolding k_def row_def by (auto simp: append_fresh)
    have "audit_says e (s\<lparr>cs_proposals := dict_set k row (cs_proposals s)\<rparr>) (live e s)"
      using iv(2) by (simp add: audit_says_def)
    from add_audit_says [OF this] have "audit_says e s' (live e s')" unfolding s' by simp
    moreover have "rows_ok e s'" unfolding s' rows_ok_add_audit row_def
      by (rule rows_ok_add_proposal [OF iv(4) n new_proposal_verifies [OF v d]])
    moreover have "keys_ok s'" "policies_once s'" using iv(3,6) by (simp_all add: s' keys_ok_def policies_once_def)
    ultimately show ?thesis using iv(1,5) by (simp add: change_inv_def s')
  qed (use i in simp)
qed

lemma record_verified_grant_inv:
  assumes i: "change_inv e s" and r: "record_verified_grant e tx envelope now s = Inr (out, s')"
  shows "change_inv e s'"
proof -
  from r obtain c subject proposal p digest where c: "envelope = JObj c" "jget c ''subjectDigest'' = JStr subject"
    and f: "find (\<lambda>(i, r). pr_subject_digest r = subject) (cs_proposals s) = Some (proposal, p)"
    and v: "verify_approval e (cx_trust e) c subject now = Inr (c, digest)"
    and x: "s' = s \<or> (\<exists>expires. map_of (cs_approvals s) (the_str (jget c ''approvalId'')) = None
      \<and> parse_utc e (jget c ''expiresAt'') = Inr expires
      \<and> s' = add_audit e tx (ce_iso e now) ''approval'' (the_str (jget c ''approvalId'')) ''issued''
           (approval_json (the_str (jget c ''approvalId'')) (new_approval_row e proposal subject digest expires c))
           (s\<lparr>cs_approvals := cs_approvals s @ [(the_str (jget c ''approvalId''), new_approval_row e proposal subject digest expires c)]\<rparr>))"
    unfolding record_verified_grant_def Let_def
    by (auto simp: verify_approval_Inr elim!: bindE_InrE split: json.splits option.splits if_splits)
  define k where "k = the_str (jget c ''approvalId'')"
  note iv = change_invD [OF i]
  show ?thesis
  proof (cases "s' = s")
    case False
    with x obtain expires where n: "map_of (cs_approvals s) k = None" and u: "parse_utc e (jget c ''expiresAt'') = Inr expires"
      and s': "s' = add_audit e tx (ce_iso e now) ''approval'' k ''issued''
        (approval_json k (new_approval_row e proposal subject digest expires c))
        (s\<lparr>cs_approvals := dict_set k (new_approval_row e proposal subject digest expires c) (cs_approvals s)\<rparr>)"
      unfolding k_def by (auto simp: append_fresh)
    define row where "row = new_approval_row e proposal subject digest expires c"
    from v obtain issued expires' q where t: "trusted_envelope e (cx_trust e) c subject issued expires' q"
      and dg: "digest = semantic_digest (ce_sha e) (JObj c)"
      by (auto simp: verify_approval_Inr check_signature_Inr)
    from t u have "expires' = expires" and "jget c ''approvalId'' = JStr k"
      unfolding trusted_envelope_def k_def by auto
    with t dg have loc: "approval_local e k row" unfolding approval_local_def row_def
      by (intro exI [of _ issued] exI [of _ expires] exI [of _ q]) (simp add: new_approval_row_def)
    from f have "(proposal, p) \<in> set (cs_proposals s)" "pr_subject_digest p = subject"
      by (auto simp: find_Some_iff) (metis nth_mem)
    then have "map_of (cs_proposals s) proposal = Some p" using iv(3) by (simp add: keys_ok_def)
    then have lnk: "approval_links s row" using \<open>pr_subject_digest p = subject\<close>
      by (simp add: approval_links_def row_def new_approval_row_def)
    have "audit_says e (s\<lparr>cs_approvals := dict_set k row (cs_approvals s)\<rparr>) (live e s)"
      using iv(2) by (simp add: audit_says_def)
    from add_audit_says [OF this] have "audit_says e s' (live e s')" unfolding s' row_def by simp
    moreover have "rows_ok e s'" unfolding s' rows_ok_add_audit row_def [symmetric]
      by (rule rows_ok_add_approval [OF iv(4) n loc lnk])
    moreover have "keys_ok s'" "policies_once s'" using iv(3,6) by (simp_all add: s' keys_ok_def policies_once_def)
    ultimately show ?thesis using iv(1,5) by (simp add: change_inv_def s')
  qed (use i in simp)
qed

section \<open>Preparing an operation\<close>

text \<open>What a call of \<open>prepare_operation\<close> that writes has established.\<close>

definition prepares ::
    "change_env \<Rightarrow> string \<Rightarrow> string \<Rightarrow> prepare_request \<Rightarrow> int \<Rightarrow> int \<Rightarrow> change_store \<Rightarrow> change_store
      \<Rightarrow> proposal_row \<Rightarrow> approval_row \<Rightarrow> string \<Rightarrow> int \<Rightarrow> bool" where
  "prepares e tx token q now lease_seconds s s' p a policy maximum \<longleftrightarrow>
     check_recovery (pq_recovery q) = Inr () \<and> map_of (cs_proposals s) (pq_proposal q) = Some p
     \<and> map_of (cs_approvals s) (pq_approval q) = Some a \<and> ar_proposal_id a = pq_proposal q
     \<and> proposal_authority p = Inr (policy, maximum)
     \<and> int (length (filter (\<lambda>(k, r). op_run_id r = pr_run_id p) (cs_operations s))) < maximum
     \<and> \<not> ar_consumed a \<and> cx_epoch e now < ar_expires_us a
     \<and> \<not> list_ex (\<lambda>(k, r). op_policy_digest r = policy) (cs_operations s)
     \<and> \<not> (case map_of (cs_locks s) (pr_target p) of None \<Rightarrow> False | Some l \<Rightarrow> lk_active l)
     \<and> map_of (cs_operations s) (pq_operation q) = None
     \<and> s' = store_operation e tx (pq_operation q) (new_operation e q p policy token now (now + lease_seconds * 1000000)) a now s"

lemma new_operation_simps [simp]:
  "op_run_id (new_operation e q p policy token now until) = pr_run_id p"
  "op_target (new_operation e q p policy token now until) = pr_target p"
  "op_policy_digest (new_operation e q p policy token now until) = policy"
  "op_proposal_id (new_operation e q p policy token now until) = pq_proposal q"
  "op_approval_id (new_operation e q p policy token now until) = pq_approval q"
  "op_state (new_operation e q p policy token now until) = Prepared"
  "op_epoch (new_operation e q p policy token now until) = 1"
  by (simp_all add: new_operation_def)

lemma prepare_operation_cases:
  assumes "prepare_operation e tx token q now lease_seconds s = Inr (out, s')"
  obtains "s' = s" | p a policy maximum where "prepares e tx token q now lease_seconds s s' p a policy maximum"
proof -
  from assms have c: "check_recovery (pq_recovery q) = Inr ()"
    unfolding prepare_operation_def by (elim bindE_InrE) simp
  from assms obtain p a where pa: "map_of (cs_proposals s) (pq_proposal q) = Some p"
      "map_of (cs_approvals s) (pq_approval q) = Some a" "ar_proposal_id a = pq_proposal q"
    unfolding prepare_operation_def by (auto elim!: bindE_InrE split: option.splits if_splits)
  from assms obtain policy maximum where m: "proposal_authority p = Inr (policy, maximum)"
    unfolding prepare_operation_def pa by (auto elim!: bindE_InrE split: if_splits)
  define row where "row = new_operation e q p policy token now (now + lease_seconds * 1000000)"
  let ?old = "find (\<lambda>(k, r). op_run_id r = op_run_id row \<and> op_idempotency r = op_idempotency row) (cs_operations s)"
  show thesis
  proof (cases ?old)
    case (Some x)
    obtain j old where x: "x = (j, old)" by force
    note f = Some [unfolded row_def new_operation_simps x]
    from assms have "s' = s"
      unfolding prepare_operation_def by (elim bindE_InrE) (auto simp: pa m f Let_def split: if_splits)
    then show thesis by (rule that(1))
  next
    case None
    note n = None [unfolded row_def new_operation_simps]
    from assms have "prepares e tx token q now lease_seconds s s' p a policy maximum"
      unfolding prepare_operation_def
      by (elim bindE_InrE)
        (auto simp: pa m n c Let_def prepares_def not_le map_of_eq_None_iff list_ex_iff split: if_splits)
    then show thesis by (rule that(2))
  qed
qed

lemma change_digest_Inr: "change_digest v = Inr d \<longleftrightarrow> v = JStr d \<and> sha256_text d"
  by (auto simp: change_digest_def split: json.splits)

lemma proposal_authority_policy:
  assumes "proposal_authority p = Inr (policy, maximum)"
  shows "jget (pr_record p) ''policyDecisionDigest'' = JStr policy"
proof -
  from assms obtain d l where d: "map_of (pr_record p) ''policyDecisionDigest'' = Some d"
      and l: "map_of (pr_record p) ''limits'' = Some l"
    unfolding proposal_authority_def by (auto split: option.splits)
  from assms obtain x where x: "change_digest d = Inr x" unfolding proposal_authority_def d l by (auto elim: bindE_InrE)
  with assms have "x = policy" unfolding proposal_authority_def d l
    by (cases l) (auto split: option.splits json.splits)
  with x d show ?thesis by (simp add: jget_def change_digest_Inr)
qed

lemma consume_approval_local [simp]: "approval_local e i (consume_approval e k now a) = approval_local e i a"
  by (simp add: approval_local_def consume_approval_def)

lemma store_operation_simps:
  assumes "map_of (cs_operations s) i = None"
  shows "cs_operations (store_operation e tx i row a now s) = dict_set i row (cs_operations s)"
    and "cs_approvals (store_operation e tx i row a now s) = dict_set (op_approval_id row) (consume_approval e i now a) (cs_approvals s)"
    and "cs_locks (store_operation e tx i row a now s)
      = dict_set (op_target row) \<lparr>lk_operation = i, lk_active = True, lk_updated_at = ce_iso e now\<rparr> (cs_locks s)"
    and "cs_proposals (store_operation e tx i row a now s) = cs_proposals s"
    and "cs_meta (store_operation e tx i row a now s) = cs_meta s"
  using append_fresh [OF assms] by (simp_all add: store_operation_def Let_def)

lemma store_operation_says:
  assumes "map_of (cs_operations s) i = None" and "audit_says e s (live e s)"
  shows "audit_says e (store_operation e tx i row a now s) (live e (store_operation e tx i row a now s))"
proof -
  let ?l = "\<lparr>lk_operation = i, lk_active = True, lk_updated_at = ce_iso e now\<rparr>"
  let ?s = "s\<lparr>cs_operations := dict_set i row (cs_operations s),
    cs_approvals := dict_set (op_approval_id row) (consume_approval e i now a) (cs_approvals s),
    cs_locks := dict_set (op_target row) ?l (cs_locks s)\<rparr>"
  have s: "store_operation e tx i row a now s = add_audit e tx (ce_iso e now) ''target-lock'' (op_target row) ''acquired''
      (lock_json (op_target row) ?l) (add_audit e tx (ce_iso e now) ''operation'' i ''prepared'' (operation_json i row)
        (add_audit e tx (ce_iso e now) ''approval'' (op_approval_id row) ''consumed''
          (approval_json (op_approval_id row) (consume_approval e i now a)) ?s))"
    by (simp add: store_operation_def Let_def append_fresh [OF assms(1)])
  have l: "live e (store_operation e tx i row a now s) = ((live e s)
     ((''approval'', op_approval_id row) \<mapsto> semantic_digest (ce_sha e) (approval_json (op_approval_id row) (consume_approval e i now a)),
      (''operation'', i) \<mapsto> semantic_digest (ce_sha e) (operation_json i row),
      (''target-lock'', op_target row) \<mapsto> semantic_digest (ce_sha e) (lock_json (op_target row) ?l)))"
    unfolding s live_simps(5) by (auto simp: live_def)
  have "audit_says e ?s (live e s)" using assms(2) by (simp add: audit_says_def)
  from add_audit_says [OF add_audit_says [OF add_audit_says [OF this]]] show ?thesis unfolding l unfolding s .
qed

lemma prepare_operation_inv:
  assumes i: "change_inv e s" and r: "prepare_operation e tx token q now lease_seconds s = Inr (out, s')"
  shows "change_inv e s'"
  using r
proof (cases rule: prepare_operation_cases)
  case (2 p a policy maximum)
  note iv = change_invD [OF i]
  define k where "k = pq_operation q"
  define row where "row = new_operation e q p policy token now (now + lease_seconds * 1000000)"
  from 2 have c: "check_recovery (pq_recovery q) = Inr ()" and p: "map_of (cs_proposals s) (pq_proposal q) = Some p"
    and a: "map_of (cs_approvals s) (pq_approval q) = Some a" "ar_proposal_id a = pq_proposal q" "\<not> ar_consumed a"
    and m: "jget (pr_record p) ''policyDecisionDigest'' = JStr policy"
    and once: "\<not> list_ex (\<lambda>(k, r). op_policy_digest r = policy) (cs_operations s)"
    and free: "\<not> (case map_of (cs_locks s) (pr_target p) of None \<Rightarrow> False | Some l \<Rightarrow> lk_active l)"
    and fresh: "map_of (cs_operations s) k = None" and s': "s' = store_operation e tx k row a now s"
    unfolding prepares_def k_def row_def by (auto dest: proposal_authority_policy)
  note st = store_operation_simps [OF fresh, of e tx row a now, folded s']
  have ap: "op_approval_id row = pq_approval q" and tg: "op_target row = pr_target p" by (simp_all add: row_def)
  have al: "approval_links s' b" if "approval_links s b" for b
    using that fresh unfolding approval_links_def st by (auto split: if_splits)
  have na: "approval_links s' (consume_approval e k now a)"
    using rows_okD(3) [OF iv(4) a(1)] unfolding approval_links_def st by (auto simp: consume_approval_def)
  have ol: "op_links s' j r" if "op_links s j r" for j r
  proof -
    from that obtain b where b: "map_of (cs_approvals s) (op_approval_id r) = Some b" "ar_consumed b" by (auto simp: op_links_def)
    with a have "op_approval_id r \<noteq> pq_approval q" by auto
    with that show ?thesis unfolding op_links_def st ap by simp
  qed
  have no: "op_links s' k row" unfolding op_links_def st ap using p a m by (simp add: row_def consume_approval_def)
  have nl: "op_local e k row" using c by (simp add: op_local_def row_def k_def new_operation_def unproven_def PROVEN_def)
  have "rows_ok e s'"
    unfolding rows_ok_def st ap using rows_okD [OF iv(4)] al na ol no nl a(1) by (auto split: if_splits)
  moreover have "locks_ok (cs_operations s') (cs_locks s')"
    unfolding locks_ok_def
  proof (intro conjI allI impI)
    fix j r
    assume j: "map_of (cs_operations s') j = Some r \<and> op_state r \<in> LOCK_REQUIRED"
    show "\<exists>l. map_of (cs_locks s') (op_target r) = Some l \<and> lk_active l \<and> lk_operation l = j"
    proof (cases "j = k")
      case False
      with j have "map_of (cs_operations s) j = Some r" by (simp add: st)
      with j iv(5) obtain l where l: "map_of (cs_locks s) (op_target r) = Some l" "lk_active l" "lk_operation l = j"
        unfolding locks_ok_def by blast
      with free have "op_target r \<noteq> pr_target p" by auto
      with l show ?thesis by (simp add: st tg)
    qed (use j in \<open>simp add: st\<close>)
  next
    fix t l
    assume l: "map_of (cs_locks s') t = Some l \<and> lk_active l"
    show "\<exists>r. map_of (cs_operations s') (lk_operation l) = Some r \<and> op_target r = t \<and> op_state r \<in> LOCK_REQUIRED"
    proof (cases "t = pr_target p")
      case True
      with l show ?thesis by (auto simp: st tg row_def LOCK_REQUIRED_def)
    next
      case False
      with l have "map_of (cs_locks s) t = Some l" by (simp add: st tg)
      with l iv(5) fresh show ?thesis unfolding locks_ok_def st by force
    qed
  qed
  moreover have "policies_once s'"
  proof -
    have "op_policy_digest r \<noteq> policy" if "map_of (cs_operations s) j = Some r" for j r
      using once map_of_SomeD [OF that] by (auto simp: list_ex_iff)
    with iv(6) show ?thesis unfolding policies_once_def st by (auto simp: row_def split: if_splits)
  qed
  moreover have "keys_ok s'" using iv(3) by (simp add: keys_ok_def st)
  moreover have "audit_says e s' (live e s')" unfolding s' by (rule store_operation_says [OF fresh iv(2)])
  ultimately show ?thesis using iv(1) by (simp add: change_inv_def st)
qed (use i in simp)

end
