(* ===== verification/Eco_Change_Moves.thy ===== *)
theory Eco_Change_Moves
  imports Eco_Change_Safety
begin

text \<open>
  The transitions of the change authority keep its invariant, every call only moves rows forward, and the
  operations of a run stay within the budget of one of its proposals.
\<close>

section \<open>How a row may change\<close>

definition op_same :: "change_operation \<Rightarrow> change_operation \<Rightarrow> bool" where
  "op_same r r' \<longleftrightarrow> op_run_id r' = op_run_id r \<and> op_proposal_id r' = op_proposal_id r \<and> op_approval_id r' = op_approval_id r
     \<and> op_idempotency r' = op_idempotency r \<and> op_policy_digest r' = op_policy_digest r \<and> op_target r' = op_target r
     \<and> op_created_at r' = op_created_at r"

definition op_later :: "change_operation \<Rightarrow> change_operation \<Rightarrow> bool" where
  "op_later r r' \<longleftrightarrow> op_same r r' \<and> op_epoch r \<le> op_epoch r' \<and> (op_state r \<notin> LOCK_REQUIRED \<longrightarrow> r' = r)"

lemma op_later_refl [simp]: "op_later r r"
  by (simp add: op_later_def op_same_def)

lemma op_later_trans: "op_later r r' \<Longrightarrow> op_later r' r'' \<Longrightarrow> op_later r r''"
  by (auto simp: op_later_def op_same_def)

lemma set_column_keeps [simp]:
  "op_same r (set_column c v x) = op_same r x" "op_epoch (set_column c v x) = op_epoch x"
  "op_state (set_column c v x) = op_state x" "op_recovery (set_column c v x) = op_recovery x" "op_intent (set_column c v x) = op_intent x"
  by (cases c; simp add: op_same_def)+

lemma set_columns_keep [simp]:
  "op_same r (fold (\<lambda>(c, v). set_column c v) cs x) = op_same r x"
  "op_epoch (fold (\<lambda>(c, v). set_column c v) cs x) = op_epoch x"
  "op_state (fold (\<lambda>(c, v). set_column c v) cs x) = op_state x"
  by (induction cs arbitrary: x) auto

lemma op_same_updates [simp]:
  "op_same r r" "op_same r (x\<lparr>op_state := st\<rparr>) = op_same r x" "op_same r (x\<lparr>op_updated_at := u\<rparr>) = op_same r x"
  "op_same r (x\<lparr>op_phase := p\<rparr>) = op_same r x" "op_same r (x\<lparr>op_recovery := a\<rparr>) = op_same r x"
  "op_same r (x\<lparr>op_intent := d\<rparr>) = op_same r x" "op_same r (x\<lparr>op_owner := w\<rparr>) = op_same r x"
  "op_same r (x\<lparr>op_token := k\<rparr>) = op_same r x" "op_same r (x\<lparr>op_until := u'\<rparr>) = op_same r x"
  "op_same r (x\<lparr>op_epoch := n\<rparr>) = op_same r x" "op_same r (x\<lparr>op_reason := y\<rparr>) = op_same r x"
  by (simp_all add: op_same_def)

lemma moved_operation_keeps [simp]:
  "op_same r (moved_operation e t i now r)" "op_epoch (moved_operation e t i now r) = op_epoch r"
  "op_state (moved_operation e t i now r) = tr_target t"
  unfolding moved_operation_def Let_def by (simp_all split: option.split)

lemma moved_operation_later:
  "op_state r \<in> LOCK_REQUIRED \<Longrightarrow> op_later r (moved_operation e t i now r)"
  by (simp add: op_later_def)

text \<open>A transition that the authority uses: it starts in unsettled states, holds the lock exactly when it ends in
  one, and its columns supply what its target state needs.\<close>

definition spec_ok :: "change_env \<Rightarrow> transition_spec \<Rightarrow> bool" where
  "spec_ok e t \<longleftrightarrow> tr_allowed t \<subseteq> LOCK_REQUIRED \<and> tr_lock t = (tr_target t \<in> LOCK_REQUIRED)
     \<and> (\<forall>i now r. op_state r \<in> tr_allowed t \<and> op_local e i r
          \<and> (tr_target t = Applying \<longrightarrow> op_before_proof r \<noteq> None \<and> op_execution_intent r \<noteq> None)
          \<longrightarrow> op_local e i (moved_operation e t i now r))"

lemmas spec_defs = simple_spec_def moved_operation_def transition_phase_def op_local_def unproven_def PROVEN_def
  LOCK_REQUIRED_def NONTERMINAL_def

lemma spec_ok_rollback_ready:
  "check_recovery a = Inr () \<Longrightarrow> spec_ok e \<lparr>tr_allowed = {Prepared, RecoveryRequired}, tr_target = RollbackReady,
     tr_columns = [(ExecutionIntent, x), (BeforeProof, b)], tr_phase = Some ''apply'', tr_lock = True,
     tr_source_phase = Some ''apply'', tr_recovery = Some a\<rparr>"
  unfolding spec_ok_def by (simp add: spec_defs)

lemma spec_ok_simple:
  "spec_ok e (simple_spec {RollbackReady} Applying [] (Some ''apply'') True)"
  "spec_ok e (simple_spec {Applying} CommitReady [] (Some ''apply'') True)"
  "spec_ok e (simple_spec {CommitReady} Applied [(ApplyReceipt, d)] None True)"
  "spec_ok e (simple_spec {Applied} Committed [] None False)"
  "spec_ok e (simple_spec {Applied, RecoveryRequired} RollingBack [] (Some ''rollback'') True)"
  "spec_ok e (simple_spec {RollingBack} RolledBack [(RollbackReceipt, d)] None False)"
  "spec_ok e (simple_spec NONTERMINAL ChangeFailed [(FailureDigest, d)] None False)"
  "spec_ok e (simple_spec {Prepared, RollbackReady, Applying, CommitReady, Applied, RollingBack} RecoveryRequired
     [(RecoveryReason, d)] None True)"
  unfolding spec_ok_def by (simp_all add: spec_defs) auto

section \<open>Writing one operation\<close>

lemma rows_ok_set_operation:
  assumes "rows_ok e s" and "map_of (cs_operations s) i = Some r" and "op_same r r'" and "op_local e i r'"
    and "cs_operations s' = dict_set i r' (cs_operations s)" and "cs_proposals s' = cs_proposals s"
    and "cs_approvals s' = cs_approvals s" and "cs_meta s' = cs_meta s"
  shows "rows_ok e s'"
proof -
  have "approval_links s' a" if "approval_links s a" for a
    using that assms(2) by (auto simp: approval_links_def assms(5,6) split: if_splits)
  moreover have "op_links s' k x = op_links s k x" for k x by (simp add: op_links_def assms(6,7))
  moreover have "op_links s i r'" using rows_okD(5) [OF assms(1,2)] assms(3) by (simp add: op_links_def op_same_def)
  ultimately show ?thesis using assms(1,4) by (simp add: rows_ok_def assms(5-8))
qed

lemma set_operation_inv:
  assumes i: "change_inv e s" and r: "map_of (cs_operations s) i = Some r" and same: "op_same r r'" and l: "op_local e i r'"
    and s': "cs_operations s' = dict_set i r' (cs_operations s)" "cs_proposals s' = cs_proposals s"
      "cs_approvals s' = cs_approvals s" "cs_meta s' = cs_meta s"
    and locks: "locks_ok (cs_operations s') (cs_locks s')" "distinct (map fst (cs_locks s'))"
    and a: "audit_says e s' (live e s')"
  shows "change_inv e s'"
proof -
  note iv = change_invD [OF i]
  have "rows_ok e s'" by (rule rows_ok_set_operation [OF iv(4) r same l s'])
  moreover have "keys_ok s'" using iv(3) locks(2) by (simp add: keys_ok_def s')
  moreover have "policies_once s'"
    using iv(6) same r unfolding policies_once_def s' by (auto simp: op_same_def split: if_splits)
  ultimately show ?thesis using iv(1) locks(1) a by (simp add: change_inv_def s'(4))
qed

lemma locks_ok_set_both:
  assumes ok: "locks_ok ops locks" and r: "map_of ops i = Some r" "op_state r \<in> LOCK_REQUIRED" "op_target r' = op_target r"
    and l: "lk_operation l = i" "lk_active l = (op_state r' \<in> LOCK_REQUIRED)"
  shows "locks_ok (dict_set i r' ops) (dict_set (op_target r) l locks)"
proof -
  from ok r obtain x where x: "map_of locks (op_target r) = Some x" "lk_active x" "lk_operation x = i"
    unfolding locks_ok_def by blast
  show ?thesis
    unfolding locks_ok_def
  proof (intro conjI allI impI)
    fix j y
    assume j: "map_of (dict_set i r' ops) j = Some y \<and> op_state y \<in> LOCK_REQUIRED"
    show "\<exists>z. map_of (dict_set (op_target r) l locks) (op_target y) = Some z \<and> lk_active z \<and> lk_operation z = j"
    proof (cases "j = i")
      case False
      with j ok obtain z where z: "map_of locks (op_target y) = Some z" "lk_active z" "lk_operation z = j"
        unfolding locks_ok_def by force
      with x False have "op_target y \<noteq> op_target r" by auto
      with z show ?thesis by simp
    qed (use j l r in auto)
  next
    fix t z
    assume z: "map_of (dict_set (op_target r) l locks) t = Some z \<and> lk_active z"
    show "\<exists>y. map_of (dict_set i r' ops) (lk_operation z) = Some y \<and> op_target y = t \<and> op_state y \<in> LOCK_REQUIRED"
    proof (cases "t = op_target r")
      case False
      with z ok obtain y where y: "map_of ops (lk_operation z) = Some y" "op_target y = t" "op_state y \<in> LOCK_REQUIRED"
        unfolding locks_ok_def by force
      with False r have "lk_operation z \<noteq> i" by auto
      with y show ?thesis by simp
    qed (use z l r in auto)
  qed
qed

lemma locks_ok_cong: "map_of locks = map_of locks' \<Longrightarrow> locks_ok ops locks = locks_ok ops locks'"
  by (simp add: locks_ok_def)

lemma locks_ok_set_operation:
  assumes "locks_ok ops locks" and "map_of ops i = Some r" and "op_state r \<in> LOCK_REQUIRED"
    and "op_state r' \<in> LOCK_REQUIRED" and "op_target r' = op_target r"
  shows "locks_ok (dict_set i r' ops) locks"
proof -
  from assms obtain x where x: "map_of locks (op_target r) = Some x" "lk_active x" "lk_operation x = i"
    unfolding locks_ok_def by blast
  have "locks_ok (dict_set i r' ops) (dict_set (op_target r) x locks)"
    using assms x by (intro locks_ok_set_both) simp_all
  moreover have "map_of (dict_set (op_target r) x locks) = map_of locks" using x(1) by (simp add: map_upd_triv)
  ultimately show ?thesis by (blast dest: locks_ok_cong)
qed

section \<open>Transitions keep the invariant\<close>

lemma transition_cases:
  assumes "transition e t tx i l s = Inr (out, s')"
  obtains (replay) "s' = s"
  | (move) r s1 where "map_of (cs_operations s) i = Some r" "op_state r \<in> tr_allowed t" "require_lease e l r = Inr ()"
      "tr_target t = Applying \<longrightarrow> op_before_proof r \<noteq> None \<and> op_execution_intent r \<noteq> None"
      "set_lock e tx i (moved_operation e t i (le_now l) r) (tr_lock t) (le_now l)
         (s\<lparr>cs_operations := dict_set i (moved_operation e t i (le_now l) r) (cs_operations s)\<rparr>) = Inr s1"
      "s' = add_audit e tx (ce_iso e (le_now l)) ''operation'' i (change_state_text (tr_target t))
         (operation_json i (moved_operation e t i (le_now l) r)) s1"
proof -
  from assms obtain r where r: "map_of (cs_operations s) i = Some r"
    unfolding transition_def by (auto elim!: bindE_InrE split: option.splits)
  show thesis
  proof (cases "op_state r = tr_target t")
    case True
    with assms have "s' = s" unfolding transition_def by (elim bindE_InrE) (auto simp: r split: if_splits)
    then show thesis by (rule replay)
  next
    case False
    with assms have g: "op_state r \<in> tr_allowed t" "require_lease e l r = Inr ()"
        "tr_target t = Applying \<longrightarrow> op_before_proof r \<noteq> None \<and> op_execution_intent r \<noteq> None"
      unfolding transition_def by (elim bindE_InrE; auto simp: r elim!: bindE_InrE split: if_splits)+
    from False assms obtain s1 where "set_lock e tx i (moved_operation e t i (le_now l) r) (tr_lock t) (le_now l)
         (s\<lparr>cs_operations := dict_set i (moved_operation e t i (le_now l) r) (cs_operations s)\<rparr>) = Inr s1"
      "s' = add_audit e tx (ce_iso e (le_now l)) ''operation'' i (change_state_text (tr_target t))
         (operation_json i (moved_operation e t i (le_now l) r)) s1"
      unfolding transition_def by (elim bindE_InrE) (auto simp: r Let_def elim!: bindE_InrE split: if_splits)
    with r g show thesis by (intro move)
  qed
qed

lemma transition_moveI:
  assumes "check_all (change_id \<circ> JStr) [i, le_owner l] = Inr ()" and "check_all (change_digest \<circ> JStr) (map snd (tr_columns t)) = Inr ()"
    and "map_of (cs_operations s) i = Some r" and "op_state r \<noteq> tr_target t" and "op_state r \<in> tr_allowed t"
    and "tr_source_phase t = None" and "tr_target t \<noteq> Applying" and "require_lease e l r = Inr ()" and "tr_recovery t = None"
    and "set_lock e tx i (moved_operation e t i (le_now l) r) (tr_lock t) (le_now l)
         (s\<lparr>cs_operations := dict_set i (moved_operation e t i (le_now l) r) (cs_operations s)\<rparr>) = Inr s1"
  shows "transition e t tx i l s = Inr (moved_operation e t i (le_now l) r, add_audit e tx (ce_iso e (le_now l)) ''operation'' i
     (change_state_text (tr_target t)) (operation_json i (moved_operation e t i (le_now l) r)) s1)"
  unfolding transition_def assms(1,2) bindE.simps Let_def using assms(3-10) by simp

lemma set_lock_total:
  "map_of (cs_locks s) (op_target r) = Some x \<Longrightarrow> lk_operation x = i \<Longrightarrow> \<exists>u. set_lock e tx i r active now s = Inr u"
  by (simp add: set_lock_def Let_def)

lemma set_lock_held:
  assumes "map_of (cs_locks s) (op_target r) = Some x" and "lk_operation x = i" and "set_lock e tx i r active now s = Inr s1"
  obtains l where "lk_operation l = i" "lk_active l = active"
    "s1 = add_audit e tx (ce_iso e now) ''target-lock'' (op_target r) (if active then ''acquired'' else ''released'')
       (lock_json (op_target r) l) (s\<lparr>cs_locks := dict_set (op_target r) l (cs_locks s)\<rparr>)"
proof -
  let ?l = "if active then \<lparr>lk_operation = i, lk_active = True, lk_updated_at = ce_iso e now\<rparr>
    else x\<lparr>lk_active := False, lk_updated_at := ce_iso e now\<rparr>"
  show thesis
    by (rule that [of ?l]) (use assms in \<open>auto simp: set_lock_def Let_def\<close>)
qed

lemma transition_inv:
  assumes i: "change_inv e s" and t: "spec_ok e t" and tr: "transition e t tx k l s = Inr (out, s')"
  shows "change_inv e s'"
  using tr
proof (cases rule: transition_cases)
  case (move r s1)
  note iv = change_invD [OF i]
  let ?r = "moved_operation e t k (le_now l) r"
  let ?s = "s\<lparr>cs_operations := dict_set k ?r (cs_operations s)\<rparr>"
  from move(2) t have u: "op_state r \<in> LOCK_REQUIRED" by (auto simp: spec_ok_def)
  have tg: "op_target ?r = op_target r" using moved_operation_keeps(1) [of r e t k "le_now l"] by (simp add: op_same_def)
  from iv(5) move(1) u obtain x where x: "map_of (cs_locks s) (op_target r) = Some x" "lk_operation x = k"
    unfolding locks_ok_def by blast
  then have "map_of (cs_locks ?s) (op_target ?r) = Some x" by (simp add: tg)
  from set_lock_held [OF this x(2) move(5)] obtain y where y: "lk_operation y = k" "lk_active y = tr_lock t"
    and s1: "s1 = add_audit e tx (ce_iso e (le_now l)) ''target-lock'' (op_target r) (if tr_lock t then ''acquired'' else ''released'')
       (lock_json (op_target r) y) (?s\<lparr>cs_locks := dict_set (op_target r) y (cs_locks ?s)\<rparr>)"
    unfolding tg by blast
  have "op_local e k ?r"
    using t rows_okD(4) [OF iv(4) move(1)] move(2,4) unfolding spec_ok_def by blast
  moreover have "locks_ok (cs_operations s') (cs_locks s')"
    using locks_ok_set_both [OF iv(5) move(1) u tg y(1)] y(2) t by (simp add: move(6) s1 spec_ok_def)
  moreover have "distinct (map fst (cs_locks s'))" using iv(3) by (simp add: move(6) s1 keys_ok_def)
  moreover have "audit_says e s' (live e s')"
  proof -
    have l: "live e s' = ((live e s)((''target-lock'', op_target r) \<mapsto> semantic_digest (ce_sha e) (lock_json (op_target r) y),
        (''operation'', k) \<mapsto> semantic_digest (ce_sha e) (operation_json k ?r)))"
      unfolding move(6) s1 live_simps(5) by (auto simp: live_def)
    have "audit_says e (?s\<lparr>cs_locks := dict_set (op_target r) y (cs_locks ?s)\<rparr>) (live e s)"
      using iv(2) by (simp add: audit_says_def)
    from add_audit_says [OF add_audit_says [OF this]] show ?thesis unfolding l unfolding move(6) s1 .
  qed
  ultimately show ?thesis
    by (intro set_operation_inv [OF i move(1) moved_operation_keeps(1)]) (simp_all add: move(6) s1)
qed (use i in simp)

lemma rewrite_operation_inv:
  assumes i: "change_inv e s" and r: "map_of (cs_operations s) k = Some r" and u: "op_state r \<in> LOCK_REQUIRED" "op_state r' \<in> LOCK_REQUIRED"
    and same: "op_same r r'" and l: "op_local e k r'"
  shows "change_inv e (add_audit e tx t ''operation'' k a (operation_json k r') (s\<lparr>cs_operations := dict_set k r' (cs_operations s)\<rparr>))"
    (is "change_inv e ?s")
proof -
  note iv = change_invD [OF i]
  have "locks_ok (dict_set k r' (cs_operations s)) (cs_locks s)"
    using locks_ok_set_operation [OF iv(5) r u] same by (simp add: op_same_def)
  moreover have "audit_says e (s\<lparr>cs_operations := dict_set k r' (cs_operations s)\<rparr>) (live e s)"
    using iv(2) by (simp add: audit_says_def)
  from add_audit_says [OF this] have "audit_says e ?s (live e ?s)" by simp
  moreover have "distinct (map fst (cs_locks s))" using iv(3) by (simp add: keys_ok_def)
  ultimately show ?thesis by (intro set_operation_inv [OF i r same l]) simp_all
qed

lemma record_recovery_conflict_cases:
  assumes "record_recovery_conflict e reason tx i l s = Inr (out, s')"
  obtains r where "map_of (cs_operations s) i = Some r" "op_state r = RecoveryRequired" "require_lease e l r = Inr ()"
    "s' = add_audit e tx (ce_iso e (le_now l)) ''operation'' i ''recovery_conflict''
       (operation_json i (r\<lparr>op_reason := Some reason, op_updated_at := ce_iso e (le_now l)\<rparr>))
       (s\<lparr>cs_operations := dict_set i (r\<lparr>op_reason := Some reason, op_updated_at := ce_iso e (le_now l)\<rparr>) (cs_operations s)\<rparr>)"
  using assms unfolding record_recovery_conflict_def Let_def
  by (elim bindE_InrE) (auto elim!: bindE_InrE split: option.splits if_splits)

lemma claim_operation_cases:
  assumes "claim_operation e tx token i owner now secs s = Inr (out, s')"
  obtains (settled) r where "map_of (cs_operations s) i = Some r" "op_state r \<notin> LOCK_REQUIRED" "s' = s" "out = r"
  | (claimed) r where "map_of (cs_operations s) i = Some r" "op_state r \<in> LOCK_REQUIRED"
      "out = claimed_operation e token owner now (now + secs * 1000000) r"
      "s' = add_audit e tx (ce_iso e now) ''operation'' i ''recovery_required'' (operation_json i out)
         (s\<lparr>cs_operations := dict_set i out (cs_operations s)\<rparr>)"
proof -
  from assms obtain r where r: "map_of (cs_operations s) i = Some r"
    unfolding claim_operation_def by (auto elim!: bindE_InrE split: option.splits if_splits)
  have n: "op_state r \<notin> NONTERMINAL \<and> op_state r \<noteq> Applied \<longleftrightarrow> op_state r \<notin> LOCK_REQUIRED"
    by (auto simp: NONTERMINAL_def LOCK_REQUIRED_def)
  show thesis
  proof (cases "op_state r \<in> LOCK_REQUIRED")
    case True
    with assms show thesis
      unfolding claim_operation_def r option.case n Let_def by (intro claimed [OF r]) (auto elim!: bindE_InrE split: if_splits)
  next
    case False
    with assms show thesis
      unfolding claim_operation_def r option.case n by (intro settled [OF r]) (auto elim!: bindE_InrE split: if_splits)
  qed
qed

lemma claimed_operation_simps [simp]:
  "op_same r (claimed_operation e token owner now until r)" "op_epoch (claimed_operation e token owner now until r) = op_epoch r + 1"
  "op_state (claimed_operation e token owner now until r) = RecoveryRequired"
  by (simp_all add: claimed_operation_def)

lemma claimed_operation_local: "op_local e i r \<Longrightarrow> op_local e i (claimed_operation e token owner now until r)"
  by (simp add: op_local_def claimed_operation_def unproven_def PROVEN_def)

lemma record_recovery_conflict_inv:
  assumes i: "change_inv e s" and c: "record_recovery_conflict e reason tx k l s = Inr (out, s')"
  shows "change_inv e s'"
proof -
  from c obtain r where r: "map_of (cs_operations s) k = Some r" "op_state r = RecoveryRequired"
    and s': "s' = add_audit e tx (ce_iso e (le_now l)) ''operation'' k ''recovery_conflict''
       (operation_json k (r\<lparr>op_reason := Some reason, op_updated_at := ce_iso e (le_now l)\<rparr>))
       (s\<lparr>cs_operations := dict_set k (r\<lparr>op_reason := Some reason, op_updated_at := ce_iso e (le_now l)\<rparr>) (cs_operations s)\<rparr>)"
    by (rule record_recovery_conflict_cases)
  from rows_okD(4) [OF change_invD(4) [OF i] r(1)] r(2)
  have "op_local e k (r\<lparr>op_reason := Some reason, op_updated_at := ce_iso e (le_now l)\<rparr>)"
    by (simp add: op_local_def unproven_def PROVEN_def)
  with r show ?thesis unfolding s' by (intro rewrite_operation_inv [OF i r(1)]) (simp_all add: LOCK_REQUIRED_def)
qed

lemma claim_operation_inv:
  assumes i: "change_inv e s" and c: "claim_operation e tx token k owner now secs s = Inr (out, s')"
  shows "change_inv e s'"
  using c
proof (cases rule: claim_operation_cases)
  case (claimed r)
  from claimed_operation_local [OF rows_okD(4) [OF change_invD(4) [OF i] claimed(1)]]
  show ?thesis unfolding claimed(3,4)
    by (intro rewrite_operation_inv [OF i claimed(1,2)]) (simp_all add: LOCK_REQUIRED_def)
qed (use i in simp)

section \<open>Histories of calls\<close>

text \<open>The calls that present a lease.\<close>

inductive lease_call :: "change_env \<Rightarrow> change_move \<Rightarrow> bool" for e where
  "lease_call e (mark_rollback_ready e before execution recovery)"
| "lease_call e (mark_applying e)"
| "lease_call e (mark_commit_ready e)"
| "lease_call e (mark_applied e receipt)"
| "lease_call e (mark_committed e)"
| "lease_call e (mark_rolling_back e)"
| "lease_call e (mark_rolled_back e receipt)"
| "lease_call e (mark_failed e failure)"
| "lease_call e (mark_recovery_required e reason)"
| "lease_call e (record_recovery_conflict e reason)"

inductive change_step :: "change_env \<Rightarrow> change_store \<Rightarrow> change_store \<Rightarrow> bool" for e where
  step_register: "register_proposal e tx raw now s = Inr (out, s') \<Longrightarrow> change_step e s s'"
| step_grant: "record_verified_grant e tx envelope now s = Inr (row, s') \<Longrightarrow> change_step e s s'"
| step_prepare: "prepare_operation e tx token q now secs s = Inr (res, s') \<Longrightarrow> change_step e s s'"
| step_lease: "lease_call e m \<Longrightarrow> m tx i l s = Inr (op, s') \<Longrightarrow> change_step e s s'"
| step_claim: "claim_operation e tx token i owner now secs s = Inr (op, s') \<Longrightarrow> change_step e s s'"

definition change_start :: "change_env \<Rightarrow> change_store \<Rightarrow> bool" where
  "change_start e s \<longleftrightarrow> (\<exists>sid now. s = new_change_store e sid now)"

lemma lease_call_cases:
  assumes "lease_call e m" and "m tx i l s = Inr (out, s')"
  obtains (transition) t where "spec_ok e t" "transition e t tx i l s = Inr (out, s')"
  | (conflict) reason where "record_recovery_conflict e reason tx i l s = Inr (out, s')"
  using assms
proof (cases rule: lease_call.cases)
  case (1 before execution recovery)
  with assms(2) have c: "check_recovery recovery = Inr ()" unfolding mark_rollback_ready_def by (auto elim!: bindE_InrE)
  with 1 assms(2) show thesis
    unfolding mark_rollback_ready_def by (intro transition [OF spec_ok_rollback_ready [OF c]]) simp
qed (use assms(2) in \<open>auto simp: mark_applying_def mark_commit_ready_def mark_applied_def mark_committed_def mark_rolling_back_def
  mark_rolled_back_def mark_failed_def mark_recovery_required_def intro: transition spec_ok_simple conflict\<close>)

lemma change_step_inv:
  assumes "change_inv e s" and "change_step e s t"
  shows "change_inv e t"
  using assms(2)
proof (cases rule: change_step.cases)
  case (step_lease m tx i l op)
  then show ?thesis
    by (cases rule: lease_call_cases) (auto intro: transition_inv record_recovery_conflict_inv assms(1))
qed (auto intro: assms(1) register_proposal_inv record_verified_grant_inv prepare_operation_inv claim_operation_inv)

interpretation cs: inv_system "change_start e" "change_step e" "change_inv e" for e
  by unfold_locales (auto simp: change_start_def change_inv_start intro: change_step_inv)

section \<open>What steps do to rows\<close>

definition run_count :: "(string \<times> change_operation) list \<Rightarrow> string \<Rightarrow> nat" where
  "run_count ops run = length (filter (\<lambda>(k, r). op_run_id r = run) ops)"

definition store_later :: "change_store \<Rightarrow> change_store \<Rightarrow> bool" where
  "store_later s s' \<longleftrightarrow> (\<forall>i p. map_of (cs_proposals s) i = Some p \<longrightarrow> map_of (cs_proposals s') i = Some p)
     \<and> (\<forall>i r. map_of (cs_operations s) i = Some r \<longrightarrow> (\<exists>r'. map_of (cs_operations s') i = Some r' \<and> op_later r r'))"

lemma store_later_refl [simp]: "store_later s s"
  by (auto simp: store_later_def)

lemma store_later_trans: "store_later s t \<Longrightarrow> store_later t u \<Longrightarrow> store_later s u"
  unfolding store_later_def by (meson op_later_trans)

lemma store_later_set_operation:
  assumes "map_of (cs_operations s) i = Some r" and "op_later r r'" and "cs_proposals s' = cs_proposals s"
    and "cs_operations s' = dict_set i r' (cs_operations s)"
  shows "store_later s s'"
  unfolding store_later_def assms(3,4) using assms(1,2) by auto

lemma run_count_dict_set:
  "map_of ops i = Some r \<Longrightarrow> op_run_id r' = op_run_id r \<Longrightarrow> run_count (dict_set i r' ops) run = run_count ops run"
  unfolding run_count_def dict_set_def by (induction ops) auto

lemma run_count_add:
  "map_of ops i = None \<Longrightarrow> run_count (dict_set i r ops) run = run_count ops run + (if op_run_id r = run then 1 else 0)"
  unfolding append_fresh [symmetric] run_count_def by simp

definition quiet :: "change_store \<Rightarrow> change_store \<Rightarrow> bool" where
  "quiet s s' \<longleftrightarrow> store_later s s' \<and> (\<forall>run. run_count (cs_operations s') run = run_count (cs_operations s) run)"

lemma quiet_refl [simp]: "quiet s s"
  by (simp add: quiet_def)

lemma quiet_set_operation:
  assumes "map_of (cs_operations s) i = Some r" and "op_later r r'" and "cs_proposals s' = cs_proposals s"
    and "cs_operations s' = dict_set i r' (cs_operations s)"
  shows "quiet s s'"
proof -
  from assms(2) have "op_run_id r' = op_run_id r" by (simp add: op_later_def op_same_def)
  then show ?thesis using store_later_set_operation [OF assms] run_count_dict_set [OF assms(1)] by (simp add: quiet_def assms(4))
qed

lemma quiet_other_tables:
  assumes "cs_operations s' = cs_operations s" and "\<And>i p. map_of (cs_proposals s) i = Some p \<Longrightarrow> map_of (cs_proposals s') i = Some p"
  shows "quiet s s'"
  using assms by (simp add: quiet_def store_later_def)

lemma set_lock_tables:
  assumes "set_lock e tx i r active now s = Inr s1"
  shows "cs_operations s1 = cs_operations s" and "cs_proposals s1 = cs_proposals s"
  using assms by (auto simp: set_lock_def Let_def split: option.splits if_splits)

lemma transition_quiet:
  assumes t: "spec_ok e t" and tr: "transition e t tx k l s = Inr (out, s')"
  shows "quiet s s'"
  using tr
proof (cases rule: transition_cases)
  case (move r s1)
  from move(2) t have "op_state r \<in> LOCK_REQUIRED" by (auto simp: spec_ok_def)
  from quiet_set_operation [OF move(1) moved_operation_later [OF this]] show ?thesis
    by (simp add: move(6) set_lock_tables [OF move(5)])
qed simp

lemma record_recovery_conflict_quiet:
  assumes "record_recovery_conflict e reason tx k l s = Inr (out, s')"
  shows "quiet s s'"
  using assms
proof (cases rule: record_recovery_conflict_cases)
  case (1 r)
  have "op_later r (r\<lparr>op_reason := Some reason, op_updated_at := ce_iso e (le_now l)\<rparr>)"
    using 1(2) by (simp add: op_later_def LOCK_REQUIRED_def)
  from quiet_set_operation [OF 1(1) this] show ?thesis by (simp add: 1(4))
qed

lemma claim_operation_quiet:
  assumes "claim_operation e tx token k owner now secs s = Inr (out, s')"
  shows "quiet s s'"
  using assms
proof (cases rule: claim_operation_cases)
  case (claimed r)
  have "op_later r out" using claimed(2) by (simp add: claimed(3) op_later_def)
  from quiet_set_operation [OF claimed(1) this] show ?thesis by (simp add: claimed(4))
qed simp

lemma register_proposal_quiet:
  assumes "register_proposal e tx raw now s = Inr (out, s')"
  shows "quiet s s'"
  using assms unfolding register_proposal_def Let_def
  by (elim bindE_InrE) (auto intro!: quiet_other_tables simp: map_add_def split: option.splits if_splits)

lemma record_verified_grant_quiet:
  assumes "record_verified_grant e tx envelope now s = Inr (out, s')"
  shows "quiet s s'"
  using assms unfolding record_verified_grant_def Let_def
  by (auto intro!: quiet_other_tables elim!: bindE_InrE split: json.splits option.splits if_splits)

lemma prepares_later:
  assumes "prepares e tx token q now secs s s' p a policy maximum"
  shows "store_later s s'"
    and "run_count (cs_operations s') run = run_count (cs_operations s) run + (if pr_run_id p = run then 1 else 0)"
proof -
  from assms have f: "map_of (cs_operations s) (pq_operation q) = None"
    and s': "s' = store_operation e tx (pq_operation q) (new_operation e q p policy token now (now + secs * 1000000)) a now s"
    by (simp_all add: prepares_def)
  show "store_later s s'" unfolding store_later_def s' store_operation_simps [OF f] using f by auto
  show "run_count (cs_operations s') run = run_count (cs_operations s) run + (if pr_run_id p = run then 1 else 0)"
    unfolding s' store_operation_simps [OF f] by (simp add: run_count_add [OF f])
qed

lemma change_step_effect:
  assumes "change_step e s t"
  obtains "quiet s t" | tx token q now secs p a policy maximum where "prepares e tx token q now secs s t p a policy maximum"
  using assms
proof (cases rule: change_step.cases)
  case (step_prepare tx token q now secs res)
  then show thesis by (cases rule: prepare_operation_cases) (auto intro: that)
next
  case (step_lease m tx i l op)
  then show thesis by (cases rule: lease_call_cases) (auto intro: that transition_quiet record_recovery_conflict_quiet)
qed (auto intro: that register_proposal_quiet record_verified_grant_quiet claim_operation_quiet)

lemma change_steps_later: "(change_step e)\<^sup>*\<^sup>* s t \<Longrightarrow> store_later s t"
proof (induction rule: rtranclp_induct)
  case (step t u)
  from step.hyps(2) have "store_later t u"
    by (cases rule: change_step_effect) (auto simp: quiet_def dest: prepares_later(1))
  with step.IH show ?case by (rule store_later_trans)
qed simp

section \<open>The write budget of a run\<close>

definition within_budget :: "change_store \<Rightarrow> bool" where
  "within_budget s \<longleftrightarrow> (\<forall>run. run_count (cs_operations s) run = 0
     \<or> (\<exists>i r p policy n. map_of (cs_operations s) i = Some r \<and> op_run_id r = run \<and> map_of (cs_proposals s) (op_proposal_id r) = Some p
          \<and> proposal_authority p = Inr (policy, n) \<and> int (run_count (cs_operations s) run) \<le> n))"

lemma within_budget_quiet:
  assumes w: "within_budget s" and q: "quiet s t"
  shows "within_budget t"
  unfolding within_budget_def
proof
  fix run
  from q have c: "run_count (cs_operations t) run = run_count (cs_operations s) run" and l: "store_later s t"
    by (simp_all add: quiet_def)
  show "run_count (cs_operations t) run = 0 \<or> (\<exists>i r p policy n. map_of (cs_operations t) i = Some r \<and> op_run_id r = run
      \<and> map_of (cs_proposals t) (op_proposal_id r) = Some p \<and> proposal_authority p = Inr (policy, n)
      \<and> int (run_count (cs_operations t) run) \<le> n)"
  proof (cases "run_count (cs_operations s) run = 0")
    case False
    with w obtain i r p policy n where r: "map_of (cs_operations s) i = Some r" "op_run_id r = run"
      and p: "map_of (cs_proposals s) (op_proposal_id r) = Some p" and n: "proposal_authority p = Inr (policy, n)"
        "int (run_count (cs_operations s) run) \<le> n"
      unfolding within_budget_def by metis
    from l r(1) obtain r' where "map_of (cs_operations t) i = Some r'" "op_later r r'" unfolding store_later_def by blast
    moreover from l p have "map_of (cs_proposals t) (op_proposal_id r) = Some p" unfolding store_later_def by blast
    ultimately show ?thesis using r(2) n c by (auto simp: op_later_def op_same_def)
  qed (simp add: c)
qed

lemma within_budget_prepares:
  assumes w: "within_budget s" and q: "prepares e tx token q now secs s t p a policy maximum"
  shows "within_budget t"
  unfolding within_budget_def
proof
  fix run
  note c = prepares_later(2) [OF q]
  from q have f: "map_of (cs_operations s) (pq_operation q) = None" and p: "map_of (cs_proposals s) (pq_proposal q) = Some p"
    and m: "proposal_authority p = Inr (policy, maximum)" "int (run_count (cs_operations s) (pr_run_id p)) < maximum"
    and t: "t = store_operation e tx (pq_operation q) (new_operation e q p policy token now (now + secs * 1000000)) a now s"
    by (simp_all add: prepares_def run_count_def)
  note st = store_operation_simps [OF f, of e tx "new_operation e q p policy token now (now + secs * 1000000)" a now, folded t]
  show "run_count (cs_operations t) run = 0 \<or> (\<exists>i r p policy n. map_of (cs_operations t) i = Some r \<and> op_run_id r = run
      \<and> map_of (cs_proposals t) (op_proposal_id r) = Some p \<and> proposal_authority p = Inr (policy, n)
      \<and> int (run_count (cs_operations t) run) \<le> n)"
  proof (cases "run = pr_run_id p")
    case True
    then have "map_of (cs_operations t) (pq_operation q) = Some (new_operation e q p policy token now (now + secs * 1000000))"
      by (simp add: st)
    moreover have "int (run_count (cs_operations t) run) \<le> maximum" using m(2) True by (simp add: c)
    ultimately show ?thesis using p m(1) True st(4) by force
  next
    case False
    with c have n: "run_count (cs_operations t) run = run_count (cs_operations s) run" by simp
    show ?thesis
    proof (cases "run_count (cs_operations s) run = 0")
      case False
      with w obtain i r p' policy' k where r: "map_of (cs_operations s) i = Some r" "op_run_id r = run"
        "map_of (cs_proposals s) (op_proposal_id r) = Some p'" "proposal_authority p' = Inr (policy', k)"
        "int (run_count (cs_operations s) run) \<le> k" unfolding within_budget_def by metis
      from r(1) f have "map_of (cs_operations t) i = Some r" by (auto simp: st)
      with r n st(4) show ?thesis by force
    qed (simp add: n)
  qed
qed

interpretation cb: inv_system "change_start e" "change_step e" within_budget for e
proof
  show "change_start e s \<Longrightarrow> within_budget s" for s
    by (auto simp: change_start_def new_change_store_def within_budget_def run_count_def)
  show "within_budget s \<Longrightarrow> change_step e s t \<Longrightarrow> within_budget t" for s t
    by (erule change_step_effect) (auto intro: within_budget_quiet within_budget_prepares)
qed

end
