(* ===== verification/Eco_Change_Guarantees.thy ===== *)
theory Eco_Change_Guarantees
  imports Eco_Change_Moves
begin

text \<open>
  What the change authority promises for every history of calls: verification answers exactly, a target has
  one unsettled operation, an operation rests on one human approval of its own proposal, approvals and policy
  decisions are spent once, the write budget holds, and a lease that was taken over is fenced.
\<close>

section \<open>A concrete history\<close>

text \<open>A proposal, its approval, and one prepared operation. Every digest is the same text.\<close>

definition demo_hex :: "char \<Rightarrow> string" where
  "demo_hex c = replicate 64 c"

definition demo_change_env :: change_env where
  "demo_change_env = \<lparr>ce_sha = (\<lambda>_. demo_hex CHR ''a''), ce_hmac = (\<lambda>k m. demo_hex CHR ''b''),
     ce_iso = (\<lambda>t. if t = 10 then ''ten'' else ''later''), ce_read = (\<lambda>s. if s = ''ten'' then Some 10 else Some 90000000),
     cx_mac = (\<lambda>m. ''mac''), cx_key_id = ''audit'', cx_trust = [(''key'', demo_key)], cx_epoch = (\<lambda>t. t)\<rparr>"

definition demo_proposal :: obj where
  "demo_proposal = [(''proposalId'', JStr ''p''), (''projectId'', JStr ''eco''), (''runId'', JStr ''run''),
     (''planDigest'', JStr (demo_hex CHR ''1'')), (''policyDecisionDigest'', JStr (demo_hex CHR ''2'')), (''actionClass'', JStr ''A2''),
     (''operationKind'', JStr ''replace''), (''rootIdentityDigest'', JStr (demo_hex CHR ''3'')), (''baseDigest'', JStr (demo_hex CHR ''4'')),
     (''targetRefDigest'', JStr (demo_hex CHR ''5'')), (''desiredDigest'', JStr (demo_hex CHR ''6'')),
     (''rollbackDigest'', JStr (demo_hex CHR ''7'')), (''displayDigest'', JStr (demo_hex CHR ''8'')),
     (''limits'', JObj [(''maxBytes'', JInt 10), (''maxFiles'', JInt 1), (''maxOperations'', JInt 1), (''approvalExpiresAt'', JStr ''later'')])]"

definition demo_recovery :: recovery_artifact where
  "demo_recovery = \<lparr>ra_ref = ''artifact://x'', ra_sha = demo_hex CHR ''9'', ra_length = 1, ra_metadata = demo_hex CHR ''9''\<rparr>"

definition demo_prepare :: prepare_request where
  "demo_prepare = \<lparr>pq_operation = ''op'', pq_proposal = ''p'', pq_approval = ''grant'', pq_key = ''k'', pq_recovery = demo_recovery,
     pq_owner = ''w''\<rparr>"

definition demo_granted :: "change_store result" where
  "demo_granted =
     bindE (register_proposal demo_change_env ''t1'' demo_proposal 10 (new_change_store demo_change_env ''store'' 10)) (\<lambda>(d, s1).
     bindE (sign_approval demo_change_env demo_key ''grant'' (snd d) ''nonce'' 10 90000000) (\<lambda>c.
     bindE (record_verified_grant demo_change_env ''t2'' (JObj c) 10 s1) (\<lambda>(a, s2). Inr s2)))"

definition demo_prepared :: "change_store result" where
  "demo_prepared = bindE demo_granted (\<lambda>s. bindE (prepare_operation demo_change_env ''t3'' ''token'' demo_prepare 10 1 s) (\<lambda>(x, s3). Inr s3))"

lemma demo_granted_reach:
  assumes "demo_granted = Inr s"
  shows "reach (change_start demo_change_env) (change_step demo_change_env) s"
proof -
  from assms obtain d s1 c a where "register_proposal demo_change_env ''t1'' demo_proposal 10 (new_change_store demo_change_env ''store'' 10) = Inr (d, s1)"
      and g: "record_verified_grant demo_change_env ''t2'' (JObj c) 10 s1 = Inr (a, s)"
    unfolding demo_granted_def by (auto elim!: bindE_InrE)
  moreover have "reach (change_start demo_change_env) (change_step demo_change_env) (new_change_store demo_change_env ''store'' 10)"
    by (rule reach_start) (auto simp: change_start_def)
  ultimately have "reach (change_start demo_change_env) (change_step demo_change_env) s1"
    by (blast intro: reach_step step_register)
  from reach_step [OF this step_grant [OF g]] show ?thesis .
qed

lemma demo_prepared_reach:
  assumes "demo_prepared = Inr s"
  shows "reach (change_start demo_change_env) (change_step demo_change_env) s"
proof -
  from assms obtain s2 x where g: "demo_granted = Inr s2" and p: "prepare_operation demo_change_env ''t3'' ''token'' demo_prepare 10 1 s2 = Inr (x, s)"
    unfolding demo_prepared_def by (auto elim!: bindE_InrE)
  from reach_step [OF demo_granted_reach [OF g] step_prepare [OF p]] show ?thesis .
qed

lemma demo_digest [simp]: "semantic_digest (ce_sha demo_change_env) j = demo_hex CHR ''a''"
  by (simp add: semantic_digest_def demo_change_env_def)

lemma demo_valid: "validated_proposal demo_change_env demo_proposal = Inr demo_proposal"
  by code_simp

lemma demo_subject: "approval_subject_digest demo_change_env (proposal_subject demo_change_env ''store'' demo_proposal) = Inr (demo_hex CHR ''a'')"
proof -
  have "sha256_text (demo_hex c)" if "is_hex c" for c using that by (simp add: demo_hex_def sha256_text_def list_all_iff)
  moreover have "safe_identifier ''store''" "safe_identifier ''eco''" "safe_identifier ''run''"
    "\<forall>c \<in> set ''a12345678''. is_hex c" by code_simp+
  ultimately show ?thesis
   unfolding approval_subject_digest_def approval_subject_payload_def proposal_subject_def proposal_digest_def
   by (simp add: approval_identifier_def approval_digest_def demo_proposal_def jget_def)
qed

lemma demo_registered:
  "\<exists>s. register_proposal demo_change_env ''t1'' demo_proposal 10 (new_change_store demo_change_env ''store'' 10)
      = Inr ((demo_hex CHR ''a'', demo_hex CHR ''a''), s)
    \<and> cs_proposals s = [(''p'', new_proposal_row demo_change_env demo_proposal (demo_hex CHR ''a'') 10)] \<and> cs_approvals s = []
    \<and> cs_operations s = [] \<and> cs_locks s = []"
  unfolding register_proposal_def demo_valid bindE.simps
  by (simp add: new_change_store_def demo_subject proposal_digest_def Let_def) (simp add: demo_proposal_def jget_def)

definition demo_envelope :: obj where
  "demo_envelope = [(''protocol'', JStr ''eco-approval-envelope-v1''), (''approvalId'', JStr ''grant''),
     (''subjectDigest'', JStr (demo_hex CHR ''a'')), (''humanId'', JStr ''ann''), (''assurance'', JStr ''webauthn''),
     (''keyId'', JStr ''key''), (''challengeNonce'', JStr ''nonce''), (''issuedAt'', JStr ''ten''),
     (''expiresAt'', JStr ''later''), (''signature'', JStr (demo_hex CHR ''b''))]"

lemma demo_signed: "sign_approval demo_change_env demo_key ''grant'' (demo_hex CHR ''a'') ''nonce'' 10 90000000 = Inr demo_envelope"
  by code_simp

lemma demo_verified: "verify_approval demo_change_env (cx_trust demo_change_env) demo_envelope (demo_hex CHR ''a'') 10 = Inr (demo_envelope, demo_hex CHR ''a'')"
  by code_simp

lemma demo_granted_ex:
  "\<exists>s. demo_granted = Inr s \<and> cs_proposals s = [(''p'', new_proposal_row demo_change_env demo_proposal (demo_hex CHR ''a'') 10)]
    \<and> cs_approvals s = [(''grant'', new_approval_row demo_change_env ''p'' (demo_hex CHR ''a'') (demo_hex CHR ''a'') 90000000 demo_envelope)]
    \<and> cs_operations s = [] \<and> cs_locks s = []"
proof -
  obtain s1 where r: "register_proposal demo_change_env ''t1'' demo_proposal 10 (new_change_store demo_change_env ''store'' 10)
      = Inr ((demo_hex CHR ''a'', demo_hex CHR ''a''), s1)"
    and s1: "cs_proposals s1 = [(''p'', new_proposal_row demo_change_env demo_proposal (demo_hex CHR ''a'') 10)]"
      "cs_approvals s1 = []" "cs_operations s1 = []" "cs_locks s1 = []"
    using demo_registered by blast
  have e: "jget demo_envelope ''subjectDigest'' = JStr (demo_hex CHR ''a'')" "jget demo_envelope ''approvalId'' = JStr ''grant''"
    "parse_utc demo_change_env (jget demo_envelope ''expiresAt'') = Inr 90000000"
    by (simp_all add: demo_envelope_def jget_def demo_change_env_def)
  show ?thesis
    unfolding demo_granted_def r bindE.simps prod.case snd_conv demo_signed record_verified_grant_def
    by (simp add: s1 e demo_verified Let_def del: parse_utc_Inr) (simp add: new_proposal_row_def)
qed

lemma demo_prepared_ex:
  "\<exists>s r. demo_prepared = Inr s \<and> cs_operations s = [(''op'', r)] \<and> op_state r = Prepared \<and> op_epoch r = 1 \<and> op_run_id r = ''run''
     \<and> op_target r = demo_hex CHR ''5'' \<and> op_until r = Some 1000010 \<and> op_phase r = Some ''apply'' \<and> op_before_proof r = None
     \<and> op_policy_digest r = demo_hex CHR ''2'' \<and> op_owner r = Some ''w'' \<and> op_token r = Some (lease_digest demo_change_env ''token'')"
proof -
  obtain s2 where g: "demo_granted = Inr s2"
    and s2: "cs_proposals s2 = [(''p'', new_proposal_row demo_change_env demo_proposal (demo_hex CHR ''a'') 10)]"
      "cs_approvals s2 = [(''grant'', new_approval_row demo_change_env ''p'' (demo_hex CHR ''a'') (demo_hex CHR ''a'') 90000000 demo_envelope)]"
      "cs_operations s2 = []" "cs_locks s2 = []"
    using demo_granted_ex by blast
  let ?p = "new_proposal_row demo_change_env demo_proposal (demo_hex CHR ''a'') 10"
  have k: "check_all (change_id \<circ> JStr) [pq_operation demo_prepare, pq_proposal demo_prepare, pq_approval demo_prepare,
      pq_owner demo_prepare, pq_key demo_prepare] = Inr ()" "check_recovery (pq_recovery demo_prepare) = Inr ()"
    by code_simp+
  have "sha256_text (demo_hex CHR ''2'')" by code_simp
  then have m: "proposal_authority ?p = Inr (demo_hex CHR ''2'', 1)"
    by (simp add: proposal_authority_def new_proposal_row_def proposal_body_def demo_proposal_def change_digest_def)
  have q: "pq_operation demo_prepare = ''op''" "pq_proposal demo_prepare = ''p''" "pq_approval demo_prepare = ''grant''"
    by (simp_all add: demo_prepare_def)
  have t: "pr_run_id ?p = ''run''" "pr_target ?p = demo_hex CHR ''5''"
    by (simp_all add: new_proposal_row_def demo_proposal_def jget_def)
  let ?r = "new_operation demo_change_env demo_prepare ?p (demo_hex CHR ''2'') ''token'' 10 (10 + 1 * 1000000)"
  have ep: "cx_epoch demo_change_env now = now" for now by (simp add: demo_change_env_def)
  have "\<exists>a. prepare_operation demo_change_env ''t3'' ''token'' demo_prepare 10 1 s2
      = Inr ((?r, False), store_operation demo_change_env ''t3'' ''op'' ?r a 10 s2)"
    unfolding prepare_operation_def k bindE.simps by (simp add: s2 q m t ep Let_def new_approval_row_def) blast
  then obtain a where pr: "prepare_operation demo_change_env ''t3'' ''token'' demo_prepare 10 1 s2
      = Inr ((?r, False), store_operation demo_change_env ''t3'' ''op'' ?r a 10 s2)" ..
  show ?thesis
    unfolding demo_prepared_def g bindE.simps pr prod.case
    by (rule exI conjI refl)+ (simp_all add: store_operation_def Let_def s2, simp_all add: new_operation_def t ep, simp_all add: demo_prepare_def)
qed

section \<open>Guarantees\<close>

text \<open>C15: an open change authority is never corrupt by its own doing, except in one way. After any history of
  calls, verifying the store succeeds exactly when no operation is rolling back, or rolled back, without the proof of
  the state before the write and the execution intent; every other check of the audit chain, the proposals, the
  approvals, the operations and the locks passes, and an operation without these proofs makes it raise.\<close>

theorem change_store_verifies_exactly:
  assumes "reach (change_start e) (change_step e) s"
  shows "verify_change_store e s = (if list_ex (unproven \<circ> snd) (cs_operations s) then change_corrupt else Inr ())
    \<and> (\<forall>i r. map_of (cs_operations s) i = Some r \<longrightarrow> unproven r \<longrightarrow> op_state r \<in> {RollingBack, RolledBack})"
proof -
  note iv = cs.reach_inv [OF assms]
  from rows_okD(4) [OF change_invD(4) [OF iv]] show ?thesis
    using change_inv_verify [OF iv] unfolding op_local_def by blast
qed

theorem change_store_verifies_exactly_witness:
  "\<exists>s. demo_prepared = Inr s \<and> verify_change_store demo_change_env s = Inr ()"
proof -
  obtain s r where s: "demo_prepared = Inr s" and r: "cs_operations s = [(''op'', r)]" "op_state r = Prepared"
    using demo_prepared_ex by blast
  have "\<not> list_ex (unproven \<circ> snd) (cs_operations s)" by (simp add: r unproven_def PROVEN_def)
  with change_store_verifies_exactly [OF demo_prepared_reach [OF s]] s show ?thesis by auto
qed

text \<open>The exception is reachable. A worker that takes over an operation which never became ready for rollback
  may start its rollback all the same; the store accepts the call, and from then on refuses to open.\<close>

lemma rollback_without_proof_corrupts:
  "\<exists>s t r. reach (change_start demo_change_env) (change_step demo_change_env) s
     \<and> verify_change_store demo_change_env s = Inr ()
     \<and> mark_rolling_back demo_change_env ''t5'' ''op''
         \<lparr>le_owner = ''v'', le_token = ''fresh'', le_epoch = 2, le_now = 2000001\<rparr> s = Inr (r, t)
     \<and> open_change_store demo_change_env None t = change_corrupt"
proof -
  let ?e = demo_change_env
  let ?l = "\<lparr>le_owner = ''v'', le_token = ''fresh'', le_epoch = 2, le_now = 2000001\<rparr>"
  obtain s0 r0 where s0: "demo_prepared = Inr s0" and r0: "cs_operations s0 = [(''op'', r0)]" "op_state r0 = Prepared"
      "op_epoch r0 = 1" "op_until r0 = Some 1000010" "op_phase r0 = Some ''apply''" "op_before_proof r0 = None"
    using demo_prepared_ex by blast
  note reach0 = demo_prepared_reach [OF s0]
  define r1 where "r1 = claimed_operation ?e ''fresh'' ''v'' 2000000 3000000 r0"
  define s1 where "s1 = add_audit ?e ''t4'' (ce_iso ?e 2000000) ''operation'' ''op'' ''recovery_required'' (operation_json ''op'' r1)
    (s0\<lparr>cs_operations := dict_set ''op'' r1 (cs_operations s0)\<rparr>)"
  have ids: "change_id (JStr ''v'') = Inr ''v''" "change_id (JStr ''op'') = Inr ''op''" by code_simp+
  have ep: "cx_epoch ?e now = now" for now by (simp add: demo_change_env_def)
  have "claim_operation ?e ''t4'' ''fresh'' ''op'' ''v'' 2000000 1 s0 = Inr (r1, s1)"
    unfolding claim_operation_def ids s1_def r1_def by (simp add: r0 ep NONTERMINAL_def Let_def)
  from reach_step [OF reach0 step_claim [OF this]]
  have reach1: "reach (change_start ?e) (change_step ?e) s1" .
  have o1: "cs_operations s1 = [(''op'', r1)]" by (simp add: s1_def r0 dict_set_def)
  have r1: "op_state r1 = RecoveryRequired" "op_before_proof r1 = None" "require_lease ?e ?l r1 = Inr ()"
    by (simp_all add: r1_def claimed_operation_def r0 require_lease_def ep)
  note iv1 = cs.reach_inv [OF reach1]
  have v1: "verify_change_store ?e s1 = Inr ()"
    using change_inv_verify [OF iv1] by (simp add: o1 unproven_def PROVEN_def r1)
  have m1: "map_of (cs_operations s1) ''op'' = Some r1" "op_state r1 \<in> LOCK_REQUIRED" by (simp_all add: o1 LOCK_REQUIRED_def r1)
  with change_invD(5) [OF iv1] obtain x where x: "map_of (cs_locks s1) (op_target r1) = Some x" "lk_operation x = ''op''"
    unfolding locks_ok_def by blast
  define t where "t = simple_spec {Applied, RecoveryRequired} RollingBack [] (Some ''rollback'') True"
  define r2 where "r2 = moved_operation ?e t ''op'' (le_now ?l) r1"
  have sp: "tr_target t = RollingBack" "tr_allowed t = {Applied, RecoveryRequired}" "tr_columns t = []" "tr_lock t = True"
    "tr_source_phase t = None" "tr_recovery t = None" by (simp_all add: simple_spec_def t_def)
  have "op_target r2 = op_target r1" using moved_operation_keeps(1) [of r1 ?e t] by (simp add: op_same_def r2_def)
  with x have "\<exists>u. set_lock ?e ''t5'' ''op'' r2 (tr_lock t) (le_now ?l) (s1\<lparr>cs_operations := dict_set ''op'' r2 (cs_operations s1)\<rparr>) = Inr u"
    by (intro set_lock_total [of _ _ x]) simp_all
  then obtain u where u: "set_lock ?e ''t5'' ''op'' r2 (tr_lock t) (le_now ?l) (s1\<lparr>cs_operations := dict_set ''op'' r2 (cs_operations s1)\<rparr>) = Inr u" ..
  define s2 where "s2 = add_audit ?e ''t5'' (ce_iso ?e (le_now ?l)) ''operation'' ''op'' (change_state_text (tr_target t)) (operation_json ''op'' r2) u"
  have m: "mark_rolling_back ?e ''t5'' ''op'' ?l s1 = Inr (r2, s2)"
    unfolding mark_rolling_back_def t_def [symmetric] s2_def r2_def
    by (rule transition_moveI) (use u m1 r1 in \<open>simp_all add: ids sp r2_def\<close>)
  note iv2 = cs.reach_inv [OF reach_step [OF reach1 step_lease [OF lease_call.intros(6) m]]]
  have "cs_operations s2 = [(''op'', r2)]" by (simp add: s2_def set_lock_tables [OF u] o1 dict_set_def)
  moreover have "unproven r2" using r1(2)
    by (simp add: unproven_def PROVEN_def r2_def moved_operation_def simple_spec_def transition_phase_def t_def)
  ultimately have "verify_change_store ?e s2 = change_corrupt" using change_inv_verify [OF iv2] by simp
  then have "open_change_store ?e None s2 = change_corrupt" using change_invD(1) [OF iv2] by (simp add: open_change_store_def)
  with reach1 v1 m show ?thesis by blast
qed

text \<open>C11: no write without a human. Every operation of every reachable store rests on one approval that a configured
  key signed for exactly the proposal the operation executes, target and policy decision included; no two operations
  share an approval or a policy decision.\<close>

theorem change_human_authority:
  assumes "reach (change_start e) (change_step e) s" and "map_of (cs_operations s) i = Some r"
  shows "(\<exists>p a issued expires k.
      map_of (cs_proposals s) (op_proposal_id r) = Some p \<and> map_of (cs_approvals s) (op_approval_id r) = Some a
      \<and> approval_subject_digest e (proposal_subject e (cm_store_id (cs_meta s)) (proposal_fields (pr_record p))) = Inr (pr_subject_digest p)
      \<and> trusted_envelope e (cx_trust e) (ar_envelope a) (pr_subject_digest p) issued expires k
      \<and> op_target r = pr_target p \<and> jget (pr_record p) ''policyDecisionDigest'' = JStr (op_policy_digest r)
      \<and> ar_consumed a \<and> ar_operation a = Some i)
    \<and> (\<forall>j r'. map_of (cs_operations s) j = Some r' \<and> j \<noteq> i
        \<longrightarrow> op_approval_id r' \<noteq> op_approval_id r \<and> op_policy_digest r' \<noteq> op_policy_digest r)"
proof -
  note iv = change_invD [OF cs.reach_inv [OF assms(1)]]
  note rows = rows_okD [OF iv(4)]
  from rows(5) [OF assms(2)] obtain p a where p: "map_of (cs_proposals s) (op_proposal_id r) = Some p" "op_target r = pr_target p"
      "jget (pr_record p) ''policyDecisionDigest'' = JStr (op_policy_digest r)"
    and a: "map_of (cs_approvals s) (op_approval_id r) = Some a" "ar_operation a = Some i" "ar_consumed a" "ar_proposal_id a = op_proposal_id r"
    unfolding op_links_def by blast
  from rows(3) [OF a(1)] p(1) a(4) have sd: "ar_subject_digest a = pr_subject_digest p" by (simp add: approval_links_def)
  from rows(2) [OF a(1)] sd obtain issued expires k
    where t: "trusted_envelope e (cx_trust e) (ar_envelope a) (pr_subject_digest p) issued expires k"
    unfolding approval_local_def by auto
  from rows(1) [OF p(1)] have d: "approval_subject_digest e (proposal_subject e (cm_store_id (cs_meta s)) (proposal_fields (pr_record p)))
      = Inr (pr_subject_digest p)"
    unfolding verify_proposal_def
    by (auto elim!: bindE_InrE dest: validated_proposal_again(1) split: if_splits option.splits)
  have "op_approval_id r' \<noteq> op_approval_id r" if "map_of (cs_operations s) j = Some r'" "j \<noteq> i" for j r'
    using rows(5) [OF that(1)] that(2) a by (auto simp: op_links_def)
  moreover have "op_policy_digest r' \<noteq> op_policy_digest r" if "map_of (cs_operations s) j = Some r'" "j \<noteq> i" for j r'
    using iv(6) that assms(2) unfolding policies_once_def by blast
  ultimately show ?thesis using p a t d by blast
qed

theorem change_human_authority_witness:
  "\<exists>s r p. demo_prepared = Inr s \<and> map_of (cs_operations s) ''op'' = Some r
     \<and> map_of (cs_proposals s) (op_proposal_id r) = Some p \<and> op_target r = pr_target p"
proof -
  obtain s r where s: "demo_prepared = Inr s" and r: "cs_operations s = [(''op'', r)]" using demo_prepared_ex by blast
  then have m: "map_of (cs_operations s) ''op'' = Some r" by simp
  from change_human_authority [OF demo_prepared_reach [OF s] m] s m show ?thesis by blast
qed

text \<open>C34: one writer per target. In every reachable store an unsettled operation holds the active lock of its target, so two
  unsettled operations on the same target are the same operation; and an operation that is committed, rolled back or
  failed keeps its row in every later store, whatever else the store holds.\<close>

theorem change_target_exclusive:
  assumes "reach (change_start e) (change_step e) s"
  shows "(\<forall>i r. map_of (cs_operations s) i = Some r \<and> op_state r \<in> LOCK_REQUIRED \<longrightarrow>
        (\<exists>l. map_of (cs_locks s) (op_target r) = Some l \<and> lk_active l \<and> lk_operation l = i)
        \<and> (\<forall>j r'. map_of (cs_operations s) j = Some r' \<and> op_state r' \<in> LOCK_REQUIRED \<and> op_target r' = op_target r \<longrightarrow> j = i))
    \<and> (\<forall>j r' t. map_of (cs_operations s) j = Some r' \<and> op_state r' \<in> {Committed, RolledBack, ChangeFailed} \<and> (change_step e)\<^sup>*\<^sup>* s t
        \<longrightarrow> map_of (cs_operations t) j = Some r')"
proof -
  have l: "\<exists>l. map_of (cs_locks s) (op_target x) = Some l \<and> lk_active l \<and> lk_operation l = j"
    if "map_of (cs_operations s) j = Some x" "op_state x \<in> LOCK_REQUIRED" for j x
    using that change_invD(5) [OF cs.reach_inv [OF assms]] unfolding locks_ok_def by blast
  have "map_of (cs_operations t) j = Some r'"
    if "map_of (cs_operations s) j = Some r'" "op_state r' \<in> {Committed, RolledBack, ChangeFailed}" "(change_step e)\<^sup>*\<^sup>* s t" for j r' t
  proof -
    from change_steps_later [OF that(3)] that(1) obtain x where "map_of (cs_operations t) j = Some x" "op_later r' x"
      unfolding store_later_def by blast
    moreover have "op_state r' \<notin> LOCK_REQUIRED" using that(2) by (auto simp: LOCK_REQUIRED_def)
    ultimately show ?thesis by (simp add: op_later_def)
  qed
  moreover have "j = i" if "map_of (cs_operations s) i = Some r" "op_state r \<in> LOCK_REQUIRED"
      "map_of (cs_operations s) j = Some r'" "op_state r' \<in> LOCK_REQUIRED" "op_target r' = op_target r" for i r j r'
    using l [OF that(3,4)] l [OF that(1,2)] that(5) by auto
  ultimately show ?thesis using l by blast
qed

text \<open>The worker of the demonstration fails its operation, and another one then claims it in vain.\<close>

definition demo_lease :: lease where
  "demo_lease = \<lparr>le_owner = ''w'', le_token = ''token'', le_epoch = 1, le_now = 20\<rparr>"

lemma demo_failed_ex:
  assumes "demo_prepared = Inr s"
  shows "\<exists>r t. mark_failed demo_change_env (demo_hex CHR ''f'') ''t4'' ''op'' demo_lease s = Inr (r, t) \<and> op_state r = ChangeFailed
    \<and> map_of (cs_operations t) ''op'' = Some r"
proof -
  obtain r where r: "cs_operations s = [(''op'', r)]" "op_state r = Prepared" "op_epoch r = 1" "op_until r = Some 1000010"
      "op_owner r = Some ''w''" "op_token r = Some (lease_digest demo_change_env ''token'')"
    using demo_prepared_ex unfolding assms sum.inject by blast
  have "op_state r \<in> LOCK_REQUIRED" by (simp add: r LOCK_REQUIRED_def)
  with r(1) obtain l where l: "map_of (cs_locks s) (op_target r) = Some l"
    using change_invD(5) [OF cs.reach_inv [OF demo_prepared_reach [OF assms]]] unfolding locks_ok_def by fastforce
  have k: "change_id (JStr ''op'') = Inr ''op''" "change_id (JStr ''w'') = Inr ''w''"
    "change_digest (JStr (demo_hex CHR ''f'')) = Inr (demo_hex CHR ''f'')"
    by code_simp+
  show ?thesis
    by (simp add: mark_failed_def transition_def simple_spec_def demo_lease_def k r NONTERMINAL_def require_lease_def Let_def
        moved_operation_def transition_phase_def set_lock_def l) (simp add: demo_change_env_def)
qed

theorem change_target_exclusive_witness:
  "\<exists>s l r t u. demo_prepared = Inr s \<and> map_of (cs_locks s) (demo_hex CHR ''5'') = Some l \<and> lk_active l
     \<and> mark_failed demo_change_env (demo_hex CHR ''f'') ''t4'' ''op'' demo_lease s = Inr (r, t) \<and> op_state r = ChangeFailed
     \<and> claim_operation demo_change_env ''t5'' ''fresh'' ''op'' ''v'' 2000000 1 t = Inr (r, u) \<and> map_of (cs_operations u) ''op'' = Some r"
proof -
  obtain s r0 where s: "demo_prepared = Inr s" and r0: "cs_operations s = [(''op'', r0)]" "op_state r0 = Prepared"
      "op_target r0 = demo_hex CHR ''5''" using demo_prepared_ex by blast
  then have m: "map_of (cs_operations s) ''op'' = Some r0" and l: "op_state r0 \<in> LOCK_REQUIRED" by (simp_all add: LOCK_REQUIRED_def)
  from change_target_exclusive [OF demo_prepared_reach [OF s]] m l r0(3)
  obtain k where k: "map_of (cs_locks s) (demo_hex CHR ''5'') = Some k" "lk_active k" by metis
  from demo_failed_ex [OF s] obtain r t where f: "mark_failed demo_change_env (demo_hex CHR ''f'') ''t4'' ''op'' demo_lease s = Inr (r, t)"
    and r: "op_state r = ChangeFailed" "map_of (cs_operations t) ''op'' = Some r" by blast
  have reach: "reach (change_start demo_change_env) (change_step demo_change_env) t"
    by (rule reach_step [OF demo_prepared_reach [OF s] step_lease [OF lease_call.intros(8) f]])
  have v: "change_id (JStr ''v'') = Inr ''v''" by code_simp
  have c: "claim_operation demo_change_env ''t5'' ''fresh'' ''op'' ''v'' 2000000 1 t = Inr (r, t)"
    by (simp add: claim_operation_def v r NONTERMINAL_def)
  have "map_of (cs_operations t) ''op'' = Some r"
    using change_target_exclusive [OF reach] r r_into_rtranclp [of "change_step demo_change_env", OF step_claim [OF c]] by blast
  with s k f r c show ?thesis by blast
qed

text \<open>The write budget holds. In every reachable store the operations of a run are no more than the
  \<open>maxOperations\<close> that a registered proposal of one of them allows.\<close>

lemma change_budget_holds:
  assumes "reach (change_start e) (change_step e) s" and "map_of (cs_operations s) i = Some r"
  shows "\<exists>j r' p policy n. map_of (cs_operations s) j = Some r' \<and> op_run_id r' = op_run_id r
    \<and> map_of (cs_proposals s) (op_proposal_id r') = Some p \<and> proposal_authority p = Inr (policy, n)
    \<and> int (run_count (cs_operations s) (op_run_id r)) \<le> n"
proof -
  from map_of_SomeD [OF assms(2)] have "run_count (cs_operations s) (op_run_id r) \<noteq> 0"
    by (auto simp: run_count_def filter_empty_conv)
  with cb.reach_inv [OF assms(1)] show ?thesis unfolding within_budget_def by metis
qed

text \<open>C35: a lease that was taken over is fenced for good. After a claim, in every later store, no call that
  presents a lease of an earlier epoch changes anything, and the check before commit I/O refuses it.\<close>

theorem change_lease_fenced:
  assumes "map_of (cs_operations s) i = Some r" and "op_state r \<in> LOCK_REQUIRED"
    and "claim_operation e tx token i owner now secs s = Inr (r', s')" and "(change_step e)\<^sup>*\<^sup>* s' t" and "le_epoch l \<le> op_epoch r"
  shows "(\<forall>m tx' x t'. lease_call e m \<longrightarrow> m tx' i l t = Inr (x, t') \<longrightarrow> t' = t)
    \<and> (\<forall>st. assert_operation_lease e i l st t \<noteq> Inr ())"
proof -
  from assms(3,1,2) have n: "map_of (cs_operations s') i = Some r'" "op_epoch r' = op_epoch r + 1"
    by (cases rule: claim_operation_cases; simp)+
  from change_steps_later [OF assms(4)] n(1) obtain y where y: "map_of (cs_operations t) i = Some y" "op_later r' y"
    unfolding store_later_def by blast
  with n(2) assms(5) have "op_epoch y \<noteq> le_epoch l" by (simp add: op_later_def)
  then have f: "require_lease e l y = change_error ''ECO_CHANGE_FENCED''" by (simp add: require_lease_def)
  have "t' = t" if "lease_call e m" "m tx' i l t = Inr (x, t')" for m tx' x t'
    using that
  proof (cases rule: lease_call_cases)
    case (transition sp)
    from transition(2) show ?thesis by (cases rule: transition_cases) (use y f in auto)
  next
    case (conflict reason)
    then show ?thesis by (cases rule: record_recovery_conflict_cases) (use y f in auto)
  qed
  moreover have "assert_operation_lease e i l st t \<noteq> Inr ()" for st
    using y f by (auto simp: assert_operation_lease_def split: if_splits)
  ultimately show ?thesis by blast
qed

theorem change_lease_fenced_witness:
  "\<exists>s r r' s' l. demo_prepared = Inr s \<and> map_of (cs_operations s) ''op'' = Some r
     \<and> claim_operation demo_change_env ''t4'' ''fresh'' ''op'' ''v'' 2000000 1 s = Inr (r', s') \<and> le_epoch l = 1
     \<and> assert_operation_lease demo_change_env ''op'' l Applying s' \<noteq> Inr ()"
proof -
  obtain s r where s: "demo_prepared = Inr s" and r: "cs_operations s = [(''op'', r)]" "op_state r = Prepared" "op_epoch r = 1"
      "op_until r = Some 1000010" using demo_prepared_ex by blast
  then have m: "map_of (cs_operations s) ''op'' = Some r" and st: "op_state r \<in> LOCK_REQUIRED" by (simp_all add: LOCK_REQUIRED_def)
  have v: "change_id (JStr ''v'') = Inr ''v''" by code_simp
  obtain r' s' where c: "claim_operation demo_change_env ''t4'' ''fresh'' ''op'' ''v'' 2000000 1 s = Inr (r', s')"
    by (simp add: claim_operation_def v m r NONTERMINAL_def Let_def demo_change_env_def)
  let ?l = "\<lparr>le_owner = ''w'', le_token = ''token'', le_epoch = 1, le_now = 20\<rparr>"
  have "le_epoch ?l \<le> op_epoch r" by (simp add: r)
  from change_lease_fenced [OF m st c rtranclp.rtrancl_refl this] have "assert_operation_lease demo_change_env ''op'' ?l Applying s' \<noteq> Inr ()"
    by blast
  moreover have "le_epoch ?l = 1" by simp
  ultimately show ?thesis using s m c by blast
qed

end
