(* ===== verification/Eco_Contracts.thy ===== *)
theory Eco_Contracts
  imports Eco_Approval
begin

text \<open>
  The record contracts of the runtime, \<open>src/src/eco_runtime/contracts.py\<close>, and what
  \<open>src/src/eco_runtime/repository.py\<close> checks about repository paths and snapshots. A record is a raw JSON
  value. The schemas are parameters: the text of every structural error, in the order the code sorts them.
  The Unicode tables behind \<open>str.casefold\<close> and NFC, \<open>json.loads\<close> and the checks of the authority
  records are parameters too. A member that a schema requires is read with \<open>jat\<close>, which answers \<open>null\<close> where
  Python would raise for a missing one.
\<close>

section \<open>Reading JSON\<close>

fun jat :: "json \<Rightarrow> string list \<Rightarrow> json" where
  "jat v [] = v"
| "jat (JObj d) (k # ks) = jat (jget d k) ks"
| "jat v (k # ks) = JNull"

fun the_int :: "json \<Rightarrow> int" where
  "the_int (JInt n) = n"
| "the_int v = 0"

fun the_list :: "json \<Rightarrow> json list" where
  "the_list (JList vs) = vs"
| "the_list v = []"

fun the_obj :: "json \<Rightarrow> obj" where
  "the_obj (JObj d) = d"
| "the_obj v = []"

fun is_obj :: "json \<Rightarrow> bool" where
  "is_obj (JObj d) = True"
| "is_obj v = False"

text \<open>Dictionaries are equal in Python whatever the order of their keys.\<close>

definition json_eq :: "json \<Rightarrow> json \<Rightarrow> bool" where
  "json_eq v w \<longleftrightarrow> sort_keys v = sort_keys w"

fun split_on :: "char \<Rightarrow> string \<Rightarrow> string list" where
  "split_on c [] = [[]]"
| "split_on c (x # xs) = (if x = c then [] # split_on c xs
     else (case split_on c xs of [] \<Rightarrow> [[x]] | s # ss \<Rightarrow> (x # s) # ss))"

text \<open>\<open>{f"A{level}": level for level in range(5)}\<close> and its siblings for \<open>D\<close> and \<open>P\<close>.\<close>

definition level_of :: "char \<Rightarrow> json \<Rightarrow> int option" where
  "level_of c v = map_of (map (\<lambda>(d, n). (JStr [c, d], n)) [(CHR ''0'', 0), (CHR ''1'', 1), (CHR ''2'', 2), (CHR ''3'', 3), (CHR ''4'', 4)]) v"

definition level_get :: "char \<Rightarrow> json \<Rightarrow> int \<Rightarrow> int" where
  "level_get c v n0 = (case level_of c v of None \<Rightarrow> n0 | Some n \<Rightarrow> n)"

section \<open>Contracts\<close>

record contract_env = clock_env +
  kx_structural :: "string \<Rightarrow> json \<Rightarrow> string list"
  kx_tool_structural :: "string \<Rightarrow> json \<Rightarrow> string list"
  kx_authority_errors :: "json \<Rightarrow> string list"
  kx_loads :: "string \<Rightarrow> json option"
  kx_nfc :: "string \<Rightarrow> string"
  kx_casefold :: "string \<Rightarrow> string"

definition RUNTIME_KINDS :: "string set" where
  "RUNTIME_KINDS = {''RunRequest'', ''RunPlan'', ''NoModelRunRequest'', ''NoModelRunPlan'', ''NoModelReadRequest'',
     ''WikiHealthRunEvidence'', ''WikiHealthPromotionReport'', ''ToolRequest'', ''PolicyDecision'', ''RunEvent'',
     ''ArtifactRecord'', ''ErrorRecord'', ''AdapterConformanceProfile'', ''PlatformBackendConformanceProfile'',
     ''EndpointBinding'', ''ModelRequest'', ''ModelResult'', ''RepositorySnapshot'', ''ToolExecutionIntent'',
     ''RepositoryReadReceipt'', ''ToolExecutionOutcome'', ''RunCheckpoint'', ''WorkspaceChangeProposal'', ''ApprovalRequest'',
     ''ApprovalGrant'', ''WorkspaceWriteIntent'', ''WorkspaceWriteReceipt'', ''WorkspaceRollbackReceipt''}"

definition AUTHORITY_KINDS :: "string set" where
  "AUTHORITY_KINDS = {''PrincipalIdentity'', ''TeamIdentity'', ''MembershipBinding'', ''IdentityKey'', ''TeamAccessPolicy'',
     ''ApprovalProfile'', ''TeamPolicyBundle''}"

definition TOOL_ARGUMENT_TOOLS :: "string set" where
  "TOOL_ARGUMENT_TOOLS = {''repository.read'', ''repository.write''}"

definition PLATFORM_BACKEND_PROBE_IDS :: "string list" where
  "PLATFORM_BACKEND_PROBE_IDS = [''clean-environment-and-fs-boundary'', ''network-namespace-deny'', ''output-and-deadline-bounds'',
     ''read-only-workdir'', ''stdin-closed'']"

definition PLATFORM_BACKEND_CAPABILITIES :: "string list" where
  "PLATFORM_BACKEND_CAPABILITIES = [''backend.clean-environment'', ''backend.landlock-workdir-boundary'',
     ''backend.network-namespace-deny'', ''backend.output-deadline-bounded'', ''backend.read-only-workdir'',
     ''backend.stdin-closed'']"

definition PLATFORM_CONTEXT :: "(string \<times> string) list" where
  "PLATFORM_CONTEXT = [(''linux-native'', ''native''), (''wsl'', ''wsl''), (''macos'', ''native''), (''windows-native'', ''native''),
     (''container'', ''container''), (''hosted-ci'', ''hosted-ci'')]"

definition json_texts :: "string list \<Rightarrow> json" where
  "json_texts xs = JList (map JStr xs)"

definition list_truthy :: "json \<Rightarrow> bool" where
  "list_truthy v \<longleftrightarrow> the_list v \<noteq> []"

definition platform_status_wrong :: "json \<Rightarrow> bool" where
  "platform_status_wrong spec =
     (let statuses = map (\<lambda>p. jat p [''status'']) (the_list (jat spec [''probes''])); status = jat spec [''status''];
          capabilities = jat spec [''observedCapabilities'']; deviations = jat spec [''deviationCodes''] in
      (status = JStr ''pass'' \<and> (list_ex (\<lambda>x. x \<noteq> JStr ''pass'') statuses
         \<or> capabilities \<noteq> json_texts PLATFORM_BACKEND_CAPABILITIES \<or> list_truthy deviations))
      \<or> (status = JStr ''fail'' \<and> (\<not> list_ex (\<lambda>x. x = JStr ''fail'') statuses \<or> list_ex (\<lambda>x. x = JStr ''not-run'') statuses
         \<or> list_truthy capabilities \<or> \<not> list_truthy deviations))
      \<or> (status = JStr ''unsupported'' \<and> (list_ex (\<lambda>x. x \<noteq> JStr ''not-run'') statuses \<or> list_truthy capabilities
         \<or> \<not> list_truthy deviations)))"

definition platform_errors :: "json \<Rightarrow> string list result" where
  "platform_errors d =
     (let spec = jat d [''spec'']; platform = jat spec [''platform'']; i = jat platform [''id''];
          fault = (\<lambda>c text. if c then [''PlatformBackendConformanceProfile$.'' @ text @ '': failed validation''] else []) in
      case (if is_JStr i then map_of PLATFORM_CONTEXT (the_str i) else None) of
        None \<Rightarrow> Inl PyKeyError
      | Some expected \<Rightarrow> Inr (
          fault (jat d [''metadata'', ''platformProfileId''] \<noteq> i) ''metadata.platformProfileId''
          @ fault (jat platform [''context''] \<noteq> JStr expected) ''spec.platform.context''
          @ fault (jat spec [''status''] \<in> {JStr ''pass'', JStr ''fail''}
              \<and> \<not> (i \<in> {JStr ''linux-native'', JStr ''wsl''} \<and> jat platform [''operatingSystem''] = JStr ''linux''
                 \<and> jat platform [''architecture''] \<in> {JStr ''x86_64'', JStr ''aarch64''})) ''spec.platform''
          @ fault (jat spec [''suite'', ''probeIds''] \<noteq> json_texts PLATFORM_BACKEND_PROBE_IDS) ''spec.suite.probeIds''
          @ fault (map (\<lambda>p. jat p [''id'']) (the_list (jat spec [''probes''])) \<noteq> map JStr PLATFORM_BACKEND_PROBE_IDS) ''spec.probes''
          @ fault (platform_status_wrong spec) ''spec.status''))"

definition contract_errors :: "'a contract_env_scheme \<Rightarrow> json \<Rightarrow> string list result" where
  "contract_errors e d =
     (case d of
        JObj m \<Rightarrow>
          (case jget m ''kind'' of
             JStr kind \<Rightarrow>
               if kind \<notin> RUNTIME_KINDS \<and> kind \<notin> AUTHORITY_KINDS then Inr [''record$.kind: is not a supported record kind'']
               else if kind \<in> AUTHORITY_KINDS then Inr (kx_authority_errors e d)
               else if kx_structural e kind d \<noteq> [] \<or> kind \<noteq> ''PlatformBackendConformanceProfile'' then Inr (kx_structural e kind d)
               else platform_errors d
           | _ \<Rightarrow> Inr [''record$.kind: is not a supported record kind''])
      | _ \<Rightarrow> Inr [''record$: has the wrong type''])"

definition validate_runtime_record :: "'a contract_env_scheme \<Rightarrow> json \<Rightarrow> unit result" where
  "validate_runtime_record e d = bindE (contract_errors e d) (\<lambda>errors. if errors \<noteq> [] then Inl ContractValidationError else Inr ())"

text \<open>A path is canonical and relative; \<open>ord\<close> below 32 and 127 are single bytes in UTF-8.\<close>

definition invalid_path :: "'a contract_env_scheme \<Rightarrow> string \<Rightarrow> bool" where
  "invalid_path e path \<longleftrightarrow> length path > 4096 \<or> path = ''.'' \<or> prefix ''./'' path \<or> suffix ''/'' path \<or> sublist ''//'' path
     \<or> list_ex (\<lambda>s. s \<in> {'''', ''.'', ''..''}) (split_on CHR ''/'' path)
     \<or> list_ex (\<lambda>c. of_char c < (32 :: nat) \<or> of_char c = (127 :: nat)) path \<or> kx_nfc e path \<noteq> path"

definition tool_argument_errors :: "'a contract_env_scheme \<Rightarrow> string \<Rightarrow> json \<Rightarrow> string list" where
  "tool_argument_errors e tool arguments =
     (if tool \<notin> TOOL_ARGUMENT_TOOLS then [''tool$: is not a supported runtime tool'']
      else if kx_tool_structural e tool arguments \<noteq> [] then kx_tool_structural e tool arguments
      else if invalid_path e (the_str (jat arguments [''path'']))
      then [tool @ ''$.path: is not a canonical repository-relative path''] else [])"

section \<open>Repository paths and snapshots\<close>

definition PROTECTED_SEGMENTS :: "string set" where
  "PROTECTED_SEGMENTS = {''.git'', ''.hg'', ''.svn'', ''.ssh'', ''.aws'', ''.docker'', ''.kube'', ''secrets''}"

definition PROTECTED_NAMES :: "string set" where
  "PROTECTED_NAMES = {''.env'', ''.netrc'', ''.npmrc'', ''.pypirc'', ''id_rsa'', ''id_dsa'', ''id_ecdsa'', ''id_ed25519'',
     ''credentials'', ''credentials.json'', ''service-account.json'', ''secrets.json'', ''secrets.yaml'', ''secrets.yml''}"

definition PROTECTED_SUFFIXES :: "string list" where
  "PROTECTED_SUFFIXES = [''.pem'', ''.key'', ''.p12'', ''.pfx'', ''.kdbx'']"

definition protected_repository_path :: "'a contract_env_scheme \<Rightarrow> string \<Rightarrow> bool" where
  "protected_repository_path e path =
     (let lowered = map (kx_casefold e) (split_on CHR ''/'' path); name = last lowered in
      list_ex (\<lambda>s. s \<in> PROTECTED_SEGMENTS) lowered \<or> prefix ''.env.'' name \<or> name \<in> PROTECTED_NAMES
      \<or> list_ex (\<lambda>s. suffix s name) PROTECTED_SUFFIXES)"

abbreviation snapshot_invalid :: "'a result" where
  "snapshot_invalid \<equiv> Inl (RuntimePolicyError ''ECO_REPOSITORY_SNAPSHOT_INVALID'')"

text \<open>The entries by path, in the order of the snapshot.\<close>

fun add_entries ::
    "'a contract_env_scheme \<Rightarrow> json \<Rightarrow> (string \<times> json) list \<Rightarrow> json list \<Rightarrow> (string \<times> json) list result" where
  "add_entries e trust acc [] = Inr acc"
| "add_entries e trust acc (entry # rest) =
     (let path = the_str (jat entry [''path'']) in
      if path \<in> dict_keys acc \<or> tool_argument_errors e ''repository.read'' (JObj [(''path'', JStr path)]) \<noteq> [] then snapshot_invalid
      else case (level_of CHR ''P'' (jat entry [''trust'']), level_of CHR ''P'' trust) of
        (Some m, Some n) \<Rightarrow> if m > n then snapshot_invalid else add_entries e trust (acc @ [(path, entry)]) rest
      | _ \<Rightarrow> Inl PyKeyError)"

definition repository_snapshot_entries ::
    "'a contract_env_scheme \<Rightarrow> json \<Rightarrow> json option \<Rightarrow> (string \<times> json) list result" where
  "repository_snapshot_entries e snapshot project =
     (case validate_runtime_record e snapshot of
        Inl ContractValidationError \<Rightarrow> snapshot_invalid
      | Inl err \<Rightarrow> Inl err
      | Inr _ \<Rightarrow>
          if project \<noteq> None \<and> Some (jat snapshot [''metadata'', ''projectId'']) \<noteq> project then snapshot_invalid
          else add_entries e (jat snapshot [''spec'', ''trust'']) [] (the_list (jat snapshot [''spec'', ''entries''])))"

section \<open>Facts\<close>

lemma jget_Cons: "jget ((k, v) # d) l = (if k = l then v else jget d l)"
  by (simp add: jget_def)

lemma jat_Cons: "jat v (k # ks) = jat (jget (the_obj v) k) ks"
proof -
  have "jat JNull ks = JNull" by (cases ks) simp_all
  then show ?thesis by (cases v) (simp_all add: jget_def)
qed

lemma jat_append: "jat v (ks @ ls) = jat (jat v ks) ls"
  by (induction ks arbitrary: v) (simp_all add: jat_Cons)

lemma level_of_Some: "level_of c v = Some n \<Longrightarrow> 0 \<le> n \<and> n \<le> 4"
  unfolding level_of_def by (auto split: if_splits)

lemma validate_runtime_record_Inr: "validate_runtime_record e d = Inr u \<longleftrightarrow> contract_errors e d = Inr []"
  by (cases "contract_errors e d") (auto simp: validate_runtime_record_def)

text \<open>Every path of an accepted snapshot is canonical, occurs once, and is no more trusted than the snapshot.\<close>

definition entry_ok :: "'a contract_env_scheme \<Rightarrow> json \<Rightarrow> string \<times> json \<Rightarrow> bool" where
  "entry_ok e trust x \<longleftrightarrow> fst x = the_str (jat (snd x) [''path''])
     \<and> tool_argument_errors e ''repository.read'' (JObj [(''path'', JStr (fst x))]) = []
     \<and> (\<exists>m n. level_of CHR ''P'' (jat (snd x) [''trust'']) = Some m \<and> level_of CHR ''P'' trust = Some n \<and> m \<le> n)"

lemma add_entries_ok:
  assumes "add_entries e trust acc es = Inr d" and "distinct (map fst acc)" and "\<forall>x \<in> set acc. entry_ok e trust x"
  shows "distinct (map fst d) \<and> (\<forall>x \<in> set d. entry_ok e trust x) \<and> map snd d = map snd acc @ es"
  using assms
proof (induction es arbitrary: acc)
  case (Cons entry es)
  let ?p = "the_str (jat entry [''path''])"
  from Cons.prems(1) obtain m n where fresh: "?p \<notin> dict_keys acc"
    and a: "tool_argument_errors e ''repository.read'' (JObj [(''path'', JStr ?p)]) = []"
    and l: "level_of CHR ''P'' (jat entry [''trust'']) = Some m" "level_of CHR ''P'' trust = Some n" "m \<le> n"
    and r: "add_entries e trust (acc @ [(?p, entry)]) es = Inr d"
    by (auto simp: Let_def split: option.splits if_splits)
  have "entry_ok e trust (?p, entry)" using a l by (simp add: entry_ok_def)
  with Cons.IH [OF r] Cons.prems(2,3) fresh show ?case by (auto simp: dict_keys_def)
qed simp

end
