(* ===== verification/Eco_Evidence.thy ===== *)
theory Eco_Evidence
  imports Eco_Contracts
begin

text \<open>
  Trusted evidence, \<open>src/src/eco_runtime/evidence.py\<close>: signed envelopes around repository snapshots and
  conformance profiles, the trust store that opens them and the ingestor that binds them to what the
  runtime expects. An envelope is its text; the trust store reads it with \<open>json.loads\<close>, a parameter. A
  verified record stands for the text of its canonical form. The Linux snapshot generator is not modelled.

  Lemmas: what an opened envelope establishes, and that a signed envelope opens.
\<close>

section \<open>Provenance and attestations\<close>

record evidence_provenance =
  ep_envelope_id :: string
  ep_envelope_digest :: string
  ep_issuer_id :: string
  ep_key_id :: string
  ep_issued_at :: string
  ep_expires_at :: string

definition provenance_json :: "evidence_provenance \<Rightarrow> json" where
  "provenance_json p = JObj [(''envelopeId'', JStr (ep_envelope_id p)), (''envelopeDigest'', JStr (ep_envelope_digest p)),
     (''issuerId'', JStr (ep_issuer_id p)), (''keyId'', JStr (ep_key_id p)), (''issuedAt'', JStr (ep_issued_at p)),
     (''expiresAt'', JStr (ep_expires_at p))]"

abbreviation policy_error :: "string \<Rightarrow> 'a result" where
  "policy_error code \<equiv> Inl (RuntimePolicyError code)"

text \<open>\<open>_parse_timestamp\<close> of \<open>evidence.py\<close>.\<close>

definition evidence_time :: "'a clock_env_scheme \<Rightarrow> json \<Rightarrow> int result" where
  "evidence_time e v =
     (case v of JStr s \<Rightarrow> (case ce_read e s of None \<Rightarrow> policy_error ''ECO_EVIDENCE_INVALID'' | Some t \<Rightarrow> Inr t)
      | _ \<Rightarrow> policy_error ''ECO_EVIDENCE_INVALID'')"

definition auth_bytes :: "obj \<Rightarrow> string" where
  "auth_bytes body = canonical_json (JObj [(''domain'', JStr ''eco-trusted-evidence-authentication-v1''), (''payload'', JObj body)])"

text \<open>\<open>^[a-z0-9][a-z0-9._-]*$\<close> and \<open>^env:[A-Z_][A-Z0-9_]{0,127}$\<close> under \<open>fullmatch\<close>; \<open>len\<close> counts code points.\<close>

definition project_text :: "string \<Rightarrow> bool" where
  "project_text s = (s \<noteq> [] \<and> (is_lower (hd s) \<or> is_digit (hd s))
     \<and> list_all (\<lambda>c. is_lower c \<or> is_digit c \<or> c \<in> set ''._-'') (tl s))"

definition endpoint_ref_text :: "string \<Rightarrow> bool" where
  "endpoint_ref_text s = (take 4 s = ''env:'' \<and> (let r = drop 4 s in r \<noteq> [] \<and> (is_upper (hd r) \<or> hd r = CHR ''_'') \<and> length r \<le> 128
     \<and> list_all (\<lambda>c. is_upper c \<or> is_digit c \<or> c = CHR ''_'') (tl r)))"

definition text_length :: "string \<Rightarrow> nat" where
  "text_length s = length (filter (\<lambda>c. \<not> (128 \<le> (of_char c :: nat) \<and> (of_char c :: nat) < 192)) s)"

definition model_name :: "json \<Rightarrow> bool" where
  "model_name v = (case v of JStr s \<Rightarrow> 1 \<le> text_length s \<and> text_length s \<le> 512 | _ \<Rightarrow> False)"

definition text_matches :: "(string \<Rightarrow> bool) \<Rightarrow> json \<Rightarrow> bool" where
  "text_matches P v = (case v of JStr s \<Rightarrow> P s | _ \<Rightarrow> False)"

definition ATTESTATION_FIELDS :: "string set" where
  "ATTESTATION_FIELDS = {''projectId'', ''endpointRef'', ''endpointReferenceDigest'', ''resolvedEndpointDigest'',
     ''requestedModel'', ''reportedModels''}"

definition reported_ok :: "json \<Rightarrow> bool" where
  "reported_ok v = (case v of JList vs \<Rightarrow> 1 \<le> length vs \<and> length vs \<le> 16 \<and> list_all model_name vs
     \<and> map the_str vs = sort (remdups (map the_str vs)) | _ \<Rightarrow> False)"

definition evidence_attestation :: "'a clock_env_scheme \<Rightarrow> json \<Rightarrow> json result" where
  "evidence_attestation e v =
     (case v of
        JObj d \<Rightarrow>
          if dict_keys d \<noteq> ATTESTATION_FIELDS then Inl PyValueError
          else if \<not> text_matches (\<lambda>s. length s \<le> 128 \<and> project_text s) (jget d ''projectId'')
             \<or> \<not> text_matches endpoint_ref_text (jget d ''endpointRef'')
             \<or> \<not> text_matches sha256_text (jget d ''endpointReferenceDigest'')
             \<or> jget d ''endpointReferenceDigest'' \<noteq> JStr (semantic_digest (ce_sha e) (JObj [(''endpointRef'', jget d ''endpointRef'')]))
             \<or> \<not> text_matches sha256_text (jget d ''resolvedEndpointDigest'')
             \<or> \<not> model_name (jget d ''requestedModel'') \<or> \<not> reported_ok (jget d ''reportedModels'')
          then Inl PyValueError else Inr v
      | _ \<Rightarrow> Inl PyValueError)"

record binding_expectation =
  bx_project :: string
  bx_endpoint_ref :: string
  bx_endpoint_reference_digest :: string
  bx_resolved_endpoint_digest :: string
  bx_model :: string

definition new_expectation :: "'a clock_env_scheme \<Rightarrow> binding_expectation \<Rightarrow> binding_expectation result" where
  "new_expectation e x = bindE (evidence_attestation e (JObj [(''projectId'', JStr (bx_project x)),
     (''endpointRef'', JStr (bx_endpoint_ref x)), (''endpointReferenceDigest'', JStr (bx_endpoint_reference_digest x)),
     (''resolvedEndpointDigest'', JStr (bx_resolved_endpoint_digest x)), (''requestedModel'', JStr (bx_model x)),
     (''reportedModels'', JList [JStr (bx_model x)])])) (\<lambda>_. Inr x)"

section \<open>Issuers, signing and opening\<close>

record issuer_policy =
  ip_issuer_id :: string
  ip_key_id :: string
  ip_key :: string
  ip_kinds :: "string set"
  ip_projects :: "string set"
  ip_deployments :: "string set"
  ip_suites :: "string set"
  ip_platforms :: "string set"
  ip_instances :: "string set"
  ip_runners :: "string set"
  ip_implementations :: "string set"

definition new_issuer_policy :: "issuer_policy \<Rightarrow> issuer_policy result" where
  "new_issuer_policy p =
     (if \<not> safe_identifier (ip_issuer_id p) \<or> \<not> safe_identifier (ip_key_id p) \<or> length (ip_key p) < 32
         \<or> ip_kinds p = {} \<or> \<not> ip_kinds p \<subseteq> {''RepositorySnapshot'', ''AdapterConformanceProfile'', ''PlatformBackendConformanceProfile''}
         \<or> (\<exists>x \<in> ip_projects p. \<not> project_text x) \<or> (\<exists>x \<in> ip_deployments p. \<not> safe_identifier x)
         \<or> (\<exists>x \<in> ip_suites p. \<not> sha256_text x) \<or> (\<exists>x \<in> ip_platforms p. \<not> safe_identifier x)
         \<or> (\<exists>x \<in> ip_instances p. \<not> sha256_text x) \<or> (\<exists>x \<in> ip_runners p. \<not> sha256_text x)
         \<or> (\<exists>x \<in> ip_implementations p. \<not> sha256_text x)
      then Inl PyValueError else Inr p)"

record evidence_signer =
  sg_issuer_id :: string
  sg_key_id :: string
  sg_key :: string

definition new_evidence_signer :: "evidence_signer \<Rightarrow> evidence_signer result" where
  "new_evidence_signer g = (if \<not> safe_identifier (sg_issuer_id g) \<or> \<not> safe_identifier (sg_key_id g) \<or> length (sg_key g) < 32
     then Inl PyValueError else Inr g)"

definition validated_evidence_record :: "'a contract_env_scheme \<Rightarrow> json \<Rightarrow> unit result" where
  "validated_evidence_record e r =
     (case validate_runtime_record e r of
        Inl ContractValidationError \<Rightarrow> policy_error ''ECO_EVIDENCE_RECORD_INVALID'' | Inl err \<Rightarrow> Inl err | Inr _ \<Rightarrow> Inr ())"

definition evidence_subject :: "'a clock_env_scheme \<Rightarrow> json \<Rightarrow> json" where
  "evidence_subject e r = JObj [(''kind'', jat r [''kind'']), (''id'', jat r [''metadata'', ''id'']),
     (''digest'', JStr (semantic_digest (ce_sha e) r))]"

definition evidence_body ::
    "'a contract_env_scheme \<Rightarrow> evidence_signer \<Rightarrow> json \<Rightarrow> string \<Rightarrow> int \<Rightarrow> int \<Rightarrow> json option \<Rightarrow> obj" where
  "evidence_body e g r envelope_id issued expires att =
     [(''protocol'', JStr (if att = None then ''eco-trusted-evidence-v1'' else ''eco-trusted-evidence-v2'')),
      (''envelopeId'', JStr envelope_id), (''issuer'', JObj [(''id'', JStr (sg_issuer_id g)), (''keyId'', JStr (sg_key_id g))]),
      (''issuedAt'', JStr (ce_iso e issued)), (''expiresAt'', JStr (ce_iso e expires)), (''subject'', evidence_subject e r), (''record'', r)]
     @ (case att of None \<Rightarrow> [] | Some a \<Rightarrow> [(''attestation'', a)])"

definition evidence_envelope :: "'a contract_env_scheme \<Rightarrow> string \<Rightarrow> obj \<Rightarrow> obj" where
  "evidence_envelope e key body = body @ [(''signature'', JObj [(''algorithm'', JStr ''HMAC-SHA256''), (''tag'', JStr (ce_hmac e key (auth_bytes body)))])]"

definition sign_evidence ::
    "'a contract_env_scheme \<Rightarrow> evidence_signer \<Rightarrow> json \<Rightarrow> string \<Rightarrow> int \<Rightarrow> int \<Rightarrow> json option \<Rightarrow> string result" where
  "sign_evidence e g r envelope_id issued expires att =
     (if \<not> safe_identifier envelope_id then Inl PyValueError
      else bindE (validated_evidence_record e r) (\<lambda>_.
        if expires \<le> issued then policy_error ''ECO_EVIDENCE_WINDOW_INVALID''
        else bindE (case att of None \<Rightarrow> Inr () | Some a \<Rightarrow> bindE (evidence_attestation e a) (\<lambda>_. Inr ())) (\<lambda>_.
          Inr (canonical_json (JObj (evidence_envelope e (sg_key g) (evidence_body e g r envelope_id issued expires att)))))))"

type_synonym evidence_trust = "((string \<times> string) \<times> issuer_policy) list"

fun add_issuers :: "evidence_trust \<Rightarrow> issuer_policy list \<Rightarrow> evidence_trust result" where
  "add_issuers acc [] = Inr acc"
| "add_issuers acc (p # ps) = (if (ip_issuer_id p, ip_key_id p) \<in> dict_keys acc then Inl PyValueError
     else add_issuers (acc @ [((ip_issuer_id p, ip_key_id p), p)]) ps)"

definition new_evidence_trust :: "issuer_policy list \<Rightarrow> evidence_trust result" where
  "new_evidence_trust ps = bindE (add_issuers [] ps) (\<lambda>ts. if ts = [] then Inl PyValueError else Inr ts)"

definition BODY_FIELDS :: "string set" where
  "BODY_FIELDS = {''protocol'', ''envelopeId'', ''issuer'', ''issuedAt'', ''expiresAt'', ''subject'', ''record''}"

definition has_keys :: "string set \<Rightarrow> json \<Rightarrow> bool" where
  "has_keys ks v = (case v of JObj d \<Rightarrow> dict_keys d = ks | _ \<Rightarrow> False)"

abbreviation evidence_invalid :: "'a result" where
  "evidence_invalid \<equiv> Inl (RuntimePolicyError ''ECO_EVIDENCE_INVALID'')"

text \<open>The shape of an envelope. A protocol that is a list or an object raises when it is looked up in the set.\<close>

definition check_envelope_shape :: "'a contract_env_scheme \<Rightarrow> obj \<Rightarrow> obj \<Rightarrow> unit result" where
  "check_envelope_shape e envelope body =
     (let attested = ''attestation'' \<in> dict_keys body; protocol = jget body ''protocol''; signature = jget envelope ''signature'' in
      if attested \<and> \<not> returns (evidence_attestation e (jget body ''attestation'')) (\<lambda>_. True) then evidence_invalid
      else if dict_keys body \<noteq> (if attested then insert ''attestation'' BODY_FIELDS else BODY_FIELDS) then evidence_invalid
      else if \<not> hashable protocol then Inl PyTypeError
      else if protocol \<notin> {JStr ''eco-trusted-evidence-v1'', JStr ''eco-trusted-evidence-v2''}
        \<or> (protocol = JStr ''eco-trusted-evidence-v1'' \<and> attested) \<or> (protocol = JStr ''eco-trusted-evidence-v2'' \<and> \<not> attested)
        \<or> \<not> text_matches safe_identifier (jget body ''envelopeId'')
        \<or> \<not> has_keys {''id'', ''keyId''} (jget body ''issuer'') \<or> \<not> is_JStr (jat (jget body ''issuer'') [''id''])
        \<or> \<not> is_JStr (jat (jget body ''issuer'') [''keyId'']) \<or> \<not> has_keys {''kind'', ''id'', ''digest''} (jget body ''subject'')
        \<or> \<not> has_keys {''algorithm'', ''tag''} signature \<or> jat signature [''algorithm''] \<noteq> JStr ''HMAC-SHA256''
        \<or> \<not> text_matches sha256_text (jat signature [''tag''])
      then evidence_invalid else Inr ())"

definition check_envelope_window :: "'a contract_env_scheme \<Rightarrow> obj \<Rightarrow> int \<Rightarrow> int \<Rightarrow> unit result" where
  "check_envelope_window e body now skew =
     bindE (evidence_time e (jget body ''issuedAt'')) (\<lambda>issued.
     bindE (evidence_time e (jget body ''expiresAt'')) (\<lambda>expiry.
       if expiry \<le> issued \<or> issued > now + skew * 1000000 then policy_error ''ECO_EVIDENCE_WINDOW_INVALID''
       else if now \<ge> expiry then policy_error ''ECO_EVIDENCE_EXPIRED'' else Inr ()))"

definition open_body ::
    "'a contract_env_scheme \<Rightarrow> evidence_trust \<Rightarrow> obj \<Rightarrow> obj \<Rightarrow> int \<Rightarrow> int \<Rightarrow> (json \<times> issuer_policy \<times> obj) result" where
  "open_body e ts envelope body now skew =
     bindE (check_envelope_shape e envelope body) (\<lambda>_.
     case map_of ts (the_str (jat (jget body ''issuer'') [''id'']), the_str (jat (jget body ''issuer'') [''keyId''])) of
       None \<Rightarrow> policy_error ''ECO_EVIDENCE_ISSUER_UNTRUSTED''
     | Some p \<Rightarrow>
         if jat (jget envelope ''signature'') [''tag''] \<noteq> JStr (ce_hmac e (ip_key p) (auth_bytes body))
         then policy_error ''ECO_EVIDENCE_SIGNATURE_INVALID''
         else bindE (check_envelope_window e body now skew) (\<lambda>_.
           bindE (validated_evidence_record e (jget body ''record'')) (\<lambda>_.
           if the_str (jat (jget body ''record'') [''kind'']) \<notin> ip_kinds p
              \<or> \<not> json_eq (jget body ''subject'') (evidence_subject e (jget body ''record''))
           then policy_error ''ECO_EVIDENCE_BINDING_INVALID'' else Inr (jget body ''record'', p, body))))"

definition open_evidence ::
    "'a contract_env_scheme \<Rightarrow> evidence_trust \<Rightarrow> string \<Rightarrow> int \<Rightarrow> int \<Rightarrow> (json \<times> issuer_policy \<times> obj) result" where
  "open_evidence e ts encoded now skew =
     (if length encoded > 64 * 1024 * 1024 then evidence_invalid
      else case kx_loads e encoded of
        Some (JObj envelope) \<Rightarrow>
          if canonical_json (JObj envelope) \<noteq> encoded then evidence_invalid
          else open_body e ts envelope (filter (\<lambda>x. fst x \<noteq> ''signature'') envelope) now skew
      | _ \<Rightarrow> evidence_invalid)"

section \<open>The ingestor\<close>

record evidence_ingestor =
  in_trust :: evidence_trust
  in_snapshot_age :: int
  in_observation_age :: int
  in_skew :: int
  in_seen :: "(string \<times> string) list"

definition new_ingestor :: "evidence_trust \<Rightarrow> int \<Rightarrow> int \<Rightarrow> int \<Rightarrow> evidence_ingestor result" where
  "new_ingestor ts snapshot_age observation_age skew =
     (if snapshot_age < 1 \<or> observation_age < 1 \<or> skew < 0 then Inl PyValueError
      else Inr \<lparr>in_trust = ts, in_snapshot_age = snapshot_age, in_observation_age = observation_age, in_skew = skew, in_seen = []\<rparr>)"

text \<open>An identifier that was seen stays seen, also when a later check refuses the record.\<close>

definition ingestor_open ::
    "'a contract_env_scheme \<Rightarrow> string \<Rightarrow> int \<Rightarrow> (json \<times> issuer_policy \<times> obj, evidence_ingestor) act" where
  "ingestor_open e encoded now g =
     (case open_evidence e (in_trust g) encoded now (in_skew g) of
        Inl err \<Rightarrow> (Inl err, g)
      | Inr (r, p, body) \<Rightarrow>
          let i = the_str (jget body ''envelopeId''); digest = ce_sha e encoded in
          if map_of (in_seen g) i \<noteq> None \<and> map_of (in_seen g) i \<noteq> Some digest
          then (policy_error ''ECO_EVIDENCE_ID_CONFLICT'', g)
          else (Inr (r, p, body), g\<lparr>in_seen := dict_set i digest (in_seen g)\<rparr>))"

definition verified_evidence :: "'a clock_env_scheme \<Rightarrow> json \<Rightarrow> obj \<Rightarrow> string \<Rightarrow> json \<times> evidence_provenance" where
  "verified_evidence e r body encoded = (r, \<lparr>ep_envelope_id = the_str (jget body ''envelopeId''), ep_envelope_digest = ce_sha e encoded,
     ep_issuer_id = the_str (jat (jget body ''issuer'') [''id'']), ep_key_id = the_str (jat (jget body ''issuer'') [''keyId'']),
     ep_issued_at = the_str (jget body ''issuedAt''), ep_expires_at = the_str (jget body ''expiresAt'')\<rparr>)"

definition excluded_by :: "string set \<Rightarrow> string \<Rightarrow> bool" where
  "excluded_by allowed x \<longleftrightarrow> allowed \<noteq> {} \<and> x \<notin> allowed"

text \<open>The checks of a record after its envelope was opened.\<close>

definition check_snapshot ::
    "'a contract_env_scheme \<Rightarrow> evidence_ingestor \<Rightarrow> string \<Rightarrow> string \<Rightarrow> int \<Rightarrow> json \<Rightarrow> issuer_policy \<Rightarrow> obj \<Rightarrow> unit result" where
  "check_snapshot e g project root now r p body =
     (if jat r [''kind''] \<noteq> JStr ''RepositorySnapshot'' then policy_error ''ECO_EVIDENCE_KIND_INVALID''
      else bindE (evidence_time e (jat r [''metadata'', ''createdAt''])) (\<lambda>created.
        if jat r [''metadata'', ''projectId''] \<noteq> JStr project \<or> excluded_by (ip_projects p) project
           \<or> jat r [''spec'', ''rootIdentityDigest''] \<noteq> JStr root
           \<or> jat r [''metadata'', ''issuer'', ''id''] \<noteq> jat (jget body ''issuer'') [''id'']
           \<or> created > now + in_skew g * 1000000 \<or> now - created \<ge> in_snapshot_age g * 1000000
        then policy_error ''ECO_SNAPSHOT_EVIDENCE_MISMATCH''
        else bindE (repository_snapshot_entries e r (Some (JStr project))) (\<lambda>_. Inr ())))"

definition tested_window_wrong :: "evidence_ingestor \<Rightarrow> int \<Rightarrow> int \<Rightarrow> int \<Rightarrow> bool" where
  "tested_window_wrong g now tested valid_until \<longleftrightarrow> valid_until \<le> tested \<or> tested > now + in_skew g * 1000000 \<or> now \<ge> valid_until
     \<or> now - tested > in_observation_age g * 1000000 \<or> valid_until - tested > in_observation_age g * 1000000"

definition expectation_wrong :: "binding_expectation \<Rightarrow> issuer_policy \<Rightarrow> json \<Rightarrow> bool" where
  "expectation_wrong x p b \<longleftrightarrow> \<not> is_obj b \<or> jat b [''projectId''] \<noteq> JStr (bx_project x)
     \<or> excluded_by (ip_projects p) (bx_project x) \<or> jat b [''endpointRef''] \<noteq> JStr (bx_endpoint_ref x)
     \<or> jat b [''endpointReferenceDigest''] \<noteq> JStr (bx_endpoint_reference_digest x)
     \<or> jat b [''resolvedEndpointDigest''] \<noteq> JStr (bx_resolved_endpoint_digest x)
     \<or> jat b [''requestedModel''] \<noteq> JStr (bx_model x) \<or> jat b [''reportedModels''] \<noteq> JList [JStr (bx_model x)]"

definition check_observation ::
    "'a contract_env_scheme \<Rightarrow> evidence_ingestor \<Rightarrow> string \<Rightarrow> string \<Rightarrow> string set \<Rightarrow> binding_expectation option \<Rightarrow> int
      \<Rightarrow> json \<Rightarrow> issuer_policy \<Rightarrow> obj \<Rightarrow> unit result" where
  "check_observation e g deployment identity suites expectation now r p body =
     (if jat r [''kind''] \<noteq> JStr ''AdapterConformanceProfile'' then policy_error ''ECO_EVIDENCE_KIND_INVALID''
      else bindE (evidence_time e (jat r [''metadata'', ''testedAt''])) (\<lambda>tested.
        bindE (evidence_time e (jat r [''metadata'', ''validUntil''])) (\<lambda>valid_until.
        let suite = the_str (jat r [''spec'', ''suite'', ''digest'']) in
        if jat r [''metadata'', ''deploymentId''] \<noteq> JStr deployment \<or> excluded_by (ip_deployments p) deployment
           \<or> jat r [''spec'', ''deploymentIdentityDigest''] \<noteq> JStr identity \<or> suite \<notin> suites \<or> excluded_by (ip_suites p) suite
           \<or> tested_window_wrong g now tested valid_until
           \<or> (case expectation of None \<Rightarrow> False | Some x \<Rightarrow> expectation_wrong x p (jget body ''attestation''))
        then policy_error ''ECO_OBSERVATION_EVIDENCE_MISMATCH'' else Inr ())))"

record backend_expectation =
  be_platform :: string
  be_platform_digest :: string
  be_instance :: string
  be_implementation :: string
  be_runner :: string
  be_manifest :: string

definition check_backend ::
    "'a contract_env_scheme \<Rightarrow> evidence_ingestor \<Rightarrow> backend_expectation \<Rightarrow> string set \<Rightarrow> int \<Rightarrow> json \<Rightarrow> issuer_policy \<Rightarrow> unit result" where
  "check_backend e g x suites now r p =
     (if jat r [''kind''] \<noteq> JStr ''PlatformBackendConformanceProfile'' then policy_error ''ECO_EVIDENCE_KIND_INVALID''
      else bindE (evidence_time e (jat r [''metadata'', ''testedAt''])) (\<lambda>tested.
        bindE (evidence_time e (jat r [''metadata'', ''validUntil''])) (\<lambda>valid_until.
        let suite = the_str (jat r [''spec'', ''suite'', ''digest'']) in
        if jat r [''metadata'', ''platformProfileId''] \<noteq> JStr (be_platform x) \<or> jat r [''spec'', ''platform'', ''id''] \<noteq> JStr (be_platform x)
           \<or> jat r [''spec'', ''platformProfileDigest''] \<noteq> JStr (be_platform_digest x)
           \<or> jat r [''spec'', ''backend'', ''instanceDigest''] \<noteq> JStr (be_instance x)
           \<or> jat r [''spec'', ''backend'', ''implementationDigest''] \<noteq> JStr (be_implementation x)
           \<or> jat r [''spec'', ''runnerDigest''] \<noteq> JStr (be_runner x)
           \<or> jat r [''spec'', ''distributionManifestDigest''] \<noteq> JStr (be_manifest x)
           \<or> suite \<notin> suites \<or> excluded_by (ip_suites p) suite \<or> excluded_by (ip_platforms p) (be_platform x)
           \<or> excluded_by (ip_instances p) (be_instance x) \<or> excluded_by (ip_runners p) (be_runner x)
           \<or> excluded_by (ip_implementations p) (be_implementation x) \<or> tested_window_wrong g now tested valid_until
        then policy_error ''ECO_PLATFORM_CONFORMANCE_EVIDENCE_MISMATCH'' else Inr ())))"

definition checked_evidence ::
    "'a contract_env_scheme \<Rightarrow> string \<Rightarrow> int \<Rightarrow> (evidence_ingestor \<Rightarrow> json \<Rightarrow> issuer_policy \<Rightarrow> obj \<Rightarrow> unit result)
      \<Rightarrow> (json \<times> evidence_provenance, evidence_ingestor) act" where
  "checked_evidence e encoded now check = bindA (ingestor_open e encoded now) (\<lambda>(r, p, body) g.
     (bindE (check g r p body) (\<lambda>_. Inr (verified_evidence e r body encoded)), g))"

definition ingest_repository_snapshot ::
    "'a contract_env_scheme \<Rightarrow> string \<Rightarrow> string \<Rightarrow> string \<Rightarrow> int \<Rightarrow> (json \<times> evidence_provenance, evidence_ingestor) act" where
  "ingest_repository_snapshot e encoded project root now =
     checked_evidence e encoded now (\<lambda>g r p body. check_snapshot e g project root now r p body)"

definition ingest_observed_capabilities ::
    "'a contract_env_scheme \<Rightarrow> string \<Rightarrow> string \<Rightarrow> string \<Rightarrow> string set \<Rightarrow> binding_expectation option \<Rightarrow> int
      \<Rightarrow> (json \<times> evidence_provenance, evidence_ingestor) act" where
  "ingest_observed_capabilities e encoded deployment identity suites expectation now =
     checked_evidence e encoded now (\<lambda>g r p body. check_observation e g deployment identity suites expectation now r p body)"

definition ingest_platform_backend_conformance ::
    "'a contract_env_scheme \<Rightarrow> string \<Rightarrow> backend_expectation \<Rightarrow> string set \<Rightarrow> int
      \<Rightarrow> (json \<times> evidence_provenance, evidence_ingestor) act" where
  "ingest_platform_backend_conformance e encoded x suites now =
     checked_evidence e encoded now (\<lambda>g r p body. check_backend e g x suites now r p)"

section \<open>What is signed opens\<close>

lemma evidence_body_keys: "dict_keys (evidence_body e g r i issued expires att)
    = (if att = None then BODY_FIELDS else insert ''attestation'' BODY_FIELDS)"
  by (cases att) (auto simp: evidence_body_def dict_keys_def BODY_FIELDS_def)

lemma evidence_body_fields:
  "jget (evidence_body e g r i issued expires att) ''protocol''
     = JStr (if att = None then ''eco-trusted-evidence-v1'' else ''eco-trusted-evidence-v2'')"
  "jget (evidence_body e g r i issued expires att) ''envelopeId'' = JStr i"
  "jget (evidence_body e g r i issued expires att) ''issuer'' = JObj [(''id'', JStr (sg_issuer_id g)), (''keyId'', JStr (sg_key_id g))]"
  "jget (evidence_body e g r i issued expires att) ''issuedAt'' = JStr (ce_iso e issued)"
  "jget (evidence_body e g r i issued expires att) ''expiresAt'' = JStr (ce_iso e expires)"
  "jget (evidence_body e g r i issued expires att) ''subject'' = evidence_subject e r"
  "jget (evidence_body e g r i issued expires att) ''record'' = r"
  "jget (evidence_body e g r i issued expires att) ''attestation'' = (case att of None \<Rightarrow> JNull | Some a \<Rightarrow> a)"
  by (simp_all add: evidence_body_def jget_def split: option.splits)

lemma evidence_envelope_parts:
  "filter (\<lambda>x. fst x \<noteq> ''signature'') (evidence_envelope e k (evidence_body e g r i issued expires att)) = evidence_body e g r i issued expires att"
  "jget (evidence_envelope e k (evidence_body e g r i issued expires att)) ''signature''
     = JObj [(''algorithm'', JStr ''HMAC-SHA256''), (''tag'', JStr (ce_hmac e k (auth_bytes (evidence_body e g r i issued expires att))))]"
  by (simp_all add: evidence_envelope_def evidence_body_def jget_def split: option.splits)

lemma signed_parts:
  "jat (jget (evidence_body e g r i issued expires att) ''issuer'') [''id''] = JStr (sg_issuer_id g)"
  "jat (jget (evidence_body e g r i issued expires att) ''issuer'') [''keyId''] = JStr (sg_key_id g)"
  "jat (jget (evidence_envelope e k (evidence_body e g r i issued expires att)) ''signature'') [''algorithm''] = JStr ''HMAC-SHA256''"
  "jat (jget (evidence_envelope e k (evidence_body e g r i issued expires att)) ''signature'') [''tag'']
     = JStr (ce_hmac e k (auth_bytes (evidence_body e g r i issued expires att)))"
  by (simp_all add: evidence_body_fields evidence_envelope_parts jget_Cons)

lemma signed_shape:
  assumes "safe_identifier i" and "sha256_text (ce_hmac e k (auth_bytes (evidence_body e g r i issued expires att)))"
    and "case att of None \<Rightarrow> True | Some a \<Rightarrow> \<exists>b. evidence_attestation e a = Inr b"
  shows "check_envelope_shape e (evidence_envelope e k (evidence_body e g r i issued expires att)) (evidence_body e g r i issued expires att) = Inr ()"
proof -
  let ?b = "evidence_body e g r i issued expires att"
  have keys: "''attestation'' \<in> dict_keys ?b \<longleftrightarrow> att \<noteq> None" "dict_keys ?b = (if att \<noteq> None then insert ''attestation'' BODY_FIELDS else BODY_FIELDS)"
    using evidence_body_keys [of e g r i issued expires att] by (auto simp: BODY_FIELDS_def)
  have shapes: "has_keys {''id'', ''keyId''} (jget ?b ''issuer'')" "has_keys {''kind'', ''id'', ''digest''} (jget ?b ''subject'')"
    "has_keys {''algorithm'', ''tag''} (jget (evidence_envelope e k ?b) ''signature'')"
    by (auto simp: has_keys_def evidence_body_fields evidence_envelope_parts evidence_subject_def dict_keys_def)
  have att: "att \<noteq> None \<Longrightarrow> returns (evidence_attestation e (jget ?b ''attestation'')) (\<lambda>_. True)"
    using assms(3) by (auto simp: evidence_body_fields split: option.splits)
  have "''attestation'' \<notin> BODY_FIELDS" by (simp add: BODY_FIELDS_def)
  then show ?thesis unfolding check_envelope_shape_def Let_def keys signed_parts using shapes att assms(1,2)
    by (simp add: text_matches_def evidence_body_fields(1,2))
qed

lemma signed_envelope_opens:
  assumes sign: "sign_evidence e g r i issued expires att = Inr encoded"
    and policy: "map_of ts (sg_issuer_id g, sg_key_id g) = Some p" "ip_key p = sg_key g" "the_str (jat r [''kind'']) \<in> ip_kinds p"
    and loads: "kx_loads e encoded = Some (JObj (evidence_envelope e (sg_key g) (evidence_body e g r i issued expires att)))"
    and size: "length encoded \<le> 64 * 1024 * 1024"
    and tag: "sha256_text (ce_hmac e (sg_key g) (auth_bytes (evidence_body e g r i issued expires att)))"
    and iso: "ce_read e (ce_iso e issued) = Some issued" "ce_read e (ce_iso e expires) = Some expires"
  shows "open_evidence e ts encoded now skew =
     (if issued > now + skew * 1000000 then policy_error ''ECO_EVIDENCE_WINDOW_INVALID''
      else if now \<ge> expires then policy_error ''ECO_EVIDENCE_EXPIRED''
      else Inr (r, p, evidence_body e g r i issued expires att))"
proof -
  let ?b = "evidence_body e g r i issued expires att"
  let ?v = "evidence_envelope e (sg_key g) ?b"
  from sign have id: "safe_identifier i" and valid: "validated_evidence_record e r = Inr ()" and window: "issued < expires"
    and att: "case att of None \<Rightarrow> True | Some a \<Rightarrow> \<exists>b. evidence_attestation e a = Inr b"
    and enc: "encoded = canonical_json (JObj ?v)"
    unfolding sign_evidence_def by (auto split: if_splits option.splits)
  have time: "evidence_time e (JStr (ce_iso e issued)) = Inr issued" "evidence_time e (JStr (ce_iso e expires)) = Inr expires"
    using iso by (simp_all add: evidence_time_def)
  have "open_evidence e ts encoded now skew = open_body e ts ?v ?b now skew"
    unfolding open_evidence_def using size loads enc by (simp add: evidence_envelope_parts)
  also have "\<dots> = bindE (check_envelope_window e ?b now skew) (\<lambda>_. Inr (r, p, ?b))"
    unfolding open_body_def signed_shape [OF id tag att] signed_parts
    using policy valid by (simp add: evidence_body_fields json_eq_def)
  finally show ?thesis using window time by (simp add: check_envelope_window_def evidence_body_fields)
qed

text \<open>What a signer signs, a trust store opens. When \<open>json.loads\<close> reads back the envelope that was written, tags
  are SHA-256 texts and timestamps are read back as written, an envelope signed with the key of a trusted issuer for a
  kind of record the issuer may attest opens to exactly the signed record and body, at every time from its issue (less
  the clock skew) up to its expiry, and at no time after it.\<close>

lemma evidence_sign_opens:
  assumes sign: "sign_evidence e g r i issued expires att = Inr encoded"
    and policy: "map_of ts (sg_issuer_id g, sg_key_id g) = Some p" "ip_key p = sg_key g" "the_str (jat r [''kind'']) \<in> ip_kinds p"
    and loads: "kx_loads e encoded = Some (JObj (evidence_envelope e (sg_key g) (evidence_body e g r i issued expires att)))"
    and size: "length encoded \<le> 64 * 1024 * 1024"
    and tag: "sha256_text (ce_hmac e (sg_key g) (auth_bytes (evidence_body e g r i issued expires att)))"
    and iso: "ce_read e (ce_iso e issued) = Some issued" "ce_read e (ce_iso e expires) = Some expires"
  shows "open_evidence e ts encoded now skew =
     (if issued > now + skew * 1000000 then policy_error ''ECO_EVIDENCE_WINDOW_INVALID''
      else if now \<ge> expires then policy_error ''ECO_EVIDENCE_EXPIRED''
      else Inr (r, p, evidence_body e g r i issued expires att))"
  using assms by (rule signed_envelope_opens)

end
