(* ===== verification/Eco_Policy.thy ===== *)
theory Eco_Policy
  imports Eco_Evidence Eco_Budget
begin

text \<open>
  The policy engine of the runtime, \<open>PolicyEngine\<close> of \<open>src/src/eco_runtime/policy.py\<close>: its construction
  from a canonical bundle and signed evidence, the refresh of that evidence, the decisions it issues and
  consumes, the activation of plans and the authority of the no-model workflow. The planner for model runs
  and the authorization of single calls are in \<open>Eco_Policy_Run\<close>.

  The engine is a record of its fields; a method is an \<open>act\<close>, because a raise does not undo what was
  changed before it. Records are raw JSON, times are instants in microseconds and timestamps are their
  texts. The schemas of the canonical bundle and the digest of the schema bundle are parameters. A member
  of the bundle that is absent or of another type reads as \<open>null\<close>.
\<close>

section \<open>State\<close>

record policy_env = contract_env +
  px_canonical_schema :: "string \<Rightarrow> json \<Rightarrow> bool"
  px_schema_bundle :: string

record issued_decision =
  is_digest :: string
  is_consumed :: bool

record policy_engine =
  pe_bundle :: obj
  pe_artifacts :: obj
  pe_encoded_observations :: "(string \<times> string) list"
  pe_expectations :: "(string \<times> binding_expectation) list"
  pe_encoded_snapshot :: "string option"
  pe_ingestor :: "evidence_ingestor option"
  pe_root_identity :: "string option"
  pe_suites :: "string set"
  pe_ttl :: int
  pe_snapshot_age :: int
  pe_observation_age :: int
  pe_skew :: int
  pe_deployments :: obj
  pe_tools :: obj
  pe_capabilities :: obj
  pe_observations :: obj
  pe_observation_provenance :: "(string \<times> evidence_provenance) list"
  pe_snapshot :: "json option"
  pe_snapshot_provenance :: "evidence_provenance option"
  pe_entries :: obj
  pe_decisions :: "(string \<times> issued_decision) list"
  pe_plans :: "(string \<times> string) list"
  pe_active :: "(string \<times> string) list"
  pe_no_model_plans :: "(string \<times> string) list"
  pe_no_model_active :: "(string \<times> string) list"
  pe_ledgers :: "(string \<times> ledger) list"

type_synonym 'a policy_act = "('a, policy_engine) act"

abbreviation raiseP :: "string \<Rightarrow> 'a policy_act" where
  "raiseP code \<equiv> raiseA (RuntimePolicyError code)"

text \<open>A check that does not change the engine.\<close>

definition liftE :: "'a result \<Rightarrow> 'a policy_act" where
  "liftE r = (\<lambda>s. (r, s))"

definition seconds :: "int \<Rightarrow> int" where
  "seconds n = n * 1000000"

definition policy_time :: "'a clock_env_scheme \<Rightarrow> json \<Rightarrow> int result" where
  "policy_time e v =
     (case v of JStr s \<Rightarrow> (case ce_read e s of None \<Rightarrow> policy_error ''ECO_TIME_INVALID'' | Some t \<Rightarrow> Inr t)
      | _ \<Rightarrow> Inl PyAttributeError)"

definition digest_of :: "'a clock_env_scheme \<Rightarrow> json \<Rightarrow> string" where
  "digest_of e v = semantic_digest (ce_sha e) v"

definition config_digest :: "'a clock_env_scheme \<Rightarrow> policy_engine \<Rightarrow> string" where
  "config_digest e s = digest_of e (JObj (pe_bundle s))"

definition source_digests :: "'a clock_env_scheme \<Rightarrow> policy_engine \<Rightarrow> json" where
  "source_digests e s = JObj (map (\<lambda>n. (n, JStr (digest_of e (jget (pe_bundle s) n))))
     [''capabilities'', ''deployments'', ''instructions'', ''project'', ''tools''])"

definition project_name :: "policy_engine \<Rightarrow> json" where
  "project_name s = jat (jget (pe_bundle s) ''project'') [''metadata'', ''name'']"

section \<open>Evidence\<close>

fun observe_all ::
    "'a contract_env_scheme \<Rightarrow> policy_engine \<Rightarrow> int \<Rightarrow> (string \<times> string) list
      \<Rightarrow> ((string \<times> json \<times> evidence_provenance) list, evidence_ingestor) act" where
  "observe_all e s now [] = returnA []"
| "observe_all e s now ((i, encoded) # rest) =
     (case map_of (pe_deployments s) i of
        None \<Rightarrow> raiseA (RuntimePolicyError ''ECO_EVIDENCE_UNTRUSTED'')
      | Some deployment \<Rightarrow>
          (case deployment_identity_digest (ce_sha e) (the_obj deployment) of
             Inl err \<Rightarrow> raiseA err
           | Inr identity \<Rightarrow>
               bindA (ingest_observed_capabilities e encoded i identity (pe_suites s) (map_of (pe_expectations s) i) now) (\<lambda>v.
               bindA (observe_all e s now rest) (\<lambda>vs. returnA ((i, v) # vs)))))"

definition observe_snapshot ::
    "'a contract_env_scheme \<Rightarrow> policy_engine \<Rightarrow> int \<Rightarrow> ((json \<times> evidence_provenance) option, evidence_ingestor) act" where
  "observe_snapshot e s now =
     (case pe_encoded_snapshot s of
        None \<Rightarrow> returnA None
      | Some encoded \<Rightarrow>
          (case pe_root_identity s of
             None \<Rightarrow> raiseA (RuntimePolicyError ''ECO_EVIDENCE_UNTRUSTED'')
           | Some root \<Rightarrow> bindA (ingest_repository_snapshot e encoded (the_str (project_name s)) root now) (\<lambda>v. returnA (Some v))))"

definition store_evidence ::
    "'a contract_env_scheme \<Rightarrow> (string \<times> json \<times> evidence_provenance) list \<Rightarrow> (json \<times> evidence_provenance) option \<Rightarrow> unit policy_act" where
  "store_evidence e observed snap s =
     (let s1 = s\<lparr>pe_observations := map (\<lambda>(i, r, p). (i, r)) observed,
            pe_observation_provenance := map (\<lambda>(i, r, p). (i, p)) observed,
            pe_snapshot := map_option fst snap, pe_snapshot_provenance := map_option snd snap, pe_entries := []\<rparr> in
      case snap of
        None \<Rightarrow> (Inr (), s1)
      | Some (r, p) \<Rightarrow> (case repository_snapshot_entries e r (Some (project_name s)) of
            Inl err \<Rightarrow> (Inl err, s1) | Inr entries \<Rightarrow> (Inr (), s1\<lparr>pe_entries := entries\<rparr>)))"

definition refresh_evidence :: "'a contract_env_scheme \<Rightarrow> int \<Rightarrow> unit policy_act" where
  "refresh_evidence e now s =
     (case pe_ingestor s of
        None \<Rightarrow> (Inr (), s)
      | Some g \<Rightarrow>
          (case bindA (observe_all e s now (pe_encoded_observations s)) (\<lambda>observed.
                 bindA (observe_snapshot e s now) (\<lambda>snap. returnA (observed, snap))) g of
             (Inl err, g') \<Rightarrow> (Inl err, s\<lparr>pe_ingestor := Some g'\<rparr>)
           | (Inr (observed, snap), g') \<Rightarrow> store_evidence e observed snap (s\<lparr>pe_ingestor := Some g'\<rparr>)))"

section \<open>Construction\<close>

abbreviation config_invalid :: "'a result" where
  "config_invalid \<equiv> Inl (RuntimePolicyError ''ECO_CONFIG_INVALID'')"

abbreviation evidence_untrusted :: "'a result" where
  "evidence_untrusted \<equiv> Inl (RuntimePolicyError ''ECO_EVIDENCE_UNTRUSTED'')"

fun unique_map :: "obj \<Rightarrow> json list \<Rightarrow> obj result" where
  "unique_map acc [] = Inr acc"
| "unique_map acc (item # rest) =
     (case jat item [''id''] of
        JStr i \<Rightarrow> if i \<in> dict_keys acc then config_invalid else unique_map (acc @ [(i, item)]) rest
      | _ \<Rightarrow> config_invalid)"

definition REQUIRED_BUNDLE :: "string set" where
  "REQUIRED_BUNDLE = {''project'', ''capabilities'', ''deployments'', ''tools'', ''instructions''}"

definition validate_canonical_schemas :: "policy_env \<Rightarrow> obj \<Rightarrow> unit result" where
  "validate_canonical_schemas e bundle = check_all (\<lambda>n. if is_obj (jget bundle n) \<and> px_canonical_schema e n (jget bundle n)
     then Inr () else config_invalid) [''project'', ''instructions'', ''capabilities'', ''deployments'', ''tools'']"

definition texts :: "json \<Rightarrow> string set" where
  "texts v = the_str ` set (the_list v)"

definition role_valid :: "obj \<Rightarrow> obj \<Rightarrow> json \<Rightarrow> bool" where
  "role_valid capabilities deployments r \<longleftrightarrow> level_of CHR ''A'' (jat r [''maximumActionClass'']) \<noteq> None
     \<and> level_of CHR ''P'' (jat r [''minimumArtifactTrust'']) \<noteq> None
     \<and> texts (jat r [''requiredCapabilities'']) \<subseteq> dict_keys capabilities \<and> texts (jat r [''candidates'']) \<subseteq> dict_keys deployments"

definition tool_bound :: "obj \<Rightarrow> json \<Rightarrow> bool" where
  "tool_bound capabilities tool \<longleftrightarrow> is_JStr (jat tool [''capability''])
     \<and> (case map_of capabilities (the_str (jat tool [''capability''])) of None \<Rightarrow> False
        | Some c \<Rightarrow> jat c [''actionClass''] = jat tool [''actionClass''])"

definition validate_canonical_snapshot :: "obj \<Rightarrow> obj \<Rightarrow> obj \<Rightarrow> obj \<Rightarrow> unit result" where
  "validate_canonical_snapshot bundle deployments tools capabilities =
     (let version = jat (jget bundle ''project'') [''apiVersion''] in
      if version \<noteq> JStr ''ai.ecosystem/v1alpha1'' then config_invalid
      else if list_ex (\<lambda>n. jat (jget bundle n) [''apiVersion''] \<noteq> version) [''instructions'', ''capabilities'', ''deployments'', ''tools'']
      then config_invalid
      else if list_ex (\<lambda>(i, tool). \<not> tool_bound capabilities tool) tools then config_invalid
      else case jat (jget bundle ''deployments'') [''logicalRoles''] of
        JObj roles \<Rightarrow> if list_ex (\<lambda>(i, r). \<not> role_valid capabilities deployments r) roles then config_invalid else Inr ()
      | JNull \<Rightarrow> Inr ()
      | _ \<Rightarrow> config_invalid)"

record engine_arguments =
  ea_bundle :: obj
  ea_observations :: "(string \<times> string) list"
  ea_artifacts :: obj
  ea_snapshot :: "string option"
  ea_policies :: "issuer_policy list option"
  ea_now :: "int option"
  ea_root_identity :: "string option"
  ea_suites :: "string set"
  ea_expectations :: "(string \<times> binding_expectation) list"
  ea_ttl :: int
  ea_snapshot_age :: int
  ea_observation_age :: int
  ea_skew :: int

definition required_observations :: "obj \<Rightarrow> string set result" where
  "required_observations bundle =
     (case jat (jget bundle ''trust'') [''conformance'', ''requiredObservations''] of
        JNull \<Rightarrow> Inr {}
      | JList items \<Rightarrow>
          (let ids = the_str ` set (filter is_JStr (map (\<lambda>v. jat v [''deploymentId'']) items)) in
           if card ids \<noteq> length items then evidence_untrusted else Inr ids)
      | _ \<Rightarrow> evidence_untrusted)"

definition build_ingestor :: "engine_arguments \<Rightarrow> evidence_ingestor option result" where
  "build_ingestor a =
     (case ea_policies a of
        None \<Rightarrow> Inr None
      | Some ps \<Rightarrow> if ps = [] then evidence_untrusted
          else bindE (new_evidence_trust ps) (\<lambda>ts.
            bindE (new_ingestor ts (ea_snapshot_age a) (ea_observation_age a) (ea_skew a)) (\<lambda>g. Inr (Some g))))"

definition fresh_engine :: "engine_arguments \<Rightarrow> evidence_ingestor option \<Rightarrow> obj \<Rightarrow> obj \<Rightarrow> obj \<Rightarrow> policy_engine" where
  "fresh_engine a g deployments tools capabilities = \<lparr>pe_bundle = ea_bundle a, pe_artifacts = ea_artifacts a,
     pe_encoded_observations = ea_observations a, pe_expectations = ea_expectations a, pe_encoded_snapshot = ea_snapshot a,
     pe_ingestor = g, pe_root_identity = ea_root_identity a, pe_suites = ea_suites a, pe_ttl = ea_ttl a,
     pe_snapshot_age = ea_snapshot_age a, pe_observation_age = ea_observation_age a, pe_skew = ea_skew a,
     pe_deployments = deployments, pe_tools = tools, pe_capabilities = capabilities, pe_observations = [],
     pe_observation_provenance = [], pe_snapshot = None, pe_snapshot_provenance = None, pe_entries = [], pe_decisions = [],
     pe_plans = [], pe_active = [], pe_no_model_plans = [], pe_no_model_active = [], pe_ledgers = []\<rparr>"

definition new_policy_engine :: "policy_env \<Rightarrow> engine_arguments \<Rightarrow> policy_engine result" where
  "new_policy_engine e a =
     (let bundle = ea_bundle a; policy = jat (jget bundle ''project'') [''policy''] in
      if \<not> REQUIRED_BUNDLE \<subseteq> dict_keys bundle then config_invalid
      else if jat policy [''defaultDecision''] \<noteq> JStr ''deny'' \<or> jat policy [''allowDirectEgress''] \<noteq> JBool False then config_invalid
      else if ea_ttl a < 1 \<or> ea_ttl a > 3600 then config_invalid
      else if ea_snapshot_age a < 1 \<or> ea_observation_age a < 1 \<or> ea_skew a < 0 then config_invalid
      else bindE (required_observations bundle) (\<lambda>required.
        if \<not> (required \<inter> dict_keys (ea_observations a)) \<subseteq> dict_keys (ea_expectations a)
           \<or> \<not> dict_keys (ea_expectations a) \<subseteq> dict_keys (ea_observations a) then evidence_untrusted
        else bindE (build_ingestor a) (\<lambda>g.
        bindE (validate_canonical_schemas e bundle) (\<lambda>_.
        bindE (unique_map [] (the_list (jat (jget bundle ''deployments'') [''deployments'']))) (\<lambda>deployments.
        bindE (unique_map [] (the_list (jat (jget bundle ''tools'') [''tools'']))) (\<lambda>tools.
        bindE (unique_map [] (the_list (jat (jget bundle ''capabilities'') [''capabilities'']))) (\<lambda>capabilities.
        bindE (validate_canonical_snapshot bundle deployments tools capabilities) (\<lambda>_.
        let s = fresh_engine a g deployments tools capabilities in
        if ea_observations a = [] \<and> ea_snapshot a = None then Inr s
        else case (g, ea_now a) of
          (Some _, Some now) \<Rightarrow> (case refresh_evidence e now s of (Inl err, _) \<Rightarrow> Inl err | (Inr _, s') \<Rightarrow> Inr s')
        | _ \<Rightarrow> evidence_untrusted))))))))"

section \<open>Decisions\<close>

definition register_decision :: "'a clock_env_scheme \<Rightarrow> json \<Rightarrow> unit policy_act" where
  "register_decision e d s =
     (let i = the_str (jat d [''metadata'', ''id'']); digest = digest_of e d in
      case map_of (pe_decisions s) i of
        Some old \<Rightarrow> if is_digest old \<noteq> digest then (policy_error ''ECO_DECISION_ID_CONFLICT'', s)
                    else (Inr (), s\<lparr>pe_decisions := dict_set i \<lparr>is_digest = digest, is_consumed = is_consumed old\<rparr> (pe_decisions s)\<rparr>)
      | None \<Rightarrow> (Inr (), s\<lparr>pe_decisions := dict_set i \<lparr>is_digest = digest, is_consumed = False\<rparr> (pe_decisions s)\<rparr>))"

record decision_request =
  dq_id :: string
  dq_run_id :: string
  dq_kind :: string
  dq_subject_id :: json
  dq_subject_digest :: string
  dq_effect :: string
  dq_reason :: string
  dq_expiry :: "int option"

definition decision_expiry :: "policy_engine \<Rightarrow> int \<Rightarrow> int option \<Rightarrow> int" where
  "decision_expiry s now bound = (case bound of None \<Rightarrow> now + seconds (pe_ttl s) | Some t \<Rightarrow> min (now + seconds (pe_ttl s)) t)"

definition decision_record :: "policy_env \<Rightarrow> policy_engine \<Rightarrow> int \<Rightarrow> decision_request \<Rightarrow> json" where
  "decision_record e s now q = JObj [(''apiVersion'', JStr ''runtime.ai.ecosystem/v1alpha1''), (''kind'', JStr ''PolicyDecision''),
     (''metadata'', JObj [(''id'', JStr (dq_id q)), (''runId'', JStr (dq_run_id q)), (''createdAt'', JStr (ce_iso e now))]),
     (''spec'', JObj [
        (''subject'', JObj [(''kind'', JStr (dq_kind q)), (''id'', dq_subject_id q), (''digest'', JStr (dq_subject_digest q))]),
        (''effect'', JStr (dq_effect q)), (''reasonCodes'', JList [JStr (dq_reason q)]),
        (''policySnapshot'', JObj [(''apiVersion'', jat (jget (pe_bundle s) ''project'') [''apiVersion'']),
           (''semanticConfigDigest'', JStr (config_digest e s)), (''digestProfile'', JStr ''eco-python-json-v1''),
           (''contractProfile'', JStr ''runtime-contracts-v1alpha1''), (''schemaBundleDigest'', JStr (px_schema_bundle e)),
           (''policyEngineVersion'', JStr ''0.2.0'')]),
        (''constraints'', JObj [(''singleUse'', JBool True), (''expiresAt'', JStr (ce_iso e (decision_expiry s now (dq_expiry q))))])])]"

definition issue_decision :: "policy_env \<Rightarrow> int \<Rightarrow> decision_request \<Rightarrow> json policy_act" where
  "issue_decision e now q s =
     (let d = decision_record e s now q in
      bindA (liftE (validate_runtime_record e d)) (\<lambda>_. bindA (register_decision e d) (\<lambda>_. returnA d)) s)"

definition assert_decision_current :: "policy_env \<Rightarrow> json \<Rightarrow> json \<Rightarrow> int \<Rightarrow> policy_engine \<Rightarrow> unit result" where
  "assert_decision_current e d subject now s =
     bindE (validate_runtime_record e d) (\<lambda>_. bindE (validate_runtime_record e subject) (\<lambda>_.
     if jat d [''spec'', ''effect''] \<noteq> JStr ''allow'' then policy_error ''ECO_DECISION_DENIED''
     else if jat d [''metadata'', ''runId''] \<noteq> jat subject [''metadata'', ''runId''] then policy_error ''ECO_DECISION_MISMATCH''
     else if jat d [''spec'', ''policySnapshot'', ''semanticConfigDigest''] \<noteq> JStr (config_digest e s) then policy_error ''ECO_CONFIG_DRIFT''
     else if jat d [''spec'', ''subject'', ''kind''] \<noteq> jat subject [''kind'']
        \<or> jat d [''spec'', ''subject'', ''id''] \<noteq> jat subject [''metadata'', ''id'']
        \<or> jat d [''spec'', ''subject'', ''digest''] \<noteq> JStr (digest_of e subject) then policy_error ''ECO_DECISION_MISMATCH''
     else bindE (policy_time e (jat d [''metadata'', ''createdAt''])) (\<lambda>created.
       if created > now then policy_error ''ECO_DECISION_TIME_INVALID''
       else bindE (policy_time e (jat d [''spec'', ''constraints'', ''expiresAt''])) (\<lambda>expires.
         if expires \<le> now then policy_error ''ECO_DECISION_EXPIRED''
         else case map_of (pe_decisions s) (the_str (jat d [''metadata'', ''id''])) of
           None \<Rightarrow> policy_error ''ECO_DECISION_UNTRUSTED''
         | Some i \<Rightarrow> if is_digest i \<noteq> digest_of e d then policy_error ''ECO_DECISION_UNTRUSTED''
                     else if is_consumed i then policy_error ''ECO_DECISION_REPLAYED'' else Inr ()))))"

definition consume_decision :: "policy_env \<Rightarrow> json \<Rightarrow> json \<Rightarrow> int \<Rightarrow> unit policy_act" where
  "consume_decision e d subject now s =
     (let i = the_str (jat d [''metadata'', ''id'']) in
      case assert_decision_current e d subject now s of
        Inl err \<Rightarrow> (Inl err, s)
      | Inr _ \<Rightarrow>
          (case map_of (pe_decisions s) i of
             None \<Rightarrow> (policy_error ''ECO_DECISION_UNTRUSTED'', s)
           | Some r \<Rightarrow> if is_digest r \<noteq> digest_of e d then (policy_error ''ECO_DECISION_UNTRUSTED'', s)
                       else if is_consumed r then (policy_error ''ECO_DECISION_REPLAYED'', s)
                       else (Inr (), s\<lparr>pe_decisions := dict_set i (r\<lparr>is_consumed := True\<rparr>) (pe_decisions s)\<rparr>)))"

section \<open>Plans\<close>

definition register_plan :: "'a clock_env_scheme \<Rightarrow> json \<Rightarrow> unit policy_act" where
  "register_plan e plan s =
     (let i = the_str (jat plan [''metadata'', ''id'']); digest = digest_of e plan in
      if map_of (pe_plans s) i \<noteq> None \<and> map_of (pe_plans s) i \<noteq> Some digest then (policy_error ''ECO_PLAN_ID_CONFLICT'', s)
      else (Inr (), s\<lparr>pe_plans := dict_set i digest (pe_plans s)\<rparr>))"

definition register_no_model_plan :: "'a clock_env_scheme \<Rightarrow> json \<Rightarrow> unit policy_act" where
  "register_no_model_plan e plan s =
     (let i = the_str (jat plan [''metadata'', ''id'']); digest = digest_of e plan in
      if map_of (pe_no_model_plans s) i \<noteq> None \<and> map_of (pe_no_model_plans s) i \<noteq> Some digest
      then (policy_error ''ECO_PLAN_ID_CONFLICT'', s)
      else (Inr (), s\<lparr>pe_no_model_plans := dict_set i digest (pe_no_model_plans s)\<rparr>))"

definition plan_limits :: "json \<Rightarrow> budget_limits" where
  "plan_limits plan = (let b = (\<lambda>n. the_int (jat plan [''spec'', ''budget'', n])) in
     \<lparr>maxDurationSeconds = b ''maxDurationSeconds'', maxToolRequests = b ''maxToolRequests'', maxInputBytes = b ''maxInputBytes'',
      maxOutputBytes = b ''maxOutputBytes'', maxModelRequests = b ''maxModelRequests'', maxTotalTokens = b ''maxTotalTokens'',
      maxCostMicrousd = b ''maxCostMicrousd''\<rparr>)"

definition plan_ledger :: "policy_env \<Rightarrow> json \<Rightarrow> int \<Rightarrow> ledger result" where
  "plan_ledger e plan clock = new_ledger (the_str (jat plan [''metadata'', ''runId''])) (digest_of e plan) (plan_limits plan)
     (map (\<lambda>i. the_int (jat i [''byteLength''])) (the_list (jat plan [''spec'', ''inputs'']))) clock"

text \<open>The active plan of a run is recorded before its ledger is built.\<close>

definition activate_locked :: "policy_env \<Rightarrow> json \<Rightarrow> int \<Rightarrow> unit policy_act" where
  "activate_locked e plan clock s =
     (let run = the_str (jat plan [''metadata'', ''runId'']); digest = digest_of e plan in
      if map_of (pe_active s) run \<noteq> None \<and> map_of (pe_active s) run \<noteq> Some digest then (policy_error ''ECO_PLAN_ID_CONFLICT'', s)
      else let s' = s\<lparr>pe_active := dict_set run digest (pe_active s)\<rparr> in
        if run \<in> dict_keys (pe_ledgers s) then (Inr (), s')
        else case plan_ledger e plan clock of
          Inl err \<Rightarrow> (Inl err, s') | Inr l \<Rightarrow> (Inr (), s'\<lparr>pe_ledgers := dict_set run l (pe_ledgers s)\<rparr>))"

definition activate_plan :: "policy_env \<Rightarrow> json \<Rightarrow> json \<Rightarrow> int \<Rightarrow> int \<Rightarrow> unit policy_act" where
  "activate_plan e plan d now clock =
     bindA (refresh_evidence e now) (\<lambda>_.
     bindA (liftE (validate_runtime_record e plan)) (\<lambda>_ s.
       if map_of (pe_plans s) (the_str (jat plan [''metadata'', ''id''])) \<noteq> Some (digest_of e plan)
       then (policy_error ''ECO_PLAN_UNTRUSTED'', s)
       else bindA (consume_decision e d plan now) (\<lambda>_. activate_locked e plan clock) s))"

definition budget_ledger :: "policy_env \<Rightarrow> json \<Rightarrow> policy_engine \<Rightarrow> ledger result" where
  "budget_ledger e plan s =
     bindE (validate_runtime_record e plan) (\<lambda>_.
     let run = the_str (jat plan [''metadata'', ''runId'']); digest = digest_of e plan in
     if map_of (pe_active s) run \<noteq> Some digest then policy_error ''ECO_PLAN_NOT_ACTIVE''
     else case map_of (pe_ledgers s) run of
       None \<Rightarrow> policy_error ''ECO_BUDGET_UNAVAILABLE''
     | Some l \<Rightarrow> if ledger_plan_digest l \<noteq> digest then policy_error ''ECO_BUDGET_UNAVAILABLE'' else Inr l)"

section \<open>The no-model workflow\<close>

definition NO_MODEL_WORKFLOWS :: "(string \<times> string list) list" where
  "NO_MODEL_WORKFLOWS = [(''wiki-health-check'', [''wiki/index.md'', ''wiki/architecture.md'', ''wiki/roadmap.md''])]"

definition snapshot_deadline :: "'a clock_env_scheme \<Rightarrow> policy_engine \<Rightarrow> int result" where
  "snapshot_deadline e s =
     (case (pe_snapshot s, pe_snapshot_provenance s) of
        (Some r, Some p) \<Rightarrow>
          bindE (policy_time e (JStr (ep_expires_at p))) (\<lambda>expires.
          bindE (policy_time e (jat r [''metadata'', ''createdAt''])) (\<lambda>created.
            Inr (min expires (created + seconds (pe_snapshot_age s)))))
      | _ \<Rightarrow> policy_error ''ECO_REPOSITORY_SNAPSHOT_MISSING'')"

definition no_model_entry :: "json \<Rightarrow> bool" where
  "no_model_entry entry \<longleftrightarrow> jat entry [''dataClass''] = JStr ''D0'' \<and> jat entry [''trust''] = JStr ''P1''
     \<and> jat entry [''classificationAuthority''] = JStr ''policy''"

definition scope_entry :: "string \<Rightarrow> json \<Rightarrow> json" where
  "scope_entry path entry = JObj [(''path'', JStr path), (''contentDigest'', jat entry [''contentDigest'']),
     (''byteLength'', jat entry [''byteLength'']), (''dataClass'', JStr ''D0''), (''trust'', JStr ''P1'')]"

fun slots :: "'a clock_env_scheme \<Rightarrow> int \<Rightarrow> json list \<Rightarrow> json list" where
  "slots e n [] = []"
| "slots e n (x # xs) = JObj [(''slot'', JStr (''slot-'' @ show_int n)), (''entryDigest'', JStr (digest_of e x))] # slots e (n + 1) xs"

definition no_model_scope :: "'a clock_env_scheme \<Rightarrow> policy_engine \<Rightarrow> string \<Rightarrow> (json list \<times> json list) option" where
  "no_model_scope e s workflow =
     (case map_of NO_MODEL_WORKFLOWS workflow of
        None \<Rightarrow> None
      | Some paths \<Rightarrow>
          if dict_keys (pe_entries s) \<noteq> set paths \<or> list_ex (\<lambda>p. \<not> no_model_entry (jget (pe_entries s) p)) paths then None
          else let entries = map (\<lambda>p. scope_entry p (jget (pe_entries s) p)) paths in Some (entries, slots e 1 entries))"

definition no_model_budget :: "json list \<Rightarrow> json" where
  "no_model_budget entries = JObj [(''maxDurationSeconds'', JInt 30), (''maxReadRequests'', JInt 3),
     (''maxInputBytes'', JInt (sum_list (map (\<lambda>x. the_int (jat x [''byteLength''])) entries))), (''maxModelRequests'', JInt 0),
     (''maxNetworkRequests'', JInt 0), (''maxWorkspaceWrites'', JInt 0)]"

definition no_model_snapshot :: "'a clock_env_scheme \<Rightarrow> json \<Rightarrow> evidence_provenance \<Rightarrow> json" where
  "no_model_snapshot e r p = JObj [(''id'', jat r [''metadata'', ''id'']), (''digest'', JStr (digest_of e r)),
     (''rootIdentityDigest'', jat r [''spec'', ''rootIdentityDigest'']), (''trust'', JStr ''P1''), (''evidence'', provenance_json p)]"

definition no_model_binding_error :: "'a clock_env_scheme \<Rightarrow> policy_engine \<Rightarrow> json \<Rightarrow> string option" where
  "no_model_binding_error e s plan =
     (if jat plan [''spec'', ''profile''] \<noteq> JStr ''no-model-a1/v1alpha1'' then Some ''ECO_PLAN_UNTRUSTED''
      else if jat plan [''spec'', ''project'', ''semanticConfigDigest''] \<noteq> JStr (config_digest e s) then Some ''ECO_CONFIG_DRIFT''
      else case (pe_snapshot s, pe_snapshot_provenance s) of
        (Some r, Some p) \<Rightarrow>
          (case no_model_scope e s (the_str (jat plan [''spec'', ''workflow'', ''id''])) of
             None \<Rightarrow> Some ''ECO_WORKFLOW_SNAPSHOT_SCOPE_INVALID''
           | Some (entries, scope_slots) \<Rightarrow>
               if \<not> json_eq (jat plan [''spec'', ''repositorySnapshot'']) (no_model_snapshot e r p)
               then Some ''ECO_REPOSITORY_SNAPSHOT_MISMATCH''
               else if jat plan [''spec'', ''workflow'', ''scopeDigest''] \<noteq> JStr (digest_of e (JList entries))
                 \<or> jat plan [''spec'', ''workflow'', ''entryCount''] \<noteq> JInt (int (length entries))
                 \<or> \<not> json_eq (jat plan [''spec'', ''workflow'', ''scopeSlots'']) (JList scope_slots)
               then Some ''ECO_WORKFLOW_SNAPSHOT_SCOPE_INVALID''
               else if \<not> json_eq (jat plan [''spec'', ''budget'']) (no_model_budget entries) then Some ''ECO_BUDGET_INVALID''
               else None)
      | _ \<Rightarrow> Some ''ECO_REPOSITORY_SNAPSHOT_MISSING'')"

definition no_model_plan ::
    "policy_env \<Rightarrow> policy_engine \<Rightarrow> json \<Rightarrow> string \<Rightarrow> string \<Rightarrow> json \<Rightarrow> evidence_provenance \<Rightarrow> json list \<Rightarrow> json list \<Rightarrow> json" where
  "no_model_plan e s request run_id plan_id r p entries scope_slots =
     JObj [(''apiVersion'', JStr ''runtime.ai.ecosystem/v1alpha1''), (''kind'', JStr ''NoModelRunPlan''),
       (''metadata'', JObj [(''id'', JStr plan_id), (''runId'', JStr run_id), (''createdAt'', jat request [''metadata'', ''createdAt''])]),
       (''spec'', JObj [(''profile'', JStr ''no-model-a1/v1alpha1''), (''requestDigest'', JStr (digest_of e request)),
          (''project'', JObj [(''id'', project_name s), (''semanticConfigDigest'', JStr (config_digest e s)),
             (''sourceDigests'', source_digests e s), (''digestProfile'', JStr ''eco-python-json-v1''),
             (''contractProfile'', JStr ''runtime-contracts-v1alpha1''), (''schemaBundleDigest'', JStr (px_schema_bundle e)),
             (''policyEngineVersion'', JStr ''0.2.0'')]),
          (''effectivePolicy'', JObj [(''dataClass'', JStr ''D0''), (''maximumActionClass'', JStr ''A1''), (''sandbox'', JStr ''inspect''),
             (''network'', JStr ''deny''), (''modelRequests'', JInt 0), (''workspaceWrites'', JInt 0)]),
          (''repositorySnapshot'', no_model_snapshot e r p),
          (''workflow'', JObj [(''id'', jat request [''spec'', ''workflow'']), (''scopeDigest'', JStr (digest_of e (JList entries))),
             (''entryCount'', JInt (int (length entries))), (''scopeSlots'', JList scope_slots)]),
          (''budget'', no_model_budget entries)])]"

definition deny_subject ::
    "policy_env \<Rightarrow> string \<Rightarrow> json \<Rightarrow> string \<Rightarrow> string \<Rightarrow> int \<Rightarrow> string \<Rightarrow> (json option \<times> json) policy_act" where
  "deny_subject e kind request run_id decision_id now code =
     bindA (issue_decision e now \<lparr>dq_id = decision_id, dq_run_id = run_id, dq_kind = kind,
       dq_subject_id = jat request [''metadata'', ''id''], dq_subject_digest = digest_of e request, dq_effect = ''deny'',
       dq_reason = code, dq_expiry = None\<rparr>) (\<lambda>d. returnA (None, d))"

definition grant_plan ::
    "policy_env \<Rightarrow> string \<Rightarrow> json \<Rightarrow> string \<Rightarrow> string \<Rightarrow> string \<Rightarrow> int \<Rightarrow> string \<Rightarrow> int result \<Rightarrow> (json option \<times> json) policy_act" where
  "grant_plan e kind plan plan_id run_id decision_id now reason deadline =
     bindA (liftE deadline) (\<lambda>expiry.
     bindA (issue_decision e now \<lparr>dq_id = decision_id, dq_run_id = run_id, dq_kind = kind, dq_subject_id = JStr plan_id,
       dq_subject_digest = digest_of e plan, dq_effect = ''allow'', dq_reason = reason, dq_expiry = Some expiry\<rparr>) (\<lambda>d. returnA (Some plan, d)))"

definition no_model_checks :: "policy_env \<Rightarrow> policy_engine \<Rightarrow> json \<Rightarrow> string option" where
  "no_model_checks e s request =
     (if jat request [''spec'', ''projectId''] \<noteq> project_name s then Some ''ECO_PROJECT_MISMATCH''
      else if the_str (jat request [''spec'', ''workflow'']) \<notin> dict_keys NO_MODEL_WORKFLOWS then Some ''ECO_WORKFLOW_NOT_ALLOWED''
      else if pe_snapshot s = None \<or> pe_snapshot_provenance s = None then Some ''ECO_REPOSITORY_SNAPSHOT_MISSING''
      else if no_model_scope e s (the_str (jat request [''spec'', ''workflow''])) = None then Some ''ECO_WORKFLOW_SNAPSHOT_SCOPE_INVALID''
      else None)"

definition plan_no_model_run ::
    "policy_env \<Rightarrow> json \<Rightarrow> string \<Rightarrow> string \<Rightarrow> string \<Rightarrow> int \<Rightarrow> (json option \<times> json) policy_act" where
  "plan_no_model_run e request run_id plan_id decision_id now =
     bindA (refresh_evidence e now) (\<lambda>_.
     bindA (liftE (validate_runtime_record e request)) (\<lambda>_.
     bindA (liftE (policy_time e (jat request [''metadata'', ''createdAt'']))) (\<lambda>created s.
       let deny = (\<lambda>code. deny_subject e ''NoModelRunRequest'' request run_id decision_id now code s) in
       if created > now + seconds (pe_skew s) then deny ''ECO_REQUEST_TIME_INVALID''
       else case no_model_checks e s request of
         Some code \<Rightarrow> deny code
       | None \<Rightarrow>
           (let (entries, scope_slots) = the (no_model_scope e s (the_str (jat request [''spec'', ''workflow''])));
                plan = no_model_plan e s request run_id plan_id (the (pe_snapshot s)) (the (pe_snapshot_provenance s)) entries scope_slots in
            bindA (liftE (validate_runtime_record e plan)) (\<lambda>_.
            bindA (register_no_model_plan e plan) (\<lambda>_ s'.
              grant_plan e ''NoModelRunPlan'' plan plan_id run_id decision_id now ''ECO_NO_MODEL_RUN_ALLOWED'' (snapshot_deadline e s') s')) s))))"

definition activate_no_model_locked :: "policy_env \<Rightarrow> json \<Rightarrow> unit policy_act" where
  "activate_no_model_locked e plan s =
     (let run = the_str (jat plan [''metadata'', ''runId'']); digest = digest_of e plan in
      if map_of (pe_no_model_active s) run \<noteq> None \<and> map_of (pe_no_model_active s) run \<noteq> Some digest
      then (policy_error ''ECO_PLAN_ID_CONFLICT'', s)
      else (Inr (), s\<lparr>pe_no_model_active := dict_set run digest (pe_no_model_active s)\<rparr>))"

definition activate_no_model_plan :: "policy_env \<Rightarrow> json \<Rightarrow> json \<Rightarrow> int \<Rightarrow> unit policy_act" where
  "activate_no_model_plan e plan d now =
     bindA (refresh_evidence e now) (\<lambda>_.
     bindA (liftE (validate_runtime_record e plan)) (\<lambda>_ s.
       if jat plan [''kind''] \<noteq> JStr ''NoModelRunPlan''
          \<or> map_of (pe_no_model_plans s) (the_str (jat plan [''metadata'', ''id''])) \<noteq> Some (digest_of e plan)
       then (policy_error ''ECO_PLAN_UNTRUSTED'', s)
       else case no_model_binding_error e s plan of
         Some code \<Rightarrow> (policy_error code, s)
       | None \<Rightarrow> bindA (consume_decision e d plan now) (\<lambda>_. activate_no_model_locked e plan) s))"

definition no_model_read_code :: "policy_env \<Rightarrow> policy_engine \<Rightarrow> json \<Rightarrow> json \<Rightarrow> string option" where
  "no_model_read_code e s plan request =
     (case no_model_binding_error e s plan of
        Some code \<Rightarrow> Some code
      | None \<Rightarrow>
          if map_of (pe_no_model_active s) (the_str (jat plan [''metadata'', ''runId''])) \<noteq> Some (digest_of e plan) then Some ''ECO_PLAN_NOT_ACTIVE''
          else if jat request [''metadata'', ''runId''] \<noteq> jat plan [''metadata'', ''runId''] then Some ''ECO_RUN_MISMATCH''
          else if jat request [''metadata'', ''createdAt''] \<noteq> jat plan [''metadata'', ''createdAt''] then Some ''ECO_NO_MODEL_READ_TIME_INVALID''
          else if jat request [''spec'', ''planDigest''] \<noteq> JStr (digest_of e plan) then Some ''ECO_PLAN_MISMATCH''
          else if jat request [''spec'', ''workflow''] \<noteq> jat plan [''spec'', ''workflow'', ''id''] then Some ''ECO_WORKFLOW_NOT_ALLOWED''
          else (let paths = the (map_of NO_MODEL_WORKFLOWS (the_str (jat plan [''spec'', ''workflow'', ''id''])));
                    path = the_str (jat request [''spec'', ''path'']) in
                if path \<notin> set paths then Some ''ECO_REPOSITORY_PATH_UNSNAPSHOTTED''
                else if jat request [''spec'', ''scopeSlot'']
                     \<noteq> JStr (''slot-'' @ show_int (int (length (takeWhile (\<lambda>p. p \<noteq> path) paths)) + 1))
                then Some ''ECO_WORKFLOW_SNAPSHOT_SCOPE_INVALID'' else None))"

definition verdict_request ::
    "policy_env \<Rightarrow> string \<Rightarrow> json \<Rightarrow> string \<Rightarrow> json \<Rightarrow> string option \<Rightarrow> string \<Rightarrow> int option \<Rightarrow> decision_request" where
  "verdict_request e decision_id run_id kind request code allowed expiry = \<lparr>dq_id = decision_id, dq_run_id = the_str run_id, dq_kind = kind,
     dq_subject_id = jat request [''metadata'', ''id''], dq_subject_digest = digest_of e request,
     dq_effect = (if code = None then ''allow'' else ''deny''),
     dq_reason = (case code of None \<Rightarrow> allowed | Some c \<Rightarrow> c), dq_expiry = expiry\<rparr>"

definition authorize_no_model_read :: "policy_env \<Rightarrow> json \<Rightarrow> json \<Rightarrow> string \<Rightarrow> int \<Rightarrow> json policy_act" where
  "authorize_no_model_read e plan request decision_id now =
     bindA (refresh_evidence e now) (\<lambda>_.
     bindA (liftE (validate_runtime_record e plan)) (\<lambda>_.
     bindA (liftE (validate_runtime_record e request)) (\<lambda>_ s.
       if jat plan [''kind''] \<noteq> JStr ''NoModelRunPlan''
          \<or> map_of (pe_no_model_plans s) (the_str (jat plan [''metadata'', ''id''])) \<noteq> Some (digest_of e plan)
       then (policy_error ''ECO_PLAN_UNTRUSTED'', s)
       else let code = no_model_read_code e s plan request in
         bindA (liftE (if code = None then bindE (snapshot_deadline e s) (\<lambda>t. Inr (Some t)) else Inr None)) (\<lambda>expiry.
           issue_decision e now (verdict_request e decision_id (jat plan [''metadata'', ''runId'']) ''NoModelReadRequest'' request code
             ''ECO_NO_MODEL_READ_ALLOWED'' expiry)) s)))"

definition assert_no_model_plan_current :: "policy_env \<Rightarrow> json \<Rightarrow> int \<Rightarrow> unit policy_act" where
  "assert_no_model_plan_current e plan now =
     bindA (refresh_evidence e now) (\<lambda>_.
     bindA (liftE (validate_runtime_record e plan)) (\<lambda>_ s.
       if jat plan [''kind''] \<noteq> JStr ''NoModelRunPlan'' then (policy_error ''ECO_PLAN_UNTRUSTED'', s)
       else if map_of (pe_no_model_plans s) (the_str (jat plan [''metadata'', ''id''])) \<noteq> Some (digest_of e plan)
          \<or> map_of (pe_no_model_active s) (the_str (jat plan [''metadata'', ''runId''])) \<noteq> Some (digest_of e plan)
       then (policy_error ''ECO_PLAN_NOT_ACTIVE'', s)
       else case no_model_binding_error e s plan of Some code \<Rightarrow> (policy_error code, s) | None \<Rightarrow> (Inr (), s)))"

end
