(* ===== verification/Eco_Policy_Run.thy ===== *)
theory Eco_Policy_Run
  imports Eco_Policy
begin

text \<open>
  The planner for model runs and the authorization of single tool and model calls, \<open>PolicyEngine.plan_run\<close>,
  \<open>authorize_tool\<close> and \<open>authorize_model\<close> of \<open>src/src/eco_runtime/policy.py\<close>. A chain of checks either
  raises, denies with a code, or goes on with a value; the first check that fails decides. The checks read the
  engine and do not change it; what they decide is then registered and issued.
\<close>

section \<open>Verdicts\<close>

datatype stop = Raise py_error | Deny string

type_synonym 'a judged = "stop + 'a"

fun bindJ :: "'a judged \<Rightarrow> ('a \<Rightarrow> 'b judged) \<Rightarrow> 'b judged" where
  "bindJ (Inl x) f = Inl x"
| "bindJ (Inr x) f = f x"

definition refuse_if :: "bool \<Rightarrow> string \<Rightarrow> unit judged" where
  "refuse_if c code = (if c then Inl (Deny code) else Inr ())"

definition present :: "'a option \<Rightarrow> string \<Rightarrow> 'a judged" where
  "present x code = (case x of None \<Rightarrow> Inl (Deny code) | Some v \<Rightarrow> Inr v)"

definition indexed :: "'a option \<Rightarrow> 'a judged" where
  "indexed x = (case x of None \<Rightarrow> Inl (Raise PyKeyError) | Some v \<Rightarrow> Inr v)"

text \<open>A \<open>try\<close> whose handler denies: for contract errors, for policy errors, and with the code of the policy error.\<close>

fun unless_contract :: "string \<Rightarrow> 'a result \<Rightarrow> 'a judged" where
  "unless_contract code (Inl ContractValidationError) = Inl (Deny code)"
| "unless_contract code (Inl err) = Inl (Raise err)"
| "unless_contract code (Inr v) = Inr v"

fun unless_policy :: "string \<Rightarrow> 'a result \<Rightarrow> 'a judged" where
  "unless_policy code (Inl (RuntimePolicyError c)) = Inl (Deny code)"
| "unless_policy code (Inl err) = Inl (Raise err)"
| "unless_policy code (Inr v) = Inr v"

fun own_code :: "'a result \<Rightarrow> 'a judged" where
  "own_code (Inl (RuntimePolicyError c)) = Inl (Deny c)"
| "own_code (Inl err) = Inl (Raise err)"
| "own_code (Inr v) = Inr v"

text \<open>\<open>DATA_ORDER[v] > DATA_ORDER[w]\<close>.\<close>

definition data_above :: "json \<Rightarrow> json \<Rightarrow> bool judged" where
  "data_above v w = bindJ (indexed (level_of CHR ''D'' v)) (\<lambda>m. bindJ (indexed (level_of CHR ''D'' w)) (\<lambda>n. Inr (m > n)))"

fun truthy :: "json \<Rightarrow> bool" where
  "truthy JNull = False"
| "truthy (JBool b) = b"
| "truthy (JInt n) = (n \<noteq> 0)"
| "truthy (JStr t) = (t \<noteq> [])"
| "truthy (JList vs) = (vs \<noteq> [])"
| "truthy (JObj d) = (d \<noteq> [])"

section \<open>The planner\<close>

definition ARGUMENT_CONTRACTS :: "(string \<times> string) list" where
  "ARGUMENT_CONTRACTS = [(''repository.read'', ''eco://tools/repository-read/v1alpha1''),
     (''repository.write'', ''eco://tools/repository-write/v1alpha1'')]"

definition logical_role :: "policy_engine \<Rightarrow> json \<Rightarrow> json" where
  "logical_role s name = jget (the_obj (jat (jget (pe_bundle s) ''deployments'') [''logicalRoles''])) (the_str name)"

definition judge_identity :: "policy_engine \<Rightarrow> json \<Rightarrow> json judged" where
  "judge_identity s request =
     (let spec = jat request [''spec'']; r = logical_role s (jat spec [''logicalRole'']) in
      bindJ (refuse_if (jat spec [''projectId''] \<noteq> project_name s) ''ECO_PROJECT_MISMATCH'') (\<lambda>_.
      bindJ (refuse_if (jat request [''metadata'', ''actor'', ''type''] = JStr ''automation''
          \<and> jat spec [''classificationAuthority''] = JStr ''operator'') ''ECO_CLASSIFICATION_AUTHORITY_DENIED'') (\<lambda>_.
      bindJ (refuse_if (\<not> is_obj r) ''ECO_UNKNOWN_ROLE'') (\<lambda>_. Inr r))))"

definition judge_artifact :: "policy_env \<Rightarrow> policy_engine \<Rightarrow> string \<Rightarrow> json \<Rightarrow> json judged" where
  "judge_artifact e s run_id ref =
     bindJ (present (map_of (pe_artifacts s) (the_str ref)) ''ECO_ARTIFACT_MISSING'') (\<lambda>a.
     bindJ (refuse_if (\<not> is_obj a) ''ECO_ARTIFACT_MISSING'') (\<lambda>_.
     bindJ (unless_contract ''ECO_ARTIFACT_INVALID'' (validate_runtime_record e a)) (\<lambda>_.
     bindJ (refuse_if (jat a [''metadata'', ''runId''] \<noteq> JStr run_id \<or> jat a [''spec'', ''storageRef''] \<noteq> ref)
         ''ECO_ARTIFACT_MISMATCH'') (\<lambda>_. Inr a))))"

definition plan_input :: "policy_env \<Rightarrow> json \<Rightarrow> json \<Rightarrow> json" where
  "plan_input e ref a = JObj [(''ref'', ref), (''artifactRecordDigest'', JStr (digest_of e a)),
     (''contentDigest'', jat a [''spec'', ''sha256'']), (''dataClass'', jat a [''spec'', ''dataClass'']),
     (''byteLength'', jat a [''spec'', ''byteLength''])]"

text \<open>The loop over the references of the task: its inputs, and the highest data class seen.\<close>

fun judge_artifacts ::
    "policy_env \<Rightarrow> policy_engine \<Rightarrow> string \<Rightarrow> json \<Rightarrow> json list \<Rightarrow> json list \<Rightarrow> (json list \<times> json) judged" where
  "judge_artifacts e s run_id cls inputs [] = Inr (inputs, cls)"
| "judge_artifacts e s run_id cls inputs (ref # refs) =
     bindJ (judge_artifact e s run_id ref) (\<lambda>a.
     bindJ (data_above (jat a [''spec'', ''dataClass'']) cls) (\<lambda>above.
       judge_artifacts e s run_id (if above then jat a [''spec'', ''dataClass''] else cls) (inputs @ [plan_input e ref a]) refs))"

definition planned_bytes :: "json list \<Rightarrow> int" where
  "planned_bytes inputs = sum_list (map (\<lambda>i. the_int (jat i [''byteLength''])) inputs)"

definition judge_classes :: "json \<Rightarrow> json \<Rightarrow> json \<Rightarrow> json list \<Rightarrow> unit judged" where
  "judge_classes r spec cls inputs =
     bindJ (refuse_if (planned_bytes inputs > the_int (jat spec [''budget'', ''maxInputBytes''])) ''ECO_BUDGET_INVALID'') (\<lambda>_.
     bindJ (refuse_if (cls = JStr ''D4'' \<or> cls \<notin> set (the_list (jat r [''allowedDataClasses'']))) ''ECO_DATA_CLASS_DENIED'') (\<lambda>_.
     bindJ (indexed (level_of CHR ''A'' (jat spec [''constraints'', ''maximumActionClass'']))) (\<lambda>n.
       refuse_if (n > level_get CHR ''A'' (jat r [''maximumActionClass'']) (- 1)) ''ECO_ACTION_CLASS_DENIED'')))"

definition judge_pin :: "json \<Rightarrow> json \<Rightarrow> json judged" where
  "judge_pin r spec =
     (let candidates = the_list (jat r [''candidates'']); pin = jat spec [''deploymentPin''] in
      if pin = JNull
      then (case candidates of [] \<Rightarrow> Inl (Deny ''ECO_NO_ELIGIBLE_DEPLOYMENT'') | [c] \<Rightarrow> Inr c | _ \<Rightarrow> Inl (Deny ''ECO_ROUTE_AMBIGUOUS''))
      else if pin \<notin> set candidates then Inl (Deny ''ECO_DEPLOYMENT_NOT_CANDIDATE'') else Inr pin)"

definition judge_deployment :: "policy_env \<Rightarrow> policy_engine \<Rightarrow> json \<Rightarrow> json \<Rightarrow> json \<Rightarrow> (json \<times> string) judged" where
  "judge_deployment e s r cls pin =
     bindJ (present (map_of (pe_deployments s) (the_str pin)) ''ECO_UNKNOWN_DEPLOYMENT'') (\<lambda>d.
     let configured = JStr ''configured-at-runtime'' in
     bindJ (refuse_if (\<not> truthy (jat d [''enabled''])) ''ECO_DEPLOYMENT_DISABLED'') (\<lambda>_.
     bindJ (refuse_if (jat d [''provider''] = configured \<or> jat d [''model''] = configured) ''ECO_IDENTITY_INCOMPLETE'') (\<lambda>_.
     bindJ (own_code (deployment_identity_digest (ce_sha e) (the_obj d))) (\<lambda>identity.
     bindJ (refuse_if (jat d [''retention''] \<in> {JNull, JStr ''unknown'', JStr ''contract-required''}
         \<or> jat d [''trainingUse''] \<in> {JNull, JStr ''unknown''}
         \<or> jat d [''region''] \<in> {JNull, JStr ''unknown'', JStr ''contract-required''}) ''ECO_DEPLOYMENT_POLICY_INCOMPLETE'') (\<lambda>_.
     bindJ (refuse_if (jat d [''zone''] \<notin> set (the_list (jat r [''allowedZones'']))) ''ECO_ZONE_DENIED'') (\<lambda>_.
     bindJ (refuse_if (cls \<notin> set (the_list (jat d [''allowedDataClasses'']))) ''ECO_DATA_CLASS_DENIED'') (\<lambda>_.
     bindJ (refuse_if (level_get CHR ''P'' (jat d [''artifactTrust'']) (- 1)
         < level_get CHR ''P'' (jat r [''minimumArtifactTrust'']) (- 1)) ''ECO_ARTIFACT_TRUST_INSUFFICIENT'') (\<lambda>_. Inr (d, identity)))))))))"

definition observation_window :: "policy_env \<Rightarrow> json \<Rightarrow> (int \<times> int) judged" where
  "observation_window e obs = unless_policy ''ECO_OBSERVATION_INVALID''
     (bindE (policy_time e (jat obs [''metadata'', ''testedAt''])) (\<lambda>t.
      bindE (policy_time e (jat obs [''metadata'', ''validUntil''])) (\<lambda>v. Inr (t, v))))"

definition judge_observation :: "policy_env \<Rightarrow> policy_engine \<Rightarrow> json \<Rightarrow> json \<Rightarrow> string \<Rightarrow> int \<Rightarrow> json judged" where
  "judge_observation e s pin d identity now =
     bindJ (present (map_of (pe_observations s) (the_str pin)) ''ECO_OBSERVATION_MISSING'') (\<lambda>obs.
     bindJ (refuse_if (\<not> is_obj obs) ''ECO_OBSERVATION_MISSING'') (\<lambda>_.
     bindJ (unless_contract ''ECO_OBSERVATION_INVALID'' (validate_runtime_record e obs)) (\<lambda>_.
     bindJ (refuse_if (jat obs [''metadata'', ''deploymentId''] \<noteq> pin
         \<or> jat obs [''spec'', ''deploymentIdentityDigest''] \<noteq> JStr identity
         \<or> jat obs [''spec'', ''adapterVersion''] \<noteq> jat d [''identity'', ''adapterVersion'']) ''ECO_OBSERVATION_MISMATCH'') (\<lambda>_.
     bindJ (refuse_if (jat obs [''spec'', ''status''] \<noteq> JStr ''pass'') ''ECO_CAPABILITY_UNVERIFIED'') (\<lambda>_.
     bindJ (observation_window e obs) (\<lambda>(tested, valid).
     bindJ (refuse_if (valid \<le> tested) ''ECO_OBSERVATION_INVALID'') (\<lambda>_.
     bindJ (refuse_if (tested > now \<or> valid \<le> now) ''ECO_OBSERVATION_STALE'') (\<lambda>_.
     bindJ (refuse_if (jat obs [''spec'', ''suite'', ''digest''] \<notin> JStr ` pe_suites s) ''ECO_EVALUATION_SUITE_UNTRUSTED'') (\<lambda>_.
     bindJ (refuse_if (valid - tested > seconds (pe_observation_age s) \<or> now - tested > seconds (pe_observation_age s))
         ''ECO_OBSERVATION_STALE'') (\<lambda>_. Inr obs))))))))))"

section \<open>Capabilities and tools\<close>

fun judge_probes :: "(json \<times> json) list \<Rightarrow> json list \<Rightarrow> (json \<times> json) list judged" where
  "judge_probes acc [] = Inr acc"
| "judge_probes acc (p # ps) =
     (let i = jat p [''id''] in
      if i \<in> dict_keys acc \<or> the_int (jat p [''successes'']) > the_int (jat p [''attempts'']) then Inl (Deny ''ECO_OBSERVATION_INVALID'')
      else judge_probes (acc @ [(i, p)]) ps)"

definition REQUIRED_PROBES :: "(string \<times> string) list" where
  "REQUIRED_PROBES = [(''model.text'', ''text-basic''), (''model.tool-calling'', ''tool-call-normalization''),
     (''model.structured-output'', ''structured-output-strict'')]"

definition capability_probed :: "(json \<times> json) list \<Rightarrow> string \<Rightarrow> bool" where
  "capability_probed probes c =
     (case map_of REQUIRED_PROBES c of
        None \<Rightarrow> False
      | Some i \<Rightarrow> (case map_of probes (JStr i) of
            None \<Rightarrow> False
          | Some p \<Rightarrow> jat p [''status''] = JStr ''pass'' \<and> the_int (jat p [''successes'']) \<ge> 1))"

definition required_capabilities :: "json \<Rightarrow> json \<Rightarrow> string list" where
  "required_capabilities r spec = map the_str (the_list (jat r [''requiredCapabilities'']))
     @ (if the_list (jat spec [''requestedTools'']) \<noteq> [] then [''model.tool-calling''] else [])"

definition judge_capabilities :: "policy_engine \<Rightarrow> json \<Rightarrow> json \<Rightarrow> json \<Rightarrow> json \<Rightarrow> unit judged" where
  "judge_capabilities s r spec d obs =
     bindJ (judge_probes [] (the_list (jat obs [''spec'', ''probes'']))) (\<lambda>probes.
     let required = required_capabilities r spec in
     bindJ (refuse_if (\<not> set required \<subseteq> dict_keys (pe_capabilities s)) ''ECO_CAPABILITY_UNAVAILABLE'') (\<lambda>_.
     bindJ (refuse_if (\<not> set required \<subseteq> texts (jat d [''declaredCapabilities''])
         \<or> \<not> set required \<subseteq> texts (jat obs [''spec'', ''effectiveCapabilities''])) ''ECO_CAPABILITY_UNAVAILABLE'') (\<lambda>_.
     refuse_if (list_ex (\<lambda>c. \<not> capability_probed probes c) required) ''ECO_CAPABILITY_UNVERIFIED'')))"

definition binding_wrong :: "string \<Rightarrow> json \<Rightarrow> bool" where
  "binding_wrong tool_id tool \<longleftrightarrow>
     (tool_id = ''repository.read'' \<and> (jat tool [''transport''] \<noteq> JStr ''builtin'' \<or> jat tool [''binding''] \<noteq> JStr ''workspace-filesystem''
        \<or> jat tool [''capability''] \<noteq> JStr ''filesystem.read'' \<or> jat tool [''actionClass''] \<noteq> JStr ''A1''))
     \<or> (tool_id = ''repository.write'' \<and> (jat tool [''transport''] \<noteq> JStr ''builtin'' \<or> jat tool [''binding''] \<noteq> JStr ''workspace-filesystem''
        \<or> jat tool [''capability''] \<noteq> JStr ''workspace.write'' \<or> jat tool [''actionClass''] \<noteq> JStr ''A2''))"

definition plan_tool :: "policy_env \<Rightarrow> string \<Rightarrow> json \<Rightarrow> json judged" where
  "plan_tool e tool_id tool = bindJ (indexed (map_of ARGUMENT_CONTRACTS tool_id)) (\<lambda>contract.
     Inr (JObj [(''id'', JStr tool_id), (''catalogDigest'', JStr (digest_of e tool)), (''capability'', jat tool [''capability'']),
       (''actionClass'', jat tool [''actionClass'']), (''argumentContract'', JStr contract)]))"

definition judge_tool :: "policy_env \<Rightarrow> policy_engine \<Rightarrow> json \<Rightarrow> json \<Rightarrow> json \<Rightarrow> json judged" where
  "judge_tool e s r spec v =
     (let tool_id = the_str v in
      bindJ (present (map_of (pe_tools s) tool_id) ''ECO_TOOL_NOT_ALLOWED'') (\<lambda>tool.
      let n = level_get CHR ''A'' (jat tool [''actionClass'']) 99 in
      bindJ (refuse_if (tool_id \<notin> TOOL_ARGUMENT_TOOLS) ''ECO_TOOL_NOT_ALLOWED'') (\<lambda>_.
      bindJ (refuse_if (\<not> truthy (jat tool [''enabled''])) ''ECO_TOOL_DISABLED'') (\<lambda>_.
      bindJ (refuse_if (binding_wrong tool_id tool) ''ECO_TOOL_BINDING_MISMATCH'') (\<lambda>_.
      bindJ (indexed (level_of CHR ''A'' (jat spec [''constraints'', ''maximumActionClass'']))) (\<lambda>requested.
      bindJ (refuse_if (n > requested \<or> n > level_get CHR ''A'' (jat r [''maximumActionClass'']) (- 1)) ''ECO_ACTION_CLASS_DENIED'') (\<lambda>_.
      bindJ (refuse_if (jat spec [''constraints'', ''sandbox''] \<notin> set (the_list (jat tool [''allowedSandboxes'']))) ''ECO_SANDBOX_DENIED'') (\<lambda>_.
        plan_tool e tool_id tool))))))))"

fun judge_tools :: "policy_env \<Rightarrow> policy_engine \<Rightarrow> json \<Rightarrow> json \<Rightarrow> json list \<Rightarrow> json list judged" where
  "judge_tools e s r spec [] = Inr []"
| "judge_tools e s r spec (v # vs) = bindJ (judge_tool e s r spec v) (\<lambda>t. bindJ (judge_tools e s r spec vs) (\<lambda>ts. Inr (t # ts)))"

definition uses_repository :: "json \<Rightarrow> bool" where
  "uses_repository spec \<longleftrightarrow> (\<exists>v \<in> set (the_list (jat spec [''requestedTools''])). v \<in> {JStr ''repository.read'', JStr ''repository.write''})"

definition judge_toolset :: "policy_env \<Rightarrow> policy_engine \<Rightarrow> json \<Rightarrow> json \<Rightarrow> json list judged" where
  "judge_toolset e s r spec =
     (let tools = the_list (jat spec [''requestedTools'']) in
      bindJ (refuse_if (int (length tools) > the_int (jat spec [''budget'', ''maxToolRequests''])) ''ECO_BUDGET_INVALID'') (\<lambda>_.
      bindJ (refuse_if (uses_repository spec \<and> pe_snapshot s = None) ''ECO_REPOSITORY_SNAPSHOT_MISSING'') (\<lambda>_.
        judge_tools e s r spec tools)))"

section \<open>The plan\<close>

record granted_route =
  gr_role :: json
  gr_inputs :: "json list"
  gr_class :: json
  gr_pin :: json
  gr_deployment :: json
  gr_identity :: string
  gr_observation :: json
  gr_tools :: "json list"

definition judge_run :: "policy_env \<Rightarrow> policy_engine \<Rightarrow> json \<Rightarrow> string \<Rightarrow> int \<Rightarrow> granted_route judged" where
  "judge_run e s request run_id now =
     (let spec = jat request [''spec''] in
      bindJ (judge_identity s request) (\<lambda>r.
      bindJ (judge_artifacts e s run_id (jat spec [''dataClass'']) []
         (jat spec [''task'', ''instructionRef''] # the_list (jat spec [''task'', ''inputRefs'']))) (\<lambda>(inputs, cls).
      bindJ (judge_classes r spec cls inputs) (\<lambda>_.
      bindJ (judge_pin r spec) (\<lambda>pin.
      bindJ (judge_deployment e s r cls pin) (\<lambda>(d, identity).
      bindJ (judge_observation e s pin d identity now) (\<lambda>obs.
      bindJ (judge_capabilities s r spec d obs) (\<lambda>_.
      bindJ (judge_toolset e s r spec) (\<lambda>tools.
        Inr \<lparr>gr_role = r, gr_inputs = inputs, gr_class = cls, gr_pin = pin, gr_deployment = d, gr_identity = identity,
          gr_observation = obs, gr_tools = tools\<rparr>)))))))))"

definition plan_snapshot :: "policy_env \<Rightarrow> policy_engine \<Rightarrow> json \<Rightarrow> obj" where
  "plan_snapshot e s spec =
     (case (pe_snapshot s, pe_snapshot_provenance s) of
        (Some r, Some p) \<Rightarrow> if uses_repository spec
          then [(''repositorySnapshot'', JObj [(''id'', jat r [''metadata'', ''id'']), (''digest'', JStr (digest_of e r)),
             (''rootIdentityDigest'', jat r [''spec'', ''rootIdentityDigest'']), (''trust'', jat r [''spec'', ''trust'']),
             (''evidence'', provenance_json p)])]
          else []
      | _ \<Rightarrow> [])"

definition plan_route :: "policy_env \<Rightarrow> json \<Rightarrow> granted_route \<Rightarrow> evidence_provenance \<Rightarrow> json" where
  "plan_route e spec g p =
     (let d = gr_deployment g; i = jat d [''identity'']; endpoint = jat i [''endpointReferenceDigest''] in
      JObj [(''logicalRole'', jat spec [''logicalRole'']), (''deploymentId'', gr_pin g), (''deploymentDigest'', JStr (digest_of e d)),
        (''deploymentIdentityDigest'', JStr (gr_identity g)), (''observedCapabilitiesDigest'', JStr (digest_of e (gr_observation g))),
        (''observedCapabilitiesEvidence'', provenance_json p),
        (''brokerModelEgress'', JObj [(''allowed'', JBool True), (''adapter'', jat d [''adapter'']), (''endpointReferenceDigest'', endpoint)]),
        (''identity'', JObj [(''provider'', jat d [''provider'']), (''adapter'', jat d [''adapter'']), (''adapterVersion'', jat i [''adapterVersion'']),
           (''model'', jat d [''model'']), (''modelRevision'', jat i [''modelRevision'']), (''runtimeEngine'', jat i [''runtimeEngine'']),
           (''runtimeVersion'', jat i [''runtimeVersion'']), (''quantization'', jat i [''quantization'']), (''endpointReferenceDigest'', endpoint)])])"

definition plan_project :: "policy_env \<Rightarrow> policy_engine \<Rightarrow> json" where
  "plan_project e s = JObj [(''id'', project_name s), (''semanticConfigDigest'', JStr (config_digest e s)),
     (''sourceDigests'', source_digests e s), (''digestProfile'', JStr ''eco-python-json-v1''),
     (''contractProfile'', JStr ''runtime-contracts-v1alpha1''), (''schemaBundleDigest'', JStr (px_schema_bundle e)),
     (''policyEngineVersion'', JStr ''0.2.0'')]"

definition run_plan ::
    "policy_env \<Rightarrow> policy_engine \<Rightarrow> json \<Rightarrow> string \<Rightarrow> string \<Rightarrow> int \<Rightarrow> granted_route \<Rightarrow> evidence_provenance \<Rightarrow> json" where
  "run_plan e s request run_id plan_id now g p =
     (let spec = jat request [''spec''] in
      JObj [(''apiVersion'', JStr ''runtime.ai.ecosystem/v1alpha1''), (''kind'', JStr ''RunPlan''),
        (''metadata'', JObj [(''id'', JStr plan_id), (''runId'', JStr run_id), (''createdAt'', JStr (ce_iso e now))]),
        (''spec'', JObj ([(''requestDigest'', JStr (digest_of e request)), (''project'', plan_project e s),
           (''effectivePolicy'', JObj [(''dataClass'', gr_class g), (''maximumActionClass'', jat spec [''constraints'', ''maximumActionClass'']),
              (''sandbox'', jat spec [''constraints'', ''sandbox'']), (''agentNetwork'', JStr ''deny''), (''toolNetwork'', JStr ''deny'')]),
           (''inputs'', JList (gr_inputs g))] @ plan_snapshot e s spec
           @ [(''route'', plan_route e spec g p), (''tools'', JList (gr_tools g)), (''budget'', jat spec [''budget''])]))])"

definition evidence_deadline :: "'a clock_env_scheme \<Rightarrow> policy_engine \<Rightarrow> string \<Rightarrow> bool \<Rightarrow> int result" where
  "evidence_deadline e s i with_snapshot =
     (case (map_of (pe_observations s) i, map_of (pe_observation_provenance s) i) of
        (Some obs, Some p) \<Rightarrow>
          bindE (policy_time e (jat obs [''metadata'', ''validUntil''])) (\<lambda>valid.
          bindE (policy_time e (JStr (ep_expires_at p))) (\<lambda>expires.
          if with_snapshot then bindE (snapshot_deadline e s) (\<lambda>t. Inr (min (min valid expires) t)) else Inr (min valid expires)))
      | _ \<Rightarrow> Inl PyKeyError)"

definition grant_run ::
    "policy_env \<Rightarrow> json \<Rightarrow> string \<Rightarrow> string \<Rightarrow> string \<Rightarrow> int \<Rightarrow> granted_route \<Rightarrow> (json option \<times> json) policy_act" where
  "grant_run e request run_id plan_id decision_id now g s =
     (case map_of (pe_observation_provenance s) (the_str (gr_pin g)) of
        None \<Rightarrow> (Inl PyKeyError, s)
      | Some p \<Rightarrow>
          (let plan = run_plan e s request run_id plan_id now g p in
           bindA (liftE (validate_runtime_record e plan)) (\<lambda>_.
           bindA (register_plan e plan) (\<lambda>_ s'.
             grant_plan e ''RunPlan'' plan plan_id run_id decision_id now ''ECO_RUN_ALLOWED''
               (evidence_deadline e s' (the_str (gr_pin g)) (uses_repository (jat request [''spec'']))) s')) s))"

definition plan_run :: "policy_env \<Rightarrow> json \<Rightarrow> string \<Rightarrow> string \<Rightarrow> string \<Rightarrow> int \<Rightarrow> (json option \<times> json) policy_act" where
  "plan_run e request run_id plan_id decision_id now =
     bindA (refresh_evidence e now) (\<lambda>_.
     bindA (liftE (validate_runtime_record e request)) (\<lambda>_.
     bindA (liftE (policy_time e (jat request [''metadata'', ''createdAt'']))) (\<lambda>created s.
       let deny = (\<lambda>code. deny_subject e ''RunRequest'' request run_id decision_id now code s) in
       if created > now + seconds (pe_skew s) then deny ''ECO_REQUEST_TIME_INVALID''
       else case judge_run e s request run_id now of
         Inl (Raise err) \<Rightarrow> (Inl err, s)
       | Inl (Deny code) \<Rightarrow> deny code
       | Inr g \<Rightarrow> grant_run e request run_id plan_id decision_id now g s)))"

section \<open>Authorization of one call\<close>

text \<open>
  The timestamps of the request: \<open>None\<close> when one does not parse. An unparsable one leaves the code set, and
  the rest of the chain may replace it by another denial but never clears it.
\<close>

definition call_times :: "'a clock_env_scheme \<Rightarrow> json list \<Rightarrow> int list option result" where
  "call_times e vs =
     (case foldr (\<lambda>v r. bindE (policy_time e v) (\<lambda>t. bindE r (\<lambda>ts. Inr (t # ts)))) vs (Inr []) of
        Inl (RuntimePolicyError c) \<Rightarrow> Inr None
      | Inl err \<Rightarrow> Inl err
      | Inr ts \<Rightarrow> Inr (Some ts))"

definition call_early_or_late :: "policy_engine \<Rightarrow> int \<Rightarrow> int list option \<Rightarrow> bool" where
  "call_early_or_late s now ts =
     (case ts of Some (created # planned # _) \<Rightarrow> created < planned \<or> created > now + seconds (pe_skew s) | _ \<Rightarrow> False)"

definition verdict_code :: "string \<Rightarrow> bool \<Rightarrow> bool \<Rightarrow> unit judged \<Rightarrow> string option result" where
  "verdict_code time_code unparsed off chain =
     (if off then Inr (Some time_code)
      else case chain of
        Inl (Raise err) \<Rightarrow> Inl err
      | Inl (Deny code) \<Rightarrow> Inr (Some code)
      | Inr _ \<Rightarrow> Inr (if unparsed then Some time_code else None))"

definition judge_binding :: "policy_env \<Rightarrow> policy_engine \<Rightarrow> bool \<Rightarrow> json \<Rightarrow> json \<Rightarrow> bool \<Rightarrow> unit judged" where
  "judge_binding e s in_memory plan request other_run =
     (let run = jat plan [''metadata'', ''runId'']; digest = digest_of e plan in
      bindJ (refuse_if (jat request [''metadata'', ''runId''] \<noteq> run \<or> other_run) ''ECO_RUN_MISMATCH'') (\<lambda>_.
      bindJ (refuse_if (in_memory \<and> map_of (pe_active s) (the_str run) \<noteq> Some digest) ''ECO_PLAN_NOT_ACTIVE'') (\<lambda>_.
      bindJ (refuse_if (jat plan [''spec'', ''project'', ''semanticConfigDigest''] \<noteq> JStr (config_digest e s)) ''ECO_CONFIG_DRIFT'') (\<lambda>_.
        refuse_if (jat request [''spec'', ''planDigest''] \<noteq> JStr digest) ''ECO_PLAN_MISMATCH''))))"

text \<open>\<open>v == "D4" or DATA_ORDER[v] > DATA_ORDER[w]\<close>.\<close>

definition judge_data :: "json \<Rightarrow> json \<Rightarrow> unit judged" where
  "judge_data v w = bindJ (if v = JStr ''D4'' then Inr True else data_above v w) (\<lambda>c. refuse_if c ''ECO_DATA_CLASS_DENIED'')"

definition judge_read :: "policy_env \<Rightarrow> policy_engine \<Rightarrow> json \<Rightarrow> json \<Rightarrow> unit judged" where
  "judge_read e s plan arguments =
     (let path = the_str (jat arguments [''path'']) in
      bindJ (refuse_if (protected_repository_path e path) ''ECO_PROTECTED_PATH'') (\<lambda>_.
      bindJ (present (map_of (pe_entries s) path) ''ECO_REPOSITORY_PATH_UNSNAPSHOTTED'') (\<lambda>entry.
        judge_data (jat entry [''dataClass'']) (jat plan [''spec'', ''effectivePolicy'', ''dataClass'']))))"

definition before_wrong :: "json \<Rightarrow> json \<Rightarrow> bool" where
  "before_wrong before entry \<longleftrightarrow> jat before [''contentDigest''] \<noteq> jat entry [''contentDigest'']
     \<or> jat before [''byteLength''] \<noteq> jat entry [''byteLength''] \<or> jat before [''fileType''] \<noteq> JStr ''regular''
     \<or> jat before [''encoding''] \<noteq> JStr ''UTF-8''"

definition judge_write :: "policy_env \<Rightarrow> policy_engine \<Rightarrow> json \<Rightarrow> json \<Rightarrow> unit judged" where
  "judge_write e s plan arguments =
     (let path = the_str (jat arguments [''path'']); entry = map_of (pe_entries s) path; op = jat arguments [''operation''] in
      bindJ (refuse_if (jat plan [''spec'', ''effectivePolicy'', ''sandbox''] \<noteq> JStr ''workspace-change'') ''ECO_SANDBOX_DENIED'') (\<lambda>_.
      bindJ (refuse_if (protected_repository_path e path) ''ECO_PROTECTED_PATH'') (\<lambda>_.
      bindJ (judge_data (jat arguments [''candidateArtifact'', ''dataClass'']) (jat plan [''spec'', ''effectivePolicy'', ''dataClass''])) (\<lambda>_.
      bindJ (refuse_if (op = JStr ''create'' \<and> entry \<noteq> None) ''ECO_WRITE_PRECONDITION_MISMATCH'') (\<lambda>_.
      bindJ (refuse_if (op = JStr ''replace'' \<and> entry = None) ''ECO_REPOSITORY_PATH_UNSNAPSHOTTED'') (\<lambda>_.
        refuse_if (op = JStr ''replace'' \<and> before_wrong (jat arguments [''expectedBefore'']) (the entry)) ''ECO_WRITE_PRECONDITION_MISMATCH''))))))"

definition judge_call :: "policy_env \<Rightarrow> policy_engine \<Rightarrow> json \<Rightarrow> json \<Rightarrow> unit judged" where
  "judge_call e s plan request =
     (let tool_id = jat request [''spec'', ''toolId'']; arguments = jat request [''spec'', ''arguments''] in
      bindJ (refuse_if (tool_id \<notin> set (map (\<lambda>t. jat t [''id'']) (the_list (jat plan [''spec'', ''tools''])))) ''ECO_TOOL_NOT_ALLOWED'') (\<lambda>_.
      bindJ (refuse_if (tool_argument_errors e (the_str tool_id) arguments \<noteq> []) ''ECO_TOOL_ARGUMENTS_INVALID'') (\<lambda>_.
        if tool_id = JStr ''repository.read'' then judge_read e s plan arguments
        else if tool_id = JStr ''repository.write'' then judge_write e s plan arguments
        else Inr ())))"

definition tool_code :: "policy_env \<Rightarrow> policy_engine \<Rightarrow> bool \<Rightarrow> json \<Rightarrow> json \<Rightarrow> int \<Rightarrow> string option result" where
  "tool_code e s in_memory plan request now =
     bindE (call_times e [jat request [''metadata'', ''createdAt''], jat plan [''metadata'', ''createdAt'']]) (\<lambda>ts.
       verdict_code ''ECO_TOOL_REQUEST_TIME_INVALID'' (ts = None) (call_early_or_late s now ts)
         (bindJ (judge_binding e s in_memory plan request False) (\<lambda>_. judge_call e s plan request)))"

definition authorize_tool :: "policy_env \<Rightarrow> json \<Rightarrow> json \<Rightarrow> string \<Rightarrow> int \<Rightarrow> bool \<Rightarrow> json policy_act" where
  "authorize_tool e plan request decision_id now in_memory =
     bindA (refresh_evidence e now) (\<lambda>_.
     bindA (liftE (validate_runtime_record e plan)) (\<lambda>_.
     bindA (liftE (validate_runtime_record e request)) (\<lambda>_ s.
       bindA (liftE (tool_code e s in_memory plan request now)) (\<lambda>code.
       bindA (liftE (if code \<noteq> None then Inr None
           else bindE (evidence_deadline e s (the_str (jat plan [''spec'', ''route'', ''deploymentId'']))
             (''repositorySnapshot'' \<in> dict_keys (the_obj (jat plan [''spec''])))) (\<lambda>t. Inr (Some t)))) (\<lambda>expiry.
         issue_decision e now (verdict_request e decision_id (jat plan [''metadata'', ''runId'']) ''ToolRequest'' request code
           ''ECO_TOOL_ALLOWED'' expiry))) s)))"

section \<open>Authorization of one model call\<close>

definition judge_route :: "policy_env \<Rightarrow> policy_engine \<Rightarrow> json \<Rightarrow> json \<Rightarrow> json \<Rightarrow> unit judged" where
  "judge_route e s plan request binding =
     (let route = jat plan [''spec'', ''route'']; rs = jat request [''spec'']; i = the_str (jat route [''deploymentId'']) in
      bindJ (present (map_of (pe_deployments s) i) ''ECO_MODEL_ROUTE_STALE'') (\<lambda>d.
      bindJ (present (map_of (pe_observations s) i) ''ECO_MODEL_ROUTE_STALE'') (\<lambda>obs.
      bindJ (refuse_if (\<not> is_obj (logical_role s (jat route [''logicalRole'']))) ''ECO_MODEL_ROUTE_STALE'') (\<lambda>_.
      bindJ (refuse_if (jat route [''deploymentDigest''] \<noteq> JStr (digest_of e d)
          \<or> jat route [''observedCapabilitiesDigest''] \<noteq> JStr (digest_of e obs)
          \<or> jat route [''brokerModelEgress'', ''allowed''] \<noteq> JBool True) ''ECO_MODEL_ROUTE_STALE'') (\<lambda>_.
        refuse_if (jat rs [''deploymentId''] \<noteq> jat route [''deploymentId'']
          \<or> jat rs [''deploymentIdentityDigest''] \<noteq> jat route [''deploymentIdentityDigest'']
          \<or> jat rs [''endpointBindingDigest''] \<noteq> JStr (digest_of e binding)) ''ECO_MODEL_ROUTE_MISMATCH'')))))"

definition endpoint_wrong :: "json \<Rightarrow> json \<Rightarrow> bool" where
  "endpoint_wrong route binding \<longleftrightarrow>
     (let es = jat binding [''spec'']; i = jat route [''identity'']; ref = jat es [''endpointReferenceDigest''] in
      jat binding [''metadata'', ''deploymentId''] \<noteq> jat route [''deploymentId'']
      \<or> jat es [''deploymentIdentityDigest''] \<noteq> jat route [''deploymentIdentityDigest'']
      \<or> ref \<noteq> jat route [''brokerModelEgress'', ''endpointReferenceDigest''] \<or> ref \<noteq> jat i [''endpointReferenceDigest'']
      \<or> jat es [''adapter''] \<noteq> jat i [''adapter''] \<or> jat es [''adapterVersion''] \<noteq> jat i [''adapterVersion'']
      \<or> jat es [''model''] \<noteq> jat i [''model''])"

text \<open>Comparing a timestamp that did not parse raises.\<close>

definition judge_endpoint :: "json \<Rightarrow> json \<Rightarrow> int list option \<Rightarrow> int \<Rightarrow> unit judged" where
  "judge_endpoint plan binding ts now =
     (let route = jat plan [''spec'', ''route'']; es = jat binding [''spec''] in
      bindJ (refuse_if (jat plan [''spec'', ''budget'', ''maxCostMicrousd''] \<noteq> JInt 0
          \<or> jat route [''identity'', ''provider''] \<noteq> JStr ''local'' \<or> jat es [''transportProfile''] \<noteq> JStr ''local-loopback-http''
          \<or> jat es [''credentialMode''] \<noteq> JStr ''none'') ''ECO_PRICING_AUTHORITY_REQUIRED'') (\<lambda>_.
      bindJ (refuse_if (endpoint_wrong route binding) ''ECO_ENDPOINT_BINDING_MISMATCH'') (\<lambda>_.
      case ts of
        Some [created, planned, resolved, until] \<Rightarrow> refuse_if (\<not> (resolved \<le> now \<and> now < until)) ''ECO_ENDPOINT_BINDING_EXPIRED''
      | _ \<Rightarrow> Inl (Raise PyTypeError))))"

definition model_input :: "policy_env \<Rightarrow> json \<Rightarrow> json" where
  "model_input e artifact = (let a = jat artifact [''spec''] in
     JObj [(''artifactRecordDigest'', JStr (digest_of e artifact)), (''contentDigest'', jat a [''sha256'']),
       (''byteLength'', jat a [''byteLength'']), (''dataClass'', jat a [''dataClass'']), (''trust'', jat a [''trust''])])"

definition input_wrong :: "policy_env \<Rightarrow> json \<Rightarrow> json \<Rightarrow> json \<Rightarrow> bool" where
  "input_wrong e planned request artifact \<longleftrightarrow>
     (let a = jat artifact [''spec''] in
      jat planned [''ref''] \<noteq> jat a [''storageRef''] \<or> jat planned [''contentDigest''] \<noteq> jat a [''sha256'']
      \<or> jat planned [''byteLength''] \<noteq> jat a [''byteLength''] \<or> jat planned [''dataClass''] \<noteq> jat a [''dataClass'']
      \<or> \<not> json_eq (jat request [''spec'', ''input'']) (model_input e artifact))"

definition judge_input :: "policy_env \<Rightarrow> policy_engine \<Rightarrow> json \<Rightarrow> json \<Rightarrow> json \<Rightarrow> unit judged" where
  "judge_input e s plan request artifact =
     (let wanted = jat request [''spec'', ''input'', ''artifactRecordDigest'']; a = jat artifact [''spec''];
          r = logical_role s (jat plan [''spec'', ''route'', ''logicalRole'']) in
      bindJ (present (find (\<lambda>i. jat i [''artifactRecordDigest''] = wanted) (the_list (jat plan [''spec'', ''inputs''])))
         ''ECO_MODEL_INPUT_NOT_PLANNED'') (\<lambda>planned.
      bindJ (refuse_if (JStr (digest_of e artifact) \<noteq> wanted \<or> input_wrong e planned request artifact) ''ECO_MODEL_INPUT_MISMATCH'') (\<lambda>_.
      bindJ (refuse_if (jat a [''role''] \<noteq> JStr ''input'') ''ECO_DATA_CLASS_DENIED'') (\<lambda>_.
      bindJ (judge_data (jat a [''dataClass'']) (jat plan [''spec'', ''effectivePolicy'', ''dataClass''])) (\<lambda>_.
      bindJ (indexed (level_of CHR ''P'' (jat a [''trust'']))) (\<lambda>trust.
        refuse_if (trust < level_get CHR ''P'' (jat r [''minimumArtifactTrust'']) (- 1)) ''ECO_ARTIFACT_TRUST_INSUFFICIENT''))))))"

definition judge_parameters :: "json \<Rightarrow> json \<Rightarrow> unit judged" where
  "judge_parameters plan request =
     (let b = (\<lambda>n. the_int (jat plan [''spec'', ''budget'', n])); p = (\<lambda>n. the_int (jat request [''spec'', ''parameters'', n])) in
      refuse_if (p ''maxOutputBytes'' > b ''maxOutputBytes'' \<or> p ''maxOutputTokens'' > b ''maxTotalTokens''
        \<or> the_int (jat request [''spec'', ''timeoutMs'']) > b ''maxDurationSeconds'' * 1000) ''ECO_BUDGET_INVALID'')"

definition judge_model :: "policy_env \<Rightarrow> policy_engine \<Rightarrow> bool \<Rightarrow> json \<Rightarrow> json \<Rightarrow> json \<Rightarrow> json \<Rightarrow> int list option \<Rightarrow> int \<Rightarrow> unit judged" where
  "judge_model e s in_memory plan request binding artifact ts now =
     bindJ (judge_binding e s in_memory plan request (jat artifact [''metadata'', ''runId''] \<noteq> jat plan [''metadata'', ''runId''])) (\<lambda>_.
     bindJ (judge_route e s plan request binding) (\<lambda>_.
     bindJ (judge_endpoint plan binding ts now) (\<lambda>_.
     bindJ (judge_input e s plan request artifact) (\<lambda>_. judge_parameters plan request))))"

definition model_times :: "policy_env \<Rightarrow> json \<Rightarrow> json \<Rightarrow> json \<Rightarrow> int list option result" where
  "model_times e plan request binding = call_times e [jat request [''metadata'', ''createdAt''], jat plan [''metadata'', ''createdAt''],
     jat binding [''metadata'', ''resolvedAt''], jat binding [''metadata'', ''validUntil'']]"

definition model_code ::
    "policy_env \<Rightarrow> policy_engine \<Rightarrow> bool \<Rightarrow> json \<Rightarrow> json \<Rightarrow> json \<Rightarrow> json \<Rightarrow> int list option \<Rightarrow> int \<Rightarrow> string option result" where
  "model_code e s in_memory plan request binding artifact ts now =
     verdict_code ''ECO_MODEL_REQUEST_TIME_INVALID'' (ts = None) (call_early_or_late s now ts)
       (judge_model e s in_memory plan request binding artifact ts now)"

definition model_kinds :: "json \<Rightarrow> json \<Rightarrow> json \<Rightarrow> json \<Rightarrow> bool" where
  "model_kinds plan request binding artifact \<longleftrightarrow> jat plan [''kind''] = JStr ''RunPlan'' \<and> jat request [''kind''] = JStr ''ModelRequest''
     \<and> jat binding [''kind''] = JStr ''EndpointBinding'' \<and> jat artifact [''kind''] = JStr ''ArtifactRecord''"

definition model_expiry :: "policy_env \<Rightarrow> policy_engine \<Rightarrow> json \<Rightarrow> int list option \<Rightarrow> string option \<Rightarrow> int option result" where
  "model_expiry e s plan ts code = (if code \<noteq> None then Inr None
     else bindE (evidence_deadline e s (the_str (jat plan [''spec'', ''route'', ''deploymentId''])) False) (\<lambda>t.
       Inr (Some (min (the ts ! 3) t))))"

definition authorize_model ::
    "policy_env \<Rightarrow> json \<Rightarrow> json \<Rightarrow> json \<Rightarrow> json \<Rightarrow> string \<Rightarrow> int \<Rightarrow> bool \<Rightarrow> json policy_act" where
  "authorize_model e plan request binding artifact decision_id now in_memory =
     bindA (refresh_evidence e now) (\<lambda>_.
     bindA (liftE (check_all (validate_runtime_record e) [plan, request, binding, artifact])) (\<lambda>_ s.
       if \<not> model_kinds plan request binding artifact then (policy_error ''ECO_MODEL_AUTHORITY_INVALID'', s)
       else
         bindA (liftE (model_times e plan request binding)) (\<lambda>ts.
         bindA (liftE (model_code e s in_memory plan request binding artifact ts now)) (\<lambda>code.
         bindA (liftE (model_expiry e s plan ts code)) (\<lambda>expiry.
           issue_decision e now (verdict_request e decision_id (jat plan [''metadata'', ''runId'']) ''ModelRequest'' request code
             ''ECO_MODEL_ALLOWED'' expiry)))) s))"

end
