(* ===== verification/Eco_Policy_Safety.thy ===== *)
theory Eco_Policy_Safety
  imports Eco_Policy_Run
begin

text \<open>
  What every call of the policy engine keeps. \<open>engine_ok\<close> is the invariant of an engine: its evidence was opened
  under its trust store, every active plan was issued and rests on a consumed allow decision for exactly that plan,
  and every ledger belongs to the active plan of its run. \<open>engine_kept\<close> is the order in which an engine moves: its
  configuration stays, issued decisions keep their content and stay consumed, plans are never replaced, ledgers are
  never reset. Every method is steady for the two (interface \<open>act_logic\<close>), also when it raises.
\<close>

section \<open>Order and invariant\<close>

definition engine_config ::
    "policy_engine \<Rightarrow> (obj \<times> obj \<times> (string \<times> string) list \<times> string option) \<times> (int \<times> int \<times> int \<times> int) \<times> (obj \<times> obj \<times> obj)
       \<times> (string set \<times> evidence_trust option)" where
  "engine_config s = ((pe_bundle s, pe_artifacts s, pe_encoded_observations s, pe_encoded_snapshot s),
     (pe_ttl s, pe_snapshot_age s, pe_observation_age s, pe_skew s), (pe_deployments s, pe_tools s, pe_capabilities s),
     (pe_suites s, map_option in_trust (pe_ingestor s)))"

definition decisions_kept :: "(string \<times> issued_decision) list \<Rightarrow> (string \<times> issued_decision) list \<Rightarrow> bool" where
  "decisions_kept ds ds' \<longleftrightarrow> (\<forall>i r. map_of ds i = Some r \<longrightarrow>
     (\<exists>r'. map_of ds' i = Some r' \<and> is_digest r' = is_digest r \<and> (is_consumed r \<longrightarrow> is_consumed r')))"

definition ledger_kept :: "ledger \<Rightarrow> ledger \<Rightarrow> bool" where
  "ledger_kept l l' \<longleftrightarrow> ledger_plan_digest l' = ledger_plan_digest l \<and> limits l' = limits l \<and> (\<forall>d. meter_used l d \<le> meter_used l' d)"

definition ledgers_kept :: "(string \<times> ledger) list \<Rightarrow> (string \<times> ledger) list \<Rightarrow> bool" where
  "ledgers_kept ls ls' \<longleftrightarrow> (\<forall>run l. map_of ls run = Some l \<longrightarrow> (\<exists>l'. map_of ls' run = Some l' \<and> ledger_kept l l'))"

definition engine_kept :: "policy_engine \<Rightarrow> policy_engine \<Rightarrow> bool" where
  "engine_kept s t \<longleftrightarrow> engine_config s = engine_config t \<and> decisions_kept (pe_decisions s) (pe_decisions t)
     \<and> map_of (pe_plans s) \<subseteq>\<^sub>m map_of (pe_plans t) \<and> map_of (pe_active s) \<subseteq>\<^sub>m map_of (pe_active t)
     \<and> map_of (pe_no_model_plans s) \<subseteq>\<^sub>m map_of (pe_no_model_plans t)
     \<and> map_of (pe_no_model_active s) \<subseteq>\<^sub>m map_of (pe_no_model_active t) \<and> ledgers_kept (pe_ledgers s) (pe_ledgers t)"

text \<open>A record that the trust store of the engine opened at some time.\<close>

definition opened_by :: "policy_env \<Rightarrow> evidence_ingestor \<Rightarrow> string \<Rightarrow> json \<Rightarrow> evidence_provenance \<Rightarrow> bool" where
  "opened_by e g encoded r p \<longleftrightarrow> (\<exists>now policy body. open_evidence e (in_trust g) encoded now (in_skew g) = Inr (r, policy, body)
     \<and> (r, p) = verified_evidence e r body encoded)"

definition opened :: "policy_env \<Rightarrow> policy_engine \<Rightarrow> string \<Rightarrow> json \<Rightarrow> evidence_provenance \<Rightarrow> bool" where
  "opened e s encoded r p \<longleftrightarrow> (\<exists>g. pe_ingestor s = Some g \<and> opened_by e g encoded r p)"

definition evidence_ok :: "policy_env \<Rightarrow> policy_engine \<Rightarrow> bool" where
  "evidence_ok e s \<longleftrightarrow> map fst (pe_observations s) = map fst (pe_observation_provenance s)
     \<and> (\<forall>i r. (i, r) \<in> set (pe_observations s) \<longrightarrow> (\<exists>encoded p. (i, encoded) \<in> set (pe_encoded_observations s)
           \<and> (i, p) \<in> set (pe_observation_provenance s) \<and> opened e s encoded r p))
     \<and> (case (pe_snapshot s, pe_snapshot_provenance s) of
          (None, None) \<Rightarrow> pe_entries s = []
        | (Some r, Some p) \<Rightarrow> (\<exists>encoded. pe_encoded_snapshot s = Some encoded \<and> opened e s encoded r p)
            \<and> distinct (map fst (pe_entries s)) \<and> (\<forall>x \<in> set (pe_entries s). entry_ok e (jat r [''spec'', ''trust'']) x)
        | _ \<Rightarrow> False)"

definition consumed_for :: "policy_env \<Rightarrow> policy_engine \<Rightarrow> json \<Rightarrow> bool" where
  "consumed_for e s plan \<longleftrightarrow> (\<exists>d r. map_of (pe_decisions s) (the_str (jat d [''metadata'', ''id''])) = Some r
     \<and> is_digest r = digest_of e d \<and> is_consumed r \<and> jat d [''spec'', ''effect''] = JStr ''allow''
     \<and> jat d [''metadata'', ''runId''] = jat plan [''metadata'', ''runId'']
     \<and> jat d [''spec'', ''subject'', ''digest''] = JStr (digest_of e plan)
     \<and> jat d [''spec'', ''policySnapshot'', ''semanticConfigDigest''] = JStr (config_digest e s))"

definition active_authorized ::
    "policy_env \<Rightarrow> policy_engine \<Rightarrow> (string \<times> string) list \<Rightarrow> (string \<times> string) list \<Rightarrow> bool" where
  "active_authorized e s plans active \<longleftrightarrow> (\<forall>run dg. map_of active run = Some dg \<longrightarrow>
     (\<exists>plan. digest_of e plan = dg \<and> the_str (jat plan [''metadata'', ''runId'']) = run
        \<and> map_of plans (the_str (jat plan [''metadata'', ''id''])) = Some dg \<and> consumed_for e s plan))"

definition ledgers_ok :: "policy_engine \<Rightarrow> bool" where
  "ledgers_ok s \<longleftrightarrow> (\<forall>run l. map_of (pe_ledgers s) run = Some l
     \<longrightarrow> ledger_inv l \<and> map_of (pe_active s) run = Some (ledger_plan_digest l))"

definition engine_ok :: "policy_env \<Rightarrow> policy_engine \<Rightarrow> bool" where
  "engine_ok e s \<longleftrightarrow> evidence_ok e s \<and> active_authorized e s (pe_plans s) (pe_active s)
     \<and> active_authorized e s (pe_no_model_plans s) (pe_no_model_active s) \<and> ledgers_ok s"

lemma decisions_kept_refl: "decisions_kept ds ds"
  by (simp add: decisions_kept_def)

lemma decisions_kept_trans: "decisions_kept a b \<Longrightarrow> decisions_kept b c \<Longrightarrow> decisions_kept a c"
  unfolding decisions_kept_def by metis

lemma ledgers_kept_refl: "ledgers_kept ls ls"
  by (simp add: ledgers_kept_def ledger_kept_def)

lemma ledger_kept_trans: "ledger_kept a b \<Longrightarrow> ledger_kept b c \<Longrightarrow> ledger_kept a c"
  unfolding ledger_kept_def by (auto intro: order_trans)

lemma ledgers_kept_trans: "ledgers_kept a b \<Longrightarrow> ledgers_kept b c \<Longrightarrow> ledgers_kept a c"
  unfolding ledgers_kept_def using ledger_kept_trans by blast

lemma engine_kept_refl [intro, simp]: "engine_kept s s"
  by (simp add: engine_kept_def decisions_kept_refl ledgers_kept_refl)

lemma engine_kept_trans: "engine_kept s t \<Longrightarrow> engine_kept t u \<Longrightarrow> engine_kept s u"
  unfolding engine_kept_def by (auto intro: decisions_kept_trans ledgers_kept_trans map_le_trans)

interpretation pol: act_logic "engine_ok e" engine_kept for e :: policy_env
  by unfold_locales (auto intro: engine_kept_trans)

text \<open>An action that first reads the engine.\<close>

lemma steady_read: "(\<And>s. pol.steady e (f s)) \<Longrightarrow> pol.steady e (\<lambda>s. f s s)"
  by (simp add: pol.steady_def)

lemma steady_at: "(\<And>s. \<exists>m. pol.steady e m \<and> m s = f s) \<Longrightarrow> pol.steady e f"
  unfolding pol.steady_def by metis

lemma steady_liftE [intro, simp]: "pol.steady e (liftE r)"
  by (simp add: pol.steady_def liftE_def)

lemma steady_same: "(\<And>s. snd (m s) = s) \<Longrightarrow> pol.steady e m"
  by (simp add: pol.steady_def)

section \<open>Decisions\<close>

lemma config_digest_kept: "engine_kept s t \<Longrightarrow> config_digest e t = config_digest e s"
  by (simp add: engine_kept_def engine_config_def config_digest_def)

lemma decision_kept:
  assumes "engine_kept s t" and "map_of (pe_decisions s) i = Some r"
  obtains r' where "map_of (pe_decisions t) i = Some r'" "is_digest r' = is_digest r" "is_consumed r \<Longrightarrow> is_consumed r'"
  using assms unfolding engine_kept_def decisions_kept_def by blast

lemma consumed_for_kept:
  assumes "consumed_for e s plan" and k: "engine_kept s t"
  shows "consumed_for e t plan"
proof -
  from assms(1) obtain d r where d: "map_of (pe_decisions s) (the_str (jat d [''metadata'', ''id''])) = Some r"
    "is_digest r = digest_of e d" "is_consumed r" "jat d [''spec'', ''effect''] = JStr ''allow''"
    "jat d [''metadata'', ''runId''] = jat plan [''metadata'', ''runId'']"
    "jat d [''spec'', ''subject'', ''digest''] = JStr (digest_of e plan)"
    "jat d [''spec'', ''policySnapshot'', ''semanticConfigDigest''] = JStr (config_digest e s)"
    unfolding consumed_for_def by blast
  obtain r' where "map_of (pe_decisions t) (the_str (jat d [''metadata'', ''id''])) = Some r'" "is_digest r' = digest_of e d"
    "is_consumed r'" using decision_kept [OF k d(1)] d(2,3) by metis
  with d(4-7) config_digest_kept [OF k] show ?thesis unfolding consumed_for_def by metis
qed

lemma active_authorized_kept:
  assumes "active_authorized e s plans active" and "engine_kept s t" and "map_of plans \<subseteq>\<^sub>m map_of plans'"
  shows "active_authorized e t plans' active"
  unfolding active_authorized_def
proof (intro allI impI)
  fix run dg
  assume "map_of active run = Some dg"
  with assms(1) obtain plan where p: "digest_of e plan = dg" "the_str (jat plan [''metadata'', ''runId'']) = run"
    "map_of plans (the_str (jat plan [''metadata'', ''id''])) = Some dg" "consumed_for e s plan"
    unfolding active_authorized_def by blast
  from p(3) assms(3) have "map_of plans' (the_str (jat plan [''metadata'', ''id''])) = Some dg"
    by (auto simp: map_le_def dom_def)
  with p consumed_for_kept [OF p(4) assms(2)] show "\<exists>plan. digest_of e plan = dg
      \<and> the_str (jat plan [''metadata'', ''runId'']) = run
      \<and> map_of plans' (the_str (jat plan [''metadata'', ''id''])) = Some dg \<and> consumed_for e t plan" by blast
qed

text \<open>A change of decisions and plans that leaves evidence, active plans and ledgers alone.\<close>

lemma engine_ok_kept:
  assumes "engine_ok e s" and "engine_kept s t"
    and "evidence_ok e t" and "pe_active t = pe_active s" and "pe_no_model_active t = pe_no_model_active s"
    and "pe_ledgers t = pe_ledgers s"
  shows "engine_ok e t"
proof -
  have "map_of (pe_plans s) \<subseteq>\<^sub>m map_of (pe_plans t)" "map_of (pe_no_model_plans s) \<subseteq>\<^sub>m map_of (pe_no_model_plans t)"
    using assms(2) by (simp_all add: engine_kept_def)
  moreover have "active_authorized e s (pe_plans s) (pe_active s)"
    "active_authorized e s (pe_no_model_plans s) (pe_no_model_active s)" "ledgers_ok s"
    using assms(1) by (simp_all add: engine_ok_def)
  ultimately show ?thesis
    using assms active_authorized_kept by (fastforce simp: engine_ok_def ledgers_ok_def)
qed

definition evidence_view where
  "evidence_view s = (pe_observations s, pe_observation_provenance s, pe_snapshot s, pe_snapshot_provenance s, pe_entries s,
     pe_encoded_observations s, pe_encoded_snapshot s, pe_ingestor s)"

lemma opened_cong: "pe_ingestor s = pe_ingestor t \<Longrightarrow> opened e s = opened e t"
  by (simp add: opened_def fun_eq_iff)

lemma evidence_ok_cong: "evidence_view t = evidence_view s \<Longrightarrow> evidence_ok e s \<Longrightarrow> evidence_ok e t"
  unfolding evidence_view_def prod.inject evidence_ok_def
  by (elim conjE) (simp add: opened_cong [of t s] split: option.splits)

text \<open>A change of decisions and plans alone.\<close>

lemma engine_ok_view:
  "engine_ok e s \<Longrightarrow> engine_kept s t \<Longrightarrow> evidence_view t = evidence_view s \<Longrightarrow> pe_active t = pe_active s
     \<Longrightarrow> pe_no_model_active t = pe_no_model_active s \<Longrightarrow> pe_ledgers t = pe_ledgers s \<Longrightarrow> engine_ok e t"
  by (rule engine_ok_kept) (auto simp: engine_ok_def intro: evidence_ok_cong)

lemma decisions_kept_set:
  assumes "\<And>r. map_of ds i = Some r \<Longrightarrow> is_digest x = is_digest r \<and> (is_consumed r \<longrightarrow> is_consumed x)"
  shows "decisions_kept ds (dict_set i x ds)"
  using assms by (auto simp: decisions_kept_def)

lemma engine_kept_decisions: "decisions_kept (pe_decisions s) ds \<Longrightarrow> engine_kept s (s\<lparr>pe_decisions := ds\<rparr>)"
  by (simp add: engine_kept_def engine_config_def ledgers_kept_refl)

lemma engine_ok_decisions: "engine_ok e s \<Longrightarrow> decisions_kept (pe_decisions s) ds \<Longrightarrow> engine_ok e (s\<lparr>pe_decisions := ds\<rparr>)"
  by (rule engine_ok_view [OF _ engine_kept_decisions]) (simp_all add: evidence_view_def)

lemma steady_register_decision [intro]: "pol.steady e (register_decision e' d)"
proof (rule pol.steadyI)
  fix s r t
  assume ok: "engine_ok e s" and t: "register_decision e' d s = (r, t)"
  let ?i = "the_str (jat d [''metadata'', ''id''])"
  let ?x = "\<lambda>c. \<lparr>is_digest = digest_of e' d, is_consumed = c\<rparr>"
  from t consider "t = s"
    | c where "t = s\<lparr>pe_decisions := dict_set ?i (?x c) (pe_decisions s)\<rparr>"
      "\<And>r. map_of (pe_decisions s) ?i = Some r \<Longrightarrow> is_digest r = digest_of e' d \<and> is_consumed r = c"
    by (fastforce simp: register_decision_def Let_def split: option.splits if_splits)
  then show "engine_ok e t \<and> engine_kept s t"
  proof cases
    case (2 c)
    then have "decisions_kept (pe_decisions s) (dict_set ?i (?x c) (pe_decisions s))" by (intro decisions_kept_set) auto
    with 2(1) engine_ok_decisions [OF ok] engine_kept_decisions show ?thesis by blast
  qed (use ok in simp)
qed

lemma steady_issue_decision [intro]: "pol.steady e (issue_decision e' now q)"
  unfolding issue_decision_def Let_def by (rule steady_read) (intro pol.steady_bind steady_liftE steady_register_decision pol.steady_return)

lemma consume_decision_cases:
  assumes "consume_decision e d subject now s = (r, t)"
  obtains (refused) err where "r = Inl err" "t = s" "assert_decision_current e d subject now s = Inl err"
  | (consumed) i where "r = Inr ()" "assert_decision_current e d subject now s = Inr ()"
      "map_of (pe_decisions s) (the_str (jat d [''metadata'', ''id''])) = Some i" "is_digest i = digest_of e d" "\<not> is_consumed i"
      "t = s\<lparr>pe_decisions := dict_set (the_str (jat d [''metadata'', ''id''])) (i\<lparr>is_consumed := True\<rparr>) (pe_decisions s)\<rparr>"
proof (cases "assert_decision_current e d subject now s")
  case (Inl err)
  with assms show ?thesis by (intro refused [of err]) (auto simp: consume_decision_def Let_def)
next
  case (Inr u)
  then obtain i where i: "map_of (pe_decisions s) (the_str (jat d [''metadata'', ''id''])) = Some i"
    "is_digest i = digest_of e d" "\<not> is_consumed i"
    unfolding assert_decision_current_def by (auto split: if_splits option.splits)
  with assms Inr show ?thesis by (intro consumed [of i]) (auto simp: consume_decision_def Let_def)
qed

lemma steady_consume_decision [intro]: "pol.steady e (consume_decision e' d subject now)"
proof (rule pol.steadyI)
  fix s r t
  assume ok: "engine_ok e s" and t: "consume_decision e' d subject now s = (r, t)"
  from t show "engine_ok e t \<and> engine_kept s t"
  proof (cases rule: consume_decision_cases)
    case (consumed i)
    then have "decisions_kept (pe_decisions s)
        (dict_set (the_str (jat d [''metadata'', ''id''])) (i\<lparr>is_consumed := True\<rparr>) (pe_decisions s))"
      by (intro decisions_kept_set) auto
    with consumed(6) engine_ok_decisions [OF ok] engine_kept_decisions show ?thesis by blast
  qed (use ok in simp)
qed

section \<open>Plans and ledgers\<close>

lemma map_le_fresh: "(map_of d k = None \<or> map_of d k = Some v) \<Longrightarrow> map_of d \<subseteq>\<^sub>m (map_of d)(k \<mapsto> v)"
  by (auto simp: map_le_def)

lemma steady_register_plan [intro]: "pol.steady e (register_plan e' plan)"
proof (rule pol.steadyI)
  fix s r t
  assume ok: "engine_ok e s" and t: "register_plan e' plan s = (r, t)"
  show "engine_ok e t \<and> engine_kept s t"
  proof (cases "t = s")
    case False
    with t have t': "t = s\<lparr>pe_plans := dict_set (the_str (jat plan [''metadata'', ''id''])) (digest_of e' plan) (pe_plans s)\<rparr>"
      and m: "map_of (pe_plans s) \<subseteq>\<^sub>m map_of (pe_plans t)"
      by (auto simp: register_plan_def Let_def intro!: map_le_fresh split: if_splits)
    then have "engine_kept s t" by (simp add: engine_kept_def engine_config_def ledgers_kept_refl decisions_kept_refl)
    with engine_ok_view [OF ok this] t' show ?thesis by (simp add: evidence_view_def)
  qed (use ok in simp)
qed

lemma steady_register_no_model_plan [intro]: "pol.steady e (register_no_model_plan e' plan)"
proof (rule pol.steadyI)
  fix s r t
  assume ok: "engine_ok e s" and t: "register_no_model_plan e' plan s = (r, t)"
  show "engine_ok e t \<and> engine_kept s t"
  proof (cases "t = s")
    case False
    with t have t': "t = s\<lparr>pe_no_model_plans := dict_set (the_str (jat plan [''metadata'', ''id''])) (digest_of e' plan) (pe_no_model_plans s)\<rparr>"
      and m: "map_of (pe_no_model_plans s) \<subseteq>\<^sub>m map_of (pe_no_model_plans t)"
      by (auto simp: register_no_model_plan_def Let_def intro!: map_le_fresh split: if_splits)
    then have "engine_kept s t" by (simp add: engine_kept_def engine_config_def ledgers_kept_refl decisions_kept_refl)
    with engine_ok_view [OF ok this] t' show ?thesis by (simp add: evidence_view_def)
  qed (use ok in simp)
qed

text \<open>What a consumed decision leaves behind for the plan it was issued for.\<close>

lemma consume_decision_authorizes:
  assumes "consume_decision e d plan now s = (Inr u, t)"
  shows "consumed_for e t plan"
proof -
  from assms show ?thesis
  proof (cases rule: consume_decision_cases)
    case (consumed i)
    from consumed(2) have "jat d [''spec'', ''effect''] = JStr ''allow''"
      "jat d [''metadata'', ''runId''] = jat plan [''metadata'', ''runId'']"
      "jat d [''spec'', ''subject'', ''digest''] = JStr (digest_of e plan)"
      "jat d [''spec'', ''policySnapshot'', ''semanticConfigDigest''] = JStr (config_digest e s)"
      unfolding assert_decision_current_def by (auto split: if_splits)
    moreover have "map_of (pe_decisions t) (the_str (jat d [''metadata'', ''id''])) = Some (i\<lparr>is_consumed := True\<rparr>)"
      "config_digest e t = config_digest e s" using consumed(6) by (simp_all add: config_digest_def)
    ultimately show ?thesis unfolding consumed_for_def using consumed(4)
      by (intro exI [of _ d] exI [of _ "i\<lparr>is_consumed := True\<rparr>"]) simp
  qed simp
qed

lemma active_authorized_set:
  assumes "active_authorized e s plans active" and "consumed_for e s plan"
    and "map_of plans (the_str (jat plan [''metadata'', ''id''])) = Some (digest_of e plan)"
  shows "active_authorized e s plans (dict_set (the_str (jat plan [''metadata'', ''runId''])) (digest_of e plan) active)"
  using assms unfolding active_authorized_def by (auto split: if_splits)

lemma active_authorized_update [simp]:
  "active_authorized e (s\<lparr>pe_active := a\<rparr>) = active_authorized e s"
  "active_authorized e (s\<lparr>pe_no_model_active := a\<rparr>) = active_authorized e s"
  "active_authorized e (s\<lparr>pe_ledgers := ls\<rparr>) = active_authorized e s"
  by (simp_all add: active_authorized_def consumed_for_def config_digest_def fun_eq_iff)

lemma activate_locked_cases:
  assumes "activate_locked e plan clock s = (r, t)"
  obtains (conflict) "t = s"
  | (active) "map_of (pe_active s) (the_str (jat plan [''metadata'', ''runId''])) \<in> {None, Some (digest_of e plan)}"
      "t = s\<lparr>pe_active := dict_set (the_str (jat plan [''metadata'', ''runId''])) (digest_of e plan) (pe_active s)\<rparr>"
  | (ledger) l where "map_of (pe_active s) (the_str (jat plan [''metadata'', ''runId''])) \<in> {None, Some (digest_of e plan)}"
      "the_str (jat plan [''metadata'', ''runId'']) \<notin> dict_keys (pe_ledgers s)" "plan_ledger e plan clock = Inr l"
      "t = s\<lparr>pe_active := dict_set (the_str (jat plan [''metadata'', ''runId''])) (digest_of e plan) (pe_active s),
         pe_ledgers := dict_set (the_str (jat plan [''metadata'', ''runId''])) l (pe_ledgers s)\<rparr>"
proof -
  let ?run = "the_str (jat plan [''metadata'', ''runId''])"
  consider "map_of (pe_active s) ?run \<notin> {None, Some (digest_of e plan)}"
    | "map_of (pe_active s) ?run \<in> {None, Some (digest_of e plan)}" "?run \<in> dict_keys (pe_ledgers s)"
    | "map_of (pe_active s) ?run \<in> {None, Some (digest_of e plan)}" "?run \<notin> dict_keys (pe_ledgers s)" by blast
  then show ?thesis
  proof cases
    case 1
    with assms show ?thesis by (intro conflict) (simp add: activate_locked_def)
  next
    case 2
    with assms show ?thesis by (intro active) (auto simp: activate_locked_def Let_def)
  next
    case 3
    show ?thesis
    proof (cases "plan_ledger e plan clock")
      case (Inl err)
      with 3 assms show ?thesis by (intro active) (auto simp: activate_locked_def Let_def)
    next
      case (Inr l)
      with 3 assms show ?thesis by (intro ledger [of l]) (auto simp: activate_locked_def Let_def)
    qed
  qed
qed

lemma plan_ledger_fields: "plan_ledger e plan clock = Inr l \<Longrightarrow> ledger_inv l \<and> ledger_plan_digest l = digest_of e plan"
  by (auto simp: plan_ledger_def new_ledger_def Let_def split: if_splits intro: new_ledger_inv)

lemma activate_locked_ok:
  assumes ok: "engine_ok e s" and c: "consumed_for e s plan"
    and p: "map_of (pe_plans s) (the_str (jat plan [''metadata'', ''id''])) = Some (digest_of e plan)"
    and t: "activate_locked e plan clock s = (r, t)"
  shows "engine_ok e t \<and> engine_kept s t"
proof -
  let ?run = "the_str (jat plan [''metadata'', ''runId''])"
  let ?active = "dict_set ?run (digest_of e plan) (pe_active s)"
  have parts: "evidence_ok e s" "active_authorized e s (pe_plans s) ?active"
    "active_authorized e s (pe_no_model_plans s) (pe_no_model_active s)" "ledgers_ok s"
    using ok active_authorized_set [OF _ c p] by (simp_all add: engine_ok_def)
  from t show ?thesis
  proof (cases rule: activate_locked_cases)
    case active
    have "map_of (pe_active s) \<subseteq>\<^sub>m map_of ?active" using active(1) by (auto intro!: map_le_fresh)
    moreover have "ledgers_ok t" using parts(4) active by (auto simp: ledgers_ok_def)
    moreover have "evidence_ok e t" by (rule evidence_ok_cong [OF _ parts(1)]) (simp add: active(2) evidence_view_def)
    ultimately show ?thesis using parts active(2)
      by (simp add: engine_ok_def engine_kept_def engine_config_def decisions_kept_refl ledgers_kept_refl)
  next
    case (ledger l)
    have "map_of (pe_active s) \<subseteq>\<^sub>m map_of ?active" using ledger(1) by (auto intro!: map_le_fresh)
    moreover have "ledgers_ok t" using parts(4) ledger plan_ledger_fields [OF ledger(3)] by (auto simp: ledgers_ok_def)
    moreover have "evidence_ok e t" by (rule evidence_ok_cong [OF _ parts(1)]) (simp add: ledger(4) evidence_view_def)
    moreover have "ledgers_kept (pe_ledgers s) (pe_ledgers t)"
      using ledger(2,4) by (auto simp: ledgers_kept_def ledger_kept_def dict_keys_dom)
    ultimately show ?thesis using parts ledger(4)
      by (simp add: engine_ok_def engine_kept_def engine_config_def decisions_kept_refl)
  qed (use ok in simp)
qed

lemma activate_no_model_locked_ok:
  assumes ok: "engine_ok e s" and c: "consumed_for e s plan"
    and p: "map_of (pe_no_model_plans s) (the_str (jat plan [''metadata'', ''id''])) = Some (digest_of e plan)"
    and t: "activate_no_model_locked e plan s = (r, t)"
  shows "engine_ok e t \<and> engine_kept s t"
proof (cases "t = s")
  case False
  let ?run = "the_str (jat plan [''metadata'', ''runId''])"
  let ?active = "dict_set ?run (digest_of e plan) (pe_no_model_active s)"
  from False t have t': "t = s\<lparr>pe_no_model_active := ?active\<rparr>" and m: "map_of (pe_no_model_active s) \<subseteq>\<^sub>m map_of ?active"
    by (auto simp: activate_no_model_locked_def Let_def intro!: map_le_fresh split: if_splits)
  have "evidence_ok e s" using ok by (simp add: engine_ok_def)
  then have "evidence_ok e t" by (rule evidence_ok_cong [rotated]) (simp add: t' evidence_view_def)
  moreover have "active_authorized e s (pe_no_model_plans s) ?active" using ok active_authorized_set [OF _ c p] by (simp add: engine_ok_def)
  ultimately show ?thesis using ok t' m
    by (simp add: engine_ok_def engine_kept_def engine_config_def ledgers_ok_def decisions_kept_refl ledgers_kept_refl)
qed (use ok in simp)

text \<open>Consuming the decision of a registered plan and then activating it.\<close>

lemma consume_then_ok:
  assumes ok: "engine_ok e s"
    and t: "bindA (consume_decision e d plan now) (\<lambda>_. act) s = (r, t)"
    and act: "\<And>s' r t. engine_ok e s' \<Longrightarrow> consumed_for e s' plan \<Longrightarrow> pe_plans s' = pe_plans s
        \<Longrightarrow> pe_no_model_plans s' = pe_no_model_plans s \<Longrightarrow> act s' = (r, t) \<Longrightarrow> engine_ok e t \<and> engine_kept s' t"
  shows "engine_ok e t \<and> engine_kept s t"
proof -
  obtain x s' where c: "consume_decision e d plan now s = (x, s')" by force
  from pol.steadyD [OF steady_consume_decision ok c] have ok': "engine_ok e s'" "engine_kept s s'" by blast+
  show ?thesis
  proof (cases x)
    case (Inl err)
    with c t ok' show ?thesis by simp
  next
    case (Inr u)
    from c have "pe_plans s' = pe_plans s" "pe_no_model_plans s' = pe_no_model_plans s"
      by (cases rule: consume_decision_cases; simp)+
    moreover have "act s' = (r, t)" using t c Inr by simp
    ultimately have "engine_ok e t \<and> engine_kept s' t"
      using act ok' consume_decision_authorizes [OF c [unfolded Inr]] by blast
    with ok' show ?thesis by (blast intro: engine_kept_trans)
  qed
qed

section \<open>Evidence\<close>

definition same_trust :: "evidence_ingestor \<Rightarrow> evidence_ingestor \<Rightarrow> bool" where
  "same_trust g g' \<longleftrightarrow> in_trust g' = in_trust g \<and> in_skew g' = in_skew g"

lemma same_trust_refl [simp]: "same_trust g g"
  by (simp add: same_trust_def)

lemma same_trust_trans: "same_trust f g \<Longrightarrow> same_trust g h \<Longrightarrow> same_trust f h"
  by (simp add: same_trust_def)

lemma opened_by_same: "same_trust g g' \<Longrightarrow> opened_by e g' = opened_by e g"
  by (simp add: same_trust_def opened_by_def fun_eq_iff)

lemma opened_byI:
  "open_evidence e (in_trust g) encoded now (in_skew g) = Inr (r, policy, body) \<Longrightarrow> verified_evidence e r body encoded = (r, p)
     \<Longrightarrow> opened_by e g encoded r p"
  unfolding opened_by_def by metis

lemma ingestor_open_facts:
  assumes "ingestor_open e encoded now g = (r, g')"
  shows "same_trust g g' \<and> (\<forall>x. r = Inr x \<longrightarrow> open_evidence e (in_trust g) encoded now (in_skew g) = Inr x)"
  using assms by (auto simp: ingestor_open_def Let_def same_trust_def split: sum.splits prod.splits if_splits)

lemma checked_evidence_facts:
  assumes "checked_evidence e encoded now check g = (r, g')"
  shows "same_trust g g' \<and> (\<forall>x p. r = Inr (x, p) \<longrightarrow> opened_by e g encoded x p)"
proof -
  obtain r1 g1 where o: "ingestor_open e encoded now g = (r1, g1)" by force
  note f = ingestor_open_facts [OF o]
  show ?thesis
  proof (cases r1)
    case (Inl err)
    with o assms f show ?thesis by (auto simp: checked_evidence_def)
  next
    case (Inr y)
    obtain x policy body where y: "y = (x, policy, body)" by (cases y)
    from assms o have r: "r = bindE (check g1 x policy body) (\<lambda>_. Inr (verified_evidence e x body encoded))" "g' = g1"
      by (auto simp: checked_evidence_def Inr y)
    have "verified_evidence e x body encoded = (x', p) \<Longrightarrow> x' = x" for x' p by (simp add: verified_evidence_def)
    with r f Inr y show ?thesis by (auto intro: opened_byI)
  qed
qed

lemma observe_all_facts:
  "observe_all e s now xs g = (r, g') \<Longrightarrow> same_trust g g' \<and> (\<forall>ys. r = Inr ys \<longrightarrow> map fst ys = map fst xs
     \<and> (\<forall>i x p. (i, x, p) \<in> set ys \<longrightarrow> (\<exists>encoded. (i, encoded) \<in> set xs \<and> opened_by e g encoded x p)))"
proof (induction xs arbitrary: g r g')
  case (Cons a xs)
  obtain i encoded where a: "a = (i, encoded)" by (cases a)
  show ?case
  proof (cases "\<exists>d identity. map_of (pe_deployments s) i = Some d \<and> deployment_identity_digest (ce_sha e) (the_obj d) = Inr identity")
    case False
    with Cons.prems show ?thesis by (auto simp: a split: option.splits sum.splits)
  next
    case True
    then obtain d identity where d: "map_of (pe_deployments s) i = Some d"
      "deployment_identity_digest (ce_sha e) (the_obj d) = Inr identity" by blast
    let ?ingest = "ingest_observed_capabilities e encoded i identity (pe_suites s) (map_of (pe_expectations s) i) now"
    obtain r1 g1 where o: "?ingest g = (r1, g1)" by force
    note f = checked_evidence_facts [OF o [unfolded ingest_observed_capabilities_def]]
    show ?thesis
    proof (cases r1)
      case (Inl err)
      with Cons.prems d o f show ?thesis by (auto simp: a)
    next
      case (Inr v)
      obtain x p where v: "v = (x, p)" by (cases v)
      obtain r2 g2 where o2: "observe_all e s now xs g1 = (r2, g2)" by force
      note f2 = Cons.IH [OF o2]
      have "opened_by e g1 = opened_by e g" using f opened_by_same by blast
      moreover have "same_trust g g2" using f f2 same_trust_trans by blast
      moreover have "opened_by e g encoded x p" using f Inr v by blast
      ultimately show ?thesis using Cons.prems d o o2 Inr v f2
        by (cases r2) (auto simp: a, blast+)
    qed
  qed
qed simp

lemma observe_snapshot_facts:
  assumes "observe_snapshot e s now g = (r, g')"
  shows "same_trust g g' \<and> (\<forall>snap. r = Inr snap \<longrightarrow> (case snap of None \<Rightarrow> True
     | Some (x, p) \<Rightarrow> \<exists>encoded. pe_encoded_snapshot s = Some encoded \<and> opened_by e g encoded x p))"
proof (cases "\<exists>encoded root. pe_encoded_snapshot s = Some encoded \<and> pe_root_identity s = Some root")
  case False
  with assms show ?thesis by (auto simp: observe_snapshot_def split: option.splits)
next
  case True
  then obtain encoded root where x: "pe_encoded_snapshot s = Some encoded" "pe_root_identity s = Some root" by blast
  obtain r1 g1 where o: "ingest_repository_snapshot e encoded (the_str (project_name s)) root now g = (r1, g1)" by force
  from checked_evidence_facts [OF o [unfolded ingest_repository_snapshot_def]] assms o x show ?thesis
    by (cases r1) (auto simp: observe_snapshot_def)
qed

lemma snapshot_entries_ok:
  assumes "repository_snapshot_entries e r project = Inr entries"
  shows "distinct (map fst entries) \<and> (\<forall>x \<in> set entries. entry_ok e (jat r [''spec'', ''trust'']) x)"
proof -
  from assms have "add_entries e (jat r [''spec'', ''trust'']) [] (the_list (jat r [''spec'', ''entries''])) = Inr entries"
    by (auto simp: repository_snapshot_entries_def split: sum.splits if_splits py_error.splits)
  from add_entries_ok [OF this] show ?thesis by simp
qed

text \<open>A change of the evidence alone.\<close>

lemma evidence_change_ok:
  assumes "engine_ok e s" and "engine_config s = engine_config t" and "evidence_ok e t"
    and "pe_decisions t = pe_decisions s" "pe_plans t = pe_plans s" "pe_active t = pe_active s"
      "pe_no_model_plans t = pe_no_model_plans s" "pe_no_model_active t = pe_no_model_active s" "pe_ledgers t = pe_ledgers s"
  shows "engine_ok e t \<and> engine_kept s t"
proof -
  have "engine_kept s t" using assms by (simp add: engine_kept_def decisions_kept_refl ledgers_kept_refl)
  with engine_ok_kept [OF assms(1) this assms(3)] assms show ?thesis by simp
qed

lemma evidence_ok_ingestor:
  assumes "evidence_ok e s" and "pe_ingestor s = Some g" and "same_trust g g'"
  shows "evidence_ok e (s\<lparr>pe_ingestor := Some g'\<rparr>)"
proof -
  have "opened e (s\<lparr>pe_ingestor := Some g'\<rparr>) = opened e s"
    using assms(2) opened_by_same [OF assms(3)] by (simp add: opened_def fun_eq_iff)
  with assms(1) show ?thesis unfolding evidence_ok_def by (simp split: option.splits)
qed

lemma engine_config_ingestor: "pe_ingestor s = Some g \<Longrightarrow> same_trust g g' \<Longrightarrow> engine_config (s\<lparr>pe_ingestor := Some g'\<rparr>) = engine_config s"
  by (simp add: engine_config_def same_trust_def)

lemma store_evidence_ok:
  assumes g: "pe_ingestor s = Some g" and keys: "map fst observed = map fst (pe_encoded_observations s)"
    and obs: "\<And>i x p. (i, x, p) \<in> set observed \<Longrightarrow> \<exists>encoded. (i, encoded) \<in> set (pe_encoded_observations s) \<and> opened_by e g encoded x p"
    and snap: "\<And>x p. snap = Some (x, p) \<Longrightarrow> \<exists>encoded. pe_encoded_snapshot s = Some encoded \<and> opened_by e g encoded x p"
    and t: "store_evidence e observed snap s = (r, t)"
  shows "evidence_ok e t \<and> engine_config t = engine_config s \<and> pe_decisions t = pe_decisions s \<and> pe_plans t = pe_plans s
    \<and> pe_active t = pe_active s \<and> pe_no_model_plans t = pe_no_model_plans s \<and> pe_no_model_active t = pe_no_model_active s
    \<and> pe_ledgers t = pe_ledgers s"
proof -
  define s1 where "s1 = s\<lparr>pe_observations := map (\<lambda>(i, r, p). (i, r)) observed,
     pe_observation_provenance := map (\<lambda>(i, r, p). (i, p)) observed,
     pe_snapshot := map_option fst snap, pe_snapshot_provenance := map_option snd snap, pe_entries := []\<rparr>"
  from t consider "t = s1" | x p entries where "snap = Some (x, p)" "t = s1\<lparr>pe_entries := entries\<rparr>"
      "repository_snapshot_entries e x (Some (project_name s)) = Inr entries"
    unfolding store_evidence_def Let_def s1_def [symmetric] by (auto split: option.splits sum.splits)
  then obtain entries where t': "t = s1\<lparr>pe_entries := entries\<rparr>"
    and en: "entries \<noteq> [] \<Longrightarrow> \<exists>x p. snap = Some (x, p) \<and> repository_snapshot_entries e x (Some (project_name s)) = Inr entries"
  proof cases
    case 1
    then have "t = s1\<lparr>pe_entries := []\<rparr>" by (simp add: s1_def)
    then show ?thesis using that by blast
  qed (use that in blast)
  have op: "opened e t = opened_by e g"
    using g by (simp add: opened_def t' s1_def fun_eq_iff)
  have "map fst (map (\<lambda>(i, r, p). (i, r)) observed) = map fst (map (\<lambda>(i, r, p). (i, p)) observed)"
    by (induction observed) auto
  then have keys': "map fst (pe_observations t) = map fst (pe_observation_provenance t)" by (simp add: t' s1_def)
  have obs': "\<exists>encoded p. (i, encoded) \<in> set (pe_encoded_observations t) \<and> (i, p) \<in> set (pe_observation_provenance t)
      \<and> opened e t encoded x p" if x: "(i, x) \<in> set (pe_observations t)" for i x
  proof -
    from x obtain p where p: "(i, x, p) \<in> set observed" by (auto simp: t' s1_def)
    then have "(i, p) \<in> set (pe_observation_provenance t)" by (force simp: t' s1_def)
    moreover have "pe_encoded_observations t = pe_encoded_observations s" by (simp add: t' s1_def)
    ultimately show ?thesis using obs [OF p] unfolding op by auto
  qed
  have en': "distinct (map fst entries) \<and> (\<forall>y \<in> set entries. entry_ok e (jat x [''spec'', ''trust'']) y)" if "snap = Some (x, p)" for x p
    using en snapshot_entries_ok that by (cases "entries = []") auto
  have none: "entries = []" if "snap = None" using en that by auto
  have fields: "pe_snapshot t = map_option fst snap" "pe_snapshot_provenance t = map_option snd snap" "pe_entries t = entries"
    "pe_encoded_snapshot t = pe_encoded_snapshot s" by (simp_all add: t' s1_def)
  have "case (pe_snapshot t, pe_snapshot_provenance t) of (None, None) \<Rightarrow> pe_entries t = []
      | (Some r, Some p) \<Rightarrow> (\<exists>encoded. pe_encoded_snapshot t = Some encoded \<and> opened e t encoded r p)
          \<and> distinct (map fst (pe_entries t)) \<and> (\<forall>x \<in> set (pe_entries t). entry_ok e (jat r [''spec'', ''trust'']) x)
      | _ \<Rightarrow> False"
    unfolding fields op using none en' snap by (cases snap) auto
  with keys' obs' have "evidence_ok e t" unfolding evidence_ok_def by blast
  then show ?thesis by (simp add: t' s1_def engine_config_def)
qed

lemma steady_refresh [intro]: "pol.steady e (refresh_evidence e now)"
proof (rule pol.steadyI)
  fix s r t
  assume ok: "engine_ok e s" and t: "refresh_evidence e now s = (r, t)"
  show "engine_ok e t \<and> engine_kept s t"
  proof (cases "pe_ingestor s")
    case None
    with t ok show ?thesis by (simp add: refresh_evidence_def)
  next
    case (Some g)
    obtain r1 g1 where o1: "observe_all e s now (pe_encoded_observations s) g = (r1, g1)" by force
    note f1 = observe_all_facts [OF o1]
    have raised: "engine_ok e (s\<lparr>pe_ingestor := Some h\<rparr>) \<and> engine_kept s (s\<lparr>pe_ingestor := Some h\<rparr>)" if "same_trust g h" for h
      using evidence_change_ok [OF ok] evidence_ok_ingestor [OF _ Some that] engine_config_ingestor [OF Some that] ok
      by (simp add: engine_ok_def)
    show ?thesis
    proof (cases r1)
      case (Inl err)
      with t Some o1 raised f1 show ?thesis by (auto simp: refresh_evidence_def)
    next
      case (Inr observed)
      obtain r2 g2 where o2: "observe_snapshot e s now g1 = (r2, g2)" by force
      note f2 = observe_snapshot_facts [OF o2]
      have trust: "same_trust g g2" by (rule same_trust_trans [OF conjunct1 [OF f1] conjunct1 [OF f2]])
      note same = opened_by_same [OF conjunct1 [OF f1], of e] opened_by_same [OF trust, of e]
      show ?thesis
      proof (cases r2)
        case (Inl err)
        with t Some o1 o2 Inr raised [OF trust] show ?thesis by (auto simp: refresh_evidence_def)
      next
        case (Inr snap)
        let ?s = "s\<lparr>pe_ingestor := Some g2\<rparr>"
        have st: "store_evidence e observed snap ?s = (r, t)"
          using t Some o1 o2 Inr \<open>r1 = Inr observed\<close> by (simp add: refresh_evidence_def)
        have "evidence_ok e t \<and> engine_config t = engine_config ?s \<and> pe_decisions t = pe_decisions ?s \<and> pe_plans t = pe_plans ?s
          \<and> pe_active t = pe_active ?s \<and> pe_no_model_plans t = pe_no_model_plans ?s \<and> pe_no_model_active t = pe_no_model_active ?s
          \<and> pe_ledgers t = pe_ledgers ?s"
        proof (rule store_evidence_ok [OF _ _ _ _ st, of g2])
          show "pe_ingestor ?s = Some g2" by simp
          show "map fst observed = map fst (pe_encoded_observations ?s)" using f1 \<open>r1 = Inr observed\<close> by simp
          show "\<exists>encoded. (i, encoded) \<in> set (pe_encoded_observations ?s) \<and> opened_by e g2 encoded x p"
            if "(i, x, p) \<in> set observed" for i x p using f1 \<open>r1 = Inr observed\<close> that same by auto
          show "\<exists>encoded. pe_encoded_snapshot ?s = Some encoded \<and> opened_by e g2 encoded x p" if "snap = Some (x, p)" for x p
            using f2 Inr that same by auto
        qed
        with evidence_change_ok [OF ok, of t] engine_config_ingestor [OF Some trust] show ?thesis by simp
      qed
    qed
  qed
qed

section \<open>Methods\<close>

lemma steady_activate_plan [intro]: "pol.steady e (activate_plan e plan d now clock)"
  unfolding activate_plan_def
proof (intro pol.steady_bind steady_refresh steady_liftE)
  fix u v
  show "pol.steady e (\<lambda>s. if map_of (pe_plans s) (the_str (jat plan [''metadata'', ''id''])) \<noteq> Some (digest_of e plan)
      then (policy_error ''ECO_PLAN_UNTRUSTED'', s) else bindA (consume_decision e d plan now) (\<lambda>_. activate_locked e plan clock) s)"
  proof (rule pol.steadyI)
    fix s r t
    assume ok: "engine_ok e s" and t: "(if map_of (pe_plans s) (the_str (jat plan [''metadata'', ''id''])) \<noteq> Some (digest_of e plan)
      then (policy_error ''ECO_PLAN_UNTRUSTED'', s) else bindA (consume_decision e d plan now) (\<lambda>_. activate_locked e plan clock) s) = (r, t)"
    show "engine_ok e t \<and> engine_kept s t"
    proof (cases "map_of (pe_plans s) (the_str (jat plan [''metadata'', ''id''])) = Some (digest_of e plan)")
      case True
      with t have b: "bindA (consume_decision e d plan now) (\<lambda>_. activate_locked e plan clock) s = (r, t)" by simp
      show ?thesis by (rule consume_then_ok [OF ok b]) (use True activate_locked_ok in simp)
    qed (use ok t in simp)
  qed
qed

lemma steady_activate_no_model_plan [intro]: "pol.steady e (activate_no_model_plan e plan d now)"
  unfolding activate_no_model_plan_def
proof (intro pol.steady_bind steady_refresh steady_liftE pol.steadyI)
  fix s r t
  assume ok: "engine_ok e s"
    and t: "(if jat plan [''kind''] \<noteq> JStr ''NoModelRunPlan''
        \<or> map_of (pe_no_model_plans s) (the_str (jat plan [''metadata'', ''id''])) \<noteq> Some (digest_of e plan)
      then (policy_error ''ECO_PLAN_UNTRUSTED'', s)
      else case no_model_binding_error e s plan of Some code \<Rightarrow> (policy_error code, s)
        | None \<Rightarrow> bindA (consume_decision e d plan now) (\<lambda>_. activate_no_model_locked e plan) s) = (r, t)"
  show "engine_ok e t \<and> engine_kept s t"
  proof (cases "t = s")
    case False
    with t have p: "map_of (pe_no_model_plans s) (the_str (jat plan [''metadata'', ''id''])) = Some (digest_of e plan)"
      and b: "bindA (consume_decision e d plan now) (\<lambda>_. activate_no_model_locked e plan) s = (r, t)"
      by (auto split: if_splits option.splits)
    show ?thesis by (rule consume_then_ok [OF ok b]) (use p activate_no_model_locked_ok in simp)
  qed (use ok in simp)
qed

lemma steady_deny_subject [intro]: "pol.steady e (deny_subject e' kind request run_id decision_id now code)"
  unfolding deny_subject_def by (intro pol.steady_bind steady_issue_decision pol.steady_return)

lemma steady_grant_plan [intro]: "pol.steady e (grant_plan e' kind plan plan_id run_id decision_id now reason deadline)"
  unfolding grant_plan_def by (intro pol.steady_bind steady_issue_decision steady_liftE pol.steady_return)

lemma steady_grant_late [intro]: "pol.steady e (\<lambda>s. grant_plan e' kind plan plan_id run_id decision_id now reason (deadline s) s)"
  by (rule steady_read) (rule steady_grant_plan)

lemmas steady_parts = pol.steady_bind steady_refresh steady_liftE pol.steady_return steady_deny_subject
  steady_grant_late steady_grant_plan steady_issue_decision steady_register_plan steady_register_no_model_plan

lemma steady_after_refresh:
  "(\<And>s. \<exists>m. pol.steady e m \<and> m s = f s) \<Longrightarrow> pol.steady e (bindA (refresh_evidence e now) (\<lambda>_. bindA (liftE r) (\<lambda>_. f)))"
  by (intro pol.steady_bind steady_refresh steady_liftE) (rule steady_at)

lemma steady_after_times:
  "(\<And>c s. \<exists>m. pol.steady e m \<and> m s = f c s)
     \<Longrightarrow> pol.steady e (bindA (refresh_evidence e now) (\<lambda>_. bindA (liftE r) (\<lambda>_. bindA (liftE q) f)))"
  by (intro pol.steady_bind steady_refresh steady_liftE) (rule steady_at)

lemma steady_fail [simp]: "pol.steady e (Pair (Inl err))"
  by (rule steady_same) simp

lemma steady_grant_run [intro]: "pol.steady e (grant_run e request run_id plan_id decision_id now g)"
proof (rule steady_at)
  fix s
  show "\<exists>m. pol.steady e m \<and> m s = grant_run e request run_id plan_id decision_id now g s"
  proof (cases "map_of (pe_observation_provenance s) (the_str (gr_pin g))")
    case None
    then show ?thesis by (intro exI [of _ "Pair (Inl PyKeyError)"]) (simp add: grant_run_def)
  next
    case (Some p)
    define plan where "plan = run_plan e s request run_id plan_id now g p"
    have "pol.steady e (bindA (liftE (validate_runtime_record e plan)) (\<lambda>_. bindA (register_plan e plan) (\<lambda>_ s'.
        grant_plan e ''RunPlan'' plan plan_id run_id decision_id now ''ECO_RUN_ALLOWED''
          (evidence_deadline e s' (the_str (gr_pin g)) (uses_repository (jat request [''spec'']))) s')))"
      by (intro steady_parts)
    then show ?thesis unfolding grant_run_def Some option.case Let_def plan_def [symmetric] by blast
  qed
qed

lemma steady_plan_run [intro]: "pol.steady e (plan_run e request run_id plan_id decision_id now)"
  unfolding plan_run_def Let_def
proof (rule steady_after_times)
  fix c s
  let ?deny = "deny_subject e ''RunRequest'' request run_id decision_id now"
  show "\<exists>m. pol.steady e m \<and> m s = (if c > now + seconds (pe_skew s) then ?deny ''ECO_REQUEST_TIME_INVALID'' s
      else case judge_run e s request run_id now of
        Inl (Raise err) \<Rightarrow> (Inl err, s)
      | Inl (Deny code) \<Rightarrow> ?deny code s
      | Inr g \<Rightarrow> grant_run e request run_id plan_id decision_id now g s)"
    by (auto split: sum.splits stop.splits intro: steady_grant_run steady_deny_subject steady_fail)
qed

lemma steady_plan_no_model_run [intro]: "pol.steady e (plan_no_model_run e request run_id plan_id decision_id now)"
  unfolding plan_no_model_run_def Let_def
proof (rule steady_after_times)
  fix c s
  let ?deny = "deny_subject e ''NoModelRunRequest'' request run_id decision_id now"
  let ?plan = "\<lambda>entries scope_slots. no_model_plan e s request run_id plan_id (the (pe_snapshot s)) (the (pe_snapshot_provenance s)) entries scope_slots"
  let ?grant = "\<lambda>plan. bindA (liftE (validate_runtime_record e plan)) (\<lambda>_. bindA (register_no_model_plan e plan) (\<lambda>_ s'.
      grant_plan e ''NoModelRunPlan'' plan plan_id run_id decision_id now ''ECO_NO_MODEL_RUN_ALLOWED'' (snapshot_deadline e s') s'))"
  have "pol.steady e (?grant plan)" for plan by (intro steady_parts)
  then show "\<exists>m. pol.steady e m \<and> m s = (if c > now + seconds (pe_skew s) then ?deny ''ECO_REQUEST_TIME_INVALID'' s
      else case no_model_checks e s request of
        None \<Rightarrow> (case the (no_model_scope e s (the_str (jat request [''spec'', ''workflow'']))) of
          (entries, scope_slots) \<Rightarrow> ?grant (?plan entries scope_slots) s)
      | Some code \<Rightarrow> ?deny code s)"
    by (cases "the (no_model_scope e s (the_str (jat request [''spec'', ''workflow''])))")
      (auto split: option.splits intro: steady_deny_subject)
qed

lemma steady_authorize_tool [intro]: "pol.steady e (authorize_tool e plan request decision_id now in_memory)"
  unfolding authorize_tool_def
proof (rule steady_after_times)
  fix s
  let ?issue = "bindA (liftE (tool_code e s in_memory plan request now)) (\<lambda>code.
     bindA (liftE (if code \<noteq> None then Inr None
         else bindE (evidence_deadline e s (the_str (jat plan [''spec'', ''route'', ''deploymentId'']))
           (''repositorySnapshot'' \<in> dict_keys (the_obj (jat plan [''spec''])))) (\<lambda>t. Inr (Some t)))) (\<lambda>expiry.
       issue_decision e now (verdict_request e decision_id (jat plan [''metadata'', ''runId'']) ''ToolRequest'' request code
         ''ECO_TOOL_ALLOWED'' expiry)))"
  have "pol.steady e ?issue" by (intro steady_parts)
  then show "\<exists>m. pol.steady e m \<and> m s = ?issue s" by blast
qed

lemma steady_authorize_model [intro]: "pol.steady e (authorize_model e plan request binding artifact decision_id now in_memory)"
  unfolding authorize_model_def
proof (rule steady_after_refresh)
  fix s
  let ?issue = "bindA (liftE (model_times e plan request binding)) (\<lambda>ts.
     bindA (liftE (model_code e s in_memory plan request binding artifact ts now)) (\<lambda>code.
     bindA (liftE (model_expiry e s plan ts code)) (\<lambda>expiry.
       issue_decision e now (verdict_request e decision_id (jat plan [''metadata'', ''runId'']) ''ModelRequest'' request code
         ''ECO_MODEL_ALLOWED'' expiry))))"
  have "pol.steady e ?issue" by (intro steady_parts)
  then show "\<exists>m. pol.steady e m \<and> m s = (if \<not> model_kinds plan request binding artifact
      then (policy_error ''ECO_MODEL_AUTHORITY_INVALID'', s) else ?issue s)" by (auto intro: steady_fail)
qed

lemma steady_authorize_no_model_read [intro]: "pol.steady e (authorize_no_model_read e plan request decision_id now)"
  unfolding authorize_no_model_read_def Let_def
proof (rule steady_after_times)
  fix s
  let ?code = "no_model_read_code e s plan request"
  let ?issue = "bindA (liftE (if ?code = None then bindE (snapshot_deadline e s) (\<lambda>t. Inr (Some t)) else Inr None)) (\<lambda>expiry.
     issue_decision e now (verdict_request e decision_id (jat plan [''metadata'', ''runId'']) ''NoModelReadRequest'' request ?code
       ''ECO_NO_MODEL_READ_ALLOWED'' expiry))"
  have "pol.steady e ?issue" by (intro steady_parts)
  then show "\<exists>m. pol.steady e m \<and> m s = (if jat plan [''kind''] \<noteq> JStr ''NoModelRunPlan''
        \<or> map_of (pe_no_model_plans s) (the_str (jat plan [''metadata'', ''id''])) \<noteq> Some (digest_of e plan)
      then (policy_error ''ECO_PLAN_UNTRUSTED'', s) else ?issue s)" by (auto intro: steady_fail)
qed

lemma steady_assert_no_model [intro]: "pol.steady e (assert_no_model_plan_current e plan now)"
  unfolding assert_no_model_plan_current_def
  by (intro pol.steady_bind steady_refresh steady_liftE steady_same) (auto split: option.splits)

section \<open>Histories of an engine\<close>

text \<open>
  A call of the engine, whether it returns or raises, and a request to the ledger that \<open>budget_ledger\<close> hands out
  (the caller shares the object).
\<close>

inductive policy_step :: "policy_env \<Rightarrow> policy_engine \<Rightarrow> policy_engine \<Rightarrow> bool" for e :: policy_env where
  "policy_step e s (snd (plan_run e request run_id plan_id decision_id now s))"
| "policy_step e s (snd (plan_no_model_run e request run_id plan_id decision_id now s))"
| "policy_step e s (snd (activate_plan e plan d now clock s))"
| "policy_step e s (snd (activate_no_model_plan e plan d now s))"
| "policy_step e s (snd (authorize_tool e plan request decision_id now in_memory s))"
| "policy_step e s (snd (authorize_model e plan request binding artifact decision_id now in_memory s))"
| "policy_step e s (snd (authorize_no_model_read e plan request decision_id now s))"
| "policy_step e s (snd (assert_no_model_plan_current e plan now s))"
| "policy_step e s (snd (consume_decision e d subject now s))"
| policy_budget: "budget_ledger e plan s = Inr l \<Longrightarrow> ledger_request l q = Inr l'
     \<Longrightarrow> policy_step e s (s\<lparr>pe_ledgers := dict_set (the_str (jat plan [''metadata'', ''runId''])) l' (pe_ledgers s)\<rparr>)"

inductive_cases policy_stepE: "policy_step e s t"

lemma steady_snd: "pol.steady e m \<Longrightarrow> engine_ok e s \<Longrightarrow> engine_ok e (snd (m s)) \<and> engine_kept s (snd (m s))"
  by (simp add: pol.steady_def)

lemma ledger_request_kept:
  assumes "ledger_request l q = Inr l'"
  shows "ledger_kept l l'"
proof -
  have "ledger_plan_digest l' = ledger_plan_digest l"
    using assms by (cases q) (auto simp: ledger_ops_defs split: if_splits option.splits)
  then show ?thesis using ledger_request_limits [OF assms] ledger_request_mono [OF assms] by (simp add: ledger_kept_def)
qed

lemma budget_step_ok:
  assumes ok: "engine_ok e s" and b: "budget_ledger e plan s = Inr l" and q: "ledger_request l q = Inr l'"
    and t: "t = s\<lparr>pe_ledgers := dict_set (the_str (jat plan [''metadata'', ''runId''])) l' (pe_ledgers s)\<rparr>"
  shows "engine_ok e t \<and> engine_kept s t"
proof -
  let ?run = "the_str (jat plan [''metadata'', ''runId''])"
  from b have l: "map_of (pe_ledgers s) ?run = Some l"
    by (auto simp: budget_ledger_def Let_def split: if_splits option.splits)
  note k = ledger_request_kept [OF q]
  have parts: "evidence_ok e s" "active_authorized e s (pe_plans s) (pe_active s)"
    "active_authorized e s (pe_no_model_plans s) (pe_no_model_active s)" "ledgers_ok s"
    using ok by (simp_all add: engine_ok_def)
  have "ledgers_ok t" using parts(4) l k ledger_request_inv [OF _ q]
    by (auto simp: t ledgers_ok_def ledger_kept_def)
  moreover have "ledgers_kept (pe_ledgers s) (pe_ledgers t)"
    using l k by (auto simp: t ledgers_kept_def ledger_kept_def)
  moreover have "evidence_ok e t" by (rule evidence_ok_cong [OF _ parts(1)]) (simp add: t evidence_view_def)
  ultimately show ?thesis using parts by (simp add: t engine_ok_def engine_kept_def engine_config_def decisions_kept_refl)
qed

lemmas policy_call_ok = steady_snd [OF steady_plan_run] steady_snd [OF steady_plan_no_model_run] steady_snd [OF steady_activate_plan]
  steady_snd [OF steady_activate_no_model_plan] steady_snd [OF steady_authorize_tool] steady_snd [OF steady_authorize_model]
  steady_snd [OF steady_authorize_no_model_read] steady_snd [OF steady_assert_no_model] steady_snd [OF steady_consume_decision]

lemma policy_step_ok: "policy_step e s t \<Longrightarrow> engine_ok e s \<Longrightarrow> engine_ok e t \<and> engine_kept s t"
  by (induction rule: policy_step.induct) (erule policy_call_ok | (rule budget_step_ok; (assumption | rule refl)))+

end
