(* ===== verification/Eco_Policy_Guarantees.thy ===== *)
theory Eco_Policy_Guarantees
  imports Eco_Policy_Safety
begin

text \<open>
  What the policy engine guarantees: a decision authorizes one action, an active plan rests on a consumed decision and
  is never replaced, the planner and the authorizers grant only what the canonical bundle and the signed evidence
  support, and no authority outlives its evidence.
\<close>

section \<open>Constructed engines and their histories\<close>

lemma fresh_engine_ok: "engine_ok e (fresh_engine a g deployments tools capabilities)"
  by (simp add: fresh_engine_def engine_ok_def evidence_ok_def active_authorized_def ledgers_ok_def)

lemma new_policy_engine_ok:
  assumes "new_policy_engine e a = Inr s"
  shows "engine_ok e s"
proof -
  from assms obtain g deployments tools capabilities where
    "s = fresh_engine a g deployments tools capabilities
     \<or> (\<exists>now u. refresh_evidence e now (fresh_engine a g deployments tools capabilities) = (Inr u, s))"
    unfolding new_policy_engine_def Let_def
    by (auto split: if_splits option.splits sum.splits prod.splits, blast+)
  then show ?thesis
    using fresh_engine_ok [of e a g deployments tools capabilities] pol.steadyD [OF steady_refresh fresh_engine_ok] by blast
qed

interpretation ps: inv_system "\<lambda>s. \<exists>a. new_policy_engine e a = Inr s" "policy_step e" "engine_ok e" for e :: policy_env
  by unfold_locales (auto simp: new_policy_engine_ok dest: policy_step_ok)

abbreviation policy_reachable :: "policy_env \<Rightarrow> policy_engine \<Rightarrow> bool" where
  "policy_reachable e \<equiv> reach (\<lambda>s. \<exists>a. new_policy_engine e a = Inr s) (policy_step e)"

lemma policy_steps_kept: "(policy_step e)\<^sup>*\<^sup>* s t \<Longrightarrow> engine_ok e s \<Longrightarrow> engine_ok e t \<and> engine_kept s t"
  by (rule pol.steady_steps [OF policy_step_ok])

section \<open>Single use\<close>

lemma consumed_stays:
  assumes "consume_decision e d subject now s = (Inr u, t)" and "engine_kept t v"
  shows "\<exists>r. map_of (pe_decisions v) (the_str (jat d [''metadata'', ''id''])) = Some r \<and> is_consumed r"
  using assms(1)
proof (cases rule: consume_decision_cases)
  case (consumed i)
  then have "map_of (pe_decisions t) (the_str (jat d [''metadata'', ''id''])) = Some (i\<lparr>is_consumed := True\<rparr>)" by simp
  from decision_kept [OF assms(2) this] show ?thesis by auto
qed simp

lemma consumed_not_consumable:
  assumes "map_of (pe_decisions s) (the_str (jat d [''metadata'', ''id''])) = Some r" and "is_consumed r"
  shows "\<exists>err. consume_decision e d subject now s = (Inl err, s)"
proof -
  obtain x t where c: "consume_decision e d subject now s = (x, t)" by force
  then show ?thesis by (cases rule: consume_decision_cases) (use assms c in auto)
qed

lemma activate_plan_consumes:
  assumes "activate_plan e plan d now clock s = (Inr u, t)"
  obtains s' s'' where "refresh_evidence e now s = (Inr (), s')" "consume_decision e d plan now s' = (Inr (), s'')"
    "activate_locked e plan clock s'' = (Inr (), t)"
    "map_of (pe_plans s') (the_str (jat plan [''metadata'', ''id''])) = Some (digest_of e plan)"
proof -
  obtain x s' where r: "refresh_evidence e now s = (x, s')" by force
  obtain y s'' where c: "consume_decision e d plan now s' = (y, s'')" by force
  from assms r c show ?thesis
    by (cases x; cases y; cases "validate_runtime_record e plan")
      (auto simp: activate_plan_def liftE_def bindA_def split: if_splits intro: that)
qed

lemma activate_no_model_plan_consumes:
  assumes "activate_no_model_plan e plan d now s = (Inr u, t)"
  obtains s' s'' where "refresh_evidence e now s = (Inr (), s')" "consume_decision e d plan now s' = (Inr (), s'')"
    "no_model_binding_error e s' plan = None"
proof -
  obtain x s' where r: "refresh_evidence e now s = (x, s')" by force
  obtain y s'' where c: "consume_decision e d plan now s' = (y, s'')" by force
  from assms r c show ?thesis
    by (cases x; cases y; cases "validate_runtime_record e plan"; cases "no_model_binding_error e s' plan")
      (auto simp: activate_no_model_plan_def liftE_def bindA_def split: if_splits intro: that)
qed

text \<open>C12: a decision is spent once. After a decision was consumed, no later call of the engine, whatever happened in
  between and also when the same decision was issued again, can consume it, activate a plan with it or activate a
  no-model plan with it.\<close>

theorem decision_single_use:
  assumes reachable: "policy_reachable e s"
    and first: "consume_decision e d subject now s = (Inr u, s1)" and later: "(policy_step e)\<^sup>*\<^sup>* s1 t"
    and same: "jat d' [''metadata'', ''id''] = jat d [''metadata'', ''id'']"
  shows "(\<exists>err. consume_decision e d' subject' now' t = (Inl err, t))
    \<and> fst (activate_plan e plan d' now' clock t) \<noteq> Inr () \<and> fst (activate_no_model_plan e plan d' now' t) \<noteq> Inr ()"
proof -
  have ok: "engine_ok e s1" using ps.reach_inv [OF reachable] pol.steadyD [OF steady_consume_decision _ first] by blast
  from policy_steps_kept [OF later ok] have ok': "engine_ok e t" "engine_kept s1 t" by blast+
  have spent: "\<exists>err. consume_decision e d' subject'' now'' v = (Inl err, v)" if "engine_kept t v" for subject'' now'' v
  proof -
    from consumed_stays [OF first engine_kept_trans [OF ok'(2) that]] obtain r
      where "map_of (pe_decisions v) (the_str (jat d' [''metadata'', ''id''])) = Some r" "is_consumed r" using same by auto
    then show ?thesis by (rule consumed_not_consumable)
  qed
  have refreshed: "engine_kept t v" if "refresh_evidence e now' t = (x, v)" for x v
    using pol.steadyD [OF steady_refresh ok'(1) that] by blast
  have no_use: False if "refresh_evidence e now' t = (x, v)" "consume_decision e d' plan now' v = (Inr (), v')" for x v v'
    using spent [OF refreshed [OF that(1)], of plan now'] that(2) by auto
  have "fst (activate_plan e plan d' now' clock t) \<noteq> Inr ()"
  proof
    assume "fst (activate_plan e plan d' now' clock t) = Inr ()"
    then obtain v where "activate_plan e plan d' now' clock t = (Inr (), v)" by (metis prod.collapse)
    then show False by (rule activate_plan_consumes) (rule no_use)
  qed
  moreover have "fst (activate_no_model_plan e plan d' now' t) \<noteq> Inr ()"
  proof
    assume "fst (activate_no_model_plan e plan d' now' t) = Inr ()"
    then obtain v where "activate_no_model_plan e plan d' now' t = (Inr (), v)" by (metis prod.collapse)
    then show False by (rule activate_no_model_plan_consumes) (rule no_use)
  qed
  ultimately show ?thesis using spent [OF engine_kept_refl] by blast
qed

section \<open>Active plans\<close>

text \<open>C13: an active plan is authorized for good. In every reachable engine the active plan of a run was issued by the
  planner and rests on a consumed decision of this engine that allowed exactly that plan for that run under the current
  configuration; it stays the active plan of the run whatever is called later, and the ledger of the run belongs to it,
  keeps its limits, never goes back and never passes a limit.\<close>

theorem active_plan_authorized:
  assumes reachable: "policy_reachable e s" and active: "map_of (pe_active s) run = Some digest"
    and later: "(policy_step e)\<^sup>*\<^sup>* s t"
  shows "(\<exists>plan. digest_of e plan = digest \<and> the_str (jat plan [''metadata'', ''runId'']) = run
        \<and> map_of (pe_plans t) (the_str (jat plan [''metadata'', ''id''])) = Some digest \<and> consumed_for e t plan)
    \<and> map_of (pe_active t) run = Some digest
    \<and> (\<forall>l. map_of (pe_ledgers s) run = Some l \<longrightarrow> (\<exists>l'. map_of (pe_ledgers t) run = Some l'
         \<and> ledger_plan_digest l' = digest \<and> limits l' = limits l
         \<and> (\<forall>m. meter_used l m \<le> meter_used l' m \<and> meter_used l' m \<le> meter_limit l m)))"
proof -
  note ok = ps.reach_inv [OF reachable]
  from policy_steps_kept [OF later ok] have ok': "engine_ok e t" and k: "engine_kept s t" by blast+
  have act: "map_of (pe_active t) run = Some digest"
    using active k by (auto simp: engine_kept_def map_le_def dom_def)
  then have "\<exists>plan. digest_of e plan = digest \<and> the_str (jat plan [''metadata'', ''runId'']) = run
        \<and> map_of (pe_plans t) (the_str (jat plan [''metadata'', ''id''])) = Some digest \<and> consumed_for e t plan"
    using ok' unfolding engine_ok_def active_authorized_def by blast
  moreover have "\<exists>l'. map_of (pe_ledgers t) run = Some l' \<and> ledger_plan_digest l' = digest \<and> limits l' = limits l
         \<and> (\<forall>m. meter_used l m \<le> meter_used l' m \<and> meter_used l' m \<le> meter_limit l m)"
    if l: "map_of (pe_ledgers s) run = Some l" for l
  proof -
    from k l obtain l' where l': "map_of (pe_ledgers t) run = Some l'" "ledger_kept l l'"
      unfolding engine_kept_def ledgers_kept_def by blast
    then have inv: "ledger_inv l'" "digest = ledger_plan_digest l'"
      using ok' act unfolding engine_ok_def ledgers_ok_def by fastforce+
    have "limits l' = limits l" using l'(2) by (simp add: ledger_kept_def)
    then have "meter_used l' m \<le> meter_limit l m" for m
      using ledger.admit_all_bound [OF inv(1), of "[]" m] meter_limit_cong [of l' l] by simp
    with l' inv show ?thesis by (auto simp: ledger_kept_def)
  qed
  ultimately show ?thesis using act by blast
qed

section \<open>Inverting verdicts\<close>

lemma bindJ_Inr [simp]: "bindJ m f = Inr y \<longleftrightarrow> (\<exists>x. m = Inr x \<and> f x = Inr y)"
  by (cases m) auto

lemma refuse_if_Inr [simp]: "refuse_if c code = Inr u \<longleftrightarrow> \<not> c"
  by (simp add: refuse_if_def)

lemma present_Inr [simp]: "present x code = Inr y \<longleftrightarrow> x = Some y"
  by (simp add: present_def split: option.splits)

lemma indexed_Inr [simp]: "indexed x = Inr y \<longleftrightarrow> x = Some y"
  by (simp add: indexed_def split: option.splits)

lemma unless_contract_Inr [simp]: "unless_contract code r = Inr y \<longleftrightarrow> r = Inr y"
  by (cases "(code, r)" rule: unless_contract.cases) auto

lemma unless_policy_Inr [simp]: "unless_policy code r = Inr y \<longleftrightarrow> r = Inr y"
  by (cases "(code, r)" rule: unless_policy.cases) auto

lemma own_code_Inr [simp]: "own_code r = Inr y \<longleftrightarrow> r = Inr y"
  by (cases r rule: own_code.cases) auto

text \<open>A data class that is at most another.\<close>

definition class_le :: "json \<Rightarrow> json \<Rightarrow> bool" where
  "class_le v w \<longleftrightarrow> (\<exists>m n. level_of CHR ''D'' v = Some m \<and> level_of CHR ''D'' w = Some n \<and> m \<le> n)"

lemma class_le_trans: "class_le u v \<Longrightarrow> class_le v w \<Longrightarrow> class_le u w"
  unfolding class_le_def by force

lemma data_above_Inr: "data_above v w = Inr b \<Longrightarrow> (if b then class_le w v \<and> class_le v v else class_le v w \<and> class_le w w)"
  by (auto simp: data_above_def class_le_def)

lemma judge_data_Inr: "judge_data v w = Inr u \<longleftrightarrow> v \<noteq> JStr ''D4'' \<and> class_le v w"
  by (auto simp: judge_data_def data_above_def class_le_def not_less)

text \<open>The class of a plan covers the class of the request and of every artifact it names.\<close>

definition artifact_admitted :: "policy_env \<Rightarrow> policy_engine \<Rightarrow> string \<Rightarrow> json \<Rightarrow> json \<Rightarrow> bool" where
  "artifact_admitted e s run_id cls ref \<longleftrightarrow> (\<exists>a. map_of (pe_artifacts s) (the_str ref) = Some a
     \<and> validate_runtime_record e a = Inr () \<and> jat a [''metadata'', ''runId''] = JStr run_id
     \<and> jat a [''spec'', ''storageRef''] = ref \<and> class_le (jat a [''spec'', ''dataClass'']) cls)"

lemma artifact_admitted_mono: "artifact_admitted e s run_id c ref \<Longrightarrow> class_le c c' \<Longrightarrow> artifact_admitted e s run_id c' ref"
  unfolding artifact_admitted_def using class_le_trans by blast

lemma judge_artifacts_Inr:
  "judge_artifacts e s run_id cls inputs refs = Inr (ins, c) \<Longrightarrow> refs \<noteq> [] \<Longrightarrow>
     class_le cls c \<and> (\<forall>ref \<in> set refs. artifact_admitted e s run_id c ref)"
proof (induction refs arbitrary: cls inputs)
  case (Cons ref refs)
  from Cons.prems(1) obtain a above where a: "judge_artifact e s run_id ref = Inr a"
    and d: "data_above (jat a [''spec'', ''dataClass'']) cls = Inr above"
    and rest: "judge_artifacts e s run_id (if above then jat a [''spec'', ''dataClass''] else cls) (inputs @ [plan_input e ref a]) refs = Inr (ins, c)"
    by auto
  let ?cls = "if above then jat a [''spec'', ''dataClass''] else cls"
  have le: "class_le cls ?cls" "class_le (jat a [''spec'', ''dataClass'']) ?cls"
    using data_above_Inr [OF d] by (simp_all split: if_splits)
  from a le(2) have here: "artifact_admitted e s run_id ?cls ref"
    unfolding judge_artifact_def artifact_admitted_def by auto
  show ?case
  proof (cases "refs = []")
    case True
    with rest le(1) here show ?thesis by simp
  next
    case False
    from Cons.IH [OF rest False] have "class_le ?cls c" "\<forall>x \<in> set refs. artifact_admitted e s run_id c x" by blast+
    with class_le_trans [OF le(1)] artifact_admitted_mono [OF here] show ?thesis by simp
  qed
qed simp

definition tool_admitted :: "policy_engine \<Rightarrow> json \<Rightarrow> json \<Rightarrow> json \<Rightarrow> bool" where
  "tool_admitted s r spec v \<longleftrightarrow> (\<exists>tool n. map_of (pe_tools s) (the_str v) = Some tool \<and> truthy (jat tool [''enabled''])
     \<and> the_str v \<in> TOOL_ARGUMENT_TOOLS \<and> \<not> binding_wrong (the_str v) tool
     \<and> level_of CHR ''A'' (jat spec [''constraints'', ''maximumActionClass'']) = Some n
     \<and> level_get CHR ''A'' (jat tool [''actionClass'']) 99 \<le> min n (level_get CHR ''A'' (jat r [''maximumActionClass'']) (- 1))
     \<and> jat spec [''constraints'', ''sandbox''] \<in> set (the_list (jat tool [''allowedSandboxes''])))"

lemma judge_tools_Inr: "judge_tools e s r spec vs = Inr ts \<Longrightarrow> \<forall>v \<in> set vs. tool_admitted s r spec v"
proof (induction vs arbitrary: ts)
  case (Cons v vs)
  then have "tool_admitted s r spec v"
    by (auto simp: judge_tool_def tool_admitted_def Let_def not_less)
  with Cons show ?case by auto
qed simp

section \<open>What a granted run establishes\<close>

definition deployment_admitted :: "policy_engine \<Rightarrow> json \<Rightarrow> json \<Rightarrow> json \<Rightarrow> json \<Rightarrow> bool" where
  "deployment_admitted s r cls pin d \<longleftrightarrow> pin \<in> set (the_list (jat r [''candidates''])) \<and> map_of (pe_deployments s) (the_str pin) = Some d
     \<and> truthy (jat d [''enabled'']) \<and> jat d [''zone''] \<in> set (the_list (jat r [''allowedZones'']))
     \<and> cls \<in> set (the_list (jat d [''allowedDataClasses'']))
     \<and> level_get CHR ''P'' (jat r [''minimumArtifactTrust'']) (- 1) \<le> level_get CHR ''P'' (jat d [''artifactTrust'']) (- 1)
     \<and> jat d [''provider''] \<noteq> JStr ''configured-at-runtime'' \<and> jat d [''model''] \<noteq> JStr ''configured-at-runtime''
     \<and> jat d [''retention''] \<notin> {JNull, JStr ''unknown'', JStr ''contract-required''} \<and> jat d [''trainingUse''] \<notin> {JNull, JStr ''unknown''}
     \<and> jat d [''region''] \<notin> {JNull, JStr ''unknown'', JStr ''contract-required''}"

definition observation_admitted :: "policy_env \<Rightarrow> policy_engine \<Rightarrow> json \<Rightarrow> json \<Rightarrow> int \<Rightarrow> bool" where
  "observation_admitted e s pin d now \<longleftrightarrow> (\<exists>obs identity tested valid. map_of (pe_observations s) (the_str pin) = Some obs
     \<and> validate_runtime_record e obs = Inr () \<and> jat obs [''spec'', ''adapterVersion''] = jat d [''identity'', ''adapterVersion'']
     \<and> deployment_identity_digest (ce_sha e) (the_obj d) = Inr identity
     \<and> jat obs [''metadata'', ''deploymentId''] = pin \<and> jat obs [''spec'', ''deploymentIdentityDigest''] = JStr identity
     \<and> jat obs [''spec'', ''status''] = JStr ''pass'' \<and> jat obs [''spec'', ''suite'', ''digest''] \<in> JStr ` pe_suites s
     \<and> policy_time e (jat obs [''metadata'', ''testedAt'']) = Inr tested \<and> policy_time e (jat obs [''metadata'', ''validUntil'']) = Inr valid
     \<and> tested \<le> now \<and> now < valid \<and> now - tested \<le> seconds (pe_observation_age s) \<and> valid - tested \<le> seconds (pe_observation_age s))"

definition capabilities_admitted :: "policy_engine \<Rightarrow> json \<Rightarrow> json \<Rightarrow> json \<Rightarrow> json \<Rightarrow> bool" where
  "capabilities_admitted s r spec pin d \<longleftrightarrow> (\<forall>c \<in> set (required_capabilities r spec). c \<in> dict_keys (pe_capabilities s)
     \<and> c \<in> texts (jat d [''declaredCapabilities''])
     \<and> (\<exists>obs. map_of (pe_observations s) (the_str pin) = Some obs \<and> c \<in> texts (jat obs [''spec'', ''effectiveCapabilities''])
          \<and> (\<exists>p \<in> set (the_list (jat obs [''spec'', ''probes''])). map_of REQUIRED_PROBES c = Some (the_str (jat p [''id'']))
               \<and> jat p [''status''] = JStr ''pass'' \<and> the_int (jat p [''successes'']) \<ge> 1)))"

text \<open>The stored bytes of the artifacts that references name.\<close>

definition referenced_bytes :: "policy_engine \<Rightarrow> json list \<Rightarrow> int" where
  "referenced_bytes s refs = sum_list (map (\<lambda>ref. the_int (jat (the (map_of (pe_artifacts s) (the_str ref))) [''spec'', ''byteLength''])) refs)"

lemma judge_artifacts_bytes:
  "judge_artifacts e s run_id cls inputs refs = Inr (ins, c) \<Longrightarrow> planned_bytes ins = planned_bytes inputs + referenced_bytes s refs"
proof (induction refs arbitrary: cls inputs)
  case (Cons ref refs)
  from Cons.prems obtain a cls' where a: "map_of (pe_artifacts s) (the_str ref) = Some a"
    and rest: "judge_artifacts e s run_id cls' (inputs @ [plan_input e ref a]) refs = Inr (ins, c)"
    by (auto simp: judge_artifact_def)
  from Cons.IH [OF rest] a show ?case by (simp add: referenced_bytes_def planned_bytes_def plan_input_def jget_Cons)
qed (simp add: referenced_bytes_def)

definition run_admitted :: "policy_env \<Rightarrow> policy_engine \<Rightarrow> json \<Rightarrow> string \<Rightarrow> int \<Rightarrow> json \<Rightarrow> json \<Rightarrow> bool" where
  "run_admitted e s request run_id now cls pin \<longleftrightarrow>
     (let spec = jat request [''spec'']; r = logical_role s (jat spec [''logicalRole'']) in
      jat spec [''projectId''] = project_name s \<and> is_obj r
      \<and> \<not> (jat request [''metadata'', ''actor'', ''type''] = JStr ''automation'' \<and> jat spec [''classificationAuthority''] = JStr ''operator'')
      \<and> referenced_bytes s (jat spec [''task'', ''instructionRef''] # the_list (jat spec [''task'', ''inputRefs'']))
           \<le> the_int (jat spec [''budget'', ''maxInputBytes''])
      \<and> (\<exists>n. level_of CHR ''A'' (jat spec [''constraints'', ''maximumActionClass'']) = Some n
           \<and> n \<le> level_get CHR ''A'' (jat r [''maximumActionClass'']) (- 1))
      \<and> cls \<noteq> JStr ''D4'' \<and> cls \<in> set (the_list (jat r [''allowedDataClasses'']))
      \<and> class_le (jat spec [''dataClass'']) cls
      \<and> (\<forall>ref \<in> insert (jat spec [''task'', ''instructionRef'']) (set (the_list (jat spec [''task'', ''inputRefs'']))).
           artifact_admitted e s run_id cls ref)
      \<and> (\<exists>d. deployment_admitted s r cls pin d \<and> observation_admitted e s pin d now \<and> capabilities_admitted s r spec pin d)
      \<and> (\<forall>v \<in> set (the_list (jat spec [''requestedTools''])). tool_admitted s r spec v)
      \<and> int (length (the_list (jat spec [''requestedTools'']))) \<le> the_int (jat spec [''budget'', ''maxToolRequests''])
      \<and> (uses_repository spec \<longrightarrow> pe_snapshot s \<noteq> None))"

lemma judge_pin_Inr: "judge_pin r spec = Inr pin \<Longrightarrow> pin \<in> set (the_list (jat r [''candidates'']))"
  by (auto simp: judge_pin_def Let_def split: if_splits list.splits)

lemma judge_deployment_Inr:
  "judge_deployment e s r cls pin = Inr (d, identity) \<Longrightarrow> pin \<in> set (the_list (jat r [''candidates''])) \<Longrightarrow>
     deployment_admitted s r cls pin d \<and> deployment_identity_digest (ce_sha e) (the_obj d) = Inr identity"
  unfolding judge_deployment_def deployment_admitted_def Let_def by (auto simp: not_less)

lemma judge_observation_Inr:
  assumes "judge_observation e s pin d identity now = Inr obs"
    and "deployment_identity_digest (ce_sha e) (the_obj d) = Inr identity"
  shows "map_of (pe_observations s) (the_str pin) = Some obs \<and> observation_admitted e s pin d now"
  using assms unfolding judge_observation_def observation_admitted_def observation_window_def
  by (auto simp: not_less not_le)

lemma judge_probes_Inr:
  "judge_probes acc ps = Inr probes \<Longrightarrow> \<forall>(i, p) \<in> set acc. jat p [''id''] = i \<and> p \<in> set all
     \<Longrightarrow> set ps \<subseteq> set all \<Longrightarrow> \<forall>(i, p) \<in> set probes. jat p [''id''] = i \<and> p \<in> set all"
proof (induction ps arbitrary: acc)
  case (Cons q ps)
  from Cons.prems(1) have r: "judge_probes (acc @ [(jat q [''id''], q)]) ps = Inr probes" by (auto simp: Let_def split: if_splits)
  have "\<forall>(i, p) \<in> set (acc @ [(jat q [''id''], q)]). jat p [''id''] = i \<and> p \<in> set all" "set ps \<subseteq> set all"
    using Cons.prems(2,3) by simp_all
  then show ?case by (rule Cons.IH [OF r])
qed simp

lemma judge_capabilities_Inr:
  assumes j: "judge_capabilities s r spec d obs = Inr u" and obs: "map_of (pe_observations s) (the_str pin) = Some obs"
  shows "capabilities_admitted s r spec pin d"
  unfolding capabilities_admitted_def
proof
  fix c
  assume c: "c \<in> set (required_capabilities r spec)"
  from j obtain probes where p: "judge_probes [] (the_list (jat obs [''spec'', ''probes''])) = Inr probes"
    and sub: "set (required_capabilities r spec) \<subseteq> dict_keys (pe_capabilities s)"
      "set (required_capabilities r spec) \<subseteq> texts (jat d [''declaredCapabilities''])"
      "set (required_capabilities r spec) \<subseteq> texts (jat obs [''spec'', ''effectiveCapabilities''])"
    and probed: "\<forall>c \<in> set (required_capabilities r spec). capability_probed probes c"
    unfolding judge_capabilities_def Let_def by (auto simp: list_ex_iff)
  from probed c have "capability_probed probes c" by blast
  then obtain i q where q: "map_of REQUIRED_PROBES c = Some i" "map_of probes (JStr i) = Some q"
    "jat q [''status''] = JStr ''pass''" "the_int (jat q [''successes'']) \<ge> 1"
    unfolding capability_probed_def by (auto split: option.splits)
  from judge_probes_Inr [OF p, of "the_list (jat obs [''spec'', ''probes''])"] map_of_SomeD [OF q(2)]
  have "jat q [''id''] = JStr i" "q \<in> set (the_list (jat obs [''spec'', ''probes'']))" by auto
  with q sub c obs show "c \<in> dict_keys (pe_capabilities s) \<and> c \<in> texts (jat d [''declaredCapabilities''])
     \<and> (\<exists>obs. map_of (pe_observations s) (the_str pin) = Some obs \<and> c \<in> texts (jat obs [''spec'', ''effectiveCapabilities''])
          \<and> (\<exists>p \<in> set (the_list (jat obs [''spec'', ''probes''])). map_of REQUIRED_PROBES c = Some (the_str (jat p [''id'']))
               \<and> jat p [''status''] = JStr ''pass'' \<and> the_int (jat p [''successes'']) \<ge> 1))" by (auto intro!: bexI [of _ q])
qed

lemma judge_run_Inr:
  assumes "judge_run e s request run_id now = Inr g"
  shows "run_admitted e s request run_id now (gr_class g) (gr_pin g)"
proof -
  let ?spec = "jat request [''spec'']"
  let ?refs = "jat ?spec [''task'', ''instructionRef''] # the_list (jat ?spec [''task'', ''inputRefs''])"
  from assms obtain r inputs cls pin d identity obs tools where
    r: "judge_identity s request = Inr r" and a: "judge_artifacts e s run_id (jat ?spec [''dataClass'']) [] ?refs = Inr (inputs, cls)"
    and c: "judge_classes r ?spec cls inputs = Inr ()" and p: "judge_pin r ?spec = Inr pin"
    and d: "judge_deployment e s r cls pin = Inr (d, identity)" and o: "judge_observation e s pin d identity now = Inr obs"
    and k: "judge_capabilities s r ?spec d obs = Inr ()" and t: "judge_toolset e s r ?spec = Inr tools"
    and g: "gr_class g = cls" "gr_pin g = pin"
    unfolding judge_run_def Let_def by (auto split: prod.splits)
  from r have r': "r = logical_role s (jat ?spec [''logicalRole''])" "is_obj r" "jat ?spec [''projectId''] = project_name s"
      "\<not> (jat request [''metadata'', ''actor'', ''type''] = JStr ''automation'' \<and> jat ?spec [''classificationAuthority''] = JStr ''operator'')"
    by (auto simp: judge_identity_def Let_def)
  note d' = judge_deployment_Inr [OF d judge_pin_Inr [OF p]]
  note o' = judge_observation_Inr [OF o conjunct2 [OF d']]
  have "cls \<noteq> JStr ''D4''" "cls \<in> set (the_list (jat r [''allowedDataClasses'']))"
    "\<exists>n. level_of CHR ''A'' (jat ?spec [''constraints'', ''maximumActionClass'']) = Some n \<and> n \<le> level_get CHR ''A'' (jat r [''maximumActionClass'']) (- 1)"
    "referenced_bytes s ?refs \<le> the_int (jat ?spec [''budget'', ''maxInputBytes''])"
    using c judge_artifacts_bytes [OF a] by (auto simp: judge_classes_def planned_bytes_def not_less)
  moreover have "\<forall>v \<in> set (the_list (jat ?spec [''requestedTools''])). tool_admitted s r ?spec v"
    "int (length (the_list (jat ?spec [''requestedTools'']))) \<le> the_int (jat ?spec [''budget'', ''maxToolRequests''])"
    "uses_repository ?spec \<longrightarrow> pe_snapshot s \<noteq> None"
    using t judge_tools_Inr by (auto simp: judge_toolset_def Let_def not_less)
  moreover note judge_artifacts_Inr [OF a] r'(2-4) d' o' judge_capabilities_Inr [OF k conjunct1 [OF o']]
  ultimately show ?thesis unfolding run_admitted_def Let_def g r'(1) [symmetric] by auto
qed

section \<open>Issued decisions\<close>

lemma liftE_Inr [simp]: "liftE r s = (Inr x, t) \<longleftrightarrow> r = Inr x \<and> t = s"
  by (auto simp: liftE_def)

lemma after_refresh_Inr:
  assumes "bindA (refresh_evidence e now) (\<lambda>_. bindA (liftE r) (\<lambda>_. f)) s = (Inr y, t)"
  obtains s' where "refresh_evidence e now s = (Inr (), s')" "r = Inr ()" "f s' = (Inr y, t)"
  using assms by (auto elim!: bindA_InrE)

lemma after_times_Inr:
  assumes "bindA (refresh_evidence e now) (\<lambda>_. bindA (liftE r) (\<lambda>_. bindA (liftE q) f)) s = (Inr y, t)"
  obtains c s' where "refresh_evidence e now s = (Inr (), s')" "r = Inr ()" "q = Inr c" "f c s' = (Inr y, t)"
  using assms by (auto elim!: bindA_InrE)

lemma deadlines_update [simp]:
  "snapshot_deadline e (s\<lparr>pe_plans := ps\<rparr>) = snapshot_deadline e s"
  "snapshot_deadline e (s\<lparr>pe_no_model_plans := ps\<rparr>) = snapshot_deadline e s"
  "evidence_deadline e (s\<lparr>pe_plans := ps\<rparr>) = evidence_deadline e s"
proof -
  show *: "snapshot_deadline e (s\<lparr>pe_plans := ps\<rparr>) = snapshot_deadline e s"
    "snapshot_deadline e (s\<lparr>pe_no_model_plans := ps\<rparr>) = snapshot_deadline e s"
    by (simp_all add: snapshot_deadline_def split: option.splits)
  have "evidence_deadline e (s\<lparr>pe_plans := ps\<rparr>) i b = evidence_deadline e s i b" for i b
    by (cases b) (simp_all add: evidence_deadline_def * split: option.splits)
  then show "evidence_deadline e (s\<lparr>pe_plans := ps\<rparr>) = evidence_deadline e s" by (simp add: fun_eq_iff)
qed

lemma decision_record_update [simp]:
  "decision_record e (s\<lparr>pe_plans := ps\<rparr>) = decision_record e s"
  "decision_record e (s\<lparr>pe_no_model_plans := ps\<rparr>) = decision_record e s"
  by (simp_all add: fun_eq_iff decision_record_def decision_expiry_def config_digest_def split: option.splits)

lemma issue_decision_Inr:
  assumes "issue_decision e now q s = (Inr d, t)"
  obtains ds where "d = decision_record e s now q" "t = s\<lparr>pe_decisions := ds\<rparr>"
    "\<exists>r. map_of ds (dq_id q) = Some r \<and> is_digest r = digest_of e d"
proof -
  let ?d = "decision_record e s now q"
  have i: "the_str (jat ?d [''metadata'', ''id'']) = dq_id q" by (simp add: decision_record_def jget_def)
  from assms have d: "d = ?d" and r: "register_decision e ?d s = (Inr (), t)"
    by (auto simp: issue_decision_def Let_def elim!: bindA_InrE)
  from r obtain x where "t = s\<lparr>pe_decisions := dict_set (dq_id q) x (pe_decisions s)\<rparr>" "is_digest x = digest_of e ?d"
    unfolding register_decision_def Let_def i by (auto split: option.splits if_splits)
  with d show ?thesis by (intro that) auto
qed

lemma decision_fields:
  "jat (decision_record e s now q) [''spec'', ''effect''] = JStr (dq_effect q)"
  "jat (decision_record e s now q) [''spec'', ''subject'', ''digest''] = JStr (dq_subject_digest q)"
  "jat (decision_record e s now q) [''spec'', ''subject'', ''kind''] = JStr (dq_kind q)"
  "jat (decision_record e s now q) [''metadata'', ''runId''] = JStr (dq_run_id q)"
  "jat (decision_record e s now q) [''metadata'', ''id''] = JStr (dq_id q)"
  "jat (decision_record e s now q) [''spec'', ''constraints'', ''expiresAt''] = JStr (ce_iso e (decision_expiry s now (dq_expiry q)))"
  by (simp_all add: decision_record_def jget_def)

lemma grant_plan_Inr:
  assumes "grant_plan e kind plan plan_id run_id decision_id now reason deadline s = (Inr (p, d), t)"
  obtains ds expiry where "p = Some plan" "deadline = Inr expiry" "t = s\<lparr>pe_decisions := ds\<rparr>"
    "\<exists>r. map_of ds decision_id = Some r \<and> is_digest r = digest_of e d"
    "d = decision_record e s now \<lparr>dq_id = decision_id, dq_run_id = run_id, dq_kind = kind, dq_subject_id = JStr plan_id,
       dq_subject_digest = digest_of e plan, dq_effect = ''allow'', dq_reason = reason, dq_expiry = Some expiry\<rparr>"
proof -
  from assms obtain expiry where x: "deadline = Inr expiry" by (auto simp: grant_plan_def elim!: bindA_InrE)
  let ?q = "\<lparr>dq_id = decision_id, dq_run_id = run_id, dq_kind = kind, dq_subject_id = JStr plan_id,
       dq_subject_digest = digest_of e plan, dq_effect = ''allow'', dq_reason = reason, dq_expiry = Some expiry\<rparr>"
  from assms x have "p = Some plan" and i: "issue_decision e now ?q s = (Inr d, t)"
    by (auto simp: grant_plan_def elim!: bindA_InrE)
  from issue_decision_Inr [OF i] obtain ds where "d = decision_record e s now ?q" "t = s\<lparr>pe_decisions := ds\<rparr>"
    "\<exists>r. map_of ds decision_id = Some r \<and> is_digest r = digest_of e d" by auto
  with \<open>p = Some plan\<close> x show ?thesis by (intro that)
qed

lemma register_plan_Inr: "register_plan e plan s = (Inr u, t) \<Longrightarrow>
    t = s\<lparr>pe_plans := dict_set (the_str (jat plan [''metadata'', ''id''])) (digest_of e plan) (pe_plans s)\<rparr>"
  by (auto simp: register_plan_def Let_def split: if_splits)

lemma grant_run_Inr:
  assumes "grant_run e request run_id plan_id decision_id now g s = (Inr (p, d), t)"
  obtains prov plan expiry ds where "map_of (pe_observation_provenance s) (the_str (gr_pin g)) = Some prov"
    "plan = run_plan e s request run_id plan_id now g prov" "p = Some plan"
    "evidence_deadline e s (the_str (gr_pin g)) (uses_repository (jat request [''spec''])) = Inr expiry"
    "t = s\<lparr>pe_plans := dict_set plan_id (digest_of e plan) (pe_plans s), pe_decisions := ds\<rparr>"
    "\<exists>r. map_of ds decision_id = Some r \<and> is_digest r = digest_of e d"
    "d = decision_record e s now \<lparr>dq_id = decision_id, dq_run_id = run_id, dq_kind = ''RunPlan'', dq_subject_id = JStr plan_id,
       dq_subject_digest = digest_of e plan, dq_effect = ''allow'', dq_reason = ''ECO_RUN_ALLOWED'', dq_expiry = Some expiry\<rparr>"
proof -
  from assms obtain prov where p: "map_of (pe_observation_provenance s) (the_str (gr_pin g)) = Some prov"
    by (cases "map_of (pe_observation_provenance s) (the_str (gr_pin g))") (auto simp: grant_run_def)
  define plan where "plan = run_plan e s request run_id plan_id now g prov"
  from assms obtain s1 where x: "register_plan e plan s = (Inr (), s1)" and gp: "grant_plan e ''RunPlan'' plan plan_id run_id decision_id now ''ECO_RUN_ALLOWED''
      (evidence_deadline e s1 (the_str (gr_pin g)) (uses_repository (jat request [''spec'']))) s1 = (Inr (p, d), t)"
    unfolding grant_run_def p option.case Let_def plan_def [symmetric] by (auto elim!: bindA_InrE)
  have "the_str (jat plan [''metadata'', ''id'']) = plan_id" by (simp add: plan_def run_plan_def Let_def jget_def)
  then have s1: "s1 = s\<lparr>pe_plans := dict_set plan_id (digest_of e plan) (pe_plans s)\<rparr>"
    using register_plan_Inr x by metis
  from gp show ?thesis
  proof (rule grant_plan_Inr)
    fix ds expiry
    assume "p = Some plan" "evidence_deadline e s1 (the_str (gr_pin g)) (uses_repository (jat request [''spec''])) = Inr expiry"
      "t = s1\<lparr>pe_decisions := ds\<rparr>" "\<exists>r. map_of ds decision_id = Some r \<and> is_digest r = digest_of e d"
      "d = decision_record e s1 now \<lparr>dq_id = decision_id, dq_run_id = run_id, dq_kind = ''RunPlan'', dq_subject_id = JStr plan_id,
         dq_subject_digest = digest_of e plan, dq_effect = ''allow'', dq_reason = ''ECO_RUN_ALLOWED'', dq_expiry = Some expiry\<rparr>"
    then show ?thesis by (intro that [OF p plan_def, of expiry ds]) (simp_all add: s1)
  qed
qed

lemma engine_plan_run_Inr:
  assumes "plan_run e request run_id plan_id decision_id now s = (Inr (p, d), t)"
  obtains (denied) s' q where "p = None" "refresh_evidence e now s = (Inr (), s')" "dq_effect q = ''deny''" "d = decision_record e s' now q"
  | (granted) s' g where "refresh_evidence e now s = (Inr (), s')" "judge_run e s' request run_id now = Inr g"
      "grant_run e request run_id plan_id decision_id now g s' = (Inr (p, d), t)"
proof -
  let ?deny = "\<lambda>code. deny_subject e ''RunRequest'' request run_id decision_id now code"
  from assms obtain c s' where r: "refresh_evidence e now s = (Inr (), s')"
    and body: "(if c > now + seconds (pe_skew s') then ?deny ''ECO_REQUEST_TIME_INVALID'' s'
      else case judge_run e s' request run_id now of
        Inl (Raise err) \<Rightarrow> (Inl err, s') | Inl (Deny code) \<Rightarrow> ?deny code s'
      | Inr g \<Rightarrow> grant_run e request run_id plan_id decision_id now g s') = (Inr (p, d), t)"
    unfolding plan_run_def Let_def by (rule after_times_Inr)
  have dn: thesis if "?deny code s' = (Inr (p, d), t)" for code
  proof -
    define q where "q = \<lparr>dq_id = decision_id, dq_run_id = run_id, dq_kind = ''RunRequest'', dq_subject_id = jat request [''metadata'', ''id''],
      dq_subject_digest = digest_of e request, dq_effect = ''deny'', dq_reason = code, dq_expiry = None\<rparr>"
    from that have "p = None" and i: "issue_decision e now q s' = (Inr d, t)"
      by (auto simp: deny_subject_def q_def elim!: bindA_InrE)
    from issue_decision_Inr [OF i] have "d = decision_record e s' now q" by blast
    with \<open>p = None\<close> show ?thesis by (intro denied [OF _ r, of q]) (simp_all add: q_def)
  qed
  from body show thesis
    by (cases "judge_run e s' request run_id now") (auto split: if_splits stop.splits intro: dn granted [OF r])
qed

section \<open>The planner\<close>

lemma run_plan_fields:
  "jat (run_plan e s request run_id plan_id now g p) [''spec'', ''effectivePolicy'', ''dataClass''] = gr_class g"
  "jat (run_plan e s request run_id plan_id now g p) [''spec'', ''effectivePolicy'', ''agentNetwork''] = JStr ''deny''"
  "jat (run_plan e s request run_id plan_id now g p) [''spec'', ''effectivePolicy'', ''toolNetwork''] = JStr ''deny''"
  "jat (run_plan e s request run_id plan_id now g p) [''spec'', ''route'', ''deploymentId''] = gr_pin g"
  by (simp_all add: run_plan_def Let_def jget_def plan_snapshot_def plan_route_def split: option.splits)

lemma run_admitted_update:
  "run_admitted e (s\<lparr>pe_plans := ps, pe_decisions := ds\<rparr>) = run_admitted e s"
  by (simp add: fun_eq_iff run_admitted_def artifact_admitted_def deployment_admitted_def observation_admitted_def
      capabilities_admitted_def tool_admitted_def logical_role_def project_name_def referenced_bytes_def)

text \<open>C14: the planner denies by default. When \<open>plan_run\<close> returns a plan, its decision allows exactly that plan, the
  plan is registered, and the engine's bundle and evidence support it: the project and role are the configured ones;
  the data class of the plan is not D4, is permitted by role and deployment, and covers the request and every artifact
  it names, each stored for this run; the deployment is an enabled candidate with a passing, current observation of its
  identity and a passed probe for every required capability; every requested tool is enabled, bound as built in and
  within both action classes; the referenced bytes fit the input budget, automation does not classify as an operator, the
  deployment states its retention, training use and region; and the plan denies the network. Otherwise the decision is a denial.\<close>

theorem plan_run_default_deny:
  assumes "plan_run e request run_id plan_id decision_id now s = (Inr (p, d), t)"
  shows "case p of
      None \<Rightarrow> jat d [''spec'', ''effect''] = JStr ''deny''
    | Some plan \<Rightarrow> jat d [''spec'', ''effect''] = JStr ''allow''
        \<and> jat d [''spec'', ''subject'', ''digest''] = JStr (digest_of e plan) \<and> jat d [''metadata'', ''runId''] = JStr run_id
        \<and> map_of (pe_plans t) plan_id = Some (digest_of e plan)
        \<and> jat plan [''spec'', ''effectivePolicy'', ''agentNetwork''] = JStr ''deny''
        \<and> jat plan [''spec'', ''effectivePolicy'', ''toolNetwork''] = JStr ''deny''
        \<and> run_admitted e t request run_id now (jat plan [''spec'', ''effectivePolicy'', ''dataClass''])
            (jat plan [''spec'', ''route'', ''deploymentId''])"
  using assms
proof (cases rule: engine_plan_run_Inr)
  case denied
  then show ?thesis by (simp add: decision_fields)
next
  case (granted s' g)
  from granted(3) show ?thesis
  proof (cases rule: grant_run_Inr)
    case (1 prov plan expiry ds)
    with judge_run_Inr [OF granted(2)] show ?thesis
      by (simp add: decision_fields run_plan_fields run_admitted_update)
  qed
qed

section \<open>Authority and the life of its evidence\<close>

lemma assert_decision_expired:
  assumes "jat d [''spec'', ''constraints'', ''expiresAt''] = JStr x" and "ce_read e x = Some t" and "t \<le> now"
  shows "\<exists>err. assert_decision_current e d subject now s = Inl err"
proof -
  have "policy_time e (jat d [''spec'', ''constraints'', ''expiresAt'']) = Inr t" using assms by (simp add: policy_time_def)
  then have "assert_decision_current e d subject now s \<noteq> Inr ()"
    using assms(3) unfolding assert_decision_current_def by (auto split: if_splits)
  then show ?thesis by (cases "assert_decision_current e d subject now s") auto
qed

lemma evidence_deadline_bounds:
  assumes "evidence_deadline e s i b = Inr x"
  obtains obs p valid expires where "map_of (pe_observations s) i = Some obs" "map_of (pe_observation_provenance s) i = Some p"
    "policy_time e (jat obs [''metadata'', ''validUntil'']) = Inr valid" "policy_time e (JStr (ep_expires_at p)) = Inr expires"
    "x \<le> valid" "x \<le> expires" "b \<Longrightarrow> \<exists>y. snapshot_deadline e s = Inr y \<and> x \<le> y"
proof -
  from assms obtain obs p where o: "map_of (pe_observations s) i = Some obs" "map_of (pe_observation_provenance s) i = Some p"
    by (auto simp: evidence_deadline_def split: option.splits)
  with assms obtain valid expires where v: "policy_time e (jat obs [''metadata'', ''validUntil'']) = Inr valid"
    "policy_time e (JStr (ep_expires_at p)) = Inr expires"
    and x: "(if b then bindE (snapshot_deadline e s) (\<lambda>t. Inr (min (min valid expires) t)) else Inr (min valid expires)) = Inr x"
    by (auto simp: evidence_deadline_def)
  then show ?thesis by (intro that [OF o v]) (auto split: if_splits)
qed

text \<open>Authority does not outlive its evidence. The decision that comes with a plan is accepted by no engine at
  or after the end of the observation it rests on, the expiry of the envelope of that observation, the deadline of the
  repository snapshot when the run uses the repository, or the decision's time to live. (Timestamps are read back as
  they were written.)\<close>

lemma plan_authority_expires:
  assumes iso: "\<And>x. ce_read e (ce_iso e x) = Some x"
    and run: "plan_run e request run_id plan_id decision_id now s = (Inr (Some plan, d), t)"
    and late: "now' \<ge> valid \<or> now' \<ge> expires \<or> now' \<ge> now + seconds (pe_ttl t)
      \<or> (uses_repository (jat request [''spec'']) \<and> snapshot_deadline e t = Inr deadline \<and> now' \<ge> deadline)"
    and obs: "map_of (pe_observations t) (the_str (jat plan [''spec'', ''route'', ''deploymentId''])) = Some obs"
      "policy_time e (jat obs [''metadata'', ''validUntil'']) = Inr valid"
    and prov: "map_of (pe_observation_provenance t) (the_str (jat plan [''spec'', ''route'', ''deploymentId''])) = Some p"
      "policy_time e (JStr (ep_expires_at p)) = Inr expires"
  shows "\<exists>err. consume_decision e d subject now' v = (Inl err, v)"
  using run
proof (cases rule: engine_plan_run_Inr)
  case (granted s' g)
  from granted(3) show ?thesis
  proof (cases rule: grant_run_Inr)
    case (1 prov' plan' expiry ds)
    have t: "pe_observations t = pe_observations s'" "pe_observation_provenance t = pe_observation_provenance s'" "pe_ttl t = pe_ttl s'"
      "snapshot_deadline e t = snapshot_deadline e s'"
      using 1(5) by (simp_all add: snapshot_deadline_def split: option.splits)
    have pin: "jat plan [''spec'', ''route'', ''deploymentId''] = gr_pin g" using 1(2,3) by (simp add: run_plan_fields)
    from 1(4) have b: "expiry \<le> valid" "expiry \<le> expires"
      "uses_repository (jat request [''spec'']) \<Longrightarrow> snapshot_deadline e t = Inr deadline \<Longrightarrow> expiry \<le> deadline"
      by (rule evidence_deadline_bounds; use obs prov t pin in auto)+
    let ?x = "decision_expiry s' now (Some expiry)"
    have "?x \<le> now'" using late b t(3) by (auto simp: decision_expiry_def)
    moreover have "jat d [''spec'', ''constraints'', ''expiresAt''] = JStr (ce_iso e ?x)" using 1(7) by (simp add: decision_fields)
    ultimately obtain err where "assert_decision_current e d subject now' v = Inl err"
      using assert_decision_expired [OF _ iso] by blast
    then show ?thesis by (simp add: consume_decision_def Let_def)
  qed
qed simp

section \<open>Authorization of calls\<close>

lemma verdict_effect: "dq_effect (verdict_request e i run kind request code allowed expiry) = ''allow'' \<longleftrightarrow> code = None"
  by (simp add: verdict_request_def)

lemma verdict_code_None:
  "verdict_code tc unparsed off chain = Inr None \<longleftrightarrow> \<not> off \<and> \<not> unparsed \<and> chain = Inr ()"
  by (auto simp: verdict_code_def split: sum.splits stop.splits if_splits)

lemma authorize_tool_Inr:
  assumes "authorize_tool e plan request decision_id now in_memory s = (Inr d, t)" and "jat d [''spec'', ''effect''] = JStr ''allow''"
  obtains s' ds where "refresh_evidence e now s = (Inr (), s')" "t = s'\<lparr>pe_decisions := ds\<rparr>"
    "tool_code e s' in_memory plan request now = Inr None"
proof -
  from assms(1) show ?thesis unfolding authorize_tool_def
  proof (rule after_times_Inr)
    fix c s'
    assume r: "refresh_evidence e now s = (Inr (), s')"
      and b: "bindA (liftE (tool_code e s' in_memory plan request now)) (\<lambda>code. bindA (liftE (if code \<noteq> None then Inr None
           else bindE (evidence_deadline e s' (the_str (jat plan [''spec'', ''route'', ''deploymentId'']))
             (''repositorySnapshot'' \<in> dict_keys (the_obj (jat plan [''spec''])))) (\<lambda>t. Inr (Some t)))) (\<lambda>expiry.
         issue_decision e now (verdict_request e decision_id (jat plan [''metadata'', ''runId'']) ''ToolRequest'' request code
           ''ECO_TOOL_ALLOWED'' expiry))) s' = (Inr d, t)"
    from b obtain code expiry where code: "tool_code e s' in_memory plan request now = Inr code"
      and i: "issue_decision e now (verdict_request e decision_id (jat plan [''metadata'', ''runId'']) ''ToolRequest'' request code
           ''ECO_TOOL_ALLOWED'' expiry) s' = (Inr d, t)" by (auto elim!: bindA_InrE simp del: bindE_Inr_iff)
    from i show ?thesis
    proof (rule issue_decision_Inr)
      fix ds
      assume d: "d = decision_record e s' now (verdict_request e decision_id (jat plan [''metadata'', ''runId'']) ''ToolRequest'' request code
           ''ECO_TOOL_ALLOWED'' expiry)" and t: "t = s'\<lparr>pe_decisions := ds\<rparr>"
      from assms(2) d have "code = None" by (simp add: decision_fields verdict_effect)
      with r t code show ?thesis by (auto intro: that)
    qed
  qed
qed

definition read_admitted :: "policy_env \<Rightarrow> policy_engine \<Rightarrow> json \<Rightarrow> json \<Rightarrow> bool" where
  "read_admitted e s plan arguments \<longleftrightarrow> (\<exists>entry. map_of (pe_entries s) (the_str (jat arguments [''path''])) = Some entry
     \<and> jat entry [''dataClass''] \<noteq> JStr ''D4'' \<and> class_le (jat entry [''dataClass'']) (jat plan [''spec'', ''effectivePolicy'', ''dataClass'']))"

definition write_admitted :: "policy_engine \<Rightarrow> json \<Rightarrow> json \<Rightarrow> bool" where
  "write_admitted s plan arguments \<longleftrightarrow>
     (let entry = map_of (pe_entries s) (the_str (jat arguments [''path''])); before = jat arguments [''expectedBefore''];
          cls = jat arguments [''candidateArtifact'', ''dataClass''] in
      jat plan [''spec'', ''effectivePolicy'', ''sandbox''] = JStr ''workspace-change''
      \<and> cls \<noteq> JStr ''D4'' \<and> class_le cls (jat plan [''spec'', ''effectivePolicy'', ''dataClass''])
      \<and> (jat arguments [''operation''] = JStr ''create'' \<longrightarrow> entry = None)
      \<and> (jat arguments [''operation''] = JStr ''replace'' \<longrightarrow> (\<exists>x. entry = Some x
           \<and> jat before [''contentDigest''] = jat x [''contentDigest''] \<and> jat before [''byteLength''] = jat x [''byteLength'']
           \<and> jat before [''fileType''] = JStr ''regular'' \<and> jat before [''encoding''] = JStr ''UTF-8'')))"

lemma judge_binding_Inr:
  "judge_binding e s in_memory plan request other = Inr () \<longleftrightarrow>
     jat request [''metadata'', ''runId''] = jat plan [''metadata'', ''runId''] \<and> \<not> other
     \<and> (in_memory \<longrightarrow> map_of (pe_active s) (the_str (jat plan [''metadata'', ''runId''])) = Some (digest_of e plan))
     \<and> jat plan [''spec'', ''project'', ''semanticConfigDigest''] = JStr (config_digest e s)
     \<and> jat request [''spec'', ''planDigest''] = JStr (digest_of e plan)"
  unfolding judge_binding_def Let_def by auto

lemma judge_read_Inr:
  "judge_read e s plan arguments = Inr () \<Longrightarrow>
     \<not> protected_repository_path e (the_str (jat arguments [''path''])) \<and> read_admitted e s plan arguments"
  unfolding judge_read_def read_admitted_def Let_def by (auto simp: judge_data_Inr)

lemma judge_write_Inr:
  "judge_write e s plan arguments = Inr () \<Longrightarrow>
     \<not> protected_repository_path e (the_str (jat arguments [''path''])) \<and> write_admitted s plan arguments"
  unfolding judge_write_def write_admitted_def before_wrong_def Let_def by (auto simp: judge_data_Inr)

lemma judge_call_Inr:
  assumes "judge_call e s plan request = Inr ()"
  shows "(\<exists>tool \<in> set (the_list (jat plan [''spec'', ''tools''])). jat tool [''id''] = jat request [''spec'', ''toolId''])
    \<and> tool_argument_errors e (the_str (jat request [''spec'', ''toolId''])) (jat request [''spec'', ''arguments'']) = []
    \<and> (jat request [''spec'', ''toolId''] = JStr ''repository.read'' \<longrightarrow> judge_read e s plan (jat request [''spec'', ''arguments'']) = Inr ())
    \<and> (jat request [''spec'', ''toolId''] = JStr ''repository.write'' \<longrightarrow> judge_write e s plan (jat request [''spec'', ''arguments'']) = Inr ())"
proof -
  obtain x where x: "jat request [''spec'', ''toolId''] = x" by blast
  from assms have "x \<in> set (map (\<lambda>t. jat t [''id'']) (the_list (jat plan [''spec'', ''tools''])))"
    and "tool_argument_errors e (the_str x) (jat request [''spec'', ''arguments'']) = []"
    and "(if x = JStr ''repository.read'' then judge_read e s plan (jat request [''spec'', ''arguments''])
      else if x = JStr ''repository.write'' then judge_write e s plan (jat request [''spec'', ''arguments'']) else Inr ()) = Inr ()"
    unfolding judge_call_def Let_def x by simp_all
  then show ?thesis unfolding x by auto
qed

text \<open>C36: a tool call is allowed only inside its plan. When \<open>authorize_tool\<close> issues an allow decision, the request names
  the plan and its run and is not older than the plan nor from the future, the plan carries the current configuration digest,
  the tool is planned and its arguments are valid; the path is not protected; a read names an entry of the verified snapshot
  whose class the plan covers; a write needs the workspace-change sandbox, a candidate within the plan's class, and the regular
  UTF-8 file as the snapshot has it. The plan is the active plan of its run in this engine when the caller asks for that check
  (\<open>require_in_memory_activation\<close>, the default); the orchestrators do not, because they keep activation in the durable store,
  and then this decision says nothing about it.\<close>

theorem tool_allow_sound:
  assumes "authorize_tool e plan request decision_id now in_memory s = (Inr d, t)"
    and "jat d [''spec'', ''effect''] = JStr ''allow''"
  shows "(in_memory \<longrightarrow> map_of (pe_active t) (the_str (jat plan [''metadata'', ''runId''])) = Some (digest_of e plan))
    \<and> jat request [''metadata'', ''runId''] = jat plan [''metadata'', ''runId''] \<and> jat request [''spec'', ''planDigest''] = JStr (digest_of e plan)
    \<and> (\<exists>created planned. policy_time e (jat request [''metadata'', ''createdAt'']) = Inr created
         \<and> policy_time e (jat plan [''metadata'', ''createdAt'']) = Inr planned \<and> planned \<le> created \<and> created \<le> now + seconds (pe_skew t))
    \<and> jat plan [''spec'', ''project'', ''semanticConfigDigest''] = JStr (config_digest e t)
    \<and> (\<exists>tool \<in> set (the_list (jat plan [''spec'', ''tools''])). jat tool [''id''] = jat request [''spec'', ''toolId''])
    \<and> tool_argument_errors e (the_str (jat request [''spec'', ''toolId''])) (jat request [''spec'', ''arguments'']) = []
    \<and> (jat request [''spec'', ''toolId''] \<in> {JStr ''repository.read'', JStr ''repository.write''} \<longrightarrow>
         \<not> protected_repository_path e (the_str (jat request [''spec'', ''arguments'', ''path''])))
    \<and> (jat request [''spec'', ''toolId''] = JStr ''repository.read'' \<longrightarrow> read_admitted e t plan (jat request [''spec'', ''arguments'']))
    \<and> (jat request [''spec'', ''toolId''] = JStr ''repository.write'' \<longrightarrow> write_admitted t plan (jat request [''spec'', ''arguments'']))"
  using assms
proof (rule authorize_tool_Inr)
  fix s' ds
  assume t: "t = s'\<lparr>pe_decisions := ds\<rparr>" and code: "tool_code e s' in_memory plan request now = Inr None"
  from code obtain ts where ts: "call_times e [jat request [''metadata'', ''createdAt''], jat plan [''metadata'', ''createdAt'']] = Inr (Some ts)"
    and early: "\<not> call_early_or_late s' now (Some ts)"
    and b: "judge_binding e s' in_memory plan request False = Inr ()" and c: "judge_call e s' plan request = Inr ()"
    by (auto simp: tool_code_def verdict_code_None)
  from ts obtain created planned where times: "policy_time e (jat request [''metadata'', ''createdAt'']) = Inr created"
    "policy_time e (jat plan [''metadata'', ''createdAt'']) = Inr planned" "ts = [created, planned]"
    unfolding call_times_def by (auto split: sum.splits py_error.splits)
  have clock: "planned \<le> created" "created \<le> now + seconds (pe_skew s')"
    using early by (simp_all add: times(3) call_early_or_late_def)
  have path: "jat request [''spec'', ''arguments'', ''path''] = jat (jat request [''spec'', ''arguments'']) [''path'']"
    using jat_append [of request "[''spec'', ''arguments'']" "[''path'']"] by simp
  have same: "config_digest e t = config_digest e s'" "pe_active t = pe_active s'" "pe_skew t = pe_skew s'"
    "read_admitted e t = read_admitted e s'" "write_admitted t = write_admitted s'"
    by (simp_all add: t config_digest_def read_admitted_def write_admitted_def fun_eq_iff)
  note c' = judge_call_Inr [OF c]
  have "jat request [''spec'', ''toolId''] \<in> {JStr ''repository.read'', JStr ''repository.write''} \<longrightarrow>
      \<not> protected_repository_path e (the_str (jat (jat request [''spec'', ''arguments'']) [''path'']))"
    using c' judge_read_Inr judge_write_Inr by blast
  with b [unfolded judge_binding_Inr] c' judge_read_Inr judge_write_Inr times(1,2) clock show ?thesis unfolding same path by blast
qed

section \<open>Model calls\<close>

lemma authorize_model_Inr:
  assumes "authorize_model e plan request binding artifact decision_id now in_memory s = (Inr d, t)"
    and "jat d [''spec'', ''effect''] = JStr ''allow''"
  obtains s' ds ts where "refresh_evidence e now s = (Inr (), s')" "t = s'\<lparr>pe_decisions := ds\<rparr>"
    "model_times e plan request binding = Inr ts" "model_code e s' in_memory plan request binding artifact ts now = Inr None"
proof -
  from assms(1) show ?thesis unfolding authorize_model_def
  proof (rule after_refresh_Inr)
    fix s'
    assume r: "refresh_evidence e now s = (Inr (), s')"
      and b: "(if \<not> model_kinds plan request binding artifact then (policy_error ''ECO_MODEL_AUTHORITY_INVALID'', s')
        else bindA (liftE (model_times e plan request binding)) (\<lambda>ts.
          bindA (liftE (model_code e s' in_memory plan request binding artifact ts now)) (\<lambda>code.
          bindA (liftE (model_expiry e s' plan ts code)) (\<lambda>expiry.
            issue_decision e now (verdict_request e decision_id (jat plan [''metadata'', ''runId'']) ''ModelRequest'' request code
              ''ECO_MODEL_ALLOWED'' expiry)))) s') = (Inr d, t)"
    from b obtain ts code expiry where ts: "model_times e plan request binding = Inr ts"
      and code: "model_code e s' in_memory plan request binding artifact ts now = Inr code"
      and i: "issue_decision e now (verdict_request e decision_id (jat plan [''metadata'', ''runId'']) ''ModelRequest'' request code
           ''ECO_MODEL_ALLOWED'' expiry) s' = (Inr d, t)" by (auto split: if_splits elim!: bindA_InrE)
    from i show ?thesis
    proof (rule issue_decision_Inr)
      fix ds
      assume d: "d = decision_record e s' now (verdict_request e decision_id (jat plan [''metadata'', ''runId'']) ''ModelRequest'' request code
           ''ECO_MODEL_ALLOWED'' expiry)" and t: "t = s'\<lparr>pe_decisions := ds\<rparr>"
      from assms(2) d have "code = None" by (simp add: decision_fields verdict_effect)
      with r t ts code show ?thesis by (auto intro: that)
    qed
  qed
qed

definition route_current :: "policy_env \<Rightarrow> policy_engine \<Rightarrow> json \<Rightarrow> bool" where
  "route_current e s route \<longleftrightarrow> (\<exists>d obs. map_of (pe_deployments s) (the_str (jat route [''deploymentId''])) = Some d
     \<and> map_of (pe_observations s) (the_str (jat route [''deploymentId''])) = Some obs
     \<and> jat route [''deploymentDigest''] = JStr (digest_of e d) \<and> jat route [''observedCapabilitiesDigest''] = JStr (digest_of e obs)
     \<and> is_obj (logical_role s (jat route [''logicalRole''])) \<and> jat route [''brokerModelEgress'', ''allowed''] = JBool True)"

definition request_routed :: "policy_env \<Rightarrow> json \<Rightarrow> json \<Rightarrow> json \<Rightarrow> bool" where
  "request_routed e plan request binding \<longleftrightarrow>
     (let route = jat plan [''spec'', ''route'']; rs = jat request [''spec''] in
      jat rs [''deploymentId''] = jat route [''deploymentId''] \<and> jat rs [''deploymentIdentityDigest''] = jat route [''deploymentIdentityDigest'']
      \<and> jat rs [''endpointBindingDigest''] = JStr (digest_of e binding))"

definition endpoint_local :: "json \<Rightarrow> json \<Rightarrow> bool" where
  "endpoint_local plan binding \<longleftrightarrow> jat plan [''spec'', ''budget'', ''maxCostMicrousd''] = JInt 0
     \<and> jat (jat plan [''spec'', ''route'']) [''identity'', ''provider''] = JStr ''local''
     \<and> jat (jat binding [''spec'']) [''transportProfile''] = JStr ''local-loopback-http''
     \<and> jat (jat binding [''spec'']) [''credentialMode''] = JStr ''none'' \<and> \<not> endpoint_wrong (jat plan [''spec'', ''route'']) binding"

definition input_admitted :: "policy_env \<Rightarrow> policy_engine \<Rightarrow> json \<Rightarrow> json \<Rightarrow> json \<Rightarrow> bool" where
  "input_admitted e s plan request artifact \<longleftrightarrow>
     (let a = jat artifact [''spec'']; r = logical_role s (jat plan [''spec'', ''route'', ''logicalRole'']) in
      (\<exists>i \<in> set (the_list (jat plan [''spec'', ''inputs''])). jat i [''artifactRecordDigest''] = JStr (digest_of e artifact)
         \<and> jat i [''ref''] = jat a [''storageRef''] \<and> jat i [''contentDigest''] = jat a [''sha256''] \<and> jat i [''byteLength''] = jat a [''byteLength'']
         \<and> jat i [''dataClass''] = jat a [''dataClass''])
      \<and> json_eq (jat request [''spec'', ''input'']) (model_input e artifact) \<and> jat a [''role''] = JStr ''input'' \<and> jat a [''dataClass''] \<noteq> JStr ''D4''
      \<and> class_le (jat a [''dataClass'']) (jat plan [''spec'', ''effectivePolicy'', ''dataClass''])
      \<and> (\<exists>n. level_of CHR ''P'' (jat a [''trust'']) = Some n \<and> level_get CHR ''P'' (jat r [''minimumArtifactTrust'']) (- 1) \<le> n))"

lemma judge_route_Inr:
  "judge_route e s plan request binding = Inr () \<Longrightarrow> route_current e s (jat plan [''spec'', ''route''])
     \<and> request_routed e plan request binding"
  unfolding judge_route_def route_current_def request_routed_def Let_def by auto

lemma judge_endpoint_Inr:
  assumes "judge_endpoint plan binding ts now = Inr ()"
  shows "endpoint_local plan binding \<and> (\<exists>c p resolved until. ts = Some [c, p, resolved, until] \<and> resolved \<le> now \<and> now < until)"
  using assms unfolding judge_endpoint_def endpoint_local_def Let_def by (auto split: option.splits list.splits)

lemma judge_input_Inr:
  assumes "judge_input e s plan request artifact = Inr ()"
  shows "input_admitted e s plan request artifact"
proof -
  let ?a = "jat artifact [''spec'']"
  let ?find = "find (\<lambda>i. jat i [''artifactRecordDigest''] = jat request [''spec'', ''input'', ''artifactRecordDigest''])
     (the_list (jat plan [''spec'', ''inputs'']))"
  from assms obtain i n u where f: "?find = Some i"
    and w: "JStr (digest_of e artifact) = jat request [''spec'', ''input'', ''artifactRecordDigest'']" "\<not> input_wrong e i request artifact"
    and r: "jat ?a [''role''] = JStr ''input''"
      "judge_data (jat ?a [''dataClass'']) (jat plan [''spec'', ''effectivePolicy'', ''dataClass'']) = Inr u"
      "level_of CHR ''P'' (jat ?a [''trust'']) = Some n"
      "level_get CHR ''P'' (jat (logical_role s (jat plan [''spec'', ''route'', ''logicalRole''])) [''minimumArtifactTrust'']) (- 1) \<le> n"
    unfolding judge_input_def Let_def
    by (simp only: bindJ_Inr present_Inr refuse_if_Inr indexed_Inr de_Morgan_disj not_not not_less) blast
  have "i \<in> set (the_list (jat plan [''spec'', ''inputs'']))" "jat i [''artifactRecordDigest''] = JStr (digest_of e artifact)"
    using f w(1) by (auto simp: find_Some_iff)
  moreover have "jat i [''ref''] = jat ?a [''storageRef'']" "jat i [''contentDigest''] = jat ?a [''sha256'']"
    "jat i [''byteLength''] = jat ?a [''byteLength'']" "jat i [''dataClass''] = jat ?a [''dataClass'']"
    "json_eq (jat request [''spec'', ''input'']) (model_input e artifact)"
    using w(2) by (simp_all add: input_wrong_def Let_def)
  ultimately show ?thesis using r unfolding input_admitted_def Let_def judge_data_Inr by blast
qed

text \<open>C37: a model call is allowed only for the planned input on the planned, local endpoint. When \<open>authorize_model\<close>
  issues an allow decision, the plan carries the current configuration, request and artifact are of its run, the request is not
  older than the plan nor from the future, the route still names the deployment and observation the engine holds now and
  permits egress, the request names this route and the endpoint binding, which costs nothing, stays on the loopback without a
  credential, matches the route and is valid now, the artifact is an input of the plan with the same reference, content,
  length and data class, is what the request names, and lies within the plan's data class and the role's trust, and
  output bytes, tokens and timeout fit the plan's budget. The plan is the active plan of its run in this engine when the caller
  asks for that check (\<open>require_in_memory_activation\<close>, the default); the model orchestrator does not, because it keeps
  activation in the durable store, and then this decision says nothing about it.\<close>

theorem model_allow_sound:
  assumes "authorize_model e plan request binding artifact decision_id now in_memory s = (Inr d, t)"
    and "jat d [''spec'', ''effect''] = JStr ''allow''"
  shows "(in_memory \<longrightarrow> map_of (pe_active t) (the_str (jat plan [''metadata'', ''runId''])) = Some (digest_of e plan))
    \<and> jat plan [''spec'', ''project'', ''semanticConfigDigest''] = JStr (config_digest e t)
    \<and> jat request [''spec'', ''planDigest''] = JStr (digest_of e plan)
    \<and> jat request [''metadata'', ''runId''] = jat plan [''metadata'', ''runId'']
    \<and> jat artifact [''metadata'', ''runId''] = jat plan [''metadata'', ''runId'']
    \<and> (\<exists>created planned. policy_time e (jat request [''metadata'', ''createdAt'']) = Inr created
         \<and> policy_time e (jat plan [''metadata'', ''createdAt'']) = Inr planned \<and> planned \<le> created \<and> created \<le> now + seconds (pe_skew t))
    \<and> route_current e t (jat plan [''spec'', ''route''])
    \<and> request_routed e plan request binding
    \<and> endpoint_local plan binding
    \<and> (\<exists>resolved until. policy_time e (jat binding [''metadata'', ''resolvedAt'']) = Inr resolved
         \<and> policy_time e (jat binding [''metadata'', ''validUntil'']) = Inr until \<and> resolved \<le> now \<and> now < until)
    \<and> input_admitted e t plan request artifact
    \<and> the_int (jat request [''spec'', ''parameters'', ''maxOutputTokens'']) \<le> the_int (jat plan [''spec'', ''budget'', ''maxTotalTokens''])
    \<and> the_int (jat request [''spec'', ''parameters'', ''maxOutputBytes'']) \<le> the_int (jat plan [''spec'', ''budget'', ''maxOutputBytes''])
    \<and> the_int (jat request [''spec'', ''timeoutMs'']) \<le> the_int (jat plan [''spec'', ''budget'', ''maxDurationSeconds'']) * 1000"
  using assms
proof (rule authorize_model_Inr)
  fix s' ds ts
  assume t: "t = s'\<lparr>pe_decisions := ds\<rparr>" and ts: "model_times e plan request binding = Inr ts"
    and code: "model_code e s' in_memory plan request binding artifact ts now = Inr None"
  then have early: "\<not> call_early_or_late s' now ts" and "judge_model e s' in_memory plan request binding artifact ts now = Inr ()"
    by (simp_all add: model_code_def verdict_code_None)
  then have b: "judge_binding e s' in_memory plan request (jat artifact [''metadata'', ''runId''] \<noteq> jat plan [''metadata'', ''runId'']) = Inr ()"
    and r: "judge_route e s' plan request binding = Inr ()" and n: "judge_endpoint plan binding ts now = Inr ()"
    and i: "judge_input e s' plan request artifact = Inr ()" and p: "judge_parameters plan request = Inr ()"
    unfolding judge_model_def by auto
  from judge_endpoint_Inr [OF n] obtain c p' resolved until where w: "ts = Some [c, p', resolved, until]" "resolved \<le> now" "now < until" by blast
  from ts w(1) have times: "policy_time e (jat request [''metadata'', ''createdAt'']) = Inr c"
    "policy_time e (jat plan [''metadata'', ''createdAt'']) = Inr p'" "policy_time e (jat binding [''metadata'', ''resolvedAt'']) = Inr resolved"
    "policy_time e (jat binding [''metadata'', ''validUntil'']) = Inr until"
    unfolding model_times_def call_times_def by (auto split: sum.splits py_error.splits)
  have created: "p' \<le> c" "c \<le> now + seconds (pe_skew s')" using early by (simp_all add: w(1) call_early_or_late_def)
  have same: "config_digest e t = config_digest e s'" "pe_active t = pe_active s'" "pe_skew t = pe_skew s'" "route_current e t = route_current e s'"
    "input_admitted e t = input_admitted e s'"
    by (simp_all add: t config_digest_def route_current_def input_admitted_def logical_role_def fun_eq_iff)
  have "the_int (jat request [''spec'', ''parameters'', ''maxOutputTokens'']) \<le> the_int (jat plan [''spec'', ''budget'', ''maxTotalTokens''])"
    "the_int (jat request [''spec'', ''parameters'', ''maxOutputBytes'']) \<le> the_int (jat plan [''spec'', ''budget'', ''maxOutputBytes''])"
    "the_int (jat request [''spec'', ''timeoutMs'']) \<le> the_int (jat plan [''spec'', ''budget'', ''maxDurationSeconds'']) * 1000"
    using p by (simp_all add: judge_parameters_def Let_def)
  with b [unfolded judge_binding_Inr] judge_route_Inr [OF r] judge_endpoint_Inr [OF n] judge_input_Inr [OF i] times w(2,3) created
  show ?thesis unfolding same by blast
qed

section \<open>The no-model workflow\<close>

lemma register_no_model_plan_Inr: "register_no_model_plan e plan s = (Inr u, t) \<Longrightarrow>
    t = s\<lparr>pe_no_model_plans := dict_set (the_str (jat plan [''metadata'', ''id''])) (digest_of e plan) (pe_no_model_plans s)\<rparr>"
  by (auto simp: register_no_model_plan_def Let_def split: if_splits)

lemma no_model_checks_None:
  assumes "no_model_checks e s request = None"
  obtains r p entries scope_slots where "pe_snapshot s = Some r" "pe_snapshot_provenance s = Some p"
    "no_model_scope e s (the_str (jat request [''spec'', ''workflow''])) = Some (entries, scope_slots)"
  using assms unfolding no_model_checks_def by (auto split: if_splits)

lemma plan_no_model_run_Inr:
  assumes "plan_no_model_run e request run_id plan_id decision_id now s = (Inr (Some plan, d), t)"
  obtains s' r p entries scope_slots expiry ds where "refresh_evidence e now s = (Inr (), s')"
    "pe_snapshot s' = Some r" "pe_snapshot_provenance s' = Some p"
    "no_model_scope e s' (the_str (jat request [''spec'', ''workflow''])) = Some (entries, scope_slots)"
    "plan = no_model_plan e s' request run_id plan_id r p entries scope_slots" "snapshot_deadline e s' = Inr expiry"
    "t = s'\<lparr>pe_no_model_plans := dict_set plan_id (digest_of e plan) (pe_no_model_plans s'), pe_decisions := ds\<rparr>"
    "d = decision_record e s' now \<lparr>dq_id = decision_id, dq_run_id = run_id, dq_kind = ''NoModelRunPlan'', dq_subject_id = JStr plan_id,
       dq_subject_digest = digest_of e plan, dq_effect = ''allow'', dq_reason = ''ECO_NO_MODEL_RUN_ALLOWED'', dq_expiry = Some expiry\<rparr>"
proof -
  let ?deny = "deny_subject e ''NoModelRunRequest'' request run_id decision_id now"
  let ?grant = "\<lambda>plan. bindA (liftE (validate_runtime_record e plan)) (\<lambda>_. bindA (register_no_model_plan e plan) (\<lambda>_ s'.
      grant_plan e ''NoModelRunPlan'' plan plan_id run_id decision_id now ''ECO_NO_MODEL_RUN_ALLOWED'' (snapshot_deadline e s') s'))"
  from assms obtain c s' where ref: "refresh_evidence e now s = (Inr (), s')"
    and body: "(if c > now + seconds (pe_skew s') then ?deny ''ECO_REQUEST_TIME_INVALID'' s'
      else case no_model_checks e s' request of
        None \<Rightarrow> (case the (no_model_scope e s' (the_str (jat request [''spec'', ''workflow'']))) of
          (entries, scope_slots) \<Rightarrow> ?grant (no_model_plan e s' request run_id plan_id (the (pe_snapshot s')) (the (pe_snapshot_provenance s')) entries scope_slots) s')
      | Some code \<Rightarrow> ?deny code s') = (Inr (Some plan, d), t)"
    unfolding plan_no_model_run_def Let_def by (rule after_times_Inr)
  have not_denied: "?deny code s' \<noteq> (Inr (Some plan, d), t)" for code
    by (auto simp: deny_subject_def elim!: bindA_InrE)
  with body have "no_model_checks e s' request = None" by (auto split: if_splits option.splits)
  then obtain r p entries scope_slots where x: "pe_snapshot s' = Some r" "pe_snapshot_provenance s' = Some p"
    "no_model_scope e s' (the_str (jat request [''spec'', ''workflow''])) = Some (entries, scope_slots)"
    by (rule no_model_checks_None)
  define plan' where "plan' = no_model_plan e s' request run_id plan_id r p entries scope_slots"
  from body not_denied x have "?grant plan' s' = (Inr (Some plan, d), t)"
    by (auto simp: plan'_def split: if_splits option.splits)
  then obtain s1 where "register_no_model_plan e plan' s' = (Inr (), s1)"
    and gp: "grant_plan e ''NoModelRunPlan'' plan' plan_id run_id decision_id now ''ECO_NO_MODEL_RUN_ALLOWED'' (snapshot_deadline e s1) s1
      = (Inr (Some plan, d), t)" by (auto elim!: bindA_InrE)
  moreover have "the_str (jat plan' [''metadata'', ''id'']) = plan_id" by (simp add: plan'_def no_model_plan_def jget_def)
  ultimately have s1: "s1 = s'\<lparr>pe_no_model_plans := dict_set plan_id (digest_of e plan') (pe_no_model_plans s')\<rparr>"
    using register_no_model_plan_Inr by metis
  from gp show ?thesis
  proof (rule grant_plan_Inr)
    fix ds expiry
    assume "Some plan = Some plan'" "snapshot_deadline e s1 = Inr expiry" "t = s1\<lparr>pe_decisions := ds\<rparr>"
      "d = decision_record e s1 now \<lparr>dq_id = decision_id, dq_run_id = run_id, dq_kind = ''NoModelRunPlan'', dq_subject_id = JStr plan_id,
         dq_subject_digest = digest_of e plan', dq_effect = ''allow'', dq_reason = ''ECO_NO_MODEL_RUN_ALLOWED'', dq_expiry = Some expiry\<rparr>"
    then show ?thesis by (intro that [OF ref x, of expiry ds]) (simp_all add: s1 plan'_def)
  qed
qed

lemma no_model_scope_Some:
  assumes "no_model_scope e s w = Some (entries, scope_slots)"
  obtains paths where "map_of NO_MODEL_WORKFLOWS w = Some paths" "dict_keys (pe_entries s) = set paths"
    "\<And>p. p \<in> set paths \<Longrightarrow> no_model_entry (jget (pe_entries s) p)" "entries = map (\<lambda>p. scope_entry p (jget (pe_entries s) p)) paths"
    "scope_slots = slots e 1 entries"
  using assms unfolding no_model_scope_def Let_def by (auto simp: list_ex_iff split: option.splits if_splits)

lemma no_model_plan_fields:
  "jat (no_model_plan e s request run_id plan_id r p entries sl) [''spec'', ''budget''] = no_model_budget entries"
  "jat (no_model_plan e s request run_id plan_id r p entries sl) [''spec'', ''workflow'', ''id''] = jat request [''spec'', ''workflow'']"
  "jat (no_model_plan e s request run_id plan_id r p entries sl) [''spec'', ''workflow'', ''scopeDigest''] = JStr (digest_of e (JList entries))"
  "jat (no_model_plan e s request run_id plan_id r p entries sl) [''spec'', ''workflow'', ''entryCount''] = JInt (int (length entries))"
  "jat (no_model_plan e s request run_id plan_id r p entries sl) [''spec'', ''workflow'', ''scopeSlots''] = JList sl"
  "jat (no_model_plan e s request run_id plan_id r p entries sl) [''spec'', ''repositorySnapshot''] = no_model_snapshot e r p"
  "jat (no_model_plan e s request run_id plan_id r p entries sl) [''spec'', ''profile''] = JStr ''no-model-a1/v1alpha1''"
  "jat (no_model_plan e s request run_id plan_id r p entries sl) [''spec'', ''project'', ''semanticConfigDigest''] = JStr (config_digest e s)"
  "jat (no_model_plan e s request run_id plan_id r p entries sl) [''spec'', ''effectivePolicy''] = JObj [(''dataClass'', JStr ''D0''),
     (''maximumActionClass'', JStr ''A1''), (''sandbox'', JStr ''inspect''), (''network'', JStr ''deny''), (''modelRequests'', JInt 0),
     (''workspaceWrites'', JInt 0)]"
  by (simp_all add: no_model_plan_def jget_def)

lemma no_model_binding_own:
  assumes "pe_snapshot s = Some r" "pe_snapshot_provenance s = Some p"
    and "no_model_scope e s (the_str (jat request [''spec'', ''workflow''])) = Some (entries, sl)"
  shows "no_model_binding_error e s (no_model_plan e s request run_id plan_id r p entries sl) = None"
  unfolding no_model_binding_error_def using assms by (simp add: no_model_plan_fields json_eq_def)

lemma no_model_binding_update [simp]:
  "no_model_binding_error e (s\<lparr>pe_no_model_plans := ps, pe_decisions := ds\<rparr>) plan = no_model_binding_error e s plan"
proof -
  have "no_model_scope e (s\<lparr>pe_no_model_plans := ps, pe_decisions := ds\<rparr>) = no_model_scope e s"
    by (simp add: fun_eq_iff no_model_scope_def split: option.splits)
  then show ?thesis by (simp add: no_model_binding_error_def config_digest_def split: option.splits)
qed

text \<open>A no-model plan has no power but to read its scope. The plan that \<open>plan_no_model_run\<close> returns admits no
  model request, no network request and no write; its snapshot holds exactly the files of the fixed workflow, each
  classified D0 and P1 by policy; its input budget is the sum of their lengths; its decision allows exactly it, and it
  passes the engine's own rebinding check.\<close>

lemma no_model_plan_powerless:
  assumes "plan_no_model_run e request run_id plan_id decision_id now s = (Inr (Some plan, d), t)"
  shows "\<exists>paths. map_of NO_MODEL_WORKFLOWS (the_str (jat request [''spec'', ''workflow''])) = Some paths
    \<and> dict_keys (pe_entries t) = set paths \<and> (\<forall>p \<in> set paths. no_model_entry (jget (pe_entries t) p))
    \<and> jat plan [''spec'', ''budget'', ''maxModelRequests''] = JInt 0 \<and> jat plan [''spec'', ''budget'', ''maxNetworkRequests''] = JInt 0
    \<and> jat plan [''spec'', ''budget'', ''maxWorkspaceWrites''] = JInt 0
    \<and> jat plan [''spec'', ''budget'', ''maxInputBytes''] = JInt (\<Sum>p\<leftarrow>paths. the_int (jat (jget (pe_entries t) p) [''byteLength'']))
    \<and> jat plan [''spec'', ''effectivePolicy'', ''network''] = JStr ''deny''
    \<and> jat d [''spec'', ''effect''] = JStr ''allow'' \<and> jat d [''spec'', ''subject'', ''digest''] = JStr (digest_of e plan)
    \<and> map_of (pe_no_model_plans t) plan_id = Some (digest_of e plan) \<and> no_model_binding_error e t plan = None"
  using assms
proof (cases rule: plan_no_model_run_Inr)
  case (1 s' r p entries sl expiry ds)
  from 1(4) show ?thesis
  proof (rule no_model_scope_Some)
    fix paths
    assume paths: "map_of NO_MODEL_WORKFLOWS (the_str (jat request [''spec'', ''workflow''])) = Some paths"
      "dict_keys (pe_entries s') = set paths" "\<And>p. p \<in> set paths \<Longrightarrow> no_model_entry (jget (pe_entries s') p)"
      and en: "entries = map (\<lambda>p. scope_entry p (jget (pe_entries s') p)) paths"
    have b: "jat plan [''spec'', ''budget''] = no_model_budget entries" using 1(5) by (simp add: no_model_plan_fields)
    have b': "jat plan [''spec'', ''budget'', x] = jat (no_model_budget entries) [x]" for x
      using jat_append [of plan "[''spec'', ''budget'']" "[x]"] b by simp
    have ep: "jat plan [''spec'', ''effectivePolicy'', ''network''] = JStr ''deny''"
      using jat_append [of plan "[''spec'', ''effectivePolicy'']" "[''network'']"] 1(5) by (simp add: no_model_plan_fields jget_def)
    have "no_model_binding_error e t plan = None" using no_model_binding_own [OF 1(2-4)] 1(5,7) by simp
    moreover have "map (\<lambda>x. the_int (jat x [''byteLength''])) entries = map (\<lambda>p. the_int (jat (jget (pe_entries t) p) [''byteLength''])) paths"
      by (simp add: en 1(7) scope_entry_def jget_def)
    ultimately show ?thesis using paths ep 1(7,8)
      by (simp add: b' no_model_budget_def jget_def decision_fields)
  qed
qed

end
