(* ===== verification/Eco_Policy_Demo.thy ===== *)
theory Eco_Policy_Demo
  imports Eco_Policy_Guarantees "HOL-Library.Multiset"
begin

text \<open>
  A concrete environment, bundle and signed evidence on which the policy engine runs: an engine is constructed, a run is
  planned, its plan activated, a file of the snapshot read and a local model called, and the no-model workflow planned.
  Timestamps are decimal numbers, digests and tags constants; schemas accept everything. The histories show that the
  hypotheses of the guarantees can hold.
\<close>

section \<open>Sizes and times\<close>

fun jweight :: "json \<Rightarrow> nat" where
  "jweight (JStr s) = 6 * length s + 2"
| "jweight (JInt i) = length (show_int i)"
| "jweight (JList vs) = 2 + sum_list (map (\<lambda>v. jweight v + 1) vs)"
| "jweight (JObj d) = 2 + sum_list (map (\<lambda>(k, v). 6 * length k + 3 + jweight v + 1) d)"
| "jweight v = 5"

definition read_nat :: "string \<Rightarrow> nat" where
  "read_nat s = foldl (\<lambda>n c. 10 * n + (of_char c - 48)) 0 s"

lemma digit_value: "d < 10 \<Longrightarrow> of_char (hexdigit d) - 48 = (d :: nat)"
proof -
  assume "d < 10"
  then have "d \<in> {0, 1, 2, 3, 4, 5, 6, 7, 8, 9}" by auto
  then show ?thesis by (auto simp: hexdigit_def)
qed

lemma read_show_nat [simp]: "read_nat (show_nat n) = n"
proof (induction n rule: show_nat.induct)
  case (1 n)
  show ?case
  proof (cases "n < 10")
    case True
    then show ?thesis by (subst show_nat.simps) (simp add: read_nat_def digit_value)
  next
    case False
    then have "read_nat (show_nat n) = 10 * read_nat (show_nat (n div 10)) + n mod 10"
      by (subst show_nat.simps) (simp add: read_nat_def digit_value)
    with 1 False show ?thesis by simp
  qed
qed

definition read_int :: "string \<Rightarrow> int option" where
  "read_int s = (case s of [] \<Rightarrow> None | c # cs \<Rightarrow> if c = CHR ''-'' then Some (- int (read_nat cs)) else Some (int (read_nat s)))"

lemma read_show_int [simp]: "read_int (show_int i) = Some i"
proof (cases "i < 0")
  case True
  then show ?thesis by (simp add: show_int_def read_int_def)
next
  case False
  obtain c cs where c: "show_nat (nat i) = c # cs" by (cases "show_nat (nat i)") auto
  with show_nat_digits [of "nat i"] have "c \<noteq> CHR ''-''" by (auto simp: is_digit_def)
  then have "read_int (c # cs) = Some (int (read_nat (c # cs)))" by (simp add: read_int_def)
  then show ?thesis unfolding c [symmetric] using False by (simp add: show_int_def)
qed

lemma length_join: "length (join_with c ss) \<le> sum_list (map (\<lambda>s. length s + 1) ss)"
  by (induction c ss rule: join_with.induct) auto

lemma length_esc: "length (esc c) \<le> 6"
  by (auto simp: esc_def)

lemma length_show_str: "length (show_str s) \<le> 6 * length s + 2"
proof -
  have "length (concat (map esc s)) \<le> 6 * length s"
    by (induction s) (auto intro: add_mono [OF length_esc])
  then show ?thesis by (simp add: show_str_def)
qed

lemma length_show_json: "length (show_json v) \<le> jweight v"
proof (induction v rule: show_json.induct)
  case (5 vs)
  have "length (join_with CHR '','' (map show_json vs)) \<le> sum_list (map (\<lambda>v. length (show_json v) + 1) vs)"
    using length_join [of "CHR '',''" "map show_json vs"] by (simp add: comp_def)
  also have "\<dots> \<le> sum_list (map (\<lambda>v. jweight v + 1) vs)" using 5 by (intro sum_list_mono) simp
  finally show ?case by simp
next
  case (6 d)
  let ?f = "\<lambda>(k, v). show_str k @ CHR '':'' # show_json v"
  have "length (join_with CHR '','' (map ?f d)) \<le> sum_list (map (\<lambda>x. length (?f x) + 1) d)"
    using length_join [of "CHR '',''" "map ?f d"] by (simp add: comp_def)
  also have "\<dots> \<le> sum_list (map (\<lambda>(k, v). 6 * length k + 3 + jweight v + 1) d)"
  proof (intro sum_list_mono, clarify)
    fix k v
    assume x: "(k, v) \<in> set d"
    have "length (show_json v) \<le> jweight v" using 6 [OF x refl] .
    with length_show_str [of k] show "length (show_str k @ CHR '':'' # show_json v) + 1 \<le> 6 * length k + 3 + jweight v + 1" by simp
  qed
  finally show ?case by simp
next
  case (4 t)
  then show ?case using length_show_str [of t] by simp
qed auto

lemma sum_sorted_items: "sum_list (map f (sorted_items d)) = (sum_list (map f d) :: nat)"
proof -
  have "mset (map f (sorted_items d)) = mset (map f d)" by (simp add: sorted_items_def)
  then show ?thesis by (metis sum_mset_sum_list)
qed

lemma jweight_sort_keys: "jweight (sort_keys v) = jweight v"
proof (induction v rule: sort_keys.induct)
  case (1 vs)
  then have "map (\<lambda>v. jweight (sort_keys v) + 1) vs = map (\<lambda>v. jweight v + 1) vs" by simp
  then show ?case by (simp add: comp_def cong: map_cong)
next
  case (2 d)
  let ?w = "\<lambda>(k, v). 6 * length k + 3 + jweight v + 1"
  have "sum_list (map ?w (sorted_items (map (\<lambda>(k, v). (k, sort_keys v)) d))) = sum_list (map ?w (map (\<lambda>(k, v). (k, sort_keys v)) d))"
    by (rule sum_sorted_items)
  also have "map ?w (map (\<lambda>(k, v). (k, sort_keys v)) d) = map ?w d" using 2 by auto
  finally show ?case by simp
qed simp_all

lemma length_canonical_json: "length (canonical_json v) \<le> jweight v"
  using length_show_json [of "sort_keys v"] by (simp add: canonical_json_def jweight_sort_keys)

section \<open>Records\<close>

definition demo_hash :: string where
  "demo_hash = replicate 64 CHR ''a''"

lemma demo_hash_text [simp]: "sha256_text demo_hash"
  by code_simp

definition demo_entry :: "string \<Rightarrow> json" where
  "demo_entry path = JObj [(''path'', JStr path), (''dataClass'', JStr ''D0''), (''trust'', JStr ''P1''),
     (''classificationAuthority'', JStr ''policy''), (''contentDigest'', JStr demo_hash), (''byteLength'', JInt 3)]"

definition demo_entries :: obj where
  "demo_entries = map (\<lambda>p. (p, demo_entry p)) [''wiki/index.md'', ''wiki/architecture.md'', ''wiki/roadmap.md'']"

definition demo_snapshot :: json where
  "demo_snapshot = JObj [(''kind'', JStr ''RepositorySnapshot''), (''metadata'', JObj [(''id'', JStr ''snap''), (''projectId'',
     JStr ''demo''), (''createdAt'', JStr (show_int 0)), (''issuer'', JObj [(''id'', JStr ''issuer'')])]), (''spec'',
     JObj [(''rootIdentityDigest'', JStr demo_hash), (''trust'', JStr ''P1''), (''entries'', JList (map snd demo_entries))])]"

definition demo_profile :: json where
  "demo_profile = JObj [(''kind'', JStr ''AdapterConformanceProfile''), (''metadata'', JObj [(''id'', JStr ''obs''),
     (''deploymentId'', JStr ''dep''), (''testedAt'', JStr (show_int 0)), (''validUntil'', JStr (show_int 900))]), (''spec'',
     JObj [(''deploymentIdentityDigest'', JStr demo_hash), (''adapterVersion'', JStr ''1''), (''status'', JStr ''pass''),
     (''suite'', JObj [(''digest'', JStr demo_hash)]), (''probes'', JList [JObj [(''id'', JStr ''text-basic''), (''status'',
     JStr ''pass''), (''successes'', JInt 1), (''attempts'', JInt 1)], JObj [(''id'', JStr ''tool-call-normalization''),
     (''status'', JStr ''pass''), (''successes'', JInt 1), (''attempts'', JInt 1)]]), (''effectiveCapabilities'',
     JList [JStr ''model.text'', JStr ''model.tool-calling''])])]"

definition demo_dep :: json where
  "demo_dep = JObj [(''id'', JStr ''dep''), (''enabled'', JBool True), (''provider'', JStr ''local''), (''adapter'',
     JStr ''ollama''), (''model'', JStr ''m''), (''endpointRef'', JStr ''env:X''), (''retention'', JStr ''none''),
     (''trainingUse'', JStr ''none''), (''region'', JStr ''local''), (''zone'', JStr ''Z0''), (''allowedDataClasses'',
     JList [JStr ''D0'']), (''artifactTrust'', JStr ''P1''), (''declaredCapabilities'', JList [JStr ''model.text'',
     JStr ''model.tool-calling'']), (''identity'', JObj [(''adapterVersion'', JStr ''1''), (''endpointReferenceDigest'',
     JStr demo_hash), (''modelRevision'', JStr ''1''), (''quantization'', JStr ''q''), (''runtimeEngine'', JStr ''r''),
     (''runtimeVersion'', JStr ''1'')])]"

definition demo_role :: json where
  "demo_role = JObj [(''maximumActionClass'', JStr ''A1''), (''minimumArtifactTrust'', JStr ''P1''), (''requiredCapabilities'',
     JList [JStr ''model.text'']), (''candidates'', JList [JStr ''dep'']), (''allowedDataClasses'', JList [JStr ''D0'']),
     (''allowedZones'', JList [JStr ''Z0''])]"

definition demo_tool :: json where
  "demo_tool = JObj [(''id'', JStr ''repository.read''), (''enabled'', JBool True), (''transport'', JStr ''builtin''),
     (''binding'', JStr ''workspace-filesystem''), (''capability'', JStr ''filesystem.read''), (''actionClass'', JStr ''A1''),
     (''allowedSandboxes'', JList [JStr ''inspect''])]"

definition demo_caps :: "json list" where
  "demo_caps = [JObj [(''id'', JStr ''model.text'')], JObj [(''id'', JStr ''model.tool-calling'')], JObj [(''id'',
     JStr ''filesystem.read''), (''actionClass'', JStr ''A1'')]]"

definition demo_bundle :: obj where
  "demo_bundle = the_obj (JObj [(''project'', JObj [(''apiVersion'', JStr ''ai.ecosystem/v1alpha1''), (''metadata'',
     JObj [(''name'', JStr ''demo'')]), (''policy'', JObj [(''defaultDecision'', JStr ''deny''), (''allowDirectEgress'',
     JBool False)])]), (''capabilities'', JObj [(''apiVersion'', JStr ''ai.ecosystem/v1alpha1''), (''capabilities'',
     JList demo_caps)]), (''deployments'', JObj [(''apiVersion'', JStr ''ai.ecosystem/v1alpha1''), (''deployments'',
     JList [demo_dep]), (''logicalRoles'', JObj [(''writer'', demo_role)])]), (''tools'', JObj [(''apiVersion'',
     JStr ''ai.ecosystem/v1alpha1''), (''tools'', JList [demo_tool])]), (''instructions'', JObj [(''apiVersion'',
     JStr ''ai.ecosystem/v1alpha1'')])])"

definition demo_artifact :: json where
  "demo_artifact = JObj [(''kind'', JStr ''ArtifactRecord''), (''metadata'', JObj [(''id'', JStr ''art''), (''runId'',
     JStr ''run'')]), (''spec'', JObj [(''storageRef'', JStr ''ref''), (''dataClass'', JStr ''D0''), (''sha256'', JStr demo_hash),
     (''byteLength'', JInt 5), (''role'', JStr ''input''), (''trust'', JStr ''P1'')])]"

definition demo_run_request :: json where
  "demo_run_request = JObj [(''kind'', JStr ''RunRequest''), (''metadata'', JObj [(''id'', JStr ''req''), (''createdAt'',
     JStr (show_int 0)), (''actor'', JObj [(''type'', JStr ''human'')])]), (''spec'', JObj [(''projectId'', JStr ''demo''),
     (''classificationAuthority'', JStr ''policy''), (''logicalRole'', JStr ''writer''), (''dataClass'', JStr ''D0''), (''task'',
     JObj [(''instructionRef'', JStr ''ref''), (''inputRefs'', JList [])]), (''constraints'', JObj [(''maximumActionClass'',
     JStr ''A1''), (''sandbox'', JStr ''inspect'')]), (''requestedTools'', JList [JStr ''repository.read'']), (''budget'',
     JObj [(''maxDurationSeconds'', JInt 30), (''maxToolRequests'', JInt 2), (''maxInputBytes'', JInt 100), (''maxOutputBytes'',
     JInt 10), (''maxModelRequests'', JInt 1), (''maxTotalTokens'', JInt 10), (''maxCostMicrousd'', JInt 0)])])]"

section \<open>Environment\<close>

definition demo_base :: policy_env where
  "demo_base = \<lparr>ce_sha = (\<lambda>_. demo_hash), ce_hmac = (\<lambda>_ _. demo_hash), ce_iso = show_int, ce_read = read_int,
     kx_structural = (\<lambda>_ _. []), kx_tool_structural = (\<lambda>_ _. []), kx_authority_errors = (\<lambda>_. []),
     kx_loads = (\<lambda>_. None),
     kx_nfc = (\<lambda>s. s), kx_casefold = (\<lambda>s. s), px_canonical_schema = (\<lambda>_ _. True),
     px_schema_bundle = demo_hash\<rparr>"

definition demo_signer :: evidence_signer where
  "demo_signer = \<lparr>sg_issuer_id = ''issuer'', sg_key_id = ''key'', sg_key = replicate 32 CHR ''k''\<rparr>"

definition demo_issuer :: issuer_policy where
  "demo_issuer = \<lparr>ip_issuer_id = ''issuer'', ip_key_id = ''key'', ip_key = replicate 32 CHR ''k'',
     ip_kinds = {''RepositorySnapshot'', ''AdapterConformanceProfile''}, ip_projects = {}, ip_deployments = {}, ip_suites = {},
     ip_platforms = {}, ip_instances = {}, ip_runners = {}, ip_implementations = {}\<rparr>"

text \<open>An envelope issued at 0 that expires at 800.\<close>

definition demo_envelope :: "string \<Rightarrow> json \<Rightarrow> obj" where
  "demo_envelope i r = evidence_envelope demo_base (sg_key demo_signer) (evidence_body demo_base demo_signer r i 0 800 None)"

definition demo_text :: "string \<Rightarrow> json \<Rightarrow> string" where
  "demo_text i r = canonical_json (JObj (demo_envelope i r))"

definition penv :: policy_env where

       "penv = demo_base\<lparr>kx_loads := (\<lambda>s. if s = demo_text ''snap-1'' demo_snapshot then Some (JObj (demo_envelope ''snap-1'' demo_snapshot))
     else if s = demo_text ''obs-1'' demo_profile then Some (JObj (demo_envelope ''obs-1'' demo_profile)) else None)\<rparr>"

lemma penv_simps [simp]:
  "ce_sha penv = (\<lambda>_. demo_hash)" "ce_hmac penv = (\<lambda>_ _. demo_hash)" "ce_iso penv = show_int" "ce_read penv = read_int"
  "kx_structural penv = (\<lambda>_ _. [])" "kx_tool_structural penv = (\<lambda>_ _. [])" "kx_nfc penv = (\<lambda>s. s)"
  "kx_casefold penv = (\<lambda>s. s)" "px_canonical_schema penv = (\<lambda>_ _. True)" "px_schema_bundle penv = demo_hash"
  by (simp_all add: penv_def demo_base_def)

lemma penv_digest [simp]: "digest_of penv v = demo_hash" "semantic_digest (\<lambda>_. demo_hash) v = demo_hash"
  by (simp_all add: digest_of_def semantic_digest_def)

lemma penv_valid:
  "jget m ''kind'' = JStr k \<Longrightarrow> k \<in> RUNTIME_KINDS - AUTHORITY_KINDS - {''PlatformBackendConformanceProfile''}
     \<Longrightarrow> validate_runtime_record penv (JObj m) = Inr ()"
  by (simp add: validate_runtime_record_def contract_errors_def)

lemma demo_kinds [simp]:
  "''AdapterConformanceProfile'' \<in> RUNTIME_KINDS - AUTHORITY_KINDS - {''PlatformBackendConformanceProfile''}"
  "''RepositorySnapshot'' \<in> RUNTIME_KINDS - AUTHORITY_KINDS - {''PlatformBackendConformanceProfile''}"
  "''RunRequest'' \<in> RUNTIME_KINDS - AUTHORITY_KINDS - {''PlatformBackendConformanceProfile''}"
  "''RunPlan'' \<in> RUNTIME_KINDS - AUTHORITY_KINDS - {''PlatformBackendConformanceProfile''}"
  "''PolicyDecision'' \<in> RUNTIME_KINDS - AUTHORITY_KINDS - {''PlatformBackendConformanceProfile''}"
  "''ArtifactRecord'' \<in> RUNTIME_KINDS - AUTHORITY_KINDS - {''PlatformBackendConformanceProfile''}"
  "''ToolRequest'' \<in> RUNTIME_KINDS - AUTHORITY_KINDS - {''PlatformBackendConformanceProfile''}"
  "''ModelRequest'' \<in> RUNTIME_KINDS - AUTHORITY_KINDS - {''PlatformBackendConformanceProfile''}"
  "''EndpointBinding'' \<in> RUNTIME_KINDS - AUTHORITY_KINDS - {''PlatformBackendConformanceProfile''}"
  "''NoModelRunRequest'' \<in> RUNTIME_KINDS - AUTHORITY_KINDS - {''PlatformBackendConformanceProfile''}"
  "''NoModelRunPlan'' \<in> RUNTIME_KINDS - AUTHORITY_KINDS - {''PlatformBackendConformanceProfile''}"
  by (simp_all add: RUNTIME_KINDS_def AUTHORITY_KINDS_def)

lemma demo_records_valid [simp]:
  "validate_runtime_record penv demo_snapshot = Inr ()" "validate_runtime_record penv demo_profile = Inr ()"
  "validate_runtime_record penv demo_artifact = Inr ()" "validate_runtime_record penv demo_run_request = Inr ()"
  unfolding demo_snapshot_def demo_profile_def demo_artifact_def demo_run_request_def
  by (rule penv_valid, simp add: jget_Cons, rule demo_kinds)+

section \<open>Opening the evidence\<close>

lemma penv_body: "evidence_body penv = evidence_body demo_base" "evidence_envelope penv = evidence_envelope demo_base"
  by (simp_all add: fun_eq_iff evidence_body_def evidence_envelope_def evidence_subject_def demo_base_def semantic_digest_def)

lemma canonical_json_field:
  assumes "canonical_json (JObj c) = canonical_json (JObj d)" and "distinct (map fst c)" and "distinct (map fst d)"
    and "(k, JStr x) \<in> set c" and "(k, JStr y) \<in> set d"
  shows "x = y"
proof -
  have "sort_keys (JObj c) = sort_keys (JObj d)"
    using assms(1) show_json_prefix_code [of "sort_keys (JObj c)" "[]" "sort_keys (JObj d)" "[]"] by (simp add: canonical_json_def)
  from sort_keys_obj_field [OF this assms(2-5)] show ?thesis by simp
qed

lemma demo_texts_differ: "demo_text i r = demo_text j q \<Longrightarrow> i = j"
  unfolding demo_text_def
  by (erule canonical_json_field [where k = "''envelopeId''"]) (simp_all add: demo_envelope_def evidence_envelope_def evidence_body_def)

lemma demo_loads [simp]:
  "kx_loads penv (demo_text ''snap-1'' demo_snapshot) = Some (JObj (demo_envelope ''snap-1'' demo_snapshot))"
  "kx_loads penv (demo_text ''obs-1'' demo_profile) = Some (JObj (demo_envelope ''obs-1'' demo_profile))"
  using demo_texts_differ [of "''obs-1''" demo_profile "''snap-1''" demo_snapshot] by (auto simp: penv_def)

lemma demo_size:
  "length (demo_text ''snap-1'' demo_snapshot) \<le> 64 * 1024 * 1024" "length (demo_text ''obs-1'' demo_profile) \<le> 64 * 1024 * 1024"
proof -
  have n: "length (show_int 0) \<le> 4" "length (show_int 800) \<le> 4" "length (show_int 900) \<le> 4" "length (show_int 1) \<le> 4" "length (show_int 3) \<le> 4"
    by (simp_all add: show_int_def show_nat.simps)
  note defs = demo_envelope_def evidence_envelope_def evidence_body_def evidence_subject_def demo_base_def demo_signer_def
    semantic_digest_def demo_hash_def jget_Cons
  have "jweight (JObj (demo_envelope ''snap-1'' demo_snapshot)) \<le> 64 * 1024 * 1024"
    using n by (simp add: defs demo_snapshot_def demo_entries_def demo_entry_def)
  then show "length (demo_text ''snap-1'' demo_snapshot) \<le> 64 * 1024 * 1024"
    unfolding demo_text_def by (rule order_trans [OF length_canonical_json])
  have "jweight (JObj (demo_envelope ''obs-1'' demo_profile)) \<le> 64 * 1024 * 1024"
    using n by (simp add: defs demo_profile_def)
  then show "length (demo_text ''obs-1'' demo_profile) \<le> 64 * 1024 * 1024"
    unfolding demo_text_def by (rule order_trans [OF length_canonical_json])
qed

definition demo_trust :: evidence_trust where
  "demo_trust = [((''issuer'', ''key''), demo_issuer)]"

lemma demo_evidence_signed:
  "sign_evidence penv demo_signer demo_snapshot ''snap-1'' 0 800 None = Inr (demo_text ''snap-1'' demo_snapshot)"
  "sign_evidence penv demo_signer demo_profile ''obs-1'' 0 800 None = Inr (demo_text ''obs-1'' demo_profile)"
proof -
  have "safe_identifier ''snap-1''" "safe_identifier ''obs-1''" by code_simp+
  moreover have "jat demo_snapshot [''kind''] = JStr ''RepositorySnapshot''" "jat demo_profile [''kind''] = JStr ''AdapterConformanceProfile''"
    by (simp_all add: demo_snapshot_def demo_profile_def jget_Cons)
  ultimately show "sign_evidence penv demo_signer demo_snapshot ''snap-1'' 0 800 None = Inr (demo_text ''snap-1'' demo_snapshot)"
    "sign_evidence penv demo_signer demo_profile ''obs-1'' 0 800 None = Inr (demo_text ''obs-1'' demo_profile)"
    by (simp_all add: sign_evidence_def validated_evidence_record_def demo_text_def demo_envelope_def penv_body)
qed

lemma demo_trusted:
  "map_of demo_trust (sg_issuer_id demo_signer, sg_key_id demo_signer) = Some demo_issuer" "ip_key demo_issuer = sg_key demo_signer"
  "the_str (jat demo_snapshot [''kind'']) \<in> ip_kinds demo_issuer" "the_str (jat demo_profile [''kind'']) \<in> ip_kinds demo_issuer"
  by (simp_all add: demo_trust_def demo_signer_def demo_issuer_def demo_snapshot_def demo_profile_def jget_Cons)

lemma demo_open [simp]:
  "open_evidence penv demo_trust (demo_text ''snap-1'' demo_snapshot) 10 0
     = Inr (demo_snapshot, demo_issuer, evidence_body demo_base demo_signer demo_snapshot ''snap-1'' 0 800 None)"
  "open_evidence penv demo_trust (demo_text ''obs-1'' demo_profile) 10 0
     = Inr (demo_profile, demo_issuer, evidence_body demo_base demo_signer demo_profile ''obs-1'' 0 800 None)"
  by (subst signed_envelope_opens [OF demo_evidence_signed(1) demo_trusted(1,2,3) _ demo_size(1)]; simp add: penv_body demo_envelope_def)
     (subst signed_envelope_opens [OF demo_evidence_signed(2) demo_trusted(1,2,4) _ demo_size(2)]; simp add: penv_body demo_envelope_def)

section \<open>The engine\<close>

definition demo_prov :: "string \<Rightarrow> evidence_provenance" where
  "demo_prov i = \<lparr>ep_envelope_id = i, ep_envelope_digest = demo_hash, ep_issuer_id = ''issuer'', ep_key_id = ''key'',
     ep_issued_at = show_int 0, ep_expires_at = show_int 800\<rparr>"

definition demo_ingestor :: "(string \<times> string) list \<Rightarrow> evidence_ingestor" where
  "demo_ingestor seen = \<lparr>in_trust = demo_trust, in_snapshot_age = 1, in_observation_age = 1, in_skew = 0, in_seen = seen\<rparr>"

definition demo_seen :: "(string \<times> string) list" where
  "demo_seen = [(''obs-1'', demo_hash), (''snap-1'', demo_hash)]"

lemma demo_ingestor_fields [simp]:
  "in_snapshot_age (demo_ingestor seen) = 1" "in_observation_age (demo_ingestor seen) = 1" "in_skew (demo_ingestor seen) = 0"
  by (simp_all add: demo_ingestor_def)

lemma demo_evidence_verified:
  "verified_evidence penv r (evidence_body demo_base demo_signer r i 0 800 None) encoded = (r, demo_prov i)"
  unfolding verified_evidence_def signed_parts evidence_body_fields
  by (simp add: demo_prov_def demo_signer_def demo_base_def jget_Cons)

lemma demo_paths [simp]: "\<not> invalid_path penv ''wiki/index.md''" "\<not> invalid_path penv ''wiki/architecture.md''" "\<not> invalid_path penv ''wiki/roadmap.md''"
  unfolding invalid_path_def penv_simps by code_simp+

lemma demo_snapshot_entries [simp]: "repository_snapshot_entries penv demo_snapshot (Some (JStr ''demo'')) = Inr demo_entries"
proof -
  have ok: "tool_argument_errors penv ''repository.read'' (JObj [(''path'', JStr p)]) = []" if "\<not> invalid_path penv p" for p
    using that by (simp add: tool_argument_errors_def TOOL_ARGUMENT_TOOLS_def jget_Cons)
  have l: "level_of CHR ''P'' (JStr ''P1'') = Some 1" by (simp add: level_of_def)
  have f: "jat demo_snapshot [''metadata'', ''projectId''] = JStr ''demo''" "jat demo_snapshot [''spec'', ''trust''] = JStr ''P1''"
    "the_list (jat demo_snapshot [''spec'', ''entries'']) = map snd demo_entries"
    by (simp_all add: demo_snapshot_def jget_Cons)
  have e: "jat (demo_entry p) [''path''] = JStr p" "jat (demo_entry p) [''trust''] = JStr ''P1''" for p
    by (simp_all add: demo_entry_def jget_Cons)
  show ?thesis
    by (simp add: repository_snapshot_entries_def f demo_entries_def e l ok Let_def dict_keys_def)
qed

lemma evidence_time_show [simp]: "evidence_time penv (JStr (show_int n)) = Inr n"
  by (simp add: evidence_time_def)

lemma policy_time_show [simp]: "policy_time penv (JStr (show_int n)) = Inr n"
  by (simp add: policy_time_def)

lemma demo_observe:
  assumes "map_of seen ''obs-1'' \<in> {None, Some demo_hash}"
  shows "ingest_observed_capabilities penv (demo_text ''obs-1'' demo_profile) ''dep'' demo_hash {demo_hash} None 10 (demo_ingestor seen)
     = (Inr (demo_profile, demo_prov ''obs-1''), demo_ingestor (dict_set ''obs-1'' demo_hash seen))"
proof -
  let ?b = "evidence_body demo_base demo_signer demo_profile ''obs-1'' 0 800 None"
  have o: "ingestor_open penv (demo_text ''obs-1'' demo_profile) 10 (demo_ingestor seen)
      = (Inr (demo_profile, demo_issuer, ?b), demo_ingestor (dict_set ''obs-1'' demo_hash seen))"
    using assms by (auto simp: ingestor_open_def demo_ingestor_def evidence_body_fields Let_def)
  have "check_observation penv g ''dep'' demo_hash {demo_hash} None 10 demo_profile demo_issuer ?b = Inr ()"
    if "in_observation_age g = 1" "in_skew g = 0" for g
    using that by (simp add: check_observation_def tested_window_wrong_def excluded_by_def demo_issuer_def demo_profile_def jget_Cons)
  then show ?thesis unfolding ingest_observed_capabilities_def checked_evidence_def
    by (simp add: bindA_def o demo_evidence_verified)
qed

lemma demo_observe_snapshot:
  assumes "map_of seen ''snap-1'' \<in> {None, Some demo_hash}"
  shows "ingest_repository_snapshot penv (demo_text ''snap-1'' demo_snapshot) ''demo'' demo_hash 10 (demo_ingestor seen)
     = (Inr (demo_snapshot, demo_prov ''snap-1''), demo_ingestor (dict_set ''snap-1'' demo_hash seen))"
proof -
  let ?b = "evidence_body demo_base demo_signer demo_snapshot ''snap-1'' 0 800 None"
  have o: "ingestor_open penv (demo_text ''snap-1'' demo_snapshot) 10 (demo_ingestor seen)
      = (Inr (demo_snapshot, demo_issuer, ?b), demo_ingestor (dict_set ''snap-1'' demo_hash seen))"
    using assms by (auto simp: ingestor_open_def demo_ingestor_def evidence_body_fields Let_def)
  have f: "jat demo_snapshot [''kind''] = JStr ''RepositorySnapshot''" "jat demo_snapshot [''metadata'', ''createdAt''] = JStr (show_int 0)"
    "jat demo_snapshot [''metadata'', ''projectId''] = JStr ''demo''" "jat demo_snapshot [''spec'', ''rootIdentityDigest''] = JStr demo_hash"
    "jat demo_snapshot [''metadata'', ''issuer'', ''id''] = JStr ''issuer''"
    by (simp_all add: demo_snapshot_def jget_Cons)
  have "check_snapshot penv g ''demo'' demo_hash 10 demo_snapshot demo_issuer ?b = Inr ()"
    if "in_snapshot_age g = 1" "in_skew g = 0" for g
    unfolding check_snapshot_def f signed_parts using that by (simp add: excluded_by_def demo_issuer_def demo_signer_def)
  then show ?thesis unfolding ingest_repository_snapshot_def checked_evidence_def
    by (simp add: bindA_def o demo_evidence_verified)
qed

definition demo_config :: "policy_engine \<Rightarrow> bool" where
  "demo_config s \<longleftrightarrow> pe_bundle s = demo_bundle \<and> pe_artifacts s = [(''ref'', demo_artifact)]
     \<and> pe_encoded_observations s = [(''dep'', demo_text ''obs-1'' demo_profile)] \<and> pe_expectations s = []
     \<and> pe_encoded_snapshot s = Some (demo_text ''snap-1'' demo_snapshot) \<and> pe_root_identity s = Some demo_hash
     \<and> pe_suites s = {demo_hash} \<and> pe_ttl s = 1 \<and> pe_snapshot_age s = 1 \<and> pe_observation_age s = 1 \<and> pe_skew s = 0
     \<and> pe_deployments s = [(''dep'', demo_dep)] \<and> pe_tools s = [(''repository.read'', demo_tool)]
     \<and> pe_capabilities s = map (\<lambda>c. (the_str (jat c [''id'']), c)) demo_caps"

definition demo_evidence :: "policy_engine \<Rightarrow> policy_engine" where
  "demo_evidence s = s\<lparr>pe_ingestor := Some (demo_ingestor demo_seen), pe_observations := [(''dep'', demo_profile)],
     pe_observation_provenance := [(''dep'', demo_prov ''obs-1'')], pe_snapshot := Some demo_snapshot,
     pe_snapshot_provenance := Some (demo_prov ''snap-1''), pe_entries := demo_entries\<rparr>"

lemma demo_identity [simp]: "deployment_identity_digest (\<lambda>_. demo_hash) (the_obj demo_dep) = Inr demo_hash"
  by (simp add: deployment_identity_digest_def deployment_identity_payload_def demo_dep_def jget_Cons lacks_def required_identity_def)

lemma demo_project: "pe_bundle s = demo_bundle \<Longrightarrow> project_name s = JStr ''demo''"
  by (simp add: project_name_def demo_bundle_def jget_Cons)

lemma demo_refresh:
  assumes c: "demo_config s" and g: "pe_ingestor s = Some (demo_ingestor seen)" and "seen = [] \<or> seen = demo_seen"
  shows "refresh_evidence penv 10 s = (Inr (), demo_evidence s)"
proof -
  note c' = c [unfolded demo_config_def]
  have seen: "map_of seen ''obs-1'' \<in> {None, Some demo_hash}" "map_of (dict_set ''obs-1'' demo_hash seen) ''snap-1'' \<in> {None, Some demo_hash}"
    "dict_set ''snap-1'' demo_hash (dict_set ''obs-1'' demo_hash seen) = demo_seen"
    using assms(3) by (auto simp: demo_seen_def dict_set_def)
  have "observe_all penv s 10 (pe_encoded_observations s) (demo_ingestor seen)
      = (Inr [(''dep'', demo_profile, demo_prov ''obs-1'')], demo_ingestor (dict_set ''obs-1'' demo_hash seen))"
    using c' by (simp add: bindA_def demo_observe [OF seen(1)])
  moreover have "observe_snapshot penv s 10 (demo_ingestor (dict_set ''obs-1'' demo_hash seen))
      = (Inr (Some (demo_snapshot, demo_prov ''snap-1'')), demo_ingestor demo_seen)"
    using c' by (simp add: observe_snapshot_def demo_project bindA_def demo_observe_snapshot [OF seen(2)] seen(3))
  ultimately show ?thesis unfolding refresh_evidence_def g option.case
    using c' by (simp add: store_evidence_def demo_project demo_evidence_def Let_def)
qed

definition demo_arguments :: engine_arguments where
  "demo_arguments = \<lparr>ea_bundle = demo_bundle, ea_observations = [(''dep'', demo_text ''obs-1'' demo_profile)],
     ea_artifacts = [(''ref'', demo_artifact)], ea_snapshot = Some (demo_text ''snap-1'' demo_snapshot), ea_policies = Some [demo_issuer],
     ea_now = Some 10, ea_root_identity = Some demo_hash, ea_suites = {demo_hash}, ea_expectations = [], ea_ttl = 1,
     ea_snapshot_age = 1, ea_observation_age = 1, ea_skew = 0\<rparr>"

definition demo_fresh :: policy_engine where
  "demo_fresh = fresh_engine demo_arguments (Some (demo_ingestor [])) [(''dep'', demo_dep)] [(''repository.read'', demo_tool)]
     (map (\<lambda>c. (the_str (jat c [''id'']), c)) demo_caps)"

lemma demo_fresh_config: "demo_config demo_fresh" "pe_ingestor demo_fresh = Some (demo_ingestor [])"
  by (simp_all add: demo_config_def demo_fresh_def fresh_engine_def demo_arguments_def)

definition demo_start :: policy_engine where
  "demo_start = demo_evidence demo_fresh"

lemma demo_members:
  "jget demo_bundle ''project'' = JObj [(''apiVersion'', JStr ''ai.ecosystem/v1alpha1''), (''metadata'', JObj [(''name'', JStr ''demo'')]),
     (''policy'', JObj [(''defaultDecision'', JStr ''deny''), (''allowDirectEgress'', JBool False)])]"
  "jget demo_bundle ''capabilities'' = JObj [(''apiVersion'', JStr ''ai.ecosystem/v1alpha1''), (''capabilities'', JList demo_caps)]"
  "jget demo_bundle ''deployments'' = JObj [(''apiVersion'', JStr ''ai.ecosystem/v1alpha1''), (''deployments'', JList [demo_dep]),
     (''logicalRoles'', JObj [(''writer'', demo_role)])]"
  "jget demo_bundle ''tools'' = JObj [(''apiVersion'', JStr ''ai.ecosystem/v1alpha1''), (''tools'', JList [demo_tool])]"
  "jget demo_bundle ''instructions'' = JObj [(''apiVersion'', JStr ''ai.ecosystem/v1alpha1'')]"
  "jget demo_bundle ''trust'' = JNull"
  by (simp_all add: demo_bundle_def jget_Cons jget_def)

lemma demo_constructed: "new_policy_engine penv demo_arguments = Inr demo_start"
proof -
  have ids: "jat demo_dep [''id''] = JStr ''dep''" "jat demo_tool [''id''] = JStr ''repository.read''"
    by (simp_all add: demo_dep_def demo_tool_def jget_Cons)
  have maps: "unique_map [] [demo_dep] = Inr [(''dep'', demo_dep)]" "unique_map [] [demo_tool] = Inr [(''repository.read'', demo_tool)]"
    "unique_map [] demo_caps = Inr (map (\<lambda>c. (the_str (jat c [''id'']), c)) demo_caps)"
    by (simp_all add: ids dict_keys_def) (simp add: demo_caps_def jget_Cons dict_keys_def)
  have ing: "build_ingestor demo_arguments = Inr (Some (demo_ingestor []))"
    by (simp add: build_ingestor_def demo_arguments_def new_evidence_trust_def new_ingestor_def demo_ingestor_def demo_trust_def
        demo_issuer_def dict_keys_def)
  have req: "required_observations demo_bundle = Inr {}" by (simp add: required_observations_def demo_members)
  have roles: "role_valid (map (\<lambda>c. (the_str (jat c [''id'']), c)) demo_caps) [(''dep'', demo_dep)] demo_role"
    by (simp add: role_valid_def demo_role_def jget_Cons level_of_def texts_def dict_keys_def demo_caps_def)
  have tools: "tool_bound (map (\<lambda>c. (the_str (jat c [''id'']), c)) demo_caps) demo_tool"
    by (simp add: tool_bound_def demo_tool_def jget_Cons demo_caps_def)
  have snap: "validate_canonical_snapshot demo_bundle [(''dep'', demo_dep)] [(''repository.read'', demo_tool)]
      (map (\<lambda>c. (the_str (jat c [''id'']), c)) demo_caps) = Inr ()"
    unfolding validate_canonical_snapshot_def demo_members Let_def by (simp add: demo_members jget_Cons roles tools)
  have schemas: "validate_canonical_schemas penv demo_bundle = Inr ()"
    by (simp add: validate_canonical_schemas_def demo_members)
  have keys: "REQUIRED_BUNDLE \<subseteq> dict_keys demo_bundle"
    by (simp add: REQUIRED_BUNDLE_def demo_bundle_def dict_keys_def)
  have args: "ea_bundle demo_arguments = demo_bundle" "ea_ttl demo_arguments = 1" "ea_snapshot_age demo_arguments = 1"
    "ea_observation_age demo_arguments = 1" "ea_skew demo_arguments = 0" "ea_expectations demo_arguments = []"
    "ea_observations demo_arguments = [(''dep'', demo_text ''obs-1'' demo_profile)]" "ea_now demo_arguments = Some 10"
    by (simp_all add: demo_arguments_def)
  have "refresh_evidence penv 10 demo_fresh = (Inr (), demo_start)"
    unfolding demo_start_def by (rule demo_refresh [OF demo_fresh_config]) simp
  then show ?thesis
    unfolding new_policy_engine_def Let_def args using keys
    by (simp add: demo_members jget_Cons req ing schemas maps snap demo_fresh_def [symmetric] dict_keys_def
        del: unique_map.simps bindE_Inr_iff)
qed

section \<open>A planned run\<close>

definition demo_ready :: "policy_engine \<Rightarrow> bool" where
  "demo_ready s \<longleftrightarrow> demo_config s \<and> pe_ingestor s = Some (demo_ingestor demo_seen) \<and> pe_observations s = [(''dep'', demo_profile)]
     \<and> pe_observation_provenance s = [(''dep'', demo_prov ''obs-1'')] \<and> pe_snapshot s = Some demo_snapshot
     \<and> pe_snapshot_provenance s = Some (demo_prov ''snap-1'') \<and> pe_entries s = demo_entries"

lemma demo_start_ready: "demo_ready demo_start"
  using demo_fresh_config by (simp add: demo_ready_def demo_start_def demo_config_def demo_evidence_def)

lemma demo_evidence_ready: "demo_ready s \<Longrightarrow> demo_evidence s = s"
  by (cases s) (simp add: demo_ready_def demo_evidence_def)

lemma demo_ready_refresh [simp]: "demo_ready s \<Longrightarrow> refresh_evidence penv 10 s = (Inr (), s)"
  using demo_refresh [of s demo_seen] demo_evidence_ready [of s] by (simp add: demo_ready_def)

lemma demo_ready_update [simp]:
  "demo_ready (s\<lparr>pe_decisions := ds\<rparr>) = demo_ready s" "demo_ready (s\<lparr>pe_plans := ps\<rparr>) = demo_ready s"
  "demo_ready (s\<lparr>pe_active := ps\<rparr>) = demo_ready s" "demo_ready (s\<lparr>pe_ledgers := ls\<rparr>) = demo_ready s"
  "demo_ready (s\<lparr>pe_no_model_plans := ps\<rparr>) = demo_ready s" "demo_ready (s\<lparr>pe_no_model_active := ps\<rparr>) = demo_ready s"
  by (simp_all add: demo_ready_def demo_config_def)

definition demo_planned_tool :: json where
  "demo_planned_tool = JObj [(''id'', JStr ''repository.read''), (''catalogDigest'', JStr demo_hash), (''capability'', JStr ''filesystem.read''),
     (''actionClass'', JStr ''A1''), (''argumentContract'', JStr ''eco://tools/repository-read/v1alpha1'')]"

definition demo_route :: granted_route where
  "demo_route = \<lparr>gr_role = demo_role, gr_inputs = [plan_input penv (JStr ''ref'') demo_artifact], gr_class = JStr ''D0'', gr_pin = JStr ''dep'',
     gr_deployment = demo_dep, gr_identity = demo_hash, gr_observation = demo_profile, gr_tools = [demo_planned_tool]\<rparr>"

lemma demo_levels:
  "level_of CHR ''D'' (JStr ''D0'') = Some 0" "level_of CHR ''A'' (JStr ''A1'') = Some 1" "level_of CHR ''P'' (JStr ''P1'') = Some 1"
  "level_get CHR ''A'' (JStr ''A1'') n = 1" "level_get CHR ''P'' (JStr ''P1'') n = 1"
  by (simp_all add: level_of_def level_get_def)

lemma demo_jat:
  "jat demo_run_request [''metadata'', ''createdAt''] = JStr (show_int 0)" "jat demo_profile [''metadata'', ''validUntil''] = JStr (show_int 900)"
  "jat demo_snapshot [''metadata'', ''createdAt''] = JStr (show_int 0)" "uses_repository (jat demo_run_request [''spec''])"
  by (simp_all add: demo_run_request_def demo_profile_def demo_snapshot_def jget_Cons uses_repository_def)

lemma demo_profile_fields:
  "is_obj demo_profile" "jat demo_profile [''metadata'', ''deploymentId''] = JStr ''dep''" "jat demo_profile [''metadata'', ''testedAt''] = JStr (show_int 0)"
  "jat demo_profile [''spec'', ''deploymentIdentityDigest''] = JStr demo_hash"
  "jat demo_profile [''spec'', ''adapterVersion''] = jat demo_dep [''identity'', ''adapterVersion'']"
  "jat demo_profile [''spec'', ''status''] = JStr ''pass''" "jat demo_profile [''spec'', ''suite'', ''digest''] = JStr demo_hash"
  by (simp_all add: demo_profile_def demo_dep_def jget_Cons)

lemma demo_judged:
  assumes r: "demo_ready s"
  shows "judge_run penv s demo_run_request ''run'' 10 = Inr demo_route"
proof -
  note c = r [unfolded demo_ready_def demo_config_def]
  let ?spec = "jat demo_run_request [''spec'']"
  note ev = jget_Cons demo_levels Let_def refuse_if_def
  have role: "logical_role s (JStr ''writer'') = demo_role" using c by (simp add: logical_role_def demo_members ev)
  have 1: "judge_identity s demo_run_request = Inr demo_role"
    using c role by (simp add: judge_identity_def demo_run_request_def ev demo_project) (simp add: demo_role_def)
  have 2: "judge_artifacts penv s ''run'' (JStr ''D0'') [] [JStr ''ref''] = Inr ([plan_input penv (JStr ''ref'') demo_artifact], JStr ''D0'')"
    using c by (simp add: judge_artifact_def present_def ev data_above_def indexed_def) (auto simp: demo_artifact_def ev indexed_def)
  have 3: "judge_classes demo_role ?spec (JStr ''D0'') [plan_input penv (JStr ''ref'') demo_artifact] = Inr ()"
    by (simp add: judge_classes_def demo_run_request_def ev planned_bytes_def plan_input_def demo_artifact_def demo_role_def indexed_def)
  have 4: "judge_pin demo_role ?spec = Inr (JStr ''dep'')"
    by (simp add: judge_pin_def demo_run_request_def demo_role_def ev) (simp add: jget_def)
  have 5: "judge_deployment penv s demo_role (JStr ''D0'') (JStr ''dep'') = Inr (demo_dep, demo_hash)"
    using c by (simp add: judge_deployment_def present_def ev) (simp add: demo_dep_def demo_role_def ev)
  have o: "map_of (pe_observations s) ''dep'' = Some demo_profile" "pe_suites s = {demo_hash}" "pe_observation_age s = 1" using c by simp_all
  have 6: "judge_observation penv s (JStr ''dep'') demo_dep demo_hash 10 = Inr demo_profile"
    by (simp add: judge_observation_def observation_window_def present_def demo_jat demo_profile_fields o seconds_def refuse_if_def)
  have 7: "judge_capabilities s demo_role ?spec demo_dep demo_profile = Inr ()"
    using c by (simp add: judge_capabilities_def required_capabilities_def demo_run_request_def demo_role_def demo_dep_def demo_profile_def ev
        demo_caps_def texts_def dict_keys_def capability_probed_def REQUIRED_PROBES_def)
  have 8: "judge_toolset penv s demo_role ?spec = Inr [demo_planned_tool]"
    using c by (simp add: judge_toolset_def judge_tool_def plan_tool_def demo_run_request_def demo_role_def demo_tool_def present_def indexed_def ev
        TOOL_ARGUMENT_TOOLS_def binding_wrong_def ARGUMENT_CONTRACTS_def demo_planned_tool_def uses_repository_def)
  have f: "jat ?spec [''dataClass''] = JStr ''D0''" "jat ?spec [''task'', ''instructionRef''] = JStr ''ref''"
    "the_list (jat ?spec [''task'', ''inputRefs'']) = []" by (simp_all add: demo_run_request_def ev)
  show ?thesis unfolding judge_run_def Let_def 1 f by (simp add: 2 3 4 5 6 7 8 demo_route_def del: judge_artifacts.simps)
qed

lemma demo_deadline: "demo_ready s \<Longrightarrow> evidence_deadline penv s ''dep'' b = Inr 800"
  by (simp add: demo_ready_def demo_config_def evidence_deadline_def snapshot_deadline_def demo_jat demo_prov_def seconds_def)

definition demo_plan :: json where
  "demo_plan = run_plan penv demo_start demo_run_request ''run'' ''plan'' 10 demo_route (demo_prov ''obs-1'')"

definition demo_allow :: json where
  "demo_allow = decision_record penv demo_start 10 \<lparr>dq_id = ''dec'', dq_run_id = ''run'', dq_kind = ''RunPlan'', dq_subject_id = JStr ''plan'',
     dq_subject_digest = demo_hash, dq_effect = ''allow'', dq_reason = ''ECO_RUN_ALLOWED'', dq_expiry = Some 800\<rparr>"

definition demo_planned :: policy_engine where
  "demo_planned = demo_start\<lparr>pe_plans := [(''plan'', demo_hash)], pe_decisions := [(''dec'', \<lparr>is_digest = demo_hash, is_consumed = False\<rparr>)]\<rparr>"

lemma demo_start_fields: "pe_plans demo_start = []" "pe_decisions demo_start = []" "pe_active demo_start = []" "pe_ledgers demo_start = []"
  "pe_no_model_plans demo_start = []" "pe_no_model_active demo_start = []"
  by (simp_all add: demo_start_def demo_evidence_def demo_fresh_def fresh_engine_def)

lemma decision_valid [simp]: "validate_runtime_record penv (decision_record e s now q) = Inr ()"
  unfolding decision_record_def by (rule penv_valid, simp add: jget_Cons, rule demo_kinds)

lemma demo_run: "plan_run penv demo_run_request ''run'' ''plan'' ''dec'' 10 demo_start = (Inr (Some demo_plan, demo_allow), demo_planned)"
proof -
  have v: "validate_runtime_record penv demo_plan = Inr ()"
    unfolding demo_plan_def run_plan_def Let_def by (rule penv_valid, simp add: jget_Cons, rule demo_kinds)
  have pid: "jat demo_plan [''metadata'', ''id''] = JStr ''plan''" by (simp add: demo_plan_def run_plan_def Let_def jget_Cons)
  have did: "jat demo_allow [''metadata'', ''id''] = JStr ''dec''" by (simp add: demo_allow_def decision_fields)
  let ?s = "demo_start\<lparr>pe_plans := [(''plan'', demo_hash)]\<rparr>"
  have reg: "register_plan penv demo_plan demo_start = (Inr (), ?s)"
    by (simp add: register_plan_def Let_def pid demo_start_fields dict_set_def)
  have va: "validate_runtime_record penv demo_allow = Inr ()" by (simp add: demo_allow_def)
  have regd: "register_decision penv demo_allow ?s = (Inr (), demo_planned)"
    by (simp add: register_decision_def Let_def did demo_start_fields dict_set_def demo_planned_def)
  have rec: "decision_record penv ?s 10 \<lparr>dq_id = ''dec'', dq_run_id = ''run'', dq_kind = ''RunPlan'', dq_subject_id = JStr ''plan'',
     dq_subject_digest = demo_hash, dq_effect = ''allow'', dq_reason = ''ECO_RUN_ALLOWED'', dq_expiry = Some 800\<rparr> = demo_allow"
    by (simp add: demo_allow_def decision_record_def)
  have iss: "issue_decision penv 10 \<lparr>dq_id = ''dec'', dq_run_id = ''run'', dq_kind = ''RunPlan'', dq_subject_id = JStr ''plan'',
     dq_subject_digest = demo_hash, dq_effect = ''allow'', dq_reason = ''ECO_RUN_ALLOWED'', dq_expiry = Some 800\<rparr> ?s = (Inr demo_allow, demo_planned)"
    unfolding issue_decision_def Let_def rec by (simp add: liftE_def bindA_def va regd returnA_def)
  have dl: "evidence_deadline penv demo_start ''dep'' b = Inr 800" for b by (rule demo_deadline) (simp add: demo_start_ready)
  have prov: "map_of (pe_observation_provenance demo_start) ''dep'' = Some (demo_prov ''obs-1'')"
    using demo_start_ready by (simp add: demo_ready_def)
  have grant: "grant_run penv demo_run_request ''run'' ''plan'' ''dec'' 10 demo_route demo_start = (Inr (Some demo_plan, demo_allow), demo_planned)"
    unfolding grant_run_def
    by (simp add: prov demo_route_def [THEN arg_cong, of gr_pin] Let_def demo_plan_def [symmetric] v bindA_def liftE_def reg dl grant_plan_def iss returnA_def)
  have skew: "pe_skew demo_start = 0" using demo_start_ready by (simp add: demo_ready_def demo_config_def)
  show ?thesis unfolding plan_run_def
    by (simp add: bindA_def liftE_def demo_start_ready demo_jat skew demo_judged grant Let_def seconds_def)
qed

end
