(* ===== verification/Eco_Policy_Witness.thy ===== *)
theory Eco_Policy_Witness
  imports Eco_Policy_Demo
begin

text \<open>
  The guarantees of the policy engine on a concrete history: the run of \<open>Eco_Policy_Demo\<close> is planned and activated, a file
  is read, a local model called, and the no-model workflow planned.
\<close>

section \<open>Planning and activation\<close>

lemma demo_reachable: "policy_reachable penv demo_start"
  by (rule reach_start) (use demo_constructed in blast)

lemma demo_planned_reachable: "policy_reachable penv demo_planned"
proof -
  have "policy_step penv demo_start demo_planned"
    using policy_step.intros(1) [of penv demo_start demo_run_request "''run''" "''plan''" "''dec''" 10] by (simp add: demo_run)
  then show ?thesis by (rule reach_step [OF demo_reachable])
qed

theorem plan_run_default_deny_witness:
  "run_admitted penv demo_planned demo_run_request ''run'' 10 (JStr ''D0'') (JStr ''dep'')"
  using plan_run_default_deny [OF demo_run] by (simp add: demo_plan_def run_plan_fields demo_route_def)

lemma demo_plan_route: "jat demo_plan [''spec'', ''route'', ''deploymentId''] = JStr ''dep''"
  by (simp add: demo_plan_def run_plan_fields demo_route_def)

lemma demo_planned_ready: "demo_ready demo_planned"
  by (simp add: demo_planned_def demo_start_ready)

lemma demo_planned_fields: "pe_observations demo_planned = [(''dep'', demo_profile)]"
  "pe_observation_provenance demo_planned = [(''dep'', demo_prov ''obs-1'')]"
  using demo_planned_ready by (simp_all add: demo_ready_def)

lemma plan_authority_expires_demo:
  "\<exists>err. consume_decision penv demo_allow demo_plan 800 demo_planned = (Inl err, demo_planned)"
proof (rule plan_authority_expires [OF _ demo_run, where valid = 900 and expires = 800])
  show "map_of (pe_observations demo_planned) (the_str (jat demo_plan [''spec'', ''route'', ''deploymentId''])) = Some demo_profile"
    by (simp add: demo_plan_route demo_planned_fields)
  show "map_of (pe_observation_provenance demo_planned) (the_str (jat demo_plan [''spec'', ''route'', ''deploymentId''])) = Some (demo_prov ''obs-1'')"
    by (simp add: demo_plan_route demo_planned_fields)
qed (simp_all add: demo_jat demo_prov_def)

definition demo_ledger :: ledger where
  "demo_ledger = \<lparr>ledger_run_id = ''run'', ledger_plan_digest = demo_hash, limits = plan_limits demo_plan, started_at = 0, tool_requests = 0,
     input_bytes = 5, reserved_input_bytes = 0, next_reservation_id = 1, input_reservations = [], output_bytes = 0,
     model_requests = 0, total_tokens = 0, cost_microusd = 0\<rparr>"

definition demo_active :: policy_engine where
  "demo_active = demo_planned\<lparr>pe_decisions := [(''dec'', \<lparr>is_digest = demo_hash, is_consumed = True\<rparr>)],
     pe_active := [(''run'', demo_hash)], pe_ledgers := [(''run'', demo_ledger)]\<rparr>"

lemma demo_plan_fields:
  "jat demo_plan [''metadata'', ''id''] = JStr ''plan''" "jat demo_plan [''metadata'', ''runId''] = JStr ''run''"
  "jat demo_plan [''metadata'', ''createdAt''] = JStr (show_int 10)" "jat demo_plan [''kind''] = JStr ''RunPlan''"
  "jat demo_plan [''spec'', ''project'', ''semanticConfigDigest''] = JStr demo_hash"
  "jat demo_plan [''spec'', ''inputs''] = JList [plan_input penv (JStr ''ref'') demo_artifact]"
  "jat demo_plan [''spec'', ''tools''] = JList [demo_planned_tool]"
  "jat demo_plan [''spec'', ''budget''] = jat (jat demo_run_request [''spec'']) [''budget'']"
  "jat demo_plan [''spec'', ''route''] = plan_route penv (jat demo_run_request [''spec'']) demo_route (demo_prov ''obs-1'')"
  "jat demo_plan [''spec'', ''effectivePolicy'', ''dataClass''] = JStr ''D0''"
  by (simp_all add: demo_plan_def run_plan_def Let_def jget_Cons plan_snapshot_def plan_project_def config_digest_def demo_route_def split: option.splits)

lemma demo_plan_valid: "validate_runtime_record penv demo_plan = Inr ()"
  unfolding demo_plan_def run_plan_def Let_def by (rule penv_valid, simp add: jget_Cons, rule demo_kinds)

lemma demo_plan_budget:
  "jat demo_plan [''spec'', ''budget'', x] = jat (jat (jat demo_run_request [''spec'']) [''budget'']) [x]"
  using jat_append [of demo_plan "[''spec'', ''budget'']" "[x]"] by (simp add: demo_plan_fields)

lemma demo_allow_fields:
  "jat demo_allow [''metadata'', ''id''] = JStr ''dec''" "jat demo_allow [''spec'', ''effect''] = JStr ''allow''"
  "jat demo_allow [''metadata'', ''runId''] = JStr ''run''" "jat demo_allow [''metadata'', ''createdAt''] = JStr (show_int 10)"
  "jat demo_allow [''spec'', ''policySnapshot'', ''semanticConfigDigest''] = JStr demo_hash"
  "jat demo_allow [''spec'', ''subject'', ''kind''] = JStr ''RunPlan''" "jat demo_allow [''spec'', ''subject'', ''id''] = JStr ''plan''"
  "jat demo_allow [''spec'', ''subject'', ''digest''] = JStr demo_hash"
  "jat demo_allow [''spec'', ''constraints'', ''expiresAt''] = JStr (show_int 800)"
  using demo_start_ready by (simp_all add: demo_allow_def decision_record_def jget_Cons config_digest_def decision_expiry_def demo_ready_def
      demo_config_def seconds_def)

lemma demo_config_digest [simp]: "config_digest penv s = demo_hash"
  by (simp add: config_digest_def)

lemma demo_policy_time [simp]: "policy_time penv (JStr (show_int n)) = Inr n"
  by (simp add: policy_time_def)

lemma demo_planned_decisions: "pe_decisions demo_planned = [(''dec'', \<lparr>is_digest = demo_hash, is_consumed = False\<rparr>)]"
  "pe_plans demo_planned = [(''plan'', demo_hash)]" "pe_active demo_planned = []" "pe_ledgers demo_planned = []"
  by (simp_all add: demo_planned_def demo_start_fields)

lemma demo_current: "assert_decision_current penv demo_allow demo_plan 10 demo_planned = Inr ()"
  by (simp add: assert_decision_current_def demo_plan_valid demo_allow_fields demo_plan_fields demo_planned_decisions demo_allow_def [symmetric])
     (simp add: demo_allow_def)

definition demo_spent :: policy_engine where
  "demo_spent = demo_planned\<lparr>pe_decisions := [(''dec'', \<lparr>is_digest = demo_hash, is_consumed = True\<rparr>)]\<rparr>"

lemma demo_consumed: "consume_decision penv demo_allow demo_plan 10 demo_planned = (Inr (), demo_spent)"
  by (simp add: consume_decision_def Let_def demo_current demo_allow_fields demo_planned_decisions dict_set_def demo_spent_def)

theorem decision_single_use_witness:
  "fst (activate_plan penv demo_plan demo_allow 10 0 demo_spent) \<noteq> Inr ()"
  using decision_single_use [OF demo_planned_reachable demo_consumed rtranclp.rtrancl_refl refl] by blast

lemma demo_plan_ledger: "plan_ledger penv demo_plan 0 = Inr demo_ledger"
proof -
  have "maxInputBytes (plan_limits demo_plan) = 100"
    by (simp add: plan_limits_def demo_plan_budget demo_run_request_def jget_Cons)
  moreover have "the_int (jat (plan_input penv (JStr ''ref'') demo_artifact) [''byteLength'']) = 5"
    by (simp add: plan_input_def demo_artifact_def jget_Cons)
  ultimately show ?thesis by (simp add: plan_ledger_def new_ledger_def demo_plan_fields Let_def demo_ledger_def)
qed

lemma demo_activated: "activate_plan penv demo_plan demo_allow 10 0 demo_planned = (Inr (), demo_active)"
proof -
  have l: "activate_locked penv demo_plan 0 demo_spent = (Inr (), demo_active)"
    by (simp add: activate_locked_def demo_plan_fields demo_plan_ledger Let_def demo_spent_def demo_planned_decisions dict_keys_def dict_set_def
        demo_active_def)
  show ?thesis unfolding activate_plan_def
    by (simp add: bindA_def liftE_def demo_planned_ready demo_plan_valid demo_plan_fields demo_planned_decisions demo_consumed l)
qed

lemma demo_active_ready: "demo_ready demo_active"
  by (simp add: demo_active_def demo_planned_ready)

lemma demo_active_fields: "pe_active demo_active = [(''run'', demo_hash)]" "pe_decisions demo_active = [(''dec'', \<lparr>is_digest = demo_hash, is_consumed = True\<rparr>)]"
  "pe_ledgers demo_active = [(''run'', demo_ledger)]" "pe_plans demo_active = [(''plan'', demo_hash)]"
  by (simp_all add: demo_active_def demo_planned_decisions)

lemma demo_active_reachable: "policy_reachable penv demo_active"
proof -
  have "policy_step penv demo_planned demo_active"
    using policy_step.intros(3) [of penv demo_planned demo_plan demo_allow 10 0] by (simp add: demo_activated)
  then show ?thesis by (rule reach_step [OF demo_planned_reachable])
qed

theorem active_plan_authorized_witness:
  "\<exists>plan. digest_of penv plan = demo_hash \<and> consumed_for penv demo_active plan"
  using active_plan_authorized [OF demo_active_reachable _ rtranclp.rtrancl_refl, of "''run''" demo_hash]
  by (auto simp: demo_active_fields)

section \<open>Calls under the active plan\<close>

lemma demo_issue:
  assumes "map_of (pe_decisions s) (dq_id q) = None"
  shows "issue_decision penv now q s = (Inr (decision_record penv s now q),
    s\<lparr>pe_decisions := dict_set (dq_id q) \<lparr>is_digest = demo_hash, is_consumed = False\<rparr> (pe_decisions s)\<rparr>)"
  using assms by (simp add: issue_decision_def Let_def bindA_def liftE_def register_decision_def decision_fields returnA_def)

definition demo_read_request :: json where
  "demo_read_request = JObj [(''kind'', JStr ''ToolRequest''), (''metadata'', JObj [(''id'', JStr ''tool-1''), (''runId'', JStr ''run''),
     (''createdAt'', JStr (show_int 10))]), (''spec'', JObj [(''toolId'', JStr ''repository.read''), (''planDigest'', JStr demo_hash),
     (''arguments'', JObj [(''path'', JStr ''wiki/index.md'')])])]"

lemma demo_read_fields:
  "jat demo_read_request [''metadata'', ''runId''] = JStr ''run''" "jat demo_read_request [''metadata'', ''createdAt''] = JStr (show_int 10)"
  "jat demo_read_request [''spec'', ''toolId''] = JStr ''repository.read''" "jat demo_read_request [''spec'', ''planDigest''] = JStr demo_hash"
  "jat demo_read_request [''spec'', ''arguments''] = JObj [(''path'', JStr ''wiki/index.md'')]"
  "validate_runtime_record penv demo_read_request = Inr ()"
  unfolding demo_read_request_def by (simp_all add: jget_Cons) (rule penv_valid, simp add: jget_Cons, rule demo_kinds)

lemma demo_unprotected: "\<not> protected_repository_path penv ''wiki/index.md''"
  unfolding protected_repository_path_def penv_simps by code_simp

lemma demo_active_parts: "pe_entries demo_active = demo_entries" "pe_skew demo_active = 0" "pe_deployments demo_active = [(''dep'', demo_dep)]"
  "pe_observations demo_active = [(''dep'', demo_profile)]"
  using demo_active_ready by (simp_all add: demo_ready_def demo_config_def)

lemma demo_read_code: "tool_code penv demo_active True demo_plan demo_read_request 10 = Inr None"
proof -
  have "judge_binding penv demo_active True demo_plan demo_read_request False = Inr ()"
    by (simp add: judge_binding_def Let_def refuse_if_def demo_plan_fields demo_read_fields demo_active_fields)
  moreover have "jat demo_planned_tool [''id''] = JStr ''repository.read''" by (simp add: demo_planned_tool_def jget_Cons)
  moreover have "map_of demo_entries ''wiki/index.md'' = Some (demo_entry ''wiki/index.md'')" by (simp add: demo_entries_def)
  moreover have "jat (demo_entry p) [''dataClass''] = JStr ''D0''" for p by (simp add: demo_entry_def jget_Cons)
  ultimately show ?thesis
    by (simp add: tool_code_def call_times_def demo_read_fields demo_plan_fields verdict_code_def call_early_or_late_def demo_active_parts
        seconds_def judge_call_def Let_def refuse_if_def tool_argument_errors_def TOOL_ARGUMENT_TOOLS_def jget_Cons judge_read_def
        demo_unprotected present_def judge_data_def data_above_def indexed_def demo_levels)
qed

lemma demo_read: "\<exists>d t. authorize_tool penv demo_plan demo_read_request ''dec-2'' 10 True demo_active = (Inr d, t)
    \<and> jat d [''spec'', ''effect''] = JStr ''allow'' \<and> pe_entries t = demo_entries"
  unfolding authorize_tool_def verdict_request_def
  by (simp add: bindA_def liftE_def demo_active_ready demo_plan_valid demo_read_fields demo_read_code demo_plan_route demo_deadline
      demo_issue demo_active_fields decision_fields demo_active_parts)

theorem tool_allow_sound_witness:
  "\<exists>d t. authorize_tool penv demo_plan demo_read_request ''dec-2'' 10 True demo_active = (Inr d, t)
     \<and> read_admitted penv t demo_plan (JObj [(''path'', JStr ''wiki/index.md'')])"
proof -
  from demo_read obtain d t where r: "authorize_tool penv demo_plan demo_read_request ''dec-2'' 10 True demo_active = (Inr d, t)"
    "jat d [''spec'', ''effect''] = JStr ''allow''" by blast
  from tool_allow_sound [OF r] r(1) show ?thesis by (auto simp: demo_read_fields)
qed

section \<open>A model call\<close>

definition demo_endpoint :: json where
  "demo_endpoint = JObj [(''kind'', JStr ''EndpointBinding''), (''metadata'', JObj [(''deploymentId'', JStr ''dep''), (''resolvedAt'',
     JStr (show_int 5)), (''validUntil'', JStr (show_int 500))]), (''spec'', JObj [(''deploymentIdentityDigest'', JStr demo_hash),
     (''endpointReferenceDigest'', JStr demo_hash), (''adapter'', JStr ''ollama''), (''adapterVersion'', JStr ''1''), (''model'', JStr ''m''),
     (''transportProfile'', JStr ''local-loopback-http''), (''credentialMode'', JStr ''none'')])]"

definition demo_model_request :: json where
  "demo_model_request = JObj [(''kind'', JStr ''ModelRequest''), (''metadata'', JObj [(''id'', JStr ''model-1''), (''runId'', JStr ''run''),
     (''createdAt'', JStr (show_int 10))]), (''spec'', JObj [(''planDigest'', JStr demo_hash), (''deploymentId'', JStr ''dep''),
     (''deploymentIdentityDigest'', JStr demo_hash), (''endpointBindingDigest'', JStr demo_hash), (''input'', model_input penv demo_artifact),
     (''parameters'', JObj [(''maxOutputBytes'', JInt 10), (''maxOutputTokens'', JInt 10)]), (''timeoutMs'', JInt 1000)])]"

lemma demo_model_valid: "validate_runtime_record penv demo_model_request = Inr ()" "validate_runtime_record penv demo_endpoint = Inr ()"
  unfolding demo_model_request_def demo_endpoint_def by (rule penv_valid, simp add: jget_Cons, rule demo_kinds)+

lemma demo_model_fields:
  "jat demo_model_request [''kind''] = JStr ''ModelRequest''" "jat demo_model_request [''metadata'', ''runId''] = JStr ''run''"
  "jat demo_model_request [''metadata'', ''createdAt''] = JStr (show_int 10)" "jat demo_model_request [''spec'', ''planDigest''] = JStr demo_hash"
  "jat demo_endpoint [''kind''] = JStr ''EndpointBinding''" "jat demo_endpoint [''metadata'', ''resolvedAt''] = JStr (show_int 5)"
  "jat demo_endpoint [''metadata'', ''validUntil''] = JStr (show_int 500)"
  "jat demo_artifact [''kind''] = JStr ''ArtifactRecord''" "jat demo_artifact [''metadata'', ''runId''] = JStr ''run''"
  by (simp_all add: demo_model_request_def demo_endpoint_def demo_artifact_def jget_Cons)

lemma demo_logical_role: "logical_role demo_active (JStr ''writer'') = demo_role"
  using demo_active_ready by (simp add: logical_role_def demo_members jget_Cons demo_ready_def demo_config_def)

lemma demo_route_fields:
  "jat (jat demo_plan [''spec'', ''route'']) [''deploymentId''] = JStr ''dep''" "jat (jat demo_plan [''spec'', ''route'']) [''logicalRole''] = JStr ''writer''"
  "jat (jat demo_plan [''spec'', ''route'']) [''deploymentDigest''] = JStr demo_hash"
  "jat (jat demo_plan [''spec'', ''route'']) [''deploymentIdentityDigest''] = JStr demo_hash"
  "jat (jat demo_plan [''spec'', ''route'']) [''observedCapabilitiesDigest''] = JStr demo_hash"
  "jat (jat demo_plan [''spec'', ''route'']) [''brokerModelEgress'', ''allowed''] = JBool True"
  "jat (jat demo_plan [''spec'', ''route'']) [''brokerModelEgress'', ''endpointReferenceDigest''] = JStr demo_hash"
  "jat (jat demo_plan [''spec'', ''route'']) [''identity'', ''provider''] = JStr ''local''"
  "jat (jat (jat demo_plan [''spec'', ''route'']) [''identity'']) [''endpointReferenceDigest''] = JStr demo_hash"
  "jat (jat (jat demo_plan [''spec'', ''route'']) [''identity'']) [''adapter''] = JStr ''ollama''"
  "jat (jat (jat demo_plan [''spec'', ''route'']) [''identity'']) [''adapterVersion''] = JStr ''1''"
  "jat (jat (jat demo_plan [''spec'', ''route'']) [''identity'']) [''model''] = JStr ''m''"
  unfolding demo_plan_fields(9) plan_route_def Let_def
  by (simp_all add: jget_Cons demo_route_def demo_dep_def) (simp add: demo_run_request_def jget_Cons)

lemma demo_endpoint_fields:
  "jat demo_endpoint [''metadata'', ''deploymentId''] = JStr ''dep''" "jat (jat demo_endpoint [''spec'']) [''deploymentIdentityDigest''] = JStr demo_hash"
  "jat (jat demo_endpoint [''spec'']) [''endpointReferenceDigest''] = JStr demo_hash" "jat (jat demo_endpoint [''spec'']) [''adapter''] = JStr ''ollama''"
  "jat (jat demo_endpoint [''spec'']) [''adapterVersion''] = JStr ''1''" "jat (jat demo_endpoint [''spec'']) [''model''] = JStr ''m''"
  "jat (jat demo_endpoint [''spec'']) [''transportProfile''] = JStr ''local-loopback-http''"
  "jat (jat demo_endpoint [''spec'']) [''credentialMode''] = JStr ''none''"
  by (simp_all add: demo_endpoint_def jget_Cons)

lemma demo_request_fields:
  "jat (jat demo_model_request [''spec'']) [''deploymentId''] = JStr ''dep''"
  "jat (jat demo_model_request [''spec'']) [''deploymentIdentityDigest''] = JStr demo_hash"
  "jat (jat demo_model_request [''spec'']) [''endpointBindingDigest''] = JStr demo_hash"
  "jat demo_model_request [''spec'', ''input''] = model_input penv demo_artifact"
  "jat demo_model_request [''spec'', ''input'', ''artifactRecordDigest''] = JStr demo_hash"
  by (simp_all add: demo_model_request_def jget_Cons model_input_def Let_def)

lemma demo_plan_cost: "jat demo_plan [''spec'', ''budget'', ''maxCostMicrousd''] = JInt 0"
  by (simp add: demo_plan_budget) (simp add: demo_run_request_def jget_Cons)

lemma demo_judge_model: "judge_model penv demo_active True demo_plan demo_model_request demo_endpoint demo_artifact (Some [10, 10, 5, 500]) 10 = Inr ()"
proof -
  have 1: "judge_binding penv demo_active True demo_plan demo_model_request False = Inr ()"
    by (simp add: judge_binding_def Let_def refuse_if_def demo_plan_fields demo_model_fields demo_active_fields)
  have "is_obj demo_role" by (simp add: demo_role_def)
  then have 2: "judge_route penv demo_active demo_plan demo_model_request demo_endpoint = Inr ()"
    by (simp add: judge_route_def demo_route_fields Let_def present_def refuse_if_def demo_active_parts demo_logical_role demo_request_fields)
  have 3: "judge_endpoint demo_plan demo_endpoint (Some [10, 10, 5, 500]) 10 = Inr ()"
    by (simp add: judge_endpoint_def Let_def refuse_if_def demo_plan_cost demo_route_fields endpoint_wrong_def demo_endpoint_fields)
  have a: "jat (plan_input penv (JStr ''ref'') demo_artifact) [''artifactRecordDigest''] = JStr demo_hash"
    by (simp add: plan_input_def jget_Cons)
  have w: "\<not> input_wrong penv (plan_input penv (JStr ''ref'') demo_artifact) demo_model_request demo_artifact"
    by (simp add: input_wrong_def Let_def demo_request_fields json_eq_def plan_input_def jget_Cons) (simp add: demo_artifact_def jget_Cons)
  have role: "jat demo_plan [''spec'', ''route'', ''logicalRole''] = JStr ''writer''" "jat demo_role [''minimumArtifactTrust''] = JStr ''P1''"
    using jat_append [of demo_plan "[''spec'', ''route'']" "[''logicalRole'']"] by (simp_all add: demo_route_fields demo_role_def jget_Cons)
  have art: "jat (jat demo_artifact [''spec'']) [''role''] = JStr ''input''" "jat (jat demo_artifact [''spec'']) [''dataClass''] = JStr ''D0''"
    "jat (jat demo_artifact [''spec'']) [''trust''] = JStr ''P1''" by (simp_all add: demo_artifact_def jget_Cons)
  have 4: "judge_input penv demo_active demo_plan demo_model_request demo_artifact = Inr ()"
    by (simp add: judge_input_def Let_def refuse_if_def present_def demo_request_fields demo_plan_fields a w role demo_logical_role art
        judge_data_def data_above_def indexed_def demo_levels)
  have 5: "judge_parameters demo_plan demo_model_request = Inr ()"
    by (simp add: judge_parameters_def Let_def refuse_if_def demo_plan_budget) (simp add: demo_run_request_def demo_model_request_def jget_Cons)
  show ?thesis by (simp add: judge_model_def demo_model_fields demo_plan_fields 1 2 3 4 5)
qed

lemma demo_call: "\<exists>d t. authorize_model penv demo_plan demo_model_request demo_endpoint demo_artifact ''dec-3'' 10 True demo_active = (Inr d, t)
    \<and> jat d [''spec'', ''effect''] = JStr ''allow''"
proof -
  have t: "model_times penv demo_plan demo_model_request demo_endpoint = Inr (Some [10, 10, 5, 500])"
    by (simp add: model_times_def call_times_def demo_model_fields demo_plan_fields)
  have c: "model_code penv demo_active True demo_plan demo_model_request demo_endpoint demo_artifact (Some [10, 10, 5, 500]) 10 = Inr None"
    by (simp add: model_code_def verdict_code_def call_early_or_late_def demo_active_parts seconds_def demo_judge_model)
  have k: "model_kinds demo_plan demo_model_request demo_endpoint demo_artifact"
    by (simp add: model_kinds_def demo_plan_fields demo_model_fields)
  show ?thesis unfolding authorize_model_def verdict_request_def
    by (simp add: bindA_def liftE_def demo_active_ready demo_plan_valid demo_model_valid k t c model_expiry_def demo_plan_route demo_deadline
        demo_issue demo_active_fields decision_fields)
qed

theorem model_allow_sound_witness: "endpoint_local demo_plan demo_endpoint \<and> (\<exists>t. input_admitted penv t demo_plan demo_model_request demo_artifact)"
proof -
  from demo_call obtain d t where
    r: "authorize_model penv demo_plan demo_model_request demo_endpoint demo_artifact ''dec-3'' 10 True demo_active = (Inr d, t)"
    "jat d [''spec'', ''effect''] = JStr ''allow''" by blast
  from model_allow_sound [OF r] show ?thesis by blast
qed

section \<open>The no-model workflow\<close>

definition demo_check_request :: json where
  "demo_check_request = JObj [(''kind'', JStr ''NoModelRunRequest''), (''metadata'', JObj [(''id'', JStr ''req-2''), (''createdAt'', JStr (show_int 10))]),
     (''spec'', JObj [(''projectId'', JStr ''demo''), (''workflow'', JStr ''wiki-health-check'')])]"

lemma demo_check_fields:
  "jat demo_check_request [''metadata'', ''createdAt''] = JStr (show_int 10)" "jat demo_check_request [''spec'', ''projectId''] = JStr ''demo''"
  "jat demo_check_request [''spec'', ''workflow''] = JStr ''wiki-health-check''" "validate_runtime_record penv demo_check_request = Inr ()"
  unfolding demo_check_request_def by (simp_all add: jget_Cons) (rule penv_valid, simp add: jget_Cons, rule demo_kinds)

lemma no_model_plan_valid: "validate_runtime_record penv (no_model_plan penv s request run_id plan_id r p entries sl) = Inr ()"
  unfolding no_model_plan_def by (rule penv_valid, simp add: jget_Cons, rule demo_kinds)

lemma no_model_plan_id: "jat (no_model_plan e s request run_id plan_id r p entries sl) [''metadata'', ''id''] = JStr plan_id"
  by (simp add: no_model_plan_def jget_Cons)

lemma demo_scope: "no_model_scope penv demo_start ''wiki-health-check'' \<noteq> None"
proof -
  have e: "pe_entries demo_start = demo_entries" using demo_start_ready by (simp add: demo_ready_def)
  have "no_model_entry (jget demo_entries p)" if "p \<in> {''wiki/index.md'', ''wiki/architecture.md'', ''wiki/roadmap.md''}" for p
    using that by (auto simp: no_model_entry_def demo_entries_def demo_entry_def jget_Cons)
  then show ?thesis by (simp add: no_model_scope_def NO_MODEL_WORKFLOWS_def e Let_def dict_keys_def) (simp add: demo_entries_def)
qed

lemma demo_snapshot_deadline: "demo_ready s \<Longrightarrow> snapshot_deadline penv s = Inr 800"
  by (simp add: demo_ready_def demo_config_def snapshot_deadline_def demo_jat demo_prov_def seconds_def)

lemma demo_check: "\<exists>plan d t. plan_no_model_run penv demo_check_request ''run-2'' ''plan-2'' ''dec-4'' 10 demo_start = (Inr (Some plan, d), t)"
proof -
  obtain entries sl where sc: "no_model_scope penv demo_start ''wiki-health-check'' = Some (entries, sl)" using demo_scope by auto
  have st: "pe_snapshot demo_start = Some demo_snapshot" "pe_snapshot_provenance demo_start = Some (demo_prov ''snap-1'')"
    "pe_skew demo_start = 0" "pe_bundle demo_start = demo_bundle" using demo_start_ready by (simp_all add: demo_ready_def demo_config_def)
  have c: "no_model_checks penv demo_start demo_check_request = None"
    by (simp add: no_model_checks_def demo_check_fields demo_project st sc) (simp add: NO_MODEL_WORKFLOWS_def dict_keys_def)
  show ?thesis unfolding plan_no_model_run_def
    by (simp add: bindA_def liftE_def demo_start_ready demo_check_fields c Let_def sc st seconds_def no_model_plan_valid register_no_model_plan_def
        no_model_plan_id demo_start_fields grant_plan_def demo_snapshot_deadline demo_issue returnA_def)
qed

lemma no_model_plan_powerless_demo:
  "\<exists>plan d t. plan_no_model_run penv demo_check_request ''run-2'' ''plan-2'' ''dec-4'' 10 demo_start = (Inr (Some plan, d), t)
     \<and> jat plan [''spec'', ''budget'', ''maxModelRequests''] = JInt 0 \<and> no_model_binding_error penv t plan = None"
proof -
  from demo_check obtain plan d t where
    r: "plan_no_model_run penv demo_check_request ''run-2'' ''plan-2'' ''dec-4'' 10 demo_start = (Inr (Some plan, d), t)" by blast
  from no_model_plan_powerless [OF r] r show ?thesis by blast
qed

section \<open>Signed evidence\<close>

lemma evidence_sign_opens_demo:
  "open_evidence penv demo_trust (demo_text ''obs-1'' demo_profile) 800 0 = policy_error ''ECO_EVIDENCE_EXPIRED''"
  by (subst evidence_sign_opens [OF demo_evidence_signed(2) demo_trusted(1,2,4) _ demo_size(2)]) (simp_all add: penv_body demo_envelope_def)

end
