(* ===== verification/Eco_Store.thy ===== *)
theory Eco_Store
  imports Eco_Policy Eco_Run_Chain
begin

text \<open>
  The durable runtime store, \<open>SQLiteRuntimeStore\<close> of \<open>src/src/eco_runtime/store.py\<close>: its tables, immutable records,
  the audit chain, revisions of authority rows, decisions with nonces, and the generated run events with their replay.

  The database is a record of its tables; a table is the list of its rows by primary key in the order of insertion.
  Code inside a transaction is a \<open>tx\<close>: it returns a value and the new database, or raises, and then the transaction is
  rolled back. Random tokens and transaction ids are arguments, a capability is the identity of an opaque object, and a
  stored JSON text is the value it is the text of. \<open>sx_epoch\<close> is the integer that floating-point arithmetic makes of an
  instant in microseconds. The audit HMAC is applied to the text of the hash (the code decodes the hexadecimal text
  first). Uniqueness and check constraints that a caller can violate raise \<open>SqliteIntegrityError\<close>; those that cannot be
  violated because the key was just computed to be fresh are not repeated.
\<close>

section \<open>Transactions\<close>

type_synonym ('a, 's) tx = "'s \<Rightarrow> ('a \<times> 's) result"

definition returnT :: "'a \<Rightarrow> ('a, 's) tx" where
  "returnT x s = Inr (x, s)"

definition raiseT :: "py_error \<Rightarrow> ('a, 's) tx" where
  "raiseT err s = Inl err"

definition bindT :: "('a, 's) tx \<Rightarrow> ('a \<Rightarrow> ('b, 's) tx) \<Rightarrow> ('b, 's) tx" where
  "bindT m f s = (case m s of Inl err \<Rightarrow> Inl err | Inr (x, s') \<Rightarrow> f x s')"

definition liftT :: "'a result \<Rightarrow> ('a, 's) tx" where
  "liftT r s = (case r of Inl err \<Rightarrow> Inl err | Inr x \<Rightarrow> Inr (x, s))"

definition readT :: "('s \<Rightarrow> 'a) \<Rightarrow> ('a, 's) tx" where
  "readT f s = Inr (f s, s)"

definition writeT :: "('s \<Rightarrow> 's) \<Rightarrow> (unit, 's) tx" where
  "writeT f s = Inr ((), f s)"

abbreviation store_error :: "string \<Rightarrow> 'a result" where
  "store_error code \<equiv> Inl (RuntimeStoreError code)"

definition refuseT :: "bool \<Rightarrow> string \<Rightarrow> (unit, 's) tx" where
  "refuseT c code = (if c then raiseT (RuntimeStoreError code) else returnT ())"

definition neededT :: "'a option \<Rightarrow> string \<Rightarrow> ('a, 's) tx" where
  "neededT x code = (case x of None \<Rightarrow> raiseT (RuntimeStoreError code) | Some v \<Rightarrow> returnT v)"

definition constraintT :: "bool \<Rightarrow> (unit, 's) tx" where
  "constraintT c = (if c then returnT () else raiseT SqliteIntegrityError)"

fun eachT :: "('a \<Rightarrow> (unit, 's) tx) \<Rightarrow> 'a list \<Rightarrow> (unit, 's) tx" where
  "eachT f [] = returnT ()"
| "eachT f (x # xs) = bindT (f x) (\<lambda>_. eachT f xs)"

section \<open>Tables\<close>

record availability_proof =
  av_storage_ref :: string
  av_sha256 :: string
  av_byte_length :: int
  av_key_id :: string
  av_token :: string

record store_env = policy_env +
  sx_store_id :: string
  sx_key :: string
  sx_key_id :: string
  sx_path_key :: string
  sx_capabilities :: "(string \<times> nat) list"
  sx_issuers :: "(string \<times> string) list"
  sx_epoch :: "int \<Rightarrow> int"
  sx_artifacts :: "(availability_proof \<Rightarrow> unit result) option"

record record_row =
  rr_run_id :: json
  rr_kind :: string
  rr_digest :: string
  rr_record :: json
  rr_created_at :: string

record decision_row =
  dr_run_id :: string
  dr_digest :: string
  dr_subject_digest :: string
  dr_effect :: string
  dr_expires_at :: string
  dr_expires_us :: int
  dr_consumed_at :: "string option"
  dr_consumed_nonce :: "string option"

record nonce_row =
  nr_run_id :: string
  nr_subject_digest :: string
  nr_result_digest :: "string option"
  nr_created_at :: string

record audit_row =
  at_transaction :: string
  at_type :: string
  at_id :: string
  at_action :: string
  at_payload :: string
  at_previous :: string
  at_hash :: string
  at_tag :: string
  at_key_id :: string
  at_occurred :: string

record run_entry =
  ru_request_digest :: string
  ru_state :: run_state
  ru_plan_id :: "string option"
  ru_plan_digest :: "string option"
  ru_next :: int
  ru_head :: "string option"
  ru_started_at :: string
  ru_deadline_at :: "string option"
  ru_deadline_us :: "int option"
  ru_terminal_at :: "string option"
  ru_updated_at :: string
  ru_version :: int

datatype plan_status = PlanIssued | PlanActive | PlanTerminal

record plan_row =
  pn_run_id :: string
  pn_digest :: string
  pn_status :: plan_status
  pn_activated_at :: "string option"

record budget_row =
  bu_plan_digest :: string
  bu_limits :: budget_limits
  bu_deadline_at :: string
  bu_deadline_us :: int
  bu_tool_requests :: int
  bu_input_bytes :: int
  bu_reserved_input :: int
  bu_output_bytes :: int
  bu_model_requests :: int
  bu_total_tokens :: int
  bu_cost :: int
  bu_updated_at :: string

datatype read_state = ReadPrepared | ReadSucceeded | ReadFailed

record operation_row =
  or_run_id :: string
  or_idempotency :: string
  or_intent_digest :: string
  or_request_digest :: string
  or_decision_digest :: string
  or_state :: read_state
  or_owner :: "string option"
  or_epoch :: int
  or_token :: "string option"
  or_until_us :: "int option"
  or_receipt :: "string option"
  or_artifact :: "string option"
  or_error :: "string option"
  or_outcome :: "string option"
  or_created_at :: string
  or_updated_at :: string

datatype reservation_state = Reserved | Settled | Released

record reservation_row =
  rs_run_id :: string
  rs_plan_digest :: string
  rs_reserved :: int
  rs_actual :: "int option"
  rs_state :: reservation_state
  rs_created_at :: string
  rs_updated_at :: string

datatype model_state = ModelPrepared | ModelStarted | ModelSucceeded | ModelFailed | ModelAmbiguous

record model_row =
  mo_run_id :: string
  mo_idempotency :: string
  mo_request_digest :: string
  mo_plan_digest :: string
  mo_endpoint_digest :: string
  mo_input_digest :: string
  mo_decision_digest :: string
  mo_state :: model_state
  mo_started_at :: "string option"
  mo_resume_decision :: "string option"
  mo_final_decision :: "string option"
  mo_result_digest :: "string option"
  mo_output_digest :: "string option"
  mo_error_digest :: "string option"
  mo_created_at :: string
  mo_updated_at :: string

datatype charge_state = ChargeReserved | ChargeCommitted | ChargeUncertain

record charge_row =
  ch_run_id :: string
  ch_plan_digest :: string
  ch_output_bytes :: int
  ch_total_tokens :: int
  ch_cost :: int
  ch_actual_output :: "int option"
  ch_actual_tokens :: "int option"
  ch_charged_tokens :: "int option"
  ch_charged_cost :: "int option"
  ch_state :: charge_state
  ch_created_at :: string
  ch_updated_at :: string

record baseline_row =
  bl_projection :: json
  bl_digest :: string
  bl_occurred_at :: string
  bl_complete :: bool
  bl_source :: string

record event_entry =
  er_id :: string
  er_run_id :: string
  er_sequence :: int
  er_previous :: "string option"
  er_digest :: string
  er_type :: string
  er_outcome :: string
  er_producer :: string
  er_issuer :: string
  er_subject_id :: json
  er_subject_digest :: json
  er_result_digest :: json
  er_occurred_at :: string

record checkpoint_row =
  cp_id :: string
  cp_digest :: string
  cp_version :: int

record revision_row =
  rv_type :: string
  rv_id :: string
  rv_revision :: int
  rv_digest :: string
  rv_sequence :: int
  rv_occurred :: string

record rstore =
  t_records :: "(string \<times> record_row) list"
  t_decisions :: "(string \<times> decision_row) list"
  t_nonces :: "(string \<times> nonce_row) list"
  t_audit :: "audit_row list"
  t_runs :: "(string \<times> run_entry) list"
  t_plans :: "(string \<times> plan_row) list"
  t_budgets :: "(string \<times> budget_row) list"
  t_operations :: "(string \<times> operation_row) list"
  t_reservations :: "(string \<times> reservation_row) list"
  t_models :: "(string \<times> model_row) list"
  t_charges :: "(string \<times> charge_row) list"
  t_baselines :: "(string \<times> baseline_row) list"
  t_events :: "event_entry list"
  t_checkpoints :: "(string \<times> checkpoint_row) list"
  t_revisions :: "revision_row list"

type_synonym 'a stx = "('a, rstore) tx"

definition empty_store :: rstore where
  "empty_store = \<lparr>t_records = [], t_decisions = [], t_nonces = [], t_audit = [], t_runs = [], t_plans = [], t_budgets = [],
     t_operations = [], t_reservations = [], t_models = [], t_charges = [], t_baselines = [], t_events = [],
     t_checkpoints = [], t_revisions = []\<rparr>"

section \<open>Rows as JSON\<close>

definition json_int :: "int option \<Rightarrow> json" where
  "json_int x = (case x of None \<Rightarrow> JNull | Some n \<Rightarrow> JInt n)"

fun run_state_text :: "run_state \<Rightarrow> string" where
  "run_state_text NEW = ''NEW''" | "run_state_text RECEIVED = ''RECEIVED''" | "run_state_text VALIDATED = ''VALIDATED''"
| "run_state_text PLANNED = ''PLANNED''" | "run_state_text AUTHORIZED = ''AUTHORIZED''" | "run_state_text RUNNING = ''RUNNING''"
| "run_state_text SUCCEEDED = ''SUCCEEDED''" | "run_state_text FAILED = ''FAILED''" | "run_state_text DENIED = ''DENIED''"
| "run_state_text CANCELLED = ''CANCELLED''" | "run_state_text EXHAUSTED = ''EXHAUSTED''"

definition run_row_json :: "string \<Rightarrow> run_entry \<Rightarrow> json" where
  "run_row_json i r = JObj [(''run_id'', JStr i), (''request_digest'', JStr (ru_request_digest r)), (''state'', JStr (run_state_text (ru_state r))),
     (''active_plan_id'', json_opt (ru_plan_id r)), (''active_plan_digest'', json_opt (ru_plan_digest r)),
     (''next_event_sequence'', JInt (ru_next r)), (''event_head_digest'', json_opt (ru_head r)), (''started_at'', JStr (ru_started_at r)),
     (''deadline_at'', json_opt (ru_deadline_at r)), (''deadline_epoch_us'', json_int (ru_deadline_us r)),
     (''terminal_at'', json_opt (ru_terminal_at r)), (''updated_at'', JStr (ru_updated_at r)), (''version'', JInt (ru_version r))]"

fun plan_status_text :: "plan_status \<Rightarrow> string" where
  "plan_status_text PlanIssued = ''issued''" | "plan_status_text PlanActive = ''active''" | "plan_status_text PlanTerminal = ''terminal''"

definition plan_json :: "string \<Rightarrow> plan_row \<Rightarrow> json" where
  "plan_json i r = JObj [(''plan_id'', JStr i), (''run_id'', JStr (pn_run_id r)), (''plan_digest'', JStr (pn_digest r)),
     (''status'', JStr (plan_status_text (pn_status r))), (''activated_at'', json_opt (pn_activated_at r))]"

definition budget_json :: "string \<Rightarrow> budget_row \<Rightarrow> json" where
  "budget_json i r = (let l = bu_limits r in JObj [(''run_id'', JStr i), (''plan_digest'', JStr (bu_plan_digest r)),
     (''max_duration_seconds'', JInt (maxDurationSeconds l)), (''max_model_requests'', JInt (maxModelRequests l)),
     (''max_tool_requests'', JInt (maxToolRequests l)), (''max_input_bytes'', JInt (maxInputBytes l)),
     (''max_output_bytes'', JInt (maxOutputBytes l)), (''max_total_tokens'', JInt (maxTotalTokens l)),
     (''max_cost_microusd'', JInt (maxCostMicrousd l)), (''deadline_at'', JStr (bu_deadline_at r)),
     (''deadline_epoch_us'', JInt (bu_deadline_us r)), (''tool_requests'', JInt (bu_tool_requests r)),
     (''input_bytes'', JInt (bu_input_bytes r)), (''reserved_input_bytes'', JInt (bu_reserved_input r)),
     (''output_bytes'', JInt (bu_output_bytes r)), (''model_requests'', JInt (bu_model_requests r)),
     (''total_tokens'', JInt (bu_total_tokens r)), (''cost_microusd'', JInt (bu_cost r)), (''updated_at'', JStr (bu_updated_at r))])"

fun read_state_text :: "read_state \<Rightarrow> string" where
  "read_state_text ReadPrepared = ''prepared''" | "read_state_text ReadSucceeded = ''succeeded''" | "read_state_text ReadFailed = ''failed''"

definition read_row_json :: "string \<Rightarrow> operation_row \<Rightarrow> json" where
  "read_row_json i r = JObj [(''operation_id'', JStr i), (''run_id'', JStr (or_run_id r)),
     (''idempotency_key_digest'', JStr (or_idempotency r)), (''intent_digest'', JStr (or_intent_digest r)),
     (''tool_request_digest'', JStr (or_request_digest r)), (''allow_decision_digest'', JStr (or_decision_digest r)),
     (''state'', JStr (read_state_text (or_state r))), (''recovery_mode'', JStr ''no_retry''), (''lease_owner_id'', json_opt (or_owner r)),
     (''lease_epoch'', JInt (or_epoch r)), (''lease_token_digest'', json_opt (or_token r)), (''lease_until_epoch_us'', json_int (or_until_us r)),
     (''receipt_digest'', json_opt (or_receipt r)), (''artifact_record_digest'', json_opt (or_artifact r)),
     (''error_record_digest'', json_opt (or_error r)), (''outcome_digest'', json_opt (or_outcome r)),
     (''created_at'', JStr (or_created_at r)), (''updated_at'', JStr (or_updated_at r))]"

fun reservation_text :: "reservation_state \<Rightarrow> string" where
  "reservation_text Reserved = ''reserved''" | "reservation_text Settled = ''committed''" | "reservation_text Released = ''released''"

definition reservation_json :: "string \<Rightarrow> reservation_row \<Rightarrow> json" where
  "reservation_json i r = JObj [(''operation_id'', JStr i), (''run_id'', JStr (rs_run_id r)), (''plan_digest'', JStr (rs_plan_digest r)),
     (''reserved_input_bytes'', JInt (rs_reserved r)), (''actual_input_bytes'', json_int (rs_actual r)),
     (''state'', JStr (reservation_text (rs_state r))), (''created_at'', JStr (rs_created_at r)), (''updated_at'', JStr (rs_updated_at r))]"

fun model_state_text :: "model_state \<Rightarrow> string" where
  "model_state_text ModelPrepared = ''prepared''" | "model_state_text ModelStarted = ''started''"
| "model_state_text ModelSucceeded = ''succeeded''" | "model_state_text ModelFailed = ''failed''"
| "model_state_text ModelAmbiguous = ''ambiguous''"

definition model_json :: "string \<Rightarrow> model_row \<Rightarrow> json" where
  "model_json i r = JObj [(''request_id'', JStr i), (''run_id'', JStr (mo_run_id r)), (''idempotency_key_digest'', JStr (mo_idempotency r)),
     (''request_digest'', JStr (mo_request_digest r)), (''plan_digest'', JStr (mo_plan_digest r)),
     (''endpoint_binding_digest'', JStr (mo_endpoint_digest r)), (''input_artifact_record_digest'', JStr (mo_input_digest r)),
     (''allow_decision_digest'', JStr (mo_decision_digest r)), (''state'', JStr (model_state_text (mo_state r))),
     (''recovery_mode'', JStr ''no_retry''), (''started_at'', json_opt (mo_started_at r)),
     (''resume_decision_digest'', json_opt (mo_resume_decision r)), (''finalization_decision_digest'', json_opt (mo_final_decision r)),
     (''model_result_digest'', json_opt (mo_result_digest r)), (''output_artifact_record_digest'', json_opt (mo_output_digest r)),
     (''error_record_digest'', json_opt (mo_error_digest r)), (''created_at'', JStr (mo_created_at r)), (''updated_at'', JStr (mo_updated_at r))]"

fun charge_text :: "charge_state \<Rightarrow> string" where
  "charge_text ChargeReserved = ''reserved''" | "charge_text ChargeCommitted = ''committed''" | "charge_text ChargeUncertain = ''uncertain''"

definition charge_json :: "string \<Rightarrow> charge_row \<Rightarrow> json" where
  "charge_json i r = JObj [(''request_id'', JStr i), (''run_id'', JStr (ch_run_id r)), (''plan_digest'', JStr (ch_plan_digest r)),
     (''reserved_output_bytes'', JInt (ch_output_bytes r)), (''reserved_total_tokens'', JInt (ch_total_tokens r)),
     (''reserved_cost_microusd'', JInt (ch_cost r)), (''actual_output_bytes'', json_int (ch_actual_output r)),
     (''actual_total_tokens'', json_int (ch_actual_tokens r)), (''charged_total_tokens'', json_int (ch_charged_tokens r)),
     (''charged_cost_microusd'', json_int (ch_charged_cost r)), (''state'', JStr (charge_text (ch_state r))),
     (''created_at'', JStr (ch_created_at r)), (''updated_at'', JStr (ch_updated_at r))]"

definition baseline_json :: "string \<Rightarrow> baseline_row \<Rightarrow> json" where
  "baseline_json i r = JObj [(''run_id'', JStr i), (''projection_json'', JStr (canonical_json (bl_projection r))),
     (''projection_digest'', JStr (bl_digest r)), (''next_sequence'', JInt 1), (''head_digest'', JNull),
     (''last_occurred_at'', JStr (bl_occurred_at r)), (''history_complete'', JInt (if bl_complete r then 1 else 0)),
     (''source'', JStr (bl_source r))]"

definition checkpoint_json :: "string \<Rightarrow> checkpoint_row \<Rightarrow> json" where
  "checkpoint_json i r = JObj [(''run_id'', JStr i), (''checkpoint_id'', JStr (cp_id r)), (''checkpoint_digest'', JStr (cp_digest r)),
     (''run_version'', JInt (cp_version r))]"

text \<open>The row of an authority entity: the table is chosen by the type of the entity.\<close>

definition authority_row :: "string \<Rightarrow> string \<Rightarrow> rstore \<Rightarrow> json option" where
  "authority_row t i s =
     (if t = ''run'' then map_option (run_row_json i) (map_of (t_runs s) i)
      else if t = ''plan'' then map_option (plan_json i) (map_of (t_plans s) i)
      else if t = ''budget'' then map_option (budget_json i) (map_of (t_budgets s) i)
      else if t = ''operation'' then map_option (read_row_json i) (map_of (t_operations s) i)
      else if t = ''reservation'' then map_option (reservation_json i) (map_of (t_reservations s) i)
      else if t = ''event-baseline'' then map_option (baseline_json i) (map_of (t_baselines s) i)
      else if t = ''checkpoint'' then map_option (checkpoint_json i) (map_of (t_checkpoints s) i)
      else if t = ''model-operation'' then map_option (model_json i) (map_of (t_models s) i)
      else if t = ''model-reservation'' then map_option (charge_json i) (map_of (t_charges s) i)
      else None)"

section \<open>Records, audit and revisions\<close>

definition SAFE_JOURNAL_KINDS :: "string set" where
  "SAFE_JOURNAL_KINDS = {''RunRequest'', ''RunPlan'', ''PolicyDecision'', ''RunEvent'', ''ArtifactRecord'', ''ErrorRecord'',
     ''AdapterConformanceProfile'', ''ToolExecutionIntent'', ''RepositoryReadReceipt'', ''ToolExecutionOutcome'', ''RunCheckpoint'',
     ''EndpointBinding'', ''ModelRequest'', ''ModelResult''}"

definition AUTHORITY_MANAGED_KINDS :: "string set" where
  "AUTHORITY_MANAGED_KINDS = {''RunPlan'', ''PolicyDecision'', ''ToolExecutionIntent'', ''RepositoryReadReceipt'',
     ''ToolExecutionOutcome'', ''RunEvent'', ''ArtifactRecord'', ''ErrorRecord'', ''RunCheckpoint'', ''EndpointBinding'',
     ''ModelRequest'', ''ModelResult''}"

definition AUDIT_GENESIS :: string where
  "AUDIT_GENESIS = replicate 64 CHR ''0''"

text \<open>\<open>try: validate_record(...)\<close> whose handler raises a store error.\<close>

definition stored_valid :: "store_env \<Rightarrow> json list \<Rightarrow> unit result" where
  "stored_valid e rs =
     (case check_all (validate_runtime_record e) rs of
        Inl ContractValidationError \<Rightarrow> store_error ''ECO_STORE_RECORD_INVALID''
      | r \<Rightarrow> r)"

text \<open>\<open>_parse\<close>: a value that is no string has no \<open>endswith\<close>.\<close>

definition store_time :: "'a clock_env_scheme \<Rightarrow> json \<Rightarrow> int result" where
  "store_time e v =
     (case v of JStr x \<Rightarrow> (case ce_read e x of None \<Rightarrow> store_error ''ECO_TIME_INVALID'' | Some t \<Rightarrow> Inr t) | _ \<Rightarrow> Inl PyAttributeError)"

definition record_created :: "obj \<Rightarrow> json" where
  "record_created m =
     (case filter (\<lambda>k. k \<in> dict_keys m) [''createdAt'', ''testedAt'', ''resolvedAt'', ''occurredAt''] of [] \<Rightarrow> JNull | k # _ \<Rightarrow> jget m k)"

definition record_identity :: "json \<Rightarrow> (string \<times> json \<times> string) result" where
  "record_identity r =
     (let m = the_obj (jat r [''metadata'']) in
      case record_created m of
        JStr x \<Rightarrow> Inr (the_str (jget m ''id''), jget m ''runId'', x)
      | _ \<Rightarrow> store_error ''ECO_STORE_RECORD_INVALID'')"

definition insert_record :: "store_env \<Rightarrow> json \<Rightarrow> (string \<times> bool) stx" where
  "insert_record e r s =
     bindE (stored_valid e [r]) (\<lambda>_.
     if the_str (jat r [''kind'']) \<notin> SAFE_JOURNAL_KINDS then store_error ''ECO_STORE_RECORD_UNSAFE''
     else bindE (record_identity r) (\<lambda>(i, run, created).
       let digest = digest_of e r in
       case map_of (t_records s) i of
         Some old \<Rightarrow> if rr_digest old \<noteq> digest then store_error ''ECO_STORE_ID_CONFLICT'' else Inr ((digest, False), s)
       | None \<Rightarrow>
           if digest \<in> rr_digest ` snd ` set (t_records s) then Inl SqliteIntegrityError
           else Inr ((digest, True), s\<lparr>t_records := t_records s @ [(i, \<lparr>rr_run_id = run, rr_kind = the_str (jat r [''kind'']),
             rr_digest = digest, rr_record = r, rr_created_at = created\<rparr>)]\<rparr>)))"

definition store_audit_head :: "audit_row list \<Rightarrow> string" where
  "store_audit_head rows = (case rev rows of [] \<Rightarrow> AUDIT_GENESIS | r # _ \<Rightarrow> at_hash r)"

definition store_audit_payload :: "store_env \<Rightarrow> int \<Rightarrow> string \<Rightarrow> string \<Rightarrow> string \<Rightarrow> string \<Rightarrow> string \<Rightarrow> string \<Rightarrow> string \<Rightarrow> json" where
  "store_audit_payload e n tx t i action payload previous at = JObj [(''domain'', JStr ''eco-audit-v1''), (''storeId'', JStr (sx_store_id e)),
     (''sequence'', JInt n), (''transactionId'', JStr tx), (''recordType'', JStr t), (''recordId'', JStr i), (''action'', JStr action),
     (''payloadDigest'', JStr payload), (''previousEntryHash'', JStr previous), (''occurredAt'', JStr at)]"

definition append_audit :: "store_env \<Rightarrow> string \<Rightarrow> string \<Rightarrow> string \<Rightarrow> string \<Rightarrow> string \<Rightarrow> string \<Rightarrow> int stx" where
  "append_audit e tx t i action payload at s =
     (let previous = store_audit_head (t_audit s); n = int (length (t_audit s)) + 1;
          hash = digest_of e (store_audit_payload e n tx t i action payload previous at) in
      if hash \<in> at_hash ` set (t_audit s) then Inl SqliteIntegrityError
      else Inr (n, s\<lparr>t_audit := t_audit s @ [\<lparr>at_transaction = tx, at_type = t, at_id = i, at_action = action, at_payload = payload,
        at_previous = previous, at_hash = hash, at_tag = ce_hmac e (sx_key e) hash, at_key_id = sx_key_id e, at_occurred = at\<rparr>]\<rparr>))"

definition authority_digest :: "store_env \<Rightarrow> string \<Rightarrow> string \<Rightarrow> json \<Rightarrow> string" where
  "authority_digest e t i row = digest_of e (JObj [(''domain'', JStr ''eco-authority-state-v1''), (''entityType'', JStr t),
     (''entityId'', JStr i), (''state'', row)])"

definition entity_revisions :: "string \<Rightarrow> string \<Rightarrow> rstore \<Rightarrow> revision_row list" where
  "entity_revisions t i s = filter (\<lambda>r. rv_type r = t \<and> rv_id r = i) (t_revisions s)"

definition next_revision :: "revision_row list \<Rightarrow> int" where
  "next_revision rs = foldr max (map rv_revision rs) 0 + 1"

definition record_revision :: "store_env \<Rightarrow> string \<Rightarrow> string \<Rightarrow> string \<Rightarrow> string \<Rightarrow> unit stx" where
  "record_revision e tx at t i s =
     (case authority_row t i s of
        None \<Rightarrow> store_error ''ECO_STORE_INTERNAL''
      | Some row \<Rightarrow>
          (let digest = authority_digest e t i row; n = next_revision (entity_revisions t i s) in
           bindT (append_audit e tx t i ''authority-state'' digest at) (\<lambda>sequence.
             writeT (\<lambda>s. s\<lparr>t_revisions := t_revisions s @ [\<lparr>rv_type = t, rv_id = i, rv_revision = n, rv_digest = digest,
               rv_sequence = sequence, rv_occurred = at\<rparr>]\<rparr>)) s))"

definition record_revisions :: "store_env \<Rightarrow> string \<Rightarrow> string \<Rightarrow> (string \<times> string) list \<Rightarrow> unit stx" where
  "record_revisions e tx at = eachT (\<lambda>(t, i). record_revision e tx at t i)"

text \<open>\<open>_record_if_new_tx\<close> and \<open>_record_result_tx\<close>.\<close>

definition record_if_new :: "store_env \<Rightarrow> string \<Rightarrow> json \<Rightarrow> string stx" where
  "record_if_new e tx r =
     bindT (insert_record e r) (\<lambda>(digest, inserted).
     if inserted then bindT (liftT (record_identity r)) (\<lambda>(i, run, at).
       bindT (append_audit e tx (the_str (jat r [''kind''])) i ''recorded'' digest at) (\<lambda>_. returnT digest))
     else returnT digest)"

text \<open>\<open>_insert_record\<close>, which must be the first of its id, and its audit entry.\<close>

definition record_fresh :: "store_env \<Rightarrow> string \<Rightarrow> json \<Rightarrow> string \<Rightarrow> string \<Rightarrow> string stx" where
  "record_fresh e tx r at code =
     bindT (insert_record e r) (\<lambda>(digest, inserted).
     bindT (refuseT (\<not> inserted) code) (\<lambda>_.
     bindT (append_audit e tx (the_str (jat r [''kind''])) (the_str (jat r [''metadata'', ''id''])) ''recorded'' digest at) (\<lambda>_. returnT digest)))"

definition record_result :: "store_env \<Rightarrow> string \<Rightarrow> json \<Rightarrow> string stx" where
  "record_result e tx r = record_fresh e tx r (the_str (jat r [''metadata'', ''createdAt''])) ''ECO_OPERATION_CONFLICT''"

definition load_record :: "string \<Rightarrow> json stx" where
  "load_record i = bindT (readT t_records) (\<lambda>rs. bindT (neededT (map_of rs i) ''ECO_STORE_INTERNAL'') (\<lambda>row. returnT (rr_record row)))"

text \<open>A record by its digest.\<close>

definition record_by_digest :: "string \<Rightarrow> rstore \<Rightarrow> record_row option" where
  "record_by_digest digest s = map_option snd (find (\<lambda>(i, r). rr_digest r = digest) (t_records s))"

section \<open>Decisions and nonces\<close>

definition capability_wrong :: "store_env \<Rightarrow> string \<Rightarrow> nat \<Rightarrow> bool" where
  "capability_wrong e producer cap \<longleftrightarrow> map_of (sx_capabilities e) producer \<noteq> Some cap"

definition require_policy :: "store_env \<Rightarrow> nat \<Rightarrow> unit result" where
  "require_policy e cap = (if capability_wrong e ''policy'' cap then store_error ''ECO_POLICY_ISSUER_UNTRUSTED'' else Inr ())"

definition require_broker :: "store_env \<Rightarrow> nat \<Rightarrow> unit result" where
  "require_broker e cap = (if capability_wrong e ''broker'' cap then store_error ''ECO_BROKER_ISSUER_UNTRUSTED'' else Inr ())"

definition require_runtime :: "store_env \<Rightarrow> nat \<Rightarrow> unit result" where
  "require_runtime e cap = (if capability_wrong e ''runtime'' cap then store_error ''ECO_RUNTIME_ISSUER_UNTRUSTED'' else Inr ())"

definition require_adapter :: "store_env \<Rightarrow> nat \<Rightarrow> unit result" where
  "require_adapter e cap = (if capability_wrong e ''adapter'' cap then store_error ''ECO_ADAPTER_ISSUER_UNTRUSTED'' else Inr ())"

definition require_owner_id :: "string \<Rightarrow> unit result" where
  "require_owner_id i = (if safe_identifier i then Inr () else Inl PyValueError)"

definition require_decision_profile :: "store_env \<Rightarrow> json \<Rightarrow> json \<Rightarrow> unit result" where
  "require_decision_profile e d config =
     (if \<not> json_eq (jat d [''spec'', ''policySnapshot'']) (JObj [(''apiVersion'', JStr ''ai.ecosystem/v1alpha1''), (''semanticConfigDigest'', config),
         (''digestProfile'', JStr ''eco-python-json-v1''), (''contractProfile'', JStr ''runtime-contracts-v1alpha1''),
         (''schemaBundleDigest'', JStr (px_schema_bundle e)), (''policyEngineVersion'', JStr ''0.2.0'')])
      then store_error ''ECO_POLICY_PROVENANCE_MISMATCH'' else Inr ())"

definition require_plan_profile :: "store_env \<Rightarrow> json \<Rightarrow> unit result" where
  "require_plan_profile e plan =
     (let p = jat plan [''spec'', ''project''] in
      if jat p [''digestProfile''] \<noteq> JStr ''eco-python-json-v1'' \<or> jat p [''contractProfile''] \<noteq> JStr ''runtime-contracts-v1alpha1''
         \<or> jat p [''schemaBundleDigest''] \<noteq> JStr (px_schema_bundle e) \<or> jat p [''policyEngineVersion''] \<noteq> JStr ''0.2.0''
      then store_error ''ECO_PLAN_PROFILE_MISMATCH'' else Inr ())"

definition decision_row_of :: "store_env \<Rightarrow> json \<Rightarrow> json \<Rightarrow> string \<Rightarrow> int \<Rightarrow> decision_row" where
  "decision_row_of e d run digest expires = \<lparr>dr_run_id = the_str run, dr_digest = digest,
     dr_subject_digest = the_str (jat d [''spec'', ''subject'', ''digest'']), dr_effect = the_str (jat d [''spec'', ''effect'']),
     dr_expires_at = the_str (jat d [''spec'', ''constraints'', ''expiresAt'']), dr_expires_us = sx_epoch e expires,
     dr_consumed_at = None, dr_consumed_nonce = None\<rparr>"

text \<open>The columns of a decision are \<open>NOT NULL\<close> texts.\<close>

definition insert_decision :: "store_env \<Rightarrow> json \<Rightarrow> string \<Rightarrow> json \<Rightarrow> string \<Rightarrow> unit stx" where
  "insert_decision e d i run digest s =
     (case map_of (t_decisions s) i of
        Some old \<Rightarrow> if dr_digest old \<noteq> digest then store_error ''ECO_STORE_ID_CONFLICT'' else Inr ((), s)
      | None \<Rightarrow>
          bindE (store_time e (jat d [''spec'', ''constraints'', ''expiresAt''])) (\<lambda>expires.
          let row = decision_row_of e d run digest expires in
          if digest \<in> dr_digest ` snd ` set (t_decisions s) \<or> dr_effect row \<notin> {''allow'', ''deny''} \<or> JStr (dr_effect row) \<noteq> jat d [''spec'', ''effect'']
             \<or> JStr (dr_run_id row) \<noteq> run \<or> JStr (dr_subject_digest row) \<noteq> jat d [''spec'', ''subject'', ''digest''] then Inl SqliteIntegrityError
          else Inr ((), s\<lparr>t_decisions := t_decisions s @ [(i, row)]\<rparr>)))"

definition issue_decision_tx :: "store_env \<Rightarrow> string \<Rightarrow> json \<Rightarrow> string stx" where
  "issue_decision_tx e tx d =
     bindT (liftT (record_identity d)) (\<lambda>(i, run, at).
     bindT (insert_record e d) (\<lambda>(digest, inserted).
     bindT (insert_decision e d i run digest) (\<lambda>_.
     if inserted then bindT (append_audit e tx ''PolicyDecision'' i ''issued'' digest at) (\<lambda>_. returnT digest)
     else returnT digest)))"

text \<open>The update of a decision row, guarded by its \<open>WHERE\<close> clause.\<close>

definition spend_decision :: "string \<Rightarrow> string \<Rightarrow> string \<Rightarrow> string \<Rightarrow> int \<Rightarrow> unit stx" where
  "spend_decision i digest nonce at now_us s =
     (case map_of (t_decisions s) i of
        None \<Rightarrow> store_error ''ECO_DECISION_REPLAYED''
      | Some r \<Rightarrow>
          if dr_digest r \<noteq> digest \<or> dr_consumed_at r \<noteq> None \<or> dr_expires_us r \<le> now_us then store_error ''ECO_DECISION_REPLAYED''
          else if Some nonce \<in> dr_consumed_nonce ` snd ` set (t_decisions s) then Inl SqliteIntegrityError
          else Inr ((), s\<lparr>t_decisions := dict_set i (r\<lparr>dr_consumed_at := Some at, dr_consumed_nonce := Some nonce\<rparr>) (t_decisions s)\<rparr>))"

definition consume_fresh :: "store_env \<Rightarrow> string \<Rightarrow> json \<Rightarrow> string \<Rightarrow> string \<Rightarrow> int \<Rightarrow> bool stx" where
  "consume_fresh e tx d subject nonce now =
     (let i = the_str (jat d [''metadata'', ''id'']); digest = digest_of e d; at = ce_iso e now in
      bindT (spend_decision i digest nonce at (sx_epoch e now)) (\<lambda>_.
      bindT (writeT (\<lambda>s. s\<lparr>t_nonces := t_nonces s @ [(nonce, \<lparr>nr_run_id = the_str (jat d [''metadata'', ''runId'']), nr_subject_digest = subject,
        nr_result_digest = None, nr_created_at = at\<rparr>)]\<rparr>)) (\<lambda>_.
      bindT (append_audit e tx ''PolicyDecision'' i ''consumed'' digest at) (\<lambda>_. returnT True))))"

definition consume_decision_tx :: "store_env \<Rightarrow> string \<Rightarrow> json \<Rightarrow> string \<Rightarrow> string \<Rightarrow> int \<Rightarrow> bool stx" where
  "consume_decision_tx e tx d subject nonce now s =
     (case map_of (t_decisions s) (the_str (jat d [''metadata'', ''id''])) of
        None \<Rightarrow> store_error ''ECO_DECISION_UNTRUSTED''
      | Some r \<Rightarrow>
          if dr_digest r \<noteq> digest_of e d then store_error ''ECO_DECISION_UNTRUSTED''
          else if dr_expires_us r \<le> sx_epoch e now then store_error ''ECO_DECISION_EXPIRED''
          else case map_of (t_nonces s) nonce of
            Some n \<Rightarrow>
              if nr_run_id n = the_str (jat d [''metadata'', ''runId'']) \<and> nr_subject_digest n = subject \<and> dr_consumed_nonce r = Some nonce
              then Inr (False, s) else store_error ''ECO_NONCE_CONFLICT''
          | None \<Rightarrow> consume_fresh e tx d subject nonce now s)"

definition set_nonce_result :: "string \<Rightarrow> string \<Rightarrow> unit stx" where
  "set_nonce_result nonce digest = writeT (\<lambda>s. case map_of (t_nonces s) nonce of None \<Rightarrow> s
     | Some n \<Rightarrow> s\<lparr>t_nonces := dict_set nonce (n\<lparr>nr_result_digest := Some digest\<rparr>) (t_nonces s)\<rparr>)"

section \<open>Events\<close>

fun tool_phase_text :: "tool_phase \<Rightarrow> string" where
  "tool_phase_text Requested = ''requested''" | "tool_phase_text Allowed = ''allowed''" | "tool_phase_text Started = ''started''"
| "tool_phase_text Denied = ''denied''" | "tool_phase_text Failed = ''failed''" | "tool_phase_text Completed = ''completed''"
| "tool_phase_text Cancelled = ''cancelled''"

definition projection_payload :: "projection \<Rightarrow> json" where
  "projection_payload p = JObj [(''state'', JStr (run_state_text (state p))),
     (''toolStates'', JList (map (\<lambda>(i, ph, d). JList [JStr i, JStr (tool_phase_text ph), JStr d]) (tool_states p))),
     (''adapterCompleted'', JBool (adapter_completed p)), (''adapterFailed'', JBool (adapter_failed p)),
     (''budgetExhausted'', JBool (budget_exhausted p))]"

definition planned_projection :: projection where
  "planned_projection = initial\<lparr>state := PLANNED\<rparr>"

definition run_states :: "(json \<times> run_state) list" where
  "run_states = map (\<lambda>st. (JStr (run_state_text st), st)) [NEW, RECEIVED, VALIDATED, PLANNED, AUTHORIZED, RUNNING, SUCCEEDED, FAILED, DENIED,
     CANCELLED, EXHAUSTED]"

definition tool_phases :: "(string \<times> tool_phase) list" where
  "tool_phases = map (\<lambda>ph. (tool_phase_text ph, ph)) [Requested, Allowed, Started, Denied, Failed, Completed, Cancelled]"

fun payload_tools :: "json list \<Rightarrow> (string \<times> tool_phase \<times> string) list option" where
  "payload_tools [] = Some []"
| "payload_tools (JList [JStr i, JStr ph, JStr d] # vs) =
     (case (map_of tool_phases ph, payload_tools vs) of (Some x, Some xs) \<Rightarrow> Some ((i, x, d) # xs) | _ \<Rightarrow> None)"
| "payload_tools (v # vs) = None"

text \<open>A payload must be the payload of the projection that is read from it.\<close>

definition projection_from_payload :: "json \<Rightarrow> projection result" where
  "projection_from_payload v =
     (case (map_of run_states (jat v [''state'']), payload_tools (the_list (jat v [''toolStates''])), jat v [''adapterCompleted''],
         jat v [''adapterFailed''], jat v [''budgetExhausted'']) of
        (Some st, Some tools, JBool c, JBool f, JBool b) \<Rightarrow>
          (let p = initial\<lparr>state := st, tool_states := tools, adapter_completed := c, adapter_failed := f, budget_exhausted := b\<rparr> in
           if json_eq (projection_payload p) v then Inr p else store_error ''ECO_JOURNAL_CORRUPT'')
      | _ \<Rightarrow> store_error ''ECO_JOURNAL_CORRUPT'')"

record replayed =
  rp_projection :: projection
  rp_next :: int
  rp_head :: "string option"
  rp_occurred :: int

definition event_row_wrong :: "store_env \<Rightarrow> string \<Rightarrow> replayed \<Rightarrow> event_entry \<Rightarrow> json \<Rightarrow> int \<Rightarrow> bool" where
  "event_row_wrong e run a row event t \<longleftrightarrow>
     (let m = jat event [''metadata'']; spec = jat event [''spec''] in
      jat event [''kind''] \<noteq> JStr ''RunEvent'' \<or> er_sequence row \<noteq> rp_next a \<or> er_previous row \<noteq> rp_head a
      \<or> jat m [''runId''] \<noteq> JStr run \<or> jat m [''sequence''] \<noteq> JInt (rp_next a) \<or> jat m [''previousEventDigest''] \<noteq> json_opt (rp_head a)
      \<or> jat m [''producer''] \<noteq> JStr (er_producer row) \<or> jat m [''producerIssuer''] \<noteq> JStr (er_issuer row)
      \<or> jat m [''occurredAt''] \<noteq> JStr (er_occurred_at row) \<or> er_digest row \<noteq> digest_of e event
      \<or> JStr (er_type row) \<noteq> jat spec [''type''] \<or> JStr (er_outcome row) \<noteq> jat spec [''outcome'']
      \<or> er_subject_id row \<noteq> jat spec [''subjectId''] \<or> er_subject_digest row \<noteq> jat spec [''subjectDigest'']
      \<or> er_result_digest row \<noteq> jat spec [''resultDigest'']
      \<or> (case map_of EVENT_SEMANTICS (the_str (jat spec [''type''])) of None \<Rightarrow> True
         | Some (outcome, producers) \<Rightarrow> jat spec [''outcome''] \<noteq> JStr outcome \<or> jat m [''producer''] \<notin> JStr ` set producers)
      \<or> jat m [''producerIssuer''] \<noteq> json_opt (map_of (sx_issuers e) (the_str (jat m [''producer'']))) \<or> t < rp_occurred a)"

definition replay_row :: "store_env \<Rightarrow> string \<Rightarrow> replayed \<Rightarrow> event_entry \<times> json \<Rightarrow> replayed result" where
  "replay_row e run a x =
     (let (row, event) = x in
      bindE (store_time e (jat event [''metadata'', ''occurredAt''])) (\<lambda>t.
      if event_row_wrong e run a row event t then store_error ''ECO_JOURNAL_CORRUPT''
      else case reduce_run_event (rp_projection a) (the_str (jat event [''spec'', ''type''])) (the_obj (jat event [''spec''])) of
        Inl (RuntimeStateError c) \<Rightarrow> store_error ''ECO_JOURNAL_CORRUPT''
      | Inl err \<Rightarrow> Inl err
      | Inr q \<Rightarrow> Inr \<lparr>rp_projection = q, rp_next = rp_next a + 1, rp_head = Some (digest_of e event), rp_occurred = t\<rparr>))"

fun replay_rows :: "store_env \<Rightarrow> string \<Rightarrow> replayed \<Rightarrow> (event_entry \<times> json) list \<Rightarrow> replayed result" where
  "replay_rows e run a [] = Inr a"
| "replay_rows e run a (x # xs) = bindE (replay_row e run a x) (\<lambda>b. replay_rows e run b xs)"

text \<open>\<open>run_events AS e JOIN records AS r ON r.record_id = e.event_id WHERE e.run_id = ? ORDER BY e.sequence\<close>.\<close>

definition joined_events :: "string \<Rightarrow> rstore \<Rightarrow> (event_entry \<times> json) list" where
  "joined_events run s = map (\<lambda>r. (r, rr_record (the (map_of (t_records s) (er_id r)))))
     (filter (\<lambda>r. map_of (t_records s) (er_id r) \<noteq> None) (sort_key er_sequence (filter (\<lambda>r. er_run_id r = run) (t_events s))))"

definition replay_projection :: "store_env \<Rightarrow> string \<Rightarrow> rstore \<Rightarrow> replayed result" where
  "replay_projection e run s =
     (case map_of (t_baselines s) run of
        None \<Rightarrow> store_error ''ECO_JOURNAL_CORRUPT''
      | Some b \<Rightarrow>
          if digest_of e (bl_projection b) \<noteq> bl_digest b then store_error ''ECO_JOURNAL_CORRUPT''
          else bindE (projection_from_payload (bl_projection b)) (\<lambda>p.
          bindE (store_time e (JStr (bl_occurred_at b))) (\<lambda>t.
            replay_rows e run \<lparr>rp_projection = p, rp_next = 1, rp_head = None, rp_occurred = t\<rparr> (joined_events run s))))"

definition opt_member :: "string \<Rightarrow> string option \<Rightarrow> obj" where
  "opt_member k x = (case x of None \<Rightarrow> [] | Some v \<Rightarrow> [(k, JStr v)])"

definition event_spec :: "string \<Rightarrow> string \<Rightarrow> string option \<Rightarrow> string option \<Rightarrow> string option \<Rightarrow> obj" where
  "event_spec typ outcome sid sdig rdig = [(''type'', JStr typ), (''outcome'', JStr outcome)]
     @ opt_member ''subjectId'' sid @ opt_member ''subjectDigest'' sdig @ opt_member ''resultDigest'' rdig"

definition event_id_of :: "store_env \<Rightarrow> string \<Rightarrow> int \<Rightarrow> string" where
  "event_id_of e run n = ''evt-'' @ take 16 (digest_of e (JObj [(''runId'', JStr run)])) @ ''-'' @ show_int n"

definition event_record :: "store_env \<Rightarrow> string \<Rightarrow> int \<Rightarrow> string \<Rightarrow> string \<Rightarrow> string \<Rightarrow> string option \<Rightarrow> obj \<Rightarrow> json" where
  "event_record e run n at producer issuer head spec =
     JObj [(''apiVersion'', JStr ''runtime.ai.ecosystem/v1alpha1''), (''kind'', JStr ''RunEvent''),
       (''metadata'', JObj [(''id'', JStr (event_id_of e run n)), (''runId'', JStr run), (''sequence'', JInt n), (''occurredAt'', JStr at),
          (''producer'', JStr producer), (''producerIssuer'', JStr issuer), (''previousEventDigest'', json_opt head)]),
       (''spec'', JObj spec)]"

text \<open>What an event says: its type, producer, the capability shown and its digests.\<close>

record event_request =
  eq_type :: string
  eq_producer :: string
  eq_capability :: nat
  eq_subject_id :: "string option"
  eq_subject_digest :: "string option"
  eq_result_digest :: "string option"

definition check_run_cache :: "replayed \<Rightarrow> run_entry \<Rightarrow> bool" where
  "check_run_cache a r \<longleftrightarrow> state (rp_projection a) = ru_state r \<and> rp_next a = ru_next r \<and> rp_head a = ru_head r"

definition event_row_of :: "store_env \<Rightarrow> string \<Rightarrow> event_request \<Rightarrow> string \<Rightarrow> string \<Rightarrow> int \<Rightarrow> string option \<Rightarrow> string \<Rightarrow> string \<Rightarrow> event_entry" where
  "event_row_of e run q outcome issuer n head digest at = \<lparr>er_id = event_id_of e run n, er_run_id = run, er_sequence = n, er_previous = head,
     er_digest = digest, er_type = eq_type q, er_outcome = outcome, er_producer = eq_producer q, er_issuer = issuer,
     er_subject_id = json_opt (eq_subject_id q), er_subject_digest = json_opt (eq_subject_digest q),
     er_result_digest = json_opt (eq_result_digest q), er_occurred_at = at\<rparr>"

definition advanced_run :: "run_entry \<Rightarrow> projection \<Rightarrow> int \<Rightarrow> string \<Rightarrow> string \<Rightarrow> run_entry" where
  "advanced_run r q n digest at = r\<lparr>ru_state := state q, ru_next := n + 1, ru_head := Some digest,
     ru_terminal_at := (if state q \<in> TERMINAL_STATES then Some at else ru_terminal_at r), ru_updated_at := at, ru_version := ru_version r + 1\<rparr>"

text \<open>The event is recorded, projected into \<open>run_events\<close>, and the run row follows it.\<close>

definition write_event ::
    "store_env \<Rightarrow> string \<Rightarrow> string \<Rightarrow> event_request \<Rightarrow> string \<Rightarrow> string \<Rightarrow> replayed \<Rightarrow> projection \<Rightarrow> string \<Rightarrow> run_entry \<Rightarrow> string stx" where
  "write_event e tx run q outcome issuer a p at r =
     (let n = rp_next a;
          event = event_record e run n at (eq_producer q) issuer (rp_head a)
            (event_spec (eq_type q) outcome (eq_subject_id q) (eq_subject_digest q) (eq_result_digest q)) in
      bindT (liftT (validate_runtime_record e event)) (\<lambda>_.
      bindT (record_fresh e tx event at ''ECO_EVENT_ID_REUSED'') (\<lambda>digest.
      bindT (writeT (\<lambda>s. s\<lparr>t_events := t_events s @ [event_row_of e run q outcome issuer n (rp_head a) digest at],
        t_runs := dict_set run (advanced_run r p n digest at) (t_runs s)\<rparr>)) (\<lambda>_.
      bindT (record_revision e tx at ''run'' run) (\<lambda>_. returnT digest)))))"

definition append_event_tx :: "store_env \<Rightarrow> string \<Rightarrow> int \<Rightarrow> string \<Rightarrow> event_request \<Rightarrow> string stx" where
  "append_event_tx e tx now run q s =
     (case map_of EVENT_SEMANTICS (eq_type q) of
        None \<Rightarrow> store_error ''ECO_EVENT_INVALID''
      | Some (outcome, producers) \<Rightarrow>
          if eq_producer q \<notin> set producers \<or> capability_wrong e (eq_producer q) (eq_capability q)
          then store_error ''ECO_EVENT_PRODUCER_UNTRUSTED''
          else case map_of (t_runs s) run of
            None \<Rightarrow> store_error ''ECO_RUN_UNKNOWN''
          | Some r \<Rightarrow>
              bindE (replay_projection e run s) (\<lambda>a.
              if \<not> check_run_cache a r then store_error ''ECO_JOURNAL_CORRUPT''
              else if state (rp_projection a) \<in> TERMINAL_STATES then store_error ''ECO_RUN_TERMINAL''
              else if now < rp_occurred a then store_error ''ECO_EVENT_TIME_REVERSED''
              else bindE (reduce_run_event (rp_projection a) (eq_type q)
                  (event_spec (eq_type q) outcome (eq_subject_id q) (eq_subject_digest q) (eq_result_digest q))) (\<lambda>p.
                case map_of (sx_issuers e) (eq_producer q) of
                  None \<Rightarrow> Inl PyKeyError
                | Some issuer \<Rightarrow> write_event e tx run q outcome issuer a p (ce_iso e now) r s)))"

end
