(* ===== verification/Eco_Store_Runs.thy ===== *)
theory Eco_Store_Runs
  imports Eco_Store
begin

text \<open>
  The methods of \<open>SQLiteRuntimeStore\<close> on runs, plans and decisions (\<open>src/src/eco_runtime/store.py\<close>): records, the life of
  a run from its request to the terminal checkpoint, plans and their durable budgets, and the issue and consumption of
  decisions. Checks that precede the transaction of a method are part of it: they raise and change nothing.
\<close>

section \<open>Runs\<close>

definition put_record :: "store_env \<Rightarrow> string \<Rightarrow> json \<Rightarrow> string stx" where
  "put_record e tx r =
     bindT (liftT (stored_valid e [r])) (\<lambda>_.
     bindT (refuseT (the_str (jat r [''kind'']) \<in> AUTHORITY_MANAGED_KINDS) ''ECO_STORE_AUTHORITY_REQUIRED'') (\<lambda>_.
     bindT (liftT (record_identity r)) (\<lambda>_. record_if_new e tx r)))"

definition fresh_run :: "string \<Rightarrow> run_state \<Rightarrow> string \<Rightarrow> run_entry" where
  "fresh_run request_digest st at = \<lparr>ru_request_digest = request_digest, ru_state = st, ru_plan_id = None, ru_plan_digest = None,
     ru_next = 1, ru_head = None, ru_started_at = at, ru_deadline_at = None, ru_deadline_us = None, ru_terminal_at = None,
     ru_updated_at = at, ru_version = 1\<rparr>"

definition fresh_baseline :: "store_env \<Rightarrow> projection \<Rightarrow> string \<Rightarrow> bool \<Rightarrow> string \<Rightarrow> baseline_row" where
  "fresh_baseline e p at complete source = \<lparr>bl_projection = projection_payload p, bl_digest = digest_of e (projection_payload p),
     bl_occurred_at = at, bl_complete = complete, bl_source = source\<rparr>"

definition open_run :: "store_env \<Rightarrow> string \<Rightarrow> string \<Rightarrow> projection \<Rightarrow> string \<Rightarrow> bool \<Rightarrow> string \<Rightarrow> unit stx" where
  "open_run e run request_digest p at complete source = writeT (\<lambda>s. s\<lparr>t_runs := t_runs s @ [(run, fresh_run request_digest (state p) at)],
     t_baselines := t_baselines s @ [(run, fresh_baseline e p at complete source)]\<rparr>)"

definition runtime_event :: "string \<Rightarrow> nat \<Rightarrow> string \<Rightarrow> string \<Rightarrow> event_request" where
  "runtime_event typ cap sid sdig = \<lparr>eq_type = typ, eq_producer = ''runtime'', eq_capability = cap, eq_subject_id = Some sid,
     eq_subject_digest = Some sdig, eq_result_digest = None\<rparr>"

definition start_run :: "store_env \<Rightarrow> string \<Rightarrow> string \<Rightarrow> json \<Rightarrow> nat \<Rightarrow> string stx" where
  "start_run e tx run request cap =
     bindT (liftT (require_runtime e cap)) (\<lambda>_.
     bindT (liftT (if safe_identifier run then Inr () else Inl PyValueError)) (\<lambda>_.
     bindT (liftT (stored_valid e [request])) (\<lambda>_.
     bindT (refuseT (jat request [''kind''] \<noteq> JStr ''RunRequest'') ''ECO_STORE_RECORD_INVALID'') (\<lambda>_.
     let digest = digest_of e request; at = the_str (jat request [''metadata'', ''createdAt'']); i = the_str (jat request [''metadata'', ''id'']) in
     bindT (liftT (store_time e (jat request [''metadata'', ''createdAt'']))) (\<lambda>now.
     bindT (readT t_runs) (\<lambda>runs.
     bindT (refuseT (run \<in> dict_keys runs) ''ECO_RUN_CONFLICT'') (\<lambda>_.
     bindT (record_fresh e tx request at ''ECO_RUN_REQUEST_REUSED'') (\<lambda>_.
     bindT (open_run e run digest initial at True ''native-v1'') (\<lambda>_.
     bindT (record_revision e tx at ''event-baseline'' run) (\<lambda>_.
     bindT (append_event_tx e tx now run (runtime_event ''run.received'' cap i digest)) (\<lambda>_. returnT digest)))))))))))"

definition find_run :: "string \<Rightarrow> run_entry stx" where
  "find_run run = bindT (readT t_runs) (\<lambda>runs. neededT (map_of runs run) ''ECO_RUN_UNKNOWN'')"

text \<open>A run with the completeness and the source of its history, and its events in order.\<close>

definition run_status :: "string \<Rightarrow> (run_entry \<times> bool \<times> string) stx" where
  "run_status run =
     bindT (find_run run) (\<lambda>r.
     bindT (readT (\<lambda>s. map_of (t_baselines s) run)) (\<lambda>b.
     case b of None \<Rightarrow> raiseT PyTypeError | Some x \<Rightarrow> returnT (r, bl_complete x, bl_source x)))"

definition event_history :: "string \<Rightarrow> json list stx" where
  "event_history run = readT (\<lambda>s. map snd (joined_events run s))"

definition validate_run :: "store_env \<Rightarrow> string \<Rightarrow> string \<Rightarrow> int \<Rightarrow> nat \<Rightarrow> run_entry stx" where
  "validate_run e tx run now cap =
     bindT (liftT (require_runtime e cap)) (\<lambda>_.
     bindT (find_run run) (\<lambda>r.
     if ru_state r = VALIDATED then returnT r
     else
       bindT (refuseT (ru_state r \<noteq> RECEIVED) ''ECO_RUN_STATE'') (\<lambda>_.
       bindT (readT (\<lambda>s. find (\<lambda>(i, x). rr_digest x = ru_request_digest r \<and> rr_kind x = ''RunRequest'') (t_records s))) (\<lambda>row.
       bindT (neededT row ''ECO_JOURNAL_CORRUPT'') (\<lambda>(i, _).
       bindT (append_event_tx e tx now run (runtime_event ''run.validated'' cap i (ru_request_digest r))) (\<lambda>_. find_run run))))))"

section \<open>Plans\<close>

definition plan_binding_wrong :: "store_env \<Rightarrow> json \<Rightarrow> json \<Rightarrow> bool" where
  "plan_binding_wrong e plan d \<longleftrightarrow>
     (let sub = jat d [''spec'', ''subject''] in
      jat d [''metadata'', ''runId''] \<noteq> jat plan [''metadata'', ''runId''] \<or> jat sub [''kind''] \<noteq> JStr ''RunPlan''
      \<or> jat sub [''id''] \<noteq> jat plan [''metadata'', ''id''] \<or> jat sub [''digest''] \<noteq> JStr (digest_of e plan))"

definition checked_plan :: "store_env \<Rightarrow> json \<Rightarrow> json \<Rightarrow> unit result" where
  "checked_plan e plan d =
     bindE (stored_valid e [plan, d]) (\<lambda>_.
     if jat plan [''kind''] \<noteq> JStr ''RunPlan'' \<or> jat d [''kind''] \<noteq> JStr ''PolicyDecision'' then store_error ''ECO_STORE_RECORD_INVALID''
     else bindE (require_plan_profile e plan) (\<lambda>_.
       require_decision_profile e d (jat plan [''spec'', ''project'', ''semanticConfigDigest''])))"

text \<open>The run of a plan: opened when it is unknown, otherwise checked. The answer says whether it was opened and whether the
  plan is the next event of a validated run.\<close>

definition run_for_plan :: "store_env \<Rightarrow> string \<Rightarrow> json \<Rightarrow> string \<Rightarrow> nat option \<Rightarrow> (bool \<times> bool) stx" where
  "run_for_plan e run plan at cap s =
     (case map_of (t_runs s) run of
        None \<Rightarrow> bindT (open_run e run (the_str (jat plan [''spec'', ''requestDigest''])) planned_projection at False ''issue-plan-bootstrap-v1'')
          (\<lambda>_. returnT (True, False)) s
      | Some r \<Rightarrow>
          if JStr (ru_request_digest r) \<noteq> jat plan [''spec'', ''requestDigest''] then store_error ''ECO_RUN_CONFLICT''
          else if ru_state r = VALIDATED
          then (case cap of None \<Rightarrow> store_error ''ECO_RUNTIME_ISSUER_UNTRUSTED''
            | Some c \<Rightarrow> bindE (require_runtime e c) (\<lambda>_. Inr ((False, True), s)))
          else if ru_state r \<noteq> PLANNED \<and> (case map_of (t_baselines s) run of None \<Rightarrow> True | Some b \<Rightarrow> bl_complete b) then store_error ''ECO_RUN_STATE''
          else Inr ((False, False), s))"

definition insert_plan :: "string \<Rightarrow> string \<Rightarrow> string \<Rightarrow> bool stx" where
  "insert_plan i run digest s =
     (case map_of (t_plans s) i of
        Some p \<Rightarrow> if pn_run_id p \<noteq> run \<or> pn_digest p \<noteq> digest then store_error ''ECO_STORE_ID_CONFLICT'' else Inr (False, s)
      | None \<Rightarrow>
          if digest \<in> pn_digest ` snd ` set (t_plans s) then Inl SqliteIntegrityError
          else Inr (True, s\<lparr>t_plans := t_plans s @ [(i, \<lparr>pn_run_id = run, pn_digest = digest, pn_status = PlanIssued, pn_activated_at = None\<rparr>)]\<rparr>))"

definition issue_plan :: "store_env \<Rightarrow> string \<Rightarrow> json \<Rightarrow> json \<Rightarrow> nat \<Rightarrow> nat option \<Rightarrow> string stx" where
  "issue_plan e tx plan d policy cap =
     bindT (liftT (require_policy e policy)) (\<lambda>_.
     bindT (liftT (checked_plan e plan d)) (\<lambda>_.
     let run = the_str (jat plan [''metadata'', ''runId'']); i = the_str (jat plan [''metadata'', ''id'']); digest = digest_of e plan;
         at = the_str (jat plan [''metadata'', ''createdAt'']) in
     bindT (refuseT (plan_binding_wrong e plan d) ''ECO_DECISION_MISMATCH'') (\<lambda>_.
     bindT (record_if_new e tx plan) (\<lambda>_.
     bindT (run_for_plan e run plan at cap) (\<lambda>(opened, native).
     bindT (insert_plan i run digest) (\<lambda>planned.
     bindT (issue_decision_tx e tx d) (\<lambda>_.
     bindT (if native then bindT (liftT (store_time e (JStr at))) (\<lambda>now.
         bindT (append_event_tx e tx now run (runtime_event ''plan.created'' (the cap) i digest)) (\<lambda>_. returnT ()))
       else returnT ()) (\<lambda>_.
     bindT (record_revisions e tx at ((if opened then [(''run'', run), (''event-baseline'', run)] else []) @ (if planned then [(''plan'', i)] else [])))
       (\<lambda>_. returnT digest)))))))))"

section \<open>Budgets and activation\<close>

definition budget_checks :: "budget_row \<Rightarrow> bool" where
  "budget_checks b \<longleftrightarrow> maxDurationSeconds (bu_limits b) > 0 \<and> maxModelRequests (bu_limits b) \<ge> 0 \<and> maxToolRequests (bu_limits b) \<ge> 0
     \<and> maxInputBytes (bu_limits b) \<ge> 0 \<and> maxOutputBytes (bu_limits b) \<ge> 0 \<and> maxTotalTokens (bu_limits b) \<ge> 0
     \<and> maxCostMicrousd (bu_limits b) \<ge> 0 \<and> bu_tool_requests b \<ge> 0 \<and> bu_input_bytes b \<ge> 0 \<and> bu_reserved_input b \<ge> 0
     \<and> bu_output_bytes b \<ge> 0 \<and> bu_model_requests b \<ge> 0 \<and> bu_total_tokens b \<ge> 0 \<and> bu_cost b \<ge> 0"

definition insert_budget :: "string \<Rightarrow> budget_row \<Rightarrow> unit stx" where
  "insert_budget run b s =
     (if run \<in> dict_keys (t_budgets s) \<or> bu_plan_digest b \<in> bu_plan_digest ` snd ` set (t_budgets s) \<or> \<not> budget_checks b
      then Inl SqliteIntegrityError else Inr ((), s\<lparr>t_budgets := t_budgets s @ [(run, b)]\<rparr>))"

text \<open>\<open>UPDATE budgets ... WHERE ...\<close> must change exactly one row, and the new row must satisfy the checks of the table.\<close>

definition update_budget :: "string \<Rightarrow> (budget_row \<Rightarrow> bool) \<Rightarrow> (budget_row \<Rightarrow> budget_row) \<Rightarrow> string \<Rightarrow> unit stx" where
  "update_budget run c f code s =
     (case map_of (t_budgets s) run of
        None \<Rightarrow> store_error code
      | Some b \<Rightarrow> if \<not> c b then store_error code else if \<not> budget_checks (f b) then Inl SqliteIntegrityError
          else Inr ((), s\<lparr>t_budgets := dict_set run (f b) (t_budgets s)\<rparr>))"

definition budget_status :: "string \<Rightarrow> budget_row stx" where
  "budget_status run = bindT (readT t_budgets) (\<lambda>bs. neededT (map_of bs run) ''ECO_BUDGET_UNINITIALIZED'')"

definition initial_bytes :: "json \<Rightarrow> int" where
  "initial_bytes plan = sum_list (map (\<lambda>i. the_int (jat i [''byteLength''])) (the_list (jat plan [''spec'', ''inputs''])))"

definition plan_budget :: "store_env \<Rightarrow> json \<Rightarrow> int \<Rightarrow> string \<Rightarrow> budget_row" where
  "plan_budget e plan deadline at = \<lparr>bu_plan_digest = digest_of e plan, bu_limits = plan_limits plan, bu_deadline_at = ce_iso e deadline,
     bu_deadline_us = sx_epoch e deadline, bu_tool_requests = 0, bu_input_bytes = initial_bytes plan, bu_reserved_input = 0,
     bu_output_bytes = 0, bu_model_requests = 0, bu_total_tokens = 0, bu_cost = 0, bu_updated_at = at\<rparr>"

definition policy_event :: "string \<Rightarrow> nat \<Rightarrow> string \<Rightarrow> string \<Rightarrow> string \<Rightarrow> event_request" where
  "policy_event typ cap sid sdig rdig = \<lparr>eq_type = typ, eq_producer = ''policy'', eq_capability = cap, eq_subject_id = Some sid,
     eq_subject_digest = Some sdig, eq_result_digest = Some rdig\<rparr>"

text \<open>The rows an activation writes: the run gets its plan and deadline, the plan is active, the budget starts.\<close>

definition activation_rows :: "store_env \<Rightarrow> json \<Rightarrow> int \<Rightarrow> string \<Rightarrow> rstore \<Rightarrow> rstore" where
  "activation_rows e plan deadline at s =
     (let run = the_str (jat plan [''metadata'', ''runId'']); i = the_str (jat plan [''metadata'', ''id'']);
          r = the (map_of (t_runs s) run); p = the (map_of (t_plans s) i) in
      s\<lparr>t_runs := dict_set run (r\<lparr>ru_plan_id := Some i, ru_plan_digest := Some (digest_of e plan), ru_deadline_at := Some (ce_iso e deadline),
            ru_deadline_us := Some (sx_epoch e deadline), ru_updated_at := at\<rparr>) (t_runs s),
        t_plans := dict_set i (p\<lparr>pn_status := PlanActive, pn_activated_at := Some at\<rparr>) (t_plans s)\<rparr>)"

definition store_activate_plan :: "store_env \<Rightarrow> string \<Rightarrow> json \<Rightarrow> json \<Rightarrow> string \<Rightarrow> int \<Rightarrow> nat \<Rightarrow> budget_row stx" where
  "store_activate_plan e tx plan d nonce now policy =
     bindT (liftT (require_policy e policy)) (\<lambda>_.
     bindT (liftT (if nonce = [] then Inl PyValueError else Inr ())) (\<lambda>_.
     bindT (liftT (checked_plan e plan d)) (\<lambda>_.
     let run = the_str (jat plan [''metadata'', ''runId'']); i = the_str (jat plan [''metadata'', ''id'']); digest = digest_of e plan;
         at = ce_iso e now in
     bindT (refuseT (jat d [''metadata'', ''runId''] \<noteq> JStr run \<or> jat d [''spec'', ''effect''] \<noteq> JStr ''allow''
         \<or> \<not> json_eq (jat d [''spec'', ''subject'']) (JObj [(''kind'', JStr ''RunPlan''), (''id'', JStr i), (''digest'', JStr digest)]))
         ''ECO_DECISION_MISMATCH'') (\<lambda>_.
     bindT (refuseT (initial_bytes plan > maxInputBytes (plan_limits plan)) ''ECO_BUDGET_EXHAUSTED'') (\<lambda>_.
     bindT (liftT (store_time e (jat plan [''metadata'', ''createdAt'']))) (\<lambda>created.
     let deadline = created + seconds (maxDurationSeconds (plan_limits plan)) in
     bindT (refuseT (now \<ge> deadline) ''ECO_DEADLINE_EXCEEDED'') (\<lambda>_.
     bindT (readT (\<lambda>s. (map_of (t_plans s) i, map_of (t_runs s) run))) (\<lambda>(p, r).
     bindT (refuseT (case (p, r) of (Some x, Some y) \<Rightarrow> pn_digest x \<noteq> digest \<or> pn_run_id x \<noteq> run | _ \<Rightarrow> True) ''ECO_PLAN_UNTRUSTED'') (\<lambda>_.
     if ru_plan_id (the r) \<noteq> None
     then bindT (refuseT (ru_plan_id (the r) \<noteq> Some i \<or> ru_plan_digest (the r) \<noteq> Some digest) ''ECO_PLAN_CONFLICT'') (\<lambda>_.
       bindT (consume_decision_tx e tx d digest nonce now) (\<lambda>_. budget_status run))
     else
       bindT (consume_decision_tx e tx d digest nonce now) (\<lambda>_.
       bindT (writeT (activation_rows e plan deadline at)) (\<lambda>_.
       bindT (insert_budget run (plan_budget e plan deadline at)) (\<lambda>_.
       bindT (append_event_tx e tx now run (policy_event ''policy.allowed'' policy i digest (digest_of e d))) (\<lambda>_.
       bindT (record_revisions e tx at [(''plan'', i), (''budget'', run)]) (\<lambda>_. budget_status run))))))))))))))"

definition deny_plan :: "store_env \<Rightarrow> string \<Rightarrow> json \<Rightarrow> json \<Rightarrow> string \<Rightarrow> int \<Rightarrow> nat \<Rightarrow> run_entry stx" where
  "deny_plan e tx plan d nonce now policy =
     bindT (liftT (require_policy e policy)) (\<lambda>_.
     bindT (liftT (check_all (validate_runtime_record e) [plan, d])) (\<lambda>_.
     let run = the_str (jat plan [''metadata'', ''runId'']); i = the_str (jat plan [''metadata'', ''id'']); digest = digest_of e plan;
         at = ce_iso e now in
     bindT (liftT (require_plan_profile e plan)) (\<lambda>_.
     bindT (liftT (require_decision_profile e d (jat plan [''spec'', ''project'', ''semanticConfigDigest'']))) (\<lambda>_.
     bindT (refuseT (jat d [''spec'', ''effect''] \<noteq> JStr ''deny''
         \<or> \<not> json_eq (jat d [''spec'', ''subject'']) (JObj [(''kind'', JStr ''RunPlan''), (''id'', JStr i), (''digest'', JStr digest)]))
         ''ECO_DECISION_MISMATCH'') (\<lambda>_.
     bindT (readT (\<lambda>s. (map_of (t_plans s) i, map_of (t_runs s) run))) (\<lambda>(p, r).
     bindT (refuseT (case (p, r) of (Some x, Some y) \<Rightarrow> pn_digest x \<noteq> digest \<or> ru_state y \<noteq> PLANNED | _ \<Rightarrow> True) ''ECO_PLAN_UNTRUSTED'') (\<lambda>_.
     bindT (issue_decision_tx e tx d) (\<lambda>_.
     bindT (consume_decision_tx e tx d digest nonce now) (\<lambda>_.
     bindT (writeT (\<lambda>s. s\<lparr>t_plans := dict_set i ((the p)\<lparr>pn_status := PlanTerminal\<rparr>) (t_plans s)\<rparr>)) (\<lambda>_.
     bindT (append_event_tx e tx now run (policy_event ''policy.denied'' policy i digest (digest_of e d))) (\<lambda>_.
     bindT (record_revision e tx at ''plan'' i) (\<lambda>_. find_run run))))))))))))"

section \<open>Termination\<close>

definition adapter_event :: "string \<Rightarrow> nat \<Rightarrow> event_request" where
  "adapter_event typ cap = \<lparr>eq_type = typ, eq_producer = ''adapter'', eq_capability = cap, eq_subject_id = None, eq_subject_digest = None,
     eq_result_digest = None\<rparr>"

text \<open>\<open>start_adapter\<close>, \<open>complete_adapter\<close> and \<open>fail_adapter\<close>, by the type of their event.\<close>

definition signal_adapter :: "store_env \<Rightarrow> string \<Rightarrow> string \<Rightarrow> string \<Rightarrow> int \<Rightarrow> nat \<Rightarrow> string stx" where
  "signal_adapter e tx typ run now cap =
     bindT (liftT (require_adapter e cap)) (\<lambda>_. append_event_tx e tx now run (adapter_event typ cap))"

definition start_adapter :: "store_env \<Rightarrow> string \<Rightarrow> string \<Rightarrow> int \<Rightarrow> nat \<Rightarrow> string stx" where
  "start_adapter e tx = signal_adapter e tx ''adapter.started''"

definition complete_adapter :: "store_env \<Rightarrow> string \<Rightarrow> string \<Rightarrow> int \<Rightarrow> nat \<Rightarrow> string stx" where
  "complete_adapter e tx = signal_adapter e tx ''adapter.completed''"

definition fail_adapter :: "store_env \<Rightarrow> string \<Rightarrow> string \<Rightarrow> int \<Rightarrow> nat \<Rightarrow> string stx" where
  "fail_adapter e tx = signal_adapter e tx ''adapter.failed''"

definition FINISH_EVENTS :: "(string \<times> string) list" where
  "FINISH_EVENTS = [(''succeeded'', ''run.succeeded''), (''failed'', ''run.failed''), (''cancelled'', ''run.cancelled''),
     (''exhausted'', ''run.exhausted'')]"

definition model_open :: "string \<Rightarrow> rstore \<Rightarrow> bool" where
  "model_open run s \<longleftrightarrow> list_ex (\<lambda>(i, m). mo_run_id m = run \<and> mo_state m \<in> {ModelPrepared, ModelStarted}) (t_models s)"

definition finish_run :: "store_env \<Rightarrow> string \<Rightarrow> string \<Rightarrow> string \<Rightarrow> int \<Rightarrow> nat \<Rightarrow> string stx" where
  "finish_run e tx run outcome now cap =
     bindT (liftT (require_runtime e cap)) (\<lambda>_.
     bindT (liftT (case map_of FINISH_EVENTS outcome of None \<Rightarrow> Inl PyValueError | Some t \<Rightarrow> Inr t)) (\<lambda>typ.
     bindT (readT (model_open run)) (\<lambda>busy.
     bindT (refuseT busy ''ECO_MODEL_OPERATION_OPEN'') (\<lambda>_.
       append_event_tx e tx now run \<lparr>eq_type = typ, eq_producer = ''runtime'', eq_capability = cap, eq_subject_id = None,
         eq_subject_digest = None, eq_result_digest = None\<rparr>))))"

definition open_reads :: "string \<Rightarrow> rstore \<Rightarrow> string list" where
  "open_reads run s = sort (map fst (filter (\<lambda>(i, r). or_run_id r = run \<and> or_state r = ReadPrepared) (t_operations s)))"

definition checkpoint_record :: "store_env \<Rightarrow> string \<Rightarrow> string \<Rightarrow> run_entry \<Rightarrow> replayed \<Rightarrow> budget_row \<Rightarrow> json \<Rightarrow> baseline_row \<Rightarrow> json" where
  "checkpoint_record e run at r a b plan bl =
     JObj [(''apiVersion'', JStr ''runtime.ai.ecosystem/v1alpha1''), (''kind'', JStr ''RunCheckpoint''),
       (''metadata'', JObj [(''id'', JStr (''checkpoint-'' @ take 16 (digest_of e (JObj [(''runId'', JStr run)])) @ ''-'' @ show_int (ru_version r))),
          (''runId'', JStr run), (''revision'', JInt (ru_version r)), (''createdAt'', JStr at)]),
       (''spec'', JObj [(''state'', JStr (run_state_text (state (rp_projection a)))), (''projection'', projection_payload (rp_projection a)),
          (''historyComplete'', JBool (bl_complete bl)), (''historySource'', JStr (bl_source bl)), (''eventSequence'', JInt (rp_next a - 1)),
          (''eventHeadDigest'', json_opt (rp_head a)), (''activePlanDigest'', json_opt (ru_plan_digest r)),
          (''budget'', JObj [(''limitsDigest'', JStr (digest_of e (JObj [(''domain'', JStr ''eco-budget-limits-v1''),
               (''limits'', jat plan [''spec'', ''budget''])]))), (''toolRequests'', JInt (bu_tool_requests b)), (''inputBytes'', JInt (bu_input_bytes b)),
             (''reservedInputBytes'', JInt (bu_reserved_input b)), (''outputBytes'', JInt (bu_output_bytes b)),
             (''modelRequests'', JInt (bu_model_requests b)), (''totalTokens'', JInt (bu_total_tokens b)), (''costMicrousd'', JInt (bu_cost b))]),
          (''openOperationIds'', JList []), (''startedAt'', JStr (ru_started_at r)), (''deadlineAt'', json_opt (ru_deadline_at r))])]"

definition write_checkpoint :: "store_env \<Rightarrow> string \<Rightarrow> string \<Rightarrow> string \<Rightarrow> int \<Rightarrow> json \<Rightarrow> json stx" where
  "write_checkpoint e tx run at version c =
     (let i = the_str (jat c [''metadata'', ''id'']) in
      bindT (liftT (validate_runtime_record e c)) (\<lambda>_.
      bindT (record_fresh e tx c at ''ECO_CHECKPOINT_CONFLICT'') (\<lambda>digest.
      bindT (writeT (\<lambda>s. s\<lparr>t_checkpoints := t_checkpoints s @ [(run, \<lparr>cp_id = i, cp_digest = digest, cp_version = version\<rparr>)]\<rparr>)) (\<lambda>_.
      bindT (record_revision e tx at ''checkpoint'' run) (\<lambda>_. returnT c)))))"

definition create_terminal_checkpoint :: "store_env \<Rightarrow> string \<Rightarrow> string \<Rightarrow> int \<Rightarrow> nat \<Rightarrow> json stx" where
  "create_terminal_checkpoint e tx run now cap =
     bindT (liftT (require_runtime e cap)) (\<lambda>_.
     bindT (readT (\<lambda>s. map_of (t_checkpoints s) run)) (\<lambda>existing.
     case existing of
       Some c \<Rightarrow> load_record (cp_id c)
     | None \<Rightarrow>
         bindT (find_run run) (\<lambda>r.
         bindT (readT (replay_projection e run)) (\<lambda>replayed.
         bindT (liftT replayed) (\<lambda>a.
         bindT (refuseT (state (rp_projection a) \<notin> TERMINAL_STATES) ''ECO_CHECKPOINT_NOT_TERMINAL'') (\<lambda>_.
         bindT (refuseT (now < rp_occurred a) ''ECO_CLOCK_ROLLBACK'') (\<lambda>_.
         bindT (readT (\<lambda>s. (map_of (t_budgets s) run, map_of (t_baselines s) run))) (\<lambda>(b, bl).
         bindT (refuseT (b = None \<or> ru_plan_id r = None) ''ECO_CHECKPOINT_UNAVAILABLE'') (\<lambda>_.
         bindT (load_record (the (ru_plan_id r))) (\<lambda>plan.
         bindT (readT (open_reads run)) (\<lambda>reads.
         bindT (refuseT (reads \<noteq> []) ''ECO_CHECKPOINT_OPEN_OPERATIONS'') (\<lambda>_.
           write_checkpoint e tx run (ce_iso e now) (ru_version r)
             (checkpoint_record e run (ce_iso e now) r a (the b) plan (the bl))))))))))))))"

definition active_plan_guard :: "string \<Rightarrow> string \<Rightarrow> run_entry stx" where
  "active_plan_guard run digest =
     bindT (liftT (if run = [] \<or> \<not> sha256_text digest then Inl PyValueError else Inr ())) (\<lambda>_.
     bindT (readT (\<lambda>s. map_of (t_runs s) run)) (\<lambda>r.
     bindT (refuseT (case r of None \<Rightarrow> True | Some x \<Rightarrow> ru_state x \<noteq> RUNNING \<or> ru_plan_digest x \<noteq> Some digest) ''ECO_PLAN_NOT_ACTIVE'') (\<lambda>_.
       returnT (the r))))"

section \<open>Decisions\<close>

definition store_issue_decision :: "store_env \<Rightarrow> string \<Rightarrow> json \<Rightarrow> json \<Rightarrow> nat \<Rightarrow> string stx" where
  "store_issue_decision e tx d config policy =
     bindT (liftT (require_policy e policy)) (\<lambda>_.
     bindT (liftT (stored_valid e [d])) (\<lambda>_.
     bindT (refuseT (jat d [''kind''] \<noteq> JStr ''PolicyDecision'') ''ECO_STORE_RECORD_INVALID'') (\<lambda>_.
     bindT (liftT (require_decision_profile e d config)) (\<lambda>_. issue_decision_tx e tx d))))"

definition subject_wrong :: "store_env \<Rightarrow> json \<Rightarrow> json \<Rightarrow> bool" where
  "subject_wrong e d subject \<longleftrightarrow>
     (let sub = jat d [''spec'', ''subject''] in
      jat d [''metadata'', ''runId''] \<noteq> jat subject [''metadata'', ''runId''] \<or> jat sub [''kind''] \<noteq> jat subject [''kind'']
      \<or> jat sub [''id''] \<noteq> jat subject [''metadata'', ''id''] \<or> jat sub [''digest''] \<noteq> JStr (digest_of e subject))"

definition checked_decision :: "store_env \<Rightarrow> json \<Rightarrow> json \<Rightarrow> json \<Rightarrow> nat \<Rightarrow> unit result" where
  "checked_decision e d subject config policy =
     bindE (require_policy e policy) (\<lambda>_.
     bindE (stored_valid e [d, subject]) (\<lambda>_.
     if jat d [''kind''] \<noteq> JStr ''PolicyDecision'' \<or> jat d [''spec'', ''effect''] \<noteq> JStr ''allow'' then store_error ''ECO_DECISION_DENIED''
     else bindE (require_decision_profile e d config) (\<lambda>_.
       if subject_wrong e d subject then store_error ''ECO_DECISION_MISMATCH'' else Inr ())))"

definition store_assert_decision :: "store_env \<Rightarrow> json \<Rightarrow> json \<Rightarrow> int \<Rightarrow> json \<Rightarrow> nat \<Rightarrow> unit stx" where
  "store_assert_decision e d subject now config policy =
     bindT (liftT (checked_decision e d subject config policy)) (\<lambda>_.
     bindT (readT (\<lambda>s. map_of (t_decisions s) (the_str (jat d [''metadata'', ''id''])))) (\<lambda>row.
     bindT (neededT row ''ECO_DECISION_UNTRUSTED'') (\<lambda>r.
     bindT (refuseT (dr_digest r \<noteq> digest_of e d) ''ECO_DECISION_UNTRUSTED'') (\<lambda>_.
     bindT (refuseT (dr_subject_digest r \<noteq> digest_of e subject) ''ECO_DECISION_MISMATCH'') (\<lambda>_.
     bindT (refuseT (dr_consumed_at r \<noteq> None) ''ECO_DECISION_REPLAYED'') (\<lambda>_.
       refuseT (dr_expires_us r \<le> sx_epoch e now) ''ECO_DECISION_EXPIRED''))))))"

definition store_consume_decision :: "store_env \<Rightarrow> string \<Rightarrow> json \<Rightarrow> json \<Rightarrow> string \<Rightarrow> int \<Rightarrow> json \<Rightarrow> nat \<Rightarrow> unit stx" where
  "store_consume_decision e tx d subject nonce now config policy =
     bindT (liftT (require_policy e policy)) (\<lambda>_.
     bindT (liftT (if nonce = [] then Inl PyValueError else Inr ())) (\<lambda>_.
     bindT (liftT (checked_decision e d subject config policy)) (\<lambda>_.
     bindT (liftT (store_time e (jat d [''spec'', ''constraints'', ''expiresAt'']))) (\<lambda>expires.
     bindT (refuseT (expires \<le> now) ''ECO_DECISION_EXPIRED'') (\<lambda>_.
     bindT (consume_decision_tx e tx d (digest_of e subject) nonce now) (\<lambda>_. returnT ()))))))"

end
