(* ===== verification/Eco_Store_Reads.thy ===== *)
theory Eco_Store_Reads
  imports Eco_Store_Runs
begin

text \<open>
  Repository reads of the durable store (\<open>src/src/eco_runtime/store.py\<close>): an operation is prepared under an active plan with
  one consumed decision, a leased fence and a reservation of input bytes, and ends completed, failed or aborted after its
  lease expired. The column \<open>recovery_mode\<close> only ever holds \<open>no_retry\<close>, as its check constraint says.
\<close>

section \<open>Preparation\<close>

definition path_reference_digest :: "store_env \<Rightarrow> string \<Rightarrow> string" where
  "path_reference_digest e path = ce_hmac e (sx_path_key e) (canonical_json (JObj [(''domain'', JStr ''eco-path-reference-v1''), (''path'', JStr path)]))"

definition lease_token_digest :: "store_env \<Rightarrow> string \<Rightarrow> string" where
  "lease_token_digest e token = digest_of e (JObj [(''domain'', JStr ''eco-operation-lease-v1''), (''token'', JStr token)])"

definition snapshot_wrong :: "store_env \<Rightarrow> json \<Rightarrow> json \<Rightarrow> bool" where
  "snapshot_wrong e snapshot planned \<longleftrightarrow> jat snapshot [''metadata'', ''id''] \<noteq> jat planned [''id''] \<or> JStr (digest_of e snapshot) \<noteq> jat planned [''digest'']
     \<or> jat snapshot [''spec'', ''rootIdentityDigest''] \<noteq> jat planned [''rootIdentityDigest'']
     \<or> jat snapshot [''spec'', ''trust''] \<noteq> jat planned [''trust'']"

definition read_entry :: "store_env \<Rightarrow> json \<Rightarrow> json \<Rightarrow> json" where
  "read_entry e snapshot entry = JObj [(''snapshotDigest'', JStr (digest_of e snapshot)),
     (''pathDigest'', JStr (path_reference_digest e (the_str (jat entry [''path''])))), (''contentDigest'', jat entry [''contentDigest'']),
     (''byteLength'', jat entry [''byteLength'']), (''dataClass'', jat entry [''dataClass'']), (''trust'', jat entry [''trust''])]"

definition read_binding_wrong :: "store_env \<Rightarrow> json \<Rightarrow> json \<Rightarrow> json \<Rightarrow> json \<Rightarrow> json \<Rightarrow> json \<Rightarrow> json option \<Rightarrow> bool" where
  "read_binding_wrong e plan snapshot request d intent entry tool \<longleftrightarrow>
     (let run = jat plan [''metadata'', ''runId'']; digest = JStr (digest_of e plan); spec = jat intent [''spec''];
          i = jat request [''metadata'', ''id'']; rd = JStr (digest_of e request) in
      tool = None \<or> run \<noteq> jat request [''metadata'', ''runId''] \<or> run \<noteq> jat d [''metadata'', ''runId''] \<or> run \<noteq> jat intent [''metadata'', ''runId'']
      \<or> jat request [''spec'', ''planDigest''] \<noteq> digest \<or> jat request [''spec'', ''toolId''] \<noteq> JStr ''repository.read''
      \<or> jat d [''spec'', ''effect''] \<noteq> JStr ''allow''
      \<or> \<not> json_eq (jat d [''spec'', ''subject'']) (JObj [(''kind'', JStr ''ToolRequest''), (''id'', i), (''digest'', rd)])
      \<or> jat spec [''planDigest''] \<noteq> digest \<or> \<not> json_eq (jat spec [''toolRequest'']) (JObj [(''id'', i), (''digest'', rd)])
      \<or> \<not> json_eq (jat spec [''allowDecision'']) (JObj [(''id'', jat d [''metadata'', ''id'']), (''digest'', JStr (digest_of e d))])
      \<or> jat spec [''toolCatalogDigest''] \<noteq> jat (the tool) [''catalogDigest'']
      \<or> \<not> json_eq (jat spec [''reservation'']) (JObj [(''toolRequests'', JInt 1), (''inputBytes'', jat entry [''byteLength''])])
      \<or> \<not> json_eq (jat spec [''repositoryEntry'']) (read_entry e snapshot entry))"

definition checked_read :: "store_env \<Rightarrow> json \<Rightarrow> json \<Rightarrow> json \<Rightarrow> json \<Rightarrow> json \<Rightarrow> json result" where
  "checked_read e plan snapshot request d intent =
     bindE (stored_valid e [plan, snapshot, request, d, intent]) (\<lambda>_.
     if jat plan [''kind''] \<noteq> JStr ''RunPlan'' \<or> jat snapshot [''kind''] \<noteq> JStr ''RepositorySnapshot'' \<or> jat request [''kind''] \<noteq> JStr ''ToolRequest''
        \<or> jat d [''kind''] \<noteq> JStr ''PolicyDecision'' \<or> jat intent [''kind''] \<noteq> JStr ''ToolExecutionIntent'' then store_error ''ECO_STORE_RECORD_INVALID''
     else bindE (require_plan_profile e plan) (\<lambda>_.
     bindE (require_decision_profile e d (jat plan [''spec'', ''project'', ''semanticConfigDigest''])) (\<lambda>_.
     if ''path'' \<notin> dict_keys (the_obj (jat request [''spec'', ''arguments''])) \<or> ''repositorySnapshot'' \<notin> dict_keys (the_obj (jat plan [''spec'']))
     then Inl PyKeyError
     else if snapshot_wrong e snapshot (jat plan [''spec'', ''repositorySnapshot'']) then store_error ''ECO_SNAPSHOT_MISMATCH''
     else case find (\<lambda>x. jat x [''path''] = jat request [''spec'', ''arguments'', ''path'']) (the_list (jat snapshot [''spec'', ''entries''])) of
         None \<Rightarrow> store_error ''ECO_PATH_NOT_IN_SNAPSHOT''
       | Some entry \<Rightarrow>
           if read_binding_wrong e plan snapshot request d intent entry
             (find (\<lambda>x. jat x [''id''] = JStr ''repository.read'') (the_list (jat plan [''spec'', ''tools'']))) then store_error ''ECO_OPERATION_BINDING_INVALID''
           else Inr entry)))"

text \<open>The run, the plan and the clock at the start of the transaction; the answer is the deadline.\<close>

definition live_plan :: "store_env \<Rightarrow> string \<Rightarrow> string \<Rightarrow> string \<Rightarrow> int \<Rightarrow> int stx" where
  "live_plan e run plan_id digest now =
     bindT (readT (\<lambda>s. (map_of (t_runs s) run, map_of (t_plans s) plan_id))) (\<lambda>(r, p).
     bindT (refuseT (case (r, p) of (Some x, Some y) \<Rightarrow> ru_plan_digest x \<noteq> Some digest \<or> pn_digest y \<noteq> digest \<or> ru_state x \<noteq> RUNNING | _ \<Rightarrow> True)
         ''ECO_PLAN_UNTRUSTED'') (\<lambda>_.
     bindT (liftT (store_time e (JStr (ru_updated_at (the r))))) (\<lambda>updated.
     bindT (refuseT (updated > now) ''ECO_CLOCK_ROLLBACK'') (\<lambda>_.
     bindT (refuseT (case ru_deadline_us (the r) of None \<Rightarrow> True | Some t \<Rightarrow> t \<le> sx_epoch e now) ''ECO_DEADLINE_EXCEEDED'') (\<lambda>_.
       returnT (the (ru_deadline_us (the r))))))))"

record read_lease =
  rl_operation :: string
  rl_token :: string
  rl_epoch :: int
  rl_until_us :: int
  rl_intent :: string

definition operation_row_of :: "store_env \<Rightarrow> string \<Rightarrow> json \<Rightarrow> json \<Rightarrow> json \<Rightarrow> string \<Rightarrow> string \<Rightarrow> int \<Rightarrow> string \<Rightarrow> operation_row" where
  "operation_row_of e run request d intent owner token until at = \<lparr>or_run_id = run,
     or_idempotency = the_str (jat intent [''spec'', ''idempotencyKeyDigest'']), or_intent_digest = digest_of e intent,
     or_request_digest = digest_of e request, or_decision_digest = digest_of e d, or_state = ReadPrepared, or_owner = Some owner, or_epoch = 1,
     or_token = Some (lease_token_digest e token), or_until_us = Some until, or_receipt = None, or_artifact = None, or_error = None,
     or_outcome = None, or_created_at = at, or_updated_at = at\<rparr>"

definition insert_operation :: "string \<Rightarrow> operation_row \<Rightarrow> reservation_row \<Rightarrow> unit stx" where
  "insert_operation i r v s =
     (if i \<in> dict_keys (t_operations s) \<or> or_intent_digest r \<in> or_intent_digest ` snd ` set (t_operations s) \<or> rs_reserved v < 0
      then Inl SqliteIntegrityError
      else Inr ((), s\<lparr>t_operations := t_operations s @ [(i, r)], t_reservations := t_reservations s @ [(i, v)]\<rparr>))"

text \<open>A reservation and its row; then the events and revisions of the new operation.\<close>

definition reserve_read :: "store_env \<Rightarrow> string \<Rightarrow> json \<Rightarrow> json \<Rightarrow> json \<Rightarrow> json \<Rightarrow> int \<Rightarrow> string \<Rightarrow> string \<Rightarrow> int \<Rightarrow> int \<Rightarrow> unit stx" where
  "reserve_read e tx plan request d intent bytes owner token until now =
     (let run = the_str (jat plan [''metadata'', ''runId'']); digest = digest_of e plan; at = ce_iso e now; i = the_str (jat intent [''metadata'', ''id'']) in
      bindT (update_budget run (\<lambda>b. bu_plan_digest b = digest \<and> bu_deadline_us b > sx_epoch e now
          \<and> bu_tool_requests b + 1 \<le> maxToolRequests (bu_limits b)
          \<and> bu_input_bytes b + bu_reserved_input b + bytes \<le> maxInputBytes (bu_limits b))
        (\<lambda>b. b\<lparr>bu_tool_requests := bu_tool_requests b + 1, bu_reserved_input := bu_reserved_input b + bytes, bu_updated_at := at\<rparr>)
        ''ECO_BUDGET_EXHAUSTED'') (\<lambda>_.
      bindT (record_fresh e tx intent (the_str (jat intent [''metadata'', ''createdAt''])) ''ECO_OPERATION_CONFLICT'') (\<lambda>_.
        insert_operation i (operation_row_of e run request d intent owner token until at)
          \<lparr>rs_run_id = run, rs_plan_digest = digest, rs_reserved = bytes, rs_actual = None, rs_state = Reserved, rs_created_at = at,
           rs_updated_at = at\<rparr>)))"

definition read_events :: "store_env \<Rightarrow> string \<Rightarrow> string \<Rightarrow> string \<Rightarrow> json \<Rightarrow> json \<Rightarrow> int \<Rightarrow> nat \<Rightarrow> nat \<Rightarrow> unit stx" where
  "read_events e tx run i request d now policy runtime =
     (let sid = the_str (jat request [''metadata'', ''id'']); rd = digest_of e request in
      bindT (append_event_tx e tx now run (runtime_event ''tool.requested'' runtime sid rd)) (\<lambda>_.
      bindT (append_event_tx e tx now run (policy_event ''tool.allowed'' policy sid rd (digest_of e d))) (\<lambda>_.
        record_revisions e tx (ce_iso e now) [(''budget'', run), (''operation'', i), (''reservation'', i)])))"

text \<open>\<open>Inl\<close>: the operation that was prepared before with the same intent; \<open>Inr\<close>: the new lease.\<close>

definition prepare_new :: "store_env \<Rightarrow> string \<Rightarrow> string \<Rightarrow> json \<Rightarrow> json \<Rightarrow> json \<Rightarrow> json \<Rightarrow> json \<Rightarrow> string \<Rightarrow> int \<Rightarrow> int \<Rightarrow> nat \<Rightarrow> nat
    \<Rightarrow> (operation_row + read_lease) stx" where
  "prepare_new e tx token plan request d intent entry owner until now policy runtime =
     (let run = the_str (jat plan [''metadata'', ''runId'']); i = the_str (jat intent [''metadata'', ''id'']); rd = digest_of e request in
      bindT (readT (\<lambda>s. list_ex (\<lambda>(k, x). or_run_id x = run \<and> or_request_digest x = rd) (t_operations s))) (\<lambda>twice.
      bindT (refuseT twice ''ECO_OPERATION_SUBJECT_CONFLICT'') (\<lambda>_.
      bindT (issue_decision_tx e tx d) (\<lambda>_.
      bindT (consume_decision_tx e tx d rd i now) (\<lambda>_.
      bindT (reserve_read e tx plan request d intent (the_int (jat entry [''byteLength''])) owner token until now) (\<lambda>_.
      bindT (read_events e tx run i request d now policy runtime) (\<lambda>_.
        returnT (Inr \<lparr>rl_operation = i, rl_token = token, rl_epoch = 1, rl_until_us = until, rl_intent = digest_of e intent\<rparr>))))))))"

definition prepare_repository_read ::
    "store_env \<Rightarrow> string \<Rightarrow> string \<Rightarrow> json \<Rightarrow> json \<Rightarrow> json \<Rightarrow> json \<Rightarrow> json \<Rightarrow> string \<Rightarrow> int \<Rightarrow> nat \<Rightarrow> nat \<Rightarrow> nat \<Rightarrow> int
      \<Rightarrow> (operation_row + read_lease) stx" where
  "prepare_repository_read e tx token plan snapshot request d intent owner now policy broker runtime lease_seconds =
     bindT (liftT (require_policy e policy)) (\<lambda>_.
     bindT (liftT (require_broker e broker)) (\<lambda>_.
     bindT (liftT (require_runtime e runtime)) (\<lambda>_.
     bindT (liftT (require_owner_id owner)) (\<lambda>_.
     bindT (liftT (if lease_seconds \<le> 0 then Inl PyValueError else Inr ())) (\<lambda>_.
     bindT (liftT (checked_read e plan snapshot request d intent)) (\<lambda>entry.
     let run = the_str (jat plan [''metadata'', ''runId'']) in
     bindT (live_plan e run (the_str (jat plan [''metadata'', ''id''])) (digest_of e plan) now) (\<lambda>deadline.
     let until = min (sx_epoch e (now + seconds lease_seconds)) deadline in
     bindT (readT (\<lambda>s. find (\<lambda>(k, x). or_run_id x = run \<and> JStr (or_idempotency x) = jat intent [''spec'', ''idempotencyKeyDigest'']) (t_operations s)))
       (\<lambda>existing.
     case existing of
       Some (k, x) \<Rightarrow>
         bindT (refuseT (or_intent_digest x \<noteq> digest_of e intent) ''ECO_IDEMPOTENCY_CONFLICT'') (\<lambda>_.
         bindT (refuseT (or_state x = ReadPrepared) ''ECO_OPERATION_IN_PROGRESS'') (\<lambda>_. returnT (Inl x)))
     | None \<Rightarrow> prepare_new e tx token plan request d intent entry owner until now policy runtime))))))))"

section \<open>Recovery\<close>

definition find_operation :: "string \<Rightarrow> operation_row stx" where
  "find_operation i = bindT (readT t_operations) (\<lambda>ops. neededT (map_of ops i) ''ECO_OPERATION_UNKNOWN'')"

text \<open>Every operation is \<open>no_retry\<close>: a prepared one is never claimed again.\<close>

definition claim_read :: "store_env \<Rightarrow> string \<Rightarrow> string \<Rightarrow> nat \<Rightarrow> int \<Rightarrow> operation_row stx" where
  "claim_read e i owner broker lease_seconds =
     bindT (liftT (require_broker e broker)) (\<lambda>_.
     bindT (liftT (require_owner_id owner)) (\<lambda>_.
     bindT (liftT (if lease_seconds \<le> 0 then Inl PyValueError else Inr ())) (\<lambda>_.
     bindT (find_operation i) (\<lambda>r. if or_state r \<noteq> ReadPrepared then returnT r else raiseT (RuntimeStoreError ''ECO_OPERATION_NO_RETRY'')))))"

record recoverable =
  rc_operation :: string
  rc_run :: string
  rc_intent :: string
  rc_epoch :: int
  rc_reserved :: int
  rc_reason :: string

definition scan_recoverable_reads :: "store_env \<Rightarrow> int \<Rightarrow> nat \<Rightarrow> recoverable list stx" where
  "scan_recoverable_reads e now broker =
     bindT (liftT (require_broker e broker)) (\<lambda>_.
     readT (\<lambda>s. map (\<lambda>(i, r). \<lparr>rc_operation = i, rc_run = or_run_id r, rc_intent = or_intent_digest r, rc_epoch = or_epoch r,
         rc_reserved = rs_reserved (the (map_of (t_reservations s) i)),
         rc_reason = (case ru_deadline_us (the (map_of (t_runs s) (or_run_id r))) of
           Some t \<Rightarrow> if t \<le> sx_epoch e now then ''deadline_expired'' else ''lease_expired'' | None \<Rightarrow> ''lease_expired'')\<rparr>)
       (sort_key fst (filter (\<lambda>(i, r). or_state r = ReadPrepared \<and> (case or_until_us r of None \<Rightarrow> True | Some t \<Rightarrow> t \<le> sx_epoch e now)
         \<and> map_of (t_runs s) (or_run_id r) \<noteq> None \<and> map_of (t_reservations s) i \<noteq> None) (t_operations s)))))"

definition outcome_record :: "string \<Rightarrow> string \<Rightarrow> string \<Rightarrow> json \<Rightarrow> json" where
  "outcome_record i run at spec = JObj [(''apiVersion'', JStr ''runtime.ai.ecosystem/v1alpha1''), (''kind'', JStr ''ToolExecutionOutcome''),
     (''metadata'', JObj [(''id'', JStr (''outcome-'' @ i)), (''runId'', JStr run), (''operationId'', JStr i), (''createdAt'', JStr at)]), (''spec'', spec)]"

definition failed_spec :: "string \<Rightarrow> string \<Rightarrow> json" where
  "failed_spec intent_digest error_digest = JObj [(''intentDigest'', JStr intent_digest), (''status'', JStr ''failed''),
     (''errorRecordDigest'', JStr error_digest)]"

definition read_error_spec :: "string \<Rightarrow> string \<Rightarrow> string \<Rightarrow> json" where
  "read_error_spec code category message = JObj [(''code'', JStr code), (''category'', JStr category), (''stage'', JStr ''tool''),
     (''retryable'', JBool False), (''safeMessage'', JStr message), (''details'', JObj [(''toolId'', JStr ''repository.read'')])]"

definition recovery_error :: "string \<Rightarrow> string \<Rightarrow> json \<Rightarrow> string \<Rightarrow> json" where
  "recovery_error i run request_id at = JObj [(''apiVersion'', JStr ''runtime.ai.ecosystem/v1alpha1''), (''kind'', JStr ''ErrorRecord''),
     (''metadata'', JObj [(''id'', JStr (''error-'' @ i)), (''runId'', JStr run), (''requestId'', request_id), (''createdAt'', JStr at)]),
     (''spec'', read_error_spec ''ECO_OPERATION_RECOVERY_UNAVAILABLE'' ''internal''
        ''Prepared operation cannot be retried without a trusted recovery payload'')]"

definition find_reservation :: "string \<Rightarrow> reservation_row stx" where
  "find_reservation i = bindT (readT t_reservations) (\<lambda>vs. bindT (neededT (map_of vs i) ''ECO_RESERVATION_INVALID'') (\<lambda>v.
     bindT (refuseT (rs_state v \<noteq> Reserved) ''ECO_RESERVATION_INVALID'') (\<lambda>_. returnT v)))"

definition broker_event :: "string \<Rightarrow> nat \<Rightarrow> string \<Rightarrow> string \<Rightarrow> string \<Rightarrow> event_request" where
  "broker_event typ cap sid sdig rdig = \<lparr>eq_type = typ, eq_producer = ''broker'', eq_capability = cap, eq_subject_id = Some sid,
     eq_subject_digest = Some sdig, eq_result_digest = Some rdig\<rparr>"

text \<open>A failed read: its records, the released reservation, the closed operation, the event and the revisions.\<close>

definition close_failed :: "string \<Rightarrow> operation_row \<Rightarrow> reservation_row \<Rightarrow> string \<Rightarrow> string \<Rightarrow> string \<Rightarrow> rstore \<Rightarrow> rstore" where
  "close_failed i r v error_digest outcome_digest at s = s\<lparr>t_reservations := dict_set i (v\<lparr>rs_state := Released, rs_updated_at := at\<rparr>) (t_reservations s),
     t_operations := dict_set i (r\<lparr>or_state := ReadFailed, or_owner := None, or_token := None, or_until_us := None, or_error := Some error_digest,
       or_outcome := Some outcome_digest, or_updated_at := at\<rparr>) (t_operations s)\<rparr>"

definition settle_failed_read :: "store_env \<Rightarrow> string \<Rightarrow> string \<Rightarrow> operation_row \<Rightarrow> reservation_row \<Rightarrow> json \<Rightarrow> json \<Rightarrow> json \<Rightarrow> int \<Rightarrow> nat \<Rightarrow> operation_row stx" where
  "settle_failed_read e tx i r v intent error outcome now broker =
     (let run = or_run_id r; at = ce_iso e now; od = digest_of e outcome in
      bindT (record_result e tx error) (\<lambda>_.
      bindT (record_result e tx outcome) (\<lambda>_.
      bindT (update_budget run (\<lambda>b. bu_reserved_input b \<ge> rs_reserved v)
        (\<lambda>b. b\<lparr>bu_reserved_input := bu_reserved_input b - rs_reserved v, bu_updated_at := at\<rparr>) ''ECO_RESERVATION_INVALID'') (\<lambda>_.
      bindT (writeT (close_failed i r v (digest_of e error) od at)) (\<lambda>_.
      bindT (set_nonce_result i od) (\<lambda>_.
      bindT (append_event_tx e tx now run (broker_event ''tool.failed'' broker (the_str (jat intent [''spec'', ''toolRequest'', ''id'']))
        (or_request_digest r) od)) (\<lambda>_.
      bindT (record_revisions e tx at [(''budget'', run), (''reservation'', i), (''operation'', i)]) (\<lambda>_. find_operation i))))))))"

definition abort_expired_operation :: "store_env \<Rightarrow> string \<Rightarrow> string \<Rightarrow> int \<Rightarrow> nat \<Rightarrow> int option \<Rightarrow> operation_row stx" where
  "abort_expired_operation e tx i now broker observed =
     bindT (liftT (require_broker e broker)) (\<lambda>_.
     bindT (find_operation i) (\<lambda>r.
     if or_state r \<noteq> ReadPrepared then returnT r
     else
       bindT (refuseT (observed \<noteq> None \<and> observed \<noteq> Some (or_epoch r)) ''ECO_OPERATION_FENCED'') (\<lambda>_.
       bindT (find_run (or_run_id r)) (\<lambda>run.
       bindT (liftT (store_time e (JStr (ru_updated_at run)))) (\<lambda>updated.
       bindT (refuseT (updated > now) ''ECO_CLOCK_ROLLBACK'') (\<lambda>_.
       bindT (refuseT (case or_until_us r of None \<Rightarrow> False | Some t \<Rightarrow> t > sx_epoch e now) ''ECO_OPERATION_NOT_EXPIRED'') (\<lambda>_.
       bindT (find_reservation i) (\<lambda>v.
       bindT (load_record i) (\<lambda>intent.
       let at = ce_iso e now; error = recovery_error i (or_run_id r) (jat intent [''spec'', ''toolRequest'', ''id'']) at;
           outcome = outcome_record i (or_run_id r) at (failed_spec (or_intent_digest r) (digest_of e error)) in
       bindT (liftT (check_all (validate_runtime_record e) [error, outcome])) (\<lambda>_.
         settle_failed_read e tx i r v intent error outcome now broker))))))))))"

definition resolve_unrecoverable :: "store_env \<Rightarrow> string \<Rightarrow> string \<Rightarrow> int \<Rightarrow> nat \<Rightarrow> int \<Rightarrow> operation_row stx" where
  "resolve_unrecoverable e tx i now broker observed = abort_expired_operation e tx i now broker (Some observed)"

section \<open>Completion\<close>

definition require_live_run :: "store_env \<Rightarrow> string \<Rightarrow> int \<Rightarrow> unit stx" where
  "require_live_run e run now =
     bindT (find_run run) (\<lambda>r.
     bindT (liftT (store_time e (JStr (ru_updated_at r)))) (\<lambda>updated.
     bindT (refuseT (updated > now) ''ECO_CLOCK_ROLLBACK'') (\<lambda>_.
       refuseT (case ru_deadline_us r of None \<Rightarrow> True | Some t \<Rightarrow> t \<le> sx_epoch e now) ''ECO_DEADLINE_EXCEEDED'')))"

definition require_live_lease :: "store_env \<Rightarrow> operation_row \<Rightarrow> string \<Rightarrow> int \<Rightarrow> unit stx" where
  "require_live_lease e r token now =
     bindT (refuseT (or_state r \<noteq> ReadPrepared) ''ECO_OPERATION_TERMINAL'') (\<lambda>_.
       refuseT (or_token r \<noteq> Some (lease_token_digest e token) \<or> (case or_until_us r of None \<Rightarrow> True | Some t \<Rightarrow> t \<le> sx_epoch e now))
         ''ECO_OPERATION_FENCED'')"

definition receipt_wrong :: "string \<Rightarrow> operation_row \<Rightarrow> json \<Rightarrow> json \<Rightarrow> bool" where
  "receipt_wrong i r entry receipt \<longleftrightarrow>
     \<not> json_eq (jat receipt [''metadata'']) (JObj [(''id'', JStr (''receipt-'' @ i)), (''runId'', JStr (or_run_id r)), (''operationId'', JStr i),
        (''createdAt'', jat receipt [''metadata'', ''createdAt''])])
     \<or> \<not> json_eq (jat receipt [''spec'']) (JObj [(''intentDigest'', JStr (or_intent_digest r)), (''toolRequestDigest'', JStr (or_request_digest r)),
        (''repositorySnapshotDigest'', jat entry [''snapshotDigest'']), (''contentDigest'', jat entry [''contentDigest'']),
        (''byteLength'', jat entry [''byteLength'']), (''dataClass'', jat entry [''dataClass'']), (''trust'', jat entry [''trust''])])"

definition read_artifact_wrong :: "string \<Rightarrow> operation_row \<Rightarrow> json \<Rightarrow> json \<Rightarrow> bool" where
  "read_artifact_wrong i r entry a \<longleftrightarrow> jat a [''metadata'', ''id''] \<noteq> JStr (''artifact-'' @ i) \<or> jat a [''metadata'', ''runId''] \<noteq> JStr (or_run_id r)
     \<or> jat a [''spec'', ''sha256''] \<noteq> jat entry [''contentDigest''] \<or> jat a [''spec'', ''byteLength''] \<noteq> jat entry [''byteLength'']
     \<or> jat a [''spec'', ''dataClass''] \<noteq> jat entry [''dataClass''] \<or> jat a [''spec'', ''trust''] \<noteq> jat entry [''trust'']
     \<or> \<not> json_eq (jat a [''spec'', ''producer'']) (JObj [(''type'', JStr ''tool''), (''id'', JStr ''repository.read'')])
     \<or> jat a [''spec'', ''storageRef''] \<noteq> JStr (''artifact://runs/'' @ or_run_id r @ ''/artifact-'' @ i)"

definition outcome_wrong :: "string \<Rightarrow> operation_row \<Rightarrow> json \<Rightarrow> json \<Rightarrow> bool" where
  "outcome_wrong i r spec outcome \<longleftrightarrow> jat outcome [''metadata'', ''id''] \<noteq> JStr (''outcome-'' @ i) \<or> jat outcome [''metadata'', ''runId''] \<noteq> JStr (or_run_id r)
     \<or> jat outcome [''metadata'', ''operationId''] \<noteq> JStr i \<or> \<not> json_eq (jat outcome [''spec'']) spec"

definition succeeded_spec :: "string \<Rightarrow> string \<Rightarrow> string \<Rightarrow> json" where
  "succeeded_spec intent_digest receipt_digest artifact_digest = JObj [(''intentDigest'', JStr intent_digest), (''status'', JStr ''succeeded''),
     (''receiptDigest'', JStr receipt_digest), (''artifactRecordDigest'', JStr artifact_digest)]"

definition check_proof :: "store_env \<Rightarrow> json \<Rightarrow> availability_proof option \<Rightarrow> unit result" where
  "check_proof e a proof =
     (case (sx_artifacts e, proof) of
        (Some verify, Some p) \<Rightarrow>
          if JStr (av_storage_ref p) \<noteq> jat a [''spec'', ''storageRef''] \<or> JStr (av_sha256 p) \<noteq> jat a [''spec'', ''sha256'']
             \<or> JInt (av_byte_length p) \<noteq> jat a [''spec'', ''byteLength''] then store_error ''ECO_ARTIFACT_PROOF_INVALID''
          else verify p
      | _ \<Rightarrow> store_error ''ECO_ARTIFACT_PROOF_REQUIRED'')"

definition close_succeeded :: "string \<Rightarrow> operation_row \<Rightarrow> reservation_row \<Rightarrow> string \<Rightarrow> string \<Rightarrow> string \<Rightarrow> string \<Rightarrow> rstore \<Rightarrow> rstore" where
  "close_succeeded i r v receipt_digest artifact_digest outcome_digest at s =
     s\<lparr>t_reservations := dict_set i (v\<lparr>rs_actual := Some (rs_reserved v), rs_state := Settled, rs_updated_at := at\<rparr>) (t_reservations s),
       t_operations := dict_set i (r\<lparr>or_state := ReadSucceeded, or_owner := None, or_token := None, or_until_us := None,
         or_receipt := Some receipt_digest, or_artifact := Some artifact_digest, or_outcome := Some outcome_digest, or_updated_at := at\<rparr>) (t_operations s)\<rparr>"

definition settle_read :: "store_env \<Rightarrow> string \<Rightarrow> string \<Rightarrow> operation_row \<Rightarrow> reservation_row \<Rightarrow> json \<Rightarrow> json \<Rightarrow> json \<Rightarrow> json \<Rightarrow> int \<Rightarrow> nat \<Rightarrow> operation_row stx" where
  "settle_read e tx i r v intent receipt artifact outcome now broker =
     (let run = or_run_id r; at = ce_iso e now; od = digest_of e outcome; ad = digest_of e artifact;
          n = the_int (jat intent [''spec'', ''repositoryEntry'', ''byteLength'']) in
      bindT (record_result e tx receipt) (\<lambda>_.
      bindT (record_result e tx artifact) (\<lambda>_.
      bindT (record_result e tx outcome) (\<lambda>_.
      bindT (update_budget run (\<lambda>b. bu_reserved_input b \<ge> n \<and> bu_input_bytes b + n \<le> maxInputBytes (bu_limits b))
        (\<lambda>b. b\<lparr>bu_reserved_input := bu_reserved_input b - n, bu_input_bytes := bu_input_bytes b + n, bu_updated_at := at\<rparr>)
        ''ECO_RESERVATION_INVALID'') (\<lambda>_.
      bindT (writeT (close_succeeded i r v (digest_of e receipt) ad od at)) (\<lambda>_.
      bindT (set_nonce_result i od) (\<lambda>_.
      bindT (append_event_tx e tx now run (broker_event ''tool.completed'' broker (the_str (jat intent [''spec'', ''toolRequest'', ''id'']))
        (or_request_digest r) od)) (\<lambda>_.
      bindT (append_event_tx e tx now run (broker_event ''artifact.recorded'' broker (the_str (jat artifact [''metadata'', ''id''])) ad ad)) (\<lambda>_.
      bindT (record_revisions e tx at [(''budget'', run), (''reservation'', i), (''operation'', i)]) (\<lambda>_. find_operation i))))))))))"

definition complete_repository_read ::
    "store_env \<Rightarrow> string \<Rightarrow> string \<Rightarrow> string \<Rightarrow> json \<Rightarrow> json \<Rightarrow> json \<Rightarrow> availability_proof option \<Rightarrow> int \<Rightarrow> nat \<Rightarrow> operation_row stx" where
  "complete_repository_read e tx i token receipt artifact outcome proof now broker =
     bindT (liftT (require_broker e broker)) (\<lambda>_.
     bindT (liftT (stored_valid e [receipt, artifact, outcome])) (\<lambda>_.
     bindT (refuseT (jat receipt [''kind''] \<noteq> JStr ''RepositoryReadReceipt'' \<or> jat artifact [''kind''] \<noteq> JStr ''ArtifactRecord''
         \<or> jat outcome [''kind''] \<noteq> JStr ''ToolExecutionOutcome'') ''ECO_STORE_RECORD_INVALID'') (\<lambda>_.
     bindT (find_operation i) (\<lambda>r.
     if or_state r = ReadSucceeded
     then bindT (refuseT (or_outcome r \<noteq> Some (digest_of e outcome)) ''ECO_OPERATION_CONFLICT'') (\<lambda>_. returnT r)
     else
       bindT (require_live_run e (or_run_id r) now) (\<lambda>_.
       bindT (require_live_lease e r token now) (\<lambda>_.
       bindT (load_record i) (\<lambda>intent.
       let entry = jat intent [''spec'', ''repositoryEntry''] in
       bindT (refuseT (receipt_wrong i r entry receipt \<or> read_artifact_wrong i r entry artifact
           \<or> outcome_wrong i r (succeeded_spec (or_intent_digest r) (digest_of e receipt) (digest_of e artifact)) outcome)
           ''ECO_OPERATION_BINDING_INVALID'') (\<lambda>_.
       bindT (liftT (check_proof e artifact proof)) (\<lambda>_.
       bindT (find_reservation i) (\<lambda>v.
       bindT (refuseT (JInt (rs_reserved v) \<noteq> jat entry [''byteLength'']) ''ECO_RESERVATION_INVALID'') (\<lambda>_.
         settle_read e tx i r v intent receipt artifact outcome now broker)))))))))))"

definition SAFE_BROKER_ERROR_MESSAGES :: "(string \<times> string) list" where
  "SAFE_BROKER_ERROR_MESSAGES = [(''ECO_BINARY_FILE'', ''Repository content is not approved text''),
     (''ECO_FILE_CHANGED'', ''Repository file changed during the approved read''),
     (''ECO_FILE_DENIED'', ''Repository file is not readable by the broker''),
     (''ECO_FILE_NOT_FOUND'', ''Repository file does not exist''),
     (''ECO_FILE_OPEN_FAILED'', ''Repository file could not be opened safely''),
     (''ECO_FILE_TOO_LARGE'', ''Repository file exceeds the approved read limit''),
     (''ECO_HARDLINK_DENIED'', ''Repository file has an unsupported link topology''),
     (''ECO_NOT_REGULAR_FILE'', ''Repository path is not a regular file''),
     (''ECO_PATH_ESCAPE'', ''Repository path is outside the approved root''),
     (''ECO_SNAPSHOT_CONTENT_MISMATCH'', ''Repository content differs from the approved snapshot''),
     (''ECO_TEXT_ENCODING'', ''Repository content is not valid approved text'')]"

definition read_error_wrong :: "string \<Rightarrow> operation_row \<Rightarrow> json \<Rightarrow> json \<Rightarrow> bool" where
  "read_error_wrong i r intent error \<longleftrightarrow>
     (let code = the_str (jat error [''spec'', ''code'']) in
      case map_of SAFE_BROKER_ERROR_MESSAGES code of
        None \<Rightarrow> True
      | Some message \<Rightarrow>
          \<not> json_eq (jat error [''metadata'']) (JObj [(''id'', JStr (''error-'' @ i)), (''runId'', JStr (or_run_id r)),
             (''requestId'', jat intent [''spec'', ''toolRequest'', ''id'']), (''createdAt'', jat error [''metadata'', ''createdAt''])])
          \<or> \<not> json_eq (jat error [''spec'']) (read_error_spec code ''broker'' message))"

definition fail_repository_read :: "store_env \<Rightarrow> string \<Rightarrow> string \<Rightarrow> string \<Rightarrow> json \<Rightarrow> json \<Rightarrow> int \<Rightarrow> nat \<Rightarrow> operation_row stx" where
  "fail_repository_read e tx i token error outcome now broker =
     bindT (liftT (require_broker e broker)) (\<lambda>_.
     bindT (liftT (stored_valid e [error, outcome])) (\<lambda>_.
     bindT (refuseT (jat error [''kind''] \<noteq> JStr ''ErrorRecord'' \<or> jat outcome [''kind''] \<noteq> JStr ''ToolExecutionOutcome'') ''ECO_STORE_RECORD_INVALID'') (\<lambda>_.
     bindT (find_operation i) (\<lambda>r.
     if or_state r = ReadFailed
     then bindT (refuseT (or_outcome r \<noteq> Some (digest_of e outcome)) ''ECO_OPERATION_CONFLICT'') (\<lambda>_. returnT r)
     else
       bindT (require_live_run e (or_run_id r) now) (\<lambda>_.
       bindT (require_live_lease e r token now) (\<lambda>_.
       bindT (load_record i) (\<lambda>intent.
       bindT (refuseT (read_error_wrong i r intent error \<or> outcome_wrong i r (failed_spec (or_intent_digest r) (digest_of e error)) outcome)
           ''ECO_OPERATION_BINDING_INVALID'') (\<lambda>_.
       bindT (find_reservation i) (\<lambda>v. settle_failed_read e tx i r v intent error outcome now broker)))))))))"

end
