(* ===== verification/Eco_Store_Models.thy ===== *)
theory Eco_Store_Models
  imports Eco_Store_Reads
begin

text \<open>
  Model calls of the durable store (\<open>src/src/eco_runtime/store.py\<close>): a call is prepared with a reservation of output bytes,
  tokens and cost, crosses its egress fence once (started or resumed), and ends succeeded, failed, aborted before egress or
  fenced as ambiguous. A method that answers with a row and \<open>replayed\<close> answers with the pair of both here.
\<close>

section \<open>Preparation\<close>

definition model_idempotency_digest :: "store_env \<Rightarrow> string \<Rightarrow> string result" where
  "model_idempotency_digest e key =
     (if key = [] \<or> code_points key > 512 then Inl PyValueError
      else Inr (digest_of e (JObj [(''domain'', JStr ''eco-model-idempotency-v1''), (''key'', JStr key)])))"

definition request_id_digest :: "store_env \<Rightarrow> string \<Rightarrow> string" where
  "request_id_digest e i = digest_of e (JObj [(''requestId'', JStr i)])"

definition decision_nonce :: "store_env \<Rightarrow> string \<Rightarrow> string \<Rightarrow> string \<Rightarrow> string" where
  "decision_nonce e label i digest = label @ digest_of e (JObj [(''requestId'', JStr i), (''decision'', JStr digest)])"

definition pricing_wrong :: "json \<Rightarrow> json \<Rightarrow> int \<Rightarrow> bool" where
  "pricing_wrong plan endpoint cost \<longleftrightarrow> cost \<noteq> 0 \<or> jat plan [''spec'', ''budget'', ''maxCostMicrousd''] \<noteq> JInt 0
     \<or> jat plan [''spec'', ''route'', ''identity'', ''provider''] \<noteq> JStr ''local''
     \<or> jat endpoint [''spec'', ''transportProfile''] \<noteq> JStr ''local-loopback-http'' \<or> jat endpoint [''spec'', ''credentialMode''] \<noteq> JStr ''none''"

definition call_subject :: "string \<Rightarrow> string \<Rightarrow> json" where
  "call_subject i digest = JObj [(''kind'', JStr ''ModelRequest''), (''id'', JStr i), (''digest'', JStr digest)]"

definition planned_input :: "string \<Rightarrow> json \<Rightarrow> json" where
  "planned_input digest a = JObj [(''ref'', jat a [''storageRef'']), (''artifactRecordDigest'', JStr digest), (''contentDigest'', jat a [''sha256'']),
     (''dataClass'', jat a [''dataClass'']), (''byteLength'', jat a [''byteLength''])]"

definition request_input :: "string \<Rightarrow> json \<Rightarrow> json" where
  "request_input digest a = JObj [(''artifactRecordDigest'', JStr digest), (''contentDigest'', jat a [''sha256'']),
     (''byteLength'', jat a [''byteLength'']), (''dataClass'', jat a [''dataClass'']), (''trust'', jat a [''trust''])]"

definition call_endpoint_wrong :: "store_env \<Rightarrow> json \<Rightarrow> json \<Rightarrow> json \<Rightarrow> bool" where
  "call_endpoint_wrong e route rs endpoint \<longleftrightarrow>
     (let es = jat endpoint [''spec''] in
      jat rs [''deploymentId''] \<noteq> jat route [''deploymentId''] \<or> jat rs [''deploymentIdentityDigest''] \<noteq> jat route [''deploymentIdentityDigest'']
      \<or> jat rs [''endpointBindingDigest''] \<noteq> JStr (digest_of e endpoint) \<or> jat endpoint [''metadata'', ''deploymentId''] \<noteq> jat route [''deploymentId'']
      \<or> jat es [''deploymentIdentityDigest''] \<noteq> jat route [''deploymentIdentityDigest'']
      \<or> jat es [''endpointReferenceDigest''] \<noteq> jat route [''brokerModelEgress'', ''endpointReferenceDigest'']
      \<or> jat es [''adapter''] \<noteq> jat route [''identity'', ''adapter''] \<or> jat es [''adapterVersion''] \<noteq> jat route [''identity'', ''adapterVersion'']
      \<or> jat es [''model''] \<noteq> jat route [''identity'', ''model''] \<or> jat route [''brokerModelEgress'', ''allowed''] \<noteq> JBool True)"

definition model_binding_wrong :: "store_env \<Rightarrow> json \<Rightarrow> json \<Rightarrow> json \<Rightarrow> json \<Rightarrow> json \<Rightarrow> bool" where
  "model_binding_wrong e plan request endpoint input d \<longleftrightarrow>
     (let run = jat plan [''metadata'', ''runId'']; rs = jat request [''spec'']; a = jat input [''spec'']; ad = digest_of e input;
          i = the_str (jat request [''metadata'', ''id'']); planned = find (\<lambda>x. jat x [''artifactRecordDigest''] = JStr ad) (the_list (jat plan [''spec'', ''inputs''])) in
      jat request [''metadata'', ''runId''] \<noteq> run \<or> jat input [''metadata'', ''runId''] \<noteq> run \<or> jat rs [''planDigest''] \<noteq> JStr (digest_of e plan)
      \<or> jat d [''metadata'', ''runId''] \<noteq> run \<or> jat d [''spec'', ''effect''] \<noteq> JStr ''allow''
      \<or> \<not> json_eq (jat d [''spec'', ''subject'']) (call_subject i (digest_of e request))
      \<or> call_endpoint_wrong e (jat plan [''spec'', ''route'']) rs endpoint
      \<or> planned = None \<or> jat a [''role''] \<noteq> JStr ''input'' \<or> \<not> json_eq (the planned) (planned_input ad a)
      \<or> \<not> json_eq (jat rs [''input'']) (request_input ad a))"

definition endpoint_time :: "store_env \<Rightarrow> json \<Rightarrow> int result" where
  "endpoint_time e v = (case store_time e v of Inl (RuntimeStoreError c) \<Rightarrow> store_error ''ECO_ENDPOINT_BINDING_INVALID'' | r \<Rightarrow> r)"

text \<open>The checks before the transaction; the answer is the time the endpoint binding is valid from and until.\<close>

definition checked_call :: "store_env \<Rightarrow> json \<Rightarrow> json \<Rightarrow> json \<Rightarrow> json \<Rightarrow> json \<Rightarrow> availability_proof \<Rightarrow> int \<Rightarrow> (int \<times> int) result" where
  "checked_call e plan request endpoint input d proof cost =
     bindE (stored_valid e [plan, request, endpoint, input, d]) (\<lambda>_.
     if jat plan [''kind''] \<noteq> JStr ''RunPlan'' \<or> jat request [''kind''] \<noteq> JStr ''ModelRequest'' \<or> jat endpoint [''kind''] \<noteq> JStr ''EndpointBinding''
        \<or> jat input [''kind''] \<noteq> JStr ''ArtifactRecord'' \<or> jat d [''kind''] \<noteq> JStr ''PolicyDecision'' then store_error ''ECO_STORE_RECORD_INVALID''
     else bindE (check_proof e input (Some proof)) (\<lambda>_.
     bindE (require_plan_profile e plan) (\<lambda>_.
     bindE (require_decision_profile e d (jat plan [''spec'', ''project'', ''semanticConfigDigest''])) (\<lambda>_.
     if pricing_wrong plan endpoint cost then store_error ''ECO_PRICING_AUTHORITY_REQUIRED''
     else bindE (endpoint_time e (jat endpoint [''metadata'', ''resolvedAt''])) (\<lambda>resolved.
     bindE (endpoint_time e (jat endpoint [''metadata'', ''validUntil''])) (\<lambda>valid.
     if model_binding_wrong e plan request endpoint input d then store_error ''ECO_MODEL_BINDING_INVALID'' else Inr (resolved, valid)))))))"

definition call_tokens :: "json \<Rightarrow> int" where
  "call_tokens request = the_int (jat request [''spec'', ''input'', ''byteLength'']) + the_int (jat request [''spec'', ''parameters'', ''maxOutputTokens''])"

definition call_output :: "json \<Rightarrow> int" where
  "call_output request = the_int (jat request [''spec'', ''parameters'', ''maxOutputBytes''])"

definition same_call :: "model_row \<Rightarrow> charge_row option \<Rightarrow> model_row \<Rightarrow> charge_row \<Rightarrow> bool" where
  "same_call m c m' c' \<longleftrightarrow> mo_request_digest m = mo_request_digest m' \<and> mo_plan_digest m = mo_plan_digest m'
     \<and> mo_endpoint_digest m = mo_endpoint_digest m' \<and> mo_input_digest m = mo_input_digest m' \<and> mo_decision_digest m = mo_decision_digest m'
     \<and> (case c of None \<Rightarrow> False | Some x \<Rightarrow> ch_plan_digest x = ch_plan_digest c' \<and> ch_output_bytes x = ch_output_bytes c'
          \<and> ch_total_tokens x = ch_total_tokens c' \<and> ch_cost x = ch_cost c')"

definition model_row_of :: "store_env \<Rightarrow> json \<Rightarrow> json \<Rightarrow> json \<Rightarrow> json \<Rightarrow> json \<Rightarrow> string \<Rightarrow> string \<Rightarrow> model_row" where
  "model_row_of e plan request endpoint input d key at = \<lparr>mo_run_id = the_str (jat plan [''metadata'', ''runId'']), mo_idempotency = key,
     mo_request_digest = digest_of e request, mo_plan_digest = digest_of e plan, mo_endpoint_digest = digest_of e endpoint,
     mo_input_digest = digest_of e input, mo_decision_digest = digest_of e d, mo_state = ModelPrepared, mo_started_at = None,
     mo_resume_decision = None, mo_final_decision = None, mo_result_digest = None, mo_output_digest = None, mo_error_digest = None,
     mo_created_at = at, mo_updated_at = at\<rparr>"

definition charge_row_of :: "store_env \<Rightarrow> json \<Rightarrow> json \<Rightarrow> int \<Rightarrow> string \<Rightarrow> charge_row" where
  "charge_row_of e plan request cost at = \<lparr>ch_run_id = the_str (jat plan [''metadata'', ''runId'']), ch_plan_digest = digest_of e plan,
     ch_output_bytes = call_output request, ch_total_tokens = call_tokens request, ch_cost = cost, ch_actual_output = None,
     ch_actual_tokens = None, ch_charged_tokens = None, ch_charged_cost = None, ch_state = ChargeReserved, ch_created_at = at, ch_updated_at = at\<rparr>"

text \<open>\<open>SELECT COALESCE(SUM(...), 0) ... WHERE run_id = ? AND state = 'reserved'\<close>.\<close>

definition outstanding :: "(charge_row \<Rightarrow> int) \<Rightarrow> string \<Rightarrow> rstore \<Rightarrow> int" where
  "outstanding f run s = sum_list (map (f \<circ> snd) (filter (\<lambda>(i, c). ch_run_id c = run \<and> ch_state c = ChargeReserved) (t_charges s)))"

definition call_affordable :: "string \<Rightarrow> string \<Rightarrow> charge_row \<Rightarrow> rstore \<Rightarrow> bool" where
  "call_affordable run digest c s \<longleftrightarrow>
     (case map_of (t_budgets s) run of None \<Rightarrow> False
      | Some b \<Rightarrow> bu_plan_digest b = digest \<and> bu_model_requests b + 1 \<le> maxModelRequests (bu_limits b)
          \<and> bu_output_bytes b + outstanding ch_output_bytes run s + ch_output_bytes c \<le> maxOutputBytes (bu_limits b)
          \<and> bu_total_tokens b + outstanding ch_total_tokens run s + ch_total_tokens c \<le> maxTotalTokens (bu_limits b)
          \<and> bu_cost b + outstanding ch_cost run s + ch_cost c \<le> maxCostMicrousd (bu_limits b))"

definition insert_model :: "string \<Rightarrow> model_row \<Rightarrow> charge_row \<Rightarrow> unit stx" where
  "insert_model i m c s =
     (if i \<in> dict_keys (t_models s) \<or> ch_output_bytes c < 0 \<or> ch_total_tokens c < 0 \<or> ch_cost c < 0 then Inl SqliteIntegrityError
      else Inr ((), s\<lparr>t_models := t_models s @ [(i, m)], t_charges := t_charges s @ [(i, c)]\<rparr>))"

text \<open>The decision is spent, the records are kept, the request is counted and the reservation is made.\<close>

definition reserve_call :: "store_env \<Rightarrow> string \<Rightarrow> json \<Rightarrow> json \<Rightarrow> json \<Rightarrow> json \<Rightarrow> model_row \<Rightarrow> charge_row \<Rightarrow> int \<Rightarrow> unit stx" where
  "reserve_call e tx request endpoint input d m c now =
     (let i = the_str (jat request [''metadata'', ''id'']); run = mo_run_id m; at = ce_iso e now in
      bindT (issue_decision_tx e tx d) (\<lambda>_.
      bindT (consume_decision_tx e tx d (mo_request_digest m) i now) (\<lambda>_.
      bindT (eachT (\<lambda>r. bindT (record_if_new e tx r) (\<lambda>_. returnT ())) [endpoint, input, request]) (\<lambda>_.
      bindT (update_budget run (\<lambda>b. bu_plan_digest b = mo_plan_digest m \<and> bu_deadline_us b > sx_epoch e now
          \<and> bu_model_requests b + 1 \<le> maxModelRequests (bu_limits b))
        (\<lambda>b. b\<lparr>bu_model_requests := bu_model_requests b + 1, bu_updated_at := at\<rparr>) ''ECO_BUDGET_EXHAUSTED'') (\<lambda>_.
      bindT (insert_model i m c) (\<lambda>_.
        record_revisions e tx at [(''budget'', run), (''model-operation'', i), (''model-reservation'', i)]))))))"

text \<open>\<open>Inl\<close>: the call that was prepared before with the same key; \<open>Inr\<close>: the digest of the newly prepared request.\<close>

definition prepare_model_invocation ::
    "store_env \<Rightarrow> string \<Rightarrow> json \<Rightarrow> json \<Rightarrow> json \<Rightarrow> json \<Rightarrow> json \<Rightarrow> availability_proof \<Rightarrow> string \<Rightarrow> int \<Rightarrow> int \<Rightarrow> nat \<Rightarrow> nat \<Rightarrow> nat
      \<Rightarrow> (model_row + string) stx" where
  "prepare_model_invocation e tx plan request endpoint input d proof key cost now policy runtime adapter =
     bindT (liftT (require_policy e policy)) (\<lambda>_.
     bindT (liftT (require_runtime e runtime)) (\<lambda>_.
     bindT (liftT (require_adapter e adapter)) (\<lambda>_.
     bindT (liftT (if cost < 0 then Inl PyValueError else Inr ())) (\<lambda>_.
     bindT (liftT (model_idempotency_digest e key)) (\<lambda>kd.
     bindT (liftT (checked_call e plan request endpoint input d proof cost)) (\<lambda>(resolved, valid).
     let run = the_str (jat plan [''metadata'', ''runId'']); m = model_row_of e plan request endpoint input d kd (ce_iso e now);
         c = charge_row_of e plan request cost (ce_iso e now) in
     bindT (readT (\<lambda>s. find (\<lambda>(k, x). mo_run_id x = run \<and> mo_idempotency x = kd) (t_models s))) (\<lambda>existing.
     case existing of
       Some (k, x) \<Rightarrow>
         bindT (readT (\<lambda>s. map_of (t_charges s) k)) (\<lambda>charge.
         bindT (refuseT (\<not> same_call x charge m c) ''ECO_IDEMPOTENCY_CONFLICT'') (\<lambda>_. returnT (Inl x)))
     | None \<Rightarrow>
         bindT (refuseT (\<not> (resolved \<le> now \<and> now < valid)) ''ECO_ENDPOINT_BINDING_EXPIRED'') (\<lambda>_.
         bindT (readT (\<lambda>s. list_ex (\<lambda>(k, x). mo_request_digest x = mo_request_digest m) (t_models s))) (\<lambda>twice.
         bindT (refuseT twice ''ECO_OPERATION_SUBJECT_CONFLICT'') (\<lambda>_.
         bindT (live_plan e run (the_str (jat plan [''metadata'', ''id''])) (mo_plan_digest m) now) (\<lambda>_.
         bindT (readT (call_affordable run (mo_plan_digest m) c)) (\<lambda>ok.
         bindT (refuseT (\<not> ok) ''ECO_BUDGET_EXHAUSTED'') (\<lambda>_.
         bindT (reserve_call e tx request endpoint input d m c now) (\<lambda>_. returnT (Inr (mo_request_digest m))))))))))))))))"

section \<open>The egress fence\<close>

definition model_operation_status :: "string \<Rightarrow> model_row stx" where
  "model_operation_status i = bindT (readT t_models) (\<lambda>ms. neededT (map_of ms i) ''ECO_MODEL_OPERATION_UNKNOWN'')"

text \<open>\<open>UPDATE model_operations ... WHERE request_id = ?\<close>, on a row the transaction has read.\<close>

definition write_model :: "string \<Rightarrow> model_row \<Rightarrow> unit stx" where
  "write_model i m = writeT (\<lambda>s. s\<lparr>t_models := dict_set i m (t_models s)\<rparr>)"

definition write_charge :: "string \<Rightarrow> charge_row \<Rightarrow> unit stx" where
  "write_charge i c = writeT (\<lambda>s. s\<lparr>t_charges := dict_set i c (t_charges s)\<rparr>)"

definition cross_fence :: "store_env \<Rightarrow> string \<Rightarrow> string \<Rightarrow> model_row \<Rightarrow> string option \<Rightarrow> string \<Rightarrow> (model_row \<times> bool) stx" where
  "cross_fence e tx i m resume at =
     bindT (write_model i (m\<lparr>mo_state := ModelStarted, mo_started_at := Some at, mo_resume_decision := resume, mo_updated_at := at\<rparr>)) (\<lambda>_.
     bindT (record_revision e tx at ''model-operation'' i) (\<lambda>_.
     bindT (model_operation_status i) (\<lambda>row. returnT (row, False))))"

definition start_model_invocation :: "store_env \<Rightarrow> string \<Rightarrow> string \<Rightarrow> int \<Rightarrow> nat \<Rightarrow> (model_row \<times> bool) stx" where
  "start_model_invocation e tx i now adapter =
     bindT (liftT (require_adapter e adapter)) (\<lambda>_.
     bindT (model_operation_status i) (\<lambda>m.
     bindT (refuseT (mo_state m = ModelStarted) ''ECO_MODEL_INVOCATION_AMBIGUOUS'') (\<lambda>_.
     if mo_state m \<noteq> ModelPrepared then returnT (m, True)
     else bindT (require_live_run e (mo_run_id m) now) (\<lambda>_. cross_fence e tx i m (mo_resume_decision m) (ce_iso e now)))))"

definition plan_of_digest :: "string \<Rightarrow> json stx" where
  "plan_of_digest digest =
     bindT (readT (\<lambda>s. find (\<lambda>(k, p). pn_digest p = digest) (t_plans s))) (\<lambda>row.
     bindT (neededT row ''ECO_PLAN_UNTRUSTED'') (\<lambda>(k, _). load_record k))"

definition call_authority_wrong :: "string \<Rightarrow> model_row \<Rightarrow> json \<Rightarrow> bool" where
  "call_authority_wrong i m d \<longleftrightarrow> jat d [''metadata'', ''runId''] \<noteq> JStr (mo_run_id m) \<or> jat d [''spec'', ''effect''] \<noteq> JStr ''allow''
     \<or> \<not> json_eq (jat d [''spec'', ''subject'']) (call_subject i (mo_request_digest m))"

definition resume_prepared_model_invocation :: "store_env \<Rightarrow> string \<Rightarrow> json \<Rightarrow> json \<Rightarrow> int \<Rightarrow> nat \<Rightarrow> nat \<Rightarrow> (model_row \<times> bool) stx" where
  "resume_prepared_model_invocation e tx request d now policy adapter =
     bindT (liftT (require_policy e policy)) (\<lambda>_.
     bindT (liftT (require_adapter e adapter)) (\<lambda>_.
     bindT (liftT (stored_valid e [request, d])) (\<lambda>_.
     bindT (refuseT (jat request [''kind''] \<noteq> JStr ''ModelRequest'' \<or> jat d [''kind''] \<noteq> JStr ''PolicyDecision'') ''ECO_STORE_RECORD_INVALID'') (\<lambda>_.
     let i = the_str (jat request [''metadata'', ''id'']); dd = digest_of e d in
     bindT (model_operation_status i) (\<lambda>m.
     bindT (refuseT (mo_state m = ModelStarted) ''ECO_MODEL_INVOCATION_AMBIGUOUS'') (\<lambda>_.
     if mo_state m \<noteq> ModelPrepared then returnT (m, True)
     else
       bindT (plan_of_digest (mo_plan_digest m)) (\<lambda>plan.
       bindT (liftT (require_decision_profile e d (jat plan [''spec'', ''project'', ''semanticConfigDigest'']))) (\<lambda>_.
       bindT (refuseT (digest_of e request \<noteq> mo_request_digest m \<or> call_authority_wrong i m d) ''ECO_MODEL_BINDING_INVALID'') (\<lambda>_.
       bindT (require_live_run e (mo_run_id m) now) (\<lambda>_.
       bindT (issue_decision_tx e tx d) (\<lambda>_.
       bindT (consume_decision_tx e tx d (digest_of e request) (decision_nonce e ''resume-'' i dd) now) (\<lambda>_.
         cross_fence e tx i m (Some dd) (ce_iso e now)))))))))))))"

definition ABORT_REASONS :: "string set" where
  "ABORT_REASONS = {''cancelled'', ''deadline-expired'', ''endpoint-expired''}"

definition model_error :: "store_env \<Rightarrow> string \<Rightarrow> string \<Rightarrow> string \<Rightarrow> obj \<Rightarrow> json" where
  "model_error e i run at spec = JObj [(''apiVersion'', JStr ''runtime.ai.ecosystem/v1alpha1''), (''kind'', JStr ''ErrorRecord''),
     (''metadata'', JObj [(''id'', JStr (''error-'' @ request_id_digest e i)), (''runId'', JStr run), (''requestId'', JStr i), (''createdAt'', JStr at)]),
     (''spec'', JObj spec)]"

definition model_error_spec :: "string \<Rightarrow> string \<Rightarrow> string \<Rightarrow> obj" where
  "model_error_spec code category message = [(''code'', JStr code), (''category'', JStr category), (''stage'', JStr ''model''),
     (''retryable'', JBool False), (''safeMessage'', JStr message)]"

definition abort_error :: "store_env \<Rightarrow> string \<Rightarrow> string \<Rightarrow> string \<Rightarrow> json" where
  "abort_error e i run at = model_error e i run at
     (model_error_spec ''ECO_MODEL_PREPARED_ABORTED'' ''internal'' ''Prepared model invocation was aborted before egress'')"

text \<open>A repeated abort answers with the row when the recorded failure is an abort.\<close>

definition repeated_abort :: "model_row \<Rightarrow> (model_row \<times> bool) stx" where
  "repeated_abort m =
     bindT (readT (\<lambda>s. case mo_error_digest m of None \<Rightarrow> None | Some x \<Rightarrow> record_by_digest x s)) (\<lambda>row.
     bindT (refuseT (case row of None \<Rightarrow> True | Some r \<Rightarrow> jat (rr_record r) [''spec'', ''code''] \<noteq> JStr ''ECO_MODEL_PREPARED_ABORTED'')
       ''ECO_OPERATION_CONFLICT'') (\<lambda>_. returnT (m, True)))"

text \<open>The clock, the observed reason and the reservation; the answer is the reservation.\<close>

definition abort_observed :: "store_env \<Rightarrow> string \<Rightarrow> model_row \<Rightarrow> string \<Rightarrow> int \<Rightarrow> charge_row stx" where
  "abort_observed e i m reason now =
     bindT (readT (\<lambda>s. (map_of (t_runs s) (mo_run_id m), record_by_digest (mo_endpoint_digest m) s, map_of (t_charges s) i))) (\<lambda>(r, endpoint, c).
     bindT (refuseT (r = None \<or> endpoint = None \<or> c = None) ''ECO_JOURNAL_CORRUPT'') (\<lambda>_.
     bindT (liftT (store_time e (JStr (ru_updated_at (the r))))) (\<lambda>updated.
     bindT (refuseT (updated > now) ''ECO_CLOCK_ROLLBACK'') (\<lambda>_.
     bindT (if reason = ''deadline-expired'' then (case ru_deadline_us (the r) of None \<Rightarrow> raiseT PyTypeError
         | Some t \<Rightarrow> refuseT (t > sx_epoch e now) ''ECO_MODEL_ABORT_NOT_OBSERVED'') else returnT ()) (\<lambda>_.
     bindT (if reason = ''endpoint-expired'' then bindT (liftT (store_time e (jat (rr_record (the endpoint)) [''metadata'', ''validUntil'']))) (\<lambda>valid.
         refuseT (valid > now) ''ECO_MODEL_ABORT_NOT_OBSERVED'') else returnT ()) (\<lambda>_.
     bindT (refuseT (ch_state (the c) \<noteq> ChargeReserved) ''ECO_RESERVATION_INVALID'') (\<lambda>_. returnT (the c))))))))"

text \<open>The writes of an abort: nothing is charged.\<close>

definition abort_call :: "store_env \<Rightarrow> string \<Rightarrow> string \<Rightarrow> model_row \<Rightarrow> charge_row \<Rightarrow> int \<Rightarrow> (model_row \<times> bool) stx" where
  "abort_call e tx i m c now =
     (let at = ce_iso e now; error = abort_error e i (mo_run_id m) at in
      bindT (liftT (validate_runtime_record e error)) (\<lambda>_.
      bindT (record_if_new e tx error) (\<lambda>_.
      bindT (write_charge i (c\<lparr>ch_actual_output := None, ch_actual_tokens := None, ch_charged_tokens := Some 0, ch_charged_cost := Some 0,
        ch_state := ChargeCommitted, ch_updated_at := at\<rparr>)) (\<lambda>_.
      bindT (write_model i (m\<lparr>mo_state := ModelFailed, mo_error_digest := Some (digest_of e error), mo_updated_at := at\<rparr>)) (\<lambda>_.
      bindT (set_nonce_result i (digest_of e error)) (\<lambda>_.
      bindT (record_revisions e tx at [(''model-operation'', i), (''model-reservation'', i)]) (\<lambda>_.
      bindT (model_operation_status i) (\<lambda>row. returnT (row, False)))))))))"

definition abort_prepared_model_invocation :: "store_env \<Rightarrow> string \<Rightarrow> json \<Rightarrow> string \<Rightarrow> int \<Rightarrow> nat \<Rightarrow> (model_row \<times> bool) stx" where
  "abort_prepared_model_invocation e tx request reason now runtime =
     bindT (liftT (require_runtime e runtime)) (\<lambda>_.
     bindT (liftT (if reason \<in> ABORT_REASONS then Inr () else Inl PyValueError)) (\<lambda>_.
     bindT (liftT (stored_valid e [request])) (\<lambda>_.
     bindT (refuseT (jat request [''kind''] \<noteq> JStr ''ModelRequest'') ''ECO_STORE_RECORD_INVALID'') (\<lambda>_.
     let i = the_str (jat request [''metadata'', ''id'']) in
     bindT (model_operation_status i) (\<lambda>m.
     bindT (refuseT (mo_request_digest m \<noteq> digest_of e request) ''ECO_MODEL_BINDING_INVALID'') (\<lambda>_.
     if mo_state m = ModelFailed then repeated_abort m
     else
       bindT (refuseT (mo_state m \<in> {ModelStarted, ModelAmbiguous}) ''ECO_MODEL_INVOCATION_AMBIGUOUS'') (\<lambda>_.
       bindT (refuseT (mo_state m \<noteq> ModelPrepared) ''ECO_OPERATION_CONFLICT'') (\<lambda>_.
       bindT (abort_observed e i m reason now) (\<lambda>c. abort_call e tx i m c now)))))))))"

section \<open>Settlement\<close>

text \<open>The rows of a settled call, the result of its nonce, its event and the revisions.\<close>

definition close_call :: "store_env \<Rightarrow> string \<Rightarrow> string \<Rightarrow> model_row \<Rightarrow> charge_row \<Rightarrow> string \<Rightarrow> event_request \<Rightarrow> int \<Rightarrow> (model_row \<times> bool) stx" where
  "close_call e tx i m c result q now =
     bindT (write_charge i c) (\<lambda>_.
     bindT (write_model i m) (\<lambda>_.
     bindT (set_nonce_result i result) (\<lambda>_.
     bindT (append_event_tx e tx now (mo_run_id m) q) (\<lambda>_.
     bindT (record_revisions e tx (ce_iso e now) [(''budget'', mo_run_id m), (''model-operation'', i), (''model-reservation'', i)]) (\<lambda>_.
     bindT (model_operation_status i) (\<lambda>row. returnT (row, False)))))))"

definition adapter_result :: "string \<Rightarrow> nat \<Rightarrow> string \<Rightarrow> string \<Rightarrow> string \<Rightarrow> event_request" where
  "adapter_result typ cap sid sdig rdig = \<lparr>eq_type = typ, eq_producer = ''adapter'', eq_capability = cap, eq_subject_id = Some sid,
     eq_subject_digest = Some sdig, eq_result_digest = Some rdig\<rparr>"

definition running_plan :: "store_env \<Rightarrow> model_row \<Rightarrow> int \<Rightarrow> unit stx" where
  "running_plan e m now =
     bindT (readT (\<lambda>s. map_of (t_runs s) (mo_run_id m))) (\<lambda>r.
     bindT (refuseT (case r of None \<Rightarrow> True | Some x \<Rightarrow> ru_state x \<noteq> RUNNING \<or> ru_plan_digest x \<noteq> Some (mo_plan_digest m)) ''ECO_PLAN_NOT_ACTIVE'') (\<lambda>_.
     bindT (liftT (store_time e (JStr (ru_updated_at (the r))))) (\<lambda>updated. refuseT (updated > now) ''ECO_PLAN_NOT_ACTIVE'')))"

definition needed_record :: "string \<Rightarrow> json stx" where
  "needed_record digest =
     bindT (readT (record_by_digest digest)) (\<lambda>row. bindT (neededT row ''ECO_JOURNAL_CORRUPT'') (\<lambda>r. returnT (rr_record r)))"

definition find_charge :: "string \<Rightarrow> charge_row stx" where
  "find_charge i = bindT (readT t_charges) (\<lambda>cs. bindT (neededT (map_of cs i) ''ECO_RESERVATION_INVALID'') (\<lambda>c.
     bindT (refuseT (ch_state c \<noteq> ChargeReserved) ''ECO_RESERVATION_INVALID'') (\<lambda>_. returnT c)))"

definition result_wrong :: "store_env \<Rightarrow> string \<Rightarrow> model_row \<Rightarrow> json \<Rightarrow> json \<Rightarrow> json \<Rightarrow> string \<Rightarrow> bool" where
  "result_wrong e i m request endpoint result at \<longleftrightarrow>
     (let rm = jat result [''metadata'']; rs = jat result [''spec''] in
      jat rm [''runId''] \<noteq> JStr (mo_run_id m) \<or> jat rm [''requestId''] \<noteq> JStr i \<or> jat rm [''createdAt''] \<noteq> JStr at
      \<or> jat rs [''modelRequestDigest''] \<noteq> JStr (mo_request_digest m) \<or> jat rs [''deploymentId''] \<noteq> jat request [''spec'', ''deploymentId'']
      \<or> jat rs [''deploymentIdentityDigest''] \<noteq> jat request [''spec'', ''deploymentIdentityDigest'']
      \<or> jat rs [''endpointBindingDigest''] \<noteq> JStr (mo_endpoint_digest m) \<or> jat rs [''adapterVersion''] \<noteq> jat endpoint [''spec'', ''adapterVersion''])"

definition model_output_id :: "store_env \<Rightarrow> string \<Rightarrow> string" where
  "model_output_id e i = ''model-output-'' @ request_id_digest e i"

definition output_wrong :: "store_env \<Rightarrow> string \<Rightarrow> model_row \<Rightarrow> json \<Rightarrow> json \<Rightarrow> json \<Rightarrow> json \<Rightarrow> string \<Rightarrow> bool" where
  "output_wrong e i m request input output a at \<longleftrightarrow>
     (let am = jat a [''metadata'']; s = jat a [''spec'']; oid = model_output_id e i in
      jat am [''id''] \<noteq> JStr oid \<or> jat am [''runId''] \<noteq> JStr (mo_run_id m) \<or> jat am [''createdAt''] \<noteq> JStr at \<or> jat s [''role''] \<noteq> JStr ''output''
      \<or> jat s [''mediaType''] \<noteq> JStr ''text/plain'' \<or> jat s [''byteLength''] \<noteq> jat output [''byteLength''] \<or> jat s [''sha256''] \<noteq> jat output [''contentDigest'']
      \<or> jat s [''dataClass''] \<noteq> jat output [''dataClass''] \<or> jat s [''trust''] \<noteq> JStr ''P0''
      \<or> \<not> json_eq (jat s [''producer'']) (JObj [(''type'', JStr ''model''), (''id'', jat request [''spec'', ''deploymentId''])])
      \<or> jat s [''parentRefs''] \<noteq> JList [jat input [''spec'', ''storageRef'']]
      \<or> jat s [''storageRef''] \<noteq> JStr (''artifact://runs/'' @ mo_run_id m @ ''/'' @ oid) \<or> jat s [''retention''] \<noteq> JStr ''run'')"

definition settled_budget :: "int \<Rightarrow> charge_row \<Rightarrow> string \<Rightarrow> budget_row \<Rightarrow> budget_row" where
  "settled_budget n c at b = b\<lparr>bu_output_bytes := bu_output_bytes b + n, bu_total_tokens := bu_total_tokens b + ch_total_tokens c,
     bu_cost := bu_cost b + ch_cost c, bu_updated_at := at\<rparr>"

text \<open>What a completion reads and checks of the call: the answer is its reservation.\<close>

definition completion_checks :: "store_env \<Rightarrow> string \<Rightarrow> model_row \<Rightarrow> json \<Rightarrow> json \<Rightarrow> json \<Rightarrow> int \<Rightarrow> charge_row stx" where
  "completion_checks e i m result a d now =
     bindT (running_plan e m now) (\<lambda>_.
     bindT (load_record i) (\<lambda>request.
     bindT (plan_of_digest (mo_plan_digest m)) (\<lambda>plan.
     bindT (liftT (require_decision_profile e d (jat plan [''spec'', ''project'', ''semanticConfigDigest'']))) (\<lambda>_.
     bindT (refuseT (call_authority_wrong i m d) ''ECO_MODEL_BINDING_INVALID'') (\<lambda>_.
     bindT (needed_record (mo_input_digest m)) (\<lambda>input.
     bindT (needed_record (mo_endpoint_digest m)) (\<lambda>endpoint.
     bindT (refuseT (result_wrong e i m request endpoint result (ce_iso e now)
         \<or> output_wrong e i m request input (jat result [''spec'', ''output'']) a (ce_iso e now)) ''ECO_MODEL_BINDING_INVALID'') (\<lambda>_.
     bindT (find_charge i) (\<lambda>c.
     bindT (refuseT (the_int (jat result [''spec'', ''output'', ''byteLength'']) > ch_output_bytes c
         \<or> the_int (jat result [''spec'', ''usage'', ''totalTokens'']) > ch_total_tokens c) ''ECO_RESERVATION_INVALID'') (\<lambda>_. returnT c))))))))))"

definition settle_call :: "store_env \<Rightarrow> string \<Rightarrow> string \<Rightarrow> model_row \<Rightarrow> charge_row \<Rightarrow> json \<Rightarrow> json \<Rightarrow> json \<Rightarrow> int \<Rightarrow> nat \<Rightarrow> (model_row \<times> bool) stx" where
  "settle_call e tx i m c result a d now adapter =
     (let at = ce_iso e now; n = the_int (jat result [''spec'', ''output'', ''byteLength'']); ad = digest_of e a; dd = digest_of e d in
      bindT (record_if_new e tx result) (\<lambda>_.
      bindT (record_if_new e tx a) (\<lambda>_.
      bindT (issue_decision_tx e tx d) (\<lambda>_.
      bindT (consume_decision_tx e tx d (mo_request_digest m) (decision_nonce e ''finalize-'' i dd) now) (\<lambda>_.
      bindT (update_budget (mo_run_id m) (\<lambda>b. bu_output_bytes b + n \<le> maxOutputBytes (bu_limits b)
          \<and> bu_total_tokens b + ch_total_tokens c \<le> maxTotalTokens (bu_limits b) \<and> bu_cost b + ch_cost c \<le> maxCostMicrousd (bu_limits b))
        (settled_budget n c at) ''ECO_RESERVATION_INVALID'') (\<lambda>_.
      bindT (constraintT (n \<ge> 0 \<and> the_int (jat result [''spec'', ''usage'', ''totalTokens'']) \<ge> 0)) (\<lambda>_.
        close_call e tx i (m\<lparr>mo_state := ModelSucceeded, mo_result_digest := Some (digest_of e result), mo_output_digest := Some ad,
            mo_final_decision := Some dd, mo_updated_at := at\<rparr>)
          (c\<lparr>ch_actual_output := Some n, ch_actual_tokens := Some (the_int (jat result [''spec'', ''usage'', ''totalTokens''])),
            ch_charged_tokens := Some (ch_total_tokens c), ch_charged_cost := Some (ch_cost c), ch_state := ChargeCommitted, ch_updated_at := at\<rparr>)
          (digest_of e result) (adapter_result ''artifact.recorded'' adapter (the_str (jat a [''metadata'', ''id''])) ad ad) now)))))))"

definition complete_model_invocation ::
    "store_env \<Rightarrow> string \<Rightarrow> string \<Rightarrow> json \<Rightarrow> json \<Rightarrow> json \<Rightarrow> availability_proof \<Rightarrow> int \<Rightarrow> nat \<Rightarrow> (model_row \<times> bool) stx" where
  "complete_model_invocation e tx i result a d proof now adapter =
     bindT (liftT (require_adapter e adapter)) (\<lambda>_.
     bindT (liftT (stored_valid e [result, a, d])) (\<lambda>_.
     bindT (refuseT (jat result [''kind''] \<noteq> JStr ''ModelResult'' \<or> jat a [''kind''] \<noteq> JStr ''ArtifactRecord''
         \<or> jat d [''kind''] \<noteq> JStr ''PolicyDecision'') ''ECO_STORE_RECORD_INVALID'') (\<lambda>_.
     bindT (liftT (check_proof e a (Some proof))) (\<lambda>_.
     bindT (model_operation_status i) (\<lambda>m.
     if mo_state m = ModelSucceeded
     then bindT (refuseT (mo_result_digest m \<noteq> Some (digest_of e result) \<or> mo_output_digest m \<noteq> Some (digest_of e a)) ''ECO_OPERATION_CONFLICT'')
       (\<lambda>_. returnT (m, True))
     else
       bindT (refuseT (mo_state m \<noteq> ModelStarted) ''ECO_MODEL_INVOCATION_AMBIGUOUS'') (\<lambda>_.
       bindT (completion_checks e i m result a d now) (\<lambda>c. settle_call e tx i m c result a d now adapter)))))))"

definition SAFE_MODEL_ERROR_MESSAGES :: "(string \<times> string) list" where
  "SAFE_MODEL_ERROR_MESSAGES = [(''ECO_ADAPTER_OUTPUT_LIMIT'', ''Model output exceeded the approved limit''),
     (''ECO_ADAPTER_RESPONSE_INVALID'', ''Model response failed adapter validation''), (''ECO_ADAPTER_TIMEOUT'', ''Model invocation timed out''),
     (''ECO_ADAPTER_TRANSPORT'', ''Model transport failed''), (''ECO_ENDPOINT_BINDING_EXPIRED'', ''Approved endpoint binding expired''),
     (''ECO_DEADLINE_EXCEEDED'', ''Model invocation completed after its approved deadline''),
     (''ECO_MODEL_INPUT_MISMATCH'', ''Model input did not match its approved binding''),
     (''ECO_MODEL_FINALIZATION_DENIED'', ''Model output failed the current policy gate''),
     (''ECO_MODEL_REQUEST_INVALID'', ''Model request failed adapter validation''),
     (''ECO_MODEL_ROUTE_MISMATCH'', ''Model route did not match its approved binding'')]"

text \<open>\<open>ECO_[A-Z0-9_]+\<close> under \<open>fullmatch\<close>.\<close>

definition policy_rule_text :: "json \<Rightarrow> bool" where
  "policy_rule_text v = (case v of JStr x \<Rightarrow> length x > 4 \<and> take 4 x = ''ECO_'' \<and> list_all (\<lambda>c. is_upper c \<or> is_digit c \<or> c = CHR ''_'') (drop 4 x) | _ \<Rightarrow> False)"

definition failure_spec :: "json \<Rightarrow> json \<Rightarrow> string \<Rightarrow> json" where
  "failure_spec request error message =
     (let code = the_str (jat error [''spec'', ''code'']) in
      JObj (model_error_spec code (if code = ''ECO_MODEL_FINALIZATION_DENIED'' then ''policy'' else if code = ''ECO_DEADLINE_EXCEEDED'' then ''budget'' else ''adapter'') message
        @ [(''details'', JObj [if code = ''ECO_MODEL_FINALIZATION_DENIED'' then (''policyRule'', jat error [''spec'', ''details'', ''policyRule''])
             else (''deploymentId'', jat request [''spec'', ''deploymentId''])])]))"

definition failure_wrong :: "store_env \<Rightarrow> string \<Rightarrow> model_row \<Rightarrow> json \<Rightarrow> json \<Rightarrow> string \<Rightarrow> bool" where
  "failure_wrong e i m request error at \<longleftrightarrow>
     (let code = the_str (jat error [''spec'', ''code'']) in
      case map_of SAFE_MODEL_ERROR_MESSAGES code of
        None \<Rightarrow> True
      | Some message \<Rightarrow>
          (code = ''ECO_MODEL_FINALIZATION_DENIED'' \<and> \<not> policy_rule_text (jat error [''spec'', ''details'', ''policyRule'']))
          \<or> \<not> json_eq (jat error [''metadata'']) (jat (model_error e i (mo_run_id m) at []) [''metadata''])
          \<or> \<not> json_eq (jat error [''spec'']) (failure_spec request error message))"

text \<open>A call that crossed the fence and has no output: its whole reservation of tokens and cost is charged.\<close>

definition charge_ceiling :: "store_env \<Rightarrow> string \<Rightarrow> string \<Rightarrow> model_row \<Rightarrow> charge_row \<Rightarrow> model_state \<Rightarrow> json \<Rightarrow> int \<Rightarrow> nat \<Rightarrow> (model_row \<times> bool) stx" where
  "charge_ceiling e tx i m c st error now adapter =
     (let at = ce_iso e now; ed = digest_of e error in
      bindT (record_if_new e tx error) (\<lambda>_.
      bindT (update_budget (mo_run_id m) (\<lambda>b. bu_total_tokens b + ch_total_tokens c \<le> maxTotalTokens (bu_limits b)
          \<and> bu_cost b + ch_cost c \<le> maxCostMicrousd (bu_limits b)) (settled_budget 0 c at) ''ECO_RESERVATION_INVALID'') (\<lambda>_.
        close_call e tx i (m\<lparr>mo_state := st, mo_error_digest := Some ed, mo_updated_at := at\<rparr>)
          (c\<lparr>ch_actual_output := None, ch_actual_tokens := None, ch_charged_tokens := Some (ch_total_tokens c),
            ch_charged_cost := Some (ch_cost c), ch_state := ChargeUncertain, ch_updated_at := at\<rparr>)
          ed (adapter_result ''adapter.failed'' adapter i (mo_request_digest m) ed) now)))"

definition fail_model_invocation :: "store_env \<Rightarrow> string \<Rightarrow> string \<Rightarrow> json \<Rightarrow> int \<Rightarrow> nat \<Rightarrow> (model_row \<times> bool) stx" where
  "fail_model_invocation e tx i error now adapter =
     bindT (liftT (require_adapter e adapter)) (\<lambda>_.
     bindT (liftT (stored_valid e [error])) (\<lambda>_.
     bindT (refuseT (jat error [''kind''] \<noteq> JStr ''ErrorRecord'') ''ECO_STORE_RECORD_INVALID'') (\<lambda>_.
     bindT (model_operation_status i) (\<lambda>m.
     if mo_state m = ModelFailed
     then bindT (refuseT (mo_error_digest m \<noteq> Some (digest_of e error)) ''ECO_OPERATION_CONFLICT'') (\<lambda>_. returnT (m, True))
     else
       bindT (refuseT (mo_state m \<noteq> ModelStarted) ''ECO_MODEL_INVOCATION_AMBIGUOUS'') (\<lambda>_.
       bindT (running_plan e m now) (\<lambda>_.
       bindT (load_record i) (\<lambda>request.
       bindT (refuseT (failure_wrong e i m request error (ce_iso e now)) ''ECO_MODEL_BINDING_INVALID'') (\<lambda>_.
       bindT (find_charge i) (\<lambda>c. charge_ceiling e tx i m c ModelFailed error now adapter)))))))))"

section \<open>Recovery of model calls\<close>

record started_call =
  sc_request :: string
  sc_run :: string
  sc_digest :: string
  sc_started_at :: "string option"
  sc_output :: int
  sc_tokens :: int
  sc_cost :: int

definition scan_started_model_invocations :: "store_env \<Rightarrow> nat \<Rightarrow> started_call list stx" where
  "scan_started_model_invocations e runtime =
     bindT (liftT (require_runtime e runtime)) (\<lambda>_.
     readT (\<lambda>s. map (\<lambda>(i, m). let c = the (map_of (t_charges s) i) in \<lparr>sc_request = i, sc_run = mo_run_id m, sc_digest = mo_request_digest m,
         sc_started_at = mo_started_at m, sc_output = ch_output_bytes c, sc_tokens = ch_total_tokens c, sc_cost = ch_cost c\<rparr>)
       (sort_key fst (filter (\<lambda>(i, m). mo_state m = ModelStarted \<and> map_of (t_charges s) i \<noteq> None) (t_models s)))))"

definition MODEL_AMBIGUOUS_MESSAGE :: string where
  "MODEL_AMBIGUOUS_MESSAGE = ''Model invocation outcome is ambiguous after a durable STARTED fence''"

definition ambiguous_error :: "store_env \<Rightarrow> string \<Rightarrow> string \<Rightarrow> json \<Rightarrow> string \<Rightarrow> json" where
  "ambiguous_error e i run request at = model_error e i run at (model_error_spec ''ECO_MODEL_OUTCOME_AMBIGUOUS'' ''internal'' MODEL_AMBIGUOUS_MESSAGE
     @ [(''details'', JObj [(''deploymentId'', jat request [''spec'', ''deploymentId''])])])"

definition resolve_ambiguous_model_invocation :: "store_env \<Rightarrow> string \<Rightarrow> string \<Rightarrow> string \<Rightarrow> int \<Rightarrow> nat \<Rightarrow> nat \<Rightarrow> (model_row \<times> bool) stx" where
  "resolve_ambiguous_model_invocation e tx i observed now runtime adapter =
     bindT (liftT (require_runtime e runtime)) (\<lambda>_.
     bindT (liftT (require_adapter e adapter)) (\<lambda>_.
     bindT (model_operation_status i) (\<lambda>m.
     bindT (refuseT (mo_state m \<notin> {ModelAmbiguous, ModelStarted} \<or> mo_started_at m \<noteq> Some observed) ''ECO_MODEL_OPERATION_FENCED'') (\<lambda>_.
     if mo_state m = ModelAmbiguous then returnT (m, True)
     else
       bindT (load_record i) (\<lambda>request.
       bindT (find_charge i) (\<lambda>c.
       let error = ambiguous_error e i (mo_run_id m) request (ce_iso e now) in
       bindT (liftT (validate_runtime_record e error)) (\<lambda>_. charge_ceiling e tx i m c ModelAmbiguous error now adapter)))))))"

definition output_record_wrong :: "store_env \<Rightarrow> string \<Rightarrow> model_row \<Rightarrow> record_row \<Rightarrow> record_row \<Rightarrow> bool" where
  "output_record_wrong e i m a r \<longleftrightarrow>
     (let artifact = rr_record a; result = rr_record r; spec = jat artifact [''spec'']; output = jat result [''spec'', ''output''] in
      rr_kind a \<noteq> ''ArtifactRecord'' \<or> rr_kind r \<noteq> ''ModelResult'' \<or> digest_of e artifact \<noteq> rr_digest a \<or> digest_of e result \<noteq> rr_digest r
      \<or> jat artifact [''metadata'', ''runId''] \<noteq> JStr (mo_run_id m) \<or> jat result [''metadata'', ''runId''] \<noteq> JStr (mo_run_id m)
      \<or> jat result [''metadata'', ''requestId''] \<noteq> JStr i \<or> jat spec [''role''] \<noteq> JStr ''output'' \<or> jat spec [''mediaType''] \<noteq> JStr ''text/plain''
      \<or> jat spec [''trust''] \<noteq> JStr ''P0'' \<or> jat spec [''producer'', ''type''] \<noteq> JStr ''model'' \<or> jat spec [''sha256''] \<noteq> jat output [''contentDigest'']
      \<or> jat spec [''byteLength''] \<noteq> jat output [''byteLength''] \<or> jat spec [''dataClass''] \<noteq> jat output [''dataClass''])"

definition recover_succeeded_model_output_record :: "store_env \<Rightarrow> string \<Rightarrow> nat \<Rightarrow> json stx" where
  "recover_succeeded_model_output_record e i runtime =
     bindT (liftT (require_runtime e runtime)) (\<lambda>_.
     bindT (liftT (require_owner_id i)) (\<lambda>_.
     bindT (model_operation_status i) (\<lambda>m.
     bindT (refuseT (mo_state m \<noteq> ModelSucceeded \<or> mo_result_digest m = None \<or> mo_output_digest m = None \<or> mo_error_digest m \<noteq> None)
       ''ECO_MODEL_RECOVERY_UNAVAILABLE'') (\<lambda>_.
     bindT (readT (\<lambda>s. (record_by_digest (the (mo_output_digest m)) s, record_by_digest (the (mo_result_digest m)) s))) (\<lambda>(a, r).
     bindT (refuseT (a = None \<or> r = None) ''ECO_JOURNAL_CORRUPT'') (\<lambda>_.
     bindT (liftT (case check_all (validate_runtime_record e) [rr_record (the a), rr_record (the r)] of
         Inl ContractValidationError \<Rightarrow> store_error ''ECO_JOURNAL_CORRUPT'' | v \<Rightarrow> v)) (\<lambda>_.
     bindT (refuseT (output_record_wrong e i m (the a) (the r)) ''ECO_JOURNAL_CORRUPT'') (\<lambda>_. returnT (rr_record (the a))))))))))"

definition replay_wrong :: "store_env \<Rightarrow> json \<Rightarrow> json \<Rightarrow> json \<Rightarrow> json \<Rightarrow> string \<Rightarrow> int \<Rightarrow> model_row \<Rightarrow> charge_row option \<Rightarrow> bool" where
  "replay_wrong e request endpoint input d key cost m c \<longleftrightarrow>
     (case c of None \<Rightarrow> True
      | Some x \<Rightarrow> JStr (mo_run_id m) \<noteq> jat request [''metadata'', ''runId''] \<or> mo_idempotency m \<noteq> key \<or> mo_request_digest m \<noteq> digest_of e request
          \<or> JStr (mo_plan_digest m) \<noteq> jat request [''spec'', ''planDigest''] \<or> mo_endpoint_digest m \<noteq> digest_of e endpoint
          \<or> mo_input_digest m \<noteq> digest_of e input \<or> mo_decision_digest m \<noteq> digest_of e d \<or> ch_output_bytes x \<noteq> call_output request
          \<or> ch_total_tokens x \<noteq> call_tokens request \<or> ch_cost x \<noteq> cost)"

definition exact_model_replay_status :: "store_env \<Rightarrow> json \<Rightarrow> json \<Rightarrow> json \<Rightarrow> json \<Rightarrow> string \<Rightarrow> int \<Rightarrow> model_row option stx" where
  "exact_model_replay_status e request endpoint input d key cost =
     bindT (liftT (model_idempotency_digest e key)) (\<lambda>kd.
     bindT (liftT (stored_valid e [request, endpoint, input, d])) (\<lambda>_.
     let i = the_str (jat request [''metadata'', ''id'']) in
     bindT (readT (\<lambda>s. (map_of (t_models s) i, map_of (t_charges s) i))) (\<lambda>(row, c).
     case row of
       None \<Rightarrow> returnT None
     | Some m \<Rightarrow>
         if c \<noteq> None \<and> ''runId'' \<notin> dict_keys (the_obj (jat request [''metadata''])) then raiseT PyKeyError
         else bindT (refuseT (replay_wrong e request endpoint input d kd cost m c) ''ECO_IDEMPOTENCY_CONFLICT'') (\<lambda>_. returnT (Some m)))))"

end
