(* ===== verification/Eco_Store_Logic.thy ===== *)
theory Eco_Store_Logic
  imports Eco_Store_Models
begin

text \<open>
  Reasoning about transactions of the durable store: rules that follow a transaction to the state it commits, the views of
  the database that a group of writes leaves alone, and the step relation of the store, one rule per method.
\<close>

section \<open>Fields of equal values\<close>

lemma map_of_filter: "map_of d k = (case filter (\<lambda>x. fst x = k) d of [] \<Rightarrow> None | x # _ \<Rightarrow> Some (snd x))"
  by (induction d) auto

lemma map_of_sorted_items_stable [simp]: "map_of (sorted_items d) = map_of d"
proof
  fix k
  have "filter (\<lambda>x. fst x = k) (sorted_items d) = filter (\<lambda>x. fst x = k) d"
    using sort_key_stable [of fst k d] by (simp add: sorted_items_def)
  then show "map_of (sorted_items d) k = map_of d k" by (simp add: map_of_filter)
qed

lemma map_of_map_values: "map_of (map (\<lambda>(k, v). (k, f v)) d) k = map_option f (map_of d k)"
  by (induction d) auto

lemma jat_sort_keys: "jat (sort_keys v) ks = sort_keys (jat v ks)"
  by (induction v ks rule: jat.induct) (auto simp: jget_def map_of_map_values split: option.splits)

lemma jat_null [simp]: "jat JNull ks = JNull"
  by (cases ks) auto

lemma jat_jat: "jat (jat v ks) ls = jat v (ks @ ls)"
proof (induction ks arbitrary: v)
  case (Cons k ks)
  then show ?case by (cases v) auto
qed simp

lemma json_eq_jat: "json_eq v w \<Longrightarrow> json_eq (jat v ks) (jat w ks)"
  by (simp add: json_eq_def flip: jat_sort_keys)

lemma json_eq_JStr [simp]: "json_eq v (JStr x) \<longleftrightarrow> v = JStr x"
  by (cases v) (auto simp: json_eq_def)

lemma json_eq_JInt [simp]: "json_eq v (JInt x) \<longleftrightarrow> v = JInt x"
  by (cases v) (auto simp: json_eq_def)

section \<open>Transactions that commit\<close>

named_theorems tx_simps

lemma returnT_Inr [tx_simps]: "returnT x s = Inr (y, t) \<longleftrightarrow> y = x \<and> t = s"
  by (auto simp: returnT_def)

lemma raiseT_Inr [tx_simps]: "raiseT err s = Inr q \<longleftrightarrow> False"
  by (simp add: raiseT_def)

lemma bind_liftT [tx_simps]: "bindT (liftT r) f s = Inr q \<longleftrightarrow> (\<exists>x. r = Inr x \<and> f x s = Inr q)"
  by (cases r) (auto simp: bindT_def liftT_def)

lemma liftT_Inr [tx_simps]: "liftT r s = Inr (x, t) \<longleftrightarrow> r = Inr x \<and> t = s"
  by (cases r) (auto simp: liftT_def)

lemma constraintT_Inr [tx_simps]: "constraintT c s = Inr (x, t) \<longleftrightarrow> c \<and> t = s"
  by (auto simp: constraintT_def raiseT_def returnT_def)

lemma bind_readT [tx_simps]: "bindT (readT g) f s = f (g s) s"
  by (simp add: bindT_def readT_def)

lemma readT_Inr [tx_simps]: "readT g s = Inr (y, t) \<longleftrightarrow> y = g s \<and> t = s"
  by (auto simp: readT_def)

lemma bind_writeT [tx_simps]: "bindT (writeT g) f s = f () (g s)"
  by (simp add: bindT_def writeT_def)

lemma writeT_Inr [tx_simps]: "writeT g s = Inr (y, t) \<longleftrightarrow> t = g s"
  by (auto simp: writeT_def)

lemma bind_refuseT [tx_simps]: "bindT (refuseT c code) f s = Inr q \<longleftrightarrow> \<not> c \<and> f () s = Inr q"
  by (simp add: bindT_def refuseT_def raiseT_def returnT_def)

lemma refuseT_Inr [tx_simps]: "refuseT c code s = Inr (y, t) \<longleftrightarrow> \<not> c \<and> t = s"
  by (auto simp: refuseT_def raiseT_def returnT_def)

lemma bind_neededT [tx_simps]: "bindT (neededT x code) f s = Inr q \<longleftrightarrow> (\<exists>v. x = Some v \<and> f v s = Inr q)"
  by (cases x) (auto simp: bindT_def neededT_def raiseT_def returnT_def)

lemma neededT_Inr [tx_simps]: "neededT x code s = Inr (y, t) \<longleftrightarrow> x = Some y \<and> t = s"
  by (cases x) (auto simp: neededT_def raiseT_def returnT_def)

lemma bind_constraintT [tx_simps]: "bindT (constraintT c) f s = Inr q \<longleftrightarrow> c \<and> f () s = Inr q"
  by (simp add: bindT_def constraintT_def raiseT_def returnT_def)

lemma bindT_assoc [tx_simps]: "bindT (bindT m f) g = bindT m (\<lambda>x. bindT (f x) g)"
  by (auto simp: bindT_def fun_eq_iff split: sum.splits)

lemma bind_returnT [tx_simps]: "bindT (returnT x) f = f x"
  by (simp add: bindT_def returnT_def fun_eq_iff)

lemma bindT_Inr: "bindT m f s = Inr q \<longleftrightarrow> (\<exists>x u. m s = Inr (x, u) \<and> f x u = Inr q)"
  by (auto simp: bindT_def split: sum.splits)

lemma bindT_InrE:
  assumes "bindT m f s = Inr q"
  obtains x u where "m s = Inr (x, u)" "f x u = Inr q"
  using assms by (auto simp: bindT_Inr)

section \<open>Reads\<close>

lemma find_run_Inr [tx_simps]: "bindT (find_run run) f s = Inr q \<longleftrightarrow> (\<exists>r. map_of (t_runs s) run = Some r \<and> f r s = Inr q)"
  by (simp add: find_run_def tx_simps)

lemma find_run_Inr' [tx_simps]: "find_run run s = Inr (r, t) \<longleftrightarrow> map_of (t_runs s) run = Some r \<and> t = s"
  by (simp add: find_run_def tx_simps)

lemma find_operation_Inr [tx_simps]:
  "bindT (find_operation i) f s = Inr q \<longleftrightarrow> (\<exists>r. map_of (t_operations s) i = Some r \<and> f r s = Inr q)"
  by (simp add: find_operation_def tx_simps)

lemma find_operation_Inr' [tx_simps]: "find_operation i s = Inr (r, t) \<longleftrightarrow> map_of (t_operations s) i = Some r \<and> t = s"
  by (simp add: find_operation_def tx_simps)

lemma model_status_Inr [tx_simps]:
  "bindT (model_operation_status i) f s = Inr q \<longleftrightarrow> (\<exists>m. map_of (t_models s) i = Some m \<and> f m s = Inr q)"
  by (simp add: model_operation_status_def tx_simps)

lemma model_status_Inr' [tx_simps]: "model_operation_status i s = Inr (m, t) \<longleftrightarrow> map_of (t_models s) i = Some m \<and> t = s"
  by (simp add: model_operation_status_def tx_simps)

lemma budget_status_Inr [tx_simps]: "budget_status run s = Inr (b, t) \<longleftrightarrow> map_of (t_budgets s) run = Some b \<and> t = s"
  by (simp add: budget_status_def tx_simps)

lemma load_record_Inr [tx_simps]:
  "bindT (load_record i) f s = Inr q \<longleftrightarrow> (\<exists>row. map_of (t_records s) i = Some row \<and> f (rr_record row) s = Inr q)"
  by (simp add: load_record_def tx_simps)

lemma load_record_Inr' [tx_simps]:
  "load_record i s = Inr (v, t) \<longleftrightarrow> (\<exists>row. map_of (t_records s) i = Some row \<and> v = rr_record row) \<and> t = s"
  by (auto simp: load_record_def tx_simps)

lemma find_reservation_Inr [tx_simps]:
  "bindT (find_reservation i) f s = Inr q
    \<longleftrightarrow> (\<exists>v. map_of (t_reservations s) i = Some v \<and> rs_state v = Reserved \<and> f v s = Inr q)"
  by (auto simp: find_reservation_def tx_simps)

lemma find_charge_Inr [tx_simps]:
  "bindT (find_charge i) f s = Inr q \<longleftrightarrow> (\<exists>c. map_of (t_charges s) i = Some c \<and> ch_state c = ChargeReserved \<and> f c s = Inr q)"
  by (auto simp: find_charge_def tx_simps)

lemma live_run_Inr [tx_simps]:
  "bindT (require_live_run e run now) f s = Inr q \<longleftrightarrow> (\<exists>u. require_live_run e run now s = Inr (u, s)) \<and> f () s = Inr q"
  by (auto simp: require_live_run_def tx_simps)

lemma live_lease_Inr [tx_simps]:
  "bindT (require_live_lease e r token now) f s = Inr q
    \<longleftrightarrow> or_state r = ReadPrepared \<and> (\<exists>u. require_live_lease e r token now s = Inr (u, s)) \<and> f () s = Inr q"
  by (auto simp: require_live_lease_def tx_simps)

lemma live_plan_Inr [tx_simps]:
  "bindT (live_plan e run i digest now) f s = Inr q \<longleftrightarrow> (\<exists>d. live_plan e run i digest now s = Inr (d, s) \<and> f d s = Inr q)"
  by (auto simp: live_plan_def tx_simps split: prod.splits)

lemma plan_of_digest_Inr [tx_simps]:
  "bindT (plan_of_digest digest) f s = Inr q \<longleftrightarrow> (\<exists>p. plan_of_digest digest s = Inr (p, s) \<and> f p s = Inr q)"
  by (auto simp: plan_of_digest_def tx_simps split: prod.splits)

lemma needed_record_Inr [tx_simps]:
  "bindT (needed_record digest) f s = Inr q \<longleftrightarrow> (\<exists>row. record_by_digest digest s = Some row \<and> f (rr_record row) s = Inr q)"
  by (simp add: needed_record_def tx_simps)

lemma running_plan_Inr [tx_simps]:
  "bindT (running_plan e m now) f s = Inr q \<longleftrightarrow> (\<exists>u. running_plan e m now s = Inr (u, s)) \<and> f () s = Inr q"
  by (auto simp: running_plan_def tx_simps)

text \<open>An event that is appended has passed every check of the reducer and the replay.\<close>

lemma append_event_cases:
  assumes "append_event_tx e tx now run q s = Inr (x, t)"
  obtains outcome producers r a p issuer where
    "map_of EVENT_SEMANTICS (eq_type q) = Some (outcome, producers)" "eq_producer q \<in> set producers"
    "map_of (t_runs s) run = Some r" "replay_projection e run s = Inr a" "check_run_cache a r"
    "state (rp_projection a) \<notin> TERMINAL_STATES" "rp_occurred a \<le> now"
    "reduce_run_event (rp_projection a) (eq_type q)
       (event_spec (eq_type q) outcome (eq_subject_id q) (eq_subject_digest q) (eq_result_digest q)) = Inr p"
    "map_of (sx_issuers e) (eq_producer q) = Some issuer"
    "write_event e tx run q outcome issuer a p (ce_iso e now) r s = Inr (x, t)"
  using assms by (auto simp: append_event_tx_def split: option.splits if_splits)

section \<open>What a transaction leaves alone\<close>

text \<open>A view of the database that records, audit entries and authority revisions are no part of.\<close>

locale journal_view =
  fixes view :: "rstore \<Rightarrow> 'v"
  assumes view_records: "view (t_records_update f s) = view s"
    and view_audit: "view (t_audit_update g s) = view s"
    and view_revisions: "view (t_revisions_update h s) = view s"
begin

lemma keep_insert_record: "insert_record e r s = Inr (q, t) \<Longrightarrow> view t = view s"
  by (auto simp: insert_record_def Let_def view_records split: if_splits option.splits)

lemma keep_append_audit: "append_audit e tx ty i a p at s = Inr (q, t) \<Longrightarrow> view t = view s"
  by (auto simp: append_audit_def Let_def view_audit split: if_splits)

lemma keep_record_revision: "record_revision e tx at ty i s = Inr (q, t) \<Longrightarrow> view t = view s"
  by (auto simp: record_revision_def Let_def bindT_Inr tx_simps view_revisions dest: keep_append_audit split: option.splits)

lemma keep_record_revisions: "record_revisions e tx at es s = Inr (q, t) \<Longrightarrow> view t = view s"
  unfolding record_revisions_def
  by (induction es arbitrary: s) (auto simp: tx_simps bindT_Inr dest: keep_record_revision split: prod.splits)

lemma keep_record_if_new: "record_if_new e tx r s = Inr (q, t) \<Longrightarrow> view t = view s"
  by (auto simp: record_if_new_def bindT_Inr [of "insert_record e r"] bindT_Inr [of "append_audit e tx k i a p at" for k i a p at] tx_simps
      dest!: keep_insert_record keep_append_audit split: if_splits)

lemma keep_record_fresh: "record_fresh e tx r at code s = Inr (q, t) \<Longrightarrow> view t = view s"
  by (auto simp: record_fresh_def bindT_Inr [of "insert_record e r"] bindT_Inr [of "append_audit e tx k i a p at" for k i a p at] tx_simps
      dest!: keep_insert_record keep_append_audit)

lemma keep_record_result: "record_result e tx r s = Inr (q, t) \<Longrightarrow> view t = view s"
  unfolding record_result_def by (rule keep_record_fresh)

end

text \<open>A view that neither the journal nor decisions and nonces are part of.\<close>

locale decision_view = journal_view +
  assumes view_decisions: "view (t_decisions_update f' s) = view s"
    and view_nonces: "view (t_nonces_update g' s) = view s"
begin

lemma keep_issue_decision: "issue_decision_tx e tx d s = Inr (q, t) \<Longrightarrow> view t = view s"
  by (auto simp: issue_decision_tx_def insert_decision_def bindT_Inr [of "insert_record e r" for r] bindT_Inr [of "append_audit e tx k i a p at" for k i a p at]
      bindT_Inr [of "insert_decision e d i run digest" for i run digest] tx_simps Let_def view_decisions
      dest!: keep_insert_record keep_append_audit split: if_splits option.splits)

lemma keep_consume_decision: "consume_decision_tx e tx d subject nonce now s = Inr (q, t) \<Longrightarrow> view t = view s"
  by (auto simp: consume_decision_tx_def consume_fresh_def spend_decision_def bindT_Inr [of "append_audit e tx k i a p at" for k i a p at]
      bindT_Inr [of "spend_decision i digest nonce at us" for i digest at us] tx_simps Let_def view_decisions view_nonces
      dest!: keep_append_audit split: if_splits option.splits)

lemma keep_nonce_result: "set_nonce_result nonce digest s = Inr (q, t) \<Longrightarrow> view t = view s"
  by (auto simp: set_nonce_result_def tx_simps view_nonces split: option.splits)

end

text \<open>A view that neither the journal nor runs and their events are part of.\<close>

locale event_view = journal_view +
  assumes view_events: "view (t_events_update f'' s) = view s"
    and view_runs: "view (t_runs_update g'' s) = view s"
begin

lemma keep_write_event: "write_event e tx run q outcome issuer a p at r s = Inr (x, t) \<Longrightarrow> view t = view s"
  by (auto simp: write_event_def bindT_Inr [of "record_fresh e tx v at c" for v c] bindT_Inr [of "record_revision e tx at k i" for k i] tx_simps Let_def view_events view_runs
      dest!: keep_record_fresh keep_record_revision)

lemma keep_append_event: "append_event_tx e tx now run q s = Inr (x, t) \<Longrightarrow> view t = view s"
  by (erule append_event_cases) (rule keep_write_event)

end

section \<open>Steps of the store\<close>

text \<open>A step is a method that returns; one that raises is rolled back.\<close>

inductive store_step :: "store_env \<Rightarrow> rstore \<Rightarrow> rstore \<Rightarrow> bool" for e :: store_env where
  step_put: "put_record e tx r s = Inr (x, t) \<Longrightarrow> store_step e s t"
| step_start: "start_run e tx run request cap s = Inr (x, t) \<Longrightarrow> store_step e s t"
| step_validate: "validate_run e tx run now cap s = Inr (y, t) \<Longrightarrow> store_step e s t"
| step_issue_plan: "issue_plan e tx plan d policy rt s = Inr (x, t) \<Longrightarrow> store_step e s t"
| step_activate: "store_activate_plan e tx plan d nonce now policy s = Inr (b, t) \<Longrightarrow> store_step e s t"
| step_deny: "deny_plan e tx plan d nonce now policy s = Inr (y, t) \<Longrightarrow> store_step e s t"
| step_adapter: "signal_adapter e tx typ run now cap s = Inr (x, t) \<Longrightarrow> store_step e s t"
| step_finish: "finish_run e tx run outcome now cap s = Inr (x, t) \<Longrightarrow> store_step e s t"
| step_checkpoint: "create_terminal_checkpoint e tx run now cap s = Inr (c, t) \<Longrightarrow> store_step e s t"
| step_issue: "store_issue_decision e tx d config policy s = Inr (x, t) \<Longrightarrow> store_step e s t"
| step_consume: "store_consume_decision e tx d subject nonce now config policy s = Inr (u, t) \<Longrightarrow> store_step e s t"
| step_prepare_read: "prepare_repository_read e tx token plan snapshot request d intent owner now policy broker runtime secs s = Inr (l, t)
    \<Longrightarrow> store_step e s t"
| step_claim_read: "claim_read e i owner broker secs s = Inr (o', t) \<Longrightarrow> store_step e s t"
| step_abort_read: "abort_expired_operation e tx i now broker seen s = Inr (o', t) \<Longrightarrow> store_step e s t"
| step_complete_read: "complete_repository_read e tx i token receipt artifact outcome prf now broker s = Inr (o', t) \<Longrightarrow> store_step e s t"
| step_fail_read: "fail_repository_read e tx i token error outcome now broker s = Inr (o', t) \<Longrightarrow> store_step e s t"
| step_prepare_call: "prepare_model_invocation e tx plan request endpoint input d pr key cost now policy runtime adapter s = Inr (p, t)
    \<Longrightarrow> store_step e s t"
| step_start_call: "start_model_invocation e tx i now adapter s = Inr (m, t) \<Longrightarrow> store_step e s t"
| step_resume_call: "resume_prepared_model_invocation e tx request d now policy adapter s = Inr (m, t) \<Longrightarrow> store_step e s t"
| step_abort_call: "abort_prepared_model_invocation e tx request reason now runtime s = Inr (m, t) \<Longrightarrow> store_step e s t"
| step_complete_call: "complete_model_invocation e tx i result a d pr now adapter s = Inr (m, t) \<Longrightarrow> store_step e s t"
| step_fail_call: "fail_model_invocation e tx i error now adapter s = Inr (m, t) \<Longrightarrow> store_step e s t"
| step_resolve_call: "resolve_ambiguous_model_invocation e tx i observed now runtime adapter s = Inr (m, t) \<Longrightarrow> store_step e s t"

text \<open>What a step does once its checks have passed: the writes of the method, with what the checks establish.\<close>

definition decision_for :: "json \<Rightarrow> string \<Rightarrow> bool" where
  "decision_for d subject \<longleftrightarrow> jat d [''kind''] = JStr ''PolicyDecision'' \<and> jat d [''spec'', ''subject'', ''digest''] = JStr subject"

inductive store_effect :: "store_env \<Rightarrow> rstore \<Rightarrow> rstore \<Rightarrow> bool" for e :: store_env where
  eff_put: "put_record e tx r s = Inr (x, t) \<Longrightarrow> store_effect e s t"
| eff_start: "start_run e tx run request cap s = Inr (x, t) \<Longrightarrow> store_effect e s t"
| eff_event: "append_event_tx e tx now run q s = Inr (x, t) \<Longrightarrow> store_effect e s t"
| eff_issue_plan: "issue_plan e tx plan d policy rt s = Inr (x, t) \<Longrightarrow> store_effect e s t"
| eff_activate: "store_activate_plan e tx plan d nonce now policy s = Inr (b, t) \<Longrightarrow> store_effect e s t"
| eff_deny: "deny_plan e tx plan d nonce now policy s = Inr (y, t) \<Longrightarrow> store_effect e s t"
| eff_checkpoint: "map_of (t_checkpoints s) run = None \<Longrightarrow> map_of (t_runs s) run = Some r
    \<Longrightarrow> write_checkpoint e tx run at v (checkpoint_record e run at r a b plan bl) s = Inr (c, t) \<Longrightarrow> store_effect e s t"
| eff_issue: "jat d [''kind''] = JStr ''PolicyDecision'' \<Longrightarrow> issue_decision_tx e tx d s = Inr (x, t) \<Longrightarrow> store_effect e s t"
| eff_consume: "decision_for d subject \<Longrightarrow> consume_decision_tx e tx d subject nonce now s = Inr (y', t) \<Longrightarrow> store_effect e s t"
| eff_prepare_read: "checked_read e plan snapshot request d intent = Inr entry
    \<Longrightarrow> prepare_new e tx token plan request d intent entry owner until now policy runtime s = Inr (l, t) \<Longrightarrow> store_effect e s t"
| eff_fail_read: "map_of (t_operations s) i = Some o' \<Longrightarrow> or_state o' = ReadPrepared \<Longrightarrow> map_of (t_reservations s) i = Some v
    \<Longrightarrow> rs_state v = Reserved \<Longrightarrow> jat error [''kind''] = JStr ''ErrorRecord'' \<Longrightarrow> jat outcome [''kind''] = JStr ''ToolExecutionOutcome''
    \<Longrightarrow> settle_failed_read e tx i o' v intent error outcome now broker s = Inr (o'', t) \<Longrightarrow> store_effect e s t"
| eff_read: "map_of (t_operations s) i = Some o' \<Longrightarrow> or_state o' = ReadPrepared \<Longrightarrow> map_of (t_reservations s) i = Some v
    \<Longrightarrow> rs_state v = Reserved \<Longrightarrow> jat intent [''spec'', ''repositoryEntry'', ''byteLength''] = JInt (rs_reserved v)
    \<Longrightarrow> jat receipt [''kind''] = JStr ''RepositoryReadReceipt'' \<Longrightarrow> jat artifact [''kind''] = JStr ''ArtifactRecord''
    \<Longrightarrow> jat outcome [''kind''] = JStr ''ToolExecutionOutcome''
    \<Longrightarrow> settle_read e tx i o' v intent receipt artifact outcome now broker s = Inr (o'', t) \<Longrightarrow> store_effect e s t"
| eff_prepare_call: "checked_call e plan request endpoint input d prf cost = Inr window \<Longrightarrow> m = model_row_of e plan request endpoint input d kd at
    \<Longrightarrow> c = charge_row_of e plan request cost at' \<Longrightarrow> call_affordable (mo_run_id m) (mo_plan_digest m) c s
    \<Longrightarrow> reserve_call e tx request endpoint input d m c now s = Inr (u, t) \<Longrightarrow> store_effect e s t"
| eff_fence: "map_of (t_models s) i = Some m \<Longrightarrow> mo_state m = ModelPrepared \<Longrightarrow> cross_fence e tx i m (mo_resume_decision m) at s = Inr (m', t)
    \<Longrightarrow> store_effect e s t"
| eff_resume: "map_of (t_models s) i = Some m \<Longrightarrow> mo_state m = ModelPrepared \<Longrightarrow> decision_for d subject \<Longrightarrow> issue_decision_tx e tx d s = Inr (x, s1)
    \<Longrightarrow> consume_decision_tx e tx d subject nonce now s1 = Inr (y', s2) \<Longrightarrow> cross_fence e tx i m res at s2 = Inr (m', t) \<Longrightarrow> store_effect e s t"
| eff_abort_call: "map_of (t_models s) i = Some m \<Longrightarrow> mo_state m = ModelPrepared \<Longrightarrow> map_of (t_charges s) i = Some c \<Longrightarrow> ch_state c = ChargeReserved
    \<Longrightarrow> abort_call e tx i m c now s = Inr (m', t) \<Longrightarrow> store_effect e s t"
| eff_settle_call: "map_of (t_models s) i = Some m \<Longrightarrow> mo_state m = ModelStarted \<Longrightarrow> map_of (t_charges s) i = Some c \<Longrightarrow> ch_state c = ChargeReserved
    \<Longrightarrow> the_int (jat result [''spec'', ''output'', ''byteLength'']) \<le> ch_output_bytes c \<Longrightarrow> decision_for d (mo_request_digest m)
    \<Longrightarrow> jat result [''kind''] = JStr ''ModelResult'' \<Longrightarrow> jat a [''kind''] = JStr ''ArtifactRecord''
    \<Longrightarrow> settle_call e tx i m c result a d now adapter s = Inr (m', t) \<Longrightarrow> store_effect e s t"
| eff_ceiling: "map_of (t_models s) i = Some m \<Longrightarrow> mo_state m = ModelStarted \<Longrightarrow> map_of (t_charges s) i = Some c \<Longrightarrow> ch_state c = ChargeReserved
    \<Longrightarrow> st \<in> {ModelFailed, ModelAmbiguous} \<Longrightarrow> jat error [''kind''] = JStr ''ErrorRecord''
    \<Longrightarrow> charge_ceiling e tx i m c st error now adapter s = Inr (m', t) \<Longrightarrow> store_effect e s t"

lemma json_eq_digest: "json_eq v (JObj [(''kind'', JStr k), (''id'', i), (''digest'', JStr x)]) \<Longrightarrow> jat v [''digest''] = JStr x"
  by (drule json_eq_jat [of _ _ "[''digest'']"]) (simp add: jget_def)

lemma error_kinds [simp]: "jat (recovery_error i run rid at) [''kind''] = JStr ''ErrorRecord''"
  "jat (outcome_record i run at spec) [''kind''] = JStr ''ToolExecutionOutcome''"
  "jat (model_error e i run at sp) [''kind''] = JStr ''ErrorRecord''" "jat (abort_error e i run at) [''kind''] = JStr ''ErrorRecord''"
  "jat (ambiguous_error e i run request at) [''kind''] = JStr ''ErrorRecord''"
  by (simp_all add: recovery_error_def outcome_record_def model_error_def abort_error_def ambiguous_error_def jget_def)

lemma validate_effect: "validate_run e tx run now cap s = Inr (y, t) \<Longrightarrow> t = s \<or> store_effect e s t"
  by (auto simp: validate_run_def bindT_Inr [of "append_event_tx e tx now run q" for q] tx_simps split: if_splits intro: eff_event)

lemma checkpoint_effect: "create_terminal_checkpoint e tx run now cap s = Inr (c, t) \<Longrightarrow> t = s \<or> store_effect e s t"
  by (auto simp: create_terminal_checkpoint_def tx_simps split: option.splits intro: eff_checkpoint)

lemma consume_effect: "store_consume_decision e tx d subject nonce now config policy s = Inr (u, t) \<Longrightarrow> store_effect e s t"
  by (auto simp: store_consume_decision_def checked_decision_def subject_wrong_def decision_for_def Let_def
      bindT_Inr [of "consume_decision_tx e tx d x nonce now" for x] tx_simps jat_jat split: if_splits intro!: eff_consume)

lemma prepare_read_effect:
  "prepare_repository_read e tx token plan snapshot request d intent owner now policy broker runtime secs s = Inr (l, t) \<Longrightarrow> t = s \<or> store_effect e s t"
  by (auto simp: prepare_repository_read_def Let_def tx_simps split: option.splits intro: eff_prepare_read)

lemma abort_read_effect: "abort_expired_operation e tx i now broker seen s = Inr (o', t) \<Longrightarrow> t = s \<or> store_effect e s t"
  by (auto simp: abort_expired_operation_def Let_def tx_simps split: if_splits intro!: eff_fail_read)

lemma fail_read_effect: "fail_repository_read e tx i token error outcome now broker s = Inr (o', t) \<Longrightarrow> t = s \<or> store_effect e s t"
  by (auto simp: fail_repository_read_def Let_def tx_simps split: if_splits intro: eff_fail_read)

lemma read_effect: "complete_repository_read e tx i token receipt artifact outcome prf now broker s = Inr (o', t) \<Longrightarrow> t = s \<or> store_effect e s t"
  by (auto simp: complete_repository_read_def Let_def tx_simps jat_jat split: if_splits intro!: eff_read)

lemma prepare_call_effect:
  "prepare_model_invocation e tx plan request endpoint input d prf key cost now policy runtime adapter s = Inr (p, t) \<Longrightarrow> t = s \<or> store_effect e s t"
  by (auto simp: prepare_model_invocation_def Let_def bindT_Inr [of "reserve_call e tx request endpoint input d m c now" for m c] tx_simps
        model_row_of_def [of e plan] split: option.splits prod.splits intro: eff_prepare_call [unfolded model_row_of_def])

lemma start_call_effect: "start_model_invocation e tx i now adapter s = Inr (m, t) \<Longrightarrow> t = s \<or> store_effect e s t"
  by (auto simp: start_model_invocation_def tx_simps split: if_splits intro: eff_fence)

lemma resume_call_effect: "resume_prepared_model_invocation e tx request d now policy adapter s = Inr (m, t) \<Longrightarrow> t = s \<or> store_effect e s t"
  by (auto simp: resume_prepared_model_invocation_def Let_def tx_simps call_authority_wrong_def call_subject_def decision_for_def
      bindT_Inr [of "issue_decision_tx e tx d"] bindT_Inr [of "consume_decision_tx e tx d x nonce now" for x nonce]
      split: if_splits dest!: json_eq_digest intro!: eff_resume simp flip: jat_jat [of d "[''spec'', ''subject'']" "[''digest'']", simplified])

lemma abort_call_effect: "abort_prepared_model_invocation e tx request reason now runtime s = Inr (m, t) \<Longrightarrow> t = s \<or> store_effect e s t"
  by (auto simp: abort_prepared_model_invocation_def abort_observed_def repeated_abort_def Let_def tx_simps
      bindT_Inr [of "if c then x else y" for c x y] split: if_splits option.splits prod.splits intro: eff_abort_call)

lemma complete_call_effect: "complete_model_invocation e tx i result a d prf now adapter s = Inr (m, t) \<Longrightarrow> t = s \<or> store_effect e s t"
  by (auto simp: complete_model_invocation_def completion_checks_def tx_simps call_authority_wrong_def call_subject_def decision_for_def
      split: if_splits dest!: json_eq_digest intro!: eff_settle_call simp flip: jat_jat [of d "[''spec'', ''subject'']" "[''digest'']", simplified])

lemma fail_call_effect: "fail_model_invocation e tx i error now adapter s = Inr (m, t) \<Longrightarrow> t = s \<or> store_effect e s t"
  by (auto simp: fail_model_invocation_def tx_simps split: if_splits intro: eff_ceiling)

lemma resolve_call_effect:
  "resolve_ambiguous_model_invocation e tx i observed now runtime adapter s = Inr (m, t) \<Longrightarrow> t = s \<or> store_effect e s t"
  by (auto simp: resolve_ambiguous_model_invocation_def Let_def tx_simps split: if_splits intro!: eff_ceiling)

lemma claim_effect: "claim_read e i owner broker secs s = Inr (o', t) \<Longrightarrow> t = s"
  by (auto simp: claim_read_def tx_simps split: if_splits)

lemma step_effect: "store_step e s t \<Longrightarrow> t = s \<or> store_effect e s t"
proof (induction rule: store_step.induct)
  case (step_adapter tx ty run now cap s x t)
  then show ?case by (auto simp: signal_adapter_def tx_simps intro: eff_event)
next
  case (step_finish tx run outcome now cap s x t)
  then show ?case by (auto simp: finish_run_def tx_simps intro: eff_event)
next
  case (step_issue tx d config policy s x t)
  then show ?case by (auto simp: store_issue_decision_def tx_simps intro: eff_issue)
qed (erule validate_effect checkpoint_effect consume_effect [THEN disjI2] prepare_read_effect abort_read_effect fail_read_effect read_effect
    claim_effect [THEN disjI1] prepare_call_effect start_call_effect resume_call_effect abort_call_effect complete_call_effect fail_call_effect
    resolve_call_effect eff_put [THEN disjI2] eff_start [THEN disjI2] eff_issue_plan [THEN disjI2] eff_activate [THEN disjI2] eff_deny [THEN disjI2])+

end
