(* ===== verification/Eco_Store_Journal.thy ===== *)
theory Eco_Store_Journal
  imports Eco_Store_Logic "HOL-Library.Sublist"
begin

text \<open>
  The journal of the durable store only grows: records, audit entries, events and authority revisions are appended, a
  decision that was consumed keeps its row for ever, and a nonce keeps what it was used for. The logic \<open>tx_logic\<close> carries a
  reflexive and transitive relation through the code of a transaction.
\<close>

section \<open>Relations along transactions\<close>

locale tx_logic =
  fixes rel :: "'s \<Rightarrow> 's \<Rightarrow> bool"
  assumes rel_refl: "rel s s" and rel_trans: "rel s t \<Longrightarrow> rel t u \<Longrightarrow> rel s u"
begin

definition moves :: "('a, 's) tx \<Rightarrow> bool" where
  "moves m \<longleftrightarrow> (\<forall>s x t. m s = Inr (x, t) \<longrightarrow> rel s t)"

lemma movesI: "(\<And>s x t. m s = Inr (x, t) \<Longrightarrow> rel s t) \<Longrightarrow> moves m"
  by (simp add: moves_def)

lemma movesD: "moves m \<Longrightarrow> m s = Inr (x, t) \<Longrightarrow> rel s t"
  by (simp add: moves_def)

lemma moves_bind [intro]:
  assumes "moves m" and "\<And>x. moves (f x)"
  shows "moves (bindT m f)"
proof (rule movesI)
  fix s x t
  assume "bindT m f s = Inr (x, t)"
  then obtain y u where "m s = Inr (y, u)" "f y u = Inr (x, t)" by (rule bindT_InrE)
  with assms show "rel s t" by (blast intro: rel_trans movesD)
qed

lemma moves_pure [intro, simp]:
  "moves (returnT x)" "moves (raiseT err)" "moves (liftT r)" "moves (readT g)" "moves (refuseT c code)" "moves (neededT y code)"
  "moves (constraintT c)"
  by (auto intro!: movesI simp: tx_simps rel_refl liftT_def constraintT_def split: sum.splits if_splits)

lemma moves_lift: "(\<And>x. r = Inr x \<Longrightarrow> moves (f x)) \<Longrightarrow> moves (bindT (liftT r) f)"
  by (auto simp: moves_def tx_simps)

lemma moves_refuse: "(\<not> c \<Longrightarrow> moves (f ())) \<Longrightarrow> moves (bindT (refuseT c code) f)"
  by (auto simp: moves_def tx_simps)

lemma moves_write [intro]: "(\<And>s. rel s (f s)) \<Longrightarrow> moves (writeT f)"
  by (auto intro!: movesI simp: tx_simps)

lemma moves_if [intro]: "moves a \<Longrightarrow> moves b \<Longrightarrow> moves (if c then a else b)"
  by simp

lemma moves_each [intro]: "(\<And>x. moves (f x)) \<Longrightarrow> moves (eachT f xs)"
  by (induction xs) auto

lemma moves_option [intro]: "moves a \<Longrightarrow> (\<And>x. moves (f x)) \<Longrightarrow> moves (case y of None \<Rightarrow> a | Some x \<Rightarrow> f x)"
  by (cases y) auto

lemma moves_prod [intro]: "(\<And>x y. moves (f x y)) \<Longrightarrow> moves (case z of (x, y) \<Rightarrow> f x y)"
  by (cases z) auto

lemma moves_steps:
  assumes "\<And>s t. step s t \<Longrightarrow> rel s t"
  shows "step\<^sup>*\<^sup>* s t \<Longrightarrow> rel s t"
  by (induction rule: rtranclp_induct) (auto intro: rel_refl rel_trans assms)

end

section \<open>Relations along the methods of the store\<close>

text \<open>Two databases that differ in mutable rows only.\<close>

definition same_journal :: "rstore \<Rightarrow> rstore \<Rightarrow> bool" where
  "same_journal s t \<longleftrightarrow> t_records t = t_records s \<and> t_decisions t = t_decisions s \<and> t_nonces t = t_nonces s \<and> t_audit t = t_audit s
     \<and> t_revisions t = t_revisions s \<and> t_events t = t_events s"

text \<open>A relation that the single writes of a transaction keep is kept by every method. \<open>dec\<close> holds of the records that are
  decisions: those of that kind, and those that deny (only decisions have an effect).\<close>

lemma jat_spec_subject: "jat (jat d [''spec'', ''subject'']) [''digest''] = jat d [''spec'', ''subject'', ''digest'']"
  by (simp add: jat_jat)

locale store_logic = tx_logic rel for rel :: "rstore \<Rightarrow> rstore \<Rightarrow> bool" +
  fixes e :: store_env and dec :: "json \<Rightarrow> bool"
  assumes a_fresh: "jat r [''kind''] \<noteq> JStr ''PolicyDecision'' \<Longrightarrow> moves (record_fresh e tx r at code)"
    and a_new: "jat r [''kind''] \<noteq> JStr ''PolicyDecision'' \<Longrightarrow> moves (record_if_new e tx r)"
    and dec_kind: "jat d [''kind''] = JStr ''PolicyDecision'' \<Longrightarrow> dec d"
    and dec_deny: "validate_runtime_record e d = Inr () \<Longrightarrow> jat d [''spec'', ''effect''] = JStr ''deny'' \<Longrightarrow> dec d"
    and a_issue: "dec d \<Longrightarrow> moves (issue_decision_tx e tx d)"
    and a_consume: "dec d \<Longrightarrow> jat d [''spec'', ''subject'', ''digest''] = JStr subject \<Longrightarrow> moves (consume_decision_tx e tx d subject nonce now)"
    and a_nonce: "moves (set_nonce_result nonce digest)"
    and a_revision: "moves (record_revision e tx at ty i)"
    and a_rows: "same_journal s t \<Longrightarrow> rel s t"
    and a_event: "rel s (s\<lparr>t_events := t_events s @ [row], t_runs := rs\<rparr>)"
begin

lemma revisions_moves: "moves (record_revisions e tx at es)"
  unfolding record_revisions_def by (intro moves_each moves_prod a_revision)

lemma rows_moves:
  "moves (insert_plan i run digest)" "moves (insert_budget run b)" "moves (update_budget run c f code)"
  "moves (insert_operation i o' v)" "moves (insert_model i m ch)" "moves (write_model i m)" "moves (write_charge i ch)"
  "moves (open_run e' run rd p at complete source)" "moves (run_for_plan e' run plan at cap)" "moves (writeT (close_failed i o' v x y at))"
  "moves (writeT (close_succeeded i o' v x y z at))" "moves (writeT (activation_rows e' plan dl at))"
  "moves (writeT (\<lambda>s. s\<lparr>t_plans := fp s\<rparr>))" "moves (writeT (\<lambda>s. s\<lparr>t_checkpoints := fc s\<rparr>))"
  by (rule movesI, rule a_rows, auto simp: insert_plan_def insert_budget_def update_budget_def insert_operation_def insert_model_def write_model_def
      write_charge_def open_run_def run_for_plan_def close_failed_def close_succeeded_def activation_rows_def Let_def tx_simps same_journal_def
      split: option.splits if_splits)+

lemma reads_moves:
  "moves (find_run run)" "moves (find_operation i)" "moves (model_operation_status i)" "moves (budget_status run)" "moves (load_record i)"
  by (rule movesI, auto simp: tx_simps rel_refl)+

lemma event_moves: "moves (append_event_tx e tx now run q)"
proof (rule movesI)
  fix s x t
  assume "append_event_tx e tx now run q s = Inr (x, t)"
  then obtain outcome issuer a p at r where w: "write_event e tx run q outcome issuer a p at r s = Inr (x, t)"
    by (rule append_event_cases)
  have "moves (write_event e tx run q outcome issuer a p at r)"
    unfolding write_event_def Let_def
    by (intro moves_lift moves_bind a_fresh a_revision moves_pure moves_write a_event) (simp add: event_record_def jget_def)
  from movesD [OF this w] show "rel s t" .
qed

lemmas step_rules = moves_lift moves_refuse moves_bind moves_pure moves_if moves_prod moves_option revisions_moves a_revision rows_moves reads_moves
  event_moves a_nonce

lemma put_record_moves: "moves (put_record e tx r)"
proof -
  have "the_str (jat r [''kind'']) \<notin> AUTHORITY_MANAGED_KINDS \<Longrightarrow> jat r [''kind''] \<noteq> JStr ''PolicyDecision''"
    by (auto simp: AUTHORITY_MANAGED_KINDS_def)
  then show ?thesis unfolding put_record_def by (auto intro!: moves_lift moves_refuse a_new)
qed

lemma start_run_moves: "moves (start_run e tx run request cap)"
  unfolding start_run_def Let_def by (rule step_rules | rule a_fresh, simp)+

lemma a_consume_subject:
  "dec d \<Longrightarrow> json_eq (jat d [''spec'', ''subject'']) (JObj [(''kind'', JStr k), (''id'', i), (''digest'', JStr x)])
    \<Longrightarrow> moves (consume_decision_tx e tx d x nonce now)"
  by (rule a_consume) (simp_all add: json_eq_digest flip: jat_spec_subject)

lemma checked_plan_kinds: "checked_plan e plan d = Inr u \<Longrightarrow> jat plan [''kind''] = JStr ''RunPlan'' \<and> dec d"
  by (auto simp: checked_plan_def split: if_splits intro: dec_kind)

lemma issue_plan_moves: "moves (issue_plan e tx plan d policy cap)"
  unfolding issue_plan_def Let_def
  by (rule step_rules | rule a_issue, blast dest: checked_plan_kinds | rule a_new, force dest: checked_plan_kinds)+

lemma activate_plan_moves: "moves (store_activate_plan e tx plan d nonce now policy)"
  unfolding store_activate_plan_def Let_def
  by (rule step_rules | rule a_consume_subject, blast dest: checked_plan_kinds, blast)+

lemma denial_dec: "check_all (validate_runtime_record e) [plan, d] = Inr u \<Longrightarrow> jat d [''spec'', ''effect''] = JStr ''deny'' \<Longrightarrow> dec d"
  by (auto intro: dec_deny)

lemma deny_plan_moves: "moves (deny_plan e tx plan d nonce now policy)"
  unfolding deny_plan_def Let_def
  by (rule step_rules | rule a_issue, rule denial_dec, assumption, blast | rule a_consume_subject, rule denial_dec, assumption, blast, blast)+

lemma write_checkpoint_moves: "moves (write_checkpoint e tx run at v (checkpoint_record e run at r a b plan bl))"
  unfolding write_checkpoint_def Let_def by (rule step_rules | rule a_fresh, simp add: checkpoint_record_def jget_def)+

lemma prepare_read_moves:
  assumes "checked_read e plan snapshot request d intent = Inr entry"
  shows "moves (prepare_new e tx token plan request d intent entry owner until now policy runtime)"
proof -
  have k: "jat d [''kind''] = JStr ''PolicyDecision''" "jat intent [''kind''] = JStr ''ToolExecutionIntent''"
    "jat d [''spec'', ''subject'', ''digest''] = JStr (digest_of e request)"
    using assms by (auto simp: checked_read_def read_binding_wrong_def Let_def json_eq_digest simp flip: jat_spec_subject split: if_splits option.splits)
  show ?thesis
    unfolding prepare_new_def reserve_read_def read_events_def Let_def
    by (rule step_rules | rule a_issue a_consume, rule dec_kind, rule k | rule k | rule a_fresh, simp add: k)+
qed

lemma fail_read_moves:
  assumes "jat error [''kind''] = JStr ''ErrorRecord''" and "jat outcome [''kind''] = JStr ''ToolExecutionOutcome''"
  shows "moves (settle_failed_read e tx i o' v intent error outcome now broker)"
  unfolding settle_failed_read_def record_result_def Let_def by (rule step_rules | rule a_fresh, simp add: assms)+

lemma read_moves:
  assumes "jat receipt [''kind''] = JStr ''RepositoryReadReceipt''" and "jat artifact [''kind''] = JStr ''ArtifactRecord''"
    and "jat outcome [''kind''] = JStr ''ToolExecutionOutcome''"
  shows "moves (settle_read e tx i o' v intent receipt artifact outcome now broker)"
  unfolding settle_read_def record_result_def Let_def by (rule step_rules | rule a_fresh, simp add: assms)+

lemma reserve_call_moves:
  assumes "checked_call e plan request endpoint input d prf cost = Inr window" and "mo_request_digest m = digest_of e request"
  shows "moves (reserve_call e tx request endpoint input d m c now)"
proof -
  have k: "jat d [''kind''] = JStr ''PolicyDecision''" "jat request [''kind''] = JStr ''ModelRequest''" "jat endpoint [''kind''] = JStr ''EndpointBinding''"
    "jat input [''kind''] = JStr ''ArtifactRecord''" "jat d [''spec'', ''subject'', ''digest''] = JStr (mo_request_digest m)"
    using assms by (auto simp: checked_call_def model_binding_wrong_def call_subject_def Let_def json_eq_digest simp flip: jat_spec_subject split: if_splits)
  have "moves (eachT (\<lambda>r. bindT (record_if_new e tx r) (\<lambda>_. returnT ())) [endpoint, input, request])"
    by (simp, (rule step_rules | rule a_new, simp add: k)+)
  then show ?thesis
    unfolding reserve_call_def Let_def by - (assumption | rule step_rules | rule a_issue a_consume, rule dec_kind, rule k | rule k)+
qed

lemma fence_moves: "moves (cross_fence e tx i m res at)"
  unfolding cross_fence_def by (rule step_rules)+

lemma close_call_moves: "moves (close_call e tx i m c result q now)"
  unfolding close_call_def by (rule step_rules)+

lemma abort_call_moves: "moves (abort_call e tx i m c now)"
  unfolding abort_call_def Let_def by (rule step_rules | rule a_new, simp)+

lemma settle_call_moves:
  assumes "decision_for d (mo_request_digest m)" and "jat result [''kind''] = JStr ''ModelResult''" and "jat a [''kind''] = JStr ''ArtifactRecord''"
  shows "moves (settle_call e tx i m c result a d now adapter)"
  using assms(1) unfolding settle_call_def decision_for_def Let_def
  by - (rule step_rules close_call_moves | rule a_issue a_consume, rule dec_kind, simp | simp | rule a_new, simp add: assms)+

lemma ceiling_moves:
  assumes "jat error [''kind''] = JStr ''ErrorRecord''"
  shows "moves (charge_ceiling e tx i m c st error now adapter)"
  unfolding charge_ceiling_def Let_def by (rule step_rules close_call_moves | rule a_new, simp add: assms)+

lemma effect_rel: "store_effect e s t \<Longrightarrow> rel s t"
proof (induction rule: store_effect.induct)
  case (eff_resume s i m d subject tx x s1 nonce now y' s2 res at m' t)
  then have "dec d" "jat d [''spec'', ''subject'', ''digest''] = JStr subject" by (auto simp: decision_for_def intro: dec_kind)
  from movesD [OF a_issue [OF this(1)] eff_resume(4)] movesD [OF a_consume [OF this] eff_resume(5)] movesD [OF fence_moves eff_resume(6)]
  show ?case by (blast intro: rel_trans)
next
  case (eff_consume d subject tx nonce now s y' t)
  then have "dec d" "jat d [''spec'', ''subject'', ''digest''] = JStr subject" by (auto simp: decision_for_def intro: dec_kind)
  from movesD [OF a_consume [OF this] eff_consume(2)] show ?case .
next
  case (eff_prepare_call plan request endpoint input d pf cost window m kd at c at' s tx now u t)
  from movesD [OF reserve_call_moves [OF eff_prepare_call(1)] eff_prepare_call(5)] show ?case
    using eff_prepare_call(2) by (simp add: model_row_of_def)
qed (blast intro: movesD [OF put_record_moves] movesD [OF start_run_moves] movesD [OF event_moves] movesD [OF issue_plan_moves]
    movesD [OF activate_plan_moves] movesD [OF deny_plan_moves] movesD [OF write_checkpoint_moves] movesD [OF a_issue [OF dec_kind]]
    movesD [OF prepare_read_moves] movesD [OF fail_read_moves] movesD [OF read_moves]
    movesD [OF fence_moves] movesD [OF abort_call_moves] movesD [OF settle_call_moves] movesD [OF ceiling_moves])+

lemma step_rel: "store_step e s t \<Longrightarrow> rel s t"
  using step_effect effect_rel rel_refl by blast

lemma steps_rel: "(store_step e)\<^sup>*\<^sup>* s t \<Longrightarrow> rel s t"
  by (rule moves_steps [of "store_step e"]) (rule step_rel)

end

section \<open>The journal grows\<close>

text \<open>A decision keeps its binding, and its whole row once it is consumed.\<close>

definition decision_kept :: "decision_row \<Rightarrow> decision_row \<Rightarrow> bool" where
  "decision_kept r r' \<longleftrightarrow> dr_run_id r' = dr_run_id r \<and> dr_digest r' = dr_digest r \<and> dr_subject_digest r' = dr_subject_digest r
     \<and> dr_effect r' = dr_effect r \<and> dr_expires_at r' = dr_expires_at r \<and> dr_expires_us r' = dr_expires_us r
     \<and> (dr_consumed_at r \<noteq> None \<longrightarrow> r' = r)"

definition nonce_kept :: "nonce_row \<Rightarrow> nonce_row \<Rightarrow> bool" where
  "nonce_kept n n' \<longleftrightarrow> nr_run_id n' = nr_run_id n \<and> nr_subject_digest n' = nr_subject_digest n \<and> nr_created_at n' = nr_created_at n"

definition rows_kept :: "('v \<Rightarrow> 'v \<Rightarrow> bool) \<Rightarrow> ('k \<times> 'v) list \<Rightarrow> ('k \<times> 'v) list \<Rightarrow> bool" where
  "rows_kept P a b \<longleftrightarrow> (\<forall>k v. map_of a k = Some v \<longrightarrow> (\<exists>w. map_of b k = Some w \<and> P v w))"

definition journal_grows :: "rstore \<Rightarrow> rstore \<Rightarrow> bool" where
  "journal_grows s t \<longleftrightarrow> prefix (t_records s) (t_records t) \<and> prefix (t_audit s) (t_audit t) \<and> prefix (t_revisions s) (t_revisions t)
     \<and> prefix (t_events s) (t_events t) \<and> rows_kept decision_kept (t_decisions s) (t_decisions t)
     \<and> rows_kept nonce_kept (t_nonces s) (t_nonces t)"

lemma decision_kept_refl [simp]: "decision_kept r r"
  by (simp add: decision_kept_def)

lemma nonce_kept_refl [simp]: "nonce_kept r r"
  by (simp add: nonce_kept_def)

lemma rows_kept_refl [simp]: "(\<And>v. P v v) \<Longrightarrow> rows_kept P a a"
  by (auto simp: rows_kept_def)

lemma rows_kept_trans: "rows_kept P a b \<Longrightarrow> rows_kept P b c \<Longrightarrow> (\<And>u v w. P u v \<Longrightarrow> P v w \<Longrightarrow> P u w) \<Longrightarrow> rows_kept P a c"
  unfolding rows_kept_def by meson

lemma rows_kept_set: "(\<And>v. map_of a k = Some v \<Longrightarrow> P v w) \<Longrightarrow> (\<And>v. P v v) \<Longrightarrow> rows_kept P a (dict_set k w a)"
  by (auto simp: rows_kept_def)

lemma rows_kept_append: "(\<And>v. P v v) \<Longrightarrow> rows_kept P a (a @ b)"
  by (auto simp: rows_kept_def map_add_Some_iff)

interpretation jr: tx_logic journal_grows
proof
  fix s t u
  show "journal_grows s s" by (simp add: journal_grows_def)
  assume "journal_grows s t" and "journal_grows t u"
  moreover have "rows_kept decision_kept a b \<Longrightarrow> rows_kept decision_kept b c \<Longrightarrow> rows_kept decision_kept a c" for a b c
    by (erule rows_kept_trans) (auto simp: decision_kept_def)
  moreover have "rows_kept nonce_kept a b \<Longrightarrow> rows_kept nonce_kept b c \<Longrightarrow> rows_kept nonce_kept a c" for a b c
    by (erule rows_kept_trans) (auto simp: nonce_kept_def)
  ultimately show "journal_grows s u"
    unfolding journal_grows_def by (blast intro: prefix_order.trans)
qed

lemma insert_record_moves [intro]: "jr.moves (insert_record e r)"
  by (rule jr.movesI) (auto simp: insert_record_def Let_def journal_grows_def split: option.splits if_splits)

lemma append_audit_moves [intro]: "jr.moves (append_audit e tx ty i a p at)"
  by (rule jr.movesI) (auto simp: append_audit_def Let_def journal_grows_def split: if_splits)

lemma record_revision_moves [intro]: "jr.moves (record_revision e tx at ty i)"
proof (rule jr.movesI)
  fix s x t
  assume r: "record_revision e tx at ty i s = Inr (x, t)"
  have m: "jr.moves (bindT (append_audit e tx ty i a p at) (\<lambda>n. writeT (\<lambda>s. s\<lparr>t_revisions := t_revisions s @ [f n]\<rparr>)))" for a p f
    by (intro jr.moves_bind jr.moves_write append_audit_moves) (simp add: journal_grows_def)
  from r show "journal_grows s t"
    by (auto simp: record_revision_def Let_def split: option.splits intro: jr.movesD [OF m])
qed

lemma record_if_new_moves [intro]: "jr.moves (record_if_new e tx r)"
  unfolding record_if_new_def by (intro jr.moves_bind jr.moves_if jr.moves_pure jr.moves_prod insert_record_moves append_audit_moves)

lemma record_fresh_moves [intro]: "jr.moves (record_fresh e tx r at code)"
  unfolding record_fresh_def by (intro jr.moves_bind jr.moves_pure jr.moves_prod insert_record_moves append_audit_moves)

lemma insert_decision_moves [intro]: "jr.moves (insert_decision e d i run digest)"
  by (rule jr.movesI) (auto simp: insert_decision_def Let_def journal_grows_def rows_kept_append split: option.splits if_splits)

lemma issue_decision_moves [intro]: "jr.moves (issue_decision_tx e tx d)"
  unfolding issue_decision_tx_def
  by (intro jr.moves_bind jr.moves_if jr.moves_pure jr.moves_prod insert_record_moves insert_decision_moves append_audit_moves)

lemma spend_decision_moves [intro]: "jr.moves (spend_decision i digest nonce at us)"
  by (rule jr.movesI)
    (auto simp: spend_decision_def journal_grows_def decision_kept_def split: option.splits if_splits intro!: rows_kept_set)

lemma consume_decision_moves [intro]: "jr.moves (consume_decision_tx e tx d subject nonce now)"
proof (rule jr.movesI)
  fix s x t
  assume c: "consume_decision_tx e tx d subject nonce now s = Inr (x, t)"
  have m: "jr.moves (consume_fresh e tx d subject nonce now)"
    unfolding consume_fresh_def Let_def
    by (intro jr.moves_bind jr.moves_pure jr.moves_write append_audit_moves spend_decision_moves)
      (simp add: journal_grows_def rows_kept_append)
  from c show "journal_grows s t"
    by (auto simp: consume_decision_tx_def jr.rel_refl split: option.splits if_splits intro: jr.movesD [OF m])
qed

lemma nonce_result_moves [intro]: "jr.moves (set_nonce_result nonce digest)"
  unfolding set_nonce_result_def
  by (intro jr.moves_write) (auto simp: journal_grows_def nonce_kept_def split: option.splits intro!: rows_kept_set)

interpretation jl: store_logic journal_grows e "\<lambda>_. True" for e
  by unfold_locales
    (auto simp: journal_grows_def same_journal_def intro: record_fresh_moves record_if_new_moves issue_decision_moves consume_decision_moves
      nonce_result_moves record_revision_moves)

lemma spent_decision_kept:
  assumes "journal_grows s t" and "map_of (t_decisions s) i = Some r" and "dr_consumed_at r \<noteq> None"
  shows "map_of (t_decisions t) i = Some r"
proof -
  from assms(1,2) obtain r' where "map_of (t_decisions t) i = Some r'" and "decision_kept r r'"
    unfolding journal_grows_def rows_kept_def by blast
  with assms(3) show ?thesis by (simp add: decision_kept_def)
qed

lemma consumed_refused:
  assumes "map_of (t_decisions t) (the_str (jat d [''metadata'', ''id''])) = Some r" and "dr_consumed_at r \<noteq> None"
    and "consume_decision_tx e tx d subject nonce now t = Inr (fresh, u)"
  shows "\<not> fresh \<and> u = t \<and> dr_consumed_nonce r = Some nonce"
  using assms
  by (auto simp: consume_decision_tx_def consume_fresh_def spend_decision_def bindT_Inr [of "spend_decision i x n at us" for i x n at us]
      Let_def split: option.splits if_splits)

section \<open>Claims\<close>

text \<open>C6: the journal of the durable store is append-only: whatever methods run, the records, audit entries, authority revisions and
  run events of a store are a prefix of those of every later store, a decision keeps its run, digest, subject, effect and expiry and
  its whole row once it was consumed, and a nonce keeps the run and the subject it was spent for.\<close>

theorem journal_append_only:
  assumes "(store_step e)\<^sup>*\<^sup>* s t"
  shows "prefix (t_records s) (t_records t) \<and> prefix (t_audit s) (t_audit t) \<and> prefix (t_revisions s) (t_revisions t)
    \<and> prefix (t_events s) (t_events t) \<and> rows_kept decision_kept (t_decisions s) (t_decisions t)
    \<and> rows_kept nonce_kept (t_nonces s) (t_nonces t)"
  using jl.steps_rel [OF assms] by (simp add: journal_grows_def)

text \<open>C5: a decision authorizes once: after it was consumed, no later history of the store lets it be consumed with another nonce,
  and consuming it again with its own nonce changes nothing.\<close>

theorem store_decision_single_use:
  assumes "map_of (t_decisions s) (the_str (jat d [''metadata'', ''id''])) = Some r" and "dr_consumed_at r \<noteq> None"
    and "(store_step e)\<^sup>*\<^sup>* s t" and "consume_decision_tx e tx d subject nonce now t = Inr (fresh, u)"
  shows "\<not> fresh \<and> u = t \<and> dr_consumed_nonce r = Some nonce"
  using consumed_refused [OF spent_decision_kept [OF jl.steps_rel [OF assms(3)] assms(1,2)] assms(2,4)] .

end
