(* ===== verification/Eco_Store_Accounts.thy ===== *)
theory Eco_Store_Accounts
  imports Eco_Store_Journal
begin

text \<open>
  The accounts of the durable store: budgets, repository reads with their reservations and model calls with theirs. The moves
  of the accounts are an abstract machine that every method of the store refines; it carries the bounds and the sums of the
  budgets and the life of operations and calls.
\<close>

section \<open>The moves of the accounts\<close>

type_synonym accounts = "(string \<times> budget_row) list \<times> (string \<times> operation_row) list \<times> (string \<times> reservation_row) list
  \<times> (string \<times> model_row) list \<times> (string \<times> charge_row) list"

definition accounts :: "rstore \<Rightarrow> accounts" where
  "accounts s = (t_budgets s, t_operations s, t_reservations s, t_models s, t_charges s)"

definition fresh_meters :: "budget_row \<Rightarrow> bool" where
  "fresh_meters b \<longleftrightarrow> bu_tool_requests b = 0 \<and> bu_reserved_input b = 0 \<and> bu_output_bytes b = 0 \<and> bu_model_requests b = 0
     \<and> bu_total_tokens b = 0 \<and> bu_cost b = 0 \<and> 0 \<le> bu_input_bytes b \<and> bu_input_bytes b \<le> maxInputBytes (bu_limits b)
     \<and> 0 \<le> maxModelRequests (bu_limits b) \<and> 0 \<le> maxToolRequests (bu_limits b) \<and> 0 \<le> maxOutputBytes (bu_limits b)
     \<and> 0 \<le> maxTotalTokens (bu_limits b) \<and> 0 \<le> maxCostMicrousd (bu_limits b)"

definition fresh_reservation :: "string \<Rightarrow> int \<Rightarrow> reservation_row \<Rightarrow> bool" where
  "fresh_reservation run n v \<longleftrightarrow> rs_run_id v = run \<and> rs_reserved v = n \<and> rs_actual v = None \<and> rs_state v = Reserved \<and> 0 \<le> n"

definition fresh_charge :: "string \<Rightarrow> charge_row \<Rightarrow> bool" where
  "fresh_charge run c \<longleftrightarrow> ch_run_id c = run \<and> ch_state c = ChargeReserved \<and> ch_actual_output c = None \<and> ch_actual_tokens c = None
     \<and> ch_charged_tokens c = None \<and> ch_charged_cost c = None \<and> 0 \<le> ch_output_bytes c \<and> 0 \<le> ch_total_tokens c \<and> 0 \<le> ch_cost c"

text \<open>Sums over the rows of a table.\<close>

definition tally :: "('v \<Rightarrow> int) \<Rightarrow> (string \<times> 'v) list \<Rightarrow> int" where
  "tally g rows = sum_list (map (g \<circ> snd) rows)"

definition owed :: "(charge_row \<Rightarrow> int) \<Rightarrow> string \<Rightarrow> (string \<times> charge_row) list \<Rightarrow> int" where
  "owed f run = tally (\<lambda>c. if ch_run_id c = run \<and> ch_state c = ChargeReserved then f c else 0)"

inductive account_move :: "accounts \<Rightarrow> accounts \<Rightarrow> bool" where
  am_same: "account_move a a"
| am_activate: "run \<notin> dict_keys bs \<Longrightarrow> fresh_meters b \<Longrightarrow> account_move (bs, os, vs, ms, cs) (bs @ [(run, b)], os, vs, ms, cs)"
| am_prepare_read: "map_of bs run = Some b \<Longrightarrow> bu_tool_requests b + 1 \<le> maxToolRequests (bu_limits b)
    \<Longrightarrow> bu_input_bytes b + bu_reserved_input b + n \<le> maxInputBytes (bu_limits b) \<Longrightarrow> i \<notin> dict_keys os \<Longrightarrow> or_state o' = ReadPrepared
    \<Longrightarrow> or_run_id o' = run \<Longrightarrow> fresh_reservation run n v
    \<Longrightarrow> account_move (bs, os, vs, ms, cs)
      (dict_set run (b\<lparr>bu_tool_requests := bu_tool_requests b + 1, bu_reserved_input := bu_reserved_input b + n, bu_updated_at := at\<rparr>) bs,
       os @ [(i, o')], vs @ [(i, v)], ms, cs)"
| am_fail_read: "map_of os i = Some o' \<Longrightarrow> or_state o' = ReadPrepared \<Longrightarrow> map_of vs i = Some v \<Longrightarrow> rs_state v = Reserved
    \<Longrightarrow> map_of bs (or_run_id o') = Some b \<Longrightarrow> or_state o'' = ReadFailed \<Longrightarrow> or_run_id o'' = or_run_id o'
    \<Longrightarrow> account_move (bs, os, vs, ms, cs)
      (dict_set (or_run_id o') (b\<lparr>bu_reserved_input := bu_reserved_input b - rs_reserved v, bu_updated_at := at\<rparr>) bs,
       dict_set i o'' os, dict_set i (v\<lparr>rs_state := Released, rs_updated_at := at\<rparr>) vs, ms, cs)"
| am_read: "map_of os i = Some o' \<Longrightarrow> or_state o' = ReadPrepared \<Longrightarrow> map_of vs i = Some v \<Longrightarrow> rs_state v = Reserved
    \<Longrightarrow> map_of bs (or_run_id o') = Some b \<Longrightarrow> or_state o'' = ReadSucceeded \<Longrightarrow> or_run_id o'' = or_run_id o'
    \<Longrightarrow> account_move (bs, os, vs, ms, cs)
      (dict_set (or_run_id o') (b\<lparr>bu_reserved_input := bu_reserved_input b - rs_reserved v, bu_input_bytes := bu_input_bytes b + rs_reserved v,
         bu_updated_at := at\<rparr>) bs,
       dict_set i o'' os, dict_set i (v\<lparr>rs_actual := Some (rs_reserved v), rs_state := Settled, rs_updated_at := at\<rparr>) vs, ms, cs)"
| am_prepare_call: "map_of bs run = Some b \<Longrightarrow> bu_model_requests b + 1 \<le> maxModelRequests (bu_limits b)
    \<Longrightarrow> bu_output_bytes b + owed ch_output_bytes run cs + ch_output_bytes c \<le> maxOutputBytes (bu_limits b)
    \<Longrightarrow> bu_total_tokens b + owed ch_total_tokens run cs + ch_total_tokens c \<le> maxTotalTokens (bu_limits b)
    \<Longrightarrow> bu_cost b + owed ch_cost run cs + ch_cost c \<le> maxCostMicrousd (bu_limits b) \<Longrightarrow> i \<notin> dict_keys ms
    \<Longrightarrow> mo_state m = ModelPrepared \<Longrightarrow> mo_run_id m = run \<Longrightarrow> mo_started_at m = None \<Longrightarrow> fresh_charge run c
    \<Longrightarrow> account_move (bs, os, vs, ms, cs)
      (dict_set run (b\<lparr>bu_model_requests := bu_model_requests b + 1, bu_updated_at := at\<rparr>) bs, os, vs, ms @ [(i, m)], cs @ [(i, c)])"
| am_fence: "map_of ms i = Some m \<Longrightarrow> mo_state m = ModelPrepared
    \<Longrightarrow> account_move (bs, os, vs, ms, cs) (bs, os, vs, dict_set i (m\<lparr>mo_state := ModelStarted, mo_started_at := Some at, mo_resume_decision := res, mo_updated_at := at\<rparr>) ms, cs)"
| am_abort_call: "map_of ms i = Some m \<Longrightarrow> mo_state m = ModelPrepared \<Longrightarrow> map_of cs i = Some c \<Longrightarrow> ch_state c = ChargeReserved
    \<Longrightarrow> account_move (bs, os, vs, ms, cs)
      (bs, os, vs, dict_set i (m\<lparr>mo_state := ModelFailed, mo_error_digest := er, mo_updated_at := at\<rparr>) ms,
       dict_set i (c\<lparr>ch_actual_output := None, ch_actual_tokens := None, ch_charged_tokens := Some 0, ch_charged_cost := Some 0,
         ch_state := ChargeCommitted, ch_updated_at := at\<rparr>) cs)"
| am_settle_call: "map_of ms i = Some m \<Longrightarrow> mo_state m = ModelStarted \<Longrightarrow> map_of cs i = Some c \<Longrightarrow> ch_state c = ChargeReserved
    \<Longrightarrow> map_of bs (mo_run_id m) = Some b \<Longrightarrow> 0 \<le> n \<Longrightarrow> n \<le> ch_output_bytes c
    \<Longrightarrow> account_move (bs, os, vs, ms, cs)
      (dict_set (mo_run_id m) (settled_budget n c at b) bs, os, vs,
       dict_set i (m\<lparr>mo_state := ModelSucceeded, mo_result_digest := rd, mo_output_digest := od, mo_final_decision := fd, mo_updated_at := at\<rparr>) ms,
       dict_set i (c\<lparr>ch_actual_output := Some n, ch_actual_tokens := tk, ch_charged_tokens := Some (ch_total_tokens c),
         ch_charged_cost := Some (ch_cost c), ch_state := ChargeCommitted, ch_updated_at := at\<rparr>) cs)"
| am_ceiling: "map_of ms i = Some m \<Longrightarrow> mo_state m = ModelStarted \<Longrightarrow> map_of cs i = Some c \<Longrightarrow> ch_state c = ChargeReserved
    \<Longrightarrow> map_of bs (mo_run_id m) = Some b \<Longrightarrow> st \<in> {ModelFailed, ModelAmbiguous}
    \<Longrightarrow> account_move (bs, os, vs, ms, cs)
      (dict_set (mo_run_id m) (settled_budget 0 c at b) bs, os, vs,
       dict_set i (m\<lparr>mo_state := st, mo_error_digest := er, mo_updated_at := at\<rparr>) ms,
       dict_set i (c\<lparr>ch_actual_output := None, ch_actual_tokens := None, ch_charged_tokens := Some (ch_total_tokens c),
         ch_charged_cost := Some (ch_cost c), ch_state := ChargeUncertain, ch_updated_at := at\<rparr>) cs)"

section \<open>Every method refines a move\<close>

interpretation acd: decision_view accounts
  by unfold_locales (simp_all add: accounts_def)

interpretation ace: event_view accounts
  by unfold_locales (simp_all add: accounts_def)

lemmas accounts_kept = acd.keep_insert_record acd.keep_append_audit acd.keep_record_revision acd.keep_record_revisions acd.keep_record_if_new acd.keep_record_fresh
  acd.keep_record_result acd.keep_issue_decision acd.keep_consume_decision acd.keep_nonce_result ace.keep_append_event

lemma same_accounts:
  "accounts t = accounts s \<Longrightarrow> t_budgets t = t_budgets s \<and> t_operations t = t_operations s \<and> t_reservations t = t_reservations s
     \<and> t_models t = t_models s \<and> t_charges t = t_charges s"
  by (simp add: accounts_def)

lemma update_budget_Inr:
  "update_budget run c f code s = Inr (u, t) \<longleftrightarrow>
     (\<exists>b. map_of (t_budgets s) run = Some b \<and> c b \<and> budget_checks (f b) \<and> t = s\<lparr>t_budgets := dict_set run (f b) (t_budgets s)\<rparr>)"
  by (auto simp: update_budget_def split: option.splits if_splits)

lemma tally_filter: "sum_list (map (g \<circ> snd) (filter (\<lambda>(i, c). P c) rows)) = tally (\<lambda>c. if P c then g c else 0) rows"
  unfolding tally_def by (induction rows) auto

lemma outstanding_owed: "outstanding f run s = owed f run (t_charges s)"
  unfolding outstanding_def owed_def by (rule tally_filter)

lemma reserve_read_move:
  assumes "reserve_read e tx plan request d intent n owner token until now s = Inr (u, t)"
  shows "account_move (accounts s) (accounts t)"
  using assms unfolding reserve_read_def Let_def
  by (elim bindT_InrE case_prodE)
    (auto simp: accounts_def tx_simps update_budget_Inr insert_operation_def operation_row_of_def fresh_reservation_def
      split: if_splits prod.splits elim!: bindT_InrE dest!: accounts_kept same_accounts intro!: am_prepare_read)

lemma prepare_read_move:
  assumes "prepare_new e tx token plan request d intent entry owner until now policy runtime s = Inr (l, t)"
  shows "account_move (accounts s) (accounts t)"
  using assms unfolding prepare_new_def read_events_def Let_def
  by (elim bindT_InrE) (auto simp: tx_simps dest!: accounts_kept reserve_read_move)

lemma fail_read_move:
  assumes "settle_failed_read e tx i o' v intent error outcome now broker s = Inr (x, t)" and "map_of (t_operations s) i = Some o'"
    and "or_state o' = ReadPrepared" and "map_of (t_reservations s) i = Some v" and "rs_state v = Reserved"
  shows "account_move (accounts s) (accounts t)"
  using assms unfolding settle_failed_read_def Let_def
  by (elim bindT_InrE)
    (auto simp: tx_simps update_budget_Inr close_failed_def accounts_def dest!: accounts_kept same_accounts intro!: am_fail_read)

lemma read_move:
  assumes "settle_read e tx i o' v intent receipt artifact outcome now broker s = Inr (x, t)" and "map_of (t_operations s) i = Some o'"
    and "or_state o' = ReadPrepared" and "map_of (t_reservations s) i = Some v" and "rs_state v = Reserved"
    and "jat intent [''spec'', ''repositoryEntry'', ''byteLength''] = JInt (rs_reserved v)"
  shows "account_move (accounts s) (accounts t)"
  using assms unfolding settle_read_def Let_def
  by (elim bindT_InrE)
    (auto simp: tx_simps update_budget_Inr close_succeeded_def accounts_def dest!: accounts_kept same_accounts intro!: am_read)

lemma activate_move:
  assumes "store_activate_plan e tx plan d nonce now policy s = Inr (b, t)"
  shows "account_move (accounts s) (accounts t)"
  using assms unfolding store_activate_plan_def Let_def
  by (auto simp: tx_simps bindT_Inr [of "consume_decision_tx e tx d x nonce now" for x] bindT_Inr [of "insert_budget run b" for run b]
      bindT_Inr [of "append_event_tx e tx now run q" for run q] bindT_Inr [of "record_revisions e tx at es" for at es]
      insert_budget_def activation_rows_def plan_budget_def budget_checks_def fresh_meters_def Let_def accounts_def
      split: if_splits prod.splits dest!: accounts_kept same_accounts intro!: am_activate am_same)

lemma reserve_call_move:
  assumes "reserve_call e tx request endpoint input d m c now s = Inr (u, t)" and "call_affordable (mo_run_id m) (mo_plan_digest m) c s"
    and "m = model_row_of e plan request endpoint input d kd at" and "c = charge_row_of e plan request cost at'"
  shows "account_move (accounts s) (accounts t)"
proof -
  have rows: "mo_state m = ModelPrepared" "mo_started_at m = None" "ch_run_id c = mo_run_id m" "ch_state c = ChargeReserved" "ch_actual_output c = None"
    "ch_actual_tokens c = None" "ch_charged_tokens c = None" "ch_charged_cost c = None"
    using assms(3,4) by (simp_all add: model_row_of_def charge_row_of_def)
  have each: "eachT (\<lambda>r. bindT (record_if_new e tx r) (\<lambda>_. returnT ())) rs s = Inr (u, t) \<Longrightarrow> accounts t = accounts s" for rs s u t
    by (induction rs arbitrary: s) (auto simp: tx_simps bindT_Inr dest!: accounts_kept)
  from assms(1,2) rows show ?thesis
    unfolding reserve_call_def Let_def
    by (elim bindT_InrE)
      (auto simp: accounts_def tx_simps update_budget_Inr insert_model_def call_affordable_def outstanding_owed fresh_charge_def
        simp del: eachT.simps split: if_splits option.splits dest!: accounts_kept each same_accounts intro!: am_prepare_call)
qed

lemma fence_move:
  assumes "cross_fence e tx i m res at s = Inr (x, t)" and "map_of (t_models s) i = Some m" and "mo_state m = ModelPrepared"
  shows "account_move (accounts s) (accounts t)"
  using assms unfolding cross_fence_def
  by (elim bindT_InrE) (auto simp: tx_simps write_model_def accounts_def dest!: accounts_kept same_accounts intro!: am_fence)

lemma close_call_accounts:
  assumes "close_call e tx i m c result q now s = Inr (x, t)"
  shows "accounts t = (t_budgets s, t_operations s, t_reservations s, dict_set i m (t_models s), dict_set i c (t_charges s))"
  using assms unfolding close_call_def
  by (elim bindT_InrE) (auto simp: tx_simps write_model_def write_charge_def accounts_def dest!: accounts_kept same_accounts)

lemma abort_call_move:
  assumes "abort_call e tx i m c now s = Inr (x, t)" and "map_of (t_models s) i = Some m" and "mo_state m = ModelPrepared"
    and "map_of (t_charges s) i = Some c" and "ch_state c = ChargeReserved"
  shows "account_move (accounts s) (accounts t)"
  using assms unfolding abort_call_def Let_def
  by (elim bindT_InrE)
    (auto simp: tx_simps write_model_def write_charge_def accounts_def dest!: accounts_kept same_accounts intro!: am_abort_call)

lemma settle_call_move:
  assumes "settle_call e tx i m c result a d now adapter s = Inr (x, t)" and "map_of (t_models s) i = Some m" and "mo_state m = ModelStarted"
    and "map_of (t_charges s) i = Some c" and "ch_state c = ChargeReserved"
    and "the_int (jat result [''spec'', ''output'', ''byteLength'']) \<le> ch_output_bytes c"
  shows "account_move (accounts s) (accounts t)"
  using assms unfolding settle_call_def Let_def
  by (elim bindT_InrE)
    (auto simp: tx_simps update_budget_Inr constraintT_def accounts_def [of s] split: if_splits
      dest!: accounts_kept same_accounts close_call_accounts intro!: am_settle_call)

lemma ceiling_move:
  assumes "charge_ceiling e tx i m c st error now adapter s = Inr (x, t)" and "map_of (t_models s) i = Some m" and "mo_state m = ModelStarted"
    and "map_of (t_charges s) i = Some c" and "ch_state c = ChargeReserved" and "st \<in> {ModelFailed, ModelAmbiguous}"
  shows "account_move (accounts s) (accounts t)"
  using assms(1-5) unfolding charge_ceiling_def Let_def
  by (elim bindT_InrE)
    (auto simp: tx_simps update_budget_Inr accounts_def [of s] dest!: accounts_kept same_accounts close_call_accounts intro!: am_ceiling [OF _ _ _ _ _ assms(6)])

text \<open>The methods that leave the accounts alone.\<close>

lemma accounts_put: "put_record e tx r s = Inr (x, t) \<Longrightarrow> accounts t = accounts s"
  unfolding put_record_def by (auto simp: tx_simps bindT_Inr split: if_splits dest!: accounts_kept)

lemma accounts_start: "start_run e tx run request cap s = Inr (x, t) \<Longrightarrow> accounts t = accounts s"
  unfolding start_run_def Let_def open_run_def
  by (auto simp: tx_simps bindT_Inr accounts_def split: if_splits prod.splits dest!: accounts_kept same_accounts)

lemma accounts_issue_plan: "issue_plan e tx plan d policy cap s = Inr (x, t) \<Longrightarrow> accounts t = accounts s"
proof -
  have p: "insert_plan i run digest s = Inr (b, t) \<Longrightarrow> accounts t = accounts s" for i run digest s b t
    by (auto simp: insert_plan_def accounts_def split: option.splits if_splits)
  have r: "run_for_plan e run plan at cap s = Inr (b, t) \<Longrightarrow> accounts t = accounts s" for run at s b t
    by (auto simp: run_for_plan_def open_run_def tx_simps accounts_def split: option.splits if_splits)
  assume "issue_plan e tx plan d policy cap s = Inr (x, t)"
  then show ?thesis
    unfolding issue_plan_def Let_def
    by (elim bindT_InrE)
      (auto simp: tx_simps split: if_splits prod.splits elim!: bindT_InrE dest!: accounts_kept p r)
qed

lemma accounts_deny: "deny_plan e tx plan d nonce now policy s = Inr (x, t) \<Longrightarrow> accounts t = accounts s"
  unfolding deny_plan_def Let_def
  by (elim bindT_InrE) (auto simp: tx_simps accounts_def split: prod.splits elim!: bindT_InrE dest!: accounts_kept same_accounts)

lemma accounts_checkpoint: "write_checkpoint e tx run at v c s = Inr (x, t) \<Longrightarrow> accounts t = accounts s"
  unfolding write_checkpoint_def Let_def
  by (auto simp: tx_simps bindT_Inr accounts_def split: prod.splits dest!: accounts_kept same_accounts)

lemma effect_move: "store_effect e s t \<Longrightarrow> account_move (accounts s) (accounts t)"
proof (induction rule: store_effect.induct)
  case (eff_resume s i m d subject tx x s1 nonce now y' s2 res at m' t)
  then have "accounts s2 = accounts s" by (auto dest!: accounts_kept)
  moreover with eff_resume have "map_of (t_models s2) i = Some m" by (auto dest!: same_accounts)
  ultimately show ?case using fence_move [OF eff_resume(6) _ eff_resume(2)] by simp
next
  case (eff_prepare_call plan request endpoint input d pf cost window m kd at c at' s tx now u t)
  then show ?case by (intro reserve_call_move [OF eff_prepare_call(5,4,2,3)])
next
  case (eff_settle_call s i m c result d a tx now adapter m' t)
  then show ?case by (intro settle_call_move [OF eff_settle_call(9)]) auto
qed (auto intro: am_same prepare_read_move fail_read_move read_move activate_move fence_move abort_call_move ceiling_move
    dest!: accounts_put accounts_start accounts_issue_plan accounts_deny accounts_checkpoint accounts_kept)

lemma step_move: "store_step e s t \<Longrightarrow> account_move (accounts s) (accounts t)"
  using step_effect effect_move am_same by metis

end
