(* ===== verification/Eco_Store_Budgets.thy ===== *)
theory Eco_Store_Budgets
  imports Eco_Store_Accounts
begin

text \<open>
  The invariant of the accounts: every operation has its reservation and every call its charge, in states that fit; the meters
  of a budget are exactly the sums of the settled rows, and together with what is still reserved they stay within its limits.
\<close>

section \<open>Sums\<close>

lemma tally_simps [simp]: "tally g [] = 0" "tally g ((i, v) # rows) = g v + tally g rows" "tally g (rows @ rows') = tally g rows + tally g rows'"
  by (simp_all add: tally_def)

lemma tally_set:
  assumes "distinct (map fst rows)" and "map_of rows i = Some v"
  shows "tally g (dict_set i w rows) = tally g rows - g v + g w"
  using assms unfolding dict_set_def by (induction rows) (auto split: if_splits simp: map_of_eq_None_iff)

lemma tally_zero: "(\<And>i v. map_of rows i = Some v \<Longrightarrow> g v = 0) \<Longrightarrow> distinct (map fst rows) \<Longrightarrow> tally g rows = 0"
proof (induction rows)
  case (Cons x rows)
  obtain i v where x: "x = (i, v)" by force
  with Cons.prems have "g v = 0" by (auto intro: Cons.prems(1) [of i])
  moreover have "tally g rows = 0"
  proof (rule Cons.IH)
    fix j w assume "map_of rows j = Some w"
    moreover from this have "j \<noteq> i" using Cons.prems(2) x by (force dest!: map_of_SomeD)
    ultimately show "g w = 0" using Cons.prems(1) [of j w] x by simp
  qed (use Cons.prems in simp)
  ultimately show ?case using x by simp
qed simp

lemma tally_le: "(\<And>i v. (i, v) \<in> set rows \<Longrightarrow> 0 \<le> g v) \<Longrightarrow> map_of rows i = Some v \<Longrightarrow> g v \<le> tally g rows"
proof (induction rows)
  case (Cons x rows)
  have "0 \<le> tally g rows" using Cons.prems(1) unfolding tally_def by (intro sum_list_nonneg) fastforce
  with Cons show ?case by (cases x) (fastforce split: if_splits)
qed simp

section \<open>The invariant\<close>

definition read_pair :: "operation_row \<Rightarrow> reservation_row \<Rightarrow> bool" where
  "read_pair r v \<longleftrightarrow> rs_run_id v = or_run_id r \<and> 0 \<le> rs_reserved v \<and> (case rs_state v of
       Reserved \<Rightarrow> or_state r = ReadPrepared \<and> rs_actual v = None
     | Settled \<Rightarrow> or_state r = ReadSucceeded \<and> rs_actual v = Some (rs_reserved v)
     | Released \<Rightarrow> or_state r = ReadFailed \<and> rs_actual v = None)"

text \<open>A call that was aborted before egress is committed with nothing charged; one that crossed the fence is charged in full.\<close>

definition call_pair :: "model_row \<Rightarrow> charge_row \<Rightarrow> bool" where
  "call_pair m c \<longleftrightarrow> ch_run_id c = mo_run_id m \<and> 0 \<le> ch_output_bytes c \<and> 0 \<le> ch_total_tokens c \<and> 0 \<le> ch_cost c
     \<and> (case mo_state m of
         ModelPrepared \<Rightarrow> ch_state c = ChargeReserved \<and> mo_started_at m = None
       | ModelStarted \<Rightarrow> ch_state c = ChargeReserved \<and> mo_started_at m \<noteq> None
       | ModelSucceeded \<Rightarrow> ch_state c = ChargeCommitted \<and> mo_started_at m \<noteq> None \<and> ch_charged_tokens c = Some (ch_total_tokens c)
           \<and> ch_charged_cost c = Some (ch_cost c) \<and> (\<exists>n. ch_actual_output c = Some n \<and> 0 \<le> n \<and> n \<le> ch_output_bytes c)
       | ModelFailed \<Rightarrow> ch_actual_output c = None
           \<and> (if mo_started_at m = None then ch_state c = ChargeCommitted \<and> ch_charged_tokens c = Some 0 \<and> ch_charged_cost c = Some 0
              else ch_state c = ChargeUncertain \<and> ch_charged_tokens c = Some (ch_total_tokens c) \<and> ch_charged_cost c = Some (ch_cost c))
       | ModelAmbiguous \<Rightarrow> ch_actual_output c = None \<and> mo_started_at m \<noteq> None \<and> ch_state c = ChargeUncertain
           \<and> ch_charged_tokens c = Some (ch_total_tokens c) \<and> ch_charged_cost c = Some (ch_cost c))
     \<and> (ch_state c = ChargeReserved \<longrightarrow> ch_actual_output c = None \<and> ch_charged_tokens c = None \<and> ch_charged_cost c = None)"

definition reads_of :: "string \<Rightarrow> (string \<times> reservation_row) list \<Rightarrow> int" where
  "reads_of run = tally (\<lambda>v. if rs_run_id v = run then 1 else 0)"

definition reserved_of :: "string \<Rightarrow> (string \<times> reservation_row) list \<Rightarrow> int" where
  "reserved_of run = tally (\<lambda>v. if rs_run_id v = run \<and> rs_state v = Reserved then rs_reserved v else 0)"

definition committed_of :: "string \<Rightarrow> (string \<times> reservation_row) list \<Rightarrow> int" where
  "committed_of run = tally (\<lambda>v. if rs_run_id v = run \<and> rs_state v = Settled then the (rs_actual v) else 0)"

definition calls_of :: "string \<Rightarrow> (string \<times> charge_row) list \<Rightarrow> int" where
  "calls_of run = tally (\<lambda>c. if ch_run_id c = run then 1 else 0)"

definition output_of :: "string \<Rightarrow> (string \<times> charge_row) list \<Rightarrow> int" where
  "output_of run = tally (\<lambda>c. if ch_run_id c = run \<and> ch_state c = ChargeCommitted then (case ch_actual_output c of None \<Rightarrow> 0 | Some n \<Rightarrow> n) else 0)"

definition charged_of :: "(charge_row \<Rightarrow> int option) \<Rightarrow> string \<Rightarrow> (string \<times> charge_row) list \<Rightarrow> int" where
  "charged_of f run = tally (\<lambda>c. if ch_run_id c = run \<and> ch_state c \<in> {ChargeCommitted, ChargeUncertain} then the (f c) else 0)"

lemmas sums_def = reads_of_def reserved_of_def committed_of_def calls_of_def output_of_def charged_of_def owed_def

definition meters_agree :: "string \<Rightarrow> budget_row \<Rightarrow> (string \<times> reservation_row) list \<Rightarrow> (string \<times> charge_row) list \<Rightarrow> bool" where
  "meters_agree run b vs cs \<longleftrightarrow> bu_tool_requests b = reads_of run vs \<and> bu_reserved_input b = reserved_of run vs
     \<and> bu_model_requests b = calls_of run cs \<and> bu_output_bytes b = output_of run cs \<and> bu_total_tokens b = charged_of ch_charged_tokens run cs
     \<and> bu_cost b = charged_of ch_charged_cost run cs"

definition within_limits :: "string \<Rightarrow> budget_row \<Rightarrow> (string \<times> charge_row) list \<Rightarrow> bool" where
  "within_limits run b cs \<longleftrightarrow> bu_tool_requests b \<le> maxToolRequests (bu_limits b) \<and> bu_input_bytes b + bu_reserved_input b \<le> maxInputBytes (bu_limits b)
     \<and> bu_model_requests b \<le> maxModelRequests (bu_limits b) \<and> bu_output_bytes b + owed ch_output_bytes run cs \<le> maxOutputBytes (bu_limits b)
     \<and> bu_total_tokens b + owed ch_total_tokens run cs \<le> maxTotalTokens (bu_limits b) \<and> bu_cost b + owed ch_cost run cs \<le> maxCostMicrousd (bu_limits b)"

definition keys_ok :: "accounts \<Rightarrow> bool" where
  "keys_ok a = (case a of (bs, os, vs, ms, cs) \<Rightarrow> distinct (map fst bs) \<and> distinct (map fst os) \<and> map fst vs = map fst os \<and> distinct (map fst ms)
     \<and> map fst cs = map fst ms)"

definition reads_ok :: "(string \<times> budget_row) list \<Rightarrow> (string \<times> operation_row) list \<Rightarrow> (string \<times> reservation_row) list \<Rightarrow> bool" where
  "reads_ok bs os vs \<longleftrightarrow> (\<forall>i r v. map_of os i = Some r \<longrightarrow> map_of vs i = Some v \<longrightarrow> read_pair r v \<and> or_run_id r \<in> dict_keys bs)"

definition calls_ok :: "(string \<times> budget_row) list \<Rightarrow> (string \<times> model_row) list \<Rightarrow> (string \<times> charge_row) list \<Rightarrow> bool" where
  "calls_ok bs ms cs \<longleftrightarrow> (\<forall>i m c. map_of ms i = Some m \<longrightarrow> map_of cs i = Some c \<longrightarrow> call_pair m c \<and> mo_run_id m \<in> dict_keys bs)"

definition pairs_ok :: "accounts \<Rightarrow> bool" where
  "pairs_ok a = (case a of (bs, os, vs, ms, cs) \<Rightarrow> reads_ok bs os vs \<and> calls_ok bs ms cs)"

definition budgets_ok :: "accounts \<Rightarrow> bool" where
  "budgets_ok a = (case a of (bs, os, vs, ms, cs) \<Rightarrow>
     \<forall>run b. map_of bs run = Some b \<longrightarrow> meters_agree run b vs cs \<and> within_limits run b cs)"

lemma map_fst_dict_set: "map_of d i = Some w \<Longrightarrow> map fst (dict_set i v d) = map fst d"
  unfolding dict_set_def by (induction d) (auto split: if_splits)

lemma map_of_in_keys: "map_of d i = Some v \<Longrightarrow> i \<in> dict_keys d"
  by (auto simp: dict_keys_dom)

lemma same_keys_None: "map fst vs = map fst os \<Longrightarrow> i \<notin> dict_keys os \<Longrightarrow> map_of vs i = None"
  by (metis dict_keys_def list.set_map map_of_eq_None_iff)

lemma map_of_snoc: "map_of (d @ [(i, v)]) k = (case map_of d k of None \<Rightarrow> if k = i then Some v else None | Some w \<Rightarrow> Some w)"
  by (auto simp: map_add_def split: option.splits)

lemma move_keys: "account_move a b \<Longrightarrow> keys_ok a \<Longrightarrow> keys_ok b"
  by (induction rule: account_move.induct) (auto simp: keys_ok_def map_fst_dict_set dict_keys_def)

lemma reads_ok_mono: "reads_ok bs os vs \<Longrightarrow> dict_keys bs \<subseteq> dict_keys bs' \<Longrightarrow> reads_ok bs' os vs"
  unfolding reads_ok_def by blast

lemma calls_ok_mono: "calls_ok bs ms cs \<Longrightarrow> dict_keys bs \<subseteq> dict_keys bs' \<Longrightarrow> calls_ok bs' ms cs"
  unfolding calls_ok_def by blast

lemma reads_ok_set:
  "reads_ok bs os vs \<Longrightarrow> read_pair r v \<Longrightarrow> or_run_id r \<in> dict_keys bs \<Longrightarrow> reads_ok bs (dict_set i r os) (dict_set i v vs)"
  unfolding reads_ok_def by auto

lemma calls_ok_set:
  "calls_ok bs ms cs \<Longrightarrow> call_pair m c \<Longrightarrow> mo_run_id m \<in> dict_keys bs \<Longrightarrow> calls_ok bs (dict_set i m ms) (dict_set i c cs)"
  unfolding calls_ok_def by auto

lemma reads_ok_snoc:
  assumes "reads_ok bs os vs" and "read_pair r v" and "or_run_id r \<in> dict_keys bs" and "i \<notin> dict_keys os" and "map fst vs = map fst os"
  shows "reads_ok bs (os @ [(i, r)]) (vs @ [(i, v)])"
proof -
  have n: "map_of os i = None" "map_of vs i = None"
    using assms(4) same_keys_None [OF assms(5,4)] by (auto simp: dict_keys_dom)
  have "os @ [(i, r)] = dict_set i r os" "vs @ [(i, v)] = dict_set i v vs"
    using n by (simp_all add: dict_set_fresh map_of_eq_None_iff)
  then show ?thesis using reads_ok_set [OF assms(1-3)] by simp
qed

lemma calls_ok_snoc:
  assumes "calls_ok bs ms cs" and "call_pair m c" and "mo_run_id m \<in> dict_keys bs" and "i \<notin> dict_keys ms" and "map fst cs = map fst ms"
  shows "calls_ok bs (ms @ [(i, m)]) (cs @ [(i, c)])"
proof -
  have n: "map_of ms i = None" "map_of cs i = None"
    using assms(4) same_keys_None [OF assms(5,4)] by (auto simp: dict_keys_dom)
  have "ms @ [(i, m)] = dict_set i m ms" "cs @ [(i, c)] = dict_set i c cs"
    using n by (simp_all add: dict_set_fresh map_of_eq_None_iff)
  then show ?thesis using calls_ok_set [OF assms(1-3)] by simp
qed

lemma reads_okD: "reads_ok bs os vs \<Longrightarrow> map_of os i = Some r \<Longrightarrow> map_of vs i = Some v \<Longrightarrow> read_pair r v \<and> or_run_id r \<in> dict_keys bs"
  unfolding reads_ok_def by blast

lemma calls_okD: "calls_ok bs ms cs \<Longrightarrow> map_of ms i = Some m \<Longrightarrow> map_of cs i = Some c \<Longrightarrow> call_pair m c \<and> mo_run_id m \<in> dict_keys bs"
  unfolding calls_ok_def by blast

lemma calls_ok_model:
  "calls_ok bs ms cs \<Longrightarrow> (\<And>c. map_of cs i = Some c \<Longrightarrow> call_pair m c \<and> mo_run_id m \<in> dict_keys bs) \<Longrightarrow> calls_ok bs (dict_set i m ms) cs"
  unfolding calls_ok_def by auto

lemma call_pair_fence:
  "call_pair m c \<Longrightarrow> mo_state m = ModelPrepared
    \<Longrightarrow> call_pair (m\<lparr>mo_state := ModelStarted, mo_started_at := Some at, mo_resume_decision := res, mo_updated_at := at\<rparr>) c"
  by (simp add: call_pair_def)

lemma move_pairs: "account_move a b \<Longrightarrow> keys_ok a \<Longrightarrow> pairs_ok a \<Longrightarrow> pairs_ok b"
proof (induction rule: account_move.induct)
  case (am_activate run bs b os vs ms cs)
  then show ?case
    by (auto simp: pairs_ok_def dict_keys_def intro: reads_ok_mono calls_ok_mono)
next
  case (am_prepare_read bs run b n i os o' v vs ms cs at)
  let ?bs = "dict_set run (b\<lparr>bu_tool_requests := bu_tool_requests b + 1, bu_reserved_input := bu_reserved_input b + n, bu_updated_at := at\<rparr>) bs"
  have "read_pair o' v" using am_prepare_read by (simp add: read_pair_def fresh_reservation_def)
  moreover have "reads_ok ?bs os vs" "calls_ok ?bs ms cs"
    using am_prepare_read by (auto simp: pairs_ok_def intro: reads_ok_mono calls_ok_mono)
  ultimately show ?case using am_prepare_read by (auto simp: pairs_ok_def keys_ok_def intro: reads_ok_snoc)
next
  case (am_prepare_call bs run b cs c i ms m os vs at)
  let ?bs = "dict_set run (b\<lparr>bu_model_requests := bu_model_requests b + 1, bu_updated_at := at\<rparr>) bs"
  have "call_pair m c" using am_prepare_call by (simp add: call_pair_def fresh_charge_def)
  moreover have "reads_ok ?bs os vs" "calls_ok ?bs ms cs"
    using am_prepare_call by (auto simp: pairs_ok_def intro: reads_ok_mono calls_ok_mono)
  ultimately show ?case using am_prepare_call by (auto simp: pairs_ok_def keys_ok_def intro: calls_ok_snoc)
next
  case (am_fail_read os i o' vs v bs b o'' ms cs at)
  then show ?case
    using reads_okD [of bs os vs i o' v]
    by (auto simp: pairs_ok_def read_pair_def intro!: reads_ok_set reads_ok_mono [of bs os vs] calls_ok_mono [of bs ms cs])
next
  case (am_read os i o' vs v bs b o'' ms cs at)
  then show ?case
    using reads_okD [of bs os vs i o' v]
    by (auto simp: pairs_ok_def read_pair_def intro!: reads_ok_set reads_ok_mono [of bs os vs] calls_ok_mono [of bs ms cs])
next
  case (am_fence ms i m bs os vs cs at res)
  have "calls_ok bs (dict_set i (m\<lparr>mo_state := ModelStarted, mo_started_at := Some at, mo_resume_decision := res, mo_updated_at := at\<rparr>) ms) cs"
    using am_fence by (intro calls_ok_model) (auto simp: pairs_ok_def intro: call_pair_fence dest: calls_okD)
  with am_fence show ?case by (simp add: pairs_ok_def)
next
  case (am_abort_call ms i m cs c bs os vs er at)
  then show ?case
    using calls_okD [of bs ms cs i m c] by (auto simp: pairs_ok_def call_pair_def intro!: calls_ok_set)
next
  case (am_settle_call ms i m cs c bs b n os vs at rd od fd tk)
  then show ?case
    using calls_okD [of bs ms cs i m c]
    by (auto simp: pairs_ok_def call_pair_def intro!: calls_ok_set reads_ok_mono [of bs os vs] calls_ok_mono [of bs ms cs])
next
  case (am_ceiling ms i m cs c bs b st os vs at er)
  then show ?case
    using calls_okD [of bs ms cs i m c]
    by (auto simp: pairs_ok_def call_pair_def intro!: calls_ok_set reads_ok_mono [of bs os vs] calls_ok_mono [of bs ms cs])
qed

text \<open>The rows of a run without a budget do not exist.\<close>

lemma unbudgeted_rows:
  assumes "keys_ok (bs, os, vs, ms, cs)" and "pairs_ok (bs, os, vs, ms, cs)" and "run \<notin> dict_keys bs"
  shows "map_of vs i = Some v \<Longrightarrow> rs_run_id v \<noteq> run" and "map_of cs j = Some c \<Longrightarrow> ch_run_id c \<noteq> run"
proof -
  assume v: "map_of vs i = Some v"
  with assms(1) obtain r where "map_of os i = Some r"
    using same_keys_None [of vs os i] by (cases "map_of os i") (auto simp: keys_ok_def dict_keys_dom)
  with v assms(2,3) show "rs_run_id v \<noteq> run" using reads_okD [of bs os vs i r v] by (auto simp: pairs_ok_def read_pair_def)
next
  assume c: "map_of cs j = Some c"
  with assms(1) obtain m where "map_of ms j = Some m"
    using same_keys_None [of cs ms j] by (cases "map_of ms j") (auto simp: keys_ok_def dict_keys_dom)
  with c assms(2,3) show "ch_run_id c \<noteq> run" using calls_okD [of bs ms cs j m c] by (auto simp: pairs_ok_def call_pair_def)
qed

lemma fresh_budget_ok:
  assumes "keys_ok (bs, os, vs, ms, cs)" and "pairs_ok (bs, os, vs, ms, cs)" and "run \<notin> dict_keys bs" and "fresh_meters b"
  shows "meters_agree run b vs cs \<and> within_limits run b cs"
proof -
  note no = unbudgeted_rows [OF assms(1-3)]
  have d: "distinct (map fst vs)" "distinct (map fst cs)" using assms(1) by (auto simp: keys_ok_def)
  have "reads_of run vs = 0" "reserved_of run vs = 0" "calls_of run cs = 0" "output_of run cs = 0" "charged_of f run cs = 0" "owed g run cs = 0" for f g
    unfolding sums_def by (rule tally_zero; use no d in auto)+
  with assms(4) show ?thesis by (auto simp: meters_agree_def within_limits_def fresh_meters_def)
qed

text \<open>How a new or changed row moves the sums.\<close>

lemma reads_snoc:
  "reads_of run (vs @ [(i, v)]) = reads_of run vs + (if rs_run_id v = run then 1 else 0)"
  "reserved_of run (vs @ [(i, v)]) = reserved_of run vs + (if rs_run_id v = run \<and> rs_state v = Reserved then rs_reserved v else 0)"
  "committed_of run (vs @ [(i, v)]) = committed_of run vs + (if rs_run_id v = run \<and> rs_state v = Settled then the (rs_actual v) else 0)"
  by (simp_all add: sums_def)

lemma calls_snoc:
  "calls_of run (cs @ [(i, c)]) = calls_of run cs + (if ch_run_id c = run then 1 else 0)"
  "output_of run (cs @ [(i, c)]) = output_of run cs
     + (if ch_run_id c = run \<and> ch_state c = ChargeCommitted then (case ch_actual_output c of None \<Rightarrow> 0 | Some n \<Rightarrow> n) else 0)"
  "charged_of f run (cs @ [(i, c)]) = charged_of f run cs
     + (if ch_run_id c = run \<and> ch_state c \<in> {ChargeCommitted, ChargeUncertain} then the (f c) else 0)"
  "owed g run (cs @ [(i, c)]) = owed g run cs + (if ch_run_id c = run \<and> ch_state c = ChargeReserved then g c else 0)"
  by (simp_all add: sums_def)

lemma reads_set:
  assumes "distinct (map fst vs)" and "map_of vs i = Some v" and "rs_run_id w = rs_run_id v"
  shows "reads_of run (dict_set i w vs) = reads_of run vs"
    and "reserved_of run (dict_set i w vs) = reserved_of run vs - (if rs_run_id v = run \<and> rs_state v = Reserved then rs_reserved v else 0)
      + (if rs_run_id v = run \<and> rs_state w = Reserved then rs_reserved w else 0)"
    and "committed_of run (dict_set i w vs) = committed_of run vs - (if rs_run_id v = run \<and> rs_state v = Settled then the (rs_actual v) else 0)
      + (if rs_run_id v = run \<and> rs_state w = Settled then the (rs_actual w) else 0)"
  using assms by (simp_all add: sums_def tally_set)

lemma calls_set:
  assumes "distinct (map fst cs)" and "map_of cs i = Some c" and "ch_state c = ChargeReserved" and "ch_run_id w = ch_run_id c" and "ch_state w \<noteq> ChargeReserved"
  shows "calls_of run (dict_set i w cs) = calls_of run cs"
    and "output_of run (dict_set i w cs) = output_of run cs
      + (if ch_run_id c = run \<and> ch_state w = ChargeCommitted then (case ch_actual_output w of None \<Rightarrow> 0 | Some n \<Rightarrow> n) else 0)"
    and "charged_of f run (dict_set i w cs) = charged_of f run cs + (if ch_run_id c = run then the (f w) else 0)"
    and "owed g run (dict_set i w cs) = owed g run cs - (if ch_run_id c = run then g c else 0)"
  using assms by (cases "ch_state w"; simp add: sums_def tally_set)+

lemma budgets_ok_iff:
  "budgets_ok (bs, os, vs, ms, cs) \<longleftrightarrow> (\<forall>run b. map_of bs run = Some b \<longrightarrow> meters_agree run b vs cs \<and> within_limits run b cs)"
  by (simp add: budgets_ok_def)

lemma move_budgets: "account_move a b \<Longrightarrow> keys_ok a \<Longrightarrow> pairs_ok a \<Longrightarrow> budgets_ok a \<Longrightarrow> budgets_ok b"
proof (induction rule: account_move.induct)
  case (am_activate run bs b os vs ms cs)
  with fresh_budget_ok [OF am_activate(3,4,1,2)] show ?case
    by (auto simp: budgets_ok_iff map_of_snoc dict_keys_dom split: option.splits if_splits)
next
  case (am_prepare_read bs run b n i os o' v vs ms cs at)
  then have ok: "map_of bs q = Some x \<Longrightarrow> meters_agree q x vs cs \<and> within_limits q x cs" for q x by (simp add: budgets_ok_iff)
  from am_prepare_read ok [of run b] show ?case
    unfolding budgets_ok_iff
    by (auto simp: meters_agree_def within_limits_def reads_snoc fresh_reservation_def dest!: ok)
next
  case (am_prepare_call bs run b cs c i ms m os vs at)
  then have ok: "map_of bs q = Some x \<Longrightarrow> meters_agree q x vs cs \<and> within_limits q x cs" for q x by (simp add: budgets_ok_iff)
  from am_prepare_call ok [of run b] show ?case
    unfolding budgets_ok_iff
    by (auto simp: meters_agree_def within_limits_def calls_snoc fresh_charge_def dest!: ok)
next
  case (am_fail_read os i o' vs v bs b o'' ms cs at)
  then have ok: "map_of bs q = Some x \<Longrightarrow> meters_agree q x vs cs \<and> within_limits q x cs" for q x by (simp add: budgets_ok_iff)
  have "read_pair o' v" "distinct (map fst vs)" using am_fail_read reads_okD [of bs os vs i o' v] by (auto simp: pairs_ok_def keys_ok_def)
  with am_fail_read ok [of "or_run_id o'" b] show ?case
    unfolding budgets_ok_iff
    by (auto simp: meters_agree_def within_limits_def reads_set read_pair_def dest!: ok)
next
  case (am_read os i o' vs v bs b o'' ms cs at)
  then have ok: "map_of bs q = Some x \<Longrightarrow> meters_agree q x vs cs \<and> within_limits q x cs" for q x by (simp add: budgets_ok_iff)
  have "read_pair o' v" "distinct (map fst vs)" using am_read reads_okD [of bs os vs i o' v] by (auto simp: pairs_ok_def keys_ok_def)
  with am_read ok [of "or_run_id o'" b] show ?case
    unfolding budgets_ok_iff
    by (auto simp: meters_agree_def within_limits_def reads_set read_pair_def dest!: ok)
next
  case (am_abort_call ms i m cs c bs os vs at er)
  then have ok: "map_of bs q = Some x \<Longrightarrow> meters_agree q x vs cs \<and> within_limits q x cs" for q x by (simp add: budgets_ok_iff)
  have "call_pair m c" "distinct (map fst cs)" using am_abort_call calls_okD [of bs ms cs i m c] by (auto simp: pairs_ok_def keys_ok_def)
  with am_abort_call show ?case
    unfolding budgets_ok_iff
    by (auto simp: meters_agree_def within_limits_def calls_set call_pair_def dest!: ok)
next
  case (am_settle_call ms i m cs c bs b n os vs at rd od fd tk)
  then have ok: "map_of bs q = Some x \<Longrightarrow> meters_agree q x vs cs \<and> within_limits q x cs" for q x by (simp add: budgets_ok_iff)
  have "call_pair m c" "distinct (map fst cs)" using am_settle_call calls_okD [of bs ms cs i m c] by (auto simp: pairs_ok_def keys_ok_def)
  with am_settle_call ok [of "mo_run_id m" b] show ?case
    unfolding budgets_ok_iff
    by (auto simp: meters_agree_def within_limits_def calls_set call_pair_def settled_budget_def dest!: ok)
next
  case (am_ceiling ms i m cs c bs b st os vs at er)
  then have ok: "map_of bs q = Some x \<Longrightarrow> meters_agree q x vs cs \<and> within_limits q x cs" for q x by (simp add: budgets_ok_iff)
  have "call_pair m c" "distinct (map fst cs)" using am_ceiling calls_okD [of bs ms cs i m c] by (auto simp: pairs_ok_def keys_ok_def)
  with am_ceiling ok [of "mo_run_id m" b] show ?case
    unfolding budgets_ok_iff
    by (auto simp: meters_agree_def within_limits_def calls_set call_pair_def settled_budget_def dest!: ok)
qed (auto simp: budgets_ok_def)

end
