(* ===== verification/Eco_Store_Guarantees.thy ===== *)
theory Eco_Store_Guarantees
  imports Eco_Store_Budgets
begin

text \<open>
  What the accounts of the durable store guarantee along every history of its methods: the meters of a budget are the sums of its
  reservations and stay within the limits of the plan, and operations and calls only move forward, so that a
  model request leaves the store at most once.
\<close>

section \<open>The accounts are an invariant\<close>

definition accounts_ok :: "accounts \<Rightarrow> bool" where
  "accounts_ok a \<longleftrightarrow> keys_ok a \<and> pairs_ok a \<and> budgets_ok a"

lemma move_ok: "account_move a b \<Longrightarrow> accounts_ok a \<Longrightarrow> accounts_ok b"
  unfolding accounts_ok_def using move_keys move_pairs move_budgets by blast

lemma empty_accounts_ok: "accounts_ok (accounts empty_store)"
  by (simp add: accounts_ok_def accounts_def empty_store_def keys_ok_def pairs_ok_def reads_ok_def calls_ok_def budgets_ok_def)

interpretation books: inv_system "\<lambda>s. s = empty_store" "store_step e" "\<lambda>s. accounts_ok (accounts s)" for e
  by unfold_locales (auto simp: empty_accounts_ok intro: move_ok step_move)

lemma budget_facts:
  assumes "accounts_ok (accounts s)" and "map_of (t_budgets s) run = Some b"
  shows "meters_agree run b (t_reservations s) (t_charges s) \<and> within_limits run b (t_charges s)"
  using assms by (auto simp: accounts_ok_def accounts_def budgets_ok_def)

lemma call_facts:
  assumes "accounts_ok (accounts s)" and "map_of (t_models s) i = Some m"
  obtains c b where "map_of (t_charges s) i = Some c" "call_pair m c" "map_of (t_budgets s) (mo_run_id m) = Some b"
proof -
  from assms have k: "map fst (t_charges s) = map fst (t_models s)" and p: "calls_ok (t_budgets s) (t_models s) (t_charges s)"
    by (auto simp: accounts_ok_def accounts_def keys_ok_def pairs_ok_def)
  from same_keys_None [OF k [symmetric], of i] assms(2) obtain c where c: "map_of (t_charges s) i = Some c"
    by (cases "map_of (t_charges s) i") (auto simp: dict_keys_dom)
  with calls_okD [OF p assms(2)] that show thesis by (auto simp: dict_keys_dom)
qed

lemma read_facts:
  assumes "accounts_ok (accounts s)" and "map_of (t_operations s) i = Some r"
  obtains v b where "map_of (t_reservations s) i = Some v" "read_pair r v" "map_of (t_budgets s) (or_run_id r) = Some b"
proof -
  from assms have k: "map fst (t_reservations s) = map fst (t_operations s)" and p: "reads_ok (t_budgets s) (t_operations s) (t_reservations s)"
    by (auto simp: accounts_ok_def accounts_def keys_ok_def pairs_ok_def)
  from same_keys_None [OF k [symmetric], of i] assms(2) obtain v where v: "map_of (t_reservations s) i = Some v"
    by (cases "map_of (t_reservations s) i") (auto simp: dict_keys_dom)
  with reads_okD [OF p assms(2)] that show thesis by (auto simp: dict_keys_dom)
qed

lemma rows_nonneg:
  assumes "accounts_ok (accounts s)"
  shows "(i, c) \<in> set (t_charges s) \<Longrightarrow> 0 \<le> ch_output_bytes c \<and> 0 \<le> ch_total_tokens c \<and> 0 \<le> ch_cost c"
    and "(i, v) \<in> set (t_reservations s) \<Longrightarrow> 0 \<le> rs_reserved v"
proof -
  assume c: "(i, c) \<in> set (t_charges s)"
  from assms have k: "distinct (map fst (t_charges s))" "map fst (t_charges s) = map fst (t_models s)"
    by (auto simp: accounts_ok_def accounts_def keys_ok_def)
  with c have m: "map_of (t_charges s) i = Some c" by simp
  then obtain m where "map_of (t_models s) i = Some m"
    using same_keys_None [OF k(2), of i] by (cases "map_of (t_models s) i") (auto simp: dict_keys_dom)
  with call_facts [OF assms this] m show "0 \<le> ch_output_bytes c \<and> 0 \<le> ch_total_tokens c \<and> 0 \<le> ch_cost c"
    by (auto simp: call_pair_def)
next
  assume v: "(i, v) \<in> set (t_reservations s)"
  from assms have k: "distinct (map fst (t_reservations s))" "map fst (t_reservations s) = map fst (t_operations s)"
    by (auto simp: accounts_ok_def accounts_def keys_ok_def)
  with v have m: "map_of (t_reservations s) i = Some v" by simp
  then obtain r where "map_of (t_operations s) i = Some r"
    using same_keys_None [OF k(2), of i] by (cases "map_of (t_operations s) i") (auto simp: dict_keys_dom)
  with read_facts [OF assms this] m show "0 \<le> rs_reserved v" by (auto simp: read_pair_def)
qed

lemma owed_covers:
  assumes "accounts_ok (accounts s)" and "map_of (t_charges s) i = Some c" and "ch_state c = ChargeReserved"
    and "f = ch_output_bytes \<or> f = ch_total_tokens \<or> f = ch_cost"
  shows "f c \<le> owed f (ch_run_id c) (t_charges s)"
proof -
  let ?g = "\<lambda>d. if ch_run_id d = ch_run_id c \<and> ch_state d = ChargeReserved then f d else 0"
  have "0 \<le> ?g d" if "(j, d) \<in> set (t_charges s)" for j d using rows_nonneg(1) [OF assms(1) that] assms(4) by auto
  from tally_le [of "t_charges s" ?g, OF this assms(2)] show ?thesis using assms(3) by (simp add: owed_def)
qed

lemma reserved_covers:
  assumes "accounts_ok (accounts s)" and "map_of (t_reservations s) i = Some v" and "rs_state v = Reserved"
  shows "rs_reserved v \<le> reserved_of (rs_run_id v) (t_reservations s)"
proof -
  let ?g = "\<lambda>w. if rs_run_id w = rs_run_id v \<and> rs_state w = Reserved then rs_reserved w else 0"
  have "0 \<le> ?g w" if "(j, w) \<in> set (t_reservations s)" for j w using rows_nonneg(2) [OF assms(1) that] by auto
  from tally_le [of "t_reservations s" ?g, OF this assms(2)] show ?thesis using assms(3) by (simp add: reserved_of_def)
qed

section \<open>Operations move forward\<close>

definition read_follows :: "operation_row \<Rightarrow> operation_row \<Rightarrow> bool" where
  "read_follows r r' \<longleftrightarrow> or_run_id r' = or_run_id r \<and> (or_state r \<noteq> ReadPrepared \<longrightarrow> r' = r)"

definition call_follows :: "model_row \<Rightarrow> model_row \<Rightarrow> bool" where
  "call_follows m m' \<longleftrightarrow> mo_run_id m' = mo_run_id m \<and> mo_request_digest m' = mo_request_digest m
     \<and> (mo_state m \<noteq> ModelPrepared \<longrightarrow> mo_state m' \<noteq> ModelPrepared \<and> mo_started_at m' = mo_started_at m)
     \<and> (mo_state m \<notin> {ModelPrepared, ModelStarted} \<longrightarrow> m' = m)"

definition moves_forward :: "accounts \<Rightarrow> accounts \<Rightarrow> bool" where
  "moves_forward a b = (case (a, b) of ((bs, os, vs, ms, cs), (bs', os', vs', ms', cs')) \<Rightarrow>
     rows_kept read_follows os os' \<and> rows_kept call_follows ms ms')"

interpretation mf: tx_logic moves_forward
proof
  fix a b c
  show "moves_forward a a" by (auto simp: moves_forward_def rows_kept_def read_follows_def call_follows_def split: prod.splits)
  have r: "rows_kept read_follows x y \<Longrightarrow> rows_kept read_follows y z \<Longrightarrow> rows_kept read_follows x z" for x y z
    by (erule rows_kept_trans) (auto simp: read_follows_def)
  have m: "rows_kept call_follows x y \<Longrightarrow> rows_kept call_follows y z \<Longrightarrow> rows_kept call_follows x z" for x y z
    by (erule rows_kept_trans) (auto simp: call_follows_def)
  show "moves_forward a b \<Longrightarrow> moves_forward b c \<Longrightarrow> moves_forward a c"
    unfolding moves_forward_def by (auto split: prod.splits intro: r m)
qed

lemma row_follows_refl: "read_follows r r" "call_follows m m"
  by (simp_all add: read_follows_def call_follows_def)

lemma account_forward: "account_move a b \<Longrightarrow> moves_forward a b"
proof -
  have same: "rows_kept read_follows xs xs" "rows_kept call_follows ys ys" for xs ys
    by (simp_all add: rows_kept_def row_follows_refl)
  show "account_move a b \<Longrightarrow> moves_forward a b"
  proof (induction rule: account_move.induct)
    case (am_same a)
    show ?case by (rule mf.rel_refl)
  qed (simp add: moves_forward_def same rows_kept_append rows_kept_set row_follows_refl; auto simp: read_follows_def call_follows_def intro!: rows_kept_set)+
qed

lemma steps_forward: "(store_step e)\<^sup>*\<^sup>* s t \<Longrightarrow> moves_forward (accounts s) (accounts t)"
  by (induction rule: rtranclp_induct) (blast intro: mf.rel_refl mf.rel_trans account_forward step_move)+

lemma call_later:
  assumes "(store_step e)\<^sup>*\<^sup>* s t" and "map_of (t_models s) i = Some m"
  obtains m' where "map_of (t_models t) i = Some m'" "call_follows m m'"
  using steps_forward [OF assms(1)] assms(2) that unfolding moves_forward_def accounts_def rows_kept_def by simp blast

lemma read_later:
  assumes "(store_step e)\<^sup>*\<^sup>* s t" and "map_of (t_operations s) i = Some r"
  obtains r' where "map_of (t_operations t) i = Some r'" "read_follows r r'"
  using steps_forward [OF assms(1)] assms(2) that unfolding moves_forward_def accounts_def rows_kept_def by simp blast

lemma cross_fence_started:
  assumes "cross_fence e tx i m resume now s = Inr (r, t)"
  shows "\<exists>m0. map_of (t_models t) i = Some m0 \<and> mo_state m0 = ModelStarted"
  using assms
  by (auto simp: cross_fence_def write_model_def tx_simps bindT_Inr [of "record_revision e tx at k i" for at k]
      split: if_splits dest!: accounts_kept same_accounts)

text \<open>A call passes the fence when one of the two methods that may send it answers that its row is no replay.\<close>

definition fence_passed :: "store_env \<Rightarrow> string \<Rightarrow> rstore \<Rightarrow> rstore \<Rightarrow> bool" where
  "fence_passed e i s t \<longleftrightarrow> (\<exists>tx now adapter m. start_model_invocation e tx i now adapter s = Inr ((m, False), t))
     \<or> (\<exists>tx request d now policy adapter m. jat request [''metadata'', ''id''] = JStr i
          \<and> resume_prepared_model_invocation e tx request d now policy adapter s = Inr ((m, False), t))"

lemma start_replays:
  assumes "map_of (t_models u) i = Some m" and "mo_state m \<noteq> ModelPrepared"
    and "start_model_invocation e tx i now adapter u = Inr ((m', replayed), v)"
  shows "replayed \<and> v = u \<and> mo_state m' \<notin> {ModelPrepared, ModelStarted}"
  using assms by (auto simp: start_model_invocation_def tx_simps split: if_splits)

lemma resume_replays:
  assumes "map_of (t_models u) i = Some m" and "mo_state m \<noteq> ModelPrepared" and "jat request [''metadata'', ''id''] = JStr i"
    and "resume_prepared_model_invocation e tx request d now policy adapter u = Inr ((m', replayed), v)"
  shows "replayed \<and> v = u \<and> mo_state m' \<notin> {ModelPrepared, ModelStarted}"
  using assms by (auto simp: resume_prepared_model_invocation_def Let_def tx_simps split: if_splits)

lemma fence_durable:
  assumes "fence_passed e i s t"
  obtains m where "map_of (t_models t) i = Some m" "mo_state m = ModelStarted"
  using assms unfolding fence_passed_def start_model_invocation_def resume_prepared_model_invocation_def Let_def
  by (auto simp: tx_simps split: if_splits elim!: bindT_InrE dest!: cross_fence_started)

section \<open>Claims\<close>

text \<open>C8: the accounts of the durable store refine an abstract machine: whatever a method does, budgets, reads with their reservations and
  model calls with theirs take one of ten moves (a plan is activated, a read is prepared within the budget, fails or is charged what
  it reserved, a call is prepared within the budget, crosses the fence, is aborted for nothing, is settled or is charged its ceiling),
  or nothing moves.\<close>

theorem store_refines_accounts:
  assumes "store_step e s t"
  shows "account_move (accounts s) (accounts t)"
  using step_move [OF assms] .

text \<open>C30: the tables of a store stay well-formed along every history that starts from sound accounts (an empty store has them): the rows of a table have distinct
  keys, reservations and charges have exactly the keys of the reads and calls they belong to and the same run, which has a budget,
  and the states of the two rows fit: an open read has an open reservation, a finished one is settled or released; a prepared or
  started call has an open charge, a call that crossed the fence and ended is charged in full, an aborted one is charged nothing.\<close>

theorem store_tables_well_formed:
  assumes "accounts_ok (accounts s)" and "(store_step e)\<^sup>*\<^sup>* s t"
  shows "accounts_ok (accounts empty_store)
    \<and> distinct (map fst (t_budgets t)) \<and> distinct (map fst (t_operations t)) \<and> map fst (t_reservations t) = map fst (t_operations t)
    \<and> distinct (map fst (t_models t)) \<and> map fst (t_charges t) = map fst (t_models t)
    \<and> (\<forall>i r. map_of (t_operations t) i = Some r \<longrightarrow>
         (\<exists>v. map_of (t_reservations t) i = Some v \<and> read_pair r v) \<and> or_run_id r \<in> dict_keys (t_budgets t))
    \<and> (\<forall>i m. map_of (t_models t) i = Some m \<longrightarrow>
         (\<exists>c. map_of (t_charges t) i = Some c \<and> call_pair m c) \<and> mo_run_id m \<in> dict_keys (t_budgets t))"
proof -
  have ok: "accounts_ok (accounts t)" using books.steps_inv [OF assms(2,1)] .
  have k: "keys_ok (accounts t)" using ok by (simp add: accounts_ok_def)
  have r: "(\<exists>v. map_of (t_reservations t) i = Some v \<and> read_pair r v) \<and> or_run_id r \<in> dict_keys (t_budgets t)"
    if "map_of (t_operations t) i = Some r" for i r using read_facts [OF ok that] by (metis map_of_in_keys)
  have m: "(\<exists>c. map_of (t_charges t) i = Some c \<and> call_pair m c) \<and> mo_run_id m \<in> dict_keys (t_budgets t)"
    if "map_of (t_models t) i = Some m" for i m using call_facts [OF ok that] by (metis map_of_in_keys)
  show ?thesis using k r m empty_accounts_ok by (simp add: keys_ok_def accounts_def)
qed

text \<open>C3: in every history that starts from sound accounts (an empty store has them) the meters of a budget are the sums over the rows of
  its run: tool requests count its reads, reserved bytes are those of its open reservations, model requests count its calls, output
  bytes those of its committed calls, tokens and cost those charged. Every meter, together with what open reservations may still
  claim, stays within the limits of the plan.\<close>

theorem store_budget_bounds:
  assumes "accounts_ok (accounts s)" and "(store_step e)\<^sup>*\<^sup>* s t" and "map_of (t_budgets t) run = Some b"
  shows "accounts_ok (accounts empty_store) \<and> meters_agree run b (t_reservations t) (t_charges t)
    \<and> bu_tool_requests b \<le> maxToolRequests (bu_limits b)
    \<and> bu_input_bytes b + bu_reserved_input b \<le> maxInputBytes (bu_limits b)
    \<and> bu_model_requests b \<le> maxModelRequests (bu_limits b)
    \<and> bu_output_bytes b + owed ch_output_bytes run (t_charges t) \<le> maxOutputBytes (bu_limits b)
    \<and> bu_total_tokens b + owed ch_total_tokens run (t_charges t) \<le> maxTotalTokens (bu_limits b)
    \<and> bu_cost b + owed ch_cost run (t_charges t) \<le> maxCostMicrousd (bu_limits b)"
  using budget_facts [OF books.steps_inv [OF assms(2,1)] assms(3)] empty_accounts_ok by (simp add: within_limits_def)

text \<open>C4: a model request leaves the store at most once: after \<open>start_model_invocation\<close> or \<open>resume_prepared_model_invocation\<close> let a call
  pass the fence (it answered that the row is not a replay), the row of the call is started, and no later history of the store lets
  either method pass it again for that request; if they return, they return a terminal row as a replay and change nothing.\<close>

theorem model_egress_at_most_once:
  assumes "fence_passed e i s t" and "(store_step e)\<^sup>*\<^sup>* t u"
  shows "(\<exists>m. map_of (t_models t) i = Some m \<and> mo_state m = ModelStarted)
    \<and> \<not> fence_passed e i u v
    \<and> (start_model_invocation e tx i now adapter u = Inr ((m', replayed), v) \<longrightarrow> replayed \<and> v = u \<and> mo_state m' \<notin> {ModelPrepared, ModelStarted})
    \<and> (jat request [''metadata'', ''id''] = JStr i \<longrightarrow>
       resume_prepared_model_invocation e tx request d now policy adapter u = Inr ((m', replayed), v) \<longrightarrow>
         replayed \<and> v = u \<and> mo_state m' \<notin> {ModelPrepared, ModelStarted})"
proof -
  from fence_durable [OF assms(1)] obtain m0 where m0: "map_of (t_models t) i = Some m0" "mo_state m0 = ModelStarted" .
  with call_later [OF assms(2)] obtain m1 where m1: "map_of (t_models u) i = Some m1" "mo_state m1 \<noteq> ModelPrepared"
    by (metis call_follows_def model_state.distinct(1))
  show ?thesis using m0 start_replays [OF m1] resume_replays [OF m1] unfolding fence_passed_def by blast
qed

end
