(* ===== verification/Eco_Store_Funding.thy ===== *)
theory Eco_Store_Funding
  imports Eco_Store_Guarantees
begin

text \<open>
  Settlements of the durable store are funded. The methods that end a read or a call refuse it with one error when its
  reservation is not open or the budget of its run does not cover it. A calculus of transactions that never raise this error
  follows each method to the places that do, and the accounts show that those are not reached.
\<close>

section \<open>Transactions that spare an error\<close>

abbreviation unfunded :: py_error where
  "unfunded \<equiv> RuntimeStoreError ''ECO_RESERVATION_INVALID''"

definition spares :: "('a, 's) tx \<Rightarrow> bool" where
  "spares m \<longleftrightarrow> (\<forall>s. m s \<noteq> Inl unfunded)"

named_theorems sparing

lemma spares_return [sparing]: "spares (returnT x)" "spares (readT f)" "spares (writeT g)" "spares (constraintT c)"
  by (simp_all add: spares_def returnT_def readT_def writeT_def constraintT_def raiseT_def)

lemma spares_lift [sparing]: "r \<noteq> Inl unfunded \<Longrightarrow> spares (liftT r)"
  by (cases r) (auto simp: spares_def liftT_def)

lemma spares_refuse [sparing]: "code \<noteq> ''ECO_RESERVATION_INVALID'' \<Longrightarrow> spares (refuseT c code)"
  by (simp add: spares_def refuseT_def raiseT_def returnT_def)

lemma spares_needed [sparing]: "code \<noteq> ''ECO_RESERVATION_INVALID'' \<Longrightarrow> spares (neededT x code)"
  by (simp add: spares_def neededT_def raiseT_def returnT_def split: option.splits)

lemma spares_bind [sparing]: "spares m \<Longrightarrow> (\<And>x. spares (f x)) \<Longrightarrow> spares (bindT m f)"
  by (auto simp: spares_def bindT_def split: sum.splits)

lemma spares_if [sparing]: "(c \<Longrightarrow> spares m) \<Longrightarrow> (\<not> c \<Longrightarrow> spares n) \<Longrightarrow> spares (if c then m else n)"
  by simp

lemma spares_prod [sparing]: "(\<And>x y. spares (f x y)) \<Longrightarrow> spares (case p of (x, y) \<Rightarrow> f x y)"
  by (cases p) simp

lemma spares_each: "(\<And>x. spares (f x)) \<Longrightarrow> spares (eachT f xs)"
  by (induction xs) (simp_all add: sparing)

text \<open>Where the error comes from when it is raised.\<close>

lemma unfunded_bind: "spares m \<Longrightarrow> bindT m f s = Inl unfunded \<longleftrightarrow> (\<exists>x u. m s = Inr (x, u) \<and> f x u = Inl unfunded)"
  by (auto simp: spares_def bindT_def split: sum.splits)

lemma unfunded_leaf: "returnT x s \<noteq> Inl unfunded" "spares m \<Longrightarrow> m s \<noteq> Inl unfunded" "refuseT False code = returnT ()"
  by (simp_all add: returnT_def spares_def refuseT_def)

lemma bindE_Inl: "bindE r f = Inl x \<longleftrightarrow> r = Inl x \<or> (\<exists>y. r = Inr y \<and> f y = Inl x)"
  by (cases r) auto

section \<open>The shared parts of a method spare it\<close>

lemma check_all_unfunded: "(\<And>x. f x \<noteq> Inl err) \<Longrightarrow> check_all f xs \<noteq> Inl err"
  by (induction xs) (auto simp: bindE_Inl)

lemma validation_spares [simp]: "validate_runtime_record e d \<noteq> Inl unfunded"
  by (auto simp: validate_runtime_record_def contract_errors_def platform_errors_def bindE_Inl Let_def split: json.splits if_splits option.splits)

lemma stored_valid_spares [simp]: "stored_valid e ds \<noteq> Inl unfunded"
  using check_all_unfunded [of "validate_runtime_record e" unfunded ds] by (auto simp: stored_valid_def split: sum.splits py_error.splits)

lemma identity_spares [simp]: "store_time e v \<noteq> Inl unfunded" "record_identity d \<noteq> Inl unfunded"
  by (simp_all add: store_time_def record_identity_def Let_def split: json.splits option.splits)

lemma requirement_spares [simp]:
  "require_policy e c \<noteq> Inl unfunded" "require_broker e c \<noteq> Inl unfunded" "require_runtime e c \<noteq> Inl unfunded" "require_adapter e c \<noteq> Inl unfunded"
  "require_decision_profile e d x \<noteq> Inl unfunded"
  by (simp_all add: require_policy_def require_broker_def require_runtime_def require_adapter_def require_decision_profile_def)

lemma insert_record_spares [sparing]: "spares (insert_record e r)"
  by (auto simp: spares_def insert_record_def bindE_Inl Let_def split: if_splits option.splits)

lemma append_audit_spares [sparing]: "spares (append_audit e tx t i a p at)"
  by (simp add: spares_def append_audit_def Let_def)

lemma revision_spares [sparing]: "spares (record_revision e tx at t i)" "spares (record_revisions e tx at es)"
proof -
  show r: "spares (record_revision e tx at t i)" for t i
    by (auto simp: spares_def record_revision_def append_audit_def bindT_def writeT_def Let_def split: option.splits)
  show "spares (record_revisions e tx at es)"
    unfolding record_revisions_def by (intro spares_each spares_prod r)
qed

lemma records_spare [sparing]:
  "spares (record_if_new e tx r)" "code \<noteq> ''ECO_RESERVATION_INVALID'' \<Longrightarrow> spares (record_fresh e tx r at code)" "spares (record_result e tx r)"
  unfolding record_if_new_def record_result_def record_fresh_def by (intro sparing; simp)+

lemma scope_loop_spares: "scope_loop es acc \<noteq> Inl unfunded"
  by (induction es acc rule: scope_loop.induct) (auto simp: Let_def split: json.splits)

lemma reads_spare: "reduce_no_model_read v ev spec \<noteq> Inl unfunded" "reduce_tool v ev spec \<noteq> Inl unfunded"
  by (auto simp: reduce_no_model_read_def advance_no_model_read_def reduce_tool_def advance_tool_def bindE_Inl Let_def
      split: json.splits option.splits if_splits)

lemma reducer_spares [simp]: "reduce_run_event p t spec \<noteq> Inl unfunded"
proof -
  have "reduce_planned v ev spec \<noteq> Some (Inl unfunded)" "reduce_authorized v ev spec \<noteq> Some (Inl unfunded)" for v ev
    by (auto simp: reduce_planned_def reduce_authorized_def start_no_model_def bindE_Inl scope_loop_spares
        split: event_type.splits json.splits if_splits)
  moreover have "reduce_adapter_running v ev spec \<noteq> Some (Inl unfunded)" for v ev
    by (cases ev) (simp_all add: reduce_adapter_running_def reads_spare)
  moreover have "reduce_no_model_running v ev spec \<noteq> Some (Inl unfunded)" for v ev
    by (simp add: reduce_no_model_running_def reads_spare)
  moreover have "reduce_abort v ev \<noteq> Inl unfunded" for v ev by (simp add: reduce_abort_def)
  ultimately show ?thesis
    by (auto simp: reduce_run_event_def reduce_event_def reduce_running_def Let_def split: if_splits option.splits)
qed

lemma replay_row_spares: "replay_row e run a x \<noteq> Inl unfunded"
  using reducer_spares by (cases x) (fastforce simp: replay_row_def bindE_Inl split: if_splits sum.splits py_error.splits)

lemma replay_spares [simp]: "replay_projection e run s \<noteq> Inl unfunded"
proof -
  have "replay_rows e run a xs \<noteq> Inl unfunded" for a xs
    by (induction xs arbitrary: a) (auto simp: bindE_Inl replay_row_spares)
  moreover have "projection_from_payload v \<noteq> Inl unfunded" for v
    by (auto simp: projection_from_payload_def Let_def split: option.splits json.splits if_splits)
  ultimately show ?thesis by (auto simp: replay_projection_def bindE_Inl split: option.splits if_splits)
qed

lemma write_event_spares: "spares (write_event e tx run q outcome issuer a p at r)"
  unfolding write_event_def Let_def by (intro sparing; simp)

lemma event_spares [sparing]: "spares (append_event_tx e tx now run q)"
  using write_event_spares unfolding spares_def
  by (auto simp: append_event_tx_def bindE_Inl split: option.splits if_splits)

lemma decision_spares [sparing]: "spares (issue_decision_tx e tx d)" "spares (consume_decision_tx e tx d x n now)" "spares (set_nonce_result i r)"
proof -
  have "spares (insert_decision e d i run digest)" for i run digest
    by (auto simp: spares_def insert_decision_def bindE_Inl Let_def split: option.splits if_splits)
  then show "spares (issue_decision_tx e tx d)" unfolding issue_decision_tx_def by (intro sparing; simp)
  have "spares (spend_decision i digest nonce at us)" for i digest nonce at us
    by (auto simp: spares_def spend_decision_def split: option.splits)
  then have "spares (consume_fresh e tx d x n now)" unfolding consume_fresh_def Let_def by (intro sparing; simp)
  then show "spares (consume_decision_tx e tx d x n now)"
    by (auto simp: spares_def consume_decision_tx_def split: option.splits if_splits)
  show "spares (set_nonce_result i r)" unfolding set_nonce_result_def by (rule sparing)
qed

lemma lookup_spares [sparing]:
  "spares (find_operation i)" "spares (find_run run)" "spares (load_record i)" "spares (model_operation_status i)" "spares (plan_of_digest d)"
  "spares (needed_record d)" "spares (running_plan e m now)" "spares (require_live_run e run now)" "spares (require_live_lease e r token now)"
  unfolding find_operation_def find_run_def load_record_def model_operation_status_def plan_of_digest_def needed_record_def running_plan_def
    require_live_run_def require_live_lease_def by (intro sparing; simp)+

lemma close_call_spares [sparing]: "spares (close_call e tx i m c result q now)"
  unfolding close_call_def write_charge_def write_model_def by (intro sparing)

section \<open>Reservations are open and covered\<close>

lemma call_funded:
  assumes "accounts_ok (accounts s)" and "map_of (t_models s) i = Some m" and "mo_state m = ModelStarted"
  obtains c b where "map_of (t_charges s) i = Some c" "ch_state c = ChargeReserved" "map_of (t_budgets s) (mo_run_id m) = Some b"
    "bu_output_bytes b + ch_output_bytes c \<le> maxOutputBytes (bu_limits b)" "bu_total_tokens b + ch_total_tokens c \<le> maxTotalTokens (bu_limits b)"
    "bu_cost b + ch_cost c \<le> maxCostMicrousd (bu_limits b)"
proof -
  from call_facts [OF assms(1,2)] obtain c b
    where c: "map_of (t_charges s) i = Some c" "call_pair m c" "map_of (t_budgets s) (mo_run_id m) = Some b" .
  then have st: "ch_state c = ChargeReserved" "ch_run_id c = mo_run_id m" using assms(3) by (simp_all add: call_pair_def)
  have w: "within_limits (ch_run_id c) b (t_charges s)" using budget_facts [OF assms(1) c(3)] st(2) by simp
  note cov = owed_covers [OF assms(1) c(1) st(1)]
  show thesis
    by (rule that [OF c(1) st(1) c(3)])
      (use w cov [of ch_output_bytes] cov [of ch_total_tokens] cov [of ch_cost] in \<open>simp_all add: within_limits_def\<close>)
qed

lemma read_funded:
  assumes "accounts_ok (accounts s)" and "map_of (t_operations s) i = Some r" and "or_state r = ReadPrepared"
  obtains v b where "map_of (t_reservations s) i = Some v" "rs_state v = Reserved" "map_of (t_budgets s) (or_run_id r) = Some b"
    "rs_reserved v \<le> bu_reserved_input b" "bu_input_bytes b + rs_reserved v \<le> maxInputBytes (bu_limits b)"
proof -
  from read_facts [OF assms(1,2)] obtain v b
    where v: "map_of (t_reservations s) i = Some v" "read_pair r v" "map_of (t_budgets s) (or_run_id r) = Some b" .
  then have st: "rs_state v = Reserved" "rs_run_id v = or_run_id r"
    using assms(3) by (auto simp: read_pair_def split: reservation_state.splits)
  have r: "rs_reserved v \<le> bu_reserved_input b"
    using reserved_covers [OF assms(1) v(1) st(1)] budget_facts [OF assms(1) v(3)] st(2) by (simp add: meters_agree_def)
  have "bu_input_bytes b + bu_reserved_input b \<le> maxInputBytes (bu_limits b)"
    using budget_facts [OF assms(1) v(3)] by (simp add: within_limits_def)
  with r show thesis by (intro that [OF v(1) st(1) v(3)]) simp_all
qed

lemma covered_update:
  assumes "map_of (t_budgets s) run = Some b" and "c b" and "\<And>x. spares (f x)"
  shows "bindT (update_budget run c g code) f s \<noteq> Inl unfunded"
  using assms by (auto simp: bindT_def update_budget_def spares_def split: if_splits)

lemma find_charge_funded: "map_of (t_charges s) i = Some c \<Longrightarrow> ch_state c = ChargeReserved \<Longrightarrow> find_charge i s = Inr (c, s)"
  by (simp add: find_charge_def bindT_def readT_def neededT_def refuseT_def returnT_def)

lemma find_reservation_funded: "map_of (t_reservations s) i = Some v \<Longrightarrow> rs_state v = Reserved \<Longrightarrow> find_reservation i s = Inr (v, s)"
  by (simp add: find_reservation_def bindT_def readT_def neededT_def refuseT_def returnT_def)

text \<open>A part of a transaction that raises something else and leaves the accounts alone.\<close>

lemma funded_after:
  assumes "spares m" and "\<And>x u. m s = Inr (x, u) \<Longrightarrow> accounts u = accounts s" and "\<And>x u. accounts u = accounts s \<Longrightarrow> f x u \<noteq> Inl unfunded"
  shows "bindT m f s \<noteq> Inl unfunded"
  using assms by (auto simp: unfunded_bind)

lemmas funded_steps = funded_after [OF records_spare(1) accounts_kept(5)] funded_after [OF records_spare(3) accounts_kept(7)]
  funded_after [OF decision_spares(1) accounts_kept(8)] funded_after [OF decision_spares(2) accounts_kept(9)]

lemma ceiling_funded:
  assumes "accounts_ok (accounts s)" and "map_of (t_models s) i = Some m" and "mo_state m = ModelStarted" and "map_of (t_charges s) i = Some c"
  shows "charge_ceiling e tx i m c st error now adapter s \<noteq> Inl unfunded"
proof -
  from call_funded [OF assms(1-3)] assms(4) obtain b where b: "map_of (t_budgets s) (mo_run_id m) = Some b"
    "bu_total_tokens b + ch_total_tokens c \<le> maxTotalTokens (bu_limits b)" "bu_cost b + ch_cost c \<le> maxCostMicrousd (bu_limits b)"
    by (metis option.inject)
  show ?thesis
    unfolding charge_ceiling_def Let_def
    by (intro funded_steps covered_update sparing) (use b in \<open>auto dest!: same_accounts\<close>)
qed

lemma settle_call_funded:
  assumes "accounts_ok (accounts s)" and "map_of (t_models s) i = Some m" and "mo_state m = ModelStarted" and "map_of (t_charges s) i = Some c"
    and "the_int (jat result [''spec'', ''output'', ''byteLength'']) \<le> ch_output_bytes c"
  shows "settle_call e tx i m c result a d now adapter s \<noteq> Inl unfunded"
proof -
  from call_funded [OF assms(1-3)] assms(4) obtain b where b: "map_of (t_budgets s) (mo_run_id m) = Some b"
    "bu_output_bytes b + ch_output_bytes c \<le> maxOutputBytes (bu_limits b)"
    "bu_total_tokens b + ch_total_tokens c \<le> maxTotalTokens (bu_limits b)" "bu_cost b + ch_cost c \<le> maxCostMicrousd (bu_limits b)"
    by (metis option.inject)
  show ?thesis
    unfolding settle_call_def Let_def
    by (intro funded_steps covered_update sparing) (use b assms(5) in \<open>auto dest!: same_accounts\<close>)
qed

lemma settle_read_funded:
  assumes "accounts_ok (accounts s)" and "map_of (t_operations s) i = Some r" and "or_state r = ReadPrepared" and "map_of (t_reservations s) i = Some v"
  shows "JInt (rs_reserved v) = jat intent [''spec'', ''repositoryEntry'', ''byteLength'']
      \<Longrightarrow> settle_read e tx i r v intent receipt artifact outcome now broker s \<noteq> Inl unfunded"
    and "settle_failed_read e tx i r v intent error outcome now broker s \<noteq> Inl unfunded"
proof -
  from read_funded [OF assms(1-3)] assms(4) obtain b where b: "map_of (t_budgets s) (or_run_id r) = Some b"
    "rs_reserved v \<le> bu_reserved_input b" "bu_input_bytes b + rs_reserved v \<le> maxInputBytes (bu_limits b)"
    by (metis option.inject)
  show "settle_failed_read e tx i r v intent error outcome now broker s \<noteq> Inl unfunded"
    unfolding settle_failed_read_def Let_def
    by (intro funded_steps covered_update sparing) (use b in \<open>auto dest!: same_accounts\<close>)
  assume n: "JInt (rs_reserved v) = jat intent [''spec'', ''repositoryEntry'', ''byteLength'']"
  show "settle_read e tx i r v intent receipt artifact outcome now broker s \<noteq> Inl unfunded"
    unfolding settle_read_def Let_def n [symmetric]
    by (intro funded_steps covered_update sparing) (use b in \<open>auto dest!: same_accounts\<close>)
qed

section \<open>The methods\<close>

lemma lookups_same:
  "running_plan e m now s = Inr (x, u) \<Longrightarrow> u = s" "require_live_run e run now s = Inr (x, u) \<Longrightarrow> u = s"
  "require_live_lease e r token now s = Inr (x, u) \<Longrightarrow> u = s \<and> or_state r = ReadPrepared" "plan_of_digest d s = Inr (p, u) \<Longrightarrow> u = s"
  "needed_record d s = Inr (p, u) \<Longrightarrow> u = s"
  by (auto simp: running_plan_def require_live_run_def require_live_lease_def plan_of_digest_def needed_record_def tx_simps split: prod.splits)

lemma charge_unfunded:
  assumes "accounts_ok (accounts s)" and "bindT (find_charge i) f s = Inl unfunded" and "map_of (t_models s) i = Some m" and "mo_state m = ModelStarted"
  shows "\<exists>c. map_of (t_charges s) i = Some c \<and> f c s = Inl unfunded"
proof -
  from call_funded [OF assms(1,3,4)] obtain c where "map_of (t_charges s) i = Some c" "ch_state c = ChargeReserved" by metis
  with assms(2) find_charge_funded [OF this] show ?thesis by (simp add: bindT_def)
qed

lemma reservation_unfunded:
  assumes "accounts_ok (accounts s)" and "bindT (find_reservation i) f s = Inl unfunded" and "map_of (t_operations s) i = Some r" and "or_state r = ReadPrepared"
  shows "\<exists>v. map_of (t_reservations s) i = Some v \<and> f v s = Inl unfunded"
proof -
  from read_funded [OF assms(1,3,4)] obtain v where "map_of (t_reservations s) i = Some v" "rs_state v = Reserved" by metis
  with assms(2) find_reservation_funded [OF this] show ?thesis by (simp add: bindT_def)
qed

lemma fail_model_funded:
  assumes "accounts_ok (accounts s)"
  shows "fail_model_invocation e tx i error now adapter s \<noteq> Inl unfunded"
  unfolding fail_model_invocation_def
  by (auto simp: unfunded_bind unfunded_leaf sparing tx_simps ceiling_funded [OF assms] split: if_splits
      dest!: lookups_same charge_unfunded [OF assms])

lemma resolve_model_funded:
  assumes "accounts_ok (accounts s)"
  shows "resolve_ambiguous_model_invocation e tx i observed now runtime adapter s \<noteq> Inl unfunded"
  unfolding resolve_ambiguous_model_invocation_def Let_def
  by (auto simp: unfunded_bind unfunded_leaf sparing tx_simps ceiling_funded [OF assms] split: if_splits
      dest!: lookups_same charge_unfunded [OF assms])

lemma fail_read_funded:
  assumes "accounts_ok (accounts s)"
  shows "fail_repository_read e tx i token error outcome now broker s \<noteq> Inl unfunded"
  unfolding fail_repository_read_def
  by (auto simp: unfunded_bind unfunded_leaf sparing tx_simps settle_read_funded [OF assms] split: if_splits
      dest!: lookups_same reservation_unfunded [OF assms])

lemma abort_read_funded:
  assumes "accounts_ok (accounts s)"
  shows "abort_expired_operation e tx i now broker observed s \<noteq> Inl unfunded"
  unfolding abort_expired_operation_def Let_def
  by (auto simp: unfunded_bind unfunded_leaf sparing tx_simps bindE_Inl settle_read_funded [OF assms] split: if_splits
      dest!: lookups_same reservation_unfunded [OF assms])

lemma complete_model_funded:
  assumes "accounts_ok (accounts s)" and "complete_model_invocation e tx i result a d proof now adapter s = Inl unfunded"
  shows "check_proof e a (Some proof) = Inl unfunded
    \<or> (\<exists>c. map_of (t_charges s) i = Some c \<and> (the_int (jat result [''spec'', ''output'', ''byteLength'']) > ch_output_bytes c
         \<or> the_int (jat result [''spec'', ''usage'', ''totalTokens'']) > ch_total_tokens c))"
proof (rule ccontr)
  assume no: "\<not> ?thesis"
  then have "check_proof e a (Some proof) \<noteq> Inl unfunded" by simp
  with assms(2) obtain m where m: "map_of (t_models s) i = Some m" "mo_state m = ModelStarted"
    and c: "bindT (completion_checks e i m result a d now) (\<lambda>c. settle_call e tx i m c result a d now adapter) s = Inl unfunded"
    unfolding complete_model_invocation_def
    by (auto simp: unfunded_bind unfunded_leaf sparing tx_simps split: if_splits)
  then show False
    using no
    by (auto simp: completion_checks_def unfunded_bind unfunded_leaf sparing tx_simps settle_call_funded [OF assms(1)]
        dest!: lookups_same charge_unfunded [OF assms(1)])
qed

lemma complete_read_funded:
  assumes "accounts_ok (accounts s)" and "complete_repository_read e tx i token receipt a outcome proof now broker s = Inl unfunded"
  shows "check_proof e a proof = Inl unfunded
    \<or> (\<exists>v row. map_of (t_reservations s) i = Some v \<and> map_of (t_records s) i = Some row
         \<and> jat (rr_record row) [''spec'', ''repositoryEntry'', ''byteLength''] \<noteq> JInt (rs_reserved v))"
proof (rule ccontr)
  assume no: "\<not> ?thesis"
  then have "check_proof e a proof \<noteq> Inl unfunded" by simp
  then show False
    using assms(2) no unfolding complete_repository_read_def Let_def
    by (auto simp: unfunded_bind unfunded_leaf sparing tx_simps settle_read_funded [OF assms(1)] jat_jat split: if_splits
        dest!: lookups_same reservation_unfunded [OF assms(1)])
qed

lemma abort_observed_funded:
  assumes "accounts_ok (accounts s)" and "map_of (t_models s) i = Some m" and "mo_state m = ModelPrepared"
  shows "abort_observed e i m reason now s \<noteq> Inl unfunded"
proof -
  from call_facts [OF assms(1,2)] obtain c where c: "map_of (t_charges s) i = Some c" "ch_state c = ChargeReserved"
    using assms(3) by (auto simp: call_pair_def)
  then show ?thesis
    by (auto simp: abort_observed_def bindT_def readT_def refuseT_def raiseT_def returnT_def liftT_def split: sum.splits option.splits if_splits)
qed

lemma abort_call_spares [sparing]: "spares (abort_call e tx i m c now)" "spares (repeated_abort m)"
  unfolding abort_call_def repeated_abort_def write_charge_def write_model_def Let_def by (intro sparing; simp)+

lemma abort_model_funded:
  assumes "accounts_ok (accounts s)"
  shows "abort_prepared_model_invocation e tx request reason now runtime s \<noteq> Inl unfunded"
proof
  assume "abort_prepared_model_invocation e tx request reason now runtime s = Inl unfunded"
  then obtain i m where "map_of (t_models s) i = Some m" "mo_state m = ModelPrepared"
    and "bindT (abort_observed e i m reason now) (\<lambda>c. abort_call e tx i m c now) s = Inl unfunded"
    unfolding abort_prepared_model_invocation_def Let_def
    by (auto simp: unfunded_bind unfunded_leaf sparing tx_simps split: if_splits)
  with abort_observed_funded [OF assms this(1,2)] abort_call_spares(1) show False
    by (auto simp: bindT_def spares_def split: sum.splits)
qed

section \<open>Claim\<close>

text \<open>C29: a settlement is always funded. In every history that starts from sound accounts (an empty store has them) the methods that fail,
  fence or abort a model call and those that fail or abort a read never raise \<open>ECO_RESERVATION_INVALID\<close>, whatever other operations of
  the run did meanwhile: the reservation is open and the budget covers it. A completed call raises it only when the result reports
  more output bytes or tokens than were reserved, a completed read only when its recorded intent names another length than was
  reserved; otherwise the error is the answer of the artifact store about the proof.\<close>

theorem settlement_always_funded:
  assumes "accounts_ok (accounts s)" and "(store_step e)\<^sup>*\<^sup>* s t"
  shows "accounts_ok (accounts empty_store)
    \<and> fail_model_invocation e tx i error now adapter t \<noteq> Inl unfunded
    \<and> resolve_ambiguous_model_invocation e tx i observed now runtime adapter t \<noteq> Inl unfunded
    \<and> abort_prepared_model_invocation e tx request reason now runtime t \<noteq> Inl unfunded
    \<and> fail_repository_read e tx i token error outcome now broker t \<noteq> Inl unfunded
    \<and> abort_expired_operation e tx i now broker epoch t \<noteq> Inl unfunded
    \<and> (complete_model_invocation e tx i result a d proof now adapter t = Inl unfunded \<longrightarrow>
         check_proof e a (Some proof) = Inl unfunded
         \<or> (\<exists>c. map_of (t_charges t) i = Some c \<and> (the_int (jat result [''spec'', ''output'', ''byteLength'']) > ch_output_bytes c
              \<or> the_int (jat result [''spec'', ''usage'', ''totalTokens'']) > ch_total_tokens c)))
    \<and> (complete_repository_read e tx i token receipt a outcome proof' now broker t = Inl unfunded \<longrightarrow>
         check_proof e a proof' = Inl unfunded
         \<or> (\<exists>v row. map_of (t_reservations t) i = Some v \<and> map_of (t_records t) i = Some row
              \<and> jat (rr_record row) [''spec'', ''repositoryEntry'', ''byteLength''] \<noteq> JInt (rs_reserved v)))"
proof -
  have ok: "accounts_ok (accounts t)" using books.steps_inv [OF assms(2,1)] .
  show ?thesis
    by (intro conjI impI empty_accounts_ok fail_model_funded [OF ok] resolve_model_funded [OF ok] abort_model_funded [OF ok]
        fail_read_funded [OF ok] abort_read_funded [OF ok] complete_model_funded [OF ok] complete_read_funded [OF ok]) assumption+
qed

end
