(* ===== verification/Eco_Store_Verify.thy ===== *)
theory Eco_Store_Verify
  imports Eco_Store_Journal
begin

text \<open>
  The verifier of the journal, \<open>_verify_snapshot\<close> of \<open>src/src/eco_runtime/store.py\<close>: records and their digests, the audit chain
  with its tags, the inventories that audit entries, records, decisions, nonces and authority revisions have to agree on, and
  the digest of every mutable row. The key ring holds the active key and no key was rotated; the final comparison of the tables
  with the records (\<open>_verify_authority_semantics\<close>) is a separate function of the code.
\<close>

section \<open>The verifier\<close>

abbreviation corrupt :: "'a result" where
  "corrupt \<equiv> store_error ''ECO_JOURNAL_CORRUPT''"

definition verify_record_row :: "store_env \<Rightarrow> string \<times> record_row \<Rightarrow> unit result" where
  "verify_record_row e x =
     (let r = snd x in
      bindE (case validate_runtime_record e (rr_record r) of Inl ContractValidationError \<Rightarrow> corrupt | v \<Rightarrow> v) (\<lambda>_.
      if digest_of e (rr_record r) \<noteq> rr_digest r then corrupt else Inr ()))"

text \<open>What the scan of the audit entries collects.\<close>

record audit_scan =
  as_previous :: string
  as_next :: int
  as_recorded :: "(string \<times> string \<times> string) list"
  as_consumed :: "(string \<times> string) list"
  as_authority :: "(int \<times> string \<times> string \<times> string) list"

definition audit_entry_wrong :: "store_env \<Rightarrow> audit_scan \<Rightarrow> audit_row \<Rightarrow> bool" where
  "audit_entry_wrong e a r \<longleftrightarrow>
     (let hash = digest_of e (store_audit_payload e (as_next a) (at_transaction r) (at_type r) (at_id r) (at_action r) (at_payload r)
        (at_previous r) (at_occurred r)) in
      at_previous r \<noteq> as_previous a \<or> at_hash r \<noteq> hash
      \<or> (case map_of [(sx_key_id e, sx_key e)] (at_key_id r) of None \<Rightarrow> True | Some key \<Rightarrow> at_tag r \<noteq> ce_hmac e key hash))"

definition scan_entry :: "store_env \<Rightarrow> audit_scan \<Rightarrow> audit_row \<Rightarrow> audit_scan result" where
  "scan_entry e a r =
     (if audit_entry_wrong e a r then corrupt
      else
        let b = a\<lparr>as_previous := at_hash r, as_next := as_next a + 1\<rparr> in
        if at_action r \<in> {''recorded'', ''issued''}
        then (if at_id r \<in> dict_keys (as_recorded a) then corrupt else Inr (b\<lparr>as_recorded := as_recorded a @ [(at_id r, at_type r, at_payload r)]\<rparr>))
        else if at_action r = ''consumed''
        then (if at_id r \<in> dict_keys (as_consumed a) then corrupt else Inr (b\<lparr>as_consumed := as_consumed a @ [(at_id r, at_payload r)]\<rparr>))
        else if at_action r = ''authority-state''
        then Inr (b\<lparr>as_authority := as_authority a @ [(as_next a, at_type r, at_id r, at_payload r)]\<rparr>)
        else corrupt)"

fun scan_audit :: "store_env \<Rightarrow> audit_scan \<Rightarrow> audit_row list \<Rightarrow> audit_scan result" where
  "scan_audit e a [] = Inr a"
| "scan_audit e a (r # rs) = bindE (scan_entry e a r) (\<lambda>b. scan_audit e b rs)"

definition empty_scan :: audit_scan where
  "empty_scan = \<lparr>as_previous = AUDIT_GENESIS, as_next = 1, as_recorded = [], as_consumed = [], as_authority = []\<rparr>"

definition verify_recorded :: "audit_scan \<Rightarrow> rstore \<Rightarrow> unit result" where
  "verify_recorded a s =
     (if dict_keys (t_records s) \<noteq> dict_keys (as_recorded a)
         \<or> list_ex (\<lambda>(i, r). map_of (as_recorded a) i \<noteq> Some (rr_kind r, rr_digest r)) (t_records s) then corrupt else Inr ())"

definition decision_wrong :: "record_row \<Rightarrow> decision_row \<Rightarrow> bool" where
  "decision_wrong r d \<longleftrightarrow>
     (let spec = jat (rr_record r) [''spec''] in
      JStr (dr_run_id d) \<noteq> jat (rr_record r) [''metadata'', ''runId''] \<or> dr_digest d \<noteq> rr_digest r
      \<or> JStr (dr_subject_digest d) \<noteq> jat spec [''subject'', ''digest''] \<or> JStr (dr_effect d) \<noteq> jat spec [''effect'']
      \<or> JStr (dr_expires_at d) \<noteq> jat spec [''constraints'', ''expiresAt''])"

definition consumption_wrong :: "audit_scan \<Rightarrow> rstore \<Rightarrow> string \<Rightarrow> decision_row \<Rightarrow> bool" where
  "consumption_wrong a s i d \<longleftrightarrow>
     (case dr_consumed_nonce d of
        None \<Rightarrow> i \<in> dict_keys (as_consumed a)
      | Some nonce \<Rightarrow>
          (case map_of (t_nonces s) nonce of None \<Rightarrow> True | Some n \<Rightarrow> nr_run_id n \<noteq> dr_run_id d \<or> nr_subject_digest n \<noteq> dr_subject_digest d)
          \<or> map_of (as_consumed a) i \<noteq> Some (dr_digest d))"

definition verify_decision :: "store_env \<Rightarrow> audit_scan \<Rightarrow> rstore \<Rightarrow> string \<times> decision_row \<Rightarrow> unit result" where
  "verify_decision e a s x =
     (let (i, d) = x; r = the (map_of (t_records s) i) in
      if decision_wrong r d then corrupt
      else bindE (store_time e (jat (rr_record r) [''spec'', ''constraints'', ''expiresAt''])) (\<lambda>t.
        if dr_expires_us d \<noteq> sx_epoch e t \<or> (dr_consumed_at d = None) \<noteq> (dr_consumed_nonce d = None) \<or> consumption_wrong a s i d
        then corrupt else Inr ()))"

definition verify_decisions :: "store_env \<Rightarrow> audit_scan \<Rightarrow> rstore \<Rightarrow> unit result" where
  "verify_decisions e a s =
     (if dict_keys (t_decisions s) \<noteq> fst ` set (filter (\<lambda>(i, r). jat (rr_record r) [''kind''] = JStr ''PolicyDecision'') (t_records s)) then corrupt
      else bindE (check_all (verify_decision e a s) (t_decisions s)) (\<lambda>_.
        if dict_keys (t_nonces s) \<noteq> {n. Some n \<in> dr_consumed_nonce ` snd ` set (t_decisions s)} then corrupt else Inr ()))"

definition live_entities :: "rstore \<Rightarrow> (string \<times> string) list" where
  "live_entities s = map (\<lambda>x. (''run'', fst x)) (t_runs s) @ map (\<lambda>x. (''plan'', fst x)) (t_plans s) @ map (\<lambda>x. (''budget'', fst x)) (t_budgets s)
     @ map (\<lambda>x. (''operation'', fst x)) (t_operations s) @ map (\<lambda>x. (''reservation'', fst x)) (t_reservations s)
     @ map (\<lambda>x. (''event-baseline'', fst x)) (t_baselines s) @ map (\<lambda>x. (''checkpoint'', fst x)) (t_checkpoints s)
     @ map (\<lambda>x. (''model-operation'', fst x)) (t_models s) @ map (\<lambda>x. (''model-reservation'', fst x)) (t_charges s)"

definition sorted_revisions :: "string \<Rightarrow> string \<Rightarrow> rstore \<Rightarrow> revision_row list" where
  "sorted_revisions t i s = sort_key rv_revision (entity_revisions t i s)"

definition revision_sequence_wrong :: "revision_row list \<Rightarrow> bool" where
  "revision_sequence_wrong rs \<longleftrightarrow> map rv_revision rs \<noteq> map int [1..<Suc (length rs)]"

definition entity_altered :: "store_env \<Rightarrow> rstore \<Rightarrow> string \<times> string \<Rightarrow> bool" where
  "entity_altered e s x =
     (let (t, i) = x; rs = sorted_revisions t i s in
      rs = [] \<or> (case authority_row t i s of None \<Rightarrow> True | Some row \<Rightarrow> rv_digest (last rs) \<noteq> authority_digest e t i row))"

definition verify_revisions :: "store_env \<Rightarrow> audit_scan \<Rightarrow> rstore \<Rightarrow> unit result" where
  "verify_revisions e a s =
     (if rv_sequence ` set (t_revisions s) \<noteq> dict_keys (as_authority a)
         \<or> list_ex (\<lambda>r. map_of (as_authority a) (rv_sequence r) \<noteq> Some (rv_type r, rv_id r, rv_digest r)) (t_revisions s)
         \<or> list_ex (\<lambda>r. revision_sequence_wrong (sorted_revisions (rv_type r) (rv_id r) s)) (t_revisions s)
         \<or> list_ex (entity_altered e s) (live_entities s)
         \<or> (\<lambda>r. (rv_type r, rv_id r)) ` set (t_revisions s) \<noteq> set (live_entities s) then corrupt else Inr ())"

definition verify_journal :: "store_env \<Rightarrow> rstore \<Rightarrow> unit result" where
  "verify_journal e s =
     bindE (check_all (verify_record_row e) (t_records s)) (\<lambda>_.
     bindE (scan_audit e empty_scan (t_audit s)) (\<lambda>a.
     bindE (verify_recorded a s) (\<lambda>_.
     bindE (verify_decisions e a s) (\<lambda>_. verify_revisions e a s))))"

end
