(* ===== verification/Eco_Store_Attest.thy ===== *)
theory Eco_Store_Attest
  imports Eco_Store_Verify
begin

text \<open>
  Every store that its methods produce from an empty one passes the verifier of the journal. The inventories are kept by the
  single writes of a transaction (an instance of \<open>store_logic\<close>); the digests of mutable rows may lag behind inside a transaction,
  so the rows that are written and not yet attested are tracked as dirty until the transaction records their revisions.
\<close>

section \<open>Digests that do not collide\<close>

lemma digest_json_eq: "inj (ce_sha e) \<Longrightarrow> digest_of e v = digest_of e w \<Longrightarrow> json_eq v w"
  using show_json_prefix_code [of "sort_keys v" "[]" "sort_keys w" "[]"]
  by (simp add: digest_of_def semantic_digest_def canonical_json_def json_eq_def inj_eq)

lemma digest_field:
  assumes "inj (ce_sha e)" and "digest_of e v = digest_of e w" and "jat w ks = JStr x"
  shows "jat v ks = JStr x"
  using json_eq_jat [OF digest_json_eq [OF assms(1,2)], of ks] assms(3) by simp

section \<open>What audit entries say\<close>

definition created_of :: "audit_row list \<Rightarrow> (string \<times> string \<times> string) list" where
  "created_of rows = map (\<lambda>r. (at_id r, at_type r, at_payload r)) (filter (\<lambda>r. at_action r \<in> {''recorded'', ''issued''}) rows)"

definition consumed_of :: "audit_row list \<Rightarrow> (string \<times> string) list" where
  "consumed_of rows = map (\<lambda>r. (at_id r, at_payload r)) (filter (\<lambda>r. at_action r = ''consumed'') rows)"

fun authority_from :: "int \<Rightarrow> audit_row list \<Rightarrow> (int \<times> string \<times> string \<times> string) list" where
  "authority_from n [] = []"
| "authority_from n (r # rs) = (if at_action r = ''authority-state'' then [(n, at_type r, at_id r, at_payload r)] else []) @ authority_from (n + 1) rs"

definition audit_entry_ok :: "store_env \<Rightarrow> string \<Rightarrow> int \<Rightarrow> audit_row \<Rightarrow> bool" where
  "audit_entry_ok e previous n r \<longleftrightarrow> at_previous r = previous \<and> at_action r \<in> {''recorded'', ''issued'', ''consumed'', ''authority-state''}
     \<and> at_hash r = digest_of e (store_audit_payload e n (at_transaction r) (at_type r) (at_id r) (at_action r) (at_payload r) previous (at_occurred r))
     \<and> at_key_id r = sx_key_id e \<and> at_tag r = ce_hmac e (sx_key e) (at_hash r)"

fun chain_ok :: "store_env \<Rightarrow> string \<Rightarrow> int \<Rightarrow> audit_row list \<Rightarrow> bool" where
  "chain_ok e previous n [] = True"
| "chain_ok e previous n (r # rs) = (audit_entry_ok e previous n r \<and> chain_ok e (at_hash r) (n + 1) rs)"

fun chain_end :: "string \<Rightarrow> audit_row list \<Rightarrow> string" where
  "chain_end previous [] = previous"
| "chain_end previous (r # rs) = chain_end (at_hash r) rs"

lemma chain_end_snoc [simp]: "chain_end p (rs @ [r]) = at_hash r"
  by (induction rs arbitrary: p) auto

lemma chain_ok_snoc [simp]: "chain_ok e p n (rs @ [r]) \<longleftrightarrow> chain_ok e p n rs \<and> audit_entry_ok e (chain_end p rs) (n + int (length rs)) r"
  by (induction rs arbitrary: p n) (auto simp: algebra_simps)

lemma audit_head_end: "store_audit_head rows = chain_end AUDIT_GENESIS rows"
  by (cases rows rule: rev_cases) (auto simp: store_audit_head_def)

lemma authority_from_snoc [simp]:
  "authority_from n (rs @ [r]) = authority_from n rs
     @ (if at_action r = ''authority-state'' then [(n + int (length rs), at_type r, at_id r, at_payload r)] else [])"
  by (induction rs arbitrary: n) (auto simp: algebra_simps)

lemma authority_from_bound: "(k, x) \<in> set (authority_from n rs) \<Longrightarrow> n \<le> k \<and> k < n + int (length rs)"
  by (induction rs arbitrary: n) (fastforce split: if_splits)+

lemma distinct_authority [simp]: "distinct (map fst (authority_from n rs))"
  by (induction rs rule: rev_induct) (auto dest: authority_from_bound)

lemma created_snoc [simp]:
  "created_of (rs @ [r]) = created_of rs @ (if at_action r \<in> {''recorded'', ''issued''} then [(at_id r, at_type r, at_payload r)] else [])"
  by (simp add: created_of_def)

lemma consumed_snoc [simp]: "consumed_of (rs @ [r]) = consumed_of rs @ (if at_action r = ''consumed'' then [(at_id r, at_payload r)] else [])"
  by (simp add: consumed_of_def)

lemma append_audit_cases:
  assumes "append_audit e tx ty i action payload at s = Inr (n, t)"
  obtains row where "t = s\<lparr>t_audit := t_audit s @ [row]\<rparr>" "n = int (length (t_audit s)) + 1" "at_type row = ty" "at_id row = i" "at_action row = action"
    "at_payload row = payload"
    "action \<in> {''recorded'', ''issued'', ''consumed'', ''authority-state''} \<Longrightarrow> audit_entry_ok e (chain_end AUDIT_GENESIS (t_audit s)) n row"
  using assms by (auto simp: append_audit_def Let_def audit_head_end audit_entry_ok_def split: if_splits)

lemma append_known:
  assumes "append_audit e tx ty i action payload at s = Inr (n, t)" and "action \<in> {''recorded'', ''issued'', ''consumed'', ''authority-state''}"
  obtains row where "t = s\<lparr>t_audit := t_audit s @ [row]\<rparr>" "n = int (length (t_audit s)) + 1" "at_type row = ty" "at_id row = i" "at_action row = action"
    "at_payload row = payload" "audit_entry_ok e (chain_end AUDIT_GENESIS (t_audit s)) n row"
  using append_audit_cases [OF assms(1)] assms(2) by metis

section \<open>The scan succeeds\<close>

lemma scan_audit_snoc: "scan_audit e a (rs @ [r]) = bindE (scan_audit e a rs) (\<lambda>b. scan_entry e b r)"
proof (induction rs arbitrary: a)
  case Nil
  then show ?case by (cases "scan_entry e a r") auto
next
  case (Cons x rs)
  then show ?case by (cases "scan_entry e a x") auto
qed

lemma scan_chain:
  assumes "chain_ok e AUDIT_GENESIS 1 rs" and "distinct (map fst (created_of rs))" and "distinct (map fst (consumed_of rs))"
  shows "scan_audit e empty_scan rs = Inr \<lparr>as_previous = chain_end AUDIT_GENESIS rs, as_next = 1 + int (length rs), as_recorded = created_of rs,
     as_consumed = consumed_of rs, as_authority = authority_from 1 rs\<rparr>"
  using assms
proof (induction rs rule: rev_induct)
  case Nil
  then show ?case by (simp add: empty_scan_def created_of_def consumed_of_def)
next
  case (snoc r rs)
  then show ?case
    by (auto simp: scan_audit_snoc scan_entry_def audit_entry_wrong_def audit_entry_ok_def Let_def dict_keys_def)
qed

section \<open>Inventories\<close>

definition records_ok :: "store_env \<Rightarrow> rstore \<Rightarrow> bool" where
  "records_ok e s \<longleftrightarrow> distinct (map fst (t_records s))
     \<and> (\<forall>(i, r) \<in> set (t_records s). validate_runtime_record e (rr_record r) = Inr () \<and> digest_of e (rr_record r) = rr_digest r)
     \<and> created_of (t_audit s) = map (\<lambda>(i, r). (i, rr_kind r, rr_digest r)) (t_records s)"

definition audit_ok :: "store_env \<Rightarrow> rstore \<Rightarrow> bool" where
  "audit_ok e s \<longleftrightarrow> chain_ok e AUDIT_GENESIS 1 (t_audit s)"

definition decision_ids :: "(string \<times> record_row) list \<Rightarrow> string set" where
  "decision_ids rs = {i. \<exists>r. map_of rs i = Some r \<and> jat (rr_record r) [''kind''] = JStr ''PolicyDecision''}"

definition decision_fits :: "store_env \<Rightarrow> record_row \<Rightarrow> decision_row \<Rightarrow> bool" where
  "decision_fits e r d \<longleftrightarrow> \<not> decision_wrong r d
     \<and> (\<exists>t. store_time e (jat (rr_record r) [''spec'', ''constraints'', ''expiresAt'']) = Inr t \<and> dr_expires_us d = sx_epoch e t)"

definition consumption_fits :: "rstore \<Rightarrow> string \<Rightarrow> decision_row \<Rightarrow> bool" where
  "consumption_fits s i d \<longleftrightarrow>
     (case dr_consumed_nonce d of
        None \<Rightarrow> dr_consumed_at d = None \<and> i \<notin> dict_keys (consumed_of (t_audit s))
      | Some nonce \<Rightarrow> dr_consumed_at d \<noteq> None \<and> map_of (consumed_of (t_audit s)) i = Some (dr_digest d)
          \<and> (\<exists>n. map_of (t_nonces s) nonce = Some n \<and> nr_run_id n = dr_run_id d \<and> nr_subject_digest n = dr_subject_digest d))"

definition decisions_ok :: "store_env \<Rightarrow> rstore \<Rightarrow> bool" where
  "decisions_ok e s \<longleftrightarrow> distinct (map fst (t_decisions s)) \<and> distinct (map fst (consumed_of (t_audit s)))
     \<and> dict_keys (t_decisions s) = decision_ids (t_records s) \<and> dict_keys (consumed_of (t_audit s)) \<subseteq> dict_keys (t_decisions s)
     \<and> (\<forall>i d. map_of (t_decisions s) i = Some d \<longrightarrow> decision_fits e (the (map_of (t_records s) i)) d \<and> consumption_fits s i d)
     \<and> dict_keys (t_nonces s) = {n. \<exists>i d. map_of (t_decisions s) i = Some d \<and> dr_consumed_nonce d = Some n}"

definition revisions_ok :: "rstore \<Rightarrow> bool" where
  "revisions_ok s \<longleftrightarrow> authority_from 1 (t_audit s) = map (\<lambda>r. (rv_sequence r, rv_type r, rv_id r, rv_digest r)) (t_revisions s)
     \<and> (\<forall>t i. map rv_revision (entity_revisions t i s) = map int [1..<Suc (length (entity_revisions t i s))])"

definition journal_ok :: "store_env \<Rightarrow> rstore \<Rightarrow> bool" where
  "journal_ok e s \<longleftrightarrow> records_ok e s \<and> audit_ok e s \<and> decisions_ok e s \<and> revisions_ok s"

lemma record_identity_id: "record_identity r = Inr (i, run, at) \<Longrightarrow> i = the_str (jat r [''metadata'', ''id''])"
proof -
  have "jget (the_obj (jat r [''metadata''])) ''id'' = jat (jat r [''metadata'']) [''id'']"
    by (cases "jat r [''metadata'']") (auto simp: jget_def)
  then show "record_identity r = Inr (i, run, at) \<Longrightarrow> i = the_str (jat r [''metadata'', ''id''])"
    by (auto simp: record_identity_def Let_def jat_jat split: json.splits)
qed

lemma insert_record_cases:
  assumes "insert_record e r s = Inr ((digest, ins), t)"
  obtains (old) row where "\<not> ins" "t = s" "digest = digest_of e r" "map_of (t_records s) (the_str (jat r [''metadata'', ''id''])) = Some row" "rr_digest row = digest"
  | (new) run at where "ins" "digest = digest_of e r" "map_of (t_records s) (the_str (jat r [''metadata'', ''id''])) = None"
      "validate_runtime_record e r = Inr ()"
      "t = s\<lparr>t_records := t_records s @ [(the_str (jat r [''metadata'', ''id'']), \<lparr>rr_run_id = run, rr_kind = the_str (jat r [''kind'']), rr_digest = digest,
         rr_record = r, rr_created_at = at\<rparr>)]\<rparr>"
proof -
  have "the_str (jat r [''kind'']) \<in> SAFE_JOURNAL_KINDS"
    proof (rule ccontr)
    assume "the_str (jat r [''kind'']) \<notin> SAFE_JOURNAL_KINDS"
    with assms show False by (simp add: insert_record_def)
  qed
  with assms obtain i run at where v: "stored_valid e [r] = Inr ()" and id: "record_identity r = Inr (i, run, at)"
    and rest: "(case map_of (t_records s) i of
         Some old \<Rightarrow> if rr_digest old \<noteq> digest_of e r then store_error ''ECO_STORE_ID_CONFLICT'' else Inr ((digest_of e r, False), s)
       | None \<Rightarrow>
           if digest_of e r \<in> rr_digest ` snd ` set (t_records s) then Inl SqliteIntegrityError
           else Inr ((digest_of e r, True), s\<lparr>t_records := t_records s @ [(i, \<lparr>rr_run_id = run, rr_kind = the_str (jat r [''kind'']),
             rr_digest = digest_of e r, rr_record = r, rr_created_at = at\<rparr>)]\<rparr>)) = Inr ((digest, ins), t)"
    unfolding insert_record_def Let_def by auto
  note i = record_identity_id [OF id]
  show thesis
  proof (cases "map_of (t_records s) i")
    case None
    moreover have "validate_runtime_record e r = Inr ()"
      using v by (cases "validate_runtime_record e r") (auto simp: stored_valid_def split: py_error.splits)
    ultimately show thesis using rest i by (intro new [of run at]) (auto split: if_splits)
  next
    case (Some row)
    with rest i show thesis by (intro old [of row]) (simp_all split: if_splits)
  qed
qed

lemma records_ok_new:
  assumes "records_ok e s" and "map_of (t_records s) i = None" and "validate_runtime_record e r = Inr ()"
    and "rr_record row = r" and "rr_digest row = digest_of e r" and "at_action a \<in> {''recorded'', ''issued''}" and "at_id a = i" and "at_type a = rr_kind row"
    and "at_payload a = rr_digest row" and "t_records t = t_records s @ [(i, row)]" and "t_audit t = t_audit s @ [a]"
  shows "records_ok e t"
  using assms by (auto simp: records_ok_def map_of_eq_None_iff)

lemma audit_ok_new:
  assumes "audit_ok e s" and "t_audit t = t_audit s @ [a]" and "audit_entry_ok e (chain_end AUDIT_GENESIS (t_audit s)) (int (length (t_audit s)) + 1) a"
  shows "audit_ok e t"
  using assms by (simp add: audit_ok_def add.commute)

lemma revisions_ok_new:
  assumes "revisions_ok s" and "t_audit t = t_audit s @ [a]" and "at_action a \<noteq> ''authority-state''" and "t_revisions t = t_revisions s"
  shows "revisions_ok t"
  using assms by (simp add: revisions_ok_def entity_revisions_def)

lemma decision_recorded:
  assumes "decisions_ok e s" and "map_of (t_decisions s) i = Some d"
  obtains r where "map_of (t_records s) i = Some r" "jat (rr_record r) [''kind''] = JStr ''PolicyDecision''" "decision_fits e r d" "consumption_fits s i d"
proof -
  from assms(2) have "i \<in> dict_keys (t_decisions s)" by (auto simp: dict_keys_dom)
  then have "i \<in> decision_ids (t_records s)" using assms(1) by (simp add: decisions_ok_def)
  then obtain r where r: "map_of (t_records s) i = Some r" "jat (rr_record r) [''kind''] = JStr ''PolicyDecision''"
    by (auto simp: decision_ids_def)
  moreover from assms have "decision_fits e (the (map_of (t_records s) i)) d \<and> consumption_fits s i d"
    unfolding decisions_ok_def by blast
  with r have "decision_fits e r d" "consumption_fits s i d" by simp_all
  ultimately show thesis by (rule that)
qed

lemma decisions_ok_other:
  assumes "decisions_ok e s" and "map_of (t_records s) i = None" and "jat (rr_record row) [''kind''] \<noteq> JStr ''PolicyDecision''"
    and "t_records t = t_records s @ [(i, row)]" and "t_audit t = t_audit s @ [a]" and "at_action a \<noteq> ''consumed''"
    and "t_decisions t = t_decisions s" and "t_nonces t = t_nonces s"
  shows "decisions_ok e t"
proof -
  have r: "map_of (t_records t) k = (if k = i then Some row else map_of (t_records s) k)" for k
    using assms(2,4) by (auto simp: map_add_def split: option.splits)
  have "decision_ids (t_records t) = decision_ids (t_records s)"
    using assms(2,3) by (auto simp: decision_ids_def r)
  moreover have "map_of (t_decisions s) k = Some d \<Longrightarrow> k \<noteq> i" for k d
    using assms(2) by (auto elim: decision_recorded [OF assms(1)])
  moreover have "consumption_fits t = consumption_fits s"
  proof -
    have "consumed_of (t_audit t) = consumed_of (t_audit s)" using assms(5,6) by simp
    then show ?thesis by (simp only: consumption_fits_def fun_eq_iff assms(8)) simp
  qed
  ultimately show ?thesis
    using assms(1,5-8) unfolding decisions_ok_def by (auto simp: r)
qed

lemma journal_ok_new:
  assumes "journal_ok e s" and "map_of (t_records s) i = None" and "validate_runtime_record e (rr_record row) = Inr ()"
    and "jat (rr_record row) [''kind''] \<noteq> JStr ''PolicyDecision''" and "rr_digest row = digest_of e (rr_record row)"
    and "u = s\<lparr>t_records := t_records s @ [(i, row)]\<rparr>" and "append_audit e tx (rr_kind row) i ''recorded'' (rr_digest row) at u = Inr (n, t)"
  shows "journal_ok e t"
  using assms(7,1-6)
  by (elim append_audit_cases)
    (auto simp: journal_ok_def intro!: records_ok_new [of e s i "rr_record row" row] audit_ok_new [of e s] revisions_ok_new [of s] decisions_ok_other [of e s i row])

text \<open>A new record: it is appended with its digest, and the audit entry follows.\<close>

definition new_record :: "store_env \<Rightarrow> string \<Rightarrow> json \<Rightarrow> string \<Rightarrow> rstore \<Rightarrow> rstore \<Rightarrow> bool" where
  "new_record e tx r action s t \<longleftrightarrow> (\<exists>row u at n. map_of (t_records s) (the_str (jat r [''metadata'', ''id''])) = None \<and> validate_runtime_record e r = Inr ()
     \<and> rr_record row = r \<and> rr_digest row = digest_of e r \<and> rr_kind row = the_str (jat r [''kind''])
     \<and> u = s\<lparr>t_records := t_records s @ [(the_str (jat r [''metadata'', ''id'']), row)]\<rparr>
     \<and> append_audit e tx (rr_kind row) (the_str (jat r [''metadata'', ''id''])) action (rr_digest row) at u = Inr (n, t))"

lemma inserted_new:
  assumes "insert_record e r s = Inr ((digest, True), u)"
    and "append_audit e tx (the_str (jat r [''kind''])) (the_str (jat r [''metadata'', ''id''])) action digest at u = Inr (n, t)"
  shows "new_record e tx r action s t"
  using assms(1)
proof (cases rule: insert_record_cases)
  case (new run c)
  let ?row = "\<lparr>rr_run_id = run, rr_kind = the_str (jat r [''kind'']), rr_digest = digest, rr_record = r, rr_created_at = c\<rparr>"
  from new assms(2) show ?thesis unfolding new_record_def by (intro exI [of _ ?row] exI [of _ u] exI [of _ at] exI [of _ n]) simp
qed simp

lemma record_fresh_new: "record_fresh e tx r at code s = Inr (x, t) \<Longrightarrow> new_record e tx r ''recorded'' s t"
  unfolding record_fresh_def by (elim bindT_InrE) (auto simp: tx_simps bindT_Inr intro: inserted_new)

lemma record_if_new_new: "record_if_new e tx r s = Inr (x, t) \<Longrightarrow> t = s \<or> new_record e tx r ''recorded'' s t"
  unfolding record_if_new_def
  by (elim bindT_InrE) (auto simp: tx_simps bindT_Inr dest!: record_identity_id intro: inserted_new split: if_splits elim: insert_record_cases)

lemma new_record_ok:
  assumes "journal_ok e s" and "new_record e tx r ''recorded'' s t" and "jat r [''kind''] \<noteq> JStr ''PolicyDecision''"
  shows "journal_ok e t"
proof -
  from assms(2) obtain row u at n where n: "map_of (t_records s) (the_str (jat r [''metadata'', ''id''])) = None" "validate_runtime_record e (rr_record row) = Inr ()"
    "jat (rr_record row) [''kind''] \<noteq> JStr ''PolicyDecision''" "rr_digest row = digest_of e (rr_record row)"
    "u = s\<lparr>t_records := t_records s @ [(the_str (jat r [''metadata'', ''id'']), row)]\<rparr>"
    "append_audit e tx (rr_kind row) (the_str (jat r [''metadata'', ''id''])) ''recorded'' (rr_digest row) at u = Inr (n, t)"
    unfolding new_record_def using assms(3) by blast
  from journal_ok_new [OF assms(1) this] show ?thesis .
qed

section \<open>Decisions\<close>

lemma decisions_ok_issue:
  assumes "decisions_ok e s" and "map_of (t_records s) i = None" and "jat (rr_record row) [''kind''] = JStr ''PolicyDecision''"
    and "decision_fits e row d" and "dr_consumed_nonce d = None" and "dr_consumed_at d = None"
    and "t_records t = t_records s @ [(i, row)]" and "t_decisions t = t_decisions s @ [(i, d)]" and "t_audit t = t_audit s @ [a]"
    and "at_action a \<noteq> ''consumed''" and "t_nonces t = t_nonces s"
  shows "decisions_ok e t"
proof -
  have no: "map_of (t_decisions s) i = None"
    using assms(2) by (cases "map_of (t_decisions s) i") (auto elim: decision_recorded [OF assms(1)])
  then have fresh: "i \<notin> dict_keys (t_decisions s)" by (simp add: dict_keys_dom domIff)
  have r: "map_of (t_records t) k = (if k = i then Some row else map_of (t_records s) k)"
    and d: "map_of (t_decisions t) k = (if k = i then Some d else map_of (t_decisions s) k)" for k
    using assms(2,7,8) no by (auto simp: map_add_def split: option.splits)
  have c: "consumed_of (t_audit t) = consumed_of (t_audit s)" using assms(9,10) by simp
  have fits: "consumption_fits t k x = consumption_fits s k x" for k x
    by (cases "dr_consumed_nonce x") (simp_all add: consumption_fits_def c assms(11))
  have "consumption_fits t i d"
    using fresh assms(1,5,6) c by (auto simp: consumption_fits_def decisions_ok_def)
  moreover have "decision_ids (t_records t) = insert i (decision_ids (t_records s))"
    using assms(2,3) by (auto simp: decision_ids_def r)
  moreover have "{n. \<exists>k x. map_of (t_decisions t) k = Some x \<and> dr_consumed_nonce x = Some n}
      = {n. \<exists>k x. map_of (t_decisions s) k = Some x \<and> dr_consumed_nonce x = Some n}"
  proof -
    have "(\<exists>k x. map_of (t_decisions t) k = Some x \<and> P x) \<longleftrightarrow> P d \<or> (\<exists>k x. map_of (t_decisions s) k = Some x \<and> P x)" for P
      using no by (auto simp: d) (metis option.distinct(1))
    with assms(5) show ?thesis by simp
  qed
  moreover have "dict_keys (t_decisions t) = insert i (dict_keys (t_decisions s))" by (simp add: assms(8) dict_keys_def)
  moreover have "distinct (map fst (t_decisions t))" using assms(1,8) fresh by (simp add: decisions_ok_def dict_keys_def)
  moreover have "decision_fits e (the (map_of (t_records t) k)) x \<and> consumption_fits t k x" if "map_of (t_decisions t) k = Some x" for k x
  proof (cases "k = i")
    case True
    with that d r assms(4) \<open>consumption_fits t i d\<close> show ?thesis by simp
  next
    case False
    with that d r fits assms(1) show ?thesis unfolding decisions_ok_def by simp
  qed
  ultimately show ?thesis
    using assms(1) unfolding decisions_ok_def by (auto simp: c assms(11))
qed

lemma insert_decision_cases:
  assumes "insert_decision e d i run digest s = Inr (u, t)"
  obtains (old) row where "t = s" "map_of (t_decisions s) i = Some row" "dr_digest row = digest"
  | (new) expires where "map_of (t_decisions s) i = None" "t = s\<lparr>t_decisions := t_decisions s @ [(i, decision_row_of e d run digest expires)]\<rparr>"
      "store_time e (jat d [''spec'', ''constraints'', ''expiresAt'']) = Inr expires"
      "\<And>row. rr_record row = d \<Longrightarrow> rr_digest row = digest \<Longrightarrow> run = jat d [''metadata'', ''runId'']
        \<Longrightarrow> decision_fits e row (decision_row_of e d run digest expires)"
proof -
  from assms show thesis
    unfolding insert_decision_def
  proof (cases "map_of (t_decisions s) i")
    case (Some row)
    with assms show thesis by (auto simp: insert_decision_def split: if_splits intro: old)
  next
    case None
    with assms obtain expires where x: "store_time e (jat d [''spec'', ''constraints'', ''expiresAt'']) = Inr expires"
      "t = s\<lparr>t_decisions := t_decisions s @ [(i, decision_row_of e d run digest expires)]\<rparr>"
      "JStr (the_str (jat d [''spec'', ''effect''])) = jat d [''spec'', ''effect'']" "JStr (the_str run) = run"
      "JStr (the_str (jat d [''spec'', ''subject'', ''digest''])) = jat d [''spec'', ''subject'', ''digest'']"
      by (auto simp: insert_decision_def Let_def decision_row_of_def split: if_splits)
    from x(1) have "JStr (the_str (jat d [''spec'', ''constraints'', ''expiresAt''])) = jat d [''spec'', ''constraints'', ''expiresAt'']"
      by (auto simp: store_time_def split: json.splits)
    with x show thesis
      by (intro new [OF None x(2,1)]) (simp add: decision_fits_def decision_wrong_def decision_row_of_def Let_def jat_jat)
  qed
qed

lemma record_identity_run: "record_identity r = Inr (i, run, at) \<Longrightarrow> run = jat r [''metadata'', ''runId'']"
proof -
  have "jget (the_obj (jat r [''metadata''])) ''runId'' = jat (jat r [''metadata'']) [''runId'']"
    by (cases "jat r [''metadata'']") (auto simp: jget_def)
  then show "record_identity r = Inr (i, run, at) \<Longrightarrow> run = jat r [''metadata'', ''runId'']"
    by (auto simp: record_identity_def Let_def jat_jat split: json.splits)
qed

lemma issue_ok:
  assumes "inj (ce_sha e)" and "journal_ok e s" and "jat d [''kind''] = JStr ''PolicyDecision''" and "issue_decision_tx e tx d s = Inr (x, t)"
  shows "journal_ok e t"
proof -
  let ?i = "the_str (jat d [''metadata'', ''id''])"
  from assms(4) obtain i run at digest ins u w where id: "record_identity d = Inr (i, run, at)" and st: "insert_record e d s = Inr ((digest, ins), u)"
    "insert_decision e d i run digest u = Inr ((), w)"
    and au: "if ins then (\<exists>n. append_audit e tx ''PolicyDecision'' i ''issued'' digest at w = Inr (n, t)) else t = w"
    unfolding issue_decision_tx_def
    by (elim bindT_InrE) (auto simp: tx_simps elim!: bindT_InrE split: if_splits)
  note i = record_identity_id [OF id]
  from st(1) show ?thesis
  proof (cases rule: insert_record_cases)
    case (old row)
    from old(4) have "(?i, row) \<in> set (t_records s)" by (rule map_of_SomeD)
    with assms(2) old(3,5) have "digest_of e (rr_record row) = digest_of e d" by (auto simp: journal_ok_def records_ok_def)
    then have "jat (rr_record row) [''kind''] = JStr ''PolicyDecision''" using digest_field [OF assms(1) _ assms(3)] by blast
    with old(4) have "?i \<in> decision_ids (t_records s)" by (auto simp: decision_ids_def)
    then have "map_of (t_decisions s) ?i \<noteq> None" using assms(2) by (auto simp: journal_ok_def decisions_ok_def dict_keys_dom)
    with st(2) old(2) i have "w = s" by (auto elim: insert_decision_cases)
    with au old(1) assms(2) show ?thesis by simp
  next
    case (new run' at')
    let ?row = "\<lparr>rr_run_id = run', rr_kind = the_str (jat d [''kind'']), rr_digest = digest, rr_record = d, rr_created_at = at'\<rparr>"
    have dk: "decisions_ok e s" using assms(2) by (simp add: journal_ok_def)
    have "map_of (t_decisions s) ?i = None"
      using new(3) by (cases "map_of (t_decisions s) ?i") (auto elim: decision_recorded [OF dk])
    with st(2) new(5) i obtain expires where w: "w = u\<lparr>t_decisions := t_decisions u @ [(?i, decision_row_of e d run digest expires)]\<rparr>"
      and fit: "\<And>row. rr_record row = d \<Longrightarrow> rr_digest row = digest \<Longrightarrow> run = jat d [''metadata'', ''runId'']
        \<Longrightarrow> decision_fits e row (decision_row_of e d run digest expires)"
      by (cases rule: insert_decision_cases) auto
    from au new(1) i obtain n where "append_audit e tx ''PolicyDecision'' ?i ''issued'' digest at w = Inr (n, t)" by auto
    from append_known [OF this] obtain a where a: "t = w\<lparr>t_audit := t_audit w @ [a]\<rparr>" "n = int (length (t_audit w)) + 1" "at_type a = ''PolicyDecision''" "at_id a = ?i"
        "at_action a = ''issued''" "at_payload a = digest" "audit_entry_ok e (chain_end AUDIT_GENESIS (t_audit w)) n a"
      by auto
    have tabs: "t_records t = t_records s @ [(?i, ?row)]" "t_audit t = t_audit s @ [a]" "t_nonces t = t_nonces s" "t_revisions t = t_revisions s"
      "t_decisions t = t_decisions s @ [(?i, decision_row_of e d run digest expires)]" "t_audit w = t_audit s"
      by (simp_all add: a(1) w new(5))
    have ok: "records_ok e s" "audit_ok e s" "revisions_ok s" using assms(2) by (simp_all add: journal_ok_def)
    have "records_ok e t"
      by (rule records_ok_new [OF ok(1) new(3,4) _ _ _ a(4) _ _ tabs(1,2)]) (simp_all add: a(3,5,6) assms(3) new(2))
    moreover have "audit_ok e t" using a(7) unfolding a(2) tabs(6) by (rule audit_ok_new [OF ok(2) tabs(2)])
    moreover have "revisions_ok t" by (rule revisions_ok_new [OF ok(3) tabs(2) _ tabs(4)]) (simp add: a(5))
    moreover have "decisions_ok e t"
      by (rule decisions_ok_issue [OF dk new(3) _ fit _ _ tabs(1,5,2) _ tabs(3)])
        (simp_all add: assms(3) a(5) decision_row_of_def record_identity_run [OF id])
    ultimately show ?thesis by (simp add: journal_ok_def)
  qed
qed

end
