(* ===== verification/Eco_Store_Sound.thy ===== *)
theory Eco_Store_Sound
  imports Eco_Store_Attest
begin

text \<open>
  Every single write of a transaction keeps the inventories of the journal, so every method does: an instance of \<open>store_logic\<close>.
\<close>

section \<open>Consumption\<close>

lemma decision_binding:
  assumes "inj (ce_sha e)" and "records_ok e s" and "decisions_ok e s" and "map_of (t_decisions s) i = Some r" and "dr_digest r = digest_of e d"
  shows "jat d [''metadata'', ''runId''] = JStr (dr_run_id r) \<and> jat d [''spec'', ''subject'', ''digest''] = JStr (dr_subject_digest r)"
proof -
  from decision_recorded [OF assms(3,4)] obtain row where row: "map_of (t_records s) i = Some row" "decision_fits e row r" by blast
  from row(1) have "(i, row) \<in> set (t_records s)" by (rule map_of_SomeD)
  with assms(2) have "digest_of e (rr_record row) = rr_digest row" by (auto simp: records_ok_def)
  with row(2) assms(5) have eq: "digest_of e d = digest_of e (rr_record row)"
    and f: "jat (rr_record row) [''metadata'', ''runId''] = JStr (dr_run_id r)" "jat (rr_record row) [''spec'', ''subject'', ''digest''] = JStr (dr_subject_digest r)"
    by (simp_all add: decision_fits_def decision_wrong_def Let_def jat_jat)
  show ?thesis using digest_field [OF assms(1) eq f(1)] digest_field [OF assms(1) eq f(2)] by simp
qed

lemma decisions_ok_consume:
  assumes "decisions_ok e s" and "map_of (t_decisions s) i = Some r" and "dr_consumed_at r = None" and "map_of (t_nonces s) nonce = None"
    and "t_records t = t_records s" and "t_decisions t = dict_set i (r\<lparr>dr_consumed_at := Some at, dr_consumed_nonce := Some nonce\<rparr>) (t_decisions s)"
    and "t_nonces t = t_nonces s @ [(nonce, n)]" and "nr_run_id n = dr_run_id r" and "nr_subject_digest n = dr_subject_digest r"
    and "t_audit t = t_audit s @ [a]" and "at_action a = ''consumed''" and "at_id a = i" and "at_payload a = dr_digest r"
  shows "decisions_ok e t"
proof -
  let ?r = "r\<lparr>dr_consumed_at := Some at, dr_consumed_nonce := Some nonce\<rparr>"
  have c: "consumed_of (t_audit t) = consumed_of (t_audit s) @ [(i, dr_digest r)]" using assms(10-13) by simp
  have d: "map_of (t_decisions t) k = (if k = i then Some ?r else map_of (t_decisions s) k)" for k by (simp add: assms(6))
  have fit: "decision_fits e (the (map_of (t_records s) k)) x \<and> consumption_fits s k x" if "map_of (t_decisions s) k = Some x" for k x
    using assms(1) that unfolding decisions_ok_def by blast
  have unspent: "dr_consumed_nonce r = None \<and> i \<notin> dict_keys (consumed_of (t_audit s))"
    using fit [OF assms(2)] assms(3) by (cases "dr_consumed_nonce r") (auto simp: consumption_fits_def)
  have new: "consumption_fits t i ?r"
    using unspent assms(4,7-9) by (auto simp: consumption_fits_def c map_add_def dict_keys_dom domIff)
  have old: "consumption_fits t k x" if "map_of (t_decisions s) k = Some x" "k \<noteq> i" for k x
    using fit [OF that(1)] that(2) assms(7)
    by (cases "dr_consumed_nonce x") (auto simp: consumption_fits_def c map_add_def dict_keys_def split: option.splits)
  have fits: "decision_fits e (the (map_of (t_records t) k)) x \<and> consumption_fits t k x" if "map_of (t_decisions t) k = Some x" for k x
  proof (cases "k = i")
    case True
    with that d new fit [OF assms(2)] assms(5) show ?thesis by (auto simp: decision_fits_def decision_wrong_def Let_def)
  next
    case False
    with that d old fit assms(5) show ?thesis by simp
  qed
  have keys: "dict_keys (t_decisions t) = dict_keys (t_decisions s)"
    using assms(2) by (auto simp: assms(6) dict_keys_dom)
  have "{m. \<exists>k x. map_of (t_decisions t) k = Some x \<and> dr_consumed_nonce x = Some m}
      = insert nonce {m. \<exists>k x. map_of (t_decisions s) k = Some x \<and> dr_consumed_nonce x = Some m}" (is "?L = ?R")
  proof (rule set_eqI)
    fix m
    have "k \<noteq> i" if "map_of (t_decisions s) k = Some x" "dr_consumed_nonce x = Some m" for k x using that unspent assms(2) by auto
    then show "m \<in> ?L \<longleftrightarrow> m \<in> ?R" unfolding d by (auto split: if_splits)
  qed
  moreover have "distinct (map fst (t_decisions t))"
    using assms(1,2,6) by (simp add: decisions_ok_def)
  moreover have "dict_keys (t_nonces t) = insert nonce (dict_keys (t_nonces s))" by (simp add: assms(7) dict_keys_def)
  moreover have "dict_keys (consumed_of (t_audit t)) = insert i (dict_keys (consumed_of (t_audit s)))" by (simp add: c dict_keys_def)
  moreover have "i \<in> dict_keys (t_decisions s)" using assms(2) by (auto simp: dict_keys_dom)
  moreover have "distinct (map fst (consumed_of (t_audit t)))" using assms(1) unspent by (simp add: c decisions_ok_def dict_keys_def)
  ultimately show ?thesis
    using assms(1) fits unfolding decisions_ok_def keys assms(5) by (simp, blast)
qed

lemma consume_ok:
  assumes "inj (ce_sha e)" and "journal_ok e s" and "jat d [''spec'', ''subject'', ''digest''] = JStr subject"
    and "consume_decision_tx e tx d subject nonce now s = Inr (x, t)"
  shows "journal_ok e t"
proof -
  let ?i = "the_str (jat d [''metadata'', ''id''])"
  from assms(2) have ok: "records_ok e s" "audit_ok e s" "decisions_ok e s" "revisions_ok s" by (simp_all add: journal_ok_def)
  from assms(4) consider "t = s" | r where "map_of (t_decisions s) ?i = Some r" "dr_digest r = digest_of e d" "map_of (t_nonces s) nonce = None"
    "consume_fresh e tx d subject nonce now s = Inr (x, t)"
    by (auto simp: consume_decision_tx_def split: option.splits if_splits)
  then show ?thesis
  proof cases
    case (2 r)
    let ?r = "r\<lparr>dr_consumed_at := Some (ce_iso e now), dr_consumed_nonce := Some nonce\<rparr>"
      and ?n = "\<lparr>nr_run_id = the_str (jat d [''metadata'', ''runId'']), nr_subject_digest = subject, nr_result_digest = None, nr_created_at = ce_iso e now\<rparr>"
    from 2(4,1,2) obtain n where un: "dr_consumed_at r = None"
      and au: "append_audit e tx ''PolicyDecision'' ?i ''consumed'' (digest_of e d) (ce_iso e now)
        (s\<lparr>t_decisions := dict_set ?i ?r (t_decisions s), t_nonces := t_nonces s @ [(nonce, ?n)]\<rparr>) = Inr (n, t)"
      unfolding consume_fresh_def Let_def by (elim bindT_InrE) (auto simp: spend_decision_def tx_simps split: option.splits if_splits)
    from append_known [OF au] obtain a
      where a: "t = s\<lparr>t_decisions := dict_set ?i ?r (t_decisions s), t_nonces := t_nonces s @ [(nonce, ?n)], t_audit := t_audit s @ [a]\<rparr>"
        "n = int (length (t_audit s)) + 1" "at_id a = ?i" "at_action a = ''consumed''" "at_payload a = digest_of e d"
        "audit_entry_ok e (chain_end AUDIT_GENESIS (t_audit s)) n a"
      by auto
    have tabs: "t_records t = t_records s" "t_audit t = t_audit s @ [a]" "t_nonces t = t_nonces s @ [(nonce, ?n)]" "t_revisions t = t_revisions s"
      "t_decisions t = dict_set ?i ?r (t_decisions s)"
      by (simp_all add: a(1))
    have b: "jat d [''metadata'', ''runId''] = JStr (dr_run_id r)" "jat d [''spec'', ''subject'', ''digest''] = JStr (dr_subject_digest r)"
      using decision_binding [OF assms(1) ok(1,3) 2(1,2)] by simp_all
    have "decisions_ok e t"
      by (rule decisions_ok_consume [OF ok(3) 2(1) un 2(3) tabs(1,5,3) _ _ tabs(2) a(4,3)]) (use b assms(3) 2(2) a(5) in simp_all)
    moreover have "records_ok e t" using ok(1) a(4) by (simp add: records_ok_def tabs)
    moreover have "audit_ok e t" using a(6) unfolding a(2) by (rule audit_ok_new [OF ok(2) tabs(2)])
    moreover have "revisions_ok t" by (rule revisions_ok_new [OF ok(4) tabs(2) _ tabs(4)]) (simp add: a(4))
    ultimately show ?thesis by (simp add: journal_ok_def)
  qed (use assms(2) in simp)
qed

section \<open>Nonces, revisions and rows\<close>

lemma nonce_ok:
  assumes "journal_ok e s" and "set_nonce_result nonce digest s = Inr (x, t)"
  shows "journal_ok e t"
proof (cases "map_of (t_nonces s) nonce")
  case (Some n)
  let ?n = "n\<lparr>nr_result_digest := Some digest\<rparr>"
  have t: "t = s\<lparr>t_nonces := dict_set nonce ?n (t_nonces s)\<rparr>" using assms(2) Some by (simp add: set_nonce_result_def tx_simps)
  have keys: "dict_keys (t_nonces t) = dict_keys (t_nonces s)" using Some by (auto simp: t dict_keys_dom)
  have fits: "consumption_fits t i d \<longleftrightarrow> consumption_fits s i d" for i d
    using Some by (cases "dr_consumed_nonce d") (auto simp: consumption_fits_def t)
  from assms(1) have ok: "records_ok e s" "audit_ok e s" "decisions_ok e s" "revisions_ok s" by (simp_all add: journal_ok_def)
  have tabs: "t_records t = t_records s" "t_audit t = t_audit s" "t_decisions t = t_decisions s" by (simp_all add: t)
  have "decisions_ok e t" using ok(3) unfolding decisions_ok_def keys fits tabs .
  moreover have "records_ok e t" using ok(1) by (simp add: t records_ok_def)
  moreover have "revisions_ok t" using ok(4) by (simp only: t revisions_ok_def entity_revisions_def) simp
  moreover have "audit_ok e t" using ok(2) by (simp add: t audit_ok_def)
  ultimately show ?thesis by (simp add: journal_ok_def)
qed (use assms in \<open>simp add: set_nonce_result_def tx_simps\<close>)

lemma consumption_fits_cong:
  assumes "t_nonces t = t_nonces s" and "consumed_of (t_audit t) = consumed_of (t_audit s)"
  shows "consumption_fits t = consumption_fits s"
proof (intro ext)
  fix i d
  show "consumption_fits t i d = consumption_fits s i d" by (cases "dr_consumed_nonce d") (simp_all add: consumption_fits_def assms)
qed

lemma journal_ok_cong:
  assumes "t_records t = t_records s" and "t_decisions t = t_decisions s" and "t_nonces t = t_nonces s" and "t_audit t = t_audit s"
    and "t_revisions t = t_revisions s"
  shows "journal_ok e t = journal_ok e s"
proof -
  have "consumption_fits t = consumption_fits s" by (rule consumption_fits_cong) (simp_all add: assms)
  then show ?thesis
    by (simp add: journal_ok_def records_ok_def audit_ok_def decisions_ok_def revisions_ok_def entity_revisions_def assms)
qed

lemma foldr_max_int: "0 \<le> m \<Longrightarrow> foldr max (map int [1..<Suc n]) m = max m (int n)"
  by (induction n arbitrary: m) (simp_all add: max_def)

lemma next_revision_length:
  assumes "map rv_revision rs = map int [1..<Suc (length rs)]"
  shows "next_revision rs = int (length rs) + 1"
  unfolding next_revision_def assms using foldr_max_int [of 0 "length rs"] by simp

lemma revision_cases:
  assumes "record_revision e tx at ty i s = Inr (x, t)"
  obtains row a r where "authority_row ty i s = Some row" "t = s\<lparr>t_audit := t_audit s @ [a], t_revisions := t_revisions s @ [r]\<rparr>"
    "at_action a = ''authority-state''" "at_type a = ty" "at_id a = i" "at_payload a = rv_digest r"
    "audit_entry_ok e (chain_end AUDIT_GENESIS (t_audit s)) (int (length (t_audit s)) + 1) a" "rv_type r = ty" "rv_id r = i"
    "rv_sequence r = int (length (t_audit s)) + 1" "rv_digest r = authority_digest e ty i row" "rv_revision r = next_revision (entity_revisions ty i s)"
proof -
  from assms obtain row where row: "authority_row ty i s = Some row" by (auto simp: record_revision_def split: option.splits)
  let ?d = "authority_digest e ty i row"
  from assms row obtain n u where au: "append_audit e tx ty i ''authority-state'' ?d at s = Inr (n, u)"
    and t: "t = u\<lparr>t_revisions := t_revisions u @ [\<lparr>rv_type = ty, rv_id = i, rv_revision = next_revision (entity_revisions ty i s), rv_digest = ?d,
      rv_sequence = n, rv_occurred = at\<rparr>]\<rparr>"
    unfolding record_revision_def Let_def by (auto simp: bindT_Inr tx_simps)
  from append_known [OF au] obtain a where a: "u = s\<lparr>t_audit := t_audit s @ [a]\<rparr>" "n = int (length (t_audit s)) + 1" "at_type a = ty" "at_id a = i"
    "at_action a = ''authority-state''" "at_payload a = ?d" "audit_entry_ok e (chain_end AUDIT_GENESIS (t_audit s)) n a" by auto
  show thesis
    by (rule that [where a = a and r = "\<lparr>rv_type = ty, rv_id = i, rv_revision = next_revision (entity_revisions ty i s), rv_digest = ?d,
      rv_sequence = n, rv_occurred = at\<rparr>", OF row]) (use t a in simp_all)
qed

lemma revision_ok:
  assumes "journal_ok e s" and "record_revision e tx at ty i s = Inr (x, t)"
  shows "journal_ok e t"
  using assms(2)
proof (cases rule: revision_cases)
  case (1 row a r)
  have tabs: "t_records t = t_records s" "t_audit t = t_audit s @ [a]" "t_nonces t = t_nonces s" "t_revisions t = t_revisions s @ [r]"
    "t_decisions t = t_decisions s"
    by (simp_all add: 1(2))
  from assms(1) have ok: "records_ok e s" "audit_ok e s" "decisions_ok e s" "revisions_ok s" by (simp_all add: journal_ok_def)
  have c: "consumed_of (t_audit t) = consumed_of (t_audit s)" by (simp add: tabs(2) 1(3))
  have fits: "consumption_fits t = consumption_fits s" by (rule consumption_fits_cong [OF tabs(3) c])
  have rev: "map rv_revision (entity_revisions ty i s) = map int [1..<Suc (length (entity_revisions ty i s))]" for ty i
    using ok(4) by (simp add: revisions_ok_def)
  have "entity_revisions k j t = entity_revisions k j s @ (if k = ty \<and> j = i then [r] else [])" for k j
    using 1(8,9) by (auto simp: entity_revisions_def tabs(4))
  then have "map rv_revision (entity_revisions k j t) = map int [1..<Suc (length (entity_revisions k j t))]" for k j
    using 1(12) rev [of k j] next_revision_length [OF rev, of ty i] by simp
  moreover have "authority_from 1 (t_audit t) = map (\<lambda>r. (rv_sequence r, rv_type r, rv_id r, rv_digest r)) (t_revisions t)"
    using ok(4) 1(3-6,8-10) by (simp add: tabs revisions_ok_def add.commute)
  ultimately have "revisions_ok t" by (simp add: revisions_ok_def)
  moreover have "records_ok e t" using ok(1) by (simp add: records_ok_def tabs 1(3))
  moreover have "decisions_ok e t" using ok(3) unfolding decisions_ok_def tabs(1,3,5) c fits .
  moreover have "audit_ok e t" by (rule audit_ok_new [OF ok(2) tabs(2) 1(7)])
  ultimately show ?thesis by (simp add: journal_ok_def)
qed

section \<open>Every method keeps the inventories\<close>

text \<open>What the environment has to promise: digests do not collide, and among the records that pass validation only decisions deny.\<close>

definition sound_env :: "store_env \<Rightarrow> bool" where
  "sound_env e \<longleftrightarrow> inj (ce_sha e) \<and> (\<forall>d. validate_runtime_record e d = Inr () \<longrightarrow> jat d [''spec'', ''effect''] = JStr ''deny''
     \<longrightarrow> jat d [''kind''] = JStr ''PolicyDecision'')"

definition keeps_journal :: "store_env \<Rightarrow> rstore \<Rightarrow> rstore \<Rightarrow> bool" where
  "keeps_journal e s t \<longleftrightarrow> (sound_env e \<longrightarrow> journal_ok e s \<longrightarrow> journal_ok e t)"

interpretation kj: tx_logic "keeps_journal e" for e
  by unfold_locales (auto simp: keeps_journal_def)

interpretation ks: store_logic "keeps_journal e" e "\<lambda>d. sound_env e \<longrightarrow> jat d [''kind''] = JStr ''PolicyDecision''" for e
proof unfold_locales
  fix d and tx :: string and subject :: string and nonce :: string and now :: int
  assume d: "sound_env e \<longrightarrow> jat d [''kind''] = JStr ''PolicyDecision''"
  then show "kj.moves e (issue_decision_tx e tx d)"
    by (intro kj.movesI) (auto simp: keeps_journal_def sound_env_def intro: issue_ok)
  show "jat d [''spec'', ''subject'', ''digest''] = JStr subject \<Longrightarrow> kj.moves e (consume_decision_tx e tx d subject nonce now)"
    by (intro kj.movesI) (auto simp: keeps_journal_def sound_env_def intro: consume_ok)
next
  fix r :: json and tx :: string and at :: string and code :: string
  assume "jat r [''kind''] \<noteq> JStr ''PolicyDecision''"
  then show "kj.moves e (record_fresh e tx r at code)" "kj.moves e (record_if_new e tx r)"
    by (auto intro!: kj.movesI simp: keeps_journal_def intro: new_record_ok dest!: record_fresh_new record_if_new_new)
next
  fix s t :: rstore
  assume "same_journal s t"
  then show "keeps_journal e s t" using journal_ok_cong [of t s e] by (simp add: keeps_journal_def same_journal_def)
next
  fix s :: rstore and row rs
  show "keeps_journal e s (s\<lparr>t_events := t_events s @ [row], t_runs := rs\<rparr>)"
    using journal_ok_cong [of "s\<lparr>t_events := t_events s @ [row], t_runs := rs\<rparr>" s e] by (simp add: keeps_journal_def)
qed (auto intro!: kj.movesI simp: keeps_journal_def sound_env_def intro: nonce_ok revision_ok)

lemma empty_journal_ok: "journal_ok e empty_store"
  by (simp add: journal_ok_def empty_store_def records_ok_def audit_ok_def decisions_ok_def revisions_ok_def created_of_def consumed_of_def
      decision_ids_def dict_keys_def entity_revisions_def)

end
