(* ===== verification/Eco_Store_Clean.thy ===== *)
theory Eco_Store_Clean
  imports Eco_Store_Sound Eco_Store_Accounts
begin

text \<open>
  The digests of mutable rows. Inside a transaction a row may be newer than its last revision; \<open>settled e D\<close> says that only the
  entities of \<open>D\<close> are. Every method that starts from a store with no such entity ends in one, and then the verifier of the
  journal accepts the store.
\<close>

section \<open>Entities that are not attested yet\<close>

definition attested :: "store_env \<Rightarrow> rstore \<Rightarrow> string \<Rightarrow> string \<Rightarrow> bool" where
  "attested e s k i \<longleftrightarrow> (\<forall>row. authority_row k i s = Some row \<longrightarrow> entity_revisions k i s \<noteq> []
     \<and> rv_digest (last (entity_revisions k i s)) = authority_digest e k i row)"

definition settled :: "store_env \<Rightarrow> (string \<times> string) set \<Rightarrow> rstore \<Rightarrow> bool" where
  "settled e D s \<longleftrightarrow> (\<forall>k i. (k, i) \<notin> D \<longrightarrow> attested e s k i)
     \<and> (\<forall>r \<in> set (t_revisions s). authority_row (rv_type r) (rv_id r) s \<noteq> None)"

definition rows_frame :: "(string \<times> string) set \<Rightarrow> rstore \<Rightarrow> rstore \<Rightarrow> bool" where
  "rows_frame X s t \<longleftrightarrow> t_revisions t = t_revisions s \<and> (\<forall>k i. (k, i) \<notin> X \<longrightarrow> authority_row k i t = authority_row k i s)
     \<and> (\<forall>k i. authority_row k i s \<noteq> None \<longrightarrow> authority_row k i t \<noteq> None)"

lemma settled_frame: "settled e D s \<Longrightarrow> rows_frame X s t \<Longrightarrow> settled e (D \<union> X) t"
  unfolding settled_def rows_frame_def attested_def entity_revisions_def by auto

lemma settled_mono: "settled e D s \<Longrightarrow> D \<subseteq> D' \<Longrightarrow> settled e D' s"
  unfolding settled_def by blast

definition covers :: "store_env \<Rightarrow> (string \<times> string) set \<Rightarrow> 'a stx \<Rightarrow> ('a \<Rightarrow> (string \<times> string) set) \<Rightarrow> bool" where
  "covers e D m Q \<longleftrightarrow> (\<forall>s x t. settled e D s \<longrightarrow> m s = Inr (x, t) \<longrightarrow> settled e (Q x) t)"

lemma coversI: "(\<And>s x t. settled e D s \<Longrightarrow> m s = Inr (x, t) \<Longrightarrow> settled e (Q x) t) \<Longrightarrow> covers e D m Q"
  by (simp add: covers_def)

lemma coversD: "covers e D m Q \<Longrightarrow> m s = Inr (x, t) \<Longrightarrow> settled e D s \<Longrightarrow> settled e (Q x) t"
  by (auto simp: covers_def)

lemma c_bind: "covers e D m Q \<Longrightarrow> (\<And>x. covers e (Q x) (f x) R) \<Longrightarrow> covers e D (bindT m f) R"
  by (rule coversI, erule bindT_InrE) (blast dest: coversD)

lemma c_frame: "(\<And>s x t. m s = Inr (x, t) \<Longrightarrow> rows_frame (X x) s t) \<Longrightarrow> covers e D m (\<lambda>x. D \<union> X x)"
  by (rule coversI) (blast intro: settled_frame)

text \<open>Code that leaves the rows and the revisions alone.\<close>

definition rows_of :: "rstore \<Rightarrow> (string \<times> run_entry) list \<times> (string \<times> plan_row) list \<times> (string \<times> baseline_row) list \<times> (string \<times> checkpoint_row) list
    \<times> revision_row list \<times> accounts" where
  "rows_of s = (t_runs s, t_plans s, t_baselines s, t_checkpoints s, t_revisions s, accounts s)"

definition same_rows :: "rstore \<Rightarrow> rstore \<Rightarrow> bool" where
  "same_rows s t \<longleftrightarrow> rows_of t = rows_of s"

interpretation sr: tx_logic same_rows
  by unfold_locales (simp_all add: same_rows_def)

lemma same_rows_frame: "same_rows s t \<Longrightarrow> rows_frame {} s t"
  by (simp add: same_rows_def rows_of_def accounts_def rows_frame_def authority_row_def)

lemma c_pure: "sr.moves m \<Longrightarrow> covers e D m (\<lambda>_. D)"
  using c_frame [of m "\<lambda>_. {}" e D] by (simp add: same_rows_frame sr.movesD)

lemma c_end: "sr.moves m \<Longrightarrow> D \<subseteq> D' \<Longrightarrow> covers e D m (\<lambda>_. D')"
  using c_pure [of m e D] unfolding covers_def by (blast intro: settled_mono)

lemma c_weaken: "covers e D m Q \<Longrightarrow> (\<And>x. Q x \<subseteq> R x) \<Longrightarrow> covers e D m R"
  unfolding covers_def by (blast intro: settled_mono)

lemma sr_reads [intro]:
  "sr.moves (find_run run)" "sr.moves (find_operation i)" "sr.moves (model_operation_status i)" "sr.moves (budget_status run)" "sr.moves (load_record i)"
  by (rule sr.movesI, auto simp: tx_simps sr.rel_refl)+

lemma sr_journal [intro]:
  "sr.moves (insert_record e r)" "sr.moves (append_audit e tx ty i a p at)" "sr.moves (insert_decision e d i run digest)"
  "sr.moves (spend_decision i digest nonce at us)" "sr.moves (set_nonce_result nonce digest)"
  by (rule sr.movesI, auto simp: insert_record_def append_audit_def insert_decision_def spend_decision_def set_nonce_result_def tx_simps Let_def
      same_rows_def rows_of_def accounts_def split: option.splits if_splits)+

lemma sr_records [intro]: "sr.moves (record_fresh e tx r at code)" "sr.moves (record_if_new e tx r)" "sr.moves (record_result e tx r)"
  "sr.moves (issue_decision_tx e tx d)"
  unfolding record_fresh_def record_if_new_def record_result_def issue_decision_tx_def
  by (intro sr.moves_bind sr.moves_if sr.moves_pure sr.moves_prod sr_journal)+

lemma sr_consume [intro]: "sr.moves (consume_decision_tx e tx d subject nonce now)"
proof (rule sr.movesI)
  fix s x t
  assume c: "consume_decision_tx e tx d subject nonce now s = Inr (x, t)"
  have m: "sr.moves (consume_fresh e tx d subject nonce now)"
    unfolding consume_fresh_def Let_def
    by (intro sr.moves_bind sr.moves_pure sr.moves_write sr_journal) (simp add: same_rows_def rows_of_def accounts_def)
  from c show "same_rows s t"
    by (auto simp: consume_decision_tx_def sr.rel_refl split: option.splits if_splits intro: sr.movesD [OF m])
qed

section \<open>Rules for the parts of a transaction\<close>

lemma c_lift: "(\<And>x. r = Inr x \<Longrightarrow> covers e D (f x) Q) \<Longrightarrow> covers e D (bindT (liftT r) f) Q"
  by (auto simp: covers_def tx_simps)

lemma c_if: "covers e D a Q \<Longrightarrow> covers e D b Q \<Longrightarrow> covers e D (if c then a else b) Q"
  by simp

lemma c_prod: "(\<And>x y. covers e (Q (x, y)) (f x y) R) \<Longrightarrow> covers e (Q z) (case z of (x, y) \<Rightarrow> f x y) R"
  by (cases z) simp

lemma c_revision: "covers e D (record_revision e tx at k i) (\<lambda>_. D - {(k, i)})"
proof (rule coversI)
  fix s x t
  assume s: "settled e D s" and r: "record_revision e tx at k i s = Inr (x, t)"
  from r show "settled e (D - {(k, i)}) t"
  proof (cases rule: revision_cases)
    case (1 row a r)
    have row: "authority_row k' i' t = authority_row k' i' s" for k' i' by (simp add: 1(2) authority_row_def)
    have rev: "entity_revisions k' i' t = entity_revisions k' i' s @ (if k' = k \<and> i' = i then [r] else [])" for k' i'
      using 1(8,9) by (auto simp: entity_revisions_def 1(2))
    have "attested e t k i" using 1(1,11) by (simp add: attested_def row rev)
    moreover have "attested e t k' i'" if "(k', i') \<notin> D" "(k', i') \<noteq> (k, i)" for k' i'
      using s that by (auto simp: settled_def attested_def row rev)
    moreover have "authority_row (rv_type q) (rv_id q) t \<noteq> None" if "q \<in> set (t_revisions t)" for q
    proof -
      have "t_revisions t = t_revisions s @ [r]" by (simp add: 1(2))
      with that s 1(1,8,9) show ?thesis unfolding row settled_def by auto
    qed
    ultimately show ?thesis unfolding settled_def by blast
  qed
qed

lemma c_revisions: "covers e D (record_revisions e tx at es) (\<lambda>_. D - set es)"
  unfolding record_revisions_def
proof (induction es arbitrary: D)
  case Nil
  show ?case by (simp add: c_end)
next
  case (Cons x es)
  obtain k i where x: "x = (k, i)" by force
  have "D - set (x # es) = (D - {(k, i)}) - set es" by (auto simp: x)
  then show ?case by (auto simp: x intro!: c_bind [OF c_revision] Cons)
qed

text \<open>The writes of rows, with the entities they touch.\<close>

lemma frames:
  "rows_frame {(''budget'', run)} s (s\<lparr>t_budgets := dict_set run b (t_budgets s)\<rparr>)"
  "rows_frame {(''budget'', run)} s (s\<lparr>t_budgets := t_budgets s @ [(run, b)]\<rparr>)"
  "rows_frame {(''plan'', i)} s (s\<lparr>t_plans := dict_set i p (t_plans s)\<rparr>)"
  "rows_frame {(''plan'', i)} s (s\<lparr>t_plans := t_plans s @ [(i, p)]\<rparr>)"
  "rows_frame {(''checkpoint'', i)} s (s\<lparr>t_checkpoints := t_checkpoints s @ [(i, c)]\<rparr>)"
  "rows_frame {(''model-operation'', i)} s (s\<lparr>t_models := dict_set i m (t_models s)\<rparr>)"
  "rows_frame {(''model-reservation'', i)} s (s\<lparr>t_charges := dict_set i c' (t_charges s)\<rparr>)"
  "rows_frame {(''run'', i)} s (s\<lparr>t_events := es, t_runs := dict_set i r (t_runs s)\<rparr>)"
  by (auto simp: rows_frame_def authority_row_def map_add_def split: option.splits if_splits)

lemma pair_frames:
  "rows_frame {(''run'', i), (''event-baseline'', i)} s (s\<lparr>t_runs := t_runs s @ [(i, r)], t_baselines := t_baselines s @ [(i, b)]\<rparr>)"
  "rows_frame {(''run'', i), (''plan'', j)} s (s\<lparr>t_runs := dict_set i r (t_runs s), t_plans := dict_set j p (t_plans s)\<rparr>)"
  "rows_frame {(''operation'', i), (''reservation'', i)} s (s\<lparr>t_operations := t_operations s @ [(i, o')], t_reservations := t_reservations s @ [(i, v)]\<rparr>)"
  "rows_frame {(''operation'', i), (''reservation'', i)} s (s\<lparr>t_reservations := dict_set i v (t_reservations s), t_operations := dict_set i o' (t_operations s)\<rparr>)"
  "rows_frame {(''model-operation'', i), (''model-reservation'', i)} s (s\<lparr>t_models := t_models s @ [(i, m)], t_charges := t_charges s @ [(i, c)]\<rparr>)"
  by (auto simp: rows_frame_def authority_row_def map_add_def split: option.splits if_splits)

lemma frame_refl: "rows_frame X s s"
  by (simp add: rows_frame_def)

lemma c_rows:
  "covers e D (update_budget run c f code) (\<lambda>_. D \<union> {(''budget'', run)})"
  "covers e D (insert_budget run b) (\<lambda>_. D \<union> {(''budget'', run)})"
  "covers e D (insert_plan i run' digest) (\<lambda>new. D \<union> (if new then {(''plan'', i)} else {}))"
  "covers e D (open_run e run rd p at complete source) (\<lambda>_. D \<union> {(''run'', run), (''event-baseline'', run)})"
  "covers e D (writeT (activation_rows e plan dl at)) (\<lambda>_. D \<union> {(''run'', the_str (jat plan [''metadata'', ''runId''])), (''plan'', the_str (jat plan [''metadata'', ''id'']))})"
  "covers e D (insert_operation i o' v) (\<lambda>_. D \<union> {(''operation'', i), (''reservation'', i)})"
  "covers e D (writeT (close_failed i o' v x y at)) (\<lambda>_. D \<union> {(''operation'', i), (''reservation'', i)})"
  "covers e D (writeT (close_succeeded i o' v x y z at)) (\<lambda>_. D \<union> {(''operation'', i), (''reservation'', i)})"
  "covers e D (insert_model i m ch) (\<lambda>_. D \<union> {(''model-operation'', i), (''model-reservation'', i)})"
  "covers e D (write_model i m) (\<lambda>_. D \<union> {(''model-operation'', i)})"
  "covers e D (write_charge i ch) (\<lambda>_. D \<union> {(''model-reservation'', i)})"
  "covers e D (writeT (\<lambda>s. s\<lparr>t_plans := dict_set i pl (t_plans s)\<rparr>)) (\<lambda>_. D \<union> {(''plan'', i)})"
  "covers e D (writeT (\<lambda>s. s\<lparr>t_checkpoints := t_checkpoints s @ [(run, cp)]\<rparr>)) (\<lambda>_. D \<union> {(''checkpoint'', run)})"
  "covers e D (writeT (\<lambda>s. s\<lparr>t_events := fe s, t_runs := dict_set run re (t_runs s)\<rparr>)) (\<lambda>_. D \<union> {(''run'', run)})"
  by (rule c_frame, (auto simp: update_budget_def insert_budget_def insert_plan_def open_run_def activation_rows_def insert_operation_def close_failed_def
      close_succeeded_def insert_model_def write_model_def write_charge_def Let_def tx_simps intro: frames pair_frames frame_refl
      split: option.splits if_splits)[1])+

lemma c_run_for_plan:
  "covers e D (run_for_plan e run plan at cap) (\<lambda>x. D \<union> (if fst x then {(''run'', run), (''event-baseline'', run)} else {}))"
  by (rule c_frame) (auto simp: run_for_plan_def open_run_def tx_simps intro: pair_frames frame_refl split: option.splits if_splits)

lemma c_event: "covers e D (append_event_tx e tx now run q) (\<lambda>_. D - {(''run'', run)})"
proof (rule coversI)
  fix s x t
  assume s: "settled e D s" and "append_event_tx e tx now run q s = Inr (x, t)"
  from this(2) obtain outcome issuer a p at r where w: "write_event e tx run q outcome issuer a p at r s = Inr (x, t)"
    by (rule append_event_cases)
  have "covers e D (write_event e tx run q outcome issuer a p at r) (\<lambda>_. D - {(''run'', run)})"
    unfolding write_event_def Let_def
    by (rule c_lift c_bind [OF c_pure] c_bind [OF c_rows(14)] c_bind [OF c_revision] | rule sr_records | rule c_end, rule sr.moves_pure, blast)+
  from coversD [OF this w s] show "settled e (D - {(''run'', run)}) t" .
qed

section \<open>Every method leaves nothing dirty\<close>

lemmas c_steps = c_lift c_bind [OF c_pure] c_bind [OF c_revision] c_bind [OF c_revisions] c_bind [OF c_event] c_bind [OF c_run_for_plan]
  c_bind [OF c_rows(1)] c_bind [OF c_rows(2)] c_bind [OF c_rows(3)] c_bind [OF c_rows(4)] c_bind [OF c_rows(5)] c_bind [OF c_rows(6)]
  c_bind [OF c_rows(7)] c_bind [OF c_rows(8)] c_bind [OF c_rows(9)] c_bind [OF c_rows(10)] c_bind [OF c_rows(11)] c_bind [OF c_rows(12)]
  c_bind [OF c_rows(13)]

lemmas c_moves = sr.moves_pure sr_records sr_consume sr_reads sr_journal(5)

lemma c_ends: "covers e D (returnT x) (\<lambda>_. D)" "covers e D (find_run run) (\<lambda>_. D)"
  by (rule c_pure, rule c_moves)+

lemma c_put: "covers e D (put_record e tx r) (\<lambda>_. D)"
  unfolding put_record_def by (rule c_lift | rule c_bind [OF c_pure], rule sr.moves_pure | rule c_pure, rule sr_records)+

lemma c_start: "covers e {} (start_run e tx run request cap) (\<lambda>_. {})"
  unfolding start_run_def Let_def
  by (rule c_lift | rule c_bind [OF c_pure], rule c_moves | rule c_steps | rule c_end, rule c_moves, blast)+

lemma c_checkpoint: "covers e {} (write_checkpoint e tx run at v c) (\<lambda>_. {})"
  unfolding write_checkpoint_def Let_def
  by (rule c_lift | rule c_bind [OF c_pure], rule c_moves | rule c_steps | rule c_end, rule c_moves, blast)+

lemma c_activate: "covers e {} (store_activate_plan e tx plan d nonce now policy) (\<lambda>_. {})"
  unfolding store_activate_plan_def Let_def
  by (rule c_lift c_if | rule c_bind [OF c_pure], rule c_moves | rule c_prod [where Q = "\<lambda>_. {}"] | rule c_steps | rule c_end, rule c_moves, auto)+

lemma c_deny: "covers e {} (deny_plan e tx plan d nonce now policy) (\<lambda>_. {})"
  unfolding deny_plan_def Let_def
  by (rule c_lift c_if | rule c_bind [OF c_pure], rule c_moves | rule c_prod [where Q = "\<lambda>_. {}"] | rule c_steps | rule c_end, rule c_moves, auto)+

lemma c_fence: "covers e {} (cross_fence e tx i m res at) (\<lambda>_. {})"
  unfolding cross_fence_def
  by (rule c_bind [OF c_pure], rule c_moves | rule c_steps | rule c_end, rule c_moves, auto)+

lemma c_abort: "covers e {} (abort_call e tx i m c now) (\<lambda>_. {})"
  unfolding abort_call_def Let_def
  by (rule c_lift | rule c_bind [OF c_pure], rule c_moves | rule c_steps | rule c_end, rule c_moves, auto)+

lemma c_close: "mo_run_id m = run \<Longrightarrow> covers e {(''budget'', run)} (close_call e tx i m c result q now) (\<lambda>_. {})"
  unfolding close_call_def
  by (rule c_lift | rule c_bind [OF c_pure], rule c_moves | rule c_steps | rule c_end, rule c_moves, auto)+

lemma c_settle_call: "covers e {} (settle_call e tx i m c result a d now adapter) (\<lambda>_. {})"
  unfolding settle_call_def Let_def
  by (rule c_bind [OF c_pure], rule c_moves | rule c_bind [OF c_rows(1)] | simp only: Un_empty_left, rule c_close, simp)+

lemma c_ceiling: "covers e {} (charge_ceiling e tx i m c st error now adapter) (\<lambda>_. {})"
  unfolding charge_ceiling_def Let_def
  by (rule c_bind [OF c_pure], rule c_moves | rule c_bind [OF c_rows(1)] | simp only: Un_empty_left, rule c_close, simp)+

lemma c_reserve_call: "covers e {} (reserve_call e tx request endpoint input d m c now) (\<lambda>_. {})"
proof -
  have "sr.moves (eachT (\<lambda>r. bindT (record_if_new e tx r) (\<lambda>_. returnT ())) rs)" for rs
    by (intro sr.moves_each sr.moves_bind sr_records sr.moves_pure)
  then show ?thesis
    unfolding reserve_call_def Let_def
    by - (rule c_bind [OF c_pure], (assumption | rule c_moves) | rule c_steps | rule c_weaken, rule c_revisions, auto)+
qed

lemma c_prepare_read: "covers e {} (prepare_new e tx token plan request d intent entry owner until now policy runtime) (\<lambda>_. {})"
  unfolding prepare_new_def reserve_read_def read_events_def Let_def bindT_assoc
  by (rule c_bind [OF c_pure], rule c_moves | rule c_steps | rule c_end, rule c_moves, auto)+

lemma c_fail_read: "covers e {} (settle_failed_read e tx i o' v intent error outcome now broker) (\<lambda>_. {})"
  unfolding settle_failed_read_def Let_def
  by (rule c_bind [OF c_pure], rule c_moves | rule c_steps | rule c_end, rule c_moves, auto)+

lemma c_read: "covers e {} (settle_read e tx i o' v intent receipt artifact outcome now broker) (\<lambda>_. {})"
  unfolding settle_read_def Let_def
  by (rule c_bind [OF c_pure], rule c_moves | rule c_steps | rule c_end, rule c_moves, auto)+

lemma c_event_same: "covers e D (append_event_tx e tx now run q) (\<lambda>_. D)"
  by (rule c_weaken [OF c_event]) blast

lemma c_plan_event:
  "covers e D (if native then bindT (liftT x) (\<lambda>now. bindT (append_event_tx e tx now run q) (\<lambda>_. returnT ())) else returnT ()) (\<lambda>_. D)"
  by (rule c_if c_lift c_bind [OF c_event_same] | rule c_pure, rule c_moves)+

lemma c_issue_plan: "covers e {} (issue_plan e tx plan d policy cap) (\<lambda>_. {})"
  unfolding issue_plan_def Let_def
  by (rule c_lift | rule c_bind [OF c_pure], rule c_moves | rule c_bind [OF c_run_for_plan] c_prod c_bind [OF c_rows(3)] c_bind [OF c_plan_event]
      c_bind [OF c_revisions] | rule c_end, rule c_moves, auto split: if_splits)+

lemma effect_settled: "store_effect e s t \<Longrightarrow> settled e {} s \<Longrightarrow> settled e {} t"
proof (induction rule: store_effect.induct)
  case (eff_event tx now run q s x t)
  then show ?case using coversD [OF c_event_same] by blast
next
  case (eff_issue d tx s x t)
  then show ?case using coversD [OF c_pure [OF sr_records(4)]] by blast
next
  case (eff_consume d subject tx nonce now s y' t)
  then show ?case using coversD [OF c_pure [OF sr_consume]] by blast
next
  case (eff_resume s i m d subject tx x s1 nonce now y' s2 res at m' t)
  then show ?case
    using coversD [OF c_pure [OF sr_records(4)] eff_resume(4)] coversD [OF c_pure [OF sr_consume] eff_resume(5)] coversD [OF c_fence eff_resume(6)] by blast
qed (blast dest: coversD [OF c_put] coversD [OF c_start] coversD [OF c_issue_plan] coversD [OF c_activate] coversD [OF c_deny] coversD [OF c_checkpoint]
    coversD [OF c_prepare_read] coversD [OF c_fail_read] coversD [OF c_read] coversD [OF c_reserve_call] coversD [OF c_fence] coversD [OF c_abort]
    coversD [OF c_settle_call] coversD [OF c_ceiling])+

lemma step_settled: "store_step e s t \<Longrightarrow> settled e {} s \<Longrightarrow> settled e {} t"
  using step_effect effect_settled by blast

section \<open>The verifier accepts\<close>

lemma map_of_images: "distinct (map fst xs) \<Longrightarrow> (i, r) \<in> set xs \<Longrightarrow> map_of (map (\<lambda>(i, r). (i, f r)) xs) i = Some (f r)"
  by (induction xs) (auto split: prod.splits simp: image_iff)

lemma fst_images: "map fst (map (\<lambda>(i, r). (i, f r)) xs) = map fst xs"
  by (induction xs) auto

lemma created_keys: "records_ok e s \<Longrightarrow> map fst (created_of (t_audit s)) = map fst (t_records s)"
  unfolding records_ok_def using fst_images [of "\<lambda>r. (rr_kind r, rr_digest r)" "t_records s"] by simp

lemma verify_records_ok:
  assumes "records_ok e s"
  shows "check_all (verify_record_row e) (t_records s) = Inr ()"
    and "as_recorded a = created_of (t_audit s) \<Longrightarrow> verify_recorded a s = Inr ()"
proof -
  have "verify_record_row e x = Inr ()" if "x \<in> set (t_records s)" for x
    using assms that by (cases x) (auto simp: verify_record_row_def records_ok_def Let_def)
  then show "check_all (verify_record_row e) (t_records s) = Inr ()" by (simp add: check_all_Inr)
  assume a: "as_recorded a = created_of (t_audit s)"
  have k: "dict_keys (created_of (t_audit s)) = dict_keys (t_records s)"
    unfolding dict_keys_def using created_keys [OF assms] by (metis list.set_map)
  have "map_of (created_of (t_audit s)) i = Some (rr_kind r, rr_digest r)" if "(i, r) \<in> set (t_records s)" for i r
    using assms that map_of_images [of "t_records s" i r "\<lambda>r. (rr_kind r, rr_digest r)"] by (simp add: records_ok_def)
  then show "verify_recorded a s = Inr ()" by (auto simp: verify_recorded_def a k list_ex_iff)
qed

lemma verify_decisions_ok:
  assumes "records_ok e s" and "decisions_ok e s" and "as_consumed a = consumed_of (t_audit s)"
  shows "verify_decisions e a s = Inr ()"
proof -
  have dr: "distinct (map fst (t_records s))" and dd: "distinct (map fst (t_decisions s))"
    using assms(1,2) by (simp_all add: records_ok_def decisions_ok_def)
  have ids: "fst ` set (filter (\<lambda>(i, r). jat (rr_record r) [''kind''] = JStr ''PolicyDecision'') (t_records s)) = decision_ids (t_records s)"
    by (force simp: decision_ids_def map_of_eq_Some_iff [OF dr])
  have one: "verify_decision e a s x = Inr ()" if x: "x \<in> set (t_decisions s)" for x
  proof -
    obtain i d where "x = (i, d)" by force
    with x dd have m: "map_of (t_decisions s) i = Some d" by simp
    with assms(2) have "decision_fits e (the (map_of (t_records s) i)) d \<and> consumption_fits s i d" unfolding decisions_ok_def by blast
    then show ?thesis
      by (cases "dr_consumed_nonce d")
        (auto simp: \<open>x = (i, d)\<close> verify_decision_def decision_fits_def consumption_fits_def consumption_wrong_def assms(3))
  qed
  have "{n. Some n \<in> dr_consumed_nonce ` snd ` set (t_decisions s)} = {n. \<exists>i d. map_of (t_decisions s) i = Some d \<and> dr_consumed_nonce d = Some n}"
    by (force simp: map_of_eq_Some_iff [OF dd])
  with assms(2) one show ?thesis
    unfolding verify_decisions_def ids by (simp add: decisions_ok_def check_all_Inr)
qed

lemma sorted_ints: "sorted (map int [a..<b])"
  by (induction b) (auto simp: sorted_append)

lemma sorted_entity: "revisions_ok s \<Longrightarrow> sorted_revisions k i s = entity_revisions k i s"
proof -
  assume "revisions_ok s"
  then have "map rv_revision (entity_revisions k i s) = map int [1..<Suc (length (entity_revisions k i s))]" by (simp add: revisions_ok_def)
  then have "sorted (map rv_revision (entity_revisions k i s))" using sorted_ints by metis
  then show ?thesis unfolding sorted_revisions_def by (rule sort_key_id_if_sorted)
qed

lemma mem_keyed: "(k, i) \<in> set (map (\<lambda>x. (c, fst x)) d) \<longleftrightarrow> k = c \<and> map_of d i \<noteq> None"
  by (auto simp: map_of_eq_None_iff image_iff)

lemma live_rows: "(k, i) \<in> set (live_entities s) \<longleftrightarrow> authority_row k i s \<noteq> None"
proof (cases "k \<in> {''run'', ''plan'', ''budget'', ''operation'', ''reservation'', ''event-baseline'', ''checkpoint'', ''model-operation'', ''model-reservation''}")
  case True
  then show ?thesis
    unfolding live_entities_def set_append Un_iff mem_keyed authority_row_def by (elim insertE emptyE) simp_all
next
  case False
  then show ?thesis
    unfolding live_entities_def set_append Un_iff mem_keyed authority_row_def by simp
qed

lemma verify_revisions_ok:
  assumes "revisions_ok s" and "settled e {} s" and "as_authority a = authority_from 1 (t_audit s)"
  shows "verify_revisions e a s = Inr ()"
proof -
  have au: "authority_from 1 (t_audit s) = map (\<lambda>r. (rv_sequence r, rv_type r, rv_id r, rv_digest r)) (t_revisions s)"
    using assms(1) by (simp add: revisions_ok_def)
  have "distinct (map fst (authority_from 1 (t_audit s)))" by simp
  then have "map_of (authority_from 1 (t_audit s)) (rv_sequence r) = Some (rv_type r, rv_id r, rv_digest r)" if "r \<in> set (t_revisions s)" for r
    using that by (auto simp: au intro!: map_of_is_SomeI)
  moreover have "rv_sequence ` set (t_revisions s) = dict_keys (authority_from 1 (t_audit s))" by (force simp: au dict_keys_def)
  moreover have "\<not> revision_sequence_wrong (sorted_revisions k i s)" for k i
    using assms(1) by (simp add: revision_sequence_wrong_def sorted_entity revisions_ok_def)
  moreover have "\<not> entity_altered e s x" if "x \<in> set (live_entities s)" for x
    using assms(2) that sorted_entity [OF assms(1)]
    by (cases x) (auto simp: entity_altered_def live_rows settled_def attested_def split: option.splits)
  moreover have "(\<lambda>r. (rv_type r, rv_id r)) ` set (t_revisions s) = set (live_entities s)" (is "?L = ?R")
  proof
    show "?L \<subseteq> ?R" using assms(2) by (auto simp: live_rows settled_def)
    show "?R \<subseteq> ?L"
    proof
      fix x
      assume "x \<in> ?R"
      moreover obtain k i where x: "x = (k, i)" by force
      ultimately have "entity_revisions k i s \<noteq> []" using assms(2) by (auto simp: live_rows settled_def attested_def)
      then obtain r where "r \<in> set (entity_revisions k i s)" by (cases "entity_revisions k i s") auto
      then show "x \<in> ?L" by (auto simp: x entity_revisions_def)
    qed
  qed
  ultimately show ?thesis by (auto simp: verify_revisions_def assms(3) list_ex_iff)
qed

lemma verify_ok:
  assumes "journal_ok e s" and "settled e {} s"
  shows "verify_journal e s = Inr ()"
proof -
  from assms(1) have ok: "records_ok e s" "audit_ok e s" "decisions_ok e s" "revisions_ok s" by (simp_all add: journal_ok_def)
  have "distinct (map fst (created_of (t_audit s)))" unfolding created_keys [OF ok(1)] using ok(1) by (simp add: records_ok_def)
  with ok have scan: "scan_audit e empty_scan (t_audit s) = Inr \<lparr>as_previous = chain_end AUDIT_GENESIS (t_audit s), as_next = 1 + int (length (t_audit s)),
      as_recorded = created_of (t_audit s), as_consumed = consumed_of (t_audit s), as_authority = authority_from 1 (t_audit s)\<rparr>"
    by (intro scan_chain) (auto simp: audit_ok_def decisions_ok_def)
  show ?thesis
    by (simp add: verify_journal_def scan verify_records_ok [OF ok(1)] verify_decisions_ok [OF ok(1,3)] verify_revisions_ok [OF ok(4) assms(2)])
qed

interpretation vj: inv_system "\<lambda>s. sound_env e \<and> s = empty_store" "store_step e" "\<lambda>s. sound_env e \<and> journal_ok e s \<and> settled e {} s" for e
proof
  fix s t
  assume "sound_env e \<and> s = empty_store"
  then show "sound_env e \<and> journal_ok e s \<and> settled e {} s"
    by (auto simp: empty_journal_ok) (simp add: settled_def attested_def authority_row_def empty_store_def)
next
  fix s t
  assume i: "sound_env e \<and> journal_ok e s \<and> settled e {} s" and st: "store_step e s t"
  from ks.step_rel [OF st] i step_settled [OF st] show "sound_env e \<and> journal_ok e t \<and> settled e {} t"
    by (simp add: keeps_journal_def)
qed

section \<open>Claims\<close>

text \<open>C2: every store that methods produce from an empty one passes the verifier of the journal: each record is valid and has its digest,
  the audit entries form one tagged chain, what they record, issue and consume is exactly the records, decisions and nonces of the
  database, the revisions of every mutable row are numbered from one without a gap, and the last of them has the digest of the row
  as it stands. The environment promises that digests do not collide and that among valid records only decisions deny.\<close>

theorem reachable_store_verifies:
  assumes "sound_env e" and "(store_step e)\<^sup>*\<^sup>* empty_store s"
  shows "verify_journal e s = Inr ()"
  using vj.steps_inv [OF assms(2)] vj.start_inv [of e empty_store] assms(1) verify_ok by blast

end
