(* ===== verification/Eco_Store_Stranded.thy ===== *)
theory Eco_Store_Stranded
  imports Eco_Store_Journal
begin

text \<open>
  A model call that cannot end. The failure or the resolution of a call appends \<open>adapter.failed\<close>, which a run accepts once, and its
  completion appends \<open>artifact.recorded\<close>, which a run refuses after \<open>adapter.failed\<close>. When one of two started calls of a run has
  failed, the other one can no longer be completed, failed or resolved, and while it is open the run cannot be finished.
\<close>

section \<open>The history of a run inside a transaction\<close>

definition same_history :: "rstore \<Rightarrow> rstore \<Rightarrow> bool" where
  "same_history s t \<longleftrightarrow> t_events t = t_events s \<and> t_baselines t = t_baselines s \<and> prefix (t_records s) (t_records t)"

interpretation sh: tx_logic same_history
  by unfold_locales (auto simp: same_history_def)

definition events_recorded :: "rstore \<Rightarrow> bool" where
  "events_recorded s \<longleftrightarrow> (\<forall>r \<in> set (t_events s). map_of (t_records s) (er_id r) \<noteq> None)"

lemma map_of_prefix: "prefix xs ys \<Longrightarrow> map_of xs k = Some v \<Longrightarrow> map_of ys k = Some v"
  by (auto simp: prefix_def map_add_Some_iff)

lemma joined_same:
  assumes "same_history s t" and "events_recorded s"
  shows "joined_events run t = joined_events run s \<and> events_recorded t"
proof
  have r: "map_of (t_records t) (er_id x) = map_of (t_records s) (er_id x)" if "x \<in> set (t_events s)" for x
    using assms that map_of_prefix [of "t_records s" "t_records t" "er_id x"] by (auto simp: same_history_def events_recorded_def)
  have e: "t_events t = t_events s" using assms(1) by (simp add: same_history_def)
  show "events_recorded t" using assms(2) r by (simp add: events_recorded_def e)
  have "filter (\<lambda>x. map_of (t_records t) (er_id x) \<noteq> None) (sort_key er_sequence (filter (\<lambda>x. er_run_id x = run) (t_events s)))
      = filter (\<lambda>x. map_of (t_records s) (er_id x) \<noteq> None) (sort_key er_sequence (filter (\<lambda>x. er_run_id x = run) (t_events s)))"
    by (rule filter_cong) (auto simp: r)
  then show "joined_events run t = joined_events run s"
    unfolding joined_events_def e by (auto simp: r intro!: map_cong)
qed

lemma replay_same: "same_history s t \<Longrightarrow> events_recorded s \<Longrightarrow> replay_projection e run t = replay_projection e run s"
  using joined_same [of s t run] unfolding replay_projection_def same_history_def
  by (cases "map_of (t_baselines s) run") simp_all

section \<open>Transactions that cannot return\<close>

definition adapter_is_down :: "store_env \<Rightarrow> string \<Rightarrow> rstore \<Rightarrow> bool" where
  "adapter_is_down e run s \<longleftrightarrow> events_recorded s
     \<and> (\<exists>a. replay_projection e run s = Inr a \<and> state (rp_projection a) = RUNNING \<and> adapter_failed (rp_projection a))"

lemma down_same: "same_history s t \<Longrightarrow> adapter_is_down e run s \<Longrightarrow> adapter_is_down e run t"
  using replay_same [of s t e run] joined_same [of s t run] by (auto simp: adapter_is_down_def)

definition stuck :: "store_env \<Rightarrow> string \<Rightarrow> 'a stx \<Rightarrow> bool" where
  "stuck e run m \<longleftrightarrow> (\<forall>s. adapter_is_down e run s \<longrightarrow> isl (m s))"

lemma stuck_after: "sh.moves m \<Longrightarrow> (\<And>x. stuck e run (f x)) \<Longrightarrow> stuck e run (bindT m f)"
  unfolding stuck_def bindT_def by (auto split: sum.splits prod.splits dest: sh.movesD down_same)

lemma stuck_first: "stuck e run m \<Longrightarrow> stuck e run (bindT m f)"
  unfolding stuck_def bindT_def by (auto split: sum.splits)

lemma down_refuses:
  assumes "state p = RUNNING" and "adapter_failed p" and "ty \<in> {''adapter.failed'', ''artifact.recorded''}"
  shows "isl (reduce_run_event p ty spec)"
proof -
  have n: "event_of_name ''adapter.failed'' = AdapterFailed" "event_of_name ''artifact.recorded'' = ArtifactRecorded"
    by (simp_all add: event_of_name_def event_names_def)
  have f: "adapter_failed (locals_of p)" using assms(2) by (simp add: locals_of_def)
  have "isl (reduce_event p ev spec)" if "ev = AdapterFailed \<or> ev = ArtifactRecorded" for ev
    using that assms(1) f
    by (cases "no_model_started (locals_of p)")
      (auto simp: reduce_event_def reduce_running_def reduce_no_model_running_def reduce_adapter_running_def)
  with assms(3) n show ?thesis by (auto simp: reduce_run_event_def)
qed

lemma stuck_event:
  assumes "eq_type q \<in> {''adapter.failed'', ''artifact.recorded''}"
  shows "stuck e run (append_event_tx e tx now run q)"
proof (unfold stuck_def, intro allI impI)
  fix s
  assume d: "adapter_is_down e run s"
  have "append_event_tx e tx now run q s \<noteq> Inr (x, t)" for x t
  proof
    assume "append_event_tx e tx now run q s = Inr (x, t)"
    then obtain outcome a p where "replay_projection e run s = Inr a"
      "reduce_run_event (rp_projection a) (eq_type q) (event_spec (eq_type q) outcome (eq_subject_id q) (eq_subject_digest q) (eq_result_digest q)) = Inr p"
      by (rule append_event_cases)
    with d down_refuses [OF _ _ assms, of "rp_projection a"] show False
      by (metis Inl_Inr_False adapter_is_down_def isl_def sum.inject(2))
  qed
  then show "isl (append_event_tx e tx now run q s)" by (cases "append_event_tx e tx now run q s") auto
qed

lemma history_moves [intro]:
  "sh.moves (insert_record e r)" "sh.moves (append_audit e tx ty i a p at)" "sh.moves (insert_decision e d i rj digest)"
  "sh.moves (spend_decision i digest nonce at us)" "sh.moves (set_nonce_result nonce digest)" "sh.moves (update_budget run c f code)"
  "sh.moves (write_model i m)" "sh.moves (write_charge i ch)"
  by (rule sh.movesI, (auto simp: insert_record_def append_audit_def insert_decision_def spend_decision_def set_nonce_result_def update_budget_def
      write_model_def write_charge_def tx_simps Let_def same_history_def split: option.splits if_splits)[1])+

lemma history_records [intro]: "sh.moves (record_if_new e tx r)" "sh.moves (issue_decision_tx e tx d)"
  unfolding record_if_new_def issue_decision_tx_def
  by (intro sh.moves_bind sh.moves_if sh.moves_pure sh.moves_prod history_moves)+

lemma history_consume [intro]: "sh.moves (consume_decision_tx e tx d subject nonce now)"
proof (rule sh.movesI)
  fix s x t
  assume c: "consume_decision_tx e tx d subject nonce now s = Inr (x, t)"
  have m: "sh.moves (consume_fresh e tx d subject nonce now)"
    unfolding consume_fresh_def Let_def
    by (intro sh.moves_bind sh.moves_pure sh.moves_write history_moves) (simp add: same_history_def)
  from c show "same_history s t"
    by (auto simp: consume_decision_tx_def sh.rel_refl split: option.splits if_splits intro: sh.movesD [OF m])
qed

lemma stuck_close:
  "eq_type q \<in> {''adapter.failed'', ''artifact.recorded''} \<Longrightarrow> stuck e (mo_run_id m) (close_call e tx i m c result q now)"
  unfolding close_call_def by (rule stuck_after [OF history_moves(8)] stuck_after [OF history_moves(7)] stuck_after [OF history_moves(5)] stuck_first stuck_event | assumption)+

lemma stuck_charge: "mo_run_id m' = run \<Longrightarrow> eq_type q \<in> {''adapter.failed'', ''artifact.recorded''} \<Longrightarrow> stuck e run (close_call e tx i m' c result q now)"
  using stuck_close [of q e m'] by simp

lemma stuck_settle: "mo_run_id m = run \<Longrightarrow> stuck e run (settle_call e tx i m c result a d now adapter)"
  unfolding settle_call_def Let_def
  by (rule stuck_after, (rule history_records history_consume history_moves sh.moves_pure) | rule stuck_charge, simp, simp add: adapter_result_def)+

lemma stuck_ceiling: "mo_run_id m = run \<Longrightarrow> stuck e run (charge_ceiling e tx i m c st error now adapter)"
  unfolding charge_ceiling_def Let_def
  by (rule stuck_after, (rule history_records history_moves) | rule stuck_charge, simp, simp add: adapter_result_def)+

lemma isl_no_answer: "isl r \<longleftrightarrow> (\<forall>x. r \<noteq> Inr x)"
  by (cases r) auto

lemma stuckD: "stuck e run m \<Longrightarrow> adapter_is_down e run s \<Longrightarrow> m s \<noteq> Inr q"
  unfolding stuck_def isl_no_answer by blast

section \<open>Claims\<close>

text \<open>C31: once the adapter of a running run has failed, a call of that run that is still started can neither be completed nor failed nor
  resolved nor aborted nor resumed, with whatever arguments, and the run cannot be finished with any outcome: every such method
  raises. (Two calls of one run may be started at the same time; the failure of the first one strands the second.)\<close>

theorem failed_adapter_strands_calls:
  assumes "map_of (t_models s) i = Some m" and "mo_state m = ModelStarted" and "adapter_is_down e (mo_run_id m) s"
    and "jat request [''metadata'', ''id''] = JStr i"
  shows "isl (complete_model_invocation e tx i result a d pr now adapter s) \<and> isl (fail_model_invocation e tx i error now adapter s)
    \<and> isl (resolve_ambiguous_model_invocation e tx i observed now runtime adapter s)
    \<and> isl (abort_prepared_model_invocation e tx request reason now runtime s)
    \<and> isl (start_model_invocation e tx i now adapter s) \<and> isl (resume_prepared_model_invocation e tx request d now policy adapter s)
    \<and> isl (finish_run e tx (mo_run_id m) outcome now runtime s)"
proof -
  note down = stuckD [OF stuck_settle assms(3), OF refl] stuckD [OF stuck_ceiling assms(3), OF refl]
  have "complete_model_invocation e tx i result a d pr now adapter s \<noteq> Inr x" for x
    using assms(1,2) down by (cases x) (auto simp: complete_model_invocation_def completion_checks_def tx_simps split: if_splits)
  moreover have "fail_model_invocation e tx i error now adapter s \<noteq> Inr x" for x
    using assms(1,2) down by (cases x) (auto simp: fail_model_invocation_def tx_simps split: if_splits)
  moreover have "resolve_ambiguous_model_invocation e tx i observed now runtime adapter s \<noteq> Inr x" for x
    using assms(1,2) down by (cases x) (auto simp: resolve_ambiguous_model_invocation_def Let_def tx_simps split: if_splits)
  moreover have "abort_prepared_model_invocation e tx request reason now runtime s \<noteq> Inr x" for x
    using assms(1,2,4) by (cases x) (auto simp: abort_prepared_model_invocation_def Let_def tx_simps split: if_splits)
  moreover have "start_model_invocation e tx i now adapter s \<noteq> Inr x" for x
    using assms(1,2) by (cases x) (auto simp: start_model_invocation_def tx_simps split: if_splits)
  moreover have "resume_prepared_model_invocation e tx request d now policy adapter s \<noteq> Inr x" for x
    using assms(1,2,4) by (cases x) (auto simp: resume_prepared_model_invocation_def Let_def tx_simps split: if_splits)
  moreover have "model_open (mo_run_id m) s"
    using map_of_SomeD [OF assms(1)] assms(2) by (auto simp: model_open_def list_ex_iff)
  then have "finish_run e tx (mo_run_id m) outcome now runtime s \<noteq> Inr x" for x
    by (cases x) (auto simp: finish_run_def tx_simps)
  ultimately show ?thesis unfolding isl_no_answer by blast
qed

end
