(* ===== verification/Eco_Store_Witness.thy ===== *)
theory Eco_Store_Witness
  imports Eco_Store_Funding Eco_Store_Clean Eco_Store_Stranded Eco_Policy_Demo
begin

text \<open>
  A concrete store: a run with an active plan, one open read, one prepared model call and one consumed decision, under an
  environment whose hash cannot collide. The call crosses the fence, or is aborted; the claims on the durable store are
  applied to these histories.
\<close>

section \<open>The environment\<close>

definition senv :: store_env where
  "senv = \<lparr>ce_sha = (#) CHR ''#'', ce_hmac = (\<lambda>_ _. ''tag''), ce_iso = show_int, ce_read = read_int,
     kx_structural = (\<lambda>k d. if jat d [''spec'', ''effect''] = JStr ''deny'' \<and> k \<noteq> ''PolicyDecision'' then [''effect''] else []),
     kx_tool_structural = (\<lambda>_ _. []), kx_authority_errors = (\<lambda>d. if jat d [''spec'', ''effect''] = JStr ''deny'' then [''effect''] else []),
     kx_loads = (\<lambda>_. None), kx_nfc = (\<lambda>s. s), kx_casefold = (\<lambda>s. s), px_canonical_schema = (\<lambda>_ _. True),
     px_schema_bundle = ''schemas'', sx_store_id = ''store'', sx_key = ''key'', sx_key_id = ''k1'', sx_path_key = ''path'',
     sx_capabilities = [(''policy'', 0), (''broker'', 1), (''runtime'', 2), (''adapter'', 3)],
     sx_issuers = [(''policy'', ''p''), (''broker'', ''b''), (''runtime'', ''r''), (''adapter'', ''a'')], sx_epoch = (\<lambda>t. t), sx_artifacts = None\<rparr>"

lemma senv_simps [simp]:
  "ce_sha senv = (#) CHR ''#''" "ce_hmac senv = (\<lambda>_ _. ''tag'')" "ce_iso senv = show_int" "ce_read senv = read_int"
  "kx_structural senv = (\<lambda>k d. if jat d [''spec'', ''effect''] = JStr ''deny'' \<and> k \<noteq> ''PolicyDecision'' then [''effect''] else [])"
  "kx_authority_errors senv = (\<lambda>d. if jat d [''spec'', ''effect''] = JStr ''deny'' then [''effect''] else [])" "sx_store_id senv = ''store''" "sx_key senv = ''key''" "sx_key_id senv = ''k1''"
  "sx_capabilities senv = [(''policy'', 0), (''broker'', 1), (''runtime'', 2), (''adapter'', 3)]" "sx_epoch senv = (\<lambda>t. t)"
  by (simp_all add: senv_def)

lemma senv_sound: "sound_env senv"
proof -
  have "jat d [''kind''] = JStr ''PolicyDecision''"
    if d: "validate_runtime_record senv d = Inr ()" "jat d [''spec'', ''effect''] = JStr ''deny''" for d
  proof -
    from d(1) obtain m k where m: "d = JObj m" "jget m ''kind'' = JStr k"
      by (auto simp: validate_runtime_record_def contract_errors_def split: json.splits if_splits)
    with d have "k = ''PolicyDecision''"
      by (auto simp: validate_runtime_record_def contract_errors_def split: if_splits)
    with m show ?thesis by simp
  qed
  then show ?thesis by (auto simp: sound_env_def inj_def)
qed

lemma senv_valid:
  "jget m ''kind'' = JStr k \<Longrightarrow> k \<in> RUNTIME_KINDS - AUTHORITY_KINDS - {''PlatformBackendConformanceProfile''}
     \<Longrightarrow> jat (JObj m) [''spec'', ''effect''] \<noteq> JStr ''deny'' \<Longrightarrow> validate_runtime_record senv (JObj m) = Inr ()"
  by (simp add: validate_runtime_record_def contract_errors_def)

section \<open>The store\<close>

definition demo_limits :: budget_limits where
  "demo_limits = \<lparr>maxDurationSeconds = 30, maxToolRequests = 2, maxInputBytes = 100, maxOutputBytes = 10, maxModelRequests = 2,
     maxTotalTokens = 10, maxCostMicrousd = 5\<rparr>"

definition demo_budget :: budget_row where
  "demo_budget = \<lparr>bu_plan_digest = ''plan'', bu_limits = demo_limits, bu_deadline_at = show_int 100, bu_deadline_us = 100, bu_tool_requests = 1,
     bu_input_bytes = 20, bu_reserved_input = 30, bu_output_bytes = 0, bu_model_requests = 1, bu_total_tokens = 0, bu_cost = 0, bu_updated_at = show_int 0\<rparr>"

definition demo_read :: operation_row where
  "demo_read = \<lparr>or_run_id = ''run'', or_idempotency = ''key'', or_intent_digest = ''intent'', or_request_digest = ''request'',
     or_decision_digest = ''decision'', or_state = ReadPrepared, or_owner = Some ''owner'', or_epoch = 1, or_token = Some ''token'',
     or_until_us = Some 50, or_receipt = None, or_artifact = None, or_error = None, or_outcome = None, or_created_at = show_int 0,
     or_updated_at = show_int 0\<rparr>"

definition demo_reservation :: reservation_row where
  "demo_reservation = \<lparr>rs_run_id = ''run'', rs_plan_digest = ''plan'', rs_reserved = 30, rs_actual = None, rs_state = Reserved,
     rs_created_at = show_int 0, rs_updated_at = show_int 0\<rparr>"

definition demo_call :: model_row where
  "demo_call = \<lparr>mo_run_id = ''run'', mo_idempotency = ''key'', mo_request_digest = ''request'', mo_plan_digest = ''plan'', mo_endpoint_digest = ''endpoint'',
     mo_input_digest = ''input'', mo_decision_digest = ''decision'', mo_state = ModelPrepared, mo_started_at = None, mo_resume_decision = None,
     mo_final_decision = None, mo_result_digest = None, mo_output_digest = None, mo_error_digest = None, mo_created_at = show_int 0,
     mo_updated_at = show_int 0\<rparr>"

definition demo_charge :: charge_row where
  "demo_charge = \<lparr>ch_run_id = ''run'', ch_plan_digest = ''plan'', ch_output_bytes = 4, ch_total_tokens = 6, ch_cost = 2, ch_actual_output = None,
     ch_actual_tokens = None, ch_charged_tokens = None, ch_charged_cost = None, ch_state = ChargeReserved, ch_created_at = show_int 0,
     ch_updated_at = show_int 0\<rparr>"

definition demo_running :: run_entry where
  "demo_running = \<lparr>ru_request_digest = ''req'', ru_state = RUNNING, ru_plan_id = Some ''plan'', ru_plan_digest = Some ''plan'', ru_next = 1,
     ru_head = None, ru_started_at = show_int 0, ru_deadline_at = Some (show_int 100), ru_deadline_us = Some 100, ru_terminal_at = None,
     ru_updated_at = show_int 0, ru_version = 1\<rparr>"

definition demo_decision :: json where
  "demo_decision = JObj [(''kind'', JStr ''PolicyDecision''), (''metadata'', JObj [(''id'', JStr ''dec''), (''runId'', JStr ''run''),
     (''createdAt'', JStr (show_int 0))])]"

definition demo_spent :: decision_row where
  "demo_spent = \<lparr>dr_run_id = ''run'', dr_digest = digest_of senv demo_decision, dr_subject_digest = ''request'', dr_effect = ''allow'',
     dr_expires_at = show_int 100, dr_expires_us = 100, dr_consumed_at = Some (show_int 0), dr_consumed_nonce = Some ''nonce''\<rparr>"

definition demo_ledger :: rstore where
  "demo_ledger = empty_store\<lparr>t_decisions := [(''dec'', demo_spent)],
     t_nonces := [(''nonce'', \<lparr>nr_run_id = ''run'', nr_subject_digest = ''request'', nr_result_digest = None, nr_created_at = show_int 0\<rparr>)],
     t_runs := [(''run'', demo_running)], t_budgets := [(''run'', demo_budget)], t_operations := [(''op'', demo_read)],
     t_reservations := [(''op'', demo_reservation)], t_models := [(''call'', demo_call)], t_charges := [(''call'', demo_charge)]\<rparr>"

lemmas demo_rows = demo_limits_def demo_budget_def demo_read_def demo_reservation_def demo_call_def demo_charge_def demo_running_def demo_spent_def

lemma demo_ledger_ok: "accounts_ok (accounts demo_ledger)"
  by (simp add: accounts_ok_def accounts_def demo_ledger_def empty_store_def keys_ok_def pairs_ok_def reads_ok_def calls_ok_def budgets_ok_def
      meters_agree_def within_limits_def sums_def demo_rows read_pair_def call_pair_def dict_keys_def)

definition demo_started_call :: model_row where
  "demo_started_call = demo_call\<lparr>mo_state := ModelStarted, mo_started_at := Some (show_int 10), mo_updated_at := show_int 10\<rparr>"

definition demo_started :: rstore where
  "demo_started = snd (projr (start_model_invocation senv ''tx'' ''call'' 10 3 demo_ledger))"

lemmas demo_eval = start_model_invocation_def cross_fence_def write_model_def require_adapter_def capability_wrong_def
  require_live_run_def store_time_def find_run_def model_operation_status_def record_revision_def authority_row_def append_audit_def
  bindT_def liftT_def returnT_def readT_def writeT_def refuseT_def neededT_def Let_def

lemma demo_call_started: "start_model_invocation senv ''tx'' ''call'' 10 3 demo_ledger = Inr ((demo_started_call, False), demo_started)"
  by (simp add: demo_started_def demo_eval demo_ledger_def empty_store_def demo_call_def demo_running_def demo_started_call_def)

lemma demo_step: "(store_step senv)\<^sup>*\<^sup>* demo_ledger demo_started"
  using step_start_call [OF demo_call_started] by blast

lemma demo_started_rows:
  "t_budgets demo_started = [(''run'', demo_budget)]" "t_operations demo_started = [(''op'', demo_read)]"
  "t_reservations demo_started = [(''op'', demo_reservation)]" "t_models demo_started = [(''call'', demo_started_call)]"
  "t_charges demo_started = [(''call'', demo_charge)]" "t_decisions demo_started = [(''dec'', demo_spent)]" "t_nonces demo_started = t_nonces demo_ledger"
  by (simp_all add: demo_started_def demo_eval demo_ledger_def empty_store_def demo_call_def demo_running_def demo_started_call_def dict_set_def)

lemma demo_started_ok: "accounts_ok (accounts demo_started)"
  using books.steps_inv [OF demo_step demo_ledger_ok] .

text \<open>A store with one record, made by a method from an empty one.\<close>

definition demo_recorded :: rstore where
  "demo_recorded = snd (projr (put_record senv ''tx'' demo_profile empty_store))"

lemma demo_profile_facts:
  "validate_runtime_record senv demo_profile = Inr ()" "jat demo_profile [''kind''] = JStr ''AdapterConformanceProfile''"
  "record_identity demo_profile = Inr (''obs'', jat demo_profile [''metadata'', ''runId''], show_int 0)"
proof -
  show "validate_runtime_record senv demo_profile = Inr ()"
    unfolding demo_profile_def by (rule senv_valid, simp add: jget_Cons, rule demo_kinds, simp add: jget_Cons jget_def)
qed (simp_all add: demo_profile_def record_identity_def record_created_def dict_keys_def jget_Cons)

lemma demo_put:
  "put_record senv ''tx'' demo_profile empty_store = Inr (digest_of senv demo_profile, demo_recorded)" "map fst (t_records demo_recorded) = [''obs'']"
  by (simp_all add: demo_recorded_def put_record_def record_if_new_def insert_record_def append_audit_def stored_valid_def demo_profile_facts
      AUTHORITY_MANAGED_KINDS_def SAFE_JOURNAL_KINDS_def bindT_def liftT_def returnT_def refuseT_def Let_def empty_store_def)

text \<open>The same store after the adapter of its run has failed.\<close>

definition down_projection :: projection where
  "down_projection = initial\<lparr>state := RUNNING, adapter_failed := True\<rparr>"

definition demo_down :: rstore where
  "demo_down = demo_started\<lparr>t_baselines := [(''run'', fresh_baseline senv down_projection (show_int 0) True ''native-v1'')]\<rparr>"

lemma demo_is_down: "adapter_is_down senv ''run'' demo_down"
proof -
  have "projection_from_payload (projection_payload down_projection) = Inr down_projection"
    by (simp add: projection_from_payload_def projection_payload_def down_projection_def run_states_def initial_def jget_Cons json_eq_def)
  moreover have "t_events demo_down = []"
    by (simp add: demo_down_def demo_started_def demo_eval demo_ledger_def empty_store_def demo_call_def demo_running_def)
  ultimately show ?thesis
    by (simp add: adapter_is_down_def replay_projection_def events_recorded_def joined_events_def demo_down_def fresh_baseline_def store_time_def
        down_projection_def)
qed

text \<open>The same environment with an artifact store that accepts every proof, and a result that uses all that was reserved.\<close>

definition fenv :: store_env where
  "fenv = senv\<lparr>sx_artifacts := Some (\<lambda>_. Inr ())\<rparr>"

definition full_result :: json where
  "full_result = JObj [(''spec'', JObj [(''output'', JObj [(''byteLength'', JInt 4)]), (''usage'', JObj [(''totalTokens'', JInt 6)])])]"

section \<open>The claims, applied\<close>

theorem reachable_store_verifies_witness:
  "sound_env senv \<and> (store_step senv)\<^sup>*\<^sup>* empty_store demo_recorded \<and> map fst (t_records demo_recorded) = [''obs'']
    \<and> verify_journal senv demo_recorded = Inr ()"
proof -
  have st: "(store_step senv)\<^sup>*\<^sup>* empty_store demo_recorded" using step_put [OF demo_put(1)] by blast
  show ?thesis using reachable_store_verifies [OF senv_sound st] senv_sound st demo_put(2) by blast
qed

theorem journal_append_only_witness:
  "prefix (t_audit demo_ledger) (t_audit demo_started) \<and> prefix (t_revisions demo_ledger) (t_revisions demo_started)
    \<and> rows_kept decision_kept (t_decisions demo_ledger) (t_decisions demo_started)"
  using journal_append_only [OF demo_step] by blast

theorem store_decision_single_use_witness:
  "consume_decision_tx senv ''tx'' demo_decision ''request'' ''nonce'' 5 demo_started = Inr (False, demo_started) \<and> dr_consumed_nonce demo_spent = Some ''nonce''"
proof
  have i: "the_str (jat demo_decision [''metadata'', ''id'']) = ''dec''" "the_str (jat demo_decision [''metadata'', ''runId'']) = ''run''"
    by (simp_all add: demo_decision_def jget_Cons)
  show c: "consume_decision_tx senv ''tx'' demo_decision ''request'' ''nonce'' 5 demo_started = Inr (False, demo_started)"
    by (simp add: consume_decision_tx_def i demo_started_rows demo_ledger_def demo_spent_def)
  have "map_of (t_decisions demo_ledger) (the_str (jat demo_decision [''metadata'', ''id''])) = Some demo_spent" "dr_consumed_at demo_spent \<noteq> None"
    by (simp_all add: i demo_ledger_def demo_spent_def)
  from store_decision_single_use [OF this demo_step c] show "dr_consumed_nonce demo_spent = Some ''nonce''" by simp
qed

theorem store_refines_accounts_witness:
  "account_move (accounts demo_ledger) (accounts demo_started) \<and> accounts demo_started \<noteq> accounts demo_ledger"
  using store_refines_accounts [OF step_start_call [OF demo_call_started]]
  by (simp add: accounts_def demo_started_rows demo_ledger_def empty_store_def demo_started_call_def demo_call_def)

theorem store_budget_bounds_witness:
  "map_of (t_budgets demo_started) ''run'' = Some demo_budget \<and> meters_agree ''run'' demo_budget (t_reservations demo_started) (t_charges demo_started)
    \<and> bu_output_bytes demo_budget + owed ch_output_bytes ''run'' (t_charges demo_started) \<le> maxOutputBytes (bu_limits demo_budget)"
proof -
  have b: "map_of (t_budgets demo_started) ''run'' = Some demo_budget" by (simp add: demo_started_rows)
  from store_budget_bounds [OF demo_ledger_ok demo_step b] b show ?thesis by blast
qed

theorem store_tables_well_formed_witness:
  "map_of (t_operations demo_started) ''op'' = Some demo_read \<and> map_of (t_models demo_started) ''call'' = Some demo_started_call
    \<and> (\<exists>v. map_of (t_reservations demo_started) ''op'' = Some v \<and> read_pair demo_read v)
    \<and> (\<exists>c. map_of (t_charges demo_started) ''call'' = Some c \<and> call_pair demo_started_call c)"
proof -
  have r: "map_of (t_operations demo_started) ''op'' = Some demo_read" "map_of (t_models demo_started) ''call'' = Some demo_started_call"
    by (simp_all add: demo_started_rows)
  with store_tables_well_formed [OF demo_ledger_ok demo_step] show ?thesis by blast
qed

theorem failed_adapter_strands_calls_witness:
  "isl (complete_model_invocation senv ''tx'' ''call'' JNull JNull JNull
      \<lparr>av_storage_ref = ''ref'', av_sha256 = ''sha'', av_byte_length = 0, av_key_id = ''key'', av_token = ''token''\<rparr> 20 3 demo_down) \<and> isl (finish_run senv ''tx'' ''run'' ''failed'' 20 2 demo_down)"
proof -
  have m: "map_of (t_models demo_down) ''call'' = Some demo_started_call" "mo_state demo_started_call = ModelStarted"
    "jat (JObj [(''metadata'', JObj [(''id'', JStr ''call'')])]) [''metadata'', ''id''] = JStr ''call''" "mo_run_id demo_started_call = ''run''"
    by (simp_all add: demo_down_def demo_started_rows demo_started_call_def demo_call_def jget_Cons)
  show ?thesis
    using failed_adapter_strands_calls [OF m(1,2) demo_is_down [folded m(4)] m(3)] unfolding m(4) by blast
qed

theorem settlement_always_funded_witness:
  "map_of (t_models demo_started) ''call'' = Some demo_started_call \<and> map_of (t_operations demo_started) ''op'' = Some demo_read
    \<and> fail_model_invocation fenv ''tx'' ''call'' JNull 20 3 demo_started \<noteq> Inl unfunded
    \<and> abort_expired_operation fenv ''tx'' ''op'' 60 1 (Some 1) demo_started \<noteq> Inl unfunded
    \<and> (\<forall>a d proof. complete_model_invocation fenv ''tx'' ''call'' full_result a d proof 20 3 demo_started \<noteq> Inl unfunded)"
proof -
  have "check_proof fenv a (Some p) \<noteq> Inl unfunded" for a p by (simp add: check_proof_def fenv_def)
  moreover have "the_int (jat full_result [''spec'', ''output'', ''byteLength'']) = 4" "the_int (jat full_result [''spec'', ''usage'', ''totalTokens'']) = 6"
    by (simp_all add: full_result_def jget_Cons)
  ultimately show ?thesis
    using settlement_always_funded [OF demo_started_ok rtranclp.rtrancl_refl [of "store_step fenv"]]
    by (fastforce simp: demo_started_rows demo_charge_def)
qed

theorem model_egress_at_most_once_witness:
  "fence_passed senv ''call'' demo_ledger demo_started \<and> map_of (t_models demo_started) ''call'' = Some demo_started_call
    \<and> (\<forall>v. \<not> fence_passed senv ''call'' demo_started v)"
proof -
  have f: "fence_passed senv ''call'' demo_ledger demo_started" using demo_call_started unfolding fence_passed_def by blast
  show ?thesis using f model_egress_at_most_once [OF f rtranclp.rtrancl_refl] by (auto simp: demo_started_rows)
qed

end
