(* ===== verification/Spec2Isabelle.thy ===== *)
theory Spec2Isabelle
  imports Eco_Run_Chain Eco_Budget Eco_Loop_Engine Eco_Route_Usage Eco_Team_Guarantees Eco_Team_Access
    Eco_Change_Guarantees Eco_Policy_Witness Eco_Store_Witness
begin

text \<open>
  Verification of the governed runtime of the ecosystem repository (\<open>src/src/eco_*\<close>).

  \<^bold>\<open>The program.\<close> A run of an agent is a sequence of typed events; a pure reducer folds them into a
  content-free projection, and an event chain links them by digest and checks who produced them
  (\<open>eco_runtime\<close>). Beside a run stands a budget ledger. A bounded loop engine drives an actor and an
  independent gate under hard limits over a checkpoint journal (\<open>eco_loops\<close>). Model calls are routed by
  a deterministic router over sealed records; an allowed decision is bound exactly to a workflow, spent
  once in a consumption journal and charged in a usage journal (\<open>eco_routing\<close>). A team of agents runs a
  graph of tasks through a coordinator that plans them inside the authority of a manifest, leases them to
  workers, fences each effect and seals a result (\<open>eco_teams\<close>). A team access policy narrows what an
  actor may ask for. Writes to a workspace pass an authority of their own: a registered proposal, a human
  approval signed for exactly that proposal, and an operation that moves through prepared, applied,
  committed or rolled back under a fenced lease and a lock on its target. A policy engine over a canonical
  bundle and signed evidence plans runs, authorizes single tool and model calls and issues decisions that
  are spent once; a budget ledger stands beside every plan it activates. What all of this leaves behind is kept
  by a durable store, one SQLite database of immutable records, an authenticated audit chain, runs with their
  events, plans, budgets, leased repository reads and fenced model calls, which verifies itself when it is opened.

  \<^bold>\<open>Theories.\<close>
  \<^item> \<open>Eco_Prelude\<close>: JSON values, errors and results, code with a world, dictionaries, the patterns of the
    contracts; the interfaces \<open>inv_system\<close> (invariants of reachable states), \<open>hash_log\<close> (a head digest
    determines the log), \<open>metered\<close> (admission within limits) and \<open>act_logic\<close> (code that keeps an
    invariant even when it raises), interpreted by the components.
  \<^item> \<open>Eco_Run_Reducer\<close>: \<open>eco_runtime/state_reducer.py\<close>. \<open>reduce_run_event\<close> with every branch and error
    code. Accepted events follow an abstract lifecycle, success needs completed evidence, terminal states
    absorb, a run can always be stopped, projections are canonical.
  \<^item> \<open>Eco_Run_Chain\<close>: \<open>RunEventChain\<close> of \<open>eco_runtime/state.py\<close>. The stored state is the replay of the
    events, every event is authentic, the head digest determines the events.
  \<^item> \<open>Eco_Budget\<close>: \<open>BudgetLedger\<close> of \<open>eco_runtime/budget.py\<close>. No meter passes its limit; reservations
    settle once; a refused usage changes nothing.
  \<^item> \<open>Eco_Loop_Contracts\<close>, \<open>Eco_Loop_Journal\<close>, \<open>Eco_Loop_Engine\<close>: \<open>eco_loops/contracts.py\<close> and
    \<open>eco_loops/engine.py\<close>. The two journals satisfy one interface (\<open>loop_journal\<close>), the SQLite journal
    refines the in-memory one (up to a checkpoint it commits before it refuses it), and every run of the engine ends within its budget on both.
  \<^item> \<open>Eco_Digests\<close>: \<open>eco_runtime/digests.py\<close>. Canonical JSON determines the value; identity digests bind
    deployments.
  \<^item> \<open>Eco_Route_Contracts\<close>, \<open>Eco_Router\<close>: \<open>eco_routing/contracts.py\<close> and \<open>router.py\<close>. The router selects the
    least admissible candidate, always decides, does not depend on the order of candidates, and never
    falls back to the deployment that failed.
  \<^item> \<open>Eco_Route_Binding\<close>, \<open>Eco_Route_Consumption\<close>, \<open>Eco_Route_Usage\<close>: \<open>binding.py\<close>, \<open>consumption.py\<close> and
    \<open>usage.py\<close>. Exact bindings are authenticated, a decision is consumed once, usage stays within the
    aggregate budget, both journals always verify and their heads bind their rows.
  \<^item> \<open>Eco_Team_Contracts\<close>, \<open>Eco_Team_Plan\<close>: \<open>eco_teams/contracts.py\<close> and the checks of \<open>create_run\<close> in
    \<open>eco_teams/runtime.py\<close>. Planned tasks only narrow authority; the recursive cycle check is exact.
  \<^item> \<open>Eco_Team_Store\<close>, \<open>Eco_Team_Runtime\<close>: the tables, the authenticated state and every operation of
    \<open>TeamCoordinator\<close>.
  \<^item> \<open>Eco_Team_Safety\<close>, \<open>Eco_Team_Guarantees\<close>: the lifecycle of task rows and the invariant that every operation
    keeps (interface \<open>act_logic\<close>); in every reachable state budgets hold, effects start once, route
    decisions are used by one task, leases are sound, failed effects are charged unless the clock
    runs backwards, and results are true.
  \<^item> \<open>Eco_Team_Access\<close>: \<open>eco_runtime/team_access.py\<close>. The evaluation of a raw request is exactly the policy's
    meaning: an allow needs an applicable allow statement and no applicable deny.
  \<^item> \<open>Eco_Approval\<close>: \<open>eco_runtime/approval.py\<close>. A signed approval verifies for its subject while it is valid
    and for nothing else.
  \<^item> \<open>Eco_Change_Store\<close>: \<open>SQLiteChangeAuthority\<close> of \<open>eco_runtime/change_store.py\<close>, its tables, operations and
    verification. \<open>Eco_Change_Safety\<close>, \<open>Eco_Change_Moves\<close>: the invariant and that every operation keeps it.
    \<open>Eco_Change_Guarantees\<close>: every operation rests on one human approval of its proposal, a target has one
    writer, budgets hold, superseded leases are fenced, and when the store fails its own verification.
  \<^item> \<open>Eco_Contracts\<close>: \<open>eco_runtime/contracts.py\<close> and the path and snapshot checks of \<open>repository.py\<close>. Records as raw
    JSON values. \<open>Eco_Evidence\<close>: \<open>eco_runtime/evidence.py\<close>, issuers, signer, trust store and ingestor; what is
    signed opens until it expires.
  \<^item> \<open>Eco_Policy\<close>, \<open>Eco_Policy_Run\<close>: \<open>PolicyEngine\<close> of \<open>eco_runtime/policy.py\<close>, every method. \<open>Eco_Policy_Safety\<close>: what
    every method keeps (interface \<open>act_logic\<close>). \<open>Eco_Policy_Guarantees\<close>: decisions are spent once, active plans are
    authorized and never replaced, planner and authorizers grant only what bundle and evidence support, and
    authority ends with its evidence. \<open>Eco_Policy_Demo\<close>, \<open>Eco_Policy_Witness\<close>: a concrete history.
  \<^item> \<open>Eco_Store\<close>, \<open>Eco_Store_Runs\<close>, \<open>Eco_Store_Reads\<close>, \<open>Eco_Store_Models\<close>: \<open>SQLiteRuntimeStore\<close> of \<open>eco_runtime/store.py\<close>, its
    tables and every method that changes the journal. \<open>Eco_Store_Logic\<close>: the step relation of its methods and what a
    method does once its checks have passed. \<open>Eco_Store_Journal\<close>: the interfaces \<open>tx_logic\<close> (a relation along the code of a
    transaction) and \<open>store_logic\<close> (a relation that single writes keep is kept by every method); the journal only grows.
    \<open>Eco_Store_Accounts\<close>, \<open>Eco_Store_Budgets\<close>, \<open>Eco_Store_Guarantees\<close>: methods refine an abstract accounts machine; budgets are
    the sums of their reservations and stay within their limits, a model request leaves the store at most once. \<open>Eco_Store_Funding\<close>: no settlement within its
    reservation is refused for lack of budget. \<open>Eco_Store_Verify\<close>, \<open>Eco_Store_Attest\<close>, \<open>Eco_Store_Sound\<close>, \<open>Eco_Store_Clean\<close>: the verifier of the journal,
    the inventories that every write keeps and the rows that a transaction has written and not attested yet; every store
    made by its methods verifies. \<open>Eco_Store_Stranded\<close>: a call that can no longer end. \<open>Eco_Store_Witness\<close>: concrete stores.
  \<^item> This theory: what the router allows, the binding accepts and the journal consumes.

  \<^bold>\<open>State and effects.\<close> A class is a record of its fields, a method a function from the record to the new
  one; a raise is \<open>Inl\<close> of the exception with its code. Where a raise does not undo earlier changes (the
  loop journals and engine) code is an \<open>act\<close> that returns the world in both cases. A method that runs
  under a lock or in one database transaction is one step; sequences of steps are the reachable states
  of a step relation. A database table is a map or the list of its rows in key order.

  \<^bold>\<open>Parameters.\<close> SHA-256, HMAC, JSON-schema validation, external verifiers, actors, gates, clocks and the
  text of instants are arguments; digest theorems say on which values a hash must not collide. Times are
  instants (microseconds since the epoch), so timezone checks have no counterpart. Integers are
  unbounded, as in Python.

  \<^bold>\<open>Bounds.\<close> The loop of the engine runs on fuel; \<open>max_attempts + 1\<close> is proved to be enough for every actor,
  gate, clock and signal. Every other definition is total.

  \<^bold>\<open>Not modelled.\<close> File locations and permissions, SQLite failures, subprocess isolation, HTTP adapters,
  the command line, the team identity, memory and evaluation packages, the generator of repository snapshots. Of the
  durable store: key rotation, migrations of old databases, backups, anchors, and the comparison of the tables with the
  records (\<open>_verify_authority_semantics\<close>). JSON schemas, \<open>json.loads\<close> and Unicode tables are
  parameters. The authority guard and execution authorizer of a team coordinator are parameters.
\<close>

section \<open>From the router to the consumption journal\<close>

lemma route_with_valid:
  assumes "route_with h k rt req cands observations a excluded = Inr out"
  shows "validate_request k req = Inr req \<and> validate_decision k (out_decision out) = Inr (out_decision out)
    \<and> dec_requestDigest (out_decision out) = recordDigest req
    \<and> dec_policyDigest (out_decision out) = recordDigest (router_policy rt)
    \<and> dec_executionPlanDigest (out_decision out) = req_executionPlanDigest req"
proof -
  have "validate_request k req = Inr req"
    using assms by (auto simp: route_with_def dest: validate_request_same)
  with assms show ?thesis
  proof (cases rule: route_with_cases)
    case (refused role reason)
    with outcome_valid [OF refused(3)] outcome_decision [OF refused(3)] \<open>validate_request k req = Inr req\<close>
    show ?thesis by simp
  next
    case (evaluated role obs sel)
    with outcome_valid [OF evaluated(6)] outcome_decision [OF evaluated(6)] \<open>validate_request k req = Inr req\<close>
    show ?thesis by simp
  qed
qed

text \<open>C20: what the router allows, the binding accepts and the journal spends once. An allowed decision of
  \<open>route\<close> passes \<open>verify_route_binding\<close> for the selected deployment at every later time before it
  expires, and a well-formed consumer can consume it on any open journal that verifies and has not seen
  it.\<close>

theorem routed_decision_consumable:
  assumes r: "route (sha env) k rt req cands observations now did eid = Inr out"
    and s: "selected (out_decision out) = Some s" and t: "now' < dec_validUntil (out_decision out)"
    and c: "slug_id (consumer_kind c)" "safe_identifier (consumer_id c)" "sha256_text (consumer_digest c)"
    and j: "cj_verify_locked env j = Inr summary" "\<not> cj_closed j"
      "find_consumed j (recordDigest (out_decision out)) = None"
    and cost: "0 \<le> reservedCostMicrousd s"
  shows "verify_route_binding k (out_decision out) req (route_only (out_decision out) req s) now'
       = Inr (out_decision out, req, s)
     \<and> (\<exists>receipt j'. consume env k (out_decision out) req (route_only (out_decision out) req s) c now' j
            = Inr (receipt, j') \<and> \<not> rc_replayed receipt
          \<and> find_consumed j' (recordDigest (out_decision out)) \<noteq> None)"
proof -
  let ?d = "out_decision out"
  let ?a = "\<lparr>decision_id = did, explain_id = eid, now_at = now, route_attempt = 1, fallback_from = None\<rparr>"
  from r have rw: "route_with (sha env) k rt req cands observations ?a {} = Inr out" by (simp add: route_def)
  note v = route_with_valid [OF rw]
  from route_with_selected [OF rw s] obtain role obs cand where
    p: "precondition_reason rt role req now = None"
    and adm: "admissible req role obs (price_map rt) now {} cand"
    and rec: "selected_record req (candidate_evaluation req role obs (price_map rt) now {} cand) = Inr s"
    and lim: "dec_validUntil ?d \<le> max (now + 1) (base_valid_until rt req now)" by auto
  have dl: "now < deadlineAt req" "req_policyDigest req = recordDigest (router_policy rt)"
    using p by (auto simp: precondition_reason_def split: if_splits)
  have dead: "now' < deadlineAt req" using lim t dl(1) by (auto simp: base_valid_until_def)
  have ev: "check_evidence_binding (route_only ?d req s) now' ?d req = Inr ()"
    using v dl(2) t dead
    by (auto simp: check_evidence_binding_def route_only_def differs_def split: option.splits)
  have max: "reservedCostMicrousd s \<le> maximumCostMicrousd req"
    using selected_record_fields [OF rec] adm by (auto simp: admissible_def)
  have agg: "aggregateReservation s = map_option (\<lambda>a. \<lparr>res_maximumCalls = maximumCalls a,
      res_inputTokenCeiling = agg_inputTokenCeiling a, res_outputTokenCeiling = agg_outputTokenCeiling a,
      res_reservedCostMicrousd = reservedCostMicrousd s\<rparr>) (aggregateBudget req)"
    using rec by (auto simp: selected_record_def split: option.splits json.splits)
  have rq: "req_executionPlanDigest req = None \<longleftrightarrow> aggregateBudget req = None"
    "\<And>b. aggregateBudget req = Some b \<Longrightarrow> agg_maximumCostMicrousd b = maximumCostMicrousd req"
    using validate_request_Inr [of k req req] v by auto
  have sel: "check_selection (route_only ?d req s) req s = Inr ()"
    using max agg rq by (cases "aggregateBudget req") (auto simp: check_selection_def route_only_def differs_def)
  have allowed: "decision ?d = ''allowed''"
    using validate_decision_Inr [of k ?d ?d] v s by auto
  have bind: "verify_route_binding k ?d req (route_only ?d req s) now' = Inr (?d, req, s)"
    using v s allowed ev sel
    by (simp add: verify_route_binding_def validated_evidence_def check_authority_arguments_def route_only_def)
  have "routeAttempt ?d = 1" using route_with_meta [OF rw] by simp
  then obtain receipt j' where "consume env k ?d req (route_only ?d req s) c now' j = Inr (receipt, j')"
    "\<not> rc_replayed receipt" "consumed_routes j' = consumed_routes j @ [new_row env summary ?d req s c now']"
    using bind c j cost by (simp add: consume_def cj_transaction_def check_predecessor_def insert_row_def)
  moreover from this(3) have "find_consumed j' (recordDigest ?d) \<noteq> None" by (simp add: find_consumed_None)
  ultimately show ?thesis using bind by blast
qed

theorem routed_decision_consumable_witness:
  "\<exists>out s receipt j'. route (sha demo_env) demo_contract demo_router demo_request (map demo_candidate [''a'', ''b''])
       (map demo_observation [''a'', ''b'']) 1000 ''first'' ''why'' = Inr out
     \<and> consume demo_env demo_contract (out_decision out) demo_request (route_only (out_decision out) demo_request s)
         demo_consumer 2000 (new_consumption_journal demo_env ''j'') = Inr (receipt, j') \<and> \<not> rc_replayed receipt"
proof -
  have "returns (route (sha demo_env) demo_contract demo_router demo_request (map demo_candidate [''a'', ''b''])
       (map demo_observation [''a'', ''b'']) 1000 ''first'' ''why'')
     (\<lambda>out. 2000 < dec_validUntil (out_decision out)
        \<and> (case selected (out_decision out) of None \<Rightarrow> False | Some s \<Rightarrow> 0 \<le> reservedCostMicrousd s))"
    by code_simp
  then obtain out s where o: "route (sha demo_env) demo_contract demo_router demo_request
      (map demo_candidate [''a'', ''b'']) (map demo_observation [''a'', ''b'']) 1000 ''first'' ''why'' = Inr out"
    "2000 < dec_validUntil (out_decision out)" "selected (out_decision out) = Some s" "0 \<le> reservedCostMicrousd s"
    by (elim returnsE) (auto split: option.splits)
  have c: "slug_id (consumer_kind demo_consumer)" "safe_identifier (consumer_id demo_consumer)"
    "sha256_text (consumer_digest demo_consumer)" by code_simp+
  have j: "\<not> cj_closed (new_consumption_journal demo_env ''j'')"
    "find_consumed (new_consumption_journal demo_env ''j'') d = None" for d
    by (simp_all add: new_consumption_journal_def find_consumed_def)
  from routed_decision_consumable [OF o(1,3,2) c new_journal_verifies j o(4)] o(1) show ?thesis by blast
qed

end
